(* ===== verification/Prelude.thy ===== *)
theory Prelude
  imports Complex_Main "HOL-Library.Word"
begin

text \<open>
  Shared vocabulary of the development: the C integer types as words, the GLib
  containers the library uses (GSList, GHashTable, GArray, GVariant) as lists and
  datatypes, the named collections of rewrite rules, and the generic lemmas on lists
  and words that the component theories share.
\<close>

unbundle bit_operations_syntax

named_theorems inst_simps \<open>unfolding rules for operations on one decoder instance\<close>
named_theorems frame_simps \<open>fields an operation leaves alone\<close>

type_synonym u8 = "8 word"
type_synonym u16 = "16 word"
type_synonym u32 = "32 word"
type_synonym u64 = "64 word"

section \<open>GLib containers\<close>

text \<open>
  GSList: a NULL list is the empty list. \<open>g_slist_nth\<close> takes a guint, so a negative
  index from C is a huge one and yields NULL.
\<close>

definition g_slist_nth :: "'a list \<Rightarrow> int \<Rightarrow> 'a option" where
  "g_slist_nth xs n = (if 0 \<le> n \<and> nat n < length xs then Some (xs ! nat n) else None)"

lemma g_slist_nth_Some_iff:
  "g_slist_nth xs n = Some x \<longleftrightarrow> 0 \<le> n \<and> nat n < length xs \<and> xs ! nat n = x"
  by (auto simp: g_slist_nth_def)

lemma g_slist_nth_append_new [simp]: "g_slist_nth (xs @ [x]) (int (length xs)) = Some x"
  by (simp add: g_slist_nth_def)

lemma g_slist_nth_in_set: "g_slist_nth xs n = Some x \<Longrightarrow> x \<in> set xs"
  by (auto simp: g_slist_nth_Some_iff)

text \<open>GHashTable with string keys: an association list in iteration order, keys distinct.\<close>

type_synonym 'v ghash = "(string \<times> 'v) list"

fun g_hash_table_insert :: "string \<Rightarrow> 'v \<Rightarrow> 'v ghash \<Rightarrow> 'v ghash" where
  "g_hash_table_insert k v [] = [(k, v)]"
| "g_hash_table_insert k v ((k', v') # t) =
     (if k = k' then (k, v) # t else (k', v') # g_hash_table_insert k v t)"

definition g_hash_table_lookup :: "'v ghash \<Rightarrow> string \<Rightarrow> 'v option" where
  "g_hash_table_lookup t k = map_of t k"

definition g_hash_table_remove :: "string \<Rightarrow> 'v ghash \<Rightarrow> 'v ghash" where
  "g_hash_table_remove k t = filter (\<lambda>(k', v). k' \<noteq> k) t"

lemma lookup_insert:
  "g_hash_table_lookup (g_hash_table_insert k v t) k' =
     (if k' = k then Some v else g_hash_table_lookup t k')"
  by (induction k v t rule: g_hash_table_insert.induct) (auto simp: g_hash_table_lookup_def)

lemma lookup_remove:
  "g_hash_table_lookup (g_hash_table_remove k t) k' =
     (if k' = k then None else g_hash_table_lookup t k')"
  by (induction t) (auto simp: g_hash_table_lookup_def g_hash_table_remove_def)

text \<open>GVariant: the types the library passes as options, channel numbers and metadata.\<close>

datatype gvariant =
    GV_int32 int
  | GV_uint32 int
  | GV_int64 int
  | GV_uint64 u64
  | GV_double real
  | GV_string string

text \<open>
  Reading a C array of bytes. Out of range the C code has undefined behaviour; the model
  returns 0 there, and the component theories prove that the indices stay in range.
\<close>

definition c_array_at :: "u8 list \<Rightarrow> nat \<Rightarrow> u8" where
  "c_array_at xs i = (if i < length xs then xs ! i else 0)"

text \<open>A loop \<open>for (i = 0; i < n; i++) a[i] = f(i, a[i])\<close> over an array.\<close>

definition update_range :: "nat \<Rightarrow> (nat \<Rightarrow> 'a \<Rightarrow> 'a) \<Rightarrow> 'a list \<Rightarrow> 'a list" where
  "update_range n f xs = map (\<lambda>i. if i < n then f i (xs ! i) else xs ! i) [0..<length xs]"

lemma length_update_range [simp]: "length (update_range n f xs) = length xs"
  by (simp add: update_range_def)

lemma nth_update_range [simp]:
  "i < length xs \<Longrightarrow> update_range n f xs ! i = (if i < n then f i (xs ! i) else xs ! i)"
  by (simp add: update_range_def)

section \<open>Words\<close>

lemma unat_Suc_less:
  fixes a b :: "'a::len word"
  assumes "a < b"
  shows "unat (a + 1) = Suc (unat a)"
proof -
  have "unat a < unat b" using assms by (simp add: word_less_nat_alt)
  moreover have "unat b < 2 ^ LENGTH('a)" by simp
  ultimately have "Suc (unat a) < 2 ^ LENGTH('a)" by linarith
  then show ?thesis by (simp add: unat_word_ariths)
qed

lemma unat_diff_le:
  fixes a b :: "'a::len word"
  assumes "b \<le> a"
  shows "unat (a - b) = unat a - unat b"
  using assms by (simp add: unat_sub)

lemma word_or_eq_0_iff:
  fixes a b :: "'a::len word"
  shows "a OR b = 0 \<longleftrightarrow> a = 0 \<and> b = 0"
proof
  assume z: "a OR b = 0"
  have "a = 0"
  proof (rule bit_eqI)
    fix n
    have "bit (a OR b) n = bit (0 :: 'a word) n" using z by simp
    then show "bit a n = bit (0 :: 'a word) n" by (auto simp: bit_or_iff)
  qed
  moreover have "b = 0"
  proof (rule bit_eqI)
    fix n
    have "bit (a OR b) n = bit (0 :: 'a word) n" using z by simp
    then show "bit b n = bit (0 :: 'a word) n" by (auto simp: bit_or_iff)
  qed
  ultimately show "a = 0 \<and> b = 0" ..
qed simp

lemma of_bool_bit_cases: "(if b then 1 else 0 :: u8) = 0 \<or> (if b then 1 else 0 :: u8) = 1"
  by simp

end
