(* ===== verification/ErrorCodes.thy ===== *)
theory ErrorCodes
  imports Prelude
begin

text \<open>
  \<^verbatim>\<open>enum srd_error_code\<close> of libsigrokdecode.h and error.c: the two string
  functions on error codes and the thread-local last-error slot.
\<close>

section \<open>Error codes\<close>

datatype srd_error_code =
    SRD_OK
  | SRD_ERR
  | SRD_ERR_MALLOC
  | SRD_ERR_ARG
  | SRD_ERR_BUG
  | SRD_ERR_PYTHON
  | SRD_ERR_DECODERS_DIR
  | SRD_ERR_TERM_REQ

fun error_code_value :: "srd_error_code \<Rightarrow> int" where
  "error_code_value SRD_OK = 0"
| "error_code_value SRD_ERR = -1"
| "error_code_value SRD_ERR_MALLOC = -2"
| "error_code_value SRD_ERR_ARG = -3"
| "error_code_value SRD_ERR_BUG = -4"
| "error_code_value SRD_ERR_PYTHON = -5"
| "error_code_value SRD_ERR_DECODERS_DIR = -6"
| "error_code_value SRD_ERR_TERM_REQ = -7"

lemma error_code_value_inj: "error_code_value a = error_code_value b \<longleftrightarrow> a = b"
  by (cases a; cases b) simp_all

lemma error_code_negative: "error_code_value c < 0 \<longleftrightarrow> c \<noteq> SRD_OK"
  by (cases c) simp_all

definition srd_strerror :: "int \<Rightarrow> string" where
  "srd_strerror error_code =
     (if error_code = error_code_value SRD_OK then ''no error''
      else if error_code = error_code_value SRD_ERR then ''generic/unspecified error''
      else if error_code = error_code_value SRD_ERR_MALLOC then ''memory allocation error''
      else if error_code = error_code_value SRD_ERR_ARG then ''invalid argument''
      else if error_code = error_code_value SRD_ERR_BUG then ''internal error''
      else if error_code = error_code_value SRD_ERR_PYTHON then ''Python API error''
      else if error_code = error_code_value SRD_ERR_DECODERS_DIR
        then ''decoders directory access error''
      else ''unknown error'')"

definition srd_strerror_name :: "int \<Rightarrow> string" where
  "srd_strerror_name error_code =
     (if error_code = error_code_value SRD_OK then ''SRD_OK''
      else if error_code = error_code_value SRD_ERR then ''SRD_ERR''
      else if error_code = error_code_value SRD_ERR_MALLOC then ''SRD_ERR_MALLOC''
      else if error_code = error_code_value SRD_ERR_ARG then ''SRD_ERR_ARG''
      else if error_code = error_code_value SRD_ERR_BUG then ''SRD_ERR_BUG''
      else if error_code = error_code_value SRD_ERR_PYTHON then ''SRD_ERR_PYTHON''
      else if error_code = error_code_value SRD_ERR_DECODERS_DIR then ''SRD_ERR_DECODERS_DIR''
      else ''unknown error code'')"

text \<open>
  Every defined code but \<open>SRD_ERR_TERM_REQ\<close> has a message of its own: the two
  functions tell the other seven apart, and report -7 as unknown.
\<close>

lemma strerror_name_inj:
  assumes "a \<noteq> SRD_ERR_TERM_REQ" and "b \<noteq> SRD_ERR_TERM_REQ"
    and "srd_strerror_name (error_code_value a) = srd_strerror_name (error_code_value b)"
  shows "a = b"
  using assms by (cases a; cases b) (simp_all add: srd_strerror_name_def)

lemma strerror_inj:
  assumes "a \<noteq> SRD_ERR_TERM_REQ" and "b \<noteq> SRD_ERR_TERM_REQ"
    and "srd_strerror (error_code_value a) = srd_strerror (error_code_value b)"
  shows "a = b"
  using assms by (cases a; cases b) (simp_all add: srd_strerror_def)

section \<open>The thread-local last error\<close>

text \<open>
  One thread's view: the GPrivate slot (an address or NULL), the live heap blocks with
  their strings, the next fresh address, and whether a block was freed that was not live.
\<close>

record tls_state =
  last_error_key :: "nat option"
  live :: "(nat \<times> string) list"
  next_addr :: nat
  double_free :: bool

definition g_free :: "nat option \<Rightarrow> tls_state \<Rightarrow> tls_state" where
  "g_free p s = (case p of None \<Rightarrow> s
     | Some a \<Rightarrow> (if map_of (live s) a = None then s\<lparr>double_free := True\<rparr>
                  else s\<lparr>live := filter (\<lambda>(b, _). b \<noteq> a) (live s)\<rparr>))"

definition g_strdup_opt :: "string option \<Rightarrow> tls_state \<Rightarrow> nat option \<times> tls_state" where
  "g_strdup_opt msg s = (case msg of None \<Rightarrow> (None, s)
     | Some m \<Rightarrow> (Some (next_addr s),
         s\<lparr>live := (next_addr s, m) # live s, next_addr := Suc (next_addr s)\<rparr>))"

text \<open>
  \<open>g_private_replace\<close> belongs to GLib and is a parameter of the model. Its documented
  behaviour: store the new value, and if the previous value was not NULL, run the slot's
  destroy function on it, which \<^verbatim>\<open>G_PRIVATE_INIT(g_free)\<close> sets to \<open>g_free\<close>.
\<close>

type_synonym replace_fn = "nat option \<Rightarrow> tls_state \<Rightarrow> tls_state"

definition documented_replace :: "replace_fn \<Rightarrow> bool" where
  "documented_replace rep \<longleftrightarrow>
     (\<forall>v s. rep v s = (g_free (last_error_key s) s)\<lparr>last_error_key := v\<rparr>)"

definition srd_set_last_error :: "replace_fn \<Rightarrow> string option \<Rightarrow> tls_state \<Rightarrow> tls_state" where
  "srd_set_last_error g_private_replace msg s =
     (let old = last_error_key s;
          s1 = g_free old s;
          (v, s2) = g_strdup_opt msg s1
      in g_private_replace v s2)"

definition srd_set_last_error_take :: "replace_fn \<Rightarrow> nat option \<Rightarrow> tls_state \<Rightarrow> tls_state" where
  "srd_set_last_error_take g_private_replace msg s =
     (let old = last_error_key s in g_private_replace msg (g_free old s))"

definition srd_get_last_error :: "tls_state \<Rightarrow> nat option" where
  "srd_get_last_error s = last_error_key s"

definition srd_clear_last_error :: "replace_fn \<Rightarrow> tls_state \<Rightarrow> tls_state" where
  "srd_clear_last_error g_private_replace s =
     (let old = last_error_key s
      in if old \<noteq> None then g_private_replace None (g_free old s) else s)"

text \<open>The slot is well formed when it is empty or holds a live block below \<open>next_addr\<close>.\<close>

definition tls_ok :: "tls_state \<Rightarrow> bool" where
  "tls_ok s \<longleftrightarrow> (\<forall>(a, m) \<in> set (live s). a < next_addr s)
     \<and> (case last_error_key s of None \<Rightarrow> True | Some a \<Rightarrow> map_of (live s) a \<noteq> None)"

lemma g_free_frame [simp]:
  "last_error_key (g_free p s) = last_error_key s"
  "next_addr (g_free p s) = next_addr s"
  by (simp_all add: g_free_def split: option.splits)

lemma map_of_filter_neq: "map_of (filter (\<lambda>(b, _). b \<noteq> a) xs) a = None"
  by (induction xs) auto

lemma g_free_freed: "map_of (live (g_free (Some a) s)) a = None"
  by (auto simp: g_free_def map_of_filter_neq)

lemma g_free_again: "double_free (g_free (Some a) (g_free (Some a) s))"
  by (simp add: g_free_def map_of_filter_neq)

lemma double_free_mono: "double_free s \<Longrightarrow> double_free (g_free p s)"
  by (simp add: g_free_def split: option.splits)

lemma double_free_update [simp]: "double_free (s\<lparr>last_error_key := v\<rparr>) = double_free s"
  by simp

text \<open>Setting an error on an empty slot stores a live copy and frees nothing twice.\<close>

lemma set_last_error_first:
  assumes "documented_replace rep" and "last_error_key s = None" and "\<not> double_free s"
  shows "\<not> double_free (srd_set_last_error rep (Some m) s)
     \<and> (case srd_get_last_error (srd_set_last_error rep (Some m) s) of None \<Rightarrow> False
        | Some a \<Rightarrow> map_of (live (srd_set_last_error rep (Some m) s)) a = Some m)"
  using assms
  by (simp add: srd_set_last_error_def documented_replace_def g_strdup_opt_def g_free_def
      srd_get_last_error_def)

text \<open>
  On an occupied slot the old message is freed by the function itself and once more by
  the slot's destroy function, whatever is stored next.
\<close>

lemma set_last_error_occupied:
  assumes rep: "documented_replace rep" and old: "last_error_key s = Some a"
    and fresh: "a \<noteq> next_addr s"
  shows "double_free (srd_set_last_error rep msg s)"
proof -
  have freed: "map_of (live (g_free (Some a) s)) a = None" by (rule g_free_freed)
  obtain v s2 where dup: "g_strdup_opt msg (g_free (Some a) s) = (v, s2)" by fastforce
  then have k: "last_error_key s2 = Some a" and "map_of (live s2) a = None"
    using old freed fresh by (auto simp: g_strdup_opt_def split: option.splits)
  then have "double_free (g_free (Some a) s2)" by (simp add: g_free_def)
  then show ?thesis
    using rep old dup k by (simp add: srd_set_last_error_def documented_replace_def)
qed

lemma set_last_error_take_occupied:
  assumes rep: "documented_replace rep" and old: "last_error_key s = Some a"
  shows "double_free (srd_set_last_error_take rep msg s)"
  using rep old g_free_again [of a s]
  by (simp add: srd_set_last_error_take_def documented_replace_def Let_def)

lemma clear_last_error_occupied:
  assumes rep: "documented_replace rep" and old: "last_error_key s = Some a"
  shows "double_free (srd_clear_last_error rep s)"
  using rep old g_free_again [of a s]
  by (simp add: srd_clear_last_error_def documented_replace_def Let_def)

end
