(* ===== verification/DecTypes.thy ===== *)
theory DecTypes
  imports ErrorCodes
begin

text \<open>
  The data of libsigrokdecode.h and libsigrokdecode-internal.h: wait terms, decoder
  descriptions, instances, sessions, outputs, the annotation batch, and the library's
  global state. A C pointer that may be NULL is an option. Pointers to instances and
  sessions are addresses (\<open>nat\<close>) into the two maps of the global state; pointers to
  immutable data (a registered decoder) are the data itself.
\<close>

section \<open>Outputs and wait terms\<close>

datatype srd_output_type =
    SRD_OUTPUT_ANN
  | SRD_OUTPUT_PROTO
  | SRD_OUTPUT_BINARY
  | SRD_OUTPUT_META
  | SRD_OUTPUT_LOGIC
  | SRD_OUTPUT_ANALOG
  | SRD_OUTPUT_OTHER int

datatype srd_term_type =
    SRD_TERM_HIGH
  | SRD_TERM_LOW
  | SRD_TERM_RISING_EDGE
  | SRD_TERM_FALLING_EDGE
  | SRD_TERM_EITHER_EDGE
  | SRD_TERM_NO_EDGE
  | SRD_TERM_SKIP
  | SRD_TERM_UNKNOWN int

text \<open>The enum values, for the places where the code stores a term type as an \<open>int\<close>.\<close>

definition srd_term_type_of :: "int \<Rightarrow> srd_term_type" where
  "srd_term_type_of n =
     (if n = 0 then SRD_TERM_HIGH else if n = 1 then SRD_TERM_LOW
      else if n = 2 then SRD_TERM_RISING_EDGE else if n = 3 then SRD_TERM_FALLING_EDGE
      else if n = 4 then SRD_TERM_EITHER_EDGE else if n = 5 then SRD_TERM_NO_EDGE
      else if n = 6 then SRD_TERM_SKIP else SRD_TERM_UNKNOWN n)"

record srd_term =
  t_type :: srd_term_type
  t_channel :: int
  num_samples_to_skip :: u64
  num_samples_already_skipped :: u64

text \<open>\<^verbatim>\<open>c_field\<close>: a tagged argument of \<^verbatim>\<open>c_proto()\<close>; a C double is a real.\<close>

datatype c_field =
    C_U8 u8 | C_U16 u16 | C_U32 u32 | C_U64 u64
  | C_I8 "8 word" | C_I16 "16 word" | C_I32 "32 word" | C_I64 "64 word"
  | C_F64 real | C_STR string | C_BYTES "u8 list"
  | C_FIELD_SENTINEL

section \<open>Decoder descriptions\<close>

record srd_channel =
  ch_id :: "string option"
  ch_name :: "string option"
  ch_desc :: "string option"
  ch_order :: int
  ch_type :: int
  ch_idn :: "string option"

record srd_decoder_option =
  opt_id :: "string option"
  opt_idn :: "string option"
  opt_desc :: "string option"
  opt_def :: "gvariant option"
  opt_values :: "gvariant list"

record srd_decoder_annotation_row =
  row_id :: string
  row_desc :: string
  row_ann_classes :: "int list"

record srd_decoder_binary =
  bin_class :: int
  bin_id :: "string option"
  bin_desc :: "string option"

record srd_c_ann_row =
  car_id :: "string option"
  car_desc :: "string option"
  car_ann_classes :: "int list option"
  car_num_ann_classes :: int

text \<open>
  \<^verbatim>\<open>struct srd_c_decoder\<close> without its function pointers, which are
  \<open>c_callbacks\<close> below. An array with its length field is a list behind a
  pointer that may be NULL, and an \<open>int\<close>.
\<close>

record srd_c_decoder =
  cd_id :: "string option"
  cd_name :: "string option"
  cd_longname :: "string option"
  cd_desc :: "string option"
  cd_license :: "string option"
  cd_channels :: "srd_channel list option"
  cd_num_channels :: int
  cd_optional_channels :: "srd_channel list option"
  cd_num_optional_channels :: int
  cd_options :: "srd_decoder_option list option"
  cd_num_options :: int
  cd_num_annotations :: int
  cd_ann_labels :: "(string option \<times> string option \<times> string option) list option"
  cd_num_annotation_rows :: int
  cd_annotation_rows :: "srd_c_ann_row list option"
  cd_inputs :: "string list option"
  cd_num_inputs :: int
  cd_outputs :: "string list option"
  cd_num_outputs :: int
  cd_binary :: "srd_decoder_binary list option"
  cd_num_binary :: int
  cd_tags :: "string list option"
  cd_num_tags :: int

record srd_decoder =
  dec_id :: string
  dec_name :: "string option"
  dec_longname :: "string option"
  dec_desc :: "string option"
  dec_license :: "string option"
  dec_inputs :: "string list"
  dec_outputs :: "string list"
  dec_tags :: "string list"
  dec_channels :: "srd_channel list"
  dec_opt_channels :: "srd_channel list"
  dec_annotations :: "string option list list"
  dec_ann_types :: "int list"
  dec_annotation_rows :: "srd_decoder_annotation_row list"
  dec_binary :: "(string \<times> string) list"
  dec_options :: "srd_decoder_option list"
  is_c_decoder :: bool
  dec_c_dec :: "srd_c_decoder option"

section \<open>Decoder instances\<close>

type_synonym inst_ptr = nat
type_synonym sess_ptr = nat

record srd_pd_output =
  pdo_id :: int
  pdo_output_type :: srd_output_type
  pdo_di :: inst_ptr
  pdo_proto_id :: string
  pdo_meta_type :: "string option"
  pdo_meta_name :: "string option"
  pdo_meta_descr :: "string option"

text \<open>
  \<^verbatim>\<open>struct srd_decoder_inst\<close>. \<open>inbuf\<close> is the array of channel pointers and
  \<open>inbuf_const\<close> the array of constant levels of the current chunk: memory as functions
  of the index, so that what lies outside the buffers is arbitrary rather than fixed.
  \<open>'p\<close> is the type behind the decoder's \<^verbatim>\<open>user_data\<close> pointer.
\<close>

type_synonym chan_mem = "nat \<Rightarrow> u8"

record 'p srd_decoder_inst =
  di_decoder :: srd_decoder
  di_sess :: sess_ptr
  inst_id :: string
  pd_output :: "srd_pd_output list"
  dec_num_channels :: nat
  dec_channelmap :: "int list option"
  next_di :: "inst_ptr list"
  condition_list :: "srd_term list list"
  match_array :: u64
  abs_start_samplenum :: u64
  abs_end_samplenum :: u64
  inbuf :: "(int \<Rightarrow> chan_mem option) option"
  inbuf_const :: "(int \<Rightarrow> u8) option"
  inbuflen :: u64
  abs_cur_samplenum :: u64
  abs_cur_matched :: bool
  old_pins_array :: "u8 list option"
  thread_handle :: bool
  got_new_samples :: bool
  handled_all_samples :: bool
  want_wait_terminate :: bool
  first_pos :: bool
  skip_zero :: bool
  decoder_state :: srd_error_code
  python_proc_error :: "string option"
  is_task_stop_signal :: bool
  is_c_inst :: bool
  c_dec_inst :: "srd_c_decoder option"
  c_pin_cache :: "u8 list option"
  c_pin_cache_samplenum :: u64
  c_pin_cache_inbuf_serial :: u64
  user_data :: "'p option"
  error_message :: "string option"
  di_samplerate :: u64
  last_samplenum :: u64
  c_options :: "gvariant ghash option"
  read_sample :: "(int \<Rightarrow> u64 \<Rightarrow> u8) option"
  py_inst :: "nat option"
  py_pinvalues :: "int list"

text \<open>
  An instance fresh from \<^verbatim>\<open>g_malloc0\<close> (all bytes zero) once its \<open>decoder\<close> and
  \<open>sess\<close> fields are set.
\<close>

definition malloc0_inst :: "srd_decoder \<Rightarrow> sess_ptr \<Rightarrow> 'p srd_decoder_inst" where
  "malloc0_inst dec sess = \<lparr>di_decoder = dec, di_sess = sess, inst_id = [], pd_output = [],
     dec_num_channels = 0, dec_channelmap = None, next_di = [], condition_list = [],
     match_array = 0, abs_start_samplenum = 0, abs_end_samplenum = 0, inbuf = None,
     inbuf_const = None, inbuflen = 0, abs_cur_samplenum = 0, abs_cur_matched = False,
     old_pins_array = None, thread_handle = False, got_new_samples = False,
     handled_all_samples = False, want_wait_terminate = False, first_pos = False,
     skip_zero = False, decoder_state = SRD_OK, python_proc_error = None,
     is_task_stop_signal = False, is_c_inst = False, c_dec_inst = None, c_pin_cache = None,
     c_pin_cache_samplenum = 0, c_pin_cache_inbuf_serial = 0, user_data = None,
     error_message = None, di_samplerate = 0, last_samplenum = 0, c_options = None,
     read_sample = None, py_inst = None, py_pinvalues = []\<rparr>"

text \<open>A decoder description with nothing in it, for examples.\<close>

definition blank_decoder :: srd_decoder where
  "blank_decoder = \<lparr>dec_id = ''blank'', dec_name = None, dec_longname = None, dec_desc = None,
     dec_license = None, dec_inputs = [], dec_outputs = [], dec_tags = [], dec_channels = [],
     dec_opt_channels = [], dec_annotations = [], dec_ann_types = [], dec_annotation_rows = [],
     dec_binary = [], dec_options = [], is_c_decoder = True, dec_c_dec = None\<rparr>"

section \<open>Data handed to callbacks\<close>

text \<open>
  A Python object. The CPython interface is not part of this repository; an object enters as what
  the type checks and accessors of that interface show of it. A \<^verbatim>\<open>str\<close> is its UTF-8 form, None
  when it has none (a lone surrogate). Subclasses of the built-in types are taken for the types
  themselves. An object of another type has attributes, and may be callable.
\<close>

datatype pyval =
    PV_none
  | PV_bool bool
  | PV_long int
  | PV_float real
  | PV_str "string option"
  | PV_bytes "u8 list"
  | PV_list "pyval list"
  | PV_tuple "pyval list"
  | PV_dict "(pyval \<times> pyval) list"
  | PV_object "(string \<times> pyval) list" bool


record srd_proto_data_annotation =
  pda_ann_class :: int
  pda_ann_type :: int
  pda_str_number_hex :: string
  pda_numberic_value :: int
  pda_ann_text :: "string list option"

record srd_c_annotation =
  ann_class :: int
  ann_type :: int
  ann_text :: "string list option"
  str_number_hex :: string
  numberic_value :: int

datatype proto_payload =
    PD_none
  | PD_annotation srd_proto_data_annotation
  | PD_c_annotation srd_c_annotation
  | PD_binary int u64 "u8 list"
  | PD_meta int gvariant
  | PD_variant gvariant
  | PD_python pyval
  | PD_logic u32 int "u8 list"
  | PD_analog int int u64 "real list" real "(u64 list \<times> u64 list) option"

record srd_proto_data =
  pd_start_sample :: u64
  pd_end_sample :: u64
  pd_pdo :: srd_pd_output
  pd_data :: proto_payload

text \<open>
  A registered callback is a frontend function, named by a number, or the library's own
  batch wrapper. \<open>cb_data\<close> is an opaque address (for the wrapper, the session's).
\<close>

datatype cb_fun = Frontend_cb nat | Ann_batch_callback_wrapper

record srd_pd_callback =
  cb_output_type :: srd_output_type
  cb_cb :: cb_fun
  cb_cb_data :: nat

section \<open>The annotation batch and its arena\<close>

text \<open>
  Arena memory: an address is a block number and an offset. A stored object is a string
  or the NULL-terminated pointer array of an annotation's texts.
\<close>

type_synonym arena_addr = "nat \<times> nat"

datatype arena_obj = AStr string | AStrv "arena_addr list"

record srd_ann_arena_block =
  blk_id :: nat
  blk_used :: nat
  blk_cap :: nat

record srd_ann_item =
  it_start_sample :: u64
  it_end_sample :: u64
  it_ann_class :: int
  it_ann_type :: int
  it_ann_text :: "arena_addr option"
  it_str_number_hex :: string
  it_numberic_value :: int
  it_decoder :: "srd_decoder option"

text \<open>What a batch callback reads through an item's pointers.\<close>

record delivered_ann =
  da_start :: u64
  da_end :: u64
  da_class :: int
  da_type :: int
  da_text :: "string option list option"
  da_hex :: string
  da_numeric :: int
  da_decoder :: "srd_decoder option"

text \<open>
  \<^verbatim>\<open>struct srd_ann_batch_state\<close>. The array of \<open>SRD_ANN_BATCH_MAX\<close> items and
  its count \<open>n\<close> are the list of the first \<open>n\<close> items. \<open>ab_mem\<close> is the content of
  the heap's blocks, \<open>ab_next_blk\<close> the next fresh block.
\<close>

record srd_ann_batch_state =
  ab_cb :: "nat option"
  ab_cb_data :: nat
  ab_items :: "srd_ann_item list"
  ab_arena :: "srd_ann_arena_block list"
  ab_pool :: "srd_ann_arena_block list"
  ab_wrapper_installed :: bool
  ab_mem :: "(arena_addr \<times> nat \<times> arena_obj) list"
  ab_next_blk :: nat

section \<open>Sessions and the library state\<close>

record srd_session =
  session_id :: int
  di_list :: "inst_ptr list"
  sess_callbacks :: "srd_pd_callback list"
  ann_batch :: srd_ann_batch_state

datatype srd_c_dll_status =
    SRD_C_DLL_LOADED
  | SRD_C_DLL_VERSION_MISMATCH
  | SRD_C_DLL_ENTRY_MISSING
  | SRD_C_DLL_LOAD_FAILED
  | SRD_C_DLL_UNLOADED

record srd_c_dll_entry =
  file_path :: string
  dll_handle :: "nat option"
  api_version :: int
  dll_status :: srd_c_dll_status
  decoder_id :: "string option"
  dll_c_dec :: "srd_c_decoder option"

text \<open>What the frontend observes, in order: single callbacks and batches.\<close>

datatype srd_event =
    Ev_callback nat nat srd_proto_data
  | Ev_batch nat nat "delivered_ann list"

record 'p srd_world =
  w_insts :: "inst_ptr \<rightharpoonup> 'p srd_decoder_inst"
  w_next_inst :: inst_ptr
  w_sess :: "sess_ptr \<rightharpoonup> srd_session"
  w_next_sess :: sess_ptr
  w_sessions :: "sess_ptr list"
  w_max_session_id :: int
  w_pd_list :: "srd_decoder list"
  w_dll :: "srd_c_dll_entry list"
  w_c_decoder_paths :: "string list"
  w_searchpaths :: "string list"
  w_events :: "srd_event list"

text \<open>
  The function pointers of \<^verbatim>\<open>struct srd_c_decoder\<close>, each possibly NULL. A model
  function that calls a decoder takes \<open>ops\<close>, the callbacks of each decoder
  description; a callback may change the whole library state.
\<close>

record 'w c_callbacks =
  cb_reset :: "(inst_ptr \<Rightarrow> 'w \<Rightarrow> 'w) option"
  cb_start :: "(inst_ptr \<Rightarrow> 'w \<Rightarrow> 'w) option"
  cb_end :: "(inst_ptr \<Rightarrow> 'w \<Rightarrow> 'w) option"
  cb_metadata :: "(inst_ptr \<Rightarrow> int \<Rightarrow> u64 \<Rightarrow> 'w \<Rightarrow> 'w) option"
  cb_destroy :: "(inst_ptr \<Rightarrow> 'w \<Rightarrow> 'w) option"
  cb_decode_upper ::
    "(inst_ptr \<Rightarrow> u64 \<Rightarrow> u64 \<Rightarrow> string \<Rightarrow> c_field list \<Rightarrow> 'w \<Rightarrow> 'w) option"

type_synonym 'w decoder_ops = "srd_c_decoder \<Rightarrow> 'w c_callbacks"

text \<open>Reading and updating an instance behind its pointer.\<close>

definition inst_at :: "'p srd_world \<Rightarrow> inst_ptr \<Rightarrow> 'p srd_decoder_inst option" where
  "inst_at w p = w_insts w p"

definition upd_inst ::
    "inst_ptr \<Rightarrow> ('p srd_decoder_inst \<Rightarrow> 'p srd_decoder_inst) \<Rightarrow> 'p srd_world \<Rightarrow> 'p srd_world" where
  "upd_inst p f w = (case w_insts w p of None \<Rightarrow> w
     | Some di \<Rightarrow> w\<lparr>w_insts := (w_insts w)(p \<mapsto> f di)\<rparr>)"

definition upd_sess :: "sess_ptr \<Rightarrow> (srd_session \<Rightarrow> srd_session) \<Rightarrow> 'p srd_world \<Rightarrow> 'p srd_world" where
  "upd_sess p f w = (case w_sess w p of None \<Rightarrow> w
     | Some se \<Rightarrow> w\<lparr>w_sess := (w_sess w)(p \<mapsto> f se)\<rparr>)"

lemma inst_at_upd_inst [simp]:
  "inst_at (upd_inst p f w) q = (if q = p then map_option f (inst_at w p) else inst_at w q)"
  by (auto simp: inst_at_def upd_inst_def split: option.splits)

lemma inst_at_upd_sess [simp]: "inst_at (upd_sess p f w) q = inst_at w q"
  by (simp add: inst_at_def upd_sess_def split: option.splits)

lemma w_sess_upd_inst [simp]: "w_sess (upd_inst p f w) = w_sess w"
  by (simp add: upd_inst_def split: option.splits)

lemma w_sess_upd_sess [simp]:
  "w_sess (upd_sess p f w) q = (if q = p then map_option f (w_sess w p) else w_sess w q)"
  by (auto simp: upd_sess_def split: option.splits)

lemma w_events_upd [simp]:
  "w_events (upd_inst p f w) = w_events w" "w_events (upd_sess q g w) = w_events w"
  by (simp_all add: upd_inst_def upd_sess_def split: option.splits)

end
