(* ===== verification/CondMatch.thy ===== *)
theory CondMatch
  imports DecTypes
begin

text \<open>
  The condition matcher of instance.c: what one \<^verbatim>\<open>wait()\<close> term means on a
  sample, how AND-terms and OR-conditions combine, and the scan of a chunk of samples.
  Functions keep the names of the source. The C code mutates the terms (the skip
  counters) and the instance; here the new terms and instance are returned.
\<close>

section \<open>Previous pin values\<close>

definition oldpins_array_seed :: "'p srd_decoder_inst \<Rightarrow> 'p srd_decoder_inst" where
  "oldpins_array_seed di = (case old_pins_array di of
       Some _ \<Rightarrow> di
     | None \<Rightarrow> di\<lparr>old_pins_array := Some (replicate (dec_num_channels di) 2)\<rparr>)"

definition oldpins_array_free :: "'p srd_decoder_inst \<Rightarrow> 'p srd_decoder_inst" where
  "oldpins_array_free di = di\<lparr>old_pins_array := None\<rparr>"

definition oldpin :: "'p srd_decoder_inst \<Rightarrow> int \<Rightarrow> u8" where
  "oldpin di ch = (case old_pins_array di of None \<Rightarrow> 0 | Some arr \<Rightarrow> c_array_at arr (nat ch))"

text \<open>
  The byte of a channel buffer that holds the current sample, and that sample's bit:
  \<^verbatim>\<open>*sample_pos & (1 << bit_offset) ? 1 : 0\<close>.
\<close>

definition sample_byte_pos :: "'p srd_decoder_inst \<Rightarrow> nat" where
  "sample_byte_pos di = unat ((abs_cur_samplenum di - abs_start_samplenum di) div 8)"

definition buffer_sample :: "'p srd_decoder_inst \<Rightarrow> chan_mem \<Rightarrow> u8" where
  "buffer_sample di buf =
     (let bit_offset = unat ((abs_cur_samplenum di - abs_start_samplenum di) mod 8)
      in if buf (sample_byte_pos di) AND push_bit bit_offset 1 \<noteq> 0 then 1 else 0)"

definition const_sample :: "'p srd_decoder_inst \<Rightarrow> int \<Rightarrow> u8" where
  "const_sample di ch =
     (case inbuf_const di of None \<Rightarrow> 0 | Some c \<Rightarrow> (if c ch \<noteq> 0 then 1 else 0))"

definition channel_buffer :: "'p srd_decoder_inst \<Rightarrow> int \<Rightarrow> chan_mem option" where
  "channel_buffer di ch = (case inbuf di of None \<Rightarrow> None | Some bufs \<Rightarrow> bufs ch)"

definition cur_out_of_range :: "'p srd_decoder_inst \<Rightarrow> bool" where
  "cur_out_of_range di \<longleftrightarrow> abs_cur_samplenum di < abs_start_samplenum di
     \<or> abs_end_samplenum di \<le> abs_cur_samplenum di"

text \<open>The sample of one channel as \<^verbatim>\<open>update_old_pins_array*\<close> read it.\<close>

definition old_pin_sample :: "'p srd_decoder_inst \<Rightarrow> int \<Rightarrow> u8" where
  "old_pin_sample di ch =
     (case read_sample di of
        Some rd \<Rightarrow> rd ch (abs_cur_samplenum di)
      | None \<Rightarrow> (case channel_buffer di ch of
            None \<Rightarrow> const_sample di ch
          | Some buf \<Rightarrow> (if cur_out_of_range di then 0 else buffer_sample di buf)))"

definition update_old_pins_array :: "'p srd_decoder_inst \<Rightarrow> 'p srd_decoder_inst" where
  "update_old_pins_array di =
     (if dec_channelmap di = None then di
      else let di1 = oldpins_array_seed di
           in di1\<lparr>old_pins_array := map_option
                (update_range (dec_num_channels di1) (\<lambda>i _. old_pin_sample di1 (int i)))
                (old_pins_array di1)\<rparr>)"

text \<open>Only pins still marked \<^verbatim>\<open>SRD_INITIAL_PIN_SAME_AS_SAMPLE0\<close> (2) are set.\<close>

definition update_old_pins_array_initial_pins ::
    "'p srd_decoder_inst \<Rightarrow> 'p srd_decoder_inst" where
  "update_old_pins_array_initial_pins di =
     (if dec_channelmap di = None then di
      else let di1 = oldpins_array_seed di
           in di1\<lparr>old_pins_array := map_option
                (update_range (dec_num_channels di1)
                   (\<lambda>i v. if v \<noteq> 2 then v else old_pin_sample di1 (int i)))
                (old_pins_array di1)\<rparr>)"

section \<open>Terms and conditions\<close>

fun sample_matches :: "u8 \<Rightarrow> u8 \<Rightarrow> srd_term \<Rightarrow> bool \<times> srd_term" where
  "sample_matches old_sample sample term =
     (case t_type term of
        SRD_TERM_HIGH \<Rightarrow> (sample = 1, term)
      | SRD_TERM_LOW \<Rightarrow> (sample = 0, term)
      | SRD_TERM_RISING_EDGE \<Rightarrow> (old_sample = 0 \<and> sample = 1, term)
      | SRD_TERM_FALLING_EDGE \<Rightarrow> (old_sample = 1 \<and> sample = 0, term)
      | SRD_TERM_EITHER_EDGE \<Rightarrow>
          ((old_sample = 1 \<and> sample = 0) \<or> (old_sample = 0 \<and> sample = 1), term)
      | SRD_TERM_NO_EDGE \<Rightarrow>
          ((old_sample = 0 \<and> sample = 0) \<or> (old_sample = 1 \<and> sample = 1), term)
      | SRD_TERM_SKIP \<Rightarrow>
          (if num_samples_already_skipped term = num_samples_to_skip term then (True, term)
           else (False, term\<lparr>num_samples_already_skipped := num_samples_already_skipped term + 1\<rparr>))
      | SRD_TERM_UNKNOWN _ \<Rightarrow> (False, term))"

text \<open>
  \<^verbatim>\<open>term_matches\<close> returns the verdict, \<^verbatim>\<open>*skip_allow\<close>, the term and the
  instance (whose \<open>skip_zero\<close> a zero-length skip sets).
\<close>

fun term_matches ::
    "'p srd_decoder_inst \<Rightarrow> srd_term \<Rightarrow> bool \<times> bool \<times> srd_term \<times> 'p srd_decoder_inst" where
  "term_matches di term =
     (if t_type term = SRD_TERM_SKIP then
        let di1 = (if abs_cur_matched di \<and> num_samples_to_skip term = 0
                   then di\<lparr>skip_zero := True\<rparr> else di);
            (m, term') = sample_matches 0 0 term
        in (m, False, term', di1)
      else
        let ch = t_channel term in
        case read_sample di of
          Some rd \<Rightarrow>
            (let (m, term') = sample_matches (oldpin di ch) (rd ch (abs_cur_samplenum di)) term
             in (m, False, term', di))
        | None \<Rightarrow>
           (case channel_buffer di ch of
              None \<Rightarrow>
                (let (m, term') = sample_matches (oldpin di ch) (const_sample di ch) term
                 in (m, True, term', di))
            | Some buf \<Rightarrow>
                if cur_out_of_range di then (False, True, term, di)
                else let (m, term') = sample_matches (oldpin di ch) (buffer_sample di buf) term
                     in (m, False, term', di)))"

text \<open>
  \<^verbatim>\<open>all_terms_match\<close>: stops at the first term that fails, with that term's
  \<^verbatim>\<open>skip_allow\<close>. On success a pending \<open>skip_zero\<close> moves the sample back by one.
\<close>

fun all_terms_match ::
    "'p srd_decoder_inst \<Rightarrow> srd_term list \<Rightarrow> bool \<Rightarrow>
     bool \<times> bool \<times> srd_term list \<times> 'p srd_decoder_inst" where
  "all_terms_match di [] skip_allow =
     (if skip_zero di
      then (True, skip_allow, [],
            di\<lparr>abs_cur_samplenum := abs_cur_samplenum di - 1, skip_zero := False\<rparr>)
      else (True, skip_allow, [], di))"
| "all_terms_match di (term # ts) _ =
     (let (m, sa, term', di1) = term_matches di term
      in if \<not> m then (False, sa, term' # ts, di1)
         else let (m2, sa2, ts', di2) = all_terms_match di1 ts sa
              in (m2, sa2, term' # ts', di2))"

definition have_non_null_conds :: "'p srd_decoder_inst \<Rightarrow> bool" where
  "have_non_null_conds di \<longleftrightarrow> (\<exists>cond \<in> set (condition_list di). cond \<noteq> [])"

text \<open>
  \<^verbatim>\<open>di->match_array |= (1 << j)\<close>: the shift is done on a 32-bit \<^verbatim>\<open>int\<close> and the
  result converted to 64 bits with its sign. ISO C leaves \<open>31 \<le> j\<close> undefined; the
  model takes the x86 result of gcc (the count modulo 32).
\<close>

definition match_bit :: "nat \<Rightarrow> u64" where
  "match_bit j = scast (push_bit (j mod 32) (1 :: 32 word))"

text \<open>One pass over the OR-list: every condition is tried, NULL ones are skipped.\<close>

fun eval_conditions ::
    "'p srd_decoder_inst \<Rightarrow> srd_term list list \<Rightarrow> nat \<Rightarrow> bool \<Rightarrow>
     bool \<times> srd_term list list \<times> 'p srd_decoder_inst" where
  "eval_conditions di [] j all_skip_allow = (all_skip_allow, [], di)"
| "eval_conditions di (cond # conds) j all_skip_allow =
     (if cond = [] then
        let (asa, conds', di1) = eval_conditions di conds (Suc j) all_skip_allow
        in (asa, [] # conds', di1)
      else
        let (m, sa, cond', di1) = all_terms_match di cond False;
            (di2, asa1) =
              (if m then (di1\<lparr>match_array := match_array di1 OR match_bit j\<rparr>, False)
               else (di1, all_skip_allow \<and> sa));
            (asa, conds', di3) = eval_conditions di2 conds (Suc j) asa1
        in (asa, cond' # conds', di3))"

section \<open>The scan\<close>

text \<open>
  The body of the \<^verbatim>\<open>while\<close> loop of \<^verbatim>\<open>find_match\<close> for the current sample:
  evaluate the conditions, remember the pins, note whether anything matched.
\<close>

definition scan_sample ::
    "'p srd_decoder_inst \<Rightarrow> bool \<Rightarrow> bool \<times> 'p srd_decoder_inst" where
  "scan_sample di all_skip_allow =
     (let (asa, conds', di1) = eval_conditions di (condition_list di) 0 all_skip_allow;
          di2 = update_old_pins_array (di1\<lparr>condition_list := conds'\<rparr>)
      in (asa, di2\<lparr>abs_cur_matched := (match_array di2 \<noteq> 0)\<rparr>))"

text \<open>Fields the evaluation of conditions never writes.\<close>

lemma term_matches_frame:
  "term_matches di term = (m, sa, term', di') \<Longrightarrow>
     di' = di \<or> di' = di\<lparr>skip_zero := True\<rparr>"
  by (auto simp del: sample_matches.simps simp: Let_def
      split: if_splits option.splits prod.splits)

lemma all_terms_match_frame:
  "all_terms_match di cond sa = (m, sa', cond', di') \<Longrightarrow>
     \<exists>c z. di' = di\<lparr>abs_cur_samplenum := c, skip_zero := z\<rparr>
       \<and> (\<not> m \<longrightarrow> c = abs_cur_samplenum di)"
proof (induction cond arbitrary: di sa m sa' cond' di')
  case Nil
  show ?case
  proof (cases "skip_zero di")
    case True
    with Nil show ?thesis by auto
  next
    case False
    with Nil show ?thesis
      by (intro exI [where x = "abs_cur_samplenum di"] exI [where x = "skip_zero di"]) simp
  qed
next
  case (Cons t ts)
  obtain m1 sa1 t1 di1 where t: "term_matches di t = (m1, sa1, t1, di1)"
    by (cases "term_matches di t")
  have "di = di\<lparr>skip_zero := skip_zero di\<rparr>" by simp
  with term_matches_frame [OF t] obtain z1 where z1: "di1 = di\<lparr>skip_zero := z1\<rparr>" by metis
  show ?case
  proof (cases m1)
    case False
    have "di1 = di\<lparr>abs_cur_samplenum := abs_cur_samplenum di, skip_zero := z1\<rparr>"
      using z1 by simp
    moreover have "di' = di1" and "\<not> m"
      using Cons.prems False t by (simp_all del: term_matches.simps)
    ultimately show ?thesis by blast
  next
    case True
    obtain m2 sa2 ts2 di2 where r: "all_terms_match di1 ts sa1 = (m2, sa2, ts2, di2)"
      by (cases "all_terms_match di1 ts sa1")
    from Cons.IH [OF r] obtain c z where
      c: "di2 = di1\<lparr>abs_cur_samplenum := c, skip_zero := z\<rparr>"
        "\<not> m2 \<longrightarrow> c = abs_cur_samplenum di1" by blast
    have "di' = di2" and "m = m2"
      using Cons.prems True t r by (simp_all del: term_matches.simps)
    then have "di' = di\<lparr>abs_cur_samplenum := c, skip_zero := z\<rparr>"
      and "\<not> m \<longrightarrow> c = abs_cur_samplenum di"
      using c z1 by simp_all
    then show ?thesis by blast
  qed
qed

lemma match_bit_nonzero [simp]: "match_bit j \<noteq> 0"
proof -
  have "j mod 32 < 32" by simp
  then have "bit (match_bit j) (j mod 32)"
    by (simp add: match_bit_def bit_simps min_def) linarith
  then show ?thesis by auto
qed

lemma eval_conditions_frame:
  "eval_conditions di conds j asa = (asa', conds', di') \<Longrightarrow>
     \<exists>c z a. di' = di\<lparr>abs_cur_samplenum := c, skip_zero := z, match_array := a\<rparr>
       \<and> (a = 0 \<longrightarrow> match_array di = 0 \<and> c = abs_cur_samplenum di)"
proof (induction conds arbitrary: di j asa asa' conds' di')
  case Nil
  then show ?case
    by (intro exI [where x = "abs_cur_samplenum di"] exI [where x = "skip_zero di"]
        exI [where x = "match_array di"]) simp
next
  case (Cons cond conds)
  show ?case
  proof (cases "cond = []")
    case True
    obtain a2 c2 d2 where r: "eval_conditions di conds (Suc j) asa = (a2, c2, d2)"
      by (cases "eval_conditions di conds (Suc j) asa")
    with Cons.prems True have "di' = d2" by simp
    with Cons.IH [OF r] show ?thesis by simp
  next
    case False
    obtain m sa cond1 di1 where a: "all_terms_match di cond False = (m, sa, cond1, di1)"
      by (cases "all_terms_match di cond False")
    define di2 where "di2 = (if m then di1\<lparr>match_array := match_array di1 OR match_bit j\<rparr> else di1)"
    define asa1 where "asa1 = (if m then False else asa \<and> sa)"
    obtain a3 c3 d3 where r: "eval_conditions di2 conds (Suc j) asa1 = (a3, c3, d3)"
      by (cases "eval_conditions di2 conds (Suc j) asa1")
    have e: "di' = d3"
      using Cons.prems False a r by (simp add: di2_def asa1_def split: if_splits)
    obtain c z where di1: "di1 = di\<lparr>abs_cur_samplenum := c, skip_zero := z\<rparr>"
        and c: "\<not> m \<longrightarrow> c = abs_cur_samplenum di"
      using all_terms_match_frame [OF a] by blast
    obtain c' z' a' where
      d3: "d3 = di2\<lparr>abs_cur_samplenum := c', skip_zero := z', match_array := a'\<rparr>"
        and a': "a' = 0 \<longrightarrow> match_array di2 = 0 \<and> c' = abs_cur_samplenum di2"
      using Cons.IH [OF r] by blast
    have m: "a' = 0 \<longrightarrow> \<not> m" using a' by (auto simp: di2_def word_or_eq_0_iff)
    have "d3 = di\<lparr>abs_cur_samplenum := c', skip_zero := z', match_array := a'\<rparr>"
      using d3 di1 by (simp add: di2_def split: if_splits)
    moreover have "a' = 0 \<longrightarrow> match_array di = 0 \<and> c' = abs_cur_samplenum di"
      using a' m c di1 by (auto simp: di2_def)
    ultimately show ?thesis using e by blast
  qed
qed

lemma update_old_pins_array_self:
  "update_old_pins_array di = di\<lparr>old_pins_array := old_pins_array (update_old_pins_array di)\<rparr>"
  by (simp add: update_old_pins_array_def oldpins_array_seed_def Let_def split: option.split)

lemma update_old_pins_array_initial_self:
  "update_old_pins_array_initial_pins di =
     di\<lparr>old_pins_array := old_pins_array (update_old_pins_array_initial_pins di)\<rparr>"
  by (simp add: update_old_pins_array_initial_pins_def oldpins_array_seed_def Let_def
      split: option.split)

lemma update_old_pins_array_frame:
  "\<exists>p. update_old_pins_array di = di\<lparr>old_pins_array := p\<rparr>"
  by (rule exI, rule update_old_pins_array_self)

lemma scan_sample_frame:
  assumes "scan_sample di asa = (asa', di')"
  shows "\<exists>c z a p conds. di' = di\<lparr>abs_cur_samplenum := c, skip_zero := z, match_array := a,
           condition_list := conds, old_pins_array := p, abs_cur_matched := (a \<noteq> 0)\<rparr>
         \<and> (a = 0 \<longrightarrow> c = abs_cur_samplenum di)"
proof -
  obtain asa1 conds1 di1 where e: "eval_conditions di (condition_list di) 0 asa = (asa1, conds1, di1)"
    by (cases "eval_conditions di (condition_list di) 0 asa")
  obtain p where p: "update_old_pins_array (di1\<lparr>condition_list := conds1\<rparr>)
      = di1\<lparr>condition_list := conds1, old_pins_array := p\<rparr>"
    using update_old_pins_array_frame [of "di1\<lparr>condition_list := conds1\<rparr>"] by auto
  obtain c z a where d1: "di1 = di\<lparr>abs_cur_samplenum := c, skip_zero := z, match_array := a\<rparr>"
      and a: "a = 0 \<longrightarrow> c = abs_cur_samplenum di"
    using eval_conditions_frame [OF e] by blast
  have "di' = di\<lparr>abs_cur_samplenum := c, skip_zero := z, match_array := a,
           condition_list := conds1, old_pins_array := p, abs_cur_matched := (a \<noteq> 0)\<rparr>"
    using assms e p d1 by (simp add: scan_sample_def)
  with a show ?thesis by blast
qed

text \<open>
  The loop. It ends: an iteration without a match leaves the current sample where it was
  and then advances it, to the next sample or to the end of the chunk.
\<close>

function find_match_loop ::
    "'p srd_decoder_inst \<Rightarrow> bool \<Rightarrow> bool \<times> 'p srd_decoder_inst" where
  "find_match_loop di all_skip_allow =
     (if abs_cur_samplenum di < abs_end_samplenum di then
        let r = scan_sample di all_skip_allow in
        if abs_cur_matched (snd r) then (True, snd r)
        else if fst r
          then find_match_loop ((snd r)\<lparr>abs_cur_samplenum := abs_end_samplenum (snd r)\<rparr>) (fst r)
          else find_match_loop ((snd r)\<lparr>abs_cur_samplenum := abs_cur_samplenum (snd r) + 1\<rparr>) (fst r)
      else (False, di))"
  by pat_completeness auto
termination
proof (relation "measure (\<lambda>(di, _). unat (abs_end_samplenum di) - unat (abs_cur_samplenum di))")
  fix di :: "'p srd_decoder_inst" and asa :: bool and r
  assume lt: "abs_cur_samplenum di < abs_end_samplenum di" and r: "r = scan_sample di asa"
    and nm: "\<not> abs_cur_matched (snd r)"
  obtain a d where ad: "scan_sample di asa = (a, d)" by (cases "scan_sample di asa")
  from scan_sample_frame [OF ad] nm r ad
  have f: "abs_end_samplenum (snd r) = abs_end_samplenum di"
    "abs_cur_samplenum (snd r) = abs_cur_samplenum di" by auto
  show "((snd r\<lparr>abs_cur_samplenum := abs_cur_samplenum (snd r) + 1\<rparr>, fst r), di, asa)
      \<in> measure (\<lambda>(di, _). unat (abs_end_samplenum di) - unat (abs_cur_samplenum di))"
    using lt f by (simp add: unat_Suc_less word_less_nat_alt)
  show "((snd r\<lparr>abs_cur_samplenum := abs_end_samplenum (snd r)\<rparr>, fst r), di, asa)
      \<in> measure (\<lambda>(di, _). unat (abs_end_samplenum di) - unat (abs_cur_samplenum di))"
    using lt f by (simp add: word_less_nat_alt)
qed simp

declare find_match_loop.simps [simp del]

text \<open>
  After a match the scan moves past the matched sample and restarts the count of every
  non-zero skip at one.
\<close>

definition restart_skip :: "srd_term \<Rightarrow> srd_term" where
  "restart_skip term =
     (if t_type term = SRD_TERM_SKIP \<and> 0 < num_samples_to_skip term
      then term\<lparr>num_samples_already_skipped := 1\<rparr> else term)"

definition advance_past_match :: "'p srd_decoder_inst \<Rightarrow> 'p srd_decoder_inst" where
  "advance_past_match di =
     (if abs_cur_matched di
      then di\<lparr>abs_cur_samplenum := abs_cur_samplenum di + 1,
              condition_list := map (map restart_skip) (condition_list di)\<rparr>
      else di)"

definition scan_start :: "'p srd_decoder_inst \<Rightarrow> 'p srd_decoder_inst" where
  "scan_start di =
     (let di1 = di\<lparr>match_array := 0\<rparr>;
          di2 = (if first_pos di1
                 then update_old_pins_array_initial_pins (di1\<lparr>first_pos := False\<rparr>)
                 else di1)
      in advance_past_match di2)"

definition find_match :: "'p srd_decoder_inst \<Rightarrow> bool \<times> 'p srd_decoder_inst" where
  "find_match di =
     (if condition_list di = [] then (True, di)
      else if \<not> have_non_null_conds di then (True, di)
      else find_match_loop (scan_start di) True)"

text \<open>
  \<^verbatim>\<open>process_samples_until_condition_match\<close>: the \<^verbatim>\<open>while (TRUE)\<close> loop around
  \<^verbatim>\<open>find_match\<close>, with fuel for its iterations (\<open>None\<close>: not enough fuel). One
  iteration is enough (\<open>process_samples_one_pass\<close> below). The diagnostic counters
  and their output are left out.
\<close>

fun process_samples_loop ::
    "nat \<Rightarrow> 'p srd_decoder_inst \<Rightarrow> (bool \<times> 'p srd_decoder_inst) option" where
  "process_samples_loop 0 di = None"
| "process_samples_loop (Suc fuel) di =
     (let (found_match, di1) = find_match di
      in if abs_end_samplenum di1 \<le> abs_cur_samplenum di1 then Some (found_match, di1)
         else if \<not> found_match then process_samples_loop fuel di1
         else Some (found_match, di1))"

definition process_samples_until_condition_match ::
    "nat \<Rightarrow> 'p srd_decoder_inst \<Rightarrow> (bool \<times> 'p srd_decoder_inst) option" where
  "process_samples_until_condition_match fuel di =
     (if want_wait_terminate di then Some (False, di) else process_samples_loop fuel di)"

definition condition_list_free :: "'p srd_decoder_inst \<Rightarrow> 'p srd_decoder_inst" where
  "condition_list_free di = di\<lparr>condition_list := []\<rparr>"

section \<open>The scan of a chunk ends, in one pass\<close>

lemma scan_sample_end: "abs_end_samplenum (snd (scan_sample di asa)) = abs_end_samplenum di"
  using scan_sample_frame [of di asa "fst (scan_sample di asa)" "snd (scan_sample di asa)"]
  by auto

lemma find_match_loop_end:
  "abs_end_samplenum (snd (find_match_loop di asa)) = abs_end_samplenum di"
proof (induction di asa rule: find_match_loop.induct)
  case (1 di asa)
  show ?case
    using "1.IH" scan_sample_end [of di asa]
    by (subst find_match_loop.simps) (simp add: Let_def)
qed

lemma find_match_loop_unmatched:
  "\<not> fst (find_match_loop di asa) \<Longrightarrow>
     abs_end_samplenum di \<le> abs_cur_samplenum (snd (find_match_loop di asa))"
proof (induction di asa rule: find_match_loop.induct)
  case (1 di asa)
  show ?case
  proof (cases "abs_cur_samplenum di < abs_end_samplenum di")
    case True
    let ?r = "scan_sample di asa"
    have nm: "\<not> abs_cur_matched (snd ?r)"
      using "1.prems" True by (subst (asm) find_match_loop.simps) (auto simp: Let_def split: if_splits)
    show ?thesis
      using "1.IH" [OF True refl nm] "1.prems" True nm scan_sample_end [of di asa]
      by (subst find_match_loop.simps, subst (asm) find_match_loop.simps)
         (auto simp: Let_def split: if_splits)
  next
    case False
    then have "find_match_loop di asa = (False, di)" by (subst find_match_loop.simps) simp
    with False show ?thesis by (simp add: not_less)
  qed
qed

lemma find_match_unmatched:
  assumes "find_match di = (False, di')"
  shows "abs_end_samplenum di' \<le> abs_cur_samplenum di'"
proof -
  obtain d where d: "find_match_loop d True = (False, di')"
    using assms by (auto simp: find_match_def split: if_splits)
  with find_match_loop_unmatched [of d True] find_match_loop_end [of d True]
  show ?thesis by simp
qed

lemma process_samples_loop_one:
  "process_samples_loop (Suc fuel) di = Some (find_match di)"
  using find_match_unmatched [of di] by (cases "find_match di") (auto simp: Let_def)

end
