(* ===== verification/CondSpec.thy ===== *)
theory CondSpec
  imports CondMatch
begin

text \<open>
  What the condition matcher promises, stated on the waveform instead of the C state:
  the scan stops at the first sample at which some condition holds, and says which ones.
  The concrete scan refines this specification (\<open>find_match_loop_refines\<close>), including
  its shortcut over chunks in which the deciding channels are constant.
\<close>

section \<open>The waveform behind a chunk\<close>

definition chan_live :: "'p srd_decoder_inst \<Rightarrow> int \<Rightarrow> bool" where
  "chan_live di ch \<longleftrightarrow> read_sample di \<noteq> None \<or> channel_buffer di ch \<noteq> None"

definition sample_at :: "'p srd_decoder_inst \<Rightarrow> nat \<Rightarrow> int \<Rightarrow> u8" where
  "sample_at di k ch =
     (case read_sample di of
        Some rd \<Rightarrow> rd ch (of_nat k)
      | None \<Rightarrow> (case channel_buffer di ch of
            None \<Rightarrow> const_sample di ch
          | Some buf \<Rightarrow>
              (let off = k - unat (abs_start_samplenum di)
               in if bit (buf (off div 8)) (off mod 8) then 1 else 0)))"

text \<open>A term without a counter, on the previous and the current level of its channel.\<close>

fun level_sem :: "srd_term_type \<Rightarrow> u8 \<Rightarrow> u8 \<Rightarrow> bool" where
  "level_sem SRD_TERM_HIGH old new = (new = 1)"
| "level_sem SRD_TERM_LOW old new = (new = 0)"
| "level_sem SRD_TERM_RISING_EDGE old new = (old = 0 \<and> new = 1)"
| "level_sem SRD_TERM_FALLING_EDGE old new = (old = 1 \<and> new = 0)"
| "level_sem SRD_TERM_EITHER_EDGE old new = ({old, new} = {0, 1})"
| "level_sem SRD_TERM_NO_EDGE old new = (old = new \<and> old \<in> {0, 1})"
| "level_sem SRD_TERM_SKIP old new = False"
| "level_sem (SRD_TERM_UNKNOWN _) old new = False"

text \<open>A term \<open>e\<close> samples after the scan began; a skip counts from its start value.\<close>

definition term_sem :: "(int \<Rightarrow> u8) \<Rightarrow> (int \<Rightarrow> u8) \<Rightarrow> nat \<Rightarrow> srd_term \<Rightarrow> bool" where
  "term_sem old new e t =
     (if t_type t = SRD_TERM_SKIP
      then unat (num_samples_already_skipped t) + e = unat (num_samples_to_skip t)
      else level_sem (t_type t) (old (t_channel t)) (new (t_channel t)))"

definition cond_sem :: "(int \<Rightarrow> u8) \<Rightarrow> (int \<Rightarrow> u8) \<Rightarrow> nat \<Rightarrow> srd_term list \<Rightarrow> bool" where
  "cond_sem old new e cond \<longleftrightarrow> cond \<noteq> [] \<and> (\<forall>t \<in> set cond. term_sem old new e t)"

text \<open>The specification: try the samples \<open>k, k + 1, \<dots>\<close> in order, \<open>n\<close> of them.\<close>

fun scan_spec ::
    "(nat \<Rightarrow> int \<Rightarrow> u8) \<Rightarrow> srd_term list list \<Rightarrow> (int \<Rightarrow> u8) \<Rightarrow> nat \<Rightarrow> nat \<Rightarrow> nat \<Rightarrow>
     (nat \<times> bool list) option" where
  "scan_spec lv conds old e k 0 = None"
| "scan_spec lv conds old e k (Suc n) =
     (let ms = map (cond_sem old (lv k) e) conds
      in if True \<in> set ms then Some (k, ms)
         else scan_spec lv conds (lv k) (Suc e) (Suc k) n)"

text \<open>The same, declaratively: condition \<open>cond\<close> holds at sample \<open>k\<close> of a scan from \<open>k0\<close>.\<close>

definition cond_holds_at ::
    "(nat \<Rightarrow> int \<Rightarrow> u8) \<Rightarrow> (int \<Rightarrow> u8) \<Rightarrow> nat \<Rightarrow> nat \<Rightarrow> srd_term list \<Rightarrow> bool" where
  "cond_holds_at lv old k0 k cond =
     cond_sem (if k = k0 then old else lv (k - 1)) (lv k) (k - k0) cond"

lemma scan_spec_None_iff:
  "scan_spec lv conds old e k n = None \<longleftrightarrow>
     (\<forall>i < n. \<forall>cond \<in> set conds.
        \<not> cond_sem (if i = 0 then old else lv (k + i - 1)) (lv (k + i)) (e + i) cond)"
proof (induction n arbitrary: old e k)
  case 0
  then show ?case by simp
next
  case (Suc n)
  let ?P = "\<lambda>old' k' e' i. \<forall>cond \<in> set conds.
    \<not> cond_sem (if i = 0 then old' else lv (k' + i - 1)) (lv (k' + i)) (e' + i) cond"
  have split: "(\<forall>i < Suc n. ?P old k e i) \<longleftrightarrow> ?P old k e 0 \<and> (\<forall>i < n. ?P (lv k) (Suc k) (Suc e) i)"
  proof -
    have "(\<forall>i < Suc n. ?P old k e i) \<longleftrightarrow> ?P old k e 0 \<and> (\<forall>i < n. ?P old k e (Suc i))"
      by (rule All_less_Suc2)
    moreover have "?P old k e (Suc i) \<longleftrightarrow> ?P (lv k) (Suc k) (Suc e) i" for i
      by (cases i) simp_all
    ultimately show ?thesis by simp
  qed
  have "scan_spec lv conds old e k (Suc n) = None \<longleftrightarrow>
      ?P old k e 0 \<and> scan_spec lv conds (lv k) (Suc e) (Suc k) n = None"
    by (auto simp: Let_def)
  with split Suc.IH [of "lv k" "Suc e" "Suc k"] show ?case by simp
qed

lemma scan_spec_Some:
  "scan_spec lv conds old e k n = Some (j, ms) \<Longrightarrow>
     k \<le> j \<and> j < k + n
   \<and> ms = map (cond_sem (if j = k then old else lv (j - 1)) (lv j) (e + (j - k))) conds
   \<and> True \<in> set ms
   \<and> scan_spec lv conds old e k (j - k) = None"
proof (induction n arbitrary: old e k)
  case 0
  then show ?case by simp
next
  case (Suc n)
  let ?ms = "map (cond_sem old (lv k) e) conds"
  show ?case
  proof (cases "True \<in> set ?ms")
    case True
    with Suc.prems have "j = k" and "ms = ?ms" by (auto simp: Let_def)
    with True show ?thesis by simp
  next
    case False
    with Suc.prems have r: "scan_spec lv conds (lv k) (Suc e) (Suc k) n = Some (j, ms)"
      by (auto simp: Let_def split: if_splits)
    from Suc.IH [OF r] have b: "Suc k \<le> j" "j < Suc k + n" "True \<in> set ms"
      "scan_spec lv conds (lv k) (Suc e) (Suc k) (j - Suc k) = None"
      and m: "ms = map (cond_sem (if j = Suc k then lv k else lv (j - 1)) (lv j)
        (Suc e + (j - Suc k))) conds" by auto
    have "j - k = Suc (j - Suc k)" using b by simp
    with b m False show ?thesis by (auto simp: Let_def)
  qed
qed

text \<open>Scanning \<open>m + n\<close> samples is scanning \<open>m\<close> and, without a match, the next \<open>n\<close>.\<close>

lemma scan_spec_append:
  "scan_spec lv conds old e k (m + n) =
     (case scan_spec lv conds old e k m of
        Some r \<Rightarrow> Some r
      | None \<Rightarrow> scan_spec lv conds (if m = 0 then old else lv (k + m - 1)) (e + m) (k + m) n)"
proof (induction m arbitrary: old e k)
  case 0
  then show ?case by simp
next
  case (Suc m)
  have "(if m = 0 then lv k else lv (Suc k + m - 1)) = lv (k + m)" by simp
  with Suc.IH [of "lv k" "Suc e" "Suc k"] show ?case
    by (simp add: Let_def split: option.split)
qed

lemma cond_sem_cong:
  assumes "\<forall>t \<in> set cond. t_type t \<noteq> SRD_TERM_SKIP \<longrightarrow>
      old (t_channel t) = old' (t_channel t) \<and> new (t_channel t) = new' (t_channel t)"
  shows "cond_sem old new e cond = cond_sem old' new' e cond"
  using assms by (auto simp: cond_sem_def term_sem_def)

lemma scan_spec_old_cong:
  assumes "\<forall>cond \<in> set conds. \<forall>t \<in> set cond. t_type t \<noteq> SRD_TERM_SKIP \<longrightarrow>
      old (t_channel t) = old' (t_channel t)"
  shows "scan_spec lv conds old e k n = scan_spec lv conds old' e k n"
proof (cases n)
  case (Suc m)
  have "map (cond_sem old (lv k) e) conds = map (cond_sem old' (lv k) e) conds"
    using assms by (auto intro!: cond_sem_cong)
  then show ?thesis by (simp only: Suc scan_spec.simps)
qed simp

section \<open>One sample\<close>

definition plain_cond :: "bool \<Rightarrow> srd_term list \<Rightarrow> bool" where
  "plain_cond cm cond \<longleftrightarrow> (\<forall>t \<in> set cond. t_type t \<noteq> SRD_TERM_SKIP)
     \<or> (\<exists>t. cond = [t] \<and> t_type t = SRD_TERM_SKIP
          \<and> num_samples_already_skipped t \<le> num_samples_to_skip t
          \<and> (cm \<longrightarrow> 0 < num_samples_to_skip t))"

text \<open>
  The conditions the refinement covers: no NULL terms, a skip stands alone in its
  condition (as every decoder uses it), channels exist, and \<open>SRD_TERM_NO_EDGE\<close> is not
  asked of a constant channel (see \<open>no_edge_on_constant_channel_missed\<close>).
\<close>

definition term_chan_ok :: "'p srd_decoder_inst \<Rightarrow> srd_term \<Rightarrow> bool" where
  "term_chan_ok di t \<longleftrightarrow> t_type t \<noteq> SRD_TERM_SKIP \<longrightarrow>
     0 \<le> t_channel t \<and> t_channel t < int (dec_num_channels di)
     \<and> (t_type t = SRD_TERM_NO_EDGE \<longrightarrow> chan_live di (t_channel t))"

definition conds_ok :: "'p srd_decoder_inst \<Rightarrow> srd_term list list \<Rightarrow> bool" where
  "conds_ok di conds \<longleftrightarrow> (\<forall>cond \<in> set conds.
     plain_cond (abs_cur_matched di) cond \<and> (\<forall>t \<in> set cond. term_chan_ok di t))"

definition pins_ok :: "'p srd_decoder_inst \<Rightarrow> bool" where
  "pins_ok di \<longleftrightarrow> dec_channelmap di \<noteq> None
     \<and> (case old_pins_array di of None \<Rightarrow> False | Some arr \<Rightarrow> length arr = dec_num_channels di)"

definition in_chunk :: "'p srd_decoder_inst \<Rightarrow> bool" where
  "in_chunk di \<longleftrightarrow> abs_start_samplenum di \<le> abs_cur_samplenum di
     \<and> abs_cur_samplenum di < abs_end_samplenum di"

lemma sample_matches_level:
  "t_type t \<noteq> SRD_TERM_SKIP \<Longrightarrow>
     sample_matches old new t = (level_sem (t_type t) old new, t)"
  by (cases "t_type t") (auto simp: doubleton_eq_iff)

lemma sample_matches_skip:
  "t_type t = SRD_TERM_SKIP \<Longrightarrow>
     sample_matches old new t =
       (if num_samples_already_skipped t = num_samples_to_skip t then (True, t)
        else (False, t\<lparr>num_samples_already_skipped := num_samples_already_skipped t + 1\<rparr>))"
  by simp

declare sample_matches.simps [simp del]

lemma buffer_sample_at:
  assumes "in_chunk di"
  shows "buffer_sample di buf =
    (let off = unat (abs_cur_samplenum di) - unat (abs_start_samplenum di)
     in if bit (buf (off div 8)) (off mod 8) then 1 else 0)"
proof -
  have le: "abs_start_samplenum di \<le> abs_cur_samplenum di"
    using assms by (simp add: in_chunk_def)
  have d: "unat (abs_cur_samplenum di - abs_start_samplenum di)
      = unat (abs_cur_samplenum di) - unat (abs_start_samplenum di)"
    by (rule unat_diff_le [OF le])
  show ?thesis
    by (simp add: buffer_sample_def sample_byte_pos_def Let_def unat_div unat_mod d
        bit_iff_and_push_bit_not_eq_0)
qed

lemma in_chunk_not_out: "in_chunk di \<Longrightarrow> \<not> cur_out_of_range di"
  by (auto simp: in_chunk_def cur_out_of_range_def)

lemma old_pin_sample_at:
  "in_chunk di \<Longrightarrow> old_pin_sample di ch = sample_at di (unat (abs_cur_samplenum di)) ch"
  by (simp add: old_pin_sample_def sample_at_def buffer_sample_at in_chunk_not_out
      split: option.split)

lemma sample_at_const:
  "\<not> chan_live di ch \<Longrightarrow> sample_at di k ch = const_sample di ch"
  by (simp add: sample_at_def chan_live_def split: option.splits)

lemma term_matches_level:
  assumes "in_chunk di" and "t_type t \<noteq> SRD_TERM_SKIP"
  shows "term_matches di t =
    (level_sem (t_type t) (oldpin di (t_channel t))
       (sample_at di (unat (abs_cur_samplenum di)) (t_channel t)),
     \<not> chan_live di (t_channel t), t, di)"
  using assms
  by (simp add: Let_def sample_matches_level sample_at_def chan_live_def buffer_sample_at
      in_chunk_not_out split: option.split)

declare term_matches.simps [simp del]

definition bump_skip :: "srd_term \<Rightarrow> srd_term" where
  "bump_skip t = (if t_type t = SRD_TERM_SKIP
     then t\<lparr>num_samples_already_skipped := num_samples_already_skipped t + 1\<rparr> else t)"

text \<open>The verdict of one term without a counter at the current sample.\<close>

definition cur_level_sem :: "'p srd_decoder_inst \<Rightarrow> srd_term \<Rightarrow> bool" where
  "cur_level_sem di t = level_sem (t_type t) (oldpin di (t_channel t))
     (sample_at di (unat (abs_cur_samplenum di)) (t_channel t))"

lemma all_terms_match_plain:
  assumes "in_chunk di" and "\<not> skip_zero di" and "\<forall>t \<in> set cond. t_type t \<noteq> SRD_TERM_SKIP"
  shows "\<exists>sa'. all_terms_match di cond sa = ((\<forall>t \<in> set cond. cur_level_sem di t), sa', cond, di)
    \<and> (\<not> (\<forall>t \<in> set cond. cur_level_sem di t) \<and> sa' \<longrightarrow>
        (\<exists>t \<in> set cond. \<not> chan_live di (t_channel t) \<and> \<not> cur_level_sem di t))"
  using assms
proof (induction cond arbitrary: sa)
  case Nil
  then show ?case by simp
next
  case (Cons t ts)
  have t: "term_matches di t = (cur_level_sem di t, \<not> chan_live di (t_channel t), t, di)"
    using term_matches_level [OF Cons.prems(1), of t] Cons.prems(3)
    by (simp add: cur_level_sem_def)
  have "\<forall>t \<in> set ts. t_type t \<noteq> SRD_TERM_SKIP" using Cons.prems(3) by simp
  from Cons.IH [OF Cons.prems(1,2) this, of "\<not> chan_live di (t_channel t)"]
  obtain sa' where
    "all_terms_match di ts (\<not> chan_live di (t_channel t)) =
      ((\<forall>t \<in> set ts. cur_level_sem di t), sa', ts, di)"
    "\<not> (\<forall>t \<in> set ts. cur_level_sem di t) \<and> sa' \<longrightarrow>
        (\<exists>t \<in> set ts. \<not> chan_live di (t_channel t) \<and> \<not> cur_level_sem di t)"
    by blast
  with t show ?case by (cases "cur_level_sem di t") auto
qed

text \<open>A condition on one sample: verdict, counters, and the meaning of \<open>skip_allow\<close>.\<close>

definition const_blocked :: "'p srd_decoder_inst \<Rightarrow> srd_term list \<Rightarrow> bool" where
  "const_blocked di cond \<longleftrightarrow> (\<exists>t \<in> set cond. t_type t \<noteq> SRD_TERM_SKIP
     \<and> \<not> chan_live di (t_channel t)
     \<and> \<not> level_sem (t_type t) (oldpin di (t_channel t)) (const_sample di (t_channel t)))"

lemma all_terms_match_ok:
  assumes c: "in_chunk di" "\<not> skip_zero di" and pc: "plain_cond (abs_cur_matched di) cond"
    and ne: "cond \<noteq> []"
  shows "\<exists>sa' cond'. all_terms_match di cond sa =
      (cond_sem (oldpin di) (sample_at di (unat (abs_cur_samplenum di))) 0 cond, sa', cond', di)
    \<and> (\<not> cond_sem (oldpin di) (sample_at di (unat (abs_cur_samplenum di))) 0 cond \<longrightarrow>
        cond' = map bump_skip cond \<and> (sa' \<longrightarrow> const_blocked di cond))"
proof (cases "\<forall>t \<in> set cond. t_type t \<noteq> SRD_TERM_SKIP")
  case True
  have s: "cond_sem (oldpin di) (sample_at di (unat (abs_cur_samplenum di))) 0 cond =
    (\<forall>t \<in> set cond. cur_level_sem di t)"
    using True ne by (simp add: cond_sem_def term_sem_def cur_level_sem_def)
  have b: "map bump_skip cond = cond"
    using True by (simp add: bump_skip_def map_idI)
  obtain sa' where
    a: "all_terms_match di cond sa = ((\<forall>t \<in> set cond. cur_level_sem di t), sa', cond, di)"
      "\<not> (\<forall>t \<in> set cond. cur_level_sem di t) \<and> sa' \<longrightarrow>
        (\<exists>t \<in> set cond. \<not> chan_live di (t_channel t) \<and> \<not> cur_level_sem di t)"
    using all_terms_match_plain [OF c True, of sa] by blast
  from a(2) have "\<not> (\<forall>t \<in> set cond. cur_level_sem di t) \<and> sa' \<longrightarrow> const_blocked di cond"
    using True by (auto simp: const_blocked_def sample_at_const cur_level_sem_def)
  with a(1) b show ?thesis unfolding s by auto
next
  case False
  then obtain t where t: "cond = [t]" "t_type t = SRD_TERM_SKIP"
      "abs_cur_matched di \<longrightarrow> 0 < num_samples_to_skip t"
    using pc by (auto simp: plain_cond_def)
  then have z: "\<not> (abs_cur_matched di \<and> num_samples_to_skip t = 0)" by auto
  let ?hit = "num_samples_already_skipped t = num_samples_to_skip t"
  have tm: "term_matches di t = (?hit, False, if ?hit then t else bump_skip t, di)"
    using t(2) by (simp add: term_matches.simps if_not_P [OF z] sample_matches_skip bump_skip_def
        Let_def del: de_Morgan_conj)
  have s: "cond_sem (oldpin di) (sample_at di (unat (abs_cur_samplenum di))) 0 cond = ?hit"
    using t(1,2) by (simp add: cond_sem_def term_sem_def word_unat_eq_iff)
  show ?thesis
  proof (cases ?hit)
    case True
    with tm have "all_terms_match di cond sa = (True, False, cond, di)" using c t(1) by simp
    with s True show ?thesis by (intro exI [where x = False] exI [where x = cond]) simp
  next
    case False
    with tm have "all_terms_match di cond sa = (False, False, map bump_skip cond, di)"
      using t(1) by simp
    with s False show ?thesis
      by (intro exI [where x = False] exI [where x = "map bump_skip cond"]) simp
  qed
qed

fun match_mask :: "nat \<Rightarrow> bool list \<Rightarrow> u64" where
  "match_mask j [] = 0"
| "match_mask j (b # bs) = (if b then match_bit j else 0) OR match_mask (Suc j) bs"

lemma match_mask_eq_0_iff: "match_mask j bs = 0 \<longleftrightarrow> True \<notin> set bs"
  by (induction bs arbitrary: j) (auto simp: word_or_eq_0_iff)

lemma bit_match_bit:
  assumes "j < 31"
  shows "bit (match_bit j) i \<longleftrightarrow> i = j"
proof -
  have "bit (match_bit j) i \<longleftrightarrow> i < 64 \<and> bit (push_bit j (1 :: 32 word)) (min 31 i)"
    using assms by (simp add: match_bit_def bit_signed_iff)
  also have "\<dots> \<longleftrightarrow> i = j"
    using assms by (auto simp: bit_simps min_def)
  finally show ?thesis .
qed

text \<open>Up to 31 conditions, bit \<open>j\<close> of the mask is the verdict of condition \<open>j\<close>.\<close>

lemma bit_match_mask:
  "j + length bs \<le> 31 \<Longrightarrow>
     bit (match_mask j bs) i \<longleftrightarrow> j \<le> i \<and> i - j < length bs \<and> bs ! (i - j)"
proof (induction bs arbitrary: j)
  case Nil
  then show ?case by simp
next
  case (Cons b bs)
  from Cons have IH: "bit (match_mask (Suc j) bs) i \<longleftrightarrow>
      Suc j \<le> i \<and> i - Suc j < length bs \<and> bs ! (i - Suc j)" by simp
  have b: "bit (if b then match_bit j else 0) i \<longleftrightarrow> b \<and> i = j"
    using Cons.prems by (simp add: bit_match_bit)
  show ?case
  proof (cases "j < i")
    case True
    then have "i - j = Suc (i - Suc j)" by simp
    with True b IH show ?thesis by (simp add: bit_or_iff)
  next
    case False
    with b IH show ?thesis by (auto simp: bit_or_iff)
  qed
qed

lemma same_view_match_array [simp]:
  "oldpin (di\<lparr>match_array := a\<rparr>) = oldpin di"
  "sample_at (di\<lparr>match_array := a\<rparr>) = sample_at di"
  "chan_live (di\<lparr>match_array := a\<rparr>) = chan_live di"
  "const_sample (di\<lparr>match_array := a\<rparr>) = const_sample di"
  "const_blocked (di\<lparr>match_array := a\<rparr>) = const_blocked di"
  "in_chunk (di\<lparr>match_array := a\<rparr>) = in_chunk di"
  by (simp_all add: fun_eq_iff oldpin_def sample_at_def chan_live_def const_sample_def
      const_blocked_def in_chunk_def channel_buffer_def split: option.split)

abbreviation now_sem :: "'p srd_decoder_inst \<Rightarrow> srd_term list \<Rightarrow> bool" where
  "now_sem di \<equiv> cond_sem (oldpin di) (sample_at di (unat (abs_cur_samplenum di))) 0"

lemma cond_sem_Nil [simp]: "\<not> cond_sem old new e []"
  by (simp add: cond_sem_def)

lemma eval_conditions_asa:
  "eval_conditions di conds j asa = (True, conds', di') \<Longrightarrow> asa"
proof (induction conds arbitrary: di j asa conds' di')
  case Nil
  then show ?case by simp
next
  case (Cons cond conds)
  then show ?case
    by (auto simp: Let_def split: prod.splits if_splits dest: Cons.IH)
qed

lemma eval_conditions_ok:
  assumes "in_chunk di" and "\<not> skip_zero di"
    and "\<forall>cond \<in> set conds. plain_cond (abs_cur_matched di) cond"
  shows "\<exists>asa' conds'. eval_conditions di conds j asa =
      (asa', conds', di\<lparr>match_array := match_array di OR match_mask j (map (now_sem di) conds)\<rparr>)
    \<and> (True \<notin> set (map (now_sem di) conds) \<longrightarrow> conds' = map (map bump_skip) conds
        \<and> (asa' \<longrightarrow> (\<forall>cond \<in> set conds. cond \<noteq> [] \<longrightarrow> const_blocked di cond)))"
  using assms
proof (induction conds arbitrary: di j asa)
  case Nil
  then show ?case by simp
next
  case (Cons cond conds)
  show ?case
  proof (cases "cond = []")
    case True
    from Cons.prems have p: "\<forall>cond \<in> set conds. plain_cond (abs_cur_matched di) cond" by simp
    from Cons.IH [OF Cons.prems(1,2) p, of "Suc j" asa] True show ?thesis by auto
  next
    case False
    obtain sa cond' where a: "all_terms_match di cond False = (now_sem di cond, sa, cond', di)"
      and a': "\<not> now_sem di cond \<longrightarrow> cond' = map bump_skip cond \<and> (sa \<longrightarrow> const_blocked di cond)"
      using all_terms_match_ok [OF Cons.prems(1,2) _ False, of False] Cons.prems(3) by auto
    let ?m = "if now_sem di cond then match_bit j else 0"
    let ?di2 = "di\<lparr>match_array := match_array di OR ?m\<rparr>"
    let ?asa1 = "\<not> now_sem di cond \<and> asa \<and> sa"
    obtain asa' conds' where
      r: "eval_conditions ?di2 conds (Suc j) ?asa1 = (asa', conds',
            ?di2\<lparr>match_array := match_array ?di2 OR match_mask (Suc j) (map (now_sem di) conds)\<rparr>)"
      and r': "True \<notin> set (map (now_sem di) conds) \<longrightarrow> conds' = map (map bump_skip) conds
        \<and> (asa' \<longrightarrow> (\<forall>cond \<in> set conds. cond \<noteq> [] \<longrightarrow> const_blocked di cond))"
      using Cons.IH [of ?di2 "Suc j" ?asa1] Cons.prems by auto
    have asa: "asa' \<longrightarrow> ?asa1"
      using eval_conditions_asa [of ?di2 conds "Suc j" ?asa1] r by (cases asa') simp_all
    have "eval_conditions di (cond # conds) j asa = (asa', cond' # conds',
        di\<lparr>match_array := match_array di OR match_mask j (map (now_sem di) (cond # conds))\<rparr>)"
      using False a r by (cases "now_sem di cond") (simp_all add: or.assoc)
    with a' r' asa show ?thesis by auto
  qed
qed

section \<open>The scan refines its specification\<close>

lemma bump_skip_type [simp]:
  "t_type (bump_skip t) = t_type t" "t_channel (bump_skip t) = t_channel t"
  "num_samples_to_skip (bump_skip t) = num_samples_to_skip t"
  by (simp_all add: bump_skip_def)

lemma unat_bump:
  fixes a b :: u64
  shows "a \<le> b \<Longrightarrow> a \<noteq> b \<Longrightarrow> unat (a + 1) = Suc (unat a)"
  by (rule unat_Suc_less [of a b]) simp

lemma cond_sem_bump:
  assumes "plain_cond cm cond" and "\<not> cond_sem old new 0 cond"
  shows "cond_sem old' new' (Suc e) cond = cond_sem old' new' e (map bump_skip cond)"
proof (cases "\<forall>t \<in> set cond. t_type t \<noteq> SRD_TERM_SKIP")
  case True
  then show ?thesis by (auto simp: cond_sem_def term_sem_def)
next
  case False
  with assms(1) obtain t where t: "cond = [t]" "t_type t = SRD_TERM_SKIP"
      "num_samples_already_skipped t \<le> num_samples_to_skip t"
    by (auto simp: plain_cond_def)
  with assms(2) have "num_samples_already_skipped t \<noteq> num_samples_to_skip t"
    by (auto simp: cond_sem_def term_sem_def)
  with t(3) have "unat (num_samples_already_skipped t + 1)
      = Suc (unat (num_samples_already_skipped t))" by (rule unat_bump)
  with t(1,2) show ?thesis by (simp add: cond_sem_def term_sem_def bump_skip_def)
qed

lemma plain_cond_bump:
  assumes "plain_cond cm cond" and "\<not> cond_sem old new 0 cond"
  shows "plain_cond False (map bump_skip cond)"
proof (cases "\<forall>t \<in> set cond. t_type t \<noteq> SRD_TERM_SKIP")
  case True
  then show ?thesis by (simp add: plain_cond_def)
next
  case False
  with assms(1) obtain t where t: "cond = [t]" "t_type t = SRD_TERM_SKIP"
      "num_samples_already_skipped t \<le> num_samples_to_skip t"
    by (auto simp: plain_cond_def)
  with assms(2) have ne: "num_samples_already_skipped t \<noteq> num_samples_to_skip t"
    by (auto simp: cond_sem_def term_sem_def)
  with t(3) have "unat (num_samples_already_skipped t + 1) \<le> unat (num_samples_to_skip t)"
    using unat_bump [OF t(3) ne] by (simp add: word_le_nat_alt word_unat_eq_iff)
  with t(1,2) show ?thesis by (simp add: plain_cond_def bump_skip_def word_le_nat_alt)
qed

lemma scan_spec_bump:
  assumes "\<forall>cond \<in> set conds. plain_cond cm cond \<and> \<not> cond_sem old new 0 cond"
  shows "scan_spec lv conds old' (Suc e) k n = scan_spec lv (map (map bump_skip) conds) old' e k n"
proof (induction n arbitrary: old' e k)
  case 0
  then show ?case by simp
next
  case (Suc n)
  have "map (cond_sem old' (lv k) (Suc e)) conds
      = map (cond_sem old' (lv k) e) (map (map bump_skip) conds)"
    using assms cond_sem_bump [of cm _ old new] by simp
  with Suc show ?case by (simp only: scan_spec.simps Let_def)
qed

lemma level_sem_stays_false:
  "\<not> level_sem ty old v \<Longrightarrow> ty \<noteq> SRD_TERM_NO_EDGE \<Longrightarrow> \<not> level_sem ty v v"
  by (cases ty) (auto simp: doubleton_eq_iff)

text \<open>A condition that fails on a constant channel fails for the rest of the chunk.\<close>

lemma const_blocked_forever:
  assumes b: "const_blocked di cond" and ok: "\<forall>t \<in> set cond. term_chan_ok di t"
  shows "\<not> cond_sem (if i = 0 then oldpin di else sample_at di (k + i - 1))
      (sample_at di (k + i)) e cond"
proof -
  from b obtain t where t: "t \<in> set cond" "t_type t \<noteq> SRD_TERM_SKIP"
      "\<not> chan_live di (t_channel t)"
      "\<not> level_sem (t_type t) (oldpin di (t_channel t)) (const_sample di (t_channel t))"
    by (auto simp: const_blocked_def)
  with ok have "t_type t \<noteq> SRD_TERM_NO_EDGE" by (auto simp: term_chan_ok_def)
  with t(4) have "\<not> level_sem (t_type t) (const_sample di (t_channel t)) (const_sample di (t_channel t))"
    by (rule level_sem_stays_false)
  with t show ?thesis
    by (auto simp: cond_sem_def term_sem_def sample_at_const intro!: bexI [of _ t])
qed

lemma scan_spec_const_blocked:
  assumes "\<forall>cond \<in> set conds. cond \<noteq> [] \<longrightarrow> const_blocked di cond"
    and "\<forall>cond \<in> set conds. \<forall>t \<in> set cond. term_chan_ok di t"
  shows "scan_spec (sample_at di) conds (oldpin di) e k n = None"
proof -
  have "\<not> cond_sem (if i = 0 then oldpin di else sample_at di (k + i - 1))
      (sample_at di (k + i)) (e + i) cond" if "cond \<in> set conds" for i cond
  proof (cases "cond = []")
    case False
    with that assms show ?thesis by (intro const_blocked_forever) auto
  qed simp
  then show ?thesis by (simp add: scan_spec_None_iff)
qed

text \<open>The state after a sample without a match.\<close>

lemma update_old_pins_view [simp]:
  "sample_at (update_old_pins_array di) = sample_at di"
  "chan_live (update_old_pins_array di) = chan_live di"
  "condition_list (update_old_pins_array di) = condition_list di"
  "match_array (update_old_pins_array di) = match_array di"
  "abs_cur_samplenum (update_old_pins_array di) = abs_cur_samplenum di"
  "abs_start_samplenum (update_old_pins_array di) = abs_start_samplenum di"
  "abs_end_samplenum (update_old_pins_array di) = abs_end_samplenum di"
  "skip_zero (update_old_pins_array di) = skip_zero di"
  "dec_channelmap (update_old_pins_array di) = dec_channelmap di"
  "dec_num_channels (update_old_pins_array di) = dec_num_channels di"
  by (subst update_old_pins_array_self,
      simp add: fun_eq_iff sample_at_def chan_live_def channel_buffer_def const_sample_def
        split: option.split)+

lemma update_old_pins_ok:
  assumes "pins_ok di"
  shows "pins_ok (update_old_pins_array di)"
    and "0 \<le> ch \<Longrightarrow> ch < int (dec_num_channels di) \<Longrightarrow>
      oldpin (update_old_pins_array di) ch = old_pin_sample di ch"
proof -
  obtain arr where arr: "old_pins_array di = Some arr" "length arr = dec_num_channels di"
      "dec_channelmap di \<noteq> None"
    using assms by (auto simp: pins_ok_def split: option.splits)
  then have e: "old_pins_array (update_old_pins_array di)
      = Some (update_range (dec_num_channels di) (\<lambda>i _. old_pin_sample di (int i)) arr)"
    by (auto simp: update_old_pins_array_def oldpins_array_seed_def Let_def)
  show "pins_ok (update_old_pins_array di)"
    using arr e by (simp add: pins_ok_def)
  show "0 \<le> ch \<Longrightarrow> ch < int (dec_num_channels di) \<Longrightarrow>
      oldpin (update_old_pins_array di) ch = old_pin_sample di ch"
    using arr e by (simp add: oldpin_def c_array_at_def nat_less_iff)
qed

lemma conds_ok_bump:
  assumes ok: "conds_ok di conds" and nm: "\<forall>cond \<in> set conds. \<not> now_sem di cond"
    and d: "\<not> abs_cur_matched d" "chan_live d = chan_live di"
      "dec_num_channels d = dec_num_channels di"
  shows "conds_ok d (map (map bump_skip) conds)"
  unfolding conds_ok_def
proof
  fix c assume "c \<in> set (map (map bump_skip) conds)"
  then obtain cond where c: "cond \<in> set conds" "c = map bump_skip cond" by auto
  then have "plain_cond False c"
    using ok nm plain_cond_bump unfolding conds_ok_def by blast
  moreover have "\<forall>t \<in> set c. term_chan_ok d t"
    using ok c d(2,3) by (auto simp: conds_ok_def term_chan_ok_def)
  ultimately show "plain_cond (abs_cur_matched d) c \<and> (\<forall>t \<in> set c. term_chan_ok d t)"
    using d(1) by simp
qed

text \<open>The instance after a sample without a match, one sample further.\<close>

definition unmatched_step :: "'p srd_decoder_inst \<Rightarrow> 'p srd_decoder_inst" where
  "unmatched_step di = (update_old_pins_array
      (di\<lparr>match_array := 0, condition_list := map (map bump_skip) (condition_list di)\<rparr>))
      \<lparr>abs_cur_matched := False, abs_cur_samplenum := abs_cur_samplenum di + 1\<rparr>"

lemma view_updates [simp]:
  "sample_at (di\<lparr>condition_list := x\<rparr>) = sample_at di"
  "chan_live (di\<lparr>condition_list := x\<rparr>) = chan_live di"
  "sample_at (di\<lparr>abs_cur_matched := b\<rparr>) = sample_at di"
  "chan_live (di\<lparr>abs_cur_matched := b\<rparr>) = chan_live di"
  "oldpin (di\<lparr>abs_cur_matched := b\<rparr>) = oldpin di"
  "sample_at (di\<lparr>abs_cur_samplenum := c\<rparr>) = sample_at di"
  "chan_live (di\<lparr>abs_cur_samplenum := c\<rparr>) = chan_live di"
  "oldpin (di\<lparr>abs_cur_samplenum := c\<rparr>) = oldpin di"
  by (simp_all add: fun_eq_iff sample_at_def chan_live_def channel_buffer_def const_sample_def
      oldpin_def split: option.split)

lemma pins_ok_updates [simp]:
  "pins_ok (di\<lparr>match_array := a\<rparr>) = pins_ok di"
  "pins_ok (di\<lparr>condition_list := x\<rparr>) = pins_ok di"
  "pins_ok (di\<lparr>abs_cur_matched := b\<rparr>) = pins_ok di"
  "pins_ok (di\<lparr>abs_cur_samplenum := c\<rparr>) = pins_ok di"
  by (simp_all add: pins_ok_def split: option.split)

lemma unmatched_step_view:
  "sample_at (unmatched_step di) = sample_at di"
  "chan_live (unmatched_step di) = chan_live di"
  "dec_num_channels (unmatched_step di) = dec_num_channels di"
  "condition_list (unmatched_step di) = map (map bump_skip) (condition_list di)"
  "abs_start_samplenum (unmatched_step di) = abs_start_samplenum di"
  "abs_end_samplenum (unmatched_step di) = abs_end_samplenum di"
  "abs_cur_samplenum (unmatched_step di) = abs_cur_samplenum di + 1"
  "match_array (unmatched_step di) = 0"
  "skip_zero (unmatched_step di) = skip_zero di"
  "\<not> abs_cur_matched (unmatched_step di)"
  by (simp_all add: unmatched_step_def)

lemma unmatched_step_pins:
  assumes "pins_ok di" and "in_chunk di"
  shows "pins_ok (unmatched_step di)"
    and "0 \<le> ch \<Longrightarrow> ch < int (dec_num_channels di) \<Longrightarrow>
      oldpin (unmatched_step di) ch = sample_at di (unat (abs_cur_samplenum di)) ch"
proof -
  let ?d = "di\<lparr>match_array := 0, condition_list := map (map bump_skip) (condition_list di)\<rparr>"
  have d: "pins_ok ?d" "in_chunk ?d" using assms by (simp_all add: in_chunk_def)
  show "pins_ok (unmatched_step di)"
    using update_old_pins_ok(1) [OF d(1)] by (simp add: unmatched_step_def)
  show "0 \<le> ch \<Longrightarrow> ch < int (dec_num_channels di) \<Longrightarrow>
      oldpin (unmatched_step di) ch = sample_at di (unat (abs_cur_samplenum di)) ch"
    using update_old_pins_ok(2) [OF d(1), of ch] old_pin_sample_at [OF d(2), of ch]
    by (simp add: unmatched_step_def)
qed

lemma scan_spec_unmatched_step:
  assumes ch: "in_chunk di" and p: "pins_ok di" and ok: "conds_ok di (condition_list di)"
    and nm: "\<forall>cond \<in> set (condition_list di). \<not> now_sem di cond"
  shows "scan_spec (sample_at di) (condition_list di) (oldpin di) 0 (unat (abs_cur_samplenum di)) (Suc n)
    = scan_spec (sample_at (unmatched_step di)) (condition_list (unmatched_step di))
        (oldpin (unmatched_step di)) 0 (Suc (unat (abs_cur_samplenum di))) n"
proof -
  let ?k = "unat (abs_cur_samplenum di)" and ?conds = "condition_list di"
  have b: "\<forall>cond \<in> set ?conds. plain_cond (abs_cur_matched di) cond \<and> \<not> now_sem di cond"
    using ok nm by (simp add: conds_ok_def)
  have "scan_spec (sample_at di) ?conds (oldpin di) 0 ?k (Suc n)
      = scan_spec (sample_at di) ?conds (sample_at di ?k) (Suc 0) (Suc ?k) n"
    using nm by (auto simp: Let_def)
  also have "\<dots> = scan_spec (sample_at di) (map (map bump_skip) ?conds) (sample_at di ?k) 0 (Suc ?k) n"
    by (rule scan_spec_bump [OF b])
  also have "\<dots> = scan_spec (sample_at di) (map (map bump_skip) ?conds)
      (oldpin (unmatched_step di)) 0 (Suc ?k) n"
    using ok unmatched_step_pins(2) [OF p ch]
    by (intro scan_spec_old_cong) (auto simp: conds_ok_def term_chan_ok_def)
  finally show ?thesis by (simp add: unmatched_step_view)
qed

text \<open>What a scan needs of the instance.\<close>

definition scan_pre :: "'p srd_decoder_inst \<Rightarrow> bool" where
  "scan_pre di \<longleftrightarrow> abs_start_samplenum di \<le> abs_cur_samplenum di \<and> \<not> skip_zero di
     \<and> pins_ok di \<and> conds_ok di (condition_list di) \<and> match_array di = 0"

lemma scan_pre_step:
  assumes "scan_pre di" and lt: "abs_cur_samplenum di < abs_end_samplenum di"
    and nm: "\<forall>cond \<in> set (condition_list di). \<not> now_sem di cond"
  shows "scan_pre (unmatched_step di)"
proof -
  have ch: "in_chunk di" and p: "pins_ok di" and ok: "conds_ok di (condition_list di)"
    using assms by (simp_all add: scan_pre_def in_chunk_def)
  have "unat (abs_cur_samplenum di + 1) = Suc (unat (abs_cur_samplenum di))"
    by (rule unat_Suc_less [OF lt])
  then have "abs_start_samplenum di \<le> abs_cur_samplenum di + 1"
    using assms(1) by (simp add: scan_pre_def word_le_nat_alt)
  then show ?thesis
    using assms(1) unmatched_step_pins(1) [OF p ch] conds_ok_bump [OF ok nm, of "unmatched_step di"]
    by (simp add: scan_pre_def unmatched_step_view)
qed

lemma scan_sample_ok:
  assumes "scan_pre di" and "in_chunk di"
  obtains asa' r where "scan_sample di asa = (asa', r)"
    and "abs_cur_matched r \<longleftrightarrow> (\<exists>cond \<in> set (condition_list di). now_sem di cond)"
    and "match_array r = match_mask 0 (map (now_sem di) (condition_list di))"
    and "abs_cur_samplenum r = abs_cur_samplenum di" and "abs_end_samplenum r = abs_end_samplenum di"
    and "\<forall>cond \<in> set (condition_list di). \<not> now_sem di cond \<Longrightarrow>
      r\<lparr>abs_cur_samplenum := abs_cur_samplenum di + 1\<rparr> = unmatched_step di"
    and "\<forall>cond \<in> set (condition_list di). \<not> now_sem di cond \<Longrightarrow> asa' \<Longrightarrow>
      \<forall>cond \<in> set (condition_list di). cond \<noteq> [] \<longrightarrow> const_blocked di cond"
proof -
  let ?conds = "condition_list di"
  let ?ms = "map (now_sem di) ?conds"
  have pl: "\<forall>cond \<in> set ?conds. plain_cond (abs_cur_matched di) cond"
    using assms(1) by (simp add: scan_pre_def conds_ok_def)
  obtain asa' conds' where
    ev: "eval_conditions di ?conds 0 asa = (asa', conds', di\<lparr>match_array := match_mask 0 ?ms\<rparr>)"
    and ev': "True \<notin> set ?ms \<Longrightarrow> conds' = map (map bump_skip) ?conds"
      "True \<notin> set ?ms \<Longrightarrow> asa' \<Longrightarrow> \<forall>cond \<in> set ?conds. cond \<noteq> [] \<longrightarrow> const_blocked di cond"
    using eval_conditions_ok [OF assms(2) _ pl, of 0 asa] assms(1) by (auto simp: scan_pre_def)
  define r where "r = (update_old_pins_array
    (di\<lparr>match_array := match_mask 0 ?ms, condition_list := conds'\<rparr>))
      \<lparr>abs_cur_matched := (match_mask 0 ?ms \<noteq> 0)\<rparr>"
  have m: "match_mask 0 ?ms = 0 \<longleftrightarrow> (\<forall>cond \<in> set ?conds. \<not> now_sem di cond)"
    by (simp only: match_mask_eq_0_iff) auto
  show thesis
  proof (rule that [of asa' r])
    show "scan_sample di asa = (asa', r)" using ev by (simp add: scan_sample_def r_def)
    show "abs_cur_matched r \<longleftrightarrow> (\<exists>cond \<in> set ?conds. now_sem di cond)"
      using m by (simp add: r_def)
    assume nm: "\<forall>cond \<in> set ?conds. \<not> now_sem di cond"
    then have t: "True \<notin> set ?ms" by auto
    have mz: "match_mask 0 ?ms = 0" using m nm by blast
    show "r\<lparr>abs_cur_samplenum := abs_cur_samplenum di + 1\<rparr> = unmatched_step di"
      using ev'(1) [OF t] by (simp only: r_def unmatched_step_def mz) simp
    show "asa' \<Longrightarrow> \<forall>cond \<in> set ?conds. cond \<noteq> [] \<longrightarrow> const_blocked di cond"
      using ev'(2) [OF t] .
  qed (simp_all add: r_def)
qed

text \<open>One iteration: a hit ends the scan, a miss moves on or jumps to the end.\<close>

lemma find_match_loop_hit:
  assumes "scan_pre di" and "in_chunk di" and "\<exists>cond \<in> set (condition_list di). now_sem di cond"
  shows "fst (find_match_loop di asa)
    \<and> abs_cur_samplenum (snd (find_match_loop di asa)) = abs_cur_samplenum di
    \<and> match_array (snd (find_match_loop di asa)) = match_mask 0 (map (now_sem di) (condition_list di))"
proof -
  obtain asa' r where r: "scan_sample di asa = (asa', r)"
    "abs_cur_matched r" "match_array r = match_mask 0 (map (now_sem di) (condition_list di))"
    "abs_cur_samplenum r = abs_cur_samplenum di"
    using scan_sample_ok [OF assms(1,2), of asa] assms(3) by metis
  then have "find_match_loop di asa = (True, r)"
    using assms(2) by (subst find_match_loop.simps) (simp add: in_chunk_def)
  with r show ?thesis by simp
qed

lemma find_match_loop_miss:
  assumes "scan_pre di" and ch: "in_chunk di"
    and nm: "\<forall>cond \<in> set (condition_list di). \<not> now_sem di cond"
  shows "find_match_loop di asa = find_match_loop (unmatched_step di) False
    \<or> (\<forall>cond \<in> set (condition_list di). cond \<noteq> [] \<longrightarrow> const_blocked di cond)
      \<and> \<not> fst (find_match_loop di asa)
      \<and> abs_cur_samplenum (snd (find_match_loop di asa)) = abs_end_samplenum di"
proof -
  obtain asa' r where r: "scan_sample di asa = (asa', r)" "\<not> abs_cur_matched r"
    "abs_cur_samplenum r = abs_cur_samplenum di" "abs_end_samplenum r = abs_end_samplenum di"
    "r\<lparr>abs_cur_samplenum := abs_cur_samplenum di + 1\<rparr> = unmatched_step di"
    "asa' \<Longrightarrow> \<forall>cond \<in> set (condition_list di). cond \<noteq> [] \<longrightarrow> const_blocked di cond"
    using scan_sample_ok [OF assms(1,2), of asa] nm by metis
  have lt: "abs_cur_samplenum di < abs_end_samplenum di" using ch by (simp add: in_chunk_def)
  show ?thesis
  proof (cases asa')
    case True
    have "find_match_loop di asa
        = find_match_loop (r\<lparr>abs_cur_samplenum := abs_end_samplenum di\<rparr>) True"
      using lt r(1,2,4) True by (subst find_match_loop.simps) simp
    also have "\<dots> = (False, r\<lparr>abs_cur_samplenum := abs_end_samplenum di\<rparr>)"
      using r(4) by (subst find_match_loop.simps) simp
    finally show ?thesis using r(6) [OF True] by simp
  next
    case False
    then have "find_match_loop di asa = find_match_loop (unmatched_step di) False"
      using lt r(1,2,3,5) by (subst find_match_loop.simps) simp
    then show ?thesis ..
  qed
qed

lemma find_match_loop_outside:
  "\<not> abs_cur_samplenum di < abs_end_samplenum di \<Longrightarrow> find_match_loop di asa = (False, di)"
  by (subst find_match_loop.simps) simp

text \<open>The outcome of a scan, as a relation between the result and the specification.\<close>

definition scan_outcome ::
    "'p srd_decoder_inst \<Rightarrow> (nat \<times> bool list) option \<Rightarrow> bool \<times> 'p srd_decoder_inst \<Rightarrow> bool" where
  "scan_outcome di spec r \<longleftrightarrow>
     (case spec of
        None \<Rightarrow> \<not> fst r \<and> abs_cur_samplenum (snd r) = max (abs_cur_samplenum di) (abs_end_samplenum di)
      | Some (j, ms) \<Rightarrow> fst r \<and> unat (abs_cur_samplenum (snd r)) = j
          \<and> match_array (snd r) = match_mask 0 ms)"

definition samples_left :: "'p srd_decoder_inst \<Rightarrow> nat" where
  "samples_left di = unat (abs_end_samplenum di) - unat (abs_cur_samplenum di)"

definition spec_of :: "'p srd_decoder_inst \<Rightarrow> (nat \<times> bool list) option" where
  "spec_of di = scan_spec (sample_at di) (condition_list di) (oldpin di) 0
     (unat (abs_cur_samplenum di)) (samples_left di)"

lemma samples_left_Suc:
  assumes "samples_left di = Suc n"
  shows "abs_cur_samplenum di < abs_end_samplenum di"
    and "unat (abs_cur_samplenum di + 1) = Suc (unat (abs_cur_samplenum di))"
    and "samples_left (unmatched_step di) = n"
proof -
  show lt: "abs_cur_samplenum di < abs_end_samplenum di"
    using assms by (simp add: samples_left_def word_less_nat_alt)
  show u: "unat (abs_cur_samplenum di + 1) = Suc (unat (abs_cur_samplenum di))"
    by (rule unat_Suc_less [OF lt])
  show "samples_left (unmatched_step di) = n"
    using assms u by (simp add: samples_left_def unmatched_step_view)
qed

lemma spec_of_miss:
  assumes pre: "scan_pre di" and n: "samples_left di = Suc n"
    and nm: "\<forall>cond \<in> set (condition_list di). \<not> now_sem di cond"
  shows "spec_of di = spec_of (unmatched_step di)"
proof -
  note s = samples_left_Suc [OF n]
  have "in_chunk di" "pins_ok di" "conds_ok di (condition_list di)"
    using pre s(1) by (simp_all add: scan_pre_def in_chunk_def)
  from scan_spec_unmatched_step [OF this nm, of n] show ?thesis
    using n s by (simp add: spec_of_def unmatched_step_view(7) del: scan_spec.simps)
qed

lemma find_match_loop_refines:
  "scan_pre di \<Longrightarrow> scan_outcome di (spec_of di) (find_match_loop di asa)"
proof (induction "samples_left di" arbitrary: di asa)
  case 0
  then have "\<not> abs_cur_samplenum di < abs_end_samplenum di"
    by (simp add: samples_left_def word_less_nat_alt)
  moreover have "spec_of di = None" using 0(1) by (simp add: spec_of_def)
  ultimately show ?case
    by (simp add: scan_outcome_def find_match_loop_outside max_def not_less)
next
  case (Suc n)
  have n: "samples_left di = Suc n" using Suc(2) by simp
  note s = samples_left_Suc [OF n]
  have ch: "in_chunk di" using Suc.prems s(1) by (simp add: scan_pre_def in_chunk_def)
  show ?case
  proof (cases "\<exists>cond \<in> set (condition_list di). now_sem di cond")
    case True
    then have "spec_of di = Some (unat (abs_cur_samplenum di), map (now_sem di) (condition_list di))"
      using n by (auto simp: spec_of_def Let_def)
    with find_match_loop_hit [OF Suc.prems ch True] show ?thesis by (simp add: scan_outcome_def)
  next
    case False
    then have nm: "\<forall>cond \<in> set (condition_list di). \<not> now_sem di cond" by blast
    from find_match_loop_miss [OF Suc.prems ch nm] show ?thesis
    proof
      assume step: "find_match_loop di asa = find_match_loop (unmatched_step di) False"
      have "scan_outcome (unmatched_step di) (spec_of (unmatched_step di))
          (find_match_loop (unmatched_step di) False)"
        using Suc.hyps(1) [of "unmatched_step di" False] s(3) scan_pre_step [OF Suc.prems s(1) nm]
        by simp
      moreover have "max (abs_cur_samplenum di + 1) (abs_end_samplenum di)
          = max (abs_cur_samplenum di) (abs_end_samplenum di)"
        using s(1,2) by (simp add: max_def word_le_nat_alt word_less_nat_alt)
      ultimately show ?thesis
        using step spec_of_miss [OF Suc.prems n nm]
        by (cases "spec_of (unmatched_step di)") (auto simp: scan_outcome_def unmatched_step_view)
    next
      assume b: "(\<forall>cond \<in> set (condition_list di). cond \<noteq> [] \<longrightarrow> const_blocked di cond)
        \<and> \<not> fst (find_match_loop di asa)
        \<and> abs_cur_samplenum (snd (find_match_loop di asa)) = abs_end_samplenum di"
      have "\<forall>cond \<in> set (condition_list di). \<forall>t \<in> set cond. term_chan_ok di t"
        using Suc.prems by (simp add: scan_pre_def conds_ok_def)
      with b have "spec_of di = None" unfolding spec_of_def by (intro scan_spec_const_blocked) auto
      with b less_imp_le [OF s(1)] show ?thesis by (simp add: scan_outcome_def max_def)
    qed
  qed
qed

section \<open>The wait finds the first match\<close>

text \<open>
  The specification of a scan in terms of \<open>cond_holds_at\<close>: the samples of the chunk
  from the current one on, and the first of them at which a condition holds.
\<close>

definition holds_from :: "'p srd_decoder_inst \<Rightarrow> nat \<Rightarrow> srd_term list \<Rightarrow> bool" where
  "holds_from di k cond =
     cond_holds_at (sample_at di) (oldpin di) (unat (abs_cur_samplenum di)) k cond"

lemma spec_of_None:
  assumes "spec_of di = None" and "unat (abs_cur_samplenum di) \<le> k"
    and "k < unat (abs_end_samplenum di)" and "cond \<in> set (condition_list di)"
  shows "\<not> holds_from di k cond"
proof -
  let ?k0 = "unat (abs_cur_samplenum di)"
  have "k - ?k0 < samples_left di" using assms(2,3) by (simp add: samples_left_def)
  with assms(1,2,4) show ?thesis
    by (auto simp: spec_of_def scan_spec_None_iff holds_from_def cond_holds_at_def
        dest!: spec [of _ "k - ?k0"])
qed

lemma spec_of_Some:
  assumes "spec_of di = Some (j, ms)"
  shows "unat (abs_cur_samplenum di) \<le> j" and "j < unat (abs_end_samplenum di)"
    and "ms = map (holds_from di j) (condition_list di)" and "True \<in> set ms"
    and "unat (abs_cur_samplenum di) \<le> k \<Longrightarrow> k < j \<Longrightarrow> cond \<in> set (condition_list di) \<Longrightarrow>
      \<not> holds_from di k cond"
proof -
  let ?k0 = "unat (abs_cur_samplenum di)"
  note s = scan_spec_Some [OF assms [unfolded spec_of_def]]
  show "?k0 \<le> j" "j < unat (abs_end_samplenum di)" "True \<in> set ms"
    using s by (auto simp: samples_left_def)
  show "ms = map (holds_from di j) (condition_list di)"
    using s by (simp add: holds_from_def cond_holds_at_def)
  assume k: "?k0 \<le> k" "k < j" "cond \<in> set (condition_list di)"
  then have "k - ?k0 < j - ?k0" by simp
  with s k show "\<not> holds_from di k cond"
    by (auto simp: scan_spec_None_iff holds_from_def cond_holds_at_def dest!: spec [of _ "k - ?k0"])
qed

lemma match_mask_bit:
  assumes "length conds \<le> 31" and "j < length conds"
  shows "bit (match_mask 0 (map P conds)) j \<longleftrightarrow> P (conds ! j)"
  using assms by (simp add: bit_match_mask)

text \<open>The instance's wait call is a real scan when some condition is not NULL.\<close>

lemma process_samples_scan:
  assumes "\<not> want_wait_terminate di" and "have_non_null_conds di" and "0 < fuel"
  shows "process_samples_until_condition_match fuel di = Some (find_match_loop (scan_start di) True)"
proof -
  have "condition_list di \<noteq> []" using assms(2) by (auto simp: have_non_null_conds_def)
  then have "find_match di = find_match_loop (scan_start di) True"
    using assms(2) by (simp add: find_match_def)
  moreover obtain f where "fuel = Suc f" using assms(3) by (cases fuel) auto
  ultimately show ?thesis
    using assms(1) process_samples_loop_one [of f di]
    by (simp add: process_samples_until_condition_match_def del: process_samples_loop.simps)
qed

text \<open>
  C1: A call of \<^verbatim>\<open>process_samples_until_condition_match\<close> with a real condition list
  returns after one pass of its loop. It reports a match exactly if some condition holds
  at some sample from the scan's start to the end of the chunk; then the current sample
  is the first such sample, and bit \<open>j\<close> of the match array says whether condition
  \<open>j\<close> holds there (for at most 31 conditions). Without a match the chunk is used up.
\<close>

theorem wait_finds_first_match:
  assumes go: "\<not> want_wait_terminate di" "have_non_null_conds di" "0 < fuel"
    and pre: "scan_pre (scan_start di)"
    and few: "length (condition_list (scan_start di)) \<le> 31"
  shows "\<exists>found di'. process_samples_until_condition_match fuel di = Some (found, di')
    \<and> (found \<longleftrightarrow> (\<exists>k cond. unat (abs_cur_samplenum (scan_start di)) \<le> k
          \<and> k < unat (abs_end_samplenum (scan_start di))
          \<and> cond \<in> set (condition_list (scan_start di)) \<and> holds_from (scan_start di) k cond))
    \<and> (found \<longrightarrow> unat (abs_cur_samplenum (scan_start di)) \<le> unat (abs_cur_samplenum di')
          \<and> unat (abs_cur_samplenum di') < unat (abs_end_samplenum (scan_start di))
          \<and> (\<forall>k cond. unat (abs_cur_samplenum (scan_start di)) \<le> k
               \<longrightarrow> k < unat (abs_cur_samplenum di')
               \<longrightarrow> cond \<in> set (condition_list (scan_start di)) \<longrightarrow> \<not> holds_from (scan_start di) k cond)
          \<and> (\<forall>j < length (condition_list (scan_start di)). bit (match_array di') j \<longleftrightarrow>
               holds_from (scan_start di) (unat (abs_cur_samplenum di')) (condition_list (scan_start di) ! j)))
    \<and> (\<not> found \<longrightarrow> abs_cur_samplenum di'
          = max (abs_cur_samplenum (scan_start di)) (abs_end_samplenum (scan_start di)))"
proof -
  let ?d = "scan_start di"
  obtain found di' where r: "find_match_loop ?d True = (found, di')"
    by (cases "find_match_loop ?d True")
  have p: "process_samples_until_condition_match fuel di = Some (found, di')"
    using process_samples_scan [OF go] r by simp
  note o = find_match_loop_refines [OF pre, of True, unfolded r]
  show ?thesis
  proof (cases "spec_of ?d")
    case None
    with o have "\<not> found" "abs_cur_samplenum di' = max (abs_cur_samplenum ?d) (abs_end_samplenum ?d)"
      by (simp_all add: scan_outcome_def)
    with p spec_of_None [OF None] show ?thesis by blast
  next
    case (Some jm)
    obtain j ms where jm: "spec_of ?d = Some (j, ms)" using Some by (cases jm) simp
    note s = spec_of_Some [OF jm]
    from o jm have f: "found" "unat (abs_cur_samplenum di') = j" "match_array di' = match_mask 0 ms"
      by (simp_all add: scan_outcome_def)
    from s(3,4) obtain c where "c \<in> set (condition_list ?d)" "holds_from ?d j c" by auto
    with s(1,2) have "\<exists>k cond. unat (abs_cur_samplenum ?d) \<le> k \<and> k < unat (abs_end_samplenum ?d)
        \<and> cond \<in> set (condition_list ?d) \<and> holds_from ?d k cond" by blast
    moreover have "bit (match_array di') i \<longleftrightarrow> holds_from ?d j (condition_list ?d ! i)"
      if "i < length (condition_list ?d)" for i
      using that few f(3) s(3) by (simp add: match_mask_bit)
    ultimately show ?thesis using p f s(1,2,5) by blast
  qed
qed

text \<open>An instance with one channel and eight samples 0,0,0,1,1,0,0,0 that waits for a rise.\<close>

definition example_inst :: "unit srd_decoder_inst" where
  "example_inst = (malloc0_inst blank_decoder 0)\<lparr>dec_num_channels := 1, dec_channelmap := Some [0],
     old_pins_array := Some [0], abs_end_samplenum := 8, inbuf := Some (\<lambda>ch. Some (\<lambda>i. 24)),
     condition_list := [[\<lparr>t_type = SRD_TERM_RISING_EDGE, t_channel = 0,
       num_samples_to_skip = 0, num_samples_already_skipped = 0\<rparr>]]\<rparr>"

lemma example_inst_ready:
  "\<not> want_wait_terminate example_inst" "have_non_null_conds example_inst"
  "scan_start example_inst = example_inst" "scan_pre example_inst"
  "condition_list example_inst = [[\<lparr>t_type = SRD_TERM_RISING_EDGE, t_channel = 0,
       num_samples_to_skip = 0, num_samples_already_skipped = 0\<rparr>]]"
  by (simp_all add: example_inst_def malloc0_inst_def have_non_null_conds_def scan_start_def
      advance_past_match_def scan_pre_def pins_ok_def conds_ok_def plain_cond_def term_chan_ok_def)

theorem wait_finds_first_match_witness:
  "\<exists>found di'. process_samples_until_condition_match 1 example_inst = Some (found, di')
    \<and> (found \<longrightarrow> unat (abs_cur_samplenum di') < unat (abs_end_samplenum example_inst))"
  using wait_finds_first_match [of example_inst 1] example_inst_ready by auto

section \<open>Chunk boundaries\<close>

definition all_live :: "'p srd_decoder_inst \<Rightarrow> bool" where
  "all_live di \<longleftrightarrow> (\<forall>cond \<in> set (condition_list di). \<forall>t \<in> set cond.
     t_type t \<noteq> SRD_TERM_SKIP \<longrightarrow> chan_live di (t_channel t))"

lemma all_live_step: "all_live di \<Longrightarrow> all_live (unmatched_step di)"
  by (simp add: all_live_def unmatched_step_view)

lemma all_live_not_blocked: "all_live di \<Longrightarrow> cond \<in> set (condition_list di) \<Longrightarrow> \<not> const_blocked di cond"
  by (auto simp: all_live_def const_blocked_def)

text \<open>Without a match a scan of live channels steps through every sample.\<close>

lemma find_match_loop_unmatched_state:
  assumes "scan_pre di" and "all_live di" and "have_non_null_conds di" and "spec_of di = None"
  shows "find_match_loop di asa = (False, (unmatched_step ^^ samples_left di) di)"
  using assms
proof (induction "samples_left di" arbitrary: di asa)
  case 0
  then show ?case
    by (simp add: find_match_loop_outside samples_left_def word_less_nat_alt)
next
  case (Suc n)
  have n: "samples_left di = Suc n" using Suc(2) by simp
  note s = samples_left_Suc [OF n]
  have ch: "in_chunk di" using Suc.prems(1) s(1) by (simp add: scan_pre_def in_chunk_def)
  have nm: "\<forall>cond \<in> set (condition_list di). \<not> now_sem di cond"
    using Suc.prems(4) n by (auto simp: spec_of_def Let_def split: if_splits)
  have "\<exists>cond \<in> set (condition_list di). cond \<noteq> [] \<and> \<not> const_blocked di cond"
    using Suc.prems(2,3) all_live_not_blocked by (auto simp: have_non_null_conds_def)
  with find_match_loop_miss [OF Suc.prems(1) ch nm]
  have "find_match_loop di asa = find_match_loop (unmatched_step di) False" by blast
  also have "\<dots> = (False, (unmatched_step ^^ n) (unmatched_step di))"
  proof -
    have "have_non_null_conds (unmatched_step di)"
      using Suc.prems(3) by (simp add: have_non_null_conds_def unmatched_step_view)
    moreover have "spec_of (unmatched_step di) = None"
      using spec_of_miss [OF Suc.prems(1) n nm] Suc.prems(4) by simp
    ultimately show ?thesis
      using Suc(1) [of "unmatched_step di" False] s(3) scan_pre_step [OF Suc.prems(1) s(1) nm]
        all_live_step [OF Suc.prems(2)] by simp
  qed
  finally show ?case using n by (simp add: funpow_swap1)
qed

text \<open>The state it leaves: counters, previous pins and position.\<close>

lemma unmatched_steps:
  assumes "scan_pre di" and "spec_of di = None" and "abs_cur_samplenum di \<le> abs_end_samplenum di"
  shows "scan_spec lv (condition_list di) old (samples_left di) k n
      = scan_spec lv (condition_list ((unmatched_step ^^ samples_left di) di)) old 0 k n
    \<and> scan_pre ((unmatched_step ^^ samples_left di) di)
    \<and> (\<forall>ch. 0 \<le> ch \<longrightarrow> ch < int (dec_num_channels di) \<longrightarrow>
        oldpin ((unmatched_step ^^ samples_left di) di) ch =
          (if samples_left di = 0 then oldpin di ch
           else sample_at di (unat (abs_end_samplenum di) - 1) ch))
    \<and> abs_cur_samplenum ((unmatched_step ^^ samples_left di) di) = abs_end_samplenum di
    \<and> dec_num_channels ((unmatched_step ^^ samples_left di) di) = dec_num_channels di
    \<and> map (map t_type) (condition_list ((unmatched_step ^^ samples_left di) di))
        = map (map t_type) (condition_list di)
    \<and> map (map t_channel) (condition_list ((unmatched_step ^^ samples_left di) di))
        = map (map t_channel) (condition_list di)"
  using assms
proof (induction "samples_left di" arbitrary: di)
  case 0
  then have "abs_cur_samplenum di = abs_end_samplenum di"
    by (simp add: samples_left_def word_le_nat_alt word_unat_eq_iff)
  with 0 show ?case by simp
next
  case (Suc m)
  let ?d = "unmatched_step di"
  have n: "samples_left di = Suc m" using Suc(2) by simp
  note s = samples_left_Suc [OF n]
  have ch: "in_chunk di" using Suc.prems(1) s(1) by (simp add: scan_pre_def in_chunk_def)
  have p: "pins_ok di" and ok: "conds_ok di (condition_list di)"
    using Suc.prems(1) by (simp_all add: scan_pre_def)
  have nm: "\<forall>cond \<in> set (condition_list di). \<not> now_sem di cond"
    using Suc.prems(2) n by (auto simp: spec_of_def Let_def split: if_splits)
  have "abs_cur_samplenum ?d \<le> abs_end_samplenum ?d"
    using s(1,2) by (simp add: unmatched_step_view word_le_nat_alt word_less_nat_alt)
  moreover have "spec_of ?d = None" using spec_of_miss [OF Suc.prems(1) n nm] Suc.prems(2) by simp
  ultimately have IH:
    "scan_spec lv (condition_list ?d) old m k n = scan_spec lv (condition_list ((unmatched_step ^^ m) ?d)) old 0 k n"
    "scan_pre ((unmatched_step ^^ m) ?d)"
    "\<And>ch. 0 \<le> ch \<Longrightarrow> ch < int (dec_num_channels di) \<Longrightarrow> oldpin ((unmatched_step ^^ m) ?d) ch =
       (if m = 0 then oldpin ?d ch else sample_at di (unat (abs_end_samplenum di) - 1) ch)"
    "abs_cur_samplenum ((unmatched_step ^^ m) ?d) = abs_end_samplenum di"
    "dec_num_channels ((unmatched_step ^^ m) ?d) = dec_num_channels di"
    "map (map t_type) (condition_list ((unmatched_step ^^ m) ?d)) = map (map t_type) (condition_list ?d)"
    "map (map t_channel) (condition_list ((unmatched_step ^^ m) ?d)) = map (map t_channel) (condition_list ?d)"
    using Suc(1) [of ?d] s(3) scan_pre_step [OF Suc.prems(1) s(1) nm]
    by (simp_all add: unmatched_step_view)
  have b: "\<forall>cond \<in> set (condition_list di). plain_cond (abs_cur_matched di) cond \<and> \<not> now_sem di cond"
    using ok nm by (simp add: conds_ok_def)
  have e1: "m = 0 \<Longrightarrow> unat (abs_end_samplenum di) - 1 = unat (abs_cur_samplenum di)"
    using n by (simp add: samples_left_def)
  have c: "condition_list ?d = map (map bump_skip) (condition_list di)"
    by (simp add: unmatched_step_view)
  have f: "(unmatched_step ^^ Suc m) di = (unmatched_step ^^ m) ?d" by (simp add: funpow_swap1)
  show ?case
    unfolding n f
    using IH c scan_spec_bump [OF b, of lv old m k n] e1 unmatched_step_pins(2) [OF p ch]
    by (simp add: comp_def)
qed

lemma scan_spec_lv_cong:
  assumes "\<forall>i < n. \<forall>cond \<in> set conds. \<forall>t \<in> set cond. t_type t \<noteq> SRD_TERM_SKIP \<longrightarrow>
      lv (k + i) (t_channel t) = lv' (k + i) (t_channel t)"
    and "\<forall>cond \<in> set conds. \<forall>t \<in> set cond. t_type t \<noteq> SRD_TERM_SKIP \<longrightarrow>
      old (t_channel t) = old' (t_channel t)"
  shows "scan_spec lv conds old e k n = scan_spec lv' conds old' e k n"
  using assms
proof (induction n arbitrary: old old' e k)
  case 0
  then show ?case by simp
next
  case (Suc n)
  have k: "\<forall>cond \<in> set conds. \<forall>t \<in> set cond. t_type t \<noteq> SRD_TERM_SKIP \<longrightarrow>
      lv k (t_channel t) = lv' k (t_channel t)"
    using Suc.prems(1) by (auto dest: spec [of _ 0])
  have "\<forall>i < n. \<forall>cond \<in> set conds. \<forall>t \<in> set cond. t_type t \<noteq> SRD_TERM_SKIP \<longrightarrow>
      lv (Suc k + i) (t_channel t) = lv' (Suc k + i) (t_channel t)"
    using Suc.prems(1) by (auto dest: spec [of _ "Suc _"])
  from Suc.IH [OF this k] have IH: "scan_spec lv conds (lv k) (Suc e) (Suc k) n
      = scan_spec lv' conds (lv' k) (Suc e) (Suc k) n" .
  have "map (cond_sem old (lv k) e) conds = map (cond_sem old' (lv' k) e) conds"
    using Suc.prems(2) k by (auto intro!: cond_sem_cong)
  then show ?case using IH by (simp only: scan_spec.simps)
qed

text \<open>Two instances on the same waveform: one sees samples up to \<open>m\<close>, one up to the end.\<close>

definition agrees_on ::
    "'p srd_decoder_inst \<Rightarrow> 'p srd_decoder_inst \<Rightarrow> nat \<Rightarrow> nat \<Rightarrow> bool" where
  "agrees_on di dj a b \<longleftrightarrow> (\<forall>k ch. a \<le> k \<longrightarrow> k < b \<longrightarrow> sample_at di k ch = sample_at dj k ch)"

text \<open>\<^verbatim>\<open>srd_inst_decode\<close> hands the instance its next chunk through these fields.\<close>

definition load_chunk ::
    "u64 \<Rightarrow> u64 \<Rightarrow> (int \<Rightarrow> chan_mem option) option \<Rightarrow> (int \<Rightarrow> u8) option \<Rightarrow> u64 \<Rightarrow>
     'p srd_decoder_inst \<Rightarrow> 'p srd_decoder_inst" where
  "load_chunk s e ib ic len di = di\<lparr>abs_start_samplenum := s, abs_end_samplenum := e,
     inbuf := ib, inbuf_const := ic, inbuflen := len\<rparr>"

lemma load_chunk_view [simp]:
  "condition_list (load_chunk s e ib ic len di) = condition_list di"
  "oldpin (load_chunk s e ib ic len di) = oldpin di"
  "abs_cur_samplenum (load_chunk s e ib ic len di) = abs_cur_samplenum di"
  "abs_start_samplenum (load_chunk s e ib ic len di) = s"
  "abs_end_samplenum (load_chunk s e ib ic len di) = e"
  "match_array (load_chunk s e ib ic len di) = match_array di"
  "pins_ok (load_chunk s e ib ic len di) = pins_ok di"
  "dec_num_channels (load_chunk s e ib ic len di) = dec_num_channels di"
  "skip_zero (load_chunk s e ib ic len di) = skip_zero di"
  "abs_cur_matched (load_chunk s e ib ic len di) = abs_cur_matched di"
  by (simp_all add: load_chunk_def oldpin_def pins_ok_def fun_eq_iff split: option.split)

lemma spec_of_append:
  assumes pre: "scan_pre d1" and none: "spec_of d1 = None"
    and le: "abs_cur_samplenum d1 \<le> abs_end_samplenum d1" "abs_end_samplenum d1 \<le> abs_end_samplenum d12"
    and same: "condition_list d12 = condition_list d1" "oldpin d12 = oldpin d1"
      "abs_cur_samplenum d12 = abs_cur_samplenum d1"
    and a1: "agrees_on d12 d1 (unat (abs_cur_samplenum d1)) (unat (abs_end_samplenum d1))"
    and d2: "condition_list d2 = condition_list ((unmatched_step ^^ samples_left d1) d1)"
      "oldpin d2 = oldpin ((unmatched_step ^^ samples_left d1) d1)"
      "abs_cur_samplenum d2 = abs_end_samplenum d1" "abs_end_samplenum d2 = abs_end_samplenum d12"
    and a2: "agrees_on d12 d2 (unat (abs_end_samplenum d1)) (unat (abs_end_samplenum d12))"
  shows "spec_of d12 = spec_of d2"
proof -
  let ?k = "unat (abs_cur_samplenum d1)" and ?m = "unat (abs_end_samplenum d1)"
  let ?c = "condition_list d1" and ?n1 = "samples_left d1" and ?n2 = "samples_left d2"
  let ?u = "(unmatched_step ^^ ?n1) d1"
  have len: "samples_left d12 = ?n1 + ?n2" "?k + ?n1 = ?m"
    using le same(3) d2(3,4) by (simp_all add: samples_left_def word_le_nat_alt)
  have ok: "\<forall>cond \<in> set ?c. \<forall>t \<in> set cond. term_chan_ok d1 t"
    using pre by (simp add: scan_pre_def conds_ok_def)
  have first: "scan_spec (sample_at d12) ?c (oldpin d1) 0 ?k ?n1 = None"
    using none a1 len(2)
      scan_spec_lv_cong [of ?n1 ?c "sample_at d12" ?k "sample_at d1" "oldpin d1" "oldpin d1" 0]
    by (simp add: spec_of_def agrees_on_def)
  have "spec_of d12 = scan_spec (sample_at d12) ?c
      (if ?n1 = 0 then oldpin d1 else sample_at d12 (?k + ?n1 - 1)) ?n1 ?m ?n2"
    using first len by (simp add: spec_of_def same scan_spec_append)
  also have "\<dots> = scan_spec (sample_at d2) ?c (oldpin ?u) ?n1 ?m ?n2"
  proof (rule scan_spec_lv_cong)
    have "?m + i < unat (abs_end_samplenum d12)" if "i < ?n2" for i
      using that d2(3,4) by (simp add: samples_left_def)
    then show "\<forall>i < ?n2. \<forall>cond \<in> set ?c. \<forall>t \<in> set cond. t_type t \<noteq> SRD_TERM_SKIP \<longrightarrow>
        sample_at d12 (?m + i) (t_channel t) = sample_at d2 (?m + i) (t_channel t)"
      using a2 by (simp add: agrees_on_def)
    have "?n1 \<noteq> 0 \<Longrightarrow> sample_at d12 (?m - 1) = sample_at d1 (?m - 1)"
      using a1 len(2) by (auto simp: agrees_on_def fun_eq_iff)
    then show "\<forall>cond \<in> set ?c. \<forall>t \<in> set cond. t_type t \<noteq> SRD_TERM_SKIP \<longrightarrow>
        (if ?n1 = 0 then oldpin d1 else sample_at d12 (?k + ?n1 - 1)) (t_channel t) = oldpin ?u (t_channel t)"
      using unmatched_steps [OF pre none le(1)] ok len(2) by (auto simp: term_chan_ok_def)
  qed
  also have "\<dots> = scan_spec (sample_at d2) (condition_list ?u) (oldpin ?u) 0 ?m ?n2"
    using unmatched_steps [OF pre none le(1)] by blast
  also have "\<dots> = spec_of d2" by (simp add: spec_of_def d2)
  finally show ?thesis .
qed

lemma unmatched_step_frame [simp]:
  "read_sample (unmatched_step di) = read_sample di"
  "first_pos (unmatched_step di) = first_pos di"
  "want_wait_terminate (unmatched_step di) = want_wait_terminate di"
  by (simp_all add: unmatched_step_def update_old_pins_array_def oldpins_array_seed_def Let_def
      split: option.split)

lemma unmatched_steps_frame:
  "read_sample ((unmatched_step ^^ n) di) = read_sample di"
  "first_pos ((unmatched_step ^^ n) di) = first_pos di"
  "want_wait_terminate ((unmatched_step ^^ n) di) = want_wait_terminate di"
  "abs_cur_matched ((unmatched_step ^^ n) di) \<longleftrightarrow> n = 0 \<and> abs_cur_matched di"
  "match_array di = 0 \<Longrightarrow> match_array ((unmatched_step ^^ n) di) = 0"
  "have_non_null_conds ((unmatched_step ^^ n) di) = have_non_null_conds di"
  by (induction n) (auto simp: unmatched_step_view have_non_null_conds_def)

lemma scan_start_not_first:
  "\<not> first_pos di \<Longrightarrow> scan_start di = advance_past_match (di\<lparr>match_array := 0\<rparr>)"
  by (simp add: scan_start_def)

lemma advance_past_match_load [simp]:
  "advance_past_match ((load_chunk s e ib ic len di)\<lparr>match_array := a\<rparr>)
     = load_chunk s e ib ic len (advance_past_match (di\<lparr>match_array := a\<rparr>))"
  by (simp add: advance_past_match_def load_chunk_def)

lemma scan_start_frame:
  "first_pos (scan_start di) = False"
  "read_sample (scan_start di) = read_sample di"
  "want_wait_terminate (scan_start di) = want_wait_terminate di"
  "have_non_null_conds (scan_start di) = have_non_null_conds di"
  "match_array (scan_start di) = 0"
  "inbuf (scan_start di) = inbuf di" "inbuf_const (scan_start di) = inbuf_const di"
  "abs_start_samplenum (scan_start di) = abs_start_samplenum di"
  "abs_end_samplenum (scan_start di) = abs_end_samplenum di"
  by (simp_all add: scan_start_def advance_past_match_def update_old_pins_array_initial_pins_def
      oldpins_array_seed_def Let_def have_non_null_conds_def split: option.split)

lemma sample_at_load:
  "read_sample d = read_sample d' \<Longrightarrow>
     sample_at (load_chunk s e ib ic len d) = sample_at (load_chunk s e ib ic len d')"
  by (simp add: fun_eq_iff sample_at_def load_chunk_def channel_buffer_def const_sample_def
      split: option.split)

text \<open>Two scans with the same specification end alike.\<close>

lemma same_spec_same_result:
  assumes "scan_pre d" and "scan_pre d'" and "spec_of d = spec_of d'"
    and "max (abs_cur_samplenum d) (abs_end_samplenum d) = max (abs_cur_samplenum d') (abs_end_samplenum d')"
  shows "fst (find_match_loop d asa) = fst (find_match_loop d' asa')
    \<and> abs_cur_samplenum (snd (find_match_loop d asa)) = abs_cur_samplenum (snd (find_match_loop d' asa'))
    \<and> (fst (find_match_loop d asa) \<longrightarrow>
        match_array (snd (find_match_loop d asa)) = match_array (snd (find_match_loop d' asa')))"
  using find_match_loop_refines [OF assms(1), of asa] find_match_loop_refines [OF assms(2), of asa']
    assms(3,4)
  by (cases "spec_of d'") (auto simp: scan_outcome_def word_unat_eq_iff split: prod.splits)


lemma spec_of_append_Some:
  assumes r: "spec_of d1 = Some r"
    and le: "abs_cur_samplenum d1 \<le> abs_end_samplenum d1" "abs_end_samplenum d1 \<le> abs_end_samplenum d12"
    and same: "condition_list d12 = condition_list d1" "oldpin d12 = oldpin d1"
      "abs_cur_samplenum d12 = abs_cur_samplenum d1"
    and a1: "agrees_on d12 d1 (unat (abs_cur_samplenum d1)) (unat (abs_end_samplenum d1))"
  shows "spec_of d12 = Some r"
proof -
  let ?k = "unat (abs_cur_samplenum d1)" and ?n1 = "samples_left d1"
  have len: "samples_left d12 = ?n1 + (unat (abs_end_samplenum d12) - unat (abs_end_samplenum d1))"
      "?k + ?n1 = unat (abs_end_samplenum d1)"
    using le same(3) by (simp_all add: samples_left_def word_le_nat_alt)
  have "scan_spec (sample_at d12) (condition_list d1) (oldpin d1) 0 ?k ?n1 = Some r"
    using r a1 len(2)
      scan_spec_lv_cong [of ?n1 "condition_list d1" "sample_at d12" ?k "sample_at d1" "oldpin d1" "oldpin d1" 0]
    by (simp add: spec_of_def agrees_on_def)
  with len(1) show ?thesis by (simp add: spec_of_def same scan_spec_append)
qed

text \<open>The conditions of two lists that differ only in their skip counters.\<close>

lemma same_terms:
  assumes "map (map t_type) c' = map (map t_type) c" and "map (map t_channel) c' = map (map t_channel) c"
    and "cond' \<in> set c'" and "t' \<in> set cond'"
  obtains cond t where "cond \<in> set c" "t \<in> set cond" "t_type t = t_type t'" "t_channel t = t_channel t'"
proof -
  from assms(3) obtain i where i: "i < length c'" "c' ! i = cond'" by (auto simp: in_set_conv_nth)
  from assms(4) obtain j where j: "j < length cond'" "cond' ! j = t'" by (auto simp: in_set_conv_nth)
  have l: "length c = length c'" using assms(1) by (metis length_map)
  have m: "map t_type (c ! i) = map t_type cond'" "map t_channel (c ! i) = map t_channel cond'"
    using assms(1,2) i l by (metis nth_map)+
  then have lj: "length (c ! i) = length cond'" by (metis length_map)
  have "t_type (c ! i ! j) = t_type t'" "t_channel (c ! i ! j) = t_channel t'"
    using m j lj by (metis nth_map)+
  with that [of "c ! i" "c ! i ! j"] i(1) j(1) l lj show thesis by simp
qed

text \<open>A loaded chunk leaves the scan's precondition intact.\<close>

lemma scan_pre_load:
  assumes pre: "scan_pre u" and s: "s \<le> abs_cur_samplenum u"
    and live: "all_live (load_chunk s e ib ic len u)"
  shows "scan_pre (load_chunk s e ib ic len u)"
  using assms by (auto simp: scan_pre_def conds_ok_def term_chan_ok_def all_live_def)

lemma chan_live_load:
  "read_sample d = read_sample d' \<Longrightarrow>
     chan_live (load_chunk s e ib ic len d) ch = chan_live (load_chunk s e ib ic len d') ch"
  by (simp add: chan_live_def load_chunk_def channel_buffer_def)

lemma all_live_load_steps:
  assumes "all_live (load_chunk s e ib ic len d)"
    and "read_sample u = read_sample d"
    and "map (map t_type) (condition_list u) = map (map t_type) (condition_list d)"
    and "map (map t_channel) (condition_list u) = map (map t_channel) (condition_list d)"
  shows "all_live (load_chunk s e ib ic len u)"
  unfolding all_live_def
proof (intro ballI impI)
  fix cond t
  assume "cond \<in> set (condition_list (load_chunk s e ib ic len u))" "t \<in> set cond" "t_type t \<noteq> SRD_TERM_SKIP"
  then obtain cond' t' where "cond' \<in> set (condition_list d)" "t' \<in> set cond'"
      "t_type t' = t_type t" "t_channel t' = t_channel t"
    using same_terms [OF assms(3,4), of cond t] by auto
  moreover have "\<forall>c \<in> set (condition_list d). \<forall>t \<in> set c. t_type t \<noteq> SRD_TERM_SKIP \<longrightarrow>
      chan_live (load_chunk s e ib ic len d) (t_channel t)"
    using assms(1) by (simp add: all_live_def)
  ultimately have "chan_live (load_chunk s e ib ic len d) (t_channel t)"
    using \<open>t_type t \<noteq> SRD_TERM_SKIP\<close> by metis
  with chan_live_load [OF assms(2)] show "chan_live (load_chunk s e ib ic len u) (t_channel t)" by blast
qed


lemma sample_at_scan_start [simp]: "sample_at (scan_start d) = sample_at d"
  by (simp add: fun_eq_iff sample_at_def channel_buffer_def const_sample_def scan_start_frame
      split: option.split)

lemma match_array_0_id: "match_array d = 0 \<Longrightarrow> d\<lparr>match_array := 0\<rparr> = d"
proof -
  assume "match_array d = 0"
  moreover have "d\<lparr>match_array := match_array d\<rparr> = d" by simp
  ultimately show ?thesis by simp
qed

lemma scan_start_settled:
  "\<not> first_pos d \<Longrightarrow> \<not> abs_cur_matched d \<Longrightarrow> match_array d = 0 \<Longrightarrow> scan_start d = d"
  by (simp add: scan_start_not_first advance_past_match_def match_array_0_id)

lemma load_chunk_frame [simp]:
  "first_pos (load_chunk s e ib ic len di) = first_pos di"
  "want_wait_terminate (load_chunk s e ib ic len di) = want_wait_terminate di"
  "have_non_null_conds (load_chunk s e ib ic len di) = have_non_null_conds di"
  "read_sample (load_chunk s e ib ic len di) = read_sample di"
  by (simp_all add: load_chunk_def have_non_null_conds_def)

lemma scan_start_load:
  "\<not> first_pos di \<Longrightarrow> scan_start (load_chunk s e ib ic len di)
     = load_chunk s e ib ic len (advance_past_match (di\<lparr>match_array := 0\<rparr>))"
  by (simp add: scan_start_not_first)

text \<open>The second chunk after an unmatched first one.\<close>

lemma second_chunk:
  fixes m e :: u64 and ib2 ic2 len2 and A' :: "'p srd_decoder_inst"
  defines "u \<equiv> (unmatched_step ^^ samples_left A') A'"
  defines "B0 \<equiv> load_chunk m e ib2 ic2 len2 u"
  assumes pre: "scan_pre A'" and none: "spec_of A' = None" and end_A: "abs_end_samplenum A' = m"
    and cut: "abs_cur_samplenum A' < m" and fp: "\<not> first_pos A'"
    and live: "all_live (load_chunk m e ib2 ic2 len2 A')"
  shows "scan_start B0 = B0" and "scan_pre B0" and "abs_cur_samplenum B0 = m"
    and "condition_list B0 = condition_list u" and "oldpin B0 = oldpin u"
    and "read_sample u = read_sample A'" and "abs_end_samplenum B0 = e"
proof -
  have le: "abs_cur_samplenum A' \<le> abs_end_samplenum A'" using cut end_A by simp
  note st = unmatched_steps [OF pre none le, folded u_def]
  have n: "samples_left A' \<noteq> 0" using cut end_A by (simp add: samples_left_def word_less_nat_alt)
  have mz: "match_array u = 0"
    unfolding u_def using pre by (intro unmatched_steps_frame(5)) (simp add: scan_pre_def)
  show rs: "read_sample u = read_sample A'" by (simp add: u_def unmatched_steps_frame)
  show "abs_cur_samplenum B0 = m" using st end_A by (simp add: B0_def)
  show "condition_list B0 = condition_list u" "oldpin B0 = oldpin u" "abs_end_samplenum B0 = e"
    by (simp_all add: B0_def)
  have "\<not> first_pos u" "\<not> abs_cur_matched u"
    using fp n by (simp_all add: u_def unmatched_steps_frame)
  then show "scan_start B0 = B0" using mz by (simp add: B0_def scan_start_settled)
  have "all_live B0"
    unfolding B0_def using all_live_load_steps [OF live rs] st by blast
  then show "scan_pre B0"
    unfolding B0_def using scan_pre_load [of u m] st end_A by simp
qed

lemma restart_skip_twice: "map (map restart_skip) (map (map restart_skip) conds) = map (map restart_skip) conds"
proof -
  have "restart_skip (restart_skip t) = restart_skip t" for t by (simp add: restart_skip_def)
  then show ?thesis by (simp add: o_def)
qed

lemma load_chunk_again [simp]:
  "load_chunk s e ib ic len (load_chunk s' e' ib' ic' len' di) = load_chunk s e ib ic len di"
  by (simp add: load_chunk_def)

lemma restart_skip_again: "restart_skip (restart_skip t) = restart_skip t"
  by (simp add: restart_skip_def)

text \<open>A boundary right where the scan would begin: the second chunk does the step past a match again.\<close>

definition past_boundary :: "u64 \<Rightarrow> 'p srd_decoder_inst \<Rightarrow> 'p srd_decoder_inst" where
  "past_boundary m di = (if abs_cur_matched di \<and> abs_cur_samplenum di + 1 = m
     then di\<lparr>abs_cur_samplenum := abs_cur_samplenum di + 1\<rparr> else di)"

lemma past_boundary_keeps [simp]:
  "first_pos (past_boundary m di) = first_pos di" "want_wait_terminate (past_boundary m di) = want_wait_terminate di"
  "have_non_null_conds (past_boundary m di) = have_non_null_conds di"
  by (simp_all add: past_boundary_def have_non_null_conds_def)

lemma boundary_at_start:
  fixes di :: "'p srd_decoder_inst"
  assumes go: "\<not> first_pos di" "\<not> want_wait_terminate di" "have_non_null_conds di" "0 < fuel"
    and W: "scan_pre (scan_start (load_chunk s e ib ic len di))"
    and A: "A = load_chunk s m ib1 ic1 len1 di"
    and B: "all_live (load_chunk m e ib2 ic2 len2 (scan_start A))"
    and cut: "abs_cur_samplenum (scan_start A) = m" "m < e"
    and V: "V = past_boundary m (load_chunk s e ib ic len di)"
    and same2: "agrees_on (load_chunk s e ib ic len di) (load_chunk m e ib2 ic2 len2 di) (unat m) (unat e)"
  shows "\<exists>fw w fb b. process_samples_until_condition_match fuel V = Some (fw, w)
    \<and> process_samples_until_condition_match fuel A = Some (False, scan_start A)
    \<and> process_samples_until_condition_match fuel (load_chunk m e ib2 ic2 len2 (scan_start A)) = Some (fb, b)
    \<and> fb = fw \<and> abs_cur_samplenum b = abs_cur_samplenum w \<and> (fb \<longrightarrow> match_array b = match_array w)"
proof -
  define D where "D = advance_past_match (di\<lparr>match_array := 0\<rparr>)"
  define D2 where "D2 = advance_past_match (D\<lparr>match_array := 0\<rparr>)"
  have eq: "scan_start (load_chunk s e ib ic len di) = load_chunk s e ib ic len D" "scan_start A = load_chunk s m ib1 ic1 len1 D"
    using go(1) by (simp_all add: A D_def scan_start_load)
  have mt: "abs_cur_matched D = abs_cur_matched di" "\<not> first_pos D" "match_array D = 0"
    using go(1) by (simp_all add: D_def advance_past_match_def)
  have cD: "abs_cur_samplenum D = m" using cut(1) by (simp add: eq)
  have m: "abs_cur_matched di \<Longrightarrow> abs_cur_samplenum di + 1 = m" using cD by (simp add: D_def advance_past_match_def)
  have un: "\<not> abs_cur_matched di \<Longrightarrow> past_boundary m d = d" if "abs_cur_matched d = abs_cur_matched di" for d :: "'p srd_decoder_inst"
    using that by (simp add: past_boundary_def)
  have V0: "V = load_chunk s e ib ic len (past_boundary m di)"
    by (simp add: V past_boundary_def load_chunk_def)
  have "advance_past_match ((past_boundary m di)\<lparr>match_array := 0\<rparr>) = D2"
    using m by (cases "abs_cur_matched di")
      (simp_all add: D2_def D_def past_boundary_def advance_past_match_def restart_skip_twice restart_skip_again)
  moreover have "\<not> first_pos (past_boundary m di)" using go(1) by (simp add: past_boundary_def)
  ultimately have sV: "scan_start V = load_chunk s e ib ic len D2" by (simp add: V0 scan_start_load)
  have sB: "scan_start (load_chunk m e ib2 ic2 len2 (scan_start A)) = load_chunk m e ib2 ic2 len2 D2"
    unfolding eq load_chunk_again using mt(2) by (simp add: scan_start_load D2_def)
  have c1: "m \<le> m + 1" "m + 1 \<le> e" using cut(2) by (auto simp: inc_le word_le_nat_alt word_less_nat_alt unat_Suc_less)
  have cD2: "m \<le> abs_cur_samplenum D2" "abs_cur_samplenum D2 \<le> e"
    using c1 cut(2) cD by (auto simp: D2_def advance_past_match_def)
  have conds: "condition_list D2 = condition_list D"
    by (simp add: D2_def D_def advance_past_match_def restart_skip_twice restart_skip_again)
  have pW: "scan_pre (load_chunk s e ib ic len D)" using W by (simp add: eq)
  have chan: "chan_live (load_chunk s' e' i' c' l' D2) = chan_live (load_chunk s' e' i' c' l' D)" for s' e' i' c' l'
    by (simp add: fun_eq_iff D2_def advance_past_match_def chan_live_def load_chunk_def channel_buffer_def)
  have oldD: "oldpin D2 = oldpin D" "pins_ok D2 = pins_ok D" "skip_zero D2 = skip_zero D" "dec_num_channels D2 = dec_num_channels D"
    "abs_cur_matched D2 = abs_cur_matched D" "match_array D2 = 0"
    using mt(3) by (simp_all add: D2_def advance_past_match_def oldpin_def pins_ok_def fun_eq_iff split: option.split)
  have view: "pins_ok (load_chunk s' e' i' c' l' d) = pins_ok d" for s' e' i' c' l' and d :: "'p srd_decoder_inst"
    by (simp add: pins_ok_def load_chunk_def split: option.split)
  have "s \<le> m" using pW cD by (simp add: scan_pre_def)
  then have pV: "scan_pre (load_chunk s e ib ic len D2)"
    using pW cD2 oldD conds chan view by (auto simp: scan_pre_def conds_ok_def term_chan_ok_def)
  have "all_live (load_chunk m e ib2 ic2 len2 D)" using B by (simp add: eq)
  then have lB: "all_live (load_chunk m e ib2 ic2 len2 D2)" using conds chan by (simp add: all_live_def)
  have pB: "scan_pre (load_chunk m e ib2 ic2 len2 D2)"
    using scan_pre_load [OF pV, of m e ib2 ic2 len2] lB cD2(1) by simp
  have rs: "read_sample D2 = read_sample di" by (simp add: D2_def D_def advance_past_match_def)
  have sp: "spec_of (load_chunk m e ib2 ic2 len2 D2) = spec_of (load_chunk s e ib ic len D2)"
  proof -
    have "scan_spec (sample_at (load_chunk m e ib2 ic2 len2 D2)) (condition_list D2) (oldpin D2) 0 (unat (abs_cur_samplenum D2))
        (unat e - unat (abs_cur_samplenum D2)) =
      scan_spec (sample_at (load_chunk s e ib ic len D2)) (condition_list D2) (oldpin D2) 0 (unat (abs_cur_samplenum D2))
        (unat e - unat (abs_cur_samplenum D2))"
    proof (intro scan_spec_lv_cong allI impI ballI)
      fix i cond t assume i: "i < unat e - unat (abs_cur_samplenum D2)"
      let ?k = "unat (abs_cur_samplenum D2) + i"
      have "unat m \<le> ?k" "?k < unat e" using i cD2(1) by (simp_all add: word_le_nat_alt)
      then show "sample_at (load_chunk m e ib2 ic2 len2 D2) ?k (t_channel t) = sample_at (load_chunk s e ib ic len D2) ?k (t_channel t)"
        using same2 sample_at_load [OF rs] by (simp add: agrees_on_def)
    qed simp
    then show ?thesis by (simp add: spec_of_def samples_left_def)
  qed
  obtain fw w where w: "find_match_loop (load_chunk s e ib ic len D2) True = (fw, w)" by (rule prod.exhaust)
  obtain fb b where b: "find_match_loop (load_chunk m e ib2 ic2 len2 D2) True = (fb, b)" by (rule prod.exhaust)
  have a: "find_match_loop (scan_start A) True = (False, scan_start A)"
    using cut(1) by (intro find_match_loop_outside) (simp add: scan_start_frame A)
  have g: "\<not> want_wait_terminate D" "have_non_null_conds D"
    using go by (simp_all add: D_def advance_past_match_def have_non_null_conds_def)
  have "process_samples_until_condition_match fuel V = Some (fw, w)"
    "process_samples_until_condition_match fuel A = Some (False, scan_start A)"
    "process_samples_until_condition_match fuel (load_chunk m e ib2 ic2 len2 (scan_start A)) = Some (fb, b)"
    using process_samples_scan [of V fuel] process_samples_scan [of A fuel]
      process_samples_scan [of "load_chunk m e ib2 ic2 len2 (scan_start A)" fuel] go g a w b sB sV
    by (simp_all add: V0 A scan_start_frame)
  moreover have "fb = fw \<and> abs_cur_samplenum b = abs_cur_samplenum w \<and> (fb \<longrightarrow> match_array b = match_array w)"
    using same_spec_same_result [OF pB pV sp, of True True] w b by simp
  ultimately show ?thesis by blast
qed

text \<open>A boundary after the start of the scan.\<close>

lemma boundary_after_start:
  assumes go: "\<not> first_pos di" "\<not> want_wait_terminate di" "have_non_null_conds di" "0 < fuel"
    and W: "W = load_chunk s e ib ic len di" "scan_pre (scan_start W)"
    and A: "A = load_chunk s m ib1 ic1 len1 di" "scan_pre (scan_start A)" "all_live (scan_start A)"
    and B: "all_live (load_chunk m e ib2 ic2 len2 (scan_start A))"
    and cut: "abs_cur_samplenum (scan_start A) < m" "m \<le> e"
    and same1: "agrees_on W A (unat (abs_cur_samplenum (scan_start A))) (unat m)"
    and same2: "agrees_on W (load_chunk m e ib2 ic2 len2 di) (unat m) (unat e)"
  shows "\<exists>fw w fa a.
      process_samples_until_condition_match fuel W = Some (fw, w)
    \<and> process_samples_until_condition_match fuel A = Some (fa, a)
    \<and> (fa \<longrightarrow> fw \<and> abs_cur_samplenum a = abs_cur_samplenum w \<and> match_array a = match_array w)
    \<and> (\<not> fa \<longrightarrow> (\<exists>fb b.
          process_samples_until_condition_match fuel (load_chunk m e ib2 ic2 len2 a) = Some (fb, b)
        \<and> fb = fw \<and> abs_cur_samplenum b = abs_cur_samplenum w
        \<and> (fb \<longrightarrow> match_array b = match_array w)))"
proof -
  define D where "D = advance_past_match (di\<lparr>match_array := 0\<rparr>)"
  let ?W = "scan_start W" and ?A = "scan_start A"
  have eq: "?W = load_chunk s e ib ic len D" "?A = load_chunk s m ib1 ic1 len1 D"
    using go(1) by (simp_all add: W(1) A(1) D_def scan_start_load)
  have view: "condition_list ?W = condition_list ?A" "oldpin ?W = oldpin ?A"
      "abs_cur_samplenum ?W = abs_cur_samplenum ?A" "abs_end_samplenum ?A = m" "abs_end_samplenum ?W = e"
    by (simp_all add: eq)
  have le: "abs_cur_samplenum ?A \<le> abs_end_samplenum ?A" "abs_end_samplenum ?A \<le> abs_end_samplenum ?W"
    using cut view by simp_all
  have agree: "agrees_on ?W ?A (unat (abs_cur_samplenum ?A)) (unat (abs_end_samplenum ?A))"
    using same1 view(4) by (simp add: agrees_on_def)
  obtain fw w where w: "find_match_loop ?W True = (fw, w)" by (cases "find_match_loop ?W True")
  obtain fa a where a: "find_match_loop ?A True = (fa, a)" by (cases "find_match_loop ?A True")
  have run: "process_samples_until_condition_match fuel W = Some (fw, w)"
      "process_samples_until_condition_match fuel A = Some (fa, a)"
    using process_samples_scan [of W fuel] process_samples_scan [of A fuel] go w a
    by (simp_all add: W(1) A(1))
  show ?thesis
  proof (cases "spec_of ?A")
    case (Some r)
    have "spec_of ?W = Some r" by (rule spec_of_append_Some [OF Some le view(1-3) agree])
    with Some have "fa \<and> fw \<and> abs_cur_samplenum a = abs_cur_samplenum w \<and> match_array a = match_array w"
      using find_match_loop_refines [OF W(2), of True] find_match_loop_refines [OF A(2), of True] w a
      by (cases r) (simp add: scan_outcome_def word_unat_eq_iff)
    with run show ?thesis by blast
  next
    case None
    let ?u = "(unmatched_step ^^ samples_left ?A) ?A"
    let ?B = "load_chunk m e ib2 ic2 len2 ?u"
    have fp: "\<not> first_pos ?A" by (simp add: scan_start_frame)
    have hc: "have_non_null_conds ?A" using go(3) by (simp add: scan_start_frame A(1))
    have au: "fa = False" "a = ?u"
      using find_match_loop_unmatched_state [OF A(2,3) hc None, of True] a by simp_all
    note sc = second_chunk [OF A(2) None view(4) cut(1) fp B]
    have "agrees_on ?W ?B (unat (abs_end_samplenum ?A)) (unat (abs_end_samplenum ?W))"
    proof -
      have "read_sample ?u = read_sample di" using sc(6) by (simp add: scan_start_frame A(1))
      from sample_at_load [OF this] same2 show ?thesis
        by (simp add: agrees_on_def view)
    qed
    then have sp: "spec_of ?W = spec_of ?B"
      using spec_of_append [OF A(2) None le view(1-3) agree, of ?B] sc view by simp
    obtain fb b where b: "find_match_loop ?B True = (fb, b)" by (cases "find_match_loop ?B True")
    have mx: "max (abs_cur_samplenum ?W) (abs_end_samplenum ?W) = max (abs_cur_samplenum ?B) (abs_end_samplenum ?B)"
    proof -
      have "abs_cur_samplenum ?W \<le> e" using cut view(3) by simp
      then show ?thesis using cut(2) sc(3,7) view(5) by (simp add: max_absorb2)
    qed
    have "fb = fw \<and> abs_cur_samplenum b = abs_cur_samplenum w \<and> (fb \<longrightarrow> match_array b = match_array w)"
      using same_spec_same_result [OF sc(2) W(2) sp [symmetric] mx [symmetric], of True True] b w by simp
    moreover have "process_samples_until_condition_match fuel ?B = Some (fb, b)"
      using process_samples_scan [of ?B fuel] go hc b sc(1)
      by (simp add: unmatched_steps_frame scan_start_frame A(1))
    ultimately show ?thesis using run au by blast
  qed
qed

text \<open>
  C6: What a chunk boundary does to a wait. Take one chunk up to sample \<open>e\<close>, or the same
  samples delivered in two chunks with the boundary at \<open>m\<close>, anywhere from the sample
  the scan starts at. If the wait succeeds in the first part it succeeds in the whole with the
  same position and match array; otherwise going on with the second part gives the verdict,
  position and match array of the whole: counters and previous pins are carried across. The
  one exception is in \<open>past_boundary\<close>: if the previous match is on the last sample
  before the boundary, the two parts give what the whole gives to a wait that starts one
  sample later, so the first sample of the second part is not looked at. In both parts the
  channels of the level and edge conditions have sample buffers (\<open>all_live\<close>), and it
  is not the first wait of the run (\<open>first_pos\<close>).
\<close>

theorem chunk_boundary_invisible:
  assumes go: "\<not> first_pos di" "\<not> want_wait_terminate di" "have_non_null_conds di" "0 < fuel"
    and W: "W = load_chunk s e ib ic len di" "scan_pre (scan_start W)"
    and A: "A = load_chunk s m ib1 ic1 len1 di" "scan_pre (scan_start A)" "all_live (scan_start A)"
    and B: "all_live (load_chunk m e ib2 ic2 len2 (scan_start A))"
    and cut: "abs_cur_samplenum (scan_start A) \<le> m" "m \<le> e" "abs_cur_samplenum (scan_start A) < e"
    and same1: "agrees_on W A (unat (abs_cur_samplenum (scan_start A))) (unat m)"
    and same2: "agrees_on W (load_chunk m e ib2 ic2 len2 di) (unat m) (unat e)"
    and V: "V = past_boundary m W"
  shows "\<exists>fw w fa a.
      process_samples_until_condition_match fuel V = Some (fw, w)
    \<and> process_samples_until_condition_match fuel A = Some (fa, a)
    \<and> (fa \<longrightarrow> fw \<and> abs_cur_samplenum a = abs_cur_samplenum w \<and> match_array a = match_array w)
    \<and> (\<not> fa \<longrightarrow> (\<exists>fb b.
          process_samples_until_condition_match fuel (load_chunk m e ib2 ic2 len2 a) = Some (fb, b)
        \<and> fb = fw \<and> abs_cur_samplenum b = abs_cur_samplenum w
        \<and> (fb \<longrightarrow> match_array b = match_array w)))"
proof (cases "abs_cur_samplenum (scan_start A) = m")
  case True
  then have "m < e" using cut by simp
  with boundary_at_start [OF go W(2) [unfolded W(1)] A(1) B True _ V [unfolded W(1)] same2 [unfolded W(1)]]
  show ?thesis by blast
next
  case False
  then have c: "abs_cur_samplenum (scan_start A) < m" using cut by simp
  have "abs_cur_samplenum di + 1 \<noteq> m" if "abs_cur_matched di"
    using c that by (auto simp: A(1) scan_start_load [OF go(1)] advance_past_match_def)
  then have "V = W" by (auto simp: V W(1) past_boundary_def load_chunk_def)
  with boundary_after_start [OF go W A B c cut(2) same1 same2] show ?thesis by simp
qed

lemma chunk_boundary_invisible_witness:
  "\<exists>di :: unit srd_decoder_inst. abs_cur_matched di \<and> abs_cur_samplenum di = 1
    \<and> (\<exists>fw w fa a. process_samples_until_condition_match 1
          (past_boundary 2 (load_chunk 0 8 (Some (\<lambda>ch. Some (\<lambda>i. 24))) None 8 di)) = Some (fw, w)
        \<and> process_samples_until_condition_match 1
          (load_chunk 0 2 (Some (\<lambda>ch. Some (\<lambda>i. 0))) None 2 di) = Some (fa, a)
        \<and> (fa \<longrightarrow> fw \<and> abs_cur_samplenum a = abs_cur_samplenum w \<and> match_array a = match_array w)
        \<and> (\<not> fa \<longrightarrow> (\<exists>fb b. process_samples_until_condition_match 1
              (load_chunk 2 8 (Some (\<lambda>ch. Some (\<lambda>i. 6))) None 6 a) = Some (fb, b)
            \<and> fb = fw \<and> abs_cur_samplenum b = abs_cur_samplenum w
            \<and> (fb \<longrightarrow> match_array b = match_array w))))"
proof -
  let ?di = "example_inst\<lparr>abs_cur_samplenum := 1, abs_cur_matched := True\<rparr>"
  let ?W = "load_chunk 0 8 (Some (\<lambda>ch. Some (\<lambda>i. 24))) None 8 ?di"
  let ?A = "load_chunk 0 2 (Some (\<lambda>ch. Some (\<lambda>i. 0))) None 2 ?di"
  let ?D = "example_inst\<lparr>abs_cur_samplenum := 2, abs_cur_matched := True\<rparr>"
  have fp: "\<not> first_pos ?di" and nt: "\<not> want_wait_terminate ?di" and hc: "have_non_null_conds ?di"
    by (simp_all add: example_inst_def malloc0_inst_def have_non_null_conds_def)
  have adv: "advance_past_match (?di\<lparr>match_array := 0\<rparr>) = ?D"
    by (simp add: example_inst_def malloc0_inst_def advance_past_match_def restart_skip_def)
  have st: "scan_start (load_chunk s e ib ic len ?di) = load_chunk s e ib ic len ?D" for s e ib ic len
    using fp adv by (simp add: scan_start_load)
  have cur: "abs_cur_samplenum ?D = 2" by simp
  have live: "all_live (load_chunk s e (Some (\<lambda>ch. Some b)) ic len ?D)" for s e b ic len
    by (simp add: all_live_def chan_live_def channel_buffer_def load_chunk_def)
  have preD: "scan_pre ?D"
    by (simp add: example_inst_def malloc0_inst_def scan_pre_def pins_ok_def conds_ok_def plain_cond_def term_chan_ok_def)
  have pre: "scan_pre (load_chunk 0 8 (Some (\<lambda>ch. Some (\<lambda>i. 24))) None 8 ?D)"
    "scan_pre (load_chunk 0 2 (Some (\<lambda>ch. Some (\<lambda>i. 0))) None 2 ?D)"
    by (rule scan_pre_load [OF preD _ live], simp)+
  have sW: "sample_at ?W k ch = (if bit (24 :: u8) (k mod 8) then 1 else 0)"
    and sB: "sample_at (load_chunk 2 8 (Some (\<lambda>ch. Some (\<lambda>i. 6))) None 6 ?di) k ch
      = (if bit (6 :: u8) ((k - 2) mod 8) then 1 else 0)" for k ch
    by (simp_all add: sample_at_def channel_buffer_def load_chunk_def example_inst_def malloc0_inst_def)
  have a1: "agrees_on ?W ?A 2 2" by (simp add: agrees_on_def)
  have a2: "agrees_on ?W (load_chunk 2 8 (Some (\<lambda>ch. Some (\<lambda>i. 6))) None 6 ?di) 2 8"
    unfolding agrees_on_def sW sB
  proof (intro allI impI)
    fix k :: nat
    assume "2 \<le> k" "k < 8"
    then have "k \<in> {2, 3, 4, 5, 6, 7}" by auto
    then show "(if bit (24 :: u8) (k mod 8) then 1 else 0 :: u8) = (if bit (6 :: u8) ((k - 2) mod 8) then 1 else 0)"
      by auto
  qed
  have res: "\<exists>fw w fa a. process_samples_until_condition_match 1 (past_boundary 2 ?W) = Some (fw, w)
    \<and> process_samples_until_condition_match 1 ?A = Some (fa, a)
    \<and> (fa \<longrightarrow> fw \<and> abs_cur_samplenum a = abs_cur_samplenum w \<and> match_array a = match_array w)
    \<and> (\<not> fa \<longrightarrow> (\<exists>fb b. process_samples_until_condition_match 1
          (load_chunk 2 8 (Some (\<lambda>ch. Some (\<lambda>i. 6))) None 6 a) = Some (fb, b)
        \<and> fb = fw \<and> abs_cur_samplenum b = abs_cur_samplenum w
        \<and> (fb \<longrightarrow> match_array b = match_array w)))"
    by (rule chunk_boundary_invisible [OF fp nt hc zero_less_one refl _ refl _ _ _ _ _ _ _ _ refl])
      (use pre a1 a2 live in \<open>simp_all add: st\<close>)
  have fl: "abs_cur_matched ?di" "abs_cur_samplenum ?di = 1" by simp_all
  show ?thesis by (intro exI [of _ ?di] conjI fl) (rule res)
qed


section \<open>Where the code leaves the specification\<close>

text \<open>
  Runs of the matcher on one channel, the level of sample \<open>s + i\<close> being bit \<open>i\<close> of
  \<open>b\<close>. The result of each wait is the input of the next.
\<close>

definition wait_on ::
    "srd_term list list \<Rightarrow> u64 \<Rightarrow> u64 \<Rightarrow> u8 \<Rightarrow> unit srd_decoder_inst \<Rightarrow> unit srd_decoder_inst" where
  "wait_on conds s e b di =
     (case process_samples_until_condition_match 1
             ((load_chunk s e (Some (\<lambda>ch. Some (\<lambda>i. b))) None 1 di)\<lparr>condition_list := conds\<rparr>) of
        Some (found, di') \<Rightarrow> di' | None \<Rightarrow> di)"

definition level_term :: "srd_term_type \<Rightarrow> srd_term" where
  "level_term ty = \<lparr>t_type = ty, t_channel = 0, num_samples_to_skip = 0, num_samples_already_skipped = 0\<rparr>"

text \<open>
  A match on the last sample of a chunk: the next wait counts past it, reports no match
  and leaves \<open>abs_cur_matched\<close> set, so that the scan of the next chunk starts at its
  second sample. With samples 3 and 4 both high, two waits for a high level find 3 and 4
  in one chunk, but 3 and 5 when the chunk ends after sample 3.
\<close>

lemma match_on_last_sample_skips_next:
  "(let hi = [[level_term SRD_TERM_HIGH]]; one = wait_on hi 0 8 248 example_inst;
        two = wait_on hi 0 8 248 one
    in (abs_cur_samplenum one, abs_cur_samplenum two)) = (3, 4)"
  "(let hi = [[level_term SRD_TERM_HIGH]]; one = wait_on hi 0 4 8 example_inst;
        two = wait_on hi 4 8 15 (wait_on hi 0 4 8 one)
    in (abs_cur_samplenum one, abs_cur_samplenum two)) = (3, 5)"
  by code_simp+

text \<open>
  \<open>SRD_TERM_NO_EDGE\<close> on a constant channel: the previous level is still unknown at the
  first sample, the term fails and, being on a constant channel, lets the scan jump to
  the end of the chunk, although it holds from the second sample on.
\<close>

lemma no_edge_on_constant_channel_missed:
  "(let di = (load_chunk 0 8 None None 1 example_inst)\<lparr>old_pins_array := Some [2],
          condition_list := [[level_term SRD_TERM_NO_EDGE]]\<rparr>
    in (map_option (\<lambda>(f, d). (f, abs_cur_samplenum d)) (process_samples_until_condition_match 1 di),
        cond_holds_at (sample_at di) (oldpin di) 0 1 [level_term SRD_TERM_NO_EDGE]))
    = (Some (False, 8), True)"
  by code_simp

text \<open>
  A condition with a zero skip in front of an edge, after a match: the skip holds and
  marks \<open>skip_zero\<close> although the edge fails. The mark stays, and the sample where the
  condition holds later is reported one too low (the rise is at sample 3, not 2).
\<close>

lemma zero_skip_with_edge_reports_early:
  "(let one = wait_on [[level_term SRD_TERM_LOW]] 0 8 24 example_inst;
        two = wait_on [[level_term SRD_TERM_SKIP, level_term SRD_TERM_RISING_EDGE]] 0 8 24 one
    in (abs_cur_samplenum one, abs_cur_samplenum two)) = (0, 2)"
  by code_simp

text \<open>The shift \<open>1 << j\<close> is done on an \<open>int\<close>: conditions 32 and 0 share a bit.\<close>

lemma match_bit_aliases: "match_bit 32 = match_bit 0" and "match_bit 31 = 0xFFFFFFFF80000000"
  by (simp_all add: match_bit_def)

end
