(* ===== verification/Wait.thy ===== *)
theory Wait
  imports CondSpec
begin

text \<open>
  The consumer and the producer side of one instance: \<^verbatim>\<open>srd_inst_decode\<close> hands
  over a chunk, \<^verbatim>\<open>c_decoder_wait_impl\<close> (behind \<^verbatim>\<open>c_wait()\<close>) scans it,
  \<^verbatim>\<open>c_fetch_packed_multi\<close> and \<^verbatim>\<open>c_consume_samples\<close> read it as packed bits. What
  happens under one hold of \<^verbatim>\<open>data_mutex\<close> is one function here; the interleaving
  of these sections is in Handshake.
\<close>

section \<open>The producer: srd_inst_decode\<close>

record sample_chunk =
  ck_start :: u64
  ck_end :: u64
  ck_inbuf :: "(int \<Rightarrow> chan_mem option) option"
  ck_const :: "(int \<Rightarrow> u8) option"
  ck_len :: u64

text \<open>Up to the point where the producer waits for \<open>handled_all_samples\<close>.\<close>

definition srd_inst_decode_begin ::
    "sample_chunk \<Rightarrow> 'p srd_decoder_inst \<Rightarrow> srd_error_code \<times> 'p srd_decoder_inst" where
  "srd_inst_decode_begin ck di =
     (if ck_inbuf ck = None then (SRD_ERR_ARG, di)
      else if ck_len ck = 0 then (SRD_ERR_ARG, di)
      else let di1 = (if first_pos di then di\<lparr>abs_cur_samplenum := ck_start ck\<rparr> else di) in
        if ck_start ck \<noteq> abs_cur_samplenum di1 \<or> ck_end ck < ck_start ck then (SRD_ERR_ARG, di1)
        else (SRD_OK,
          (load_chunk (ck_start ck) (ck_end ck) (ck_inbuf ck) (ck_const ck) (ck_len ck)
             (di1\<lparr>thread_handle := True\<rparr>))
          \<lparr>got_new_samples := True, handled_all_samples := False\<rparr>))"

text \<open>The producer goes on once this holds, and collects the decoder's error message.\<close>

definition decode_may_return :: "'p srd_decoder_inst \<Rightarrow> bool" where
  "decode_may_return di \<longleftrightarrow> handled_all_samples di \<or> want_wait_terminate di"

definition c_extract_error :: "'p srd_decoder_inst \<Rightarrow> string option \<times> 'p srd_decoder_inst" where
  "c_extract_error di = (error_message di, di\<lparr>error_message := None\<rparr>)"

definition srd_inst_decode_end ::
    "'p srd_decoder_inst \<Rightarrow> (srd_error_code \<times> string option) \<times> 'p srd_decoder_inst" where
  "srd_inst_decode_end di =
     (let (msg, di1) = c_extract_error di
      in ((if msg = None then SRD_OK else SRD_ERR_TERM_REQ, msg), di1))"

section \<open>The consumer: c_decoder_wait_impl\<close>

text \<open>The pin cache is filled with the levels at the matched sample.\<close>

definition cache_pin :: "'p srd_decoder_inst \<Rightarrow> int list \<Rightarrow> nat \<Rightarrow> u8" where
  "cache_pin di chmap i =
     (if chmap ! i < 0 then 0xFF
      else case read_sample di of
        Some rd \<Rightarrow> rd (int i) (abs_cur_samplenum di)
      | None \<Rightarrow> (case channel_buffer di (int i) of
            None \<Rightarrow> const_sample di (int i)
          | Some buf \<Rightarrow>
              (let off = abs_cur_samplenum di - abs_start_samplenum di; bo = off div 8; bi = off mod 8
               in if bo < (inbuflen di + 7) div 8
                  then drop_bit (unat bi) (buf (unat bo)) AND 1 else 0)))"

definition fill_pin_cache :: "'p srd_decoder_inst \<Rightarrow> 'p srd_decoder_inst" where
  "fill_pin_cache di =
     (let di1 = (if c_pin_cache di = None \<and> 0 < dec_num_channels di
                 then di\<lparr>c_pin_cache := Some (replicate (dec_num_channels di) 0)\<rparr> else di)
      in case (c_pin_cache di1, dec_channelmap di1) of
           (Some cache, Some chmap) \<Rightarrow> di1\<lparr>
             c_pin_cache := Some (update_range (dec_num_channels di1) (\<lambda>i _. cache_pin di1 chmap i) cache),
             c_pin_cache_samplenum := abs_cur_samplenum di1,
             c_pin_cache_inbuf_serial := c_pin_cache_inbuf_serial di1 + 1\<rparr>
         | _ \<Rightarrow> di1)"

text \<open>The end of a chunk: the buffers go back to the producer.\<close>

definition release_chunk :: "'p srd_decoder_inst \<Rightarrow> 'p srd_decoder_inst" where
  "release_chunk di = di\<lparr>got_new_samples := False, handled_all_samples := True,
     abs_start_samplenum := 0, abs_end_samplenum := 0, inbuf := None, inbuflen := 0\<rparr>"

text \<open>
  One pass of the \<^verbatim>\<open>while (1)\<close> loop. It blocks without samples; otherwise it ends
  the call, or releases the chunk and goes round again (\<open>Wait_chunk_done\<close>).
\<close>

datatype wait_status =
    Wait_blocked
  | Wait_term_req
  | Wait_found u64 u64
  | Wait_chunk_done

definition wait_pass :: "'p srd_decoder_inst \<Rightarrow> wait_status \<times> 'p srd_decoder_inst" where
  "wait_pass di =
     (if \<not> got_new_samples di \<and> \<not> want_wait_terminate di then (Wait_blocked, di)
      else if want_wait_terminate di then (Wait_term_req, di)
      else case process_samples_until_condition_match 1 di of
        None \<Rightarrow> (Wait_blocked, di)
      | Some (found_match, di1) \<Rightarrow>
          if found_match then
            let di2 = di1\<lparr>first_pos := False\<rparr>
            in (Wait_found (abs_cur_samplenum di2) (match_array di2), fill_pin_cache di2)
          else
            let di2 = release_chunk di1
            in if want_wait_terminate di2 then (Wait_term_req, di2) else (Wait_chunk_done, di2))"

text \<open>An empty condition list is a NULL one: the previous conditions stay.\<close>

definition wait_enter ::
    "srd_term list list \<Rightarrow> 'p srd_decoder_inst \<Rightarrow> 'p srd_decoder_inst" where
  "wait_enter conds di =
     (if conds = [] then di else (condition_list_free di)\<lparr>condition_list := conds\<rparr>)"

text \<open>
  The whole call against a producer that delivers the chunks of \<open>feed\<close> in turn and then
  nothing. A chunk the producer's call refuses is its error and is not delivered.
\<close>

fun wait_loop ::
    "sample_chunk list \<Rightarrow> 'p srd_decoder_inst \<Rightarrow>
     wait_status \<times> sample_chunk list \<times> 'p srd_decoder_inst" where
  "wait_loop [] di = (let (st, di1) = wait_pass di in (st, [], di1))"
| "wait_loop (ck # feed) di =
     (let (st, di1) = wait_pass di
      in if st = Wait_chunk_done \<or> st = Wait_blocked
         then wait_loop feed (snd (srd_inst_decode_begin ck di1))
         else (st, ck # feed, di1))"

definition c_decoder_wait_impl ::
    "srd_term list list \<Rightarrow> sample_chunk list \<Rightarrow> 'p srd_decoder_inst \<Rightarrow>
     wait_status \<times> sample_chunk list \<times> 'p srd_decoder_inst" where
  "c_decoder_wait_impl conds feed di = wait_loop feed (wait_enter conds di)"

section \<open>Reading pins\<close>

definition c_decoder_get_pin_impl :: "'p srd_decoder_inst \<Rightarrow> int \<Rightarrow> u64 \<Rightarrow> u8" where
  "c_decoder_get_pin_impl di ch samplenum =
     (if ch < 0 \<or> int (dec_num_channels di) \<le> ch then 0
      else case dec_channelmap di of None \<Rightarrow> 0 | Some chmap \<Rightarrow>
        if chmap ! nat ch < 0 then 0xFF
        else if c_pin_cache di \<noteq> None \<and> samplenum = c_pin_cache_samplenum di
          then c_array_at (the (c_pin_cache di)) (nat ch)
        else case read_sample di of
          Some rd \<Rightarrow> rd ch samplenum
        | None \<Rightarrow> (case channel_buffer di ch of
              None \<Rightarrow> 0
            | Some buf \<Rightarrow>
                if samplenum < abs_start_samplenum di then 0
                else let offset = samplenum - abs_start_samplenum di
                  in if inbuflen di \<le> offset then 0
                     else drop_bit (unat (offset mod 8)) (buf (unat (offset div 8))) AND 1))"

definition c_pin :: "'p srd_decoder_inst \<Rightarrow> int \<Rightarrow> u8" where
  "c_pin di ch =
     (if ch < 0 then 0xFF
      else if int (dec_num_channels di) \<le> ch then 0xFF
      else case dec_channelmap di of None \<Rightarrow> 0xFF | Some chmap \<Rightarrow>
        if chmap ! nat ch < 0 then 0xFF
        else case c_pin_cache di of Some cache \<Rightarrow> c_array_at cache (nat ch) | None \<Rightarrow> 0xFF)"

definition c_decoder_get_initial_pin :: "'p srd_decoder_inst \<Rightarrow> int \<Rightarrow> u8" where
  "c_decoder_get_initial_pin di ch =
     (if ch < 0 then 0xFF
      else case old_pins_array di of None \<Rightarrow> 0xFF | Some arr \<Rightarrow>
        if int (dec_num_channels di) \<le> ch then 0xFF else c_array_at arr (nat ch))"

definition c_decoder_has_channel :: "'p srd_decoder_inst \<Rightarrow> int \<Rightarrow> bool" where
  "c_decoder_has_channel di ch =
     (if ch < 0 \<or> int (dec_num_channels di) \<le> ch then False
      else case dec_channelmap di of None \<Rightarrow> False | Some chmap \<Rightarrow> 0 \<le> chmap ! nat ch)"

section \<open>Packed input\<close>

text \<open>A fetched channel: a constant level, or a place in its buffer (buffer and byte).\<close>

datatype fetched = Fetched_const u8 | Fetched_buf chan_mem nat

record fetch_result =
  fr_count :: u64
  fr_start :: u64
  fr_bit_offset :: nat
  fr_chans :: "fetched list"

definition fetch_channel :: "'p srd_decoder_inst \<Rightarrow> nat \<Rightarrow> int \<Rightarrow> fetched" where
  "fetch_channel di byte_off ch =
     (case dec_channelmap di of
        None \<Rightarrow> Fetched_const 0xFF
      | Some chmap \<Rightarrow>
          if ch < 0 \<or> int (dec_num_channels di) \<le> ch then Fetched_const 0xFF
          else if chmap ! nat ch < 0 then Fetched_const 0xFF
          else case channel_buffer di ch of
            None \<Rightarrow> Fetched_const (const_sample di ch)
          | Some buf \<Rightarrow> Fetched_buf buf byte_off)"

text \<open>
  \<^verbatim>\<open>c_fetch_packed_multi\<close> once samples are there or termination is requested
  (\<open>None\<close>: it blocks, or returns 0).
\<close>

definition c_fetch_packed_multi ::
    "int list \<Rightarrow> u64 \<Rightarrow> 'p srd_decoder_inst \<Rightarrow> fetch_result option \<times> 'p srd_decoder_inst" where
  "c_fetch_packed_multi channels max_samples di =
     (if channels = [] \<or> max_samples = 0 then (None, di)
      else if \<not> got_new_samples di \<or> want_wait_terminate di then (None, di)
      else let cur = (if abs_cur_samplenum di < abs_start_samplenum di
                      then abs_start_samplenum di else abs_cur_samplenum di)
        in if abs_end_samplenum di \<le> cur then (None, di)
           else let off = cur - abs_start_samplenum di; available = abs_end_samplenum di - cur
             in if available = 0 then (None, di)
                else (Some \<lparr>fr_count = (if available < max_samples then available else max_samples),
                        fr_start = cur, fr_bit_offset = unat (off AND 7),
                        fr_chans = map (fetch_channel di (unat (drop_bit 3 off))) channels\<rparr>,
                      di\<lparr>first_pos := False\<rparr>))"

definition c_consume_samples ::
    "u64 \<Rightarrow> 'p srd_decoder_inst \<Rightarrow> srd_error_code \<times> 'p srd_decoder_inst" where
  "c_consume_samples num_samples di =
     (if num_samples = 0 then (SRD_OK, di)
      else if \<not> got_new_samples di
        then (if want_wait_terminate di then SRD_ERR_TERM_REQ else SRD_ERR_ARG, di)
      else if abs_end_samplenum di - abs_cur_samplenum di < num_samples then (SRD_ERR_ARG, di)
      else let di1 = di\<lparr>abs_cur_samplenum := abs_cur_samplenum di + num_samples,
                        abs_cur_matched := False\<rparr>;
          di2 = (if abs_end_samplenum di1 \<le> abs_cur_samplenum di1 \<or> want_wait_terminate di1
                 then (release_chunk di1)\<lparr>inbuf_const := None\<rparr> else di1)
        in (if want_wait_terminate di2 then SRD_ERR_TERM_REQ else SRD_OK, di2))"

section \<open>The variadic c_wait\<close>

text \<open>
  \<^verbatim>\<open>c_wait(di, ...)\<close>: an argument is a C \<open>int\<close>, or the 64-bit count that follows a
  \<^verbatim>\<open>CW_SKIP\<close>. The parser reads the list up to \<^verbatim>\<open>CW_END\<close>; a list without it, or
  a skip without its count, is a misuse of \<open>va_arg\<close> (\<open>None\<close>).
\<close>

datatype cw_arg = CW_int "32 word" | CW_u64 u64

definition CW_OR :: "32 word" where "CW_OR = -1"
definition CW_END :: "32 word" where "CW_END = -2"

text \<open>\<^verbatim>\<open>_CW_ENC(type, ch)\<close>.\<close>

definition cw_enc :: "int \<Rightarrow> int \<Rightarrow> 32 word" where
  "cw_enc ty ch = push_bit 16 (word_of_int ty) OR (word_of_int ch AND 0xFFFF)"

definition cw_type :: "32 word \<Rightarrow> int" where
  "cw_type arg = uint (signed_drop_bit 16 arg AND 0xFFFF)"

definition cw_chan :: "32 word \<Rightarrow> int" where
  "cw_chan arg = uint (arg AND 0xFFFF)"

definition flush_group :: "srd_term list list \<Rightarrow> srd_term list \<Rightarrow> srd_term list list" where
  "flush_group or_groups current_and =
     (if current_and = [] then or_groups else or_groups @ [current_and])"

fun c_wait_args ::
    "cw_arg list \<Rightarrow> srd_term list list \<Rightarrow> srd_term list \<Rightarrow> srd_term list list option" where
  "c_wait_args [] ors cur_and = None"
| "c_wait_args (CW_u64 n # args) ors cur_and = None"
| "c_wait_args (CW_int a # args) ors cur_and =
     (if a = CW_END then Some (flush_group ors cur_and)
      else if a = CW_OR then c_wait_args args (flush_group ors cur_and) []
      else if srd_term_type_of (cw_type a) = SRD_TERM_SKIP then
        (case args of
           CW_u64 n # args' \<Rightarrow> c_wait_args args' ors (cur_and @
             [\<lparr>t_type = SRD_TERM_SKIP, t_channel = -1, num_samples_to_skip = n,
               num_samples_already_skipped = 0\<rparr>])
         | _ \<Rightarrow> None)
      else c_wait_args args ors (cur_and @
             [\<lparr>t_type = srd_term_type_of (cw_type a), t_channel = cw_chan a,
               num_samples_to_skip = 0, num_samples_already_skipped = 0\<rparr>]))"

definition c_wait ::
    "cw_arg list \<Rightarrow> sample_chunk list \<Rightarrow> 'p srd_decoder_inst \<Rightarrow>
     (wait_status \<times> sample_chunk list \<times> 'p srd_decoder_inst) option" where
  "c_wait args feed di = map_option (\<lambda>conds. c_decoder_wait_impl conds feed di) (c_wait_args args [] [])"

section \<open>Calls on the instance\<close>

definition c_call_metadata_sr :: "int \<Rightarrow> u64 \<Rightarrow> 'p srd_decoder_inst \<Rightarrow> 'p srd_decoder_inst" where
  "c_call_metadata_sr key value di = (if key = 10000 then di\<lparr>di_samplerate := value\<rparr> else di)"

definition c_option_set :: "gvariant ghash \<Rightarrow> 'p srd_decoder_inst \<Rightarrow> 'p srd_decoder_inst" where
  "c_option_set options di =
     di\<lparr>c_options := Some (fold (\<lambda>(k, v). g_hash_table_insert k v) options
                          (case c_options di of None \<Rightarrow> [] | Some t \<Rightarrow> t))\<rparr>"

text \<open>
  Asking the worker to stop, and the state once it has: the worker's own last section
  (\<^verbatim>\<open>c_di_thread\<close>) and the join.
\<close>

definition request_terminate :: "'p srd_decoder_inst \<Rightarrow> 'p srd_decoder_inst" where
  "request_terminate di = di\<lparr>want_wait_terminate := True, is_task_stop_signal := True\<rparr>"

definition c_di_thread_exit :: "'p srd_decoder_inst \<Rightarrow> 'p srd_decoder_inst" where
  "c_di_thread_exit di = di\<lparr>want_wait_terminate := True, handled_all_samples := True\<rparr>"

definition c_join_thread :: "'p srd_decoder_inst \<Rightarrow> 'p srd_decoder_inst" where
  "c_join_thread di =
     (if \<not> thread_handle di then di
      else (c_di_thread_exit (request_terminate di))\<lparr>thread_handle := False\<rparr>)"

definition srd_inst_reset_state :: "'p srd_decoder_inst \<Rightarrow> 'p srd_decoder_inst" where
  "srd_inst_reset_state di =
     (oldpins_array_free ((condition_list_free di)\<lparr>abs_start_samplenum := 0, abs_end_samplenum := 0,
        inbuf := None, inbuflen := 0, abs_cur_samplenum := 0\<rparr>))
     \<lparr>got_new_samples := False, handled_all_samples := False, want_wait_terminate := False,
      decoder_state := SRD_OK\<rparr>"

section \<open>One pass of the wait loop\<close>

lemma wait_pass_scan:
  assumes "got_new_samples di" and "\<not> want_wait_terminate di" and "have_non_null_conds di"
    and r: "find_match_loop (scan_start di) True = (found, d)"
  shows "wait_pass di =
     (if found then (Wait_found (abs_cur_samplenum d) (match_array d), fill_pin_cache (d\<lparr>first_pos := False\<rparr>))
      else if want_wait_terminate d then (Wait_term_req, release_chunk d) else (Wait_chunk_done, release_chunk d))"
  using assms process_samples_scan [of di 1] by (simp add: wait_pass_def Let_def release_chunk_def)

lemma wait_pass_hit:
  assumes "got_new_samples di" and "\<not> want_wait_terminate di" and "have_non_null_conds di"
    and pre: "scan_pre (scan_start di)" and sp: "spec_of (scan_start di) = Some (j, ms)"
  shows "\<exists>d. wait_pass di = (Wait_found (of_nat j) (match_mask 0 ms), d)"
proof -
  obtain found d where r: "find_match_loop (scan_start di) True = (found, d)"
    by (cases "find_match_loop (scan_start di) True")
  have f: "found" "unat (abs_cur_samplenum d) = j" "match_array d = match_mask 0 ms"
    using find_match_loop_refines [OF pre, of True] sp r by (simp_all add: scan_outcome_def)
  have "abs_cur_samplenum d = of_nat j" using f(2) by auto
  with wait_pass_scan [OF assms(1-3) r] f show ?thesis by simp
qed

lemma wait_pass_miss:
  assumes go: "got_new_samples di" "\<not> want_wait_terminate di" "have_non_null_conds di"
    and pre: "scan_pre (scan_start di)" and live: "all_live (scan_start di)"
    and sp: "spec_of (scan_start di) = None"
  shows "wait_pass di = (Wait_chunk_done,
    release_chunk ((unmatched_step ^^ samples_left (scan_start di)) (scan_start di)))"
proof -
  have "have_non_null_conds (scan_start di)" using go(3) by (simp add: scan_start_frame)
  from wait_pass_scan [OF go find_match_loop_unmatched_state [OF pre live this sp]] go(2)
  show ?thesis by (simp add: unmatched_steps_frame scan_start_frame)
qed

section \<open>A wait over a sequence of chunks\<close>

definition load_ck :: "sample_chunk \<Rightarrow> 'p srd_decoder_inst \<Rightarrow> 'p srd_decoder_inst" where
  "load_ck ck = load_chunk (ck_start ck) (ck_end ck) (ck_inbuf ck) (ck_const ck) (ck_len ck)"

text \<open>A chunk carries the waveform \<open>lv\<close> over its range, on channels that have buffers.\<close>

definition carries :: "'p srd_decoder_inst \<Rightarrow> (nat \<Rightarrow> int \<Rightarrow> u8) \<Rightarrow> sample_chunk \<Rightarrow> bool" where
  "carries di lv ck \<longleftrightarrow>
     (\<forall>k ch. unat (ck_start ck) \<le> k \<longrightarrow> k < unat (ck_end ck) \<longrightarrow> sample_at (load_ck ck di) k ch = lv k ch)
   \<and> (\<forall>ch. 0 \<le> ch \<longrightarrow> ch < int (dec_num_channels di) \<longrightarrow> chan_live (load_ck ck di) ch)"

text \<open>Chunks that continue each other from sample \<open>m\<close> on, and where they end.\<close>

fun feed_ok ::
    "'p srd_decoder_inst \<Rightarrow> (nat \<Rightarrow> int \<Rightarrow> u8) \<Rightarrow> u64 \<Rightarrow> sample_chunk list \<Rightarrow> bool" where
  "feed_ok di lv m [] = True"
| "feed_ok di lv m (ck # feed) = (ck_start ck = m \<and> m < ck_end ck \<and> ck_inbuf ck \<noteq> None
     \<and> ck_len ck \<noteq> 0 \<and> carries di lv ck \<and> feed_ok di lv (ck_end ck) feed)"

fun feed_end :: "u64 \<Rightarrow> sample_chunk list \<Rightarrow> u64" where
  "feed_end m [] = m"
| "feed_end m (ck # feed) = feed_end (ck_end ck) feed"

lemma feed_end_le: "feed_ok di lv m feed \<Longrightarrow> m \<le> feed_end m feed"
proof (induction feed arbitrary: m)
  case (Cons ck feed)
  then have "m < ck_end ck" "ck_end ck \<le> feed_end (ck_end ck) feed" by auto
  then show ?case by simp
qed simp

lemma carries_cong:
  "read_sample d = read_sample d' \<Longrightarrow> dec_num_channels d = dec_num_channels d' \<Longrightarrow>
     carries d lv ck = carries d' lv ck"
  using sample_at_load [of d d'] chan_live_load [of d d'] by (simp add: carries_def load_ck_def)

lemma feed_ok_cong:
  "read_sample d = read_sample d' \<Longrightarrow> dec_num_channels d = dec_num_channels d' \<Longrightarrow>
     feed_ok d lv m feed = feed_ok d' lv m feed"
  by (induction feed arbitrary: m) (simp_all add: carries_cong [of d d'])

text \<open>The instance holds a chunk that carries \<open>lv\<close> and is about to scan it.\<close>

definition scanning :: "(nat \<Rightarrow> int \<Rightarrow> u8) \<Rightarrow> 'p srd_decoder_inst \<Rightarrow> bool" where
  "scanning lv di \<longleftrightarrow> got_new_samples di \<and> \<not> want_wait_terminate di \<and> have_non_null_conds di
     \<and> scan_pre (scan_start di) \<and> abs_cur_samplenum (scan_start di) < abs_end_samplenum di
     \<and> (\<forall>ch. 0 \<le> ch \<longrightarrow> ch < int (dec_num_channels di) \<longrightarrow> chan_live di ch)
     \<and> (\<forall>k ch. unat (abs_cur_samplenum (scan_start di)) \<le> k \<longrightarrow> k < unat (abs_end_samplenum di) \<longrightarrow>
          sample_at di k ch = lv k ch)"

text \<open>The specification of the rest of the wait: the waveform up to \<open>n\<close>.\<close>

definition wait_spec :: "(nat \<Rightarrow> int \<Rightarrow> u8) \<Rightarrow> 'p srd_decoder_inst \<Rightarrow> u64 \<Rightarrow> (nat \<times> bool list) option" where
  "wait_spec lv di n = scan_spec lv (condition_list (scan_start di)) (oldpin (scan_start di)) 0
     (unat (abs_cur_samplenum (scan_start di))) (unat n - unat (abs_cur_samplenum (scan_start di)))"

lemma scan_start_num [simp]: "dec_num_channels (scan_start di) = dec_num_channels di"
  by (simp add: scan_start_def advance_past_match_def update_old_pins_array_initial_pins_def
      oldpins_array_seed_def Let_def split: option.split)

lemma chan_live_scan_start [simp]: "chan_live (scan_start di) ch = chan_live di ch"
  by (simp add: chan_live_def channel_buffer_def scan_start_frame)

lemma all_live_channels:
  assumes "scan_pre d" and "\<forall>ch. 0 \<le> ch \<longrightarrow> ch < int (dec_num_channels d) \<longrightarrow> chan_live d ch"
  shows "all_live d"
  using assms by (auto simp: all_live_def scan_pre_def conds_ok_def term_chan_ok_def)

lemma spec_of_scanning:
  assumes "scanning lv di"
  shows "spec_of (scan_start di) = wait_spec lv di (abs_end_samplenum di)"
proof -
  let ?k = "unat (abs_cur_samplenum (scan_start di))"
  have "samples_left (scan_start di) = unat (abs_end_samplenum di) - ?k"
    by (simp add: samples_left_def scan_start_frame)
  moreover have "scan_spec (sample_at di) (condition_list (scan_start di)) (oldpin (scan_start di)) 0 ?k
        (unat (abs_end_samplenum di) - ?k)
      = scan_spec lv (condition_list (scan_start di)) (oldpin (scan_start di)) 0 ?k
        (unat (abs_end_samplenum di) - ?k)"
    using assms by (intro scan_spec_lv_cong) (auto simp: scanning_def)
  ultimately show ?thesis by (simp add: spec_of_def wait_spec_def)
qed

text \<open>Delivering the next chunk to an instance that released the last one.\<close>

lemma release_chunk_view [simp]:
  "condition_list (release_chunk di) = condition_list di"
  "oldpin (release_chunk di) = oldpin di"
  "abs_cur_samplenum (release_chunk di) = abs_cur_samplenum di"
  "match_array (release_chunk di) = match_array di"
  "pins_ok (release_chunk di) = pins_ok di"
  "dec_num_channels (release_chunk di) = dec_num_channels di"
  "skip_zero (release_chunk di) = skip_zero di"
  "abs_cur_matched (release_chunk di) = abs_cur_matched di"
  "first_pos (release_chunk di) = first_pos di"
  "want_wait_terminate (release_chunk di) = want_wait_terminate di"
  "read_sample (release_chunk di) = read_sample di"
  "have_non_null_conds (release_chunk di) = have_non_null_conds di"
  by (simp_all add: release_chunk_def oldpin_def pins_ok_def have_non_null_conds_def fun_eq_iff
      split: option.split)

definition delivered :: "sample_chunk \<Rightarrow> 'p srd_decoder_inst \<Rightarrow> 'p srd_decoder_inst" where
  "delivered ck di = (load_ck ck (di\<lparr>thread_handle := True\<rparr>))
     \<lparr>got_new_samples := True, handled_all_samples := False\<rparr>"

lemma decode_begin_delivers:
  assumes "\<not> first_pos di" and "ck_inbuf ck \<noteq> None" and "ck_len ck \<noteq> 0"
    and "ck_start ck = abs_cur_samplenum di" and "ck_start ck \<le> ck_end ck"
  shows "srd_inst_decode_begin ck di = (SRD_OK, delivered ck di)"
  using assms by (simp add: srd_inst_decode_begin_def delivered_def load_ck_def not_less)

lemma delivered_view [simp]:
  "condition_list (delivered ck di) = condition_list di"
  "oldpin (delivered ck di) = oldpin di"
  "abs_cur_samplenum (delivered ck di) = abs_cur_samplenum di"
  "abs_start_samplenum (delivered ck di) = ck_start ck"
  "abs_end_samplenum (delivered ck di) = ck_end ck"
  "match_array (delivered ck di) = match_array di"
  "pins_ok (delivered ck di) = pins_ok di"
  "dec_num_channels (delivered ck di) = dec_num_channels di"
  "skip_zero (delivered ck di) = skip_zero di"
  "abs_cur_matched (delivered ck di) = abs_cur_matched di"
  "first_pos (delivered ck di) = first_pos di"
  "want_wait_terminate (delivered ck di) = want_wait_terminate di"
  "read_sample (delivered ck di) = read_sample di"
  "have_non_null_conds (delivered ck di) = have_non_null_conds di"
  "got_new_samples (delivered ck di)"
  by (simp_all add: delivered_def load_ck_def load_chunk_def oldpin_def pins_ok_def
      have_non_null_conds_def fun_eq_iff split: option.split)

lemma delivered_samples:
  assumes "read_sample d = read_sample d'"
  shows "sample_at (delivered ck d) = sample_at (load_ck ck d')"
    and "chan_live (delivered ck d) ch = chan_live (load_ck ck d') ch"
  using assms by (simp_all add: fun_eq_iff sample_at_def delivered_def load_ck_def load_chunk_def
      channel_buffer_def const_sample_def chan_live_def split: option.split)

lemma conds_ok_live:
  assumes "conds_ok u conds" and "dec_num_channels v = dec_num_channels u"
    and "abs_cur_matched v = abs_cur_matched u"
    and "\<forall>ch. 0 \<le> ch \<longrightarrow> ch < int (dec_num_channels v) \<longrightarrow> chan_live v ch"
  shows "conds_ok v conds"
  using assms by (simp add: conds_ok_def term_chan_ok_def)

lemma next_chunk:
  fixes di :: "'p srd_decoder_inst"
  defines "S \<equiv> scan_start di"
  defines "u \<equiv> (unmatched_step ^^ samples_left S) S"
  assumes sc: "scanning lv di" and none: "wait_spec lv di (abs_end_samplenum di) = None"
    and ok: "feed_ok di lv (abs_end_samplenum di) (ck # feed)"
  shows "srd_inst_decode_begin ck (release_chunk u) = (SRD_OK, delivered ck (release_chunk u))"
    and "scanning lv (delivered ck (release_chunk u))"
    and "feed_ok (delivered ck (release_chunk u)) lv (ck_end ck) feed"
    and "abs_end_samplenum di \<le> n \<Longrightarrow> wait_spec lv di n = wait_spec lv (delivered ck (release_chunk u)) n"
proof -
  let ?m = "abs_end_samplenum di" and ?B = "delivered ck (release_chunk u)"
  have pre: "scan_pre S" and lt: "abs_cur_samplenum S < ?m" and sp: "spec_of S = None"
    using sc none spec_of_scanning [OF sc] by (simp_all add: S_def scanning_def)
  have eS: "abs_end_samplenum S = ?m" by (simp add: S_def scan_start_frame)
  have le: "abs_cur_samplenum S \<le> abs_end_samplenum S" using lt eS by simp
  note st = unmatched_steps [OF pre sp le, folded u_def]
  have n0: "samples_left S \<noteq> 0" using lt eS by (simp add: samples_left_def word_less_nat_alt)
  have up: "scan_pre u" and stc: "abs_cur_samplenum u = abs_end_samplenum S"
    and stn: "dec_num_channels u = dec_num_channels S"
    and stp: "\<forall>ch. 0 \<le> ch \<longrightarrow> ch < int (dec_num_channels S) \<longrightarrow> oldpin u ch =
      (if samples_left S = 0 then oldpin S ch else sample_at S (unat (abs_end_samplenum S) - 1) ch)"
    using st by blast+
  have cur: "abs_cur_samplenum u = ?m" using stc eS by simp
  have ckf: "ck_start ck = ?m" "?m < ck_end ck" "ck_inbuf ck \<noteq> None" "ck_len ck \<noteq> 0" "carries di lv ck"
    "feed_ok di lv (ck_end ck) feed" using ok by simp_all
  have fr: "\<not> first_pos u" "\<not> want_wait_terminate u" "\<not> abs_cur_matched u" "have_non_null_conds u"
    "read_sample u = read_sample di"
  proof -
    have d: "\<not> want_wait_terminate di" "have_non_null_conds di" using sc by (simp_all add: scanning_def)
    show "\<not> first_pos u" by (simp only: u_def unmatched_steps_frame(2)) (simp add: S_def scan_start_frame)
    show "\<not> want_wait_terminate u"
      using d(1) by (simp only: u_def unmatched_steps_frame(3)) (simp add: S_def scan_start_frame)
    show "\<not> abs_cur_matched u" using n0 by (simp only: u_def unmatched_steps_frame(4)) simp
    show "have_non_null_conds u"
      using d(2) by (simp only: u_def unmatched_steps_frame(6)) (simp add: S_def scan_start_frame)
    show "read_sample u = read_sample di"
      by (simp only: u_def unmatched_steps_frame(1)) (simp add: S_def scan_start_frame)
  qed
  have num: "dec_num_channels u = dec_num_channels di" using stn by (simp only: S_def scan_start_num)
  show dec: "srd_inst_decode_begin ck (release_chunk u) = (SRD_OK, ?B)"
  proof (rule decode_begin_delivers)
    show "\<not> first_pos (release_chunk u)" using fr(1) by simp
    show "ck_inbuf ck \<noteq> None" "ck_len ck \<noteq> 0" using ckf(3,4) by blast+
    show "ck_start ck = abs_cur_samplenum (release_chunk u)"
      using ckf(1) cur by (simp only: release_chunk_view)
    show "ck_start ck \<le> ck_end ck" using ckf(1,2) by (simp only: less_imp_le)
  qed
  have smp: "sample_at ?B = sample_at (load_ck ck di)" "\<And>ch. chan_live ?B ch = chan_live (load_ck ck di) ch"
    using delivered_samples [of "release_chunk u" di ck] fr(5) by simp_all
  have live: "\<forall>ch. 0 \<le> ch \<longrightarrow> ch < int (dec_num_channels ?B) \<longrightarrow> chan_live ?B ch"
    using ckf(5) num smp(2) by (simp add: carries_def)
  have z: "match_array u = 0" using up by (simp add: scan_pre_def)
  have ss: "scan_start ?B = ?B" by (rule scan_start_settled) (simp_all add: fr z)
  have "conds_ok ?B (condition_list u)"
    by (rule conds_ok_live [of u]) (use up live in \<open>simp_all add: scan_pre_def\<close>)
  then have preB: "scan_pre ?B" using up cur ckf(1) by (simp add: scan_pre_def)
  show "scanning lv ?B"
    using fr preB ss live cur ckf(1,2,5) smp(1) by (simp add: scanning_def carries_def)
  show "feed_ok ?B lv (ck_end ck) feed"
    using ckf(6) feed_ok_cong [of ?B di] fr(5) num by simp
  assume n: "?m \<le> n"
  let ?k = "unat (abs_cur_samplenum S)" and ?l = "samples_left S" and ?r = "unat n - unat ?m"
  have len: "unat n - ?k = ?l + ?r" "?k + ?l = unat ?m"
    using n lt eS by (simp_all add: samples_left_def word_le_nat_alt word_less_nat_alt)
  have first: "scan_spec lv (condition_list S) (oldpin S) 0 ?k ?l = None"
    using none eS by (simp add: wait_spec_def S_def [symmetric] samples_left_def)
  have oldu: "\<forall>cond \<in> set (condition_list S). \<forall>t \<in> set cond. t_type t \<noteq> SRD_TERM_SKIP \<longrightarrow>
      lv (unat ?m - 1) (t_channel t) = oldpin u (t_channel t)"
  proof (intro ballI impI)
    fix cond t
    assume t: "cond \<in> set (condition_list S)" "t \<in> set cond" "t_type t \<noteq> SRD_TERM_SKIP"
    then have "0 \<le> t_channel t" "t_channel t < int (dec_num_channels S)"
      using pre by (auto simp: scan_pre_def conds_ok_def term_chan_ok_def)
    then have "oldpin u (t_channel t) = sample_at S (unat ?m - 1) (t_channel t)"
      using stp n0 eS by simp
    moreover have "?k \<le> unat ?m - 1" "unat ?m - 1 < unat ?m" using len n0 by simp_all
    ultimately show "lv (unat ?m - 1) (t_channel t) = oldpin u (t_channel t)"
      using sc by (simp add: scanning_def S_def)
  qed
  have "wait_spec lv di n = scan_spec lv (condition_list S) (lv (unat ?m - 1)) ?l (unat ?m) ?r"
    unfolding wait_spec_def S_def [symmetric] len(1) scan_spec_append first
    using n0 by (simp add: len(2))
  also have "\<dots> = scan_spec lv (condition_list S) (oldpin u) ?l (unat ?m) ?r"
    by (rule scan_spec_old_cong [OF oldu])
  also have "\<dots> = scan_spec lv (condition_list u) (oldpin u) 0 (unat ?m) ?r"
    using st by blast
  also have "\<dots> = wait_spec lv ?B n" using cur by (simp add: wait_spec_def ss)
  finally show "wait_spec lv di n = wait_spec lv ?B n" .
qed

lemma wait_loop_scanning:
  assumes "scanning lv di" and "feed_ok di lv (abs_end_samplenum di) feed"
  shows "case wait_spec lv di (feed_end (abs_end_samplenum di) feed) of
      None \<Rightarrow> \<exists>di'. wait_loop feed di = (Wait_chunk_done, [], di')
        \<and> abs_cur_samplenum di' = feed_end (abs_end_samplenum di) feed
        \<and> inbuf di' = None \<and> decode_may_return di' \<and> \<not> got_new_samples di'
    | Some (j, ms) \<Rightarrow> \<exists>rest di'. wait_loop feed di = (Wait_found (of_nat j) (match_mask 0 ms), rest, di')"
  using assms
proof (induction feed arbitrary: di)
  case Nil
  let ?S = "scan_start di"
  have sc: "got_new_samples di" "\<not> want_wait_terminate di" "have_non_null_conds di" "scan_pre ?S"
    "abs_cur_samplenum ?S \<le> abs_end_samplenum ?S"
    using Nil.prems(1) by (auto simp: scanning_def scan_start_frame intro: less_imp_le)
  have live: "all_live ?S" using Nil.prems(1) by (intro all_live_channels) (simp_all add: scanning_def)
  note sp = spec_of_scanning [OF Nil.prems(1)]
  show ?case
  proof (cases "wait_spec lv di (abs_end_samplenum di)")
    case None
    with sp have n: "spec_of ?S = None" by simp
    from unmatched_steps [OF sc(4) n sc(5)]
    have "abs_cur_samplenum ((unmatched_step ^^ samples_left ?S) ?S) = abs_end_samplenum di"
      by (simp add: scan_start_frame)
    with wait_pass_miss [OF sc(1-4) live n] None show ?thesis
      by (simp add: decode_may_return_def) (simp add: release_chunk_def)
  next
    case (Some r)
    obtain j ms where r: "r = (j, ms)" by (cases r)
    with Some sp have "spec_of ?S = Some (j, ms)" by simp
    from wait_pass_hit [OF sc(1-4) this] Some r show ?thesis by auto
  qed
next
  case (Cons ck feed)
  let ?S = "scan_start di" and ?m = "abs_end_samplenum di"
  let ?u = "(unmatched_step ^^ samples_left ?S) ?S"
  let ?B = "delivered ck (release_chunk ?u)"
  have sc: "got_new_samples di" "\<not> want_wait_terminate di" "have_non_null_conds di" "scan_pre ?S"
    using Cons.prems(1) by (simp_all add: scanning_def)
  have live: "all_live ?S" using Cons.prems(1) by (intro all_live_channels) (simp_all add: scanning_def)
  have n: "?m \<le> feed_end ?m (ck # feed)" by (rule feed_end_le [OF Cons.prems(2)])
  note sp = spec_of_scanning [OF Cons.prems(1)]
  show ?case
  proof (cases "wait_spec lv di ?m")
    case None
    note nx = next_chunk [OF Cons.prems(1) None Cons.prems(2)]
    from None sp have "wait_pass di = (Wait_chunk_done, release_chunk ?u)"
      using wait_pass_miss [OF sc live] by simp
    with nx(1) have l: "wait_loop (ck # feed) di = wait_loop feed ?B" by simp
    have e: "abs_end_samplenum ?B = ck_end ck" "feed_end ?m (ck # feed) = feed_end (ck_end ck) feed"
      by simp_all
    from Cons.IH [OF nx(2), unfolded e(1), OF nx(3)] show ?thesis
      unfolding l nx(4) [OF n] unfolding e(2) .
  next
    case (Some r)
    obtain j ms where r: "r = (j, ms)" by (cases r)
    with Some sp have "spec_of ?S = Some (j, ms)" by simp
    from wait_pass_hit [OF sc this] obtain d where d: "wait_pass di = (Wait_found (of_nat j) (match_mask 0 ms), d)"
      by blast
    have "wait_spec lv di (feed_end ?m (ck # feed)) = Some (j, ms)"
    proof -
      let ?k = "unat (abs_cur_samplenum ?S)" and ?N = "unat (feed_end ?m (ck # feed))"
      have k: "?k < unat ?m" using Cons.prems(1) by (simp add: scanning_def word_less_nat_alt)
      have "unat ?m \<le> ?N" using n by (simp only: word_le_nat_alt)
      with k have "?N - ?k = (unat ?m - ?k) + (?N - unat ?m)" by simp
      with Some r show ?thesis by (simp only: wait_spec_def scan_spec_append option.case)
    qed
    with d show ?thesis by simp
  qed
qed

text \<open>
  Where the first hit of a wait from \<open>k0\<close> on a waveform \<open>lv\<close> is: a condition holds
  there, and none holds before.
\<close>

definition first_hit ::
    "(nat \<Rightarrow> int \<Rightarrow> u8) \<Rightarrow> (int \<Rightarrow> u8) \<Rightarrow> nat \<Rightarrow> nat \<Rightarrow> srd_term list list \<Rightarrow> nat \<Rightarrow> bool" where
  "first_hit lv old k0 n conds k \<longleftrightarrow> k0 \<le> k \<and> k < n
     \<and> (\<exists>cond \<in> set conds. cond_holds_at lv old k0 k cond)
     \<and> (\<forall>j cond. k0 \<le> j \<longrightarrow> j < k \<longrightarrow> cond \<in> set conds \<longrightarrow> \<not> cond_holds_at lv old k0 j cond)"

lemma scan_spec_first_hit:
  assumes "scan_spec lv conds old 0 k0 (n - k0) = Some (j, ms)"
  shows "first_hit lv old k0 n conds j" and "ms = map (cond_holds_at lv old k0 j) conds"
proof -
  note s = scan_spec_Some [OF assms]
  show m: "ms = map (cond_holds_at lv old k0 j) conds" using s by (simp add: cond_holds_at_def)
  have "\<not> cond_holds_at lv old k0 i cond" if "k0 \<le> i" "i < j" "cond \<in> set conds" for i cond
  proof -
    have "i - k0 < j - k0" using that by simp
    with s that show ?thesis
      by (auto simp: scan_spec_None_iff cond_holds_at_def dest!: spec [of _ "i - k0"])
  qed
  with s m show "first_hit lv old k0 n conds j" by (auto simp: first_hit_def)
qed

lemma scan_spec_no_hit:
  assumes "scan_spec lv conds old 0 k0 (n - k0) = None"
  shows "\<not> first_hit lv old k0 n conds j"
proof
  assume h: "first_hit lv old k0 n conds j"
  then obtain i where j: "j = k0 + i" by (auto simp: first_hit_def dest: le_Suc_ex)
  with h have "i < n - k0" by (auto simp: first_hit_def)
  with assms h j show False
    by (auto simp: scan_spec_None_iff first_hit_def cond_holds_at_def)
qed

lemma scan_start_chans:
  "dec_channelmap (scan_start di) = dec_channelmap di" "c_pin_cache (scan_start di) = c_pin_cache di"
  "inbuflen (scan_start di) = inbuflen di"
  by (simp_all add: scan_start_def advance_past_match_def update_old_pins_array_initial_pins_def
      oldpins_array_seed_def Let_def split: option.split)

text \<open>The scan leaves the chunk, the channels and the pin cache alone.\<close>

text \<open>
  The same for an instance whose next sample may also be the first after its chunk. That is so
  when the last wait matched on the last sample of the chunk.
\<close>

definition ready_to_scan :: "(nat \<Rightarrow> int \<Rightarrow> u8) \<Rightarrow> 'p srd_decoder_inst \<Rightarrow> bool" where
  "ready_to_scan lv di \<longleftrightarrow> got_new_samples di \<and> \<not> want_wait_terminate di \<and> have_non_null_conds di
     \<and> scan_pre (scan_start di) \<and> abs_cur_samplenum (scan_start di) \<le> abs_end_samplenum di
     \<and> (\<forall>ch. 0 \<le> ch \<longrightarrow> ch < int (dec_num_channels di) \<longrightarrow> chan_live di ch)
     \<and> (\<forall>k ch. unat (abs_cur_samplenum (scan_start di)) \<le> k \<longrightarrow> k < unat (abs_end_samplenum di) \<longrightarrow>
          sample_at di k ch = lv k ch)"

lemma scanning_ready:
  "scanning lv di \<longleftrightarrow> ready_to_scan lv di \<and> abs_cur_samplenum (scan_start di) < abs_end_samplenum di"
  by (auto simp: scanning_def ready_to_scan_def)

text \<open>
  The sample a wait looks at first, given whether the last wait matched, the next sample, the end
  of the chunk and the chunks to come. A chunk that begins where the last match ended loses its
  first sample: the match is still noted in the instance and is counted once more.
\<close>

fun wait_from :: "bool \<Rightarrow> u64 \<Rightarrow> u64 \<Rightarrow> sample_chunk list \<Rightarrow> u64" where
  "wait_from mt c e [] = c"
| "wait_from mt c e (ck # feed) = (if c < e then c else wait_from mt (if mt then c + 1 else c) (ck_end ck) feed)"

lemma scan_start_matched:
  "abs_cur_matched (scan_start di) = abs_cur_matched di" "skip_zero (scan_start di) = skip_zero di"
  "got_new_samples (scan_start di) = got_new_samples di"
  "abs_cur_matched di \<Longrightarrow> \<exists>conds. condition_list (scan_start di) = map (map restart_skip) conds"
  by (auto simp: scan_start_def advance_past_match_def update_old_pins_array_initial_pins_def
      oldpins_array_seed_def Let_def split: option.split)

lemma moved_pins:
  "oldpin (d\<lparr>abs_cur_samplenum := k, condition_list := conds\<rparr>) = oldpin d"
  "pins_ok (d\<lparr>abs_cur_samplenum := k, condition_list := conds\<rparr>) = pins_ok d"
  by (simp_all add: oldpin_def pins_ok_def fun_eq_iff split: option.split)

lemma wait_from_le: "c \<le> e \<Longrightarrow> feed_ok di lv e feed \<Longrightarrow> c \<le> wait_from mt c e feed"
proof (induction mt c e feed rule: wait_from.induct)
  case (2 mt c e ck feed)
  show ?case
  proof (cases "c < e")
    case False
    then have lt: "c < ck_end ck" "e = c" using "2.prems" by auto
    then have "c \<le> c + 1" "c + 1 \<le> ck_end ck" by (auto simp: inc_le word_le_nat_alt word_less_nat_alt unat_Suc_less)
    then have "(if mt then c + 1 else c) \<le> wait_from mt (if mt then c + 1 else c) (ck_end ck) feed" "c \<le> (if mt then c + 1 else c)"
      using "2.IH" [OF False] "2.prems"(2) lt by auto
    then show ?thesis using False by simp
  qed simp
qed simp

lemma pass_over_end:
  assumes "ready_to_scan lv di" and "abs_cur_samplenum (scan_start di) = abs_end_samplenum di"
  shows "wait_pass di = (Wait_chunk_done, release_chunk (scan_start di))"
proof -
  have g: "got_new_samples di" "\<not> want_wait_terminate di" "have_non_null_conds di"
    using assms(1) by (simp_all add: ready_to_scan_def)
  have "find_match_loop (scan_start di) True = (False, scan_start di)"
    using assms(2) by (intro find_match_loop_outside) (simp add: scan_start_frame)
  from wait_pass_scan [OF g this] g(2) show ?thesis by (simp add: scan_start_frame)
qed

lemma next_after_end:
  fixes di :: "'p srd_decoder_inst"
  defines "S \<equiv> scan_start di"
  assumes rd: "ready_to_scan lv di" and at: "abs_cur_samplenum S = abs_end_samplenum di"
    and ok: "feed_ok di lv (abs_end_samplenum di) (ck # feed)"
  defines "B \<equiv> delivered ck (release_chunk S)"
  shows "srd_inst_decode_begin ck (release_chunk S) = (SRD_OK, B)" "ready_to_scan lv B" "feed_ok B lv (ck_end ck) feed"
    "abs_cur_samplenum (scan_start B) = (if abs_cur_matched di then abs_end_samplenum di + 1 else abs_end_samplenum di)"
    "condition_list (scan_start B) = condition_list S" "oldpin (scan_start B) = oldpin S" "abs_cur_matched B = abs_cur_matched di"
proof -
  let ?m = "abs_end_samplenum di"
  have g: "got_new_samples di" "\<not> want_wait_terminate di" "have_non_null_conds di" "scan_pre S"
    using rd by (simp_all add: ready_to_scan_def S_def)
  have ckf: "ck_start ck = ?m" "?m < ck_end ck" "ck_inbuf ck \<noteq> None" "ck_len ck \<noteq> 0" "carries di lv ck"
    "feed_ok di lv (ck_end ck) feed" using ok by simp_all
  have fr: "\<not> first_pos S" "\<not> want_wait_terminate S" "have_non_null_conds S" "read_sample S = read_sample di"
    "dec_num_channels S = dec_num_channels di" "abs_cur_matched S = abs_cur_matched di" "match_array S = 0"
    using g by (simp_all add: S_def scan_start_frame scan_start_matched)
  show "srd_inst_decode_begin ck (release_chunk S) = (SRD_OK, B)"
    unfolding B_def
  proof (rule decode_begin_delivers)
    show "ck_start ck = abs_cur_samplenum (release_chunk S)" using ckf(1) at by simp
  qed (use fr ckf in simp_all)
  have B: "\<not> first_pos B" "\<not> want_wait_terminate B" "have_non_null_conds B" "read_sample B = read_sample di"
    "dec_num_channels B = dec_num_channels di" "match_array B = 0" "got_new_samples B" "abs_cur_samplenum B = ?m"
    "condition_list B = condition_list S" "oldpin B = oldpin S" "abs_start_samplenum B = ?m" "abs_end_samplenum B = ck_end ck"
    "skip_zero B = skip_zero S" "pins_ok B = pins_ok S"
    using fr at ckf(1) by (simp_all add: B_def)
  show mt: "abs_cur_matched B = abs_cur_matched di" using fr by (simp add: B_def)
  have sB: "scan_start B = advance_past_match B"
    using B(1) by (simp add: scan_start_not_first match_array_0_id [OF B(6)])
  have conds: "abs_cur_matched di \<Longrightarrow> map (map restart_skip) (condition_list S) = condition_list S"
    using scan_start_matched(4) [of di] restart_skip_twice unfolding S_def by metis
  show c: "abs_cur_samplenum (scan_start B) = (if abs_cur_matched di then ?m + 1 else ?m)"
    "condition_list (scan_start B) = condition_list S" "oldpin (scan_start B) = oldpin S"
    using mt conds unfolding sB by (simp_all add: advance_past_match_def B moved_pins)
  have smp: "sample_at B = sample_at (load_ck ck di)" "\<And>ch. chan_live B ch = chan_live (load_ck ck di) ch"
    using delivered_samples [of "release_chunk S" di ck] fr(4) unfolding B_def by simp_all
  have live: "\<forall>ch. 0 \<le> ch \<longrightarrow> ch < int (dec_num_channels B) \<longrightarrow> chan_live B ch"
    using ckf(5) B(5) smp(2) by (simp add: carries_def)
  have le: "?m \<le> (if abs_cur_matched di then ?m + 1 else ?m)" "(if abs_cur_matched di then ?m + 1 else ?m) \<le> ck_end ck"
    using ckf(2) by (auto simp: inc_le word_le_nat_alt word_less_nat_alt unat_Suc_less)
  have "conds_ok (scan_start B) (condition_list S)"
    by (rule conds_ok_live [of S]) (use g(4) live fr B mt in \<open>simp_all add: scan_pre_def scan_start_matched\<close>)
  moreover have "pins_ok (scan_start B)"
    using g(4) B(14) unfolding sB by (simp add: scan_pre_def advance_past_match_def moved_pins)
  ultimately have pre: "scan_pre (scan_start B)"
    using g(4) le c B by (simp add: scan_pre_def scan_start_frame scan_start_matched)
  show "ready_to_scan lv B"
    using B pre live c(1) le ckf(1,5) smp(1) by (simp add: ready_to_scan_def carries_def word_le_nat_alt)
  show "feed_ok B lv (ck_end ck) feed" using ckf(6) feed_ok_cong [of B di] B by simp
qed

text \<open>
  The wait goes on from \<open>d\<close> with the chunks \<open>feed'\<close>, just as one that begins at the sample
  \<open>wait_from\<close> gives.
\<close>

definition goes_on ::
    "(nat \<Rightarrow> int \<Rightarrow> u8) \<Rightarrow> 'p srd_decoder_inst \<Rightarrow> sample_chunk list \<Rightarrow> 'p srd_decoder_inst \<Rightarrow> sample_chunk list \<Rightarrow> bool" where
  "goes_on lv di feed d feed' \<longleftrightarrow> scanning lv d \<and> feed_ok d lv (abs_end_samplenum d) feed'
     \<and> feed_end (abs_end_samplenum d) feed' = feed_end (abs_end_samplenum di) feed \<and> set feed' \<subseteq> set feed
     \<and> abs_cur_samplenum (scan_start d) = wait_from (abs_cur_matched di) (abs_cur_samplenum (scan_start di)) (abs_end_samplenum di) feed
     \<and> condition_list (scan_start d) = condition_list (scan_start di) \<and> oldpin (scan_start d) = oldpin (scan_start di)
     \<and> dec_num_channels d = dec_num_channels di \<and> dec_channelmap d = dec_channelmap di \<and> c_pin_cache d = c_pin_cache di
     \<and> (d = di \<or> (\<exists>ck \<in> set feed. abs_start_samplenum d = ck_start ck \<and> abs_end_samplenum d = ck_end ck \<and> inbuflen d = ck_len ck))
     \<and> (\<forall>ck \<in> set feed. ck \<notin> set feed' \<longrightarrow> ck_start ck \<le> abs_cur_samplenum (scan_start d))"

lemma goes_onD:
  assumes "goes_on lv di feed d feed'"
  shows "scanning lv d" "feed_ok d lv (abs_end_samplenum d) feed'"
    "feed_end (abs_end_samplenum d) feed' = feed_end (abs_end_samplenum di) feed" "set feed' \<subseteq> set feed"
    "abs_cur_samplenum (scan_start d) = wait_from (abs_cur_matched di) (abs_cur_samplenum (scan_start di)) (abs_end_samplenum di) feed"
    "condition_list (scan_start d) = condition_list (scan_start di)" "oldpin (scan_start d) = oldpin (scan_start di)"
    "dec_num_channels d = dec_num_channels di" "dec_channelmap d = dec_channelmap di" "c_pin_cache d = c_pin_cache di"
    "d = di \<or> (\<exists>ck \<in> set feed. abs_start_samplenum d = ck_start ck \<and> abs_end_samplenum d = ck_end ck \<and> inbuflen d = ck_len ck)"
    "\<forall>ck \<in> set feed. ck \<notin> set feed' \<longrightarrow> ck_start ck \<le> abs_cur_samplenum (scan_start d)"
  using assms unfolding goes_on_def by - (elim conjE, assumption)+

definition used_up :: "'p srd_decoder_inst \<Rightarrow> sample_chunk list \<Rightarrow> bool" where
  "used_up di feed \<longleftrightarrow> (let N = feed_end (abs_end_samplenum di) feed in
     wait_from (abs_cur_matched di) (abs_cur_samplenum (scan_start di)) (abs_end_samplenum di) feed = N
     \<and> (\<exists>d :: 'p srd_decoder_inst. wait_loop feed di = (Wait_chunk_done, [], d) \<and> abs_cur_samplenum d = N \<and> inbuf d = None \<and> decode_may_return d))"

lemma wait_loop_resume:
  fixes di :: "'p srd_decoder_inst"
  assumes "ready_to_scan lv di" and "feed_ok di lv (abs_end_samplenum di) feed"
  shows "(\<exists>(d :: 'p srd_decoder_inst) feed'. wait_loop feed di = wait_loop feed' d \<and> goes_on lv di feed d feed') \<or> used_up di feed"
  using assms
proof (induction feed arbitrary: di)
  case Nil
  show ?case
  proof (cases "abs_cur_samplenum (scan_start di) < abs_end_samplenum di")
    case True
    then have "goes_on lv di [] di []" using Nil by (simp add: scanning_ready goes_on_def)
    then show ?thesis by blast
  next
    case False
    then have "abs_cur_samplenum (scan_start di) = abs_end_samplenum di" using Nil(1) by (simp add: ready_to_scan_def)
    with pass_over_end [OF Nil(1)] have "used_up di []"
      by (simp add: used_up_def decode_may_return_def) (simp add: release_chunk_def)
    then show ?thesis ..
  qed
next
  case (Cons ck feed)
  show ?case
  proof (cases "abs_cur_samplenum (scan_start di) < abs_end_samplenum di")
    case True
    then have "goes_on lv di (ck # feed) di (ck # feed)" using Cons.prems by (simp add: scanning_ready goes_on_def)
    then show ?thesis by blast
  next
    case False
    then have at: "abs_cur_samplenum (scan_start di) = abs_end_samplenum di" using Cons.prems(1) by (simp add: ready_to_scan_def)
    let ?B = "delivered ck (release_chunk (scan_start di))"
    note nx = next_after_end [OF Cons.prems(1) at Cons.prems(2)]
    have l: "wait_loop (ck # feed) di = wait_loop feed ?B" using pass_over_end [OF Cons.prems(1) at] nx(1) by simp
    have fr: "dec_num_channels ?B = dec_num_channels di" "dec_channelmap ?B = dec_channelmap di" "c_pin_cache ?B = c_pin_cache di"
      "abs_start_samplenum ?B = ck_start ck" "abs_end_samplenum ?B = ck_end ck" "inbuflen ?B = ck_len ck"
      by (simp_all add: delivered_def load_ck_def load_chunk_def release_chunk_def scan_start_chans)
    have e: "wait_from (abs_cur_matched di) (abs_cur_samplenum (scan_start di)) (abs_end_samplenum di) (ck # feed) =
        wait_from (abs_cur_matched ?B) (abs_cur_samplenum (scan_start ?B)) (abs_end_samplenum ?B) feed"
      "feed_end (abs_end_samplenum di) (ck # feed) = feed_end (abs_end_samplenum ?B) feed"
      using False nx(4,7) at by simp_all
    have low: "ck_start ck \<le> wait_from (abs_cur_matched di) (abs_cur_samplenum (scan_start di)) (abs_end_samplenum di) (ck # feed)"
      using wait_from_le [OF _ Cons.prems(2), of "abs_cur_samplenum (scan_start di)" "abs_cur_matched di"] at Cons.prems(2) by simp
    from Cons.IH [OF nx(2)] nx(3) fr(5) consider d feed' where "wait_loop feed ?B = wait_loop feed' d" "goes_on lv ?B feed d feed'" | "used_up ?B feed"
      by auto
    then show ?thesis
    proof cases
      case 1
      have "goes_on lv di (ck # feed) d feed'"
        using 1(2) fr e nx(5,6) low unfolding goes_on_def by (auto simp del: wait_from.simps)
      with 1(1) l show ?thesis by metis
    next
      case 2
      then have "used_up di (ck # feed)" using l e unfolding used_up_def Let_def by simp
      then show ?thesis ..
    qed
  qed
qed

text \<open>
  C2: \<^verbatim>\<open>c_wait()\<close> over a sequence of chunks that carry a waveform returns at the first
  sample, from \<open>wait_from\<close> on, at which one of the conditions holds, with the mask of the
  conditions that hold there; it goes on waiting exactly if there is none, having used up
  every chunk. How the waveform is cut into chunks shows in one place only, which
  \<open>wait_from\<close> says: after a match on the last sample of a chunk the next chunk loses its
  first sample, and so on while the chunks have one sample. Otherwise the wait begins at the
  sample after the last match. All channels have buffers, and the conditions are of the kind
  the scan is shown for.
\<close>

theorem wait_over_chunks:
  assumes sc: "ready_to_scan lv (wait_enter conds di)"
    and feed: "feed_ok (wait_enter conds di) lv (abs_end_samplenum (wait_enter conds di)) feed"
    and S: "S = scan_start (wait_enter conds di)"
    and N: "N = feed_end (abs_end_samplenum (wait_enter conds di)) feed"
    and k0: "k0 = wait_from (abs_cur_matched di) (abs_cur_samplenum S) (abs_end_samplenum (wait_enter conds di)) feed"
  shows "\<exists>st rest di'. c_decoder_wait_impl conds feed di = (st, rest, di')
    \<and> (case st of
         Wait_found pos hits \<Rightarrow>
           first_hit lv (oldpin S) (unat k0) (unat N) (condition_list S) (unat pos)
         \<and> (length (condition_list S) \<le> 31 \<longrightarrow> (\<forall>j < length (condition_list S). bit hits j \<longleftrightarrow>
              cond_holds_at lv (oldpin S) (unat k0) (unat pos) (condition_list S ! j)))
       | Wait_chunk_done \<Rightarrow> rest = [] \<and> abs_cur_samplenum di' = N \<and> inbuf di' = None
         \<and> decode_may_return di'
         \<and> (\<forall>k. \<not> first_hit lv (oldpin S) (unat k0) (unat N) (condition_list S) k)
       | _ \<Rightarrow> False)"
proof -
  have mt: "abs_cur_matched (wait_enter conds di) = abs_cur_matched di"
    by (simp add: wait_enter_def condition_list_free_def)
  from wait_loop_resume [OF sc feed] consider
      d feed' where "wait_loop feed (wait_enter conds di) = wait_loop feed' d" "goes_on lv (wait_enter conds di) feed d feed'"
    | "used_up (wait_enter conds di) feed" by blast
  then show ?thesis
  proof cases
    case 1
    note g = 1(2) [unfolded goes_on_def mt, folded S N k0]
    have cur: "abs_cur_samplenum (scan_start d) = k0" using g by (simp only: k0)
    have w: "wait_spec lv d N = scan_spec lv (condition_list S) (oldpin S) 0 (unat k0) (unat N - unat k0)"
      using g cur by (simp add: wait_spec_def)
    have l: "c_decoder_wait_impl conds feed di = wait_loop feed' d" using 1(1) by (simp add: c_decoder_wait_impl_def)
    have sp: "case wait_spec lv d N of
        None \<Rightarrow> \<exists>di'. wait_loop feed' d = (Wait_chunk_done, [], di') \<and> abs_cur_samplenum di' = N \<and> inbuf di' = None \<and> decode_may_return di'
      | Some (j, ms) \<Rightarrow> \<exists>rest di'. wait_loop feed' d = (Wait_found (of_nat j) (match_mask 0 ms), rest, di')"
      using wait_loop_scanning [of lv d feed'] g by (auto split: option.split_asm)
    show ?thesis
    proof (cases "wait_spec lv d N")
      case None
      from scan_spec_no_hit [OF None [unfolded w]] sp l None show ?thesis by auto
    next
      case (Some r)
      obtain j ms where jm: "wait_spec lv d N = Some (j, ms)" using Some by (cases r) simp
      note h = scan_spec_first_hit [OF jm [unfolded w]]
      have "j < 2 ^ LENGTH(64)"
        using h(1) unsigned_less [of N] by (auto simp: first_hit_def intro: less_trans)
      then have "unat (of_nat j :: u64) = j" by (simp add: unsigned_of_nat take_bit_nat_eq_self)
      with sp jm h l show ?thesis by (auto simp: match_mask_bit)
    qed
  next
    case 2
    have "k0 = N" using 2 unfolding used_up_def Let_def mt S [symmetric] N [symmetric] k0 [symmetric] by blast
    then have "\<not> first_hit lv (oldpin S) (unat k0) (unat N) (condition_list S) k" for k by (auto simp: first_hit_def)
    with 2 show ?thesis unfolding used_up_def Let_def N [symmetric] by (auto simp: c_decoder_wait_impl_def)
  qed
qed

text \<open>The samples 0,0,0,1,1,0,0,0 in two chunks, and a wait for a rise.\<close>

definition example_chunk :: "u64 \<Rightarrow> u64 \<Rightarrow> u8 \<Rightarrow> sample_chunk" where
  "example_chunk s e b = \<lparr>ck_start = s, ck_end = e, ck_inbuf = Some (\<lambda>ch. Some (\<lambda>i. b)),
     ck_const = None, ck_len = 1\<rparr>"

definition example_wave :: "nat \<Rightarrow> int \<Rightarrow> u8" where
  "example_wave k ch = (if k = 3 \<or> k = 4 then 1 else 0)"

lemma example_samples:
  "read_sample di = None \<Longrightarrow> sample_at (load_ck (example_chunk s e b) di) k ch =
     (if bit b ((k - unat s) mod 8) then 1 else 0)"
  "chan_live (load_ck (example_chunk s e b) di) ch"
  by (simp_all add: sample_at_def load_ck_def load_chunk_def example_chunk_def channel_buffer_def
      chan_live_def Let_def)

lemma example_read_sample [simp]: "read_sample example_inst = None"
  by (simp add: example_inst_def malloc0_inst_def)

lemma example_chunked:
  "scanning example_wave (delivered (example_chunk 0 2 0) example_inst)"
  "feed_ok (delivered (example_chunk 0 2 0) example_inst) example_wave 2 [example_chunk 2 8 6]"
  "scan_start (delivered (example_chunk 0 2 0) example_inst) = delivered (example_chunk 0 2 0) example_inst"
proof -
  let ?d = "delivered (example_chunk 0 2 0) example_inst"
  have ex: "\<not> first_pos example_inst" "\<not> abs_cur_matched example_inst" "abs_cur_samplenum example_inst = 0"
    "match_array example_inst = 0" "\<not> want_wait_terminate example_inst"
    by (simp_all add: example_inst_def malloc0_inst_def)
  show ss: "scan_start ?d = ?d" by (rule scan_start_settled) (simp_all add: ex)
  have smp: "sample_at ?d k ch = (if bit (0 :: u8) ((k - unat (0 :: u64)) mod 8) then 1 else 0)" "chan_live ?d ch" for k ch
    using delivered_samples [of example_inst example_inst "example_chunk 0 2 0"]
    by (simp_all add: example_samples)
  have ok: "conds_ok ?d (condition_list example_inst)"
    by (rule conds_ok_live [of example_inst]) (use example_inst_ready(4) smp(2) in \<open>simp_all add: scan_pre_def\<close>)
  have pre: "scan_pre ?d"
    using example_inst_ready(4) ok ex by (simp add: scan_pre_def example_chunk_def)
  have k2: "example_wave k ch = 0" if "k < 2" for k ch using that by (simp add: example_wave_def)
  show "scanning example_wave ?d"
    using pre ss ex smp example_inst_ready(2)
    by (simp add: scanning_def k2) (simp add: example_chunk_def k2)
  have w8: "example_wave k ch = (if bit (6 :: u8) ((k - 2) mod 8) then 1 else 0)" if "2 \<le> k" "k < 8" for k ch
  proof -
    have "k \<in> {2, 3, 4, 5, 6, 7}" using that by auto
    then show ?thesis by (auto simp: example_wave_def)
  qed
  show "feed_ok ?d example_wave 2 [example_chunk 2 8 6]"
  proof -
    have "carries ?d example_wave (example_chunk 2 8 6)"
      unfolding carries_def
    proof (intro conjI allI impI)
      fix k ch assume "unat (ck_start (example_chunk 2 8 6)) \<le> k" "k < unat (ck_end (example_chunk 2 8 6))"
      then have "2 \<le> k" "k < 8" by (simp_all add: example_chunk_def)
      then show "sample_at (load_ck (example_chunk 2 8 6) ?d) k ch = example_wave k ch"
        by (simp add: example_samples w8)
    next
      fix ch show "chan_live (load_ck (example_chunk 2 8 6) ?d) ch" by (rule example_samples)
    qed
    then show ?thesis by (simp add: example_chunk_def)
  qed
qed

lemma wait_over_chunks_witness:
  "\<exists>st rest di'. c_decoder_wait_impl [] [example_chunk 2 8 6] (delivered (example_chunk 0 2 0) example_inst)
      = (st, rest, di')
    \<and> (case st of Wait_found pos hits \<Rightarrow> unat pos < 8 | Wait_chunk_done \<Rightarrow> abs_cur_samplenum di' = 8 | _ \<Rightarrow> False)"
proof -
  let ?d = "delivered (example_chunk 0 2 0) example_inst"
  have e: "wait_enter [] ?d = ?d" by (simp add: wait_enter_def)
  have N: "abs_end_samplenum ?d = 2" "feed_end 2 [example_chunk 2 8 6] = 8" by (simp_all add: example_chunk_def)
  obtain st rest di' where r: "c_decoder_wait_impl [] [example_chunk 2 8 6] ?d = (st, rest, di')"
    by (cases "c_decoder_wait_impl [] [example_chunk 2 8 6] ?d")
  have k0: "wait_from (abs_cur_matched ?d) (abs_cur_samplenum (scan_start ?d)) 2 [example_chunk 2 8 6] = 0"
    unfolding example_chunked(3) by (simp add: example_inst_def malloc0_inst_def)
  have rd: "ready_to_scan example_wave ?d" using example_chunked(1) by (simp add: scanning_ready)
  from wait_over_chunks [where conds = "[]" and di = ?d and lv = example_wave and feed = "[example_chunk 2 8 6]",
      unfolded e N, OF rd example_chunked(2) refl refl k0 [symmetric]] r
  have "case st of Wait_found pos hits \<Rightarrow> first_hit example_wave (oldpin (scan_start ?d))
      (unat (0 :: u64)) (unat (8 :: u64)) (condition_list (scan_start ?d)) (unat pos)
      | Wait_chunk_done \<Rightarrow> abs_cur_samplenum di' = 8 | _ \<Rightarrow> False"
    by (auto split: wait_status.splits)
  with r show ?thesis by (auto simp: first_hit_def split: wait_status.splits)
qed

section \<open>The argument encoding of c_wait\<close>

lemma and_FFFF: "(x :: 32 word) AND 0xFFFF = take_bit 16 x"
  by (simp add: take_bit_eq_mask mask_eq_exp_minus_1)

lemma cw_enc_fields:
  "take_bit 16 (signed_drop_bit 16 (cw_enc ty ch)) = (take_bit 16 (word_of_int ty) :: 32 word)"
  "take_bit 16 (cw_enc ty ch) = (take_bit 16 (word_of_int ch) :: 32 word)"
  by (rule bit_word_eqI; auto simp: cw_enc_def and_FFFF bit_or_iff bit_take_bit_iff
      bit_signed_drop_bit_iff bit_push_bit_iff min_def)+

lemma uint_take_bit_16: "0 \<le> n \<Longrightarrow> n < 65536 \<Longrightarrow> uint (take_bit 16 (word_of_int n :: 32 word)) = n"
  by (simp add: unsigned_take_bit_eq unsigned_of_int take_bit_int_eq_self)

lemma cw_type_enc: "0 \<le> ty \<Longrightarrow> ty < 65536 \<Longrightarrow> cw_type (cw_enc ty ch) = ty"
  by (simp only: cw_type_def and_FFFF cw_enc_fields uint_take_bit_16)

lemma cw_chan_enc: "0 \<le> ch \<Longrightarrow> ch < 65536 \<Longrightarrow> cw_chan (cw_enc ty ch) = ch"
  by (simp only: cw_chan_def and_FFFF cw_enc_fields uint_take_bit_16)

lemma cw_type_marks: "cw_type CW_OR = 65535" "cw_type CW_END = 65535"
  by (simp_all add: cw_type_def CW_OR_def CW_END_def and_FFFF mask_eq_exp_minus_1)

text \<open>What a caller writes: the terms as macros, \<^verbatim>\<open>CW_OR\<close> between conditions.\<close>

fun term_type_num :: "srd_term_type \<Rightarrow> int" where
  "term_type_num SRD_TERM_HIGH = 0"
| "term_type_num SRD_TERM_LOW = 1"
| "term_type_num SRD_TERM_RISING_EDGE = 2"
| "term_type_num SRD_TERM_FALLING_EDGE = 3"
| "term_type_num SRD_TERM_EITHER_EDGE = 4"
| "term_type_num SRD_TERM_NO_EDGE = 5"
| "term_type_num SRD_TERM_SKIP = 6"
| "term_type_num (SRD_TERM_UNKNOWN n) = n"

definition cw_term :: "srd_term \<Rightarrow> cw_arg list" where
  "cw_term t = (if t_type t = SRD_TERM_SKIP then [CW_int (cw_enc 6 (-1)), CW_u64 (num_samples_to_skip t)]
     else [CW_int (cw_enc (term_type_num (t_type t)) (t_channel t))])"

fun cw_args :: "srd_term list list \<Rightarrow> cw_arg list" where
  "cw_args [] = [CW_int CW_END]"
| "cw_args [cond] = concat (map cw_term cond) @ [CW_int CW_END]"
| "cw_args (cond # conds) = concat (map cw_term cond) @ CW_int CW_OR # cw_args conds"

definition macro_term :: "srd_term \<Rightarrow> bool" where
  "macro_term t \<longleftrightarrow> num_samples_already_skipped t = 0
     \<and> (case t_type t of SRD_TERM_UNKNOWN _ \<Rightarrow> False
        | SRD_TERM_SKIP \<Rightarrow> t_channel t = -1
        | _ \<Rightarrow> 0 \<le> t_channel t \<and> t_channel t < 65536 \<and> num_samples_to_skip t = 0)"

lemma cw_term_parse:
  assumes "macro_term t"
  shows "c_wait_args (cw_term t @ args) ors ands = c_wait_args args ors (ands @ [t])"
proof (cases "t_type t = SRD_TERM_SKIP")
  case True
  have y: "cw_type (cw_enc 6 (-1)) = 6" by (rule cw_type_enc) simp_all
  then have "cw_enc 6 (-1) \<noteq> CW_END" "cw_enc 6 (-1) \<noteq> CW_OR" using cw_type_marks by auto
  moreover have "\<lparr>t_type = SRD_TERM_SKIP, t_channel = -1, num_samples_to_skip = num_samples_to_skip t,
      num_samples_already_skipped = 0\<rparr> = t"
    using assms True by (simp add: macro_term_def)
  ultimately show ?thesis using True y by (simp add: cw_term_def srd_term_type_of_def)
next
  case False
  let ?n = "term_type_num (t_type t)"
  have n: "0 \<le> ?n" "?n < 6" "srd_term_type_of ?n = t_type t"
    and c: "0 \<le> t_channel t" "t_channel t < 65536" "num_samples_to_skip t = 0"
    using assms False
    by (cases "t_type t"; simp add: macro_term_def srd_term_type_of_def)+
  have y: "cw_type (cw_enc ?n (t_channel t)) = ?n" using n by (intro cw_type_enc) simp_all
  then have "cw_enc ?n (t_channel t) \<noteq> CW_END" "cw_enc ?n (t_channel t) \<noteq> CW_OR"
    using cw_type_marks n by auto
  moreover have "cw_chan (cw_enc ?n (t_channel t)) = t_channel t" using c by (intro cw_chan_enc)
  moreover have "\<lparr>t_type = t_type t, t_channel = t_channel t, num_samples_to_skip = 0,
      num_samples_already_skipped = 0\<rparr> = t"
    using assms c by (simp add: macro_term_def)
  ultimately show ?thesis using False y n by (simp add: cw_term_def)
qed

lemma cw_terms_parse:
  "\<forall>t \<in> set cond. macro_term t \<Longrightarrow>
     c_wait_args (concat (map cw_term cond) @ args) ors ands = c_wait_args args ors (ands @ cond)"
  by (induction cond arbitrary: ands) (simp_all add: cw_term_parse)

lemma CW_OR_not_END [simp]: "CW_OR \<noteq> CW_END"
  by (simp add: CW_OR_def CW_END_def)

text \<open>
  The argument list of \<^verbatim>\<open>c_wait\<close> built by the macros for an OR-list of AND-lists
  is parsed back into exactly these conditions, in order.
\<close>

theorem c_wait_args_roundtrip:
  assumes "\<forall>cond \<in> set conds. cond \<noteq> [] \<and> (\<forall>t \<in> set cond. macro_term t)"
  shows "c_wait_args (cw_args conds) ors [] = Some (ors @ conds)"
  using assms
  by (induction conds arbitrary: ors rule: cw_args.induct)
    (simp_all add: cw_terms_parse flush_group_def)

theorem c_wait_args_roundtrip_witness:
  "c_wait_args (cw_args [[level_term SRD_TERM_RISING_EDGE, level_term SRD_TERM_LOW],
      [level_term SRD_TERM_HIGH]]) [] []
    = Some [[level_term SRD_TERM_RISING_EDGE, level_term SRD_TERM_LOW], [level_term SRD_TERM_HIGH]]"
  using c_wait_args_roundtrip [of "[[level_term SRD_TERM_RISING_EDGE, level_term SRD_TERM_LOW],
      [level_term SRD_TERM_HIGH]]" "[]"]
  by (simp add: macro_term_def level_term_def)

section \<open>Chunks, pins and packed input\<close>

lemma find_match_loop_frame:
  "first_pos (snd (find_match_loop di asa)) = first_pos di
   \<and> read_sample (snd (find_match_loop di asa)) = read_sample di
   \<and> dec_channelmap (snd (find_match_loop di asa)) = dec_channelmap di
   \<and> dec_num_channels (snd (find_match_loop di asa)) = dec_num_channels di
   \<and> c_pin_cache (snd (find_match_loop di asa)) = c_pin_cache di
   \<and> inbuf (snd (find_match_loop di asa)) = inbuf di
   \<and> inbuf_const (snd (find_match_loop di asa)) = inbuf_const di
   \<and> inbuflen (snd (find_match_loop di asa)) = inbuflen di
   \<and> abs_start_samplenum (snd (find_match_loop di asa)) = abs_start_samplenum di
   \<and> got_new_samples (snd (find_match_loop di asa)) = got_new_samples di
   \<and> handled_all_samples (snd (find_match_loop di asa)) = handled_all_samples di
   \<and> want_wait_terminate (snd (find_match_loop di asa)) = want_wait_terminate di
   \<and> thread_handle (snd (find_match_loop di asa)) = thread_handle di"
proof (induction di asa rule: find_match_loop.induct)
  case (1 di asa)
  obtain c z a p conds where f: "snd (scan_sample di asa) = di\<lparr>abs_cur_samplenum := c, skip_zero := z,
      match_array := a, condition_list := conds, old_pins_array := p, abs_cur_matched := (a \<noteq> 0)\<rparr>"
    using scan_sample_frame [OF prod.collapse [symmetric]] by blast
  show ?case
  proof (cases "abs_cur_samplenum di < abs_end_samplenum di \<and> \<not> abs_cur_matched (snd (scan_sample di asa))")
    case True
    then have t: "abs_cur_samplenum di < abs_end_samplenum di" "\<not> abs_cur_matched (snd (scan_sample di asa))"
      by simp_all
    show ?thesis
      using "1.IH" [OF t(1) refl t(2)] t f
      by (subst (1 2 3 4 5 6 7 8 9 10 11 12 13) find_match_loop.simps) (simp add: Let_def)
  next
    case False
    then show ?thesis
      using f by (subst (1 2 3 4 5 6 7 8 9 10 11 12 13) find_match_loop.simps) (auto simp: Let_def)
  qed
qed

text \<open>
  C9: After a wait has used up its chunk, \<^verbatim>\<open>srd_inst_decode\<close> accepts exactly the chunks
  that start where the last one ended. The pointer to the channel buffers of the old chunk is
  cleared; the one to its constant levels, \<^verbatim>\<open>inbuf_const\<close>, is not: it still refers to the
  caller's array until the next chunk comes.
\<close>

theorem next_chunk_must_continue:
  assumes go: "got_new_samples di" "\<not> want_wait_terminate di" "have_non_null_conds di"
    and pre: "scan_pre (scan_start di)" "abs_cur_samplenum (scan_start di) \<le> abs_end_samplenum di"
    and fin: "wait_pass di = (Wait_chunk_done, di')"
  shows "(fst (srd_inst_decode_begin ck di') = SRD_OK \<longleftrightarrow>
      ck_inbuf ck \<noteq> None \<and> ck_len ck \<noteq> 0 \<and> ck_start ck = abs_end_samplenum di \<and> ck_start ck \<le> ck_end ck)
    \<and> inbuf di' = None \<and> inbuf_const di' = inbuf_const di \<and> \<not> got_new_samples di' \<and> decode_may_return di'"
proof -
  let ?S = "scan_start di"
  obtain found d where r: "find_match_loop ?S True = (found, d)" by (cases "find_match_loop ?S True")
  from wait_pass_scan [OF go r] fin have f: "\<not> found" "di' = release_chunk d"
    by (auto split: if_splits)
  have sp: "spec_of ?S = None" and cur: "abs_cur_samplenum d = max (abs_cur_samplenum ?S) (abs_end_samplenum ?S)"
    using find_match_loop_refines [OF pre(1), of True] r f(1)
    by (auto simp: scan_outcome_def split: option.splits)
  have fp: "\<not> first_pos d" using find_match_loop_frame [of ?S True] r by (simp add: scan_start_frame)
  have "fst (srd_inst_decode_begin ck di') = SRD_OK \<longleftrightarrow>
      ck_inbuf ck \<noteq> None \<and> ck_len ck \<noteq> 0 \<and> ck_start ck = abs_end_samplenum di \<and> ck_start ck \<le> ck_end ck"
    using cur pre(2) f(2) fp by (auto simp: srd_inst_decode_begin_def scan_start_frame max_absorb2 Let_def)
  moreover have "inbuf_const d = inbuf_const di" using find_match_loop_frame [of ?S True] r by (simp add: scan_start_frame)
  ultimately show ?thesis by (simp add: f(2)) (simp add: release_chunk_def decode_may_return_def)
qed


text \<open>The examples: a chunk without a rise, and one with a rise at sample 3.\<close>

lemma example_fields:
  "\<not> first_pos example_inst" "\<not> abs_cur_matched example_inst" "abs_cur_samplenum example_inst = 0"
  "match_array example_inst = 0" "\<not> want_wait_terminate example_inst" "c_pin_cache example_inst = None"
  "dec_num_channels example_inst = 1" "dec_channelmap example_inst = Some [0]"
  by (simp_all add: example_inst_def malloc0_inst_def)

lemma example_scan:
  "scan_start (delivered (example_chunk 0 e b) example_inst) = delivered (example_chunk 0 e b) example_inst"
  "scan_pre (delivered (example_chunk 0 e b) example_inst)"
proof -
  let ?d = "delivered (example_chunk 0 e b) example_inst"
  show "scan_start ?d = ?d" by (rule scan_start_settled) (simp_all add: example_fields)
  have live: "chan_live ?d ch" for ch
    using delivered_samples [of example_inst example_inst "example_chunk 0 e b"]
    by (simp add: example_samples)
  have ok: "conds_ok ?d (condition_list example_inst)"
    by (rule conds_ok_live [of example_inst]) (use example_inst_ready(4) live in \<open>simp_all add: scan_pre_def\<close>)
  show "scan_pre ?d"
    using example_inst_ready(4) ok example_fields by (simp add: scan_pre_def example_chunk_def)
qed

lemma example_miss: "fst (wait_pass (delivered (example_chunk 0 2 0) example_inst)) = Wait_chunk_done"
  by code_simp

lemma next_chunk_must_continue_witness:
  "let d = snd (wait_pass (delivered (example_chunk 0 2 0) example_inst))
   in fst (srd_inst_decode_begin (example_chunk 2 8 6) d) = SRD_OK
    \<and> fst (srd_inst_decode_begin (example_chunk 3 8 6) d) = SRD_ERR_ARG"
proof -
  let ?d = "delivered (example_chunk 0 2 0) example_inst"
  have m: "wait_pass ?d = (Wait_chunk_done, snd (wait_pass ?d))"
    using example_miss by (metis prod.collapse)
  have a: "fst (srd_inst_decode_begin (example_chunk s 8 6) (snd (wait_pass ?d))) = SRD_OK \<longleftrightarrow> s = 2 \<and> s \<le> 8" for s
    using next_chunk_must_continue [OF _ _ _ _ _ m, of "example_chunk s 8 6"] example_scan example_inst_ready(2)
    by (simp add: example_fields) (simp add: example_chunk_def)
  have b: "fst (srd_inst_decode_begin ck di) \<noteq> SRD_OK \<Longrightarrow> fst (srd_inst_decode_begin ck di) = SRD_ERR_ARG"
    for ck and di :: "unit srd_decoder_inst"
    by (simp add: srd_inst_decode_begin_def Let_def split: if_splits)
  show ?thesis using a [of 2] a [of 3] b by (simp add: Let_def)
qed

section \<open>The pin cache\<close>

lemma and_1_bit: "drop_bit n (x :: u8) AND 1 = (if bit x n then 1 else 0)"
  by (simp add: and_one_eq mod_2_eq_odd bit_iff_odd_drop_bit)

lemma cache_pin_updates:
  "cache_pin (d\<lparr>first_pos := b\<rparr>) = cache_pin d" "cache_pin (d\<lparr>c_pin_cache := c\<rparr>) = cache_pin d"
  by (simp_all add: fun_eq_iff cache_pin_def channel_buffer_def const_sample_def Let_def split: option.split)

text \<open>
  C8: After a match \<^verbatim>\<open>c_pin()\<close> and \<^verbatim>\<open>c_decoder_get_pin\<close> give the level of every
  connected channel at the matched sample, for buffered and constant channels alike, and
  \<open>0xFF\<close> for the others.
\<close>

theorem pin_cache_at_match:
  assumes hit: "wait_pass di = (Wait_found pos hits, di')"
    and map: "dec_channelmap di = Some chmap" "length chmap = dec_num_channels di"
    and cache: "\<And>c. c_pin_cache di = Some c \<Longrightarrow> length c = dec_num_channels di"
    and conds: "have_non_null_conds di"
    and rng: "abs_start_samplenum di \<le> pos" "(pos - abs_start_samplenum di) div 8 < (inbuflen di + 7) div 8"
    and i: "i < dec_num_channels di"
  shows "c_pin di' (int i) = (if chmap ! i < 0 then 0xFF else sample_at di (unat pos) (int i))
    \<and> c_decoder_get_pin_impl di' (int i) pos = c_pin di' (int i)"
proof -
  have go: "got_new_samples di" "\<not> want_wait_terminate di"
    using hit by (auto simp: wait_pass_def split: if_splits)
  obtain found d where r: "find_match_loop (scan_start di) True = (found, d)"
    by (cases "find_match_loop (scan_start di) True")
  from wait_pass_scan [OF go conds r] hit
  have f: "pos = abs_cur_samplenum d" "di' = fill_pin_cache (d\<lparr>first_pos := False\<rparr>)"
    by (auto split: if_splits)
  have fr: "read_sample d = read_sample di" "dec_channelmap d = dec_channelmap di"
    "dec_num_channels d = dec_num_channels di" "c_pin_cache d = c_pin_cache di" "inbuf d = inbuf di"
    "inbuf_const d = inbuf_const di" "inbuflen d = inbuflen di" "abs_start_samplenum d = abs_start_samplenum di"
    using find_match_loop_frame [of "scan_start di" True] r by (simp_all add: scan_start_frame scan_start_chans)
  define c where "c = (case c_pin_cache di of Some c \<Rightarrow> c | None \<Rightarrow> replicate (dec_num_channels di) (0 :: u8))"
  have lc: "length c = dec_num_channels di" using cache by (auto simp: c_def split: option.split)
  have off: "unat (pos - abs_start_samplenum di) = unat pos - unat (abs_start_samplenum di)"
    by (rule unat_diff_le [OF rng(1)])
  have pin: "cache_pin d chmap i = (if chmap ! i < 0 then 0xFF else sample_at di (unat pos) (int i))"
    using rng f(1) fr off
    by (simp add: cache_pin_def sample_at_def channel_buffer_def const_sample_def Let_def and_1_bit
        unat_div unat_mod split: option.split)
  have di': "dec_num_channels di' = dec_num_channels di" "dec_channelmap di' = Some chmap"
    "c_pin_cache di' = Some (update_range (dec_num_channels di) (\<lambda>i _. cache_pin d chmap i) c)"
    "c_pin_cache_samplenum di' = pos"
    unfolding f(2) using fr map i f(1)
    by (auto simp: fill_pin_cache_def Let_def c_def cache_pin_updates split: option.splits)
  have "c_pin di' (int i) = cache_pin d chmap i"
    using di' i lc pin by (simp add: c_pin_def c_array_at_def)
  moreover have "c_decoder_get_pin_impl di' (int i) pos = cache_pin d chmap i"
    using di' i lc pin by (simp add: c_decoder_get_pin_impl_def c_array_at_def)
  ultimately show ?thesis using pin by simp
qed


lemma example_hit:
  "fst (wait_pass (delivered (example_chunk 0 8 24) example_inst)) = Wait_found 3 1"
  by code_simp

lemma pin_cache_at_match_witness:
  "c_pin (snd (wait_pass (delivered (example_chunk 0 8 24) example_inst))) 0 = 1"
proof -
  let ?d = "delivered (example_chunk 0 8 24) example_inst"
  have h: "wait_pass ?d = (Wait_found 3 1, snd (wait_pass ?d))" using example_hit by (metis prod.collapse)
  have f: "dec_channelmap ?d = Some [0]" "c_pin_cache ?d = None" "inbuflen ?d = 1"
    by (simp_all add: delivered_def load_ck_def load_chunk_def example_chunk_def example_fields)
  have "c_pin (snd (wait_pass ?d)) (int 0) = (if [0 :: int] ! 0 < 0 then 0xFF else sample_at ?d (unat (3 :: u64)) (int 0))"
    using pin_cache_at_match [OF h f(1), of 0] example_inst_ready(2) f(2,3)
    by (simp add: example_fields) (simp add: example_chunk_def)
  then show ?thesis
    using delivered_samples [of example_inst example_inst "example_chunk 0 8 24"]
    by (simp add: example_samples)
qed

section \<open>Packed input\<close>

definition fetched_level :: "fetched \<Rightarrow> nat \<Rightarrow> u8" where
  "fetched_level fc n = (case fc of Fetched_const c \<Rightarrow> c
     | Fetched_buf buf off \<Rightarrow> if bit (buf (off + n div 8)) (n mod 8) then 1 else 0)"

lemma unat_and_7: "unat (x AND 7 :: u64) = unat x mod 8"
proof -
  have "x AND 7 = take_bit 3 x" by (simp add: take_bit_eq_mask mask_eq_exp_minus_1)
  then show ?thesis by (simp only: unsigned_take_bit_eq) (simp add: take_bit_eq_mod)
qed

lemma div_mod_8_add:
  fixes a i :: nat
  shows "a div 8 + (a mod 8 + i) div 8 = (a + i) div 8" and "(a mod 8 + i) mod 8 = (a + i) mod 8"
proof -
  have "(8 * (a div 8) + (a mod 8 + i)) div 8 = a div 8 + (a mod 8 + i) div 8" by (rule div_mult_self4) simp
  then show "a div 8 + (a mod 8 + i) div 8 = (a + i) div 8" by (simp add: add.assoc [symmetric])
  show "(a mod 8 + i) mod 8 = (a + i) mod 8" by (rule mod_add_left_eq)
qed

lemma unat_drop_3: "unat (drop_bit 3 (x :: u64)) = unat x div 8"
  by (simp add: drop_bit_eq_div unat_div)

text \<open>
  C7: \<^verbatim>\<open>c_fetch_packed_multi\<close> hands out at least one sample, at most what was asked for
  and at most what is left; bit \<open>bit_offset + i\<close> of a channel's pointer is the level of
  that channel \<open>i\<close> samples after \<open>start_sample\<close>, a constant channel has its level, and
  an unconnected one \<open>0xFF\<close>. Consuming what was fetched either makes the next fetch
  start right behind it, or ends the chunk and gives its buffers back.
\<close>

theorem fetch_consume_tiles:
  assumes fetch: "c_fetch_packed_multi chans mx di = (Some fr, di1)"
    and map: "dec_channelmap di = Some chmap" and rd: "read_sample di = None"
    and cur: "abs_start_samplenum di \<le> abs_cur_samplenum di"
  shows "fr_start fr = abs_cur_samplenum di
    \<and> 0 < fr_count fr \<and> fr_count fr \<le> mx \<and> unat (fr_start fr) + unat (fr_count fr) \<le> unat (abs_end_samplenum di)
    \<and> (\<forall>j < length chans. \<forall>i. fetched_level (fr_chans fr ! j) (fr_bit_offset fr + i) =
         (if 0 \<le> chans ! j \<and> chans ! j < int (dec_num_channels di) \<and> 0 \<le> chmap ! nat (chans ! j)
          then sample_at di (unat (fr_start fr) + i) (chans ! j) else 0xFF))
    \<and> (\<exists>di2. c_consume_samples (fr_count fr) di1 = (SRD_OK, di2)
        \<and> abs_cur_samplenum di2 = abs_cur_samplenum di + fr_count fr
        \<and> (if abs_cur_samplenum di2 = abs_end_samplenum di
           then inbuf di2 = None \<and> \<not> got_new_samples di2 \<and> decode_may_return di2
           else got_new_samples di2 \<and> (\<forall>fr' di3. c_fetch_packed_multi chans mx di2 = (Some fr', di3)
                  \<longrightarrow> fr_start fr' = fr_start fr + fr_count fr)))"
proof -
  let ?cur = "abs_cur_samplenum di" and ?e = "abs_end_samplenum di" and ?st = "abs_start_samplenum di"
  have f: "chans \<noteq> []" "mx \<noteq> 0" "got_new_samples di" "\<not> want_wait_terminate di" "?cur < ?e"
    "fr = \<lparr>fr_count = (if ?e - ?cur < mx then ?e - ?cur else mx), fr_start = ?cur,
       fr_bit_offset = unat ((?cur - ?st) AND 7),
       fr_chans = map (fetch_channel di (unat (drop_bit 3 (?cur - ?st)))) chans\<rparr>"
    "di1 = di\<lparr>first_pos := False\<rparr>"
    using fetch cur by (auto simp: c_fetch_packed_multi_def Let_def split: if_splits)
  have av: "unat (?e - ?cur) = unat ?e - unat ?cur" using f(5) by (intro unat_diff_le) simp
  have le: "fr_count fr \<le> ?e - ?cur" and cnt: "0 < fr_count fr" "fr_count fr \<le> mx"
    using f(2,5,6) by (auto simp: word_gt_0 not_less)
  have lt: "unat ?cur < unat ?e" using f(5) by (simp add: word_less_nat_alt)
  have sum: "unat ?cur + unat (fr_count fr) \<le> unat ?e"
    using le av lt by (simp add: word_le_nat_alt)
  have "unat ?cur + unat (fr_count fr) < 2 ^ LENGTH(64)"
    by (rule le_less_trans [OF sum]) (rule unsigned_less)
  then have add: "unat (?cur + fr_count fr) = unat ?cur + unat (fr_count fr)"
    by (simp add: unat_word_ariths)
  have off: "unat (?cur - ?st) = unat ?cur - unat ?st" using cur by (rule unat_diff_le)
  have lev: "fetched_level (fr_chans fr ! j) (fr_bit_offset fr + i) =
      (if 0 \<le> chans ! j \<and> chans ! j < int (dec_num_channels di) \<and> 0 \<le> chmap ! nat (chans ! j)
       then sample_at di (unat ?cur + i) (chans ! j) else 0xFF)" if "j < length chans" for i j
  proof -
    let ?o = "unat ?cur - unat ?st"
    note div_mod_8_add [of ?o i]
    moreover have "unat ?cur + i - unat ?st = ?o + i" using cur by (simp add: word_le_nat_alt)
    ultimately show ?thesis
      using that map rd
      by (auto simp: f(6) fetch_channel_def fetched_level_def sample_at_def unat_and_7 unat_drop_3 off
          const_sample_def Let_def split: option.split)
  qed
  define d where "d = di1\<lparr>abs_cur_samplenum := ?cur + fr_count fr, abs_cur_matched := False\<rparr>"
  define di2 where "di2 = (if ?e \<le> ?cur + fr_count fr then (release_chunk d)\<lparr>inbuf_const := None\<rparr> else d)"
  have con: "c_consume_samples (fr_count fr) di1 = (SRD_OK, di2)"
  proof -
    have "\<not> ?e - ?cur < fr_count fr" "fr_count fr \<noteq> 0" using le cnt(1) by (simp_all add: word_gt_0)
    with f(3,4) show ?thesis
      by (simp add: c_consume_samples_def f(7) di2_def d_def Let_def release_chunk_def)
  qed
  have c2: "abs_cur_samplenum di2 = ?cur + fr_count fr" by (simp add: di2_def d_def)
  have ge: "?e \<le> ?cur + fr_count fr \<longleftrightarrow> ?cur + fr_count fr = ?e"
    using sum add by (auto simp: word_le_nat_alt word_unat_eq_iff)
  have tail: "if abs_cur_samplenum di2 = ?e
      then inbuf di2 = None \<and> \<not> got_new_samples di2 \<and> decode_may_return di2
      else got_new_samples di2 \<and> (\<forall>fr' di3. c_fetch_packed_multi chans mx di2 = (Some fr', di3)
             \<longrightarrow> fr_start fr' = ?cur + fr_count fr)"
  proof (cases "?cur + fr_count fr = ?e")
    case True
    then show ?thesis by (simp add: di2_def ge d_def) (simp add: release_chunk_def decode_may_return_def)
  next
    case False
    have "?st \<le> ?cur + fr_count fr" using cur add by (simp add: word_le_nat_alt)
    with False f(3) show ?thesis
      by (auto simp: di2_def ge d_def f(7) c_fetch_packed_multi_def Let_def split: if_splits)
  qed
  have st: "fr_start fr = ?cur" by (simp add: f(6))
  show ?thesis using cnt sum lev con c2 tail unfolding st by blast
qed


lemma fetch_consume_tiles_witness:
  "\<exists>fr di1 di2. c_fetch_packed_multi [0] 5 (delivered (example_chunk 0 8 24) example_inst) = (Some fr, di1)
    \<and> fr_count fr \<le> 5 \<and> fetched_level (fr_chans fr ! 0) (fr_bit_offset fr + 3) = 1
    \<and> c_consume_samples (fr_count fr) di1 = (SRD_OK, di2)"
proof -
  let ?d = "delivered (example_chunk 0 8 24) example_inst"
  have f: "dec_channelmap ?d = Some [0]" "abs_start_samplenum ?d \<le> abs_cur_samplenum ?d"
    "abs_cur_samplenum ?d = 0" "dec_num_channels ?d = 1"
    by (simp_all add: delivered_def load_ck_def load_chunk_def example_chunk_def example_fields)
  have "fst (c_fetch_packed_multi [0] 5 ?d) \<noteq> None"
    by (simp add: c_fetch_packed_multi_def Let_def example_fields) (simp add: example_chunk_def)
  then obtain fr di1 where r: "c_fetch_packed_multi [0] 5 ?d = (Some fr, di1)"
    by (cases "c_fetch_packed_multi [0] 5 ?d") auto
  have s: "sample_at ?d k ch = (if bit (24 :: u8) (k mod 8) then 1 else 0)" for k ch
    using delivered_samples [of example_inst example_inst "example_chunk 0 8 24"]
    by (simp add: example_samples)
  have rd: "read_sample ?d = None" by simp
  from fetch_consume_tiles [OF r f(1) rd f(2)] f(3,4)
  have "fr_count fr \<le> 5" "\<exists>di2. c_consume_samples (fr_count fr) di1 = (SRD_OK, di2)"
    "fetched_level (fr_chans fr ! 0) (fr_bit_offset fr + 3) = sample_at ?d 3 0"
    by auto
  with r s [of 3 0] show ?thesis by auto
qed

section \<open>Where the code is not what its documentation says\<close>

text \<open>
  The documentation of \<^verbatim>\<open>srd_session_send\<close> shows chunks with inclusive ends
  (0 to 1023, then 1024 to 2047). The code's ends are exclusive: after a chunk 0 to 3,
  a chunk from 4 is refused.
\<close>

lemma inclusive_ends_refused:
  "fst (srd_inst_decode_begin (example_chunk 4 7 0)
     (snd (wait_pass (delivered (example_chunk 0 3 0) example_inst)))) = SRD_ERR_ARG"
  by code_simp

text \<open>
  Away from the cached sample, \<^verbatim>\<open>c_decoder_get_pin_impl\<close> reads a constant high
  channel as 0: it does not look at \<open>inbuf_const\<close>, as the cache does.
\<close>

lemma get_pin_ignores_constant_level:
  "(let di = load_chunk 0 8 None (Some (\<lambda>ch. 1)) 1 example_inst
    in (c_decoder_get_pin_impl di 0 5, sample_at di 5 0)) = (0, 1)"
  by code_simp

text \<open>
  The flags \<^verbatim>\<open>srd_inst_start\<close> sets before it calls the decoder's start.
\<close>

definition start_flags :: "'p srd_decoder_inst \<Rightarrow> 'p srd_decoder_inst" where
  "start_flags di = di\<lparr>first_pos := True, abs_cur_matched := False, skip_zero := False\<rparr>"

text \<open>
  After a reset the previous pins are gone until the first scan seeds them, which it does
  only while \<open>first_pos\<close> is set. A fetch before the first wait clears \<open>first_pos\<close>, and
  the wait then reads its edge terms through a NULL array.
\<close>

lemma fetch_after_reset_leaves_no_pins:
  "(let di = snd (srd_inst_decode_begin (example_chunk 0 8 24)
              (start_flags (srd_inst_reset_state example_inst)));
        di1 = snd (c_fetch_packed_multi [0] 4 di);
        di2 = wait_enter [[level_term SRD_TERM_RISING_EDGE]] di1
    in (got_new_samples di2, first_pos di2, old_pins_array (scan_start di2))) = (True, False, None)"
  by code_simp

text \<open>A terminated and reset instance keeps \<open>is_task_stop_signal\<close>.\<close>

lemma reset_keeps_stop_signal:
  "thread_handle di \<Longrightarrow> is_task_stop_signal (srd_inst_reset_state (c_join_thread di))"
  by (simp add: srd_inst_reset_state_def c_join_thread_def request_terminate_def c_di_thread_exit_def
      oldpins_array_free_def condition_list_free_def)

end
