(* ===== verification/Handshake.thy ===== *)
theory Handshake
  imports Wait
begin

text \<open>
  The two threads around one instance: the producer in \<^verbatim>\<open>srd_inst_decode\<close> and the
  worker that runs the decoder, with a third party that may ask for termination at any
  time. Every section under \<^verbatim>\<open>data_mutex\<close> is one step; the condition variables are
  modelled by what they wake, and a sleeper may also wake spuriously. The instance is the
  record of DecTypes and the steps use the functions of Wait.
\<close>

section \<open>The step relation\<close>

text \<open>
  The producer is outside its call, about to test its loop condition, or asleep on
  \<^verbatim>\<open>handled_all_samples_cond\<close>. The worker is not created yet, in the decoder's own
  code, about to test the loop condition of \<^verbatim>\<open>c_decoder_wait_impl\<close> or of
  \<^verbatim>\<open>c_fetch_packed_multi\<close> (with its channels and its limit), asleep on
  \<^verbatim>\<open>got_new_samples_cond\<close> in one of the two, or finished.
\<close>

datatype producer_pc = P_idle | P_check | P_sleep

datatype worker_pc = W_none | W_run | W_check | W_sleep
  | W_fetch "int list" u64 | W_fetch_sleep "int list" u64 | W_exited

datatype 'p hs_state =
  HS (hs_inst: "'p srd_decoder_inst") (hs_prod: producer_pc) (hs_work: worker_pc)

definition signal_handled :: "producer_pc \<Rightarrow> producer_pc" where
  "signal_handled p = (if p = P_sleep then P_check else p)"

definition signal_got :: "worker_pc \<Rightarrow> worker_pc" where
  "signal_got w = (case w of W_sleep \<Rightarrow> W_check | W_fetch_sleep chans mx \<Rightarrow> W_fetch chans mx | _ \<Rightarrow> w)"

text \<open>The worker is created with the first accepted chunk.\<close>

definition start_worker :: "'p srd_decoder_inst \<Rightarrow> worker_pc \<Rightarrow> worker_pc" where
  "start_worker di w = (if thread_handle di then signal_got w else W_run)"

text \<open>The producer: \<^verbatim>\<open>srd_inst_decode\<close>.\<close>

inductive producer_step :: "'p hs_state \<Rightarrow> 'p hs_state \<Rightarrow> bool" where
  decode_call:
    "srd_inst_decode_begin ck di = (SRD_OK, di') \<Longrightarrow>
     producer_step (HS di P_idle w) (HS di' P_check (start_worker di w))"
| decode_refused:
    "srd_inst_decode_begin ck di = (SRD_ERR_ARG, di') \<Longrightarrow>
     producer_step (HS di P_idle w) (HS di' P_idle w)"
| decode_return:
    "decode_may_return di \<Longrightarrow> srd_inst_decode_end di = (r, di') \<Longrightarrow>
     producer_step (HS di P_check w) (HS di' P_idle w)"
| producer_sleeps:
    "\<not> decode_may_return di \<Longrightarrow>
     producer_step (HS di P_check w) (HS di P_sleep w)"

text \<open>
  The worker: the decoder's code calls \<^verbatim>\<open>c_decoder_wait_impl\<close>, \<^verbatim>\<open>c_fetch_packed_multi\<close>
  and \<^verbatim>\<open>c_consume_samples\<close> in any order and may return at any time.
\<close>

inductive worker_step :: "'p hs_state \<Rightarrow> 'p hs_state \<Rightarrow> bool" where
  wait_call:
    "worker_step (HS di p W_run) (HS (wait_enter conds di) p W_check)"
| wait_sleeps:
    "wait_pass di = (Wait_blocked, di') \<Longrightarrow>
     worker_step (HS di p W_check) (HS di' p W_sleep)"
| wait_returns:
    "wait_pass di = (st, di') \<Longrightarrow> st = Wait_term_req \<or> st = Wait_found pos hits \<Longrightarrow>
     worker_step (HS di p W_check) (HS di' p W_run)"
| wait_chunk_done:
    "wait_pass di = (Wait_chunk_done, di') \<Longrightarrow>
     worker_step (HS di p W_check) (HS di' (signal_handled p) W_check)"
| fetch_call:
    "chans \<noteq> [] \<Longrightarrow> mx \<noteq> 0 \<Longrightarrow>
     worker_step (HS di p W_run) (HS di p (W_fetch chans mx))"
| fetch_sleeps:
    "\<not> got_new_samples di \<Longrightarrow> \<not> want_wait_terminate di \<Longrightarrow>
     worker_step (HS di p (W_fetch chans mx)) (HS di p (W_fetch_sleep chans mx))"
| fetch_returns:
    "got_new_samples di \<or> want_wait_terminate di \<Longrightarrow> c_fetch_packed_multi chans mx di = (fr, di') \<Longrightarrow>
     worker_step (HS di p (W_fetch chans mx)) (HS di' p W_run)"
| consume:
    "c_consume_samples n di = (r, di') \<Longrightarrow>
     worker_step (HS di p W_run)
       (HS di' (if handled_all_samples di' \<and> got_new_samples di then signal_handled p else p) W_run)"
| worker_exit:
    "worker_step (HS di p W_run) (HS (c_di_thread_exit di) (signal_handled p) W_exited)"

text \<open>
  Whoever ends the run: the request, and the reset after the worker is joined. Nothing makes
  either wait for the producer to leave its call.
\<close>

inductive control_step :: "'p hs_state \<Rightarrow> 'p hs_state \<Rightarrow> bool" where
  terminate_request:
    "thread_handle di \<Longrightarrow>
     control_step (HS di p w) (HS (request_terminate di) p (signal_got w))"
| joined_reset:
    "control_step (HS di p W_exited)
       (HS (srd_inst_reset_state (di\<lparr>thread_handle := False\<rparr>)) p W_none)"

text \<open>A sleeper may also wake without a signal.\<close>

inductive spurious_step :: "'p hs_state \<Rightarrow> 'p hs_state \<Rightarrow> bool" where
  producer_spurious: "spurious_step (HS di P_sleep w) (HS di P_check w)"
| wait_spurious: "spurious_step (HS di p W_sleep) (HS di p W_check)"
| fetch_spurious: "spurious_step (HS di p (W_fetch_sleep chans mx)) (HS di p (W_fetch chans mx))"

definition hs_step :: "'p hs_state \<Rightarrow> 'p hs_state \<Rightarrow> bool" where
  "hs_step s s' \<longleftrightarrow> producer_step s s' \<or> worker_step s s' \<or> control_step s s' \<or> spurious_step s s'"

text \<open>A created and started instance, and what is reachable from it.\<close>

definition hs_start :: "'p hs_state \<Rightarrow> bool" where
  "hs_start s \<longleftrightarrow> hs_prod s = P_idle \<and> hs_work s = W_none \<and> \<not> thread_handle (hs_inst s)
     \<and> \<not> got_new_samples (hs_inst s) \<and> \<not> handled_all_samples (hs_inst s)
     \<and> \<not> want_wait_terminate (hs_inst s)"

inductive hs_reach :: "'p hs_state \<Rightarrow> bool" where
  start: "hs_start s \<Longrightarrow> hs_reach s"
| step: "hs_reach s \<Longrightarrow> hs_step s s' \<Longrightarrow> hs_reach s'"

section \<open>The flags under the operations\<close>

type_synonym hs_flags = "bool \<times> bool \<times> bool \<times> bool"

definition flags :: "'p srd_decoder_inst \<Rightarrow> hs_flags" where
  "flags di = (got_new_samples di, handled_all_samples di, want_wait_terminate di, thread_handle di)"

lemma flags_wait_enter [simp]: "flags (wait_enter conds di) = flags di"
  by (simp add: flags_def wait_enter_def condition_list_free_def)

lemma flags_decode_end: "srd_inst_decode_end di = (r, di') \<Longrightarrow> flags di' = flags di"
  by (auto simp: flags_def srd_inst_decode_end_def c_extract_error_def Let_def)

lemma flags_decode_begin:
  "srd_inst_decode_begin ck di = (SRD_OK, di') \<Longrightarrow>
     flags di' = (True, False, want_wait_terminate di, True)"
  "srd_inst_decode_begin ck di = (SRD_ERR_ARG, di') \<Longrightarrow> flags di' = flags di"
  by (auto simp: flags_def srd_inst_decode_begin_def load_chunk_def Let_def split: if_splits)

lemma flags_fetch: "c_fetch_packed_multi chans mx di = (fr, di') \<Longrightarrow> flags di' = flags di"
  by (auto simp: flags_def c_fetch_packed_multi_def Let_def split: if_splits)

text \<open>Consuming leaves the flags alone or releases the chunk.\<close>

lemma flags_consume:
  assumes "c_consume_samples n di = (r, di')"
  shows "flags di' = flags di
    \<or> got_new_samples di \<and> flags di' = (False, True, want_wait_terminate di, thread_handle di)"
  using assms by (auto simp: flags_def c_consume_samples_def release_chunk_def Let_def split: if_splits)

lemma flags_scan:
  assumes "process_samples_until_condition_match 1 di = Some (found, di')"
  shows "flags di' = flags di"
proof -
  have s: "flags (scan_start d) = flags d" for d :: "'a srd_decoder_inst"
    by (simp add: flags_def scan_start_def advance_past_match_def update_old_pins_array_initial_pins_def
        oldpins_array_seed_def Let_def split: option.split)
  have l: "flags (snd (find_match_loop d True)) = flags d" for d :: "'a srd_decoder_inst"
    using find_match_loop_frame [of d True] by (simp add: flags_def)
  have "flags (snd (find_match di)) = flags di" by (simp add: find_match_def l s)
  moreover have "di' = di \<or> di' = snd (find_match di)"
    using assms process_samples_loop_one [of 0 di]
    by (cases "find_match di")
      (simp add: process_samples_until_condition_match_def del: process_samples_loop.simps split: if_splits)
  ultimately show ?thesis by auto
qed

lemma flags_pin_cache [simp]: "flags (fill_pin_cache di) = flags di"
  by (simp add: flags_def fill_pin_cache_def Let_def split: option.split)

text \<open>The four outcomes of a pass.\<close>

lemma flags_wait_pass:
  assumes "wait_pass di = (st, di')"
  shows "(st = Wait_blocked \<longrightarrow> di' = di \<and> \<not> got_new_samples di \<and> \<not> want_wait_terminate di)
    \<and> (st = Wait_term_req \<or> st = Wait_found pos hits \<longrightarrow> flags di' = flags di)
    \<and> (st = Wait_chunk_done \<longrightarrow> got_new_samples di \<and> \<not> want_wait_terminate di
         \<and> flags di' = (False, True, False, thread_handle di))"
proof (cases "got_new_samples di \<and> \<not> want_wait_terminate di")
  case True
  obtain found d where p: "process_samples_until_condition_match 1 di = Some (found, d)"
    using True process_samples_loop_one [of 0 di]
    by (cases "find_match di") (auto simp: process_samples_until_condition_match_def simp del: process_samples_loop.simps)
  note f = flags_scan [OF p]
  have fp: "flags (d\<lparr>first_pos := False\<rparr>) = flags d" by (simp add: flags_def)
  show ?thesis
  proof (cases found)
    case True
    with assms p \<open>got_new_samples di \<and> \<not> want_wait_terminate di\<close>
    have r: "st = Wait_found (abs_cur_samplenum d) (match_array d)" "di' = fill_pin_cache (d\<lparr>first_pos := False\<rparr>)"
      by (simp_all add: wait_pass_def Let_def)
    have "flags di' = flags di" unfolding r flags_pin_cache fp f ..
    with r(1) show ?thesis by simp
  next
    case False
    have w: "\<not> want_wait_terminate d" "thread_handle d = thread_handle di"
      using f True by (simp_all add: flags_def)
    then have "\<not> want_wait_terminate (release_chunk d)" by simp
    with assms p True False have r: "st = Wait_chunk_done" "di' = release_chunk d"
      by (simp_all add: wait_pass_def Let_def)
    have "flags di' = (False, True, False, thread_handle di)"
      using w by (simp add: r flags_def) (simp add: release_chunk_def)
    with r True show ?thesis by simp
  qed
next
  case False
  with assms show ?thesis by (auto simp: wait_pass_def split: if_splits)
qed

lemma flags_terminate [simp]:
  "flags (request_terminate di) = (got_new_samples di, handled_all_samples di, True, thread_handle di)"
  "flags (c_di_thread_exit di) = (got_new_samples di, True, True, thread_handle di)"
  "flags (srd_inst_reset_state (di\<lparr>thread_handle := False\<rparr>)) = (False, False, False, False)"
  by (simp_all add: flags_def request_terminate_def c_di_thread_exit_def srd_inst_reset_state_def
      oldpins_array_free_def condition_list_free_def)

section \<open>The invariant\<close>

text \<open>
  A pending chunk keeps the producer in its call; a sleeping producer has nothing to wake
  up for and, unless the run was reset under it, a worker that has; a sleeping worker has no
  chunk and no request. The arguments are the flags \<open>got_new_samples\<close>, \<open>handled_all_samples\<close>,
  \<open>want_wait_terminate\<close>, \<open>thread_handle\<close> and the two program counters.
\<close>

fun asleep :: "worker_pc \<Rightarrow> bool" where
  "asleep W_sleep = True"
| "asleep (W_fetch_sleep chans mx) = True"
| "asleep _ = False"

fun in_call :: "worker_pc \<Rightarrow> bool" where
  "in_call W_run = True"
| "in_call W_check = True"
| "in_call (W_fetch chans mx) = True"
| "in_call _ = False"

definition pcs_ok :: "hs_flags \<Rightarrow> producer_pc \<Rightarrow> worker_pc \<Rightarrow> bool" where
  "pcs_ok fl p w \<longleftrightarrow> (case fl of (got, handled, term, handle) \<Rightarrow>
     (got \<longrightarrow> term \<or> (p \<noteq> P_idle \<and> \<not> handled))
   \<and> (p = P_sleep \<longrightarrow> \<not> handled \<and> w \<noteq> W_exited)
   \<and> (asleep w \<longrightarrow> \<not> got \<and> \<not> term)
   \<and> (got \<or> handled \<or> term \<or> p = P_idle \<or> w = W_none)
   \<and> (handle \<longleftrightarrow> w \<noteq> W_none)
   \<and> (w = W_exited \<longrightarrow> term)
   \<and> (w = W_none \<longrightarrow> \<not> got \<and> \<not> term \<and> \<not> handled))"

definition hs_inv :: "'p hs_state \<Rightarrow> bool" where
  "hs_inv s \<longleftrightarrow> pcs_ok (flags (hs_inst s)) (hs_prod s) (hs_work s)"

text \<open>The steps on the flags and program counters alone.\<close>

lemma pcs_decode_call:
  "pcs_ok (g, h, t, k) P_idle w \<Longrightarrow> pcs_ok (True, False, t, True) P_check (if k then signal_got w else W_run)"
  by (cases g; cases h; cases t; cases k; cases w; simp add: pcs_ok_def signal_got_def)

lemma pcs_decode_return:
  "pcs_ok (g, h, t, k) P_check w \<Longrightarrow> h \<or> t \<Longrightarrow> pcs_ok (g, h, t, k) P_idle w"
  by (cases g; cases h; cases t; cases k; cases w; simp add: pcs_ok_def)

lemma pcs_producer_sleeps:
  "pcs_ok (g, h, t, k) P_check w \<Longrightarrow> \<not> (h \<or> t) \<Longrightarrow> pcs_ok (g, h, t, k) P_sleep w"
  by (cases g; cases h; cases t; cases k; cases w; simp add: pcs_ok_def)

lemma pcs_awake:
  "pcs_ok fl p w \<Longrightarrow> w \<noteq> W_none \<Longrightarrow> w \<noteq> W_exited \<Longrightarrow> in_call w' \<Longrightarrow> pcs_ok fl p w'"
  by (cases w') (auto simp: pcs_ok_def split: prod.splits)

lemma pcs_producer_spurious: "pcs_ok fl P_sleep w \<Longrightarrow> pcs_ok fl P_check w"
  by (auto simp: pcs_ok_def split: prod.splits)

lemma pcs_worker_sleeps:
  "pcs_ok (g, h, t, k) p w \<Longrightarrow> in_call w \<Longrightarrow> \<not> g \<Longrightarrow> \<not> t \<Longrightarrow> asleep w' \<Longrightarrow> pcs_ok (g, h, t, k) p w'"
  by (cases w; cases w'; simp add: pcs_ok_def)

lemma pcs_chunk_done:
  "pcs_ok (g, h, t, k) p w \<Longrightarrow> w = W_check \<or> w = W_run \<Longrightarrow> pcs_ok (False, True, t, k) (signal_handled p) w"
  by (cases g; cases h; cases t; cases k; cases p; elim disjE; simp add: pcs_ok_def signal_handled_def)

lemma pcs_signal: "pcs_ok fl p w \<Longrightarrow> pcs_ok fl (signal_handled p) w"
  by (auto simp: pcs_ok_def signal_handled_def split: prod.splits)

lemma pcs_exit: "pcs_ok (g, h, t, k) p W_run \<Longrightarrow> pcs_ok (g, True, True, k) (signal_handled p) W_exited"
  by (cases g; cases h; cases t; cases k; cases p; simp add: pcs_ok_def signal_handled_def)

lemma pcs_terminate: "pcs_ok (g, h, t, True) p w \<Longrightarrow> pcs_ok (g, h, True, True) p (signal_got w)"
  by (cases g; cases h; cases t; cases p; cases w; simp add: pcs_ok_def signal_got_def)

lemma may_return_flags: "decode_may_return di = (handled_all_samples di \<or> want_wait_terminate di)"
  by (simp add: decode_may_return_def)

lemma pcs_ok_wait_pass:
  assumes ok: "pcs_ok (flags di) p W_check" and wp: "wait_pass di = (st, di')"
  shows "(st = Wait_blocked \<longrightarrow> pcs_ok (flags di') p W_sleep)
    \<and> (st = Wait_term_req \<or> st = Wait_found pos hits \<longrightarrow> pcs_ok (flags di') p W_run)
    \<and> (st = Wait_chunk_done \<longrightarrow> pcs_ok (flags di') (signal_handled p) W_check)"
proof (intro conjI impI)
  note f = flags_wait_pass [OF wp, of pos hits]
  { assume "st = Wait_blocked"
    with f have "di' = di" "\<not> got_new_samples di" "\<not> want_wait_terminate di" by simp_all
    with pcs_worker_sleeps [OF ok [unfolded flags_def], of W_sleep] show "pcs_ok (flags di') p W_sleep"
      by (simp add: flags_def) }
  { assume "st = Wait_term_req \<or> st = Wait_found pos hits"
    with f have "flags di' = flags di" by simp
    with pcs_awake [OF ok, of W_run] show "pcs_ok (flags di') p W_run" by simp }
  assume "st = Wait_chunk_done"
  with f have d: "flags di' = (False, True, False, thread_handle di)" "\<not> want_wait_terminate di" by simp_all
  from pcs_chunk_done [OF ok [unfolded flags_def]] d(2)
  show "pcs_ok (flags di') (signal_handled p) W_check" unfolding d(1) by simp
qed

lemma pcs_ok_consume:
  assumes ok: "pcs_ok (flags di) p W_run" and c: "c_consume_samples n di = (r, di')"
  shows "pcs_ok (flags di') (if handled_all_samples di' \<and> got_new_samples di then signal_handled p else p) W_run"
  using flags_consume [OF c]
proof
  assume "flags di' = flags di"
  with ok pcs_signal show ?thesis by simp
next
  assume a: "got_new_samples di \<and> flags di' = (False, True, want_wait_terminate di, thread_handle di)"
  then have "handled_all_samples di'" by (simp add: flags_def)
  with a pcs_chunk_done [OF ok [unfolded flags_def]] show ?thesis by simp
qed

lemma hs_inv_HS: "hs_inv (HS di p w) = pcs_ok (flags di) p w"
  by (simp add: hs_inv_def)

lemma hs_inv_producer: "producer_step s s' \<Longrightarrow> hs_inv s \<Longrightarrow> hs_inv s'"
proof (induction rule: producer_step.induct)
  case (decode_call ck di di' w)
  then show ?case
    unfolding hs_inv_HS flags_decode_begin(1) [OF decode_call(1)] start_worker_def
    by (simp only: flags_def pcs_decode_call)
next
  case (decode_refused ck di di' w)
  then show ?case unfolding hs_inv_HS flags_decode_begin(2) [OF decode_refused(1)] by simp
next
  case (decode_return di r di' w)
  have "pcs_ok (flags di) P_check w" using decode_return(3) by (simp only: hs_inv_HS)
  from pcs_decode_return [OF this [unfolded flags_def] decode_return(1) [unfolded may_return_flags]]
  show ?case unfolding hs_inv_HS flags_decode_end [OF decode_return(2)] by (simp only: flags_def)
next
  case (producer_sleeps di w)
  have "pcs_ok (flags di) P_check w" using producer_sleeps(2) by (simp only: hs_inv_HS)
  from pcs_producer_sleeps [OF this [unfolded flags_def] producer_sleeps(1) [unfolded may_return_flags]]
  show ?case unfolding hs_inv_HS flags_def .
qed

lemma hs_inv_worker: "worker_step s s' \<Longrightarrow> hs_inv s \<Longrightarrow> hs_inv s'"
proof (induction rule: worker_step.induct)
  case (wait_call di p conds)
  then show ?case unfolding hs_inv_HS flags_wait_enter by (rule pcs_awake) simp_all
next
  case (wait_sleeps di di' p)
  then show ?case unfolding hs_inv_HS using pcs_ok_wait_pass [of di p] by blast
next
  case (wait_returns di st di' pos hits p)
  then show ?case unfolding hs_inv_HS using pcs_ok_wait_pass [of di p st di' pos hits] by blast
next
  case (wait_chunk_done di di' p)
  then show ?case unfolding hs_inv_HS using pcs_ok_wait_pass [of di p] by blast
next
  case (fetch_call chans mx di p)
  show ?case using fetch_call(3) unfolding hs_inv_HS by (rule pcs_awake) simp_all
next
  case (fetch_sleeps di p chans mx)
  have "pcs_ok (flags di) p (W_fetch chans mx)" using fetch_sleeps(3) by (simp only: hs_inv_HS)
  from pcs_worker_sleeps [OF this [unfolded flags_def], of "W_fetch_sleep chans mx"] fetch_sleeps(1,2)
  show ?case unfolding hs_inv_HS flags_def by simp
next
  case (fetch_returns di chans mx fr di' p)
  show ?case using fetch_returns(3) unfolding hs_inv_HS flags_fetch [OF fetch_returns(2)]
    by (rule pcs_awake) simp_all
next
  case (consume n di r di' p)
  then show ?case unfolding hs_inv_HS using pcs_ok_consume [of di p] by blast
next
  case (worker_exit di p)
  then show ?case unfolding hs_inv_HS flags_terminate by (simp only: flags_def pcs_exit)
qed

lemma hs_inv_control: "control_step s s' \<Longrightarrow> hs_inv s \<Longrightarrow> hs_inv s'"
proof (induction rule: control_step.induct)
  case (terminate_request di p w)
  have "pcs_ok (flags di) p w" using terminate_request(2) by (simp only: hs_inv_HS)
  with terminate_request(1) have "pcs_ok (got_new_samples di, handled_all_samples di, want_wait_terminate di, True) p w"
    by (simp add: flags_def)
  from pcs_terminate [OF this] show ?case unfolding hs_inv_HS flags_terminate using terminate_request(1) by simp
next
  case (joined_reset di p)
  show ?case unfolding hs_inv_HS flags_terminate by (simp add: pcs_ok_def)
qed

lemma hs_inv_spurious: "spurious_step s s' \<Longrightarrow> hs_inv s \<Longrightarrow> hs_inv s'"
proof (induction rule: spurious_step.induct)
  case (producer_spurious di w)
  then show ?case unfolding hs_inv_HS by (rule pcs_producer_spurious)
next
  case (wait_spurious di p)
  then show ?case unfolding hs_inv_HS by (rule pcs_awake) simp_all
next
  case (fetch_spurious di p chans mx)
  then show ?case unfolding hs_inv_HS by (rule pcs_awake) simp_all
qed

lemma hs_inv_step: "hs_step s s' \<Longrightarrow> hs_inv s \<Longrightarrow> hs_inv s'"
  unfolding hs_step_def using hs_inv_producer hs_inv_worker hs_inv_control hs_inv_spurious by blast

lemma hs_inv_reach: "hs_reach s \<Longrightarrow> hs_inv s"
proof (induction rule: hs_reach.induct)
  case (start s)
  then show ?case by (simp add: hs_inv_def pcs_ok_def hs_start_def flags_def)
next
  case (step s s')
  then show ?case using hs_inv_step by blast
qed

text \<open>
  C11: While the worker has a chunk and nobody asked for termination, the producer is inside
  its call to \<^verbatim>\<open>srd_inst_decode\<close> and has not been told that the samples are handled: the
  buffers it lent cannot change under the decoder, and no chunk replaces an unfinished one.
\<close>

theorem chunk_keeps_producer_in_call:
  assumes "hs_reach s" and "got_new_samples (hs_inst s)" and "\<not> want_wait_terminate (hs_inst s)"
  shows "hs_prod s \<noteq> P_idle \<and> \<not> handled_all_samples (hs_inst s)"
  using hs_inv_reach [OF assms(1)] assms(2,3) by (simp add: hs_inv_def flags_def pcs_ok_def)

text \<open>
  While the producer sleeps and its worker is there, the worker has something to do: a call
  to wait or fetch does not put it to sleep, and it wakes the producer at the latest when
  the decoder's code returns. No step of this is a spurious wake-up.
\<close>

lemma worker_in_code_wakes:
  "\<exists>s'. worker_step\<^sup>*\<^sup>* (HS di P_sleep W_run) s' \<and> hs_prod s' = P_check \<and> decode_may_return (hs_inst s')"
proof -
  have "worker_step (HS di P_sleep W_run) (HS (c_di_thread_exit di) P_check W_exited)"
    using worker_step.worker_exit [of di P_sleep] by (simp add: signal_handled_def)
  moreover have "decode_may_return (c_di_thread_exit di)"
    by (simp add: decode_may_return_def c_di_thread_exit_def)
  ultimately show ?thesis
    by (intro exI [of _ "HS (c_di_thread_exit di) P_check W_exited"]) (simp add: r_into_rtranclp)
qed

lemma worker_wakes_producer:
  assumes inv: "hs_inv s" and p: "hs_prod s = P_sleep" and w: "hs_work s \<noteq> W_none"
  shows "\<exists>s'. worker_step\<^sup>*\<^sup>* s s' \<and> hs_prod s' = P_check \<and> decode_may_return (hs_inst s')"
proof -
  obtain di w where s: "s = HS di P_sleep w" using p by (cases s) simp
  have ok: "pcs_ok (flags di) P_sleep w" using inv by (simp add: s hs_inv_HS)
  have busy: "got_new_samples di \<or> want_wait_terminate di" "in_call w"
    using ok w by (cases w; auto simp: s pcs_ok_def flags_def)+
  have via: "\<exists>s'. worker_step\<^sup>*\<^sup>* s s' \<and> hs_prod s' = P_check \<and> decode_may_return (hs_inst s')"
    if "worker_step s (HS d P_sleep W_run)" for d
    using worker_in_code_wakes [of d] converse_rtranclp_into_rtranclp [of worker_step, OF that]
    by blast
  consider "w = W_run" | "w = W_check" | chans mx where "w = W_fetch chans mx"
    using busy(2) by (cases w) auto
  then show ?thesis
  proof cases
    case 1
    then show ?thesis using worker_in_code_wakes [of di] s by simp
  next
    case 2
    obtain st d where wp: "wait_pass di = (st, d)" by (rule prod.exhaust)
    note f = flags_wait_pass [OF wp]
    consider "st = Wait_term_req" | pos hits where "st = Wait_found pos hits" | "st = Wait_chunk_done"
      using f busy(1) by (cases st) auto
    then show ?thesis
    proof cases
      case 1
      with wp 2 show ?thesis using worker_step.wait_returns [of di st d _ _ P_sleep] by (intro via [of d]) (simp add: s)
    next
      case (2 pos hits)
      with wp \<open>w = W_check\<close> show ?thesis
        using worker_step.wait_returns [of di st d pos hits P_sleep] by (intro via [of d]) (simp add: s)
    next
      case 3
      have step: "worker_step s (HS d P_check W_check)"
        using worker_step.wait_chunk_done [of di d P_sleep] wp 2 3 by (simp add: s signal_handled_def)
      have "decode_may_return d" using f 3 by (simp add: decode_may_return_def flags_def)
      with step show ?thesis
        by (intro exI [of _ "HS d P_check W_check"]) (simp add: r_into_rtranclp)
    qed
  next
    case (3 chans mx)
    obtain fr d where "c_fetch_packed_multi chans mx di = (fr, d)" by (rule prod.exhaust)
    from worker_step.fetch_returns [OF busy(1) this, of P_sleep] 3 show ?thesis
      by (intro via [of d]) (simp add: s)
  qed
qed

lemma worker_stays_awake:
  assumes "hs_inv s" and "hs_prod s = P_sleep" and st: "worker_step s s'"
  shows "\<not> asleep (hs_work s')"
proof
  assume a: "asleep (hs_work s')"
  with st have "hs_prod s' = hs_prod s" by (cases rule: worker_step.cases) auto
  moreover have "hs_inv s'" by (rule hs_inv_worker [OF st assms(1)])
  ultimately show False using a assms(2)
    by (cases s'; cases "hs_work s'") (auto simp: hs_inv_HS pcs_ok_def flags_def)
qed

text \<open>
  C12: No wakeup is lost. A worker that sleeps, in wait or in fetch, has neither a chunk nor
  a termination request it has not seen, and the producer is not asleep. A producer that
  sleeps has not been told that its samples are handled, and one of two things holds: its
  worker is awake with a chunk or a request, none of its steps puts it to sleep, and steps
  of that worker alone, none of them a spurious wake-up, lead to a state where the producer is awake and may return; or the run
  was ended and reset while the producer was still in its call, and no worker is left. The
  second case is a state of the code: the reset waits for the worker, not for the producer.
\<close>

theorem no_lost_wakeup:
  assumes "hs_reach s"
  shows "(asleep (hs_work s) \<longrightarrow> \<not> got_new_samples (hs_inst s) \<and> \<not> want_wait_terminate (hs_inst s)
            \<and> hs_prod s \<noteq> P_sleep)
    \<and> (hs_prod s = P_sleep \<longrightarrow> \<not> handled_all_samples (hs_inst s)
         \<and> (hs_work s = W_none \<and> \<not> thread_handle (hs_inst s)
            \<or> in_call (hs_work s) \<and> (got_new_samples (hs_inst s) \<or> want_wait_terminate (hs_inst s))
              \<and> (\<forall>s'. worker_step s s' \<longrightarrow> \<not> asleep (hs_work s'))
              \<and> (\<exists>s'. worker_step\<^sup>*\<^sup>* s s' \<and> hs_prod s' = P_check \<and> decode_may_return (hs_inst s'))))"
proof -
  obtain di p w where s: "s = HS di p w" by (cases s)
  have ok: "pcs_ok (got_new_samples di, handled_all_samples di, want_wait_terminate di, thread_handle di) p w"
    using hs_inv_reach [OF assms] by (simp add: s hs_inv_def flags_def)
  have a: "asleep w \<Longrightarrow> \<not> got_new_samples di \<and> \<not> want_wait_terminate di \<and> p \<noteq> P_sleep"
    using ok by (cases w) (auto simp: pcs_ok_def)
  have b: "\<not> handled_all_samples di \<and> (w = W_none \<and> \<not> thread_handle di
      \<or> in_call w \<and> (got_new_samples di \<or> want_wait_terminate di))" if "p = P_sleep"
    using ok that by (cases w) (auto simp: pcs_ok_def)
  have "in_call w \<Longrightarrow> w \<noteq> W_none" by auto
  with a b worker_wakes_producer [OF hs_inv_reach [OF assms]] worker_stays_awake [OF hs_inv_reach [OF assms]] show ?thesis by (auto simp: s)
qed


text \<open>A run: a chunk is handed over, and the worker fetches from it.\<close>

lemma example_no_thread: "\<not> thread_handle example_inst" "\<not> got_new_samples example_inst"
    "\<not> handled_all_samples example_inst" "error_message example_inst = None"
  by (simp_all add: example_inst_def malloc0_inst_def)

lemma example_start: "hs_reach (HS example_inst P_idle W_none)"
  by (rule hs_reach.start) (simp add: hs_start_def example_no_thread example_fields)

definition example_given :: "unit srd_decoder_inst" where
  "example_given = delivered (example_chunk 0 8 24) example_inst"

lemma example_given_fields:
  "got_new_samples example_given" "\<not> want_wait_terminate example_given" "thread_handle example_given"
  "\<not> handled_all_samples example_given" "error_message example_given = None"
  by (simp_all add: example_given_def example_fields)
    (simp_all add: delivered_def load_ck_def load_chunk_def example_no_thread)

lemma example_given_reach: "hs_reach (HS example_given P_check W_run)"
proof -
  have "srd_inst_decode_begin (example_chunk 0 8 24) example_inst = (SRD_OK, example_given)"
    unfolding example_given_def by (rule decode_begin_delivers) (simp_all add: example_fields example_chunk_def)
  from producer_step.decode_call [OF this] have "hs_step (HS example_inst P_idle W_none) (HS example_given P_check W_run)"
    by (simp add: hs_step_def start_worker_def example_no_thread)
  with example_start show ?thesis by (rule hs_reach.step)
qed

lemma chunk_keeps_producer_in_call_witness:
  "hs_prod (HS example_given P_check W_run) \<noteq> P_idle \<and> \<not> handled_all_samples example_given"
  using chunk_keeps_producer_in_call [OF example_given_reach] example_given_fields by simp

lemma example_asleep: "hs_reach (HS example_given P_sleep W_run)"
  by (rule hs_reach.step [OF example_given_reach])
    (simp add: hs_step_def producer_step.producer_sleeps decode_may_return_def example_given_fields)

lemma no_lost_wakeup_witness:
  "\<exists>s'. worker_step\<^sup>*\<^sup>* (HS example_given P_sleep W_run) s' \<and> hs_prod s' = P_check
    \<and> decode_may_return (hs_inst s')"
  using no_lost_wakeup [OF example_asleep] by simp

text \<open>
  A termination request makes \<^verbatim>\<open>srd_inst_decode\<close> return although the worker still has the
  chunk: the producer is back in the caller, free to reuse its buffers, while the decoder
  runs on and may read what it fetched.
\<close>

lemma terminate_returns_before_release:
  "\<exists>di :: unit srd_decoder_inst. hs_reach (HS di P_idle W_run) \<and> got_new_samples di \<and> inbuf di \<noteq> None"
proof -
  let ?t = "request_terminate example_given"
  have "hs_reach (HS ?t P_check W_run)"
    using hs_reach.step [OF example_given_reach, of "HS ?t P_check W_run"]
      control_step.terminate_request [of example_given P_check W_run] example_given_fields
    by (simp add: hs_step_def signal_got_def)
  moreover have "srd_inst_decode_end ?t = ((SRD_OK, None), ?t)"
  proof -
    have "error_message ?t = None" using example_given_fields(5) by (simp add: request_terminate_def)
    moreover have "d\<lparr>error_message := None\<rparr> = d" if "error_message d = None" for d :: "unit srd_decoder_inst"
    proof -
      have "d\<lparr>error_message := error_message d\<rparr> = d" by simp
      with that show ?thesis by simp
    qed
    ultimately show ?thesis by (simp add: srd_inst_decode_end_def c_extract_error_def Let_def)
  qed
  moreover have "decode_may_return ?t" by (simp add: decode_may_return_def request_terminate_def)
  ultimately have "hs_reach (HS ?t P_idle W_run)"
    using producer_step.decode_return [of ?t _ ?t W_run] hs_reach.step hs_step_def by metis
  moreover have "got_new_samples ?t" "inbuf ?t \<noteq> None"
    using example_given_fields(1)
    by (simp_all add: request_terminate_def)
      (simp add: example_given_def delivered_def load_ck_def load_chunk_def example_chunk_def)
  ultimately show ?thesis by blast
qed

text \<open>
  The reset clears the flags of a producer that has been woken but has not tested them yet:
  it goes back to sleep with nobody left to wake it.
\<close>

lemma reset_strands_producer:
  "\<exists>di :: unit srd_decoder_inst. hs_reach (HS di P_sleep W_none) \<and> \<not> decode_may_return di
    \<and> (\<forall>s'. hs_step (HS di P_sleep W_none) s' \<longrightarrow> s' = HS di P_check W_none)"
proof -
  let ?t = "request_terminate example_given"
  let ?x = "c_di_thread_exit ?t"
  let ?r = "srd_inst_reset_state (?x\<lparr>thread_handle := False\<rparr>)"
  have "hs_step (HS example_given P_check W_run) (HS ?t P_check W_run)"
    using control_step.terminate_request [of example_given P_check W_run] example_given_fields
    by (simp add: hs_step_def signal_got_def)
  with example_given_reach have 1: "hs_reach (HS ?t P_check W_run)" by (rule hs_reach.step)
  have "hs_step (HS ?t P_check W_run) (HS ?x P_check W_exited)"
    using worker_step.worker_exit [of ?t P_check] by (simp add: hs_step_def signal_handled_def)
  with 1 have 2: "hs_reach (HS ?x P_check W_exited)" by (rule hs_reach.step)
  have "hs_step (HS ?x P_check W_exited) (HS ?r P_check W_none)"
    using control_step.joined_reset [of ?x P_check] by (simp add: hs_step_def)
  with 2 have 3: "hs_reach (HS ?r P_check W_none)" by (rule hs_reach.step)
  have nr: "\<not> decode_may_return ?r" using flags_terminate(3) [of ?x] by (simp add: decode_may_return_def flags_def)
  have nh: "\<not> thread_handle ?r" using flags_terminate(3) [of ?x] by (simp add: flags_def)
  have "hs_step (HS ?r P_check W_none) (HS ?r P_sleep W_none)"
    using producer_step.producer_sleeps [OF nr] by (simp add: hs_step_def)
  with 3 have "hs_reach (HS ?r P_sleep W_none)" by (rule hs_reach.step)
  moreover have "s' = HS ?r P_check W_none" if "hs_step (HS ?r P_sleep W_none) s'" for s'
    using that nh unfolding hs_step_def
    by (elim disjE) (auto elim: producer_step.cases worker_step.cases control_step.cases spurious_step.cases)
  ultimately show ?thesis using nr by blast
qed

end
