(* ===== verification/AnnBatch.thy ===== *)
theory AnnBatch
  imports DecTypes
begin

text \<open>
  ann_batch.c: annotations are collected in an array of \<open>SRD_ANN_BATCH_MAX\<close> items, their
  texts are copied into arena blocks, and a full batch goes to the host in one callback.
  Arena memory is explicit: an object lies at a block and an offset, a write destroys what
  it overlaps, and blocks move between the arena, the pool and the heap. A function that
  may deliver a batch returns the callback calls it makes: function, data, and what the
  callback can read through the items' pointers at that moment.
\<close>

definition SRD_ANN_BATCH_MAX :: nat where "SRD_ANN_BATCH_MAX = 1024"
definition SRD_ANN_ARENA_BLOCK_CAP :: nat where "SRD_ANN_ARENA_BLOCK_CAP = 64 * 1024"
definition SRD_ANN_ARENA_POOL_CAP :: nat where "SRD_ANN_ARENA_POOL_CAP = 256"

section \<open>Arena memory\<close>

type_synonym arena_mem = "(arena_addr \<times> nat \<times> arena_obj) list"

definition overlaps :: "arena_addr \<Rightarrow> nat \<Rightarrow> arena_addr \<Rightarrow> nat \<Rightarrow> bool" where
  "overlaps a n b m \<longleftrightarrow> fst a = fst b \<and> snd a < snd b + m \<and> snd b < snd a + n"

definition mem_write :: "arena_addr \<Rightarrow> nat \<Rightarrow> arena_obj \<Rightarrow> arena_mem \<Rightarrow> arena_mem" where
  "mem_write a n v mem = (a, n, v) # filter (\<lambda>(b, m, _). \<not> overlaps a n b m) mem"

definition mem_read :: "arena_mem \<Rightarrow> arena_addr \<Rightarrow> arena_obj option" where
  "mem_read mem a = map_option snd (map_of mem a)"

definition mi_free_block :: "nat \<Rightarrow> arena_mem \<Rightarrow> arena_mem" where
  "mi_free_block i mem = filter (\<lambda>(a, _). fst a \<noteq> i) mem"

section \<open>The operations\<close>

definition srd_ann_batch_init :: "srd_ann_batch_state \<Rightarrow> srd_ann_batch_state" where
  "srd_ann_batch_init st = st\<lparr>ab_items := [], ab_arena := [], ab_pool := [], ab_cb := None,
     ab_cb_data := 0, ab_wrapper_installed := False, ab_mem := [], ab_next_blk := 0\<rparr>"

definition align8 :: "nat \<Rightarrow> nat" where
  "align8 n = (n + 7) div 8 * 8"

definition fresh_block :: "srd_ann_batch_state \<Rightarrow> nat \<Rightarrow> srd_ann_arena_block \<times> srd_ann_batch_state" where
  "fresh_block st cap = (\<lparr>blk_id = ab_next_blk st, blk_used = 0, blk_cap = cap\<rparr>,
     st\<lparr>ab_next_blk := ab_next_blk st + 1\<rparr>)"

text \<open>The block an allocation goes to when the current one has no room.\<close>

definition new_block :: "srd_ann_batch_state \<Rightarrow> nat \<Rightarrow> srd_ann_arena_block \<times> srd_ann_batch_state" where
  "new_block st aligned =
     (let cap = (if SRD_ANN_ARENA_BLOCK_CAP < aligned then aligned else SRD_ANN_ARENA_BLOCK_CAP)
      in case ab_pool st of
           [] \<Rightarrow> fresh_block st cap
         | blk # rest \<Rightarrow>
             (let st1 = st\<lparr>ab_pool := rest\<rparr>
              in if blk_cap blk < aligned
                 then fresh_block (st1\<lparr>ab_mem := mi_free_block (blk_id blk) (ab_mem st1)\<rparr>) cap
                 else (blk\<lparr>blk_used := 0\<rparr>, st1)))"

definition bump :: "srd_ann_arena_block \<Rightarrow> srd_ann_arena_block list \<Rightarrow> nat \<Rightarrow> srd_ann_batch_state \<Rightarrow>
    arena_addr \<times> srd_ann_batch_state" where
  "bump blk rest aligned st = ((blk_id blk, blk_used blk),
     st\<lparr>ab_arena := blk\<lparr>blk_used := blk_used blk + aligned\<rparr> # rest\<rparr>)"

definition srd_ann_arena_alloc :: "srd_ann_batch_state \<Rightarrow> nat \<Rightarrow> arena_addr \<times> srd_ann_batch_state" where
  "srd_ann_arena_alloc st n =
     (let aligned = align8 n
      in case ab_arena st of
           blk # rest \<Rightarrow>
             (if blk_cap blk < blk_used blk + aligned
              then let (b, st1) = new_block st aligned in bump b (ab_arena st1) aligned st1
              else bump blk rest aligned st)
         | [] \<Rightarrow> let (b, st1) = new_block st aligned in bump b (ab_arena st1) aligned st1)"

text \<open>A C string ends at its first NUL.\<close>

definition c_string :: "string \<Rightarrow> string" where
  "c_string s = takeWhile (\<lambda>c. c \<noteq> CHR 0x00) s"

definition srd_ann_arena_strdup :: "srd_ann_batch_state \<Rightarrow> string \<Rightarrow> arena_addr \<times> srd_ann_batch_state" where
  "srd_ann_arena_strdup st s =
     (let len = length (c_string s); (dst, st1) = srd_ann_arena_alloc st (len + 1)
      in (dst, st1\<lparr>ab_mem := mem_write dst (len + 1) (AStr (c_string s)) (ab_mem st1)\<rparr>))"

text \<open>What a batch callback reads through an item.\<close>

definition deref_text :: "arena_mem \<Rightarrow> arena_addr \<Rightarrow> string option list" where
  "deref_text mem a = (case mem_read mem a of
     Some (AStrv ps) \<Rightarrow> map (\<lambda>p. case mem_read mem p of Some (AStr s) \<Rightarrow> Some s | _ \<Rightarrow> None) ps
   | _ \<Rightarrow> [])"

definition deref_item :: "arena_mem \<Rightarrow> srd_ann_item \<Rightarrow> delivered_ann" where
  "deref_item mem it = \<lparr>da_start = it_start_sample it, da_end = it_end_sample it,
     da_class = it_ann_class it, da_type = it_ann_type it,
     da_text = map_option (deref_text mem) (it_ann_text it), da_hex = it_str_number_hex it,
     da_numeric = it_numberic_value it, da_decoder = it_decoder it\<rparr>"

type_synonym batch_call = "nat \<times> nat \<times> delivered_ann list"

text \<open>The in-flight chain goes into the pool up to its cap; the rest is freed.\<close>

fun recycle_blocks ::
    "nat \<Rightarrow> srd_ann_arena_block list \<Rightarrow> srd_ann_arena_block list \<Rightarrow> arena_mem \<Rightarrow>
     srd_ann_arena_block list \<times> arena_mem" where
  "recycle_blocks cnt [] pool mem = (pool, mem)"
| "recycle_blocks cnt (b # bs) pool mem =
     (if cnt < SRD_ANN_ARENA_POOL_CAP then recycle_blocks (cnt + 1) bs (b # pool) mem
      else recycle_blocks cnt bs pool (mi_free_block (blk_id b) mem))"

definition srd_ann_batch_flush_state :: "srd_ann_batch_state \<Rightarrow> batch_call list \<times> srd_ann_batch_state" where
  "srd_ann_batch_flush_state st =
     (if ab_items st = [] then ([], st)
      else let calls = (case ab_cb st of None \<Rightarrow> []
                        | Some cb \<Rightarrow> [(cb, ab_cb_data st, map (deref_item (ab_mem st)) (ab_items st))]);
               (pool, mem) = recycle_blocks (length (ab_pool st)) (ab_arena st) (ab_pool st) (ab_mem st)
           in (calls, st\<lparr>ab_items := [], ab_arena := [], ab_pool := pool, ab_mem := mem\<rparr>))"

definition srd_ann_batch_append_item ::
    "srd_ann_batch_state \<Rightarrow> srd_ann_item \<Rightarrow> batch_call list \<times> srd_ann_batch_state" where
  "srd_ann_batch_append_item st it =
     (let (c1, st1) = (if SRD_ANN_BATCH_MAX \<le> length (ab_items st)
                       then srd_ann_batch_flush_state st else ([], st));
          st2 = st1\<lparr>ab_items := ab_items st1 @ [it]\<rparr>;
          (c2, st3) = (if SRD_ANN_BATCH_MAX \<le> length (ab_items st2)
                       then srd_ann_batch_flush_state st2 else ([], st2))
      in (c1 @ c2, st3))"

fun strdup_all :: "srd_ann_batch_state \<Rightarrow> string list \<Rightarrow> arena_addr list \<times> srd_ann_batch_state" where
  "strdup_all st [] = ([], st)"
| "strdup_all st (s # ss) =
     (let (a, st1) = srd_ann_arena_strdup st s; (as, st2) = strdup_all st1 ss in (a # as, st2))"

text \<open>
  \<^verbatim>\<open>srd_ann_batch_append_fields\<close>. The pointer array is reserved before the strings
  are copied and its slots are filled as they are; nothing reads it in between, so it is
  written here once the last slot is known. A pointer has 8 bytes.
\<close>

definition srd_ann_batch_append_fields ::
    "srd_ann_batch_state \<Rightarrow> u64 \<Rightarrow> u64 \<Rightarrow> int \<Rightarrow> int \<Rightarrow> srd_decoder option \<Rightarrow> string list option \<Rightarrow>
     string option \<Rightarrow> int \<Rightarrow> batch_call list \<times> srd_ann_batch_state" where
  "srd_ann_batch_append_fields st start end_sample ann_cls ann_ty decoder texts hex numeric =
     (let strs = (case texts of None \<Rightarrow> [] | Some l \<Rightarrow> l);
          (strv, st1) = srd_ann_arena_alloc st ((length strs + 1) * 8);
          (ptrs, st2) = strdup_all st1 strs;
          st3 = st2\<lparr>ab_mem := mem_write strv ((length strs + 1) * 8) (AStrv ptrs) (ab_mem st2)\<rparr>
      in srd_ann_batch_append_item st3
           \<lparr>it_start_sample = start, it_end_sample = end_sample, it_ann_class = ann_cls,
            it_ann_type = ann_ty, it_ann_text = Some strv,
            it_str_number_hex = (case hex of None \<Rightarrow> [] | Some h \<Rightarrow> h),
            it_numberic_value = numeric, it_decoder = decoder\<rparr>)"

definition srd_ann_batch_destroy :: "srd_ann_batch_state \<Rightarrow> batch_call list \<times> srd_ann_batch_state" where
  "srd_ann_batch_destroy st =
     (let (calls, st1) = (if 0 < length (ab_items st) then srd_ann_batch_flush_state st else ([], st))
      in (calls, st1\<lparr>ab_items := [], ab_arena := [], ab_pool := [], ab_mem := []\<rparr>))"

section \<open>Memory facts\<close>

lemma map_of_mem_write_same [simp]: "map_of (mem_write a n v mem) a = Some (n, v)"
  by (simp add: mem_write_def)

lemma map_of_filter_kept:
  "map_of mem b = Some (m, v) \<Longrightarrow> P (b, m, v) \<Longrightarrow> map_of (filter P mem) b = Some (m, v)"
  by (induction mem) (auto split: if_splits)

lemma map_of_mem_write_other:
  assumes "map_of mem b = Some (m, v)" and "\<not> overlaps a n b m" and "0 < n" and "0 < m"
  shows "map_of (mem_write a n w mem) b = Some (m, v)"
proof -
  have "a \<noteq> b" using assms(2-4) by (auto simp: overlaps_def)
  then show ?thesis
    using assms(1,2) map_of_filter_kept [of mem b m v "\<lambda>(b, m, _). \<not> overlaps a n b m"]
    by (simp add: mem_write_def)
qed

lemma map_of_mi_free_block:
  "map_of mem b = Some x \<Longrightarrow> fst b \<noteq> i \<Longrightarrow> map_of (mi_free_block i mem) b = Some x"
  unfolding mi_free_block_def by (cases x, simp) (rule map_of_filter_kept, simp_all)

text \<open>
  A region is owned if it lies in the used part of an in-flight block, and an object is
  live if it is stored in an owned region.
\<close>

definition owned :: "srd_ann_batch_state \<Rightarrow> arena_addr \<Rightarrow> nat \<Rightarrow> bool" where
  "owned st a n \<longleftrightarrow> (\<exists>b \<in> set (ab_arena st). blk_id b = fst a \<and> snd a + n \<le> blk_used b)"

definition live :: "srd_ann_batch_state \<Rightarrow> arena_addr \<Rightarrow> nat \<Rightarrow> arena_obj \<Rightarrow> bool" where
  "live st a n v \<longleftrightarrow> owned st a n \<and> 0 < n \<and> map_of (ab_mem st) a = Some (n, v)"

text \<open>The blocks are distinct, none is overfull, and new ones get new addresses.\<close>

definition blocks_ok :: "srd_ann_batch_state \<Rightarrow> bool" where
  "blocks_ok st \<longleftrightarrow> distinct (map blk_id (ab_arena st @ ab_pool st))
     \<and> (\<forall>b \<in> set (ab_arena st @ ab_pool st). blk_id b < ab_next_blk st)
     \<and> (\<forall>b \<in> set (ab_arena st). blk_used b \<le> blk_cap b)
     \<and> length (ab_pool st) \<le> SRD_ANN_ARENA_POOL_CAP"

lemma align8_ge: "n \<le> align8 n"
  by (simp add: align8_def)

text \<open>A step that keeps every owned region, every live object and the items.\<close>

definition keeps :: "srd_ann_batch_state \<Rightarrow> srd_ann_batch_state \<Rightarrow> bool" where
  "keeps st st' \<longleftrightarrow> (\<forall>a n. owned st a n \<longrightarrow> owned st' a n) \<and> (\<forall>a n v. live st a n v \<longrightarrow> live st' a n v)
     \<and> ab_items st' = ab_items st \<and> ab_cb st' = ab_cb st \<and> ab_cb_data st' = ab_cb_data st"

lemma keeps_refl [simp]: "keeps st st"
  by (simp add: keeps_def)

lemma keeps_trans: "keeps a b \<Longrightarrow> keeps b c \<Longrightarrow> keeps a c"
  by (auto simp: keeps_def)

lemma keeps_owned: "keeps st st' \<Longrightarrow> owned st a n \<Longrightarrow> owned st' a n"
  unfolding keeps_def by blast

lemma keeps_live: "keeps st st' \<Longrightarrow> live st a n v \<Longrightarrow> live st' a n v"
  unfolding keeps_def by blast

lemma keeps_batch:
  "keeps st st' \<Longrightarrow> ab_items st' = ab_items st \<and> ab_cb st' = ab_cb st \<and> ab_cb_data st' = ab_cb_data st"
  unfolding keeps_def by blast

lemma keepsI:
  assumes "\<And>a n. owned st a n \<Longrightarrow> owned st' a n" and "\<And>a n v. live st a n v \<Longrightarrow> live st' a n v"
    and "ab_items st' = ab_items st" "ab_cb st' = ab_cb st" "ab_cb_data st' = ab_cb_data st"
  shows "keeps st st'"
  unfolding keeps_def using assms by blast

section \<open>Allocation\<close>

lemma fresh_block_blocks:
  assumes "blocks_ok st" and "fresh_block st cap = (b, st')"
  shows "blocks_ok (st'\<lparr>ab_arena := b # ab_arena st'\<rparr>)"
proof -
  have "ab_next_blk st \<notin> blk_id ` set (ab_arena st @ ab_pool st)"
    using assms(1) by (fastforce simp: blocks_ok_def)
  moreover have b: "b = \<lparr>blk_id = ab_next_blk st, blk_used = 0, blk_cap = cap\<rparr>"
      "st' = st\<lparr>ab_next_blk := ab_next_blk st + 1\<rparr>"
    using assms(2) by (simp_all add: fresh_block_def)
  moreover have "distinct (map blk_id (ab_arena st @ ab_pool st))" using assms(1) by (simp only: blocks_ok_def)
  ultimately have "distinct (map blk_id ((b # ab_arena st) @ ab_pool st))"
    by (simp del: map_append distinct_append set_append)
  moreover have "\<forall>c \<in> set (ab_arena st @ ab_pool st). blk_id c < ab_next_blk st + 1"
    using assms(1) by (auto simp: blocks_ok_def less_Suc_eq)
  ultimately show ?thesis using assms(1) b by (simp add: blocks_ok_def)
qed

text \<open>The block of a new allocation is empty, big enough, and not in flight.\<close>

lemma new_block_ok:
  assumes ok: "blocks_ok st" and nb: "new_block st al = (b, st')"
  shows "blk_used b = 0" and "al \<le> blk_cap b"
    and "blocks_ok (st'\<lparr>ab_arena := b # ab_arena st'\<rparr>)"
    and "ab_arena st' = ab_arena st" and "ab_items st' = ab_items st"
    and "ab_cb st' = ab_cb st" and "ab_cb_data st' = ab_cb_data st"
    and "blk_id b \<notin> blk_id ` set (ab_arena st)"
    and "\<And>a x. fst a \<in> blk_id ` set (ab_arena st) \<Longrightarrow> map_of (ab_mem st) a = Some x \<Longrightarrow>
           map_of (ab_mem st') a = Some x"
proof -
  let ?cap = "if SRD_ANN_ARENA_BLOCK_CAP < al then al else SRD_ANN_ARENA_BLOCK_CAP"
  have "blk_used b = 0 \<and> al \<le> blk_cap b \<and> blocks_ok (st'\<lparr>ab_arena := b # ab_arena st'\<rparr>)
    \<and> ab_arena st' = ab_arena st \<and> ab_items st' = ab_items st \<and> ab_cb st' = ab_cb st
    \<and> ab_cb_data st' = ab_cb_data st \<and> blk_id b \<notin> blk_id ` set (ab_arena st)
    \<and> (\<forall>a x. fst a \<in> blk_id ` set (ab_arena st) \<longrightarrow> map_of (ab_mem st) a = Some x \<longrightarrow>
           map_of (ab_mem st') a = Some x)"
  proof (cases "ab_pool st")
    case Nil
    with nb have f: "fresh_block st ?cap = (b, st')" by (simp add: new_block_def)
    with fresh_block_blocks [OF ok f] ok show ?thesis
      by (auto simp: fresh_block_def blocks_ok_def)
  next
    case (Cons blk rest)
    let ?s = "st\<lparr>ab_pool := rest, ab_mem := mi_free_block (blk_id blk) (ab_mem st)\<rparr>"
    have nin: "blk_id blk \<notin> blk_id ` set (ab_arena st)" using ok Cons by (auto simp: blocks_ok_def)
    show ?thesis
    proof (cases "blk_cap blk < al")
      case True
      with nb Cons have f: "fresh_block ?s ?cap = (b, st')" by (simp add: new_block_def Let_def)
      have bs: "blocks_ok ?s" using ok Cons by (auto simp: blocks_ok_def)
      have kept: "\<forall>a x. fst a \<in> blk_id ` set (ab_arena st) \<longrightarrow> map_of (ab_mem st) a = Some x \<longrightarrow>
           map_of (mi_free_block (blk_id blk) (ab_mem st)) a = Some x"
        using nin map_of_mi_free_block by metis
      have "ab_next_blk st \<notin> blk_id ` set (ab_arena st)" using ok by (fastforce simp: blocks_ok_def)
      moreover have "b = \<lparr>blk_id = ab_next_blk st, blk_used = 0, blk_cap = ?cap\<rparr>"
          "st' = ?s\<lparr>ab_next_blk := ab_next_blk st + 1\<rparr>"
        using f by (auto simp: fresh_block_def)
      ultimately show ?thesis using fresh_block_blocks [OF bs f] kept by auto
    next
      case False
      with nb Cons have f: "b = blk\<lparr>blk_used := 0\<rparr>" "st' = st\<lparr>ab_pool := rest\<rparr>"
        by (simp_all add: new_block_def Let_def)
      have "blocks_ok (st'\<lparr>ab_arena := b # ab_arena st'\<rparr>)" using ok Cons f by (auto simp: blocks_ok_def)
      with False f nin show ?thesis by simp
    qed
  qed
  then show "blk_used b = 0" "al \<le> blk_cap b" "blocks_ok (st'\<lparr>ab_arena := b # ab_arena st'\<rparr>)"
    "ab_arena st' = ab_arena st" "ab_items st' = ab_items st" "ab_cb st' = ab_cb st"
    "ab_cb_data st' = ab_cb_data st" "blk_id b \<notin> blk_id ` set (ab_arena st)"
    "\<And>a x. fst a \<in> blk_id ` set (ab_arena st) \<Longrightarrow> map_of (ab_mem st) a = Some x \<Longrightarrow>
           map_of (ab_mem st') a = Some x" by blast+
qed

text \<open>
  An allocation owns a new region that overlaps no region owned before, keeps everything,
  and leaves the blocks in order.
\<close>

lemma arena_alloc_fresh:
  assumes ok: "blocks_ok st" and al: "srd_ann_arena_alloc st n = (a, st')"
  shows "blocks_ok st' \<and> keeps st st' \<and> owned st' a n
    \<and> (\<forall>b m. owned st b m \<longrightarrow> \<not> overlaps a n b m)"
proof (cases "\<exists>blk rest. ab_arena st = blk # rest \<and> blk_used blk + align8 n \<le> blk_cap blk")
  case True
  then obtain blk rest where b: "ab_arena st = blk # rest" "blk_used blk + align8 n \<le> blk_cap blk" by blast
  with al have r: "a = (blk_id blk, blk_used blk)"
    "st' = st\<lparr>ab_arena := blk\<lparr>blk_used := blk_used blk + align8 n\<rparr> # rest\<rparr>"
    by (simp_all add: srd_ann_arena_alloc_def bump_def)
  have own: "owned st c m \<Longrightarrow> owned st' c m" for c m using b r by (auto simp: owned_def)
  have "blocks_ok st'" using ok b r by (auto simp: blocks_ok_def)
  moreover have "keeps st st'" by (rule keepsI) (use own r in \<open>auto simp: live_def\<close>)
  moreover have "owned st' a n" using r align8_ge [of n] by (auto simp: owned_def)
  moreover have "\<not> overlaps a n c m" if "owned st c m" for c m
  proof
    assume o: "overlaps a n c m"
    from that obtain d where d: "d \<in> set (ab_arena st)" "blk_id d = fst c" "snd c + m \<le> blk_used d"
      by (auto simp: owned_def)
    have "d = blk" using d(1,2) o r b ok by (auto simp: overlaps_def blocks_ok_def image_iff)
    with d(3) o r show False by (simp add: overlaps_def)
  qed
  ultimately show ?thesis by blast
next
  case False
  obtain blk s1 where nb: "new_block st (align8 n) = (blk, s1)" by (cases "new_block st (align8 n)")
  note n = new_block_ok [OF ok nb]
  from False al nb have "(a, st') = bump blk (ab_arena s1) (align8 n) s1"
    by (auto simp: srd_ann_arena_alloc_def Let_def split: list.splits if_splits)
  then have r: "a = (blk_id blk, 0)" "st' = s1\<lparr>ab_arena := blk\<lparr>blk_used := align8 n\<rparr> # ab_arena st\<rparr>"
    using n(1,4) by (simp_all add: bump_def)
  have own: "owned st c m \<Longrightarrow> owned st' c m" for c m using r by (auto simp: owned_def)
  have "blocks_ok st'" using n(2,3,4) r by (auto simp: blocks_ok_def)
  moreover have "keeps st st'"
  proof -
    have "live st' c m v" if "live st c m v" for c m v
    proof -
      have l: "owned st c m" "0 < m" "map_of (ab_mem st) c = Some (m, v)" using that by (simp_all add: live_def)
      then have "fst c \<in> blk_id ` set (ab_arena st)" by (auto simp: owned_def image_iff intro: sym)
      from n(9) [OF this l(3)] own [OF l(1)] l(2) r show ?thesis by (simp add: live_def)
    qed
    then show ?thesis by (intro keepsI own) (use n(5-7) r in simp_all)
  qed
  moreover have "owned st' a n" using r align8_ge [of n] by (auto simp: owned_def)
  moreover have "\<not> overlaps a n c m" if "owned st c m" for c m
  proof
    assume "overlaps a n c m"
    with r have "fst c = blk_id blk" by (simp add: overlaps_def)
    moreover obtain d where "d \<in> set (ab_arena st)" "blk_id d = fst c"
      using \<open>owned st c m\<close> unfolding owned_def by blast
    ultimately show False using n(8) by (metis image_eqI)
  qed
  ultimately show ?thesis by blast
qed

text \<open>Writing into a region that overlaps nothing owned before.\<close>

lemma write_keeps:
  assumes k: "keeps st st1" and own: "owned st1 a n" "0 < n"
    and fresh: "\<forall>b m. owned st b m \<longrightarrow> \<not> overlaps a n b m"
  shows "keeps st (st1\<lparr>ab_mem := mem_write a n w (ab_mem st1)\<rparr>)"
    and "live (st1\<lparr>ab_mem := mem_write a n w (ab_mem st1)\<rparr>) a n w"
proof -
  let ?s = "st1\<lparr>ab_mem := mem_write a n w (ab_mem st1)\<rparr>"
  have o: "owned ?s b m = owned st1 b m" for b m by (simp add: owned_def)
  show "live ?s a n w" using own by (simp add: live_def o)
  have lv: "live ?s b m v" if "live st b m v" for b m v
  proof -
    have "owned st b m" using that by (simp add: live_def)
    with fresh have "\<not> overlaps a n b m" by blast
    moreover have "0 < m" "owned st1 b m" "map_of (ab_mem st1) b = Some (m, v)"
      using keeps_live [OF k that] by (simp_all add: live_def)
    ultimately show ?thesis using own(2) by (simp add: live_def o map_of_mem_write_other)
  qed
  show "keeps st ?s" by (rule keepsI) (use lv keeps_owned [OF k] keeps_batch [OF k] in \<open>simp_all add: o\<close>)
qed

lemma blocks_ok_mem [simp]: "blocks_ok (st\<lparr>ab_mem := m\<rparr>) = blocks_ok st"
  by (simp add: blocks_ok_def)

lemma strdup_ok:
  assumes ok: "blocks_ok st" and sd: "srd_ann_arena_strdup st s = (a, st')"
  shows "blocks_ok st' \<and> keeps st st' \<and> live st' a (length (c_string s) + 1) (AStr (c_string s))
    \<and> (\<forall>b m. owned st b m \<longrightarrow> \<not> overlaps a (length (c_string s) + 1) b m)"
proof -
  let ?n = "length (c_string s) + 1"
  obtain st1 where al: "srd_ann_arena_alloc st ?n = (a, st1)"
    and st': "st' = st1\<lparr>ab_mem := mem_write a ?n (AStr (c_string s)) (ab_mem st1)\<rparr>"
    using sd by (auto simp: srd_ann_arena_strdup_def Let_def split: prod.splits)
  have f: "blocks_ok st1" "keeps st st1" "owned st1 a ?n" "\<forall>b m. owned st b m \<longrightarrow> \<not> overlaps a ?n b m"
    using arena_alloc_fresh [OF ok al] by blast+
  have "0 < ?n" by simp
  from write_keeps [OF f(2,3) this f(4)] f(1,4) show ?thesis unfolding st' by simp
qed

lemma strdup_all_ok:
  "blocks_ok st \<Longrightarrow> strdup_all st ss = (ps, st') \<Longrightarrow>
     blocks_ok st' \<and> keeps st st'
     \<and> list_all2 (\<lambda>p s. live st' p (length (c_string s) + 1) (AStr (c_string s))
         \<and> (\<forall>b m. owned st b m \<longrightarrow> \<not> overlaps p (length (c_string s) + 1) b m)) ps ss"
proof (induction ss arbitrary: st ps st')
  case Nil
  then show ?case by simp
next
  case (Cons s ss)
  obtain a st1 where 1: "srd_ann_arena_strdup st s = (a, st1)" by (cases "srd_ann_arena_strdup st s")
  obtain as st2 where 2: "strdup_all st1 ss = (as, st2)" by (cases "strdup_all st1 ss")
  have r: "ps = a # as" "st' = st2" using Cons.prems(2) 1 2 by simp_all
  have s: "blocks_ok st1" "keeps st st1" "live st1 a (length (c_string s) + 1) (AStr (c_string s))"
    "\<forall>b m. owned st b m \<longrightarrow> \<not> overlaps a (length (c_string s) + 1) b m"
    using strdup_ok [OF Cons.prems(1) 1] by blast+
  have t: "blocks_ok st2" "keeps st1 st2"
    "list_all2 (\<lambda>p s. live st2 p (length (c_string s) + 1) (AStr (c_string s))
       \<and> (\<forall>b m. owned st1 b m \<longrightarrow> \<not> overlaps p (length (c_string s) + 1) b m)) as ss"
    using Cons.IH [OF s(1) 2] by blast+
  have "list_all2 (\<lambda>p s. live st2 p (length (c_string s) + 1) (AStr (c_string s))
       \<and> (\<forall>b m. owned st b m \<longrightarrow> \<not> overlaps p (length (c_string s) + 1) b m)) as ss"
    by (rule list_all2_mono [OF t(3)]) (use keeps_owned [OF s(2)] in blast)
  with t(1) keeps_trans [OF s(2) t(2)] keeps_live [OF t(2) s(3)] s(4)
  show ?case unfolding r by (simp del: split_paired_All)
qed

section \<open>The batch as a list of annotations\<close>

text \<open>An item's texts are live, and stay what they were copied from.\<close>

definition text_live :: "srd_ann_batch_state \<Rightarrow> arena_addr \<Rightarrow> string list \<Rightarrow> bool" where
  "text_live st a ss \<longleftrightarrow> (\<exists>ps. live st a ((length ss + 1) * 8) (AStrv ps)
     \<and> list_all2 (\<lambda>p s. live st p (length s + 1) (AStr s)) ps ss)"

lemma text_live_keeps:
  assumes "text_live st a ss" and k: "keeps st st'"
  shows "text_live st' a ss"
proof -
  from assms(1) obtain ps where ps: "live st a ((length ss + 1) * 8) (AStrv ps)"
      "list_all2 (\<lambda>p s. live st p (length s + 1) (AStr s)) ps ss" by (auto simp: text_live_def)
  have "list_all2 (\<lambda>p s. live st' p (length s + 1) (AStr s)) ps ss"
    by (rule list_all2_mono [OF ps(2)]) (rule keeps_live [OF k])
  with keeps_live [OF k ps(1)] show ?thesis by (auto simp: text_live_def)
qed

lemma deref_text_live:
  assumes "text_live st a ss"
  shows "deref_text (ab_mem st) a = map Some ss"
proof -
  from assms obtain ps where p: "live st a ((length ss + 1) * 8) (AStrv ps)"
      "list_all2 (\<lambda>p s. live st p (length s + 1) (AStr s)) ps ss" by (auto simp: text_live_def)
  have "map (\<lambda>p. case mem_read (ab_mem st) p of Some (AStr s) \<Rightarrow> Some s | _ \<Rightarrow> None) ps = map Some ss"
    using p(2) by (induction rule: list_all2_induct) (simp_all add: live_def mem_read_def)
  with p(1) show ?thesis by (simp add: deref_text_def live_def mem_read_def)
qed

definition item_live :: "srd_ann_batch_state \<Rightarrow> srd_ann_item \<Rightarrow> bool" where
  "item_live st it \<longleftrightarrow> (\<forall>a. it_ann_text it = Some a \<longrightarrow> (\<exists>ss. text_live st a ss))"

lemma item_live_keeps: "item_live st it \<Longrightarrow> keeps st st' \<Longrightarrow> item_live st' it"
  unfolding item_live_def using text_live_keeps by blast

definition batch_inv :: "srd_ann_batch_state \<Rightarrow> bool" where
  "batch_inv st \<longleftrightarrow> blocks_ok st \<and> length (ab_items st) < SRD_ANN_BATCH_MAX
     \<and> (\<forall>it \<in> set (ab_items st). item_live st it)"

definition batch_abs :: "srd_ann_batch_state \<Rightarrow> delivered_ann list" where
  "batch_abs st = map (deref_item (ab_mem st)) (ab_items st)"

lemma deref_item_keeps:
  assumes "item_live st it" and k: "keeps st st'"
  shows "deref_item (ab_mem st') it = deref_item (ab_mem st) it"
proof (cases "it_ann_text it")
  case (Some a)
  then obtain ss where t: "text_live st a ss" using assms(1) by (auto simp: item_live_def)
  show ?thesis using deref_text_live [OF t] deref_text_live [OF text_live_keeps [OF t k]] Some
    by (simp add: deref_item_def)
qed (simp add: deref_item_def)

lemma batch_abs_keeps:
  assumes "\<forall>it \<in> set (ab_items st). item_live st it" and "keeps st st'"
  shows "batch_abs st' = batch_abs st"
  unfolding batch_abs_def using assms deref_item_keeps [OF _ assms(2)]
  by (auto simp: keeps_def)

lemma overlaps_sym: "overlaps a n b m = overlaps b m a n"
  by (auto simp: overlaps_def)

lemma live_write_other:
  assumes "live st b m v" and "\<not> overlaps a n b m" and "0 < n"
  shows "live (st\<lparr>ab_mem := mem_write a n w (ab_mem st)\<rparr>) b m v"
  using assms by (simp add: live_def owned_def map_of_mem_write_other)

text \<open>A vector of pointers to strings that were copied after its place was reserved.\<close>

lemma write_vector_ok:
  assumes ok: "blocks_ok st" and al: "srd_ann_arena_alloc st n = (strv, st1)"
    and n: "n = (length strs + 1) * 8" and s: "blocks_ok st2" "keeps st1 st2"
    and l: "list_all2 (\<lambda>p s. live st2 p (length s + 1) (AStr s)
         \<and> (\<forall>b m. owned st1 b m \<longrightarrow> \<not> overlaps p (length s + 1) b m)) ptrs strs"
  defines "st3 \<equiv> st2\<lparr>ab_mem := mem_write strv n (AStrv ptrs) (ab_mem st2)\<rparr>"
  shows "blocks_ok st3 \<and> keeps st st3 \<and> text_live st3 strv strs"
proof -
  have a: "keeps st st1" "owned st1 strv n" "\<forall>b m. owned st b m \<longrightarrow> \<not> overlaps strv n b m"
    using arena_alloc_fresh [OF ok al] by blast+
  have n0: "0 < n" by (simp add: n)
  note w = write_keeps [OF keeps_trans [OF a(1) s(2)] keeps_owned [OF s(2) a(2)] n0 a(3), of "AStrv ptrs", folded st3_def]
  have "list_all2 (\<lambda>p s. live st3 p (length s + 1) (AStr s)) ptrs strs"
  proof (rule list_all2_mono [OF l])
    fix p s
    assume h: "live st2 p (length s + 1) (AStr s) \<and> (\<forall>b m. owned st1 b m \<longrightarrow> \<not> overlaps p (length s + 1) b m)"
    then have "\<not> overlaps strv n p (length s + 1)" using a(2) overlaps_sym by blast
    with h n0 show "live st3 p (length s + 1) (AStr s)" unfolding st3_def using live_write_other by blast
  qed
  with w(2) have "text_live st3 strv strs" by (auto simp: text_live_def n)
  with w(1) s(1) show ?thesis by (simp add: st3_def)
qed

text \<open>The texts of one annotation, copied.\<close>

lemma copy_texts_ok:
  assumes ok: "blocks_ok st"
    and al: "srd_ann_arena_alloc st ((length strs + 1) * 8) = (strv, st1)"
    and sd: "strdup_all st1 strs = (ptrs, st2)"
  defines "st3 \<equiv> st2\<lparr>ab_mem := mem_write strv ((length strs + 1) * 8) (AStrv ptrs) (ab_mem st2)\<rparr>"
  shows "blocks_ok st3 \<and> keeps st st3 \<and> text_live st3 strv (map c_string strs)"
proof -
  have "blocks_ok st1" using arena_alloc_fresh [OF ok al] by blast
  from strdup_all_ok [OF this sd] have s: "blocks_ok st2" "keeps st1 st2"
    "list_all2 (\<lambda>p s. live st2 p (length s + 1) (AStr s)
         \<and> (\<forall>b m. owned st1 b m \<longrightarrow> \<not> overlaps p (length s + 1) b m)) ptrs (map c_string strs)"
    by (simp_all add: list_all2_map2)
  have "(length strs + 1) * 8 = (length (map c_string strs) + 1) * 8" by simp
  from write_vector_ok [OF ok al this s] show ?thesis unfolding st3_def .
qed

section \<open>Flushing\<close>

lemma recycle_blocks_ok:
  "recycle_blocks (length pool) bs pool mem = (pool', mem') \<Longrightarrow> length pool \<le> SRD_ANN_ARENA_POOL_CAP \<Longrightarrow>
     distinct (map blk_id (bs @ pool)) \<Longrightarrow>
     length pool' \<le> SRD_ANN_ARENA_POOL_CAP \<and> distinct (map blk_id pool') \<and> set pool' \<subseteq> set bs \<union> set pool"
proof (induction bs arbitrary: pool mem)
  case Nil
  then show ?case by simp
next
  case (Cons b bs)
  show ?case
  proof (cases "length pool < SRD_ANN_ARENA_POOL_CAP")
    case True
    with Cons.prems Cons.IH [of "b # pool" mem] show ?thesis by auto
  next
    case False
    with Cons.prems Cons.IH [of pool "mi_free_block (blk_id b) mem"] show ?thesis by auto
  qed
qed

lemma flush_state_ok:
  assumes ok: "blocks_ok st" and fl: "srd_ann_batch_flush_state st = (calls, st')"
  shows "blocks_ok st' \<and> ab_items st' = [] \<and> ab_cb st' = ab_cb st \<and> ab_cb_data st' = ab_cb_data st
    \<and> calls = (if batch_abs st = [] then [] else case ab_cb st of None \<Rightarrow> []
        | Some cb \<Rightarrow> [(cb, ab_cb_data st, batch_abs st)])"
proof (cases "ab_items st = []")
  case True
  with fl ok show ?thesis by (auto simp: srd_ann_batch_flush_state_def batch_abs_def)
next
  case False
  obtain pool mem where r: "recycle_blocks (length (ab_pool st)) (ab_arena st) (ab_pool st) (ab_mem st) = (pool, mem)"
    by (cases "recycle_blocks (length (ab_pool st)) (ab_arena st) (ab_pool st) (ab_mem st)")
  have p: "length pool \<le> SRD_ANN_ARENA_POOL_CAP \<and> distinct (map blk_id pool)
      \<and> set pool \<subseteq> set (ab_arena st) \<union> set (ab_pool st)"
    by (rule recycle_blocks_ok [OF r]) (use ok in \<open>auto simp: blocks_ok_def\<close>)
  have e: "calls = (case ab_cb st of None \<Rightarrow> [] | Some cb \<Rightarrow> [(cb, ab_cb_data st, batch_abs st)])"
      "st' = st\<lparr>ab_items := [], ab_arena := [], ab_pool := pool, ab_mem := mem\<rparr>"
    using fl r False by (auto simp: srd_ann_batch_flush_state_def batch_abs_def cong: option.case_cong)
  have "blocks_ok st'" using p ok e(2) by (auto simp: blocks_ok_def)
  moreover have "batch_abs st \<noteq> []" using False by (simp add: batch_abs_def)
  ultimately show ?thesis by (simp add: e)
qed


lemma append_item_ok:
  assumes inv: "blocks_ok st" "length (ab_items st) < SRD_ANN_BATCH_MAX"
      "\<forall>it \<in> set (ab_items st). item_live st it"
    and new: "item_live st it"
    and ap: "srd_ann_batch_append_item st it = (calls, st')"
  shows "batch_inv st' \<and> ab_cb st' = ab_cb st \<and> ab_cb_data st' = ab_cb_data st
    \<and> (if length (ab_items st) + 1 < SRD_ANN_BATCH_MAX
       then calls = [] \<and> batch_abs st' = batch_abs st @ [deref_item (ab_mem st) it]
       else batch_abs st' = [] \<and> calls = (case ab_cb st of None \<Rightarrow> []
         | Some cb \<Rightarrow> [(cb, ab_cb_data st, batch_abs st @ [deref_item (ab_mem st) it])]))"
proof -
  let ?s = "st\<lparr>ab_items := ab_items st @ [it]\<rparr>"
  have lv: "item_live ?s i = item_live st i" for i
    by (simp add: item_live_def text_live_def live_def owned_def)
  have ok: "blocks_ok ?s" using inv(1) by (simp add: blocks_ok_def)
  have abs: "batch_abs ?s = batch_abs st @ [deref_item (ab_mem st) it]" by (simp add: batch_abs_def)
  show ?thesis
  proof (cases "length (ab_items st) + 1 < SRD_ANN_BATCH_MAX")
    case True
    with ap inv(2) have r: "calls = []" "st' = ?s" by (simp_all add: srd_ann_batch_append_item_def Let_def)
    have "batch_inv ?s" using ok True inv(3) new by (auto simp: batch_inv_def lv)
    with True abs show ?thesis by (simp add: r)
  next
    case False
    with ap inv(2) have fl: "srd_ann_batch_flush_state ?s = (calls, st')"
      by (auto simp: srd_ann_batch_append_item_def Let_def split: prod.splits)
    note f = flush_state_ok [OF ok fl]
    have "0 < SRD_ANN_BATCH_MAX" by (simp add: SRD_ANN_BATCH_MAX_def)
    with f have "batch_inv st'" "batch_abs st' = []" by (simp_all add: batch_inv_def batch_abs_def)
    with f abs False show ?thesis by (simp cong: option.case_cong)
  qed
qed

text \<open>One annotation as the decoder hands it over, and as the host receives it.\<close>

record ann_args =
  aa_start :: u64
  aa_end :: u64
  aa_class :: int
  aa_type :: int
  aa_decoder :: "srd_decoder option"
  aa_text :: "string list option"
  aa_hex :: "string option"
  aa_numeric :: int

definition append_args :: "srd_ann_batch_state \<Rightarrow> ann_args \<Rightarrow> batch_call list \<times> srd_ann_batch_state" where
  "append_args st x = srd_ann_batch_append_fields st (aa_start x) (aa_end x) (aa_class x) (aa_type x)
     (aa_decoder x) (aa_text x) (aa_hex x) (aa_numeric x)"

definition delivered_of :: "ann_args \<Rightarrow> delivered_ann" where
  "delivered_of x = \<lparr>da_start = aa_start x, da_end = aa_end x, da_class = aa_class x,
     da_type = aa_type x, da_text = Some (map (Some \<circ> c_string) (case aa_text x of None \<Rightarrow> [] | Some l \<Rightarrow> l)),
     da_hex = (case aa_hex x of None \<Rightarrow> [] | Some h \<Rightarrow> h), da_numeric = aa_numeric x,
     da_decoder = aa_decoder x\<rparr>"

lemma append_args_ok:
  assumes inv: "batch_inv st" and ap: "append_args st x = (calls, st')"
  shows "batch_inv st' \<and> ab_cb st' = ab_cb st \<and> ab_cb_data st' = ab_cb_data st
    \<and> (if length (ab_items st) + 1 < SRD_ANN_BATCH_MAX
       then calls = [] \<and> batch_abs st' = batch_abs st @ [delivered_of x]
       else batch_abs st' = [] \<and> calls = (case ab_cb st of None \<Rightarrow> []
         | Some cb \<Rightarrow> [(cb, ab_cb_data st, batch_abs st @ [delivered_of x])]))"
proof -
  define strs where "strs = (case aa_text x of None \<Rightarrow> [] | Some l \<Rightarrow> l)"
  obtain strv st1 where al: "srd_ann_arena_alloc st ((length strs + 1) * 8) = (strv, st1)"
    by (cases "srd_ann_arena_alloc st ((length strs + 1) * 8)")
  obtain ptrs st2 where sd: "strdup_all st1 strs = (ptrs, st2)" by (cases "strdup_all st1 strs")
  define st3 where "st3 = st2\<lparr>ab_mem := mem_write strv ((length strs + 1) * 8) (AStrv ptrs) (ab_mem st2)\<rparr>"
  define it where "it = \<lparr>it_start_sample = aa_start x, it_end_sample = aa_end x, it_ann_class = aa_class x,
            it_ann_type = aa_type x, it_ann_text = Some strv,
            it_str_number_hex = (case aa_hex x of None \<Rightarrow> [] | Some h \<Rightarrow> h),
            it_numberic_value = aa_numeric x, it_decoder = aa_decoder x\<rparr>"
  have i: "blocks_ok st" "length (ab_items st) < SRD_ANN_BATCH_MAX"
    "\<forall>it \<in> set (ab_items st). item_live st it"
    using inv by (simp_all add: batch_inv_def)
  have c: "blocks_ok st3" "keeps st st3" "text_live st3 strv (map c_string strs)"
    using copy_texts_ok [OF i(1) al sd] by (simp_all add: st3_def)
  note kb = keeps_batch [OF c(2)]
  have live3: "\<forall>it \<in> set (ab_items st3). item_live st3 it"
    using i(3) kb item_live_keeps [OF _ c(2)] by simp
  have ap3: "srd_ann_batch_append_item st3 it = (calls, st')"
    using ap al sd by (simp add: append_args_def srd_ann_batch_append_fields_def Let_def
        strs_def [symmetric] st3_def it_def)
  have tl: "item_live st3 it" using c(3) by (auto simp: it_def item_live_def)
  have len: "length (ab_items st3) < SRD_ANN_BATCH_MAX" using i(2) kb by simp
  have d: "deref_item (ab_mem st3) it = delivered_of x"
    using deref_text_live [OF c(3)] by (simp add: deref_item_def it_def delivered_of_def strs_def)
  from append_item_ok [OF c(1) len live3 tl ap3] kb batch_abs_keeps [OF i(3) c(2)] d
  show ?thesis by (simp cong: option.case_cong)
qed

section \<open>What the batch path promises\<close>

text \<open>Feeding a sequence to an operation that returns what it sent out.\<close>

fun run_adds :: "('s \<Rightarrow> 'x \<Rightarrow> 'b list \<times> 's) \<Rightarrow> 's \<Rightarrow> 'x list \<Rightarrow> 'b list \<times> 's" where
  "run_adds add s [] = ([], s)"
| "run_adds add s (x # xs) = (let (bs, s1) = add s x; (cs, s2) = run_adds add s1 xs in (bs @ cs, s2))"

text \<open>
  The contract of a batching buffer: adding an element keeps the order of everything sent
  and pending, full batches have exactly the capacity, and flushing sends what is pending.
\<close>

locale batching =
  fixes inv :: "'s \<Rightarrow> bool" and pending :: "'s \<Rightarrow> 'a list"
    and add :: "'s \<Rightarrow> 'x \<Rightarrow> 'b list \<times> 's" and flush :: "'s \<Rightarrow> 'b list \<times> 's"
    and out :: "'x \<Rightarrow> 'a list" and content :: "'b \<Rightarrow> 'a list" and cap :: nat
  assumes add_law: "inv s \<Longrightarrow> add s x = (bs, s') \<Longrightarrow>
      inv s' \<and> concat (map content bs) @ pending s' = pending s @ out x
      \<and> (\<forall>b \<in> set bs. length (content b) = cap)"
    and flush_law: "inv s \<Longrightarrow> flush s = (bs, s') \<Longrightarrow>
      inv s' \<and> pending s' = [] \<and> concat (map content bs) = pending s"
    and pending_law: "inv s \<Longrightarrow> length (pending s) < cap"
begin

lemma run_adds_law:
  "inv s \<Longrightarrow> run_adds add s xs = (bs, s') \<Longrightarrow>
     inv s' \<and> concat (map content bs) @ pending s' = pending s @ concat (map out xs)
     \<and> (\<forall>b \<in> set bs. length (content b) = cap)"
proof (induction xs arbitrary: s bs s')
  case Nil
  then show ?case by simp
next
  case (Cons x xs)
  obtain b1 s1 where a: "add s x = (b1, s1)" by (cases "add s x")
  obtain b2 s2 where r: "run_adds add s1 xs = (b2, s2)" by (cases "run_adds add s1 xs")
  have e: "bs = b1 @ b2" "s' = s2" using Cons.prems(2) a r by simp_all
  note l = add_law [OF Cons.prems(1) a]
  have "inv s2 \<and> concat (map content b2) @ pending s2 = pending s1 @ concat (map out xs)
     \<and> (\<forall>b \<in> set b2. length (content b) = cap)" using Cons.IH [OF _ r] l by blast
  with l e show ?case by (auto simp flip: append_assoc) (metis append.assoc)
qed

lemma lossless:
  assumes "inv s" and "run_adds add s xs = (bs, s1)" and "flush s1 = (cs, s2)"
  shows "concat (map content (bs @ cs)) = pending s @ concat (map out xs) \<and> pending s2 = [] \<and> inv s2
    \<and> (\<forall>b \<in> set bs. length (content b) = cap) \<and> length (concat (map content cs)) < cap"
  using run_adds_law [OF assms(1,2)] flush_law [OF _ assms(3)] pending_law [of s1] by auto

end

text \<open>A batch state that has a batch callback.\<close>

definition batch_ready :: "nat \<Rightarrow> nat \<Rightarrow> srd_ann_batch_state \<Rightarrow> bool" where
  "batch_ready cb data st \<longleftrightarrow> batch_inv st \<and> ab_cb st = Some cb \<and> ab_cb_data st = data"

definition call_batch :: "batch_call \<Rightarrow> delivered_ann list" where
  "call_batch c = snd (snd c)"

text \<open>Storing an item whose texts are in place.\<close>

lemma append_item_ready:
  assumes r: "batch_ready cb data st" and k: "blocks_ok st3" "keeps st st3" and new: "item_live st3 it"
    and ap: "srd_ann_batch_append_item st3 it = (calls, st')"
  shows "batch_ready cb data st'
    \<and> concat (map call_batch calls) @ batch_abs st' = batch_abs st @ [deref_item (ab_mem st3) it]
    \<and> (\<forall>c \<in> set calls. length (call_batch c) = SRD_ANN_BATCH_MAX)"
proof -
  have i: "length (ab_items st) < SRD_ANN_BATCH_MAX" "\<forall>it \<in> set (ab_items st). item_live st it"
    "ab_cb st = Some cb" "ab_cb_data st = data"
    using r by (simp_all add: batch_ready_def batch_inv_def)
  note kb = keeps_batch [OF k(2)]
  have live3: "\<forall>it \<in> set (ab_items st3). item_live st3 it" using i(2) kb item_live_keeps [OF _ k(2)] by simp
  have len: "length (ab_items st3) < SRD_ANN_BATCH_MAX" using i(1) kb by simp
  have l: "length (batch_abs st) = length (ab_items st)" by (simp add: batch_abs_def)
  from append_item_ok [OF k(1) len live3 new ap] kb batch_abs_keeps [OF i(2) k(2)] i l
  show ?thesis by (auto simp: batch_ready_def call_batch_def split: if_splits)
qed

lemma append_args_ready:
  assumes "batch_ready cb data st" and "append_args st x = (calls, st')"
  shows "batch_ready cb data st' \<and> concat (map call_batch calls) @ batch_abs st' = batch_abs st @ [delivered_of x]
    \<and> (\<forall>c \<in> set calls. length (call_batch c) = SRD_ANN_BATCH_MAX) \<and> (\<forall>c \<in> set calls. \<exists>b. c = (cb, data, b))"
proof -
  have inv: "batch_inv st" "ab_cb st = Some cb" "ab_cb_data st = data" using assms(1) by (simp_all add: batch_ready_def)
  have "length (batch_abs st) = length (ab_items st)" "length (ab_items st) < SRD_ANN_BATCH_MAX"
    using inv(1) by (simp_all add: batch_abs_def batch_inv_def)
  with append_args_ok [OF inv(1) assms(2)] inv show ?thesis
    by (auto simp: batch_ready_def call_batch_def split: if_splits)
qed

lemma flush_ready:
  assumes "batch_ready cb data st" and "srd_ann_batch_flush_state st = (calls, st')"
  shows "batch_ready cb data st' \<and> batch_abs st' = [] \<and> concat (map call_batch calls) = batch_abs st"
proof -
  have inv: "blocks_ok st" "ab_cb st = Some cb" "ab_cb_data st = data"
    using assms(1) by (simp_all add: batch_ready_def batch_inv_def)
  have "0 < SRD_ANN_BATCH_MAX" by (simp add: SRD_ANN_BATCH_MAX_def)
  with flush_state_ok [OF inv(1) assms(2)] inv show ?thesis
    by (simp add: batch_ready_def batch_inv_def call_batch_def batch_abs_def)
qed

interpretation ann: batching "batch_ready cb data" batch_abs append_args srd_ann_batch_flush_state
  "\<lambda>x. [delivered_of x]" call_batch SRD_ANN_BATCH_MAX
proof
  fix s x bs s'
  assume "batch_ready cb data s" "append_args s x = (bs, s')"
  from append_args_ready [OF this]
  show "batch_ready cb data s' \<and> concat (map call_batch bs) @ batch_abs s' = batch_abs s @ [delivered_of x]
      \<and> (\<forall>b \<in> set bs. length (call_batch b) = SRD_ANN_BATCH_MAX)" by blast
next
  fix s bs s'
  assume "batch_ready cb data s" "srd_ann_batch_flush_state s = (bs, s')"
  then show "batch_ready cb data s' \<and> batch_abs s' = [] \<and> concat (map call_batch bs) = batch_abs s"
    by (rule flush_ready)
next
  fix s
  assume "batch_ready cb data s"
  then show "length (batch_abs s) < SRD_ANN_BATCH_MAX"
    by (simp add: batch_ready_def batch_inv_def batch_abs_def)
qed

text \<open>
  C3: The batch path loses, duplicates and reorders nothing: after any sequence of
  annotations and a final flush, the batches handed to the host are, in order, exactly
  what was pending and then the annotations appended, with their texts intact although
  arena blocks are recycled and freed in between; every batch before the flush has
  exactly \<open>SRD_ANN_BATCH_MAX\<close> items.
\<close>

theorem annotations_delivered_in_order:
  assumes "batch_ready cb data st"
    and "run_adds append_args st xs = (calls, st1)" and "srd_ann_batch_flush_state st1 = (last_calls, st2)"
  shows "concat (map call_batch (calls @ last_calls)) = batch_abs st @ map delivered_of xs
    \<and> batch_abs st2 = [] \<and> (\<forall>c \<in> set calls. length (call_batch c) = SRD_ANN_BATCH_MAX)
    \<and> length (concat (map call_batch last_calls)) < SRD_ANN_BATCH_MAX"
  using ann.lossless [OF assms] by simp

definition example_batch :: srd_ann_batch_state where
  "example_batch = \<lparr>ab_cb = Some 7, ab_cb_data = 3, ab_items = [], ab_arena = [], ab_pool = [],
     ab_wrapper_installed = True, ab_mem = [], ab_next_blk = 0\<rparr>"

definition example_ann :: "string \<Rightarrow> ann_args" where
  "example_ann s = \<lparr>aa_start = 1, aa_end = 2, aa_class = 0, aa_type = 0, aa_decoder = None,
     aa_text = Some [s], aa_hex = None, aa_numeric = 0\<rparr>"

lemma example_batch_ready: "batch_ready 7 3 example_batch"
  by (simp add: batch_ready_def batch_inv_def blocks_ok_def example_batch_def SRD_ANN_BATCH_MAX_def)

lemma annotations_delivered_in_order_witness:
  "let (calls, st1) = run_adds append_args example_batch [example_ann ''ab'', example_ann ''c''];
       (last_calls, st2) = srd_ann_batch_flush_state st1
   in concat (map call_batch (calls @ last_calls)) = map delivered_of [example_ann ''ab'', example_ann ''c'']"
proof -
  let ?xs = "[example_ann ''ab'', example_ann ''c'']"
  obtain calls st1 where r: "run_adds append_args example_batch ?xs = (calls, st1)"
    by (cases "run_adds append_args example_batch ?xs")
  obtain last_calls st2 where f: "srd_ann_batch_flush_state st1 = (last_calls, st2)"
    by (cases "srd_ann_batch_flush_state st1")
  have "batch_abs example_batch = []" by (simp add: batch_abs_def example_batch_def)
  with annotations_delivered_in_order [OF example_batch_ready r f] show ?thesis
    unfolding r by (simp only: f prod.case Let_def append_Nil)
qed

text \<open>
  C10: The arena stays well formed under every operation: blocks are distinct, no block in
  flight is used beyond its capacity, at most \<open>SRD_ANN_ARENA_POOL_CAP\<close> blocks are kept for
  reuse, fewer than \<open>SRD_ANN_BATCH_MAX\<close> items are pending (so the flush before a store,
  which would recycle the new item's own texts, never happens), and the texts of every
  pending item are live.
\<close>

theorem batch_inv_preserved:
  "batch_inv (srd_ann_batch_init st0)
   \<and> (batch_inv st \<longrightarrow> batch_inv (snd (append_args st x)) \<and> batch_inv (snd (srd_ann_batch_flush_state st)))"
proof (intro conjI impI)
  show "batch_inv (srd_ann_batch_init st0)"
    by (simp add: srd_ann_batch_init_def batch_inv_def blocks_ok_def SRD_ANN_BATCH_MAX_def)
next
  assume inv: "batch_inv st"
  show "batch_inv (snd (append_args st x))"
    using append_args_ok [OF inv] by (cases "append_args st x") auto
  have "0 < SRD_ANN_BATCH_MAX" by (simp add: SRD_ANN_BATCH_MAX_def)
  with inv show "batch_inv (snd (srd_ann_batch_flush_state st))"
    using flush_state_ok [of st] by (cases "srd_ann_batch_flush_state st") (auto simp: batch_inv_def)
qed

lemma batch_inv_preserved_witness:
  "batch_inv (snd (append_args example_batch (example_ann ''ab'')))"
proof -
  have "batch_inv example_batch" using example_batch_ready by (simp add: batch_ready_def)
  with batch_inv_preserved [of example_batch example_batch "example_ann ''ab''"] show ?thesis by blast
qed

section \<open>The batch of a session\<close>

definition batch_events :: "batch_call list \<Rightarrow> srd_event list" where
  "batch_events = map (\<lambda>(cb, data, b). Ev_batch cb data b)"

text \<open>A batch operation on the session behind a pointer; the host sees the calls.\<close>

definition on_batch ::
    "(srd_ann_batch_state \<Rightarrow> batch_call list \<times> srd_ann_batch_state) \<Rightarrow> sess_ptr \<Rightarrow>
     'p srd_world \<Rightarrow> 'p srd_world" where
  "on_batch f sess w = (case w_sess w sess of
      None \<Rightarrow> w
    | Some se \<Rightarrow> (let (calls, st) = f (ann_batch se)
        in (upd_sess sess (\<lambda>se. se\<lparr>ann_batch := st\<rparr>) w)\<lparr>w_events := w_events w @ batch_events calls\<rparr>))"

definition srd_ann_batch_flush :: "sess_ptr \<Rightarrow> 'p srd_world \<Rightarrow> 'p srd_world" where
  "srd_ann_batch_flush sess = on_batch srd_ann_batch_flush_state sess"

text \<open>
  The callback installed for \<open>SRD_OUTPUT_ANN\<close>. It casts the payload to an annotation, the
  only payload that output type has.
\<close>

definition srd_ann_batch_callback_wrapper ::
    "srd_proto_data \<Rightarrow> sess_ptr \<Rightarrow> 'p srd_world \<Rightarrow> 'p srd_world" where
  "srd_ann_batch_callback_wrapper pdata sess w = (case pd_data pdata of
      PD_annotation pda \<Rightarrow>
        on_batch (\<lambda>st. srd_ann_batch_append_fields st (pd_start_sample pdata) (pd_end_sample pdata)
            (pda_ann_class pda) (pda_ann_type pda)
            (map_option di_decoder (inst_at w (pdo_di (pd_pdo pdata))))
            (pda_ann_text pda) (Some (pda_str_number_hex pda)) (pda_numberic_value pda)) sess w
    | _ \<Rightarrow> w)"

lemma on_batch_insts [simp]: "inst_at (on_batch f sess w) p = inst_at w p"
  by (auto simp: on_batch_def inst_at_def upd_sess_def split: option.split prod.split)

end
