(* ===== verification/StackWalk.thy ===== *)
theory StackWalk
  imports ErrorCodes
begin

text \<open>
  Decoder instances form stacks: an instance has a list of instances on top of it. Several
  operations of the library (start, metadata, terminate) walk a stack in the same way:
  they act on an instance, give up if that failed, and go on with every instance on top,
  giving up at the first failure. The C code recurses without a bound; the model has fuel
  and returns None when it runs out. This theory states the walk once, as an interface,
  and proves that it is a pass over the stack in preorder that stops at the first error,
  that it ends on every acyclic stack, and that it never ends on a cyclic one.
\<close>

section \<open>Loops that stop at the first error\<close>

text \<open>\<open>for (l = list; l; l = l->next) if ((ret = f(l->data)) != SRD_OK) return ret;\<close>\<close>

fun run_all :: "('n \<Rightarrow> 'w \<Rightarrow> srd_error_code \<times> 'w) \<Rightarrow> 'n list \<Rightarrow> 'w \<Rightarrow> srd_error_code \<times> 'w" where
  "run_all f [] w = (SRD_OK, w)"
| "run_all f (p # ps) w = (let (r, w1) = f p w in if r \<noteq> SRD_OK then (r, w1) else run_all f ps w1)"

text \<open>The same loop over an operation that may not return.\<close>

fun for_each ::
    "('n \<Rightarrow> 'w \<Rightarrow> (srd_error_code \<times> 'w) option) \<Rightarrow> 'n list \<Rightarrow> 'w \<Rightarrow> (srd_error_code \<times> 'w) option" where
  "for_each f [] w = Some (SRD_OK, w)"
| "for_each f (p # ps) w = (case f p w of None \<Rightarrow> None
     | Some (r, w1) \<Rightarrow> if r \<noteq> SRD_OK then Some (r, w1) else for_each f ps w1)"

lemma run_all_append:
  "run_all f (xs @ ys) w = (let (r, w1) = run_all f xs w in if r \<noteq> SRD_OK then (r, w1) else run_all f ys w1)"
  by (induction xs arbitrary: w) (auto split: prod.split)

lemma run_all_invariant:
  assumes "\<And>p w r w'. P w \<Longrightarrow> f p w = (r, w') \<Longrightarrow> P w'" and "P w" and "run_all f ps w = (r, w')"
  shows "P w'"
  using assms(2,3)
proof (induction ps arbitrary: w)
  case (Cons p ps)
  obtain r1 w1 where f: "f p w = (r1, w1)" by fastforce
  with assms(1) Cons.prems(1) have "P w1" by blast
  with Cons f show ?case by (auto split: if_splits)
qed simp

text \<open>If no step fails, the loop is a fold.\<close>

lemma run_all_fold:
  assumes "\<And>p w. fst (f p w) = SRD_OK"
  shows "run_all f ps w = (SRD_OK, fold (\<lambda>p w. snd (f p w)) ps w)"
proof (induction ps arbitrary: w)
  case (Cons p ps)
  with assms [of p w] show ?case by (cases "f p w") simp
qed simp

text \<open>An error of the loop is the error of one of its steps, after which nothing runs.\<close>

lemma run_all_error:
  assumes "run_all f ps w = (r, w')" and "r \<noteq> SRD_OK"
  shows "\<exists>xs p ys w1. ps = xs @ p # ys \<and> run_all f xs w = (SRD_OK, w1) \<and> f p w1 = (r, w')"
  using assms
proof (induction ps arbitrary: w)
  case (Cons p ps)
  obtain r1 w1 where f: "f p w = (r1, w1)" by fastforce
  show ?case
  proof (cases "r1 = SRD_OK")
    case True
    with Cons.prems f have "run_all f ps w1 = (r, w')" by simp
    with Cons.IH [OF this Cons.prems(2)] obtain xs q ys w2
      where "ps = xs @ q # ys" "run_all f xs w1 = (SRD_OK, w2)" "f q w2 = (r, w')" by blast
    then have "p # ps = (p # xs) @ q # ys" "run_all f (p # xs) w = (SRD_OK, w2)" "f q w2 = (r, w')"
      using f True by simp_all
    then show ?thesis by blast
  next
    case False
    with Cons.prems f have "p # ps = [] @ p # ps" "run_all f [] w = (SRD_OK, w)" "f p w = (r, w')"
      by simp_all
    then show ?thesis by blast
  qed
qed simp

section \<open>The instances of a stack\<close>

primrec preorder :: "nat \<Rightarrow> ('n \<Rightarrow> 'n list) \<Rightarrow> 'n \<Rightarrow> 'n list" where
  "preorder 0 kids p = []"
| "preorder (Suc n) kids p = p # concat (map (preorder n kids) (kids p))"

definition stacked :: "('n \<Rightarrow> 'n list) \<Rightarrow> ('n \<times> 'n) set" where
  "stacked kids = {(p, q). q \<in> set (kids p)}"

lemma preorder_reachable: "q \<in> set (preorder n kids p) \<Longrightarrow> (p, q) \<in> (stacked kids)\<^sup>*"
proof (induction n arbitrary: p)
  case (Suc n)
  show ?case
  proof (cases "q = p")
    case False
    with Suc.prems obtain c where "c \<in> set (kids p)" "q \<in> set (preorder n kids c)" by auto
    with Suc.IH have "(p, c) \<in> stacked kids" "(c, q) \<in> (stacked kids)\<^sup>*" by (auto simp: stacked_def)
    then show ?thesis by (rule converse_rtrancl_into_rtrancl)
  qed simp
qed simp

text \<open>An acyclic stack is one with a rank (a height) that falls from bottom to top.\<close>

definition ranked :: "('n \<Rightarrow> 'n list) \<Rightarrow> ('n \<Rightarrow> nat) \<Rightarrow> bool" where
  "ranked kids rk \<longleftrightarrow> (\<forall>p q. q \<in> set (kids p) \<longrightarrow> rk q < rk p)"

lemma rankedD: "ranked kids rk \<Longrightarrow> q \<in> set (kids p) \<Longrightarrow> rk q < rk p"
  by (simp add: ranked_def)

lemma preorder_complete:
  assumes rk: "ranked kids rk" and "rk p < n" and "(p, q) \<in> (stacked kids)\<^sup>*"
  shows "q \<in> set (preorder n kids p)"
  using assms(3,2)
proof (induction arbitrary: n rule: converse_rtrancl_induct)
  case base
  then show ?case by (cases n) auto
next
  case (step p c)
  then obtain m where n: "n = Suc m" by (cases n) auto
  have "c \<in> set (kids p)" using step.hyps(1) by (simp add: stacked_def)
  with rankedD [OF rk] step.prems n have "rk c < m" by fastforce
  with step.IH \<open>c \<in> set (kids p)\<close> n show ?case by auto
qed

section \<open>The walk\<close>

locale stack_walk =
  fixes walk :: "nat \<Rightarrow> 'n \<Rightarrow> 'w \<Rightarrow> (srd_error_code \<times> 'w) option"
    and visit :: "'n \<Rightarrow> 'w \<Rightarrow> srd_error_code \<times> 'w"
    and kids :: "'w \<Rightarrow> 'n \<Rightarrow> 'n list"
    and result :: "'n \<Rightarrow> 'w \<Rightarrow> srd_error_code"
  assumes walk_0: "walk 0 p w = None"
    and walk_Suc: "walk (Suc n) p w =
      (let (r, w1) = visit p w
       in if r \<noteq> SRD_OK then Some (r, w1)
          else case for_each (walk n) (kids w1 p) w1 of
              None \<Rightarrow> None
            | Some (r, w2) \<Rightarrow> if r \<noteq> SRD_OK then Some (r, w2) else Some (result p w2, w2))"
begin

text \<open>The walk as a flat loop, for visits that keep an invariant and leave the stack alone.\<close>

lemma for_each_flat:
  assumes "\<And>q w. q \<in> set qs \<Longrightarrow> Q w \<Longrightarrow> kids w = K \<Longrightarrow> walk n q w = Some (run_all visit (preorder n K q) w)"
    and keep: "\<And>p w r w'. Q w \<and> kids w = K \<Longrightarrow> visit p w = (r, w') \<Longrightarrow> Q w' \<and> kids w' = K"
    and "Q w" and "kids w = K"
  shows "for_each (walk n) qs w = Some (run_all visit (concat (map (preorder n K) qs)) w)"
  using assms(1,3,4)
proof (induction qs arbitrary: w)
  case (Cons q qs)
  obtain r w1 where r: "run_all visit (preorder n K q) w = (r, w1)" by fastforce
  have Q1: "Q w1 \<and> kids w1 = K"
    by (rule run_all_invariant [OF keep _ r]) (use Cons.prems in auto)
  have "walk n q w = Some (r, w1)" using Cons.prems r by simp
  moreover have "for_each (walk n) qs w1 = Some (run_all visit (concat (map (preorder n K) qs)) w1)"
    using Cons.IH [of w1] Cons.prems(1) Q1 by simp
  ultimately show ?case using r by (simp add: run_all_append)
qed simp

lemma walk_flat:
  assumes keep: "\<And>p w r w'. Q w \<Longrightarrow> visit p w = (r, w') \<Longrightarrow> Q w' \<and> kids w' = kids w"
    and res: "\<And>p w. Q w \<Longrightarrow> result p w = SRD_OK"
    and rk: "ranked (kids w) rk" and "Q w" and "rk p < n"
  shows "walk n p w = Some (run_all visit (preorder n (kids w) p) w)"
  using assms(3-5)
proof (induction n arbitrary: p w)
  case (Suc n)
  obtain r w1 where v: "visit p w = (r, w1)" by fastforce
  with keep Suc.prems have Q1: "Q w1" "kids w1 = kids w" by blast+
  show ?case
  proof (cases "r = SRD_OK")
    case True
    have each: "walk n q w' = Some (run_all visit (preorder n (kids w) q) w')"
      if "q \<in> set (kids w p)" "Q w'" "kids w' = kids w" for q w'
    proof -
      have "rk q < n" using rankedD [OF Suc.prems(1) that(1)] Suc.prems(3) by simp
      with Suc.IH [of w' q] Suc.prems(1) that show ?thesis by simp
    qed
    have keep': "\<And>p v r v'. Q v \<and> kids v = kids w \<Longrightarrow> visit p v = (r, v') \<Longrightarrow> Q v' \<and> kids v' = kids w"
      using keep by metis
    have f: "for_each (walk n) (kids w1 p) w1 =
        Some (run_all visit (concat (map (preorder n (kids w)) (kids w p))) w1)"
      using for_each_flat [where K = "kids w", OF _ keep' Q1] each Q1(2) by simp
    obtain r2 w2 where r2: "run_all visit (concat (map (preorder n (kids w)) (kids w p))) w1 = (r2, w2)"
      by fastforce
    have "Q w2" by (rule run_all_invariant [where P = Q, OF _ Q1(1) r2]) (use keep in blast)
    with res have "result p w2 = SRD_OK" by simp
    then show ?thesis using True by (simp add: walk_Suc v f r2)
  next
    case False
    then show ?thesis by (simp add: walk_Suc v)
  qed
qed simp

text \<open>A walk that returns does not depend on the fuel.\<close>

lemma for_each_mono:
  assumes "\<And>q w y. walk n q w = Some y \<Longrightarrow> walk m q w = Some y"
    and "for_each (walk n) qs w = Some y"
  shows "for_each (walk m) qs w = Some y"
  using assms(2)
proof (induction qs arbitrary: w)
  case (Cons q qs)
  then obtain r w1 where q: "walk n q w = Some (r, w1)" by (auto split: option.splits)
  with Cons assms(1) [OF q] show ?case by (simp split: if_splits)
qed simp

lemma walk_mono: "walk n p w = Some y \<Longrightarrow> n \<le> m \<Longrightarrow> walk m p w = Some y"
proof (induction n arbitrary: p w y m)
  case (Suc n)
  obtain m' where m: "m = Suc m'" "n \<le> m'" using Suc.prems(2) by (cases m) simp_all
  have mono: "walk n q w = Some y \<Longrightarrow> walk m' q w = Some y" for q w y by (rule Suc.IH [OF _ m(2)])
  obtain r w1 where v: "visit p w = (r, w1)" by fastforce
  show ?case
  proof (cases "r = SRD_OK")
    case True
    with Suc.prems v obtain r2 w2 where f: "for_each (walk n) (kids w1 p) w1 = Some (r2, w2)"
      by (auto simp: walk_Suc split: option.splits)
    from for_each_mono [OF mono this] have "for_each (walk m') (kids w1 p) w1 = Some (r2, w2)" .
    with True f Suc.prems(1) v show ?thesis by (simp add: walk_Suc m)
  next
    case False
    then have "y = (r, w1)" using Suc.prems(1) v by (simp add: walk_Suc)
    with False v show ?thesis by (simp add: walk_Suc m)
  qed
qed (simp add: walk_0)

text \<open>On a cyclic stack a walk whose visits all succeed never returns.\<close>

lemma for_each_keeps:
  assumes "\<And>p w r w'. Q w \<Longrightarrow> walk n p w = Some (r, w') \<Longrightarrow> r = SRD_OK \<and> Q w' \<and> kids w' = kids w"
    and "Q w" and "for_each (walk n) qs w = Some (r, w2)"
  shows "r = SRD_OK \<and> Q w2 \<and> kids w2 = kids w"
  using assms(2,3)
proof (induction qs arbitrary: w)
  case (Cons c qs)
  then obtain r1 w1 where c: "walk n c w = Some (r1, w1)" by (auto split: option.splits)
  with assms(1) [OF Cons.prems(1) c] have "r1 = SRD_OK" "Q w1" "kids w1 = kids w" by simp_all
  with Cons.IH [of w1] Cons.prems(2) c show ?case by simp
qed simp

lemma for_each_each:
  assumes keep: "\<And>p w r w'. Q w \<Longrightarrow> walk n p w = Some (r, w') \<Longrightarrow> r = SRD_OK \<and> Q w' \<and> kids w' = kids w"
    and "Q w" and "for_each (walk n) qs w = Some y" and "q \<in> set qs"
  shows "\<exists>v y. walk n q v = Some y \<and> Q v \<and> kids v = kids w"
  using assms(2-4)
proof (induction qs arbitrary: w)
  case (Cons c qs)
  then obtain r w1 where c: "walk n c w = Some (r, w1)" by (auto split: option.splits)
  with keep [OF Cons.prems(1) c] have k: "r = SRD_OK" "Q w1" "kids w1 = kids w" by simp_all
  have rest: "for_each (walk n) qs w1 = Some y" using Cons.prems(2) c k by simp
  show ?case
  proof (cases "q = c")
    case True
    with c Cons.prems(1) show ?thesis by blast
  next
    case False
    with Cons.IH [OF k(2) rest] Cons.prems(3) k show ?thesis by simp
  qed
qed simp

lemma walk_keeps:
  assumes keep: "\<And>p w r w'. Q w \<Longrightarrow> visit p w = (r, w') \<Longrightarrow> r = SRD_OK \<and> Q w' \<and> kids w' = kids w"
    and res: "\<And>p w. Q w \<Longrightarrow> result p w = SRD_OK"
  shows "Q w \<Longrightarrow> walk n p w = Some (r, w') \<Longrightarrow> r = SRD_OK \<and> Q w' \<and> kids w' = kids w"
proof (induction n arbitrary: p w r w')
  case (Suc n)
  obtain r1 w1 where v: "visit p w = (r1, w1)" by fastforce
  with keep [OF Suc.prems(1) v] have k: "r1 = SRD_OK" "Q w1" "kids w1 = kids w" by simp_all
  from Suc.prems(2) v k obtain r2 w2 where f: "for_each (walk n) (kids w1 p) w1 = Some (r2, w2)"
    by (auto simp: walk_Suc split: option.splits)
  have "r2 = SRD_OK \<and> Q w2 \<and> kids w2 = kids w1"
    by (rule for_each_keeps [where Q = Q, OF _ k(2) f]) (rule Suc.IH)
  with Suc.prems(2) v k f res show ?case by (auto simp: walk_Suc)
qed (simp add: walk_0)

lemma path_bound:
  assumes keep: "\<And>p w r w'. Q w \<Longrightarrow> visit p w = (r, w') \<Longrightarrow> r = SRD_OK \<and> Q w' \<and> kids w' = kids w"
    and res: "\<And>p w. Q w \<Longrightarrow> result p w = SRD_OK"
  shows "Q w \<Longrightarrow> (p, q) \<in> stacked (kids w) ^^ m \<Longrightarrow> walk n p w = Some y \<Longrightarrow> m < n"
proof (induction n arbitrary: p w m y)
  case (Suc n)
  show ?case
  proof (cases m)
    case (Suc m')
    then obtain c where c: "c \<in> set (kids w p)" "(c, q) \<in> stacked (kids w) ^^ m'"
      using relpow_Suc_D2 [of p q m' "stacked (kids w)"] Suc.prems(2) by (auto simp: stacked_def)
    obtain r1 w1 where v: "visit p w = (r1, w1)" by fastforce
    with keep [OF Suc.prems(1) v] have k: "r1 = SRD_OK" "Q w1" "kids w1 = kids w" by simp_all
    from Suc.prems(3) v k obtain y' where f: "for_each (walk n) (kids w1 p) w1 = Some y'"
      by (auto simp: walk_Suc split: option.splits)
    have "c \<in> set (kids w1 p)" using c(1) k by simp
    have "\<exists>v y. walk n c v = Some y \<and> Q v \<and> kids v = kids w1"
      by (rule for_each_each [where Q = Q, OF _ k(2) f \<open>c \<in> set (kids w1 p)\<close>]) (rule walk_keeps [where Q = Q], rule keep, simp_all add: res)
    then obtain v' y' where w: "walk n c v' = Some y'" "Q v'" "kids v' = kids w" using k by auto
    have "(c, q) \<in> stacked (kids v') ^^ m'" using c(2) w(3) by simp
    with Suc.IH w have "m' < n" by metis
    with Suc show ?thesis by simp
  qed simp
qed (simp add: walk_0)

lemma walk_cycle:
  assumes keep: "\<And>p w r w'. Q w \<Longrightarrow> visit p w = (r, w') \<Longrightarrow> r = SRD_OK \<and> Q w' \<and> kids w' = kids w"
    and res: "\<And>p w. Q w \<Longrightarrow> result p w = SRD_OK"
    and "Q w" and cycle: "(p, p) \<in> (stacked (kids w))\<^sup>+"
  shows "walk n p w = None"
proof (rule ccontr)
  assume "walk n p w \<noteq> None"
  then obtain y where y: "walk n p w = Some y" by blast
  obtain k where k: "0 < k" "(p, p) \<in> stacked (kids w) ^^ k"
    using cycle by (auto simp: trancl_power)
  have far: "(p, p) \<in> stacked (kids w) ^^ (k * j)" for j
  proof (induction j)
    case (Suc j)
    have "k * Suc j = k * j + k" by simp
    then show ?case using Suc k(2) by (auto simp: relpow_add)
  qed simp
  have "k * n < n"
    by (rule path_bound [where Q = Q, OF _ _ \<open>Q w\<close> far y], rule keep, simp_all add: res)
  with k(1) show False by simp
qed

end

end
