(* ===== verification/Registry.thy ===== *)
theory Registry
  imports DecTypes "HOL-Library.Multiset"
begin

text \<open>
  decoder.c and dll_registry.c without the Python loader: the list of loaded decoders, the
  registration of C decoders, the search paths, and the registry of loaded libraries with
  their states. The dynamic linker is a parameter.
\<close>

section \<open>Duplicate checks\<close>

fun contains_duplicates :: "string list \<Rightarrow> bool" where
  "contains_duplicates [] = False"
| "contains_duplicates (x # xs) = (if x \<in> set xs then True else contains_duplicates xs)"

text \<open>The four checks on structures count each id in the whole list.\<close>

definition count_ids :: "('a \<Rightarrow> string option) \<Rightarrow> 'a list \<Rightarrow> 'a \<Rightarrow> nat" where
  "count_ids ident xs x = length (filter (\<lambda>y. ident x = ident y) xs)"

definition contains_duplicate_channel_ids :: "srd_channel list \<Rightarrow> bool" where
  "contains_duplicate_channel_ids xs \<longleftrightarrow> list_ex (\<lambda>c. 1 < count_ids ch_id xs c) xs"

definition contains_duplicate_channel_ids_cross :: "srd_channel list \<Rightarrow> srd_channel list \<Rightarrow> bool" where
  "contains_duplicate_channel_ids_cross xs ys \<longleftrightarrow> list_ex (\<lambda>c. list_ex (\<lambda>d. ch_id c = ch_id d) ys) xs"

definition contains_duplicate_option_ids :: "srd_decoder_option list \<Rightarrow> bool" where
  "contains_duplicate_option_ids xs \<longleftrightarrow> list_ex (\<lambda>c. 1 < count_ids opt_id xs c) xs"

definition contains_duplicate_row_ids :: "srd_decoder_annotation_row list \<Rightarrow> bool" where
  "contains_duplicate_row_ids xs \<longleftrightarrow>
     list_ex (\<lambda>c. 1 < count_ids (\<lambda>r. Some (row_id r)) xs c) xs"

text \<open>The validation at the end of \<open>srd_decoder_load\<close>: what it fails with, if anything.\<close>

definition duplicate_check :: "srd_decoder \<Rightarrow> string option" where
  "duplicate_check d =
     (if contains_duplicates (dec_inputs d) then Some ''duplicate input IDs''
      else if contains_duplicates (dec_outputs d) then Some ''duplicate output IDs''
      else if contains_duplicates (dec_tags d) then Some ''duplicate tags''
      else if contains_duplicate_channel_ids (dec_channels d) then Some ''duplicate channel IDs''
      else if contains_duplicate_channel_ids (dec_opt_channels d)
        then Some ''duplicate optional channel IDs''
      else if contains_duplicate_channel_ids_cross (dec_channels d) (dec_opt_channels d)
        then Some ''channel and optional channel IDs contain duplicates''
      else if contains_duplicate_option_ids (dec_options d) then Some ''duplicate option IDs''
      else if contains_duplicate_row_ids (dec_annotation_rows d)
        then Some ''duplicate annotation row IDs''
      else None)"

section \<open>The list of decoders\<close>

definition srd_check_init :: "'p srd_world \<Rightarrow> bool" where
  "srd_check_init w \<longleftrightarrow> 0 \<le> w_max_session_id w"

definition srd_decoder_list :: "'p srd_world \<Rightarrow> srd_decoder list" where
  "srd_decoder_list w = w_pd_list w"

definition srd_decoder_get_by_id :: "string \<Rightarrow> 'p srd_world \<Rightarrow> srd_decoder option" where
  "srd_decoder_get_by_id k w = find (\<lambda>d. dec_id d = k) (w_pd_list w)"

text \<open>C's \<open>atoi\<close>: white space, a sign, digits.\<close>

definition is_digit :: "char \<Rightarrow> bool" where
  "is_digit c \<longleftrightarrow> 48 \<le> (of_char c :: nat) \<and> (of_char c :: nat) \<le> 57"

definition is_space :: "char \<Rightarrow> bool" where
  "is_space c \<longleftrightarrow> (of_char c :: nat) = 32 \<or> 9 \<le> (of_char c :: nat) \<and> (of_char c :: nat) \<le> 13"

definition digits_value :: "string \<Rightarrow> int" where
  "digits_value s = foldl (\<lambda>a c. a * 10 + (of_char c - 48)) 0 (takeWhile is_digit s)"

definition atoi :: "string \<Rightarrow> int" where
  "atoi s = (case dropWhile is_space s of
      [] \<Rightarrow> 0
    | c # cs \<Rightarrow> if c = CHR ''-'' then - digits_value cs
                else if c = CHR ''+'' then digits_value cs else digits_value (c # cs))"

text \<open>The type of annotation class \<open>i\<close>: a positive number in the first label, or \<open>i + 7\<close>.\<close>

definition c_ann_type :: "nat \<Rightarrow> string option \<Rightarrow> int" where
  "c_ann_type i lbl = (case lbl of
      None \<Rightarrow> int i + 7
    | Some s \<Rightarrow> if s \<noteq> [] \<and> 0 < atoi s then atoi s else int i + 7)"

text \<open>
  \<open>if (n > 0 && array)\<close> and then a loop over \<open>n\<close> elements; the C code relies on the array
  being at least that long.
\<close>

definition counted :: "int \<Rightarrow> 'a list option \<Rightarrow> 'a list" where
  "counted n xs = (case xs of None \<Rightarrow> [] | Some l \<Rightarrow> if 0 < n then take (nat n) l else [])"

definition str_or :: "string \<Rightarrow> string option \<Rightarrow> string" where
  "str_or deflt s = (case s of None \<Rightarrow> deflt | Some t \<Rightarrow> t)"

definition or_else :: "'a option \<Rightarrow> 'a option \<Rightarrow> 'a option" where
  "or_else a b = (case a of None \<Rightarrow> b | Some x \<Rightarrow> Some x)"

definition row_of_c :: "srd_c_ann_row \<Rightarrow> srd_decoder_annotation_row" where
  "row_of_c r = \<lparr>row_id = str_or [] (car_id r), row_desc = str_or [] (car_desc r),
     row_ann_classes = counted (car_num_ann_classes r) (car_ann_classes r)\<rparr>"

definition decoder_of_c :: "srd_c_decoder \<Rightarrow> string \<Rightarrow> srd_decoder" where
  "decoder_of_c dec k =
     (let labels = counted (cd_num_annotations dec) (cd_ann_labels dec)
      in \<lparr>dec_id = k,
          dec_name = Some (str_or k (cd_name dec)),
          dec_longname = or_else (cd_longname dec) (cd_name dec),
          dec_desc = Some (str_or [] (cd_desc dec)),
          dec_license = Some (str_or ''gplv2+'' (cd_license dec)),
          dec_inputs = counted (cd_num_inputs dec) (cd_inputs dec),
          dec_outputs = counted (cd_num_outputs dec) (cd_outputs dec),
          dec_tags = counted (cd_num_tags dec) (cd_tags dec),
          dec_channels = counted (cd_num_channels dec) (cd_channels dec),
          dec_opt_channels = counted (cd_num_optional_channels dec) (cd_optional_channels dec),
          dec_annotations = map (\<lambda>(_, a, b). [a, b]) labels,
          dec_ann_types = map (\<lambda>i. c_ann_type i (fst (labels ! i))) [0..<length labels],
          dec_annotation_rows =
            map row_of_c (counted (cd_num_annotation_rows dec) (cd_annotation_rows dec)),
          dec_binary = map (\<lambda>b. (str_or [] (bin_id b), str_or [] (bin_desc b)))
            (counted (cd_num_binary dec) (cd_binary dec)),
          dec_options = counted (cd_num_options dec) (cd_options dec),
          is_c_decoder = True,
          dec_c_dec = Some dec\<rparr>)"

definition srd_c_decoder_register ::
    "srd_c_decoder option \<Rightarrow> 'p srd_world \<Rightarrow> srd_error_code \<times> 'p srd_world" where
  "srd_c_decoder_register dec w = (case dec of None \<Rightarrow> (SRD_ERR_ARG, w)
     | Some d \<Rightarrow> (case cd_id d of None \<Rightarrow> (SRD_ERR_ARG, w)
       | Some k \<Rightarrow> (SRD_OK, w\<lparr>w_pd_list := w_pd_list w @ [decoder_of_c d k]\<rparr>)))"

section \<open>Search paths\<close>

definition srd_c_decoder_path_set :: "string option \<Rightarrow> 'p srd_world \<Rightarrow> srd_error_code \<times> 'p srd_world" where
  "srd_c_decoder_path_set path w =
     (SRD_OK, w\<lparr>w_c_decoder_paths := (case path of None \<Rightarrow> [] | Some p \<Rightarrow> [p])\<rparr>)"

definition srd_c_decoder_path_add :: "string option \<Rightarrow> 'p srd_world \<Rightarrow> srd_error_code \<times> 'p srd_world" where
  "srd_c_decoder_path_add path w = (case path of None \<Rightarrow> (SRD_ERR_ARG, w)
     | Some p \<Rightarrow> if p \<in> set (w_c_decoder_paths w) then (SRD_OK, w)
         else (SRD_OK, w\<lparr>w_c_decoder_paths := w_c_decoder_paths w @ [p]\<rparr>))"

definition srd_c_decoder_paths_clear :: "'p srd_world \<Rightarrow> 'p srd_world" where
  "srd_c_decoder_paths_clear w = w\<lparr>w_c_decoder_paths := []\<rparr>"

section \<open>The registry of loaded libraries\<close>

definition srd_c_dll_registry_find_by_path :: "srd_c_dll_entry list \<Rightarrow> string \<Rightarrow> srd_c_dll_entry option" where
  "srd_c_dll_registry_find_by_path reg path = find (\<lambda>e. file_path e = path) reg"

definition srd_c_dll_registry_find_by_id :: "srd_c_dll_entry list \<Rightarrow> string \<Rightarrow> srd_c_dll_entry option" where
  "srd_c_dll_registry_find_by_id reg k = find (\<lambda>e. decoder_id e = Some k) reg"

definition srd_c_dll_registry_add :: "srd_c_dll_entry \<Rightarrow> srd_c_dll_entry list \<Rightarrow> srd_c_dll_entry list" where
  "srd_c_dll_registry_add e reg =
     (if srd_c_dll_registry_find_by_path reg (file_path e) \<noteq> None then reg else reg @ [e])"

fun srd_c_dll_registry_remove ::
    "string \<Rightarrow> srd_c_dll_entry list \<Rightarrow> srd_error_code \<times> srd_c_dll_entry list" where
  "srd_c_dll_registry_remove k [] = (SRD_ERR_ARG, [])"
| "srd_c_dll_registry_remove k (e # es) =
     (if decoder_id e = Some k then (SRD_OK, es)
      else let (r, es') = srd_c_dll_registry_remove k es in (r, e # es'))"

definition srd_c_dll_registry_count :: "srd_c_dll_entry list \<Rightarrow> nat" where
  "srd_c_dll_registry_count reg = length reg"

text \<open>
  The dynamic linker: opening a file, and for a handle the two symbols a decoder library
  has, the version function's value and the entry function's result (NULL is None).
\<close>

record dl_environ =
  dlopen :: "string \<Rightarrow> nat option"
  dlsym_version :: "nat \<Rightarrow> int option"
  dlsym_entry :: "nat \<Rightarrow> srd_c_decoder option option"

datatype dl_call = Dl_open string nat | Dl_close nat

text \<open>The cleanup closes the handles of all loaded entries; the calls are returned.\<close>

definition srd_c_dll_registry_cleanup :: "srd_c_dll_entry list \<Rightarrow> dl_call list \<times> srd_c_dll_entry list" where
  "srd_c_dll_registry_cleanup reg =
     (concat (map (\<lambda>e. case dll_handle e of
          Some h \<Rightarrow> if dll_status e = SRD_C_DLL_LOADED then [Dl_close h] else []
        | None \<Rightarrow> []) reg), [])"

definition SRD_C_DECODER_API_VERSION :: int where "SRD_C_DECODER_API_VERSION = 4"
definition SRD_C_DECODER_API_MIN_VERSION :: int where "SRD_C_DECODER_API_MIN_VERSION = 4"

definition srd_c_decoder_check_version :: "int \<Rightarrow> srd_error_code" where
  "srd_c_decoder_check_version v =
     (if v = SRD_C_DECODER_API_VERSION then SRD_OK
      else if SRD_C_DECODER_API_MIN_VERSION \<le> v \<and> v < SRD_C_DECODER_API_VERSION then SRD_OK
      else SRD_ERR)"

definition dll_entry ::
    "string \<Rightarrow> nat option \<Rightarrow> int \<Rightarrow> srd_c_dll_status \<Rightarrow> string option \<Rightarrow> srd_c_decoder option \<Rightarrow>
     srd_c_dll_entry" where
  "dll_entry path h v st k dec = \<lparr>file_path = path, dll_handle = h, api_version = v,
     dll_status = st, decoder_id = k, dll_c_dec = dec\<rparr>"

definition reg_add :: "srd_c_dll_entry \<Rightarrow> 'p srd_world \<Rightarrow> 'p srd_world" where
  "reg_add e w = w\<lparr>w_dll := srd_c_dll_registry_add e (w_dll w)\<rparr>"

definition srd_c_decoder_load_single ::
    "dl_environ \<Rightarrow> string \<Rightarrow> 'p srd_world \<Rightarrow> srd_error_code \<times> dl_call list \<times> 'p srd_world" where
  "srd_c_decoder_load_single dl path w =
     (if srd_c_dll_registry_find_by_path (w_dll w) path \<noteq> None then (SRD_OK, [], w)
      else case dlopen dl path of
        None \<Rightarrow> (SRD_ERR, [], reg_add (dll_entry path None 0 SRD_C_DLL_LOAD_FAILED None None) w)
      | Some h \<Rightarrow> (case dlsym_entry dl h of
          None \<Rightarrow> (SRD_ERR, [Dl_open path h, Dl_close h],
              reg_add (dll_entry path None 0 SRD_C_DLL_ENTRY_MISSING None None) w)
        | Some entry \<Rightarrow>
            (let v = (case dlsym_version dl h of None \<Rightarrow> 0 | Some n \<Rightarrow> n)
             in if srd_c_decoder_check_version v \<noteq> SRD_OK
                then (SRD_ERR, [Dl_open path h, Dl_close h],
                  reg_add (dll_entry path None v SRD_C_DLL_VERSION_MISMATCH None None) w)
                else (case entry of
                    None \<Rightarrow> (SRD_ERR, [Dl_open path h, Dl_close h], w)
                  | Some dec \<Rightarrow> (SRD_OK, [Dl_open path h],
                      reg_add (dll_entry path (Some h) v SRD_C_DLL_LOADED (cd_id dec) (Some dec))
                        (snd (srd_c_decoder_register (Some dec) w)))))))"

text \<open>\<open>is_absolute\<close> is GLib's \<open>g_path_is_absolute\<close>.\<close>

definition srd_c_decoder_load ::
    "(string \<Rightarrow> bool) \<Rightarrow> dl_environ \<Rightarrow> string option \<Rightarrow> 'p srd_world \<Rightarrow>
     srd_error_code \<times> dl_call list \<times> 'p srd_world" where
  "srd_c_decoder_load is_absolute dl dll_path w = (case dll_path of
      None \<Rightarrow> (SRD_ERR_ARG, [], w)
    | Some p \<Rightarrow> if \<not> is_absolute p then (SRD_ERR_ARG, [], w) else srd_c_decoder_load_single dl p w)"

text \<open>The check for instances in use: those of any session whose \<open>decoder_state\<close> is not 0.\<close>

definition inst_blocks_unload :: "'p srd_world \<Rightarrow> string \<Rightarrow> inst_ptr \<Rightarrow> bool" where
  "inst_blocks_unload w k p = (case inst_at w p of None \<Rightarrow> False
     | Some di \<Rightarrow> is_c_inst di \<and> (case c_dec_inst di of None \<Rightarrow> False | Some d \<Rightarrow> cd_id d = Some k)
         \<and> decoder_state di \<noteq> SRD_OK)"

definition unload_blocked :: "'p srd_world \<Rightarrow> string \<Rightarrow> bool" where
  "unload_blocked w k \<longleftrightarrow> list_ex (\<lambda>s. case w_sess w s of None \<Rightarrow> False
     | Some se \<Rightarrow> list_ex (inst_blocks_unload w k) (di_list se)) (w_sessions w)"

definition c_decoder_named :: "string \<Rightarrow> srd_decoder \<Rightarrow> bool" where
  "c_decoder_named k d \<longleftrightarrow> is_c_decoder d \<and>
     (case dec_c_dec d of None \<Rightarrow> False | Some c \<Rightarrow> cd_id c = Some k)"

fun remove_first :: "('a \<Rightarrow> bool) \<Rightarrow> 'a list \<Rightarrow> 'a list" where
  "remove_first f [] = []"
| "remove_first f (x # xs) = (if f x then xs else x # remove_first f xs)"

definition srd_c_decoder_unload ::
    "string option \<Rightarrow> 'p srd_world \<Rightarrow> srd_error_code \<times> dl_call list \<times> 'p srd_world" where
  "srd_c_decoder_unload decoder w = (case decoder of
      None \<Rightarrow> (SRD_ERR_ARG, [], w)
    | Some k \<Rightarrow> (case srd_c_dll_registry_find_by_id (w_dll w) k of
        None \<Rightarrow> (SRD_ERR_ARG, [], w)
      | Some e \<Rightarrow> (case dll_handle e of
          None \<Rightarrow> (SRD_ERR_ARG, [], w)
        | Some h \<Rightarrow>
            if dll_status e \<noteq> SRD_C_DLL_LOADED then (SRD_ERR_ARG, [], w)
            else if unload_blocked w k then (SRD_ERR_ARG, [], w)
            else (SRD_OK, [Dl_close h],
              w\<lparr>w_pd_list := remove_first (c_decoder_named k) (w_pd_list w),
                w_dll := snd (srd_c_dll_registry_remove k (w_dll w))\<rparr>))))"

definition srd_c_dll_info_get :: "string \<Rightarrow> 'p srd_world \<Rightarrow> srd_c_dll_entry option" where
  "srd_c_dll_info_get k w = srd_c_dll_registry_find_by_id (w_dll w) k"

text \<open>
  Loading everything: the directories, configured ones first, then \<open>c_decoders\<close> below
  every search path; \<open>read_dir\<close> gives a directory's files, or None if it cannot be opened.
\<close>

fun run_loads :: "dl_environ \<Rightarrow> string list \<Rightarrow> 'p srd_world \<Rightarrow> dl_call list \<times> 'p srd_world" where
  "run_loads dl [] w = ([], w)"
| "run_loads dl (p # ps) w =
     (let (_, calls, w1) = srd_c_decoder_load_single dl p w; (calls', w2) = run_loads dl ps w1
      in (calls @ calls', w2))"

definition has_so_ext :: "string \<Rightarrow> bool" where
  "has_so_ext name \<longleftrightarrow> CHR ''.'' \<in> set name
     \<and> rev (takeWhile (\<lambda>c. c \<noteq> CHR ''.'') (rev name)) = ''so''"

definition srd_c_decoder_load_all ::
    "(string \<Rightarrow> string \<Rightarrow> string) \<Rightarrow> (string \<Rightarrow> string list option) \<Rightarrow> dl_environ \<Rightarrow> 'p srd_world \<Rightarrow>
     srd_error_code \<times> dl_call list \<times> 'p srd_world" where
  "srd_c_decoder_load_all g_build_filename read_dir dl w =
     (let dirs = w_c_decoder_paths w @ map (\<lambda>b. g_build_filename b ''c_decoders'') (w_searchpaths w);
          files = concat (map (\<lambda>d. case read_dir d of None \<Rightarrow> []
            | Some names \<Rightarrow> map (g_build_filename d) (filter has_so_ext names)) dirs);
          (calls, w') = run_loads dl files w
      in (SRD_OK, calls, w'))"

section \<open>The duplicate checks are right\<close>

lemma contains_duplicates_distinct: "contains_duplicates xs \<longleftrightarrow> \<not> distinct xs"
  by (induction xs) auto

lemma count_ids_Cons:
  "count_ids ident (y # xs) x = (if ident x = ident y then Suc (count_ids ident xs x) else count_ids ident xs x)"
  by (simp add: count_ids_def)

lemma count_ids_pos: "0 < count_ids ident xs x \<longleftrightarrow> ident x \<in> ident ` set xs"
  by (induction xs) (auto simp: count_ids_def)

lemma count_ids_distinct: "list_ex (\<lambda>x. 1 < count_ids ident xs x) xs \<longleftrightarrow> \<not> distinct (map ident xs)"
proof (induction xs)
  case (Cons y xs)
  have "1 < count_ids ident (y # xs) y \<longleftrightarrow> ident y \<in> ident ` set xs"
    using count_ids_pos [of ident xs y] by (simp add: count_ids_Cons)
  moreover have "list_ex (\<lambda>x. 1 < count_ids ident (y # xs) x) xs \<longleftrightarrow>
      list_ex (\<lambda>x. 1 < count_ids ident xs x) xs \<or> ident y \<in> ident ` set xs"
  proof
    assume "list_ex (\<lambda>x. 1 < count_ids ident (y # xs) x) xs"
    then obtain x where x: "x \<in> set xs" "1 < count_ids ident (y # xs) x" by (auto simp: list_ex_iff)
    show "list_ex (\<lambda>x. 1 < count_ids ident xs x) xs \<or> ident y \<in> ident ` set xs"
    proof (cases "ident x = ident y")
      case True
      with x(1) show ?thesis by (metis image_eqI)
    qed (use x in \<open>auto simp: list_ex_iff count_ids_Cons\<close>)
  next
    assume "list_ex (\<lambda>x. 1 < count_ids ident xs x) xs \<or> ident y \<in> ident ` set xs"
    then show "list_ex (\<lambda>x. 1 < count_ids ident (y # xs) x) xs"
    proof
      assume "ident y \<in> ident ` set xs"
      then obtain x where x: "x \<in> set xs" "ident x = ident y" by auto
      have "ident x \<in> ident ` set xs" using x(1) by (rule imageI)
      then have "0 < count_ids ident xs x" unfolding count_ids_pos .
      then have "1 < count_ids ident (y # xs) x" using x(2) by (simp add: count_ids_Cons)
      with x(1) show ?thesis by (auto simp: list_ex_iff)
    qed (force simp: list_ex_iff count_ids_Cons)
  qed
  ultimately show ?case using Cons.IH by auto
qed (simp add: count_ids_def)

lemma cross_disjoint:
  "contains_duplicate_channel_ids_cross xs ys \<longleftrightarrow> ch_id ` set xs \<inter> ch_id ` set ys \<noteq> {}"
  by (auto simp: contains_duplicate_channel_ids_cross_def list_ex_iff)

lemma duplicate_check_distinct:
  "duplicate_check d = None \<longleftrightarrow>
     distinct (dec_inputs d) \<and> distinct (dec_outputs d) \<and> distinct (dec_tags d)
     \<and> distinct (map ch_id (dec_channels d @ dec_opt_channels d))
     \<and> distinct (map opt_id (dec_options d))
     \<and> distinct (map row_id (dec_annotation_rows d))"
proof -
  have rows: "distinct (map (\<lambda>r. Some (row_id r)) rs) = distinct (map row_id rs)" for rs
    by (simp add: distinct_map inj_on_def)
  show ?thesis
    unfolding duplicate_check_def contains_duplicates_distinct contains_duplicate_channel_ids_def
      contains_duplicate_option_ids_def contains_duplicate_row_ids_def count_ids_distinct cross_disjoint rows
    by simp
qed

text \<open>
  A decoder passes the validation exactly when its inputs, outputs and tags are distinct,
  no two of its channels (required or optional) share an id, and neither do two options or
  two annotation rows.
\<close>

theorem duplicate_check_sound:
  "duplicate_check d = None \<longleftrightarrow>
     distinct (dec_inputs d) \<and> distinct (dec_outputs d) \<and> distinct (dec_tags d)
     \<and> distinct (map ch_id (dec_channels d @ dec_opt_channels d))
     \<and> distinct (map opt_id (dec_options d))
     \<and> distinct (map row_id (dec_annotation_rows d))"
  by (rule duplicate_check_distinct)

section \<open>Tables with one entry per key\<close>

text \<open>
  What the loader relies on: adding an entry under a new key makes it found there, adding
  under a known key changes nothing, and other keys are not affected.
\<close>

locale keyed_table =
  fixes add :: "'e \<Rightarrow> 't \<Rightarrow> 't" and look :: "'t \<Rightarrow> string \<Rightarrow> 'e option" and key :: "'e \<Rightarrow> string"
  assumes look_add_new: "look t (key e) = None \<Longrightarrow> look (add e t) (key e) = Some e"
    and add_known: "look t (key e) \<noteq> None \<Longrightarrow> add e t = t"
    and look_add_other: "k \<noteq> key e \<Longrightarrow> look (add e t) k = look t k"
begin

lemma look_add: "look (add e t) k = (if k = key e \<and> look t k = None then Some e else look t k)"
  using look_add_new look_add_other add_known by (cases "look t (key e)") auto

text \<open>Of several entries under one key, the first one added stays.\<close>

lemma first_wins:
  "look (fold add es t) k = (case look t k of Some x \<Rightarrow> Some x | None \<Rightarrow> find (\<lambda>e. key e = k) es)"
proof (induction es arbitrary: t)
  case (Cons e es)
  then show ?case by (auto simp: look_add split: option.split)
qed (simp split: option.split)

lemma add_twice: "add e (add e t) = add e t"
  by (cases "look t (key e)") (simp_all add: add_known look_add_new)

end

lemma find_append: "find f (xs @ ys) = (case find f xs of None \<Rightarrow> find f ys | Some x \<Rightarrow> Some x)"
  by (induction xs) auto

interpretation dll: keyed_table srd_c_dll_registry_add srd_c_dll_registry_find_by_path file_path
  by unfold_locales
    (auto simp: srd_c_dll_registry_add_def srd_c_dll_registry_find_by_path_def find_append
      split: option.splits)

text \<open>The search path list is such a table too, of the paths themselves.\<close>

definition path_listed :: "string list \<Rightarrow> string \<Rightarrow> string option" where
  "path_listed ps p = (if p \<in> set ps then Some p else None)"

definition path_append :: "string \<Rightarrow> string list \<Rightarrow> string list" where
  "path_append p ps = (if p \<in> set ps then ps else ps @ [p])"

lemma path_add_append:
  "srd_c_decoder_path_add (Some p) w = (SRD_OK, w\<lparr>w_c_decoder_paths := path_append p (w_c_decoder_paths w)\<rparr>)"
  by (simp add: srd_c_decoder_path_add_def path_append_def)

interpretation paths: keyed_table path_append path_listed id
  by unfold_locales (auto simp: path_append_def path_listed_def split: if_splits)

section \<open>Loading\<close>

lemma check_version: "srd_c_decoder_check_version v = SRD_OK \<longleftrightarrow> v = 4"
  by (auto simp: srd_c_decoder_check_version_def SRD_C_DECODER_API_VERSION_def
      SRD_C_DECODER_API_MIN_VERSION_def)

lemma dll_entry_fields [simp]:
  "file_path (dll_entry path h v st k dec) = path" "dll_handle (dll_entry path h v st k dec) = h"
  "dll_status (dll_entry path h v st k dec) = st" "decoder_id (dll_entry path h v st k dec) = k"
  "dll_c_dec (dll_entry path h v st k dec) = dec"
  by (simp_all add: dll_entry_def)

lemma register_dll [simp]: "w_dll (snd (srd_c_decoder_register d w)) = w_dll w"
  by (simp add: srd_c_decoder_register_def split: option.split)

lemma reg_add_fields [simp]:
  "w_dll (reg_add e w) = srd_c_dll_registry_add e (w_dll w)" "w_pd_list (reg_add e w) = w_pd_list w"
  by (simp_all add: reg_add_def)

text \<open>
  Every file that was tried stays in the registry, except one whose library is accepted but
  whose entry function returns NULL.
\<close>

definition registered :: "'p srd_world \<Rightarrow> string \<Rightarrow> bool" where
  "registered w q \<longleftrightarrow> srd_c_dll_registry_find_by_path (w_dll w) q \<noteq> None"

definition entry_is_null :: "dl_environ \<Rightarrow> string \<Rightarrow> bool" where
  "entry_is_null dl q \<longleftrightarrow> (\<exists>h. dlopen dl q = Some h \<and> dlsym_entry dl h = Some None \<and> dlsym_version dl h = Some 4)"

fun opens :: "string \<Rightarrow> dl_call list \<Rightarrow> nat" where
  "opens q [] = 0"
| "opens q (Dl_open p h # cs) = (if p = q then 1 else 0) + opens q cs"
| "opens q (Dl_close h # cs) = opens q cs"

lemma opens_append [simp]: "opens q (cs @ cs') = opens q cs + opens q cs'"
  by (induction q cs rule: opens.induct) auto

lemma registered_add: "registered (reg_add e w) q \<longleftrightarrow> q = file_path e \<or> registered w q"
  using dll.look_add [of e "w_dll w" q] by (auto simp: registered_def)

lemma registered_register [simp]: "registered (snd (srd_c_decoder_register d w)) q = registered w q"
  by (simp add: registered_def)

lemma load_single_known: "registered w p \<Longrightarrow> srd_c_decoder_load_single dl p w = (SRD_OK, [], w)"
  by (simp add: srd_c_decoder_load_single_def registered_def)

lemma load_single_registered:
  "registered (snd (snd (srd_c_decoder_load_single dl p w))) q \<longleftrightarrow>
     registered w q \<or> q = p \<and> \<not> entry_is_null dl p"
proof (cases "registered w p")
  case False
  then have "srd_c_dll_registry_find_by_path (w_dll w) p = None" by (simp add: registered_def)
  then show ?thesis
    by (auto simp: srd_c_decoder_load_single_def Let_def registered_add entry_is_null_def check_version
        split: option.splits)
qed (auto simp: load_single_known)

lemma load_single_opens:
  "opens q (fst (snd (srd_c_decoder_load_single dl p w))) =
     (if q = p \<and> \<not> registered w p \<and> dlopen dl p \<noteq> None then 1 else 0)"
proof (cases "registered w p")
  case False
  then have "srd_c_dll_registry_find_by_path (w_dll w) p = None" by (simp add: registered_def)
  with False show ?thesis by (auto simp: srd_c_decoder_load_single_def Let_def split: option.splits)
qed (auto simp: load_single_known)

lemma run_loads_registered:
  "registered (snd (run_loads dl ps w)) q \<longleftrightarrow> registered w q \<or> q \<in> set ps \<and> \<not> entry_is_null dl q"
proof (induction ps arbitrary: w)
  case (Cons p ps)
  then show ?case using load_single_registered [of dl p w q] by (auto simp: split_beta Let_def)
qed simp

lemma run_loads_opens:
  "opens q (fst (run_loads dl ps w)) =
     (if registered w q \<or> dlopen dl q = None \<or> q \<notin> set ps then 0
      else if entry_is_null dl q then count_list ps q else 1)"
proof (induction ps arbitrary: w)
  case (Cons p ps)
  have "opens q (fst (run_loads dl (p # ps) w)) =
      opens q (fst (snd (srd_c_decoder_load_single dl p w)))
    + opens q (fst (run_loads dl ps (snd (snd (srd_c_decoder_load_single dl p w)))))"
    by (simp add: split_beta Let_def)
  also have "\<dots> = (if registered w q \<or> dlopen dl q = None \<or> q \<notin> set (p # ps) then 0
      else if entry_is_null dl q then count_list (p # ps) q else 1)"
    unfolding Cons.IH load_single_opens load_single_registered by (auto simp: count_list_0_iff)
  finally show ?case .
qed simp

lemma run_loads_known: "\<forall>q \<in> set qs. registered w q \<Longrightarrow> run_loads dl qs w = ([], w)"
  by (induction qs) (simp_all add: load_single_known)

text \<open>
  C14: Loading a list of files, with repetitions, opens each file at most once, and not at
  all if the registry has it or the linker refuses it; only a file whose entry function returns NULL
  leaves no entry and is opened again each time it is named. So loading files a second time,
  in any order, makes no call to the linker and changes nothing at all: no decoder is
  registered twice.
\<close>

theorem load_all_loads_each_once:
  assumes "run_loads dl ps w = (calls, w1)"
    and "\<forall>q \<in> set qs. q \<in> set ps \<and> \<not> entry_is_null dl q"
  shows "run_loads dl qs w1 = ([], w1)
    \<and> opens q calls = (if registered w q \<or> dlopen dl q = None \<or> q \<notin> set ps then 0
         else if entry_is_null dl q then count_list ps q else 1)"
proof
  have "registered w1 q" if "q \<in> set qs" for q
    using run_loads_registered [of dl ps w q] assms that by simp
  then show "run_loads dl qs w1 = ([], w1)" by (simp add: run_loads_known)
  show "opens q calls = (if registered w q \<or> dlopen dl q = None \<or> q \<notin> set ps then 0
         else if entry_is_null dl q then count_list ps q else 1)"
    using run_loads_opens [of q dl ps w] assms(1) by simp
qed

section \<open>Loading and unloading keep the books\<close>

definition handles :: "srd_c_dll_entry list \<Rightarrow> nat multiset" where
  "handles reg = mset (List.map_filter dll_handle reg)"

fun handles_opened :: "dl_call list \<Rightarrow> nat multiset" where
  "handles_opened [] = {#}"
| "handles_opened (Dl_open _ h # cs) = add_mset h (handles_opened cs)"
| "handles_opened (Dl_close _ # cs) = handles_opened cs"

fun handles_closed :: "dl_call list \<Rightarrow> nat multiset" where
  "handles_closed [] = {#}"
| "handles_closed (Dl_open _ _ # cs) = handles_closed cs"
| "handles_closed (Dl_close h # cs) = add_mset h (handles_closed cs)"

text \<open>
  The registry is in order when paths are distinct, exactly the loaded entries hold a
  handle, only they name a decoder, and each id is in the decoder list as often as in the
  registry.
\<close>

definition registry_ok :: "'p srd_world \<Rightarrow> bool" where
  "registry_ok w \<longleftrightarrow> distinct (map file_path (w_dll w))
     \<and> (\<forall>e \<in> set (w_dll w). (dll_handle e \<noteq> None \<longleftrightarrow> dll_status e = SRD_C_DLL_LOADED)
          \<and> (decoder_id e \<noteq> None \<longrightarrow> dll_handle e \<noteq> None))
     \<and> (\<forall>k. length (filter (c_decoder_named k) (w_pd_list w)) =
            length (filter (\<lambda>e. decoder_id e = Some k) (w_dll w)))"

lemma find_by_path_None: "srd_c_dll_registry_find_by_path reg p = None \<longleftrightarrow> p \<notin> file_path ` set reg"
  by (auto simp: srd_c_dll_registry_find_by_path_def find_None_iff)

lemma decoder_of_c_named: "c_decoder_named k (decoder_of_c d k') \<longleftrightarrow> cd_id d = Some k"
  by (simp add: c_decoder_named_def decoder_of_c_def Let_def)

lemma registry_ok_load:
  assumes ok: "registry_ok w"
  shows "registry_ok (snd (snd (srd_c_decoder_load_single dl path w)))"
proof (cases "srd_c_dll_registry_find_by_path (w_dll w) path")
  case None
  then have new: "path \<notin> file_path ` set (w_dll w)" by (simp add: find_by_path_None)
  have add: "srd_c_dll_registry_add e (w_dll w) = w_dll w @ [e]" if "file_path e = path" for e
    using that None by (simp add: srd_c_dll_registry_add_def)
  show ?thesis
    using ok new None
    by (auto simp: srd_c_decoder_load_single_def registry_ok_def Let_def add srd_c_decoder_register_def
        decoder_of_c_named split: option.split)
qed (use ok in \<open>simp add: srd_c_decoder_load_single_def\<close>)

lemma remove_first_count:
  "length (filter g xs) =
     length (filter g (remove_first f xs)) + (case find f xs of None \<Rightarrow> 0 | Some x \<Rightarrow> if g x then 1 else 0)"
  by (induction xs) auto

lemma remove_first_subset: "set (remove_first f xs) \<subseteq> set xs"
  by (induction xs) auto

lemma remove_first_distinct: "distinct (map g xs) \<Longrightarrow> distinct (map g (remove_first f xs))"
proof (induction xs)
  case (Cons x xs)
  with remove_first_subset [of f xs] show ?case by auto
qed simp

lemma registry_remove_first:
  "snd (srd_c_dll_registry_remove k reg) = remove_first (\<lambda>e. decoder_id e = Some k) reg"
proof (induction reg)
  case (Cons e es)
  then show ?case by (cases "srd_c_dll_registry_remove k es") auto
qed simp

lemma named_same: "c_decoder_named k d \<Longrightarrow> c_decoder_named j d \<longleftrightarrow> j = k"
  by (auto simp: c_decoder_named_def split: option.splits)

lemma find_named:
  assumes "0 < length (filter f xs)"
  shows "\<exists>x. find f xs = Some x \<and> f x"
  using assms by (induction xs) auto

lemma unload_cases:
  assumes "srd_c_decoder_unload d w = (r, calls, w')"
  shows "calls = [] \<and> w' = w
    \<or> (\<exists>k e h. srd_c_dll_registry_find_by_id (w_dll w) k = Some e \<and> dll_handle e = Some h \<and> calls = [Dl_close h]
         \<and> w_pd_list w' = remove_first (c_decoder_named k) (w_pd_list w)
         \<and> w_dll w' = remove_first (\<lambda>e. decoder_id e = Some k) (w_dll w))"
  using assms
  by (auto simp: srd_c_decoder_unload_def registry_remove_first split: option.splits if_splits) metis+

lemma registry_ok_unload:
  assumes ok: "registry_ok w" and u: "srd_c_decoder_unload d w = (r, calls, w')"
  shows "registry_ok w'"
  using unload_cases [OF u]
proof (elim disjE exE conjE)
  fix k e h
  assume e: "srd_c_dll_registry_find_by_id (w_dll w) k = Some e"
    and pd: "w_pd_list w' = remove_first (c_decoder_named k) (w_pd_list w)"
    and dll: "w_dll w' = remove_first (\<lambda>e. decoder_id e = Some k) (w_dll w)"
  let ?N = "\<lambda>j ds. length (filter (c_decoder_named j) ds)"
  let ?R = "\<lambda>j es. length (filter (\<lambda>e. decoder_id e = Some j) es)"
  have same: "?N j (w_pd_list w) = ?R j (w_dll w)" for j using ok by (simp add: registry_ok_def)
  have fe: "find (\<lambda>e. decoder_id e = Some k) (w_dll w) = Some e" "decoder_id e = Some k"
    using e by (auto simp: srd_c_dll_registry_find_by_id_def find_Some_iff)
  then have "0 < ?R k (w_dll w)" using remove_first_count [of "\<lambda>e. decoder_id e = Some k" "w_dll w" "\<lambda>e. decoder_id e = Some k"] by simp
  with same have "0 < ?N k (w_pd_list w)" by simp
  from find_named [OF this] obtain x where
    x: "find (c_decoder_named k) (w_pd_list w) = Some x" "c_decoder_named k x" by blast
  have "?N j (w_pd_list w') = ?R j (w_dll w')" for j
    using same [of j] remove_first_count [of "c_decoder_named j" "w_pd_list w" "c_decoder_named k"]
      remove_first_count [of "\<lambda>e. decoder_id e = Some j" "w_dll w" "\<lambda>e. decoder_id e = Some k"]
      named_same [OF x(2), of j] fe by (auto simp: pd dll x(1) split: if_splits)
  then show ?thesis
    using ok remove_first_subset [of "\<lambda>e. decoder_id e = Some k" "w_dll w"]
    by (auto simp: registry_ok_def dll pd intro: remove_first_distinct)
qed (use ok in simp)

text \<open>Handles: what the registry holds changes by what was opened and closed.\<close>

lemma handles_append: "handles (xs @ ys) = handles xs + handles ys"
  by (simp add: handles_def List.map_filter_def)

lemma handles_one: "handles [e] = (case dll_handle e of None \<Rightarrow> {#} | Some h \<Rightarrow> {#h#})"
  by (simp add: handles_def List.map_filter_def split: option.split)

lemma handles_Cons: "handles (e # es) = handles [e] + handles es"
  using handles_append [of "[e]" es] by simp

lemma handles_load:
  assumes "srd_c_decoder_load_single dl path w = (r, calls, w')"
  shows "handles (w_dll w') + handles_closed calls = handles (w_dll w) + handles_opened calls"
proof (cases "srd_c_dll_registry_find_by_path (w_dll w) path")
  case None
  have add: "srd_c_dll_registry_add e (w_dll w) = w_dll w @ [e]" if "file_path e = path" for e
    using that None by (simp add: srd_c_dll_registry_add_def)
  show ?thesis
    using assms None
    by (auto simp: srd_c_decoder_load_single_def Let_def add handles_append handles_one
        split: option.splits if_splits)
qed (use assms in \<open>simp add: srd_c_decoder_load_single_def\<close>)

lemma handles_remove_first:
  assumes "find f reg = Some e" and "dll_handle e = Some h"
  shows "handles reg = add_mset h (handles (remove_first f reg))"
  using assms(1)
proof (induction reg)
  case (Cons x xs)
  have split: "handles (x # xs) = handles [x] + handles xs" by (rule handles_Cons)
  show ?case
  proof (cases "f x")
    case True
    with Cons.prems assms(2) show ?thesis unfolding split by (simp add: handles_one)
  next
    case False
    with Cons have "handles xs = add_mset h (handles (remove_first f xs))" by simp
    with False show ?thesis unfolding split by (simp add: handles_Cons [of x "remove_first f xs"])
  qed
qed simp

lemma handles_unload:
  assumes "srd_c_decoder_unload d w = (r, calls, w')"
  shows "handles (w_dll w') + handles_closed calls = handles (w_dll w) + handles_opened calls"
  using unload_cases [OF assms]
  by (auto simp: srd_c_dll_registry_find_by_id_def dest: handles_remove_first)

text \<open>A session with the loader: loads, unloads and registrations in any order.\<close>

datatype loader_op = Ld_load string | Ld_unload "string option"

definition loader_step :: "dl_environ \<Rightarrow> loader_op \<Rightarrow> 'p srd_world \<Rightarrow> dl_call list \<times> 'p srd_world" where
  "loader_step dl x w = (case x of
      Ld_load path \<Rightarrow> snd (srd_c_decoder_load_single dl path w)
    | Ld_unload k \<Rightarrow> snd (srd_c_decoder_unload k w))"

fun loader_run :: "dl_environ \<Rightarrow> loader_op list \<Rightarrow> 'p srd_world \<Rightarrow> dl_call list \<times> 'p srd_world" where
  "loader_run dl [] w = ([], w)"
| "loader_run dl (x # xs) w =
     (let (c, w1) = loader_step dl x w; (cs, w2) = loader_run dl xs w1 in (c @ cs, w2))"

lemma opened_append [simp]: "handles_opened (xs @ ys) = handles_opened xs + handles_opened ys"
  by (induction xs rule: handles_opened.induct) auto

lemma closed_append [simp]: "handles_closed (xs @ ys) = handles_closed xs + handles_closed ys"
  by (induction xs rule: handles_closed.induct) auto

lemma loader_step_ok:
  assumes "registry_ok w" and "loader_step dl x w = (c, w')"
  shows "registry_ok w' \<and> handles (w_dll w') + handles_closed c = handles (w_dll w) + handles_opened c"
proof (cases x)
  case (Ld_load path)
  obtain r c1 w1 where l: "srd_c_decoder_load_single dl path w = (r, c1, w1)" by (metis prod_cases3)
  with assms Ld_load have "c1 = c" "w1 = w'" by (simp_all add: loader_step_def)
  with handles_load [OF l] registry_ok_load [OF assms(1), of dl path] l show ?thesis by simp
next
  case (Ld_unload k)
  obtain r c1 w1 where l: "srd_c_decoder_unload k w = (r, c1, w1)" by (metis prod_cases3)
  with assms Ld_unload have "c1 = c" "w1 = w'" by (simp_all add: loader_step_def)
  with handles_unload [OF l] registry_ok_unload [OF assms(1) l] show ?thesis by simp
qed

text \<open>
  C13: However libraries are loaded and unloaded, the registry stays in order (distinct paths,
  a handle and a decoder id only for loaded entries, every decoder listed as often as it is
  registered), and no handle leaks or is closed twice: those opened are the ones closed and
  the ones the registry gained.
\<close>

theorem loader_keeps_books:
  assumes "registry_ok w" and "loader_run dl xs w = (calls, w')"
  shows "registry_ok w' \<and> handles (w_dll w') + handles_closed calls = handles (w_dll w) + handles_opened calls"
  using assms
proof (induction xs arbitrary: w calls w')
  case (Cons x xs)
  obtain c w1 where st: "loader_step dl x w = (c, w1)" by fastforce
  obtain cs w2 where run: "loader_run dl xs w1 = (cs, w2)" by fastforce
  have eq: "calls = c @ cs" "w' = w2" using Cons.prems st run by simp_all
  note s1 = loader_step_ok [OF Cons.prems(1) st]
  note s2 = Cons.IH [OF conjunct1 [OF s1] run]
  have "handles (w_dll w2) + (handles_closed c + handles_closed cs) = (handles (w_dll w1) + handles_closed c) + handles_opened cs"
    using s2 by (simp add: ac_simps)
  also have "\<dots> = handles (w_dll w) + (handles_opened c + handles_opened cs)" using s1 by (simp add: ac_simps)
  finally show ?case using s2 by (simp add: eq)
qed simp

definition empty_world :: "'p srd_world" where
  "empty_world = \<lparr>w_insts = Map.empty, w_next_inst = 1, w_sess = Map.empty, w_next_sess = 1,
     w_sessions = [], w_max_session_id = 0, w_pd_list = [], w_dll = [], w_c_decoder_paths = [],
     w_searchpaths = [], w_events = []\<rparr>"

definition example_c_decoder :: srd_c_decoder where
  "example_c_decoder = \<lparr>cd_id = Some ''x'', cd_name = None, cd_longname = None, cd_desc = None,
     cd_license = None, cd_channels = None, cd_num_channels = 0, cd_optional_channels = None,
     cd_num_optional_channels = 0, cd_options = None, cd_num_options = 0, cd_num_annotations = 0,
     cd_ann_labels = None, cd_num_annotation_rows = 0, cd_annotation_rows = None,
     cd_inputs = None, cd_num_inputs = 0, cd_outputs = None, cd_num_outputs = 0,
     cd_binary = None, cd_num_binary = 0, cd_tags = None, cd_num_tags = 0\<rparr>"

definition example_dl :: dl_environ where
  "example_dl = \<lparr>dlopen = (\<lambda>p. if p = ''a'' then Some 5 else None), dlsym_version = (\<lambda>_. Some 4),
     dlsym_entry = (\<lambda>_. Some (Some example_c_decoder))\<rparr>"

lemma registry_ok_empty: "registry_ok empty_world"
  by (simp add: registry_ok_def empty_world_def)

lemma load_all_loads_each_once_witness:
  "let (calls, w) = run_loads example_dl [''a'', ''b'', ''a''] (empty_world :: unit srd_world)
   in opens ''a'' calls = 1 \<and> run_loads example_dl [''b'', ''a''] w = ([], w)"
proof -
  obtain calls w where r: "run_loads example_dl [''a'', ''b'', ''a''] (empty_world :: unit srd_world) = (calls, w)"
    by (rule prod.exhaust)
  have "\<not> entry_is_null example_dl p" for p by (simp add: entry_is_null_def example_dl_def)
  then have "\<forall>q \<in> set [''b'', ''a'']. q \<in> set [''a'', ''b'', ''a''] \<and> \<not> entry_is_null example_dl q" by simp
  from load_all_loads_each_once [OF r this, of "''a''"] show ?thesis
    unfolding r by (simp add: registered_def empty_world_def srd_c_dll_registry_find_by_path_def example_dl_def entry_is_null_def)
qed

lemma loader_keeps_books_witness:
  "let (calls, w) = loader_run example_dl [Ld_load ''a'', Ld_load ''b'', Ld_unload (Some ''x'')] (empty_world :: unit srd_world)
   in handles (w_dll w) + handles_closed calls = handles_opened calls"
proof -
  let ?xs = "[Ld_load ''a'', Ld_load ''b'', Ld_unload (Some ''x'')]"
  obtain calls w where r: "loader_run example_dl ?xs (empty_world :: unit srd_world) = (calls, w)"
    by (cases "loader_run example_dl ?xs (empty_world :: unit srd_world)")
  have "handles (w_dll (empty_world :: unit srd_world)) = {#}"
    by (simp add: handles_def empty_world_def List.map_filter_simps)
  with loader_keeps_books [OF registry_ok_empty r] show ?thesis unfolding r by simp
qed

section \<open>What modelling showed\<close>

text \<open>
  A library that failed to load stays in the registry, so a second attempt finds it there
  and reports success although nothing is loaded.
\<close>

lemma failed_load_succeeds_on_retry:
  assumes "srd_c_dll_registry_find_by_path (w_dll w) path = None" and "dlopen dl path = None"
  shows "let (r1, _, w1) = srd_c_decoder_load_single dl path w;
             (r2, calls, w2) = srd_c_decoder_load_single dl path w1
         in r1 = SRD_ERR \<and> r2 = SRD_OK \<and> calls = [] \<and> w_pd_list w2 = w_pd_list w"
  using assms dll.look_add_new [of "w_dll w" "dll_entry path None 0 SRD_C_DLL_LOAD_FAILED None None"]
  by (simp add: srd_c_decoder_load_single_def)

text \<open>
  Unloading is refused only for instances whose \<open>decoder_state\<close> is an error. As long as no
  instance has failed, the library of a decoder in use is closed under it.
\<close>

lemma healthy_instances_do_not_block_unload:
  assumes "\<And>p di. inst_at w p = Some di \<Longrightarrow> decoder_state di = SRD_OK"
  shows "\<not> unload_blocked w k"
  using assms by (auto simp: unload_blocked_def inst_blocks_unload_def list_ex_iff split: option.splits)

text \<open>A library whose decoder has no id is kept as loaded although nothing was registered.\<close>

lemma nameless_decoder_counts_as_loaded:
  "let dl = example_dl\<lparr>dlsym_entry := \<lambda>_. Some (Some (example_c_decoder\<lparr>cd_id := None\<rparr>))\<rparr>;
       (r, _, w) = srd_c_decoder_load_single dl ''a'' (empty_world :: unit srd_world)
   in r = SRD_OK \<and> w_pd_list w = [] \<and> map dll_status (w_dll w) = [SRD_C_DLL_LOADED]"
  by (simp add: example_dl_def empty_world_def srd_c_decoder_load_single_def check_version
      srd_c_dll_registry_find_by_path_def srd_c_decoder_register_def example_c_decoder_def
      reg_add_def srd_c_dll_registry_add_def)

text \<open>
  A registered decoder is the one its id finds afterwards, unless a decoder with that id
  was there before, which then still is.
\<close>

theorem register_then_get:
  assumes "cd_id d = Some k"
  shows "srd_decoder_get_by_id k (snd (srd_c_decoder_register (Some d) w)) =
    (case srd_decoder_get_by_id k w of Some e \<Rightarrow> Some e | None \<Rightarrow> Some (decoder_of_c d k))"
  using assms
  by (simp add: srd_c_decoder_register_def srd_decoder_get_by_id_def find_append decoder_of_c_def Let_def
      split: option.split)

lemma register_then_get_witness:
  "srd_decoder_get_by_id ''x'' (snd (srd_c_decoder_register (Some example_c_decoder) (empty_world :: unit srd_world)))
     = Some (decoder_of_c example_c_decoder ''x'')"
proof -
  have k: "cd_id example_c_decoder = Some ''x''" by (simp add: example_c_decoder_def)
  have e: "srd_decoder_get_by_id ''x'' (empty_world :: unit srd_world) = None"
    by (simp add: srd_decoder_get_by_id_def empty_world_def)
  from register_then_get [OF k, of "empty_world :: unit srd_world"] e show ?thesis by simp
qed

end
