(* ===== verification/Instance.thy ===== *)
theory Instance
  imports Wait AnnBatch StackWalk Registry
begin

text \<open>
  instance.c without the matcher: creating, configuring, stacking, starting, terminating
  and freeing decoder instances, for C and for Python decoders. The functions work on the
  library state \<open>srd_world\<close>; a pointer to an instance is an address in it.
\<close>

section \<open>What lies outside the library\<close>

text \<open>
  Decoder code and the Python interpreter are parameters. \<open>worker_rest\<close> is what a C
  decoder still does in its thread from the moment it is asked to terminate until its
  \<open>decode()\<close> returns, \<open>worker_run\<close> what it does with a chunk until the producer may go
  on; \<open>py_rest\<close> is a Python decoder's \<open>decode()\<close> up to its return. A Python call
  returns an object, a string (None if it is no UTF-8), or raises an exception, whose text
  may be missing.
\<close>

datatype py_result = Py_object | Py_str "string option" | Py_raised "string option"

record 'p environ =
  c_ops :: "'p srd_world decoder_ops"
  worker_run :: "inst_ptr \<Rightarrow> 'p srd_world \<Rightarrow> 'p srd_world"
  worker_rest :: "inst_ptr \<Rightarrow> 'p srd_world \<Rightarrow> 'p srd_world"
  py_rest :: "inst_ptr \<Rightarrow> 'p srd_world \<Rightarrow> py_result \<times> 'p srd_world"
  py_has_attr :: "inst_ptr \<Rightarrow> string \<Rightarrow> 'p srd_world \<Rightarrow> bool"
  py_call_method :: "inst_ptr \<Rightarrow> string \<Rightarrow> u64 list \<Rightarrow> 'p srd_world \<Rightarrow> py_result \<times> 'p srd_world"
  py_set_attr :: "inst_ptr \<Rightarrow> string \<Rightarrow> u64 \<Rightarrow> 'p srd_world \<Rightarrow> 'p srd_world"
  py_new_object :: "inst_ptr \<Rightarrow> 'p srd_world \<Rightarrow> nat option \<times> 'p srd_world"
  py_dec_ref :: "inst_ptr \<Rightarrow> 'p srd_world \<Rightarrow> 'p srd_world"
  py_has_options :: "srd_decoder \<Rightarrow> bool"
  py_value :: "gvariant \<Rightarrow> bool"
  py_set_options :: "inst_ptr \<Rightarrow> (string \<times> gvariant) list \<Rightarrow> 'p srd_world \<Rightarrow> 'p srd_world"

section \<open>The C vtable\<close>

definition c_call_start :: "'p environ \<Rightarrow> inst_ptr \<Rightarrow> 'p srd_world \<Rightarrow> srd_error_code \<times> 'p srd_world" where
  "c_call_start env p w = (case inst_at w p of None \<Rightarrow> (SRD_OK, w)
     | Some di \<Rightarrow> (case c_dec_inst di of None \<Rightarrow> (SRD_OK, w)
       | Some d \<Rightarrow> (case cb_start (c_ops env d) of None \<Rightarrow> (SRD_OK, w)
         | Some f \<Rightarrow> (SRD_OK, f p w))))"

definition c_call_metadata ::
    "'p environ \<Rightarrow> inst_ptr \<Rightarrow> int \<Rightarrow> u64 \<Rightarrow> 'p srd_world \<Rightarrow> 'p srd_world" where
  "c_call_metadata env p key value w =
     (let w1 = upd_inst p (c_call_metadata_sr key value) w
      in case inst_at w1 p of None \<Rightarrow> w1
     | Some di \<Rightarrow> (case c_dec_inst di of None \<Rightarrow> w1
       | Some d \<Rightarrow> (case cb_metadata (c_ops env d) of None \<Rightarrow> w1
         | Some f \<Rightarrow> f p key value w1)))"

definition c_call_end :: "'p environ \<Rightarrow> inst_ptr \<Rightarrow> 'p srd_world \<Rightarrow> srd_error_code \<times> 'p srd_world" where
  "c_call_end env p w =
     (let w1 = upd_inst p (\<lambda>di. di\<lparr>last_samplenum := abs_cur_samplenum di\<rparr>) w
      in case inst_at w1 p of None \<Rightarrow> (SRD_OK, w1)
     | Some di \<Rightarrow> (case c_dec_inst di of None \<Rightarrow> (SRD_OK, w1)
       | Some d \<Rightarrow> (case cb_end (c_ops env d) of None \<Rightarrow> (SRD_OK, w1)
         | Some f \<Rightarrow> (SRD_OK, f p w1))))"

definition c_call_reset :: "'p environ \<Rightarrow> inst_ptr \<Rightarrow> 'p srd_world \<Rightarrow> 'p srd_world" where
  "c_call_reset env p w = (case inst_at w p of None \<Rightarrow> w
     | Some di \<Rightarrow> (case c_dec_inst di of None \<Rightarrow> w
       | Some d \<Rightarrow> (case cb_reset (c_ops env d) of None \<Rightarrow> w
         | Some f \<Rightarrow> f p w)))"

definition c_free_resources :: "'p environ \<Rightarrow> inst_ptr \<Rightarrow> 'p srd_world \<Rightarrow> 'p srd_world" where
  "c_free_resources env p w =
     (let w1 = (case inst_at w p of None \<Rightarrow> w
       | Some di \<Rightarrow> (case c_dec_inst di of None \<Rightarrow> w
         | Some d \<Rightarrow> (case cb_destroy (c_ops env d) of None \<Rightarrow> w
           | Some f \<Rightarrow> f p w)))
      in upd_inst p (\<lambda>di. di\<lparr>error_message := None, c_options := None, c_pin_cache := None\<rparr>) w1)"

section \<open>The Python vtable\<close>

definition py_call_start :: "'p environ \<Rightarrow> inst_ptr \<Rightarrow> 'p srd_world \<Rightarrow> srd_error_code \<times> 'p srd_world" where
  "py_call_start env p w = (case py_call_method env p ''start'' [] w of
      (Py_raised _, w1) \<Rightarrow> (SRD_ERR_PYTHON, w1)
    | (_, w1) \<Rightarrow> (SRD_OK, py_set_attr env p ''matched'' 0 (py_set_attr env p ''samplenum'' 0 w1)))"

text \<open>An exception of metadata() or reset() is kept as the instance's error message.\<close>

definition store_py_error :: "string \<Rightarrow> py_result \<Rightarrow> 'p srd_decoder_inst \<Rightarrow> 'p srd_decoder_inst" where
  "store_py_error deflt r di = (case r of
      Py_raised e \<Rightarrow> di\<lparr>python_proc_error := Some (case e of None \<Rightarrow> deflt | Some m \<Rightarrow> m)\<rparr>
    | _ \<Rightarrow> di)"

definition py_call_metadata ::
    "'p environ \<Rightarrow> inst_ptr \<Rightarrow> int \<Rightarrow> u64 \<Rightarrow> 'p srd_world \<Rightarrow> 'p srd_world" where
  "py_call_metadata env p key value w =
     (if py_has_attr env p ''metadata'' w then
        (let (r, w1) = py_call_method env p ''metadata'' [word_of_int key, value] w
         in upd_inst p (store_py_error ''metadata() raised an unknown exception'' r) w1)
      else w)"

definition py_call_end :: "'p environ \<Rightarrow> inst_ptr \<Rightarrow> 'p srd_world \<Rightarrow> srd_error_code \<times> 'p srd_world" where
  "py_call_end env p w =
     (if py_has_attr env p ''end'' w then
        (let cur = (case inst_at w p of None \<Rightarrow> 0 | Some di \<Rightarrow> abs_cur_samplenum di)
         in case py_call_method env p ''end'' [] (py_set_attr env p ''last_samplenum'' cur w) of
              (Py_raised _, w1) \<Rightarrow> (SRD_ERR_PYTHON, w1)
            | (_, w1) \<Rightarrow> (SRD_OK, w1))
      else (SRD_OK, w))"

definition py_call_reset :: "'p environ \<Rightarrow> inst_ptr \<Rightarrow> 'p srd_world \<Rightarrow> 'p srd_world" where
  "py_call_reset env p w =
     (if py_has_attr env p ''reset'' w then
        (let (r, w1) = py_call_method env p ''reset'' [] w
         in upd_inst p (store_py_error ''reset() raised an unknown exception'' r) w1)
      else w)"

text \<open>
  The option loop of \<open>py_option_set\<close>: the value given or the default, checked against
  the default's type; a handled option leaves the caller's table. \<open>py_value\<close> says whether
  Python accepts the value.
\<close>

fun gv_type :: "gvariant \<Rightarrow> nat" where
  "gv_type (GV_int32 _) = 0" | "gv_type (GV_uint32 _) = 1" | "gv_type (GV_int64 _) = 2"
| "gv_type (GV_uint64 _) = 3" | "gv_type (GV_double _) = 4" | "gv_type (GV_string _) = 5"

fun py_options_loop ::
    "'p environ \<Rightarrow> srd_decoder_option list \<Rightarrow> gvariant ghash option \<Rightarrow> (string \<times> gvariant) list \<Rightarrow>
     srd_error_code \<times> gvariant ghash option \<times> (string \<times> gvariant) list" where
  "py_options_loop env [] opts dict = (SRD_OK, opts, dict)"
| "py_options_loop env (sdo # sdos) opts dict =
     (let key = (case opt_id sdo of None \<Rightarrow> [] | Some k \<Rightarrow> k);
          given = (case opts of None \<Rightarrow> None | Some t \<Rightarrow> g_hash_table_lookup t key)
      in case opt_def sdo of
           None \<Rightarrow> (SRD_ERR_PYTHON, opts, dict)
         | Some deflt \<Rightarrow>
             if given \<noteq> None \<and> gv_type (the given) \<noteq> gv_type deflt then (SRD_ERR_PYTHON, opts, dict)
             else let value = (case given of None \<Rightarrow> deflt | Some v \<Rightarrow> v)
                  in if \<not> py_value env value then (SRD_ERR_PYTHON, opts, dict)
                     else py_options_loop env sdos (map_option (g_hash_table_remove key) opts)
                            (dict @ [(key, value)]))"

definition py_option_set ::
    "'p environ \<Rightarrow> inst_ptr \<Rightarrow> gvariant ghash option \<Rightarrow> 'p srd_world \<Rightarrow>
     srd_error_code \<times> gvariant ghash option \<times> 'p srd_world" where
  "py_option_set env p opts w = (case inst_at w p of None \<Rightarrow> (SRD_OK, opts, w)
     | Some di \<Rightarrow>
       if \<not> py_has_options env (di_decoder di) then
         (if opts = Some [] then (SRD_OK, opts, w) else (SRD_ERR_ARG, opts, w))
       else let (r, opts', dict) = py_options_loop env (dec_options (di_decoder di)) opts []
            in (r, opts', py_set_options env p dict w))"

section \<open>Threads\<close>

text \<open>
  The end of \<open>di_thread\<close>: any return value of a Python decode() is an error, and so is
  an exception unless the instance was asked to stop.
\<close>

definition di_thread_exit :: "py_result \<Rightarrow> 'p srd_decoder_inst \<Rightarrow> 'p srd_decoder_inst" where
  "di_thread_exit r di = c_di_thread_exit (case r of
      Py_object \<Rightarrow> di\<lparr>decoder_state := SRD_ERR,
        python_proc_error := Some ''python method decode() returns an unknown type error!''\<rparr>
    | Py_str None \<Rightarrow> di\<lparr>decoder_state := SRD_ERR\<rparr>
    | Py_str (Some m) \<Rightarrow> di\<lparr>decoder_state := SRD_ERR, python_proc_error := Some m\<rparr>
    | Py_raised e \<Rightarrow> (if is_task_stop_signal di then di
        else case e of None \<Rightarrow> di | Some m \<Rightarrow> di\<lparr>python_proc_error := Some m\<rparr>))"

text \<open>A worker from the request to stop to its end; it delivers the pending annotations.\<close>

definition worker_finish :: "'p environ \<Rightarrow> inst_ptr \<Rightarrow> 'p srd_world \<Rightarrow> 'p srd_world" where
  "worker_finish env p w = (case inst_at w p of None \<Rightarrow> w
     | Some di \<Rightarrow>
       if is_c_inst di
       then upd_inst p c_di_thread_exit (srd_ann_batch_flush (di_sess di) (worker_rest env p w))
       else let (r, w1) = py_rest env p w
            in upd_inst p (di_thread_exit r) (srd_ann_batch_flush (di_sess di) w1))"

definition srd_inst_join_decode_thread :: "'p environ \<Rightarrow> inst_ptr \<Rightarrow> 'p srd_world \<Rightarrow> 'p srd_world" where
  "srd_inst_join_decode_thread env p w = (case inst_at w p of None \<Rightarrow> w
     | Some di \<Rightarrow>
       if \<not> thread_handle di then w
       else upd_inst p (\<lambda>di. di\<lparr>thread_handle := False\<rparr>)
              (worker_finish env p (upd_inst p request_terminate w)))"

section \<open>Dispatch\<close>

text \<open>
  \<open>di->ops\<close> is the C or the Python table, as \<open>is_c_inst\<close> says. A dangling pointer has
  no table; the model does nothing there.
\<close>

definition is_c :: "'p srd_world \<Rightarrow> inst_ptr \<Rightarrow> bool" where
  "is_c w p = (case inst_at w p of None \<Rightarrow> False | Some di \<Rightarrow> is_c_inst di)"

definition call_start :: "'p environ \<Rightarrow> inst_ptr \<Rightarrow> 'p srd_world \<Rightarrow> srd_error_code \<times> 'p srd_world" where
  "call_start env p w = (case inst_at w p of None \<Rightarrow> (SRD_OK, w)
     | Some di \<Rightarrow> if is_c_inst di then c_call_start env p w else py_call_start env p w)"

definition call_metadata :: "'p environ \<Rightarrow> inst_ptr \<Rightarrow> int \<Rightarrow> u64 \<Rightarrow> 'p srd_world \<Rightarrow> 'p srd_world" where
  "call_metadata env p key v w =
     (case inst_at w p of None \<Rightarrow> w
     | Some di \<Rightarrow> if is_c_inst di then c_call_metadata env p key v w else py_call_metadata env p key v w)"

definition call_end :: "'p environ \<Rightarrow> inst_ptr \<Rightarrow> 'p srd_world \<Rightarrow> srd_error_code \<times> 'p srd_world" where
  "call_end env p w = (case inst_at w p of None \<Rightarrow> (SRD_OK, w)
     | Some di \<Rightarrow> if is_c_inst di then c_call_end env p w else py_call_end env p w)"

definition call_reset :: "'p environ \<Rightarrow> inst_ptr \<Rightarrow> 'p srd_world \<Rightarrow> 'p srd_world" where
  "call_reset env p w = (case inst_at w p of None \<Rightarrow> w
     | Some di \<Rightarrow> if is_c_inst di then c_call_reset env p w else py_call_reset env p w)"

definition free_resources :: "'p environ \<Rightarrow> inst_ptr \<Rightarrow> 'p srd_world \<Rightarrow> 'p srd_world" where
  "free_resources env p w = (case inst_at w p of None \<Rightarrow> w
     | Some di \<Rightarrow> if is_c_inst di then c_free_resources env p w else py_dec_ref env p w)"

definition py_extract_error :: "'p srd_decoder_inst \<Rightarrow> string option \<times> 'p srd_decoder_inst" where
  "py_extract_error di = (python_proc_error di, di\<lparr>python_proc_error := None\<rparr>)"

definition extract_error :: "inst_ptr \<Rightarrow> 'p srd_world \<Rightarrow> string option \<times> 'p srd_world" where
  "extract_error p w = (case inst_at w p of None \<Rightarrow> (None, w)
     | Some di \<Rightarrow> (let (msg, di') = (if is_c_inst di then c_extract_error di else py_extract_error di)
                   in (msg, upd_inst p (\<lambda>_. di') w)))"

definition srd_inst_option_set ::
    "'p environ \<Rightarrow> inst_ptr option \<Rightarrow> gvariant ghash option \<Rightarrow> 'p srd_world \<Rightarrow>
     srd_error_code \<times> gvariant ghash option \<times> 'p srd_world" where
  "srd_inst_option_set env di opts w = (case di of
      None \<Rightarrow> (SRD_ERR_ARG, opts, w)
    | Some p \<Rightarrow> if is_c w p
        then (SRD_OK, opts, upd_inst p (c_option_set (case opts of None \<Rightarrow> [] | Some t \<Rightarrow> t)) w)
        else py_option_set env p opts w)"

section \<open>Channels and initial pins\<close>

definition find_channel :: "srd_decoder \<Rightarrow> string \<Rightarrow> srd_channel option" where
  "find_channel dec k = (case find (\<lambda>c. ch_id c = Some k) (dec_channels dec) of
      Some c \<Rightarrow> Some c
    | None \<Rightarrow> find (\<lambda>c. ch_id c = Some k) (dec_opt_channels dec))"

text \<open>
  The loop over the given channels writes \<open>new_channelmap[pdch->order]\<close>. The order comes
  from the decoder and is not checked: a write outside the array is the value None.
\<close>

fun set_channels ::
    "srd_decoder \<Rightarrow> (string \<times> gvariant) list \<Rightarrow> int list \<Rightarrow> (srd_error_code + int list) option" where
  "set_channels dec [] cm = Some (Inr cm)"
| "set_channels dec ((k, v) # cs) cm = (case v of
      GV_int32 n \<Rightarrow> (case find_channel dec k of
          None \<Rightarrow> Some (Inl SRD_ERR_ARG)
        | Some c \<Rightarrow>
            if 0 \<le> ch_order c \<and> nat (ch_order c) < length cm
            then set_channels dec cs (cm[nat (ch_order c) := n])
            else None)
    | _ \<Rightarrow> Some (Inl SRD_ERR_ARG))"

definition srd_inst_channel_set_all ::
    "(string \<times> gvariant) list \<Rightarrow> 'p srd_decoder_inst \<Rightarrow> (srd_error_code \<times> 'p srd_decoder_inst) option" where
  "srd_inst_channel_set_all new_channels di =
     (if new_channels = [] then Some (SRD_OK, di)
      else if dec_num_channels di = 0 then Some (SRD_ERR_ARG, di)
      else case set_channels (di_decoder di) new_channels (replicate (dec_num_channels di) (-1)) of
          None \<Rightarrow> None
        | Some (Inl e) \<Rightarrow> Some (e, di)
        | Some (Inr cm) \<Rightarrow>
            if list_all (\<lambda>i. cm ! i \<noteq> -1) [0..<length (dec_channels (di_decoder di))]
            then Some (SRD_OK, di\<lparr>dec_channelmap := Some cm\<rparr>)
            else Some (SRD_ERR, di))"

text \<open>GArray data is an array of \<open>gchar\<close>, which is signed: the comparison is a signed one.\<close>

definition initial_pin_ok :: "u8 \<Rightarrow> bool" where
  "initial_pin_ok v \<longleftrightarrow> sint v \<le> 2"

definition srd_inst_initial_pins_set_all ::
    "u8 list option \<Rightarrow> 'p srd_decoder_inst \<Rightarrow> srd_error_code \<times> 'p srd_decoder_inst" where
  "srd_inst_initial_pins_set_all initial_pins di = (case initial_pins of
      None \<Rightarrow> (SRD_ERR_ARG, di)
    | Some pins \<Rightarrow>
        if length pins \<noteq> dec_num_channels di then (SRD_ERR_ARG, di)
        else if \<not> list_all initial_pin_ok pins then (SRD_ERR_ARG, di)
        else let di1 = oldpins_array_seed di
             in (SRD_OK, di1\<lparr>old_pins_array := map_option
                  (update_range (dec_num_channels di) (\<lambda>i _. pins ! i)) (old_pins_array di1)\<rparr>))"

section \<open>Finding instances\<close>

definition has_id :: "'p srd_world \<Rightarrow> string \<Rightarrow> inst_ptr \<Rightarrow> bool" where
  "has_id w k p = (case inst_at w p of None \<Rightarrow> False | Some di \<Rightarrow> inst_id di = k)"

definition next_of :: "'p srd_world \<Rightarrow> inst_ptr \<Rightarrow> inst_ptr list" where
  "next_of w p = (case inst_at w p of None \<Rightarrow> [] | Some di \<Rightarrow> next_di di)"

definition srd_inst_find_by_id_stack :: "'p srd_world \<Rightarrow> string \<Rightarrow> inst_ptr \<Rightarrow> inst_ptr option" where
  "srd_inst_find_by_id_stack w k stack =
     (if has_id w k stack then Some stack else find (has_id w k) (next_of w stack))"

fun find_in_stacks :: "'p srd_world \<Rightarrow> string \<Rightarrow> inst_ptr list \<Rightarrow> inst_ptr option" where
  "find_in_stacks w k [] = None"
| "find_in_stacks w k (p # ps) = (case srd_inst_find_by_id_stack w k p of
      Some q \<Rightarrow> Some q
    | None \<Rightarrow> find_in_stacks w k ps)"

definition srd_inst_find_by_id :: "'p srd_world \<Rightarrow> sess_ptr option \<Rightarrow> string \<Rightarrow> inst_ptr option" where
  "srd_inst_find_by_id w sess k = (case sess of None \<Rightarrow> None
     | Some s \<Rightarrow> (case w_sess w s of None \<Rightarrow> None | Some se \<Rightarrow> find_in_stacks w k (di_list se)))"

section \<open>Instance identifiers\<close>

text \<open>\<open>%d\<close> of a number that is not negative.\<close>

definition digit_char :: "nat \<Rightarrow> char" where
  "digit_char d = char_of (of_char (CHR ''0'') + d)"

function dec_str :: "nat \<Rightarrow> string" where
  "dec_str n = (let (q, r) = (n div 10, n mod 10); last_digit = [digit_char r]
     in if q = 0 then last_digit else dec_str q @ last_digit)"
  by auto
termination by (relation "measure id") auto

declare dec_str.simps [simp del]

text \<open>
  The loop that looks for a free \<^verbatim>\<open>"%s-%d"\<close>, with fuel. The counter is a C int
  and the model's is unbounded: they agree for the first 2147483647 attempts.
\<close>

fun unique_id_loop :: "nat \<Rightarrow> (string \<Rightarrow> bool) \<Rightarrow> string \<Rightarrow> nat \<Rightarrow> string option" where
  "unique_id_loop 0 taken base i = None"
| "unique_id_loop (Suc n) taken base i =
     (let k = base @ ''-'' @ dec_str i
      in if taken k then unique_id_loop n taken base (i + 1) else Some k)"

section \<open>Creating instances\<close>

definition num_channels :: "srd_decoder \<Rightarrow> nat" where
  "num_channels d = length (dec_channels d) + length (dec_opt_channels d)"

definition default_channelmap :: "srd_decoder \<Rightarrow> int list option" where
  "default_channelmap d = (if 0 < num_channels d then Some (map int [0..<num_channels d]) else None)"

definition add_inst :: "'p srd_decoder_inst \<Rightarrow> 'p srd_world \<Rightarrow> 'p srd_world" where
  "add_inst di w = w\<lparr>w_insts := (w_insts w)(w_next_inst w \<mapsto> di), w_next_inst := w_next_inst w + 1\<rparr>"

definition drop_inst :: "inst_ptr \<Rightarrow> 'p srd_world \<Rightarrow> 'p srd_world" where
  "drop_inst p w = w\<lparr>w_insts := (w_insts w)(p := None)\<rparr>"

text \<open>
  The options table maps names to GVariants, except that its entry under "id" is a plain
  string; the two creating functions take that entry out first. The model's table is the
  pair of that entry and the others.
\<close>

type_synonym inst_options = "string option \<times> gvariant ghash"

definition new_inst_id ::
    "nat \<Rightarrow> inst_options option \<Rightarrow> sess_ptr \<Rightarrow> string \<Rightarrow> 'p srd_world \<Rightarrow> string option" where
  "new_inst_id n options sess base w = (case options of
      Some (Some k, _) \<Rightarrow> Some k
    | _ \<Rightarrow> unique_id_loop n (\<lambda>k. srd_inst_find_by_id w (Some sess) k \<noteq> None) base 1)"

text \<open>The instance as both functions set it up before options and reset.\<close>

definition new_inst :: "srd_decoder \<Rightarrow> sess_ptr \<Rightarrow> string \<Rightarrow> 'p srd_decoder_inst" where
  "new_inst d sess k = oldpins_array_seed ((malloc0_inst d sess)\<lparr>inst_id := k,
     dec_num_channels := num_channels d, dec_channelmap := default_channelmap d\<rparr>)"

definition append_to_session :: "inst_ptr \<Rightarrow> sess_ptr \<Rightarrow> 'p srd_world \<Rightarrow> 'p srd_world" where
  "append_to_session p sess = upd_sess sess (\<lambda>se. se\<lparr>di_list := di_list se @ [p]\<rparr>)"

text \<open>The result is None when the search for an identifier runs out of fuel.\<close>

definition create_c_decoder_inst ::
    "nat \<Rightarrow> 'p environ \<Rightarrow> sess_ptr option \<Rightarrow> srd_decoder option \<Rightarrow> inst_options option \<Rightarrow> 'p srd_world \<Rightarrow>
     (inst_ptr option \<times> 'p srd_world) option" where
  "create_c_decoder_inst n env sess dec options w = (case (sess, dec) of
      (Some s, Some d) \<Rightarrow> (case new_inst_id n options s (dec_id d) w of
          None \<Rightarrow> None
        | Some k \<Rightarrow>
            (let p = w_next_inst w;
                 w1 = add_inst ((new_inst d s k)\<lparr>is_c_inst := True, c_dec_inst := dec_c_dec d\<rparr>) w;
                 (r, w2) = (case options of None \<Rightarrow> (SRD_OK, w1)
                   | Some (_, t) \<Rightarrow> (let (r, _, w2) = srd_inst_option_set env (Some p) (Some t) w1 in (r, w2)))
             in if r \<noteq> SRD_OK then Some (None, drop_inst p w2)
                else Some (Some p, append_to_session p s (c_call_reset env p w2))))
    | _ \<Rightarrow> Some (None, w))"

definition srd_inst_new ::
    "nat \<Rightarrow> 'p environ \<Rightarrow> sess_ptr option \<Rightarrow> string \<Rightarrow> inst_options option \<Rightarrow> 'p srd_world \<Rightarrow>
     (inst_ptr option \<times> 'p srd_world) option" where
  "srd_inst_new n env sess decoder options w = (case sess of
      None \<Rightarrow> Some (None, w)
    | Some s \<Rightarrow> (case srd_decoder_get_by_id decoder w of
        None \<Rightarrow> Some (None, w)
      | Some d \<Rightarrow>
          if is_c_decoder d then create_c_decoder_inst n env sess (Some d) options w
          else (case new_inst_id n options s decoder w of
              None \<Rightarrow> None
            | Some k \<Rightarrow>
                (let p = w_next_inst w; w1 = add_inst (new_inst d s k) w;
                     (made, w2) = py_new_object env p w1
                 in case made of
                      None \<Rightarrow> Some (None, drop_inst p w2)
                    | Some obj \<Rightarrow>
                        (let w3 = upd_inst p (\<lambda>di. di\<lparr>py_inst := Some obj\<rparr>) w2;
                             (r, _, w4) = srd_inst_option_set env (Some p) (map_option snd options) w3
                         in if r \<noteq> SRD_OK then Some (None, drop_inst p w4)
                            else Some (Some p, append_to_session p s w4))))))"

section \<open>Stacking, starting, decoding, terminating, freeing\<close>

text \<open>
  A mismatch of outputs and inputs is only warned about. \<open>g_slist_remove\<close> takes the first
  occurrence out of the session's list.
\<close>

definition srd_inst_stack ::
    "sess_ptr option \<Rightarrow> inst_ptr option \<Rightarrow> inst_ptr option \<Rightarrow> 'p srd_world \<Rightarrow>
     srd_error_code \<times> 'p srd_world" where
  "srd_inst_stack sess di_bottom di_top w = (case (sess, di_bottom, di_top) of
      (Some s, Some b, Some t) \<Rightarrow>
        if is_c w b \<and> \<not> is_c w t then (SRD_ERR_ARG, w)
        else (SRD_OK, upd_inst b (\<lambda>di. di\<lparr>next_di := next_di di @ [t]\<rparr>)
               (upd_sess s (\<lambda>se. se\<lparr>di_list := remove1 t (di_list se)\<rparr>) w))
    | _ \<Rightarrow> (SRD_ERR_ARG, w))"

definition start_visit :: "'p environ \<Rightarrow> inst_ptr \<Rightarrow> 'p srd_world \<Rightarrow> srd_error_code \<times> 'p srd_world" where
  "start_visit env p w = call_start env p (upd_inst p start_flags w)"

primrec srd_inst_start ::
    "nat \<Rightarrow> 'p environ \<Rightarrow> inst_ptr \<Rightarrow> 'p srd_world \<Rightarrow> (srd_error_code \<times> 'p srd_world) option" where
  "srd_inst_start 0 env = (\<lambda>p w. None)"
| "srd_inst_start (Suc n) env = (\<lambda>p w.
     (let (ret, w1) = start_visit env p w
      in if ret \<noteq> SRD_OK then Some (ret, w1)
         else case for_each (srd_inst_start n env) (next_of w1 p) w1 of
             None \<Rightarrow> None
           | Some (ret, w2) \<Rightarrow> if ret \<noteq> SRD_OK then Some (ret, w2) else Some (SRD_OK, w2)))"

text \<open>A call of \<open>srd_inst_decode\<close> as a whole, the worker running in between.\<close>

definition srd_inst_decode ::
    "'p environ \<Rightarrow> sample_chunk \<Rightarrow> inst_ptr \<Rightarrow> 'p srd_world \<Rightarrow>
     (srd_error_code \<times> string option) \<times> 'p srd_world" where
  "srd_inst_decode env ck p w = (case inst_at w p of
      None \<Rightarrow> ((SRD_ERR_ARG, None), w)
    | Some di \<Rightarrow>
        (let (r, di1) = srd_inst_decode_begin ck di; w1 = upd_inst p (\<lambda>_. di1) w
         in if r \<noteq> SRD_OK then ((r, None), w1)
            else let (msg, w2) = extract_error p (worker_run env p w1)
                 in ((if msg = None then SRD_OK else SRD_ERR_TERM_REQ, msg), w2)))"

definition reset_visit :: "'p environ \<Rightarrow> inst_ptr \<Rightarrow> 'p srd_world \<Rightarrow> srd_error_code \<times> 'p srd_world" where
  "reset_visit env p w =
     (SRD_OK, call_reset env p (upd_inst p srd_inst_reset_state (srd_inst_join_decode_thread env p w)))"

definition state_of :: "'p srd_world \<Rightarrow> inst_ptr \<Rightarrow> srd_error_code" where
  "state_of w p = (case inst_at w p of None \<Rightarrow> SRD_OK | Some di \<Rightarrow> decoder_state di)"

primrec srd_inst_terminate_reset ::
    "nat \<Rightarrow> 'p environ \<Rightarrow> inst_ptr \<Rightarrow> 'p srd_world \<Rightarrow> (srd_error_code \<times> 'p srd_world) option" where
  "srd_inst_terminate_reset 0 env = (\<lambda>p w. None)"
| "srd_inst_terminate_reset (Suc n) env = (\<lambda>p w.
     (let w1 = snd (reset_visit env p w)
      in case for_each (srd_inst_terminate_reset n env) (next_of w1 p) w1 of
             None \<Rightarrow> None
           | Some (ret, w2) \<Rightarrow> if ret \<noteq> SRD_OK then Some (ret, w2) else Some (state_of w2 p, w2)))"

definition srd_inst_free :: "'p environ \<Rightarrow> inst_ptr \<Rightarrow> 'p srd_world \<Rightarrow> 'p srd_world" where
  "srd_inst_free env p w =
     drop_inst p (free_resources env p
       (upd_inst p srd_inst_reset_state (srd_inst_join_decode_thread env p w)))"

text \<open>First all workers are asked to stop, then each is joined, then each instance freed.\<close>

definition has_thread :: "'p srd_world \<Rightarrow> inst_ptr \<Rightarrow> bool" where
  "has_thread w p = (case inst_at w p of None \<Rightarrow> False | Some di \<Rightarrow> thread_handle di)"

definition signal_stop :: "inst_ptr \<Rightarrow> 'p srd_world \<Rightarrow> 'p srd_world" where
  "signal_stop p w = (if has_thread w p then upd_inst p request_terminate w else w)"

definition join_worker :: "'p environ \<Rightarrow> inst_ptr \<Rightarrow> 'p srd_world \<Rightarrow> 'p srd_world" where
  "join_worker env p w =
     (if has_thread w p then upd_inst p (\<lambda>di. di\<lparr>thread_handle := False\<rparr>) (worker_finish env p w) else w)"

definition srd_inst_free_all :: "'p environ \<Rightarrow> sess_ptr option \<Rightarrow> 'p srd_world \<Rightarrow> 'p srd_world" where
  "srd_inst_free_all env sess w = (case sess of None \<Rightarrow> w
     | Some s \<Rightarrow> (case w_sess w s of None \<Rightarrow> w
       | Some se \<Rightarrow>
           fold (srd_inst_free env) (di_list se)
             (fold (join_worker env) (di_list se) (fold signal_stop (di_list se) w))))"

section \<open>Identifiers are unique\<close>

definition str_val :: "string \<Rightarrow> nat" where
  "str_val s = foldl (\<lambda>v c. v * 10 + (of_char c - of_char (CHR ''0''))) 0 s"

lemma digit_char_val: "d < 10 \<Longrightarrow> (of_char (digit_char d) :: nat) = 48 + d"
  by (simp add: digit_char_def)

lemma str_val_dec_str [simp]: "str_val (dec_str n) = n"
proof (induction n rule: dec_str.induct)
  case (1 n)
  then show ?case
    by (cases "n div 10 = 0") (simp_all add: dec_str.simps [of n] str_val_def digit_char_val)
qed

lemma dec_str_inj: "dec_str m = dec_str n \<Longrightarrow> m = n"
  by (metis str_val_dec_str)

text \<open>The instances a search sees: those of the session and the ones directly on top.\<close>

definition visible :: "'p srd_world \<Rightarrow> inst_ptr list \<Rightarrow> inst_ptr list" where
  "visible w ps = concat (map (\<lambda>p. p # next_of w p) ps)"

definition id_at :: "'p srd_world \<Rightarrow> inst_ptr \<Rightarrow> string option" where
  "id_at w p = map_option inst_id (inst_at w p)"

lemma has_id_at: "has_id w k p \<longleftrightarrow> id_at w p = Some k"
  by (simp add: has_id_def id_at_def split: option.split)

lemma find_in_stacks_visible:
  "find_in_stacks w k ps = find (has_id w k) (visible w ps)"
  by (induction ps)
    (auto simp: visible_def srd_inst_find_by_id_stack_def find_append split: option.split)

lemma unique_id_loop_taken:
  "unique_id_loop n taken base i = None \<Longrightarrow> j < n \<Longrightarrow> taken (base @ ''-'' @ dec_str (i + j))"
proof (induction n arbitrary: i j)
  case (Suc n)
  then have t: "taken (base @ ''-'' @ dec_str i)" "unique_id_loop n taken base (i + 1) = None"
    by (auto simp: Let_def split: if_splits)
  show ?case
  proof (cases j)
    case (Suc j')
    with Suc.IH [OF t(2), of j'] Suc.prems show ?thesis by simp
  qed (use t in simp)
qed simp

lemma unique_id_loop_free: "unique_id_loop n taken base i = Some k \<Longrightarrow> \<not> taken k"
  by (induction n arbitrary: i) (auto simp: Let_def split: if_splits)

lemma unique_id_loop_ends:
  assumes "\<And>k. taken k \<Longrightarrow> k \<in> set ids" and "length ids < n"
  shows "unique_id_loop n taken base i \<noteq> None"
proof
  assume none: "unique_id_loop n taken base i = None"
  let ?f = "\<lambda>j. base @ ''-'' @ dec_str (i + j)"
  have "?f ` {..<n} \<subseteq> set ids" using unique_id_loop_taken [OF none] assms(1) by auto
  then have "card (?f ` {..<n}) \<le> card (set ids)" by (simp add: card_mono)
  also have "\<dots> \<le> length ids" by (rule card_length)
  finally have "card (?f ` {..<n}) \<le> length ids" .
  moreover have "inj_on ?f {..<n}" by (auto simp: inj_on_def dest: dec_str_inj)
  ultimately show False using assms(2) by (simp add: card_image)
qed

text \<open>
  An instance created without an identifier gets one that no instance of the session
  and none directly on top of one had, and the search for it ends: one attempt more than
  there are such instances is enough.
\<close>

theorem new_instance_id_unique:
  assumes "w_sess w s = Some se" and "length (visible w (di_list se)) < n"
  shows "\<exists>k p w'. new_inst_id n None s (dec_id d) w = Some k
    \<and> (\<forall>q \<in> set (visible w (di_list se)). id_at w q \<noteq> Some k)
    \<and> create_c_decoder_inst n env (Some s) (Some d) None w = Some (Some p, w')"
proof -
  let ?taken = "\<lambda>k. srd_inst_find_by_id w (Some s) k \<noteq> None"
  have t: "?taken k \<longleftrightarrow> (\<exists>q \<in> set (visible w (di_list se)). id_at w q = Some k)" for k
    using assms(1) by (auto simp: srd_inst_find_by_id_def find_in_stacks_visible find_None_iff has_id_at)
  have "unique_id_loop n ?taken (dec_id d) 1 \<noteq> None"
  proof (rule unique_id_loop_ends)
    show "k \<in> set (map (\<lambda>q. the (id_at w q)) (visible w (di_list se)))" if "?taken k" for k
      using that unfolding t by force
  qed (use assms in simp)
  then obtain k where k: "unique_id_loop n ?taken (dec_id d) 1 = Some k" by blast
  from unique_id_loop_free [OF k] t have "\<forall>q \<in> set (visible w (di_list se)). id_at w q \<noteq> Some k" by blast
  moreover have "new_inst_id n None s (dec_id d) w = Some k" using k by (simp add: new_inst_id_def)
  ultimately show ?thesis by (simp add: create_c_decoder_inst_def Let_def)
qed

definition example_sess :: "inst_ptr list \<Rightarrow> srd_session" where
  "example_sess ps = \<lparr>session_id = 1, di_list = ps, sess_callbacks = [],
     ann_batch = \<lparr>ab_cb = None, ab_cb_data = 0, ab_items = [], ab_arena = [], ab_pool = [],
       ab_wrapper_installed = False, ab_mem = [], ab_next_blk = 0\<rparr>\<rparr>"

definition null_env :: "'p environ" where
  "null_env = \<lparr>c_ops = (\<lambda>_. \<lparr>cb_reset = None, cb_start = None, cb_end = None, cb_metadata = None,
       cb_destroy = None, cb_decode_upper = None\<rparr>),
     worker_run = (\<lambda>_ w. w), worker_rest = (\<lambda>_ w. w), py_rest = (\<lambda>_ w. (Py_raised None, w)),
     py_has_attr = (\<lambda>_ _ _. False), py_call_method = (\<lambda>_ _ _ w. (Py_object, w)),
     py_set_attr = (\<lambda>_ _ _ w. w), py_new_object = (\<lambda>p w. (Some p, w)), py_dec_ref = (\<lambda>_ w. w),
     py_has_options = (\<lambda>_. False), py_value = (\<lambda>_. True), py_set_options = (\<lambda>_ _ w. w)\<rparr>"

definition example_world :: "(inst_ptr \<Rightarrow> inst_ptr list) \<Rightarrow> nat \<Rightarrow> inst_ptr list \<Rightarrow> 'p srd_world" where
  "example_world stk n ps = empty_world\<lparr>
     w_insts := (\<lambda>p. if p < n then Some ((malloc0_inst blank_decoder 1)\<lparr>inst_id := ''i'' @ dec_str p,
        is_c_inst := True, c_dec_inst := Some example_c_decoder, next_di := stk p\<rparr>) else None),
     w_next_inst := n, w_sess := [1 \<mapsto> example_sess ps], w_next_sess := 2, w_sessions := [1],
     w_max_session_id := 1\<rparr>"

lemma example_world_sess [simp]: "w_sess (example_world stk n ps) = [1 \<mapsto> example_sess ps]"
  by (simp add: example_world_def)

lemma example_next_of [simp]: "next_of (example_world stk n ps) p = (if p < n then stk p else [])"
  by (simp add: next_of_def inst_at_def example_world_def)

lemma new_instance_id_unique_witness:
  "\<exists>k p w'. new_inst_id 3 None 1 ''blank'' (example_world (\<lambda>p. if p = 0 then [1] else []) 2 [0] :: unit srd_world) = Some k
    \<and> (\<forall>q \<in> {0, 1}. id_at (example_world (\<lambda>p. if p = 0 then [1] else []) 2 [0] :: unit srd_world) q \<noteq> Some k)
    \<and> create_c_decoder_inst 3 null_env (Some 1) (Some blank_decoder) None
        (example_world (\<lambda>p. if p = 0 then [1] else []) 2 [0] :: unit srd_world) = Some (Some p, w')"
proof -
  let ?w = "example_world (\<lambda>p. if p = 0 then [1] else []) 2 [0] :: unit srd_world"
  have v: "visible ?w (di_list (example_sess [0])) = [0, 1]" by (simp add: visible_def example_sess_def)
  have "w_sess ?w 1 = Some (example_sess [0])" by simp
  from new_instance_id_unique [OF this, of 3 blank_decoder null_env] show ?thesis
    unfolding v by (simp add: blank_decoder_def)
qed

section \<open>Walking the stacks\<close>

interpretation start: stack_walk
  "\<lambda>n. srd_inst_start n env" "start_visit env" next_of "\<lambda>_ _. SRD_OK" for env
  by unfold_locales (simp_all add: Let_def split: prod.split)

interpretation reset: stack_walk
  "\<lambda>n. srd_inst_terminate_reset n env" "reset_visit env" next_of "\<lambda>p w. state_of w p" for env
  by unfold_locales (simp_all add: reset_visit_def Let_def)

text \<open>Decoder code neither restacks instances nor turns one into another kind.\<close>

definition same_shape :: "'p srd_world \<Rightarrow> 'p srd_world \<Rightarrow> bool" where
  "same_shape w w' \<longleftrightarrow> next_of w' = next_of w \<and> is_c w' = is_c w"

definition keeps_shape :: "'p environ \<Rightarrow> bool" where
  "keeps_shape env \<longleftrightarrow>
     (\<forall>d f p w. cb_start (c_ops env d) = Some f \<longrightarrow> same_shape w (f p w))
     \<and> (\<forall>p m xs w. same_shape w (snd (py_call_method env p m xs w)))
     \<and> (\<forall>p m x w. same_shape w (py_set_attr env p m x w))"

lemma same_shape_refl [simp]: "same_shape w w"
  by (simp add: same_shape_def)

lemma same_shape_trans: "same_shape a b \<Longrightarrow> same_shape b c \<Longrightarrow> same_shape a c"
  by (simp add: same_shape_def)

lemma next_of_upd:
  "(\<And>di. next_di (f di) = next_di di) \<Longrightarrow> next_of (upd_inst p f w) = next_of w"
  by (auto simp: next_of_def fun_eq_iff split: option.split)

lemma is_c_upd: "(\<And>di. is_c_inst (f di) = is_c_inst di) \<Longrightarrow> is_c (upd_inst p f w) = is_c w"
  by (auto simp: is_c_def fun_eq_iff split: option.split)

lemma same_shape_start_flags: "same_shape w (upd_inst p start_flags w)"
  by (simp add: same_shape_def next_of_upd is_c_upd start_flags_def)

lemma keeps_shapeD:
  assumes "keeps_shape env"
  shows "cb_start (c_ops env d) = Some f \<Longrightarrow> same_shape w (f p w)"
    and "same_shape w (snd (py_call_method env p m xs w))" and "same_shape w (py_set_attr env p m x w)"
  using assms unfolding keeps_shape_def by blast+

lemma same_shape_call_start:
  assumes "keeps_shape env"
  shows "same_shape w (snd (call_start env p w))"
proof -
  have c: "same_shape w (snd (c_call_start env p w))"
    by (auto simp: c_call_start_def keeps_shapeD [OF assms] split: option.split)
  obtain r w1 where m: "py_call_method env p ''start'' [] w = (r, w1)" by fastforce
  have w1: "same_shape w w1" using keeps_shapeD(2) [OF assms, of w p "''start''" "[]"] m by simp
  note set_attr = keeps_shapeD(3) [OF assms, where p = p and x = 0]
  have "same_shape w (snd (py_call_start env p w))"
    unfolding py_call_start_def m
    by (cases r) (simp_all add: w1 same_shape_trans [OF same_shape_trans [OF w1 set_attr] set_attr])
  with c show ?thesis by (simp add: call_start_def split: option.split)
qed

lemma same_shape_start_visit: "keeps_shape env \<Longrightarrow> same_shape w (snd (start_visit env p w))"
  unfolding start_visit_def by (rule same_shape_trans [OF same_shape_start_flags same_shape_call_start])

text \<open>
  C15: Starting an acyclic stack returns, and is one pass over the instances in preorder: each
  instance is started before those on top of it, and the pass ends at the first instance
  whose start fails, with that error. Fuel above the height of the stack is enough.
\<close>

theorem start_in_preorder:
  assumes "keeps_shape env" and "ranked (next_of w) rk" and "rk p < n"
  shows "srd_inst_start n env p w = Some (run_all (start_visit env) (preorder n (next_of w) p) w)"
proof (rule start.walk_flat [where Q = "\<lambda>_. True"])
  show "True \<and> next_of w' = next_of v" if "start_visit env q v = (r, w')" for q v r w'
    using same_shape_start_visit [OF assms(1), of v q] that by (simp add: same_shape_def)
qed (use assms in simp_all)

lemma null_env_keeps_shape: "keeps_shape null_env"
  by (simp add: keeps_shape_def null_env_def)

lemma start_in_preorder_witness:
  "srd_inst_start 3 null_env 0 (example_world (\<lambda>p. if p = 0 then [1, 2] else []) 3 [0] :: unit srd_world) =
     Some (run_all (start_visit null_env) [0, 1, 2] (example_world (\<lambda>p. if p = 0 then [1, 2] else []) 3 [0]))"
proof -
  let ?w = "example_world (\<lambda>p. if p = 0 then [1, 2] else []) 3 [0] :: unit srd_world"
  have r: "ranked (next_of ?w) (\<lambda>p. if p = 0 then 2 else 1)" by (simp add: ranked_def)
  have "preorder 3 (next_of ?w) 0 = [0, 1, 2]" by (simp add: numeral_3_eq_3)
  with start_in_preorder [OF null_env_keeps_shape r, of 0 3] show ?thesis by simp
qed

text \<open>
  Nothing keeps an instance from being stacked on itself, or on one above it. Starting such a
  stack of C decoders never returns: no amount of fuel is enough.
\<close>

lemma start_of_cyclic_stack_never_returns:
  assumes "keeps_shape env" and "\<And>q. is_c w q" and "(p, p) \<in> (stacked (next_of w))\<^sup>+"
  shows "srd_inst_start n env p w = None"
proof (rule start.walk_cycle [where Q = "\<lambda>v. \<forall>q. is_c v q"])
  show "r = SRD_OK \<and> (\<forall>q. is_c w' q) \<and> next_of w' = next_of v"
    if "\<forall>q. is_c v q" "start_visit env q v = (r, w')" for q v r w'
  proof -
    have "same_shape v w'" using same_shape_start_visit [OF assms(1), of v q] that(2) by simp
    moreover have "is_c (upd_inst q start_flags v) q"
      using that(1) same_shape_start_flags [of v q] by (simp add: same_shape_def)
    then have "r = SRD_OK" using that(2)
      by (auto simp: start_visit_def call_start_def c_call_start_def is_c_def split: option.splits)
    ultimately show ?thesis using that(1) by (simp add: same_shape_def)
  qed
qed (use assms in simp_all)

lemma stacking_on_itself_is_accepted:
  assumes "w_sess w s = Some se" and "inst_at w p = Some di" and "is_c_inst di"
  shows "fst (srd_inst_stack (Some s) (Some p) (Some p) w) = SRD_OK
    \<and> p \<in> set (next_of (snd (srd_inst_stack (Some s) (Some p) (Some p) w)) p)"
  using assms by (simp add: srd_inst_stack_def is_c_def next_of_def)

section \<open>Channel maps and initial pins\<close>

text \<open>The number given last for the channel whose order is \<open>i\<close>, or -1.\<close>

definition assigned_channel :: "srd_decoder \<Rightarrow> (string \<times> gvariant) list \<Rightarrow> nat \<Rightarrow> int" where
  "assigned_channel dec cs i = (case find (\<lambda>(k, v). map_option ch_order (find_channel dec k) = Some (int i)) (rev cs) of
      Some (_, GV_int32 n) \<Rightarrow> n
    | _ \<Rightarrow> -1)"

lemma find_rev_Cons:
  "find f (rev (x # xs)) = (case find f (rev xs) of Some y \<Rightarrow> Some y | None \<Rightarrow> if f x then Some x else None)"
  by (simp add: find_append split: option.split)

lemma set_channels_ok:
  "set_channels dec cs cm = Some (Inr cm') \<Longrightarrow> length cm' = length cm
    \<and> (\<forall>i < length cm. cm' ! i =
        (case find (\<lambda>(k, v). map_option ch_order (find_channel dec k) = Some (int i)) (rev cs) of
           Some (_, GV_int32 n) \<Rightarrow> n | Some _ \<Rightarrow> -1 | None \<Rightarrow> cm ! i))"
proof (induction dec cs cm rule: set_channels.induct)
  case (2 dec k v cs cm)
  then obtain n c where v: "v = GV_int32 n" and c: "find_channel dec k = Some c"
    and r: "0 \<le> ch_order c" "nat (ch_order c) < length cm"
    and rest: "set_channels dec cs (cm[nat (ch_order c) := n]) = Some (Inr cm')"
    by (auto split: gvariant.splits option.splits if_splits)
  note IH = "2.IH" [OF v c _ rest]
  have IH': "length cm' = length cm
    \<and> (\<forall>i < length cm. cm' ! i =
        (case find (\<lambda>(k, v). map_option ch_order (find_channel dec k) = Some (int i)) (rev cs) of
           Some (_, GV_int32 n) \<Rightarrow> n | Some _ \<Rightarrow> -1 | None \<Rightarrow> cm[nat (ch_order c) := n] ! i))"
    using IH r by simp
  have at: "ch_order c = int i \<longleftrightarrow> i = nat (ch_order c)" for i using r(1) by auto
  show ?case
  proof (intro conjI allI impI)
    fix i assume "i < length cm"
    then show "cm' ! i = (case find (\<lambda>(k, v). map_option ch_order (find_channel dec k) = Some (int i)) (rev ((k, v) # cs)) of
           Some (_, GV_int32 n) \<Rightarrow> n | Some _ \<Rightarrow> -1 | None \<Rightarrow> cm ! i)"
      using IH' unfolding find_rev_Cons
      by (cases "find (\<lambda>(k, v). map_option ch_order (find_channel dec k) = Some (int i)) (rev cs)")
        (auto simp: c v at)
  qed (use IH' in simp)
qed simp

lemma set_channels_safe:
  assumes "\<And>c. c \<in> set (dec_channels dec @ dec_opt_channels dec) \<Longrightarrow> 0 \<le> ch_order c \<and> nat (ch_order c) < length cm"
  shows "set_channels dec cs cm \<noteq> None"
  using assms
proof (induction cs arbitrary: cm)
  case (Cons x cs)
  obtain k v where x: "x = (k, v)" by fastforce
  have "0 \<le> ch_order c \<and> nat (ch_order c) < length cm" if "find_channel dec k = Some c" for c
    using that Cons.prems [of c] by (auto simp: find_channel_def find_Some_iff split: option.splits)
  with Cons show ?case by (auto simp: x split: gvariant.split option.split)
qed simp

lemma channel_set_all_cases:
  assumes "\<And>c. c \<in> set (dec_channels (di_decoder di) @ dec_opt_channels (di_decoder di)) \<Longrightarrow>
      0 \<le> ch_order c \<and> nat (ch_order c) < dec_num_channels di"
  shows "case srd_inst_channel_set_all cs di of None \<Rightarrow> False
    | Some (r, di') \<Rightarrow>
        if r \<noteq> SRD_OK \<or> cs = [] then di' = di
        else di' = di\<lparr>dec_channelmap := Some (map (assigned_channel (di_decoder di) cs) [0..<dec_num_channels di])\<rparr>
          \<and> (\<forall>i < length (dec_channels (di_decoder di)). i < dec_num_channels di \<longrightarrow>
               assigned_channel (di_decoder di) cs i \<noteq> -1)"
proof (cases "cs = [] \<or> dec_num_channels di = 0")
  case True
  then show ?thesis by (auto simp: srd_inst_channel_set_all_def)
next
  case False
  let ?cm = "replicate (dec_num_channels di) (-1 :: int)"
  let ?A = "map (assigned_channel (di_decoder di) cs) [0..<dec_num_channels di]"
  have "set_channels (di_decoder di) cs ?cm \<noteq> None" by (rule set_channels_safe) (use assms in simp)
  then consider (err) e where "set_channels (di_decoder di) cs ?cm = Some (Inl e)"
    | (ok) cm where "set_channels (di_decoder di) cs ?cm = Some (Inr cm)" by (metis not_Some_eq sum.exhaust)
  then show ?thesis
  proof cases
    case err
    have "e \<noteq> SRD_OK" if "set_channels d cs cm = Some (Inl e)" for d cs cm
      using that by (induction d cs cm rule: set_channels.induct)
        (auto split: gvariant.splits option.splits if_splits)
    with err False show ?thesis by (simp add: srd_inst_channel_set_all_def)
  next
    case ok
    have "cm = ?A"
    proof (rule nth_equalityI)
      show "cm ! i = ?A ! i" if "i < length cm" for i
        using set_channels_ok [OF ok] that
        by (cases "find (\<lambda>(k, v). map_option ch_order (find_channel (di_decoder di) k) = Some (int i)) (rev cs)")
          (auto simp: assigned_channel_def split: gvariant.split)
    qed (use set_channels_ok [OF ok] in simp)
    moreover have "assigned_channel (di_decoder di) cs i \<noteq> -1"
      if "list_all (\<lambda>i. ?A ! i \<noteq> -1) [0..<m]" "i < m" "i < dec_num_channels di" for i m
    proof -
      have "i \<in> set [0..<m]" using that(2) by simp
      with that(1) have "?A ! i \<noteq> -1" by (auto simp: list_all_iff)
      with that(3) show ?thesis by simp
    qed
    ultimately show ?thesis using ok False by (simp add: srd_inst_channel_set_all_def)
  qed
qed

text \<open>
  C17: Setting the channels is all or nothing: with channel orders that fit the instance the
  call stays inside its array; an error leaves the instance as it was; success replaces the
  whole map, each channel having the number given for it and the others -1, and no required
  channel has -1.
\<close>

theorem channel_set_all_atomic:
  assumes "\<And>c. c \<in> set (dec_channels (di_decoder di) @ dec_opt_channels (di_decoder di)) \<Longrightarrow>
      0 \<le> ch_order c \<and> nat (ch_order c) < dec_num_channels di"
  shows "case srd_inst_channel_set_all cs di of None \<Rightarrow> False
    | Some (r, di') \<Rightarrow>
        if r \<noteq> SRD_OK \<or> cs = [] then di' = di
        else di' = di\<lparr>dec_channelmap := Some (map (assigned_channel (di_decoder di) cs) [0..<dec_num_channels di])\<rparr>
          \<and> (\<forall>i < length (dec_channels (di_decoder di)). i < dec_num_channels di \<longrightarrow>
               assigned_channel (di_decoder di) cs i \<noteq> -1)"
  by (rule channel_set_all_cases [OF assms])

lemma channel_set_all_atomic_witness:
  "case srd_inst_channel_set_all [(''clk'', GV_int32 3)]
      ((malloc0_inst (blank_decoder\<lparr>dec_channels := [\<lparr>ch_id = Some ''clk'', ch_name = None, ch_desc = None,
          ch_order = 0, ch_type = 0, ch_idn = None\<rparr>]\<rparr>) 1 :: unit srd_decoder_inst)\<lparr>dec_num_channels := 1\<rparr>) of
     None \<Rightarrow> False | Some (r, di') \<Rightarrow> r = SRD_OK \<longrightarrow> dec_channelmap di' = Some [3]"
proof -
  let ?d = "blank_decoder\<lparr>dec_channels := [\<lparr>ch_id = Some ''clk'', ch_name = None, ch_desc = None,
          ch_order = 0, ch_type = 0, ch_idn = None\<rparr>]\<rparr>"
  let ?di = "(malloc0_inst ?d 1 :: unit srd_decoder_inst)\<lparr>dec_num_channels := 1\<rparr>"
  have "c \<in> set (dec_channels (di_decoder ?di) @ dec_opt_channels (di_decoder ?di)) \<Longrightarrow>
      0 \<le> ch_order c \<and> nat (ch_order c) < dec_num_channels ?di" for c
    by (simp add: malloc0_inst_def blank_decoder_def)
  note t = channel_set_all_atomic [of ?di "[(''clk'', GV_int32 3)]", OF this]
  have "assigned_channel ?d [(''clk'', GV_int32 3)] 0 = 3"
    by (simp add: assigned_channel_def find_channel_def blank_decoder_def)
  then have "map (assigned_channel (di_decoder ?di) [(''clk'', GV_int32 3)]) [0..<dec_num_channels ?di] = [3]"
    by (simp add: malloc0_inst_def)
  with t show ?thesis
    by (cases "srd_inst_channel_set_all [(''clk'', GV_int32 3)] ?di") (simp_all split: prod.splits if_splits)
qed

text \<open>
  Initial pins are taken over as given, or refused without a change: they are accepted
  exactly when there is one for every channel and none, read as a signed byte, is above 2.
\<close>

theorem initial_pins_set_all_ok:
  assumes "\<And>arr. old_pins_array di = Some arr \<Longrightarrow> length arr = dec_num_channels di"
  shows "srd_inst_initial_pins_set_all (Some pins) di =
    (if length pins = dec_num_channels di \<and> (\<forall>v \<in> set pins. sint v \<le> 2)
     then (SRD_OK, di\<lparr>old_pins_array := Some pins\<rparr>) else (SRD_ERR_ARG, di))"
proof -
  have "update_range (length pins) (\<lambda>i _. pins ! i) arr = pins" if "length arr = length pins" for arr :: "u8 list"
    using that by (intro nth_equalityI) simp_all
  with assms show ?thesis
    by (auto simp: srd_inst_initial_pins_set_all_def list_all_iff initial_pin_ok_def oldpins_array_seed_def
        split: option.split)
qed

lemma initial_pins_set_all_ok_witness:
  "srd_inst_initial_pins_set_all (Some [1, 0]) ((malloc0_inst blank_decoder 1 :: unit srd_decoder_inst)\<lparr>dec_num_channels := 2\<rparr>)
     = (SRD_OK, (malloc0_inst blank_decoder 1)\<lparr>dec_num_channels := 2, old_pins_array := Some [1, 0]\<rparr>)"
proof -
  let ?di = "(malloc0_inst blank_decoder 1 :: unit srd_decoder_inst)\<lparr>dec_num_channels := 2\<rparr>"
  have "old_pins_array ?di = Some arr \<Longrightarrow> length arr = dec_num_channels ?di" for arr
    by (simp add: malloc0_inst_def)
  from initial_pins_set_all_ok [of ?di "[1, 0]", OF this] show ?thesis
    by (simp add: malloc0_inst_def)
qed

text \<open>
  The check compares signed bytes: 200 is no pin state, but is accepted. A required channel
  may be given any number but -1: with -2 it counts as specified and is not connected.
\<close>

lemma pin_state_200_accepted:
  "srd_inst_initial_pins_set_all (Some [200]) ((malloc0_inst blank_decoder 1 :: unit srd_decoder_inst)\<lparr>dec_num_channels := 1\<rparr>)
     = (SRD_OK, (malloc0_inst blank_decoder 1)\<lparr>dec_num_channels := 1, old_pins_array := Some [200]\<rparr>)"
  by (simp add: srd_inst_initial_pins_set_all_def initial_pin_ok_def oldpins_array_seed_def malloc0_inst_def
      update_range_def)

lemma required_channel_minus_2_accepted:
  "let d = blank_decoder\<lparr>dec_channels := [\<lparr>ch_id = Some ''clk'', ch_name = None, ch_desc = None,
          ch_order = 0, ch_type = 0, ch_idn = None\<rparr>]\<rparr>;
       di = (malloc0_inst d 1 :: unit srd_decoder_inst)\<lparr>dec_num_channels := 1\<rparr>
   in case srd_inst_channel_set_all [(''clk'', GV_int32 (-2))] di of None \<Rightarrow> False
      | Some (r, di') \<Rightarrow> r = SRD_OK \<and> \<not> c_decoder_has_channel di' 0"
  by (simp add: Let_def srd_inst_channel_set_all_def malloc0_inst_def blank_decoder_def find_channel_def
      c_decoder_has_channel_def)

section \<open>Finding\<close>

text \<open>
  A search by identifier returns the first instance with that identifier among those of
  the session and the ones directly on top of them, in this order, and NULL only if there is
  none.
\<close>

theorem find_by_id_first_two_levels:
  assumes "w_sess w s = Some se"
  shows "srd_inst_find_by_id w (Some s) k = find (\<lambda>q. id_at w q = Some k) (visible w (di_list se))"
proof -
  have "has_id w k = (\<lambda>q. id_at w q = Some k)" by (simp add: fun_eq_iff has_id_at)
  then show ?thesis using assms by (simp add: srd_inst_find_by_id_def find_in_stacks_visible)
qed

lemma char_of_digits: "char_of (48 :: nat) = CHR ''0''" "char_of (49 :: nat) = CHR ''1''" "char_of (50 :: nat) = CHR ''2''"
  by (simp_all add: char_of_def bit_numeral_rec bit_0)

lemma find_by_id_first_two_levels_witness:
  "srd_inst_find_by_id (example_world (\<lambda>p. if p = 0 then [1] else []) 2 [0] :: unit srd_world) (Some 1) ''i1'' = Some 1"
proof -
  let ?w = "example_world (\<lambda>p. if p = 0 then [1] else []) 2 [0] :: unit srd_world"
  have s: "w_sess ?w 1 = Some (example_sess [0])" by simp
  have v: "visible ?w (di_list (example_sess [0])) = [0, 1]" by (simp add: visible_def example_sess_def)
  have i: "id_at ?w 0 = Some ''i0''" "id_at ?w 1 = Some ''i1''"
    by (simp_all add: id_at_def inst_at_def example_world_def dec_str.simps digit_char_def char_of_digits)
  show ?thesis unfolding find_by_id_first_two_levels [OF s] v using i by simp
qed

text \<open>The search is documented to cover the whole stack, but does not see the third level.\<close>

lemma find_by_id_misses_third_level:
  "let w = example_world (\<lambda>p. if p < 2 then [p + 1] else []) 3 [0] :: unit srd_world
   in id_at w 2 = Some ''i2'' \<and> srd_inst_find_by_id w (Some 1) ''i2'' = None"
  by (simp add: id_at_def inst_at_def example_world_def dec_str.simps digit_char_def char_of_digits srd_inst_find_by_id_def
      example_sess_def find_in_stacks_visible visible_def next_of_def has_id_def Let_def)

section \<open>Terminating\<close>

text \<open>
  The part of an instance decoder code does not touch: all but its private data, its outputs
  and its error message.
\<close>

definition core :: "'p srd_decoder_inst \<Rightarrow> 'p srd_decoder_inst" where
  "core di = di\<lparr>user_data := None, pd_output := [], error_message := None\<rparr>"

definition core_at :: "'p srd_world \<Rightarrow> inst_ptr \<Rightarrow> 'p srd_decoder_inst option" where
  "core_at w q = map_option core (inst_at w q)"

definition fixed_fields :: "'p srd_decoder_inst \<Rightarrow> inst_ptr list \<times> bool \<times> srd_error_code" where
  "fixed_fields di = (next_di di, is_c_inst di, decoder_state di)"

definition fixed_at :: "'p srd_world \<Rightarrow> inst_ptr \<Rightarrow> (inst_ptr list \<times> bool \<times> srd_error_code) option" where
  "fixed_at w q = map_option fixed_fields (inst_at w q)"

text \<open>
  What is asked of decoder code: a worker on its way out changes the scanning state of its
  own instance only, and the reset callback that of none.
\<close>

definition well_behaved :: "'p environ \<Rightarrow> bool" where
  "well_behaved env \<longleftrightarrow>
     (\<forall>p w q. q \<noteq> p \<longrightarrow> core_at (worker_rest env p w) q = core_at w q)
     \<and> (\<forall>p w. fixed_at (worker_rest env p w) p = fixed_at w p)
     \<and> (\<forall>d f p w. cb_reset (c_ops env d) = Some f \<longrightarrow> core_at (f p w) = core_at w)"

definition c_only :: "'p srd_world \<Rightarrow> bool" where
  "c_only w \<longleftrightarrow> (\<forall>q x. fixed_at w q = Some x \<longrightarrow> fst (snd x) \<and> snd (snd x) = SRD_OK)"

text \<open>An instance ready for a new run: no worker, no chunk, nothing left of the last scan.\<close>

definition ready :: "'p srd_decoder_inst \<Rightarrow> bool" where
  "ready di \<longleftrightarrow> \<not> thread_handle di \<and> \<not> got_new_samples di \<and> \<not> handled_all_samples di
     \<and> \<not> want_wait_terminate di \<and> condition_list di = [] \<and> inbuf di = None \<and> inbuflen di = 0
     \<and> abs_start_samplenum di = 0 \<and> abs_end_samplenum di = 0 \<and> abs_cur_samplenum di = 0
     \<and> old_pins_array di = None"

definition ready_at :: "'p srd_world \<Rightarrow> inst_ptr \<Rightarrow> bool" where
  "ready_at w q \<longleftrightarrow> (case core_at w q of None \<Rightarrow> True | Some di \<Rightarrow> ready di)"

lemma ready_core: "ready (core di) = ready di"
  by (simp add: ready_def core_def)

lemma fixed_core: "fixed_fields (core di) = fixed_fields di"
  by (simp add: fixed_fields_def core_def)

lemma fixed_at_core: "fixed_at w q = map_option fixed_fields (core_at w q)"
  by (cases "inst_at w q") (simp_all add: fixed_at_def core_at_def fixed_core)

lemma core_at_upd: "q \<noteq> p \<Longrightarrow> core_at (upd_inst p f w) q = core_at w q"
  by (simp add: core_at_def)

lemma core_at_flush [simp]: "core_at (srd_ann_batch_flush s w) = core_at w"
  by (simp add: fun_eq_iff core_at_def srd_ann_batch_flush_def)

lemma fixed_at_upd:
  "(\<And>di. fixed_fields (f di) = fixed_fields di) \<Longrightarrow> fixed_at (upd_inst p f w) = fixed_at w"
  by (simp add: fun_eq_iff fixed_at_def option.map_comp comp_def)

lemma fixed_at_flush [simp]: "fixed_at (srd_ann_batch_flush s w) = fixed_at w"
  by (simp add: fun_eq_iff fixed_at_core)

lemma fixed_ops [simp]:
  "fixed_fields (request_terminate di) = fixed_fields di"
  "fixed_fields (c_di_thread_exit di) = fixed_fields di"
  "fixed_fields (di\<lparr>thread_handle := b\<rparr>) = fixed_fields di"
  by (simp_all add: fixed_fields_def request_terminate_def c_di_thread_exit_def)

text \<open>Joining a C decoder's worker.\<close>

lemma join_worker_frame:
  assumes "well_behaved env" and "c_only w"
  shows "fixed_at (srd_inst_join_decode_thread env p w) = fixed_at w"
    and "q \<noteq> p \<Longrightarrow> core_at (srd_inst_join_decode_thread env p w) q = core_at w q"
    and "map_option thread_handle (inst_at (srd_inst_join_decode_thread env p w) p) \<noteq> Some True"
proof -
  let ?w1 = "upd_inst p request_terminate w"
  let ?w2 = "worker_rest env p ?w1"
  have rest: "q \<noteq> p \<Longrightarrow> core_at ?w2 q = core_at w q" for q
    using assms(1) by (simp add: well_behaved_def core_at_upd)
  have "fixed_at ?w2 q = fixed_at w q" for q
  proof (cases "q = p")
    case True
    have "fixed_at ?w2 p = fixed_at ?w1 p" using assms(1) unfolding well_behaved_def by blast
    with True show ?thesis by (simp add: fixed_at_upd)
  qed (simp add: fixed_at_core rest)
  then have fix2: "fixed_at ?w2 = fixed_at w" by (simp add: fun_eq_iff)
  have c: "is_c_inst di" if "inst_at ?w1 p = Some di" for di
  proof -
    have "fixed_at w p = Some (fixed_fields di)"
      using that fixed_at_upd [of request_terminate p w] by (metis fixed_at_def fixed_ops(1) option.simps(9))
    with assms(2) show ?thesis by (auto simp: c_only_def fixed_fields_def)
  qed
  have fin: "srd_inst_join_decode_thread env p w = upd_inst p (\<lambda>di. di\<lparr>thread_handle := False\<rparr>)
      (upd_inst p c_di_thread_exit (srd_ann_batch_flush s ?w2))"
    if "inst_at w p = Some di" "thread_handle di" "s = di_sess (request_terminate di)" for di s
    using that c [of "request_terminate di"] by (simp add: srd_inst_join_decode_thread_def worker_finish_def)
  have none: "srd_inst_join_decode_thread env p w = w" if "map_option thread_handle (inst_at w p) \<noteq> Some True"
    using that by (cases "inst_at w p") (simp_all add: srd_inst_join_decode_thread_def)
  note cases = fin none
  show "fixed_at (srd_inst_join_decode_thread env p w) = fixed_at w"
    by (cases "map_option thread_handle (inst_at w p) = Some True") (auto simp: fin none fixed_at_upd fix2)
  show "core_at (srd_inst_join_decode_thread env p w) q = core_at w q" if "q \<noteq> p"
    by (cases "map_option thread_handle (inst_at w p) = Some True") (auto simp: fin none core_at_upd that rest)
  show "map_option thread_handle (inst_at (srd_inst_join_decode_thread env p w) p) \<noteq> Some True"
  proof (cases "map_option thread_handle (inst_at w p) = Some True")
    case True
    then show ?thesis by (auto simp: fin srd_ann_batch_flush_def split: option.split)
  qed (simp add: none)
qed

lemma next_of_fixed: "next_of w p = (case fixed_at w p of None \<Rightarrow> [] | Some x \<Rightarrow> fst x)"
  by (cases "inst_at w p") (simp_all add: next_of_def fixed_at_def fixed_fields_def)

lemma state_of_fixed: "state_of w p = (case fixed_at w p of None \<Rightarrow> SRD_OK | Some x \<Rightarrow> snd (snd x))"
  by (cases "inst_at w p") (simp_all add: state_of_def fixed_at_def fixed_fields_def)

lemma reset_state_fixed:
  "decoder_state di = SRD_OK \<Longrightarrow> fixed_fields (srd_inst_reset_state di) = fixed_fields di"
  by (simp add: fixed_fields_def srd_inst_reset_state_def oldpins_array_free_def condition_list_free_def)

lemma reset_state_ready: "\<not> thread_handle di \<Longrightarrow> ready (srd_inst_reset_state di)"
  by (simp add: ready_def srd_inst_reset_state_def oldpins_array_free_def condition_list_free_def)

text \<open>One instance of the walk: its own scan is reset, and nothing else of any other.\<close>

lemma reset_visit_frame:
  assumes wb: "well_behaved env" and c: "c_only w" and v: "reset_visit env p w = (r, w')"
  shows "r = SRD_OK" and "fixed_at w' = fixed_at w"
    and "q \<noteq> p \<Longrightarrow> core_at w' q = core_at w q" and "ready_at w' p"
proof -
  let ?w1 = "srd_inst_join_decode_thread env p w" and ?f = "srd_inst_reset_state"
  note j = join_worker_frame(1) [OF wb c, of p] join_worker_frame(2) [OF wb c, of _ p]
    join_worker_frame(3) [OF wb c, of p]
  have ok: "decoder_state di = SRD_OK" if "inst_at ?w1 p = Some di" for di
  proof -
    have "fixed_at w p = Some (fixed_fields di)" using that j(1) [THEN fun_cong, of p] by (simp add: fixed_at_def)
    with c show ?thesis by (auto simp: c_only_def fixed_fields_def)
  qed
  have f2: "fixed_at (upd_inst p ?f ?w1) = fixed_at w"
  proof
    fix q
    show "fixed_at (upd_inst p ?f ?w1) q = fixed_at w q"
    proof (cases "q = p")
      case True
      with ok j(1) [THEN fun_cong, of p] show ?thesis
        by (cases "inst_at ?w1 p") (simp_all add: fixed_at_def reset_state_fixed)
    next
      case False
      with j(1) [THEN fun_cong, of q] show ?thesis by (simp add: fixed_at_def)
    qed
  qed
  have w': "core_at w' = core_at (upd_inst p ?f ?w1)" and r: "r = SRD_OK"
  proof -
    have "core_at (call_reset env p (upd_inst p ?f ?w1)) = core_at (upd_inst p ?f ?w1)"
    proof (cases "inst_at (upd_inst p ?f ?w1) p")
      case None
      then show ?thesis by (simp add: call_reset_def del: inst_at_upd_inst)
    next
      case (Some di)
      then have "fixed_at (upd_inst p ?f ?w1) p = Some (fixed_fields di)"
        by (simp add: fixed_at_def del: inst_at_upd_inst)
      then have "fixed_at w p = Some (fixed_fields di)" by (simp add: f2)
      with c have "is_c_inst di" by (auto simp: c_only_def fixed_fields_def)
      with Some wb show ?thesis
        by (auto simp: call_reset_def c_call_reset_def well_behaved_def simp del: inst_at_upd_inst split: option.split)
    qed
    with v show "core_at w' = core_at (upd_inst p ?f ?w1)" "r = SRD_OK" by (simp_all add: reset_visit_def)
  qed
  show "r = SRD_OK" by (rule r)
  show "fixed_at w' = fixed_at w" using w' f2 by (simp add: fun_eq_iff fixed_at_core)
  show "core_at w' q = core_at w q" if "q \<noteq> p" using that w' j(2) by (simp add: core_at_upd)
  show "ready_at w' p"
  proof (cases "inst_at ?w1 p")
    case (Some di)
    with j(3) have "\<not> thread_handle di" by simp
    with Some show ?thesis by (simp add: ready_at_def w' core_at_def ready_core reset_state_ready)
  qed (simp add: ready_at_def w' core_at_def)
qed

lemma c_only_cong: "fixed_at w' = fixed_at w \<Longrightarrow> c_only w' = c_only w"
  by (simp only: c_only_def)

lemma reset_run_ready:
  assumes wb: "well_behaved env" and "c_only w" and "run_all (reset_visit env) ps w = (r, w')"
  shows "r = SRD_OK \<and> fixed_at w' = fixed_at w \<and> (\<forall>q. q \<notin> set ps \<longrightarrow> core_at w' q = core_at w q)
    \<and> (\<forall>q. q \<in> set ps \<or> ready_at w q \<longrightarrow> ready_at w' q)"
  using assms(2,3)
proof (induction ps arbitrary: w)
  case (Cons p ps)
  obtain r1 w1 where v: "reset_visit env p w = (r1, w1)" by fastforce
  note fr = reset_visit_frame [OF wb Cons.prems(1) v]
  have c1: "c_only w1" using Cons.prems(1) c_only_cong [OF fr(2)] by simp
  have "run_all (reset_visit env) ps w1 = (r, w')" using Cons.prems(2) v fr(1) by simp
  note IH = Cons.IH [OF c1 this]
  have "ready_at w1 q" if "ready_at w q" for q
    using that fr(3,4) by (cases "q = p") (simp_all add: ready_at_def)
  with IH fr show ?case by auto
qed simp

text \<open>
  C16: Where all instances are C decoders, terminating an acyclic stack of them returns SRD_OK
  and puts every instance of the stack into the state \<open>ready\<close>: its worker is joined, no
  chunk, condition or termination request is pending, the sample numbers are 0, and the
  array of previous pins is freed, to be seeded by the first scan of the next run. What
  the reset does not touch is not in \<open>ready\<close>: \<open>is_task_stop_signal\<close> stays set and
  \<open>inbuf_const\<close> keeps its value. The decoder state of the instances is SRD_OK, as it is
  for every C decoder: only the thread of a Python decoder sets it to an error.
\<close>

theorem terminate_reset_makes_ready:
  assumes wb: "well_behaved env" and c: "c_only w" and rk: "ranked (next_of w) rk" and n: "rk p < n"
  shows "\<exists>w'. srd_inst_terminate_reset n env p w = Some (SRD_OK, w')
    \<and> (\<forall>q. (p, q) \<in> (stacked (next_of w))\<^sup>* \<longrightarrow> ready_at w' q)"
proof -
  have flat: "srd_inst_terminate_reset n env p w =
      Some (run_all (reset_visit env) (preorder n (next_of w) p) w)"
  proof (rule reset.walk_flat [where Q = c_only])
    show "c_only w' \<and> next_of w' = next_of v" if "c_only v" "reset_visit env q v = (r, w')" for q v r w'
      using reset_visit_frame(2) [OF wb that] that(1) c_only_cong by (auto simp: fun_eq_iff next_of_fixed)
    show "state_of v q = SRD_OK" if "c_only v" for q v
      using that by (auto simp: state_of_fixed c_only_def split: option.split)
  qed (use assms in auto)
  obtain r w' where run: "run_all (reset_visit env) (preorder n (next_of w) p) w = (r, w')" by fastforce
  from reset_run_ready [OF wb c run] have "r = SRD_OK"
    "\<forall>q \<in> set (preorder n (next_of w) p). ready_at w' q" by blast+
  with flat run preorder_complete [OF rk n] show ?thesis by auto
qed

lemma null_env_well_behaved: "well_behaved null_env"
  by (simp add: well_behaved_def null_env_def)

lemma example_fixed: "fixed_at (example_world stk n ps) q = (if q < n then Some (stk q, True, SRD_OK) else None)"
  by (simp add: fixed_at_def inst_at_def example_world_def fixed_fields_def malloc0_inst_def)

lemma terminate_reset_makes_ready_witness:
  "\<exists>w'. srd_inst_terminate_reset 2 null_env 0 (example_world (\<lambda>p. if p = 0 then [1] else []) 2 [0] :: unit srd_world)
      = Some (SRD_OK, w') \<and> ready_at w' 1"
proof -
  let ?w = "example_world (\<lambda>p. if p = 0 then [1] else []) 2 [0] :: unit srd_world"
  have c: "c_only ?w" by (simp add: c_only_def example_fixed)
  have r: "ranked (next_of ?w) (\<lambda>p. if p = 0 then 1 else 0)" by (simp add: ranked_def)
  have "(0, 1) \<in> stacked (next_of ?w)" by (simp add: stacked_def)
  then have "(0, 1) \<in> (stacked (next_of ?w))\<^sup>*" by (rule r_into_rtrancl)
  with terminate_reset_makes_ready [OF null_env_well_behaved c r, of 0 2] show ?thesis by auto
qed

section \<open>Freeing\<close>

text \<open>Decoder code neither creates nor frees instances.\<close>

definition keeps_instances :: "'p environ \<Rightarrow> bool" where
  "keeps_instances env \<longleftrightarrow>
     (\<forall>p w q. inst_at (worker_rest env p w) q = None \<longleftrightarrow> inst_at w q = None)
     \<and> (\<forall>p w q. inst_at (snd (py_rest env p w)) q = None \<longleftrightarrow> inst_at w q = None)
     \<and> (\<forall>p w q. inst_at (py_dec_ref env p w) q = None \<longleftrightarrow> inst_at w q = None)
     \<and> (\<forall>d f p w q. cb_destroy (c_ops env d) = Some f \<longrightarrow> (inst_at (f p w) q = None \<longleftrightarrow> inst_at w q = None))"

definition allocated :: "'p srd_world \<Rightarrow> inst_ptr set" where
  "allocated w = {q. inst_at w q \<noteq> None}"

lemma allocated_upd [simp]: "allocated (upd_inst p f w) = allocated w"
  by (auto simp: allocated_def)

lemma allocated_flush [simp]: "allocated (srd_ann_batch_flush s w) = allocated w"
  by (simp add: allocated_def srd_ann_batch_flush_def)

lemma keeps_instancesD:
  assumes "keeps_instances env"
  shows "allocated (worker_rest env p w) = allocated w"
    and "allocated (snd (py_rest env p w)) = allocated w"
    and "allocated (py_dec_ref env p w) = allocated w"
    and "cb_destroy (c_ops env d) = Some f \<Longrightarrow> allocated (f p w) = allocated w"
  using assms by (simp_all add: keeps_instances_def allocated_def)

lemma allocated_finish: "keeps_instances env \<Longrightarrow> allocated (worker_finish env p w) = allocated w"
  using keeps_instancesD(2) [of env p w]
  by (cases "py_rest env p w") (simp add: worker_finish_def keeps_instancesD split: option.split)

lemma allocated_join: "keeps_instances env \<Longrightarrow> allocated (srd_inst_join_decode_thread env p w) = allocated w"
  by (simp add: srd_inst_join_decode_thread_def allocated_finish split: option.split)

lemma allocated_free_resources: "keeps_instances env \<Longrightarrow> allocated (free_resources env p w) = allocated w"
  by (auto simp: free_resources_def c_free_resources_def Let_def keeps_instancesD split: option.split)

lemma allocated_drop: "allocated (drop_inst p w) = allocated w - {p}"
  by (auto simp: allocated_def drop_inst_def inst_at_def)

lemma allocated_free: "keeps_instances env \<Longrightarrow> allocated (srd_inst_free env p w) = allocated w - {p}"
  by (simp add: srd_inst_free_def allocated_drop allocated_free_resources allocated_join)

lemma allocated_fold:
  assumes "\<And>p w. allocated (f p w) = allocated w - g p"
  shows "allocated (fold f ps w) = allocated w - \<Union> (g ` set ps)"
  by (induction ps arbitrary: w) (auto simp: assms)

lemma free_all_list:
  assumes "keeps_instances env" and "w_sess w s = Some se"
  shows "allocated (srd_inst_free_all env (Some s) w) = allocated w - set (di_list se)"
proof -
  have sig: "allocated (fold signal_stop (di_list se) w) = allocated w"
  proof -
    have "allocated (signal_stop p v) = allocated v - {}" for p and v :: "'a srd_world" by (simp add: signal_stop_def)
    from allocated_fold [of signal_stop "\<lambda>_. {}", OF this] show ?thesis by simp
  qed
  have join: "allocated (fold (join_worker env) (di_list se) v) = allocated v" for v
    using allocated_fold [of "join_worker env" "\<lambda>_. {}" "di_list se" v]
    by (simp add: join_worker_def allocated_finish assms(1))
  show ?thesis
    using allocated_fold [of "srd_inst_free env" "\<lambda>p. {p}", OF allocated_free [OF assms(1)]] assms(2)
    by (simp add: srd_inst_free_all_def join sig)
qed

text \<open>
  Freeing the instances of a session frees exactly those in its list. Instances stacked
  on them, which stacking took out of the list, stay allocated.
\<close>

theorem free_all_frees_the_list:
  assumes "keeps_instances env" and "w_sess w s = Some se"
  shows "allocated (srd_inst_free_all env (Some s) w) = allocated w - set (di_list se)"
  using assms by (rule free_all_list)

lemma null_env_keeps_instances: "keeps_instances null_env"
  by (simp add: keeps_instances_def null_env_def)

lemma free_all_frees_the_list_witness:
  "allocated (srd_inst_free_all null_env (Some 1) (example_world (\<lambda>p. if p = 0 then [1] else []) 2 [0] :: unit srd_world)) = {1}"
proof -
  let ?w = "example_world (\<lambda>p. if p = 0 then [1] else []) 2 [0] :: unit srd_world"
  have s: "w_sess ?w 1 = Some (example_sess [0])" by simp
  have "allocated ?w = {0, 1}" by (auto simp: allocated_def inst_at_def example_world_def)
  with free_all_frees_the_list [OF null_env_keeps_instances s] show ?thesis by (auto simp: example_sess_def)
qed

lemma stacked_instance_survives_free_all:
  assumes "keeps_instances env" and "w_sess w s = Some se" and "distinct (di_list se)"
    and "inst_at w b = Some db" and "inst_at w t = Some dt" and "is_c_inst db" and "is_c_inst dt"
    and stk: "srd_inst_stack (Some s) (Some b) (Some t) w = (r, w1)"
  shows "t \<in> allocated (srd_inst_free_all env (Some s) w1)"
proof -
  have w1: "w1 = upd_inst b (\<lambda>di. di\<lparr>next_di := next_di di @ [t]\<rparr>)
      (upd_sess s (\<lambda>se. se\<lparr>di_list := remove1 t (di_list se)\<rparr>) w)"
    using stk assms(4-7) by (simp add: srd_inst_stack_def is_c_def)
  have "w_sess w1 s = Some (se\<lparr>di_list := remove1 t (di_list se)\<rparr>)" using assms(2) by (simp add: w1)
  note fr = free_all_list [OF assms(1) this]
  have "t \<in> allocated w1" using assms(5) by (simp add: w1) (simp add: allocated_def)
  moreover have "t \<notin> set (remove1 t (di_list se))" using assms(3) by simp
  ultimately show ?thesis unfolding fr by simp
qed

text \<open>Nor does it empty the list: the session keeps pointers to the freed instances.\<close>

lemma free_all_leaves_dangling_list:
  "let w = srd_inst_free_all null_env (Some 1) (example_world (\<lambda>_. []) 1 [0] :: unit srd_world)
   in map_option di_list (w_sess w 1) = Some [0] \<and> inst_at w 0 = None"
  by (simp add: srd_inst_free_all_def example_sess_def signal_stop_def join_worker_def has_thread_def
      example_world_def inst_at_def malloc0_inst_def srd_inst_free_def srd_inst_join_decode_thread_def
      upd_inst_def drop_inst_def free_resources_def c_free_resources_def null_env_def Let_def
      srd_inst_reset_state_def oldpins_array_free_def condition_list_free_def)

section \<open>Options\<close>

text \<open>
  Options are documented to leave the table once handled; a C instance takes them over and
  leaves the table as it is. A Python decoder without options refuses a missing table, which
  the documentation of \<open>srd_inst_new\<close> allows.
\<close>

lemma c_instance_keeps_option_table:
  "is_c w p \<Longrightarrow> fst (snd (srd_inst_option_set env (Some p) (Some t) w)) = Some t"
  by (simp add: srd_inst_option_set_def)

lemma python_instance_without_options_refuses_null:
  assumes "inst_at w p = Some di" and "\<not> py_has_options env (di_decoder di)"
  shows "fst (py_option_set env p None w) = SRD_ERR_ARG"
  using assms by (simp add: py_option_set_def)

end
