(* ===== verification/Session.thy ===== *)
theory Session
  imports Instance
begin

text \<open>
  session.c, and of decoder.c and srd.c what starts and ends the library: sessions and their
  callbacks, starting, feeding, terminating, ending and destroying them, unloading decoders,
  and the search paths set up by \<^verbatim>\<open>srd_init\<close>.
\<close>

section \<open>Sessions\<close>

definition blank_batch :: srd_ann_batch_state where
  "blank_batch = \<lparr>ab_cb = None, ab_cb_data = 0, ab_items = [], ab_arena = [], ab_pool = [],
     ab_wrapper_installed = False, ab_mem = [], ab_next_blk = 0\<rparr>"

definition srd_session_new :: "'p srd_world \<Rightarrow> (srd_error_code \<times> sess_ptr) \<times> 'p srd_world" where
  "srd_session_new w =
     (let p = w_next_sess w; n = w_max_session_id w + 1;
          se = \<lparr>session_id = n, di_list = [], sess_callbacks = [], ann_batch = srd_ann_batch_init blank_batch\<rparr>
      in ((SRD_OK, p), w\<lparr>w_max_session_id := n, w_sess := (w_sess w)(p \<mapsto> se),
            w_next_sess := p + 1, w_sessions := w_sessions w @ [p]\<rparr>))"

definition srd_session_inst_list_get :: "'p srd_world \<Rightarrow> sess_ptr option \<Rightarrow> inst_ptr list" where
  "srd_session_inst_list_get w sess = (case sess of None \<Rightarrow> []
     | Some s \<Rightarrow> (case w_sess w s of None \<Rightarrow> [] | Some se \<Rightarrow> di_list se))"

definition srd_session_callbacks_get :: "'p srd_world \<Rightarrow> sess_ptr option \<Rightarrow> srd_pd_callback list" where
  "srd_session_callbacks_get w sess = (case sess of None \<Rightarrow> []
     | Some s \<Rightarrow> (case w_sess w s of None \<Rightarrow> [] | Some se \<Rightarrow> sess_callbacks se))"

text \<open>The loops over the instances of a session; without a session they are refused.\<close>

definition srd_session_start ::
    "nat \<Rightarrow> 'p environ \<Rightarrow> sess_ptr option \<Rightarrow> 'p srd_world \<Rightarrow> (srd_error_code \<times> 'p srd_world) option" where
  "srd_session_start n env sess w =
     (if sess = None then Some (SRD_ERR_ARG, w)
      else for_each (srd_inst_start n env) (srd_session_inst_list_get w sess) w)"

section \<open>Metadata\<close>

definition SRD_CONF_SAMPLERATE :: int where "SRD_CONF_SAMPLERATE = 10000"
definition SRD_CONF_CAPTURE_SAMPLES :: int where "SRD_CONF_CAPTURE_SAMPLES = 10001"

definition known_key :: "int \<Rightarrow> bool" where
  "known_key key \<longleftrightarrow> key = SRD_CONF_SAMPLERATE \<or> key = SRD_CONF_CAPTURE_SAMPLES"

definition meta_visit :: "'p environ \<Rightarrow> int \<Rightarrow> u64 \<Rightarrow> inst_ptr \<Rightarrow> 'p srd_world \<Rightarrow> srd_error_code \<times> 'p srd_world" where
  "meta_visit env key v p w =
     (let (err, w1) = extract_error p (call_metadata env p key v w)
      in if err \<noteq> None then (SRD_ERR_TERM_REQ, w1) else (SRD_OK, w1))"

text \<open>\<open>data\<close> is the value as an unsigned integer, 0 for a NULL variant.\<close>

primrec srd_inst_send_meta ::
    "nat \<Rightarrow> 'p environ \<Rightarrow> int \<Rightarrow> u64 \<Rightarrow> inst_ptr \<Rightarrow> 'p srd_world \<Rightarrow> (srd_error_code \<times> 'p srd_world) option" where
  "srd_inst_send_meta 0 env key data = (\<lambda>p w. None)"
| "srd_inst_send_meta (Suc n) env key data = (\<lambda>p w.
     (if \<not> known_key key then Some (SRD_OK, w)
      else let (ret, w1) = meta_visit env key data p w
           in if ret \<noteq> SRD_OK then Some (ret, w1)
              else case for_each (srd_inst_send_meta n env key data) (next_of w1 p) w1 of
                  None \<Rightarrow> None
                | Some (ret, w2) \<Rightarrow> if ret \<noteq> SRD_OK then Some (ret, w2) else Some (SRD_OK, w2)))"

definition srd_session_metadata_set ::
    "nat \<Rightarrow> 'p environ \<Rightarrow> sess_ptr option \<Rightarrow> int \<Rightarrow> gvariant option \<Rightarrow> 'p srd_world \<Rightarrow>
     (srd_error_code \<times> 'p srd_world) option" where
  "srd_session_metadata_set n env sess key data w =
     (if sess = None \<or> key = 0 then Some (SRD_ERR_ARG, w)
      else case data of
          None \<Rightarrow> Some (SRD_ERR_ARG, w)
        | Some v \<Rightarrow>
            if \<not> known_key key then Some (SRD_ERR_ARG, w)
            else (case v of
                GV_uint64 x \<Rightarrow> for_each (srd_inst_send_meta n env key x) (srd_session_inst_list_get w sess) w
              | _ \<Rightarrow> Some (SRD_ERR_ARG, w)))"

section \<open>Feeding, terminating, ending\<close>

fun send_loop ::
    "'p environ \<Rightarrow> sample_chunk \<Rightarrow> inst_ptr list \<Rightarrow> 'p srd_world \<Rightarrow>
     (srd_error_code \<times> string option) \<times> 'p srd_world" where
  "send_loop env ck [] w = ((SRD_OK, None), w)"
| "send_loop env ck (p # ps) w =
     (let ((ret, msg), w1) = srd_inst_decode env ck p w
      in if ret \<noteq> SRD_OK then ((ret, msg), w1) else send_loop env ck ps w1)"

definition srd_session_send ::
    "'p environ \<Rightarrow> sess_ptr option \<Rightarrow> sample_chunk \<Rightarrow> 'p srd_world \<Rightarrow>
     (srd_error_code \<times> string option) \<times> 'p srd_world" where
  "srd_session_send env sess ck w =
     (if sess = None then ((SRD_ERR_ARG, None), w)
      else send_loop env ck (srd_session_inst_list_get w sess) w)"

definition srd_session_terminate_reset ::
    "nat \<Rightarrow> 'p environ \<Rightarrow> sess_ptr option \<Rightarrow> 'p srd_world \<Rightarrow> (srd_error_code \<times> 'p srd_world) option" where
  "srd_session_terminate_reset n env sess w =
     (if sess = None then Some (SRD_ERR_ARG, w)
      else for_each (srd_inst_terminate_reset n env) (srd_session_inst_list_get w sess) w)"

text \<open>An error below the first level of the stack is turned into SRD_ERR_PYTHON.\<close>

primrec srd_call_sub_decoder_end ::
    "nat \<Rightarrow> 'p environ \<Rightarrow> inst_ptr \<Rightarrow> 'p srd_world \<Rightarrow> (srd_error_code \<times> 'p srd_world) option" where
  "srd_call_sub_decoder_end 0 env = (\<lambda>p w. None)"
| "srd_call_sub_decoder_end (Suc n) env = (\<lambda>p w. for_each (\<lambda>q v.
     (let (ret, v1) = call_end env q v
      in if ret \<noteq> SRD_OK then Some (ret, v1)
         else if next_of v1 q \<noteq> []
         then (case srd_call_sub_decoder_end n env q v1 of
             None \<Rightarrow> None
           | Some (ret, v2) \<Rightarrow> if ret \<noteq> SRD_OK then Some (SRD_ERR_PYTHON, v2) else Some (SRD_OK, v2))
         else Some (SRD_OK, v1))) (next_of w p) w)"

definition srd_session_end ::
    "nat \<Rightarrow> 'p environ \<Rightarrow> sess_ptr option \<Rightarrow> 'p srd_world \<Rightarrow> (srd_error_code \<times> 'p srd_world) option" where
  "srd_session_end n env sess w =
     (if srd_session_inst_list_get w sess = [] then Some (SRD_ERR, w)
      else for_each (\<lambda>p v.
        (let (ret, v1) = call_end env p v
         in if ret \<noteq> SRD_OK then Some (ret, v1)
            else if next_of v1 p \<noteq> [] then srd_call_sub_decoder_end n env p v1
            else Some (SRD_OK, v1))) (srd_session_inst_list_get w sess) w)"

definition srd_session_destroy ::
    "'p environ \<Rightarrow> sess_ptr option \<Rightarrow> 'p srd_world \<Rightarrow> srd_error_code \<times> 'p srd_world" where
  "srd_session_destroy env sess w = (case sess of None \<Rightarrow> (SRD_ERR_ARG, w)
     | Some s \<Rightarrow>
         (let w1 = w\<lparr>w_sessions := remove1 s (w_sessions w)\<rparr>;
              w2 = (if srd_session_inst_list_get w1 sess \<noteq> [] then srd_inst_free_all env sess w1 else w1);
              w3 = srd_ann_batch_flush s w2;
              w4 = on_batch srd_ann_batch_destroy s w3
          in (SRD_OK, w4\<lparr>w_sess := (w_sess w4)(s := None)\<rparr>)))"

section \<open>Callbacks\<close>

definition srd_pd_output_callback_add ::
    "sess_ptr option \<Rightarrow> srd_output_type \<Rightarrow> nat \<Rightarrow> nat \<Rightarrow> 'p srd_world \<Rightarrow> srd_error_code \<times> 'p srd_world" where
  "srd_pd_output_callback_add sess ty cb data w = (case sess of None \<Rightarrow> (SRD_ERR_ARG, w)
     | Some s \<Rightarrow> (SRD_OK, upd_sess s (\<lambda>se. se\<lparr>sess_callbacks := sess_callbacks se @
         [\<lparr>cb_output_type = ty, cb_cb = Frontend_cb cb, cb_cb_data = data\<rparr>]\<rparr>) w))"

text \<open>The library's wrapper is put in front, once; \<open>cb_data\<close> of it is the session.\<close>

definition install_wrapper :: "sess_ptr \<Rightarrow> srd_session \<Rightarrow> srd_session" where
  "install_wrapper s se =
     (if ab_wrapper_installed (ann_batch se) then se
      else se\<lparr>sess_callbacks := \<lparr>cb_output_type = SRD_OUTPUT_ANN, cb_cb = Ann_batch_callback_wrapper,
             cb_cb_data = s\<rparr> # sess_callbacks se,
           ann_batch := (ann_batch se)\<lparr>ab_wrapper_installed := True\<rparr>\<rparr>)"

definition srd_pd_output_callback_add_batch ::
    "sess_ptr option \<Rightarrow> srd_output_type \<Rightarrow> nat option \<Rightarrow> nat \<Rightarrow> 'p srd_world \<Rightarrow>
     srd_error_code \<times> 'p srd_world" where
  "srd_pd_output_callback_add_batch sess ty cb data w = (case sess of None \<Rightarrow> (SRD_ERR_ARG, w)
     | Some s \<Rightarrow>
         if cb = None then (SRD_ERR_ARG, w)
         else if ty \<noteq> SRD_OUTPUT_ANN then (SRD_ERR_ARG, w)
         else (SRD_OK, upd_sess s (\<lambda>se. install_wrapper s
                (se\<lparr>ann_batch := (ann_batch se)\<lparr>ab_cb := cb, ab_cb_data := data\<rparr>\<rparr>)) w))"

definition srd_pd_output_callback_find :: "srd_output_type \<Rightarrow> srd_session \<Rightarrow> srd_pd_callback option" where
  "srd_pd_output_callback_find ty se = find (\<lambda>c. cb_output_type c = ty) (sess_callbacks se)"

section \<open>Library start and end\<close>

text \<open>
  What \<open>srd_init\<close> learns from outside: the directory built in, GLib's data directories, the
  environment variable, the file tests, and whether Python comes up and takes a path.
\<close>

record init_environ =
  decoders_dir :: "string option"
  system_data_dirs :: "string list"
  user_data_dir :: string
  env_sigrokdecode_dir :: "string option"
  decdir_of :: "string \<Rightarrow> string"
  is_dir :: "string \<Rightarrow> bool"
  python_starts :: bool
  python_takes_path :: "string \<Rightarrow> bool"

definition srd_decoder_searchpath_add ::
    "init_environ \<Rightarrow> string \<Rightarrow> 'p srd_world \<Rightarrow> srd_error_code \<times> 'p srd_world" where
  "srd_decoder_searchpath_add x path w =
     (if python_takes_path x path then (SRD_OK, w\<lparr>w_searchpaths := path # w_searchpaths w\<rparr>)
      else (SRD_ERR_PYTHON, w))"

definition searchpath_add_xdg_dir ::
    "init_environ \<Rightarrow> string \<Rightarrow> 'p srd_world \<Rightarrow> srd_error_code \<times> 'p srd_world" where
  "searchpath_add_xdg_dir x datadir w =
     (let decdir = decdir_of x datadir
      in if is_dir x decdir then srd_decoder_searchpath_add x decdir w else (SRD_OK, w))"

fun and_then :: "srd_error_code \<times> 'w \<Rightarrow> ('w \<Rightarrow> srd_error_code \<times> 'w) \<Rightarrow> srd_error_code \<times> 'w" where
  "and_then (r, w) f = (if r \<noteq> SRD_OK then (r, w) else f w)"

definition add_opt :: "init_environ \<Rightarrow> string option \<Rightarrow> 'p srd_world \<Rightarrow> srd_error_code \<times> 'p srd_world" where
  "add_opt x path w = (case path of None \<Rightarrow> (SRD_OK, w) | Some p \<Rightarrow> srd_decoder_searchpath_add x p w)"

definition add_default_dirs :: "init_environ \<Rightarrow> 'p srd_world \<Rightarrow> srd_error_code \<times> 'p srd_world" where
  "add_default_dirs x w =
     and_then (run_all (searchpath_add_xdg_dir x) (rev (system_data_dirs x)) w) (\<lambda>w1.
       and_then (searchpath_add_xdg_dir x (user_data_dir x) w1) (\<lambda>w2.
         add_opt x (env_sigrokdecode_dir x) w2))"

definition srd_init :: "init_environ \<Rightarrow> string option \<Rightarrow> 'p srd_world \<Rightarrow> srd_error_code \<times> 'p srd_world" where
  "srd_init x path w =
     (if w_max_session_id w \<noteq> -1 then (SRD_ERR, w)
      else if \<not> python_starts x then (SRD_ERR_PYTHON, w)
      else and_then (add_opt x (decoders_dir x) w) (\<lambda>w1.
        and_then (case path of Some p \<Rightarrow> srd_decoder_searchpath_add x p w1 | None \<Rightarrow> add_default_dirs x w1)
          (\<lambda>w2. (SRD_OK, w2\<lparr>w_max_session_id := 0\<rparr>))))"

definition srd_searchpaths_get :: "'p srd_world \<Rightarrow> string list" where
  "srd_searchpaths_get w = w_searchpaths w"

text \<open>
  Unloading a decoder frees the instances of every session first. A decoder is compared by
  its address; the decoders of the list are taken to be distinct.
\<close>

definition srd_decoder_unload ::
    "'p environ \<Rightarrow> srd_decoder option \<Rightarrow> 'p srd_world \<Rightarrow> srd_error_code \<times> 'p srd_world" where
  "srd_decoder_unload env dec w =
     (if \<not> srd_check_init w then (SRD_ERR, w)
      else case dec of None \<Rightarrow> (SRD_ERR_ARG, w)
        | Some d \<Rightarrow>
            (let w1 = fold (\<lambda>s. srd_inst_free_all env (Some s)) (w_sessions w) w
             in (SRD_OK, w1\<lparr>w_pd_list := remove1 d (w_pd_list w1)\<rparr>)))"

definition srd_decoder_unload_all :: "'p environ \<Rightarrow> 'p srd_world \<Rightarrow> srd_error_code \<times> 'p srd_world" where
  "srd_decoder_unload_all env w =
     (let w1 = fold (\<lambda>d. snd \<circ> srd_decoder_unload env (Some d)) (w_pd_list w) w
      in (SRD_OK, w1\<lparr>w_pd_list := []\<rparr>))"

definition srd_exit :: "'p environ \<Rightarrow> 'p srd_world \<Rightarrow> srd_error_code \<times> 'p srd_world" where
  "srd_exit env w =
     (let w1 = (fold (\<lambda>s. snd \<circ> srd_session_destroy env (Some s)) (w_sessions w) w)\<lparr>w_sessions := []\<rparr>;
          w2 = snd (srd_decoder_unload_all env w1);
          w3 = w2\<lparr>w_dll := snd (srd_c_dll_registry_cleanup (w_dll w2))\<rparr>
      in (SRD_OK, w3\<lparr>w_searchpaths := [], w_max_session_id := -1\<rparr>))"

section \<open>The search path\<close>

lemma searchpath_add_ok:
  "srd_decoder_searchpath_add x p w = (SRD_OK, w') \<longleftrightarrow>
     python_takes_path x p \<and> w' = w\<lparr>w_searchpaths := p # w_searchpaths w\<rparr>"
  by (auto simp: srd_decoder_searchpath_add_def)

lemma add_opt_ok:
  "add_opt x p w = (SRD_OK, w') \<Longrightarrow> w_searchpaths w' = (case p of None \<Rightarrow> [] | Some d \<Rightarrow> [d]) @ w_searchpaths w"
  by (auto simp: add_opt_def searchpath_add_ok split: option.splits)

definition existing :: "init_environ \<Rightarrow> string list \<Rightarrow> string list" where
  "existing x ds = filter (is_dir x) (map (decdir_of x) ds)"

lemma add_xdg_ok:
  "searchpath_add_xdg_dir x d w = (SRD_OK, w') \<Longrightarrow> w_searchpaths w' = existing x [d] @ w_searchpaths w"
  by (auto simp: searchpath_add_xdg_dir_def existing_def Let_def searchpath_add_ok split: if_splits)

lemma add_xdgs_ok:
  "run_all (searchpath_add_xdg_dir x) ds w = (SRD_OK, w') \<Longrightarrow>
     w_searchpaths w' = rev (existing x ds) @ w_searchpaths w"
proof (induction ds arbitrary: w)
  case (Cons d ds)
  obtain r w1 where d: "searchpath_add_xdg_dir x d w = (r, w1)" by fastforce
  with Cons.prems have r: "r = SRD_OK" "run_all (searchpath_add_xdg_dir x) ds w1 = (SRD_OK, w')"
    by (auto split: if_splits)
  with add_xdg_ok [of x d w w1] d Cons.IH [OF r(2)] show ?case by (simp add: existing_def)
qed (simp add: existing_def)

lemma and_then_ok:
  assumes "and_then y f = (SRD_OK, w')"
  obtains v where "y = (SRD_OK, v)" and "f v = (SRD_OK, w')"
  using assms by (cases y) (auto split: if_splits)

text \<open>
  After a successful initialisation the search path starts with the environment's
  directory, then the user's, then the system's in the order GLib lists them, each only if it
  exists, and last the built-in one; a path given by the caller replaces all of these but the
  built-in one.
\<close>

theorem init_search_order:
  assumes "srd_init x path w = (SRD_OK, w')"
  shows "w_max_session_id w' = 0 \<and> srd_searchpaths_get w' =
    (case path of Some p \<Rightarrow> [p]
       | None \<Rightarrow> (case env_sigrokdecode_dir x of None \<Rightarrow> [] | Some d \<Rightarrow> [d])
           @ existing x [user_data_dir x] @ existing x (system_data_dirs x))
    @ (case decoders_dir x of None \<Rightarrow> [] | Some d \<Rightarrow> [d]) @ w_searchpaths w"
proof -
  have "and_then (add_opt x (decoders_dir x) w) (\<lambda>w1.
      and_then (case path of Some p \<Rightarrow> srd_decoder_searchpath_add x p w1 | None \<Rightarrow> add_default_dirs x w1)
        (\<lambda>w2. (SRD_OK, w2\<lparr>w_max_session_id := 0\<rparr>))) = (SRD_OK, w')"
    using assms by (simp add: srd_init_def split: if_splits)
  then obtain w1 where w1: "add_opt x (decoders_dir x) w = (SRD_OK, w1)"
    and step: "and_then (case path of Some p \<Rightarrow> srd_decoder_searchpath_add x p w1 | None \<Rightarrow> add_default_dirs x w1)
      (\<lambda>w2. (SRD_OK, w2\<lparr>w_max_session_id := 0\<rparr>)) = (SRD_OK, w')"
    by (rule and_then_ok)
  obtain w2 where w2: "(case path of Some p \<Rightarrow> srd_decoder_searchpath_add x p w1 | None \<Rightarrow> add_default_dirs x w1)
      = (SRD_OK, w2)" and w': "w' = w2\<lparr>w_max_session_id := 0\<rparr>"
    by (rule and_then_ok [OF step]) simp
  note base = add_opt_ok [OF w1]
  show ?thesis
  proof (cases path)
    case (Some p)
    with w2 base show ?thesis by (auto simp: w' srd_searchpaths_get_def searchpath_add_ok)
  next
    case None
    then have "add_default_dirs x w1 = (SRD_OK, w2)" using w2 by simp
    then obtain v1 where v1: "run_all (searchpath_add_xdg_dir x) (rev (system_data_dirs x)) w1 = (SRD_OK, v1)"
      and r1: "and_then (searchpath_add_xdg_dir x (user_data_dir x) v1)
         (\<lambda>w2. add_opt x (env_sigrokdecode_dir x) w2) = (SRD_OK, w2)"
      unfolding add_default_dirs_def by (rule and_then_ok)
    obtain v2 where v2: "searchpath_add_xdg_dir x (user_data_dir x) v1 = (SRD_OK, v2)"
      and r2: "add_opt x (env_sigrokdecode_dir x) v2 = (SRD_OK, w2)"
      using r1 by (rule and_then_ok)
    have "rev (existing x (rev ds)) = existing x ds" for ds by (simp add: existing_def rev_filter rev_map)
    with add_xdgs_ok [OF v1] add_xdg_ok [OF v2] add_opt_ok [OF r2] base show ?thesis
      by (simp add: w' srd_searchpaths_get_def None)
  qed
qed

definition example_init :: init_environ where
  "example_init = \<lparr>decoders_dir = Some ''/lib'', system_data_dirs = [''/a'', ''/b''], user_data_dir = ''/u'',
     env_sigrokdecode_dir = Some ''/e'', decdir_of = (\<lambda>d. d), is_dir = (\<lambda>d. d \<noteq> ''/b''),
     python_starts = True, python_takes_path = (\<lambda>_. True)\<rparr>"

lemma init_search_order_witness:
  "srd_searchpaths_get (snd (srd_init example_init None (empty_world\<lparr>w_max_session_id := -1\<rparr> :: unit srd_world)))
     = [''/e'', ''/u'', ''/a'', ''/lib'']"
proof -
  let ?w = "empty_world\<lparr>w_max_session_id := -1\<rparr> :: unit srd_world"
  obtain r w' where i: "srd_init example_init None ?w = (r, w')" by fastforce
  then have "r = SRD_OK"
    by (simp add: srd_init_def example_init_def add_opt_def srd_decoder_searchpath_add_def
        add_default_dirs_def searchpath_add_xdg_dir_def split: if_splits)
  with i have ok: "srd_init example_init None ?w = (SRD_OK, w')" by simp
  show ?thesis using init_search_order [OF ok] unfolding ok
    by (simp add: example_init_def existing_def empty_world_def)
qed

section \<open>Callbacks\<close>

datatype cb_op = Cb_add srd_output_type nat nat | Cb_add_batch srd_output_type "nat option" nat

definition cb_step :: "sess_ptr \<Rightarrow> cb_op \<Rightarrow> 'p srd_world \<Rightarrow> 'p srd_world" where
  "cb_step s x w = (case x of
      Cb_add ty cb data \<Rightarrow> snd (srd_pd_output_callback_add (Some s) ty cb data w)
    | Cb_add_batch ty cb data \<Rightarrow> snd (srd_pd_output_callback_add_batch (Some s) ty cb data w))"

definition valid_batch :: "cb_op \<Rightarrow> bool" where
  "valid_batch x = (case x of Cb_add_batch ty cb _ \<Rightarrow> ty = SRD_OUTPUT_ANN \<and> cb \<noteq> None | _ \<Rightarrow> False)"

definition single_cb :: "cb_op \<Rightarrow> srd_pd_callback option" where
  "single_cb x = (case x of
      Cb_add ty cb data \<Rightarrow> Some \<lparr>cb_output_type = ty, cb_cb = Frontend_cb cb, cb_cb_data = data\<rparr>
    | _ \<Rightarrow> None)"

definition wrapper_cb :: "sess_ptr \<Rightarrow> srd_pd_callback" where
  "wrapper_cb s = \<lparr>cb_output_type = SRD_OUTPUT_ANN, cb_cb = Ann_batch_callback_wrapper, cb_cb_data = s\<rparr>"

lemma cb_step_session:
  assumes "w_sess w s = Some se"
  shows "\<exists>se'. w_sess (cb_step s x w) s = Some se'
    \<and> ab_wrapper_installed (ann_batch se') = (ab_wrapper_installed (ann_batch se) \<or> valid_batch x)
    \<and> sess_callbacks se' =
        (if valid_batch x \<and> \<not> ab_wrapper_installed (ann_batch se) then [wrapper_cb s] else [])
        @ sess_callbacks se @ (case single_cb x of None \<Rightarrow> [] | Some c \<Rightarrow> [c])"
  using assms
  by (cases x) (auto simp: cb_step_def srd_pd_output_callback_add_def srd_pd_output_callback_add_batch_def
      install_wrapper_def valid_batch_def single_cb_def wrapper_cb_def)

lemma cb_steps_session:
  assumes "w_sess w s = Some se"
  shows "\<exists>se'. w_sess (fold (cb_step s) xs w) s = Some se'
    \<and> sess_callbacks se' =
        (if list_ex valid_batch xs \<and> \<not> ab_wrapper_installed (ann_batch se) then [wrapper_cb s] else [])
        @ sess_callbacks se @ List.map_filter single_cb xs"
  using assms
proof (induction xs arbitrary: w se)
  case (Cons x xs)
  from cb_step_session [OF Cons.prems, of x] obtain se1 where
    s1: "w_sess (cb_step s x w) s = Some se1"
      "ab_wrapper_installed (ann_batch se1) = (ab_wrapper_installed (ann_batch se) \<or> valid_batch x)"
      "sess_callbacks se1 =
        (if valid_batch x \<and> \<not> ab_wrapper_installed (ann_batch se) then [wrapper_cb s] else [])
        @ sess_callbacks se @ (case single_cb x of None \<Rightarrow> [] | Some c \<Rightarrow> [c])" by blast
  from Cons.IH [OF s1(1)] s1(2,3) show ?case
    by (auto simp: List.map_filter_simps split: option.split)
qed (simp add: List.map_filter_simps)

text \<open>
  In a new session, whatever callbacks are registered and in whatever order: annotations
  go to the library's batch wrapper as soon as a batch callback was registered, even after a
  callback for single annotations; every other output type, and annotations before that, go
  to the first callback registered for it.
\<close>

theorem callback_found:
  assumes "w_sess w s = Some se" and "sess_callbacks se = []" and "\<not> ab_wrapper_installed (ann_batch se)"
  shows "map_option (srd_pd_output_callback_find ty) (w_sess (fold (cb_step s) xs w) s) =
    Some (if ty = SRD_OUTPUT_ANN \<and> list_ex valid_batch xs then Some (wrapper_cb s)
          else find (\<lambda>c. cb_output_type c = ty) (List.map_filter single_cb xs))"
  using cb_steps_session [OF assms(1), of xs] assms(2,3)
  by (auto simp: srd_pd_output_callback_find_def wrapper_cb_def)

lemma callback_found_witness:
  "map_option (srd_pd_output_callback_find SRD_OUTPUT_ANN)
     (w_sess (fold (cb_step 1) [Cb_add SRD_OUTPUT_ANN 4 0, Cb_add_batch SRD_OUTPUT_ANN (Some 5) 0]
        (example_world (\<lambda>_. []) 0 [] :: unit srd_world)) 1) = Some (Some (wrapper_cb 1))"
proof -
  have s: "w_sess (example_world (\<lambda>_. []) 0 [] :: unit srd_world) 1 = Some (example_sess [])" by simp
  have "sess_callbacks (example_sess []) = []" "\<not> ab_wrapper_installed (ann_batch (example_sess []))"
    by (simp_all add: example_sess_def)
  from callback_found [OF s this, of SRD_OUTPUT_ANN "[Cb_add SRD_OUTPUT_ANN 4 0, Cb_add_batch SRD_OUTPUT_ANN (Some 5) 0]"]
  show ?thesis by (simp add: valid_batch_def)
qed

section \<open>The sample rate reaches every instance\<close>

interpretation samplerate: stack_walk
  "\<lambda>n. srd_inst_send_meta n env SRD_CONF_SAMPLERATE v" "meta_visit env SRD_CONF_SAMPLERATE v"
  next_of "\<lambda>_ _. SRD_OK" for env v
  by unfold_locales (simp_all add: known_key_def Let_def)

definition rate_at :: "'p srd_world \<Rightarrow> inst_ptr \<Rightarrow> u64 option" where
  "rate_at w q = map_option di_samplerate (inst_at w q)"

definition kind_at :: "'p srd_world \<Rightarrow> inst_ptr \<Rightarrow> (bool \<times> inst_ptr list) option" where
  "kind_at w q = map_option (\<lambda>di. (is_c_inst di, next_di di)) (inst_at w q)"

text \<open>The metadata callback neither restacks instances nor writes a sample rate.\<close>

definition meta_keeps :: "'p environ \<Rightarrow> bool" where
  "meta_keeps env \<longleftrightarrow> (\<forall>d f p key v w. cb_metadata (c_ops env d) = Some f \<longrightarrow>
     kind_at (f p key v w) = kind_at w \<and> rate_at (f p key v w) = rate_at w)"

definition only_c :: "'p srd_world \<Rightarrow> bool" where
  "only_c w \<longleftrightarrow> (\<forall>q x. kind_at w q = Some x \<longrightarrow> fst x)"

lemma next_of_kind: "next_of w p = (case kind_at w p of None \<Rightarrow> [] | Some x \<Rightarrow> snd x)"
  by (cases "inst_at w p") (simp_all add: next_of_def kind_at_def)

lemma kind_at_upd:
  "(\<And>di. is_c_inst (f di) = is_c_inst di \<and> next_di (f di) = next_di di) \<Longrightarrow> kind_at (upd_inst p f w) = kind_at w"
  by (simp add: fun_eq_iff kind_at_def option.map_comp comp_def)

lemma rate_at_upd:
  "(\<And>di. di_samplerate (f di) = di_samplerate di) \<Longrightarrow> rate_at (upd_inst p f w) = rate_at w"
  by (simp add: fun_eq_iff rate_at_def option.map_comp comp_def)

lemma extract_error_frame:
  assumes "extract_error p w = (e, w')"
  shows "kind_at w' = kind_at w \<and> rate_at w' = rate_at w"
  using assms
  by (auto simp: extract_error_def c_extract_error_def py_extract_error_def fun_eq_iff kind_at_def rate_at_def
      split: option.splits if_splits)

lemma meta_visit_frame:
  assumes m: "meta_keeps env" and c: "only_c w" and v: "meta_visit env SRD_CONF_SAMPLERATE v p w = (r, w')"
  shows "kind_at w' = kind_at w"
    and "rate_at w' q = (if q = p then map_option (\<lambda>_. v) (inst_at w p) else rate_at w q)"
proof -
  let ?w1 = "call_metadata env p SRD_CONF_SAMPLERATE v w"
  obtain e w2 where e: "extract_error p ?w1 = (e, w2)" by fastforce
  with v have "w2 = w'" by (auto simp: meta_visit_def split: if_splits)
  note x = extract_error_frame [OF e, unfolded this]
  let ?f = "c_call_metadata_sr SRD_CONF_SAMPLERATE v"
  have k: "kind_at (upd_inst p ?f w) = kind_at w" by (rule kind_at_upd) (simp add: c_call_metadata_sr_def)
  have r: "rate_at (upd_inst p ?f w) q = (if q = p then map_option (\<lambda>_. v) (inst_at w p) else rate_at w q)" for q
    by (simp add: rate_at_def c_call_metadata_sr_def SRD_CONF_SAMPLERATE_def option.map_comp comp_def)
  have w1: "kind_at ?w1 = kind_at w \<and> rate_at ?w1 q = (if q = p then map_option (\<lambda>_. v) (inst_at w p) else rate_at w q)" for q
  proof (cases "inst_at w p")
    case (Some di)
    then have "is_c_inst di" using c by (auto simp: only_c_def kind_at_def)
    with Some have call: "?w1 = c_call_metadata env p SRD_CONF_SAMPLERATE v w" by (simp add: call_metadata_def)
    show ?thesis unfolding call c_call_metadata_def Let_def
      using m k r by (auto simp: meta_keeps_def split: option.split)
  qed (simp add: call_metadata_def rate_at_def)
  from w1 x show "kind_at w' = kind_at w" by simp
  from w1 x show "rate_at w' q = (if q = p then map_option (\<lambda>_. v) (inst_at w p) else rate_at w q)" by simp
qed

lemma only_c_cong: "kind_at w' = kind_at w \<Longrightarrow> only_c w' = only_c w"
  by (simp only: only_c_def)

lemma next_of_cong: "kind_at w' = kind_at w \<Longrightarrow> next_of w' = next_of w"
  by (simp add: fun_eq_iff next_of_kind)

lemma allocated_kind: "inst_at w q = None \<longleftrightarrow> kind_at w q = None"
  by (simp add: kind_at_def)

lemma meta_run_frame:
  assumes m: "meta_keeps env" and "only_c w" and "run_all (meta_visit env SRD_CONF_SAMPLERATE v) ps w = (SRD_OK, w')"
  shows "(\<forall>q. q \<in> set ps \<or> rate_at w q \<in> {None, Some v} \<longrightarrow> rate_at w' q \<in> {None, Some v})"
  using assms(2,3)
proof (induction ps arbitrary: w)
  case (Cons p ps)
  obtain r1 w1 where v1: "meta_visit env SRD_CONF_SAMPLERATE v p w = (r1, w1)" by fastforce
  note fr = meta_visit_frame [OF m Cons.prems(1) v1]
  have "run_all (meta_visit env SRD_CONF_SAMPLERATE v) ps w1 = (SRD_OK, w')"
    using Cons.prems(2) v1 by (auto split: if_splits)
  moreover have "only_c w1" using only_c_cong [OF fr(1)] Cons.prems(1) by simp
  ultimately have IH: "\<forall>q. q \<in> set ps \<or> rate_at w1 q \<in> {None, Some v} \<longrightarrow> rate_at w' q \<in> {None, Some v}"
    using Cons.IH by blast
  have "rate_at w1 p \<in> {None, Some v}" by (cases "inst_at w p") (simp_all add: fr(2))
  moreover have "rate_at w q \<in> {None, Some v} \<Longrightarrow> rate_at w1 q \<in> {None, Some v}" for q
    by (cases "inst_at w p") (simp_all add: fr(2))
  ultimately show ?case using IH by auto
qed simp

text \<open>
  Sending the sample rate to an acyclic stack of C decoders returns, and unless a decoder
  reports an error every instance of the stack then has that sample rate.
\<close>

theorem samplerate_reaches_all:
  assumes m: "meta_keeps env" and c: "only_c w" and rk: "ranked (next_of w) rk" and n: "rk p < n"
  shows "\<exists>r w'. srd_inst_send_meta n env SRD_CONF_SAMPLERATE v p w = Some (r, w')
    \<and> (r = SRD_OK \<longrightarrow> (\<forall>q di. (p, q) \<in> (stacked (next_of w))\<^sup>* \<longrightarrow> inst_at w' q = Some di \<longrightarrow> di_samplerate di = v))"
proof -
  have flat: "srd_inst_send_meta n env SRD_CONF_SAMPLERATE v p w =
      Some (run_all (meta_visit env SRD_CONF_SAMPLERATE v) (preorder n (next_of w) p) w)"
  proof (rule samplerate.walk_flat [where Q = only_c])
    show "only_c w' \<and> next_of w' = next_of u" if "only_c u" "meta_visit env SRD_CONF_SAMPLERATE v q u = (r, w')" for q u r w'
      using meta_visit_frame(1) [OF m that] that(1) only_c_cong next_of_cong by blast
  qed (use assms in auto)
  obtain r w' where run: "run_all (meta_visit env SRD_CONF_SAMPLERATE v) (preorder n (next_of w) p) w = (r, w')"
    by fastforce
  have "di_samplerate di = v" if "r = SRD_OK" "(p, q) \<in> (stacked (next_of w))\<^sup>*" "inst_at w' q = Some di" for q di
  proof -
    have "rate_at w' q \<in> {None, Some v}"
      using meta_run_frame [OF m c run [unfolded that(1)]] preorder_complete [OF rk n that(2)] by blast
    with that(3) show ?thesis by (simp add: rate_at_def)
  qed
  with flat run show ?thesis by auto
qed

lemma example_kind: "kind_at (example_world stk n ps) q = (if q < n then Some (True, stk q) else None)"
  by (simp add: kind_at_def inst_at_def example_world_def malloc0_inst_def)

lemma samplerate_reaches_all_witness:
  "\<exists>r w'. srd_inst_send_meta 2 null_env SRD_CONF_SAMPLERATE 1000 0
      (example_world (\<lambda>p. if p = 0 then [1] else []) 2 [0] :: unit srd_world) = Some (r, w')
    \<and> (r = SRD_OK \<longrightarrow> rate_at w' 1 \<in> {None, Some 1000})"
proof -
  let ?w = "example_world (\<lambda>p. if p = 0 then [1] else []) 2 [0] :: unit srd_world"
  have m: "meta_keeps null_env" by (simp add: meta_keeps_def null_env_def)
  have c: "only_c ?w" by (simp add: only_c_def example_kind)
  have r: "ranked (next_of ?w) (\<lambda>p. if p = 0 then 1 else 0)" by (simp add: ranked_def)
  have "(0, 1) \<in> stacked (next_of ?w)" by (simp add: stacked_def)
  then have s: "(0, 1) \<in> (stacked (next_of ?w))\<^sup>*" by (rule r_into_rtrancl)
  from samplerate_reaches_all [OF m c r, of 0 2 1000] s show ?thesis
    by (auto simp: rate_at_def split: option.splits)
qed

section \<open>The end of a session\<close>

definition pos_at :: "'p srd_world \<Rightarrow> inst_ptr \<Rightarrow> (u64 \<times> u64) option" where
  "pos_at w q = map_option (\<lambda>di. (abs_cur_samplenum di, last_samplenum di)) (inst_at w q)"

definition end_keeps :: "'p environ \<Rightarrow> bool" where
  "end_keeps env \<longleftrightarrow> (\<forall>d f p w. cb_end (c_ops env d) = Some f \<longrightarrow>
     kind_at (f p w) = kind_at w \<and> pos_at (f p w) = pos_at w)"

definition ended :: "'p srd_world \<Rightarrow> inst_ptr \<Rightarrow> bool" where
  "ended w q \<longleftrightarrow> (case pos_at w q of None \<Rightarrow> True | Some (cur, last_num) \<Rightarrow> last_num = cur)"

text \<open>What the end of one instance, or of a stack, leaves alone.\<close>

definition end_frame :: "'p srd_world \<Rightarrow> 'p srd_world \<Rightarrow> bool" where
  "end_frame w w' \<longleftrightarrow> kind_at w' = kind_at w \<and> (\<forall>q. ended w q \<longrightarrow> ended w' q)"

lemma end_frame_trans: "end_frame a b \<Longrightarrow> end_frame b c \<Longrightarrow> end_frame a c"
  by (auto simp: end_frame_def)

lemma call_end_c:
  assumes k: "end_keeps env" and c: "only_c w"
  shows "\<exists>w'. call_end env p w = (SRD_OK, w') \<and> end_frame w w' \<and> ended w' p"
proof (cases "inst_at w p")
  case None
  then show ?thesis by (simp add: call_end_def end_frame_def ended_def pos_at_def)
next
  case (Some di)
  then have "is_c_inst di" using c by (auto simp: only_c_def kind_at_def)
  with Some have call: "call_end env p w = c_call_end env p w" by (simp add: call_end_def)
  let ?w1 = "upd_inst p (\<lambda>di. di\<lparr>last_samplenum := abs_cur_samplenum di\<rparr>) w"
  have k1: "kind_at ?w1 = kind_at w" by (rule kind_at_upd) simp
  have p1: "pos_at ?w1 q = (if q = p then Some (abs_cur_samplenum di, abs_cur_samplenum di) else pos_at w q)" for q
    using Some by (simp add: pos_at_def)
  have "\<exists>w'. c_call_end env p w = (SRD_OK, w') \<and> kind_at w' = kind_at ?w1 \<and> pos_at w' = pos_at ?w1"
    using k by (auto simp: c_call_end_def Let_def end_keeps_def split: option.split)
  then obtain w' where w': "c_call_end env p w = (SRD_OK, w')" "kind_at w' = kind_at w" "pos_at w' = pos_at ?w1"
    using k1 by auto
  then show ?thesis unfolding call by (auto simp: end_frame_def ended_def p1)
qed

lemma for_each_ends:
  assumes step: "\<And>q v. q \<in> set qs \<Longrightarrow> only_c v \<Longrightarrow> kind_at v = K \<Longrightarrow>
      \<exists>v'. f q v = Some (SRD_OK, v') \<and> end_frame v v' \<and> (\<forall>x. x \<in> S q \<longrightarrow> ended v' x)"
    and "only_c v" and "kind_at v = K"
  shows "\<exists>v'. for_each f qs v = Some (SRD_OK, v') \<and> end_frame v v' \<and> (\<forall>q \<in> set qs. \<forall>x. x \<in> S q \<longrightarrow> ended v' x)"
  using assms
proof (induction qs arbitrary: v)
  case (Cons q qs)
  from Cons.prems(1) [of q v] Cons.prems(2,3) obtain v1 where
    v1: "f q v = Some (SRD_OK, v1)" "end_frame v v1" "\<forall>x. x \<in> S q \<longrightarrow> ended v1 x" by auto
  have "only_c v1" "kind_at v1 = K"
    using v1(2) only_c_cong Cons.prems(2,3) by (auto simp: end_frame_def)
  with Cons.IH [of v1] Cons.prems(1) obtain v2 where
    v2: "for_each f qs v1 = Some (SRD_OK, v2)" "end_frame v1 v2" "\<forall>q \<in> set qs. \<forall>x. x \<in> S q \<longrightarrow> ended v2 x" by auto
  have "ended v2 x" if "x \<in> S q" for x using v1(3) v2(2) that by (auto simp: end_frame_def)
  with v1 v2 end_frame_trans [OF v1(2) v2(2)] show ?case by auto
qed (simp add: end_frame_def)

definition end_step :: "nat \<Rightarrow> 'p environ \<Rightarrow> inst_ptr \<Rightarrow> 'p srd_world \<Rightarrow> (srd_error_code \<times> 'p srd_world) option" where
  "end_step n env q v = (let (ret, v1) = call_end env q v
      in if ret \<noteq> SRD_OK then Some (ret, v1)
         else if next_of v1 q \<noteq> []
         then (case srd_call_sub_decoder_end n env q v1 of
             None \<Rightarrow> None
           | Some (ret, v2) \<Rightarrow> if ret \<noteq> SRD_OK then Some (SRD_ERR_PYTHON, v2) else Some (SRD_OK, v2))
         else Some (SRD_OK, v1))"

lemma sub_end_Suc: "srd_call_sub_decoder_end (Suc n) env p w = for_each (end_step n env) (next_of w p) w"
  unfolding srd_call_sub_decoder_end.simps end_step_def by simp

lemma sub_end_ok:
  assumes k: "end_keeps env"
  shows "only_c w \<Longrightarrow> ranked (next_of w) rk \<Longrightarrow> rk p < n \<Longrightarrow>
    \<exists>w'. srd_call_sub_decoder_end n env p w = Some (SRD_OK, w') \<and> end_frame w w'
      \<and> (\<forall>x. (p, x) \<in> (stacked (next_of w))\<^sup>+ \<longrightarrow> ended w' x)"
proof (induction n arbitrary: p w)
  case (Suc n)
  let ?S = "\<lambda>q. {x. (q, x) \<in> (stacked (next_of w))\<^sup>*}"
  have step: "\<exists>v'. end_step n env q v = Some (SRD_OK, v') \<and> end_frame v v' \<and> (\<forall>x. x \<in> ?S q \<longrightarrow> ended v' x)"
    if "q \<in> set (next_of w p)" "only_c v" "kind_at v = kind_at w" for q v
  proof -
    from call_end_c [OF k that(2)] obtain v1 where
      v1: "call_end env q v = (SRD_OK, v1)" "end_frame v v1" "ended v1 q" by blast
    have kv: "kind_at v1 = kind_at v" using v1(2) by (simp add: end_frame_def)
    have same: "only_c v1" "next_of v1 = next_of w"
      using only_c_cong [OF kv] that(2) next_of_cong [of v1 w] kv that(3) by simp_all
    have split: "x = q \<or> (q, x) \<in> (stacked (next_of w))\<^sup>+" if "x \<in> ?S q" for x
      using that by (auto simp: rtrancl_eq_or_trancl)
    show ?thesis
    proof (cases "next_of w q = []")
      case True
      then have "(q, x) \<notin> (stacked (next_of w))\<^sup>+" for x
        by (auto simp: stacked_def dest: tranclD)
      with split v1 same True show ?thesis by (auto simp: end_step_def)
    next
      case False
      have "rk q < n" using rankedD [OF Suc.prems(2) that(1)] Suc.prems(3) by simp
      with Suc.IH [of v1 q] same Suc.prems(2) obtain v2 where
        v2: "srd_call_sub_decoder_end n env q v1 = Some (SRD_OK, v2)" "end_frame v1 v2"
          "\<forall>x. (q, x) \<in> (stacked (next_of w))\<^sup>+ \<longrightarrow> ended v2 x" by auto
      have "ended v2 q" using v1(3) v2(2) by (simp add: end_frame_def)
      with split v2(3) have "\<forall>x. x \<in> ?S q \<longrightarrow> ended v2 x" by blast
      with v1 v2 same False end_frame_trans [OF v1(2) v2(2)] show ?thesis by (auto simp: end_step_def)
    qed
  qed
  have "\<exists>w'. for_each (end_step n env) (next_of w p) w = Some (SRD_OK, w') \<and> end_frame w w'
      \<and> (\<forall>q \<in> set (next_of w p). \<forall>x. x \<in> ?S q \<longrightarrow> ended w' x)"
    by (rule for_each_ends [where K = "kind_at w"], rule step) (use Suc.prems(1) in simp_all)
  then obtain w' where
    w': "srd_call_sub_decoder_end (Suc n) env p w = Some (SRD_OK, w')" "end_frame w w'"
      "\<forall>q \<in> set (next_of w p). \<forall>x. x \<in> ?S q \<longrightarrow> ended w' x" unfolding sub_end_Suc by blast
  have "ended w' x" if t: "(p, x) \<in> (stacked (next_of w))\<^sup>+" for x
  proof -
    obtain q where "(p, q) \<in> stacked (next_of w)" "(q, x) \<in> (stacked (next_of w))\<^sup>*" using tranclD [OF t] by blast
    with w'(3) show ?thesis by (auto simp: stacked_def)
  qed
  with w' show ?case by blast
qed simp

text \<open>
  Ending a session whose instances form acyclic stacks of C decoders succeeds, and every
  instance of every stack has the position it stopped at recorded as its last sample.
\<close>

theorem session_end_records_positions:
  assumes k: "end_keeps env" and c: "only_c w" and rk: "ranked (next_of w) rk"
    and s: "w_sess w s = Some se" and ne: "di_list se \<noteq> []" and n: "\<And>p. p \<in> set (di_list se) \<Longrightarrow> rk p < n"
  shows "\<exists>w'. srd_session_end n env (Some s) w = Some (SRD_OK, w')
    \<and> (\<forall>p \<in> set (di_list se). \<forall>q di. (p, q) \<in> (stacked (next_of w))\<^sup>* \<longrightarrow> inst_at w' q = Some di \<longrightarrow>
          last_samplenum di = abs_cur_samplenum di)"
proof -
  let ?S = "\<lambda>q. {x. (q, x) \<in> (stacked (next_of w))\<^sup>*}"
  let ?f = "\<lambda>p v. (let (ret, v1) = call_end env p v
         in if ret \<noteq> SRD_OK then Some (ret, v1)
            else if next_of v1 p \<noteq> [] then srd_call_sub_decoder_end n env p v1
            else Some (SRD_OK, v1))"
  have step: "\<exists>v'. ?f q v = Some (SRD_OK, v') \<and> end_frame v v' \<and> (\<forall>x. x \<in> ?S q \<longrightarrow> ended v' x)"
    if "q \<in> set (di_list se)" "only_c v" "kind_at v = kind_at w" for q v
  proof -
    from call_end_c [OF k that(2)] obtain v1 where
      v1: "call_end env q v = (SRD_OK, v1)" "end_frame v v1" "ended v1 q" by blast
    have kv: "kind_at v1 = kind_at v" using v1(2) by (simp add: end_frame_def)
    have same: "only_c v1" "next_of v1 = next_of w"
      using only_c_cong [OF kv] that(2) next_of_cong [of v1 w] kv that(3) by simp_all
    from sub_end_ok [OF k same(1), of rk q n] same(2) rk n [OF that(1)] obtain v2 where
      v2: "srd_call_sub_decoder_end n env q v1 = Some (SRD_OK, v2)" "end_frame v1 v2"
        "\<forall>x. (q, x) \<in> (stacked (next_of w))\<^sup>+ \<longrightarrow> ended v2 x" by auto
    have "ended v2 q" using v1(3) v2(2) by (simp add: end_frame_def)
    moreover have "x = q \<or> (q, x) \<in> (stacked (next_of w))\<^sup>+" if "x \<in> ?S q" for x
      using that by (auto simp: rtrancl_eq_or_trancl)
    ultimately have all2: "\<forall>x. x \<in> ?S q \<longrightarrow> ended v2 x" using v2(3) by blast
    show ?thesis
    proof (cases "next_of w q = []")
      case True
      then have "x = q" if "x \<in> ?S q" for x using that by (auto elim: converse_rtranclE simp: stacked_def)
      with v1 same True show ?thesis by auto
    next
      case False
      with v1 v2 all2 same end_frame_trans [OF v1(2) v2(2)] show ?thesis by auto
    qed
  qed
  have "\<exists>w'. for_each ?f (di_list se) w = Some (SRD_OK, w') \<and> end_frame w w'
      \<and> (\<forall>q \<in> set (di_list se). \<forall>x. x \<in> ?S q \<longrightarrow> ended w' x)"
    by (rule for_each_ends [where K = "kind_at w"], rule step) (use c in simp_all)
  then obtain w' where
    w': "for_each ?f (di_list se) w = Some (SRD_OK, w')" "\<forall>q \<in> set (di_list se). \<forall>x. x \<in> ?S q \<longrightarrow> ended w' x"
    by blast
  have "srd_session_end n env (Some s) w = Some (SRD_OK, w')"
    using w'(1) s ne by (simp add: srd_session_end_def srd_session_inst_list_get_def)
  with w'(2) show ?thesis by (auto simp: ended_def pos_at_def split: option.splits)
qed

lemma session_end_records_positions_witness:
  "\<exists>w'. srd_session_end 2 null_env (Some 1) (example_world (\<lambda>p. if p = 0 then [1] else []) 2 [0] :: unit srd_world)
      = Some (SRD_OK, w') \<and> (\<forall>di. inst_at w' 1 = Some di \<longrightarrow> last_samplenum di = abs_cur_samplenum di)"
proof -
  let ?w = "example_world (\<lambda>p. if p = 0 then [1] else []) 2 [0] :: unit srd_world"
  have k: "end_keeps null_env" by (simp add: end_keeps_def null_env_def)
  have c: "only_c ?w" by (simp add: only_c_def example_kind)
  have r: "ranked (next_of ?w) (\<lambda>p. if p = 0 then 1 else 0)" by (simp add: ranked_def)
  have s: "w_sess ?w 1 = Some (example_sess [0])" by simp
  have ne: "di_list (example_sess [0]) \<noteq> []" by (simp add: example_sess_def)
  have n: "p \<in> set (di_list (example_sess [0])) \<Longrightarrow> (if p = 0 then 1 else 0 :: nat) < 2" for p by simp
  have "(0, 1) \<in> stacked (next_of ?w)" by (simp add: stacked_def)
  then have "(0, 1) \<in> (stacked (next_of ?w))\<^sup>*" by (rule r_into_rtrancl)
  with session_end_records_positions [OF k c r s ne n] show ?thesis by (fastforce simp: example_sess_def)
qed

end
