(* ===== verification/CApi.thy ===== *)
theory CApi
  imports Session
begin

text \<open>
  c_decoder_api.c without the waiting and fetching functions of Wait: what a C decoder calls
  to register outputs, send annotations, bytes, logic, analog values and metadata, talk to
  the decoders on top of it, and read its options. \<open>NULL\<close> for the instance is None.
\<close>

section \<open>Outputs\<close>

definition c_decoder_register_output ::
    "inst_ptr option \<Rightarrow> srd_output_type \<Rightarrow> string option \<Rightarrow> 'p srd_world \<Rightarrow> int \<times> 'p srd_world" where
  "c_decoder_register_output di ty proto_id w = (case di of
      None \<Rightarrow> (error_code_value SRD_ERR_ARG, w)
    | Some p \<Rightarrow> (case inst_at w p of
        None \<Rightarrow> (error_code_value SRD_ERR_ARG, w)
      | Some d \<Rightarrow>
          (let n = int (length (pd_output d));
               pdo = \<lparr>pdo_id = n, pdo_output_type = ty, pdo_di = p, pdo_proto_id = str_or [] proto_id,
                 pdo_meta_type = None, pdo_meta_name = None, pdo_meta_descr = None\<rparr>
           in (n, upd_inst p (\<lambda>d. d\<lparr>pd_output := pd_output d @ [pdo]\<rparr>) w))))"

definition meta_type_of :: "string option \<Rightarrow> string option" where
  "meta_type_of s = (if s = Some ''int'' then Some ''x''
     else if s = Some ''float'' \<or> s = Some ''double'' then Some ''d'' else None)"

text \<open>The GVariant type strings are "x" for int64 and "d" for double.\<close>

definition c_decoder_register_output_meta ::
    "inst_ptr option \<Rightarrow> srd_output_type \<Rightarrow> string option \<Rightarrow> string option \<Rightarrow> string option \<Rightarrow> string option \<Rightarrow>
     'p srd_world \<Rightarrow> int \<times> 'p srd_world" where
  "c_decoder_register_output_meta di ty proto_id meta_ty name descr w = (case di of
      None \<Rightarrow> (error_code_value SRD_ERR_ARG, w)
    | Some p \<Rightarrow>
        (let (n, w1) = c_decoder_register_output di ty proto_id w
         in if n < 0 then (n, w1)
            else (n, upd_inst p (\<lambda>d. d\<lparr>pd_output := (pd_output d)[nat n :=
              (pd_output d ! nat n)\<lparr>pdo_meta_type := meta_type_of meta_ty,
                 pdo_meta_name := Some (str_or [] name), pdo_meta_descr := Some (str_or [] descr)\<rparr>]\<rparr>) w1)))"

definition output_of :: "inst_ptr \<Rightarrow> int \<Rightarrow> 'p srd_world \<Rightarrow> srd_pd_output option" where
  "output_of p n w = (case inst_at w p of None \<Rightarrow> None | Some d \<Rightarrow> g_slist_nth (pd_output d) n)"

text \<open>
  The callback is looked up through the runtime table, which only C instances have, and then
  called: a frontend's callback is an event, the wrapper stores the annotation in the batch.
\<close>

definition srd_pd_output_callback_find_c :: "inst_ptr \<Rightarrow> srd_output_type \<Rightarrow> 'p srd_world \<Rightarrow> srd_pd_callback option" where
  "srd_pd_output_callback_find_c p ty w = (case inst_at w p of None \<Rightarrow> None
     | Some d \<Rightarrow> if is_c_inst d then (case w_sess w (di_sess d) of None \<Rightarrow> None
         | Some se \<Rightarrow> srd_pd_output_callback_find ty se) else None)"

definition run_callback :: "srd_pd_callback \<Rightarrow> srd_proto_data \<Rightarrow> 'p srd_world \<Rightarrow> 'p srd_world" where
  "run_callback cb pdata w = (case cb_cb cb of
      Frontend_cb f \<Rightarrow> w\<lparr>w_events := w_events w @ [Ev_callback f (cb_cb_data cb) pdata]\<rparr>
    | Ann_batch_callback_wrapper \<Rightarrow> srd_ann_batch_callback_wrapper pdata (cb_cb_data cb) w)"

definition send_to :: "inst_ptr \<Rightarrow> srd_output_type \<Rightarrow> srd_proto_data \<Rightarrow> 'p srd_world \<Rightarrow> 'p srd_world" where
  "send_to p ty pdata w = (case srd_pd_output_callback_find_c p ty w of
      None \<Rightarrow> w
    | Some cb \<Rightarrow> run_callback cb pdata w)"

definition mk_pdata :: "u64 \<Rightarrow> u64 \<Rightarrow> srd_pd_output \<Rightarrow> proto_payload \<Rightarrow> srd_proto_data" where
  "mk_pdata ss es pdo x = \<lparr>pd_start_sample = ss, pd_end_sample = es, pd_pdo = pdo, pd_data = x\<rparr>"

definition DECODE_NUM_HEX_MAX_LEN :: nat where "DECODE_NUM_HEX_MAX_LEN = 256"

text \<open>The annotation type comes from the decoder's table, or is the class outside of it.\<close>

definition ann_type_of :: "srd_decoder \<Rightarrow> int \<Rightarrow> int" where
  "ann_type_of dec cls =
     (if 0 \<le> cls \<and> cls < int (length (dec_ann_types dec)) then dec_ann_types dec ! nat cls else cls)"

definition pda_of :: "srd_decoder \<Rightarrow> srd_c_annotation \<Rightarrow> srd_proto_data_annotation" where
  "pda_of dec ann = \<lparr>pda_ann_class = ann_class ann, pda_ann_type = ann_type_of dec (ann_class ann),
     pda_str_number_hex = take (DECODE_NUM_HEX_MAX_LEN - 1) (str_number_hex ann),
     pda_numberic_value = numberic_value ann, pda_ann_text = ann_text ann\<rparr>"

definition c_decoder_put ::
    "inst_ptr option \<Rightarrow> u64 \<Rightarrow> u64 \<Rightarrow> int \<Rightarrow> srd_c_annotation \<Rightarrow> 'p srd_world \<Rightarrow> srd_error_code \<times> 'p srd_world" where
  "c_decoder_put di ss es output_id ann w = (case di of
      None \<Rightarrow> (SRD_ERR_ARG, w)
    | Some p \<Rightarrow> (case output_of p output_id w of
        None \<Rightarrow> (SRD_ERR_ARG, w)
      | Some pdo \<Rightarrow>
          (case pdo_output_type pdo of
            SRD_OUTPUT_ANN \<Rightarrow> (SRD_OK, (case inst_at w p of None \<Rightarrow> w | Some d \<Rightarrow>
              send_to p SRD_OUTPUT_ANN (mk_pdata ss es pdo (PD_annotation (pda_of (di_decoder d) ann))) w))
          | SRD_OUTPUT_META \<Rightarrow> (SRD_OK, send_to p SRD_OUTPUT_META (mk_pdata ss es pdo (PD_c_annotation ann)) w)
          | _ \<Rightarrow> (SRD_ERR_ARG, w))))"

text \<open>The typed functions refuse an output of another type.\<close>

definition put_typed ::
    "inst_ptr option \<Rightarrow> u64 \<Rightarrow> u64 \<Rightarrow> int \<Rightarrow> srd_output_type \<Rightarrow> proto_payload \<Rightarrow> 'p srd_world \<Rightarrow>
     srd_error_code \<times> 'p srd_world" where
  "put_typed di ss es output_id ty x w = (case di of
      None \<Rightarrow> (SRD_ERR_ARG, w)
    | Some p \<Rightarrow> (case output_of p output_id w of
        None \<Rightarrow> (SRD_ERR_ARG, w)
      | Some pdo \<Rightarrow> if pdo_output_type pdo \<noteq> ty then (SRD_ERR_ARG, w)
          else (SRD_OK, send_to p ty (mk_pdata ss es pdo x) w)))"

definition c_decoder_put_binary ::
    "inst_ptr option \<Rightarrow> u64 \<Rightarrow> u64 \<Rightarrow> int \<Rightarrow> int \<Rightarrow> u64 \<Rightarrow> u8 list \<Rightarrow> 'p srd_world \<Rightarrow> srd_error_code \<times> 'p srd_world" where
  "c_decoder_put_binary di ss es output_id bin_cls nbytes data w =
     put_typed di ss es output_id SRD_OUTPUT_BINARY (PD_binary bin_cls nbytes data) w"

definition c_decoder_put_logic ::
    "inst_ptr option \<Rightarrow> u64 \<Rightarrow> u64 \<Rightarrow> int \<Rightarrow> u32 \<Rightarrow> u8 list \<Rightarrow> int \<Rightarrow> 'p srd_world \<Rightarrow> srd_error_code \<times> 'p srd_world" where
  "c_decoder_put_logic di ss es output_id channel_mask vals n w =
     put_typed di ss es output_id SRD_OUTPUT_LOGIC (PD_logic channel_mask n vals) w"

definition c_decoder_put_analog ::
    "inst_ptr option \<Rightarrow> u64 \<Rightarrow> u64 \<Rightarrow> int \<Rightarrow> int \<Rightarrow> int \<Rightarrow> real list option \<Rightarrow> u64 \<Rightarrow> real \<Rightarrow> 'p srd_world \<Rightarrow>
     srd_error_code \<times> 'p srd_world" where
  "c_decoder_put_analog di ss es output_id channel n data num_samples scale w =
     (case data of None \<Rightarrow> (SRD_ERR_ARG, w)
      | Some xs \<Rightarrow> if num_samples = 0 then (SRD_ERR_ARG, w)
          else put_typed di ss es output_id SRD_OUTPUT_ANALOG (PD_analog channel n num_samples xs scale None) w)"

text \<open>With a time for every value: the first start and the last end bound the packet.\<close>

definition c_decoder_put_analog_timed ::
    "inst_ptr option \<Rightarrow> int \<Rightarrow> int \<Rightarrow> int \<Rightarrow> real list option \<Rightarrow> u64 list option \<Rightarrow> u64 list option \<Rightarrow> u64 \<Rightarrow> real \<Rightarrow>
     'p srd_world \<Rightarrow> srd_error_code \<times> 'p srd_world" where
  "c_decoder_put_analog_timed di output_id channel n data starts ends num_samples scale w =
     (case (data, starts, ends) of
        (Some xs, Some ss, Some es) \<Rightarrow>
          if num_samples = 0 then (SRD_ERR_ARG, w)
          else put_typed di (ss ! 0) (es ! (unat num_samples - 1)) output_id SRD_OUTPUT_ANALOG
                 (PD_analog channel n num_samples xs scale (Some (ss, es))) w
      | _ \<Rightarrow> (SRD_ERR_ARG, w))"

text \<open>Metadata values go out whatever type the output was registered with.\<close>

definition put_meta ::
    "inst_ptr option \<Rightarrow> u64 \<Rightarrow> u64 \<Rightarrow> int \<Rightarrow> gvariant \<Rightarrow> 'p srd_world \<Rightarrow> srd_error_code \<times> 'p srd_world" where
  "put_meta di ss es output_id v w = (case di of
      None \<Rightarrow> (SRD_ERR_ARG, w)
    | Some p \<Rightarrow> (case output_of p output_id w of
        None \<Rightarrow> (SRD_ERR_ARG, w)
      | Some pdo \<Rightarrow> (SRD_OK, send_to p SRD_OUTPUT_META (mk_pdata ss es pdo (PD_meta (pdo_id pdo) v)) w)))"

definition c_decoder_put_meta_int ::
    "inst_ptr option \<Rightarrow> u64 \<Rightarrow> u64 \<Rightarrow> int \<Rightarrow> int \<Rightarrow> 'p srd_world \<Rightarrow> srd_error_code \<times> 'p srd_world" where
  "c_decoder_put_meta_int di ss es output_id v w = put_meta di ss es output_id (GV_int64 v) w"

definition c_decoder_put_meta_double ::
    "inst_ptr option \<Rightarrow> u64 \<Rightarrow> u64 \<Rightarrow> int \<Rightarrow> real \<Rightarrow> 'p srd_world \<Rightarrow> srd_error_code \<times> 'p srd_world" where
  "c_decoder_put_meta_double di ss es output_id v w = put_meta di ss es output_id (GV_double v) w"

section \<open>Talking to the decoders on top\<close>

text \<open>Arguments are collected up to the sentinel, at most 64 of them.\<close>

fun c_collect :: "nat \<Rightarrow> c_field list \<Rightarrow> c_field list" where
  "c_collect 0 fs = []"
| "c_collect (Suc n) [] = []"
| "c_collect (Suc n) (f # fs) = (if f = C_FIELD_SENTINEL then [] else f # c_collect n fs)"

definition call_upper ::
    "'p environ \<Rightarrow> u64 \<Rightarrow> u64 \<Rightarrow> string \<Rightarrow> c_field list \<Rightarrow> inst_ptr \<Rightarrow> 'p srd_world \<Rightarrow> 'p srd_world" where
  "call_upper env ss es cmd flds q w = (case inst_at w q of None \<Rightarrow> w
     | Some d \<Rightarrow> if \<not> is_c_inst d then w
         else (case c_dec_inst d of None \<Rightarrow> w
           | Some c \<Rightarrow> (case cb_decode_upper (c_ops env c) of None \<Rightarrow> w
             | Some f \<Rightarrow> f q ss es cmd flds w)))"

definition c_proto ::
    "'p environ \<Rightarrow> inst_ptr option \<Rightarrow> u64 \<Rightarrow> u64 \<Rightarrow> int \<Rightarrow> string \<Rightarrow> c_field list \<Rightarrow> 'p srd_world \<Rightarrow>
     srd_error_code \<times> 'p srd_world" where
  "c_proto env di ss es output_id cmd args w = (case di of
      None \<Rightarrow> (SRD_ERR_ARG, w)
    | Some p \<Rightarrow>
        (let flds = c_collect 64 args
         in case output_of p output_id w of
              None \<Rightarrow> (SRD_ERR_ARG, w)
            | Some pdo \<Rightarrow>
                if pdo_output_type pdo = SRD_OUTPUT_PROTO
                then (SRD_OK, fold (call_upper env ss es cmd flds) (next_of w p) w)
                else (SRD_OK, w)))"

section \<open>Reading an instance\<close>

definition c_decoder_get_samplerate :: "'p srd_decoder_inst option \<Rightarrow> u64" where
  "c_decoder_get_samplerate di = (case di of None \<Rightarrow> 0 | Some d \<Rightarrow> di_samplerate d)"

definition c_decoder_get_last_samplenum :: "'p srd_decoder_inst option \<Rightarrow> u64" where
  "c_decoder_get_last_samplenum di = (case di of None \<Rightarrow> 0 | Some d \<Rightarrow> last_samplenum d)"

definition c_decoder_get_private :: "'p srd_decoder_inst option \<Rightarrow> 'p option" where
  "c_decoder_get_private di = (case di of None \<Rightarrow> None | Some d \<Rightarrow> user_data d)"

definition c_decoder_set_private :: "'p option \<Rightarrow> 'p srd_decoder_inst \<Rightarrow> 'p srd_decoder_inst" where
  "c_decoder_set_private x d = d\<lparr>user_data := x\<rparr>"

definition option_value :: "'p srd_decoder_inst option \<Rightarrow> string option \<Rightarrow> gvariant option" where
  "option_value di key = (case di of None \<Rightarrow> None
     | Some d \<Rightarrow> (case c_options d of None \<Rightarrow> None
       | Some t \<Rightarrow> (case key of None \<Rightarrow> None | Some k \<Rightarrow> g_hash_table_lookup t k)))"

text \<open>A double is truncated towards zero; values outside the type are undefined in C.\<close>

definition trunc_real :: "real \<Rightarrow> int" where
  "trunc_real x = (if 0 \<le> x then \<lfloor>x\<rfloor> else \<lceil>x\<rceil>)"

definition c_decoder_get_option_int :: "'p srd_decoder_inst option \<Rightarrow> string option \<Rightarrow> int \<Rightarrow> int" where
  "c_decoder_get_option_int di key defval = (case option_value di key of
      Some (GV_int64 n) \<Rightarrow> n
    | Some (GV_uint64 x) \<Rightarrow> sint x
    | Some (GV_int32 n) \<Rightarrow> n
    | Some (GV_uint32 n) \<Rightarrow> n
    | Some (GV_double x) \<Rightarrow> trunc_real x
    | _ \<Rightarrow> defval)"

definition c_decoder_get_option_double :: "'p srd_decoder_inst option \<Rightarrow> string option \<Rightarrow> real \<Rightarrow> real" where
  "c_decoder_get_option_double di key defval = (case option_value di key of
      Some (GV_double x) \<Rightarrow> x
    | Some (GV_int64 n) \<Rightarrow> real_of_int n
    | Some (GV_uint64 x) \<Rightarrow> real (unat x)
    | _ \<Rightarrow> defval)"

definition c_decoder_get_option_string ::
    "'p srd_decoder_inst option \<Rightarrow> string option \<Rightarrow> string option \<Rightarrow> string option" where
  "c_decoder_get_option_string di key defval = (case option_value di key of
      Some (GV_string s) \<Rightarrow> Some s
    | _ \<Rightarrow> defval)"

definition c_opt_bool :: "'p srd_decoder_inst option \<Rightarrow> string option \<Rightarrow> int \<Rightarrow> int" where
  "c_opt_bool di key defval = (case c_decoder_get_option_string di key None of
      None \<Rightarrow> defval
    | Some s \<Rightarrow> if s = ''yes'' \<or> s = ''true'' \<or> s = ''1'' then 1
        else if s = ''no'' \<or> s = ''false'' \<or> s = ''0'' then 0 else defval)"

section \<open>Outputs keep their numbers\<close>

definition outputs_ok :: "'p srd_decoder_inst \<Rightarrow> bool" where
  "outputs_ok d \<longleftrightarrow> (\<forall>i < length (pd_output d). pdo_id (pd_output d ! i) = int i)"

text \<open>
  Registering an output returns a number that is not negative, under which exactly that
  output is found; the outputs registered before keep their numbers, and every output
  carries the number it is found under.
\<close>

theorem register_output_numbers:
  assumes "inst_at w p = Some d" and "outputs_ok d"
    and "c_decoder_register_output (Some p) ty proto_id w = (n, w')"
  shows "0 \<le> n \<and> output_of p n w = None
    \<and> map_option (\<lambda>x. (pdo_id x, pdo_output_type x, pdo_di x)) (output_of p n w') = Some (n, ty, p)
    \<and> (\<forall>m. m \<noteq> n \<longrightarrow> output_of p m w' = output_of p m w)
    \<and> (\<forall>d'. inst_at w' p = Some d' \<longrightarrow> outputs_ok d')"
proof -
  let ?o = "\<lparr>pdo_id = n, pdo_output_type = ty, pdo_di = p, pdo_proto_id = str_or [] proto_id,
                 pdo_meta_type = None, pdo_meta_name = None, pdo_meta_descr = None\<rparr>"
  have n: "n = int (length (pd_output d))" and w': "w' = upd_inst p (\<lambda>d. d\<lparr>pd_output := pd_output d @ [?o]\<rparr>) w"
    using assms by (auto simp: c_decoder_register_output_def Let_def)
  have ids: "pdo_id ((pd_output d @ [?o]) ! i) = int i" if "i < Suc (length (pd_output d))" for i
    using that assms(2) by (cases "i < length (pd_output d)") (auto simp: outputs_ok_def nth_append n less_Suc_eq)
  have old: "g_slist_nth (pd_output d @ [?o]) m = g_slist_nth (pd_output d) m" if "m \<noteq> n" for m
    using that by (auto simp: g_slist_nth_def nth_append n)
  have new: "g_slist_nth (pd_output d @ [?o]) n = Some ?o" by (simp add: n)
  have before: "g_slist_nth (pd_output d) n = None" by (simp add: n g_slist_nth_def)
  have out': "output_of p m w' = g_slist_nth (pd_output d @ [?o]) m" for m
    using assms(1) by (simp add: output_of_def w')
  have out: "output_of p m w = g_slist_nth (pd_output d) m" for m
    using assms(1) by (simp add: output_of_def)
  have "outputs_ok d'" if "inst_at w' p = Some d'" for d'
    using that assms(1) ids by (auto simp: w' outputs_ok_def)
  moreover have "0 \<le> n" by (simp add: n)
  ultimately show ?thesis using out out' before new old by simp
qed

definition example_c_world :: "srd_decoder \<Rightarrow> 'p srd_world" where
  "example_c_world dec = (example_world (\<lambda>_. []) 1 [0])\<lparr>w_insts := [0 \<mapsto> (malloc0_inst dec 1)\<lparr>is_c_inst := True\<rparr>]\<rparr>"

lemma example_c_inst: "inst_at (example_c_world dec) 0 = Some ((malloc0_inst dec 1)\<lparr>is_c_inst := True\<rparr>)"
  by (simp add: example_c_world_def inst_at_def)

lemma register_output_numbers_witness:
  "let (n, w') = c_decoder_register_output (Some 0) SRD_OUTPUT_ANN None (example_c_world blank_decoder :: unit srd_world)
   in map_option pdo_output_type (output_of 0 n w') = Some SRD_OUTPUT_ANN"
proof -
  let ?w = "example_c_world blank_decoder :: unit srd_world"
  have ok: "outputs_ok ((malloc0_inst blank_decoder 1 :: unit srd_decoder_inst)\<lparr>is_c_inst := True\<rparr>)"
    by (simp add: outputs_ok_def malloc0_inst_def)
  obtain n w' where r: "c_decoder_register_output (Some 0) SRD_OUTPUT_ANN None ?w = (n, w')" by fastforce
  from register_output_numbers [OF example_c_inst ok r] have
    "map_option (\<lambda>x. (pdo_id x, pdo_output_type x, pdo_di x)) (output_of 0 n w') = Some (n, SRD_OUTPUT_ANN, 0)" by blast
  then show ?thesis unfolding r by auto
qed

section \<open>Errors change nothing\<close>

datatype put_call =
    Put_ann srd_c_annotation | Put_binary int u64 "u8 list" | Put_logic u32 "u8 list" int
  | Put_analog int int "real list option" u64 real
  | Put_analog_timed int int "real list option" "u64 list option" "u64 list option" u64 real
  | Put_meta_int int | Put_meta_double real

definition do_put ::
    "put_call \<Rightarrow> inst_ptr option \<Rightarrow> u64 \<Rightarrow> u64 \<Rightarrow> int \<Rightarrow> 'p srd_world \<Rightarrow> srd_error_code \<times> 'p srd_world" where
  "do_put c di ss es n w = (case c of
      Put_ann a \<Rightarrow> c_decoder_put di ss es n a w
    | Put_binary cls nbytes data \<Rightarrow> c_decoder_put_binary di ss es n cls nbytes data w
    | Put_logic msk vals k \<Rightarrow> c_decoder_put_logic di ss es n msk vals k w
    | Put_analog ch k data m sc \<Rightarrow> c_decoder_put_analog di ss es n ch k data m sc w
    | Put_analog_timed ch k data ts te m sc \<Rightarrow> c_decoder_put_analog_timed di n ch k data ts te m sc w
    | Put_meta_int v \<Rightarrow> c_decoder_put_meta_int di ss es n v w
    | Put_meta_double v \<Rightarrow> c_decoder_put_meta_double di ss es n v w)"

text \<open>The output types a call accepts.\<close>

definition accepts :: "put_call \<Rightarrow> srd_output_type \<Rightarrow> bool" where
  "accepts c ty = (case c of
      Put_ann _ \<Rightarrow> ty = SRD_OUTPUT_ANN \<or> ty = SRD_OUTPUT_META
    | Put_binary _ _ _ \<Rightarrow> ty = SRD_OUTPUT_BINARY
    | Put_logic _ _ _ \<Rightarrow> ty = SRD_OUTPUT_LOGIC
    | Put_analog _ _ data m _ \<Rightarrow> ty = SRD_OUTPUT_ANALOG \<and> data \<noteq> None \<and> m \<noteq> 0
    | Put_analog_timed _ _ data ts te m _ \<Rightarrow>
        ty = SRD_OUTPUT_ANALOG \<and> data \<noteq> None \<and> ts \<noteq> None \<and> te \<noteq> None \<and> m \<noteq> 0
    | _ \<Rightarrow> True)"

text \<open>
  A put call on an instance succeeds exactly when the output number is registered and has
  a type the call accepts, and a refused call has no effect at all.
\<close>

theorem put_accepted_or_no_effect:
  "do_put c (Some p) ss es n w = (r, w') \<Longrightarrow>
    (r = SRD_OK \<longleftrightarrow> (\<exists>pdo. output_of p n w = Some pdo \<and> accepts c (pdo_output_type pdo)))
    \<and> (r \<noteq> SRD_OK \<longrightarrow> w' = w)"
  by (cases c)
    (auto simp: do_put_def accepts_def c_decoder_put_def c_decoder_put_binary_def c_decoder_put_logic_def
      c_decoder_put_analog_def c_decoder_put_analog_timed_def c_decoder_put_meta_int_def
      c_decoder_put_meta_double_def put_typed_def put_meta_def
      split: option.splits srd_output_type.splits if_splits)

lemma put_accepted_or_no_effect_witness:
  "\<exists>r w'. do_put (Put_meta_int 5) (Some 0) 0 1 3 (example_c_world blank_decoder :: unit srd_world) = (r, w')
    \<and> r \<noteq> SRD_OK \<and> w' = example_c_world blank_decoder"
proof -
  let ?w = "example_c_world blank_decoder :: unit srd_world"
  obtain r w' where d: "do_put (Put_meta_int 5) (Some 0) 0 1 3 ?w = (r, w')" by fastforce
  have "output_of 0 3 ?w = None" by (simp add: output_of_def example_c_inst malloc0_inst_def g_slist_nth_def)
  with put_accepted_or_no_effect [OF d] d show ?thesis by auto
qed

text \<open>The metadata calls do not look at the type of their output.\<close>

lemma put_meta_ignores_output_type:
  "output_of p n w = Some pdo \<Longrightarrow> fst (c_decoder_put_meta_int (Some p) ss es n v w) = SRD_OK"
  by (simp add: c_decoder_put_meta_int_def put_meta_def)

section \<open>Protocol data\<close>

lemma c_collect_args:
  "C_FIELD_SENTINEL \<notin> set fs \<Longrightarrow> c_collect n (fs @ C_FIELD_SENTINEL # rest) = take n fs"
proof (induction fs arbitrary: n)
  case Nil
  then show ?case by (cases n) simp_all
next
  case (Cons f fs)
  then show ?case by (cases n) auto
qed

text \<open>
  What is asked of the callbacks of the decoders on top: called for an instance, the callback
  of a description moves the private data of that instance by \<open>step\<close>, leaves the private
  data of the others in \<open>S\<close> alone, and restacks nothing. It may do anything further up.
\<close>

type_synonym proto_call = "u64 \<times> u64 \<times> string \<times> c_field list"

definition wiring :: "'p srd_world \<Rightarrow> inst_ptr \<Rightarrow>
    (bool \<times> srd_c_decoder option \<times> inst_ptr list \<times> srd_pd_output list) option" where
  "wiring w q = map_option (\<lambda>d. (is_c_inst d, c_dec_inst d, next_di d, pd_output d)) (inst_at w q)"

definition data_of :: "'p srd_world \<Rightarrow> inst_ptr \<Rightarrow> 'p option option" where
  "data_of w q = map_option user_data (inst_at w q)"

definition uppers_step ::
    "'p environ \<Rightarrow> inst_ptr set \<Rightarrow> (srd_c_decoder \<Rightarrow> proto_call \<Rightarrow> 'p option \<Rightarrow> 'p option) \<Rightarrow> bool" where
  "uppers_step env S step \<longleftrightarrow>
     (\<forall>c f q ss es cmd fs w. cb_decode_upper (c_ops env c) = Some f \<longrightarrow>
        wiring (f q ss es cmd fs w) = wiring w
      \<and> data_of (f q ss es cmd fs w) q = map_option (step c (ss, es, cmd, fs)) (data_of w q)
      \<and> (\<forall>q' \<in> S. q' \<noteq> q \<longrightarrow> data_of (f q ss es cmd fs w) q' = data_of w q'))"

text \<open>The description whose callback an instance is called through, if it is called.\<close>

definition upper_dec :: "'p environ \<Rightarrow> 'p srd_world \<Rightarrow> inst_ptr \<Rightarrow> srd_c_decoder option" where
  "upper_dec env w q = (case wiring w q of
      Some (True, Some c, _) \<Rightarrow> if cb_decode_upper (c_ops env c) = None then None else Some c
    | _ \<Rightarrow> None)"

definition data_after ::
    "(srd_c_decoder \<Rightarrow> proto_call \<Rightarrow> 'p option \<Rightarrow> 'p option) \<Rightarrow> srd_c_decoder option \<Rightarrow> proto_call list \<Rightarrow>
     'p option option \<Rightarrow> 'p option option" where
  "data_after step dec calls d = (case dec of None \<Rightarrow> d | Some c \<Rightarrow> map_option (fold (step c) calls) d)"

lemma call_upper_effect:
  assumes own: "uppers_step env S step"
  shows "wiring (call_upper env ss es cmd fs q w) = wiring w"
    and "data_of (call_upper env ss es cmd fs q w) q = data_after step (upper_dec env w q) [(ss, es, cmd, fs)] (data_of w q)"
    and "q' \<in> S \<Longrightarrow> q' \<noteq> q \<Longrightarrow> data_of (call_upper env ss es cmd fs q w) q' = data_of w q'"
proof -
  have f: "wiring (f q ss es cmd fs w) = wiring w"
    "data_of (f q ss es cmd fs w) q = map_option (step c (ss, es, cmd, fs)) (data_of w q)"
    "q' \<in> S \<Longrightarrow> q' \<noteq> q \<Longrightarrow> data_of (f q ss es cmd fs w) q' = data_of w q'"
    if "cb_decode_upper (c_ops env c) = Some f" for c f
    using own that unfolding uppers_step_def by blast+
  show "wiring (call_upper env ss es cmd fs q w) = wiring w"
    by (simp add: call_upper_def f split: option.split)
  show "data_of (call_upper env ss es cmd fs q w) q = data_after step (upper_dec env w q) [(ss, es, cmd, fs)] (data_of w q)"
    by (auto simp: call_upper_def f upper_dec_def wiring_def data_after_def split: option.split)
  show "data_of (call_upper env ss es cmd fs q w) q' = data_of w q'" if "q' \<in> S" "q' \<noteq> q"
    using that by (simp add: call_upper_def f split: option.split)
qed

lemma upper_dec_cong: "wiring w' = wiring w \<Longrightarrow> upper_dec env w' = upper_dec env w"
  by (simp add: fun_eq_iff upper_dec_def)

lemma next_of_wiring: "next_of w p = (case wiring w p of None \<Rightarrow> [] | Some x \<Rightarrow> fst (snd (snd x)))"
  by (cases "inst_at w p") (simp_all add: next_of_def wiring_def)

lemma output_of_wiring: "output_of p n w = (case wiring w p of None \<Rightarrow> None | Some x \<Rightarrow> g_slist_nth (snd (snd (snd x))) n)"
  by (cases "inst_at w p") (simp_all add: output_of_def wiring_def)

lemma call_uppers_effect:
  assumes own: "uppers_step env S step" and "set qs \<subseteq> S" and "distinct qs"
  shows "wiring (fold (call_upper env ss es cmd fs) qs w) = wiring w
    \<and> (\<forall>q \<in> S. data_of (fold (call_upper env ss es cmd fs) qs w) q =
          (if q \<in> set qs then data_after step (upper_dec env w q) [(ss, es, cmd, fs)] (data_of w q) else data_of w q))"
  using assms(2,3)
proof (induction qs arbitrary: w)
  case (Cons p qs)
  let ?v = "call_upper env ss es cmd fs p w"
  note c = call_upper_effect(1,2) [OF own, of ss es cmd fs p w]
  have o: "data_of ?v q = data_of w q" if "q \<in> S" "q \<noteq> p" for q
    by (rule call_upper_effect(3) [OF own that])
  have u: "upper_dec env ?v = upper_dec env w" by (rule upper_dec_cong [OF c(1)])
  have IH: "wiring (fold (call_upper env ss es cmd fs) qs ?v) = wiring ?v"
    "q \<in> S \<Longrightarrow> data_of (fold (call_upper env ss es cmd fs) qs ?v) q =
       (if q \<in> set qs then data_after step (upper_dec env ?v q) [(ss, es, cmd, fs)] (data_of ?v q) else data_of ?v q)" for q
    using Cons.IH [of ?v] Cons.prems by simp_all
  have "data_of (fold (call_upper env ss es cmd fs) (p # qs) w) q =
      (if q \<in> set (p # qs) then data_after step (upper_dec env w q) [(ss, es, cmd, fs)] (data_of w q) else data_of w q)"
    if "q \<in> S" for q
    using IH(2) [OF that] o [OF that] u c(2) Cons.prems(2) by (cases "q = p") simp_all
  with IH(1) c(1) show ?case by simp
qed simp

text \<open>A run of messages on one output, each call with the end mark behind its arguments.\<close>

fun proto_run ::
    "'p environ \<Rightarrow> inst_ptr \<Rightarrow> int \<Rightarrow> c_field list \<Rightarrow> proto_call list \<Rightarrow> 'p srd_world \<Rightarrow>
     srd_error_code list \<times> 'p srd_world" where
  "proto_run env p n rest [] w = ([], w)"
| "proto_run env p n rest ((ss, es, cmd, fs) # ms) w =
     (let (r, w1) = c_proto env (Some p) ss es n cmd (fs @ C_FIELD_SENTINEL # rest) w;
          (rs, w2) = proto_run env p n rest ms w1
      in (r # rs, w2))"

fun first_64 :: "proto_call \<Rightarrow> proto_call" where
  "first_64 (ss, es, cmd, fs) = (ss, es, cmd, take 64 fs)"

text \<open>
  C18: A run of protocol messages on a protocol output is accepted, and at its end every
  instance directly on top has seen exactly these messages: the private data of one that is a
  C decoder with a \<^verbatim>\<open>decode_upper\<close> is what its callback makes of the messages in the order they
  were sent, each once, with its span, its command and its arguments up to the 64th (further
  ones are dropped without an error); an instance without that callback, or of a Python
  decoder, is not called. The instances on top are different ones, and their callbacks are
  such as \<open>uppers_step\<close> says.
\<close>

theorem c_proto_reaches_uppers:
  assumes out: "output_of p n w = Some pdo" "pdo_output_type pdo = SRD_OUTPUT_PROTO"
    and dist: "distinct (next_of w p)" and own: "uppers_step env (set (next_of w p)) step"
    and marks: "\<forall>(ss, es, cmd, fs) \<in> set ms. C_FIELD_SENTINEL \<notin> set fs"
    and run: "proto_run env p n rest ms w = (rs, w')"
  shows "rs = replicate (length ms) SRD_OK
    \<and> (\<forall>q \<in> set (next_of w p). data_of w' q = data_after step (upper_dec env w q) (map first_64 ms) (data_of w q))"
proof -
  have "rs = replicate (length ms) SRD_OK
      \<and> (\<forall>q \<in> set (next_of w p). data_of w' q = data_after step (upper_dec env v q) (map first_64 ms) (data_of v q))"
    if "wiring v = wiring w" "proto_run env p n rest ms v = (rs, w')" for v
    using that marks
  proof (induction ms arbitrary: v rs)
    case Nil
    then show ?case by (simp add: data_after_def option.map_id0 split: option.split)
  next
    case (Cons m ms)
    obtain ss es cmd fs where m: "m = (ss, es, cmd, fs)" by (cases m)
    let ?v = "fold (call_upper env ss es cmd (take 64 fs)) (next_of w p) v"
    have "next_of v p = next_of w p" "output_of p n v = Some pdo"
      using Cons.prems(1) out(1) by (simp_all add: next_of_wiring output_of_wiring)
    then have call: "c_proto env (Some p) ss es n cmd (fs @ C_FIELD_SENTINEL # rest) v = (SRD_OK, ?v)"
      using Cons.prems(3) out(2) by (simp add: m c_proto_def c_collect_args)
    obtain rs1 where rs: "rs = SRD_OK # rs1" and r1: "proto_run env p n rest ms ?v = (rs1, w')"
      using Cons.prems(2) call by (auto simp: m split: prod.splits)
    note e = call_uppers_effect [OF own subset_refl dist, of ss es cmd "take 64 fs" v]
    have wv: "wiring ?v = wiring w" using e Cons.prems(1) by simp
    have "\<forall>(ss, es, cmd, fs) \<in> set ms. C_FIELD_SENTINEL \<notin> set fs" using Cons.prems(3) by simp
    from Cons.IH [OF wv r1 this] e Cons.prems(1) wv rs
    show ?case
      by (auto simp: m data_after_def option.map_comp comp_def upper_dec_cong [OF wv] upper_dec_cong [OF Cons.prems(1)]
          split: option.split)
  qed
  from this [OF refl run] show ?thesis .
qed

text \<open>Two decoders on top of one: a C decoder that keeps what it is sent, and a Python decoder.\<close>

definition keep_call :: "srd_c_decoder \<Rightarrow> proto_call \<Rightarrow> proto_call list option \<Rightarrow> proto_call list option" where
  "keep_call c m d = Some ((case d of None \<Rightarrow> [] | Some ms \<Rightarrow> ms) @ [m])"

definition keep_env :: "proto_call list environ" where
  "keep_env = null_env\<lparr>c_ops := (\<lambda>c. \<lparr>cb_reset = None, cb_start = None, cb_end = None, cb_metadata = None,
     cb_destroy = None, cb_decode_upper =
       Some (\<lambda>q ss es cmd fs. upd_inst q (\<lambda>d. d\<lparr>user_data := keep_call c (ss, es, cmd, fs) (user_data d)\<rparr>))\<rparr>)\<rparr>"

definition proto_pdo :: srd_pd_output where
  "proto_pdo = \<lparr>pdo_id = 0, pdo_output_type = SRD_OUTPUT_PROTO, pdo_di = 0, pdo_proto_id = [],
     pdo_meta_type = None, pdo_meta_name = None, pdo_meta_descr = None\<rparr>"

definition example_proto_world :: "proto_call list srd_world" where
  "example_proto_world = empty_world\<lparr>w_insts :=
     [0 \<mapsto> (malloc0_inst blank_decoder 1)\<lparr>is_c_inst := True, next_di := [1, 2], pd_output := [proto_pdo]\<rparr>,
      1 \<mapsto> (malloc0_inst blank_decoder 1)\<lparr>is_c_inst := True, c_dec_inst := Some example_c_decoder\<rparr>,
      2 \<mapsto> malloc0_inst blank_decoder 1]\<rparr>"

lemma keep_env_steps: "uppers_step keep_env S keep_call"
proof -
  have "wiring (upd_inst q (\<lambda>d. d\<lparr>user_data := f d\<rparr>) w) = wiring w" for q f and w :: "proto_call list srd_world"
    by (simp add: fun_eq_iff wiring_def option.map_comp comp_def)
  moreover have "data_of (upd_inst q (\<lambda>d. d\<lparr>user_data := g (user_data d)\<rparr>) w) q' =
      (if q' = q then map_option g (data_of w q) else data_of w q')" for q q' g and w :: "proto_call list srd_world"
    by (simp add: data_of_def option.map_comp comp_def)
  ultimately show ?thesis by (simp add: uppers_step_def keep_env_def)
qed

lemma c_proto_reaches_uppers_witness:
  "\<exists>rs w'. proto_run keep_env 0 0 [] [(1, 2, ''START'', [C_U8 5]), (3, 4, ''STOP'', [])] example_proto_world = (rs, w')
    \<and> rs = [SRD_OK, SRD_OK]
    \<and> data_of w' 1 = Some (Some [(1, 2, ''START'', [C_U8 5]), (3, 4, ''STOP'', [])])
    \<and> data_of w' 2 = Some None"
proof -
  let ?w = example_proto_world and ?ms = "[(1, 2, ''START'', [C_U8 5]), (3, 4, ''STOP'', [])] :: proto_call list"
  have i: "inst_at ?w 0 = Some ((malloc0_inst blank_decoder 1)\<lparr>is_c_inst := True, next_di := [1, 2], pd_output := [proto_pdo]\<rparr>)"
    "inst_at ?w 1 = Some ((malloc0_inst blank_decoder 1)\<lparr>is_c_inst := True, c_dec_inst := Some example_c_decoder\<rparr>)"
    "inst_at ?w 2 = Some (malloc0_inst blank_decoder 1)"
    by (simp_all add: example_proto_world_def inst_at_def)
  have nx: "next_of ?w 0 = [1, 2]" and o: "output_of 0 0 ?w = Some proto_pdo"
    by (simp_all add: next_of_def output_of_def i g_slist_nth_def)
  have ud: "data_of ?w 1 = Some None" "data_of ?w 2 = Some None"
    "upper_dec keep_env ?w 1 = Some example_c_decoder" "upper_dec keep_env ?w 2 = None"
    by (simp_all add: data_of_def upper_dec_def wiring_def i malloc0_inst_def keep_env_def del: One_nat_def)
  obtain rs w' where r: "proto_run keep_env 0 0 [] ?ms ?w = (rs, w')" by (rule prod.exhaust)
  have m: "\<forall>(ss, es, cmd, fs) \<in> set ?ms. C_FIELD_SENTINEL \<notin> set fs" by simp
  have "pdo_output_type proto_pdo = SRD_OUTPUT_PROTO" by (simp add: proto_pdo_def)
  from c_proto_reaches_uppers [OF o this _ keep_env_steps m r] r show ?thesis
    by (simp add: nx ud data_after_def keep_call_def del: One_nat_def)
qed

section \<open>Options\<close>

text \<open>
  An integer option set on an instance is read back as it was set, whatever was set under
  that or other names before, and a name that was not set gives the caller's default.
\<close>

theorem option_set_get:
  "c_decoder_get_option_int (Some (c_option_set t d)) (Some k) defval =
    (case map_of (rev t) k of
       Some v \<Rightarrow> (case v of GV_int64 n \<Rightarrow> n | GV_uint64 x \<Rightarrow> sint x | GV_int32 n \<Rightarrow> n | GV_uint32 n \<Rightarrow> n
          | GV_double x \<Rightarrow> trunc_real x | GV_string _ \<Rightarrow> defval)
     | None \<Rightarrow> c_decoder_get_option_int (Some d) (Some k) defval)"
proof -
  have ins: "g_hash_table_lookup (fold (\<lambda>(k, v). g_hash_table_insert k v) t t0) k =
      (case map_of (rev t) k of Some v \<Rightarrow> Some v | None \<Rightarrow> g_hash_table_lookup t0 k)" for t0 :: "gvariant ghash"
  proof (induction t arbitrary: t0)
    case Nil
    show ?case by simp
  next
    case (Cons p t)
    show ?case unfolding fold.simps comp_def Cons.IH
      by (cases p) (auto simp: lookup_insert map_add_def split: option.split)
  qed
  have "option_value (Some (c_option_set t d)) (Some k) =
      (case map_of (rev t) k of Some v \<Rightarrow> Some v | None \<Rightarrow> option_value (Some d) (Some k))"
    by (simp add: option_value_def c_option_set_def g_hash_table_lookup_def ins [unfolded g_hash_table_lookup_def] split: option.split)
  then show ?thesis
    by (simp add: c_decoder_get_option_int_def split: option.split gvariant.split)
qed

end
