(* ===== verification/DecRun.thy ===== *)
theory DecRun
  imports CApi
begin

text \<open>
  What the decode() functions of the C decoders have in common: a loop that waits for a
  condition and then handles the sample at which it holds. This theory runs such a loop
  against the wait engine of Wait, chunk by chunk, and shows that its outputs are those of a
  reference run that looks at the samples of the waveform one by one.
\<close>

section \<open>Outputs\<close>

text \<open>
  The calls a decoder makes, with the number of the output: \<^verbatim>\<open>c_put\<close>, \<^verbatim>\<open>c_put_v\<close>,
  \<^verbatim>\<open>c_put_bin\<close>, \<^verbatim>\<open>c_proto\<close> and \<^verbatim>\<open>c_put_meta_int\<close>.
\<close>

datatype out_call =
    O_put u64 u64 int int "string list"
  | O_put_v u64 u64 int int int "string list"
  | O_bin u64 u64 int int "u8 list"
  | O_proto u64 u64 int string "c_field list"
  | O_meta_int u64 u64 int int

section \<open>The loop\<close>

text \<open>
  A decoder whose decode() waits at one place of its loop: the conditions it waits for in a
  state, and what it does at the sample found, given its number, the matched conditions and
  the pins.
\<close>

record 's c_program =
  prog_wait :: "'s \<Rightarrow> srd_term list list"
  prog_step :: "u64 \<Rightarrow> u64 \<Rightarrow> (int \<Rightarrow> u8) \<Rightarrow> 's \<Rightarrow> 's \<times> out_call list"

text \<open>
  The loop against the chunks of \<open>feed\<close>, with fuel for its iterations. The result has for
  every iteration the sample and the calls made; it ends when \<^verbatim>\<open>c_wait\<close> has no more
  samples or is asked to terminate.
\<close>

fun decode_loop ::
    "nat \<Rightarrow> 's c_program \<Rightarrow> sample_chunk list \<Rightarrow> 'p srd_decoder_inst \<Rightarrow> 's \<Rightarrow>
     ('s \<times> (nat \<times> out_call list) list) option" where
  "decode_loop 0 P feed di s = None"
| "decode_loop (Suc n) P feed di s =
     (case c_decoder_wait_impl (prog_wait P s) feed di of
        (Wait_found pos hits, rest, di') \<Rightarrow>
          (let (s1, out) = prog_step P pos hits (c_pin di') s
           in case decode_loop n P rest di' s1 of
                None \<Rightarrow> None
              | Some (s2, tr) \<Rightarrow> Some (s2, (unat pos, out) # tr))
      | _ \<Rightarrow> Some (s, []))"

section \<open>The reference run\<close>

text \<open>
  Sample by sample: \<open>old\<close> is the sample before, \<open>e\<close> counts the samples of the current wait,
  \<open>m\<close> says that an earlier wait of the run matched (a skip then counts from the match).
\<close>

definition wait_conds :: "'s c_program \<Rightarrow> bool \<Rightarrow> 's \<Rightarrow> srd_term list list" where
  "wait_conds P m s = (if m then map (map restart_skip) (prog_wait P s) else prog_wait P s)"

fun run_wave ::
    "'s c_program \<Rightarrow> bool \<Rightarrow> nat \<Rightarrow> nat \<Rightarrow> (int \<Rightarrow> u8) \<Rightarrow> (int \<Rightarrow> u8) list \<Rightarrow> 's \<Rightarrow>
     's \<times> (nat \<times> out_call list) list" where
  "run_wave P m k e old [] s = (s, [])"
| "run_wave P m k e old (x # xs) s =
     (let ms = map (cond_sem old x e) (wait_conds P m s)
      in if True \<in> set ms
         then let (s1, out) = prog_step P (of_nat k) (match_mask 0 ms) x s;
                  (s2, tr) = run_wave P True (Suc k) 0 x xs s1
              in (s2, (k, out) # tr)
         else run_wave P m (Suc k) (Suc e) x xs s)"

text \<open>
  The same over a waveform that comes in chunks, of which those after the first begin at the
  samples of \<open>E\<close>. After a match (\<open>j\<close>) the sample that begins a chunk is passed over: it is
  not looked at, and the pins of the match stay the previous ones.
\<close>

definition chunk_starts :: "sample_chunk list \<Rightarrow> nat set" where
  "chunk_starts feed = (\<lambda>ck. unat (ck_start ck)) ` set feed"

fun run_cut ::
    "nat set \<Rightarrow> 's c_program \<Rightarrow> bool \<Rightarrow> bool \<Rightarrow> nat \<Rightarrow> nat \<Rightarrow> (int \<Rightarrow> u8) \<Rightarrow> (int \<Rightarrow> u8) list \<Rightarrow> 's \<Rightarrow>
     's \<times> (nat \<times> out_call list) list" where
  "run_cut E P m j k e old [] s = (s, [])"
| "run_cut E P m j k e old (x # xs) s =
     (if j \<and> k \<in> E then run_cut E P m j (Suc k) e old xs s
      else let ms = map (cond_sem old x e) (wait_conds P m s)
      in if True \<in> set ms
         then let (s1, out) = prog_step P (of_nat k) (match_mask 0 ms) x s;
                  (s2, tr) = run_cut E P True True (Suc k) 0 x xs s1
              in (s2, (k, out) # tr)
         else run_cut E P m False (Suc k) (Suc e) x xs s)"

section \<open>The state of an instance after a match\<close>

lemma find_match_loop_hit_state:
  assumes "scan_pre di" and "spec_of di = Some (j, ms)"
  shows "\<exists>r. find_match_loop di asa = (True, r) \<and> abs_cur_matched r \<and> \<not> skip_zero r \<and> pins_ok r
    \<and> unat (abs_cur_samplenum r) = j \<and> match_array r = match_mask 0 ms
    \<and> abs_end_samplenum r = abs_end_samplenum di
    \<and> (\<forall>ch. 0 \<le> ch \<longrightarrow> ch < int (dec_num_channels di) \<longrightarrow> oldpin r ch = sample_at di j ch)"
  using assms
proof (induction "samples_left di" arbitrary: di asa)
  case 0
  then show ?case by (simp add: spec_of_def)
next
  case (Suc n)
  have n: "samples_left di = Suc n" using Suc(2) by simp
  note s = samples_left_Suc [OF n]
  have ch: "in_chunk di" using Suc.prems s(1) by (simp add: scan_pre_def in_chunk_def)
  have p: "pins_ok di" using Suc.prems(1) by (simp add: scan_pre_def)
  show ?case
  proof (cases "\<exists>cond \<in> set (condition_list di). now_sem di cond")
    case True
    then have sp: "j = unat (abs_cur_samplenum di)" "ms = map (now_sem di) (condition_list di)"
      using n Suc.prems(2) by (auto simp: spec_of_def Let_def)
    have pl: "\<forall>cond \<in> set (condition_list di). plain_cond (abs_cur_matched di) cond"
      using Suc.prems(1) by (simp add: scan_pre_def conds_ok_def)
    have z: "match_array di = 0" "\<not> skip_zero di" using Suc.prems(1) by (simp_all add: scan_pre_def)
    obtain asa' conds' where ev: "eval_conditions di (condition_list di) 0 asa =
        (asa', conds', di\<lparr>match_array := match_mask 0 ms\<rparr>)"
      using eval_conditions_ok [OF ch z(2) pl, of 0 asa] z(1) sp(2) by auto
    define d where "d = di\<lparr>match_array := match_mask 0 ms, condition_list := conds'\<rparr>"
    have d: "pins_ok d" "in_chunk d" "sample_at d = sample_at di" using p ch by (simp_all add: d_def in_chunk_def)
    define r where "r = (update_old_pins_array d)\<lparr>abs_cur_matched := (match_mask 0 ms \<noteq> 0)\<rparr>"
    have sc: "scan_sample di asa = (asa', r)" using ev by (simp add: scan_sample_def r_def d_def)
    have m: "match_mask 0 ms \<noteq> 0" using True unfolding sp(2) match_mask_eq_0_iff by auto
    then have l: "find_match_loop di asa = (True, r)"
      using s(1) sc by (subst find_match_loop.simps) (simp add: r_def)
    have "oldpin r c = sample_at di j c" if "0 \<le> c" "c < int (dec_num_channels di)" for c
    proof -
      have n: "dec_num_channels d = dec_num_channels di" "abs_cur_samplenum d = abs_cur_samplenum di"
        by (simp_all add: d_def)
      have "oldpin r c = oldpin (update_old_pins_array d) c" by (simp add: r_def)
      then show ?thesis
        using that update_old_pins_ok(2) [OF d(1), of c] old_pin_sample_at [OF d(2), of c] d(3) sp(1) n by simp
    qed
    moreover have "pins_ok r" using update_old_pins_ok(1) [OF d(1)] by (simp add: r_def)
    moreover have "unat (abs_cur_samplenum r) = j" "match_array r = match_mask 0 ms" "\<not> skip_zero r"
      "abs_end_samplenum r = abs_end_samplenum di" "abs_cur_matched r"
      using m sp z(2) by (simp_all add: r_def d_def)
    ultimately show ?thesis using l by blast
  next
    case False
    then have nm: "\<forall>cond \<in> set (condition_list di). \<not> now_sem di cond" by blast
    have sp: "spec_of (unmatched_step di) = Some (j, ms)"
      using spec_of_miss [OF Suc.prems(1) n nm] Suc.prems(2) by simp
    have "\<not> (\<forall>cond \<in> set (condition_list di). cond \<noteq> [] \<longrightarrow> const_blocked di cond)"
    proof
      assume b: "\<forall>cond \<in> set (condition_list di). cond \<noteq> [] \<longrightarrow> const_blocked di cond"
      have "\<forall>cond \<in> set (condition_list di). \<forall>t \<in> set cond. term_chan_ok di t"
        using Suc.prems by (simp add: scan_pre_def conds_ok_def)
      with b have "spec_of di = None" unfolding spec_of_def by (rule scan_spec_const_blocked)
      with Suc.prems(2) show False by simp
    qed
    with find_match_loop_miss [OF Suc.prems(1) ch nm]
    have l: "find_match_loop di asa = find_match_loop (unmatched_step di) False" by blast
    have "n = samples_left (unmatched_step di)" using s(3) by simp
    from Suc.hyps(1) [OF this scan_pre_step [OF Suc.prems(1) s(1) nm] sp, of False]
    show ?thesis unfolding l by (simp add: unmatched_step_view)
  qed
qed

text \<open>
  The instance inside a chunk that carries \<open>lv\<close>, at sample \<open>k\<close>, which it has matched.
\<close>

definition matched_at :: "(nat \<Rightarrow> int \<Rightarrow> u8) \<Rightarrow> nat \<Rightarrow> 'p srd_decoder_inst \<Rightarrow> bool" where
  "matched_at lv k di \<longleftrightarrow> got_new_samples di \<and> \<not> want_wait_terminate di \<and> \<not> first_pos di
     \<and> abs_cur_matched di \<and> \<not> skip_zero di \<and> pins_ok di \<and> unat (abs_cur_samplenum di) = k
     \<and> abs_start_samplenum di \<le> abs_cur_samplenum di \<and> k < unat (abs_end_samplenum di)
     \<and> (\<forall>ch. 0 \<le> ch \<longrightarrow> ch < int (dec_num_channels di) \<longrightarrow> chan_live di ch \<and> oldpin di ch = lv k ch)
     \<and> (\<forall>j ch. k < j \<longrightarrow> j < unat (abs_end_samplenum di) \<longrightarrow> sample_at di j ch = lv j ch)"

text \<open>Every channel is connected, and a pin cache has its size.\<close>

definition channels_ok :: "'p srd_decoder_inst \<Rightarrow> bool" where
  "channels_ok di \<longleftrightarrow> (case dec_channelmap di of None \<Rightarrow> False
       | Some cm \<Rightarrow> length cm = dec_num_channels di \<and> (\<forall>c \<in> set cm. 0 \<le> c))
     \<and> (case c_pin_cache di of None \<Rightarrow> True | Some c \<Rightarrow> length c = dec_num_channels di)
     \<and> 0 < dec_num_channels di"

definition clip :: "nat \<Rightarrow> (int \<Rightarrow> u8) \<Rightarrow> int \<Rightarrow> u8" where
  "clip n x ch = (if 0 \<le> ch \<and> ch < int n then x ch else 0xFF)"

text \<open>The chunk's buffers hold as many samples as its range has.\<close>

definition fills :: "'p srd_decoder_inst \<Rightarrow> bool" where
  "fills di \<longleftrightarrow> unat (abs_end_samplenum di) - unat (abs_start_samplenum di) \<le> 8 * unat ((inbuflen di + 7) div 8)"

lemma fill_pin_cache_frame:
  "sample_at (fill_pin_cache di) = sample_at di" "chan_live (fill_pin_cache di) = chan_live di"
  "oldpin (fill_pin_cache di) = oldpin di" "pins_ok (fill_pin_cache di) = pins_ok di"
  "got_new_samples (fill_pin_cache di) = got_new_samples di"
  "want_wait_terminate (fill_pin_cache di) = want_wait_terminate di"
  "first_pos (fill_pin_cache di) = first_pos di" "abs_cur_matched (fill_pin_cache di) = abs_cur_matched di"
  "skip_zero (fill_pin_cache di) = skip_zero di" "abs_cur_samplenum (fill_pin_cache di) = abs_cur_samplenum di"
  "abs_start_samplenum (fill_pin_cache di) = abs_start_samplenum di"
  "abs_end_samplenum (fill_pin_cache di) = abs_end_samplenum di"
  "dec_num_channels (fill_pin_cache di) = dec_num_channels di"
  "dec_channelmap (fill_pin_cache di) = dec_channelmap di"
  "read_sample (fill_pin_cache di) = read_sample di" "inbuflen (fill_pin_cache di) = inbuflen di"
  by (simp_all add: fill_pin_cache_def Let_def fun_eq_iff sample_at_def chan_live_def channel_buffer_def
      const_sample_def oldpin_def pins_ok_def split: option.split)

lemma fill_pin_cache_channels_ok: "channels_ok di \<Longrightarrow> channels_ok (fill_pin_cache di)"
  by (auto simp: channels_ok_def fill_pin_cache_def Let_def split: option.splits)

lemma wait_pass_hit_state:
  assumes sc: "scanning lv di" and sp: "wait_spec lv di (abs_end_samplenum di) = Some (j, ms)"
  shows "\<exists>d. wait_pass di = (Wait_found (of_nat j) (match_mask 0 ms), d) \<and> matched_at lv j d
    \<and> abs_end_samplenum d = abs_end_samplenum di \<and> abs_start_samplenum d = abs_start_samplenum di
    \<and> read_sample d = read_sample di \<and> inbuflen d = inbuflen di
    \<and> dec_num_channels d = dec_num_channels di \<and> (channels_ok di \<longrightarrow> channels_ok d)
    \<and> abs_cur_samplenum d = of_nat j"
proof -
  let ?S = "scan_start di"
  have g: "got_new_samples di" "\<not> want_wait_terminate di" "have_non_null_conds di" "scan_pre ?S"
    "abs_cur_samplenum ?S < abs_end_samplenum di"
    "\<forall>ch. 0 \<le> ch \<longrightarrow> ch < int (dec_num_channels di) \<longrightarrow> chan_live di ch"
    "\<forall>k ch. unat (abs_cur_samplenum ?S) \<le> k \<longrightarrow> k < unat (abs_end_samplenum di) \<longrightarrow> sample_at di k ch = lv k ch"
    using sc by (simp_all add: scanning_def)
  have sp': "spec_of ?S = Some (j, ms)" using spec_of_scanning [OF sc] sp by simp
  note rng = spec_of_Some(1,2) [OF sp']
  obtain r where r: "find_match_loop ?S True = (True, r)" "abs_cur_matched r" "\<not> skip_zero r" "pins_ok r"
    "unat (abs_cur_samplenum r) = j" "match_array r = match_mask 0 ms"
    "abs_end_samplenum r = abs_end_samplenum ?S"
    "\<forall>ch. 0 \<le> ch \<longrightarrow> ch < int (dec_num_channels ?S) \<longrightarrow> oldpin r ch = sample_at ?S j ch"
    using find_match_loop_hit_state [OF g(4) sp'] by blast
  note fr = find_match_loop_frame [of ?S True, unfolded r(1) snd_conv]
  define d where "d = fill_pin_cache (r\<lparr>first_pos := False\<rparr>)"
  have jr: "abs_cur_samplenum r = of_nat j" using r(5) by auto
  have w: "wait_pass di = (Wait_found (of_nat j) (match_mask 0 ms), d)"
    using wait_pass_scan [OF g(1-3) r(1)] r(6) jr by (simp add: d_def)
  have gs: "got_new_samples ?S = got_new_samples di"
    by (simp add: scan_start_def advance_past_match_def update_old_pins_array_initial_pins_def
        oldpins_array_seed_def Let_def split: option.split)
  have ch: "chan_live r c = chan_live di c" for c
    using fr by (simp add: chan_live_def channel_buffer_def scan_start_frame)
  have sa: "sample_at r = sample_at di"
    using fr by (simp add: fun_eq_iff sample_at_def channel_buffer_def const_sample_def scan_start_frame
        split: option.split)
  have upd: "sample_at (r\<lparr>first_pos := b\<rparr>) = sample_at r" "chan_live (r\<lparr>first_pos := b\<rparr>) = chan_live r"
    "oldpin (r\<lparr>first_pos := b\<rparr>) = oldpin r" "pins_ok (r\<lparr>first_pos := b\<rparr>) = pins_ok r" for b
    by (simp_all add: fun_eq_iff sample_at_def chan_live_def channel_buffer_def const_sample_def oldpin_def
        pins_ok_def split: option.split)
  have st: "abs_start_samplenum ?S \<le> abs_cur_samplenum ?S" using g(4) by (simp add: scan_pre_def)
  have "matched_at lv j d"
    unfolding matched_at_def d_def fill_pin_cache_frame upd sa ch
  proof (intro conjI allI impI)
    show "abs_start_samplenum (r\<lparr>first_pos := False\<rparr>) \<le> abs_cur_samplenum (r\<lparr>first_pos := False\<rparr>)"
      using fr r(5) rng(1) st by (simp add: word_le_nat_alt)
    show "j < unat (abs_end_samplenum (r\<lparr>first_pos := False\<rparr>))" using r(7) rng(2) by simp
  qed (use r fr gs g rng sa ch in \<open>simp_all add: scan_start_frame\<close>)
  moreover have "channels_ok d" if "channels_ok di"
    unfolding d_def
    by (rule fill_pin_cache_channels_ok) (use that fr in \<open>auto simp: channels_ok_def scan_start_chans split: option.splits\<close>)
  ultimately show ?thesis
    using w fr r(7) jr
    by (intro exI [of _ d]) (simp add: d_def fill_pin_cache_frame scan_start_frame scan_start_chans)
qed


text \<open>After a match every pin reads as the waveform has it.\<close>

lemma pins_after_hit:
  assumes sc: "scanning lv di" and hit: "wait_pass di = (Wait_found (of_nat j) hits, d)"
    and rng: "unat (abs_cur_samplenum (scan_start di)) \<le> j" "j < unat (abs_end_samplenum di)"
    and ok: "channels_ok di" "fills di" and num: "dec_num_channels d = dec_num_channels di"
  shows "c_pin d = clip (dec_num_channels di) (lv j)"
proof
  fix ch
  obtain cm where cm: "dec_channelmap di = Some cm" "length cm = dec_num_channels di" "\<forall>c \<in> set cm. 0 \<le> c"
    using ok(1) by (auto simp: channels_ok_def split: option.splits)
  have cache: "\<And>c. c_pin_cache di = Some c \<Longrightarrow> length c = dec_num_channels di"
    using ok(1) by (auto simp: channels_ok_def)
  have "j < 2 ^ LENGTH(64)" using rng(2) unsigned_less [of "abs_end_samplenum di"] by (rule less_trans)
  then have j: "unat (of_nat j :: u64) = j" by (simp add: unsigned_of_nat take_bit_nat_eq_self)
  have pre: "scan_pre (scan_start di)" "have_non_null_conds di" using sc by (simp_all add: scanning_def)
  have st: "abs_start_samplenum di \<le> (of_nat j :: u64)"
    using pre(1) rng(1) by (simp add: scan_pre_def scan_start_frame word_le_nat_alt j)
  show "c_pin d ch = clip (dec_num_channels di) (lv j) ch"
  proof (cases "0 \<le> ch \<and> ch < int (dec_num_channels di)")
    case True
    then obtain i where i: "ch = int i" "i < dec_num_channels di" by (metis nonneg_int_cases of_nat_less_iff)
    have sa: "sample_at di j ch = lv j ch" using sc rng by (simp add: scanning_def)
    have pos: "0 \<le> cm ! i" using cm i(2) by simp
    have "unat (of_nat j - abs_start_samplenum di) = j - unat (abs_start_samplenum di)"
      using unat_diff_le [OF st] j by simp
    then have "(of_nat j - abs_start_samplenum di) div 8 < (inbuflen di + 7) div 8"
      using ok(2) rng(2) st by (simp add: fills_def word_less_nat_alt unat_div word_le_nat_alt j)
    from pin_cache_at_match [OF hit cm(1,2) cache pre(2) st this i(2)] pos True sa
    show ?thesis by (simp add: i(1) clip_def j)
  next
    case False
    with num show ?thesis by (auto simp: c_pin_def clip_def)
  qed
qed

section \<open>From one wait to the next\<close>

text \<open>
  The conditions a decoder may wait for: levels and edges of its \<open>n\<close> channels, or a skip of
  at least one sample that stands alone.
\<close>

definition wait_cond_ok :: "nat \<Rightarrow> srd_term list \<Rightarrow> bool" where
  "wait_cond_ok n cond \<longleftrightarrow>
     (\<forall>t \<in> set cond. t_type t \<noteq> SRD_TERM_SKIP \<and> 0 \<le> t_channel t \<and> t_channel t < int n)
   \<or> (\<exists>t. cond = [t] \<and> t_type t = SRD_TERM_SKIP \<and> num_samples_already_skipped t = 0 \<and> 0 < num_samples_to_skip t)"

definition waits_ok :: "nat \<Rightarrow> srd_term list list \<Rightarrow> bool" where
  "waits_ok n conds \<longleftrightarrow> (\<exists>cond \<in> set conds. cond \<noteq> []) \<and> (\<forall>cond \<in> set conds. wait_cond_ok n cond)"

lemma wait_cond_ok_restart:
  assumes "wait_cond_ok (dec_num_channels d) cond"
    and "\<forall>ch. 0 \<le> ch \<longrightarrow> ch < int (dec_num_channels d) \<longrightarrow> chan_live d ch"
  shows "plain_cond b (map restart_skip cond) \<and> (\<forall>t \<in> set (map restart_skip cond). term_chan_ok d t)"
  using assms(1) unfolding wait_cond_ok_def
proof
  assume a: "\<forall>t \<in> set cond. t_type t \<noteq> SRD_TERM_SKIP \<and> 0 \<le> t_channel t \<and> t_channel t < int (dec_num_channels d)"
  then have "map restart_skip cond = cond" by (intro map_idI) (simp add: restart_skip_def)
  with a assms(2) show ?thesis by (simp add: plain_cond_def term_chan_ok_def)
next
  assume "\<exists>t. cond = [t] \<and> t_type t = SRD_TERM_SKIP \<and> num_samples_already_skipped t = 0 \<and> 0 < num_samples_to_skip t"
  then obtain t where t: "cond = [t]" "t_type t = SRD_TERM_SKIP" "0 < num_samples_to_skip t" by blast
  then have "1 \<le> num_samples_to_skip t" by (simp add: word_le_nat_alt word_less_nat_alt)
  with t show ?thesis by (simp add: plain_cond_def term_chan_ok_def restart_skip_def)
qed

lemma wait_enter_conds:
  "conds \<noteq> [] \<Longrightarrow> wait_enter conds di = di\<lparr>condition_list := conds\<rparr>"
  by (simp add: wait_enter_def condition_list_free_def)

lemma matched_scan_start:
  assumes "matched_at lv k d" and "conds \<noteq> []"
  shows "scan_start (wait_enter conds d) = d\<lparr>match_array := 0, abs_cur_samplenum := abs_cur_samplenum d + 1,
    condition_list := map (map restart_skip) conds\<rparr>"
  using assms by (simp add: matched_at_def scan_start_def wait_enter_conds advance_past_match_def Let_def)

lemma next_wait_ready:
  assumes m: "matched_at lv k d"
    and w: "waits_ok (dec_num_channels d) conds"
  shows "ready_to_scan lv (wait_enter conds d)"
    and "unat (abs_cur_samplenum (scan_start (wait_enter conds d))) = Suc k"
proof -
  have ne: "conds \<noteq> []" using w by (auto simp: waits_ok_def)
  note S = matched_scan_start [OF m ne]
  have e: "abs_cur_samplenum d < abs_end_samplenum d" "unat (abs_cur_samplenum d) = k"
    using m by (simp_all add: matched_at_def word_less_nat_alt)
  then have k: "unat (abs_cur_samplenum d + 1) = Suc k" using unat_Suc_less by blast
  then show "unat (abs_cur_samplenum (scan_start (wait_enter conds d))) = Suc k" by (simp add: S)
  have live: "\<forall>ch. 0 \<le> ch \<longrightarrow> ch < int (dec_num_channels d) \<longrightarrow> chan_live d ch"
    using m by (simp add: matched_at_def)
  have st: "abs_start_samplenum d \<le> abs_cur_samplenum d + 1"
    using m k by (simp add: matched_at_def word_le_nat_alt)
  let ?d = "scan_start (wait_enter conds d)"
  have v: "sample_at ?d = sample_at d" "chan_live ?d = chan_live d" "pins_ok ?d = pins_ok d"
    by (simp_all add: S fun_eq_iff sample_at_def chan_live_def channel_buffer_def const_sample_def pins_ok_def
        split: option.split)
  have "conds_ok ?d (condition_list ?d)"
    unfolding conds_ok_def
  proof
    fix c assume "c \<in> set (condition_list ?d)"
    then obtain cond where c: "cond \<in> set conds" "c = map restart_skip cond" by (auto simp: S)
    then have "wait_cond_ok (dec_num_channels ?d) cond" using w by (simp add: waits_ok_def S)
    from wait_cond_ok_restart [OF this] live v(2) c(2)
    show "plain_cond (abs_cur_matched ?d) c \<and> (\<forall>t \<in> set c. term_chan_ok ?d t)" by (simp add: S)
  qed
  then have pre: "scan_pre ?d"
    using m st v(3) by (simp add: scan_pre_def) (simp add: S matched_at_def)
  have s: "sample_at d i ch = lv i ch" if "Suc k \<le> i" "i < unat (abs_end_samplenum d)" for i ch
    using m that by (simp add: matched_at_def)
  show "ready_to_scan lv (wait_enter conds d)"
    unfolding ready_to_scan_def
  proof (intro conjI allI impI)
    show "scan_pre ?d" by (rule pre)
    show "have_non_null_conds (wait_enter conds d)"
      using w ne by (simp add: wait_enter_conds have_non_null_conds_def waits_ok_def)
    show "abs_cur_samplenum ?d \<le> abs_end_samplenum (wait_enter conds d)"
      using m k unfolding S by (simp add: wait_enter_conds [OF ne] word_le_nat_alt matched_at_def)
    fix i ch
    assume "unat (abs_cur_samplenum ?d) \<le> i" "i < unat (abs_end_samplenum (wait_enter conds d))"
    then show "sample_at (wait_enter conds d) i ch = lv i ch"
      using s k unfolding S by (simp add: wait_enter_conds [OF ne])
  qed (use m live ne in \<open>simp_all add: wait_enter_conds matched_at_def chan_live_def channel_buffer_def\<close>)
qed

section \<open>A wait over the chunks of a feed, with the state it leaves\<close>

definition chunk_fills :: "sample_chunk \<Rightarrow> bool" where
  "chunk_fills ck \<longleftrightarrow> unat (ck_end ck) - unat (ck_start ck) \<le> 8 * unat ((ck_len ck + 7) div 8)"

text \<open>What the decoder has after a wait: the matched sample and the chunks still to come.\<close>

definition at_match ::
    "(nat \<Rightarrow> int \<Rightarrow> u8) \<Rightarrow> nat \<Rightarrow> u64 \<Rightarrow> nat \<Rightarrow> sample_chunk list \<Rightarrow> 'p srd_decoder_inst \<Rightarrow> bool" where
  "at_match lv n N j rest d \<longleftrightarrow> matched_at lv j d \<and> feed_ok d lv (abs_end_samplenum d) rest
     \<and> feed_end (abs_end_samplenum d) rest = N \<and> channels_ok d \<and> fills d
     \<and> (\<forall>ck \<in> set rest. chunk_fills ck) \<and> dec_num_channels d = n"

lemma wait_loop_hit_state:
  assumes "scanning lv di" and "feed_ok di lv (abs_end_samplenum di) feed"
    and "wait_spec lv di (feed_end (abs_end_samplenum di) feed) = Some (j, ms)"
    and "channels_ok di" and "fills di" and "\<forall>ck \<in> set feed. chunk_fills ck"
  shows "\<exists>rest d. wait_loop feed di = (Wait_found (of_nat j) (match_mask 0 ms), rest, d)
    \<and> at_match lv (dec_num_channels di) (feed_end (abs_end_samplenum di) feed) j rest d
    \<and> c_pin d = clip (dec_num_channels di) (lv j) \<and> set rest \<subseteq> set feed
    \<and> (\<forall>ck \<in> set feed. j < unat (ck_start ck) \<longrightarrow> ck \<in> set rest)"
  using assms
proof (induction feed arbitrary: di)
  have hit: "\<exists>d. wait_pass di = (Wait_found (of_nat j) (match_mask 0 ms), d)
      \<and> at_match lv (dec_num_channels di) (feed_end (abs_end_samplenum di) feed) j feed d
      \<and> c_pin d = clip (dec_num_channels di) (lv j)"
    if sc: "scanning lv di" and f: "feed_ok di lv (abs_end_samplenum di) feed"
      and sp: "wait_spec lv di (abs_end_samplenum di) = Some (j, ms)"
      and ok: "channels_ok di" "fills di" "\<forall>ck \<in> set feed. chunk_fills ck"
    for di :: "'a srd_decoder_inst" and feed
  proof -
    obtain d where d: "wait_pass di = (Wait_found (of_nat j) (match_mask 0 ms), d)" "matched_at lv j d"
      "abs_end_samplenum d = abs_end_samplenum di" "abs_start_samplenum d = abs_start_samplenum di"
      "read_sample d = read_sample di" "inbuflen d = inbuflen di"
      "dec_num_channels d = dec_num_channels di" "channels_ok d"
      using wait_pass_hit_state [OF sc sp] ok(1) by blast
    have "unat (abs_cur_samplenum (scan_start di)) \<le> j" "j < unat (abs_end_samplenum di)"
      using spec_of_Some(1,2) [OF spec_of_scanning [OF sc, unfolded sp]] by (simp_all add: scan_start_frame)
    from pins_after_hit [OF sc d(1) this ok(1,2) d(7)]
    have "c_pin d = clip (dec_num_channels di) (lv j)" .
    moreover have "feed_ok d lv (abs_end_samplenum d) feed"
      using f feed_ok_cong [of d di] d(3,5,7) by simp
    ultimately show ?thesis using d ok(2,3) by (auto simp: at_match_def fills_def)
  qed
  {
    case (Nil di)
    with hit [of di "[]"] show ?case by auto
  next
    case (Cons ck feed di)
    let ?S = "scan_start di" and ?m = "abs_end_samplenum di"
    show ?case
    proof (cases "wait_spec lv di ?m")
      case (Some r)
      have n: "?m \<le> feed_end ?m (ck # feed)" by (rule feed_end_le [OF Cons.prems(2)])
      have "wait_spec lv di ?m = Some (j, ms)"
      proof -
        let ?k = "unat (abs_cur_samplenum ?S)" and ?N = "unat (feed_end ?m (ck # feed))"
        have k: "?k < unat ?m" using Cons.prems(1) by (simp add: scanning_def word_less_nat_alt)
        have "unat ?m \<le> ?N" using n by (simp only: word_le_nat_alt)
        with k have "?N - ?k = (unat ?m - ?k) + (?N - unat ?m)" by simp
        with Some Cons.prems(3) show ?thesis by (simp only: wait_spec_def scan_spec_append option.case)
      qed
      from hit [OF Cons.prems(1,2) this Cons.prems(4-6)] obtain d where
        "wait_pass di = (Wait_found (of_nat j) (match_mask 0 ms), d)"
        "at_match lv (dec_num_channels di) (feed_end ?m (ck # feed)) j (ck # feed) d"
        "c_pin d = clip (dec_num_channels di) (lv j)" by blast
      then show ?thesis by auto
    next
      case None
      let ?u = "(unmatched_step ^^ samples_left ?S) ?S"
      let ?B = "delivered ck (release_chunk ?u)"
      note nx = next_chunk [OF Cons.prems(1) None Cons.prems(2)]
      have sc: "got_new_samples di" "\<not> want_wait_terminate di" "have_non_null_conds di" "scan_pre ?S"
        using Cons.prems(1) by (simp_all add: scanning_def)
      have live: "all_live ?S" using Cons.prems(1) by (intro all_live_channels) (simp_all add: scanning_def)
      have sp: "spec_of ?S = None" using spec_of_scanning [OF Cons.prems(1)] None by simp
      have "wait_pass di = (Wait_chunk_done, release_chunk ?u)" by (rule wait_pass_miss [OF sc live sp])
      with nx(1) have l: "wait_loop (ck # feed) di = wait_loop feed ?B" by simp
      have e: "abs_end_samplenum ?B = ck_end ck" "feed_end ?m (ck # feed) = feed_end (ck_end ck) feed"
        by simp_all
      have "have_non_null_conds ?S" using sc(3) by (simp add: scan_start_frame)
      from find_match_loop_frame [of ?S True, unfolded find_match_loop_unmatched_state [OF sc(4) live this sp]]
      have fr: "dec_num_channels ?u = dec_num_channels di" "dec_channelmap ?u = dec_channelmap di"
        "c_pin_cache ?u = c_pin_cache di" by (simp_all add: scan_start_chans)
      have B: "dec_num_channels ?B = dec_num_channels di" "dec_channelmap ?B = dec_channelmap di"
        "c_pin_cache ?B = c_pin_cache di"
        using fr by (simp_all add: delivered_def load_ck_def load_chunk_def release_chunk_def)
      have "fills ?B"
        using Cons.prems(6)
        by (simp add: fills_def chunk_fills_def delivered_def load_ck_def load_chunk_def)
      moreover have "channels_ok ?B" using Cons.prems(4) unfolding channels_ok_def B by blast
      moreover have "wait_spec lv ?B (feed_end (ck_end ck) feed) = Some (j, ms)"
        using nx(4) [OF feed_end_le [OF Cons.prems(2)]] Cons.prems(3) by simp
      moreover have "\<forall>ck \<in> set feed. chunk_fills ck" using Cons.prems(6) by simp
      moreover have "unat (ck_start ck) \<le> j"
      proof -
        have "wait_spec lv ?B (feed_end (ck_end ck) feed) = Some (j, ms)"
          using nx(4) [OF feed_end_le [OF Cons.prems(2)]] Cons.prems(3) by simp
        then have "unat (abs_cur_samplenum (scan_start ?B)) \<le> j"
          unfolding wait_spec_def by (rule scan_spec_first_hit(1) [unfolded first_hit_def, THEN conjunct1])
        moreover have "scan_pre (scan_start ?B)" using nx(2) by (simp add: scanning_def)
        ultimately show ?thesis by (simp add: scan_pre_def scan_start_frame word_le_nat_alt)
      qed
      ultimately show ?thesis
        using Cons.IH [OF nx(2), unfolded e(1), OF nx(3)] unfolding l e(2) B(1) by auto
    qed
  }
qed

section \<open>The reference run, wait by wait\<close>

lemma run_wave_scan:
  "run_wave P m k e old (map lv [k..<n]) s =
     (case scan_spec lv (wait_conds P m s) old e k (n - k) of
        None \<Rightarrow> (s, [])
      | Some (j, ms) \<Rightarrow>
          (let (s1, out) = prog_step P (of_nat j) (match_mask 0 ms) (lv j) s;
               (s2, tr) = run_wave P True (Suc j) 0 (lv j) (map lv [Suc j..<n]) s1
           in (s2, (j, out) # tr)))"
proof (induction "n - k" arbitrary: k e old)
  case 0
  then show ?case by simp
next
  case (Suc d)
  then have k: "k < n" "n - k = Suc d" "d = n - Suc k" by simp_all
  have u: "map lv [k..<n] = lv k # map lv [Suc k..<n]" using k(1) by (simp add: upt_conv_Cons)
  show ?case
    using Suc.hyps(1) [OF k(3), of "Suc e" "lv k"] k(3)
    unfolding u k(2) by (simp add: Let_def split: prod.split)
qed

lemma wait_conds_cong:
  assumes "waits_ok n (prog_wait P s)" and "\<And>k ch. 0 \<le> ch \<Longrightarrow> ch < int n \<Longrightarrow> lv k ch = lv' k ch"
    and "\<And>ch. 0 \<le> ch \<Longrightarrow> ch < int n \<Longrightarrow> old ch = old' ch"
  shows "scan_spec lv (wait_conds P m s) old e k c = scan_spec lv' (wait_conds P m s) old' e k c"
proof -
  have t: "0 \<le> t_channel t \<and> t_channel t < int n"
    if ct: "cond \<in> set (wait_conds P m s)" "t \<in> set cond" "t_type t \<noteq> SRD_TERM_SKIP" for cond t
  proof -
    have r: "t_type (restart_skip u) = t_type u" "t_channel (restart_skip u) = t_channel u" for u
      by (simp_all add: restart_skip_def)
    obtain c u where "c \<in> set (prog_wait P s)" "u \<in> set c" "t_type u = t_type t" "t_channel u = t_channel t"
      using ct(1,2) r by (cases m) (auto simp: wait_conds_def)
    with assms(1) ct(3) show ?thesis by (fastforce simp: waits_ok_def wait_cond_ok_def)
  qed
  show ?thesis by (rule scan_spec_lv_cong) (use t assms(2,3) in blast)+
qed

section \<open>The loop is the reference run\<close>

text \<open>A program with an invariant of its state under which its waits are of the covered kind.\<close>

definition program_ok :: "nat \<Rightarrow> 's c_program \<Rightarrow> ('s \<Rightarrow> bool) \<Rightarrow> bool" where
  "program_ok n P Q \<longleftrightarrow> (\<forall>s. Q s \<longrightarrow> waits_ok n (prog_wait P s))
     \<and> (\<forall>pos hits pins s. Q s \<longrightarrow> Q (fst (prog_step P pos hits pins s)))"

lemma channels_ok_conds [simp]: "channels_ok (d\<lparr>condition_list := c\<rparr>) = channels_ok d"
  by (simp add: channels_ok_def split: option.split)

lemma fills_conds [simp]: "fills (d\<lparr>condition_list := c\<rparr>) = fills d"
  by (simp add: fills_def)

lemma run_cut_settled: "k \<notin> E \<Longrightarrow> run_cut E P m j k e old (x # xs) s = run_cut E P m False k e old (x # xs) s"
  by simp

lemma run_cut_scan:
  "run_cut E P m False k e old (map lv [k..<n]) s =
     (case scan_spec lv (wait_conds P m s) old e k (n - k) of
        None \<Rightarrow> (s, [])
      | Some (j, ms) \<Rightarrow>
          (let (s1, out) = prog_step P (of_nat j) (match_mask 0 ms) (lv j) s;
               (s2, tr) = run_cut E P True True (Suc j) 0 (lv j) (map lv [Suc j..<n]) s1
           in (s2, (j, out) # tr)))"
proof (induction "n - k" arbitrary: k e old)
  case 0
  then show ?case by simp
next
  case (Suc d)
  then have k: "k < n" "n - k = Suc d" "d = n - Suc k" by simp_all
  have u: "map lv [k..<n] = lv k # map lv [Suc k..<n]" using k(1) by (simp add: upt_conv_Cons)
  show ?case
    using Suc.hyps(1) [OF k(3), of "Suc e" "lv k"] k(3)
    unfolding u k(2) by (simp add: Let_def split: prod.split)
qed

lemma run_cut_passes:
  assumes "k \<le> k0" and "k0 \<le> n" and "\<And>i. k \<le> i \<Longrightarrow> i < k0 \<Longrightarrow> i \<in> E" and "k0 < n \<Longrightarrow> k0 \<notin> E"
  shows "run_cut E P m True k e old (map lv [k..<n]) s = run_cut E P m False k0 e old (map lv [k0..<n]) s"
  using assms
proof (induction "k0 - k" arbitrary: k)
  case 0
  then have k: "k = k0" by simp
  show ?case
  proof (cases "k0 < n")
    case True
    then have "map lv [k..<n] = lv k # map lv [Suc k..<n]" using k by (simp add: upt_conv_Cons)
    then show ?thesis using run_cut_settled [of k E P m True e old "lv k"] 0 True k by simp
  qed (use k in simp)
next
  case (Suc d)
  then have "map lv [k..<n] = lv k # map lv [Suc k..<n]" "k \<in> E" by (simp_all add: upt_conv_Cons)
  then show ?case using Suc.hyps(1) [of "Suc k"] Suc.hyps(2) Suc.prems by simp
qed

lemma feed_starts:
  "feed_ok di lv e feed \<Longrightarrow> i \<in> chunk_starts feed \<Longrightarrow> unat e \<le> i"
proof (induction feed arbitrary: e)
  case (Cons ck feed)
  then have "unat e < unat (ck_end ck)" "ck_start ck = e" "feed_ok di lv (ck_end ck) feed" by (simp_all add: word_less_nat_alt)
  with Cons show ?case by (auto simp: chunk_starts_def dest: Cons.IH [of "ck_end ck"])
qed (simp add: chunk_starts_def)

lemma wait_from_starts:
  assumes "c \<le> e" and "feed_ok di lv e feed"
  shows "\<forall>i. unat c \<le> i \<longrightarrow> i < unat (wait_from True c e feed) \<longrightarrow> i \<in> chunk_starts feed"
    "wait_from True c e feed < feed_end e feed \<Longrightarrow> unat (wait_from True c e feed) \<notin> chunk_starts feed"
    "c \<le> wait_from True c e feed" "wait_from True c e feed \<le> feed_end e feed"
proof -
  have "(\<forall>i. unat c \<le> i \<longrightarrow> i < unat (wait_from True c e feed) \<longrightarrow> i \<in> chunk_starts feed)
    \<and> (wait_from True c e feed < feed_end e feed \<longrightarrow> unat (wait_from True c e feed) \<notin> chunk_starts feed)
    \<and> wait_from True c e feed \<le> feed_end e feed"
    using assms
  proof (induction feed arbitrary: c e)
    case (Cons ck feed)
    have n: "e \<le> feed_end e (ck # feed)" by (rule feed_end_le [OF Cons.prems(2)])
    show ?case
    proof (cases "c < e")
      case True
      have "unat c \<notin> chunk_starts (ck # feed)"
        using feed_starts [OF Cons.prems(2), of "unat c"] True by (auto simp: word_less_nat_alt)
      then show ?thesis using True n by simp
    next
      case False
      then have ce: "c = e" "ck_start ck = c" "c < ck_end ck" using Cons.prems by auto
      then have c1: "unat (c + 1) = Suc (unat c)" "c + 1 \<le> ck_end ck" by (auto simp: inc_le intro: unat_Suc_less)
      have f: "feed_ok di lv (ck_end ck) feed" using Cons.prems(2) by simp
      note IH = Cons.IH [OF c1(2) f]
      have w: "wait_from True c e (ck # feed) = wait_from True (c + 1) (ck_end ck) feed" using False by simp
      have lo: "unat (c + 1) \<le> unat (wait_from True (c + 1) (ck_end ck) feed)"
        using wait_from_le [OF c1(2) f, of True] by (simp only: word_le_nat_alt)
      have st: "i \<in> chunk_starts (ck # feed) \<longleftrightarrow> i = unat c \<or> i \<in> chunk_starts feed" for i
        using ce(2) by (auto simp: chunk_starts_def)
      have "i \<in> chunk_starts (ck # feed)" if "unat c \<le> i" "i < unat (wait_from True (c + 1) (ck_end ck) feed)" for i
        using IH c1(1) that unfolding st by (cases "i = unat c") auto
      moreover have "unat (wait_from True (c + 1) (ck_end ck) feed) \<noteq> unat c" using lo c1(1) by simp
      ultimately show ?thesis unfolding w using IH by (auto simp: st)
    qed
  qed (simp add: chunk_starts_def)
  then show "\<forall>i. unat c \<le> i \<longrightarrow> i < unat (wait_from True c e feed) \<longrightarrow> i \<in> chunk_starts feed"
    "wait_from True c e feed < feed_end e feed \<Longrightarrow> unat (wait_from True c e feed) \<notin> chunk_starts feed"
    "wait_from True c e feed \<le> feed_end e feed" by blast+
  show "c \<le> wait_from True c e feed" by (rule wait_from_le [OF assms])
qed

text \<open>A wait that comes to a scan of \<open>D\<close> with the chunks \<open>feed\<close> to come.\<close>

lemma decode_loop_scanning:
  fixes d D :: "'p srd_decoder_inst"
  assumes prog: "program_ok n P Q" and Q: "Q s"
    and impl: "c_decoder_wait_impl (prog_wait P s) feed0 d = wait_loop feed D"
    and sc: "scanning lv D" and S: "S = scan_start D" and n: "dec_num_channels D = n"
    and conds: "condition_list S = wait_conds P m s" and k: "unat (abs_cur_samplenum S) = k"
    and old: "\<And>ch. 0 \<le> ch \<Longrightarrow> ch < int n \<Longrightarrow> oldpin S ch = old ch"
    and feed: "feed_ok D lv (abs_end_samplenum D) feed" "feed_end (abs_end_samplenum D) feed = N"
      "\<forall>ck \<in> set feed. chunk_fills ck"
    and ok: "channels_ok D" "fills D"
    and run: "run_cut E P m False k 0 (clip n old) (map (clip n \<circ> lv) [k..<unat N]) s = (s', tr)"
    and E: "\<forall>i > k. i \<in> E \<longleftrightarrow> i \<in> chunk_starts feed" and fuel: "length tr < Suc fuel"
    and IH: "\<And>j rest d' s1 tr1. at_match lv n N j rest (d' :: 'p srd_decoder_inst) \<Longrightarrow> Q s1 \<Longrightarrow>
      \<forall>i > j. i \<in> E \<longleftrightarrow> i \<in> chunk_starts rest \<Longrightarrow>
      run_cut E P True True (Suc j) 0 (clip n (lv j)) (map (clip n \<circ> lv) [Suc j..<unat N]) s1 = (s', tr1) \<Longrightarrow>
      length tr1 < fuel \<Longrightarrow> decode_loop fuel P rest d' s1 = Some (s', tr1)"
  shows "decode_loop (Suc fuel) P feed0 d s = Some (s', tr)"
proof -
  have w: "waits_ok n (prog_wait P s)" using prog Q by (simp add: program_ok_def)
  have sp: "wait_spec lv D N =
      scan_spec (clip n \<circ> lv) (wait_conds P m s) (clip n old) 0 k (unat N - k)"
    unfolding wait_spec_def S [symmetric] conds k
    by (rule wait_conds_cong [OF w]) (simp_all add: clip_def old)
  note r = trans [OF run_cut_scan [of E P m k 0 "clip n old" "clip n \<circ> lv" "unat N" s, symmetric] run, folded sp]
  show ?thesis
  proof (cases "wait_spec lv D N")
    case None
    with wait_loop_scanning [OF sc feed(1)] feed(2) r impl show ?thesis by auto
  next
    case (Some jm)
    obtain j ms where jm: "wait_spec lv D N = Some (j, ms)" using Some by (cases jm) simp
    have "wait_spec lv D (feed_end (abs_end_samplenum D) feed) = Some (j, ms)"
      using jm feed(2) by simp
    from wait_loop_hit_state [OF sc feed(1) this ok feed(3)] obtain rest d' where
      l: "wait_loop feed D = (Wait_found (of_nat j) (match_mask 0 ms), rest, d')"
      and a: "at_match lv n N j rest d'" "c_pin d' = clip n (lv j)" "set rest \<subseteq> set feed"
        "\<forall>ck \<in> set feed. j < unat (ck_start ck) \<longrightarrow> ck \<in> set rest"
      unfolding n feed(2) by blast
    obtain s1 out where st: "prog_step P (of_nat j) (match_mask 0 ms) (clip n (lv j)) s = (s1, out)"
      by fastforce
    obtain s2 tr1 where r1: "run_cut E P True True (Suc j) 0 (clip n (lv j)) (map (clip n \<circ> lv) [Suc j..<unat N]) s1
        = (s2, tr1)" by fastforce
    have tr: "s' = s2" "tr = (j, out) # tr1" using r jm st r1 by simp_all
    have Q1: "Q s1" using prog Q st unfolding program_ok_def by (metis fst_conv)
    have hit: "k \<le> j" "j < unat N"
      using scan_spec_first_hit(1) [OF jm [unfolded wait_spec_def]] k by (simp_all add: first_hit_def S)
    then have "j < 2 ^ LENGTH(64)" using unsigned_less [of N] by (auto intro: less_trans)
    then have j: "unat (of_nat j :: u64) = j" by (simp add: unsigned_of_nat take_bit_nat_eq_self)
    have "decode_loop fuel P rest d' s1 = Some (s', tr1)"
    proof (rule IH [OF a(1) Q1])
      show "\<forall>i > j. i \<in> E \<longleftrightarrow> i \<in> chunk_starts rest"
        using E hit(1) a(3,4) by (auto simp: chunk_starts_def)
      show "length tr1 < fuel" using fuel by (simp add: tr(2))
    qed (use r1 tr(1) in simp)
    then show ?thesis using l st a(2) j impl by (simp add: tr)
  qed
qed

lemma decode_loop_matched:
  fixes d :: "'p srd_decoder_inst"
  assumes prog: "program_ok n P Q" and "at_match lv n N k rest d" and "Q s"
    and "\<forall>i > k. i \<in> E \<longleftrightarrow> i \<in> chunk_starts rest"
    and "run_cut E P True True (Suc k) 0 (clip n (lv k)) (map (clip n \<circ> lv) [Suc k..<unat N]) s = (s', tr)"
    and "length tr < fuel"
  shows "decode_loop fuel P rest d s = Some (s', tr)"
  using assms(2-)
proof (induction fuel arbitrary: k rest d s tr)
  case (Suc fuel)
  have m: "matched_at lv k d" and f: "feed_ok d lv (abs_end_samplenum d) rest"
      "feed_end (abs_end_samplenum d) rest = N" "\<forall>ck \<in> set rest. chunk_fills ck"
    and ok: "channels_ok d" "fills d" "dec_num_channels d = n"
    using Suc.prems(1) by (simp_all add: at_match_def)
  have w: "waits_ok (dec_num_channels d) (prog_wait P s)"
    using prog Suc.prems(2) ok(3) by (simp add: program_ok_def)
  then have ne: "prog_wait P s \<noteq> []" by (auto simp: waits_ok_def)
  let ?D = "wait_enter (prog_wait P s) d"
  note S = matched_scan_start [OF m ne]
  note rd = next_wait_ready [OF m w]
  have D: "abs_end_samplenum ?D = abs_end_samplenum d" "abs_cur_matched ?D" "dec_num_channels ?D = n"
    "dec_channelmap ?D = dec_channelmap d" "c_pin_cache ?D = c_pin_cache d" "read_sample ?D = read_sample d"
    using m ok(3) by (simp_all add: wait_enter_conds [OF ne] matched_at_def)
  have fD: "feed_ok ?D lv (abs_end_samplenum ?D) rest" using f(1) feed_ok_cong [of ?D d] D ok(3) by simp
  have cle: "abs_cur_samplenum (scan_start ?D) \<le> abs_end_samplenum ?D" using rd(1) by (simp add: ready_to_scan_def)
  let ?k0 = "wait_from True (abs_cur_samplenum (scan_start ?D)) (abs_end_samplenum ?D) rest"
  note ws = wait_from_starts [OF cle fD]
  have N: "feed_end (abs_end_samplenum ?D) rest = N" using f(2) D(1) by simp
  have "run_cut E P True True (Suc k) 0 (clip n (lv k)) (map (clip n \<circ> lv) [Suc k..<unat N]) s =
      run_cut E P True False (unat ?k0) 0 (clip n (lv k)) (map (clip n \<circ> lv) [unat ?k0..<unat N]) s"
  proof (rule run_cut_passes)
    show "Suc k \<le> unat ?k0" "unat ?k0 \<le> unat N" using ws(3,4) rd(2) N by (simp_all add: word_le_nat_alt)
    show "i \<in> E" if "Suc k \<le> i" "i < unat ?k0" for i using ws(1) rd(2) that Suc.prems(3) by auto
    show "unat ?k0 \<notin> E" if "unat ?k0 < unat N"
    proof -
      have "unat ?k0 \<notin> chunk_starts rest" using ws(2) that N by (simp add: word_less_nat_alt)
      moreover have "k < unat ?k0" using ws(3) rd(2) by (simp add: word_le_nat_alt)
      ultimately show ?thesis using Suc.prems(3) by blast
    qed
  qed
  then have run: "run_cut E P True False (unat ?k0) 0 (clip n (lv k)) (map (clip n \<circ> lv) [unat ?k0..<unat N]) s = (s', tr)"
    using Suc.prems(4) by simp
  from wait_loop_resume [OF rd(1) fD] consider
      D' rest' where "wait_loop rest ?D = wait_loop rest' D'" "goes_on lv ?D rest D' rest'" | "used_up ?D rest" by blast
  then show ?case
  proof cases
    case 1
    note g = goes_onD [OF 1(2)]
    have k0: "abs_cur_samplenum (scan_start D') = ?k0" using g(5) by (simp only: D(2))
    have ch: "dec_channelmap D' = dec_channelmap d" "c_pin_cache D' = c_pin_cache d" "dec_num_channels D' = n"
      using g(8-10) D by simp_all
    show ?thesis
    proof (rule decode_loop_scanning [OF prog Suc.prems(2) _ _ refl _ _ _ _ _ _ _ _ _ run _ Suc.prems(5)])
      show "c_decoder_wait_impl (prog_wait P s) rest d = wait_loop rest' D'" using 1(1) by (simp add: c_decoder_wait_impl_def)
      show "scanning lv D'" "dec_num_channels D' = n" "feed_ok D' lv (abs_end_samplenum D') rest'"
        by (rule g(1) ch(3) g(2))+
      show "feed_end (abs_end_samplenum D') rest' = N" using g(3) N by (simp only:)
      show "condition_list (scan_start D') = wait_conds P True s" unfolding g(6) by (simp add: S wait_conds_def)
      show "unat (abs_cur_samplenum (scan_start D')) = unat ?k0" by (simp only: k0)
      show "oldpin (scan_start D') c = lv k c" if "0 \<le> c" "c < int n" for c
        using m that ok(3) unfolding g(7) S by (simp add: matched_at_def oldpin_def)
      show "\<forall>ck \<in> set rest'. chunk_fills ck" using g(4) f(3) by blast
      show "channels_ok D'" using ok(1) [unfolded channels_ok_def ok(3)] unfolding channels_ok_def ch .
      show "fills D'"
      proof -
        have fe: "fills ?D" using ok(2) by (simp add: fills_def wait_enter_conds [OF ne])
        show ?thesis using g(11) fe f(3) by (auto simp: fills_def chunk_fills_def)
      qed
      show "\<forall>i > unat ?k0. i \<in> E \<longleftrightarrow> i \<in> chunk_starts rest'"
      proof (intro allI impI)
        fix i assume i: "unat ?k0 < i"
        have "k < i" using ws(3) rd(2) i by (simp add: word_le_nat_alt)
        then have "i \<in> E \<longleftrightarrow> i \<in> chunk_starts rest" using Suc.prems(3) by blast
        also have "\<dots> \<longleftrightarrow> i \<in> chunk_starts rest'"
          using g(4,12) i unfolding k0 by (auto simp: chunk_starts_def word_le_nat_alt)
        finally show "i \<in> E \<longleftrightarrow> i \<in> chunk_starts rest'" .
      qed
    qed (rule Suc.IH)
  next
    case 2
    then have "?k0 = N" and u: "\<exists>x. wait_loop rest ?D = (Wait_chunk_done, [], x)" using D N unfolding used_up_def Let_def by auto
    then have "tr = []" "s' = s" using run by simp_all
    then show ?thesis using u by (auto simp: c_decoder_wait_impl_def)
  qed
qed simp

lemma run_cut_length: "length (snd (run_cut E P m j k e old xs s)) \<le> length xs"
proof (induction xs arbitrary: m j k e old s)
  case (Cons x xs)
  show ?case
    using Cons [of True True "Suc k" 0 x] Cons [of m False "Suc k" "Suc e" x s] Cons [of m j "Suc k" e old s]
    by (auto simp: Let_def split: prod.split) (metis snd_conv)+
qed simp

text \<open>
  Without a match on the last sample of a chunk that is followed by another, no sample is passed
  over.
\<close>

definition inside_chunks :: "sample_chunk list \<Rightarrow> (nat \<times> 'x) list \<Rightarrow> bool" where
  "inside_chunks feed tr \<longleftrightarrow> (\<forall>ck \<in> set feed. \<forall>h \<in> set tr. Suc (fst h) \<noteq> unat (ck_start ck))"

lemma run_cut_inside:
  "(\<forall>h \<in> set (snd (run_wave P m k e old xs s)). Suc (fst h) \<notin> E) \<Longrightarrow> k \<notin> E \<or> \<not> j \<Longrightarrow>
     run_cut E P m j k e old xs s = run_wave P m k e old xs s"
proof (induction xs arbitrary: m j k e old s)
  case (Cons x xs)
  show ?case
  proof (cases "True \<in> set (map (cond_sem old x e) (wait_conds P m s))")
    case True
    obtain s1 out where st: "prog_step P (of_nat k) (match_mask 0 (map (cond_sem old x e) (wait_conds P m s))) x s = (s1, out)"
      by (rule prod.exhaust)
    obtain s2 tr where r: "run_wave P True (Suc k) 0 x xs s1 = (s2, tr)" by (rule prod.exhaust)
    have w: "run_wave P m k e old (x # xs) s = (s2, (k, out) # tr)" using True st r by (simp add: Let_def)
    have "run_cut E P True True (Suc k) 0 x xs s1 = (s2, tr)"
      using Cons.IH [of True "Suc k" 0 x s1 True] Cons.prems(1) r unfolding w by simp
    then show ?thesis using True st Cons.prems(2) w by (auto simp: Let_def)
  next
    case False
    then have w: "run_wave P m k e old (x # xs) s = run_wave P m (Suc k) (Suc e) x xs s" by (simp add: Let_def)
    have "run_cut E P m False (Suc k) (Suc e) x xs s = run_wave P m (Suc k) (Suc e) x xs s"
      using Cons.IH [of m "Suc k" "Suc e" x s False] Cons.prems(1) unfolding w by simp
    then show ?thesis using False Cons.prems(2) w by (auto simp: Let_def)
  qed
qed simp

text \<open>
  C4: A decoder whose decode() is a loop of waits and handlers, run against any sequence of
  chunks that carry a waveform, makes exactly the calls of the reference run over the samples
  of the waveform, in the same order and at the same samples. The reference run, \<open>run_cut\<close>,
  knows of the chunks only where they begin, and uses that only after a match on the sample
  before, where the engine passes over the first sample of the chunk; when no match is there,
  it is \<open>run_wave\<close>, which looks at the waveform alone. One iteration per sample is enough for
  the loop to come to the end of the samples. All channels are connected and have buffers, and
  the waits are of the covered kind under an invariant of the decoder's state.
\<close>

theorem decode_loop_refines_run_wave:
  fixes d :: "'p srd_decoder_inst"
  assumes n: "n = dec_num_channels d" and S: "S = scan_start (wait_enter (prog_wait P s) d)"
    and N: "N = feed_end (abs_end_samplenum d) feed" and k: "k = unat (abs_cur_samplenum S)"
    and xs: "xs = map (clip n \<circ> lv) [k..<unat N]"
    and prog: "program_ok n P Q" and Q: "Q s" and start: "\<not> abs_cur_matched d"
    and sc: "scanning lv (wait_enter (prog_wait P s) d)"
    and feed: "feed_ok d lv (abs_end_samplenum d) feed" "\<forall>ck \<in> set feed. chunk_fills ck"
    and ok: "channels_ok d" "fills d"
  shows "decode_loop (Suc (unat N - k)) P feed d s =
      Some (run_cut (chunk_starts feed) P False False k 0 (clip n (oldpin S)) xs s)
    \<and> (inside_chunks feed (snd (run_wave P False k 0 (clip n (oldpin S)) xs s)) \<longrightarrow>
        decode_loop (Suc (unat N - k)) P feed d s = Some (run_wave P False k 0 (clip n (oldpin S)) xs s))"
proof -
  obtain s' tr where run: "run_cut (chunk_starts feed) P False False k 0 (clip n (oldpin S)) xs s = (s', tr)" by fastforce
  have w: "waits_ok n (prog_wait P s)" using prog Q by (simp add: program_ok_def)
  then have ne: "prog_wait P s \<noteq> []" by (auto simp: waits_ok_def)
  let ?D = "wait_enter (prog_wait P s) d"
  have conds: "condition_list S = wait_conds P False s"
    using start unfolding S
    by (simp add: wait_enter_conds [OF ne] scan_start_def advance_past_match_def wait_conds_def
        update_old_pins_array_initial_pins_def oldpins_array_seed_def Let_def split: option.split)
  have len: "length tr < Suc (unat N - k)"
    using run_cut_length [of "chunk_starts feed" P False False k 0 "clip n (oldpin S)" xs s, unfolded run] by (simp add: xs)
  have D: "abs_end_samplenum ?D = abs_end_samplenum d" "dec_num_channels ?D = n" "channels_ok ?D" "fills ?D" "read_sample ?D = read_sample d"
    using ok n by (simp_all add: wait_enter_conds [OF ne])
  have f: "feed_ok ?D lv (abs_end_samplenum ?D) feed" using feed(1) feed_ok_cong [of ?D d] D n by simp
  have fe: "feed_end (abs_end_samplenum ?D) feed = N" using N D(1) by simp
  have "decode_loop (Suc (unat N - k)) P feed d s = Some (s', tr)"
    by (rule decode_loop_scanning [OF prog Q _ sc S D(2) conds k [symmetric] refl f fe feed(2) D(3,4) run [unfolded xs] _ len])
      (simp_all add: c_decoder_wait_impl_def decode_loop_matched [OF prog])
  moreover have "run_cut (chunk_starts feed) P False False k 0 (clip n (oldpin S)) xs s = run_wave P False k 0 (clip n (oldpin S)) xs s"
    if "inside_chunks feed (snd (run_wave P False k 0 (clip n (oldpin S)) xs s))"
    by (rule run_cut_inside) (use that in \<open>auto simp: inside_chunks_def chunk_starts_def\<close>)
  ultimately show ?thesis using run by simp
qed

text \<open>A decoder that counts rising edges of its only channel.\<close>

definition count_rises :: "nat c_program" where
  "count_rises = \<lparr>prog_wait = (\<lambda>_. [[level_term SRD_TERM_RISING_EDGE]]),
     prog_step = (\<lambda>pos _ _ s. (Suc s, [O_put pos pos 0 0 [dec_str (Suc s)]]))\<rparr>"

lemma decode_loop_refines_run_wave_witness:
  "decode_loop 9 count_rises [example_chunk 2 8 6] (delivered (example_chunk 0 2 0) example_inst) 0 =
     Some (1, [(3, [O_put 3 3 0 0 [dec_str 1]])])"
proof -
  let ?d = "delivered (example_chunk 0 2 0) example_inst"
  have p: "prog_wait count_rises 0 = condition_list ?d"
    by (simp add: count_rises_def level_term_def example_inst_ready)
  have c: "condition_list ?d = [[level_term SRD_TERM_RISING_EDGE]]"
    by (simp add: level_term_def example_inst_ready)
  have e: "wait_enter (prog_wait count_rises 0) ?d = ?d"
    unfolding p by (simp add: wait_enter_def condition_list_free_def del: delivered_view(1))
  have n: "dec_num_channels ?d = 1" "abs_end_samplenum ?d = 2" "abs_cur_samplenum ?d = 0" "\<not> abs_cur_matched ?d"
    by (simp_all add: example_chunk_def example_inst_def malloc0_inst_def)
  have old: "clip 1 (oldpin ?d) = (\<lambda>ch. if ch = 0 then 0 else 0xFF)"
    by (auto simp: fun_eq_iff clip_def oldpin_def example_inst_def malloc0_inst_def c_array_at_def)
  have wv: "map (clip 1 \<circ> example_wave) [0..<8] = map (\<lambda>k ch. if ch = 0 then (if k = 3 \<or> k = 4 then 1 else 0) else 0xFF) [0..<8]"
    by (auto simp: fun_eq_iff clip_def example_wave_def)
  have ref: "run_cut (chunk_starts [example_chunk 2 8 6]) count_rises False False 0 0 (clip 1 (oldpin ?d))
      (map (clip 1 \<circ> example_wave) [0..<8]) 0 = (1, [(3, [O_put 3 3 0 0 [dec_str 1]])])"
    unfolding old wv
    by (simp add: upt_rec count_rises_def wait_conds_def level_term_def restart_skip_def cond_sem_def
        term_sem_def Let_def chunk_starts_def example_chunk_def)
  have ok: "program_ok 1 count_rises (\<lambda>_. True)"
    by (simp add: program_ok_def count_rises_def waits_ok_def wait_cond_ok_def level_term_def)
  have ch: "channels_ok ?d" "fills ?d" "\<forall>ck \<in> set [example_chunk 2 8 6]. chunk_fills ck"
    by (simp_all add: channels_ok_def fills_def chunk_fills_def delivered_def load_ck_def load_chunk_def
        example_chunk_def example_inst_def malloc0_inst_def)
  have u: "feed_end 2 [example_chunk 2 8 6] = 8" "unat (0 :: u64) = 0" "unat (8 :: u64) = 8" "Suc (8 - 0) = 9"
    by (simp_all add: example_chunk_def)
  show ?thesis
    using decode_loop_refines_run_wave [where d = ?d and P = count_rises and s = 0 and lv = example_wave
      and feed = "[example_chunk 2 8 6]" and Q = "\<lambda>_. True", OF refl refl refl refl refl,
      unfolded e n(1,2,3) example_chunked(3) u ref, OF ok TrueI n(4) example_chunked(1,2) ch(3,1,2)] by (rule conjunct1)
qed

section \<open>Programs that wait for levels and edges only\<close>

text \<open>
  Without skips a run needs no counters: each sample is looked at together with the one
  before it.
\<close>

definition level_program :: "'s c_program \<Rightarrow> bool" where
  "level_program P \<longleftrightarrow> (\<forall>s. \<forall>cond \<in> set (prog_wait P s). \<forall>t \<in> set cond. t_type t \<noteq> SRD_TERM_SKIP)"

fun run_edges ::
    "'s c_program \<Rightarrow> nat \<Rightarrow> (int \<Rightarrow> u8) \<Rightarrow> (int \<Rightarrow> u8) list \<Rightarrow> 's \<Rightarrow> 's \<times> (nat \<times> out_call list) list" where
  "run_edges P k old [] s = (s, [])"
| "run_edges P k old (x # xs) s =
     (let ms = map (cond_sem old x 0) (prog_wait P s)
      in if True \<in> set ms
         then let (s1, out) = prog_step P (of_nat k) (match_mask 0 ms) x s;
                  (s2, tr) = run_edges P (Suc k) x xs s1
              in (s2, (k, out) # tr)
         else run_edges P (Suc k) x xs s)"

lemma level_program_wait:
  assumes "level_program P"
  shows "map (cond_sem old x e) (wait_conds P m s) = map (cond_sem old x 0) (prog_wait P s)"
proof -
  have "map restart_skip cond = cond" if "cond \<in> set (prog_wait P s)" for cond
    using assms that by (intro map_idI) (auto simp: restart_skip_def level_program_def)
  then have "wait_conds P m s = prog_wait P s"
    by (cases m) (simp_all add: wait_conds_def map_idI)
  moreover have "cond_sem old x e cond = cond_sem old x 0 cond" if "cond \<in> set (prog_wait P s)" for cond
    using assms that by (auto simp: cond_sem_def term_sem_def level_program_def)
  ultimately show ?thesis by simp
qed

lemma run_wave_edges:
  assumes "level_program P"
  shows "run_wave P m k e old xs s = run_edges P k old xs s"
  by (induction xs arbitrary: m k e old s)
    (simp_all only: run_wave.simps run_edges.simps level_program_wait [OF assms])

lemma run_edges_append:
  "run_edges P k old (xs @ ys) s =
     (let (s1, tr1) = run_edges P k old xs s;
          (s2, tr2) = run_edges P (k + length xs) (last (old # xs)) ys s1
      in (s2, tr1 @ tr2))"
proof (induction xs arbitrary: k old s)
  case (Cons x xs)
  show ?case
    using Cons [of "Suc k" x] by (simp add: Let_def split: prod.split)
qed simp

text \<open>A level that stays makes nothing happen.\<close>

lemma run_edges_still:
  assumes "\<And>cond. cond \<in> set (prog_wait P s) \<Longrightarrow> \<not> cond_sem x x 0 cond"
  shows "run_edges P k x (replicate n x) s = (s, [])"
  using assms by (induction n arbitrary: k) (auto simp: Let_def)

lemma run_edges_hold:
  assumes "\<And>s cond. cond \<in> set (prog_wait P s) \<Longrightarrow> \<not> cond_sem x x 0 cond"
  shows "run_edges P k old (replicate (Suc n) x) s = run_edges P k old [x] s"
proof -
  have "replicate (Suc n) x = [x] @ replicate n x" by simp
  then have "run_edges P k old (replicate (Suc n) x) s = run_edges P k old ([x] @ replicate n x) s" by simp
  then show ?thesis
    unfolding run_edges_append by (simp add: run_edges_still [OF assms] split: prod.split)
qed

end
