(* ===== verification/Format.thy ===== *)
theory Format
  imports CApi
begin

text \<open>
  Text output of the C decoders: the conversions of \<^verbatim>\<open>snprintf\<close> they use, and the
  truncation to the size of the buffer.
\<close>

text \<open>The digits of a number to a base of at least two, the most significant one first.\<close>

function digits :: "nat \<Rightarrow> nat \<Rightarrow> nat list" where
  "digits b n = (if b < 2 \<or> n < b then [n] else digits b (n div b) @ [n mod b])"
  by pat_completeness auto
termination by (relation "measure snd") auto

declare digits.simps [simp del]

definition digit_of :: "nat \<Rightarrow> char" where
  "digit_of d = (if d < 10 then char_of (48 + d) else char_of (55 + d))"

text \<open>\<^verbatim>\<open>%0wX\<close>, \<^verbatim>\<open>%0wo\<close>, \<^verbatim>\<open>%0wu\<close> for the bases 16, 8 and 10.\<close>

definition fmt_num :: "nat \<Rightarrow> nat \<Rightarrow> nat \<Rightarrow> string" where
  "fmt_num b w n = (let s = map digit_of (digits b n) in replicate (w - length s) CHR ''0'' @ s)"

definition fmt_int :: "int \<Rightarrow> string" where
  "fmt_int i = (if i < 0 then ''-'' @ dec_str (nat (- i)) else dec_str (nat i))"

text \<open>A buffer of \<open>n\<close> bytes keeps \<open>n - 1\<close> characters.\<close>

definition snprintf :: "nat \<Rightarrow> string \<Rightarrow> string" where
  "snprintf n s = take (n - 1) s"

text \<open>Text outside ASCII, byte by byte.\<close>

definition bytes_str :: "nat list \<Rightarrow> string" where
  "bytes_str bs = map char_of bs"

text \<open>The bytes of a word in memory, the least significant one first, and the word read back from them.\<close>

definition le_bytes :: "'a::len word \<Rightarrow> u8 list" where
  "le_bytes x = map (\<lambda>b. ucast (drop_bit (8 * b) x)) [0..<LENGTH('a) div 8]"

definition le_word :: "u8 list \<Rightarrow> 'a::len word" where
  "le_word bs = foldr (\<lambda>b x. push_bit 8 x OR ucast b) bs 0"

section \<open>Numbers can be read back\<close>

definition digits_val :: "nat \<Rightarrow> nat list \<Rightarrow> nat" where
  "digits_val b ds = foldl (\<lambda>v d. v * b + d) 0 ds"

lemma digits_val_digits [simp]: "digits_val b (digits b n) = n"
proof (induction b n rule: digits.induct)
  case (1 b n)
  then show ?case
    by (subst digits.simps) (cases "b < 2 \<or> n < b"; simp add: digits_val_def)
qed

lemma digits_less: "2 \<le> b \<Longrightarrow> d \<in> set (digits b n) \<Longrightarrow> d < b"
proof (induction b n rule: digits.induct)
  case (1 b n)
  then show ?case
    by (subst (asm) (2) digits.simps) (auto split: if_splits)
qed

lemma length_digits_le: "2 \<le> b \<Longrightarrow> 0 < w \<Longrightarrow> n < b ^ w \<Longrightarrow> length (digits b n) \<le> w"
proof (induction b n arbitrary: w rule: digits.induct)
  case (1 b n)
  show ?case
  proof (cases "n < b")
    case True
    then show ?thesis using 1 by (subst digits.simps) simp
  next
    case False
    obtain v where v: "w = Suc v" using 1 by (cases w) auto
    have "0 < v" using False 1 v by (cases v) auto
    moreover have "n div b < b ^ v" using 1 v by (simp add: less_mult_imp_div_less mult.commute)
    ultimately have "length (digits b (n div b)) \<le> v" using 1 False by auto
    then show ?thesis using False 1 v by (subst digits.simps) simp
  qed
qed

lemma length_fmt_num: "2 \<le> b \<Longrightarrow> 0 < w \<Longrightarrow> n < b ^ w \<Longrightarrow> length (fmt_num b w n) = w"
  using length_digits_le [of b w n] by (simp add: fmt_num_def Let_def)

definition digit_val :: "char \<Rightarrow> nat" where
  "digit_val c = (let v = of_char c in if v < 58 then v - 48 else v - 55)"

lemma digit_val_digit [simp]: "d < 36 \<Longrightarrow> digit_val (digit_of d) = d"
  by (simp add: digit_val_def digit_of_def Let_def)

lemma fmt_num_val:
  assumes "2 \<le> b" and "b \<le> 36"
  shows "digits_val b (map digit_val (fmt_num b w n)) = n"
proof -
  have z: "digit_val CHR ''0'' = 0" by (simp add: digit_val_def)
  have "map (digit_val \<circ> digit_of) (digits b n) = digits b n"
    using digits_less [OF assms(1), of _ n] assms(2) by (intro map_idI) (metis comp_apply digit_val_digit less_le_trans)
  moreover have "digits_val b (replicate k 0 @ ds) = digits_val b ds" for k ds
    by (induction k) (simp_all add: digits_val_def)
  ultimately show ?thesis by (simp add: fmt_num_def Let_def z)
qed

lemma fmt_num_inj: "2 \<le> b \<Longrightarrow> b \<le> 36 \<Longrightarrow> fmt_num b w m = fmt_num b w n \<Longrightarrow> m = n"
  by (metis fmt_num_val)

lemma length_le_bytes [simp]: "length (le_bytes (x :: 'a::len word)) = LENGTH('a) div 8"
  by (simp add: le_bytes_def)

lemma bit_le_word:
  "bit (le_word bs :: 'a::len word) n \<longleftrightarrow> n < LENGTH('a) \<and> n < 8 * length bs \<and> bit (bs ! (n div 8)) (n mod 8)"
proof (induction bs arbitrary: n)
  case Nil
  then show ?case by (simp add: le_word_def)
next
  case (Cons b bs)
  have w: "le_word (b # bs) = (push_bit 8 (le_word bs) OR ucast b :: 'a word)" by (simp add: le_word_def)
  show ?case
  proof (cases "n < 8")
    case True
    then show ?thesis by (auto simp: w bit_or_iff bit_push_bit_iff bit_ucast_iff)
  next
    case False
    then obtain m where m: "n = m + 8" by (metis add.commute le_Suc_ex not_less)
    have nb: "\<not> bit b (m + 8)" using bit_imp_le_length [of b "m + 8"] by auto
    show ?thesis using nb by (auto simp: m w bit_or_iff bit_push_bit_iff bit_ucast_iff Cons)
  qed
qed

lemma le_word_bytes:
  fixes x :: "'a::len word"
  assumes "8 dvd LENGTH('a)"
  shows "le_word (le_bytes x) = x"
proof (rule bit_word_eqI)
  fix n assume n: "n < LENGTH('a)"
  obtain k where k: "LENGTH('a) = 8 * k" using assms by blast
  have "n div 8 < k" using n k by (simp add: less_mult_imp_div_less mult.commute)
  then show "bit (le_word (le_bytes x) :: 'a word) n = bit x n"
    using n k by (simp add: bit_le_word le_bytes_def bit_ucast_iff bit_drop_bit_eq)
qed

text \<open>
  \<^verbatim>\<open>%g\<close> for a positive number: six significant digits without trailing zeros, with an exponent
  when it is below -4 or above 5. \<open>exp10\<close> is the decimal exponent within the range of a double.
\<close>

definition exp10 :: "real \<Rightarrow> int" where
  "exp10 x = (case find (\<lambda>e. x < 10 powi (e + 1)) [- 330..310] of Some e \<Rightarrow> e | None \<Rightarrow> 310)"

definition strip_zeros :: "string \<Rightarrow> string" where
  "strip_zeros s = rev (dropWhile (\<lambda>c. c = CHR ''0'') (rev s))"

definition dot :: "string \<Rightarrow> string" where
  "dot fr = (if fr = [] then [] else ''.'' @ fr)"

definition fmt_g :: "real \<Rightarrow> string" where
  "fmt_g x = (if x = 0 then ''0'' else
     let e0 = exp10 x; m0 = round (x * 10 powi (5 - e0));
         (e, m) = (if m0 = 1000000 then (e0 + 1, 100000) else (e0, m0));
         ds = dec_str (nat m)
     in if - 4 \<le> e \<and> e < 6
        then if 0 \<le> e then take (nat e + 1) ds @ dot (strip_zeros (drop (nat e + 1) ds))
             else ''0.'' @ replicate (nat (- e - 1)) CHR ''0'' @ strip_zeros ds
        else take 1 ds @ dot (strip_zeros (drop 1 ds)) @ ''e'' @ (if 0 \<le> e then ''+'' else ''-'') @ fmt_num 10 2 (nat \<bar>e\<bar>))"

end
