(* ===== verification/I2c.thy ===== *)
theory I2c
  imports DecRun Format
begin

text \<open>
  c_decoders/i2c_c.c: the I2C decoder. Its state is the record \<open>i2c_s\<close>, its handlers are
  functions on that state which also return the calls they make, and its decode() loop is the
  program \<open>i2c_decode\<close> of DecRun.
\<close>

section \<open>Conditions\<close>

text \<open>The terms the condition macros stand for.\<close>

definition pin_term :: "srd_term_type \<Rightarrow> int \<Rightarrow> srd_term" where
  "pin_term ty ch = \<lparr>t_type = ty, t_channel = ch, num_samples_to_skip = 0, num_samples_already_skipped = 0\<rparr>"

abbreviation CW_H :: "int \<Rightarrow> srd_term" where "CW_H \<equiv> pin_term SRD_TERM_HIGH"
abbreviation CW_R :: "int \<Rightarrow> srd_term" where "CW_R \<equiv> pin_term SRD_TERM_RISING_EDGE"
abbreviation CW_F :: "int \<Rightarrow> srd_term" where "CW_F \<equiv> pin_term SRD_TERM_FALLING_EDGE"

section \<open>State\<close>

definition SCL :: int where "SCL = 0"
definition SDA :: int where "SDA = 1"

definition ANN_START :: int where "ANN_START = 0"
definition ANN_REPEAT_START :: int where "ANN_REPEAT_START = 1"
definition ANN_STOP :: int where "ANN_STOP = 2"
definition ANN_ACK :: int where "ANN_ACK = 3"
definition ANN_NACK :: int where "ANN_NACK = 4"
definition ANN_BIT :: int where "ANN_BIT = 5"
definition ANN_ADDRESS_READ :: int where "ANN_ADDRESS_READ = 6"
definition ANN_ADDRESS_WRITE :: int where "ANN_ADDRESS_WRITE = 7"
definition ANN_DATA_READ :: int where "ANN_DATA_READ = 8"
definition ANN_DATA_WRITE :: int where "ANN_DATA_WRITE = 9"
definition ANN_PACKET :: int where "ANN_PACKET = 10"
definition ANN_ATK_DATA :: int where "ANN_ATK_DATA = 11"
definition ANN_ATK_RISE :: int where "ANN_ATK_RISE = 12"
definition NUM_ANN :: int where "NUM_ANN = 13"

datatype i2c_state = STATE_FIND_START | STATE_FIND_ADDRESS | STATE_FIND_DATA | STATE_FIND_ACK

record i2c_bit_entry =
  ib_sda :: u8
  ib_ss :: u64
  ib_es :: u64

text \<open>
  \<open>packet_data\<close> is the GArray that \<^verbatim>\<open>i2c_start\<close> allocates before decode() runs.
  The 2048 bytes of each packet string hold up to 2047 characters.
\<close>

record i2c_s =
  ic_state :: i2c_state
  ic_bitcount :: int
  ic_databyte :: u8
  ic_ss_byte :: u64
  ic_wr :: int
  ic_is_repeat_start :: int
  ic_bitwidth :: u64
  ic_pdu_start :: u64
  ic_pdu_bits :: int
  ic_packet_ss :: u64
  ic_packet_es :: u64
  ic_packet_part_ss :: u64
  ic_address :: u8
  ic_packet_data :: "u8 list"
  ic_packet_str :: string
  ic_packet_str_short :: string
  ic_bits :: "i2c_bit_entry list"
  ic_out_ann :: int
  ic_out_binary :: int
  ic_out_python :: int
  ic_out_bitrate :: int
  ic_address_shifted :: bool
  ic_show_data_point :: bool
  ic_packets_format :: int
  ic_samplerate :: u64

definition i2c_reset_impl :: i2c_s where
  "i2c_reset_impl = \<lparr>ic_state = STATE_FIND_START, ic_bitcount = 0, ic_databyte = 0, ic_ss_byte = 0,
     ic_wr = 0, ic_is_repeat_start = 0, ic_bitwidth = 0, ic_pdu_start = 0, ic_pdu_bits = 0,
     ic_packet_ss = 0, ic_packet_es = 0, ic_packet_part_ss = 0, ic_address = 0, ic_packet_data = [],
     ic_packet_str = [], ic_packet_str_short = [],
     ic_bits = replicate 8 \<lparr>ib_sda = 0, ib_ss = 0, ib_es = 0\<rparr>,
     ic_out_ann = 0, ic_out_binary = 0, ic_out_python = 0, ic_out_bitrate = 0,
     ic_address_shifted = False, ic_show_data_point = False, ic_packets_format = 0, ic_samplerate = 0\<rparr>"

section \<open>Packets\<close>

definition i2c_reset_packet :: "i2c_s \<Rightarrow> i2c_s" where
  "i2c_reset_packet s = s\<lparr>ic_packet_data := [], ic_packet_str := [], ic_packet_str_short := [],
     ic_packet_ss := 0, ic_packet_es := 0, ic_packet_part_ss := 0, ic_address := 0\<rparr>"

text \<open>The eight bits of a byte, the highest one first, if the buffer takes them.\<close>

definition fmt_binary :: "u8 \<Rightarrow> nat \<Rightarrow> string" where
  "fmt_binary val bufsize = (if bufsize < 9 then []
     else map (\<lambda>i. if bit val (7 - i) then CHR ''1'' else CHR ''0'') [0..<8])"

definition i2c_format_data_value :: "u8 \<Rightarrow> string" where
  "i2c_format_data_value v =
     (if 32 \<le> v \<and> v \<le> 126 then [char_of (unat v)] else ''['' @ fmt_num 16 2 (unat v) @ '']'')"

definition i2c_format_byte :: "int \<Rightarrow> u8 \<Rightarrow> string" where
  "i2c_format_byte packets_format v =
     (if packets_format = 5 then fmt_num 8 3 (unat v)
      else if packets_format = 4 then fmt_binary v 16
      else if packets_format = 3 then dec_str (unat v)
      else if packets_format = 2 then i2c_format_data_value v
      else fmt_num 16 2 (unat v))"

text \<open>The loop ends when fewer than nine bytes of the buffer are left, or a value does not fit.\<close>

fun i2c_data_chars :: "int \<Rightarrow> nat \<Rightarrow> u8 list \<Rightarrow> string \<Rightarrow> string" where
  "i2c_data_chars fmt out_size [] acc = acc"
| "i2c_data_chars fmt out_size (v # vs) acc =
     (if \<not> length acc + 8 < out_size then acc
      else let tmp = i2c_format_byte fmt v;
               acc1 = (if acc \<noteq> [] \<and> length acc + 2 < out_size then acc @ '' '' else acc)
           in if out_size \<le> length acc1 + length tmp then acc1
              else i2c_data_chars fmt out_size vs (acc1 @ tmp))"

definition i2c_data_array_to_str :: "i2c_s \<Rightarrow> nat \<Rightarrow> string" where
  "i2c_data_array_to_str s out_size = i2c_data_chars (ic_packets_format s) out_size (ic_packet_data s) []"

definition i2c_format_packet :: "i2c_s \<Rightarrow> nat \<Rightarrow> nat \<Rightarrow> string \<times> string" where
  "i2c_format_packet s pkt_str_size pkt_short_size =
     (let data_str = i2c_data_array_to_str s 128;
          pkt_str = snprintf pkt_str_size (''0x'' @ fmt_num 16 2 (unat (ic_address s)) @ '' '' @
            (if ic_wr s = 0 then ''RD'' else ''WR'') @ '': '' @ data_str);
          pkt_short = snprintf pkt_short_size (drop 2 pkt_str)
      in if ic_packet_str s \<noteq> []
         then (snprintf pkt_str_size (snprintf 4096 (ic_packet_str s @ '' [SR] '' @ pkt_str)),
               snprintf pkt_short_size (snprintf 4096 (ic_packet_str_short s @ '' [SR] '' @ pkt_short)))
         else (pkt_str, pkt_short))"

definition i2c_handle_packet :: "bool \<Rightarrow> i2c_s \<Rightarrow> i2c_s \<times> out_call list" where
  "i2c_handle_packet is_start_repeat s =
     (if ic_packets_format s = 0 then (s, [])
      else if ic_packet_data s = [] then (if is_start_repeat then s else i2c_reset_packet s, [])
      else let (pkt_str, pkt_short) = i2c_format_packet s 4096 4096
           in if is_start_repeat
              then (s\<lparr>ic_packet_data := [], ic_packet_str := snprintf 2048 pkt_str,
                      ic_packet_str_short := snprintf 2048 pkt_short\<rparr>, [])
              else (i2c_reset_packet s,
                    [O_put (ic_packet_ss s) (ic_packet_es s) (ic_out_ann s) ANN_PACKET [pkt_str, pkt_short]]))"

section \<open>Handlers\<close>

definition i2c_handle_start :: "u64 \<Rightarrow> i2c_s \<Rightarrow> i2c_s \<times> out_call list" where
  "i2c_handle_start samplenum s =
     (let s1 = s\<lparr>ic_pdu_start := samplenum, ic_pdu_bits := 0\<rparr>;
          (s2, out) =
            (if ic_is_repeat_start s1 = 1
             then let (s2, pkt) = i2c_handle_packet True s1
                  in (s2, [O_put samplenum samplenum (ic_out_ann s) ANN_REPEAT_START [''Start repeat'', ''Sr''],
                           O_proto samplenum samplenum (ic_out_python s) ''START REPEAT'' []] @ pkt)
             else let (s2, pkt) = i2c_handle_packet False s1
                  in (s2\<lparr>ic_packet_ss := samplenum\<rparr>,
                      [O_put samplenum samplenum (ic_out_ann s) ANN_START [''Start'', ''S''],
                       O_proto samplenum samplenum (ic_out_python s) ''START'' []] @ pkt))
      in (s2\<lparr>ic_packet_part_ss := samplenum, ic_state := STATE_FIND_ADDRESS, ic_bitcount := 0,
             ic_databyte := 0, ic_is_repeat_start := 1, ic_wr := -1\<rparr>, out))"

text \<open>A new bit goes in front; entry 1 ends where it starts, and after eight bits entry 0 gets a width.\<close>

definition i2c_push_bit :: "u64 \<Rightarrow> u8 \<Rightarrow> i2c_s \<Rightarrow> i2c_s" where
  "i2c_push_bit samplenum sda_val s =
     (let bits = \<lparr>ib_sda = sda_val, ib_ss = samplenum, ib_es = samplenum\<rparr> # take 7 (ic_bits s);
          bits1 = (if 0 < ic_bitcount s then bits[1 := (bits ! 1)\<lparr>ib_es := samplenum\<rparr>] else bits)
      in if ic_bitcount s = 7
         then let w = ib_es (bits1 ! 1) - ib_es (bits1 ! 2)
              in s\<lparr>ic_bits := bits1[0 := (bits1 ! 0)\<lparr>ib_es := ib_es (bits1 ! 0) + w\<rparr>], ic_bitwidth := w\<rparr>
         else s\<lparr>ic_bits := bits1\<rparr>)"

text \<open>The bytes of the BITS message: a header, then level, start and end of each bit in wire order.\<close>

fun i2c_bits_data :: "i2c_bit_entry list \<Rightarrow> u8 list \<Rightarrow> u8 list" where
  "i2c_bits_data [] acc = acc"
| "i2c_bits_data (b # bs) acc =
     (if length acc + 17 \<le> 144
      then i2c_bits_data bs (acc @ [ib_sda b] @ le_bytes (ib_ss b) @ le_bytes (ib_es b))
      else acc)"

definition i2c_bit_anns :: "i2c_s \<Rightarrow> i2c_bit_entry \<Rightarrow> out_call list" where
  "i2c_bit_anns s b = O_put (ib_ss b) (ib_es b) (ic_out_ann s) ANN_BIT [dec_str (unat (ib_sda b))]
     # (if ic_show_data_point s
        then [O_put (ib_ss b) (ib_ss b) (ic_out_ann s) ANN_ATK_DATA [''1''],
              O_put (ib_ss b) (ib_ss b) (ic_out_ann s) ANN_ATK_RISE [''0'']]
        else [])"

text \<open>The annotations of an address and of a data byte.\<close>

definition i2c_address_anns :: "u64 \<Rightarrow> u64 \<Rightarrow> int \<Rightarrow> u8 \<Rightarrow> i2c_s \<Rightarrow> out_call list" where
  "i2c_address_anns samplenum byte_end cls d s =
     (let w = (if ic_wr s \<noteq> 0 then [''Write'', ''Wr'', ''W''] else [''Read'', ''Rd'', ''R'']);
          val_str = fmt_num 16 2 (unat d)
      in [O_put samplenum byte_end (ic_out_ann s) cls w]
       @ (if ic_show_data_point s
          then [O_put samplenum samplenum (ic_out_ann s) ANN_ATK_DATA [''1''],
                O_put samplenum samplenum (ic_out_ann s) ANN_ATK_RISE [''0'']] else [])
       @ [O_put_v (ic_ss_byte s) samplenum (ic_out_ann s) cls (uint d)
            [snprintf 64 ((if cls = ANN_ADDRESS_WRITE then ''Address write'' else ''Address read'') @ '': '' @ val_str),
             snprintf 64 ((if cls = ANN_ADDRESS_WRITE then ''AW'' else ''AR'') @ '': '' @ val_str), val_str]])"

definition i2c_data_anns :: "u64 \<Rightarrow> int \<Rightarrow> u8 \<Rightarrow> i2c_s \<Rightarrow> out_call list" where
  "i2c_data_anns byte_end cls d s =
     (let val_str = i2c_format_byte (ic_packets_format s) d
      in [O_put_v (ic_ss_byte s) byte_end (ic_out_ann s) cls (uint d)
            [snprintf 64 ((if cls = ANN_DATA_WRITE then ''Data write'' else ''Data read'') @ '': '' @ val_str),
             snprintf 64 ((if cls = ANN_DATA_WRITE then ''DW'' else ''DR'') @ '': '' @ val_str), val_str]])"

text \<open>What happens when the eighth bit is in.\<close>

definition i2c_byte_done :: "u64 \<Rightarrow> i2c_s \<Rightarrow> i2c_s \<times> out_call list" where
  "i2c_byte_done samplenum s =
     (let addr = (ic_state s = STATE_FIND_ADDRESS); data = (ic_state s = STATE_FIND_DATA);
          d0 = ic_databyte s;
          s1 = (if addr then s\<lparr>ic_wr := if bit d0 0 then 0 else 1\<rparr> else s);
          d = (if addr \<and> ic_address_shifted s then drop_bit 1 d0 else d0);
          byte_end = samplenum + ic_bitwidth s1;
          (cls, bin_cls) =
            (if addr \<and> ic_wr s1 = 1 then (ANN_ADDRESS_WRITE, 1)
             else if addr \<and> ic_wr s1 = 0 then (ANN_ADDRESS_READ, 0)
             else if data then (if ic_wr s1 = 1 then (ANN_DATA_WRITE, 3) else (ANN_DATA_READ, 2))
             else (-1, -1));
          s2 = (if data then s1\<lparr>ic_packet_data := ic_packet_data s1 @ [d]\<rparr> else s1)\<lparr>ic_packet_es := byte_end\<rparr>;
          bits_msg = [O_proto (ic_ss_byte s2) byte_end (ic_out_python s2) ''BITS''
            [C_BYTES (i2c_bits_data (rev (ic_bits s2)) [0x02, 0, 0, 8])]];
          byte_msg =
            (if addr then [O_proto (ic_ss_byte s2) byte_end (ic_out_python s2)
                (if ic_wr s2 \<noteq> 0 then ''ADDRESS WRITE'' else ''ADDRESS READ'') [C_U8 d]]
             else if data then [O_proto (ic_ss_byte s2) byte_end (ic_out_python s2)
                (if ic_wr s2 \<noteq> 0 then ''DATA WRITE'' else ''DATA READ'') [C_U8 d]]
             else []);
          bin = (if 0 \<le> bin_cls then [O_bin (ic_ss_byte s2) byte_end (ic_out_binary s2) bin_cls [d]] else []);
          is_addr = (cls = ANN_ADDRESS_WRITE \<or> cls = ANN_ADDRESS_READ);
          anns = (if cls < 0 then []
             else if is_addr then i2c_address_anns samplenum byte_end cls d s2
             else i2c_data_anns byte_end cls d s2);
          s3 = (if 0 \<le> cls \<and> is_addr then s2\<lparr>ic_address := d\<rparr> else s2)
      in (s3\<lparr>ic_bitcount := 0, ic_databyte := 0, ic_state := STATE_FIND_ACK\<rparr>,
          bits_msg @ byte_msg @ bin @ concat (map (i2c_bit_anns s2) (ic_bits s2)) @ anns))"

definition i2c_handle_address_or_data :: "u64 \<Rightarrow> u8 \<Rightarrow> i2c_s \<Rightarrow> i2c_s \<times> out_call list" where
  "i2c_handle_address_or_data samplenum sda_val s =
     (let s1 = s\<lparr>ic_pdu_bits := ic_pdu_bits s + 1, ic_databyte := push_bit 1 (ic_databyte s) OR sda_val\<rparr>;
          s2 = (if ic_bitcount s1 = 0 then s1\<lparr>ic_ss_byte := samplenum\<rparr> else s1);
          s3 = i2c_push_bit samplenum sda_val s2
      in if ic_bitcount s3 < 7 then (s3\<lparr>ic_bitcount := ic_bitcount s3 + 1\<rparr>, [])
         else i2c_byte_done samplenum s3)"

definition i2c_get_ack :: "u64 \<Rightarrow> u8 \<Rightarrow> i2c_s \<Rightarrow> i2c_s \<times> out_call list" where
  "i2c_get_ack samplenum sda_val s =
     (let ack_end = samplenum + ic_bitwidth s
      in (s\<lparr>ic_packet_es := ack_end, ic_state := STATE_FIND_DATA\<rparr>,
          if sda_val = 0
          then [O_put samplenum ack_end (ic_out_ann s) ANN_ACK [''ACK'', ''A''],
                O_proto samplenum ack_end (ic_out_python s) ''ACK'' []]
          else [O_put samplenum ack_end (ic_out_ann s) ANN_NACK [''NACK'', ''N''],
                O_proto samplenum ack_end (ic_out_python s) ''NACK'' []]))"

text \<open>The bit rate is computed in floating point; the model computes it in the reals.\<close>

definition i2c_bitrate :: "u64 \<Rightarrow> i2c_s \<Rightarrow> int" where
  "i2c_bitrate samplenum s =
     (let elapsed = 1 / real (unat (ic_samplerate s)) * real (unat (samplenum - ic_pdu_start s + 1))
      in trunc_real (1 / elapsed * real_of_int (ic_pdu_bits s)))"

definition i2c_handle_stop :: "u64 \<Rightarrow> i2c_s \<Rightarrow> i2c_s \<times> out_call list" where
  "i2c_handle_stop samplenum s =
     (let meta = (if ic_samplerate s \<noteq> 0
            then [O_meta_int (ic_ss_byte s) samplenum (ic_out_bitrate s) (i2c_bitrate samplenum s)] else []);
          (s1, pkt) = i2c_handle_packet False (s\<lparr>ic_packet_es := samplenum\<rparr>)
      in (s1\<lparr>ic_state := STATE_FIND_START, ic_is_repeat_start := 0, ic_wr := -1\<rparr>,
          meta @ pkt @ [O_put samplenum samplenum (ic_out_ann s) ANN_STOP [''Stop'', ''P''],
            O_proto samplenum samplenum (ic_out_python s) ''STOP'' []]))"

section \<open>Callbacks\<close>

definition i2c_packets_format_of :: "string option \<Rightarrow> int" where
  "i2c_packets_format_of f =
     (if f = Some ''none'' then 0 else if f = Some ''hex'' then 1 else if f = Some ''ascii'' then 2
      else if f = Some ''dec'' then 3 else if f = Some ''bin'' then 4 else if f = Some ''oct'' then 5 else 1)"

text \<open>\<^verbatim>\<open>start()\<close> on the library state: it registers the outputs and reads the options.\<close>

definition i2c_start :: "inst_ptr \<Rightarrow> i2c_s srd_world \<Rightarrow> i2c_s srd_world" where
  "i2c_start p w =
     (let (ann, w1) = c_decoder_register_output (Some p) SRD_OUTPUT_ANN (Some ''i2c'') w;
          (bin, w2) = c_decoder_register_output (Some p) SRD_OUTPUT_BINARY (Some ''i2c'') w1;
          (py, w3) = c_decoder_register_output (Some p) SRD_OUTPUT_PROTO (Some ''i2c'') w2;
          (rate, w4) = c_decoder_register_output (Some p) SRD_OUTPUT_META (Some ''i2c'') w3
      in upd_inst p (\<lambda>d. d\<lparr>user_data := map_option (\<lambda>s. s\<lparr>ic_out_ann := ann, ic_out_binary := bin,
           ic_out_python := py, ic_out_bitrate := rate,
           ic_address_shifted := (c_decoder_get_option_string (Some d) (Some ''address_format'') (Some ''shifted'')
             = Some ''shifted''),
           ic_show_data_point := (c_opt_bool (Some d) (Some ''show_data_point'') 1 \<noteq> 0),
           ic_packets_format := i2c_packets_format_of
             (c_decoder_get_option_string (Some d) (Some ''packets_format'') (Some ''hex'')),
           ic_wr := -1, ic_samplerate := c_decoder_get_samplerate (Some d)\<rparr>) (user_data d)\<rparr>) w4)"

definition i2c_metadata :: "int \<Rightarrow> u64 \<Rightarrow> i2c_s \<Rightarrow> i2c_s" where
  "i2c_metadata key val s = (if key = SRD_CONF_SAMPLERATE then s\<lparr>ic_samplerate := val\<rparr> else s)"

fun i2c_waits :: "i2c_state \<Rightarrow> srd_term list list" where
  "i2c_waits STATE_FIND_START = [[CW_H SCL, CW_F SDA]]"
| "i2c_waits STATE_FIND_ADDRESS = [[CW_R SCL]]"
| "i2c_waits STATE_FIND_DATA = [[CW_R SCL], [CW_H SCL, CW_F SDA], [CW_H SCL, CW_R SDA]]"
| "i2c_waits STATE_FIND_ACK = [[CW_R SCL]]"

definition i2c_decode_step :: "u64 \<Rightarrow> u64 \<Rightarrow> (int \<Rightarrow> u8) \<Rightarrow> i2c_s \<Rightarrow> i2c_s \<times> out_call list" where
  "i2c_decode_step samplenum hits pins s = (case ic_state s of
      STATE_FIND_START \<Rightarrow> i2c_handle_start samplenum s
    | STATE_FIND_ADDRESS \<Rightarrow> i2c_handle_address_or_data samplenum (pins SDA) s
    | STATE_FIND_DATA \<Rightarrow>
        (if bit hits 0 then i2c_handle_address_or_data samplenum (pins SDA) s
         else if bit hits 1 then i2c_handle_start samplenum s
         else if bit hits 2 then i2c_handle_stop samplenum s
         else (s, []))
    | STATE_FIND_ACK \<Rightarrow> i2c_get_ack samplenum (pins SDA) s)"

definition i2c_decode :: "i2c_s c_program" where
  "i2c_decode = \<lparr>prog_wait = (\<lambda>s. i2c_waits (ic_state s)), prog_step = i2c_decode_step\<rparr>"

section \<open>What the handlers do to the protocol state\<close>

text \<open>The messages for the decoders on top, without the raw bits.\<close>

fun proto_msg :: "out_call \<Rightarrow> (string \<times> c_field list) option" where
  "proto_msg (O_proto ss es n cmd fs) = (if cmd = ''BITS'' then None else Some (cmd, fs))"
| "proto_msg _ = None"

definition cmds :: "out_call list \<Rightarrow> (string \<times> c_field list) list" where
  "cmds out = List.map_filter proto_msg out"

lemma cmds_simps [simp]:
  "cmds [] = []" "cmds (x # xs) = (case proto_msg x of None \<Rightarrow> cmds xs | Some c \<Rightarrow> c # cmds xs)"
  "cmds (xs @ ys) = cmds xs @ cmds ys"
  by (simp_all add: cmds_def List.map_filter_def split: option.split)

lemma cmds_concat: "(\<And>x. x \<in> set xs \<Longrightarrow> cmds x = []) \<Longrightarrow> cmds (concat xs) = []"
  by (induction xs) auto

lemma cmds_bit_anns [simp]: "cmds (i2c_bit_anns s b) = []"
  by (simp add: i2c_bit_anns_def)

text \<open>The fields that decide what is sent.\<close>

definition i2c_view :: "i2c_s \<Rightarrow> i2c_state \<times> int \<times> u8 \<times> int \<times> int \<times> bool" where
  "i2c_view s = (ic_state s, ic_bitcount s, ic_databyte s, ic_wr s, ic_is_repeat_start s, ic_address_shifted s)"

lemma view_handle_packet:
  assumes "i2c_handle_packet b s = (s', out)"
  shows "i2c_view s' = i2c_view s" and "cmds out = []"
  using assms
  by (auto simp: i2c_handle_packet_def i2c_view_def i2c_reset_packet_def split: if_splits prod.splits)

lemma view_handle_start:
  assumes "i2c_handle_start pos s = (s', out)"
  shows "i2c_view s' = (STATE_FIND_ADDRESS, 0, 0, -1, 1, ic_address_shifted s)"
    and "cmds out = [(if ic_is_repeat_start s = 1 then ''START REPEAT'' else ''START'', [])]"
proof -
  let ?s = "s\<lparr>ic_pdu_start := pos, ic_pdu_bits := 0\<rparr>"
  obtain t pkt where p: "i2c_handle_packet (ic_is_repeat_start s = 1) ?s = (t, pkt)" by fastforce
  note v = view_handle_packet [OF p]
  show "i2c_view s' = (STATE_FIND_ADDRESS, 0, 0, -1, 1, ic_address_shifted s)"
    "cmds out = [(if ic_is_repeat_start s = 1 then ''START REPEAT'' else ''START'', [])]"
    using assms p v by (auto simp: i2c_handle_start_def i2c_view_def Let_def split: if_splits)
qed

lemma view_push_bit [simp]:
  "i2c_view (i2c_push_bit pos b s) = i2c_view s" "ic_bitcount (i2c_push_bit pos b s) = ic_bitcount s"
  by (simp_all add: i2c_push_bit_def i2c_view_def Let_def)

text \<open>The message of a complete byte.\<close>

definition byte_cmd :: "bool \<Rightarrow> bool \<Rightarrow> bool \<Rightarrow> u8 \<Rightarrow> string \<times> c_field list" where
  "byte_cmd addr wr shifted d =
     (if addr then (if bit d 0 then ''ADDRESS READ'' else ''ADDRESS WRITE'', [C_U8 (if shifted then drop_bit 1 d else d)])
      else (if wr then ''DATA WRITE'' else ''DATA READ'', [C_U8 d]))"

lemmas ann_numbers = ANN_ADDRESS_WRITE_def ANN_ADDRESS_READ_def ANN_DATA_WRITE_def ANN_DATA_READ_def

lemma cmds_byte_anns [simp]:
  "cmds (i2c_address_anns pos byte_end cls d s) = []" "cmds (i2c_data_anns byte_end cls d s) = []"
  by (simp_all add: i2c_address_anns_def i2c_data_anns_def Let_def)

lemma view_byte_done:
  assumes "ic_state s = STATE_FIND_ADDRESS \<or> ic_state s = STATE_FIND_DATA"
  shows "i2c_view (fst (i2c_byte_done pos s)) = (STATE_FIND_ACK, 0, 0,
      if ic_state s = STATE_FIND_ADDRESS then (if bit (ic_databyte s) 0 then 0 else 1) else ic_wr s,
      ic_is_repeat_start s, ic_address_shifted s)"
    and "cmds (snd (i2c_byte_done pos s)) =
      [byte_cmd (ic_state s = STATE_FIND_ADDRESS) (ic_wr s \<noteq> 0) (ic_address_shifted s) (ic_databyte s)]"
proof -
  have c: "cmds (concat (map (i2c_bit_anns t) bs)) = []" for t bs by (rule cmds_concat) auto
  have cs: "(ic_state s = STATE_FIND_ADDRESS \<and> bit (ic_databyte s) 0)
    \<or> (ic_state s = STATE_FIND_ADDRESS \<and> \<not> bit (ic_databyte s) 0) \<or> ic_state s = STATE_FIND_DATA"
    using assms by blast
  show "i2c_view (fst (i2c_byte_done pos s)) = (STATE_FIND_ACK, 0, 0,
      if ic_state s = STATE_FIND_ADDRESS then (if bit (ic_databyte s) 0 then 0 else 1) else ic_wr s,
      ic_is_repeat_start s, ic_address_shifted s)"
    using cs by (elim disjE conjE; simp add: i2c_byte_done_def i2c_view_def Let_def ann_numbers)
  show "cmds (snd (i2c_byte_done pos s)) =
      [byte_cmd (ic_state s = STATE_FIND_ADDRESS) (ic_wr s \<noteq> 0) (ic_address_shifted s) (ic_databyte s)]"
    using cs by (elim disjE conjE; simp add: i2c_byte_done_def byte_cmd_def c Let_def ann_numbers)
qed

lemma view_get_ack:
  assumes "i2c_get_ack pos b s = (s', out)"
  shows "i2c_view s' = (STATE_FIND_DATA, ic_bitcount s, ic_databyte s, ic_wr s, ic_is_repeat_start s, ic_address_shifted s)"
    and "cmds out = [(if b = 0 then ''ACK'' else ''NACK'', [])]"
  using assms by (auto simp: i2c_get_ack_def i2c_view_def Let_def)

lemma view_handle_stop:
  assumes "i2c_handle_stop pos s = (s', out)"
  shows "i2c_view s' = (STATE_FIND_START, ic_bitcount s, ic_databyte s, -1, 0, ic_address_shifted s)"
    and "cmds out = [(''STOP'', [])]"
proof -
  obtain t pkt where p: "i2c_handle_packet False (s\<lparr>ic_packet_es := pos\<rparr>) = (t, pkt)" by fastforce
  note v = view_handle_packet [OF p]
  show "i2c_view s' = (STATE_FIND_START, ic_bitcount s, ic_databyte s, -1, 0, ic_address_shifted s)"
    "cmds out = [(''STOP'', [])]"
    using assms p v by (auto simp: i2c_handle_stop_def i2c_view_def Let_def)
qed

section \<open>The bus\<close>

text \<open>A sample of the bus: the levels of the two lines.\<close>

definition bus :: "bool \<Rightarrow> bool \<Rightarrow> int \<Rightarrow> u8" where
  "bus c d ch = (if ch = SCL then of_bool c else if ch = SDA then of_bool d else 0xFF)"

lemma bus_pins [simp]: "bus c d SCL = of_bool c" "bus c d SDA = of_bool d"
  by (simp_all add: bus_def SCL_def SDA_def)

lemma pin_term_sel [simp]: "t_type (pin_term ty ch) = ty" "t_channel (pin_term ty ch) = ch"
  by (simp_all add: pin_term_def)

lemma cond_sem_one [simp]:
  "ty \<noteq> SRD_TERM_SKIP \<Longrightarrow> cond_sem old new e [pin_term ty ch] \<longleftrightarrow> level_sem ty (old ch) (new ch)"
  by (simp add: cond_sem_def term_sem_def)

lemma cond_sem_two [simp]:
  "ty \<noteq> SRD_TERM_SKIP \<Longrightarrow> ty' \<noteq> SRD_TERM_SKIP \<Longrightarrow>
     cond_sem old new e [pin_term ty ch, pin_term ty' ch'] \<longleftrightarrow>
       level_sem ty (old ch) (new ch) \<and> level_sem ty' (old ch') (new ch')"
  by (simp add: cond_sem_def term_sem_def)

lemma i2c_level_program: "level_program i2c_decode"
proof -
  have "t_type t \<noteq> SRD_TERM_SKIP" if "cond \<in> set (i2c_waits st)" "t \<in> set cond" for st cond t
    using that by (cases st) auto
  then show ?thesis by (auto simp: level_program_def i2c_decode_def)
qed

lemma bus_still: "cond \<in> set (prog_wait i2c_decode s) \<Longrightarrow> \<not> cond_sem (bus c d) (bus c d) 0 cond"
  by (cases "ic_state s") (auto simp: i2c_decode_def)

lemmas bus_hold = run_edges_hold [of i2c_decode, OF bus_still]

text \<open>One sample after another: what each change of the lines is to the decoder.\<close>

lemma bus_scl_low: "run_edges i2c_decode k (bus c d) [bus False b] s = (s, [])"
  by (cases "ic_state s") (simp_all add: i2c_decode_def Let_def)

lemma bus_bit:
  assumes "ic_state s = STATE_FIND_ADDRESS \<or> ic_state s = STATE_FIND_DATA"
    and "i2c_handle_address_or_data (of_nat k) (of_bool b) s = (s', out)"
  shows "run_edges i2c_decode k (bus False d) [bus True b] s = (s', [(k, out)])"
  using assms(1)
proof
  assume a: "ic_state s = STATE_FIND_ADDRESS"
  then show ?thesis using assms(2) by (simp add: i2c_decode_def i2c_decode_step_def)
next
  assume a: "ic_state s = STATE_FIND_DATA"
  have "bit (match_mask 0 (True # ms)) 0" for ms :: "bool list"
    by (simp add: bit_or_iff bit_match_bit)
  with a show ?thesis using assms(2) by (simp add: i2c_decode_def i2c_decode_step_def del: match_mask.simps)
qed

lemma bus_ack:
  assumes "ic_state s = STATE_FIND_ACK" and "i2c_get_ack (of_nat k) (of_bool b) s = (s', out)"
  shows "run_edges i2c_decode k (bus False d) [bus True b] s = (s', [(k, out)])"
  using assms by (simp add: i2c_decode_def i2c_decode_step_def)

lemma mask_bits:
  "\<not> bit (match_mask 0 [False, b1, b2]) 0" "bit (match_mask 0 [b0, b1, b2]) 1 \<longleftrightarrow> b1"
  "bit (match_mask 0 [b0, b1, b2]) 2 \<longleftrightarrow> b2"
  by (auto simp: bit_or_iff bit_match_bit)

lemma bus_start:
  assumes "ic_state s = STATE_FIND_START \<or> ic_state s = STATE_FIND_DATA"
    and "i2c_handle_start (of_nat k) s = (s', out)"
  shows "run_edges i2c_decode k (bus True True) [bus True False] s = (s', [(k, out)])"
  using assms(1)
proof
  assume a: "ic_state s = STATE_FIND_START"
  then show ?thesis using assms(2) by (simp add: i2c_decode_def i2c_decode_step_def)
next
  assume a: "ic_state s = STATE_FIND_DATA"
  with assms(2) mask_bits show ?thesis
    by (simp add: i2c_decode_def i2c_decode_step_def del: match_mask.simps)
qed

lemma bus_stop:
  assumes "ic_state s = STATE_FIND_DATA" and "i2c_handle_stop (of_nat k) s = (s', out)"
  shows "run_edges i2c_decode k (bus True False) [bus True True] s = (s', [(k, out)])"
  using assms mask_bits by (simp add: i2c_decode_def i2c_decode_step_def del: match_mask.simps)

section \<open>Bits and bytes on the bus\<close>

text \<open>A bit: the clock is low for a while and then high, the data line is stable.\<close>

definition bit_wave :: "nat \<times> nat \<Rightarrow> bool \<Rightarrow> (int \<Rightarrow> u8) list" where
  "bit_wave t b = replicate (Suc (fst t)) (bus False b) @ replicate (Suc (snd t)) (bus True b)"

lemma last_bit_wave [simp]: "last (x # bit_wave t b) = bus True b"
  by (simp add: bit_wave_def)

lemma run_bit_wave:
  "run_edges i2c_decode k (bus c d) (bit_wave t b) s =
     run_edges i2c_decode (k + Suc (fst t)) (bus False b) [bus True b] s"
  unfolding bit_wave_def run_edges_append
  by (simp only: bus_hold bus_scl_low) (simp del: run_edges.simps split: prod.split)

text \<open>
  The samples \<open>xs\<close> after the sample \<open>old\<close> take the decoder to a protocol state and make it
  send these messages.
\<close>

definition sends ::
    "nat \<Rightarrow> (int \<Rightarrow> u8) \<Rightarrow> (int \<Rightarrow> u8) list \<Rightarrow> i2c_s \<Rightarrow> i2c_state \<times> int \<times> u8 \<times> int \<times> int \<times> bool \<Rightarrow>
     (string \<times> c_field list) list \<Rightarrow> bool" where
  "sends k old xs s v msgs \<longleftrightarrow> (let (s', tr) = run_edges i2c_decode k old xs s
     in i2c_view s' = v \<and> cmds (concat (map snd tr)) = msgs)"

lemma sends_append:
  assumes "sends k old xs s v1 c1" and "\<And>s'. i2c_view s' = v1 \<Longrightarrow> sends (k + length xs) (last (old # xs)) ys s' v2 c2"
  shows "sends k old (xs @ ys) s v2 (c1 @ c2)"
proof -
  obtain s1 tr1 where r1: "run_edges i2c_decode k old xs s = (s1, tr1)" by fastforce
  obtain s2 tr2 where r2: "run_edges i2c_decode (k + length xs) (last (old # xs)) ys s1 = (s2, tr2)" by fastforce
  have "run_edges i2c_decode k old (xs @ ys) s = (s2, tr1 @ tr2)"
    unfolding run_edges_append r1 Let_def prod.case r2 ..
  with assms(1) assms(2) [of s1] r1 r2 show ?thesis by (simp add: sends_def)
qed

lemma sends_one:
  assumes "run_edges i2c_decode k old xs s = (s', [(j, out)])" and "i2c_view s' = v" and "cmds out = c"
  shows "sends k old xs s v c"
  using assms by (simp add: sends_def)

lemma view_sel:
  assumes "i2c_view s = (st, n, v, wr, rep, sh)"
  shows "ic_state s = st" "ic_bitcount s = n" "ic_databyte s = v" "ic_wr s = wr"
    "ic_is_repeat_start s = rep" "ic_address_shifted s = sh"
  using assms by (simp_all add: i2c_view_def)

lemma view_bitcount:
  "i2c_view s = (st, n, v, wr, rep, sh) \<Longrightarrow> i2c_view (s\<lparr>ic_bitcount := m\<rparr>) = (st, m, v, wr, rep, sh)"
  by (simp add: i2c_view_def)

definition shift_in :: "u8 \<Rightarrow> bool \<Rightarrow> u8" where
  "shift_in v b = push_bit 1 v OR of_bool b"

lemma view_bit:
  assumes "i2c_view s = (st, n, v, wr, rep, sh)" and "n < 7"
  shows "i2c_view (fst (i2c_handle_address_or_data pos (of_bool b) s)) = (st, n + 1, shift_in v b, wr, rep, sh)"
    and "snd (i2c_handle_address_or_data pos (of_bool b) s) = []"
proof -
  define s2 where "s2 = (if ic_bitcount s = 0
    then s\<lparr>ic_pdu_bits := ic_pdu_bits s + 1, ic_databyte := push_bit 1 (ic_databyte s) OR of_bool b, ic_ss_byte := pos\<rparr>
    else s\<lparr>ic_pdu_bits := ic_pdu_bits s + 1, ic_databyte := push_bit 1 (ic_databyte s) OR of_bool b\<rparr>)"
  have v2: "i2c_view s2 = (st, n, shift_in v b, wr, rep, sh)"
    using assms(1) by (simp add: s2_def i2c_view_def shift_in_def)
  then have v3: "i2c_view (i2c_push_bit pos (of_bool b) s2) = (st, n, shift_in v b, wr, rep, sh)"
    "ic_bitcount (i2c_push_bit pos (of_bool b) s2) = n" by (simp_all add: view_sel)
  have e: "i2c_handle_address_or_data pos (of_bool b) s =
      (let s3 = i2c_push_bit pos (of_bool b) s2 in
       if ic_bitcount s3 < 7 then (s3\<lparr>ic_bitcount := ic_bitcount s3 + 1\<rparr>, []) else i2c_byte_done pos s3)"
    by (simp add: i2c_handle_address_or_data_def s2_def Let_def)
  show "i2c_view (fst (i2c_handle_address_or_data pos (of_bool b) s)) = (st, n + 1, shift_in v b, wr, rep, sh)"
    "snd (i2c_handle_address_or_data pos (of_bool b) s) = []"
    using v3 assms(2) by (simp_all add: e view_bitcount)
qed

lemma view_last_bit:
  assumes "i2c_view s = (st, 7, v, wr, rep, sh)" and "st = STATE_FIND_ADDRESS \<or> st = STATE_FIND_DATA"
  shows "i2c_view (fst (i2c_handle_address_or_data pos (of_bool b) s)) = (STATE_FIND_ACK, 0, 0,
      if st = STATE_FIND_ADDRESS then (if bit (shift_in v b) 0 then 0 else 1) else wr, rep, sh)"
    and "cmds (snd (i2c_handle_address_or_data pos (of_bool b) s)) =
      [byte_cmd (st = STATE_FIND_ADDRESS) (wr \<noteq> 0) sh (shift_in v b)]"
proof -
  define s2 where "s2 = s\<lparr>ic_pdu_bits := ic_pdu_bits s + 1, ic_databyte := push_bit 1 (ic_databyte s) OR of_bool b\<rparr>"
  have "i2c_view s2 = (st, 7, shift_in v b, wr, rep, sh)"
    using assms(1) by (simp add: s2_def i2c_view_def shift_in_def)
  then have v3: "i2c_view (i2c_push_bit pos (of_bool b) s2) = (st, 7, shift_in v b, wr, rep, sh)" by simp
  note f = view_sel [OF v3]
  have e: "i2c_handle_address_or_data pos (of_bool b) s = i2c_byte_done pos (i2c_push_bit pos (of_bool b) s2)"
    using f(2) view_sel(2) [OF assms(1)] by (simp add: i2c_handle_address_or_data_def s2_def Let_def)
  show "i2c_view (fst (i2c_handle_address_or_data pos (of_bool b) s)) = (STATE_FIND_ACK, 0, 0,
      if st = STATE_FIND_ADDRESS then (if bit (shift_in v b) 0 then 0 else 1) else wr, rep, sh)"
    "cmds (snd (i2c_handle_address_or_data pos (of_bool b) s)) =
      [byte_cmd (st = STATE_FIND_ADDRESS) (wr \<noteq> 0) sh (shift_in v b)]"
    using view_byte_done [of "i2c_push_bit pos (of_bool b) s2" pos] assms(2) unfolding e f by simp_all
qed

lemma sends_bit:
  assumes "i2c_view s = (st, n, v, wr, rep, sh)" and "st = STATE_FIND_ADDRESS \<or> st = STATE_FIND_DATA" and "n < 7"
  shows "sends k (bus c d) (bit_wave t b) s (st, n + 1, shift_in v b, wr, rep, sh) []"
proof -
  let ?p = "of_nat (k + Suc (fst t)) :: u64"
  obtain s' out where h: "i2c_handle_address_or_data ?p (of_bool b) s = (s', out)" by fastforce
  have "ic_state s = STATE_FIND_ADDRESS \<or> ic_state s = STATE_FIND_DATA" using assms(2) view_sel(1) [OF assms(1)] by simp
  from bus_bit [OF this h, of b] show ?thesis
    using view_bit [OF assms(1,3), of ?p b] h by (simp add: sends_def run_bit_wave)
qed

lemma sends_last_bit:
  assumes "i2c_view s = (st, 7, v, wr, rep, sh)" and "st = STATE_FIND_ADDRESS \<or> st = STATE_FIND_DATA"
  shows "sends k (bus c d) (bit_wave t b) s (STATE_FIND_ACK, 0, 0,
      if st = STATE_FIND_ADDRESS then (if bit (shift_in v b) 0 then 0 else 1) else wr, rep, sh)
    [byte_cmd (st = STATE_FIND_ADDRESS) (wr \<noteq> 0) sh (shift_in v b)]"
proof -
  let ?p = "of_nat (k + Suc (fst t)) :: u64"
  obtain s' out where h: "i2c_handle_address_or_data ?p (of_bool b) s = (s', out)" by fastforce
  have "ic_state s = STATE_FIND_ADDRESS \<or> ic_state s = STATE_FIND_DATA" using assms(2) view_sel(1) [OF assms(1)] by simp
  from bus_bit [OF this h, of b] show ?thesis
    using view_last_bit [OF assms, of ?p b] h by (simp add: sends_def run_bit_wave)
qed

lemma sends_ack:
  assumes "i2c_view s = (STATE_FIND_ACK, n, v, wr, rep, sh)"
  shows "sends k (bus c d) (bit_wave t a) s (STATE_FIND_DATA, n, v, wr, rep, sh)
    [(if a then ''NACK'' else ''ACK'', [])]"
proof -
  let ?p = "of_nat (k + Suc (fst t)) :: u64"
  obtain s' out where h: "i2c_get_ack ?p (of_bool a) s = (s', out)" by fastforce
  from bus_ack [OF view_sel(1) [OF assms] h, of a] show ?thesis
    using view_get_ack [OF h] view_sel [OF assms] by (simp add: sends_def run_bit_wave)
qed

text \<open>A byte on the bus, its highest bit first, and the acknowledge bit.\<close>

definition byte_bits :: "u8 \<Rightarrow> bool list" where
  "byte_bits d = map (\<lambda>i. bit d (7 - i)) [0..<8]"

lemma byte_bits_eq:
  "byte_bits d = [bit d 7, bit d 6, bit d 5, bit d 4, bit d 3, bit d 2, bit d 1, bit d 0]"
proof -
  have "[0..<8] = [0, 1, 2, 3, 4, 5, 6, 7 :: nat]" by code_simp
  then show ?thesis by (simp add: byte_bits_def)
qed

lemma bit_shift_in: "bit (shift_in v b) n \<longleftrightarrow> (if n = 0 then b else n < 8 \<and> bit v (n - 1))"
  unfolding shift_in_def bit_or_iff bit_push_bit_iff bit_of_bool_iff by auto

lemma shift_in_bits: "foldl shift_in 0 (byte_bits d) = d"
proof (rule bit_word_eqI)
  fix n assume "n < LENGTH(8)"
  then have "n \<in> {0, 1, 2, 3, 4, 5, 6, 7}" by auto
  then show "bit (foldl shift_in 0 (byte_bits d)) n \<longleftrightarrow> bit d n"
    by (auto simp: byte_bits_eq bit_shift_in)
qed

fun bits_wave :: "(nat \<times> nat) list \<Rightarrow> bool list \<Rightarrow> (int \<Rightarrow> u8) list" where
  "bits_wave (t # ts) (b # bs) = bit_wave t b @ bits_wave ts bs"
| "bits_wave _ _ = []"

lemma last_bits_wave: "\<exists>c' d'. last (bus c d # bits_wave ts bs) = bus c' d'"
proof (induction ts bs arbitrary: c d rule: bits_wave.induct)
  case (1 t ts b bs)
  have "last (bus c d # bits_wave (t # ts) (b # bs)) = last (bus True b # bits_wave ts bs)"
    using last_bit_wave [of "bus c d" t b] by (simp add: bit_wave_def last_append)
  with 1 [of True b] show ?case by simp
qed auto

lemma sends_bits:
  assumes "i2c_view s = (st, n, v, wr, rep, sh)" and "st = STATE_FIND_ADDRESS \<or> st = STATE_FIND_DATA"
    and "length ts = length bs" and "n + int (length bs) \<le> 7"
  shows "sends k (bus c d) (bits_wave ts bs) s (st, n + int (length bs), foldl shift_in v bs, wr, rep, sh) []"
  using assms
proof (induction ts bs arbitrary: k c d s n v rule: bits_wave.induct)
  case (1 t ts b bs)
  have "sends k (bus c d) (bit_wave t b @ bits_wave ts bs) s
      (st, n + 1 + int (length bs), foldl shift_in (shift_in v b) bs, wr, rep, sh) ([] @ [])"
  proof (rule sends_append)
    show "sends k (bus c d) (bit_wave t b) s (st, n + 1, shift_in v b, wr, rep, sh) []"
      using 1 by (intro sends_bit) auto
    fix s' assume s': "i2c_view s' = (st, n + 1, shift_in v b, wr, rep, sh)"
    show "sends (k + length (bit_wave t b)) (last (bus c d # bit_wave t b)) (bits_wave ts bs) s'
        (st, n + 1 + int (length bs), foldl shift_in (shift_in v b) bs, wr, rep, sh) []"
      unfolding last_bit_wave by (rule "1.IH" [OF s']) (use "1.prems" in auto)
  qed
  then show ?case by (simp add: add.assoc)
qed (simp_all add: sends_def i2c_view_def)

text \<open>A frame with its own timing for each of the nine bits.\<close>

definition frame_wave :: "(nat \<times> nat) list \<Rightarrow> u8 \<Rightarrow> bool \<Rightarrow> (int \<Rightarrow> u8) list" where
  "frame_wave ts d nack = bits_wave (take 7 ts) (butlast (byte_bits d))
     @ bit_wave (ts ! 7) (bit d 0) @ bit_wave (ts ! 8) nack"

lemma last_frame_wave [simp]: "last (x # frame_wave ts d nack) = bus True nack"
  using last_bit_wave [of x "ts ! 8" nack] by (simp add: frame_wave_def bit_wave_def)

definition ack_cmd :: "bool \<Rightarrow> string \<times> c_field list" where
  "ack_cmd nack = (if nack then ''NACK'' else ''ACK'', [])"

lemma byte_bits_last: "butlast (byte_bits d) @ [bit d 0] = byte_bits d" "length (butlast (byte_bits d)) = 7"
  by (simp_all add: byte_bits_eq)

lemma sends_frame:
  assumes "i2c_view s = (st, 0, 0, wr, rep, sh)" and st: "st = STATE_FIND_ADDRESS \<or> st = STATE_FIND_DATA"
    and ts: "length ts = 9"
  shows "sends k (bus c d) (frame_wave ts v nack) s
    (STATE_FIND_DATA, 0, 0, if st = STATE_FIND_ADDRESS then (if bit v 0 then 0 else 1) else wr, rep, sh)
    [byte_cmd (st = STATE_FIND_ADDRESS) (wr \<noteq> 0) sh v, ack_cmd nack]"
proof -
  let ?b = "butlast (byte_bits v)"
  have sh: "shift_in (foldl shift_in 0 ?b) (bit v 0) = v"
  proof -
    have "foldl shift_in 0 (?b @ [bit v 0]) = v" by (simp only: byte_bits_last(1) shift_in_bits)
    then show ?thesis by simp
  qed
  let ?wr = "if st = STATE_FIND_ADDRESS then (if bit v 0 then 0 else 1) else wr"
  have "sends k (bus c d) (bits_wave (take 7 ts) ?b @ bit_wave (ts ! 7) (bit v 0) @ bit_wave (ts ! 8) nack) s
      (STATE_FIND_DATA, 0, 0, ?wr, rep, sh)
      ([] @ [byte_cmd (st = STATE_FIND_ADDRESS) (wr \<noteq> 0) sh v] @ [ack_cmd nack])"
  proof (rule sends_append)
    show "sends k (bus c d) (bits_wave (take 7 ts) ?b) s (st, 7, foldl shift_in 0 ?b, wr, rep, sh) []"
      using sends_bits [OF assms(1) st, of "take 7 ts" ?b] ts byte_bits_last(2) [of v] by simp
    fix s1 assume s1: "i2c_view s1 = (st, 7, foldl shift_in 0 ?b, wr, rep, sh)"
    obtain c' d' where l: "last (bus c d # bits_wave (take 7 ts) ?b) = bus c' d'" using last_bits_wave by blast
    let ?k = "k + length (bits_wave (take 7 ts) ?b)"
    show "sends ?k (last (bus c d # bits_wave (take 7 ts) ?b))
        (bit_wave (ts ! 7) (bit v 0) @ bit_wave (ts ! 8) nack) s1 (STATE_FIND_DATA, 0, 0, ?wr, rep, sh)
        ([byte_cmd (st = STATE_FIND_ADDRESS) (wr \<noteq> 0) sh v] @ [ack_cmd nack])"
      unfolding l
    proof (rule sends_append)
      show "sends ?k (bus c' d') (bit_wave (ts ! 7) (bit v 0)) s1 (STATE_FIND_ACK, 0, 0, ?wr, rep, sh)
          [byte_cmd (st = STATE_FIND_ADDRESS) (wr \<noteq> 0) sh v]"
        by (rule sends_last_bit [OF s1 st, where b = "bit v 0", unfolded sh])
      fix s2 assume "i2c_view s2 = (STATE_FIND_ACK, 0, 0, ?wr, rep, sh)"
      then show "sends (?k + length (bit_wave (ts ! 7) (bit v 0))) (last (bus c' d' # bit_wave (ts ! 7) (bit v 0)))
          (bit_wave (ts ! 8) nack) s2 (STATE_FIND_DATA, 0, 0, ?wr, rep, sh) [ack_cmd nack]"
        unfolding last_bit_wave ack_cmd_def by (rule sends_ack)
    qed
  qed
  then show ?thesis by (simp add: frame_wave_def)
qed

section \<open>Transfers\<close>

text \<open>
  A frame has a byte, its acknowledge bit (true: not acknowledged) and nine timings. A segment
  is an address frame and data frames; a transfer is a segment and further ones after repeated
  starts. The waveform of a start, a repeated start and a stop has its own timing as well.
\<close>

record i2c_frame =
  fr_byte :: u8
  fr_nack :: bool
  fr_timing :: "(nat \<times> nat) list"

type_synonym i2c_segment = "i2c_frame \<times> i2c_frame list"

definition frame_samples :: "i2c_frame \<Rightarrow> (int \<Rightarrow> u8) list" where
  "frame_samples f = frame_wave (fr_timing f) (fr_byte f) (fr_nack f)"

fun segment_samples :: "i2c_segment \<Rightarrow> (int \<Rightarrow> u8) list" where
  "segment_samples (a, fs) = concat (map frame_samples (a # fs))"

definition start_samples :: "nat \<times> nat \<Rightarrow> (int \<Rightarrow> u8) list" where
  "start_samples t = replicate (fst t) (bus True True) @ replicate (Suc (snd t)) (bus True False)"

definition restart_samples :: "nat \<times> nat \<times> nat \<Rightarrow> (int \<Rightarrow> u8) list" where
  "restart_samples t = replicate (Suc (fst t)) (bus False True) @ replicate (Suc (fst (snd t))) (bus True True)
     @ replicate (Suc (snd (snd t))) (bus True False)"

definition stop_samples :: "nat \<times> nat \<times> nat \<Rightarrow> (int \<Rightarrow> u8) list" where
  "stop_samples t = replicate (Suc (fst t)) (bus False False) @ replicate (Suc (fst (snd t))) (bus True False)
     @ replicate (Suc (snd (snd t))) (bus True True)"

definition transfer_samples ::
    "nat \<times> nat \<Rightarrow> i2c_segment \<Rightarrow> ((nat \<times> nat \<times> nat) \<times> i2c_segment) list \<Rightarrow> nat \<times> nat \<times> nat \<Rightarrow>
     (int \<Rightarrow> u8) list" where
  "transfer_samples ts g gs tp = start_samples ts @ segment_samples g
     @ concat (map (\<lambda>(t, h). restart_samples t @ segment_samples h) gs) @ stop_samples tp"

text \<open>What the decoders on top should be told.\<close>

definition frame_msgs :: "bool \<Rightarrow> bool \<Rightarrow> bool \<Rightarrow> i2c_frame \<Rightarrow> (string \<times> c_field list) list" where
  "frame_msgs addr wr shifted f = [byte_cmd addr wr shifted (fr_byte f), ack_cmd (fr_nack f)]"

fun segment_msgs :: "bool \<Rightarrow> i2c_segment \<Rightarrow> (string \<times> c_field list) list" where
  "segment_msgs shifted (a, fs) = frame_msgs True False shifted a
     @ concat (map (frame_msgs False (\<not> bit (fr_byte a) 0) shifted) fs)"

definition transfer_msgs :: "bool \<Rightarrow> i2c_segment \<Rightarrow> ('t \<times> i2c_segment) list \<Rightarrow> (string \<times> c_field list) list" where
  "transfer_msgs shifted g gs = [(''START'', [])] @ segment_msgs shifted g
     @ concat (map (\<lambda>(_, h). (''START REPEAT'', []) # segment_msgs shifted h) gs) @ [(''STOP'', [])]"

lemma byte_cmd_addr: "byte_cmd True wr sh v = byte_cmd True wr' sh v"
  by (simp add: byte_cmd_def)

lemma last_frame_samples [simp]: "last (x # frame_samples f) = bus True (fr_nack f)"
  unfolding frame_samples_def by (rule last_frame_wave)

lemma last_frames: "\<exists>c' d'. last (bus c d # concat (map frame_samples fs)) = bus c' d'"
proof (induction fs arbitrary: c d)
  case (Cons f fs)
  have "last (bus c d # concat (map frame_samples (f # fs))) = last (bus True (fr_nack f) # concat (map frame_samples fs))"
    using last_frame_samples [of "bus c d" f] by (simp add: frame_samples_def frame_wave_def bit_wave_def last_append)
  with Cons [of True "fr_nack f"] show ?case by simp
qed auto

lemma sends_data_frames:
  assumes "i2c_view s = (STATE_FIND_DATA, 0, 0, wr, rep, sh)" and "\<forall>f \<in> set fs. length (fr_timing f) = 9"
  shows "sends k (bus c d) (concat (map frame_samples fs)) s (STATE_FIND_DATA, 0, 0, wr, rep, sh)
    (concat (map (frame_msgs False (wr \<noteq> 0) sh) fs))"
  using assms
proof (induction fs arbitrary: k c d s)
  case (Cons f fs)
  have "sends k (bus c d) (frame_samples f @ concat (map frame_samples fs)) s (STATE_FIND_DATA, 0, 0, wr, rep, sh)
      (frame_msgs False (wr \<noteq> 0) sh f @ concat (map (frame_msgs False (wr \<noteq> 0) sh) fs))"
  proof (rule sends_append)
    show "sends k (bus c d) (frame_samples f) s (STATE_FIND_DATA, 0, 0, wr, rep, sh) (frame_msgs False (wr \<noteq> 0) sh f)"
      using sends_frame [OF Cons.prems(1), of "fr_timing f" k c d "fr_byte f" "fr_nack f"] Cons.prems(2)
      by (simp add: frame_samples_def frame_msgs_def)
    fix s' assume "i2c_view s' = (STATE_FIND_DATA, 0, 0, wr, rep, sh)"
    then show "sends (k + length (frame_samples f)) (last (bus c d # frame_samples f)) (concat (map frame_samples fs)) s'
        (STATE_FIND_DATA, 0, 0, wr, rep, sh) (concat (map (frame_msgs False (wr \<noteq> 0) sh) fs))"
      unfolding last_frame_samples using Cons.prems(2) by (intro Cons.IH) auto
  qed
  then show ?case by simp
qed (simp add: sends_def)

definition segment_ok :: "i2c_segment \<Rightarrow> bool" where
  "segment_ok g \<longleftrightarrow> (\<forall>f \<in> set (fst g # snd g). length (fr_timing f) = 9)"

lemma sends_segment:
  assumes "i2c_view s = (STATE_FIND_ADDRESS, 0, 0, wr, rep, sh)" and "segment_ok g"
  shows "sends k (bus c d) (segment_samples g) s
    (STATE_FIND_DATA, 0, 0, if bit (fr_byte (fst g)) 0 then 0 else 1, rep, sh) (segment_msgs sh g)"
proof -
  obtain a fs where g: "g = (a, fs)" by fastforce
  let ?wr = "if bit (fr_byte a) 0 then 0 else 1 :: int"
  have "sends k (bus c d) (frame_samples a @ concat (map frame_samples fs)) s (STATE_FIND_DATA, 0, 0, ?wr, rep, sh)
      (frame_msgs True False sh a @ concat (map (frame_msgs False (?wr \<noteq> 0) sh) fs))"
  proof (rule sends_append)
    show "sends k (bus c d) (frame_samples a) s (STATE_FIND_DATA, 0, 0, ?wr, rep, sh) (frame_msgs True False sh a)"
      using sends_frame [OF assms(1), of "fr_timing a" k c d "fr_byte a" "fr_nack a"] assms(2)
        byte_cmd_addr [of "wr \<noteq> 0" sh "fr_byte a" False]
      by (simp add: frame_samples_def frame_msgs_def segment_ok_def g)
    fix s' assume "i2c_view s' = (STATE_FIND_DATA, 0, 0, ?wr, rep, sh)"
    then show "sends (k + length (frame_samples a)) (last (bus c d # frame_samples a)) (concat (map frame_samples fs)) s'
        (STATE_FIND_DATA, 0, 0, ?wr, rep, sh) (concat (map (frame_msgs False (?wr \<noteq> 0) sh) fs))"
      unfolding last_frame_samples using assms(2) by (intro sends_data_frames) (auto simp: segment_ok_def g)
  qed
  then show ?thesis by (cases "bit (fr_byte a) 0") (simp_all add: g)
qed


lemma hold_low: "run_edges i2c_decode k (bus c d) (replicate (Suc n) (bus False b)) s = (s, [])"
  by (simp only: bus_hold bus_scl_low)

lemma sends_start:
  assumes "ic_state s = STATE_FIND_START" and "ic_is_repeat_start s = 0"
  shows "sends k (bus True True) (start_samples t) s
    (STATE_FIND_ADDRESS, 0, 0, -1, 1, ic_address_shifted s) [(''START'', [])]"
proof -
  have "sends k (bus True True) (replicate (fst t) (bus True True) @ replicate (Suc (snd t)) (bus True False)) s
      (STATE_FIND_ADDRESS, 0, 0, -1, 1, ic_address_shifted s) ([] @ [(''START'', [])])"
  proof (rule sends_append)
    show "sends k (bus True True) (replicate (fst t) (bus True True)) s (i2c_view s) []"
      by (simp add: sends_def run_edges_still [OF bus_still])
    fix s1 assume "i2c_view s1 = i2c_view s"
    then have s1: "ic_state s1 = STATE_FIND_START" "ic_is_repeat_start s1 = 0" "ic_address_shifted s1 = ic_address_shifted s"
      using assms by (simp_all add: i2c_view_def)
    have l: "last (bus True True # replicate n (bus True True)) = bus True True" for n by (induction n) auto
    let ?k = "k + length (replicate (fst t) (bus True True))"
    obtain s' out where h: "i2c_handle_start (of_nat ?k) s1 = (s', out)" by fastforce
    have "run_edges i2c_decode ?k (bus True True) [bus True False] s1 = (s', [(?k, out)])"
      using s1(1) h by (intro bus_start) auto
    then show "sends ?k (last (bus True True # replicate (fst t) (bus True True)))
        (replicate (Suc (snd t)) (bus True False)) s1 (STATE_FIND_ADDRESS, 0, 0, -1, 1, ic_address_shifted s) [(''START'', [])]"
      unfolding l using view_handle_start [OF h] s1(2,3) by (simp add: sends_def bus_hold del: replicate_Suc)
  qed
  then show ?thesis by (simp add: start_samples_def)
qed

text \<open>The clock edge before a stop or a repeated start is taken for a data bit; that does no harm.\<close>

lemma sends_setup:
  assumes "i2c_view s = (STATE_FIND_DATA, 0, 0, wr, rep, sh)"
  shows "sends k (bus c d) (replicate (Suc i) (bus False b) @ replicate (Suc j) (bus True b)) s
    (STATE_FIND_DATA, 1, of_bool b, wr, rep, sh) []"
  using sends_bit [OF assms, of k c d "(i, j)" b]
  by (simp add: bit_wave_def shift_in_def)

lemma last_setup: "last (x # replicate (Suc i) (bus False b) @ replicate (Suc j) (bus True b)) = bus True b"
  using last_bit_wave [of x "(i, j)" b] by (simp add: bit_wave_def)

lemma sends_restart:
  assumes "i2c_view s = (STATE_FIND_DATA, 0, 0, wr, 1, sh)"
  shows "sends k (bus c d) (restart_samples t) s (STATE_FIND_ADDRESS, 0, 0, -1, 1, sh) [(''START REPEAT'', [])]"
proof -
  let ?up = "replicate (Suc (fst t)) (bus False True) @ replicate (Suc (fst (snd t))) (bus True True)"
  have "sends k (bus c d) (?up @ replicate (Suc (snd (snd t))) (bus True False)) s
      (STATE_FIND_ADDRESS, 0, 0, -1, 1, sh) ([] @ [(''START REPEAT'', [])])"
  proof (rule sends_append [OF sends_setup [OF assms]])
    fix s1 assume s1: "i2c_view s1 = (STATE_FIND_DATA, 1, of_bool True, wr, 1, sh)"
    let ?k = "k + length ?up"
    obtain s' out where h: "i2c_handle_start (of_nat ?k) s1 = (s', out)" by fastforce
    have "run_edges i2c_decode ?k (bus True True) [bus True False] s1 = (s', [(?k, out)])"
      using view_sel(1) [OF s1] h by (intro bus_start) auto
    then show "sends ?k (last (bus c d # ?up)) (replicate (Suc (snd (snd t))) (bus True False)) s1
        (STATE_FIND_ADDRESS, 0, 0, -1, 1, sh) [(''START REPEAT'', [])]"
      unfolding last_setup using view_handle_start [OF h] view_sel [OF s1]
      by (simp add: sends_def bus_hold del: replicate_Suc)
  qed
  then show ?thesis by (simp add: restart_samples_def)
qed

lemma sends_stop:
  assumes "i2c_view s = (STATE_FIND_DATA, 0, 0, wr, rep, sh)"
  shows "sends k (bus c d) (stop_samples t) s (STATE_FIND_START, 1, 0, -1, 0, sh) [(''STOP'', [])]"
proof -
  let ?up = "replicate (Suc (fst t)) (bus False False) @ replicate (Suc (fst (snd t))) (bus True False)"
  have "sends k (bus c d) (?up @ replicate (Suc (snd (snd t))) (bus True True)) s
      (STATE_FIND_START, 1, 0, -1, 0, sh) ([] @ [(''STOP'', [])])"
  proof (rule sends_append [OF sends_setup [OF assms]])
    fix s1 assume s1: "i2c_view s1 = (STATE_FIND_DATA, 1, of_bool False, wr, rep, sh)"
    let ?k = "k + length ?up"
    obtain s' out where h: "i2c_handle_stop (of_nat ?k) s1 = (s', out)" by fastforce
    have "run_edges i2c_decode ?k (bus True False) [bus True True] s1 = (s', [(?k, out)])"
      by (rule bus_stop [OF view_sel(1) [OF s1] h])
    then show "sends ?k (last (bus c d # ?up)) (replicate (Suc (snd (snd t))) (bus True True)) s1
        (STATE_FIND_START, 1, 0, -1, 0, sh) [(''STOP'', [])]"
      unfolding last_setup using view_handle_stop [OF h] view_sel [OF s1]
      by (simp add: sends_def bus_hold del: replicate_Suc)
  qed
  then show ?thesis by (simp add: stop_samples_def)
qed

lemma last_bus_append:
  assumes "\<exists>c' d'. last (bus c d # xs) = bus c' d'" and "\<And>c d. \<exists>c' d'. last (bus c d # ys) = bus c' d'"
  shows "\<exists>c' d'. last (bus c d # xs @ ys) = bus c' d'"
proof -
  obtain c' d' where l: "last (bus c d # xs) = bus c' d'" using assms(1) by blast
  have "last (bus c d # xs @ ys) = last (last (bus c d # xs) # ys)" by (cases "ys = []") auto
  with l assms(2) [of c' d'] show ?thesis by simp
qed

lemma last_segment: "\<exists>c' d'. last (bus c d # segment_samples g) = bus c' d'"
proof -
  obtain a fs where "g = (a, fs)" by fastforce
  with last_frames [of c d "a # fs"] show ?thesis by simp
qed

lemma last_replicates: "last (x # replicate (Suc n) y) = y" "last (x # xs @ replicate (Suc n) y) = y"
  by (induction n) (auto simp: last_append)

lemma last_restart: "last (x # restart_samples t) = bus True False"
proof -
  have "x # restart_samples t = x # (replicate (Suc (fst t)) (bus False True)
      @ replicate (Suc (fst (snd t))) (bus True True)) @ replicate (Suc (snd (snd t))) (bus True False)"
    by (simp add: restart_samples_def)
  then show ?thesis by (simp only: last_replicates)
qed

lemma last_stop: "last (x # xs @ stop_samples t) = bus True True"
proof -
  have "x # xs @ stop_samples t = x # (xs @ replicate (Suc (fst t)) (bus False False)
      @ replicate (Suc (fst (snd t))) (bus True False)) @ replicate (Suc (snd (snd t))) (bus True True)"
    by (simp add: stop_samples_def)
  then show ?thesis by (simp only: last_replicates)
qed

definition rw_of :: "i2c_segment \<Rightarrow> int" where
  "rw_of g = (if bit (fr_byte (fst g)) 0 then 0 else 1)"

abbreviation more_samples :: "((nat \<times> nat \<times> nat) \<times> i2c_segment) list \<Rightarrow> (int \<Rightarrow> u8) list" where
  "more_samples gs \<equiv> concat (map (\<lambda>(t, h). restart_samples t @ segment_samples h) gs)"

abbreviation more_msgs :: "bool \<Rightarrow> ('t \<times> i2c_segment) list \<Rightarrow> (string \<times> c_field list) list" where
  "more_msgs sh gs \<equiv> concat (map (\<lambda>(_, h). (''START REPEAT'', []) # segment_msgs sh h) gs)"

lemma sends_more_segments:
  assumes "i2c_view s = (STATE_FIND_DATA, 0, 0, wr, 1, sh)" and "\<forall>h \<in> set (map snd gs). segment_ok h"
  shows "sends k (bus c d) (more_samples gs) s
    (STATE_FIND_DATA, 0, 0, foldl (\<lambda>_ h. rw_of h) wr (map snd gs), 1, sh) (more_msgs sh gs)"
  using assms
proof (induction gs arbitrary: k c d s wr)
  case Nil
  then show ?case by (simp add: sends_def)
next
  case (Cons p gs)
  let ?t = "fst p" and ?h = "snd p"
  have ok: "segment_ok ?h" "\<forall>h \<in> set (map snd gs). segment_ok h" using Cons.prems(2) by auto
  let ?fin = "(STATE_FIND_DATA, 0, 0, foldl (\<lambda>_ h. rw_of h) (rw_of ?h) (map snd gs), 1, sh)"
  have "sends k (bus c d) (restart_samples ?t @ segment_samples ?h @ more_samples gs) s ?fin
      ([(''START REPEAT'', [])] @ segment_msgs sh ?h @ more_msgs sh gs)"
  proof (rule sends_append [OF sends_restart [OF Cons.prems(1)]])
    fix s1 assume s1: "i2c_view s1 = (STATE_FIND_ADDRESS, 0, 0, -1, 1, sh)"
    obtain c' d' where l: "last (bus True False # segment_samples ?h) = bus c' d'" using last_segment by blast
    show "sends (k + length (restart_samples ?t)) (last (bus c d # restart_samples ?t))
        (segment_samples ?h @ more_samples gs) s1 ?fin (segment_msgs sh ?h @ more_msgs sh gs)"
      unfolding last_restart
    proof (rule sends_append [OF sends_segment [OF s1 ok(1)]])
      fix s2 assume "i2c_view s2 = (STATE_FIND_DATA, 0, 0, if bit (fr_byte (fst ?h)) 0 then 0 else 1, 1, sh)"
      then have s2: "i2c_view s2 = (STATE_FIND_DATA, 0, 0, rw_of ?h, 1, sh)" by (simp add: rw_of_def)
      show "sends (k + length (restart_samples ?t) + length (segment_samples ?h))
          (last (bus True False # segment_samples ?h)) (more_samples gs) s2 ?fin (more_msgs sh gs)"
        unfolding l by (rule Cons.IH [OF s2 ok(2)])
    qed
  qed
  then show ?case by (cases p) simp
qed

lemma last_more: "\<exists>c' d'. last (bus c d # more_samples gs) = bus c' d'"
proof (induction gs arbitrary: c d)
  case (Cons p gs)
  have "\<exists>c' d'. last (bus c d # (restart_samples (fst p) @ segment_samples (snd p)) @ more_samples gs) = bus c' d'"
  proof (rule last_bus_append)
    have "\<exists>c' d'. last (bus c d # restart_samples (fst p)) = bus c' d'" using last_restart by blast
    then show "\<exists>c' d'. last (bus c d # restart_samples (fst p) @ segment_samples (snd p)) = bus c' d'"
      by (rule last_bus_append) (rule last_segment)
  qed (rule Cons)
  then show ?case by (cases p) simp
qed auto

lemma sends_transfer:
  assumes "ic_state s = STATE_FIND_START" and "ic_is_repeat_start s = 0" and sh: "ic_address_shifted s = sh"
    and "segment_ok g" and "\<forall>h \<in> set (map snd gs). segment_ok h"
  shows "sends k (bus True True) (transfer_samples ts g gs tp) s (STATE_FIND_START, 1, 0, -1, 0, sh)
    (transfer_msgs sh g gs)"
  unfolding transfer_samples_def transfer_msgs_def
proof (rule sends_append)
  show "sends k (bus True True) (start_samples ts) s (STATE_FIND_ADDRESS, 0, 0, -1, 1, sh) [(''START'', [])]"
    using sends_start [OF assms(1,2)] sh by simp
  fix s1 assume s1: "i2c_view s1 = (STATE_FIND_ADDRESS, 0, 0, -1, 1, sh)"
  have l0: "last (bus True True # start_samples ts) = bus True False"
    unfolding start_samples_def by (rule last_replicates)
  obtain c1 d1 where l1: "last (bus True False # segment_samples g) = bus c1 d1" using last_segment by blast
  obtain c2 d2 where l2: "last (bus c1 d1 # more_samples gs) = bus c2 d2" using last_more by blast
  show "sends (k + length (start_samples ts)) (last (bus True True # start_samples ts))
      (segment_samples g @ more_samples gs @ stop_samples tp) s1 (STATE_FIND_START, 1, 0, -1, 0, sh)
      (segment_msgs sh g @ more_msgs sh gs @ [(''STOP'', [])])"
    unfolding l0
  proof (rule sends_append [OF sends_segment [OF s1 assms(4)]])
    fix s2 assume s2: "i2c_view s2 = (STATE_FIND_DATA, 0, 0, if bit (fr_byte (fst g)) 0 then 0 else 1, 1, sh)"
    show "sends (k + length (start_samples ts) + length (segment_samples g))
        (last (bus True False # segment_samples g)) (more_samples gs @ stop_samples tp) s2
        (STATE_FIND_START, 1, 0, -1, 0, sh) (more_msgs sh gs @ [(''STOP'', [])])"
      unfolding l1
    proof (rule sends_append [OF sends_more_segments [OF s2 assms(5)]])
      fix s3
      assume "i2c_view s3 = (STATE_FIND_DATA, 0, 0, foldl (\<lambda>_ h. rw_of h)
        (if bit (fr_byte (fst g)) 0 then 0 else 1) (map snd gs), 1, sh)"
      then show "sends (k + length (start_samples ts) + length (segment_samples g) + length (more_samples gs))
          (last (bus c1 d1 # more_samples gs)) (stop_samples tp) s3 (STATE_FIND_START, 1, 0, -1, 0, sh) [(''STOP'', [])]"
        unfolding l2 by (rule sends_stop)
    qed
  qed
qed


section \<open>Traffic on the bus\<close>

record i2c_transfer =
  tr_start :: "nat \<times> nat"
  tr_first :: i2c_segment
  tr_more :: "((nat \<times> nat \<times> nat) \<times> i2c_segment) list"
  tr_stop :: "nat \<times> nat \<times> nat"

definition tr_samples :: "i2c_transfer \<Rightarrow> (int \<Rightarrow> u8) list" where
  "tr_samples x = transfer_samples (tr_start x) (tr_first x) (tr_more x) (tr_stop x)"

definition tr_msgs :: "bool \<Rightarrow> i2c_transfer \<Rightarrow> (string \<times> c_field list) list" where
  "tr_msgs sh x = transfer_msgs sh (tr_first x) (tr_more x)"

definition tr_ok :: "i2c_transfer \<Rightarrow> bool" where
  "tr_ok x \<longleftrightarrow> (\<forall>g \<in> set (tr_first x # map snd (tr_more x)). segment_ok g)"

lemma sends_traffic:
  assumes "i2c_view s = (STATE_FIND_START, n, v, wr, 0, sh)" and "\<forall>x \<in> set xs. tr_ok x"
  shows "\<exists>v'. sends k (bus True True) (concat (map tr_samples xs)) s v' (concat (map (tr_msgs sh) xs))"
  using assms
proof (induction xs arbitrary: k s n v wr)
  case Nil
  then show ?case by (simp add: sends_def)
next
  case (Cons x xs)
  let ?v1 = "(STATE_FIND_START, 1, 0, -1, 0, sh) :: i2c_state \<times> int \<times> u8 \<times> int \<times> int \<times> bool"
  note f = view_sel [OF Cons.prems(1)]
  have x: "sends k (bus True True) (tr_samples x) s ?v1 (tr_msgs sh x)"
    unfolding tr_samples_def tr_msgs_def
    by (rule sends_transfer) (use f Cons.prems(2) in \<open>auto simp: tr_ok_def\<close>)
  have l: "last (bus True True # tr_samples x) = bus True True"
    using last_stop [of "bus True True" "start_samples (tr_start x) @ segment_samples (tr_first x) @ more_samples (tr_more x)"]
    by (simp only: tr_samples_def transfer_samples_def append_assoc)
  obtain s1 tr1 where r1: "run_edges i2c_decode k (bus True True) (tr_samples x) s = (s1, tr1)" by fastforce
  have s1: "i2c_view s1 = ?v1" "cmds (concat (map snd tr1)) = tr_msgs sh x" using x by (simp_all add: sends_def r1)
  have "\<forall>x \<in> set xs. tr_ok x" using Cons.prems(2) by simp
  then obtain v' where "sends (k + length (tr_samples x)) (bus True True) (concat (map tr_samples xs)) s1 v'
      (concat (map (tr_msgs sh) xs))" using Cons.IH [OF s1(1)] by blast
  then have "sends k (bus True True) (tr_samples x @ concat (map tr_samples xs)) s v'
      (tr_msgs sh x @ concat (map (tr_msgs sh) xs))"
    unfolding sends_def run_edges_append r1 l Let_def prod.case using s1(2) by (auto split: prod.splits)
  then show ?case unfolding list.map concat.simps by blast
qed

text \<open>
  C5: The I2C decoder tells the decoders on top exactly what happened on the bus. For any
  sequence of transfers, each with any number of segments joined by repeated starts, any
  bytes and acknowledge bits, and any timing in which the data line is stable while the clock
  is high, its messages are: START, the address with its direction (shifted if so
  configured), ACK or NACK, the data bytes with theirs, START REPEAT before every further
  segment, STOP; in order, and nothing else besides the raw bits.
\<close>

theorem i2c_transfers_decoded:
  assumes "ic_state s = STATE_FIND_START" and "ic_is_repeat_start s = 0" and "\<forall>x \<in> set xs. tr_ok x"
  shows "cmds (concat (map snd (snd (run_wave i2c_decode m k e (bus True True) (concat (map tr_samples xs)) s))))
    = concat (map (tr_msgs (ic_address_shifted s)) xs)"
proof -
  have "i2c_view s = (STATE_FIND_START, ic_bitcount s, ic_databyte s, ic_wr s, 0, ic_address_shifted s)"
    using assms by (simp add: i2c_view_def)
  then obtain v' where "sends k (bus True True) (concat (map tr_samples xs)) s v'
      (concat (map (tr_msgs (ic_address_shifted s)) xs))" using sends_traffic [OF _ assms(3)] by blast
  then show ?thesis
    by (cases "run_edges i2c_decode k (bus True True) (concat (map tr_samples xs)) s")
      (simp add: sends_def run_wave_edges [OF i2c_level_program])
qed

text \<open>A write of 0x2A to the slave 0x50, which does not acknowledge it.\<close>

definition example_transfer :: i2c_transfer where
  "example_transfer = (let fast = replicate 9 (0, 0) in \<lparr>tr_start = (1, 0),
     tr_first = (\<lparr>fr_byte = 0xA0, fr_nack = False, fr_timing = fast\<rparr>,
                 [\<lparr>fr_byte = 0x2A, fr_nack = True, fr_timing = fast\<rparr>]),
     tr_more = [], tr_stop = (0, 0, 0)\<rparr>)"

definition example_i2c :: i2c_s where
  "example_i2c = i2c_reset_impl\<lparr>ic_wr := -1, ic_address_shifted := True, ic_packets_format := 1\<rparr>"

lemma i2c_transfers_decoded_witness:
  "cmds (concat (map snd (snd (run_wave i2c_decode False 0 0 (bus True True) (tr_samples example_transfer) example_i2c))))
    = [(''START'', []), (''ADDRESS WRITE'', [C_U8 0x50]), (''ACK'', []), (''DATA WRITE'', [C_U8 0x2A]),
       (''NACK'', []), (''STOP'', [])]"
proof -
  have "tr_ok example_transfer" by (simp add: tr_ok_def example_transfer_def segment_ok_def Let_def)
  moreover have "drop_bit 1 (0xA0 :: u8) = 0x50" "\<not> bit (0xA0 :: u8) 0" by code_simp+
  ultimately show ?thesis
    using i2c_transfers_decoded [of example_i2c "[example_transfer]" False 0 0]
    by (simp add: example_i2c_def i2c_reset_impl_def tr_msgs_def transfer_msgs_def example_transfer_def Let_def
        frame_msgs_def byte_cmd_def ack_cmd_def)
qed

end
