(* ===== verification/Upper.thy ===== *)
theory Upper
  imports DecRun Format
begin

text \<open>
  Decoders stacked on other decoders: \<^verbatim>\<open>decode_upper()\<close> gets the messages of the decoder below
  one by one, each with its samples, its command and its arguments. Here are the runs of such
  decoders over a list of messages, what passes from one level to the next, and the contract
  between a decoder's calls and its description.
\<close>

section \<open>Messages\<close>

record upper_msg =
  um_ss :: u64
  um_es :: u64
  um_cmd :: string
  um_fields :: "c_field list"

text \<open>\<^verbatim>\<open>c_proto\<close> passes at most 64 arguments, see \<open>c_proto_reaches_uppers\<close>.\<close>

fun message_on :: "int \<Rightarrow> out_call \<Rightarrow> upper_msg option" where
  "message_on n (O_proto ss es m cmd fs) =
     (if m = n then Some \<lparr>um_ss = ss, um_es = es, um_cmd = cmd, um_fields = take 64 fs\<rparr> else None)"
| "message_on n _ = None"

definition messages_on :: "int \<Rightarrow> out_call list \<Rightarrow> upper_msg list" where
  "messages_on n out = List.map_filter (message_on n) out"

lemma messages_on_simps [simp]:
  "messages_on n [] = []"
  "messages_on n (c # cs) = (case message_on n c of None \<Rightarrow> messages_on n cs | Some m \<Rightarrow> m # messages_on n cs)"
  "messages_on n (cs @ ds) = messages_on n cs @ messages_on n ds"
  by (simp_all add: messages_on_def List.map_filter_def split: option.split)

lemma messages_on_none: "(\<And>c. c \<in> set cs \<Longrightarrow> message_on n c = None) \<Longrightarrow> messages_on n cs = []"
  by (induction cs) auto

text \<open>
  The number at the start of the union of a \<open>c_field\<close>, read at the width of the target whatever
  its type is: on a little-endian machine the low bits of an integer. What is read of a double or a
  pointer is not determined by the model.
\<close>

fun field_num :: "c_field \<Rightarrow> 'a::len word option" where
  "field_num (C_U8 x) = (if LENGTH('a) \<le> 8 then Some (ucast x) else None)"
| "field_num (C_U16 x) = (if LENGTH('a) \<le> 16 then Some (ucast x) else None)"
| "field_num (C_U32 x) = (if LENGTH('a) \<le> 32 then Some (ucast x) else None)"
| "field_num (C_U64 x) = (if LENGTH('a) \<le> 64 then Some (ucast x) else None)"
| "field_num (C_I8 x) = (if LENGTH('a) \<le> 8 then Some (ucast x) else None)"
| "field_num (C_I16 x) = (if LENGTH('a) \<le> 16 then Some (ucast x) else None)"
| "field_num (C_I32 x) = (if LENGTH('a) \<le> 32 then Some (ucast x) else None)"
| "field_num (C_I64 x) = (if LENGTH('a) \<le> 64 then Some (ucast x) else None)"
| "field_num (C_F64 _) = None"
| "field_num (C_STR _) = None"
| "field_num (C_BYTES _) = None"
| "field_num C_FIELD_SENTINEL = None"

section \<open>Runs\<close>

text \<open>
  A step has no result where C leaves it open: after a write behind the end of an array, or a read
  of the wrong member of a union.
\<close>

type_synonym 's upper_step = "upper_msg \<Rightarrow> 's \<Rightarrow> ('s \<times> out_call list) option"

fun run_upper :: "'s upper_step \<Rightarrow> upper_msg list \<Rightarrow> 's \<Rightarrow> ('s \<times> out_call list) option" where
  "run_upper f [] s = Some (s, [])"
| "run_upper f (m # ms) s = (case f m s of None \<Rightarrow> None
     | Some (s1, out) \<Rightarrow> (case run_upper f ms s1 of None \<Rightarrow> None
         | Some (s2, out2) \<Rightarrow> Some (s2, out @ out2)))"

lemma run_upper_append:
  "run_upper f (ms @ ns) s = (case run_upper f ms s of None \<Rightarrow> None
     | Some (s1, out) \<Rightarrow> (case run_upper f ns s1 of None \<Rightarrow> None
         | Some (s2, out2) \<Rightarrow> Some (s2, out @ out2)))"
  by (induction ms arbitrary: s) (auto split: option.split)

lemma run_upper_appendI:
  assumes "run_upper f ms s = Some (s1, out)" and "run_upper f ns s1 = Some (s2, out2)"
  shows "run_upper f (ms @ ns) s = Some (s2, out @ out2)"
  using assms by (simp add: run_upper_append)

text \<open>One step of a decoder whose step always has a result.\<close>

definition total_step :: "(upper_msg \<Rightarrow> 's \<Rightarrow> 's \<times> out_call list) \<Rightarrow> 's upper_step" where
  "total_step f m s = Some (f m s)"

text \<open>
  Two levels: the upper decoder sees the messages of the lower one on output \<open>n\<close>. It is called
  while the lower step runs, but the two share no state, so its calls may be listed apart.
\<close>

definition stack_on :: "int \<Rightarrow> 's upper_step \<Rightarrow> 't upper_step \<Rightarrow> ('s \<times> 't) upper_step" where
  "stack_on n f g m st = (case f m (fst st) of None \<Rightarrow> None
     | Some (s1, out) \<Rightarrow> (case run_upper g (messages_on n out) (snd st) of None \<Rightarrow> None
         | Some (t1, out2) \<Rightarrow> Some ((s1, t1), out2)))"

lemma run_stack_on:
  "run_upper f ms s = Some (s1, out) \<Longrightarrow> run_upper g (messages_on n out) t = Some (t1, out2) \<Longrightarrow>
    run_upper (stack_on n f g) ms (s, t) = Some ((s1, t1), out2)"
proof (induction ms arbitrary: s t out out2)
  case Nil
  then show ?case by simp
next
  case (Cons m ms)
  obtain s' o1 o2 where f: "f m s = Some (s', o1)" and r: "run_upper f ms s' = Some (s1, o2)"
    and o: "out = o1 @ o2"
    using Cons.prems(1) by (auto split: option.splits)
  obtain t' p1 p2 where g1: "run_upper g (messages_on n o1) t = Some (t', p1)"
    and g2: "run_upper g (messages_on n o2) t' = Some (t1, p2)" and p: "out2 = p1 @ p2"
    using Cons.prems(2) by (auto simp: o run_upper_append split: option.splits)
  show ?case using f g1 Cons.IH [OF r g2] by (simp add: stack_on_def p)
qed

section \<open>Calls and descriptions\<close>

text \<open>
  A call fits the description of a decoder whose annotation, message and binary outputs are
  \<open>a\<close>, \<open>p\<close> and \<open>b\<close>: it goes to an output of its type, and its class is below the number of classes.
\<close>

fun call_ok :: "int \<Rightarrow> int \<Rightarrow> int \<Rightarrow> int \<Rightarrow> int \<Rightarrow> out_call \<Rightarrow> bool" where
  "call_ok nann nbin a p b (O_put ss es n cls txt) = (n = a \<and> 0 \<le> cls \<and> cls < nann \<and> txt \<noteq> [])"
| "call_ok nann nbin a p b (O_put_v ss es n cls v txt) = (n = a \<and> 0 \<le> cls \<and> cls < nann \<and> txt \<noteq> [])"
| "call_ok nann nbin a p b (O_bin ss es n cls bs) = (n = b \<and> 0 \<le> cls \<and> cls < nbin)"
| "call_ok nann nbin a p b (O_proto ss es n cmd fs) = (n = p \<and> length fs \<le> 64)"
| "call_ok nann nbin a p b (O_meta_int ss es n v) = False"

text \<open>What one step of a stacked decoder keeps, a run keeps.\<close>

locale upper_contract =
  fixes step :: "'s upper_step" and inv :: "'s \<Rightarrow> bool" and ok :: "'s \<Rightarrow> out_call \<Rightarrow> bool"
  assumes step_inv: "inv s \<Longrightarrow> step m s = Some (s', out) \<Longrightarrow> inv s'"
    and step_ok: "inv s \<Longrightarrow> step m s = Some (s', out) \<Longrightarrow> c \<in> set out \<Longrightarrow> ok s c"
    and ok_kept: "inv s \<Longrightarrow> step m s = Some (s', out) \<Longrightarrow> ok s' = ok s"
begin

lemma run_inv: "inv s \<Longrightarrow> run_upper step ms s = Some (s', out) \<Longrightarrow> inv s'"
proof (induction ms arbitrary: s out)
  case (Cons m ms)
  then show ?case by (auto split: option.splits) (metis step_inv)
qed simp

lemma run_ok: "inv s \<Longrightarrow> run_upper step ms s = Some (s', out) \<Longrightarrow> c \<in> set out \<Longrightarrow> ok s c"
proof (induction ms arbitrary: s out)
  case (Cons m ms)
  obtain s1 o1 o2 where f: "step m s = Some (s1, o1)" and r: "run_upper step ms s1 = Some (s', o2)"
    and o: "out = o1 @ o2"
    using Cons.prems(2) by (auto split: option.splits)
  show ?case
    using Cons.prems(1,3) Cons.IH [OF step_inv [OF Cons.prems(1) f] r] step_ok [OF Cons.prems(1) f] ok_kept [OF Cons.prems(1) f]
    by (auto simp: o)
qed simp

end

text \<open>
  A description is well formed: arrays are as long as their length fields say, the classes of the
  annotation rows exist, binary classes are numbered, and the identifiers do not clash.
\<close>

definition len_ok :: "int \<Rightarrow> 'a list option \<Rightarrow> bool" where
  "len_ok n xs \<longleftrightarrow> n = (case xs of None \<Rightarrow> 0 | Some l \<Rightarrow> int (length l))"

definition row_ok :: "int \<Rightarrow> srd_c_ann_row \<Rightarrow> bool" where
  "row_ok nann r \<longleftrightarrow> car_id r \<noteq> None \<and> (case car_ann_classes r of None \<Rightarrow> False
     | Some cs \<Rightarrow> int (length cs) = car_num_ann_classes r \<and> list_all (\<lambda>c. 0 \<le> c \<and> c < nann) cs)"

definition c_def_ok :: "srd_c_decoder \<Rightarrow> bool" where
  "c_def_ok d \<longleftrightarrow> len_ok (cd_num_channels d) (cd_channels d)
     \<and> len_ok (cd_num_optional_channels d) (cd_optional_channels d)
     \<and> len_ok (cd_num_options d) (cd_options d) \<and> len_ok (cd_num_annotations d) (cd_ann_labels d)
     \<and> len_ok (cd_num_annotation_rows d) (cd_annotation_rows d)
     \<and> len_ok (cd_num_inputs d) (cd_inputs d) \<and> len_ok (cd_num_outputs d) (cd_outputs d)
     \<and> len_ok (cd_num_binary d) (cd_binary d) \<and> len_ok (cd_num_tags d) (cd_tags d)
     \<and> list_all (row_ok (cd_num_annotations d)) (counted (cd_num_annotation_rows d) (cd_annotation_rows d))
     \<and> map bin_class (counted (cd_num_binary d) (cd_binary d)) = map int [0..<nat (cd_num_binary d)]
     \<and> (case cd_id d of None \<Rightarrow> False | Some k \<Rightarrow> duplicate_check (decoder_of_c d k) = None)"

end
