(* ===== verification/Fourb5b.thy ===== *)
theory Fourb5b
  imports Upper
begin

text \<open>
  c_decoders/4b5b_c.c: the 4B5B line code. The decoder collects five bits of the NRZI decoder
  into a symbol; after the start symbols J and K two data symbols make a byte.
\<close>

section \<open>Code tables\<close>

definition fourb5b_ANN_DATA_SYMBOL :: int where "fourb5b_ANN_DATA_SYMBOL = 0"
definition fourb5b_ANN_CTRL_SYMBOL :: int where "fourb5b_ANN_CTRL_SYMBOL = 1"
definition fourb5b_ANN_BIT :: int where "fourb5b_ANN_BIT = 2"
definition fourb5b_ANN_BYTE :: int where "fourb5b_ANN_BYTE = 3"

definition data_sym :: "int list" where
  "data_sym = [
     -1, -1, -1, -1,
     -1, -1, -1, -1,
     -1, 0x1, 0x4, 0x5,
     -1, -1, 0x6, 0x7,
     -1, -1, 0x8, 0x9,
     0x2, 0x3, 0xA, 0xB,
     -1, -1, 0xC, 0xD,
     0xE, 0xF, 0x0, -1]"

definition ctrl_long :: "string option list" where
  "ctrl_long = [
     Some ''QUIET'', None, None, None,
     Some ''HALT'', None, Some ''L'', Some ''RESET'',
     None, None, None, None,
     None, Some ''TERMINATE'', None, None,
     None, Some ''K'', None, None,
     None, None, None, None,
     Some ''J'', Some ''SET'', None, None,
     None, None, None, Some ''IDLE'']"

definition ctrl_short :: "string option list" where
  "ctrl_short = [
     Some ''Q'', None, None, None,
     Some ''H'', None, Some ''L'', Some ''R'',
     None, None, None, None,
     None, Some ''T'', None, None,
     None, Some ''K'', None, None,
     None, None, None, None,
     Some ''J'', Some ''S'', None, None,
     None, None, None, Some ''I'']"

section \<open>State\<close>

record fourb5b_s =
  fb_samplerate :: u64
  fb_jk_seen_j :: bool
  fb_jk_seen_k :: bool
  fb_sym_start :: u64
  fb_data_start :: u64
  fb_symbol :: int
  fb_bit_count :: int
  fb_last_nibble :: int
  fb_has_last_nibble :: bool
  fb_bit_offset :: int
  fb_out_ann :: int
  fb_out_python :: int

definition fourb5b_reset :: fourb5b_s where
  "fourb5b_reset = \<lparr>fb_samplerate = 0, fb_jk_seen_j = False, fb_jk_seen_k = False, fb_sym_start = 0,
     fb_data_start = 0, fb_symbol = 0, fb_bit_count = 0, fb_last_nibble = 0, fb_has_last_nibble = False,
     fb_bit_offset = 0, fb_out_ann = 0, fb_out_python = 0\<rparr>"

definition fourb5b_metadata :: "int \<Rightarrow> u64 \<Rightarrow> fourb5b_s \<Rightarrow> fourb5b_s" where
  "fourb5b_metadata key val s = (if key = SRD_CONF_SAMPLERATE then s\<lparr>fb_samplerate := val\<rparr> else s)"

definition fourb5b_start :: "inst_ptr \<Rightarrow> fourb5b_s srd_world \<Rightarrow> fourb5b_s srd_world" where
  "fourb5b_start p w =
     (let (ann, w1) = c_decoder_register_output (Some p) SRD_OUTPUT_ANN (Some ''4b5b'') w;
          (py, w2) = c_decoder_register_output (Some p) SRD_OUTPUT_PROTO (Some ''4b5b'') w1
      in upd_inst p (\<lambda>d. d\<lparr>user_data := map_option (\<lambda>s. s\<lparr>fb_out_ann := ann, fb_out_python := py,
           fb_samplerate := c_decoder_get_samplerate (Some d), fb_last_nibble := -1,
           fb_bit_offset := (case c_decoder_get_option_string (Some d) (Some ''bit_offset'') (Some ''0'') of
              Some t \<Rightarrow> atoi t | None \<Rightarrow> 0)\<rparr>) (user_data d)\<rparr>) w2)"

section \<open>Symbols\<close>

text \<open>The bits of a number below \<open>2 ^ n\<close> as text, the highest one first.\<close>

definition bits_text :: "nat \<Rightarrow> int \<Rightarrow> string" where
  "bits_text n v = map (\<lambda>i. if bit v i then CHR ''1'' else CHR ''0'') (rev [0..<n])"

definition fourb5b_ctrl :: "u64 \<Rightarrow> string \<Rightarrow> fourb5b_s \<Rightarrow> fourb5b_s \<times> out_call list" where
  "fourb5b_ctrl end_sample name s =
     (let short = the (ctrl_short ! nat (fb_symbol s))
      in (s\<lparr>fb_jk_seen_j := (fb_symbol s = 24 \<or> fb_jk_seen_j s), fb_jk_seen_k := (fb_symbol s = 17 \<or> fb_jk_seen_k s)\<rparr>,
          [O_put (fb_sym_start s) end_sample (fb_out_ann s) fourb5b_ANN_CTRL_SYMBOL [name, short],
           O_proto (fb_sym_start s) end_sample (fb_out_python s) short [C_U8 (of_int (fb_symbol s)), C_U8 1]]))"

definition fourb5b_data :: "u64 \<Rightarrow> int \<Rightarrow> fourb5b_s \<Rightarrow> fourb5b_s \<times> out_call list" where
  "fourb5b_data end_sample nibble s =
     (let anns = [O_put (fb_sym_start s) end_sample (fb_out_ann s) fourb5b_ANN_DATA_SYMBOL [bits_text 5 (fb_symbol s)],
                  O_put (fb_sym_start s) end_sample (fb_out_ann s) fourb5b_ANN_BIT [bits_text 4 nibble]]
      in if fb_has_last_nibble s
         then let data_byte = push_bit 4 nibble OR fb_last_nibble s
              in (s\<lparr>fb_data_start := end_sample, fb_has_last_nibble := False\<rparr>,
                  anns @ [O_put (fb_data_start s) end_sample (fb_out_ann s) fourb5b_ANN_BYTE
                            [snprintf 8 (''0x'' @ fmt_num 16 2 (nat data_byte))],
                          O_proto (fb_data_start s) end_sample (fb_out_python s) ''DATA''
                            [C_U8 (of_int data_byte), C_U8 0]])
         else (s\<lparr>fb_last_nibble := nibble, fb_has_last_nibble := True\<rparr>, anns))"

text \<open>Five bits are in: a control symbol, a data symbol after J and K, or nothing.\<close>

definition fourb5b_symbol :: "u64 \<Rightarrow> fourb5b_s \<Rightarrow> fourb5b_s \<times> out_call list" where
  "fourb5b_symbol end_sample s =
     (let i = nat (fb_symbol s);
          (s1, out) = (case ctrl_long ! i of
              Some name \<Rightarrow> fourb5b_ctrl end_sample name s
            | None \<Rightarrow> if 0 \<le> data_sym ! i \<and> fb_jk_seen_j s \<and> fb_jk_seen_k s
                then fourb5b_data end_sample (data_sym ! i) s else (s, []))
      in (s1\<lparr>fb_sym_start := end_sample, fb_symbol := 0, fb_bit_count := 0\<rparr>, out))"

definition fourb5b_bit :: "u64 \<Rightarrow> u64 \<Rightarrow> int \<Rightarrow> fourb5b_s \<Rightarrow> fourb5b_s \<times> out_call list" where
  "fourb5b_bit start_sample end_sample bit_val s =
     (if 0 < fb_bit_offset s then (s\<lparr>fb_bit_offset := fb_bit_offset s - 1\<rparr>, [])
      else let s1 = (if fb_bit_count s = 0
             then let s1 = s\<lparr>fb_sym_start := start_sample\<rparr>
                  in if fb_has_last_nibble s then s1 else s1\<lparr>fb_data_start := start_sample\<rparr>
             else s);
           s2 = s1\<lparr>fb_symbol := push_bit 1 (fb_symbol s1) OR bit_val, fb_bit_count := fb_bit_count s1 + 1\<rparr>
      in if fb_bit_count s2 = 5 then fourb5b_symbol end_sample s2 else (s2, []))"

definition fourb5b_recv_proto :: "fourb5b_s upper_step" where
  "fourb5b_recv_proto m s =
     (if take 3 (um_cmd m) \<noteq> ''BIT'' then Some (s, [])
      else case (case um_fields m of [] \<Rightarrow> Some 0 | f # _ \<Rightarrow> map_option (\<lambda>b. uint ((b :: u8) AND 1)) (field_num f)) of
          None \<Rightarrow> None
        | Some bit_val \<Rightarrow> Some (fourb5b_bit (um_ss m) (um_es m) bit_val s))"

section \<open>The state stays in range\<close>

definition fb_inv :: "fourb5b_s \<Rightarrow> bool" where
  "fb_inv s \<longleftrightarrow> 0 \<le> fb_bit_count s \<and> fb_bit_count s < 5 \<and> 0 \<le> fb_symbol s
     \<and> fb_symbol s < 2 ^ nat (fb_bit_count s)
     \<and> (fb_has_last_nibble s \<longrightarrow> 0 \<le> fb_last_nibble s \<and> fb_last_nibble s < 16)"

definition fb_call_ok :: "fourb5b_s \<Rightarrow> out_call \<Rightarrow> bool" where
  "fb_call_ok s = call_ok 4 0 (fb_out_ann s) (fb_out_python s) (-1)"

lemmas fourb5b_anns = fourb5b_ANN_DATA_SYMBOL_def fourb5b_ANN_CTRL_SYMBOL_def fourb5b_ANN_BIT_def fourb5b_ANN_BYTE_def

lemma shift_in_bit:
  assumes "0 \<le> b" "b < 2"
  shows "push_bit 1 x OR b = 2 * x + (b :: int)"
proof -
  have "b = 0 \<or> b = 1" using assms by auto
  then show ?thesis by (auto simp: or_one_eq)
qed

lemma data_sym_range: "i < 32 \<Longrightarrow> data_sym ! i < 16"
proof -
  assume "i < 32"
  then have "data_sym ! i \<in> set data_sym" by (intro nth_mem) (simp add: data_sym_def)
  moreover have "list_all (\<lambda>x. x < 16) data_sym" by (simp add: data_sym_def)
  ultimately show ?thesis by (simp add: list_all_iff)
qed

lemma fourb5b_symbol_inv:
  assumes "fourb5b_symbol e s = (s', out)" and "0 \<le> fb_symbol s" "fb_symbol s < 32"
    and "fb_has_last_nibble s \<longrightarrow> 0 \<le> fb_last_nibble s \<and> fb_last_nibble s < 16"
  shows "fb_inv s'" and "\<forall>c \<in> set out. fb_call_ok s c" and "fb_call_ok s' = fb_call_ok s"
proof -
  have "data_sym ! nat (fb_symbol s) < 16" using assms(2,3) by (intro data_sym_range) auto
  then show "fb_inv s'" "\<forall>c \<in> set out. fb_call_ok s c" "fb_call_ok s' = fb_call_ok s"
    using assms
    by (auto simp: fourb5b_symbol_def fourb5b_ctrl_def fourb5b_data_def fb_inv_def fb_call_ok_def fourb5b_anns
        Let_def split: option.splits if_splits prod.splits)
qed

lemma fourb5b_bit_inv:
  assumes "fourb5b_bit a e b s = (s', out)" and "fb_inv s" and "0 \<le> b" "b < 2"
  shows "fb_inv s'" and "\<forall>c \<in> set out. fb_call_ok s c" and "fb_call_ok s' = fb_call_ok s"
proof -
  have p: "nat (fb_bit_count s + 1) = Suc (nat (fb_bit_count s))" using assms(2) by (auto simp: fb_inv_def)
  have v: "2 * fb_symbol s + b < 2 * 2 ^ nat (fb_bit_count s)" using assms(2,4) by (auto simp: fb_inv_def)
  have f: "fb_bit_count s = 4 \<Longrightarrow> 2 * fb_symbol s + b < 32" using v by simp
  note sym = fourb5b_symbol_inv [where e = e]
  consider "0 < fb_bit_offset s" | "\<not> 0 < fb_bit_offset s" "fb_bit_count s = 4"
    | "\<not> 0 < fb_bit_offset s" "fb_bit_count s \<noteq> 4" by blast
  then have "fb_inv s' \<and> (\<forall>c \<in> set out. fb_call_ok s c) \<and> fb_call_ok s' = fb_call_ok s"
  proof cases
    case 1
    then show ?thesis using assms(1,2) by (auto simp: fourb5b_bit_def fb_inv_def fb_call_ok_def)
  next
    case 2
    let ?t = "s\<lparr>fb_symbol := 2 * fb_symbol s + b, fb_bit_count := 5\<rparr>"
    have e: "fourb5b_symbol e ?t = (s', out)"
      using assms(1) 2 by (simp add: fourb5b_bit_def shift_in_bit [OF assms(3,4), simplified push_bit_eq_mult, simplified] Let_def)
    have r: "0 \<le> fb_symbol ?t" "fb_symbol ?t < 32"
      "fb_has_last_nibble ?t \<longrightarrow> 0 \<le> fb_last_nibble ?t \<and> fb_last_nibble ?t < 16"
      using assms(2,3) f [OF 2(2)] by (simp_all add: fb_inv_def)
    show ?thesis using sym [OF e r] by (simp add: fb_call_ok_def)
  next
    case 3
    then show ?thesis
      using assms(1,2,3) v by (auto simp: fourb5b_bit_def shift_in_bit [OF assms(3,4), simplified push_bit_eq_mult, simplified] fb_inv_def fb_call_ok_def p
          Let_def split: if_splits)
  qed
  then show "fb_inv s'" and "\<forall>c \<in> set out. fb_call_ok s c" and "fb_call_ok s' = fb_call_ok s" by simp_all
qed

lemma low_bit_range: "0 \<le> uint (x AND 1 :: u8)" "uint (x AND 1 :: u8) < 2"
proof -
  have "x AND 1 = 0 \<or> x AND 1 = 1" by (auto simp: and_one_eq)
  then show "0 \<le> uint (x AND 1 :: u8)" "uint (x AND 1 :: u8) < 2" by auto
qed

lemma fourb5b_recv_cases:
  assumes "fourb5b_recv_proto m s = Some (s', out)"
  shows "s' = s \<and> out = [] \<or> (\<exists>b. 0 \<le> b \<and> b < 2 \<and> fourb5b_bit (um_ss m) (um_es m) b s = (s', out))"
  using assms low_bit_range
  by (auto simp: fourb5b_recv_proto_def simp del: and_one_eq split: if_splits list.splits option.splits)

interpretation fourb5b: upper_contract fourb5b_recv_proto fb_inv fb_call_ok
proof
  fix s m s' out
  assume i: "fb_inv s" and e: "fourb5b_recv_proto m s = Some (s', out)"
  note f = fourb5b_bit_inv [OF _ i, of "um_ss m" "um_es m"]
  show "fb_inv s'" "fb_call_ok s' = fb_call_ok s"
    using fourb5b_recv_cases [OF e] f(1,3) i by blast+
  show "fb_call_ok s c" if "c \<in> set out" for c
    using fourb5b_recv_cases [OF e] f(2) that by auto
qed

section \<open>Line code of a frame\<close>

text \<open>
  The transmitter: the 4B5B code of a nibble, the bits of a symbol in the order they are sent,
  a byte with its low nibble first, and a frame between J K and T R.
\<close>

definition code_4b5b :: "nat list" where
  "code_4b5b = [0b11110, 0b01001, 0b10100, 0b10101, 0b01010, 0b01011, 0b01110, 0b01111,
                0b10010, 0b10011, 0b10110, 0b10111, 0b11010, 0b11011, 0b11100, 0b11101]"

definition sym_bits :: "nat \<Rightarrow> u8 list" where
  "sym_bits v = map (\<lambda>i. of_bool (bit v i)) [4, 3, 2, 1, 0]"

definition byte_syms :: "u8 \<Rightarrow> nat list" where
  "byte_syms b = [code_4b5b ! unat (b AND 0xF), code_4b5b ! unat (drop_bit 4 b)]"

definition frame_bits :: "u8 list \<Rightarrow> u8 list" where
  "frame_bits bs = concat (map sym_bits ([0b11000, 0b10001] @ concat (map byte_syms bs) @ [0b01101, 0b00111]))"

text \<open>The NRZI decoder's message of bit number \<open>k\<close>, which lasts from sample \<open>ps k\<close> to \<open>pe k\<close>.\<close>

fun bit_msgs :: "(nat \<Rightarrow> u64) \<Rightarrow> (nat \<Rightarrow> u64) \<Rightarrow> nat \<Rightarrow> u8 list \<Rightarrow> upper_msg list" where
  "bit_msgs ps pe k [] = []"
| "bit_msgs ps pe k (b # bs) =
     \<lparr>um_ss = ps k, um_es = pe k, um_cmd = ''BIT'', um_fields = [C_U8 b]\<rparr> # bit_msgs ps pe (Suc k) bs"

lemma bit_msgs_append: "bit_msgs ps pe k (xs @ ys) = bit_msgs ps pe k xs @ bit_msgs ps pe (k + length xs) ys"
  by (induction xs arbitrary: k) simp_all

lemma length_sym_bits [simp]: "length (sym_bits v) = 5"
  by (simp add: sym_bits_def)

text \<open>The state between symbols.\<close>

definition between :: "fourb5b_s \<Rightarrow> bool" where
  "between s \<longleftrightarrow> fb_bit_count s = 0 \<and> fb_symbol s = 0 \<and> fb_bit_offset s = 0"

lemma recv_bit: "fourb5b_recv_proto \<lparr>um_ss = a, um_es = e, um_cmd = ''BIT'', um_fields = [C_U8 b]\<rparr> s =
    Some (fourb5b_bit a e (uint (b AND 1)) s)"
  by (simp add: fourb5b_recv_proto_def)

lemma shift_of_bool: "push_bit 1 x OR of_bool b = 2 * x + (of_bool b :: int)"
  by (rule shift_in_bit) simp_all

lemma uint_of_bool: "uint ((of_bool b :: u8) AND 1) = of_bool b"
  by (cases b) simp_all

lemma sym_value:
  fixes v :: nat
  assumes "v < 32"
  shows "2 * (2 * (2 * (2 * of_bool (bit v 4) + of_bool (bit v 3)) + of_bool (bit v 2)) + of_bool (bit v 1))
     + of_bool (bit v 0) = int v"
proof -
  have "list_all (\<lambda>v. 2 * (2 * (2 * (2 * of_bool (bit v 4) + of_bool (bit v 3)) + of_bool (bit v 2)) + of_bool (bit v 1))
     + of_bool (bit v 0) = int v) [0..<32]" by code_simp
  then show ?thesis using assms by (simp add: list_all_iff)
qed

text \<open>Five bits from a symbol boundary are one symbol.\<close>

lemma run_symbol:
  fixes ps pe :: "nat \<Rightarrow> u64" and k :: nat
  assumes s: "between s" and v: "v < 32"
  defines "s1 \<equiv> s\<lparr>fb_sym_start := ps k, fb_data_start := (if fb_has_last_nibble s then fb_data_start s else ps k),
    fb_symbol := int v, fb_bit_count := 5\<rparr>"
  shows "run_upper fourb5b_recv_proto (bit_msgs ps pe k (sym_bits v)) s = Some (fourb5b_symbol (pe (k + 4)) s1)"
proof -
  have b: "fourb5b_bit a e (of_bool b) t = (t\<lparr>fb_symbol := 2 * fb_symbol t + of_bool b, fb_bit_count := fb_bit_count t + 1\<rparr>, [])"
    if "fb_bit_offset t = 0" "fb_bit_count t \<noteq> 0" "fb_bit_count t < 4" for a e b t
    using that unfolding fourb5b_bit_def shift_of_bool by (simp add: Let_def)
  have b0: "fourb5b_bit (ps k) e (of_bool b) s = (s\<lparr>fb_sym_start := ps k,
      fb_data_start := (if fb_has_last_nibble s then fb_data_start s else ps k), fb_symbol := of_bool b, fb_bit_count := 1\<rparr>, [])" for e b
    using s unfolding fourb5b_bit_def shift_of_bool between_def
    by (cases "fb_has_last_nibble s"; cases s) (simp_all add: Let_def)
  have b4: "fourb5b_bit a e (of_bool b) t = fourb5b_symbol e (t\<lparr>fb_symbol := 2 * fb_symbol t + of_bool b, fb_bit_count := 5\<rparr>)"
    if "fb_bit_offset t = 0" "fb_bit_count t = 4" for a e b t
    using that unfolding fourb5b_bit_def shift_of_bool by (simp add: Let_def)
  have o: "fb_bit_offset s = 0" using s by (simp add: between_def)
  let ?n = "2 * (2 * (2 * (2 * of_bool (bit v 4) + of_bool (bit v 3)) + of_bool (bit v 2)) + of_bool (bit v 1))
    + of_bool (bit v 0) :: int"
  have "run_upper fourb5b_recv_proto (bit_msgs ps pe k (sym_bits v)) s =
    Some (fourb5b_symbol (pe (Suc (Suc (Suc (Suc k))))) (s\<lparr>fb_sym_start := ps k,
      fb_data_start := (if fb_has_last_nibble s then fb_data_start s else ps k), fb_symbol := ?n, fb_bit_count := 5\<rparr>))"
    using o by (simp add: sym_bits_def recv_bit uint_of_bool b0 b b4 del: of_bool_eq_0_iff split del: if_split)
  then show ?thesis unfolding sym_value [OF v] by (simp add: s1_def eval_nat_numeral)
qed

text \<open>What the symbols do: a control symbol is passed on, two data symbols make a byte.\<close>

definition span :: "(nat \<Rightarrow> u64) \<Rightarrow> (nat \<Rightarrow> u64) \<Rightarrow> nat \<Rightarrow> nat \<Rightarrow> string \<Rightarrow> c_field list \<Rightarrow> upper_msg" where
  "span ps pe k n cmd fs = \<lparr>um_ss = ps k, um_es = pe (k + (n - 1)), um_cmd = cmd, um_fields = fs\<rparr>"

definition jk_seen :: "fourb5b_s \<Rightarrow> bool \<times> bool" where
  "jk_seen s = (fb_jk_seen_j s, fb_jk_seen_k s)"

lemma run_ctrl:
  fixes ps pe :: "nat \<Rightarrow> u64" and k :: nat
  assumes s: "between s" "\<not> fb_has_last_nibble s" and v: "v < 32"
    and c: "ctrl_long ! v = Some name" "ctrl_short ! v = Some short"
  shows "\<exists>s' out. run_upper fourb5b_recv_proto (bit_msgs ps pe k (sym_bits v)) s = Some (s', out)
    \<and> between s' \<and> \<not> fb_has_last_nibble s' \<and> fb_out_python s' = fb_out_python s
    \<and> jk_seen s' = (v = 24 \<or> fb_jk_seen_j s, v = 17 \<or> fb_jk_seen_k s)
    \<and> messages_on (fb_out_python s) out = [span ps pe k 5 short [C_U8 (of_nat v), C_U8 1]]"
  using s c
  by (auto simp: run_symbol [OF s(1) v] fourb5b_symbol_def fourb5b_ctrl_def between_def span_def jk_seen_def add.commute)

lemma run_nibble:
  fixes ps pe :: "nat \<Rightarrow> u64" and k :: nat
  assumes s: "between s" "jk_seen s = (True, True)" and n: "n < 16"
  shows "\<exists>s' out. run_upper fourb5b_recv_proto (bit_msgs ps pe k (sym_bits (code_4b5b ! n))) s = Some (s', out)
    \<and> between s' \<and> fb_has_last_nibble s' = (\<not> fb_has_last_nibble s) \<and> fb_out_python s' = fb_out_python s
    \<and> jk_seen s' = (True, True)
    \<and> (\<not> fb_has_last_nibble s \<longrightarrow> fb_last_nibble s' = int n \<and> fb_data_start s' = ps k
        \<and> messages_on (fb_out_python s) out = [])
    \<and> (fb_has_last_nibble s \<longrightarrow> messages_on (fb_out_python s) out =
        [\<lparr>um_ss = fb_data_start s, um_es = pe (k + 4), um_cmd = ''DATA'',
          um_fields = [C_U8 (of_int (push_bit 4 (int n) OR fb_last_nibble s)), C_U8 0]\<rparr>])"
proof -
  let ?v = "code_4b5b ! n"
  have "list_all (\<lambda>n. code_4b5b ! n < 32 \<and> ctrl_long ! (code_4b5b ! n) = None
    \<and> data_sym ! (code_4b5b ! n) = int n) [0..<16]" by code_simp
  then have v: "?v < 32" "ctrl_long ! ?v = None" "data_sym ! ?v = int n" using n by (auto simp: list_all_iff)
  show ?thesis
    using s v(2,3)
    by (auto simp: run_symbol [OF s(1) v(1)] fourb5b_symbol_def fourb5b_data_def between_def jk_seen_def Let_def)
qed

lemma nibbles_of_byte:
  fixes b :: u8
  shows "of_int (push_bit 4 (int (unat (drop_bit 4 b))) OR int (unat (b AND 0xF))) = b" "unat (b AND 0xF) < 16"
    "unat (drop_bit 4 b) < 16"
proof -
  show "unat (b AND 0xF) < 16" using word_and_le1 [of b 15] by (simp add: word_le_nat_alt)
  show "unat (drop_bit 4 b) < 16"
    unfolding unat_drop_bit_eq using unsigned_less [of b, where ?'a = nat] by (simp add: drop_bit_eq_div)
  show "of_int (push_bit 4 (int (unat (drop_bit 4 b))) OR int (unat (b AND 0xF))) = b"
  proof (rule bit_word_eqI)
    have m: "(15 :: u8) = mask 4" by (simp add: mask_eq_exp_minus_1)
    fix n assume "n < LENGTH(8)"
    then show "bit (of_int (push_bit 4 (int (unat (drop_bit 4 b))) OR int (unat (b AND 0xF))) :: u8) n = bit b n"
      by (auto simp: m bit_simps simp flip: of_int_or_eq)
  qed
qed

lemma run_byte:
  fixes ps pe :: "nat \<Rightarrow> u64" and k :: nat
  assumes s: "between s" "jk_seen s = (True, True)" "\<not> fb_has_last_nibble s"
  shows "\<exists>s' out. run_upper fourb5b_recv_proto (bit_msgs ps pe k (concat (map sym_bits (byte_syms b)))) s = Some (s', out)
    \<and> between s' \<and> \<not> fb_has_last_nibble s' \<and> fb_out_python s' = fb_out_python s
    \<and> jk_seen s' = (True, True)
    \<and> messages_on (fb_out_python s) out = [span ps pe k 10 ''DATA'' [C_U8 b, C_U8 0]]"
proof -
  note n = nibbles_of_byte [of b]
  obtain s1 o1 where 1: "run_upper fourb5b_recv_proto (bit_msgs ps pe k (sym_bits (code_4b5b ! unat (b AND 0xF)))) s = Some (s1, o1)"
    "between s1" "fb_has_last_nibble s1" "fb_out_python s1 = fb_out_python s" "jk_seen s1 = (True, True)"
    "fb_last_nibble s1 = int (unat (b AND 0xF))" "fb_data_start s1 = ps k" "messages_on (fb_out_python s) o1 = []"
    using run_nibble [OF s(1,2) n(2), of ps pe k] s(3) by auto
  obtain s2 o2 where 2: "run_upper fourb5b_recv_proto (bit_msgs ps pe (k + 5) (sym_bits (code_4b5b ! unat (drop_bit 4 b)))) s1 = Some (s2, o2)"
    "between s2" "\<not> fb_has_last_nibble s2" "fb_out_python s2 = fb_out_python s" "jk_seen s2 = (True, True)"
    "messages_on (fb_out_python s) o2 = [\<lparr>um_ss = ps k, um_es = pe (k + 9), um_cmd = ''DATA'',
          um_fields = [C_U8 b, C_U8 0]\<rparr>]"
    using run_nibble [OF 1(2,5) n(3), of ps pe "k + 5"] 1(3,4,6,7) n(1) by (auto simp: ac_simps)
  have "run_upper fourb5b_recv_proto (bit_msgs ps pe k (concat (map sym_bits (byte_syms b)))) s = Some (s2, o1 @ o2)"
    using run_upper_appendI [OF 1(1) 2(1)] by (simp add: byte_syms_def bit_msgs_append)
  moreover have "messages_on (fb_out_python s) (o1 @ o2) = [span ps pe k 10 ''DATA'' [C_U8 b, C_U8 0]]"
    using 1(8) 2(6) by (simp add: span_def add.commute)
  ultimately show ?thesis using 2(2-5) by blast
qed

lemma run_bytes:
  fixes ps pe :: "nat \<Rightarrow> u64" and k :: nat
  assumes s: "between s" "jk_seen s = (True, True)" "\<not> fb_has_last_nibble s"
  shows "\<exists>s' out. run_upper fourb5b_recv_proto (bit_msgs ps pe k (concat (map sym_bits (concat (map byte_syms bs))))) s = Some (s', out)
    \<and> between s' \<and> \<not> fb_has_last_nibble s' \<and> fb_out_python s' = fb_out_python s
    \<and> jk_seen s' = (True, True)
    \<and> messages_on (fb_out_python s) out = map (\<lambda>i. span ps pe (k + 10 * i) 10 ''DATA'' [C_U8 (bs ! i), C_U8 0]) [0..<length bs]"
  using s
proof (induction bs arbitrary: s k)
  case Nil
  then show ?case by simp
next
  case (Cons b bs)
  obtain s1 o1 where 1: "run_upper fourb5b_recv_proto (bit_msgs ps pe k (concat (map sym_bits (byte_syms b)))) s = Some (s1, o1)"
    "between s1" "\<not> fb_has_last_nibble s1" "fb_out_python s1 = fb_out_python s" "jk_seen s1 = (True, True)"
    "messages_on (fb_out_python s) o1 = [span ps pe k 10 ''DATA'' [C_U8 b, C_U8 0]]"
    using run_byte [OF Cons.prems, of ps pe k b] by auto
  obtain s2 o2 where 2: "run_upper fourb5b_recv_proto (bit_msgs ps pe (k + 10) (concat (map sym_bits (concat (map byte_syms bs))))) s1 = Some (s2, o2)"
    "between s2" "\<not> fb_has_last_nibble s2" "fb_out_python s2 = fb_out_python s" "jk_seen s2 = (True, True)"
    "messages_on (fb_out_python s) o2 = map (\<lambda>i. span ps pe (k + 10 + 10 * i) 10 ''DATA'' [C_U8 (bs ! i), C_U8 0]) [0..<length bs]"
    using Cons.IH [OF 1(2,5,3), of "k + 10"] 1(4) by auto
  have l: "length (concat (map sym_bits (byte_syms b))) = 10" by (simp add: byte_syms_def)
  have "run_upper fourb5b_recv_proto (bit_msgs ps pe k (concat (map sym_bits (concat (map byte_syms (b # bs)))))) s = Some (s2, o1 @ o2)"
    using run_upper_appendI [OF 1(1) 2(1)] l by (simp add: bit_msgs_append)
  moreover have "map (\<lambda>i. span ps pe (k + 10 * i) 10 ''DATA'' [C_U8 ((b # bs) ! i), C_U8 0]) [0..<length (b # bs)]
      = span ps pe k 10 ''DATA'' [C_U8 b, C_U8 0] # map (\<lambda>i. span ps pe (k + 10 + 10 * i) 10 ''DATA'' [C_U8 (bs ! i), C_U8 0]) [0..<length bs]"
    by (simp add: map_upt_Suc ac_simps del: upt_Suc)
  ultimately show ?case using 1(6) 2 by auto
qed

lemma run_offset:
  assumes "fb_bit_offset s = int (length junk)"
  shows "run_upper fourb5b_recv_proto (bit_msgs ps pe k junk) s = Some (s\<lparr>fb_bit_offset := 0\<rparr>, [])"
  using assms
proof (induction junk arbitrary: s k)
  case (Cons b junk)
  then show ?case by (simp add: recv_bit fourb5b_bit_def)
qed simp

text \<open>The messages of a frame whose first bit is number \<open>k\<close>.\<close>

definition data_msgs :: "(nat \<Rightarrow> u64) \<Rightarrow> (nat \<Rightarrow> u64) \<Rightarrow> nat \<Rightarrow> u8 list \<Rightarrow> upper_msg list" where
  "data_msgs ps pe k bs = map (\<lambda>i. span ps pe (k + 10 * i) 10 ''DATA'' [C_U8 (bs ! i), C_U8 0]) [0..<length bs]"

definition frame_msgs :: "(nat \<Rightarrow> u64) \<Rightarrow> (nat \<Rightarrow> u64) \<Rightarrow> nat \<Rightarrow> u8 list \<Rightarrow> upper_msg list" where
  "frame_msgs ps pe k bs =
     [span ps pe k 5 ''J'' [C_U8 24, C_U8 1], span ps pe (k + 5) 5 ''K'' [C_U8 17, C_U8 1]]
     @ data_msgs ps pe (k + 10) bs
     @ [span ps pe (k + 10 + 10 * length bs) 5 ''T'' [C_U8 13, C_U8 1],
        span ps pe (k + 15 + 10 * length bs) 5 ''R'' [C_U8 7, C_U8 1]]"

lemma length_code_of_bytes: "length (concat (map sym_bits (concat (map byte_syms bs)))) = 10 * length bs"
  by (induction bs) (simp_all add: byte_syms_def)

lemma run_frame:
  fixes ps pe :: "nat \<Rightarrow> u64" and k :: nat
  assumes s: "between s" "\<not> fb_has_last_nibble s"
  shows "\<exists>s' out. run_upper fourb5b_recv_proto (bit_msgs ps pe k (frame_bits bs)) s = Some (s', out)
    \<and> messages_on (fb_out_python s) out = frame_msgs ps pe k bs"
proof -
  have c: "ctrl_long ! 24 = Some ''J''" "ctrl_short ! 24 = Some ''J''" "ctrl_long ! 17 = Some ''K''"
    "ctrl_short ! 17 = Some ''K''" "ctrl_long ! 13 = Some ''TERMINATE''" "ctrl_short ! 13 = Some ''T''"
    "ctrl_long ! 7 = Some ''RESET''" "ctrl_short ! 7 = Some ''R''"
    by (simp_all add: ctrl_long_def ctrl_short_def)
  let ?r = "\<lambda>k v. run_upper fourb5b_recv_proto (bit_msgs ps pe k (sym_bits v))"
  let ?m = "messages_on (fb_out_python s)"
  obtain s1 o1 where 1: "?r k 24 s = Some (s1, o1)" "between s1" "\<not> fb_has_last_nibble s1"
    "fb_out_python s1 = fb_out_python s" "fb_jk_seen_j s1" "?m o1 = [span ps pe k 5 ''J'' [C_U8 24, C_U8 1]]"
    using run_ctrl [OF s _ c(1,2), of ps pe k] by (auto simp: jk_seen_def)
  obtain s2 o2 where 2: "?r (k + 5) 17 s1 = Some (s2, o2)" "between s2" "\<not> fb_has_last_nibble s2"
    "fb_out_python s2 = fb_out_python s" "jk_seen s2 = (True, True)" "?m o2 = [span ps pe (k + 5) 5 ''K'' [C_U8 17, C_U8 1]]"
    using run_ctrl [OF 1(2,3) _ c(3,4), of ps pe "k + 5"] 1(4,5) by (auto simp: jk_seen_def)
  let ?bs = "concat (map sym_bits (concat (map byte_syms bs)))"
  obtain s3 o3 where 3: "run_upper fourb5b_recv_proto (bit_msgs ps pe (k + 10) ?bs) s2 = Some (s3, o3)"
    "between s3" "\<not> fb_has_last_nibble s3" "fb_out_python s3 = fb_out_python s" "?m o3 = data_msgs ps pe (k + 10) bs"
    using run_bytes [OF 2(2,5,3), of ps pe "k + 10" bs] 2(4) by (auto simp: data_msgs_def)
  let ?k = "k + 10 + 10 * length bs"
  obtain s4 o4 where 4: "?r ?k 13 s3 = Some (s4, o4)" "between s4" "\<not> fb_has_last_nibble s4"
    "fb_out_python s4 = fb_out_python s" "?m o4 = [span ps pe ?k 5 ''T'' [C_U8 13, C_U8 1]]"
    using run_ctrl [OF 3(2,3) _ c(5,6), of ps pe ?k] 3(4) by auto
  obtain s5 o5 where 5: "?r (?k + 5) 7 s4 = Some (s5, o5)" "?m o5 = [span ps pe (?k + 5) 5 ''R'' [C_U8 7, C_U8 1]]"
    using run_ctrl [OF 4(2,3) _ c(7,8), of ps pe "?k + 5"] 4(4) by auto
  have l: "k + 5 + 5 = k + 10" by simp
  note a = run_upper_appendI [OF 1(1) run_upper_appendI [OF 2(1) run_upper_appendI [OF 3(1) run_upper_appendI [OF 4(1) 5(1)]]]]
  have b: "frame_bits bs = sym_bits 24 @ sym_bits 17 @ ?bs @ sym_bits 13 @ sym_bits 7" by (simp add: frame_bits_def)
  have "run_upper fourb5b_recv_proto (bit_msgs ps pe k (frame_bits bs)) s = Some (s5, o1 @ o2 @ o3 @ o4 @ o5)"
    using a unfolding b bit_msgs_append length_sym_bits length_code_of_bytes l .
  moreover have "?m (o1 @ o2 @ o3 @ o4 @ o5) = frame_msgs ps pe k bs"
    using 1(6) 2(6) 3(5) 4(5) 5(2) by (simp add: frame_msgs_def ac_simps)
  ultimately show ?thesis by blast
qed

text \<open>
  Any symbols before a frame. A data symbol after J and K is one nibble, and whether one is
  left over is a matter of the symbols alone: J and K do not drop it.
\<close>

fun nibble_left :: "bool \<Rightarrow> bool \<Rightarrow> bool \<Rightarrow> nat list \<Rightarrow> bool" where
  "nibble_left j k left [] = left"
| "nibble_left j k left (v # vs) =
     nibble_left (j \<or> v = 24) (k \<or> v = 17) (if 0 \<le> data_sym ! v \<and> j \<and> k then \<not> left else left) vs"

lemma run_any_symbol:
  fixes ps pe :: "nat \<Rightarrow> u64" and k :: nat
  assumes s: "between s" and v: "v < 32"
  shows "\<exists>s' out. run_upper fourb5b_recv_proto (bit_msgs ps pe k (sym_bits v)) s = Some (s', out)
    \<and> between s' \<and> fb_out_python s' = fb_out_python s
    \<and> jk_seen s' = (fb_jk_seen_j s \<or> v = 24, fb_jk_seen_k s \<or> v = 17)
    \<and> fb_has_last_nibble s' = (if 0 \<le> data_sym ! v \<and> fb_jk_seen_j s \<and> fb_jk_seen_k s
          then \<not> fb_has_last_nibble s else fb_has_last_nibble s)"
proof -
  have "list_all (\<lambda>v. (ctrl_long ! v \<noteq> None \<longrightarrow> data_sym ! v < 0) \<and> (v = 24 \<or> v = 17 \<longrightarrow> ctrl_long ! v \<noteq> None)) [0..<32]"
    by code_simp
  then have t: "ctrl_long ! v \<noteq> None \<longrightarrow> data_sym ! v < 0" "v = 24 \<or> v = 17 \<longrightarrow> ctrl_long ! v \<noteq> None"
    using v by (simp_all add: list_all_iff)
  show ?thesis
    using s t
    by (auto simp: run_symbol [OF s v] fourb5b_symbol_def fourb5b_ctrl_def fourb5b_data_def between_def jk_seen_def
        Let_def split: option.splits)
qed

lemma run_any_symbols:
  fixes ps pe :: "nat \<Rightarrow> u64" and k :: nat
  assumes "between s" and "\<forall>v \<in> set vs. v < 32"
  shows "\<exists>s' out. run_upper fourb5b_recv_proto (bit_msgs ps pe k (concat (map sym_bits vs))) s = Some (s', out)
    \<and> between s' \<and> fb_out_python s' = fb_out_python s
    \<and> fb_has_last_nibble s' = nibble_left (fb_jk_seen_j s) (fb_jk_seen_k s) (fb_has_last_nibble s) vs"
  using assms
proof (induction vs arbitrary: s k)
  case (Cons v vs)
  obtain s1 o1 where 1: "run_upper fourb5b_recv_proto (bit_msgs ps pe k (sym_bits v)) s = Some (s1, o1)"
    "between s1" "fb_out_python s1 = fb_out_python s"
    "jk_seen s1 = (fb_jk_seen_j s \<or> v = 24, fb_jk_seen_k s \<or> v = 17)"
    "fb_has_last_nibble s1 = (if 0 \<le> data_sym ! v \<and> fb_jk_seen_j s \<and> fb_jk_seen_k s
          then \<not> fb_has_last_nibble s else fb_has_last_nibble s)"
    using run_any_symbol [OF Cons.prems(1), of v ps pe k] Cons.prems(2) by auto
  obtain s2 o2 where 2: "run_upper fourb5b_recv_proto (bit_msgs ps pe (k + 5) (concat (map sym_bits vs))) s1 = Some (s2, o2)"
    "between s2" "fb_out_python s2 = fb_out_python s1"
    "fb_has_last_nibble s2 = nibble_left (fb_jk_seen_j s1) (fb_jk_seen_k s1) (fb_has_last_nibble s1) vs"
    using Cons.IH [OF 1(2), of "k + 5"] Cons.prems(2) by auto
  have "run_upper fourb5b_recv_proto (bit_msgs ps pe k (concat (map sym_bits (v # vs)))) s = Some (s2, o1 @ o2)"
    using run_upper_appendI [OF 1(1) 2(1)] by (simp add: bit_msgs_append)
  with 2 1(3-5) show ?case by (auto simp: jk_seen_def)
qed simp

lemma length_syms [simp]: "length (concat (map sym_bits vs)) = 5 * length vs"
  by (induction vs) simp_all

text \<open>
  C19: A frame sent in 4B5B code between J K and T R is passed to the decoder on top as it was:
  the messages J and K, one message DATA for every byte with the byte and the first and the last
  of its ten bits, then T and R, after what the symbols before the frame gave. These may be any
  symbols, valid or not and other frames among them, behind as many arbitrary bits as the option
  \<open>bit_offset\<close> says, with two limits: the frame begins where a symbol ends, and the data
  symbols seen since the first J and K are even in number, so that no nibble is left over
  (\<open>nibble_left\<close>). The bits may lie anywhere in the samples.
\<close>

theorem fourb5b_frame_decoded:
  assumes "fb_bit_count s = 0" and "fb_symbol s = 0" and "fb_bit_offset s = int (length junk)"
    and "\<forall>v \<in> set vs. v < 32"
    and "\<not> nibble_left (fb_jk_seen_j s) (fb_jk_seen_k s) (fb_has_last_nibble s) vs"
  shows "\<exists>s' before out. run_upper fourb5b_recv_proto
        (bit_msgs ps pe 0 (junk @ concat (map sym_bits vs) @ frame_bits bs)) s = Some (s', before @ out)
    \<and> (\<exists>s0. run_upper fourb5b_recv_proto (bit_msgs ps pe 0 (junk @ concat (map sym_bits vs))) s = Some (s0, before))
    \<and> messages_on (fb_out_python s) out = frame_msgs ps pe (length junk + 5 * length vs) bs"
proof -
  let ?s = "s\<lparr>fb_bit_offset := 0\<rparr>" and ?k = "length junk"
  have s: "between ?s" using assms(1,2) by (simp add: between_def)
  obtain s1 o1 where 1: "run_upper fourb5b_recv_proto (bit_msgs ps pe ?k (concat (map sym_bits vs))) ?s = Some (s1, o1)"
    "between s1" "fb_out_python s1 = fb_out_python s" "\<not> fb_has_last_nibble s1"
    using run_any_symbols [OF s assms(4), of ps pe ?k] assms(5) by auto
  obtain s2 o2 where 2: "run_upper fourb5b_recv_proto (bit_msgs ps pe (?k + 5 * length vs) (frame_bits bs)) s1 = Some (s2, o2)"
    "messages_on (fb_out_python s) o2 = frame_msgs ps pe (?k + 5 * length vs) bs"
    using run_frame [OF 1(2,4), of ps pe "?k + 5 * length vs" bs] 1(3) by auto
  note j = run_offset [OF assms(3), of ps pe 0]
  have "run_upper fourb5b_recv_proto (bit_msgs ps pe 0 (junk @ concat (map sym_bits vs))) s = Some (s1, o1)"
    using run_upper_appendI [OF j 1(1)] by (simp add: bit_msgs_append)
  moreover have "run_upper fourb5b_recv_proto (bit_msgs ps pe 0 (junk @ concat (map sym_bits vs) @ frame_bits bs)) s
      = Some (s2, o1 @ o2)"
    using run_upper_appendI [OF j run_upper_appendI [OF 1(1) 2(1)]] by (simp add: bit_msgs_append)
  ultimately show ?thesis using 2(2) by blast
qed

lemma fourb5b_frame_decoded_witness:
  "\<exists>s' before out. run_upper fourb5b_recv_proto (bit_msgs (\<lambda>i. of_nat (8 * i)) (\<lambda>i. of_nat (8 * i + 8)) 0
      ([1, 0] @ concat (map sym_bits [31, 3, 24, 17, 9, 10, 13, 7]) @ frame_bits [0x5A]))
      (fourb5b_reset\<lparr>fb_bit_offset := 2, fb_out_python := 1\<rparr>) = Some (s', before @ out)
    \<and> messages_on 1 out = frame_msgs (\<lambda>i. of_nat (8 * i)) (\<lambda>i. of_nat (8 * i + 8)) 42 [0x5A]"
proof -
  let ?s = "fourb5b_reset\<lparr>fb_bit_offset := 2, fb_out_python := 1\<rparr>"
  let ?vs = "[31, 3, 24, 17, 9, 10, 13, 7] :: nat list"
  have p: "fb_bit_count ?s = 0" "fb_symbol ?s = 0" "fb_bit_offset ?s = int (length [1, 0 :: u8])"
    "\<forall>v \<in> set ?vs. v < 32" "\<not> nibble_left (fb_jk_seen_j ?s) (fb_jk_seen_k ?s) (fb_has_last_nibble ?s) ?vs"
    by (simp_all add: fourb5b_reset_def data_sym_def)
  have q: "fb_out_python ?s = 1" "length [1, 0 :: u8] + 5 * length ?vs = 42" by simp_all
  from fourb5b_frame_decoded [OF p, of "\<lambda>i. of_nat (8 * i)" "\<lambda>i. of_nat (8 * i + 8)" "[0x5A]"]
  show ?thesis unfolding q by blast
qed

text \<open>
  A nibble left over from before is the low half of the first byte of the next frame: after
  one data symbol 0x3 the frame of the byte 0x5A gives 0xA3, and the high half is left over again.
\<close>

lemma left_nibble_shifts_frame:
  "map_option (\<lambda>(s', out). (map (\<lambda>m. (um_cmd m, um_fields m)) (messages_on 1 out), fb_last_nibble s', fb_has_last_nibble s'))
     (run_upper fourb5b_recv_proto (bit_msgs (\<lambda>i. 0) (\<lambda>i. 0) 0
        (concat (map sym_bits [24, 17, 21]) @ frame_bits [0x5A])) (fourb5b_reset\<lparr>fb_out_python := 1\<rparr>))
   = Some ([(''J'', [C_U8 24, C_U8 1]), (''K'', [C_U8 17, C_U8 1]), (''J'', [C_U8 24, C_U8 1]), (''K'', [C_U8 17, C_U8 1]),
            (''DATA'', [C_U8 0xA3, C_U8 0]), (''T'', [C_U8 13, C_U8 1]), (''R'', [C_U8 7, C_U8 1])], 5, True)"
  by code_simp

end
