(* ===== verification/Crc.thy ===== *)
theory Crc
  imports Format
begin

text \<open>
  Cyclic redundancy checks as shift registers. The decoders compute them bit by bit or with
  tables of the bytes; this theory has the register, the laws by which the variants agree, and
  what such a check detects.
\<close>

section \<open>The register\<close>

text \<open>
  The register shifts to the right, the lowest bit goes out first. \<open>poly\<close> is the polynomial with
  its bits reversed, so its highest bit is set.
\<close>

definition crc_shift :: "'a::len word \<Rightarrow> 'a word \<Rightarrow> 'a word" where
  "crc_shift poly c = drop_bit 1 c XOR (if bit c 0 then poly else 0)"

text \<open>One bit of the message goes in.\<close>

definition crc_in :: "'a::len word \<Rightarrow> bool \<Rightarrow> 'a word \<Rightarrow> 'a word" where
  "crc_in poly m c = crc_shift poly (c XOR of_bool m)"

abbreviation crc_shifts :: "'a::len word \<Rightarrow> nat \<Rightarrow> 'a word \<Rightarrow> 'a word" where
  "crc_shifts poly n \<equiv> crc_shift poly ^^ n"

text \<open>A whole byte at once.\<close>

definition crc_byte :: "'a::len word \<Rightarrow> 'a word \<Rightarrow> u8 \<Rightarrow> 'a word" where
  "crc_byte poly c b = crc_shifts poly 8 (c XOR ucast b)"

section \<open>Linearity\<close>

lemma xor_cancel_right [simp]: "x XOR z = y XOR z \<longleftrightarrow> x = (y :: 'a::len word)"
  by (metis xor.assoc xor_self_eq xor.right_neutral)

lemma xor_cancel_left [simp]: "z XOR x = z XOR y \<longleftrightarrow> x = (y :: 'a::len word)"
  by (simp add: xor.commute [of z])

lemma crc_shift_xor: "crc_shift poly (x XOR y) = crc_shift poly x XOR crc_shift poly y"
  by (rule bit_word_eqI) (auto simp: crc_shift_def bit_simps)

lemma crc_shift_0 [simp]: "crc_shift poly 0 = 0"
  by (simp add: crc_shift_def)

lemma crc_shifts_xor: "crc_shifts poly n (x XOR y) = crc_shifts poly n x XOR crc_shifts poly n y"
  by (induction n) (simp_all add: crc_shift_xor)

lemma crc_shifts_high: "(\<And>i. i < n \<Longrightarrow> \<not> bit x i) \<Longrightarrow> crc_shifts poly n x = drop_bit n x"
proof (induction n)
  case (Suc n)
  then have "\<not> bit (drop_bit n x) 0" by (simp add: bit_drop_bit_eq)
  then show ?case using Suc by (simp add: crc_shift_def)
qed simp

lemma crc_shift_inj:
  fixes poly :: "'a::len word"
  assumes "bit poly (LENGTH('a) - 1)"
  shows "inj (crc_shift poly)"
proof (rule injI)
  fix x y assume e: "crc_shift poly x = crc_shift poly y"
  have top: "bit (crc_shift poly z) (LENGTH('a) - 1) = bit z 0" for z
    using assms by (auto simp: crc_shift_def bit_simps dest: bit_imp_le_length)
  have b0: "bit x 0 = bit y 0" using e top by metis
  have "bit (drop_bit 1 x) i = bit (drop_bit 1 y) i" for i
    using arg_cong [OF e, of "\<lambda>z. bit z i"] b0 by (auto simp: crc_shift_def bit_xor_iff split: if_splits)
  then have "bit x (Suc i) = bit y (Suc i)" for i by (simp add: bit_drop_bit_eq)
  then have "bit x i = bit y i" for i using b0 by (cases i) auto
  then show "x = y" by (rule bit_eqI)
qed

lemma crc_shifts_inj:
  fixes poly :: "'a::len word"
  assumes "bit poly (LENGTH('a) - 1)"
  shows "crc_shifts poly n x = crc_shifts poly n y \<longleftrightarrow> x = y"
  by (induction n) (simp_all add: inj_eq [OF crc_shift_inj [OF assms]])

lemma xor_move: "x XOR z = y \<longleftrightarrow> x = y XOR (z :: 'a::len word)"
proof -
  have "(y XOR z) XOR z = y" by (simp add: xor.assoc)
  then show ?thesis using xor_cancel_right [of x z "y XOR z"] by simp
qed

section \<open>Bits, bytes and tables\<close>

lemma crc_in_xor: "crc_in poly m (c XOR x) = crc_in poly m c XOR crc_shift poly x"
  by (simp add: crc_in_def crc_shift_xor ac_simps)

text \<open>Shifting in the bits of a byte one by one is adding the byte and shifting.\<close>

lemma crc_in_bits:
  fixes c :: "'a::len word" and b :: u8
  assumes n: "n \<le> 8" "n \<le> LENGTH('a)"
  shows "fold (\<lambda>i. crc_in poly (bit b i)) [0..<n] c = crc_shifts poly n (c XOR ucast (take_bit n b))"
  using n
proof (induction n)
  case (Suc n)
  have s: "ucast (take_bit (Suc n) b) = (ucast (take_bit n b) XOR push_bit n (of_bool (bit b n)) :: 'a word)"
    by (rule bit_word_eqI) (auto simp: bit_simps less_Suc_eq)
  have "crc_shifts poly n (push_bit n (of_bool (bit b n))) = (of_bool (bit b n) :: 'a word)"
    using Suc.prems by (subst crc_shifts_high) (auto simp: bit_simps intro!: bit_word_eqI)
  then have "crc_shifts poly (Suc n) (c XOR ucast (take_bit (Suc n) b)) =
      crc_shift poly (crc_shifts poly n (c XOR ucast (take_bit n b)) XOR of_bool (bit b n))"
    by (simp add: s crc_shifts_xor ac_simps)
  then show ?case using Suc by (simp add: crc_in_def)
qed simp

lemma crc_byte_bits:
  fixes c :: "'a::len word"
  assumes "8 \<le> LENGTH('a)"
  shows "crc_byte poly c b = fold (\<lambda>i. crc_in poly (bit b i)) [0..<8] c"
  using crc_in_bits [of 8, where ?'a = 'a and poly = poly and c = c and b = b] assms
  by (simp add: crc_byte_def take_bit_word_eq_self)

text \<open>The step of a table-driven implementation.\<close>

lemma crc_byte_table:
  fixes c :: "'a::len word"
  shows "drop_bit 8 c XOR crc_shifts poly 8 ((c XOR ucast b) AND 0xFF) = crc_byte poly c b"
proof -
  let ?x = "c XOR ucast b :: 'a word"
  let ?h = "push_bit 8 (drop_bit 8 ?x)"
  have m: "(0xFF :: 'a word) = mask 8" by (simp add: mask_eq_exp_minus_1)
  have x: "?x = ?h XOR (?x AND 0xFF)"
    by (rule bit_word_eqI) (auto simp: m bit_simps)
  have "drop_bit 8 ?h = (drop_bit 8 c :: 'a word)"
    by (rule bit_word_eqI) (auto simp: bit_simps dest: bit_imp_le_length)
  moreover have "crc_shifts poly 8 ?h = drop_bit 8 ?h"
    by (rule crc_shifts_high) (auto simp: bit_simps)
  ultimately have "crc_shifts poly 8 ?x = drop_bit 8 c XOR crc_shifts poly 8 (?x AND 0xFF)"
    by (subst x) (simp add: crc_shifts_xor)
  then show ?thesis by (simp add: crc_byte_def)
qed

section \<open>What the check detects\<close>

lemma crc_bytes_shifts:
  fixes c :: "'a::len word"
  assumes "8 * length bs \<le> LENGTH('a)"
  shows "foldl (crc_byte poly) c bs = crc_shifts poly (8 * length bs) (c XOR le_word bs)"
  using assms
proof (induction bs arbitrary: c)
  case Nil
  then show ?case by (simp add: le_word_def)
next
  case (Cons b bs)
  let ?w = "le_word bs :: 'a word"
  have w: "le_word (b # bs) = (ucast b XOR push_bit 8 ?w :: 'a word)"
    by (rule bit_word_eqI) (auto simp: le_word_def bit_simps dest: bit_imp_le_length)
  have "drop_bit 8 (push_bit 8 ?w) = ?w"
    using Cons.prems by (intro bit_word_eqI) (auto simp: bit_simps bit_le_word)
  then have "crc_shifts poly 8 (push_bit 8 ?w) = ?w"
    by (subst crc_shifts_high) (auto simp: bit_simps)
  then have "crc_shifts poly 8 (c XOR le_word (b # bs)) = crc_byte poly c b XOR ?w"
    by (simp add: w crc_byte_def crc_shifts_xor ac_simps)
  moreover have "8 * length (b # bs) = 8 * length bs + 8" by simp
  ultimately have "crc_shifts poly (8 * length (b # bs)) (c XOR le_word (b # bs)) =
      crc_shifts poly (8 * length bs) (crc_byte poly c b XOR ?w)"
    by (simp only: funpow_add o_apply)
  then show ?case using Cons by simp
qed

lemma crc_bytes_inj:
  fixes c d :: "'a::len word"
  assumes "bit poly (LENGTH('a) - 1)"
  shows "foldl (crc_byte poly) c bs = foldl (crc_byte poly) d bs \<longleftrightarrow> c = d"
proof (induction bs arbitrary: c d)
  case (Cons b bs)
  then show ?case by (simp add: crc_byte_def crc_shifts_inj [OF assms])
qed simp

lemma le_word_inj:
  assumes "length bs = length cs" and "8 * length bs \<le> LENGTH('a::len)"
    and "le_word bs = (le_word cs :: 'a word)"
  shows "bs = cs"
proof (rule nth_equalityI [OF assms(1)])
  fix i assume i: "i < length bs"
  show "bs ! i = cs ! i"
  proof (rule bit_word_eqI)
    fix n assume "n < LENGTH(8)"
    then have n: "8 * i + n < 8 * length bs" "(8 * i + n) div 8 = i" "(8 * i + n) mod 8 = n" using i by auto
    show "bit (bs ! i) n = bit (cs ! i) n"
      using arg_cong [OF assms(3), of "\<lambda>w. bit w (8 * i + n)"] n assms(1,2) by (simp add: bit_le_word)
  qed
qed

text \<open>Changing bytes within the width of the register always changes the check.\<close>

lemma crc_detects_burst:
  fixes c :: "'a::len word"
  assumes "bit poly (LENGTH('a) - 1)" and "length f = length g" and "8 * length f \<le> LENGTH('a)" and "f \<noteq> g"
  shows "foldl (crc_byte poly) c (xs @ f @ ys) \<noteq> foldl (crc_byte poly) c (xs @ g @ ys)"
proof -
  have "foldl (crc_byte poly) d f \<noteq> foldl (crc_byte poly) d g" for d
  proof -
    have "le_word f \<noteq> (le_word g :: 'a word)" using le_word_inj assms(2-4) by blast
    then show ?thesis using assms by (simp add: crc_bytes_shifts crc_shifts_inj [OF assms(1)])
  qed
  then show ?thesis by (simp add: crc_bytes_inj [OF assms(1)])
qed

end
