(* ===== verification/Ethernet.thy ===== *)
theory Ethernet
  imports Fourb5b Crc
begin

text \<open>
  c_decoders/ethernet_c.c: Ethernet II frames on top of the 4B5B decoder. The fixed arrays of 2048
  entries are lists of the entries used; a step that would write behind the end of one has no
  result.
\<close>

section \<open>State\<close>

definition ethernet_ANN_HEADER :: int where "ethernet_ANN_HEADER = 0"
definition ethernet_ANN_DATA :: int where "ethernet_ANN_DATA = 1"

datatype eth_state = ETH_IDLE | ETH_WAIT_SFD | ETH_DST_MAC | ETH_SRC_MAC | ETH_ETH_TYPE | ETH_PAYLOAD

record ethernet_s =
  eth_st :: eth_state
  eth_out_ann :: int
  eth_out_proto :: int
  eth_out_binary :: int
  eth_jk_seen_j :: bool
  eth_jk_seen_k :: bool
  eth_frame_start :: u64
  eth_buffer :: "u8 list"
  eth_frame :: "u8 list"
  eth_header_start :: u64
  eth_payload_start :: u64
  eth_payload :: "u8 list"
  eth_blocks :: "(u64 \<times> u64) list"
  eth_ss_block :: u64
  eth_es_block :: u64

definition ethernet_reset :: ethernet_s where
  "ethernet_reset = \<lparr>eth_st = ETH_IDLE, eth_out_ann = 0, eth_out_proto = 0, eth_out_binary = 0,
     eth_jk_seen_j = False, eth_jk_seen_k = False, eth_frame_start = 0, eth_buffer = [], eth_frame = [],
     eth_header_start = 0, eth_payload_start = 0, eth_payload = [], eth_blocks = [],
     eth_ss_block = 0, eth_es_block = 0\<rparr>"

definition ethernet_reset_vars :: "ethernet_s \<Rightarrow> ethernet_s" where
  "ethernet_reset_vars s = s\<lparr>eth_st := ETH_IDLE, eth_jk_seen_j := False, eth_jk_seen_k := False,
     eth_frame_start := 0, eth_buffer := [], eth_frame := [], eth_payload := [], eth_blocks := []\<rparr>"

text \<open>Appending to an array of 2048 entries.\<close>

definition push2048 :: "'a list \<Rightarrow> 'a list \<Rightarrow> 'a list option" where
  "push2048 xs ys = (if length xs + length ys \<le> 2048 then Some (xs @ ys) else None)"

section \<open>EtherTypes\<close>

definition ethertype_table :: "(u16 \<times> string \<times> string) list" where
  "ethertype_table = [
     (0x0800, ''Internet Protocol Version 4'', ''IPv4''),
     (0x0806, ''Address Resolution Protocol'', ''ARP''),
     (0x0842, ''Wake-on-LAN'', ''WoL''),
     (0x22F0, ''Audio Video Transport Protocol'', ''AVTP''),
     (0x22F3, ''IETF TRILL Protocol'', ''TRILL''),
     (0x22EA, ''Stream Reservation Protocol'', ''SRP''),
     (0x6002, ''DEC MOP'', ''DEC MOP RC''),
     (0x6003, ''DECnet Phase IV'', ''DECnet''),
     (0x6004, ''DEC LAT'', ''DEC LAT''),
     (0x8035, ''Reverse Address Resolution Protocol'', ''RARP''),
     (0x809B, ''AppleTalk (Ethertalk)'', ''AppleTalk''),
     (0x80F3, ''AppleTalk Address Resolution Protocol'', ''AARP''),
     (0x8100, ''VLAN-tagged Frame'', ''VLAN''),
     (0x8102, ''Simple Loop Prevention Protocol'', ''SLPP''),
     (0x8103, ''Virtual Link Aggregation Control Protocol'', ''VLACP''),
     (0x8137, ''Internetwork Packet Exchange'', ''IPX''),
     (0x8204, ''QNX Qnet'', ''QNX Qnet''),
     (0x86DD, ''Internet Protocol Version 6'', ''IPv6''),
     (0x8808, ''Ethernet flow control'', ''Flow''),
     (0x8809, ''Link Aggregation Control Protocol'', ''LACP''),
     (0x8819, ''CobraNet'', ''CobraNet''),
     (0x8847, ''Multiprotocol Label Switching unicast'', ''MPLS''),
     (0x8848, ''Multiprotocol Label Switching multicast'', ''MPLS''),
     (0x8863, ''PPPoE Discovery Stage'', ''PPPoE''),
     (0x8864, ''PPPoE Session Stage'', ''PPPoE''),
     (0x887B, ''HomePlug 1.0 MME'', ''HomePlug''),
     (0x888E, ''Extensible Authentication Protocol'', ''EAP''),
     (0x8892, ''PROFINET Protocol'', ''PROFINET''),
     (0x889A, ''HyperSCSI (SCSI over Ethernet)'', ''SCSI''),
     (0x88A2, ''ATA over Ethernet'', ''ATA''),
     (0x88A4, ''EtherCAT Protocol'', ''EtherCAT''),
     (0x88A8, ''Service VLAN tag identifier'', ''VLAN''),
     (0x88AB, ''Ethernet Powerlink'', ''Powerlink''),
     (0x88B8, ''Generic Object Oriented Substation event'', ''GOOSE''),
     (0x88B9, ''Generic Substation Events Management Services'', ''GSE''),
     (0x88BA, ''Sampled Value Transmission'', ''SV''),
     (0x88BF, ''MikroTik RoMON'', ''RoMON''),
     (0x88CC, ''Link Layer Discovery Protocol'', ''LLDP''),
     (0x88CD, ''SERCOS III'', ''SERCOS''),
     (0x88E3, ''Media Redundancy Protocol'', ''MRP''),
     (0x88E5, ''IEEE 802.1AE MAC security'', ''MACsec''),
     (0x88E7, ''Provider Backbone Bridges'', ''PBB''),
     (0x88F7, ''Precision Time Protocol'', ''PTP''),
     (0x88F8, ''Network Controller Sideband Interface'', ''NC-SI''),
     (0x88FB, ''Parallel Redundancy Protocol'', ''PRP''),
     (0x8902, ''Connectivity Fault Management'', ''CFM''),
     (0x8906, ''Fibre Channel over Ethernet'', ''FCoE''),
     (0x8914, ''FCoE Initialization Protocol'', ''FCoE''),
     (0x8915, ''Remote Direct Memory Access'', ''RDMA''),
     (0x891D, ''TTEthernet Protocol Control Frame'', ''TTE''),
     (0x893A, ''IEEE 1905.1 Protocol'', ''1905.1''),
     (0x892F, ''High-availability Seamless Redundancy'', ''HSR''),
     (0x9000, ''Ethernet Configuration Testing Protocol'', ''ECTP''),
     (0x9100, ''VLAN-tagged Frame'', ''VLAN''),
     (0xF1C1, ''Frame Replication and Elimination for Reliability'', ''FRER'')]"

definition find_ethertype :: "u16 \<Rightarrow> (string \<times> string) option" where
  "find_ethertype ty = map_option snd (find (\<lambda>e. fst e = ty) ethertype_table)"

section \<open>Frame check sequence\<close>

definition crc32_poly :: u32 where
  "crc32_poly = 0xEDB88320"

definition crc32_init :: "u32 list" where
  "crc32_init = map (\<lambda>i. ((\<lambda>crc. drop_bit 1 crc XOR (if crc AND 1 \<noteq> 0 then crc32_poly else 0)) ^^ 8) (of_nat i)) [0..<256]"

definition crc32_calc :: "u8 list \<Rightarrow> u32" where
  "crc32_calc buf = foldl (\<lambda>crc b. drop_bit 8 crc XOR crc32_init ! unat ((crc XOR ucast b) AND 0xFF)) 0xFFFFFFFF buf
     XOR 0xFFFFFFFF"

section \<open>Packet capture\<close>

definition pcap_headers :: "ethernet_s \<Rightarrow> out_call list" where
  "pcap_headers s =
     [O_bin 0 0 (eth_out_binary s) 0 (le_bytes (0x0A0D0D0A :: u32) @ le_bytes (28 :: u32) @ le_bytes (0x1A2B3C4D :: u32)
        @ le_bytes (1 :: u16) @ le_bytes (0 :: u16) @ le_bytes (- 1 :: u64) @ le_bytes (28 :: u32)),
      O_bin 0 0 (eth_out_binary s) 0 (le_bytes (1 :: u32) @ le_bytes (20 :: u32) @ le_bytes (1 :: u16)
        @ le_bytes (0 :: u16) @ le_bytes (1522 :: u32) @ le_bytes (20 :: u32))]"

definition pcap_append :: "ethernet_s \<Rightarrow> out_call list" where
  "pcap_append s =
     (let frame_len = length (eth_frame s);
          pad_len = (4 - frame_len mod 4) mod 4;
          block_len = 16 + frame_len + pad_len
      in [O_bin 0 0 (eth_out_binary s) 0 (le_bytes (3 :: u32) @ le_bytes (of_nat block_len :: u32)
            @ le_bytes (of_nat frame_len :: u32) @ eth_frame s @ replicate pad_len 0
            @ le_bytes (of_nat block_len :: u32))])"

section \<open>Bytes of a frame\<close>

definition mac_text :: "u8 list \<Rightarrow> string" where
  "mac_text bs = concat (map (\<lambda>i. (if i = 0 then [] else '':'') @ fmt_num 16 2 (unat (bs ! i))) [0..<6])"

text \<open>The start frame delimiter ends the preamble.\<close>

definition ethernet_sfd :: "u64 \<Rightarrow> ethernet_s \<Rightarrow> ethernet_s \<times> out_call list" where
  "ethernet_sfd end_sample s =
     (let mid = end_sample - (end_sample - eth_frame_start s) div of_nat (length (eth_buffer s))
      in (s\<lparr>eth_buffer := [], eth_header_start := end_sample, eth_ss_block := end_sample,
             eth_es_block := end_sample, eth_st := ETH_DST_MAC\<rparr>,
          [O_put (eth_frame_start s) mid (eth_out_ann s) ethernet_ANN_HEADER [''Preamble''],
           O_put mid end_sample (eth_out_ann s) ethernet_ANN_HEADER [''Start Frame Delimiter'', ''SFD'']]))"

text \<open>A header field is complete: its annotation, and its bytes go to the frame.\<close>

definition ethernet_field :: "u64 \<Rightarrow> string list \<Rightarrow> eth_state \<Rightarrow> ethernet_s \<Rightarrow> (ethernet_s \<times> out_call list) option" where
  "ethernet_field end_sample txt nxt s = (case push2048 (eth_frame s) (eth_buffer s) of
      None \<Rightarrow> None
    | Some fr \<Rightarrow> Some (s\<lparr>eth_frame := fr, eth_buffer := [], eth_es_block := end_sample, eth_ss_block := end_sample,
          eth_st := nxt\<rparr>,
        [O_put (eth_ss_block s) end_sample (eth_out_ann s) ethernet_ANN_HEADER txt]))"

definition dst_mac_text :: "u8 list \<Rightarrow> string list" where
  "dst_mac_text buf =
     [snprintf 64 (''Destination MAC: '' @ mac_text buf @ (if take 6 buf = replicate 6 0xFF then '' (Broadcast)'' else [])),
      snprintf 40 (''Dst MAC: '' @ mac_text buf)]"

definition src_mac_text :: "u8 list \<Rightarrow> string list" where
  "src_mac_text buf = [snprintf 64 (''Source MAC:    '' @ mac_text buf), snprintf 40 (''Src MAC: '' @ mac_text buf)]"

definition ethertype_text :: "u8 list \<Rightarrow> string list" where
  "ethertype_text buf =
     (let et = push_bit 8 (ucast (buf ! 0)) OR ucast (buf ! 1) :: u16
      in case find_ethertype et of
           Some (l, sh) \<Rightarrow> [snprintf 80 (''EtherType: '' @ l @ '' (0x'' @ fmt_num 16 4 (unat et) @ '')''),
                            snprintf 64 (''EtherType: '' @ sh @ '' (0x'' @ fmt_num 16 4 (unat et) @ '')'')]
         | None \<Rightarrow> [''EtherType: UNKNOWN'', ''UNKNOWN''])"

definition ethernet_payload_byte :: "u8 \<Rightarrow> u64 \<Rightarrow> u64 \<Rightarrow> ethernet_s \<Rightarrow> (ethernet_s \<times> out_call list) option" where
  "ethernet_payload_byte byte_val start_sample end_sample s = (case push2048 (eth_payload s) [byte_val] of
      None \<Rightarrow> None
    | Some pl \<Rightarrow> Some (s\<lparr>eth_payload := pl,
          eth_blocks := (if length (eth_blocks s) < 2048 then eth_blocks s @ [(start_sample, end_sample)] else eth_blocks s)\<rparr>,
        [O_put start_sample end_sample (eth_out_ann s) ethernet_ANN_DATA [snprintf 8 (''0x'' @ fmt_num 16 2 (unat byte_val))]]))"

definition ethernet_handle_data_byte ::
    "u8 \<Rightarrow> u64 \<Rightarrow> u64 \<Rightarrow> ethernet_s \<Rightarrow> (ethernet_s \<times> out_call list) option" where
  "ethernet_handle_data_byte byte_val start_sample end_sample s =
     (if eth_st s = ETH_IDLE then Some (s, [])
      else if eth_st s = ETH_PAYLOAD then ethernet_payload_byte byte_val start_sample end_sample s
      else case push2048 (eth_buffer s) [byte_val] of
        None \<Rightarrow> None
      | Some buf \<Rightarrow>
          (let s1 = s\<lparr>eth_buffer := buf\<rparr>
           in case eth_st s of
                ETH_WAIT_SFD \<Rightarrow> Some (if byte_val = 0xD5 then ethernet_sfd end_sample s1 else (s1, []))
              | ETH_DST_MAC \<Rightarrow> if length buf = 6
                  then ethernet_field end_sample (dst_mac_text buf) ETH_SRC_MAC s1 else Some (s1, [])
              | ETH_SRC_MAC \<Rightarrow> if length buf = 6
                  then ethernet_field end_sample (src_mac_text buf) ETH_ETH_TYPE s1 else Some (s1, [])
              | _ \<Rightarrow> if length buf = 2
                  then map_option (\<lambda>(s2, out). (s2\<lparr>eth_payload_start := end_sample\<rparr>, out))
                    (ethernet_field end_sample (ethertype_text buf) ETH_PAYLOAD s1)
                  else Some (s1, [])))"

section \<open>Messages\<close>

text \<open>The end of the frame: the check, the capture record, and the payload without the check sequence.\<close>

definition ethernet_frame_end :: "u64 \<Rightarrow> u64 \<Rightarrow> ethernet_s \<Rightarrow> (ethernet_s \<times> out_call list) option" where
  "ethernet_frame_end start_sample end_sample s = (case push2048 (eth_frame s) (eth_payload s) of
      None \<Rightarrow> None
    | Some fr \<Rightarrow>
        (let s1 = s\<lparr>eth_frame := fr\<rparr>;
             fcs_str = (if crc32_calc fr = 0x2144DF1C then ''OK'' else ''FAILED'');
             fcs_start = start_sample - (end_sample - start_sample) * 8;
             fcs_end = end_sample - (end_sample - start_sample);
             ann = [O_put fcs_start fcs_end (eth_out_ann s) ethernet_ANN_HEADER
                      [snprintf 64 (''Frame Check Sequence: '' @ fcs_str), snprintf 32 (''FCS: '' @ fcs_str)]];
             plen = unat (of_nat (length (eth_payload s) - 4) :: u16);
             msg = (if 0 \<le> eth_out_proto s \<and> 4 \<le> length (eth_payload s)
                then [O_proto (eth_payload_start s) fcs_start (eth_out_proto s) ''PAYLOAD''
                        [C_BYTES (take plen (eth_payload s)),
                         C_BYTES (concat (map (\<lambda>(ss, es). le_bytes ss @ le_bytes es) (eth_blocks s)))]]
                else [])
         in Some (ethernet_reset_vars s1, ann @ pcap_append s1 @ msg)))"

definition ethernet_decode_upper :: "ethernet_s upper_step" where
  "ethernet_decode_upper m s =
     (if um_cmd m = ''J'' then Some (s\<lparr>eth_jk_seen_j := True, eth_frame_start := um_ss m\<rparr>, [])
      else if um_cmd m = ''K''
        then Some ((if eth_jk_seen_j s then s\<lparr>eth_st := ETH_WAIT_SFD\<rparr> else ethernet_reset_vars s)\<lparr>eth_jk_seen_k := True\<rparr>, [])
      else if um_cmd m = ''T'' then ethernet_frame_end (um_ss m) (um_es m) s
      else if um_cmd m = ''R'' then Some (ethernet_reset_vars s, [])
      else if um_cmd m = ''DATA''
        then ethernet_handle_data_byte (case um_fields m of C_U8 b # _ \<Rightarrow> b | _ \<Rightarrow> 0) (um_ss m) (um_es m) s
      else Some (s, []))"

text \<open>\<^verbatim>\<open>start()\<close> registers the outputs and sends the header blocks of the capture file.\<close>

definition put_bins :: "inst_ptr \<Rightarrow> out_call list \<Rightarrow> 'p srd_world \<Rightarrow> 'p srd_world" where
  "put_bins p = fold (\<lambda>c w. case c of
      O_bin ss es n cls bs \<Rightarrow> snd (c_decoder_put_binary (Some p) ss es n cls (of_nat (length bs)) bs w) | _ \<Rightarrow> w)"

definition ethernet_start :: "inst_ptr \<Rightarrow> ethernet_s srd_world \<Rightarrow> ethernet_s srd_world" where
  "ethernet_start p w =
     (let (ann, w1) = c_decoder_register_output (Some p) SRD_OUTPUT_ANN (Some ''ethernet'') w;
          (proto, w2) = c_decoder_register_output (Some p) SRD_OUTPUT_PROTO (Some ''ethernet'') w1;
          (bin, w3) = c_decoder_register_output (Some p) SRD_OUTPUT_BINARY (Some ''ethernet'') w2;
          set_out = (\<lambda>s. s\<lparr>eth_out_ann := ann, eth_out_proto := proto, eth_out_binary := bin\<rparr>);
          w4 = upd_inst p (\<lambda>d. d\<lparr>user_data := map_option set_out (user_data d)\<rparr>) w3
      in case inst_at w4 p of None \<Rightarrow> w4
         | Some d \<Rightarrow> (case user_data d of None \<Rightarrow> w4 | Some s \<Rightarrow> put_bins p (pcap_headers s) w4))"

section \<open>The frame check\<close>

lemma crc32_step: "drop_bit 1 crc XOR (if crc AND 1 \<noteq> 0 then crc32_poly else 0) = crc_shift crc32_poly crc"
  by (simp add: crc_shift_def and_one_eq odd_iff_mod_2_eq_one bit_0)

lemma crc32_table_entry: "unat x < 256 \<Longrightarrow> crc32_init ! unat x = crc_shifts crc32_poly 8 x"
  unfolding crc32_init_def crc32_step by simp

lemma crc32_calc_bytes: "crc32_calc buf = foldl (crc_byte crc32_poly) 0xFFFFFFFF buf XOR 0xFFFFFFFF"
proof -
  have e: "drop_bit 8 crc XOR crc32_init ! unat ((crc XOR ucast b) AND 0xFF) = crc_byte crc32_poly crc b" for crc b
  proof -
    have "unat ((crc XOR ucast b) AND 0xFF) \<le> unat (0xFF :: u32)" unfolding word_le_nat_alt [symmetric] by (rule word_and_le1)
    then show ?thesis by (simp add: crc32_table_entry crc_byte_table)
  qed
  show ?thesis by (simp only: crc32_calc_def e)
qed

lemma crc32_poly_top: "bit crc32_poly (LENGTH(32) - 1)"
  by (simp add: crc32_poly_def)

lemma crc_shifts_8: "crc_shifts poly 8 x = crc_shift poly (crc_shift poly (crc_shift poly (crc_shift poly
    (crc_shift poly (crc_shift poly (crc_shift poly (crc_shift poly x)))))))"
  by (simp add: eval_nat_numeral)

lemma crc32_residue: "crc_shifts crc32_poly 32 0xFFFFFFFF = 0x2144DF1C XOR 0xFFFFFFFF"
proof -
  have e: "crc_shifts crc32_poly 8 0xFFFFFFFF = 0x2dfd1072" "crc_shifts crc32_poly 8 0x2dfd1072 = 0xbe26ed00"
    "crc_shifts crc32_poly 8 0xbe26ed00 = 0xbe26ed" "crc_shifts crc32_poly 8 0xbe26ed = 0x2144DF1C XOR 0xFFFFFFFF"
    by (simp_all add: crc_shifts_8 crc_shift_def crc32_poly_def)
  have "(32 :: nat) = 8 + (8 + (8 + 8))" by simp
  then show ?thesis by (simp only: funpow_add o_apply e)
qed

text \<open>
  C20: The frame check of the decoder accepts a frame exactly when its last four bytes are the
  CRC of the bytes before, low byte first: comparing the CRC of the whole frame with the constant
  0x2144DF1C is the same as computing the CRC of the frame and comparing it with the one received.
\<close>

theorem ethernet_fcs_check:
  "crc32_calc (d @ [a, b, c, e]) = 0x2144DF1C \<longleftrightarrow> [a, b, c, e] = le_bytes (crc32_calc d)"
proof -
  let ?c = "foldl (crc_byte crc32_poly) 0xFFFFFFFF d" and ?f = "[a, b, c, e]"
  let ?s = "crc_shifts crc32_poly 32"
  have "foldl (crc_byte crc32_poly) ?c ?f = ?s (?c XOR le_word ?f)"
    using crc_bytes_shifts [of ?f crc32_poly ?c] by simp
  then have "crc32_calc (d @ ?f) = ?s (?c XOR le_word ?f) XOR 0xFFFFFFFF" by (simp only: crc32_calc_bytes foldl_append)
  then have "crc32_calc (d @ ?f) = 0x2144DF1C \<longleftrightarrow> ?s (?c XOR le_word ?f) = ?s 0xFFFFFFFF"
    by (simp only: xor_move crc32_residue)
  also have "\<dots> \<longleftrightarrow> ?c XOR le_word ?f = 0xFFFFFFFF" by (rule crc_shifts_inj [OF crc32_poly_top])
  also have "\<dots> \<longleftrightarrow> le_word ?f = crc32_calc d"
    unfolding crc32_calc_bytes by (subst xor.commute) (simp only: xor_move xor.commute)
  also have "\<dots> \<longleftrightarrow> ?f = le_bytes (crc32_calc d)"
  proof
    assume "le_word ?f = crc32_calc d"
    then have "le_word ?f = (le_word (le_bytes (crc32_calc d)) :: u32)" by (simp add: le_word_bytes)
    then show "?f = le_bytes (crc32_calc d)" by (intro le_word_inj [where ?'a = 32]) simp_all
  next
    assume "?f = le_bytes (crc32_calc d)"
    then show "le_word ?f = crc32_calc d" by (simp add: le_word_bytes)
  qed
  finally show ?thesis .
qed

text \<open>Every error that lies within four consecutive bytes is found.\<close>

lemma crc32_detects_burst:
  "length f = length g \<Longrightarrow> length f \<le> 4 \<Longrightarrow> f \<noteq> g \<Longrightarrow> crc32_calc (xs @ f @ ys) \<noteq> crc32_calc (xs @ g @ ys)"
  using crc_detects_burst [OF crc32_poly_top, of f g] by (simp add: crc32_calc_bytes)

section \<open>Receiving a frame\<close>

lemma data_msgs_Cons: "data_msgs ps pe k (b # bs) = span ps pe k 10 ''DATA'' [C_U8 b, C_U8 0] # data_msgs ps pe (k + 10) bs"
  by (simp add: data_msgs_def map_upt_Suc ac_simps del: upt_Suc)

lemma data_msgs_Nil [simp]: "data_msgs ps pe k [] = []"
  by (simp add: data_msgs_def)

lemma data_msgs_append: "data_msgs ps pe k (xs @ ys) = data_msgs ps pe k xs @ data_msgs ps pe (k + 10 * length xs) ys"
  by (induction xs arbitrary: k) (simp_all add: data_msgs_Cons ac_simps)

lemma span_simps [simp]:
  "um_cmd (span ps pe k n cmd fs) = cmd" "um_fields (span ps pe k n cmd fs) = fs"
  "um_ss (span ps pe k n cmd fs) = ps k" "um_es (span ps pe k n cmd fs) = pe (k + (n - 1))"
  by (simp_all add: span_def)

lemma eth_data: "ethernet_decode_upper (span ps pe k n ''DATA'' [C_U8 b, C_U8 0]) s =
    ethernet_handle_data_byte b (ps k) (pe (k + (n - 1))) s"
  by (simp add: ethernet_decode_upper_def)

abbreviation eth_run :: "upper_msg list \<Rightarrow> ethernet_s \<Rightarrow> (ethernet_s \<times> out_call list) option" where
  "eth_run \<equiv> run_upper ethernet_decode_upper"

lemma eth_run_preamble:
  fixes ps pe :: "nat \<Rightarrow> u64"
  assumes "eth_st s = ETH_WAIT_SFD" and "0xD5 \<notin> set pre" and "length (eth_buffer s) + length pre < 2048"
  shows "eth_run (data_msgs ps pe k (pre @ [0xD5])) s =
    Some (ethernet_sfd (pe (k + 10 * length pre + 9)) (s\<lparr>eth_buffer := eth_buffer s @ pre @ [0xD5]\<rparr>))"
  using assms
proof (induction pre arbitrary: s k)
  case Nil
  then show ?case
    by (simp add: data_msgs_Cons eth_data ethernet_handle_data_byte_def push2048_def split: prod.split)
next
  case (Cons b pre)
  let ?t = "s\<lparr>eth_buffer := eth_buffer s @ [b]\<rparr>"
  have "ethernet_handle_data_byte b (ps k) (pe (k + 9)) s = Some (?t, [])"
    using Cons.prems by (simp add: ethernet_handle_data_byte_def push2048_def)
  moreover have "eth_run (data_msgs ps pe (k + 10) (pre @ [0xD5])) ?t =
      Some (ethernet_sfd (pe (k + 10 + 10 * length pre + 9)) (?t\<lparr>eth_buffer := eth_buffer ?t @ pre @ [0xD5]\<rparr>))"
    using Cons.prems by (intro Cons.IH) simp_all
  ultimately show ?case by (simp add: data_msgs_Cons eth_data ac_simps split: prod.split)
qed

text \<open>The three header fields.\<close>

lemma eth_run_field:
  fixes ps pe :: "nat \<Rightarrow> u64"
  assumes step: "\<And>b ss es t. eth_st t = st \<Longrightarrow> length (eth_buffer t) < n \<Longrightarrow> ethernet_handle_data_byte b ss es t =
      (let t1 = t\<lparr>eth_buffer := eth_buffer t @ [b]\<rparr>
       in if length (eth_buffer t) + 1 = n then ethernet_field es (txt (eth_buffer t @ [b])) nxt t1 else Some (t1, []))"
    and st: "eth_st s = st"
    and b: "length (eth_buffer s) + length bs = n" "bs \<noteq> []" and f: "length (eth_frame s) + n \<le> 2048"
  shows "eth_run (data_msgs ps pe k bs) s = Some (s\<lparr>eth_frame := eth_frame s @ eth_buffer s @ bs, eth_buffer := [],
      eth_es_block := pe (k + (10 * length bs - 1)), eth_ss_block := pe (k + (10 * length bs - 1)), eth_st := nxt\<rparr>,
    [O_put (eth_ss_block s) (pe (k + (10 * length bs - 1))) (eth_out_ann s) ethernet_ANN_HEADER (txt (eth_buffer s @ bs))])"
  using st b f
proof (induction bs arbitrary: s k)
  case (Cons b bs)
  have h: "ethernet_handle_data_byte b (ps k) (pe (k + 9)) s =
      (let t1 = s\<lparr>eth_buffer := eth_buffer s @ [b]\<rparr>
       in if length (eth_buffer s) + 1 = n then ethernet_field (pe (k + 9)) (txt (eth_buffer s @ [b])) nxt t1 else Some (t1, []))"
    using Cons.prems by (intro step) auto
  show ?case
  proof (cases "bs = []")
    case True
    then have "length (eth_buffer s) + 1 = n" using Cons.prems by simp
    with True h Cons.prems(4) show ?thesis
      by (simp add: data_msgs_Cons eth_data push2048_def ethernet_field_def Let_def)
  next
    case False
    define e where "e = k + (10 * length (b # bs) - 1)"
    let ?t = "s\<lparr>eth_buffer := eth_buffer s @ [b]\<rparr>"
    have l: "length (eth_buffer s) + 1 \<noteq> n" using Cons.prems(2) False by (cases bs) auto
    have e: "k + 10 + (10 * length bs - 1) = e" using False by (cases bs) (auto simp: e_def)
    have "eth_run (data_msgs ps pe (k + 10) bs) ?t = Some (?t\<lparr>eth_frame := eth_frame ?t @ eth_buffer ?t @ bs, eth_buffer := [],
        eth_es_block := pe (k + 10 + (10 * length bs - 1)), eth_ss_block := pe (k + 10 + (10 * length bs - 1)), eth_st := nxt\<rparr>,
        [O_put (eth_ss_block ?t) (pe (k + 10 + (10 * length bs - 1))) (eth_out_ann ?t) ethernet_ANN_HEADER (txt (eth_buffer ?t @ bs))])"
      using Cons.prems False by (intro Cons.IH) auto
    then show ?thesis using l h unfolding e e_def [symmetric] by (simp add: data_msgs_Cons eth_data Let_def)
  qed
qed simp

lemma eth_dst_step:
  assumes "eth_st t = ETH_DST_MAC" and "length (eth_buffer t) < 6"
  shows "ethernet_handle_data_byte b ss es t = (let t1 = t\<lparr>eth_buffer := eth_buffer t @ [b]\<rparr>
     in if length (eth_buffer t) + 1 = 6 then ethernet_field es (dst_mac_text (eth_buffer t @ [b])) ETH_SRC_MAC t1 else Some (t1, []))"
  using assms by (simp add: ethernet_handle_data_byte_def push2048_def Let_def)

lemma eth_src_step:
  assumes "eth_st t = ETH_SRC_MAC" and "length (eth_buffer t) < 6"
  shows "ethernet_handle_data_byte b ss es t = (let t1 = t\<lparr>eth_buffer := eth_buffer t @ [b]\<rparr>
     in if length (eth_buffer t) + 1 = 6 then ethernet_field es (src_mac_text (eth_buffer t @ [b])) ETH_ETH_TYPE t1 else Some (t1, []))"
  using assms by (simp add: ethernet_handle_data_byte_def push2048_def Let_def)

lemma eth_run_type:
  fixes ps pe :: "nat \<Rightarrow> u64"
  assumes "eth_st s = ETH_ETH_TYPE" and "eth_buffer s = []" and "length ty = 2" and "length (eth_frame s) + 2 \<le> 2048"
  shows "eth_run (data_msgs ps pe k ty) s = Some (s\<lparr>eth_frame := eth_frame s @ ty, eth_buffer := [],
      eth_es_block := pe (k + 19), eth_ss_block := pe (k + 19), eth_st := ETH_PAYLOAD, eth_payload_start := pe (k + 19)\<rparr>,
    [O_put (eth_ss_block s) (pe (k + 19)) (eth_out_ann s) ethernet_ANN_HEADER (ethertype_text ty)])"
proof -
  obtain a b where ty: "ty = [a, b]" using assms(3) by (auto simp: length_Suc_conv eval_nat_numeral)
  show ?thesis
    using assms by (simp add: ty data_msgs_Cons eth_data ethernet_handle_data_byte_def push2048_def ethernet_field_def add.commute)
qed

text \<open>The payload, with the first and last sample of each byte.\<close>

definition data_blocks :: "(nat \<Rightarrow> u64) \<Rightarrow> (nat \<Rightarrow> u64) \<Rightarrow> nat \<Rightarrow> nat \<Rightarrow> (u64 \<times> u64) list" where
  "data_blocks ps pe k n = map (\<lambda>i. (ps (k + 10 * i), pe (k + 10 * i + 9))) [0..<n]"

lemma data_blocks_Suc: "data_blocks ps pe k (Suc n) = (ps k, pe (k + 9)) # data_blocks ps pe (k + 10) n"
  by (simp add: data_blocks_def map_upt_Suc ac_simps del: upt_Suc)

definition payload_anns :: "(nat \<Rightarrow> u64) \<Rightarrow> (nat \<Rightarrow> u64) \<Rightarrow> nat \<Rightarrow> int \<Rightarrow> u8 list \<Rightarrow> out_call list" where
  "payload_anns ps pe k out bs = map (\<lambda>i. O_put (ps (k + 10 * i)) (pe (k + 10 * i + 9)) out ethernet_ANN_DATA
     [snprintf 8 (''0x'' @ fmt_num 16 2 (unat (bs ! i)))]) [0..<length bs]"

lemma payload_anns_Cons: "payload_anns ps pe k out (b # bs) =
    O_put (ps k) (pe (k + 9)) out ethernet_ANN_DATA [snprintf 8 (''0x'' @ fmt_num 16 2 (unat b))] # payload_anns ps pe (k + 10) out bs"
  by (simp add: payload_anns_def map_upt_Suc ac_simps del: upt_Suc)

lemma eth_run_payload:
  fixes ps pe :: "nat \<Rightarrow> u64"
  assumes "eth_st s = ETH_PAYLOAD" and "length (eth_payload s) + length bs \<le> 2048"
    and "length (eth_blocks s) = length (eth_payload s)"
  shows "eth_run (data_msgs ps pe k bs) s = Some (s\<lparr>eth_payload := eth_payload s @ bs,
      eth_blocks := eth_blocks s @ data_blocks ps pe k (length bs)\<rparr>, payload_anns ps pe k (eth_out_ann s) bs)"
  using assms
proof (induction bs arbitrary: s k)
  case Nil
  then show ?case by (simp add: data_blocks_def payload_anns_def)
next
  case (Cons b bs)
  let ?t = "s\<lparr>eth_payload := eth_payload s @ [b], eth_blocks := eth_blocks s @ [(ps k, pe (k + 9))]\<rparr>"
  have "ethernet_handle_data_byte b (ps k) (pe (k + 9)) s = Some (?t,
      [O_put (ps k) (pe (k + 9)) (eth_out_ann s) ethernet_ANN_DATA [snprintf 8 (''0x'' @ fmt_num 16 2 (unat b))]])"
    using Cons.prems by (simp add: ethernet_handle_data_byte_def ethernet_payload_byte_def push2048_def)
  then show ?case
    using Cons.IH [of ?t "k + 10"] Cons.prems
    by (simp add: data_msgs_Cons eth_data data_blocks_Suc payload_anns_Cons)
qed

text \<open>The message to the decoder on top, for a frame whose first byte has bit \<open>k\<close> as its first.\<close>

definition payload_msg :: "(nat \<Rightarrow> u64) \<Rightarrow> (nat \<Rightarrow> u64) \<Rightarrow> nat \<Rightarrow> u8 list \<Rightarrow> upper_msg" where
  "payload_msg ps pe k pl =
     (let t = k + 10 * (length pl + 4)
      in \<lparr>um_ss = pe (k - 1), um_es = ps t - (pe (t + 4) - ps t) * 8, um_cmd = ''PAYLOAD'',
          um_fields = [C_BYTES pl, C_BYTES (concat (map (\<lambda>(ss, es). le_bytes ss @ le_bytes es) (data_blocks ps pe k (length pl + 4))))]\<rparr>)"

definition eth_ready :: "ethernet_s \<Rightarrow> bool" where
  "eth_ready s \<longleftrightarrow> eth_buffer s = [] \<and> eth_frame s = [] \<and> eth_payload s = [] \<and> eth_blocks s = [] \<and> 0 \<le> eth_out_proto s"

definition fcs_verdict :: "bool \<Rightarrow> string list" where
  "fcs_verdict ok = (if ok then [''Frame Check Sequence: OK'', ''FCS: OK''] else [''Frame Check Sequence: FAILED'', ''FCS: FAILED''])"

text \<open>The annotations of the header up to the EtherType say nothing to the decoders on top.\<close>

lemma eth_run_header:
  fixes ps pe :: "nat \<Rightarrow> u64"
  assumes s: "eth_ready s" "eth_st s = ETH_WAIT_SFD" and pre: "0xD5 \<notin> set pre" "length pre < 2048"
    and len: "length dst = 6" "length src = 6" "length ty = 2"
  shows "\<exists>s' out. eth_run (data_msgs ps pe k (pre @ [0xD5] @ dst @ src @ ty)) s = Some (s', out)
    \<and> eth_frame s' = dst @ src @ ty \<and> eth_st s' = ETH_PAYLOAD \<and> eth_payload s' = [] \<and> eth_blocks s' = []
    \<and> eth_out_proto s' = eth_out_proto s \<and> eth_out_ann s' = eth_out_ann s
    \<and> eth_payload_start s' = pe (k + 10 * length pre + 149) \<and> messages_on (eth_out_proto s) out = []"
proof -
  let ?m = "messages_on (eth_out_proto s)"
  note simps = eth_ready_def ethernet_sfd_def Let_def
  obtain s1 o1 where 1: "eth_run (data_msgs ps pe k (pre @ [0xD5])) s = Some (s1, o1)" "eth_st s1 = ETH_DST_MAC"
    "eth_buffer s1 = []" "eth_frame s1 = []" "eth_payload s1 = []" "eth_blocks s1 = []"
    "eth_out_proto s1 = eth_out_proto s" "eth_out_ann s1 = eth_out_ann s" "?m o1 = []"
    using eth_run_preamble [OF s(2) pre(1), of ps pe k] pre(2) s(1) by (auto simp: simps)
  let ?k1 = "k + 10 * (length pre + 1)"
  obtain s2 o2 where 2: "eth_run (data_msgs ps pe ?k1 dst) s1 = Some (s2, o2)" "eth_st s2 = ETH_SRC_MAC"
    "eth_buffer s2 = []" "eth_frame s2 = dst" "eth_payload s2 = []" "eth_blocks s2 = []"
    "eth_out_proto s2 = eth_out_proto s" "eth_out_ann s2 = eth_out_ann s" "?m o2 = []"
    using eth_run_field [OF eth_dst_step 1(2), of dst ps pe ?k1] len(1) 1 by fastforce
  let ?k2 = "?k1 + 10 * length dst"
  obtain s3 o3 where 3: "eth_run (data_msgs ps pe ?k2 src) s2 = Some (s3, o3)" "eth_st s3 = ETH_ETH_TYPE"
    "eth_buffer s3 = []" "eth_frame s3 = dst @ src" "eth_payload s3 = []" "eth_blocks s3 = []"
    "eth_out_proto s3 = eth_out_proto s" "eth_out_ann s3 = eth_out_ann s" "?m o3 = []"
    using eth_run_field [OF eth_src_step 2(2), of src ps pe ?k2] len(1,2) 2 by fastforce
  let ?k3 = "?k2 + 10 * length src"
  obtain s4 o4 where 4: "eth_run (data_msgs ps pe ?k3 ty) s3 = Some (s4, o4)" "eth_st s4 = ETH_PAYLOAD"
    "eth_frame s4 = dst @ src @ ty" "eth_payload s4 = []" "eth_blocks s4 = []"
    "eth_out_proto s4 = eth_out_proto s" "eth_out_ann s4 = eth_out_ann s"
    "eth_payload_start s4 = pe (?k3 + 19)" "?m o4 = []"
    using eth_run_type [OF 3(2,3) len(3), of ps pe ?k3] len 3 by fastforce
  note a = run_upper_appendI [OF 1(1) run_upper_appendI [OF 2(1) run_upper_appendI [OF 3(1) 4(1)]]]
  have "eth_run (data_msgs ps pe k ((pre @ [0xD5]) @ dst @ src @ ty)) s = Some (s4, o1 @ o2 @ o3 @ o4)"
    using a unfolding data_msgs_append by simp
  moreover have "?k3 + 19 = k + 10 * length pre + 149" using len by simp
  then have "eth_payload_start s4 = pe (k + 10 * length pre + 149)" using 4(8) by (simp only:)
  moreover have "?m (o1 @ o2 @ o3 @ o4) = []" using 1(9) 2(9) 3(9) 4(9) by simp
  ultimately show ?thesis using 4(2-7) unfolding append_assoc by blast
qed

text \<open>A frame up to its payload, and its end.\<close>

definition head_msgs :: "(nat \<Rightarrow> u64) \<Rightarrow> (nat \<Rightarrow> u64) \<Rightarrow> nat \<Rightarrow> u8 list \<Rightarrow> upper_msg list" where
  "head_msgs ps pe k h = [span ps pe k 5 ''J'' [C_U8 24, C_U8 1], span ps pe (k + 5) 5 ''K'' [C_U8 17, C_U8 1]]
     @ data_msgs ps pe (k + 10) h"

definition tail_msgs :: "(nat \<Rightarrow> u64) \<Rightarrow> (nat \<Rightarrow> u64) \<Rightarrow> nat \<Rightarrow> upper_msg list" where
  "tail_msgs ps pe k = [span ps pe k 5 ''T'' [C_U8 13, C_U8 1], span ps pe (k + 5) 5 ''R'' [C_U8 7, C_U8 1]]"

lemma frame_msgs_split:
  assumes "length dst = 6" "length src = 6" "length ty = 2" "length fcs = 4"
    and "kp = k + 10 * length pre + 160" and "kt = kp + 10 * (length pl + 4)"
  shows "frame_msgs ps pe k (pre @ [0xD5] @ dst @ src @ ty @ pl @ fcs) =
    head_msgs ps pe k (pre @ [0xD5] @ dst @ src @ ty) @ data_msgs ps pe kp (pl @ fcs) @ tail_msgs ps pe kt"
proof -
  let ?h = "pre @ [0xD5] @ dst @ src @ ty" and ?p = "pl @ fcs"
  have b: "pre @ [0xD5] @ dst @ src @ ty @ pl @ fcs = ?h @ ?p" by simp
  have l: "k + 10 + 10 * length (?h @ ?p) = kt" "k + 15 + 10 * length (?h @ ?p) = kt + 5" "k + 10 + 10 * length ?h = kp"
    using assms by simp_all
  have "data_msgs ps pe (k + 10) (?h @ ?p) = data_msgs ps pe (k + 10) ?h @ data_msgs ps pe kp ?p"
    using data_msgs_append [of ps pe "k + 10" ?h ?p] unfolding l(3) .
  then show ?thesis unfolding b frame_msgs_def l head_msgs_def tail_msgs_def by simp
qed

lemma eth_run_head:
  fixes ps pe :: "nat \<Rightarrow> u64"
  assumes s: "eth_ready s" and pre: "0xD5 \<notin> set pre" "length pre < 2048"
    and len: "length dst = 6" "length src = 6" "length ty = 2"
  shows "\<exists>s' out. eth_run (head_msgs ps pe k (pre @ [0xD5] @ dst @ src @ ty)) s = Some (s', out)
    \<and> eth_frame s' = dst @ src @ ty \<and> eth_st s' = ETH_PAYLOAD \<and> eth_payload s' = [] \<and> eth_blocks s' = []
    \<and> eth_out_proto s' = eth_out_proto s \<and> eth_out_ann s' = eth_out_ann s
    \<and> eth_payload_start s' = pe (k + 10 * length pre + 159) \<and> messages_on (eth_out_proto s) out = []"
proof -
  let ?s0 = "s\<lparr>eth_jk_seen_j := True, eth_frame_start := ps k, eth_st := ETH_WAIT_SFD, eth_jk_seen_k := True\<rparr>"
  have 0: "eth_run [span ps pe k 5 ''J'' [C_U8 24, C_U8 1], span ps pe (k + 5) 5 ''K'' [C_U8 17, C_U8 1]] s = Some (?s0, [])"
    by (simp add: ethernet_decode_upper_def)
  have s0: "eth_ready ?s0" "eth_st ?s0 = ETH_WAIT_SFD" using s by (simp_all add: eth_ready_def)
  have e: "k + 10 + 10 * length pre + 149 = k + 10 * length pre + 159" by simp
  show ?thesis
    using eth_run_header [OF s0 pre len, of ps pe "k + 10"] unfolding head_msgs_def run_upper_append 0 e by auto
qed

lemma eth_run_frame:
  fixes ps pe :: "nat \<Rightarrow> u64" and k :: nat and pre pl :: "u8 list"
  assumes s: "eth_ready s" and pre: "0xD5 \<notin> set pre" "length pre < 2048"
    and len: "length dst = 6" "length src = 6" "length ty = 2" "length fcs = 4" "length pl \<le> 2030"
  defines "kp \<equiv> k + 10 * length pre + 160"
  defines "kt \<equiv> kp + 10 * (length pl + 4)"
  shows "\<exists>s' out. eth_run (frame_msgs ps pe k (pre @ [0xD5] @ dst @ src @ ty @ pl @ fcs)) s = Some (s', out)
    \<and> messages_on (eth_out_proto s) out = [payload_msg ps pe kp pl]
    \<and> O_put (ps kt - (pe (kt + 4) - ps kt) * 8) (ps kt) (eth_out_ann s) ethernet_ANN_HEADER
        (fcs_verdict (fcs = le_bytes (crc32_calc (dst @ src @ ty @ pl)))) \<in> set out"
proof -
  let ?m = "messages_on (eth_out_proto s)"
  let ?h = "pre @ [0xD5] @ dst @ src @ ty" and ?p = "pl @ fcs"
  obtain s1 o1 where 1: "eth_run (head_msgs ps pe k ?h) s = Some (s1, o1)"
    "eth_frame s1 = dst @ src @ ty" "eth_st s1 = ETH_PAYLOAD" "eth_payload s1 = []" "eth_blocks s1 = []"
    "eth_out_proto s1 = eth_out_proto s" "eth_out_ann s1 = eth_out_ann s"
    "eth_payload_start s1 = pe (k + 10 * length pre + 159)" "?m o1 = []"
    using eth_run_head [OF s pre len(1-3), of ps pe k] by auto
  have kp: "k + 10 * length pre + 159 = kp - 1" by (simp add: kp_def)
  let ?s2 = "s1\<lparr>eth_payload := ?p, eth_blocks := data_blocks ps pe kp (length ?p)\<rparr>"
  have 2: "eth_run (data_msgs ps pe kp ?p) s1 = Some (?s2, payload_anns ps pe kp (eth_out_ann s) ?p)"
    using eth_run_payload [OF 1(3), of ?p ps pe kp] 1(4,5,7) len(4,5) by simp
  have kt: "kp + 10 * length ?p = kt" "length ?p = length pl + 4" using len(4) by (simp_all add: kt_def)
  define fr where "fr = dst @ src @ ty @ pl @ fcs"
  have fcs: "crc32_calc fr = 0x2144DF1C \<longleftrightarrow> fcs = le_bytes (crc32_calc (dst @ src @ ty @ pl))"
  proof -
    obtain a b c e where "fcs = [a, b, c, e]" using len(4) by (auto simp: length_Suc_conv eval_nat_numeral)
    then show ?thesis using ethernet_fcs_check [of "dst @ src @ ty @ pl"] by (simp add: fr_def)
  qed
  let ?out = "[O_put (ps kt - (pe (kt + 4) - ps kt) * 8) (ps kt) (eth_out_ann s) ethernet_ANN_HEADER
      (fcs_verdict (fcs = le_bytes (crc32_calc (dst @ src @ ty @ pl))))] @ pcap_append (?s2\<lparr>eth_frame := fr\<rparr>)
      @ [O_proto (pe (kp - 1)) (ps kt - (pe (kt + 4) - ps kt) * 8) (eth_out_proto s) ''PAYLOAD''
           [C_BYTES pl, C_BYTES (concat (map (\<lambda>(ss, es). le_bytes ss @ le_bytes es) (data_blocks ps pe kp (length pl + 4))))]]"
  have pl: "unat (of_nat (length pl) :: u16) = length pl" using len(5) by (simp add: unat_of_nat)
  have out: "0 \<le> eth_out_proto s" using s by (simp add: eth_ready_def)
  have 3: "ethernet_decode_upper (span ps pe kt 5 ''T'' [C_U8 13, C_U8 1]) ?s2 =
      Some (ethernet_reset_vars (?s2\<lparr>eth_frame := fr\<rparr>), ?out)"
  proof -
    have "push2048 (eth_frame ?s2) (eth_payload ?s2) = Some fr"
      using len 1(2) by (simp add: push2048_def fr_def)
    then show ?thesis
      using 1(6-8) out fcs pl len(4) kp
      by (simp add: ethernet_decode_upper_def ethernet_frame_end_def Let_def fcs_verdict_def snprintf_def)
  qed
  have 4: "eth_run (tail_msgs ps pe kt) ?s2 =
      Some (ethernet_reset_vars (ethernet_reset_vars (?s2\<lparr>eth_frame := fr\<rparr>)), ?out)"
    using 3 by (simp add: tail_msgs_def ethernet_decode_upper_def [of "span ps pe (kt + 5) 5 ''R'' fs" for fs])
  note f = frame_msgs_split [OF len(1-4), of kp k pre kt pl ps pe, OF kp_def [THEN meta_eq_to_obj_eq] kt_def [THEN meta_eq_to_obj_eq]]
  have run: "eth_run (frame_msgs ps pe k (pre @ [0xD5] @ dst @ src @ ty @ pl @ fcs)) s =
      Some (ethernet_reset_vars (ethernet_reset_vars (?s2\<lparr>eth_frame := fr\<rparr>)),
        o1 @ payload_anns ps pe kp (eth_out_ann s) ?p @ ?out)"
    unfolding f by (rule run_upper_appendI [OF 1(1) run_upper_appendI [OF 2 4]])
  have "?m (payload_anns ps pe kp (eth_out_ann s) ?p) = []" by (rule messages_on_none) (auto simp: payload_anns_def)
  then have "?m (o1 @ payload_anns ps pe kp (eth_out_ann s) ?p @ ?out) = [payload_msg ps pe kp pl]"
    using 1(9) by (simp add: pcap_append_def Let_def payload_msg_def kt_def)
  then show ?thesis using run by fastforce
qed

lemma eth_wire_frame:
  assumes t: "fb_bit_count t = 0" "fb_symbol t = 0" "\<not> fb_has_last_nibble t" "fb_bit_offset t = int (length junk)"
    and s: "eth_ready s" and pre: "0xD5 \<notin> set pre" "length pre < 2048"
    and len: "length dst = 6" "length src = 6" "length ty = 2" "length fcs = 4" "length pl \<le> 2030"
    and kp: "kp = length junk + 10 * length pre + 160" and kt: "kt = kp + 10 * (length pl + 4)"
  shows "\<exists>t' s' out. run_upper (stack_on (fb_out_python t) fourb5b_recv_proto ethernet_decode_upper)
        (bit_msgs ps pe 0 (junk @ frame_bits (pre @ [0xD5] @ dst @ src @ ty @ pl @ fcs))) (t, s) = Some ((t', s'), out)
    \<and> messages_on (eth_out_proto s) out = [payload_msg ps pe kp pl]
    \<and> O_put (ps kt - (pe (kt + 4) - ps kt) * 8) (ps kt) (eth_out_ann s) ethernet_ANN_HEADER
        (fcs_verdict (fcs = le_bytes (crc32_calc (dst @ src @ ty @ pl)))) \<in> set out"
proof -
  have t1: "between (t\<lparr>fb_bit_offset := 0\<rparr>)" "\<not> fb_has_last_nibble (t\<lparr>fb_bit_offset := 0\<rparr>)"
    using t by (simp_all add: between_def)
  obtain t' o1 where "run_upper fourb5b_recv_proto
      (bit_msgs ps pe (length junk) (frame_bits (pre @ [0xD5] @ dst @ src @ ty @ pl @ fcs))) (t\<lparr>fb_bit_offset := 0\<rparr>) = Some (t', o1)"
    "messages_on (fb_out_python t) o1 = frame_msgs ps pe (length junk) (pre @ [0xD5] @ dst @ src @ ty @ pl @ fcs)"
    using run_frame [OF t1, of ps pe "length junk" "pre @ [0xD5] @ dst @ src @ ty @ pl @ fcs"] by auto
  then have f: "run_upper fourb5b_recv_proto
      (bit_msgs ps pe 0 (junk @ frame_bits (pre @ [0xD5] @ dst @ src @ ty @ pl @ fcs))) t = Some (t', [] @ o1)"
    "messages_on (fb_out_python t) ([] @ o1) = frame_msgs ps pe (length junk) (pre @ [0xD5] @ dst @ src @ ty @ pl @ fcs)"
    unfolding bit_msgs_append add_0 by (blast intro: run_upper_appendI [OF run_offset [OF t(4)]], simp)
  obtain s' out where e: "eth_run (messages_on (fb_out_python t) ([] @ o1)) s = Some (s', out)"
    "messages_on (eth_out_proto s) out = [payload_msg ps pe kp pl]"
    "O_put (ps kt - (pe (kt + 4) - ps kt) * 8) (ps kt) (eth_out_ann s) ethernet_ANN_HEADER
        (fcs_verdict (fcs = le_bytes (crc32_calc (dst @ src @ ty @ pl)))) \<in> set out"
    using eth_run_frame [OF s pre len, of ps pe "length junk"] unfolding f(2) kp kt by blast
  show ?thesis using run_stack_on [OF f(1) e(1)] e(2,3) by blast
qed

text \<open>
  C21: A frame on the wire is received by the two decoders: after any bits before it, a frame in
  4B5B code with a preamble, the delimiter, addresses, type, payload and check sequence produces
  exactly one message for the decoder above, with the payload and the samples of its bytes, and the
  annotation of the check says OK exactly when the check sequence is the CRC of the rest. The
  lengths are those for which the arrays of the decoder are large enough.
\<close>

theorem ethernet_frame_received:
  assumes t: "fb_bit_count t = 0" "fb_symbol t = 0" "\<not> fb_has_last_nibble t" "fb_bit_offset t = int (length junk)"
    and s: "eth_ready s" and pre: "0xD5 \<notin> set pre" "length pre < 2048"
    and len: "length dst = 6" "length src = 6" "length ty = 2" "length fcs = 4" "length pl \<le> 2030"
    and kp: "kp = length junk + 10 * length pre + 160" and kt: "kt = kp + 10 * (length pl + 4)"
  shows "\<exists>t' s' out. run_upper (stack_on (fb_out_python t) fourb5b_recv_proto ethernet_decode_upper)
        (bit_msgs ps pe 0 (junk @ frame_bits (pre @ [0xD5] @ dst @ src @ ty @ pl @ fcs))) (t, s) = Some ((t', s'), out)
    \<and> messages_on (eth_out_proto s) out = [payload_msg ps pe kp pl]
    \<and> O_put (ps kt - (pe (kt + 4) - ps kt) * 8) (ps kt) (eth_out_ann s) ethernet_ANN_HEADER
        (fcs_verdict (fcs = le_bytes (crc32_calc (dst @ src @ ty @ pl)))) \<in> set out"
  using assms by (rule eth_wire_frame)

lemma ethernet_frame_received_witness:
  "\<exists>t' s' out. run_upper (stack_on 1 fourb5b_recv_proto ethernet_decode_upper)
        (bit_msgs (\<lambda>i. of_nat (4 * i)) (\<lambda>i. of_nat (4 * i + 4)) 0
          ([1] @ frame_bits ([0x55] @ [0xD5] @ replicate 6 0xFF @ replicate 6 2 @ [8, 0] @ [7, 8, 9] @ [1, 2, 3, 4])))
        (fourb5b_reset\<lparr>fb_bit_offset := 1, fb_out_python := 1\<rparr>, ethernet_reset\<lparr>eth_out_proto := 1\<rparr>) = Some ((t', s'), out)
    \<and> messages_on 1 out = [payload_msg (\<lambda>i. of_nat (4 * i)) (\<lambda>i. of_nat (4 * i + 4)) 171 [7, 8, 9]]
    \<and> O_put (964 - 160) 964 0 ethernet_ANN_HEADER
        (fcs_verdict ([1, 2, 3, 4] = le_bytes (crc32_calc (replicate 6 0xFF @ replicate 6 2 @ [8, 0] @ [7, 8, 9])))) \<in> set out"
proof -
  let ?t = "fourb5b_reset\<lparr>fb_bit_offset := 1, fb_out_python := 1\<rparr>" and ?s = "ethernet_reset\<lparr>eth_out_proto := 1\<rparr>"
  have t: "fb_bit_count ?t = 0" "fb_symbol ?t = 0" "\<not> fb_has_last_nibble ?t" "fb_bit_offset ?t = int (length [1 :: u8])"
    "fb_out_python ?t = 1" "eth_out_proto ?s = 1" "eth_out_ann ?s = 0"
    by (simp_all add: fourb5b_reset_def ethernet_reset_def)
  have s: "eth_ready ?s" by (simp add: eth_ready_def ethernet_reset_def)
  have l: "0xD5 \<notin> set [0x55 :: u8]" "length [0x55 :: u8] < 2048" "length (replicate 6 0xFF :: u8 list) = 6"
    "length (replicate 6 2 :: u8 list) = 6" "length [8, 0 :: u8] = 2" "length [1, 2, 3, 4 :: u8] = 4" "length [7, 8, 9 :: u8] \<le> 2030"
    "171 = length [1 :: u8] + 10 * length [0x55 :: u8] + 160" "241 = 171 + 10 * (length [7, 8, 9 :: u8] + 4)"
    by simp_all
  have n: "of_nat (4 * 241) = (964 :: u64)" "964 - (of_nat (4 * (241 + 4) + 4) - 964) * 8 = (964 - 160 :: u64)" by simp_all
  from ethernet_frame_received [OF t(1-4) s l(1-7) l(8) l(9), of "\<lambda>i. of_nat (4 * i)" "\<lambda>i. of_nat (4 * i + 4)"]
  show ?thesis unfolding t(5-7) n .
qed

section \<open>Bounds\<close>

lemma eth_run_payload_overflow:
  assumes "eth_st s = ETH_PAYLOAD" and "2048 < length (eth_payload s) + length bs" and "length (eth_payload s) \<le> 2048"
    and "length (eth_blocks s) = length (eth_payload s)"
  shows "eth_run (data_msgs ps pe k bs) s = None"
  using assms
proof (induction bs arbitrary: s k)
  case (Cons b bs)
  show ?case
  proof (cases "length (eth_payload s) = 2048")
    case True
    then show ?thesis
      using Cons.prems(1) by (simp add: data_msgs_Cons eth_data ethernet_handle_data_byte_def ethernet_payload_byte_def push2048_def)
  next
    case False
    let ?t = "s\<lparr>eth_payload := eth_payload s @ [b], eth_blocks := eth_blocks s @ [(ps k, pe (k + 9))]\<rparr>"
    have "eth_run (data_msgs ps pe (k + 10) bs) ?t = None" using Cons.prems False by (intro Cons.IH) simp_all
    then show ?thesis
      using Cons.prems False by (simp add: data_msgs_Cons eth_data ethernet_handle_data_byte_def ethernet_payload_byte_def push2048_def)
  qed
qed simp

text \<open>
  C22: The arrays of the decoder are large enough exactly for payloads of up to 2030 bytes: a longer
  frame writes behind the end of \<open>payload\<close> or \<open>frame\<close>, whatever it contains. Nothing checks the
  length, although frames of more than 1518 bytes exist.
\<close>

theorem ethernet_payload_bound:
  assumes "eth_ready s" and "0xD5 \<notin> set pre" "length pre < 2048"
    and "length dst = 6" "length src = 6" "length ty = 2" "length fcs = 4"
  shows "eth_run (frame_msgs ps pe k (pre @ [0xD5] @ dst @ src @ ty @ pl @ fcs)) s = None \<longleftrightarrow> 2030 < length pl"
proof -
  let ?h = "pre @ [0xD5] @ dst @ src @ ty" and ?p = "pl @ fcs"
  define kp kt where k: "kp = k + 10 * length pre + 160" "kt = kp + 10 * (length pl + 4)"
  note f = frame_msgs_split [OF assms(4-7) k, of ps pe]
  obtain s1 o1 where 1: "eth_run (head_msgs ps pe k ?h) s = Some (s1, o1)"
    "eth_frame s1 = dst @ src @ ty" "eth_st s1 = ETH_PAYLOAD" "eth_payload s1 = []" "eth_blocks s1 = []"
    using eth_run_head [OF assms(1-6), of ps pe k] by auto
  have "eth_run (frame_msgs ps pe k (pre @ [0xD5] @ dst @ src @ ty @ pl @ fcs)) s = None" if l: "2030 < length pl"
  proof (cases "length ?p \<le> 2048")
    case True
    let ?s2 = "s1\<lparr>eth_payload := ?p, eth_blocks := data_blocks ps pe kp (length ?p)\<rparr>"
    have 2: "eth_run (data_msgs ps pe kp ?p) s1 = Some (?s2, payload_anns ps pe kp (eth_out_ann s1) ?p)"
      using eth_run_payload [OF 1(3), of ?p ps pe kp] 1(4,5) True by simp
    have "eth_run (tail_msgs ps pe kt) ?s2 = None"
      using l assms(4-7) 1(2) by (simp add: tail_msgs_def ethernet_decode_upper_def ethernet_frame_end_def push2048_def)
    then show ?thesis unfolding f run_upper_append 1(1) 2 option.case prod.case by simp
  next
    case False
    then have 2: "eth_run (data_msgs ps pe kp ?p) s1 = None"
      using 1(4,5) by (intro eth_run_payload_overflow [OF 1(3)]) simp_all
    show ?thesis unfolding f run_upper_append 1(1) 2 option.case prod.case by simp
  qed
  then show ?thesis using eth_run_frame [OF assms(1-7), of pl ps pe k] by fastforce
qed

lemma ethernet_payload_bound_witness:
  "eth_run (frame_msgs (\<lambda>i. of_nat i) (\<lambda>i. of_nat (i + 1)) 0 ([] @ [0xD5] @ replicate 6 1 @ replicate 6 2 @ [8, 0]
      @ replicate 2031 0 @ [1, 2, 3, 4])) (ethernet_reset\<lparr>eth_out_proto := 1\<rparr>) = None"
proof -
  have s: "eth_ready (ethernet_reset\<lparr>eth_out_proto := 1\<rparr>)" by (simp add: eth_ready_def ethernet_reset_def)
  show ?thesis
    using ethernet_payload_bound [OF s, of "[]" "replicate 6 1" "replicate 6 2" "[8, 0]" "[1, 2, 3, 4]"
        "\<lambda>i. of_nat i" "\<lambda>i. of_nat (i + 1)" 0 "replicate 2031 0", THEN iffD2] by simp
qed

section \<open>The calls fit the description\<close>

definition eth_inv :: "ethernet_s \<Rightarrow> bool" where
  "eth_inv s \<longleftrightarrow> length (eth_buffer s) \<le> 2048 \<and> length (eth_frame s) \<le> 2048 \<and> length (eth_payload s) \<le> 2048
     \<and> length (eth_blocks s) = length (eth_payload s)"

definition eth_call_ok :: "ethernet_s \<Rightarrow> out_call \<Rightarrow> bool" where
  "eth_call_ok s = call_ok 2 1 (eth_out_ann s) (eth_out_proto s) (eth_out_binary s)"

lemmas eth_numbers = ethernet_ANN_HEADER_def ethernet_ANN_DATA_def

lemma eth_texts: "dst_mac_text b \<noteq> []" "src_mac_text b \<noteq> []" "ethertype_text b \<noteq> []"
  by (simp_all add: dst_mac_text_def src_mac_text_def ethertype_text_def Let_def split: option.split)

lemma ethernet_field_ok:
  assumes "ethernet_field es txt nxt s = Some (s', out)" and "eth_inv s" and "txt \<noteq> []"
  shows "eth_inv s'" and "\<forall>c \<in> set out. eth_call_ok s c" and "eth_call_ok s' = eth_call_ok s"
  using assms by (auto simp: ethernet_field_def push2048_def eth_inv_def eth_call_ok_def eth_numbers split: option.splits if_splits)

lemma ethernet_data_ok:
  assumes e: "ethernet_handle_data_byte b ss es s = Some (s', out)" and i: "eth_inv s"
  shows "eth_inv s' \<and> (\<forall>c \<in> set out. eth_call_ok s c) \<and> eth_call_ok s' = eth_call_ok s"
proof -
  let ?t = "s\<lparr>eth_buffer := eth_buffer s @ [b]\<rparr>"
  have t: "eth_call_ok ?t = eth_call_ok s" by (simp add: eth_call_ok_def)
  have field: ?thesis if "ethernet_field es tx nxt ?t = Some (s', out)" "tx \<noteq> []" "length (eth_buffer s) < 2048" for tx nxt
    using ethernet_field_ok [OF that(1) _ that(2)] i that(3) t by (simp add: eth_inv_def)
  show ?thesis
  proof (cases "eth_st s = ETH_PAYLOAD \<or> eth_st s = ETH_IDLE")
    case True
    then show ?thesis
      using e i by (auto simp: ethernet_handle_data_byte_def ethernet_payload_byte_def push2048_def eth_inv_def
          eth_call_ok_def eth_numbers split: option.splits if_splits)
  next
    case False
    then have l: "length (eth_buffer s) < 2048"
      using e by (auto simp: ethernet_handle_data_byte_def push2048_def split: if_splits)
    show ?thesis
    proof (cases "eth_st s = ETH_WAIT_SFD")
      case True
      then show ?thesis
        using e l i by (auto simp: ethernet_handle_data_byte_def push2048_def ethernet_sfd_def eth_inv_def
            eth_call_ok_def eth_numbers Let_def split: if_splits)
    next
      case F: False
      then consider (d) "eth_st s = ETH_DST_MAC" | (s) "eth_st s = ETH_SRC_MAC" | (t) "eth_st s = ETH_ETH_TYPE"
        using False by (cases "eth_st s") auto
      then show ?thesis
      proof cases
        case d
        then show ?thesis
          using e l i t field [of "dst_mac_text (eth_buffer ?t)" ETH_SRC_MAC] eth_texts
          by (auto simp: ethernet_handle_data_byte_def push2048_def eth_inv_def Let_def split: if_splits)
      next
        case s
        then show ?thesis
          using e l i t field [of "src_mac_text (eth_buffer ?t)" ETH_ETH_TYPE] eth_texts
          by (auto simp: ethernet_handle_data_byte_def push2048_def eth_inv_def Let_def split: if_splits)
      next
        case t
        show ?thesis
        proof (cases "length (eth_buffer s) + 1 = 2")
          case True
          then obtain s2 where f: "ethernet_field es (ethertype_text (eth_buffer ?t)) ETH_PAYLOAD ?t = Some (s2, out)"
            and s': "s' = s2\<lparr>eth_payload_start := es\<rparr>"
            using e t l by (auto simp: ethernet_handle_data_byte_def push2048_def Let_def)
          have "eth_inv ?t" using i l by (simp add: eth_inv_def)
          from ethernet_field_ok [OF f this eth_texts(3)] show ?thesis
            by (simp add: s' eth_inv_def eth_call_ok_def)
        next
          case False
          then show ?thesis
            using e t l i by (auto simp: ethernet_handle_data_byte_def push2048_def eth_inv_def eth_call_ok_def Let_def)
        qed
      qed
    qed
  qed
qed

interpretation ethernet: upper_contract ethernet_decode_upper eth_inv eth_call_ok
proof
  fix s m s' out
  assume i: "eth_inv s" and e: "ethernet_decode_upper m s = Some (s', out)"
  have "eth_inv s' \<and> (\<forall>c \<in> set out. eth_call_ok s c) \<and> eth_call_ok s' = eth_call_ok s"
  proof (cases "um_cmd m = ''DATA''")
    case True
    then show ?thesis using e ethernet_data_ok [OF _ i] by (auto simp: ethernet_decode_upper_def)
  next
    case False
    then show ?thesis
      using e i by (auto simp: ethernet_decode_upper_def ethernet_frame_end_def ethernet_reset_vars_def push2048_def
          pcap_append_def eth_inv_def eth_call_ok_def eth_numbers Let_def split: if_splits option.splits)
  qed
  then show "eth_inv s'" "eth_call_ok s' = eth_call_ok s" "\<And>c. c \<in> set out \<Longrightarrow> eth_call_ok s c" by blast+
qed

end
