(* ===== verification/Ipv4.thy ===== *)
theory Ipv4
  imports Ethernet
begin

text \<open>
  c_decoders/ipv4_c.c: IPv4 packets on top of the Ethernet decoder, with the Internet checksum. Texts
  that always fit their buffer are written without \<^verbatim>\<open>snprintf\<close>.
\<close>

section \<open>Internet checksum\<close>

text \<open>The 16-bit words of a byte list, high byte first, added up in 32 bits.\<close>

fun add_words :: "u32 \<Rightarrow> u8 list \<Rightarrow> u32" where
  "add_words acc (a # b # bs) = add_words (acc + (push_bit 8 (ucast a) OR ucast b)) bs"
| "add_words acc [a] = acc + push_bit 8 (ucast a)"
| "add_words acc [] = acc"

definition sum_ok :: "u32 \<Rightarrow> bool" where
  "sum_ok acc \<longleftrightarrow> (acc + drop_bit 16 acc) AND 0xFFFF = 0xFFFF"

definition ip_checksum_ok :: "u8 list \<Rightarrow> bool" where
  "ip_checksum_ok header = sum_ok (add_words 0 header)"

section \<open>State and tables\<close>

definition ipv4_ANN_HEADER :: int where "ipv4_ANN_HEADER = 0"
definition ipv4_ANN_DATA :: int where "ipv4_ANN_DATA = 1"

record ipv4_s =
  ip_out_ann :: int
  ip_out_proto :: int
  ip_ss_block :: u64
  ip_es_block :: u64

definition ipv4_reset :: ipv4_s where
  "ipv4_reset = \<lparr>ip_out_ann = 0, ip_out_proto = 0, ip_ss_block = 0, ip_es_block = 0\<rparr>"

definition ip_protocol_table :: "(u8 \<times> string \<times> string) list" where
  "ip_protocol_table = [
     (0x00, ''HOPOPT'', ''IPv6 Hop-by-Hop Option''),
     (0x01, ''ICMP'', ''Internet Control Message Protocol''),
     (0x02, ''IGMP'', ''Internet Group Management Protocol''),
     (0x03, ''GGP'', ''Gateway-to-Gateway Protocol''),
     (0x04, ''IP-in-IP'', ''IP in IP (encapsulation)''),
     (0x05, ''ST'', ''Internet Stream Protocol''),
     (0x06, ''TCP'', ''Transmission Control Protocol''),
     (0x07, ''CBT'', ''Core-based trees''),
     (0x08, ''EGP'', ''Exterior Gateway Protocol''),
     (0x09, ''IGP'', ''Interior Gateway Protocol''),
     (0x0A, ''BBN-RCC-MON'', ''BBN RCC Monitoring''),
     (0x0B, ''NVP-II'', ''Network Voice Protocol''),
     (0x0C, ''PUP'', ''Xerox PUP''),
     (0x0D, ''ARGUS'', ''ARGUS''),
     (0x0E, ''EMCON'', ''EMCON''),
     (0x0F, ''XNET'', ''Cross Net Debugger''),
     (0x10, ''CHAOS'', ''Chaos''),
     (0x11, ''UDP'', ''User Datagram Protocol''),
     (0x12, ''MUX'', ''Multiplexing''),
     (0x13, ''DCN-MEAS'', ''DCN Measurement Subsystems''),
     (0x14, ''HMP'', ''Host Monitoring Protocol''),
     (0x15, ''PRM'', ''Packet Radio Measurement''),
     (0x16, ''XNS-IDP'', ''XEROX NS IDP''),
     (0x17, ''TRUNK-1'', ''Trunk-1''),
     (0x18, ''TRUNK-2'', ''Trunk-2''),
     (0x19, ''LEAF-1'', ''Leaf-1''),
     (0x1A, ''LEAF-2'', ''Leaf-2''),
     (0x1B, ''RDP'', ''Reliable Data Protocol''),
     (0x1C, ''IRTP'', ''Internet Reliable Transaction Protocol''),
     (0x1D, ''ISO-TP4'', ''ISO Transport Protocol Class 4''),
     (0x1E, ''NETBLT'', ''Bulk Data Transfer Protocol''),
     (0x1F, ''MFE-NSP'', ''MFE Network Services Protocol''),
     (0x20, ''MERIT-INP'', ''MERIT Internodal Protocol''),
     (0x21, ''DCCP'', ''Datagram Congestion Control Protocol''),
     (0x22, ''3PC'', ''Third Party Connect Protocol''),
     (0x23, ''IDPR'', ''Inter-Domain Policy Routing Protocol''),
     (0x24, ''XTP'', ''Xpress Transport Protocol''),
     (0x25, ''DDP'', ''Datagram Delivery Protocol''),
     (0x26, ''IDPR-CMTP'', ''IDPR Control Message Transport Protocol''),
     (0x27, ''TP++'', ''TP++ Transport Protocol''),
     (0x28, ''IL'', ''IL Transport Protocol''),
     (0x29, ''IPv6'', ''IPv6 Encapsulation''),
     (0x2A, ''SDRP'', ''Source Demand Routing Protocol''),
     (0x2B, ''IPv6-Route'', ''Routing Header for IPv6''),
     (0x2C, ''IPv6-Frag'', ''Fragment Header for IPv6''),
     (0x2D, ''IDRP'', ''Inter-Domain Routing Protocol''),
     (0x2E, ''RSVP'', ''Resource Reservation Protocol''),
     (0x2F, ''GRE'', ''Generic Routing Encapsulation''),
     (0x30, ''DSR'', ''Dynamic Source Routing Protocol''),
     (0x31, ''BNA'', ''Burroughs Network Architecture''),
     (0x32, ''ESP'', ''Encapsulating Security Payload''),
     (0x33, ''AH'', ''Authentication Header''),
     (0x34, ''I-NLSP'', ''Integrated Net Layer Security Protocol''),
     (0x35, ''SwIPe'', ''SwIPe''),
     (0x36, ''NARP'', ''NBMA Address Resolution Protocol''),
     (0x37, ''MOBILE'', ''IP Mobility (Min Encap)''),
     (0x38, ''TLSP'', ''Transport Layer Security Protocol''),
     (0x39, ''SKIP'', ''Simple Key-Management for Internet Protocol''),
     (0x3A, ''IPv6-ICMP'', ''ICMP for IPv6''),
     (0x3B, ''IPv6-NoNxt'', ''No Next Header for IPv6''),
     (0x3C, ''IPv6-Opts'', ''Destination Options for IPv6''),
     (0x3E, ''CFTP'', ''CFTP''),
     (0x40, ''SAT-EXPAK'', ''SATNET and Backroom EXPAK''),
     (0x41, ''KRYPTOLAN'', ''Kryptolan''),
     (0x42, ''RVD'', ''MIT Remote Virtual Disk Protocol''),
     (0x43, ''IPPC'', ''Internet Pluribus Packet Core''),
     (0x45, ''SAT-MON'', ''SATNET Monitoring''),
     (0x46, ''VISA'', ''VISA Protocol''),
     (0x47, ''IPCU'', ''Internet Packet Core Utility''),
     (0x48, ''CPNX'', ''Computer Protocol Network Executive''),
     (0x49, ''CPHB'', ''Computer Protocol Heart Beat''),
     (0x4A, ''WSN'', ''Wang Span Network''),
     (0x4B, ''PVP'', ''Packet Video Protocol''),
     (0x4C, ''BR-SAT-MON'', ''Backroom SATNET Monitoring''),
     (0x4D, ''SUN-ND'', ''SUN ND PROTOCOL-Temporary''),
     (0x4E, ''WB-MON'', ''WIDEBAND Monitoring''),
     (0x4F, ''WB-EXPAK'', ''WIDEBAND EXPAK''),
     (0x50, ''ISO-IP'', ''ISO Internet Protocol''),
     (0x51, ''VMTP'', ''Versatile Message Transaction Protocol''),
     (0x52, ''SECURE-VMTP'', ''Secure VMTP''),
     (0x53, ''VINES'', ''VINES''),
     (0x54, ''TTP'', ''TTP''),
     (0x55, ''NSFNET-IGP'', ''NSFNET-IGP''),
     (0x56, ''DGP'', ''Dissimilar Gateway Protocol''),
     (0x57, ''TCF'', ''TCF''),
     (0x58, ''EIGRP'', ''EIGRP''),
     (0x59, ''OSPF'', ''Open Shortest Path First''),
     (0x5A, ''Sprite-RPC'', ''Sprite RPC Protocol''),
     (0x5B, ''LARP'', ''Locus Address Resolution Protocol''),
     (0x5C, ''MTP'', ''Multicast Transport Protocol''),
     (0x5D, ''AX.25'', ''AX.25''),
     (0x5E, ''OS'', ''KA9Q NOS compatible IP over IP tunneling''),
     (0x5F, ''MICP'', ''Mobile Internetworking Control Protocol''),
     (0x60, ''SCC-SP'', ''Semaphore Communications Sec. Pro''),
     (0x61, ''ETHERIP'', ''Ethernet-within-IP Encapsulation''),
     (0x62, ''ENCAP'', ''Encapsulation Header''),
     (0x64, ''GMTP'', ''GMTP''),
     (0x65, ''IFMP'', ''Ipsilon Flow Management Protocol''),
     (0x66, ''PNNI'', ''PNNI over IP''),
     (0x67, ''PIM'', ''Protocol Independent Multicast''),
     (0x68, ''ARIS'', ''IBM's ARIS Protocol''),
     (0x69, ''SCPS'', ''SCPS''),
     (0x6A, ''QNX'', ''QNX''),
     (0x6B, ''A/N'', ''Active Networks''),
     (0x6C, ''IPComp'', ''IP Payload Compression Protocol''),
     (0x6D, ''SNP'', ''Sitara Networks Protocol''),
     (0x6E, ''Compaq-Peer'', ''Compaq Peer Protocol''),
     (0x6F, ''IPX-in-IP'', ''IPX in IP''),
     (0x70, ''VRRP'', ''Virtual Router Redundancy Protocol''),
     (0x71, ''PGM'', ''PGM Reliable Transport Protocol''),
     (0x73, ''L2TP'', ''Layer Two Tunneling Protocol Version 3''),
     (0x74, ''DDX'', ''D-II Data Exchange''),
     (0x75, ''IATP'', ''Interactive Agent Transfer Protocol''),
     (0x76, ''STP'', ''Schedule Transfer Protocol''),
     (0x77, ''SRP'', ''SpectraLink Radio Protocol''),
     (0x78, ''UTI'', ''Universal Transport Interface Protocol''),
     (0x79, ''SMP'', ''Simple Message Protocol''),
     (0x7A, ''SM'', ''Simple Multicast Protocol''),
     (0x7B, ''PTP'', ''Performance Transparency Protocol''),
     (0x7C, ''IS-IS over IPv4'', ''IS-IS Protocol over IPv4''),
     (0x7D, ''FIRE'', ''Flexible Intra-AS Routing Environment''),
     (0x7E, ''CRTP'', ''Combat Radio Transport Protocol''),
     (0x7F, ''CRUDP'', ''Combat Radio User Datagram''),
     (0x80, ''SSCOPMCE'', ''Service-Specific Connection-Oriented Protocol''),
     (0x82, ''SPS'', ''Secure Packet Shield''),
     (0x83, ''PIPE'', ''Private IP Encapsulation within IP''),
     (0x84, ''SCTP'', ''Stream Control Transmission Protocol''),
     (0x85, ''FC'', ''Fibre Channel''),
     (0x86, ''RSVP-E2E-IGNORE'', ''Reservation Protocol End-to-End Ignore''),
     (0x87, ''Mobility Header'', ''Mobility Extension Header for IPv6''),
     (0x88, ''UDPLite'', ''Lightweight User Datagram Protocol''),
     (0x89, ''MPLS-in-IP'', ''MPLS Encapsulated in IP''),
     (0x8A, ''manet'', ''MANET Protocols''),
     (0x8B, ''HIP'', ''Host Identity Protocol''),
     (0x8C, ''Shim6'', ''Site Multihoming by IPv6 Intermediation''),
     (0x8D, ''WESP'', ''Wrapped Encapsulating Security Payload''),
     (0x8E, ''ROHC'', ''Robust Header Compression'')]"

definition find_ip_protocol :: "u8 \<Rightarrow> (string \<times> string) option" where
  "find_ip_protocol proto = map_option snd (find (\<lambda>e. fst e = proto) ip_protocol_table)"

text \<open>Entry \<open>i\<close> of an array of sample pairs that was passed as bytes.\<close>

definition blk_ss :: "u8 list \<Rightarrow> nat \<Rightarrow> u64" where
  "blk_ss blocks i = le_word (take 8 (drop (16 * i) blocks))"

definition blk_es :: "u8 list \<Rightarrow> nat \<Rightarrow> u64" where
  "blk_es blocks i = le_word (take 8 (drop (16 * i + 8) blocks))"

section \<open>Packets\<close>

definition u16_at :: "u8 list \<Rightarrow> nat \<Rightarrow> u16" where
  "u16_at p i = push_bit 8 (ucast (p ! i)) OR ucast (p ! (i + 1))"

definition ip_text :: "u8 list \<Rightarrow> nat \<Rightarrow> string" where
  "ip_text p i = dec_str (unat (p ! i)) @ ''.'' @ dec_str (unat (p ! (i + 1))) @ ''.'' @
     dec_str (unat (p ! (i + 2))) @ ''.'' @ dec_str (unat (p ! (i + 3)))"

definition true_false :: "bool \<Rightarrow> string" where
  "true_false b = (if b then ''True'' else ''False'')"

text \<open>The annotations of the header, each with its first and last sample and its texts.\<close>

definition ipv4_header_anns :: "u8 list \<Rightarrow> u8 list \<Rightarrow> (u64 \<times> u64 \<times> string list) list" where
  "ipv4_header_anns p blocks =
     (let ss = blk_ss blocks; es = blk_es blocks;
          df = true_false (bit (p ! 6) 6); mf = true_false (bit (p ! 6) 5);
          flags_es = ss 6 + (es 6 - ss 6) * 3 div 8;
          frag_offset = (push_bit 8 (ucast (p ! 6 AND 0x1F)) OR ucast (p ! 7)) * 8 :: u16;
          cs = (if ip_checksum_ok (take 20 p) then ''OK'' else ''FAILED'')
      in [(ss 0, es 0, [''Version: 4 Header Length: 20 bytes'', ''Version: 4 Len: 20'', ''4/20'']),
          (ss 1, es 1, [''Differentiated Services Code Point (DSCP) and Explicit Congestion Notification (ECN)'',
                        ''DSCP and ECN'']),
          (ss 2, es 3, [''Packet Length: '' @ dec_str (unat (u16_at p 2)) @ '' bytes'',
                        ''Pkt Len: '' @ dec_str (unat (u16_at p 2))]),
          (ss 4, es 5, [''Identification: '' @ dec_str (unat (u16_at p 4)), ''ID: '' @ dec_str (unat (u16_at p 4))]),
          (ss 6, flags_es, [''Don't Fragment: '' @ df @ ''    More Fragments: '' @ mf,
                            ''DF: '' @ df @ ''    MF: '' @ mf, ''DF and MF'', ''Flags'']),
          (flags_es, es 7, [''Fragment Offset: '' @ dec_str (unat frag_offset) @ '' bytes'',
                            ''Offset: '' @ dec_str (unat frag_offset)]),
          (ss 8, es 8, [''Time To Live: '' @ dec_str (unat (p ! 8)), ''TTL: '' @ dec_str (unat (p ! 8))]),
          (ss 9, es 9, case find_ip_protocol (p ! 9) of
             Some (short, long) \<Rightarrow> [snprintf 128 (''Protocol: '' @ long @ '' ('' @ short @ '')''), snprintf 64 short]
           | None \<Rightarrow> [''Protocol: UNKNOWN'', ''UNKNOWN'']),
          (ss 10, es 11, [''Header Checksum: '' @ cs, ''Checksum: '' @ cs]),
          (ss 12, es 15, [''Source IP Address: '' @ ip_text p 12, ''Src IP: '' @ ip_text p 12]),
          (ss 16, es 19, [''Destination IP Address: '' @ ip_text p 16, ''DEST IP: '' @ ip_text p 16])])"

definition ipv4_packet :: "u8 list \<Rightarrow> u8 list \<Rightarrow> ipv4_s \<Rightarrow> ipv4_s \<times> out_call list" where
  "ipv4_packet p blocks s =
     (let block_count = length blocks div 16;
          anns = map (\<lambda>(ss, es, t). O_put ss es (ip_out_ann s) ipv4_ANN_HEADER t) (ipv4_header_anns p blocks)
            @ map (\<lambda>i. O_put (blk_ss blocks i) (blk_es blocks i) (ip_out_ann s) ipv4_ANN_DATA
                [''0x'' @ fmt_num 16 2 (unat (p ! i))]) [20..<min (length p) block_count];
          lst = (if 20 < min (length p) block_count then min (length p) block_count - 1 else 19);
          msg = (if 0 \<le> ip_out_proto s \<and> 20 < length p \<and> 20 < block_count
             then [O_proto (blk_ss blocks 20) (blk_es blocks (block_count - 1)) (ip_out_proto s) ''IP_PAYLOAD''
                     [C_BYTES (drop 20 p), C_BYTES (take (16 * (block_count - 20)) (drop 320 blocks)),
                      C_BYTES (take 4 (drop 12 p)), C_BYTES (take 4 (drop 16 p))]]
             else [])
      in (s\<lparr>ip_ss_block := (if lst = 19 then blk_ss blocks 16 else blk_ss blocks lst), ip_es_block := blk_es blocks lst\<rparr>,
          anns @ msg))"

definition ipv4_decode_upper :: "upper_msg \<Rightarrow> ipv4_s \<Rightarrow> ipv4_s \<times> out_call list" where
  "ipv4_decode_upper m s =
     (if um_cmd m \<noteq> ''PAYLOAD'' then (s, [])
      else case um_fields m of
        C_BYTES p # C_BYTES blocks # _ \<Rightarrow>
          (if length p < 20 \<or> length blocks div 16 < 20 then (s, [])
           else if unat (p ! 0 AND 0x0F) * 4 \<noteq> 20 then (s, [])
           else ipv4_packet p blocks s)
      | _ \<Rightarrow> (s, []))"

definition ipv4_start :: "inst_ptr \<Rightarrow> ipv4_s srd_world \<Rightarrow> ipv4_s srd_world" where
  "ipv4_start p w =
     (let (ann, w1) = c_decoder_register_output (Some p) SRD_OUTPUT_ANN (Some ''ipv4'') w;
          (proto, w2) = c_decoder_register_output (Some p) SRD_OUTPUT_PROTO (Some ''ipv4'') w1
      in upd_inst p (\<lambda>d. d\<lparr>user_data := map_option (\<lambda>s. s\<lparr>ip_out_ann := ann, ip_out_proto := proto\<rparr>) (user_data d)\<rparr>) w2)"

section \<open>The Internet checksum\<close>

text \<open>
  RFC 1071: 16-bit words are added in one's complement, a carry out of the top is added at the
  bottom at once; a block with its checksum adds up to 0xFFFF.
\<close>

fun words16 :: "u8 list \<Rightarrow> nat list" where
  "words16 (a # b # bs) = (256 * unat a + unat b) # words16 bs"
| "words16 [a] = [256 * unat a]"
| "words16 [] = []"

definition oc_add :: "nat \<Rightarrow> nat \<Rightarrow> nat" where
  "oc_add a b = (if a + b < 2 ^ 16 then a + b else a + b - 2 ^ 16 + 1)"

definition oc_sum :: "nat list \<Rightarrow> nat" where
  "oc_sum ws = foldl oc_add 0 ws"

lemma unat_lt_256: "unat (a :: u8) < 256"
  using unsigned_less [of a, where ?'a = nat] by simp

lemma words16_less: "w \<in> set (words16 bs) \<Longrightarrow> w < 2 ^ 16"
proof (induction bs rule: words16.induct)
  case (1 a b bs)
  then show ?case using unat_lt_256 [of a] unat_lt_256 [of b] by auto
next
  case (2 a)
  then show ?case using unat_lt_256 [of a] by auto
qed simp

lemma unat_be_word: "unat (push_bit 8 (ucast a) OR ucast b :: u32) = 256 * unat a + unat (b :: u8)" for a :: u8
proof -
  have "push_bit 8 (ucast a) OR ucast b = (push_bit 8 (ucast a) + ucast b :: u32)"
    by (rule disjunctive_add [symmetric]) (auto simp: bit_simps dest: bit_imp_le_length)
  then show ?thesis
    using unat_lt_256 [of a] unat_lt_256 [of b]
    by (simp add: push_bit_eq_mult unat_word_ariths unsigned_ucast_eq take_bit_eq_mod)
qed

lemma unat_add_words:
  "unat acc + sum_list (words16 bs) < 2 ^ 32 \<Longrightarrow> unat (add_words acc bs) = unat acc + sum_list (words16 bs)"
proof (induction acc bs rule: add_words.induct)
  case (1 acc a b bs)
  have "unat (acc + (push_bit 8 (ucast a) OR ucast b)) = unat acc + (256 * unat a + unat b)"
    using 1(2) by (subst unat_plus_if') (simp add: unat_be_word)
  then show ?case using 1 by simp
next
  case (2 acc a)
  have "unat (push_bit 8 (ucast a) :: u32) = 256 * unat a" using unat_be_word [of a 0] by simp
  then show ?case using 2 by (subst add_words.simps, subst unat_plus_if') simp
qed simp

lemma fold_carry:
  fixes n :: nat
  assumes "n < 0xFFFF0000"
  shows "(n + n div 65536) mod 65536 = 65535 \<longleftrightarrow> n mod 65535 = 0 \<and> n \<noteq> 0"
proof -
  define h l where hl: "h = n div 65536" "l = n mod 65536"
  have n: "n = h * 65536 + l" "l < 65536" "h < 65535" using assms by (auto simp: hl)
  have "(n + h) mod 65536 = (h * 65536 + (h + l)) mod 65536" by (simp add: n(1))
  also have "\<dots> = (h + l) mod 65536" by (rule mod_mult_self3)
  finally have a: "(n + h) mod 65536 = 65535 \<longleftrightarrow> h + l = 65535" using n(2,3) by (auto simp: mod_if)
  have "n = h * 65535 + (h + l)" using n(1) by simp
  then have "n mod 65535 = (h * 65535 + (h + l)) mod 65535" by (simp only:)
  also have "\<dots> = (h + l) mod 65535" by (rule mod_mult_self3)
  finally have b: "n mod 65535 = 0 \<longleftrightarrow> h + l = 0 \<or> h + l = 65535" using n(2,3) by (auto simp: mod_if split: if_splits)
  show ?thesis using a b n unfolding hl(1) [symmetric] by auto
qed

lemma sum_ok_iff:
  assumes "unat acc < 0xFFFF0000"
  shows "sum_ok acc \<longleftrightarrow> unat acc mod 65535 = 0 \<and> unat acc \<noteq> 0"
proof -
  have m: "(0xFFFF :: u32) = mask 16" by (simp add: mask_eq_exp_minus_1)
  have d: "unat (drop_bit 16 acc) = unat acc div 65536" unfolding unat_drop_bit_eq by (simp add: drop_bit_eq_div)
  have "unat ((acc + drop_bit 16 acc) AND 0xFFFF) = (unat acc + unat acc div 65536) mod 65536"
    unfolding m by (simp add: unat_word_ariths d take_bit_eq_mod unsigned_take_bit_eq flip: take_bit_eq_mask) (simp add: mod_mod_cancel)
  moreover have "sum_ok acc \<longleftrightarrow> unat ((acc + drop_bit 16 acc) AND 0xFFFF) = unat (0xFFFF :: u32)"
    unfolding sum_ok_def by (rule word_unat_eq_iff)
  ultimately show ?thesis using fold_carry [OF assms] by simp
qed

lemma oc_sum_mod:
  assumes "\<And>w. w \<in> set ws \<Longrightarrow> w < 65536" and "a < 65536"
  shows "foldl oc_add a ws < 65536" and "foldl oc_add a ws mod 65535 = (a + sum_list ws) mod 65535"
    and "foldl oc_add a ws = 0 \<longleftrightarrow> a + sum_list ws = 0"
proof -
  have "foldl oc_add a ws < 65536 \<and> foldl oc_add a ws mod 65535 = (a + sum_list ws) mod 65535
      \<and> (foldl oc_add a ws = 0 \<longleftrightarrow> a + sum_list ws = 0)"
    using assms
  proof (induction ws arbitrary: a)
    case (Cons w ws)
    have w: "w < 65536" using Cons.prems by simp
    have g: "oc_add a w = a + w - 65535" if "\<not> a + w < 65536" using that by (simp add: oc_add_def)
    have o: "oc_add a w < 65536" "oc_add a w = 0 \<longleftrightarrow> a + w = 0" "oc_add a w mod 65535 = (a + w) mod 65535"
      using w Cons.prems(2) g by (cases "a + w < 65536"; simp add: oc_add_def le_mod_geq)+
    have "(oc_add a w + sum_list ws) mod 65535 = (a + w + sum_list ws) mod 65535"
      using o(3) by (metis mod_add_left_eq)
    then show ?case using Cons.IH [OF _ o(1)] Cons.prems(1) o(2) by (simp add: add.assoc)
  qed simp
  then show "foldl oc_add a ws < 65536" and "foldl oc_add a ws mod 65535 = (a + sum_list ws) mod 65535"
    and "foldl oc_add a ws = 0 \<longleftrightarrow> a + sum_list ws = 0" by simp_all
qed

lemma oc_sum_full:
  "oc_sum (words16 bs) = 0xFFFF \<longleftrightarrow> sum_list (words16 bs) mod 65535 = 0 \<and> sum_list (words16 bs) \<noteq> 0"
proof -
  have w: "\<And>w. w \<in> set (words16 bs) \<Longrightarrow> w < 65536" using words16_less by fastforce
  have "x < 65536 \<Longrightarrow> x = 0xFFFF \<longleftrightarrow> x mod 65535 = 0 \<and> x \<noteq> 0" for x :: nat by (auto simp: mod_if)
  then show ?thesis using oc_sum_mod [of "words16 bs" 0, OF w] by (auto simp: oc_sum_def)
qed

lemma words16_total: "sum_list (words16 bs) \<le> 65535 * ((length bs + 1) div 2)"
proof (induction bs rule: words16.induct)
  case (1 a b bs)
  have "256 * unat a + unat b \<le> 65535" using unat_lt_256 [of a] unat_lt_256 [of b] by simp
  then show ?case using 1 by simp
next
  case (2 a)
  then show ?case using unat_lt_256 [of a] by simp
qed simp

text \<open>
  C23: The checksum test of the IPv4 decoder, a sum in 32 bits whose upper half is added to the
  lower one just once, is the test of RFC 1071, where the carry is added back after every word:
  one folding is enough for every header, also for the longest that exists.
\<close>

theorem ip_checksum_rfc1071:
  assumes "length header \<le> 131000"
  shows "ip_checksum_ok header \<longleftrightarrow> oc_sum (words16 header) = 0xFFFF"
proof -
  have "(length header + 1) div 2 \<le> 65500" using assms by simp
  then have l: "sum_list (words16 header) \<le> 65535 * 65500" using words16_total [of header] by (meson le_trans mult_le_mono2)
  then have "unat (add_words 0 header) = sum_list (words16 header)"
    using unat_add_words [of 0 header] by simp
  then show ?thesis using sum_ok_iff [of "add_words 0 header"] l by (simp add: ip_checksum_ok_def oc_sum_full)
qed

lemma ip_checksum_rfc1071_witness:
  "ip_checksum_ok [0x45, 0, 0, 0x73, 0, 0, 0x40, 0, 0x40, 0x11, 0xB8, 0x61, 0xC0, 0xA8, 0, 1, 0xC0, 0xA8, 0, 0xC7]"
  by (subst ip_checksum_rfc1071) (simp_all add: oc_sum_def oc_add_def)

section \<open>Packets in frames\<close>

text \<open>The sample pairs as the Ethernet decoder passes them.\<close>

abbreviation pairs_bytes :: "(u64 \<times> u64) list \<Rightarrow> u8 list" where
  "pairs_bytes bl \<equiv> concat (map (\<lambda>(ss, es). le_bytes ss @ le_bytes es) bl)"

lemma length_pairs_bytes [simp]: "length (pairs_bytes bl) = 16 * length bl"
  by (induction bl) (auto split: prod.split)

lemma drop_pairs_bytes: "drop (16 * n) (pairs_bytes bl) = pairs_bytes (drop n bl)"
proof (induction n arbitrary: bl)
  case (Suc n)
  then show ?case
  proof (cases bl)
    case (Cons x xs)
    have "length (case x of (ss, es) \<Rightarrow> le_bytes ss @ le_bytes es) = 16" by (cases x) simp
    then show ?thesis using Suc Cons by (simp add: drop_append)
  qed simp
qed simp

lemma blk_pairs [simp]:
  assumes "i < length bl"
  shows "blk_ss (pairs_bytes bl) i = fst (bl ! i)" and "blk_es (pairs_bytes bl) i = snd (bl ! i)"
proof -
  obtain ss es where x: "bl ! i = (ss, es)" by fastforce
  have d: "drop (16 * i) (pairs_bytes bl) = le_bytes ss @ le_bytes es @ pairs_bytes (drop (Suc i) bl)"
    using assms x unfolding drop_pairs_bytes by (simp flip: Cons_nth_drop_Suc)
  then have "drop (8 + 16 * i) (pairs_bytes bl) = le_bytes es @ pairs_bytes (drop (Suc i) bl)"
    unfolding drop_drop [symmetric] by simp
  moreover have "le_word (le_bytes y) = y" for y :: u64 by (rule le_word_bytes) simp
  ultimately show "blk_ss (pairs_bytes bl) i = fst (bl ! i)" "blk_es (pairs_bytes bl) i = snd (bl ! i)"
    using d x by (simp_all add: blk_ss_def blk_es_def add.commute)
qed

lemma length_data_blocks [simp]: "length (data_blocks ps pe k n) = n"
  by (simp add: data_blocks_def)

lemma nth_data_blocks [simp]: "i < n \<Longrightarrow> data_blocks ps pe k n ! i = (ps (k + 10 * i), pe (k + 10 * i + 9))"
  by (simp add: data_blocks_def)

lemma drop_data_blocks: "drop m (data_blocks ps pe k (m + n)) = data_blocks ps pe (k + 10 * m) n"
  by (rule nth_equalityI) (simp_all add: algebra_simps)

text \<open>The message for the decoder on top of IPv4.\<close>

lemma messages_on_puts:
  "messages_on n (map (\<lambda>(ss, es, t). O_put ss es a c t) xs) = []"
  "messages_on n (map (\<lambda>i. O_put (f i) (g i) a c (h i)) ys) = []"
  by (rule messages_on_none; auto)+

definition datagram_msg :: "(nat \<Rightarrow> u64) \<Rightarrow> (nat \<Rightarrow> u64) \<Rightarrow> nat \<Rightarrow> u8 list \<Rightarrow> u8 list \<Rightarrow> upper_msg" where
  "datagram_msg ps pe k hdr data =
     \<lparr>um_ss = ps k, um_es = pe (k + 10 * (length data + 3) + 9), um_cmd = ''IP_PAYLOAD'',
      um_fields = [C_BYTES data, C_BYTES (pairs_bytes (data_blocks ps pe k (length data + 4))),
        C_BYTES (take 4 (drop 12 hdr)), C_BYTES (take 4 (drop 16 hdr))]\<rparr>"

lemma ipv4_on_frame:
  assumes "length hdr = 20" and "hdr ! 0 AND 0x0F = 5" and "data \<noteq> []" and "0 \<le> ip_out_proto u"
  shows "\<exists>u' out. ipv4_decode_upper (payload_msg ps pe k (hdr @ data)) u = (u', out)
    \<and> messages_on (ip_out_proto u) out = [datagram_msg ps pe (k + 200) hdr data]"
proof -
  let ?p = "hdr @ data" and ?bl = "data_blocks ps pe k (20 + (length data + 4))"
  have n: "length ?p + 4 = 20 + (length data + 4)" using assms(1) by simp
  have h: "unat (?p ! 0 AND 0xF) * 4 = 20" using assms(1,2) by (simp add: nth_append)
  have d: "take (16 * (length data + 4)) (drop 320 (pairs_bytes ?bl)) = pairs_bytes (data_blocks ps pe (k + 200) (length data + 4))"
    using drop_pairs_bytes [of 20 ?bl] drop_data_blocks [of 20 ps pe k "length data + 4"] by simp
  have e: "ipv4_decode_upper (payload_msg ps pe k ?p) u = ipv4_packet ?p (pairs_bytes ?bl) u"
    using h assms(1) unfolding payload_msg_def Let_def n by (simp add: ipv4_decode_upper_def)
  have r: "messages_on (ip_out_proto u) (snd (ipv4_packet ?p (pairs_bytes ?bl) u)) = [datagram_msg ps pe (k + 200) hdr data]"
    using assms(1,3,4) d
    by (simp add: ipv4_packet_def Let_def messages_on_puts datagram_msg_def)
  show ?thesis using e r by (metis prod.collapse)
qed

text \<open>
  C24: A datagram on the wire reaches the decoder on top of the IPv4 decoder through the three levels
  4B5B, Ethernet and IPv4: exactly one message, with the data of the packet, the samples of each
  byte and the two addresses, for every packet with a header of 20 bytes and some data.
\<close>

theorem ipv4_datagram_received:
  assumes t: "fb_bit_count t = 0" "fb_symbol t = 0" "\<not> fb_has_last_nibble t" "fb_bit_offset t = int (length junk)"
    and s: "eth_ready s" and u: "0 \<le> ip_out_proto u" and pre: "0xD5 \<notin> set pre" "length pre < 2048"
    and len: "length dst = 6" "length src = 6" "length ty = 2" "length fcs = 4" "length (hdr @ data) \<le> 2030"
    and hdr: "length hdr = 20" "hdr ! 0 AND 0x0F = 5" "data \<noteq> []"
    and kd: "kd = length junk + 10 * length pre + 360"
  shows "\<exists>st' out. run_upper
      (stack_on (eth_out_proto s) (stack_on (fb_out_python t) fourb5b_recv_proto ethernet_decode_upper) (total_step ipv4_decode_upper))
        (bit_msgs ps pe 0 (junk @ frame_bits (pre @ [0xD5] @ dst @ src @ ty @ (hdr @ data) @ fcs))) ((t, s), u) = Some (st', out)
    \<and> messages_on (ip_out_proto u) out = [datagram_msg ps pe kd hdr data]"
proof -
  let ?k = "length junk + 10 * length pre + 160"
  obtain t' s' o1 where 1: "run_upper (stack_on (fb_out_python t) fourb5b_recv_proto ethernet_decode_upper)
        (bit_msgs ps pe 0 (junk @ frame_bits (pre @ [0xD5] @ dst @ src @ ty @ (hdr @ data) @ fcs))) (t, s) = Some ((t', s'), o1)"
    "messages_on (eth_out_proto s) o1 = [payload_msg ps pe ?k (hdr @ data)]"
    using eth_wire_frame [OF t s pre len refl refl, of ps pe] by blast
  obtain u' out where 2: "ipv4_decode_upper (payload_msg ps pe ?k (hdr @ data)) u = (u', out)"
    "messages_on (ip_out_proto u) out = [datagram_msg ps pe (?k + 200) hdr data]"
    using ipv4_on_frame [OF hdr u] by blast
  have "run_upper (total_step ipv4_decode_upper) (messages_on (eth_out_proto s) o1) u = Some (u', out)"
    by (simp add: 1(2) 2(1) total_step_def)
  moreover have "?k + 200 = kd" by (simp add: kd)
  ultimately show ?thesis using run_stack_on [OF 1(1)] 2(2) by metis
qed


definition example_header :: "u8 list" where
  "example_header = [0x45, 0, 0, 22, 0, 0, 0x40, 0, 0x40, 0x11, 0, 0, 192, 168, 0, 1, 192, 168, 0, 199]"

lemma ipv4_datagram_received_witness:
  "\<exists>st' out. run_upper (stack_on 1 (stack_on 1 fourb5b_recv_proto ethernet_decode_upper) (total_step ipv4_decode_upper))
      (bit_msgs (\<lambda>i. of_nat (4 * i)) (\<lambda>i. of_nat (4 * i + 4)) 0 ([] @ frame_bits ([0x55] @ [0xD5] @ replicate 6 0xFF
         @ replicate 6 2 @ [8, 0] @ (example_header @ [7, 9]) @ [1, 2, 3, 4])))
      ((fourb5b_reset\<lparr>fb_out_python := 1\<rparr>, ethernet_reset\<lparr>eth_out_proto := 1\<rparr>), ipv4_reset\<lparr>ip_out_proto := 1\<rparr>) = Some (st', out)
    \<and> messages_on 1 out = [datagram_msg (\<lambda>i. of_nat (4 * i)) (\<lambda>i. of_nat (4 * i + 4)) 370 example_header [7, 9]]"
proof -
  let ?t = "fourb5b_reset\<lparr>fb_out_python := 1\<rparr>" and ?s = "ethernet_reset\<lparr>eth_out_proto := 1\<rparr>" and ?u = "ipv4_reset\<lparr>ip_out_proto := 1\<rparr>"
  have t: "fb_bit_count ?t = 0" "fb_symbol ?t = 0" "\<not> fb_has_last_nibble ?t" "fb_bit_offset ?t = int (length ([] :: u8 list))"
    "fb_out_python ?t = 1" "eth_out_proto ?s = 1" "ip_out_proto ?u = 1"
    by (simp_all add: fourb5b_reset_def ethernet_reset_def)
  have s: "eth_ready ?s" "0 \<le> ip_out_proto ?u" by (simp_all add: eth_ready_def ethernet_reset_def)
  have l: "0xD5 \<notin> set [0x55 :: u8]" "length [0x55 :: u8] < 2048" "length (replicate 6 0xFF :: u8 list) = 6"
    "length (replicate 6 2 :: u8 list) = 6" "length [8, 0 :: u8] = 2" "length [1, 2, 3, 4 :: u8] = 4"
    "length (example_header @ [7, 9]) \<le> 2030" "length example_header = 20" "example_header ! 0 AND 0x0F = 5" "[7, 9 :: u8] \<noteq> []"
    "370 = length ([] :: u8 list) + 10 * length [0x55 :: u8] + 360"
    by (simp_all add: example_header_def)
  from ipv4_datagram_received [OF t(1-4) s l, of "\<lambda>i. of_nat (4 * i)" "\<lambda>i. of_nat (4 * i + 4)"]
  show ?thesis unfolding t(5-7) .
qed

end
