(* ===== verification/Udp.thy ===== *)
theory Udp
  imports Ipv4
begin

text \<open>
  c_decoders/udp_c.c: UDP datagrams. The decoder expects six arguments: the length and the bytes of
  the payload, the number and the bytes of its sample pairs, and the two addresses.
\<close>

definition udp_ANN_HEADER :: int where "udp_ANN_HEADER = 0"
definition udp_ANN_DATA :: int where "udp_ANN_DATA = 1"

record udp_state =
  udp_out_ann :: int
  udp_out_python :: int
  udp_out_binary :: int
  udp_ss_block :: u64
  udp_es_block :: u64
  udp_format :: int

definition udp_reset :: udp_state where
  "udp_reset = \<lparr>udp_out_ann = 0, udp_out_python = 0, udp_out_binary = 0, udp_ss_block = 0, udp_es_block = 0, udp_format = 0\<rparr>"

definition udp_format_of :: "string option \<Rightarrow> int" where
  "udp_format_of f = (if f = Some ''ascii'' then 1 else if f = Some ''dec'' then 2 else if f = Some ''oct'' then 3
     else if f = Some ''bin'' then 4 else 0)"

definition udp_start :: "inst_ptr \<Rightarrow> udp_state srd_world \<Rightarrow> udp_state srd_world" where
  "udp_start p w =
     (let (ann, w1) = c_decoder_register_output (Some p) SRD_OUTPUT_ANN (Some ''udp'') w;
          (py, w2) = c_decoder_register_output (Some p) SRD_OUTPUT_PROTO (Some ''udp'') w1;
          (bin, w3) = c_decoder_register_output (Some p) SRD_OUTPUT_BINARY (Some ''udp'') w2
      in upd_inst p (\<lambda>d. d\<lparr>user_data := map_option (\<lambda>s. s\<lparr>udp_out_ann := ann, udp_out_python := py, udp_out_binary := bin,
           udp_format := (case c_decoder_get_option_string (Some d) (Some ''format'') (Some ''hex'') of
              None \<Rightarrow> udp_format s | f \<Rightarrow> udp_format_of f)\<rparr>) (user_data d)\<rparr>) w3)"

text \<open>A payload byte as text.\<close>

definition udp_byte_text :: "int \<Rightarrow> u8 \<Rightarrow> string" where
  "udp_byte_text fmt b =
     (if fmt = 1 then (if 0x20 \<le> b \<and> b < 0x7F then [CHR 0x27, char_of (unat b), CHR 0x27] else ''[0x'' @ fmt_num 16 2 (unat b) @ '']'')
      else if fmt = 2 then dec_str (unat b)
      else if fmt = 3 then fmt_num 8 1 (unat b)
      else if fmt = 4 then ''0b'' @ map (\<lambda>i. if bit b i then CHR ''1'' else CHR ''0'') (rev [0..<8])
      else ''0x'' @ fmt_num 16 2 (unat b))"

text \<open>The checksum over the pseudo header and the data.\<close>

definition udp_checksum_ok :: "u8 list \<Rightarrow> u8 list \<Rightarrow> u16 \<Rightarrow> u8 list \<Rightarrow> bool" where
  "udp_checksum_ok src_ip dst_ip udp_length data =
     sum_ok (add_words (add_words (add_words 0 src_ip) dst_ip + 0x0011 + ucast udp_length) data)"

text \<open>The payload of a datagram: the bytes 8 to \<open>end_idx\<close>.\<close>

definition udp_payload :: "nat \<Rightarrow> u8 list \<Rightarrow> u8 list \<Rightarrow> udp_state \<Rightarrow> out_call list" where
  "udp_payload end_idx p blocks s =
     (let n = end_idx - 8
      in map (\<lambda>i. O_put (blk_ss blocks i) (blk_es blocks i) (udp_out_ann s) udp_ANN_DATA [udp_byte_text (udp_format s) (p ! i)])
           [8..<end_idx]
       @ (if 0 \<le> udp_out_python s \<and> 8 < end_idx
          then [O_proto (blk_ss blocks 8) (blk_es blocks (end_idx - 1)) (udp_out_python s) ''UDP_PAYLOAD''
                  [C_BYTES (le_bytes (of_nat n :: u16) @ take n (drop 8 p) @ le_bytes (of_nat n :: u16)
                     @ concat (map (\<lambda>i. le_bytes (blk_ss blocks i) @ le_bytes (blk_es blocks i)) [8..<end_idx]))]]
          else [])
       @ (if 0 \<le> udp_out_binary s \<and> 8 < end_idx
          then [O_bin 0 0 (udp_out_binary s) 0 (take n (drop 8 p))] else []))"

text \<open>A datagram; it has no result if a sample pair it reads is not there.\<close>

definition udp_datagram ::
    "u8 list \<Rightarrow> u8 list \<Rightarrow> nat \<Rightarrow> u8 list \<Rightarrow> u8 list \<Rightarrow> udp_state \<Rightarrow> (udp_state \<times> out_call list) option" where
  "udp_datagram p blocks block_count src_ip dst_ip s =
     (let src_port = u16_at p 0; dst_port = u16_at p 2; udp_length = u16_at p 4;
          cs = (if udp_checksum_ok src_ip dst_ip udp_length (take (min (unat udp_length) (length p)) p) then ''OK'' else ''FAILED'');
          end_idx = min (min (unat udp_length) (length p)) block_count;
          hdr = (\<lambda>i a b. O_put (blk_ss blocks i) (blk_es blocks (i + 1)) (udp_out_ann s) udp_ANN_HEADER [a, b]);
          lst = (if 8 < end_idx then end_idx - 1 else 7)
      in if length blocks < 16 * (lst + 1) then None
         else Some (s\<lparr>udp_ss_block := blk_ss blocks (if lst = 7 then 6 else lst), udp_es_block := blk_es blocks lst\<rparr>,
           [hdr 0 (''Source Port: '' @ dec_str (unat src_port)) (''Src Port: '' @ dec_str (unat src_port)),
            hdr 2 (''Destination Port: '' @ dec_str (unat dst_port)) (''Dst Port: '' @ dec_str (unat dst_port)),
            hdr 4 (''Length: '' @ dec_str (unat udp_length) @ '' bytes'') (''Len: '' @ dec_str (unat udp_length)),
            hdr 6 (''Checksum: '' @ cs) (''Cksum: '' @ cs)]
           @ udp_payload end_idx p blocks s))"

fun field_bytes :: "c_field \<Rightarrow> u8 list option" where
  "field_bytes (C_BYTES bs) = Some bs"
| "field_bytes _ = None"

text \<open>The addresses, if there are six arguments; \<open>0.0.0.0\<close> otherwise.\<close>

definition udp_addresses :: "c_field list \<Rightarrow> (u8 list \<times> u8 list) option" where
  "udp_addresses fs =
     (if length fs < 6 then Some (replicate 4 0, replicate 4 0)
      else case (field_bytes (fs ! 4), field_bytes (fs ! 5)) of
        (Some a, Some b) \<Rightarrow> Some (if 4 \<le> length a \<and> 4 \<le> length b then (take 4 a, take 4 b) else (replicate 4 0, replicate 4 0))
      | _ \<Rightarrow> None)"

definition udp_recv_proto :: "udp_state upper_step" where
  "udp_recv_proto m s =
     (let fs = um_fields m
      in if um_cmd m \<noteq> ''IP_PAYLOAD'' \<or> length fs < 4 then Some (s, [])
         else case (field_num (fs ! 0) :: u16 option, field_bytes (fs ! 1), field_num (fs ! 2) :: u16 option,
                    field_bytes (fs ! 3), udp_addresses fs) of
           (Some plen, Some p, Some block_count, Some blocks, Some (src_ip, dst_ip)) \<Rightarrow>
             (let p1 = take (unat plen) p
              in if length p1 < 8 \<or> block_count < 8 then Some (s, [])
                 else udp_datagram p1 blocks (unat block_count) src_ip dst_ip s)
         | _ \<Rightarrow> None)"

end
