(* ===== verification/Arp.thy ===== *)
theory Arp
  imports Udp
begin

text \<open>
  c_decoders/arp_c.c: address resolution messages. The decoder expects at least four arguments, the
  length and the bytes of the payload, the number of sample pairs, and after a gap of as many arguments
  as the payload has bytes the first and last samples as numbers.
\<close>

definition arp_ANN_DATA :: int where "arp_ANN_DATA = 0"
definition arp_ANN_MSG :: int where "arp_ANN_MSG = 1"

record arp_state =
  arp_out_ann :: int
  arp_ss_block :: u64
  arp_es_block :: u64

definition arp_reset :: arp_state where
  "arp_reset = \<lparr>arp_out_ann = 0, arp_ss_block = 0, arp_es_block = 0\<rparr>"

definition arp_start :: "inst_ptr \<Rightarrow> arp_state srd_world \<Rightarrow> arp_state srd_world" where
  "arp_start p w =
     (let (ann, w1) = c_decoder_register_output (Some p) SRD_OUTPUT_ANN (Some ''arp'') w
      in upd_inst p (\<lambda>d. d\<lparr>user_data := map_option (\<lambda>s. s\<lparr>arp_out_ann := ann\<rparr>) (user_data d)\<rparr>) w1)"

text \<open>Sample pairs passed as arguments; beyond the last argument there is no result.\<close>

definition block_num :: "c_field list \<Rightarrow> nat \<Rightarrow> u64 option" where
  "block_num fs i = (if i < length fs then field_num (fs ! i) else None)"

definition block_ss :: "c_field list \<Rightarrow> nat \<Rightarrow> u64 option" where
  "block_ss fs i = block_num fs (2 * i)"

definition block_es :: "c_field list \<Rightarrow> nat \<Rightarrow> u64 option" where
  "block_es fs i = block_num fs (2 * i + 1)"

definition arp_oper :: "u16 \<Rightarrow> string" where
  "arp_oper oper = (if oper = 1 then ''Request'' else if oper = 2 then ''Reply'' else ''Unknown'')"

definition arp_protocol_text :: "u16 \<Rightarrow> string list" where
  "arp_protocol_text ptype = (case find_ethertype ptype of
      Some (l, sh) \<Rightarrow> [''Protocol: '' @ l @ '' (0x'' @ fmt_num 16 4 (unat ptype) @ '')'',
                       ''Protocol: '' @ sh @ '' (0x'' @ fmt_num 16 4 (unat ptype) @ '')'']
    | None \<Rightarrow> [''Protocol: UNKNOWN'', ''UNKNOWN''])"

text \<open>The fields: first byte, last byte, and the texts.\<close>

definition arp_fields :: "u8 list \<Rightarrow> (nat \<times> nat \<times> string list) list" where
  "arp_fields p =
     (let d = (\<lambda>n. dec_str n); sha = mac_text (drop 8 p); spa = ip_text p 14; tha = mac_text (drop 18 p); tpa = ip_text p 24
      in [(0, 1, [''Hardware Type: '' @ d (unat (u16_at p 0)), ''Type: '' @ d (unat (u16_at p 0))]),
          (2, 3, arp_protocol_text (u16_at p 2)),
          (4, 4, [''Hardware Address Length: '' @ d (unat (p ! 4)), ''HW Len: '' @ d (unat (p ! 4))]),
          (5, 5, [''Protocol Address Length: '' @ d (unat (p ! 5)), ''Prot addr Len: '' @ d (unat (p ! 5))]),
          (6, 7, [''Operation: '' @ arp_oper (u16_at p 6), ''OP: '' @ arp_oper (u16_at p 6)]),
          (8, 13, [''Source MAC: '' @ sha, ''Src MAC: '' @ sha]),
          (14, 17, [''Source IP: '' @ spa, ''Src IP: '' @ spa]),
          (18, 23, [''Destination MAC: '' @ tha, ''Dst MAC: '' @ tha]),
          (24, 27, [''Destination IP: '' @ tpa, ''Dst IP: '' @ tpa])])"

definition arp_message :: "u8 list \<Rightarrow> string option" where
  "arp_message p =
     (let sha = mac_text (drop 8 p); spa = ip_text p 14; tpa = ip_text p 24; oper = u16_at p 6
      in if oper = 1
         then Some (if spa = tpa then ''ARP Announcement for '' @ spa @ '' ('' @ sha @ '')''
                    else if spa = ''0.0.0.0'' then ''ARP Probe for '' @ tpa @ '' ('' @ sha @ '')''
                    else ''Who has '' @ tpa @ ''? Tell '' @ spa @ '' ('' @ sha @ '')'')
         else if oper = 2 then Some (spa @ '' is at '' @ sha) else None)"

text \<open>A call with samples that may be missing.\<close>

definition arp_put :: "arp_state \<Rightarrow> int \<Rightarrow> c_field list \<Rightarrow> nat \<times> nat \<times> string list \<Rightarrow> out_call option" where
  "arp_put s cls blocks f = (case (block_ss blocks (fst f), block_es blocks (fst (snd f))) of
      (Some a, Some b) \<Rightarrow> Some (O_put a b (arp_out_ann s) cls (snd (snd f))) | _ \<Rightarrow> None)"

definition arp_packet :: "u8 list \<Rightarrow> c_field list \<Rightarrow> arp_state \<Rightarrow> (arp_state \<times> out_call list) option" where
  "arp_packet p blocks s =
     (let puts = map (arp_put s arp_ANN_DATA blocks) (arp_fields p)
      in if None \<in> set puts then None
         else case (block_ss blocks 8, block_es blocks 27) of
           (Some a, Some b) \<Rightarrow> Some (s\<lparr>arp_ss_block := a, arp_es_block := b\<rparr>,
             map the puts @ (case arp_message p of None \<Rightarrow> [] | Some t \<Rightarrow> [O_put a b (arp_out_ann s) arp_ANN_MSG [t]]))
         | _ \<Rightarrow> None)"

definition arp_recv_proto :: "arp_state upper_step" where
  "arp_recv_proto m s =
     (let fs = um_fields m
      in if um_cmd m \<noteq> ''PAYLOAD'' \<or> length fs < 4 then Some (s, [])
         else case (field_num (fs ! 0) :: u16 option, field_bytes (fs ! 1), field_num (fs ! 2) :: u16 option) of
           (Some plen, Some p, Some block_count) \<Rightarrow>
             if plen < 28 \<or> block_count < 28 then Some (s, [])
             else if length p < 28 then None
             else arp_packet p (drop (4 + unat plen) fs) s
         | _ \<Rightarrow> None)"

section \<open>What the decoder can do with the messages it gets\<close>

lemma arp_blocks_too_short:
  assumes "length fs \<le> 64" and "28 \<le> unat plen"
  shows "arp_packet p (drop (4 + unat plen) fs) s = None"
proof -
  have "block_es (drop (4 + unat plen) fs) 27 = None"
    using assms by (auto simp: block_es_def block_num_def)
  then show ?thesis by (simp add: arp_packet_def Let_def split: option.split)
qed

lemma arp_step_silent:
  assumes "length (um_fields m) \<le> 64" and "arp_recv_proto m s = Some (s', out)"
  shows "s' = s \<and> out = []"
proof -
  have "arp_packet p (drop (4 + unat plen) (um_fields m)) s = None" if "\<not> plen < 28" for plen :: u16 and p
    using that by (intro arp_blocks_too_short [OF assms(1)]) (simp add: word_less_nat_alt)
  then show ?thesis
    using assms(2) by (auto simp: arp_recv_proto_def Let_def split: if_splits option.splits)
qed

lemma message_on_fields: "message_on n c = Some m \<Longrightarrow> length (um_fields m) \<le> 64"
  by (cases c) (auto split: if_splits)

lemma messages_on_fields: "m \<in> set (messages_on n out) \<Longrightarrow> length (um_fields m) \<le> 64"
  by (induction out) (auto split: option.splits dest: message_on_fields)

text \<open>
  Whatever a decoder below sends, the ARP decoder has no defined result that makes a call: it looks for
  the sample pairs behind the payload among the arguments of the message, which would take 88 of them,
  and a message has at most 64.
\<close>

lemma arp_silent:
  assumes "run_upper arp_recv_proto (messages_on n out) s = Some (s', calls)"
  shows "s' = s \<and> calls = []"
proof -
  have "s' = s \<and> calls = []"
    if "run_upper arp_recv_proto ms s = Some (s', calls)" "\<forall>m \<in> set ms. length (um_fields m) \<le> 64" for ms s calls
    using that
  proof (induction ms arbitrary: s calls)
    case (Cons m ms)
    obtain s1 o1 o2 where 1: "arp_recv_proto m s = Some (s1, o1)" "run_upper arp_recv_proto ms s1 = Some (s', o2)" "calls = o1 @ o2"
      using Cons.prems(1) by (auto split: option.splits)
    then show ?case using Cons.IH [OF 1(2)] Cons.prems(2) arp_step_silent [OF _ 1(1)] by auto
  qed simp
  then show ?thesis using messages_on_fields assms by blast
qed

text \<open>The messages of the Ethernet decoder have two arguments.\<close>

fun two_args :: "out_call \<Rightarrow> bool" where
  "two_args (O_proto ss es n cmd fs) = (length fs = 2)"
| "two_args _ = True"

interpretation eth_args: upper_contract ethernet_decode_upper "\<lambda>_. True" "\<lambda>_. two_args"
proof
  fix s m s' out c
  assume e: "ethernet_decode_upper m s = Some (s', out)" and c: "c \<in> set out"
  have f: "ethernet_field es tx nxt t = Some r \<Longrightarrow> c \<in> set (snd r) \<Longrightarrow> two_args c" for es tx nxt t r
    by (auto simp: ethernet_field_def split: option.splits)
  show "two_args c"
  proof (cases "um_cmd m = ''DATA''")
    case True
    then have "ethernet_handle_data_byte (case um_fields m of C_U8 b # _ \<Rightarrow> b | _ \<Rightarrow> 0) (um_ss m) (um_es m) s = Some (s', out)"
      using e by (simp add: ethernet_decode_upper_def)
    then show ?thesis
      using c by (cases "eth_st s")
        (auto simp: ethernet_handle_data_byte_def ethernet_payload_byte_def ethernet_sfd_def Let_def
          split: option.splits if_splits dest: f)
  next
    case False
    then show ?thesis
      using e c by (auto simp: ethernet_decode_upper_def ethernet_frame_end_def pcap_append_def Let_def
          split: if_splits option.splits)
  qed
qed simp_all

lemma message_on_two_args: "two_args c \<Longrightarrow> message_on n c = Some m \<Longrightarrow> length (um_fields m) = 2"
  by (cases c) (auto split: if_splits)

lemma messages_on_two_args: "\<forall>c \<in> set out. two_args c \<Longrightarrow> \<forall>m \<in> set (messages_on n out). length (um_fields m) = 2"
  by (induction out) (auto split: option.splits dest: message_on_two_args)

text \<open>
  C25: The ARP decoder on top of the Ethernet decoder never shows anything: whatever frames arrive, it
  makes no call and its state stays as it is. The two do not agree about the arguments of a message.
\<close>

theorem arp_silent_on_ethernet:
  assumes "run_upper ethernet_decode_upper ms e = Some (e', out)"
  shows "run_upper arp_recv_proto (messages_on (eth_out_proto e) out) s = Some (s, [])"
proof -
  have "run_upper arp_recv_proto ns s = Some (s, [])" if "\<forall>m \<in> set ns. length (um_fields m) = 2" for ns
    using that by (induction ns) (simp_all add: arp_recv_proto_def Let_def)
  moreover have "\<forall>c \<in> set out. two_args c" using eth_args.run_ok [OF TrueI assms] by blast
  ultimately show ?thesis using messages_on_two_args by blast
qed

lemma arp_silent_on_ethernet_witness:
  "\<exists>e' out. run_upper ethernet_decode_upper (frame_msgs (\<lambda>i. of_nat i) (\<lambda>i. of_nat (i + 1)) 0 ([] @ [0xD5] @ replicate 6 0xFF
      @ replicate 6 2 @ [8, 6] @ replicate 28 1 @ [1, 2, 3, 4])) (ethernet_reset\<lparr>eth_out_proto := 1\<rparr>) = Some (e', out)
    \<and> messages_on 1 out = [payload_msg (\<lambda>i. of_nat i) (\<lambda>i. of_nat (i + 1)) 160 (replicate 28 1)]
    \<and> run_upper arp_recv_proto (messages_on 1 out) arp_reset = Some (arp_reset, [])"
proof -
  let ?e = "ethernet_reset\<lparr>eth_out_proto := 1\<rparr>"
  have r: "eth_ready ?e" "eth_out_proto ?e = 1" by (simp_all add: eth_ready_def ethernet_reset_def)
  obtain e' out where e: "run_upper ethernet_decode_upper (frame_msgs (\<lambda>i. of_nat i) (\<lambda>i. of_nat (i + 1)) 0 ([] @ [0xD5] @ replicate 6 0xFF
      @ replicate 6 2 @ [8, 6] @ replicate 28 1 @ [1, 2, 3, 4])) ?e = Some (e', out)"
    "messages_on (eth_out_proto ?e) out = [payload_msg (\<lambda>i. of_nat i) (\<lambda>i. of_nat (i + 1)) (0 + 10 * length ([] :: u8 list) + 160) (replicate 28 1)]"
    using eth_run_frame [OF r(1), of "[]" "replicate 6 0xFF" "replicate 6 2" "[8, 6]" "[1, 2, 3, 4]" "replicate 28 1"
        "\<lambda>i. of_nat i" "\<lambda>i. of_nat (i + 1)" 0] by auto
  show ?thesis using e arp_silent_on_ethernet [OF e(1), of arp_reset] unfolding r(2) by auto
qed

text \<open>
  The UDP decoder does not agree with the IPv4 decoder about the arguments: where it reads the length
  of the payload, the IPv4 decoder sends its bytes, so it reads the low bits of a pointer.
\<close>

lemma udp_on_ipv4_undefined: "udp_recv_proto (datagram_msg ps pe k hdr data) u = None"
  by (simp add: udp_recv_proto_def datagram_msg_def Let_def)

end
