(* ===== verification/Described.thy ===== *)
theory Described
  imports Upper
begin

text \<open>
  What a description of a decoder is checked for: the checks of the loader, the numbers of the
  channels, and the defaults of the options.
\<close>

text \<open>The channels are numbered one after the other, the optional ones behind the required ones.\<close>

definition all_channels :: "srd_c_decoder \<Rightarrow> srd_channel list" where
  "all_channels d = counted (cd_num_channels d) (cd_channels d)
     @ counted (cd_num_optional_channels d) (cd_optional_channels d)"

definition channels_placed :: "srd_c_decoder \<Rightarrow> bool" where
  "channels_placed d \<longleftrightarrow> map ch_order (all_channels d) = map int [0..<length (all_channels d)]"

text \<open>Every option has a default, and if it has a list of values, the default is one of them.\<close>

definition option_set :: "srd_decoder_option \<Rightarrow> bool" where
  "option_set opt = (case opt_def opt of None \<Rightarrow> False
     | Some v \<Rightarrow> opt_values opt = [] \<or> v \<in> set (opt_values opt))"

definition options_set :: "srd_c_decoder \<Rightarrow> bool" where
  "options_set d \<longleftrightarrow> list_all option_set (counted (cd_num_options d) (cd_options d))"

definition described :: "srd_c_decoder \<Rightarrow> bool \<times> bool \<times> bool" where
  "described d = (c_def_ok d, channels_placed d, options_set d)"

lemma described_iff:
  "described d = (a, b, c) \<longleftrightarrow> c_def_ok d = a \<and> channels_placed d = b \<and> options_set d = c"
  by (simp add: described_def)

lemmas described_simps = described_def channels_placed_def all_channels_def options_set_def option_set_def
  c_def_ok_def len_ok_def row_ok_def counted_def duplicate_check_distinct decoder_of_c_def
  row_of_c_def str_or_def or_else_def Let_def upt_rec

end
