(* ===== verification/Tables1.thy ===== *)
theory Tables1
  imports Described
begin

text \<open>
  The descriptions of the decoders from 4b5b_c to boost_c: the tables in their files, with the option
  defaults and values that \<^verbatim>\<open>srd_c_decoder_entry()\<close> fills in, and their checks. Text outside
  ASCII is given by its bytes.
\<close>

section \<open>4b5b_c.c\<close>

definition fourb5b_options :: "srd_decoder_option list" where
  "fourb5b_options = [
     \<lparr>opt_id = Some ''bit_offset'', opt_idn = None, opt_desc = Some ''Bit offset'',
        opt_def = Some (GV_string ''0''), opt_values = [GV_string ''0'', GV_string ''1'', GV_string ''2'', GV_string ''3'', GV_string ''4'']\<rparr>]"

definition fourb5b_ann_labels :: "(string option \<times> string option \<times> string option) list" where
  "fourb5b_ann_labels = [
     (Some [], Some ''symbol_data'', Some ''Data symbol''),
     (Some [], Some ''symbol_ctrl'', Some ''Control symbol''),
     (Some [], Some ''bit'', Some ''Decoded bit''),
     (Some [], Some ''byte'', Some ''Decoded byte'')]"

definition fourb5b_ann_rows :: "srd_c_ann_row list" where
  "fourb5b_ann_rows = [
     \<lparr>car_id = Some ''symbol'', car_desc = Some ''Symbols'', car_ann_classes = Some [0, 1], car_num_ann_classes = 2\<rparr>,
     \<lparr>car_id = Some ''bits'', car_desc = Some ''Bits'', car_ann_classes = Some [2], car_num_ann_classes = 1\<rparr>,
     \<lparr>car_id = Some ''bytes'', car_desc = Some ''Bytes'', car_ann_classes = Some [3], car_num_ann_classes = 1\<rparr>]"

definition fourb5b_inputs :: "string list" where
  "fourb5b_inputs = [
     ''nrzi'']"

definition fourb5b_outputs :: "string list" where
  "fourb5b_outputs = [
     ''4b5b'']"

definition fourb5b_tags :: "string list" where
  "fourb5b_tags = [
     ''Encoding'']"

definition fourb5b_c_def :: srd_c_decoder where
  "fourb5b_c_def = \<lparr>cd_id = Some ''4b5b_c'', cd_name = Some ''4B5B(C)'',
     cd_longname = Some ''4B5B Line Code (C)'', cd_desc = Some ''Maps 4 data bits to 5 bit symbols for transmission. (C implementation)'', cd_license = Some ''gplv2+'',
     cd_channels = None, cd_num_channels = 0,
     cd_optional_channels = None, cd_num_optional_channels = 0,
     cd_options = Some fourb5b_options, cd_num_options = 1,
     cd_num_annotations = 4, cd_ann_labels = Some fourb5b_ann_labels,
     cd_num_annotation_rows = 3, cd_annotation_rows = Some fourb5b_ann_rows,
     cd_inputs = Some fourb5b_inputs, cd_num_inputs = 1, cd_outputs = Some fourb5b_outputs, cd_num_outputs = 1,
     cd_binary = None, cd_num_binary = 0, cd_tags = Some fourb5b_tags, cd_num_tags = 1\<rparr>"

lemma fourb5b_described: "described fourb5b_c_def = (True, True, True)"
  by (simp add: described_simps fourb5b_options_def fourb5b_ann_labels_def fourb5b_ann_rows_def fourb5b_inputs_def fourb5b_outputs_def fourb5b_tags_def fourb5b_c_def_def)

section \<open>a7105_c.c\<close>

definition a7105_ann_labels :: "(string option \<times> string option \<times> string option) list" where
  "a7105_ann_labels = [
     (Some [], Some ''cmd'', Some ''Commands sent to the device''),
     (Some [], Some ''tx-data'', Some ''Payload sent to the device''),
     (Some [], Some ''rx-data'', Some ''Payload read from the device''),
     (Some [], Some ''warning'', Some ''Warnings'')]"

definition a7105_ann_rows :: "srd_c_ann_row list" where
  "a7105_ann_rows = [
     \<lparr>car_id = Some ''commands'', car_desc = Some ''Commands'', car_ann_classes = Some [0, 1, 2], car_num_ann_classes = 3\<rparr>,
     \<lparr>car_id = Some ''warnings'', car_desc = Some ''Warnings'', car_ann_classes = Some [3], car_num_ann_classes = 1\<rparr>]"

definition a7105_inputs :: "string list" where
  "a7105_inputs = [
     ''spi'']"

definition a7105_tags :: "string list" where
  "a7105_tags = [
     ''IC'',
     ''Wireless/RF'']"

definition a7105_c_def :: srd_c_decoder where
  "a7105_c_def = \<lparr>cd_id = Some ''a7105_c'', cd_name = Some ''A7105(C)'',
     cd_longname = Some ''AMICCOM A7105 (C)'', cd_desc = Some ''2.4GHz FSK/GFSK Transceiver with 2K ~ 500Kbps data rate. (C implementation)'', cd_license = Some ''gplv2+'',
     cd_channels = None, cd_num_channels = 0,
     cd_optional_channels = None, cd_num_optional_channels = 0,
     cd_options = None, cd_num_options = 0,
     cd_num_annotations = 4, cd_ann_labels = Some a7105_ann_labels,
     cd_num_annotation_rows = 2, cd_annotation_rows = Some a7105_ann_rows,
     cd_inputs = Some a7105_inputs, cd_num_inputs = 1, cd_outputs = None, cd_num_outputs = 0,
     cd_binary = None, cd_num_binary = 0, cd_tags = Some a7105_tags, cd_num_tags = 2\<rparr>"

lemma a7105_described: "described a7105_c_def = (True, True, True)"
  by (simp add: described_simps a7105_ann_labels_def a7105_ann_rows_def a7105_inputs_def a7105_tags_def a7105_c_def_def)

section \<open>ac97_c.c\<close>

definition ac97_channels :: "srd_channel list" where
  "ac97_channels = [
     \<lparr>ch_id = Some ''sync'', ch_name = Some ''SYNC'', ch_desc = Some ''Frame synchronization'', ch_order = 0, ch_type = -1, ch_idn = Some ''dec_ac97_chan_sync''\<rparr>,
     \<lparr>ch_id = Some ''clk'', ch_name = Some ''BIT_CLK'', ch_desc = Some ''Data bits clock'', ch_order = 1, ch_type = 0, ch_idn = Some ''dec_ac97_chan_clk''\<rparr>]"

definition ac97_optional_channels :: "srd_channel list" where
  "ac97_optional_channels = [
     \<lparr>ch_id = Some ''out'', ch_name = Some ''SDATA_OUT'', ch_desc = Some ''Data output'', ch_order = 2, ch_type = 1, ch_idn = Some ''dec_ac97_opt_chan_out''\<rparr>,
     \<lparr>ch_id = Some ''in'', ch_name = Some ''SDATA_IN'', ch_desc = Some ''Data input'', ch_order = 3, ch_type = 1, ch_idn = Some ''dec_ac97_opt_chan_in''\<rparr>,
     \<lparr>ch_id = Some ''rst'', ch_name = Some ''RESET#'', ch_desc = Some ''Reset line'', ch_order = 4, ch_type = -1, ch_idn = Some ''dec_ac97_opt_chan_rst''\<rparr>]"

definition ac97_ann_labels :: "(string option \<times> string option \<times> string option) list" where
  "ac97_ann_labels = [
     (Some [], Some ''Output bits'', Some ''Output bits''),
     (Some [], Some ''Input bits'', Some ''Input bits''),
     (Some [], Some ''Output raw value'', Some ''Output raw value''),
     (Some [], Some ''Output TAG'', Some ''Output TAG''),
     (Some [], Some ''Output command address'', Some ''Output command address''),
     (Some [], Some ''Output command data'', Some ''Output command data''),
     (Some [], Some ''Output slot 3'', Some ''Output slot 3''),
     (Some [], Some ''Output slot 4'', Some ''Output slot 4''),
     (Some [], Some ''Output slot 5'', Some ''Output slot 5''),
     (Some [], Some ''Output slot 6'', Some ''Output slot 6''),
     (Some [], Some ''Output slot 7'', Some ''Output slot 7''),
     (Some [], Some ''Output slot 8'', Some ''Output slot 8''),
     (Some [], Some ''Output slot 9'', Some ''Output slot 9''),
     (Some [], Some ''Output slot 10'', Some ''Output slot 10''),
     (Some [], Some ''Output slot 11'', Some ''Output slot 11''),
     (Some [], Some ''Output I/O control'', Some ''Output I/O control''),
     (Some [], Some ''Input raw value'', Some ''Input raw value''),
     (Some [], Some ''Input TAG'', Some ''Input TAG''),
     (Some [], Some ''Input status address'', Some ''Input status address''),
     (Some [], Some ''Input status data'', Some ''Input status data''),
     (Some [], Some ''Input slot 3'', Some ''Input slot 3''),
     (Some [], Some ''Input slot 4'', Some ''Input slot 4''),
     (Some [], Some ''Input slot 5'', Some ''Input slot 5''),
     (Some [], Some ''Input slot 6'', Some ''Input slot 6''),
     (Some [], Some ''Input slot 7'', Some ''Input slot 7''),
     (Some [], Some ''Input slot 8'', Some ''Input slot 8''),
     (Some [], Some ''Input slot 9'', Some ''Input slot 9''),
     (Some [], Some ''Input slot 10'', Some ''Input slot 10''),
     (Some [], Some ''Input slot 11'', Some ''Input slot 11''),
     (Some [], Some ''Input I/O status'', Some ''Input I/O status''),
     (Some [], Some ''Warning'', Some ''Warning''),
     (Some [], Some ''Error'', Some ''Error'')]"

definition ac97_ann_rows :: "srd_c_ann_row list" where
  "ac97_ann_rows = [
     \<lparr>car_id = Some ''bits-out'', car_desc = Some ''Output bits'', car_ann_classes = Some [0], car_num_ann_classes = 1\<rparr>,
     \<lparr>car_id = Some ''slots-out-raw'', car_desc = Some ''Output numbers'', car_ann_classes = Some [2], car_num_ann_classes = 1\<rparr>,
     \<lparr>car_id = Some ''slots-out'', car_desc = Some ''Output slots'', car_ann_classes = Some [3, 4, 5, 6, 7, 8, 9, 10, 11, 12, 13, 14, 15], car_num_ann_classes = 13\<rparr>,
     \<lparr>car_id = Some ''bits-in'', car_desc = Some ''Input bits'', car_ann_classes = Some [1], car_num_ann_classes = 1\<rparr>,
     \<lparr>car_id = Some ''slots-in-raw'', car_desc = Some ''Input numbers'', car_ann_classes = Some [16], car_num_ann_classes = 1\<rparr>,
     \<lparr>car_id = Some ''slots-in'', car_desc = Some ''Input slots'', car_ann_classes = Some [17, 18, 19, 20, 21, 22, 23, 24, 25, 26, 27, 28, 29], car_num_ann_classes = 13\<rparr>,
     \<lparr>car_id = Some ''warnings'', car_desc = Some ''Warnings'', car_ann_classes = Some [30], car_num_ann_classes = 1\<rparr>,
     \<lparr>car_id = Some ''errors'', car_desc = Some ''Errors'', car_ann_classes = Some [31], car_num_ann_classes = 1\<rparr>]"

definition ac97_binary :: "srd_decoder_binary list" where
  "ac97_binary = [
     \<lparr>bin_class = 0, bin_id = Some ''frame-out'', bin_desc = Some ''Frame bits, output data''\<rparr>,
     \<lparr>bin_class = 1, bin_id = Some ''frame-in'', bin_desc = Some ''Frame bits, input data''\<rparr>,
     \<lparr>bin_class = 2, bin_id = Some ''slot-raw-out'', bin_desc = Some ''Raw slot bits, output data''\<rparr>,
     \<lparr>bin_class = 3, bin_id = Some ''slot-raw-in'', bin_desc = Some ''Raw slot bits, input data''\<rparr>]"

definition ac97_inputs :: "string list" where
  "ac97_inputs = [
     ''logic'']"

definition ac97_tags :: "string list" where
  "ac97_tags = [
     ''Audio'',
     ''PC'']"

definition ac97_c_def :: srd_c_decoder where
  "ac97_c_def = \<lparr>cd_id = Some ''ac97_c'', cd_name = Some ''AC '97(C)'',
     cd_longname = Some ''Audio Codec '97 (C)'', cd_desc = Some ''Audio and modem control for PC systems.'', cd_license = Some ''gplv2+'',
     cd_channels = Some ac97_channels, cd_num_channels = 2,
     cd_optional_channels = Some ac97_optional_channels, cd_num_optional_channels = 3,
     cd_options = None, cd_num_options = 0,
     cd_num_annotations = 32, cd_ann_labels = Some ac97_ann_labels,
     cd_num_annotation_rows = 8, cd_annotation_rows = Some ac97_ann_rows,
     cd_inputs = Some ac97_inputs, cd_num_inputs = 1, cd_outputs = None, cd_num_outputs = 0,
     cd_binary = Some ac97_binary, cd_num_binary = 4, cd_tags = Some ac97_tags, cd_num_tags = 2\<rparr>"

lemma ac97_described: "described ac97_c_def = (True, True, True)"
  by (simp add: described_simps ac97_channels_def ac97_optional_channels_def ac97_ann_labels_def ac97_ann_rows_def ac97_binary_def ac97_inputs_def ac97_tags_def ac97_c_def_def)

section \<open>ad5593r_c.c\<close>

definition ad5593r_options :: "srd_decoder_option list" where
  "ad5593r_options = [
     \<lparr>opt_id = Some ''Vref'', opt_idn = Some ''dec_ad5593r_opt_vref'', opt_desc = Some ''Reference voltage (V)'',
        opt_def = Some (GV_double (5 / 2)), opt_values = []\<rparr>]"

definition ad5593r_ann_labels :: "(string option \<times> string option \<times> string option) list" where
  "ad5593r_ann_labels = [
     (Some [], Some ''register'', Some ''Register''),
     (Some [], Some ''field'', Some ''Field''),
     (Some [], Some ''ptr_byte'', Some ''Pointer Byte''),
     (Some [], Some ''slave_addr'', Some ''Slave Address''),
     (Some [], Some ''data_byte'', Some ''Data Byte''),
     (Some [], Some ''warning'', Some ''Warning'')]"

definition ad5593r_ann_rows :: "srd_c_ann_row list" where
  "ad5593r_ann_rows = [
     \<lparr>car_id = Some ''packet'', car_desc = Some ''Packets'', car_ann_classes = Some [2, 3, 5, 4], car_num_ann_classes = 4\<rparr>,
     \<lparr>car_id = Some ''registers'', car_desc = Some ''Registers'', car_ann_classes = Some [0], car_num_ann_classes = 1\<rparr>,
     \<lparr>car_id = Some ''fields'', car_desc = Some ''Fields'', car_ann_classes = Some [1], car_num_ann_classes = 1\<rparr>]"

definition ad5593r_inputs :: "string list" where
  "ad5593r_inputs = [
     ''i2c'']"

definition ad5593r_tags :: "string list" where
  "ad5593r_tags = [
     ''IC'',
     ''Analog/digital'']"

definition ad5593r_c_def :: srd_c_decoder where
  "ad5593r_c_def = \<lparr>cd_id = Some ''ad5593r_c'', cd_name = Some ''AD5593R(C)'',
     cd_longname = Some ''Analog Devices AD5593R (C)'', cd_desc = Some ''Analog Devices AD5593R 12-bit configurable ADC/DAC. (C implementation)'', cd_license = Some ''gplv3+'',
     cd_channels = None, cd_num_channels = 0,
     cd_optional_channels = None, cd_num_optional_channels = 0,
     cd_options = Some ad5593r_options, cd_num_options = 1,
     cd_num_annotations = 6, cd_ann_labels = Some ad5593r_ann_labels,
     cd_num_annotation_rows = 3, cd_annotation_rows = Some ad5593r_ann_rows,
     cd_inputs = Some ad5593r_inputs, cd_num_inputs = 1, cd_outputs = None, cd_num_outputs = 0,
     cd_binary = None, cd_num_binary = 0, cd_tags = Some ad5593r_tags, cd_num_tags = 2\<rparr>"

lemma ad5593r_described: "described ad5593r_c_def = (True, True, True)"
  by (simp add: described_simps ad5593r_options_def ad5593r_ann_labels_def ad5593r_ann_rows_def ad5593r_inputs_def ad5593r_tags_def ad5593r_c_def_def)

section \<open>ad5626_c.c\<close>

definition ad5626_ann_labels :: "(string option \<times> string option \<times> string option) list" where
  "ad5626_ann_labels = [
     (Some [], Some ''voltage'', Some ''Voltage'')]"

definition ad5626_ann_rows :: "srd_c_ann_row list" where
  "ad5626_ann_rows = [
     \<lparr>car_id = Some ''voltage'', car_desc = Some ''Voltage'', car_ann_classes = Some [0], car_num_ann_classes = 1\<rparr>]"

definition ad5626_inputs :: "string list" where
  "ad5626_inputs = [
     ''spi'']"

definition ad5626_tags :: "string list" where
  "ad5626_tags = [
     ''IC'',
     ''Analog/digital'']"

definition ad5626_c_def :: srd_c_decoder where
  "ad5626_c_def = \<lparr>cd_id = Some ''ad5626_c'', cd_name = Some ''AD5626(C)'',
     cd_longname = Some ''Analog Devices AD5626 (C)'', cd_desc = Some ''Analog Devices AD5626 12-bit nanoDAC. (C implementation)'', cd_license = Some ''gplv2+'',
     cd_channels = None, cd_num_channels = 0,
     cd_optional_channels = None, cd_num_optional_channels = 0,
     cd_options = None, cd_num_options = 0,
     cd_num_annotations = 1, cd_ann_labels = Some ad5626_ann_labels,
     cd_num_annotation_rows = 1, cd_annotation_rows = Some ad5626_ann_rows,
     cd_inputs = Some ad5626_inputs, cd_num_inputs = 1, cd_outputs = None, cd_num_outputs = 0,
     cd_binary = None, cd_num_binary = 0, cd_tags = Some ad5626_tags, cd_num_tags = 2\<rparr>"

lemma ad5626_described: "described ad5626_c_def = (True, True, True)"
  by (simp add: described_simps ad5626_ann_labels_def ad5626_ann_rows_def ad5626_inputs_def ad5626_tags_def ad5626_c_def_def)

section \<open>ad79x0_c.c\<close>

definition ad79x0_options :: "srd_decoder_option list" where
  "ad79x0_options = [
     \<lparr>opt_id = Some ''vref'', opt_idn = Some ''dec_ad79x0_opt_vref'', opt_desc = Some ''Reference voltage (V)'',
        opt_def = Some (GV_double (3 / 2)), opt_values = []\<rparr>]"

definition ad79x0_ann_labels :: "(string option \<times> string option \<times> string option) list" where
  "ad79x0_ann_labels = [
     (Some [], Some ''mode'', Some ''Mode''),
     (Some [], Some ''voltage'', Some ''Voltage''),
     (Some [], Some ''validation'', Some ''Validation'')]"

definition ad79x0_ann_rows :: "srd_c_ann_row list" where
  "ad79x0_ann_rows = [
     \<lparr>car_id = Some ''modes'', car_desc = Some ''Modes'', car_ann_classes = Some [0], car_num_ann_classes = 1\<rparr>,
     \<lparr>car_id = Some ''voltages'', car_desc = Some ''Voltages'', car_ann_classes = Some [1], car_num_ann_classes = 1\<rparr>,
     \<lparr>car_id = Some ''data_validation'', car_desc = Some ''Data validation'', car_ann_classes = Some [2], car_num_ann_classes = 1\<rparr>]"

definition ad79x0_inputs :: "string list" where
  "ad79x0_inputs = [
     ''spi'']"

definition ad79x0_tags :: "string list" where
  "ad79x0_tags = [
     ''IC'',
     ''Analog/digital'']"

definition ad79x0_c_def :: srd_c_decoder where
  "ad79x0_c_def = \<lparr>cd_id = Some ''ad79x0_c'', cd_name = Some ''AD79x0(C)'',
     cd_longname = Some ''Analog Devices AD79x0 (C)'', cd_desc = Some ''Analog Devices AD7910/AD7920 12-bit ADC. (C implementation)'', cd_license = Some ''gplv2+'',
     cd_channels = None, cd_num_channels = 0,
     cd_optional_channels = None, cd_num_optional_channels = 0,
     cd_options = Some ad79x0_options, cd_num_options = 1,
     cd_num_annotations = 3, cd_ann_labels = Some ad79x0_ann_labels,
     cd_num_annotation_rows = 3, cd_annotation_rows = Some ad79x0_ann_rows,
     cd_inputs = Some ad79x0_inputs, cd_num_inputs = 1, cd_outputs = None, cd_num_outputs = 0,
     cd_binary = None, cd_num_binary = 0, cd_tags = Some ad79x0_tags, cd_num_tags = 2\<rparr>"

lemma ad79x0_described: "described ad79x0_c_def = (True, True, True)"
  by (simp add: described_simps ad79x0_options_def ad79x0_ann_labels_def ad79x0_ann_rows_def ad79x0_inputs_def ad79x0_tags_def ad79x0_c_def_def)

section \<open>adat_c.c\<close>

definition adat_options :: "srd_decoder_option list" where
  "adat_options = [
     \<lparr>opt_id = Some ''samplerate'', opt_idn = None, opt_desc = Some ''audio sample rate'',
        opt_def = Some (GV_int64 48000), opt_values = [GV_int64 44100, GV_int64 48000, GV_int64 88200, GV_int64 96000]\<rparr>,
     \<lparr>opt_id = Some ''sample_display'', opt_idn = None, opt_desc = Some ''How to display the channel samples'',
        opt_def = Some (GV_string ''decimal''), opt_values = [GV_string ''decimal'', GV_string ''hexadecimal'']\<rparr>,
     \<lparr>opt_id = Some ''annotations'', opt_idn = None, opt_desc = Some ''Which set of annotations to display'',
        opt_def = Some (GV_string ''both''), opt_values = [GV_string ''intra-frame'', GV_string ''per-frame'', GV_string ''both'']\<rparr>]"

definition adat_channels :: "srd_channel list" where
  "adat_channels = [
     \<lparr>ch_id = Some ''adat'', ch_name = Some ''ADAT'', ch_desc = Some ''ADAT data line'', ch_order = 0, ch_type = 1, ch_idn = None\<rparr>]"

definition adat_ann_labels :: "(string option \<times> string option \<times> string option) list" where
  "adat_ann_labels = [
     (Some [], Some ''bit'', Some ''bit''),
     (Some [], Some ''sync'', Some ''SYNC pad''),
     (Some [], Some ''user-bits'', Some ''user bits''),
     (Some [], Some ''nibble'', Some ''nibbles''),
     (Some [], Some ''error'', Some ''error''),
     (Some [], Some ''channel'', Some ''channel data''),
     (Some [], Some ''frame-user-data'', Some ''frame user data''),
     (Some [], Some ''channel-0'', Some ''channel 0 data''),
     (Some [], Some ''channel-1'', Some ''channel 1 data''),
     (Some [], Some ''channel-2'', Some ''channel 2 data''),
     (Some [], Some ''channel-3'', Some ''channel 3 data''),
     (Some [], Some ''channel-4'', Some ''channel 4 data''),
     (Some [], Some ''channel-5'', Some ''channel 5 data''),
     (Some [], Some ''channel-6'', Some ''channel 6 data''),
     (Some [], Some ''channel-7'', Some ''channel 7 data'')]"

definition adat_ann_rows :: "srd_c_ann_row list" where
  "adat_ann_rows = [
     \<lparr>car_id = Some ''bits'', car_desc = Some ''Bits'', car_ann_classes = Some [0], car_num_ann_classes = 1\<rparr>,
     \<lparr>car_id = Some ''nibbles'', car_desc = Some ''Nibbles'', car_ann_classes = Some [3, 4], car_num_ann_classes = 2\<rparr>,
     \<lparr>car_id = Some ''fields'', car_desc = Some ''Fields'', car_ann_classes = Some [1, 2, 5], car_num_ann_classes = 3\<rparr>,
     \<lparr>car_id = Some ''user-data'', car_desc = Some ''Frame User Data'', car_ann_classes = Some [6], car_num_ann_classes = 1\<rparr>,
     \<lparr>car_id = Some ''channel0'', car_desc = Some ''Channel 0 Data'', car_ann_classes = Some [7], car_num_ann_classes = 1\<rparr>,
     \<lparr>car_id = Some ''channel1'', car_desc = Some ''Channel 1 Data'', car_ann_classes = Some [8], car_num_ann_classes = 1\<rparr>,
     \<lparr>car_id = Some ''channel2'', car_desc = Some ''Channel 2 Data'', car_ann_classes = Some [9], car_num_ann_classes = 1\<rparr>,
     \<lparr>car_id = Some ''channel3'', car_desc = Some ''Channel 3 Data'', car_ann_classes = Some [10], car_num_ann_classes = 1\<rparr>,
     \<lparr>car_id = Some ''channel4'', car_desc = Some ''Channel 4 Data'', car_ann_classes = Some [11], car_num_ann_classes = 1\<rparr>,
     \<lparr>car_id = Some ''channel5'', car_desc = Some ''Channel 5 Data'', car_ann_classes = Some [12], car_num_ann_classes = 1\<rparr>,
     \<lparr>car_id = Some ''channel6'', car_desc = Some ''Channel 6 Data'', car_ann_classes = Some [13], car_num_ann_classes = 1\<rparr>,
     \<lparr>car_id = Some ''channel7'', car_desc = Some ''Channel 7 Data'', car_ann_classes = Some [14], car_num_ann_classes = 1\<rparr>]"

definition adat_inputs :: "string list" where
  "adat_inputs = [
     ''logic'']"

definition adat_tags :: "string list" where
  "adat_tags = [
     ''Audio'']"

definition adat_c_def :: srd_c_decoder where
  "adat_c_def = \<lparr>cd_id = Some ''adat_c'', cd_name = Some ''ADAT(C)'',
     cd_longname = Some ''ADAT lightpipe decoder(C)'', cd_desc = Some ''Decodes the ADAT protocol (C implementation)'', cd_license = Some ''gplv2+'',
     cd_channels = Some adat_channels, cd_num_channels = 1,
     cd_optional_channels = None, cd_num_optional_channels = 0,
     cd_options = Some adat_options, cd_num_options = 3,
     cd_num_annotations = 15, cd_ann_labels = Some adat_ann_labels,
     cd_num_annotation_rows = 12, cd_annotation_rows = Some adat_ann_rows,
     cd_inputs = Some adat_inputs, cd_num_inputs = 1, cd_outputs = None, cd_num_outputs = 0,
     cd_binary = None, cd_num_binary = 0, cd_tags = Some adat_tags, cd_num_tags = 1\<rparr>"

lemma adat_described: "described adat_c_def = (True, True, True)"
  by (simp add: described_simps adat_options_def adat_channels_def adat_ann_labels_def adat_ann_rows_def adat_inputs_def adat_tags_def adat_c_def_def)

section \<open>adb_c.c\<close>

definition adb_options :: "srd_decoder_option list" where
  "adb_options = [
     \<lparr>opt_id = Some ''format'', opt_idn = None, opt_desc = Some ''Data format'',
        opt_def = None, opt_values = []\<rparr>]"

definition adb_channels :: "srd_channel list" where
  "adb_channels = [
     \<lparr>ch_id = Some ''data'', ch_name = Some ''Data'', ch_desc = Some ''Data line'', ch_order = 0, ch_type = 1, ch_idn = None\<rparr>]"

definition adb_ann_labels :: "(string option \<times> string option \<times> string option) list" where
  "adb_ann_labels = [
     (Some [], Some ''lo'', Some ''Low''),
     (Some [], Some ''hi'', Some ''High''),
     (Some [], Some ''attn'', Some ''Attention''),
     (Some [], Some ''greset'', Some ''Global Reset''),
     (Some [], Some ''bit'', Some ''Bit''),
     (Some [], Some ''data'', Some ''Data''),
     (Some [], Some ''start'', Some ''Start''),
     (Some [], Some ''stop'', Some ''Stop''),
     (Some [], Some ''srq'', Some ''Service Request''),
     (Some [], Some ''reset'', Some ''Reset''),
     (Some [], Some ''flush'', Some ''Flush''),
     (Some [], Some ''listen'', Some ''Listen''),
     (Some [], Some ''talk'', Some ''Talk''),
     (Some [], Some ''unknown'', Some ''Unknown'')]"

definition adb_ann_rows :: "srd_c_ann_row list" where
  "adb_ann_rows = [
     \<lparr>car_id = Some ''cells'', car_desc = Some ''Cells'', car_ann_classes = Some [0, 1, 2, 3, 8], car_num_ann_classes = 5\<rparr>,
     \<lparr>car_id = Some ''bits'', car_desc = Some ''Bits'', car_ann_classes = Some [4, 6, 7], car_num_ann_classes = 3\<rparr>,
     \<lparr>car_id = Some ''bytes'', car_desc = Some ''Bytes'', car_ann_classes = Some [5, 9, 10, 11, 12, 13], car_num_ann_classes = 6\<rparr>]"

definition adb_inputs :: "string list" where
  "adb_inputs = [
     ''logic'']"

definition adb_tags :: "string list" where
  "adb_tags = [
     ''PC'']"

definition adb_c_def :: srd_c_decoder where
  "adb_c_def = \<lparr>cd_id = Some ''adb_c'', cd_name = Some ''ADB(C)'',
     cd_longname = Some ''Apple Desktop Bus (C)'', cd_desc = Some ''Decode command and data of Apple Desktop Bus protocol.'', cd_license = Some ''mit'',
     cd_channels = Some adb_channels, cd_num_channels = 1,
     cd_optional_channels = None, cd_num_optional_channels = 0,
     cd_options = Some adb_options, cd_num_options = 1,
     cd_num_annotations = 14, cd_ann_labels = Some adb_ann_labels,
     cd_num_annotation_rows = 3, cd_annotation_rows = Some adb_ann_rows,
     cd_inputs = Some adb_inputs, cd_num_inputs = 1, cd_outputs = None, cd_num_outputs = 0,
     cd_binary = None, cd_num_binary = 0, cd_tags = Some adb_tags, cd_num_tags = 1\<rparr>"

lemma adb_described: "described adb_c_def = (True, True, False)"
  by (simp add: described_simps adb_options_def adb_channels_def adb_ann_labels_def adb_ann_rows_def adb_inputs_def adb_tags_def adb_c_def_def)

section \<open>ade77xx_c.c\<close>

definition ade77xx_ann_labels :: "(string option \<times> string option \<times> string option) list" where
  "ade77xx_ann_labels = [
     (Some [], Some ''read'', Some ''Register read commands''),
     (Some [], Some ''write'', Some ''Register write commands''),
     (Some [], Some ''warning'', Some ''Warnings'')]"

definition ade77xx_ann_rows :: "srd_c_ann_row list" where
  "ade77xx_ann_rows = [
     \<lparr>car_id = Some ''read'', car_desc = Some ''Read'', car_ann_classes = Some [0], car_num_ann_classes = 1\<rparr>,
     \<lparr>car_id = Some ''write'', car_desc = Some ''Write'', car_ann_classes = Some [1], car_num_ann_classes = 1\<rparr>,
     \<lparr>car_id = Some ''warnings'', car_desc = Some ''Warnings'', car_ann_classes = Some [2], car_num_ann_classes = 1\<rparr>]"

definition ade77xx_inputs :: "string list" where
  "ade77xx_inputs = [
     ''spi'']"

definition ade77xx_tags :: "string list" where
  "ade77xx_tags = [
     ''Analog/digital'',
     ''IC'',
     ''Sensor'']"

definition ade77xx_c_def :: srd_c_decoder where
  "ade77xx_c_def = \<lparr>cd_id = Some ''ade77xx_c'', cd_name = Some ''ADE77xx(C)'',
     cd_longname = Some ''Analog Devices ADE77xx (C)'', cd_desc = Some ''Poly phase multifunction energy metering IC protocol. (C implementation)'', cd_license = Some ''mit'',
     cd_channels = None, cd_num_channels = 0,
     cd_optional_channels = None, cd_num_optional_channels = 0,
     cd_options = None, cd_num_options = 0,
     cd_num_annotations = 3, cd_ann_labels = Some ade77xx_ann_labels,
     cd_num_annotation_rows = 3, cd_annotation_rows = Some ade77xx_ann_rows,
     cd_inputs = Some ade77xx_inputs, cd_num_inputs = 1, cd_outputs = None, cd_num_outputs = 0,
     cd_binary = None, cd_num_binary = 0, cd_tags = Some ade77xx_tags, cd_num_tags = 3\<rparr>"

lemma ade77xx_described: "described ade77xx_c_def = (True, True, True)"
  by (simp add: described_simps ade77xx_ann_labels_def ade77xx_ann_rows_def ade77xx_inputs_def ade77xx_tags_def ade77xx_c_def_def)

section \<open>adf435x_c.c\<close>

definition adf435x_ann_labels :: "(string option \<times> string option \<times> string option) list" where
  "adf435x_ann_labels = [
     (Some [], Some ''write'', Some ''Register write''),
     (Some [], Some ''warning'', Some ''Warnings'')]"

definition adf435x_ann_rows :: "srd_c_ann_row list" where
  "adf435x_ann_rows = [
     \<lparr>car_id = Some ''writes'', car_desc = Some ''Register writes'', car_ann_classes = Some [0], car_num_ann_classes = 1\<rparr>,
     \<lparr>car_id = Some ''warnings'', car_desc = Some ''Warnings'', car_ann_classes = Some [1], car_num_ann_classes = 1\<rparr>]"

definition adf435x_inputs :: "string list" where
  "adf435x_inputs = [
     ''spi'']"

definition adf435x_tags :: "string list" where
  "adf435x_tags = [
     ''Clock/timing'',
     ''IC'',
     ''Wireless/RF'']"

definition adf435x_c_def :: srd_c_decoder where
  "adf435x_c_def = \<lparr>cd_id = Some ''adf435x_c'', cd_name = Some ''ADF435x(C)'',
     cd_longname = Some ''Analog Devices ADF4350/1 (C)'', cd_desc = Some ''Wideband synthesizer with integrated VCO. (C implementation)'', cd_license = Some ''gplv3+'',
     cd_channels = None, cd_num_channels = 0,
     cd_optional_channels = None, cd_num_optional_channels = 0,
     cd_options = None, cd_num_options = 0,
     cd_num_annotations = 2, cd_ann_labels = Some adf435x_ann_labels,
     cd_num_annotation_rows = 2, cd_annotation_rows = Some adf435x_ann_rows,
     cd_inputs = Some adf435x_inputs, cd_num_inputs = 1, cd_outputs = None, cd_num_outputs = 0,
     cd_binary = None, cd_num_binary = 0, cd_tags = Some adf435x_tags, cd_num_tags = 3\<rparr>"

lemma adf435x_described: "described adf435x_c_def = (True, True, True)"
  by (simp add: described_simps adf435x_ann_labels_def adf435x_ann_rows_def adf435x_inputs_def adf435x_tags_def adf435x_c_def_def)

section \<open>adns5020_c.c\<close>

definition adns5020_ann_labels :: "(string option \<times> string option \<times> string option) list" where
  "adns5020_ann_labels = [
     (Some [], Some ''read'', Some ''Register read commands''),
     (Some [], Some ''write'', Some ''Register write commands''),
     (Some [], Some ''warning'', Some ''Warnings'')]"

definition adns5020_ann_rows :: "srd_c_ann_row list" where
  "adns5020_ann_rows = [
     \<lparr>car_id = Some ''read'', car_desc = Some ''Read'', car_ann_classes = Some [0], car_num_ann_classes = 1\<rparr>,
     \<lparr>car_id = Some ''write'', car_desc = Some ''Write'', car_ann_classes = Some [1], car_num_ann_classes = 1\<rparr>,
     \<lparr>car_id = Some ''warnings'', car_desc = Some ''Warnings'', car_ann_classes = Some [2], car_num_ann_classes = 1\<rparr>]"

definition adns5020_inputs :: "string list" where
  "adns5020_inputs = [
     ''spi'']"

definition adns5020_tags :: "string list" where
  "adns5020_tags = [
     ''IC'',
     ''PC'',
     ''Sensor'']"

definition adns5020_c_def :: srd_c_decoder where
  "adns5020_c_def = \<lparr>cd_id = Some ''adns5020_c'', cd_name = Some ''ADNS-5020(C)'',
     cd_longname = Some ''Avago ADNS-5020 (C)'', cd_desc = Some ''Bidirectional optical mouse sensor protocol. (C implementation)'', cd_license = Some ''gplv2+'',
     cd_channels = None, cd_num_channels = 0,
     cd_optional_channels = None, cd_num_optional_channels = 0,
     cd_options = None, cd_num_options = 0,
     cd_num_annotations = 3, cd_ann_labels = Some adns5020_ann_labels,
     cd_num_annotation_rows = 3, cd_annotation_rows = Some adns5020_ann_rows,
     cd_inputs = Some adns5020_inputs, cd_num_inputs = 1, cd_outputs = None, cd_num_outputs = 0,
     cd_binary = None, cd_num_binary = 0, cd_tags = Some adns5020_tags, cd_num_tags = 3\<rparr>"

lemma adns5020_described: "described adns5020_c_def = (True, True, True)"
  by (simp add: described_simps adns5020_ann_labels_def adns5020_ann_rows_def adns5020_inputs_def adns5020_tags_def adns5020_c_def_def)

section \<open>adxl345_c.c\<close>

definition adxl345_ann_labels :: "(string option \<times> string option \<times> string option) list" where
  "adxl345_ann_labels = [
     (Some [], Some ''read'', Some ''Read''),
     (Some [], Some ''write'', Some ''Write''),
     (Some [], Some ''mb'', Some ''Multiple bytes''),
     (Some [], Some ''reg-address'', Some ''Register address''),
     (Some [], Some ''reg-data'', Some ''Register data''),
     (Some [], Some ''warning'', Some ''Warning'')]"

definition adxl345_ann_rows :: "srd_c_ann_row list" where
  "adxl345_ann_rows = [
     \<lparr>car_id = Some ''reg'', car_desc = Some ''Registers'', car_ann_classes = Some [0, 1, 2, 3], car_num_ann_classes = 4\<rparr>,
     \<lparr>car_id = Some ''data'', car_desc = Some ''Data'', car_ann_classes = Some [4, 5], car_num_ann_classes = 2\<rparr>]"

definition adxl345_inputs :: "string list" where
  "adxl345_inputs = [
     ''spi'']"

definition adxl345_tags :: "string list" where
  "adxl345_tags = [
     ''IC'',
     ''Sensor'']"

definition adxl345_c_def :: srd_c_decoder where
  "adxl345_c_def = \<lparr>cd_id = Some ''adxl345_c'', cd_name = Some ''ADXL345(C)'',
     cd_longname = Some ''Analog Devices ADXL345 (C)'', cd_desc = Some ''Analog Devices ADXL345 3-axis accelerometer. (C implementation)'', cd_license = Some ''gplv2+'',
     cd_channels = None, cd_num_channels = 0,
     cd_optional_channels = None, cd_num_optional_channels = 0,
     cd_options = None, cd_num_options = 0,
     cd_num_annotations = 6, cd_ann_labels = Some adxl345_ann_labels,
     cd_num_annotation_rows = 2, cd_annotation_rows = Some adxl345_ann_rows,
     cd_inputs = Some adxl345_inputs, cd_num_inputs = 1, cd_outputs = None, cd_num_outputs = 0,
     cd_binary = None, cd_num_binary = 0, cd_tags = Some adxl345_tags, cd_num_tags = 2\<rparr>"

lemma adxl345_described: "described adxl345_c_def = (True, True, True)"
  by (simp add: described_simps adxl345_ann_labels_def adxl345_ann_rows_def adxl345_inputs_def adxl345_tags_def adxl345_c_def_def)

section \<open>afsk_c.c\<close>

definition afsk_options :: "srd_decoder_option list" where
  "afsk_options = [
     \<lparr>opt_id = Some ''markfreq'', opt_idn = None, opt_desc = Some ''Mark(1) Frequency'',
        opt_def = Some (GV_int32 2000), opt_values = []\<rparr>,
     \<lparr>opt_id = Some ''spacefreq'', opt_idn = None, opt_desc = Some ''Space(0) Frequency'',
        opt_def = Some (GV_int32 4000), opt_values = []\<rparr>,
     \<lparr>opt_id = Some ''marginpct'', opt_idn = None, opt_desc = Some ''Error margin %'',
        opt_def = Some (GV_int32 40), opt_values = []\<rparr>]"

definition afsk_channels :: "srd_channel list" where
  "afsk_channels = [
     \<lparr>ch_id = Some ''afsk'', ch_name = Some ''afsk'', ch_desc = Some ''AFSK stream'', ch_order = 0, ch_type = 1, ch_idn = None\<rparr>]"

definition afsk_ann_labels :: "(string option \<times> string option \<times> string option) list" where
  "afsk_ann_labels = [
     (Some [], Some ''bit-raw'', Some ''Raw Bit''),
     (Some [], Some ''bit-error'', Some ''Unknown half-cycle''),
     (Some [], Some ''bit-phase'', Some ''Phase error'')]"

definition afsk_ann_rows :: "srd_c_ann_row list" where
  "afsk_ann_rows = [
     \<lparr>car_id = Some ''raw-bits'', car_desc = Some ''Raw Bits'', car_ann_classes = Some [0], car_num_ann_classes = 1\<rparr>,
     \<lparr>car_id = Some ''errors'', car_desc = Some ''Errors'', car_ann_classes = Some [1, 2], car_num_ann_classes = 2\<rparr>]"

definition afsk_inputs :: "string list" where
  "afsk_inputs = [
     ''logic'']"

definition afsk_outputs :: "string list" where
  "afsk_outputs = [
     ''afsk_bits'']"

definition afsk_tags :: "string list" where
  "afsk_tags = [
     ''Embedded/industrial'']"

definition afsk_c_def :: srd_c_decoder where
  "afsk_c_def = \<lparr>cd_id = Some ''afsk_c'', cd_name = Some ''AFSK(C)'',
     cd_longname = Some ''Audio Frequency Shift Keying (C)'', cd_desc = Some ''Audio Frequency Shift Keying'', cd_license = Some ''gplv2+'',
     cd_channels = Some afsk_channels, cd_num_channels = 1,
     cd_optional_channels = None, cd_num_optional_channels = 0,
     cd_options = Some afsk_options, cd_num_options = 3,
     cd_num_annotations = 3, cd_ann_labels = Some afsk_ann_labels,
     cd_num_annotation_rows = 2, cd_annotation_rows = Some afsk_ann_rows,
     cd_inputs = Some afsk_inputs, cd_num_inputs = 1, cd_outputs = Some afsk_outputs, cd_num_outputs = 1,
     cd_binary = None, cd_num_binary = 0, cd_tags = Some afsk_tags, cd_num_tags = 1\<rparr>"

lemma afsk_described: "described afsk_c_def = (True, True, True)"
  by (simp add: described_simps afsk_options_def afsk_channels_def afsk_ann_labels_def afsk_ann_rows_def afsk_inputs_def afsk_outputs_def afsk_tags_def afsk_c_def_def)

section \<open>am230x_c.c\<close>

definition am230x_options :: "srd_decoder_option list" where
  "am230x_options = [
     \<lparr>opt_id = Some ''device'', opt_idn = None, opt_desc = Some ''Device type'',
        opt_def = None, opt_values = []\<rparr>]"

definition am230x_channels :: "srd_channel list" where
  "am230x_channels = [
     \<lparr>ch_id = Some ''sda'', ch_name = Some ''SDA'', ch_desc = Some ''Single wire serial data line'', ch_order = 0, ch_type = 1, ch_idn = Some ''dec_am230x_chan_sda''\<rparr>]"

definition am230x_ann_labels :: "(string option \<times> string option \<times> string option) list" where
  "am230x_ann_labels = [
     (Some [], Some ''start'', Some ''Start''),
     (Some [], Some ''response'', Some ''Response''),
     (Some [], Some ''bit'', Some ''Bit''),
     (Some [], Some ''end'', Some ''End''),
     (Some [], Some ''byte'', Some ''Byte''),
     (Some [], Some ''humidity'', Some ''Relative humidity in percent''),
     (Some [], Some ''temperature'', Some ''Temperature in degrees Celsius''),
     (Some [], Some ''checksum'', Some ''Checksum'')]"

definition am230x_ann_rows :: "srd_c_ann_row list" where
  "am230x_ann_rows = [
     \<lparr>car_id = Some ''bits'', car_desc = Some ''Bits'', car_ann_classes = Some [0, 1, 2, 3], car_num_ann_classes = 4\<rparr>,
     \<lparr>car_id = Some ''bytes'', car_desc = Some ''Bytes'', car_ann_classes = Some [4], car_num_ann_classes = 1\<rparr>,
     \<lparr>car_id = Some ''results'', car_desc = Some ''Results'', car_ann_classes = Some [5, 6, 7], car_num_ann_classes = 3\<rparr>]"

definition am230x_inputs :: "string list" where
  "am230x_inputs = [
     ''logic'']"

definition am230x_tags :: "string list" where
  "am230x_tags = [
     ''IC'',
     ''Sensor'']"

definition am230x_c_def :: srd_c_decoder where
  "am230x_c_def = \<lparr>cd_id = Some ''am230x_c'', cd_name = Some ''AM230x(C)'',
     cd_longname = Some ''Aosong AM230x/DHTxx/RHTxx (C)'', cd_desc = Some ''Aosong AM230x/DHTxx/RHTxx humidity/temperature sensor.'', cd_license = Some ''gplv2+'',
     cd_channels = Some am230x_channels, cd_num_channels = 1,
     cd_optional_channels = None, cd_num_optional_channels = 0,
     cd_options = Some am230x_options, cd_num_options = 1,
     cd_num_annotations = 8, cd_ann_labels = Some am230x_ann_labels,
     cd_num_annotation_rows = 3, cd_annotation_rows = Some am230x_ann_rows,
     cd_inputs = Some am230x_inputs, cd_num_inputs = 1, cd_outputs = None, cd_num_outputs = 0,
     cd_binary = None, cd_num_binary = 0, cd_tags = Some am230x_tags, cd_num_tags = 2\<rparr>"

lemma am230x_described: "described am230x_c_def = (True, True, False)"
  by (simp add: described_simps am230x_options_def am230x_channels_def am230x_ann_labels_def am230x_ann_rows_def am230x_inputs_def am230x_tags_def am230x_c_def_def)

section \<open>arm_etmv3_c.c\<close>

definition arm_etmv3_options :: "srd_decoder_option list" where
  "arm_etmv3_options = [
     \<lparr>opt_id = Some ''objdump'', opt_idn = None, opt_desc = Some ''objdump path'',
        opt_def = Some (GV_string ''arm-none-eabi-objdump''), opt_values = []\<rparr>,
     \<lparr>opt_id = Some ''objdump_opts'', opt_idn = None, opt_desc = Some ''objdump options'',
        opt_def = Some (GV_string ''-lSC''), opt_values = []\<rparr>,
     \<lparr>opt_id = Some ''elffile'', opt_idn = None, opt_desc = Some ''.elf path'',
        opt_def = Some (GV_string []), opt_values = []\<rparr>,
     \<lparr>opt_id = Some ''branch_enc'', opt_idn = None, opt_desc = Some ''Branch encoding'',
        opt_def = Some (GV_string ''alternative''), opt_values = [GV_string ''alternative'', GV_string ''original'']\<rparr>]"

definition arm_etmv3_ann_labels :: "(string option \<times> string option \<times> string option) list" where
  "arm_etmv3_ann_labels = [
     (Some [], Some ''trace'', Some ''Trace info''),
     (Some [], Some ''branch'', Some ''Branches''),
     (Some [], Some ''exception'', Some ''Exceptions''),
     (Some [], Some ''execution'', Some ''Instruction execution''),
     (Some [], Some ''data'', Some ''Data access''),
     (Some [], Some ''pc'', Some ''Program counter''),
     (Some [], Some ''instr_e'', Some ''Executed instructions''),
     (Some [], Some ''instr_n'', Some ''Not executed instructions''),
     (Some [], Some ''source'', Some ''Source code''),
     (Some [], Some ''location'', Some ''Current location''),
     (Some [], Some ''function'', Some ''Current function'')]"

definition arm_etmv3_ann_rows :: "srd_c_ann_row list" where
  "arm_etmv3_ann_rows = [
     \<lparr>car_id = Some ''trace'', car_desc = Some ''Trace info'', car_ann_classes = Some [0], car_num_ann_classes = 1\<rparr>,
     \<lparr>car_id = Some ''flow'', car_desc = Some ''Code flow'', car_ann_classes = Some [1, 2, 3], car_num_ann_classes = 3\<rparr>,
     \<lparr>car_id = Some ''data'', car_desc = Some ''Data access'', car_ann_classes = Some [4], car_num_ann_classes = 1\<rparr>,
     \<lparr>car_id = Some ''pc'', car_desc = Some ''Program counter'', car_ann_classes = Some [5], car_num_ann_classes = 1\<rparr>,
     \<lparr>car_id = Some ''instruction'', car_desc = Some ''Instructions'', car_ann_classes = Some [6, 7], car_num_ann_classes = 2\<rparr>,
     \<lparr>car_id = Some ''source'', car_desc = Some ''Source code'', car_ann_classes = Some [8], car_num_ann_classes = 1\<rparr>,
     \<lparr>car_id = Some ''location'', car_desc = Some ''Current location'', car_ann_classes = Some [9], car_num_ann_classes = 1\<rparr>,
     \<lparr>car_id = Some ''function'', car_desc = Some ''Current function'', car_ann_classes = Some [10], car_num_ann_classes = 1\<rparr>]"

definition arm_etmv3_inputs :: "string list" where
  "arm_etmv3_inputs = [
     ''uart'']"

definition arm_etmv3_outputs :: "string list" where
  "arm_etmv3_outputs = [
     ''arm_etmv3'']"

definition arm_etmv3_tags :: "string list" where
  "arm_etmv3_tags = [
     ''Debug/trace'']"

definition arm_etmv3_c_def :: srd_c_decoder where
  "arm_etmv3_c_def = \<lparr>cd_id = Some ''arm_etmv3_c'', cd_name = Some ''ARM ETMv3(C)'',
     cd_longname = Some ''ARM Embedded Trace Macroblock v3(C)'', cd_desc = Some ''ARM ETM v3 instruction trace protocol. (C implementation)'', cd_license = Some ''gplv2+'',
     cd_channels = None, cd_num_channels = 0,
     cd_optional_channels = None, cd_num_optional_channels = 0,
     cd_options = Some arm_etmv3_options, cd_num_options = 4,
     cd_num_annotations = 11, cd_ann_labels = Some arm_etmv3_ann_labels,
     cd_num_annotation_rows = 8, cd_annotation_rows = Some arm_etmv3_ann_rows,
     cd_inputs = Some arm_etmv3_inputs, cd_num_inputs = 1, cd_outputs = Some arm_etmv3_outputs, cd_num_outputs = 1,
     cd_binary = None, cd_num_binary = 0, cd_tags = Some arm_etmv3_tags, cd_num_tags = 1\<rparr>"

lemma arm_etmv3_described: "described arm_etmv3_c_def = (True, True, True)"
  by (simp add: described_simps arm_etmv3_options_def arm_etmv3_ann_labels_def arm_etmv3_ann_rows_def arm_etmv3_inputs_def arm_etmv3_outputs_def arm_etmv3_tags_def arm_etmv3_c_def_def)

section \<open>arm_itm_c.c\<close>

definition arm_itm_ann_labels :: "(string option \<times> string option \<times> string option) list" where
  "arm_itm_ann_labels = [
     (Some [], Some ''trace'', Some ''Trace information''),
     (Some [], Some ''timestamp'', Some ''Timestamp''),
     (Some [], Some ''software'', Some ''Software message''),
     (Some [], Some ''dwt_event'', Some ''DWT event''),
     (Some [], Some ''dwt_watchpoint'', Some ''DWT watchpoint''),
     (Some [], Some ''dwt_exc'', Some ''Exception trace''),
     (Some [], Some ''dwt_pc'', Some ''Program counter''),
     (Some [], Some ''mode_thread'', Some ''Current mode: thread''),
     (Some [], Some ''mode_irq'', Some ''Current mode: IRQ''),
     (Some [], Some ''mode_exc'', Some ''Current mode: Exception''),
     (Some [], Some ''location'', Some ''Current location''),
     (Some [], Some ''function'', Some ''Current function'')]"

definition arm_itm_ann_rows :: "srd_c_ann_row list" where
  "arm_itm_ann_rows = [
     \<lparr>car_id = Some ''trace'', car_desc = Some ''Trace information'', car_ann_classes = Some [0, 1], car_num_ann_classes = 2\<rparr>,
     \<lparr>car_id = Some ''software'', car_desc = Some ''Software trace'', car_ann_classes = Some [2], car_num_ann_classes = 1\<rparr>,
     \<lparr>car_id = Some ''dwt_event'', car_desc = Some ''DWT event'', car_ann_classes = Some [3], car_num_ann_classes = 1\<rparr>,
     \<lparr>car_id = Some ''dwt_watchpoint'', car_desc = Some ''DWT watchpoint'', car_ann_classes = Some [4], car_num_ann_classes = 1\<rparr>,
     \<lparr>car_id = Some ''dwt_exc'', car_desc = Some ''Exception trace'', car_ann_classes = Some [5], car_num_ann_classes = 1\<rparr>,
     \<lparr>car_id = Some ''dwt_pc'', car_desc = Some ''Program counter'', car_ann_classes = Some [6], car_num_ann_classes = 1\<rparr>,
     \<lparr>car_id = Some ''mode'', car_desc = Some ''Current mode'', car_ann_classes = Some [7, 8, 9], car_num_ann_classes = 3\<rparr>,
     \<lparr>car_id = Some ''location'', car_desc = Some ''Current location'', car_ann_classes = Some [10], car_num_ann_classes = 1\<rparr>,
     \<lparr>car_id = Some ''function'', car_desc = Some ''Current function'', car_ann_classes = Some [11], car_num_ann_classes = 1\<rparr>]"

definition arm_itm_inputs :: "string list" where
  "arm_itm_inputs = [
     ''uart'']"

definition arm_itm_outputs :: "string list" where
  "arm_itm_outputs = [
     ''arm_itm'']"

definition arm_itm_tags :: "string list" where
  "arm_itm_tags = [
     ''Debug/trace'']"

definition arm_itm_c_def :: srd_c_decoder where
  "arm_itm_c_def = \<lparr>cd_id = Some ''arm_itm_c'', cd_name = Some ''ARM ITM(C)'',
     cd_longname = Some ''ARM Instrumentation Trace Macroblock (C)'', cd_desc = Some ''ARM Cortex-M / ARMv7m ITM trace protocol. (C implementation)'', cd_license = Some ''gplv2+'',
     cd_channels = None, cd_num_channels = 0,
     cd_optional_channels = None, cd_num_optional_channels = 0,
     cd_options = None, cd_num_options = 0,
     cd_num_annotations = 12, cd_ann_labels = Some arm_itm_ann_labels,
     cd_num_annotation_rows = 9, cd_annotation_rows = Some arm_itm_ann_rows,
     cd_inputs = Some arm_itm_inputs, cd_num_inputs = 1, cd_outputs = Some arm_itm_outputs, cd_num_outputs = 1,
     cd_binary = None, cd_num_binary = 0, cd_tags = Some arm_itm_tags, cd_num_tags = 1\<rparr>"

lemma arm_itm_described: "described arm_itm_c_def = (True, True, True)"
  by (simp add: described_simps arm_itm_ann_labels_def arm_itm_ann_rows_def arm_itm_inputs_def arm_itm_outputs_def arm_itm_tags_def arm_itm_c_def_def)

section \<open>arm_tpiu_c.c\<close>

definition arm_tpiu_options :: "srd_decoder_option list" where
  "arm_tpiu_options = [
     \<lparr>opt_id = Some ''stream'', opt_idn = Some ''dec_arm_tpiu_opt_stream'', opt_desc = Some ''Stream index'',
        opt_def = Some (GV_int64 1), opt_values = [GV_int64 0, GV_int64 1, GV_int64 2]\<rparr>,
     \<lparr>opt_id = Some ''sync_offset'', opt_idn = Some ''dec_arm_tpiu_sync_offset'', opt_desc = Some ''Initial sync offset'',
        opt_def = Some (GV_int64 0), opt_values = []\<rparr>]"

definition arm_tpiu_ann_labels :: "(string option \<times> string option \<times> string option) list" where
  "arm_tpiu_ann_labels = [
     (Some [], Some ''stream'', Some ''Current stream''),
     (Some [], Some ''data'', Some ''Stream data'')]"

definition arm_tpiu_ann_rows :: "srd_c_ann_row list" where
  "arm_tpiu_ann_rows = [
     \<lparr>car_id = Some ''stream'', car_desc = Some ''Current stream'', car_ann_classes = Some [0], car_num_ann_classes = 1\<rparr>,
     \<lparr>car_id = Some ''data'', car_desc = Some ''Stream data'', car_ann_classes = Some [1], car_num_ann_classes = 1\<rparr>]"

definition arm_tpiu_inputs :: "string list" where
  "arm_tpiu_inputs = [
     ''uart'']"

definition arm_tpiu_outputs :: "string list" where
  "arm_tpiu_outputs = [
     ''arm_tpiu'']"

definition arm_tpiu_tags :: "string list" where
  "arm_tpiu_tags = [
     ''Debug/trace'']"

definition arm_tpiu_c_def :: srd_c_decoder where
  "arm_tpiu_c_def = \<lparr>cd_id = Some ''arm_tpiu_c'', cd_name = Some ''ARM TPIU(C)'',
     cd_longname = Some ''ARM Trace Port Interface Unit (C)'', cd_desc = Some ''Filter TPIU formatted trace data into separate streams. (C implementation)'', cd_license = Some ''gplv2+'',
     cd_channels = None, cd_num_channels = 0,
     cd_optional_channels = None, cd_num_optional_channels = 0,
     cd_options = Some arm_tpiu_options, cd_num_options = 2,
     cd_num_annotations = 2, cd_ann_labels = Some arm_tpiu_ann_labels,
     cd_num_annotation_rows = 2, cd_annotation_rows = Some arm_tpiu_ann_rows,
     cd_inputs = Some arm_tpiu_inputs, cd_num_inputs = 1, cd_outputs = Some arm_tpiu_outputs, cd_num_outputs = 1,
     cd_binary = None, cd_num_binary = 0, cd_tags = Some arm_tpiu_tags, cd_num_tags = 1\<rparr>"

lemma arm_tpiu_described: "described arm_tpiu_c_def = (True, True, True)"
  by (simp add: described_simps arm_tpiu_options_def arm_tpiu_ann_labels_def arm_tpiu_ann_rows_def arm_tpiu_inputs_def arm_tpiu_outputs_def arm_tpiu_tags_def arm_tpiu_c_def_def)

section \<open>arp_c.c\<close>

definition arp_ann_labels :: "(string option \<times> string option \<times> string option) list" where
  "arp_ann_labels = [
     (Some [], Some ''data'', Some ''Decoded data''),
     (Some [], Some ''msg'', Some ''Message'')]"

definition arp_ann_rows :: "srd_c_ann_row list" where
  "arp_ann_rows = [
     \<lparr>car_id = Some ''datas'', car_desc = Some ''Datas'', car_ann_classes = Some [0], car_num_ann_classes = 1\<rparr>,
     \<lparr>car_id = Some ''msgs'', car_desc = Some ''Messages'', car_ann_classes = Some [1], car_num_ann_classes = 1\<rparr>]"

definition arp_inputs :: "string list" where
  "arp_inputs = [
     ''ethernet'']"

definition arp_tags :: "string list" where
  "arp_tags = [
     ''Networking'',
     ''PC'']"

definition arp_c_def :: srd_c_decoder where
  "arp_c_def = \<lparr>cd_id = Some ''arp_c'', cd_name = Some ''ARP(C)'',
     cd_longname = Some ''Address Resolution Protocol (C)'', cd_desc = Some ''ARP (C implementation)'', cd_license = Some ''gplv2+'',
     cd_channels = None, cd_num_channels = 0,
     cd_optional_channels = None, cd_num_optional_channels = 0,
     cd_options = None, cd_num_options = 0,
     cd_num_annotations = 2, cd_ann_labels = Some arp_ann_labels,
     cd_num_annotation_rows = 2, cd_annotation_rows = Some arp_ann_rows,
     cd_inputs = Some arp_inputs, cd_num_inputs = 1, cd_outputs = None, cd_num_outputs = 0,
     cd_binary = None, cd_num_binary = 0, cd_tags = Some arp_tags, cd_num_tags = 2\<rparr>"

lemma arp_described: "described arp_c_def = (True, True, True)"
  by (simp add: described_simps arp_ann_labels_def arp_ann_rows_def arp_inputs_def arp_tags_def arp_c_def_def)

section \<open>as5047_c.c\<close>

definition as5047_ann_labels :: "(string option \<times> string option \<times> string option) list" where
  "as5047_ann_labels = [
     (Some [], Some ''commandframe'', Some ''command frame''),
     (Some [], Some ''readdataframe'', Some ''read data frame''),
     (Some [], Some ''writedataframe'', Some ''write data frame''),
     (Some [], Some ''registerread'', Some ''register read''),
     (Some [], Some ''registerwrite'', Some ''register write''),
     (Some [], Some ''warning'', Some ''warning''),
     (Some [], Some ''field'', Some ''field'')]"

definition as5047_ann_rows :: "srd_c_ann_row list" where
  "as5047_ann_rows = [
     \<lparr>car_id = Some ''fields'', car_desc = Some ''fields'', car_ann_classes = Some [6], car_num_ann_classes = 1\<rparr>,
     \<lparr>car_id = Some ''frames'', car_desc = Some ''frames'', car_ann_classes = Some [0, 1, 2], car_num_ann_classes = 3\<rparr>,
     \<lparr>car_id = Some ''transactions'', car_desc = Some ''transactions'', car_ann_classes = Some [3, 4], car_num_ann_classes = 2\<rparr>,
     \<lparr>car_id = Some ''warnings'', car_desc = Some ''warnings'', car_ann_classes = Some [5], car_num_ann_classes = 1\<rparr>]"

definition as5047_inputs :: "string list" where
  "as5047_inputs = [
     ''spi'']"

definition as5047_tags :: "string list" where
  "as5047_tags = [
     ''Embedded/industrial'']"

definition as5047_c_def :: srd_c_decoder where
  "as5047_c_def = \<lparr>cd_id = Some ''as5047_c'', cd_name = Some ''AS5047(C)'',
     cd_longname = Some ''AS5047 (C)'', cd_desc = Some ''AS5047 magnetic rotary encoder. (C implementation)'', cd_license = Some ''gplv2+'',
     cd_channels = None, cd_num_channels = 0,
     cd_optional_channels = None, cd_num_optional_channels = 0,
     cd_options = None, cd_num_options = 0,
     cd_num_annotations = 7, cd_ann_labels = Some as5047_ann_labels,
     cd_num_annotation_rows = 4, cd_annotation_rows = Some as5047_ann_rows,
     cd_inputs = Some as5047_inputs, cd_num_inputs = 1, cd_outputs = None, cd_num_outputs = 0,
     cd_binary = None, cd_num_binary = 0, cd_tags = Some as5047_tags, cd_num_tags = 1\<rparr>"

lemma as5047_described: "described as5047_c_def = (True, True, True)"
  by (simp add: described_simps as5047_ann_labels_def as5047_ann_rows_def as5047_inputs_def as5047_tags_def as5047_c_def_def)

section \<open>atsha204a_c.c\<close>

definition atsha204a_ann_labels :: "(string option \<times> string option \<times> string option) list" where
  "atsha204a_ann_labels = [
     (Some [], Some ''waddr'', Some ''Word address''),
     (Some [], Some ''count'', Some ''Count''),
     (Some [], Some ''opcode'', Some ''Opcode''),
     (Some [], Some ''param1'', Some ''Param1''),
     (Some [], Some ''param2'', Some ''Param2''),
     (Some [], Some ''data'', Some ''Data''),
     (Some [], Some ''crc'', Some ''CRC''),
     (Some [], Some ''status'', Some ''Status''),
     (Some [], Some ''warning'', Some ''Warning'')]"

definition atsha204a_ann_rows :: "srd_c_ann_row list" where
  "atsha204a_ann_rows = [
     \<lparr>car_id = Some ''frame'', car_desc = Some ''Frame'', car_ann_classes = Some [0, 1, 2, 3, 4, 5, 6], car_num_ann_classes = 7\<rparr>,
     \<lparr>car_id = Some ''status'', car_desc = Some ''Status'', car_ann_classes = Some [7], car_num_ann_classes = 1\<rparr>,
     \<lparr>car_id = Some ''warnings'', car_desc = Some ''Warnings'', car_ann_classes = Some [8], car_num_ann_classes = 1\<rparr>]"

definition atsha204a_inputs :: "string list" where
  "atsha204a_inputs = [
     ''i2c'']"

definition atsha204a_tags :: "string list" where
  "atsha204a_tags = [
     ''Security/crypto'',
     ''IC'',
     ''Memory'']"

definition atsha204a_c_def :: srd_c_decoder where
  "atsha204a_c_def = \<lparr>cd_id = Some ''atsha204a_c'', cd_name = Some ''ATSHA204A(C)'',
     cd_longname = Some ''Microchip ATSHA204A (C)'', cd_desc = Some ''Microchip ATSHA204A family crypto authentication protocol. (C implementation)'', cd_license = Some ''gplv2+'',
     cd_channels = None, cd_num_channels = 0,
     cd_optional_channels = None, cd_num_optional_channels = 0,
     cd_options = None, cd_num_options = 0,
     cd_num_annotations = 9, cd_ann_labels = Some atsha204a_ann_labels,
     cd_num_annotation_rows = 3, cd_annotation_rows = Some atsha204a_ann_rows,
     cd_inputs = Some atsha204a_inputs, cd_num_inputs = 1, cd_outputs = None, cd_num_outputs = 0,
     cd_binary = None, cd_num_binary = 0, cd_tags = Some atsha204a_tags, cd_num_tags = 3\<rparr>"

lemma atsha204a_described: "described atsha204a_c_def = (True, True, True)"
  by (simp add: described_simps atsha204a_ann_labels_def atsha204a_ann_rows_def atsha204a_inputs_def atsha204a_tags_def atsha204a_c_def_def)

section \<open>aud_c.c\<close>

definition aud_channels :: "srd_channel list" where
  "aud_channels = [
     \<lparr>ch_id = Some ''audck'', ch_name = Some ''AUDCK'', ch_desc = Some ''AUD clock'', ch_order = 0, ch_type = 0, ch_idn = Some ''dec_aud_chan_audck''\<rparr>,
     \<lparr>ch_id = Some ''naudsync'', ch_name = Some ''nAUDSYNC'', ch_desc = Some ''AUD sync'', ch_order = 1, ch_type = 1, ch_idn = Some ''dec_aud_chan_naudsync''\<rparr>,
     \<lparr>ch_id = Some ''audata3'', ch_name = Some ''AUDATA3'', ch_desc = Some ''AUD data line 3'', ch_order = 2, ch_type = 2, ch_idn = Some ''dec_aud_chan_audata3''\<rparr>,
     \<lparr>ch_id = Some ''audata2'', ch_name = Some ''AUDATA2'', ch_desc = Some ''AUD data line 2'', ch_order = 3, ch_type = 2, ch_idn = Some ''dec_aud_chan_audata2''\<rparr>,
     \<lparr>ch_id = Some ''audata1'', ch_name = Some ''AUDATA1'', ch_desc = Some ''AUD data line 1'', ch_order = 4, ch_type = 2, ch_idn = Some ''dec_aud_chan_audata1''\<rparr>,
     \<lparr>ch_id = Some ''audata0'', ch_name = Some ''AUDATA0'', ch_desc = Some ''AUD data line 0'', ch_order = 5, ch_type = 2, ch_idn = Some ''dec_aud_chan_audata0''\<rparr>]"

definition aud_ann_labels :: "(string option \<times> string option \<times> string option) list" where
  "aud_ann_labels = [
     (Some [], Some ''dest'', Some ''Destination address'')]"

definition aud_ann_rows :: "srd_c_ann_row list" where
  "aud_ann_rows = [
     \<lparr>car_id = Some ''addresses'', car_desc = Some ''Addresses'', car_ann_classes = Some [0], car_num_ann_classes = 1\<rparr>]"

definition aud_inputs :: "string list" where
  "aud_inputs = [
     ''logic'']"

definition aud_tags :: "string list" where
  "aud_tags = [
     ''Debug/trace'']"

definition aud_c_def :: srd_c_decoder where
  "aud_c_def = \<lparr>cd_id = Some ''aud_c'', cd_name = Some ''AUD(C)'',
     cd_longname = Some ''Advanced User Debugger(C)'', cd_desc = Some ''Renesas/Hitachi Advanced User Debugger (AUD) protocol. (C implementation)'', cd_license = Some ''gplv2+'',
     cd_channels = Some aud_channels, cd_num_channels = 6,
     cd_optional_channels = None, cd_num_optional_channels = 0,
     cd_options = None, cd_num_options = 0,
     cd_num_annotations = 1, cd_ann_labels = Some aud_ann_labels,
     cd_num_annotation_rows = 1, cd_annotation_rows = Some aud_ann_rows,
     cd_inputs = Some aud_inputs, cd_num_inputs = 1, cd_outputs = None, cd_num_outputs = 0,
     cd_binary = None, cd_num_binary = 0, cd_tags = Some aud_tags, cd_num_tags = 1\<rparr>"

lemma aud_described: "described aud_c_def = (True, True, True)"
  by (simp add: described_simps aud_channels_def aud_ann_labels_def aud_ann_rows_def aud_inputs_def aud_tags_def aud_c_def_def)

section \<open>avclan_c.c\<close>

definition avclan_ann_labels :: "(string option \<times> string option \<times> string option) list" where
  "avclan_ann_labels = [
     (Some [], Some ''address'', Some ''Device Address''),
     (Some [], Some ''function'', Some ''Function''),
     (Some [], Some ''ctrl-opcode'', Some ''Opcode''),
     (Some [], Some ''sequence-no'', Some ''Sequence No.''),
     (Some [], Some ''advertised-function'', Some ''Function''),
     (Some [], Some ''cmd-opcode'', Some ''Opcode''),
     (Some [], Some ''cd-opcode'', Some ''Opcode''),
     (Some [], Some ''cd-state'', Some ''State''),
     (Some [], Some ''cd-flags'', Some ''Flags''),
     (Some [], Some ''disc-number'', Some ''Disc Number''),
     (Some [], Some ''track-number'', Some ''Track Number''),
     (Some [], Some ''track-count'', Some ''Track Count''),
     (Some [], Some ''disc-title'', Some ''Disc Name''),
     (Some [], Some ''track-title'', Some ''Track Name''),
     (Some [], Some ''playback-time'', Some ''Playback time''),
     (Some [], Some ''disc-slots'', Some ''Disc Slots''),
     (Some [], Some ''audio-opcode'', Some ''Opcode''),
     (Some [], Some ''audio-flags'', Some ''Audio Flags''),
     (Some [], Some ''volume'', Some ''Volume''),
     (Some [], Some ''bass'', Some ''Bass''),
     (Some [], Some ''treble'', Some ''Treble''),
     (Some [], Some ''fade'', Some ''Fade''),
     (Some [], Some ''balance'', Some ''Balance''),
     (Some [], Some ''radio-opcode'', Some ''Opcode''),
     (Some [], Some ''radio-state'', Some ''State''),
     (Some [], Some ''radio-mode'', Some ''Mode''),
     (Some [], Some ''radio-flags'', Some ''Flags''),
     (Some [], Some ''band'', Some ''Band''),
     (Some [], Some ''channel'', Some ''Channel''),
     (Some [], Some ''freq'', Some ''Frequency''),
     (Some [], Some ''warning'', Some ''Warning'')]"

definition avclan_ann_rows :: "srd_c_ann_row list" where
  "avclan_ann_rows = [
     \<lparr>car_id = Some ''devices'', car_desc = Some ''Device Addresses and Functions'', car_ann_classes = Some [0, 1], car_num_ann_classes = 2\<rparr>,
     \<lparr>car_id = Some ''control'', car_desc = Some ''Network Control'', car_ann_classes = Some [2, 3, 4], car_num_ann_classes = 3\<rparr>,
     \<lparr>car_id = Some ''cmd'', car_desc = Some ''HU Commands'', car_ann_classes = Some [5], car_num_ann_classes = 1\<rparr>,
     \<lparr>car_id = Some ''cd'', car_desc = Some ''CD Player'', car_ann_classes = Some [6, 7, 8, 9, 10, 11, 12, 13, 14, 15], car_num_ann_classes = 10\<rparr>,
     \<lparr>car_id = Some ''audio'', car_desc = Some ''Audio Amplifier'', car_ann_classes = Some [16, 17, 18, 19, 20, 21, 22], car_num_ann_classes = 7\<rparr>,
     \<lparr>car_id = Some ''radio'', car_desc = Some ''Radio Tuner'', car_ann_classes = Some [23, 24, 25, 26, 27, 28, 29], car_num_ann_classes = 7\<rparr>,
     \<lparr>car_id = Some ''warnings'', car_desc = Some ''Warnings'', car_ann_classes = Some [30], car_num_ann_classes = 1\<rparr>]"

definition avclan_inputs :: "string list" where
  "avclan_inputs = [
     ''iebus'']"

definition avclan_tags :: "string list" where
  "avclan_tags = [
     ''Automotive'']"

definition avclan_c_def :: srd_c_decoder where
  "avclan_c_def = \<lparr>cd_id = Some ''avclan_c'', cd_name = Some ''AVC-LAN(C)'',
     cd_longname = Some ''AVC-LAN Toyota Audio-Video Local Area Network (C)'', cd_desc = Some ''AVC-LAN Protocol Decoder (IEBus Mode 2 variant) (C implementation)'', cd_license = Some ''gplv3+'',
     cd_channels = None, cd_num_channels = 0,
     cd_optional_channels = None, cd_num_optional_channels = 0,
     cd_options = None, cd_num_options = 0,
     cd_num_annotations = 31, cd_ann_labels = Some avclan_ann_labels,
     cd_num_annotation_rows = 7, cd_annotation_rows = Some avclan_ann_rows,
     cd_inputs = Some avclan_inputs, cd_num_inputs = 1, cd_outputs = None, cd_num_outputs = 0,
     cd_binary = None, cd_num_binary = 0, cd_tags = Some avclan_tags, cd_num_tags = 1\<rparr>"

lemma avclan_described: "described avclan_c_def = (True, True, True)"
  by (simp add: described_simps avclan_ann_labels_def avclan_ann_rows_def avclan_inputs_def avclan_tags_def avclan_c_def_def)

section \<open>avr_isp_c.c\<close>

definition avr_isp_ann_labels :: "(string option \<times> string option \<times> string option) list" where
  "avr_isp_ann_labels = [
     (Some [], Some ''pe'', Some ''Programming enable''),
     (Some [], Some ''rsb0'', Some ''Read signature byte 0''),
     (Some [], Some ''rsb1'', Some ''Read signature byte 1''),
     (Some [], Some ''rsb2'', Some ''Read signature byte 2''),
     (Some [], Some ''ce'', Some ''Chip erase''),
     (Some [], Some ''rfb'', Some ''Read fuse bits''),
     (Some [], Some ''rhfb'', Some ''Read high fuse bits''),
     (Some [], Some ''refb'', Some ''Read extended fuse bits''),
     (Some [], Some ''rlb'', Some ''Read lock bits''),
     (Some [], Some ''reem'', Some ''Read EEPROM memory''),
     (Some [], Some ''rp'', Some ''Read program memory''),
     (Some [], Some ''lpmp'', Some ''Load program memory page''),
     (Some [], Some ''wp'', Some ''Write program memory''),
     (Some [], Some ''warning'', Some ''Warning''),
     (Some [], Some ''dev'', Some ''Device'')]"

definition avr_isp_ann_rows :: "srd_c_ann_row list" where
  "avr_isp_ann_rows = [
     \<lparr>car_id = Some ''commands'', car_desc = Some ''Commands'', car_ann_classes = Some [0, 1, 2, 3, 4, 5, 6, 7, 8, 9, 10, 11, 12], car_num_ann_classes = 13\<rparr>,
     \<lparr>car_id = Some ''warnings'', car_desc = Some ''Warnings'', car_ann_classes = Some [13], car_num_ann_classes = 1\<rparr>,
     \<lparr>car_id = Some ''devs'', car_desc = Some ''Devices'', car_ann_classes = Some [14], car_num_ann_classes = 1\<rparr>]"

definition avr_isp_inputs :: "string list" where
  "avr_isp_inputs = [
     ''spi'']"

definition avr_isp_tags :: "string list" where
  "avr_isp_tags = [
     ''Debug/trace'']"

definition avr_isp_c_def :: srd_c_decoder where
  "avr_isp_c_def = \<lparr>cd_id = Some ''avr_isp_c'', cd_name = Some ''AVR ISP(C)'',
     cd_longname = Some ''AVR In-System Programming (C)'', cd_desc = Some ''Atmel AVR In-System Programming (ISP) protocol. (C implementation)'', cd_license = Some ''gplv2+'',
     cd_channels = None, cd_num_channels = 0,
     cd_optional_channels = None, cd_num_optional_channels = 0,
     cd_options = None, cd_num_options = 0,
     cd_num_annotations = 15, cd_ann_labels = Some avr_isp_ann_labels,
     cd_num_annotation_rows = 3, cd_annotation_rows = Some avr_isp_ann_rows,
     cd_inputs = Some avr_isp_inputs, cd_num_inputs = 1, cd_outputs = None, cd_num_outputs = 0,
     cd_binary = None, cd_num_binary = 0, cd_tags = Some avr_isp_tags, cd_num_tags = 1\<rparr>"

lemma avr_isp_described: "described avr_isp_c_def = (True, True, True)"
  by (simp add: described_simps avr_isp_ann_labels_def avr_isp_ann_rows_def avr_isp_inputs_def avr_isp_tags_def avr_isp_c_def_def)

section \<open>avr_pdi_c.c\<close>

definition avr_pdi_channels :: "srd_channel list" where
  "avr_pdi_channels = [
     \<lparr>ch_id = Some ''reset'', ch_name = Some ''RESET'', ch_desc = Some ''RESET / PDI_CLK'', ch_order = 0, ch_type = 0, ch_idn = Some ''dec_avr_pdi_chan_reset''\<rparr>,
     \<lparr>ch_id = Some ''data'', ch_name = Some ''DATA'', ch_desc = Some ''PDI_DATA'', ch_order = 1, ch_type = 1, ch_idn = Some ''dec_avr_pdi_chan_data''\<rparr>]"

definition avr_pdi_ann_labels :: "(string option \<times> string option \<times> string option) list" where
  "avr_pdi_ann_labels = [
     (Some [], Some ''uart-bit'', Some ''UART bit''),
     (Some [], Some ''start-bit'', Some ''Start bit''),
     (Some [], Some ''data-bit'', Some ''Data bit''),
     (Some [], Some ''parity-ok'', Some ''Parity OK bit''),
     (Some [], Some ''parity-err'', Some ''Parity error bit''),
     (Some [], Some ''stop-ok'', Some ''Stop OK bit''),
     (Some [], Some ''stop-err'', Some ''Stop error bit''),
     (Some [], Some ''break'', Some ''BREAK condition''),
     (Some [], Some ''opcode'', Some ''Instruction opcode''),
     (Some [], Some ''data-prog'', Some ''Programmer data''),
     (Some [], Some ''data-dev'', Some ''Device data''),
     (Some [], Some ''pdi-break'', Some ''BREAK at PDI level''),
     (Some [], Some ''enable'', Some ''Enable PDI''),
     (Some [], Some ''disable'', Some ''Disable PDI''),
     (Some [], Some ''cmd-data'', Some ''PDI command with data'')]"

definition avr_pdi_ann_rows :: "srd_c_ann_row list" where
  "avr_pdi_ann_rows = [
     \<lparr>car_id = Some ''uart_bits'', car_desc = Some ''UART bits'', car_ann_classes = Some [0], car_num_ann_classes = 1\<rparr>,
     \<lparr>car_id = Some ''uart_fields'', car_desc = Some ''UART fields'', car_ann_classes = Some [1, 2, 3, 4, 5, 6, 7], car_num_ann_classes = 7\<rparr>,
     \<lparr>car_id = Some ''pdi_fields'', car_desc = Some ''PDI fields'', car_ann_classes = Some [8, 9, 10, 11], car_num_ann_classes = 4\<rparr>,
     \<lparr>car_id = Some ''pdi_cmds'', car_desc = Some ''PDI Cmds'', car_ann_classes = Some [12, 13, 14], car_num_ann_classes = 3\<rparr>]"

definition avr_pdi_binary :: "srd_decoder_binary list" where
  "avr_pdi_binary = [
     \<lparr>bin_class = 0, bin_id = Some ''bytes'', bin_desc = Some ''PDI protocol bytes''\<rparr>]"

definition avr_pdi_inputs :: "string list" where
  "avr_pdi_inputs = [
     ''logic'']"

definition avr_pdi_tags :: "string list" where
  "avr_pdi_tags = [
     ''Debug/trace'']"

definition avr_pdi_c_def :: srd_c_decoder where
  "avr_pdi_c_def = \<lparr>cd_id = Some ''avr_pdi_c'', cd_name = Some ''AVR PDI(C)'',
     cd_longname = Some ''Atmel Program and Debug Interface(C)'', cd_desc = Some ''Atmel ATxmega Program and Debug Interface (PDI) protocol. (C implementation)'', cd_license = Some ''gplv2+'',
     cd_channels = Some avr_pdi_channels, cd_num_channels = 2,
     cd_optional_channels = None, cd_num_optional_channels = 0,
     cd_options = None, cd_num_options = 0,
     cd_num_annotations = 15, cd_ann_labels = Some avr_pdi_ann_labels,
     cd_num_annotation_rows = 4, cd_annotation_rows = Some avr_pdi_ann_rows,
     cd_inputs = Some avr_pdi_inputs, cd_num_inputs = 1, cd_outputs = None, cd_num_outputs = 0,
     cd_binary = Some avr_pdi_binary, cd_num_binary = 1, cd_tags = Some avr_pdi_tags, cd_num_tags = 1\<rparr>"

lemma avr_pdi_described: "described avr_pdi_c_def = (True, True, True)"
  by (simp add: described_simps avr_pdi_channels_def avr_pdi_ann_labels_def avr_pdi_ann_rows_def avr_pdi_binary_def avr_pdi_inputs_def avr_pdi_tags_def avr_pdi_c_def_def)

section \<open>bean_c.c\<close>

definition bean_options :: "srd_decoder_option list" where
  "bean_options = [
     \<lparr>opt_id = Some ''bit_annotations'', opt_idn = Some ''dec_bean_opt_bit_annotations'', opt_desc = Some ''Bit annotations'',
        opt_def = Some (GV_string ''none''), opt_values = [GV_string ''none'', GV_string ''yes'']\<rparr>,
     \<lparr>opt_id = Some ''pulse_len'', opt_idn = Some ''dec_bean_opt_pulse_len'', opt_desc = Some ''Pulse length'',
        opt_def = Some (GV_string ''none''), opt_values = [GV_string ''none'', GV_string ''yes'']\<rparr>,
     \<lparr>opt_id = Some ''command'', opt_idn = Some ''dec_bean_opt_command'', opt_desc = Some ''Command'',
        opt_def = Some (GV_string ''yes''), opt_values = [GV_string ''none'', GV_string ''yes'']\<rparr>,
     \<lparr>opt_id = Some ''all byte'', opt_idn = Some ''dec_bean_opt_all_byte'', opt_desc = Some ''All byte'',
        opt_def = Some (GV_string ''yes''), opt_values = [GV_string ''none'', GV_string ''yes'']\<rparr>]"

definition bean_channels :: "srd_channel list" where
  "bean_channels = [
     \<lparr>ch_id = Some ''data'', ch_name = Some ''Data'', ch_desc = Some ''Data line'', ch_order = 0, ch_type = 1, ch_idn = Some ''dec_bean_chan_data''\<rparr>]"

definition bean_ann_labels :: "(string option \<times> string option \<times> string option) list" where
  "bean_ann_labels = [
     (Some [], Some ''bit-0'', Some ''Bit 0''),
     (Some [], Some ''bit-1'', Some ''Bit 1''),
     (Some [], Some ''bite-ann'', Some ''Bite_ann''),
     (Some [], Some ''byte'', Some ''Byte''),
     (Some [], Some ''frame'', Some ''Frame''),
     (Some [], Some ''message'', Some ''Message''),
     (Some [], Some ''pulse-width'', Some ''Pulse width''),
     (Some [], Some ''debug'', Some ''Debug''),
     (Some [], Some ''all-byte'', Some ''All byte'')]"

definition bean_ann_rows :: "srd_c_ann_row list" where
  "bean_ann_rows = [
     \<lparr>car_id = Some ''bits'', car_desc = Some ''Bits'', car_ann_classes = Some [0, 1], car_num_ann_classes = 2\<rparr>,
     \<lparr>car_id = Some ''bits_ann'', car_desc = Some ''Bits_ann'', car_ann_classes = Some [2], car_num_ann_classes = 1\<rparr>,
     \<lparr>car_id = Some ''bytes'', car_desc = Some ''Bytes'', car_ann_classes = Some [3], car_num_ann_classes = 1\<rparr>,
     \<lparr>car_id = Some ''frames'', car_desc = Some ''Frames'', car_ann_classes = Some [4, 5], car_num_ann_classes = 2\<rparr>,
     \<lparr>car_id = Some ''pulse_widths'', car_desc = Some ''Pulse_widths'', car_ann_classes = Some [6], car_num_ann_classes = 1\<rparr>,
     \<lparr>car_id = Some ''command'', car_desc = Some ''Command'', car_ann_classes = Some [7], car_num_ann_classes = 1\<rparr>,
     \<lparr>car_id = Some ''All_byte'', car_desc = Some ''All byte'', car_ann_classes = Some [8], car_num_ann_classes = 1\<rparr>]"

definition bean_inputs :: "string list" where
  "bean_inputs = [
     ''logic'']"

definition bean_tags :: "string list" where
  "bean_tags = [
     ''Embedded/industrial'']"

definition bean_c_def :: srd_c_decoder where
  "bean_c_def = \<lparr>cd_id = Some ''bean_c'', cd_name = Some ''BEAN(C)'',
     cd_longname = Some ''BEAN is a Toyota Body Electronics Area Network (C)'', cd_desc = Some ''BEAN is a Toyota Body Electronics Area Network (C implementation)'', cd_license = Some ''gplv2+'',
     cd_channels = Some bean_channels, cd_num_channels = 1,
     cd_optional_channels = None, cd_num_optional_channels = 0,
     cd_options = Some bean_options, cd_num_options = 4,
     cd_num_annotations = 9, cd_ann_labels = Some bean_ann_labels,
     cd_num_annotation_rows = 7, cd_annotation_rows = Some bean_ann_rows,
     cd_inputs = Some bean_inputs, cd_num_inputs = 1, cd_outputs = None, cd_num_outputs = 0,
     cd_binary = None, cd_num_binary = 0, cd_tags = Some bean_tags, cd_num_tags = 1\<rparr>"

lemma bean_described: "described bean_c_def = (True, True, True)"
  by (simp add: described_simps bean_options_def bean_channels_def bean_ann_labels_def bean_ann_rows_def bean_inputs_def bean_tags_def bean_c_def_def)

section \<open>bh1750_c.c\<close>

definition bh1750_options :: "srd_decoder_option list" where
  "bh1750_options = [
     \<lparr>opt_id = Some ''radix'', opt_idn = Some ''dec_bh1750_opt_radix'', opt_desc = Some ''Number format'',
        opt_def = Some (GV_string ''Hex''), opt_values = [GV_string ''Hex'', GV_string ''Dec'', GV_string ''Oct'', GV_string ''Bin'']\<rparr>,
     \<lparr>opt_id = Some ''params'', opt_idn = Some ''dec_bh1750_opt_params'', opt_desc = Some ''Datasheet parameter used'',
        opt_def = Some (GV_string ''Typical''), opt_values = [GV_string ''Typical'', GV_string ''Maximal'', GV_string ''Minimal'']\<rparr>]"

definition bh1750_ann_labels :: "(string option \<times> string option \<times> string option) list" where
  "bh1750_ann_labels = [
     (Some [], Some ''addr_gnd'', Some ''ADDR grounded''),
     (Some [], Some ''addr_vcc'', Some ''ADDR powered''),
     (Some [], Some ''pwrdwn'', Some ''Power down''),
     (Some [], Some ''pwrup'', Some ''Power up''),
     (Some [], Some ''reset'', Some ''Reset light register''),
     (Some [], Some ''mthigh'', Some ''Measurement time high bits''),
     (Some [], Some ''mtlow'', Some ''Measurement time low bits''),
     (Some [], Some ''mchigh'', Some ''Continuous measurement high resolution''),
     (Some [], Some ''mchigh2'', Some ''Continuous measurement double high res''),
     (Some [], Some ''mclow'', Some ''Continuous measurement low resolution''),
     (Some [], Some ''mohigh'', Some ''One time measurement high resolution''),
     (Some [], Some ''mohigh2'', Some ''One time measurement double high res''),
     (Some [], Some ''molow'', Some ''One time measurement low resolution''),
     (Some [], Some ''data'', Some ''Illuminance data register''),
     (Some [], Some ''reserved'', Some ''Reserved''),
     (Some [], Some ''data_mt'', Some ''Measurement time''),
     (Some [], Some ''warn'', Some ''Warnings''),
     (Some [], Some ''badadd'', Some ''Unknown slave address''),
     (Some [], Some ''check'', Some ''Slave presence check''),
     (Some [], Some ''write'', Some ''Write''),
     (Some [], Some ''read'', Some ''Read''),
     (Some [], Some ''sense'', Some ''Sensitivity''),
     (Some [], Some ''light'', Some ''Ambient light''),
     (Some [], Some ''mtreg'', Some ''Measurement time register''),
     (Some [], Some ''mtime'', Some ''Measurement time'')]"

definition bh1750_ann_rows :: "srd_c_ann_row list" where
  "bh1750_ann_rows = [
     \<lparr>car_id = Some ''bits'', car_desc = Some ''Bits'', car_ann_classes = Some [14, 15], car_num_ann_classes = 2\<rparr>,
     \<lparr>car_id = Some ''regs'', car_desc = Some ''Registers'', car_ann_classes = Some [0, 1, 2, 3, 4, 5, 6, 7, 8, 9, 10, 11, 12, 13], car_num_ann_classes = 14\<rparr>,
     \<lparr>car_id = Some ''info'', car_desc = Some ''Info'', car_ann_classes = Some [18, 19, 20, 21, 22, 23, 24], car_num_ann_classes = 7\<rparr>,
     \<lparr>car_id = Some ''warnings'', car_desc = Some ''Warnings'', car_ann_classes = Some [16, 17], car_num_ann_classes = 2\<rparr>]"

definition bh1750_inputs :: "string list" where
  "bh1750_inputs = [
     ''i2c'']"

definition bh1750_outputs :: "string list" where
  "bh1750_outputs = [
     ''bh1750'']"

definition bh1750_tags :: "string list" where
  "bh1750_tags = [
     ''Embedded/industrial'']"

definition bh1750_c_def :: srd_c_decoder where
  "bh1750_c_def = \<lparr>cd_id = Some ''bh1750_c'', cd_name = Some ''BH1750(C)'',
     cd_longname = Some ''Digital ambient light sensor BH1750 (C)'', cd_desc = Some ''Digital 16bit Serial Output Type Ambient Light Sensor IC. (C implementation)'', cd_license = Some ''gplv2+'',
     cd_channels = None, cd_num_channels = 0,
     cd_optional_channels = None, cd_num_optional_channels = 0,
     cd_options = Some bh1750_options, cd_num_options = 2,
     cd_num_annotations = 25, cd_ann_labels = Some bh1750_ann_labels,
     cd_num_annotation_rows = 4, cd_annotation_rows = Some bh1750_ann_rows,
     cd_inputs = Some bh1750_inputs, cd_num_inputs = 1, cd_outputs = Some bh1750_outputs, cd_num_outputs = 1,
     cd_binary = None, cd_num_binary = 0, cd_tags = Some bh1750_tags, cd_num_tags = 1\<rparr>"

lemma bh1750_described: "described bh1750_c_def = (True, True, True)"
  by (simp add: described_simps bh1750_options_def bh1750_ann_labels_def bh1750_ann_rows_def bh1750_inputs_def bh1750_outputs_def bh1750_tags_def bh1750_c_def_def)

section \<open>bluetooth_h4_c.c\<close>

definition bluetooth_h4_ann_labels :: "(string option \<times> string option \<times> string option) list" where
  "bluetooth_h4_ann_labels = [
     (Some [], Some ''rx-cmd'', Some ''RX Command packet''),
     (Some [], Some ''rx-acl'', Some ''RX ACL data packet''),
     (Some [], Some ''rx-sco'', Some ''RX SCO data packet''),
     (Some [], Some ''rx-event'', Some ''RX Event data packet''),
     (Some [], Some ''rx-error'', Some ''RX Error message packet''),
     (Some [], Some ''rx-nego'', Some ''RX Negotiation packet''),
     (Some [], Some ''rx-junk'', Some ''RX Garbages''),
     (Some [], Some ''rx-desc'', Some ''RX packet description''),
     (Some [], Some ''rx-bin'', Some ''RX packet binary''),
     (Some [], Some ''tx-cmd'', Some ''TX Command packet''),
     (Some [], Some ''tx-acl'', Some ''TX ACL data packet''),
     (Some [], Some ''tx-sco'', Some ''TX SCO data packet''),
     (Some [], Some ''tx-event'', Some ''TX Event data packet''),
     (Some [], Some ''tx-error'', Some ''TX Error message packet''),
     (Some [], Some ''tx-nego'', Some ''TX Negotiation packet''),
     (Some [], Some ''tx-junk'', Some ''TX Garbages''),
     (Some [], Some ''tx-desc'', Some ''TX packet description''),
     (Some [], Some ''tx-bin'', Some ''TX packet binary'')]"

definition bluetooth_h4_ann_rows :: "srd_c_ann_row list" where
  "bluetooth_h4_ann_rows = [
     \<lparr>car_id = Some ''rx'', car_desc = Some ''RX'', car_ann_classes = Some [0, 1, 2, 3, 4, 5, 6], car_num_ann_classes = 7\<rparr>,
     \<lparr>car_id = Some ''rx-bins'', car_desc = Some ''RX binary'', car_ann_classes = Some [8], car_num_ann_classes = 1\<rparr>,
     \<lparr>car_id = Some ''tx'', car_desc = Some ''TX'', car_ann_classes = Some [9, 10, 11, 12, 13, 14, 15], car_num_ann_classes = 7\<rparr>,
     \<lparr>car_id = Some ''tx-bins'', car_desc = Some ''TX binary'', car_ann_classes = Some [17], car_num_ann_classes = 1\<rparr>]"

definition bluetooth_h4_inputs :: "string list" where
  "bluetooth_h4_inputs = [
     ''uart'']"

definition bluetooth_h4_outputs :: "string list" where
  "bluetooth_h4_outputs = [
     ''bluetooth_h4'']"

definition bluetooth_h4_tags :: "string list" where
  "bluetooth_h4_tags = [
     ''Embedded/bluetooth'']"

definition bluetooth_h4_c_def :: srd_c_decoder where
  "bluetooth_h4_c_def = \<lparr>cd_id = Some ''bluetooth_h4_c'', cd_name = Some ''Bluetooth H4(C)'',
     cd_longname = Some ''Bluetooth H4 UART protocol (C)'', cd_desc = Some ''Bluetooth H4 UART packet decoder. (C implementation)'', cd_license = Some ''gplv2+'',
     cd_channels = None, cd_num_channels = 0,
     cd_optional_channels = None, cd_num_optional_channels = 0,
     cd_options = None, cd_num_options = 0,
     cd_num_annotations = 18, cd_ann_labels = Some bluetooth_h4_ann_labels,
     cd_num_annotation_rows = 4, cd_annotation_rows = Some bluetooth_h4_ann_rows,
     cd_inputs = Some bluetooth_h4_inputs, cd_num_inputs = 1, cd_outputs = Some bluetooth_h4_outputs, cd_num_outputs = 1,
     cd_binary = None, cd_num_binary = 0, cd_tags = Some bluetooth_h4_tags, cd_num_tags = 1\<rparr>"

lemma bluetooth_h4_described: "described bluetooth_h4_c_def = (True, True, True)"
  by (simp add: described_simps bluetooth_h4_ann_labels_def bluetooth_h4_ann_rows_def bluetooth_h4_inputs_def bluetooth_h4_outputs_def bluetooth_h4_tags_def bluetooth_h4_c_def_def)

section \<open>boost_c.c\<close>

definition boost_options :: "srd_decoder_option list" where
  "boost_options = [
     \<lparr>opt_id = Some ''show_errors'', opt_idn = Some ''dec_boost_opt_show_errors'', opt_desc = Some ''Show errors?'',
        opt_def = Some (GV_string ''yes''), opt_values = [GV_string ''yes'', GV_string ''no'']\<rparr>,
     \<lparr>opt_id = Some ''show_bytes'', opt_idn = Some ''dec_boost_opt_show_bytes'', opt_desc = Some ''Show message bytes?'',
        opt_def = Some (GV_string ''no''), opt_values = [GV_string ''yes'', GV_string ''no'']\<rparr>]"

definition boost_ann_labels :: "(string option \<times> string option \<times> string option) list" where
  "boost_ann_labels = [
     (Some [], Some ''message'', Some ''Valid messages that pass checksum''),
     (Some [], Some ''error'', Some ''Invalid/malformed messages''),
     (Some [], Some ''byte'', Some ''Each individual byte'')]"

definition boost_ann_rows :: "srd_c_ann_row list" where
  "boost_ann_rows = [
     \<lparr>car_id = Some ''messages'', car_desc = Some ''Messages'', car_ann_classes = Some [0], car_num_ann_classes = 1\<rparr>,
     \<lparr>car_id = Some ''errors'', car_desc = Some ''Errors'', car_ann_classes = Some [1], car_num_ann_classes = 1\<rparr>,
     \<lparr>car_id = Some ''bytes'', car_desc = Some ''Bytes'', car_ann_classes = Some [2], car_num_ann_classes = 1\<rparr>]"

definition boost_inputs :: "string list" where
  "boost_inputs = [
     ''uart'']"

definition boost_outputs :: "string list" where
  "boost_outputs = [
     ''boost'']"

definition boost_tags :: "string list" where
  "boost_tags = [
     ''Embedded/industrial'']"

definition boost_c_def :: srd_c_decoder where
  "boost_c_def = \<lparr>cd_id = Some ''boost_c'', cd_name = Some ''Boost(C)'',
     cd_longname = Some ''LEGO Boost Hub and Peripherals (C)'', cd_desc = Some ''LEGO Boost Hub and Peripherals protocol. (C implementation)'', cd_license = Some ''gplv2+'',
     cd_channels = None, cd_num_channels = 0,
     cd_optional_channels = None, cd_num_optional_channels = 0,
     cd_options = Some boost_options, cd_num_options = 2,
     cd_num_annotations = 3, cd_ann_labels = Some boost_ann_labels,
     cd_num_annotation_rows = 3, cd_annotation_rows = Some boost_ann_rows,
     cd_inputs = Some boost_inputs, cd_num_inputs = 1, cd_outputs = Some boost_outputs, cd_num_outputs = 1,
     cd_binary = None, cd_num_binary = 0, cd_tags = Some boost_tags, cd_num_tags = 1\<rparr>"

lemma boost_described: "described boost_c_def = (True, True, True)"
  by (simp add: described_simps boost_options_def boost_ann_labels_def boost_ann_rows_def boost_inputs_def boost_outputs_def boost_tags_def boost_c_def_def)

section \<open>All of them\<close>

definition tables1 :: "srd_c_decoder list" where
  "tables1 = [fourb5b_c_def, a7105_c_def, ac97_c_def, ad5593r_c_def, ad5626_c_def, ad79x0_c_def,
     adat_c_def, adb_c_def, ade77xx_c_def, adf435x_c_def, adns5020_c_def, adxl345_c_def,
     afsk_c_def, am230x_c_def, arm_etmv3_c_def, arm_itm_c_def, arm_tpiu_c_def, arp_c_def,
     as5047_c_def, atsha204a_c_def, aud_c_def, avclan_c_def, avr_isp_c_def, avr_pdi_c_def,
     bean_c_def, bh1750_c_def, bluetooth_h4_c_def, boost_c_def]"

lemmas tables1_described =
  fourb5b_described a7105_described ac97_described ad5593r_described ad5626_described ad79x0_described
  adat_described adb_described ade77xx_described adf435x_described adns5020_described adxl345_described
  afsk_described am230x_described arm_etmv3_described arm_itm_described arm_tpiu_described arp_described
  as5047_described atsha204a_described aud_described avclan_described avr_isp_described avr_pdi_described
  bean_described bh1750_described bluetooth_h4_described boost_described

lemma tables1_ids:
  "map cd_id tables1 = [Some ''4b5b_c'', Some ''a7105_c'', Some ''ac97_c'', Some ''ad5593r_c'', Some ''ad5626_c'',
     Some ''ad79x0_c'', Some ''adat_c'', Some ''adb_c'', Some ''ade77xx_c'', Some ''adf435x_c'',
     Some ''adns5020_c'', Some ''adxl345_c'', Some ''afsk_c'', Some ''am230x_c'', Some ''arm_etmv3_c'',
     Some ''arm_itm_c'', Some ''arm_tpiu_c'', Some ''arp_c'', Some ''as5047_c'', Some ''atsha204a_c'',
     Some ''aud_c'', Some ''avclan_c'', Some ''avr_isp_c'', Some ''avr_pdi_c'', Some ''bean_c'',
     Some ''bh1750_c'', Some ''bluetooth_h4_c'', Some ''boost_c'']"
  by (simp add: tables1_def
    fourb5b_c_def_def a7105_c_def_def ac97_c_def_def ad5593r_c_def_def ad5626_c_def_def ad79x0_c_def_def
    adat_c_def_def adb_c_def_def ade77xx_c_def_def adf435x_c_def_def adns5020_c_def_def adxl345_c_def_def
    afsk_c_def_def am230x_c_def_def arm_etmv3_c_def_def arm_itm_c_def_def arm_tpiu_c_def_def arp_c_def_def
    as5047_c_def_def atsha204a_c_def_def aud_c_def_def avclan_c_def_def avr_isp_c_def_def avr_pdi_c_def_def
    bean_c_def_def bh1750_c_def_def bluetooth_h4_c_def_def boost_c_def_def)

end
