(* ===== verification/Tables2.thy ===== *)
theory Tables2
  imports Described
begin

text \<open>
  The descriptions of the decoders from c2_c to eeprom93xx_c: the tables in their files, with the option
  defaults and values that \<^verbatim>\<open>srd_c_decoder_entry()\<close> fills in, and their checks. Text outside
  ASCII is given by its bytes.
\<close>

section \<open>c2_c.c\<close>

definition c2_channels :: "srd_channel list" where
  "c2_channels = [
     \<lparr>ch_id = Some ''c2ck'', ch_name = Some ''c2ck'', ch_desc = Some ''Clock'', ch_order = 0, ch_type = 0, ch_idn = Some ''dec_c2_chan_c2ck''\<rparr>,
     \<lparr>ch_id = Some ''c2d'', ch_name = Some ''c2d'', ch_desc = Some ''Data'', ch_order = 1, ch_type = 1, ch_idn = Some ''dec_c2_chan_c2d''\<rparr>]"

definition c2_ann_labels :: "(string option \<times> string option \<times> string option) list" where
  "c2_ann_labels = [
     (Some ''106'', Some ''raw-Data'', Some ''raw data''),
     (Some ''106'', Some ''c2-data'', Some ''c2 data''),
     (Some [], Some ''warnings'', Some ''Warnings'')]"

definition c2_ann_rows :: "srd_c_ann_row list" where
  "c2_ann_rows = [
     \<lparr>car_id = Some ''raw-Data'', car_desc = Some ''raw data'', car_ann_classes = Some [0], car_num_ann_classes = 1\<rparr>,
     \<lparr>car_id = Some ''c2-data'', car_desc = Some ''c2 data'', car_ann_classes = Some [1], car_num_ann_classes = 1\<rparr>,
     \<lparr>car_id = Some ''warnings'', car_desc = Some ''Warnings'', car_ann_classes = Some [2], car_num_ann_classes = 1\<rparr>]"

definition c2_inputs :: "string list" where
  "c2_inputs = [
     ''logic'']"

definition c2_outputs :: "string list" where
  "c2_outputs = [
     ''C2'']"

definition c2_tags :: "string list" where
  "c2_tags = [
     ''Embedded/mcu'']"

definition c2_c_def :: srd_c_decoder where
  "c2_c_def = \<lparr>cd_id = Some ''c2_c'', cd_name = Some ''C2(C)'',
     cd_longname = Some ''Silabs C2 Interface (C)'', cd_desc = Some ''Half-duplex, synchronous, serial bus. (C implementation)'', cd_license = Some ''gplv2+'',
     cd_channels = Some c2_channels, cd_num_channels = 2,
     cd_optional_channels = None, cd_num_optional_channels = 0,
     cd_options = None, cd_num_options = 0,
     cd_num_annotations = 3, cd_ann_labels = Some c2_ann_labels,
     cd_num_annotation_rows = 3, cd_annotation_rows = Some c2_ann_rows,
     cd_inputs = Some c2_inputs, cd_num_inputs = 1, cd_outputs = Some c2_outputs, cd_num_outputs = 1,
     cd_binary = None, cd_num_binary = 0, cd_tags = Some c2_tags, cd_num_tags = 1\<rparr>"

lemma c2_described: "described c2_c_def = (True, True, True)"
  by (simp add: described_simps c2_channels_def c2_ann_labels_def c2_ann_rows_def c2_inputs_def c2_outputs_def c2_tags_def c2_c_def_def)

section \<open>caliper_c.c\<close>

definition caliper_options :: "srd_decoder_option list" where
  "caliper_options = [
     \<lparr>opt_id = Some ''timeout_ms'', opt_idn = None, opt_desc = Some ''Packet timeout in ms, 0 to disable'',
        opt_def = None, opt_values = []\<rparr>,
     \<lparr>opt_id = Some ''unit'', opt_idn = None, opt_desc = Some ''Convert units'',
        opt_def = None, opt_values = []\<rparr>,
     \<lparr>opt_id = Some ''changes'', opt_idn = None, opt_desc = Some ''Changes only'',
        opt_def = None, opt_values = []\<rparr>]"

definition caliper_channels :: "srd_channel list" where
  "caliper_channels = [
     \<lparr>ch_id = Some ''clk'', ch_name = Some ''CLK'', ch_desc = Some ''Serial clock line'', ch_order = 0, ch_type = 0, ch_idn = Some ''dec_caliper_chan_clk''\<rparr>,
     \<lparr>ch_id = Some ''data'', ch_name = Some ''DATA'', ch_desc = Some ''Serial data line'', ch_order = 1, ch_type = 1, ch_idn = Some ''dec_caliper_chan_data''\<rparr>]"

definition caliper_ann_labels :: "(string option \<times> string option \<times> string option) list" where
  "caliper_ann_labels = [
     (Some [], Some ''measurement'', Some ''Measurement''),
     (Some [], Some ''warning'', Some ''Warning'')]"

definition caliper_ann_rows :: "srd_c_ann_row list" where
  "caliper_ann_rows = [
     \<lparr>car_id = Some ''measurements'', car_desc = Some ''Measurements'', car_ann_classes = Some [0], car_num_ann_classes = 1\<rparr>,
     \<lparr>car_id = Some ''warnings'', car_desc = Some ''Warnings'', car_ann_classes = Some [1], car_num_ann_classes = 1\<rparr>]"

definition caliper_inputs :: "string list" where
  "caliper_inputs = [
     ''logic'']"

definition caliper_tags :: "string list" where
  "caliper_tags = [
     ''Analog/digital'',
     ''Sensor'']"

definition caliper_c_def :: srd_c_decoder where
  "caliper_c_def = \<lparr>cd_id = Some ''caliper_c'', cd_name = Some ''Caliper(C)'',
     cd_longname = Some ''Digital calipers (C)'', cd_desc = Some ''Protocol of cheap generic digital calipers.'', cd_license = Some ''mit'',
     cd_channels = Some caliper_channels, cd_num_channels = 2,
     cd_optional_channels = None, cd_num_optional_channels = 0,
     cd_options = Some caliper_options, cd_num_options = 3,
     cd_num_annotations = 2, cd_ann_labels = Some caliper_ann_labels,
     cd_num_annotation_rows = 2, cd_annotation_rows = Some caliper_ann_rows,
     cd_inputs = Some caliper_inputs, cd_num_inputs = 1, cd_outputs = None, cd_num_outputs = 0,
     cd_binary = None, cd_num_binary = 0, cd_tags = Some caliper_tags, cd_num_tags = 2\<rparr>"

lemma caliper_described: "described caliper_c_def = (True, True, False)"
  by (simp add: described_simps caliper_options_def caliper_channels_def caliper_ann_labels_def caliper_ann_rows_def caliper_inputs_def caliper_tags_def caliper_c_def_def)

section \<open>can_c.c\<close>

definition can_options :: "srd_decoder_option list" where
  "can_options = [
     \<lparr>opt_id = Some ''bitrate'', opt_idn = Some ''dec_can_opt_bitrate'', opt_desc = Some ''bitrate (bits/s)'',
        opt_def = Some (GV_int64 1000000), opt_values = []\<rparr>,
     \<lparr>opt_id = Some ''sample_point'', opt_idn = Some ''dec_can_opt_sample_point'', opt_desc = Some ''Sample point (%)'',
        opt_def = Some (GV_double 70), opt_values = []\<rparr>]"

definition can_channels :: "srd_channel list" where
  "can_channels = [
     \<lparr>ch_id = Some ''can_rx'', ch_name = Some ''CAN'', ch_desc = Some ''CAN bus line'', ch_order = 0, ch_type = 1, ch_idn = Some ''dec_can_chan_can_rx''\<rparr>]"

definition can_ann_labels :: "(string option \<times> string option \<times> string option) list" where
  "can_ann_labels = [
     (Some [], Some ''data'', Some ''CAN payload data''),
     (Some [], Some ''sof'', Some ''Start of frame''),
     (Some [], Some ''eof'', Some ''End of frame''),
     (Some [], Some ''id'', Some ''Identifier''),
     (Some [], Some ''ext-id'', Some ''Extended identifier''),
     (Some [], Some ''full-id'', Some ''Full identifier''),
     (Some [], Some ''ide'', Some ''Identifier extension bit''),
     (Some [], Some ''reserved-bit'', Some ''Reserved bit 0 and 1''),
     (Some [], Some ''rtr'', Some ''Remote transmission request''),
     (Some [], Some ''srr'', Some ''Substitute remote request''),
     (Some [], Some ''dlc'', Some ''Data length count''),
     (Some [], Some ''crc-sequence'', Some ''CRC sequence''),
     (Some [], Some ''crc-delimiter'', Some ''CRC delimiter''),
     (Some [], Some ''ack-slot'', Some ''ACK slot''),
     (Some [], Some ''ack-delimiter'', Some ''ACK delimiter''),
     (Some [], Some ''stuff-bit'', Some ''Stuff bit''),
     (Some [], Some ''warnings'', Some ''Human-readable warnings''),
     (Some [], Some ''bit'', Some ''Bit'')]"

definition can_ann_rows :: "srd_c_ann_row list" where
  "can_ann_rows = [
     \<lparr>car_id = Some ''bits'', car_desc = Some ''Bits'', car_ann_classes = Some [15, 17], car_num_ann_classes = 2\<rparr>,
     \<lparr>car_id = Some ''fields'', car_desc = Some ''Fields'', car_ann_classes = Some [0, 1, 2, 3, 4, 5, 6, 7, 8, 9, 10, 11, 12, 13, 14], car_num_ann_classes = 15\<rparr>,
     \<lparr>car_id = Some ''warnings'', car_desc = Some ''Warnings'', car_ann_classes = Some [16], car_num_ann_classes = 1\<rparr>]"

definition can_inputs :: "string list" where
  "can_inputs = [
     ''logic'']"

definition can_outputs :: "string list" where
  "can_outputs = [
     ''can'']"

definition can_tags :: "string list" where
  "can_tags = [
     ''Automotive'']"

definition can_c_def :: srd_c_decoder where
  "can_c_def = \<lparr>cd_id = Some ''can_c'', cd_name = Some ''CAN(C)'',
     cd_longname = Some ''Controller Area Network (C)'', cd_desc = Some ''CAN bus protocol decoder (C implementation)'', cd_license = Some ''gplv2+'',
     cd_channels = Some can_channels, cd_num_channels = 1,
     cd_optional_channels = None, cd_num_optional_channels = 0,
     cd_options = Some can_options, cd_num_options = 2,
     cd_num_annotations = 18, cd_ann_labels = Some can_ann_labels,
     cd_num_annotation_rows = 3, cd_annotation_rows = Some can_ann_rows,
     cd_inputs = Some can_inputs, cd_num_inputs = 1, cd_outputs = Some can_outputs, cd_num_outputs = 1,
     cd_binary = None, cd_num_binary = 0, cd_tags = Some can_tags, cd_num_tags = 1\<rparr>"

lemma can_described: "described can_c_def = (True, True, True)"
  by (simp add: described_simps can_options_def can_channels_def can_ann_labels_def can_ann_rows_def can_inputs_def can_outputs_def can_tags_def can_c_def_def)

section \<open>can_fd_c.c\<close>

definition can_fd_options :: "srd_decoder_option list" where
  "can_fd_options = [
     \<lparr>opt_id = Some ''nominal_bitrate'', opt_idn = Some ''dec_can_opt_nominal_bitrate'', opt_desc = Some ''Nominal bitrate (bits/s)'',
        opt_def = Some (GV_int64 1000000), opt_values = []\<rparr>,
     \<lparr>opt_id = Some ''fast_bitrate'', opt_idn = Some ''dec_can_opt_fast_bitrate'', opt_desc = Some ''Fast bitrate (bits/s)'',
        opt_def = Some (GV_int64 2000000), opt_values = []\<rparr>,
     \<lparr>opt_id = Some ''sample_point'', opt_idn = Some ''dec_can_opt_sample_point'', opt_desc = Some ''Sample point (%)'',
        opt_def = Some (GV_double 70), opt_values = []\<rparr>]"

definition can_fd_channels :: "srd_channel list" where
  "can_fd_channels = [
     \<lparr>ch_id = Some ''can_rx'', ch_name = Some ''CAN FD'', ch_desc = Some ''CAN FD bus line'', ch_order = 0, ch_type = 1, ch_idn = Some ''dec_can_chan_can_rx''\<rparr>]"

definition can_fd_ann_labels :: "(string option \<times> string option \<times> string option) list" where
  "can_fd_ann_labels = [
     (Some [], Some ''data'', Some ''CAN payload data''),
     (Some [], Some ''sof'', Some ''Start of frame''),
     (Some [], Some ''eof'', Some ''End of frame''),
     (Some [], Some ''id'', Some ''Identifier''),
     (Some [], Some ''ext-id'', Some ''Extended identifier''),
     (Some [], Some ''full-id'', Some ''Full identifier''),
     (Some [], Some ''ide'', Some ''Identifier extension bit''),
     (Some [], Some ''reserved-bit'', Some ''Reserved bit 0 and 1''),
     (Some [], Some ''rtr'', Some ''Remote transmission request''),
     (Some [], Some ''srr'', Some ''Substitute remote request''),
     (Some [], Some ''dlc'', Some ''Data length count''),
     (Some [], Some ''crc-sequence'', Some ''CRC sequence''),
     (Some [], Some ''crc-delimiter'', Some ''CRC delimiter''),
     (Some [], Some ''ack-slot'', Some ''ACK slot''),
     (Some [], Some ''ack-delimiter'', Some ''ACK delimiter''),
     (Some [], Some ''stuff-bit'', Some ''Stuff bit''),
     (Some [], Some ''warnings'', Some ''Human-readable warnings''),
     (Some [], Some ''bit'', Some ''Bit'')]"

definition can_fd_ann_rows :: "srd_c_ann_row list" where
  "can_fd_ann_rows = [
     \<lparr>car_id = Some ''bits'', car_desc = Some ''Bits'', car_ann_classes = Some [15, 17], car_num_ann_classes = 2\<rparr>,
     \<lparr>car_id = Some ''fields'', car_desc = Some ''Fields'', car_ann_classes = Some [0, 1, 2, 3, 4, 5, 6, 7, 8, 9, 10, 11, 12, 13, 14], car_num_ann_classes = 15\<rparr>,
     \<lparr>car_id = Some ''warnings'', car_desc = Some ''Warnings'', car_ann_classes = Some [16], car_num_ann_classes = 1\<rparr>]"

definition can_fd_inputs :: "string list" where
  "can_fd_inputs = [
     ''logic'']"

definition can_fd_outputs :: "string list" where
  "can_fd_outputs = [
     ''can'']"

definition can_fd_tags :: "string list" where
  "can_fd_tags = [
     ''Automotive'']"

definition can_fd_c_def :: srd_c_decoder where
  "can_fd_c_def = \<lparr>cd_id = Some ''can_fd_c'', cd_name = Some ''CAN-FD(C)'',
     cd_longname = Some ''Controller Area Network with Flexible Data rate (C)'', cd_desc = Some ''CAN-FD bus protocol decoder (C implementation)'', cd_license = Some ''gplv2+'',
     cd_channels = Some can_fd_channels, cd_num_channels = 1,
     cd_optional_channels = None, cd_num_optional_channels = 0,
     cd_options = Some can_fd_options, cd_num_options = 3,
     cd_num_annotations = 18, cd_ann_labels = Some can_fd_ann_labels,
     cd_num_annotation_rows = 3, cd_annotation_rows = Some can_fd_ann_rows,
     cd_inputs = Some can_fd_inputs, cd_num_inputs = 1, cd_outputs = Some can_fd_outputs, cd_num_outputs = 1,
     cd_binary = None, cd_num_binary = 0, cd_tags = Some can_fd_tags, cd_num_tags = 1\<rparr>"

lemma can_fd_described: "described can_fd_c_def = (True, True, True)"
  by (simp add: described_simps can_fd_options_def can_fd_channels_def can_fd_ann_labels_def can_fd_ann_rows_def can_fd_inputs_def can_fd_outputs_def can_fd_tags_def can_fd_c_def_def)

section \<open>carrera_c.c\<close>

definition carrera_options :: "srd_decoder_option list" where
  "carrera_options = [
     \<lparr>opt_id = Some ''invert'', opt_idn = None, opt_desc = Some ''Signal ist invertiert'',
        opt_def = None, opt_values = []\<rparr>,
     \<lparr>opt_id = Some ''format'', opt_idn = None, opt_desc = Some ''Data format'',
        opt_def = None, opt_values = []\<rparr>]"

definition carrera_channels :: "srd_channel list" where
  "carrera_channels = [
     \<lparr>ch_id = Some ''data'', ch_name = Some ''Data'', ch_desc = Some ''Data line'', ch_order = 0, ch_type = 1, ch_idn = None\<rparr>]"

definition carrera_ann_labels :: "(string option \<times> string option \<times> string option) list" where
  "carrera_ann_labels = [
     (Some [], Some ''controller_0'', Some ''Reglerwort ID 0''),
     (Some [], Some ''controller_1'', Some ''Reglerwort ID 1''),
     (Some [], Some ''controller_2'', Some ''Reglerwort ID 2''),
     (Some [], Some ''controller_3'', Some ''Reglerwort ID 3''),
     (Some [], Some ''controller_4'', Some ''Reglerwort ID 4''),
     (Some [], Some ''controller_5'', Some ''Reglerwort ID 5''),
     (Some [], Some ''controller_sc'', Some ''Reglerwort SC/Ghost''),
     (Some [], Some ''controller_prog'', Some ''Programmierwort''),
     (Some [], Some ''controller_active'', Some ''Aktivdatenwort''),
     (Some [], Some ''bit'', Some ''Bit''),
     (Some [], Some ''quittierung'', Some ''Quittierungswort''),
     (Some [], Some ''prog_gas'', Some ''prog_gas''),
     (Some [], Some ''prog_general'', Some ''Programmierdatenwort''),
     (Some [], Some ''prog_bremse'', Some ''prog_bremse''),
     (Some [], Some ''prog_tank'', Some ''prog_tank''),
     (Some [], Some ''prog_werte'', Some ''prog_werte''),
     (Some [], Some ''prog_tanken'', Some ''prog_tanken''),
     (Some [], Some ''prog_position'', Some ''prog_position''),
     (Some [], Some ''prog_finish'', Some ''prog_finish''),
     (Some [], Some ''prog_finishline'', Some ''prog_finishline''),
     (Some [], Some ''prog_fuel'', Some ''prog_fuel''),
     (Some [], Some ''prog_jumpstart'', Some ''prog_jumpstart''),
     (Some [], Some ''prog_traffic_light'', Some ''prog_traffic_light''),
     (Some [], Some ''prog_lapcount'', Some ''prog_lapcount''),
     (Some [], Some ''prog_reset'', Some ''prog_reset''),
     (Some [], Some ''prog_pitlaneadapter'', Some ''prog_pitlaneadapter''),
     (Some [], Some ''prog_performance'', Some ''prog_performance'')]"

definition carrera_ann_rows :: "srd_c_ann_row list" where
  "carrera_ann_rows = [
     \<lparr>car_id = Some ''word_bit_value'', car_desc = Some ''Bits'', car_ann_classes = Some [9], car_num_ann_classes = 1\<rparr>,
     \<lparr>car_id = Some ''word_controller'', car_desc = Some ''Reglerwort'', car_ann_classes = Some [0, 1, 2, 3, 4, 5, 6], car_num_ann_classes = 7\<rparr>,
     \<lparr>car_id = Some ''active_quit'', car_desc = Some ''Aktiv-/Quittierungswort'', car_ann_classes = Some [8, 10], car_num_ann_classes = 2\<rparr>,
     \<lparr>car_id = Some ''prog_word'', car_desc = Some ''Programmierdatenwort'', car_ann_classes = Some [11, 12, 13, 14, 15, 16, 17, 18, 19, 20, 21, 22, 23, 24, 25, 26], car_num_ann_classes = 16\<rparr>]"

definition carrera_inputs :: "string list" where
  "carrera_inputs = [
     ''logic'']"

definition carrera_tags :: "string list" where
  "carrera_tags = [
     ''C Digital'']"

definition carrera_c_def :: srd_c_decoder where
  "carrera_c_def = \<lparr>cd_id = Some ''carrera_c'', cd_name = Some ''Carrera Digital Decoder(C)'',
     cd_longname = Some ''Carrera Digital (C)'', cd_desc = Some ''was macht der wohl?'', cd_license = Some ''gplv2+'',
     cd_channels = Some carrera_channels, cd_num_channels = 1,
     cd_optional_channels = None, cd_num_optional_channels = 0,
     cd_options = Some carrera_options, cd_num_options = 2,
     cd_num_annotations = 27, cd_ann_labels = Some carrera_ann_labels,
     cd_num_annotation_rows = 4, cd_annotation_rows = Some carrera_ann_rows,
     cd_inputs = Some carrera_inputs, cd_num_inputs = 1, cd_outputs = None, cd_num_outputs = 0,
     cd_binary = None, cd_num_binary = 0, cd_tags = Some carrera_tags, cd_num_tags = 1\<rparr>"

lemma carrera_described: "described carrera_c_def = (True, True, False)"
  by (simp add: described_simps carrera_options_def carrera_channels_def carrera_ann_labels_def carrera_ann_rows_def carrera_inputs_def carrera_tags_def carrera_c_def_def)

section \<open>cc1101_c.c\<close>

definition cc1101_ann_labels :: "(string option \<times> string option \<times> string option) list" where
  "cc1101_ann_labels = [
     (Some [], Some ''strobe'', Some ''Command strobe''),
     (Some [], Some ''single_read'', Some ''Single register read''),
     (Some [], Some ''single_write'', Some ''Single register write''),
     (Some [], Some ''burst_read'', Some ''Burst register read''),
     (Some [], Some ''burst_write'', Some ''Burst register write''),
     (Some [], Some ''status_read'', Some ''Status read''),
     (Some [], Some ''status'', Some ''Status register''),
     (Some [], Some ''warning'', Some ''Warning'')]"

definition cc1101_ann_rows :: "srd_c_ann_row list" where
  "cc1101_ann_rows = [
     \<lparr>car_id = Some ''cmd'', car_desc = Some ''Commands'', car_ann_classes = Some [0], car_num_ann_classes = 1\<rparr>,
     \<lparr>car_id = Some ''data'', car_desc = Some ''Data'', car_ann_classes = Some [1, 2, 3, 4, 5], car_num_ann_classes = 5\<rparr>,
     \<lparr>car_id = Some ''status'', car_desc = Some ''Status register'', car_ann_classes = Some [6], car_num_ann_classes = 1\<rparr>,
     \<lparr>car_id = Some ''warnings'', car_desc = Some ''Warnings'', car_ann_classes = Some [7], car_num_ann_classes = 1\<rparr>]"

definition cc1101_inputs :: "string list" where
  "cc1101_inputs = [
     ''spi'']"

definition cc1101_tags :: "string list" where
  "cc1101_tags = [
     ''IC'',
     ''Wireless/RF'']"

definition cc1101_c_def :: srd_c_decoder where
  "cc1101_c_def = \<lparr>cd_id = Some ''cc1101_c'', cd_name = Some ''CC1101(C)'',
     cd_longname = Some ''Texas Instruments CC1101 (C)'', cd_desc = Some ''Low-power sub-1GHz RF transceiver chip. (C implementation)'', cd_license = Some ''gplv2+'',
     cd_channels = None, cd_num_channels = 0,
     cd_optional_channels = None, cd_num_optional_channels = 0,
     cd_options = None, cd_num_options = 0,
     cd_num_annotations = 8, cd_ann_labels = Some cc1101_ann_labels,
     cd_num_annotation_rows = 4, cd_annotation_rows = Some cc1101_ann_rows,
     cd_inputs = Some cc1101_inputs, cd_num_inputs = 1, cd_outputs = None, cd_num_outputs = 0,
     cd_binary = None, cd_num_binary = 0, cd_tags = Some cc1101_tags, cd_num_tags = 2\<rparr>"

lemma cc1101_described: "described cc1101_c_def = (True, True, True)"
  by (simp add: described_simps cc1101_ann_labels_def cc1101_ann_rows_def cc1101_inputs_def cc1101_tags_def cc1101_c_def_def)

section \<open>ccd_c.c\<close>

definition ccd_options :: "srd_decoder_option list" where
  "ccd_options = [
     \<lparr>opt_id = Some ''ignoreerrors'', opt_idn = Some ''dec_ccd_opt_ignoreerrors'', opt_desc = Some ''Ignore checksum and frame errors'',
        opt_def = Some (GV_string ''no''), opt_values = [GV_string ''yes'', GV_string ''no'']\<rparr>,
     \<lparr>opt_id = Some ''invert_bus'', opt_idn = Some ''dec_ccd_opt_invert_bus'', opt_desc = Some ''Invert bus?'',
        opt_def = Some (GV_string ''no''), opt_values = [GV_string ''yes'', GV_string ''no'']\<rparr>,
     \<lparr>opt_id = Some ''units'', opt_idn = Some ''dec_ccd_opt_units'', opt_desc = Some ''Show metric/imperial/both/native units'',
        opt_def = Some (GV_string ''native''), opt_values = [GV_string ''metric'', GV_string ''imperial'', GV_string ''both'', GV_string ''native'']\<rparr>]"

definition ccd_channels :: "srd_channel list" where
  "ccd_channels = [
     \<lparr>ch_id = Some ''bus'', ch_name = Some ''bus'', ch_desc = Some ''CCD bidirectional shared data bus'', ch_order = 0, ch_type = 1, ch_idn = Some ''dec_ccd_chan_bus''\<rparr>]"

definition ccd_ann_labels :: "(string option \<times> string option \<times> string option) list" where
  "ccd_ann_labels = [
     (Some [], Some ''bus-bits'', Some ''Bus data bits''),
     (Some [], Some ''bus-bytes'', Some ''Bus data bytes''),
     (Some [], Some ''idle'', Some ''Bus idle''),
     (Some [], Some ''frame-error'', Some ''Frame errors''),
     (Some [], Some ''checksum'', Some ''Message checksum errors''),
     (Some [], Some ''bus-decoded'', Some ''Decoded bus message''),
     (Some [], Some ''bus-message'', Some ''Message bytes'')]"

definition ccd_ann_rows :: "srd_c_ann_row list" where
  "ccd_ann_rows = [
     \<lparr>car_id = Some ''a-bus-bits'', car_desc = Some ''Bus bits'', car_ann_classes = Some [0], car_num_ann_classes = 1\<rparr>,
     \<lparr>car_id = Some ''a-idle'', car_desc = Some ''Idle'', car_ann_classes = Some [2], car_num_ann_classes = 1\<rparr>,
     \<lparr>car_id = Some ''a-bus-warnings'', car_desc = Some ''Bus warnings'', car_ann_classes = Some [3, 4], car_num_ann_classes = 2\<rparr>,
     \<lparr>car_id = Some ''a-bus-data'', car_desc = Some ''Bus bytes'', car_ann_classes = Some [1], car_num_ann_classes = 1\<rparr>,
     \<lparr>car_id = Some ''a-bus-message'', car_desc = Some ''Message bytes'', car_ann_classes = Some [6], car_num_ann_classes = 1\<rparr>,
     \<lparr>car_id = Some ''a-bus-decoded'', car_desc = Some ''Message decoded'', car_ann_classes = Some [5], car_num_ann_classes = 1\<rparr>]"

definition ccd_inputs :: "string list" where
  "ccd_inputs = [
     ''logic'']"

definition ccd_outputs :: "string list" where
  "ccd_outputs = [
     ''ccd'']"

definition ccd_tags :: "string list" where
  "ccd_tags = [
     ''Automotive'']"

definition ccd_c_def :: srd_c_decoder where
  "ccd_c_def = \<lparr>cd_id = Some ''ccd_c'', cd_name = Some ''CCD(C)'',
     cd_longname = Some ''CCD (Chrysler Collision Detection) Data Bus (C)'', cd_desc = Some ''CCD (Chrysler Collision Detection) Data Bus (C implementation)'', cd_license = Some ''gplv2+'',
     cd_channels = Some ccd_channels, cd_num_channels = 1,
     cd_optional_channels = None, cd_num_optional_channels = 0,
     cd_options = Some ccd_options, cd_num_options = 3,
     cd_num_annotations = 7, cd_ann_labels = Some ccd_ann_labels,
     cd_num_annotation_rows = 6, cd_annotation_rows = Some ccd_ann_rows,
     cd_inputs = Some ccd_inputs, cd_num_inputs = 1, cd_outputs = Some ccd_outputs, cd_num_outputs = 1,
     cd_binary = None, cd_num_binary = 0, cd_tags = Some ccd_tags, cd_num_tags = 1\<rparr>"

lemma ccd_described: "described ccd_c_def = (True, True, True)"
  by (simp add: described_simps ccd_options_def ccd_channels_def ccd_ann_labels_def ccd_ann_rows_def ccd_inputs_def ccd_outputs_def ccd_tags_def ccd_c_def_def)

section \<open>cec_c.c\<close>

definition cec_channels :: "srd_channel list" where
  "cec_channels = [
     \<lparr>ch_id = Some ''cec'', ch_name = Some ''CEC'', ch_desc = Some ''CEC bus data'', ch_order = 0, ch_type = 1, ch_idn = Some ''dec_cec_chan_cec''\<rparr>]"

definition cec_ann_labels :: "(string option \<times> string option \<times> string option) list" where
  "cec_ann_labels = [
     (Some [], Some ''st'', Some ''Start''),
     (Some [], Some ''eom-0'', Some ''End of message''),
     (Some [], Some ''eom-1'', Some ''Message continued''),
     (Some [], Some ''nack'', Some ''ACK not set''),
     (Some [], Some ''ack'', Some ''ACK set''),
     (Some [], Some ''bits'', Some ''Bits''),
     (Some [], Some ''bytes'', Some ''Bytes''),
     (Some [], Some ''frames'', Some ''Frames''),
     (Some [], Some ''sections'', Some ''Sections''),
     (Some [], Some ''warnings'', Some ''Warnings'')]"

definition cec_ann_rows :: "srd_c_ann_row list" where
  "cec_ann_rows = [
     \<lparr>car_id = Some ''bits'', car_desc = Some ''Bits'', car_ann_classes = Some [0, 1, 2, 3, 4, 5], car_num_ann_classes = 6\<rparr>,
     \<lparr>car_id = Some ''bytes'', car_desc = Some ''Bytes'', car_ann_classes = Some [6], car_num_ann_classes = 1\<rparr>,
     \<lparr>car_id = Some ''frames'', car_desc = Some ''Frames'', car_ann_classes = Some [7], car_num_ann_classes = 1\<rparr>,
     \<lparr>car_id = Some ''sections'', car_desc = Some ''Sections'', car_ann_classes = Some [8], car_num_ann_classes = 1\<rparr>,
     \<lparr>car_id = Some ''warnings'', car_desc = Some ''Warnings'', car_ann_classes = Some [9], car_num_ann_classes = 1\<rparr>]"

definition cec_inputs :: "string list" where
  "cec_inputs = [
     ''logic'']"

definition cec_outputs :: "string list" where
  "cec_outputs = []"

definition cec_tags :: "string list" where
  "cec_tags = [
     ''Display'',
     ''PC'']"

definition cec_c_def :: srd_c_decoder where
  "cec_c_def = \<lparr>cd_id = Some ''cec_c'', cd_name = Some ''CEC(C)'',
     cd_longname = Some ''HDMI-CEC(C)'', cd_desc = Some ''HDMI Consumer Electronics Control (CEC) protocol. (C implementation)'', cd_license = Some ''gplv2+'',
     cd_channels = Some cec_channels, cd_num_channels = 1,
     cd_optional_channels = None, cd_num_optional_channels = 0,
     cd_options = None, cd_num_options = 0,
     cd_num_annotations = 10, cd_ann_labels = Some cec_ann_labels,
     cd_num_annotation_rows = 5, cd_annotation_rows = Some cec_ann_rows,
     cd_inputs = Some cec_inputs, cd_num_inputs = 1, cd_outputs = Some cec_outputs, cd_num_outputs = 0,
     cd_binary = None, cd_num_binary = 0, cd_tags = Some cec_tags, cd_num_tags = 2\<rparr>"

lemma cec_described: "described cec_c_def = (True, True, True)"
  by (simp add: described_simps cec_channels_def cec_ann_labels_def cec_ann_rows_def cec_inputs_def cec_outputs_def cec_tags_def cec_c_def_def)

section \<open>cfp_c.c\<close>

definition cfp_ann_labels :: "(string option \<times> string option \<times> string option) list" where
  "cfp_ann_labels = [
     (Some [], Some ''register'', Some ''Register''),
     (Some [], Some ''decode'', Some ''Decode'')]"

definition cfp_ann_rows :: "srd_c_ann_row list" where
  "cfp_ann_rows = [
     \<lparr>car_id = Some ''registers'', car_desc = Some ''Registers'', car_ann_classes = Some [0], car_num_ann_classes = 1\<rparr>,
     \<lparr>car_id = Some ''decodes'', car_desc = Some ''Decodes'', car_ann_classes = Some [1], car_num_ann_classes = 1\<rparr>]"

definition cfp_inputs :: "string list" where
  "cfp_inputs = [
     ''mdio'']"

definition cfp_outputs :: "string list" where
  "cfp_outputs = []"

definition cfp_tags :: "string list" where
  "cfp_tags = [
     ''Networking'']"

definition cfp_c_def :: srd_c_decoder where
  "cfp_c_def = \<lparr>cd_id = Some ''cfp_c'', cd_name = Some ''CFP(C)'',
     cd_longname = Some ''100 Gigabit C form-factor pluggable (C)'', cd_desc = Some ''100 Gigabit C form-factor pluggable (CFP) protocol. (C implementation)'', cd_license = Some ''BSD'',
     cd_channels = None, cd_num_channels = 0,
     cd_optional_channels = None, cd_num_optional_channels = 0,
     cd_options = None, cd_num_options = 0,
     cd_num_annotations = 2, cd_ann_labels = Some cfp_ann_labels,
     cd_num_annotation_rows = 2, cd_annotation_rows = Some cfp_ann_rows,
     cd_inputs = Some cfp_inputs, cd_num_inputs = 1, cd_outputs = Some cfp_outputs, cd_num_outputs = 0,
     cd_binary = None, cd_num_binary = 0, cd_tags = Some cfp_tags, cd_num_tags = 1\<rparr>"

lemma cfp_described: "described cfp_c_def = (True, True, True)"
  by (simp add: described_simps cfp_ann_labels_def cfp_ann_rows_def cfp_inputs_def cfp_outputs_def cfp_tags_def cfp_c_def_def)

section \<open>cjtag_c.c\<close>

definition cjtag_channels :: "srd_channel list" where
  "cjtag_channels = [
     \<lparr>ch_id = Some ''tckc'', ch_name = Some ''TCKC'', ch_desc = Some ''Test clock'', ch_order = 0, ch_type = 0, ch_idn = Some ''dec_cjtag_chan_tckc''\<rparr>,
     \<lparr>ch_id = Some ''tmsc'', ch_name = Some ''TMSC'', ch_desc = Some ''Test mode select'', ch_order = 1, ch_type = 1, ch_idn = Some ''dec_cjtag_chan_tmsc''\<rparr>]"

definition cjtag_ann_labels :: "(string option \<times> string option \<times> string option) list" where
  "cjtag_ann_labels = [
     (Some [], Some ''test-logic-reset'', Some ''TEST-LOGIC-RESET''),
     (Some [], Some ''run-test/idle'', Some ''RUN-TEST/IDLE''),
     (Some [], Some ''select-dr-scan'', Some ''SELECT-DR-SCAN''),
     (Some [], Some ''capture-dr'', Some ''CAPTURE-DR''),
     (Some [], Some ''update-dr'', Some ''UPDATE-DR''),
     (Some [], Some ''pause-dr'', Some ''PAUSE-DR''),
     (Some [], Some ''shift-dr'', Some ''SHIFT-DR''),
     (Some [], Some ''exit1-dr'', Some ''EXIT1-DR''),
     (Some [], Some ''exit2-dr'', Some ''EXIT2-DR''),
     (Some [], Some ''select-ir-scan'', Some ''SELECT-IR-SCAN''),
     (Some [], Some ''capture-ir'', Some ''CAPTURE-IR''),
     (Some [], Some ''update-ir'', Some ''UPDATE-IR''),
     (Some [], Some ''pause-ir'', Some ''PAUSE-IR''),
     (Some [], Some ''shift-ir'', Some ''SHIFT-IR''),
     (Some [], Some ''exit1-ir'', Some ''EXIT1-IR''),
     (Some [], Some ''exit2-ir'', Some ''EXIT2-IR''),
     (Some [], Some ''cjtag-ec'', Some ''CJTAG_EC''),
     (Some [], Some ''cjtag-spare'', Some ''CJTAG_SPARE''),
     (Some [], Some ''cjtag-tpdel'', Some ''CJTAG_TPDEL''),
     (Some [], Some ''cjtag-tprev'', Some ''CJTAG_TPREV''),
     (Some [], Some ''cjtag-tpst'', Some ''CJTAG_TPST''),
     (Some [], Some ''cjtag-rdyc'', Some ''CJTAG_RDYC''),
     (Some [], Some ''cjtag-dlyc'', Some ''CJTAG_DLYC''),
     (Some [], Some ''cjtag-scnfmt'', Some ''CJTAG_SCNFMT''),
     (Some [], Some ''cjtag-cp'', Some ''CJTAG_CP''),
     (Some [], Some ''cjtag-oac'', Some ''CJTAG_OAC''),
     (Some [], Some ''oscan1'', Some ''OSCAN1''),
     (Some [], Some ''four-wire'', Some ''FOUR_WIRE''),
     (Some [], Some ''bit-tdi'', Some ''Bit (TDI)''),
     (Some [], Some ''bit-tdo'', Some ''Bit (TDO)''),
     (Some [], Some ''bitstring-tdi'', Some ''Bitstring (TDI)''),
     (Some [], Some ''bitstring-tdo'', Some ''Bitstring (TDO)''),
     (Some [], Some ''bit-tms'', Some ''Bit (TMS)'')]"

definition cjtag_ann_rows :: "srd_c_ann_row list" where
  "cjtag_ann_rows = [
     \<lparr>car_id = Some ''bits-tdi'', car_desc = Some ''Bits (TDI)'', car_ann_classes = Some [28], car_num_ann_classes = 1\<rparr>,
     \<lparr>car_id = Some ''bits-tdo'', car_desc = Some ''Bits (TDO)'', car_ann_classes = Some [29], car_num_ann_classes = 1\<rparr>,
     \<lparr>car_id = Some ''bitstrings-tdi'', car_desc = Some ''Bitstrings (TDI)'', car_ann_classes = Some [30], car_num_ann_classes = 1\<rparr>,
     \<lparr>car_id = Some ''bitstrings-tdo'', car_desc = Some ''Bitstrings (TDO)'', car_ann_classes = Some [31], car_num_ann_classes = 1\<rparr>,
     \<lparr>car_id = Some ''bits-tms'', car_desc = Some ''Bits (TMS)'', car_ann_classes = Some [32], car_num_ann_classes = 1\<rparr>,
     \<lparr>car_id = Some ''cjtag-states'', car_desc = Some ''CJTAG states'', car_ann_classes = Some [16, 17, 18, 19, 20, 21, 22, 23, 24, 25, 26, 27], car_num_ann_classes = 12\<rparr>,
     \<lparr>car_id = Some ''jtag-states'', car_desc = Some ''JTAG states'', car_ann_classes = Some [0, 1, 2, 3, 4, 5, 6, 7, 8, 9, 10, 11, 12, 13, 14, 15], car_num_ann_classes = 16\<rparr>]"

definition cjtag_inputs :: "string list" where
  "cjtag_inputs = [
     ''logic'']"

definition cjtag_outputs :: "string list" where
  "cjtag_outputs = [
     ''jtag'']"

definition cjtag_tags :: "string list" where
  "cjtag_tags = [
     ''Debug/trace'']"

definition cjtag_c_def :: srd_c_decoder where
  "cjtag_c_def = \<lparr>cd_id = Some ''cjtag_c'', cd_name = Some ''cJTAG(C)'',
     cd_longname = Some ''Compact Joint Test Action Group (IEEE 1149.7)'', cd_desc = Some ''Protocol for testing, debugging, and flashing ICs.'', cd_license = Some ''gplv2+'',
     cd_channels = Some cjtag_channels, cd_num_channels = 2,
     cd_optional_channels = None, cd_num_optional_channels = 0,
     cd_options = None, cd_num_options = 0,
     cd_num_annotations = 33, cd_ann_labels = Some cjtag_ann_labels,
     cd_num_annotation_rows = 7, cd_annotation_rows = Some cjtag_ann_rows,
     cd_inputs = Some cjtag_inputs, cd_num_inputs = 1, cd_outputs = Some cjtag_outputs, cd_num_outputs = 1,
     cd_binary = None, cd_num_binary = 0, cd_tags = Some cjtag_tags, cd_num_tags = 1\<rparr>"

lemma cjtag_described: "described cjtag_c_def = (True, True, True)"
  by (simp add: described_simps cjtag_channels_def cjtag_ann_labels_def cjtag_ann_rows_def cjtag_inputs_def cjtag_outputs_def cjtag_tags_def cjtag_c_def_def)

section \<open>cjtag_oscan0_c.c\<close>

definition cjtag_oscan0_channels :: "srd_channel list" where
  "cjtag_oscan0_channels = [
     \<lparr>ch_id = Some ''tdi'', ch_name = Some ''TDI'', ch_desc = Some ''Test data input'', ch_order = 0, ch_type = 1, ch_idn = Some ''dec_cjtag_oscan0_chan_tdi''\<rparr>,
     \<lparr>ch_id = Some ''tdo'', ch_name = Some ''TDO'', ch_desc = Some ''Test data output'', ch_order = 1, ch_type = 1, ch_idn = Some ''dec_cjtag_oscan0_chan_tdo''\<rparr>,
     \<lparr>ch_id = Some ''tck'', ch_name = Some ''TCK'', ch_desc = Some ''Test clock'', ch_order = 2, ch_type = 0, ch_idn = Some ''dec_cjtag_oscan0_chan_tck''\<rparr>,
     \<lparr>ch_id = Some ''tms'', ch_name = Some ''TMS'', ch_desc = Some ''Test mode select'', ch_order = 3, ch_type = -1, ch_idn = Some ''dec_cjtag_oscan0_chan_tms''\<rparr>]"

definition cjtag_oscan0_optional_channels :: "srd_channel list" where
  "cjtag_oscan0_optional_channels = [
     \<lparr>ch_id = Some ''trst'', ch_name = Some ''TRST#'', ch_desc = Some ''Test reset'', ch_order = 4, ch_type = -1, ch_idn = Some ''dec_cjtag_oscan0_opt_chan_trst''\<rparr>,
     \<lparr>ch_id = Some ''srst'', ch_name = Some ''SRST#'', ch_desc = Some ''System reset'', ch_order = 5, ch_type = -1, ch_idn = Some ''dec_cjtag_oscan0_opt_chan_srst''\<rparr>,
     \<lparr>ch_id = Some ''rtck'', ch_name = Some ''RTCK'', ch_desc = Some ''Return clock signal'', ch_order = 6, ch_type = 0, ch_idn = Some ''dec_cjtag_oscan0_opt_chan_rtck''\<rparr>]"

definition cjtag_oscan0_ann_labels :: "(string option \<times> string option \<times> string option) list" where
  "cjtag_oscan0_ann_labels = [
     (Some [], Some ''test-logic-reset'', Some ''TEST-LOGIC-RESET''),
     (Some [], Some ''run-test/idle'', Some ''RUN-TEST/IDLE''),
     (Some [], Some ''select-dr-scan'', Some ''SELECT-DR-SCAN''),
     (Some [], Some ''capture-dr'', Some ''CAPTURE-DR''),
     (Some [], Some ''update-dr'', Some ''UPDATE-DR''),
     (Some [], Some ''pause-dr'', Some ''PAUSE-DR''),
     (Some [], Some ''shift-dr'', Some ''SHIFT-DR''),
     (Some [], Some ''exit1-dr'', Some ''EXIT1-DR''),
     (Some [], Some ''exit2-dr'', Some ''EXIT2-DR''),
     (Some [], Some ''select-ir-scan'', Some ''SELECT-IR-SCAN''),
     (Some [], Some ''capture-ir'', Some ''CAPTURE-IR''),
     (Some [], Some ''update-ir'', Some ''UPDATE-IR''),
     (Some [], Some ''pause-ir'', Some ''PAUSE-IR''),
     (Some [], Some ''shift-ir'', Some ''SHIFT-IR''),
     (Some [], Some ''exit1-ir'', Some ''EXIT1-IR''),
     (Some [], Some ''exit2-ir'', Some ''EXIT2-IR''),
     (Some [], Some ''bit-tdi'', Some ''Bit (TDI)''),
     (Some [], Some ''bit-tdo'', Some ''Bit (TDO)''),
     (Some [], Some ''bitstring-tdi'', Some ''Bitstring (TDI)''),
     (Some [], Some ''bitstring-tdo'', Some ''Bitstring (TDO)''),
     (Some [], Some ''bit-tms'', Some ''Bit (TMS)''),
     (Some [], Some ''state-tapc'', Some ''TAPC State'')]"

definition cjtag_oscan0_ann_rows :: "srd_c_ann_row list" where
  "cjtag_oscan0_ann_rows = [
     \<lparr>car_id = Some ''bits-tdi'', car_desc = Some ''Bits (TDI)'', car_ann_classes = Some [16], car_num_ann_classes = 1\<rparr>,
     \<lparr>car_id = Some ''bits-tdo'', car_desc = Some ''Bits (TDO)'', car_ann_classes = Some [17], car_num_ann_classes = 1\<rparr>,
     \<lparr>car_id = Some ''bitstrings-tdi'', car_desc = Some ''Bitstring (TDI)'', car_ann_classes = Some [18], car_num_ann_classes = 1\<rparr>,
     \<lparr>car_id = Some ''bitstrings-tdo'', car_desc = Some ''Bitstring (TDO)'', car_ann_classes = Some [19], car_num_ann_classes = 1\<rparr>,
     \<lparr>car_id = Some ''bit-tms'', car_desc = Some ''Bit (TMS)'', car_ann_classes = Some [20], car_num_ann_classes = 1\<rparr>,
     \<lparr>car_id = Some ''state-tapc'', car_desc = Some ''TAPC State'', car_ann_classes = Some [21], car_num_ann_classes = 1\<rparr>,
     \<lparr>car_id = Some ''states'', car_desc = Some ''States'', car_ann_classes = Some [0, 1, 2, 3, 4, 5, 6, 7, 8, 9, 10, 11, 12, 13, 14, 15], car_num_ann_classes = 16\<rparr>]"

definition cjtag_oscan0_inputs :: "string list" where
  "cjtag_oscan0_inputs = [
     ''logic'']"

definition cjtag_oscan0_outputs :: "string list" where
  "cjtag_oscan0_outputs = [
     ''jtag'']"

definition cjtag_oscan0_tags :: "string list" where
  "cjtag_oscan0_tags = [
     ''Debug/trace'']"

definition cjtag_oscan0_c_def :: srd_c_decoder where
  "cjtag_oscan0_c_def = \<lparr>cd_id = Some ''cjtag_oscan0_c'', cd_name = Some ''cJTAG OScan1(C)'',
     cd_longname = Some ''Compact Joint Test Action Group (IEEE 1149.7) (C)'', cd_desc = Some ''Protocol for testing, debugging, and flashing ICs, OScan1 format (C implementation)'', cd_license = Some ''gplv2+'',
     cd_channels = Some cjtag_oscan0_channels, cd_num_channels = 4,
     cd_optional_channels = Some cjtag_oscan0_optional_channels, cd_num_optional_channels = 3,
     cd_options = None, cd_num_options = 0,
     cd_num_annotations = 22, cd_ann_labels = Some cjtag_oscan0_ann_labels,
     cd_num_annotation_rows = 7, cd_annotation_rows = Some cjtag_oscan0_ann_rows,
     cd_inputs = Some cjtag_oscan0_inputs, cd_num_inputs = 1, cd_outputs = Some cjtag_oscan0_outputs, cd_num_outputs = 1,
     cd_binary = None, cd_num_binary = 0, cd_tags = Some cjtag_oscan0_tags, cd_num_tags = 1\<rparr>"

lemma cjtag_oscan0_described: "described cjtag_oscan0_c_def = (True, True, True)"
  by (simp add: described_simps cjtag_oscan0_channels_def cjtag_oscan0_optional_channels_def cjtag_oscan0_ann_labels_def cjtag_oscan0_ann_rows_def cjtag_oscan0_inputs_def cjtag_oscan0_outputs_def cjtag_oscan0_tags_def cjtag_oscan0_c_def_def)

section \<open>counter_c.c\<close>

definition counter_options :: "srd_decoder_option list" where
  "counter_options = [
     \<lparr>opt_id = Some ''data_edge'', opt_idn = Some ''dec_counter_opt_data_edge'', opt_desc = Some ''Edges to count (data)'',
        opt_def = Some (GV_string ''any''), opt_values = [GV_string ''any'', GV_string ''rising'', GV_string ''falling'']\<rparr>,
     \<lparr>opt_id = Some ''divider'', opt_idn = Some ''dec_counter_opt_divider'', opt_desc = Some ''Count divider (word width)'',
        opt_def = Some (GV_int64 0), opt_values = []\<rparr>,
     \<lparr>opt_id = Some ''reset_edge'', opt_idn = Some ''dec_counter_opt_reset_edge'', opt_desc = Some ''Edge which clears counters (reset)'',
        opt_def = Some (GV_string ''falling''), opt_values = [GV_string ''rising'', GV_string ''falling'']\<rparr>,
     \<lparr>opt_id = Some ''edge_off'', opt_idn = Some ''dec_counter_opt_edge_off'', opt_desc = Some ''Edge counter value after start/reset'',
        opt_def = Some (GV_int64 0), opt_values = []\<rparr>,
     \<lparr>opt_id = Some ''word_off'', opt_idn = Some ''dec_counter_opt_word_off'', opt_desc = Some ''Word counter value after start/reset'',
        opt_def = Some (GV_int64 0), opt_values = []\<rparr>,
     \<lparr>opt_id = Some ''dead_cycles'', opt_idn = Some ''dec_counter_opt_dead_cycles'', opt_desc = Some ''Ignore this many edges after reset'',
        opt_def = Some (GV_int64 0), opt_values = []\<rparr>,
     \<lparr>opt_id = Some ''start_with_reset'', opt_idn = Some ''dec_counter_opt_start_with_reset'', opt_desc = Some ''Assume decode starts with reset'',
        opt_def = Some (GV_string ''no''), opt_values = [GV_string ''no'', GV_string ''yes'']\<rparr>]"

definition counter_channels :: "srd_channel list" where
  "counter_channels = [
     \<lparr>ch_id = Some ''data'', ch_name = Some ''Data'', ch_desc = Some ''Data line'', ch_order = 0, ch_type = 1, ch_idn = Some ''dec_counter_chan_data''\<rparr>]"

definition counter_optional_channels :: "srd_channel list" where
  "counter_optional_channels = [
     \<lparr>ch_id = Some ''reset'', ch_name = Some ''Reset'', ch_desc = Some ''Reset line'', ch_order = 0, ch_type = 1, ch_idn = Some ''dec_counter_opt_chan_reset''\<rparr>]"

definition counter_ann_labels :: "(string option \<times> string option \<times> string option) list" where
  "counter_ann_labels = [
     (Some [], Some ''edge_count'', Some ''Edge count''),
     (Some [], Some ''word_count'', Some ''Word count''),
     (Some [], Some ''word_reset'', Some ''Word reset'')]"

definition counter_ann_rows :: "srd_c_ann_row list" where
  "counter_ann_rows = [
     \<lparr>car_id = Some ''edge_counts'', car_desc = Some ''Edges'', car_ann_classes = Some [0], car_num_ann_classes = 1\<rparr>,
     \<lparr>car_id = Some ''word_counts'', car_desc = Some ''Words'', car_ann_classes = Some [1], car_num_ann_classes = 1\<rparr>,
     \<lparr>car_id = Some ''word_resets'', car_desc = Some ''Word resets'', car_ann_classes = Some [2], car_num_ann_classes = 1\<rparr>]"

definition counter_inputs :: "string list" where
  "counter_inputs = [
     ''logic'']"

definition counter_outputs :: "string list" where
  "counter_outputs = []"

definition counter_tags :: "string list" where
  "counter_tags = [
     ''Util'']"

definition counter_c_def :: srd_c_decoder where
  "counter_c_def = \<lparr>cd_id = Some ''counter_c'', cd_name = Some ''Counter(C)'',
     cd_longname = Some ''Edge counter (C)'', cd_desc = Some ''Count the number of edges in a signal. (C implementation)'', cd_license = Some ''gplv2+'',
     cd_channels = Some counter_channels, cd_num_channels = 1,
     cd_optional_channels = Some counter_optional_channels, cd_num_optional_channels = 1,
     cd_options = Some counter_options, cd_num_options = 7,
     cd_num_annotations = 3, cd_ann_labels = Some counter_ann_labels,
     cd_num_annotation_rows = 3, cd_annotation_rows = Some counter_ann_rows,
     cd_inputs = Some counter_inputs, cd_num_inputs = 1, cd_outputs = Some counter_outputs, cd_num_outputs = 0,
     cd_binary = None, cd_num_binary = 0, cd_tags = Some counter_tags, cd_num_tags = 1\<rparr>"

lemma counter_described: "described counter_c_def = (True, False, True)"
  by (simp add: described_simps counter_options_def counter_channels_def counter_optional_channels_def counter_ann_labels_def counter_ann_rows_def counter_inputs_def counter_outputs_def counter_tags_def counter_c_def_def)

section \<open>crsf_c.c\<close>

definition crsf_ann_labels :: "(string option \<times> string option \<times> string option) list" where
  "crsf_ann_labels = [
     (Some [], Some ''text-verbose'', Some ''Human-readable text (verbose)''),
     (Some [], Some ''text-error'', Some ''Human-readable Error text'')]"

definition crsf_ann_rows :: "srd_c_ann_row list" where
  "crsf_ann_rows = [
     \<lparr>car_id = Some ''normal'', car_desc = Some ''Normal'', car_ann_classes = Some [0, 1], car_num_ann_classes = 2\<rparr>]"

definition crsf_inputs :: "string list" where
  "crsf_inputs = [
     ''uart'']"

definition crsf_outputs :: "string list" where
  "crsf_outputs = [
     ''crsf'']"

definition crsf_tags :: "string list" where
  "crsf_tags = [
     ''Radio/control/RC'']"

definition crsf_c_def :: srd_c_decoder where
  "crsf_c_def = \<lparr>cd_id = Some ''crsf_c'', cd_name = Some ''CRSF(C)'',
     cd_longname = Some ''Crossfire RC protocol (C)'', cd_desc = Some ''A protocol for radio control systems. (C implementation)'', cd_license = Some ''gplv2+'',
     cd_channels = None, cd_num_channels = 0,
     cd_optional_channels = None, cd_num_optional_channels = 0,
     cd_options = None, cd_num_options = 0,
     cd_num_annotations = 2, cd_ann_labels = Some crsf_ann_labels,
     cd_num_annotation_rows = 1, cd_annotation_rows = Some crsf_ann_rows,
     cd_inputs = Some crsf_inputs, cd_num_inputs = 1, cd_outputs = Some crsf_outputs, cd_num_outputs = 1,
     cd_binary = None, cd_num_binary = 0, cd_tags = Some crsf_tags, cd_num_tags = 1\<rparr>"

lemma crsf_described: "described crsf_c_def = (True, True, True)"
  by (simp add: described_simps crsf_ann_labels_def crsf_ann_rows_def crsf_inputs_def crsf_outputs_def crsf_tags_def crsf_c_def_def)

section \<open>cyrf6936_c.c\<close>

definition cyrf6936_options :: "srd_decoder_option list" where
  "cyrf6936_options = [
     \<lparr>opt_id = Some ''spi3pin'', opt_idn = Some ''dec_cyrf6936_opt_spi3pin'', opt_desc = Some ''SPI 3-pin mode with MOSI/MISO combined as SDAT on the MOSI pin'',
        opt_def = Some (GV_string ''no''), opt_values = [GV_string ''no'', GV_string ''yes'']\<rparr>,
     \<lparr>opt_id = Some ''delaysplit'', opt_idn = Some ''dec_cyrf6936_opt_delaysplit'', opt_desc = Some ''annotate delays (in us) larger than... (0 = off)'',
        opt_def = Some (GV_double 0), opt_values = []\<rparr>,
     \<lparr>opt_id = Some ''invert_mosi'', opt_idn = Some ''dec_cyrf6936_opt_invert_mosi'', opt_desc = Some ''Invert MOSI'',
        opt_def = Some (GV_string ''no''), opt_values = [GV_string ''yes'', GV_string ''no'']\<rparr>,
     \<lparr>opt_id = Some ''invert_miso'', opt_idn = Some ''dec_cyrf6936_opt_invert_miso'', opt_desc = Some ''Invert MISO'',
        opt_def = Some (GV_string ''no''), opt_values = [GV_string ''yes'', GV_string ''no'']\<rparr>]"

definition cyrf6936_ann_labels :: "(string option \<times> string option \<times> string option) list" where
  "cyrf6936_ann_labels = [
     (Some [], Some ''write'', Some ''Write''),
     (Some [], Some ''read'', Some ''Read''),
     (Some [], Some ''tx-data'', Some ''Payload sent to the device''),
     (Some [], Some ''rx-data'', Some ''Payload read from the device''),
     (Some [], Some ''state'', Some ''State change''),
     (Some [], Some ''warning'', Some ''Warnings''),
     (Some [], Some ''wait'', Some ''Wait'')]"

definition cyrf6936_ann_rows :: "srd_c_ann_row list" where
  "cyrf6936_ann_rows = [
     \<lparr>car_id = Some ''cmd'', car_desc = Some ''Commands'', car_ann_classes = Some [0, 1, 2, 3], car_num_ann_classes = 4\<rparr>,
     \<lparr>car_id = Some ''warnings'', car_desc = Some ''Warnings'', car_ann_classes = Some [4, 5], car_num_ann_classes = 2\<rparr>,
     \<lparr>car_id = Some ''delays'', car_desc = Some ''Delays'', car_ann_classes = Some [6], car_num_ann_classes = 1\<rparr>]"

definition cyrf6936_binary :: "srd_decoder_binary list" where
  "cyrf6936_binary = [
     \<lparr>bin_class = 0, bin_id = Some ''txpayload'', bin_desc = Some ''Transfer payload''\<rparr>,
     \<lparr>bin_class = 1, bin_id = Some ''rxpayload'', bin_desc = Some ''Receive payload''\<rparr>]"

definition cyrf6936_inputs :: "string list" where
  "cyrf6936_inputs = [
     ''spi'']"

definition cyrf6936_outputs :: "string list" where
  "cyrf6936_outputs = [
     ''cyrf6936'']"

definition cyrf6936_tags :: "string list" where
  "cyrf6936_tags = [
     ''Embedded/industrial'']"

definition cyrf6936_c_def :: srd_c_decoder where
  "cyrf6936_c_def = \<lparr>cd_id = Some ''cyrf6936_c'', cd_name = Some ''CYRF6936(C)'',
     cd_longname = Some ''Cypress CYRF6936 WirelessUSB LP 2.4 GHz Radio SoC (C)'', cd_desc = Some ''2.4GHz transceiver chip. (C implementation)'', cd_license = Some ''gplv3+'',
     cd_channels = None, cd_num_channels = 0,
     cd_optional_channels = None, cd_num_optional_channels = 0,
     cd_options = Some cyrf6936_options, cd_num_options = 4,
     cd_num_annotations = 7, cd_ann_labels = Some cyrf6936_ann_labels,
     cd_num_annotation_rows = 3, cd_annotation_rows = Some cyrf6936_ann_rows,
     cd_inputs = Some cyrf6936_inputs, cd_num_inputs = 1, cd_outputs = Some cyrf6936_outputs, cd_num_outputs = 1,
     cd_binary = Some cyrf6936_binary, cd_num_binary = 2, cd_tags = Some cyrf6936_tags, cd_num_tags = 1\<rparr>"

lemma cyrf6936_described: "described cyrf6936_c_def = (True, True, True)"
  by (simp add: described_simps cyrf6936_options_def cyrf6936_ann_labels_def cyrf6936_ann_rows_def cyrf6936_binary_def cyrf6936_inputs_def cyrf6936_outputs_def cyrf6936_tags_def cyrf6936_c_def_def)

section \<open>dcc_c.c\<close>

definition dcc_options :: "srd_decoder_option list" where
  "dcc_options = [
     \<lparr>opt_id = Some ''CV_29_1'', opt_idn = None, opt_desc = Some ''CV29 Bit 1'',
        opt_def = None, opt_values = []\<rparr>,
     \<lparr>opt_id = Some ''Mode_112_127'', opt_idn = None, opt_desc = Some ''addr. 112-127'',
        opt_def = None, opt_values = []\<rparr>,
     \<lparr>opt_id = Some ''Addr_offset'', opt_idn = None, opt_desc = Some ''accessory addr. offset'',
        opt_def = None, opt_values = []\<rparr>,
     \<lparr>opt_id = Some ''Search_acc_addr'', opt_idn = None, opt_desc = Some ''search acc. addr. [dec]'',
        opt_def = None, opt_values = []\<rparr>,
     \<lparr>opt_id = Some ''Search_dec_addr'', opt_idn = None, opt_desc = Some ''search dec. addr. [dec]'',
        opt_def = None, opt_values = []\<rparr>,
     \<lparr>opt_id = Some ''Search_cv'', opt_idn = None, opt_desc = Some ''search CV [dec]'',
        opt_def = None, opt_values = []\<rparr>,
     \<lparr>opt_id = Some ''Search_byte'', opt_idn = None, opt_desc = Some ''search byte [dec/0b/0x]'',
        opt_def = None, opt_values = []\<rparr>,
     \<lparr>opt_id = Some ''Ignore_short_pulse'', opt_idn = None, opt_desc = Some (''ignore pulse <= 4 '' @ bytes_str [0xC2, 0xB5] @ ''s''),
        opt_def = None, opt_values = []\<rparr>]"

definition dcc_channels :: "srd_channel list" where
  "dcc_channels = [
     \<lparr>ch_id = Some ''data'', ch_name = Some ''D0'', ch_desc = Some ''Data line'', ch_order = 0, ch_type = 1, ch_idn = None\<rparr>]"

definition dcc_ann_labels :: "(string option \<times> string option \<times> string option) list" where
  "dcc_ann_labels = [
     (Some [], Some ''Bits'', Some ''Bits''),
     (Some [], Some ''Other'', Some ''Other''),
     (Some [], Some ''Frame'', Some ''Frame''),
     (Some [], Some ''Other'', Some ''Other''),
     (Some [], Some ''Data'', Some ''Data''),
     (Some [], Some ''Accessory address'', Some ''Accessory address''),
     (Some [], Some ''Decoder address'', Some ''Decoder address''),
     (Some [], Some ''CV'', Some ''CV''),
     (Some [], Some ''Command'', Some ''Command''),
     (Some [], Some ''Error'', Some ''Error''),
     (Some [], Some ''Accessory address'', Some ''Accessory address''),
     (Some [], Some ''Decoder address'', Some ''Decoder address''),
     (Some [], Some ''CV'', Some ''CV''),
     (Some [], Some ''Byte'', Some ''Byte'')]"

definition dcc_ann_rows :: "srd_c_ann_row list" where
  "dcc_ann_rows = [
     \<lparr>car_id = Some ''bits_'', car_desc = Some ''Bits'', car_ann_classes = Some [0, 1], car_num_ann_classes = 2\<rparr>,
     \<lparr>car_id = Some ''frame_'', car_desc = Some ''Frame'', car_ann_classes = Some [2, 3], car_num_ann_classes = 2\<rparr>,
     \<lparr>car_id = Some ''data_'', car_desc = Some ''Data'', car_ann_classes = Some [5, 6, 7, 4], car_num_ann_classes = 4\<rparr>,
     \<lparr>car_id = Some ''command_'', car_desc = Some ''Command'', car_ann_classes = Some [8], car_num_ann_classes = 1\<rparr>,
     \<lparr>car_id = Some ''error_'', car_desc = Some ''Error'', car_ann_classes = Some [9], car_num_ann_classes = 1\<rparr>,
     \<lparr>car_id = Some ''search_'', car_desc = Some ''Search'', car_ann_classes = Some [10, 11, 12, 13], car_num_ann_classes = 4\<rparr>]"

definition dcc_inputs :: "string list" where
  "dcc_inputs = [
     ''logic'']"

definition dcc_tags :: "string list" where
  "dcc_tags = [
     ''Encoding'']"

definition dcc_c_def :: srd_c_decoder where
  "dcc_c_def = \<lparr>cd_id = Some ''dcc_c'', cd_name = Some ''DCC(C)'',
     cd_longname = Some ''Digital Command Control (C)'', cd_desc = Some ''DCC protocol (operate model railways digitally)'', cd_license = Some ''gplv2+'',
     cd_channels = Some dcc_channels, cd_num_channels = 1,
     cd_optional_channels = None, cd_num_optional_channels = 0,
     cd_options = Some dcc_options, cd_num_options = 8,
     cd_num_annotations = 14, cd_ann_labels = Some dcc_ann_labels,
     cd_num_annotation_rows = 6, cd_annotation_rows = Some dcc_ann_rows,
     cd_inputs = Some dcc_inputs, cd_num_inputs = 1, cd_outputs = None, cd_num_outputs = 0,
     cd_binary = None, cd_num_binary = 0, cd_tags = Some dcc_tags, cd_num_tags = 1\<rparr>"

lemma dcc_described: "described dcc_c_def = (True, True, False)"
  by (simp add: described_simps dcc_options_def dcc_channels_def dcc_ann_labels_def dcc_ann_rows_def dcc_inputs_def dcc_tags_def dcc_c_def_def)

section \<open>dcf77_c.c\<close>

definition dcf77_channels :: "srd_channel list" where
  "dcf77_channels = [
     \<lparr>ch_id = Some ''data'', ch_name = Some ''DATA'', ch_desc = Some ''DATA line'', ch_order = 0, ch_type = 1, ch_idn = Some ''dec_dcf77_chan_data''\<rparr>]"

definition dcf77_ann_labels :: "(string option \<times> string option \<times> string option) list" where
  "dcf77_ann_labels = [
     (Some [], Some ''start-of-minute'', Some ''Start of minute''),
     (Some [], Some ''special-bits'', Some ''Special bits (civil warnings, weather forecast)''),
     (Some [], Some ''call-bit'', Some ''Call bit''),
     (Some [], Some ''summer-time'', Some ''Summer time announcement''),
     (Some [], Some ''cest'', Some ''CEST bit''),
     (Some [], Some ''cet'', Some ''CET bit''),
     (Some [], Some ''leap-second'', Some ''Leap second bit''),
     (Some [], Some ''start-of-time'', Some ''Start of encoded time''),
     (Some [], Some ''minute'', Some ''Minute''),
     (Some [], Some ''minute-parity'', Some ''Minute parity bit''),
     (Some [], Some ''hour'', Some ''Hour''),
     (Some [], Some ''hour-parity'', Some ''Hour parity bit''),
     (Some [], Some ''day'', Some ''Day of month''),
     (Some [], Some ''day-of-week'', Some ''Day of week''),
     (Some [], Some ''month'', Some ''Month''),
     (Some [], Some ''year'', Some ''Year''),
     (Some [], Some ''date-parity'', Some ''Date parity bit''),
     (Some [], Some ''raw-bits'', Some ''Raw bits''),
     (Some [], Some ''unknown-bits'', Some ''Unknown bits''),
     (Some [], Some ''warnings'', Some ''Human-readable warnings'')]"

definition dcf77_ann_rows :: "srd_c_ann_row list" where
  "dcf77_ann_rows = [
     \<lparr>car_id = Some ''bits'', car_desc = Some ''Bits'', car_ann_classes = Some [17, 18], car_num_ann_classes = 2\<rparr>,
     \<lparr>car_id = Some ''fields'', car_desc = Some ''Fields'', car_ann_classes = Some [0, 1, 2, 3, 4, 5, 6, 7, 8, 9, 10, 11, 12, 13, 14, 15, 16], car_num_ann_classes = 17\<rparr>,
     \<lparr>car_id = Some ''warnings'', car_desc = Some ''Warnings'', car_ann_classes = Some [19], car_num_ann_classes = 1\<rparr>]"

definition dcf77_inputs :: "string list" where
  "dcf77_inputs = [
     ''logic'']"

definition dcf77_outputs :: "string list" where
  "dcf77_outputs = []"

definition dcf77_tags :: "string list" where
  "dcf77_tags = [
     ''Clock/timing'']"

definition dcf77_c_def :: srd_c_decoder where
  "dcf77_c_def = \<lparr>cd_id = Some ''dcf77_c'', cd_name = Some ''DCF77(C)'',
     cd_longname = Some ''DCF77 time protocol (C)'', cd_desc = Some ''European longwave time signal (77.5kHz carrier signal). (C implementation)'', cd_license = Some ''gplv2+'',
     cd_channels = Some dcf77_channels, cd_num_channels = 1,
     cd_optional_channels = None, cd_num_optional_channels = 0,
     cd_options = None, cd_num_options = 0,
     cd_num_annotations = 20, cd_ann_labels = Some dcf77_ann_labels,
     cd_num_annotation_rows = 3, cd_annotation_rows = Some dcf77_ann_rows,
     cd_inputs = Some dcf77_inputs, cd_num_inputs = 1, cd_outputs = Some dcf77_outputs, cd_num_outputs = 0,
     cd_binary = None, cd_num_binary = 0, cd_tags = Some dcf77_tags, cd_num_tags = 1\<rparr>"

lemma dcf77_described: "described dcf77_c_def = (True, True, True)"
  by (simp add: described_simps dcf77_channels_def dcf77_ann_labels_def dcf77_ann_rows_def dcf77_inputs_def dcf77_outputs_def dcf77_tags_def dcf77_c_def_def)

section \<open>delta_sigma_c.c\<close>

definition delta_sigma_options :: "srd_decoder_option list" where
  "delta_sigma_options = [
     \<lparr>opt_id = Some ''clock_mode'', opt_idn = None, opt_desc = Some ''Clock Mode'',
        opt_def = None, opt_values = []\<rparr>,
     \<lparr>opt_id = Some ''filter_type'', opt_idn = None, opt_desc = Some ''Filter type'',
        opt_def = None, opt_values = []\<rparr>,
     \<lparr>opt_id = Some ''osr'', opt_idn = None, opt_desc = Some ''Oversampling Factor'',
        opt_def = None, opt_values = []\<rparr>,
     \<lparr>opt_id = Some ''shift'', opt_idn = None, opt_desc = Some ''Right shift the result by'',
        opt_def = None, opt_values = []\<rparr>,
     \<lparr>opt_id = Some ''scale'', opt_idn = None, opt_desc = Some ''Code-Actual scaler'',
        opt_def = None, opt_values = []\<rparr>]"

definition delta_sigma_channels :: "srd_channel list" where
  "delta_sigma_channels = [
     \<lparr>ch_id = Some ''dat'', ch_name = Some ''DAT'', ch_desc = Some ''Data'', ch_order = 0, ch_type = 1, ch_idn = None\<rparr>,
     \<lparr>ch_id = Some ''clk'', ch_name = Some ''CLK'', ch_desc = Some ''Clock'', ch_order = 1, ch_type = 0, ch_idn = None\<rparr>]"

definition delta_sigma_ann_labels :: "(string option \<times> string option \<times> string option) list" where
  "delta_sigma_ann_labels = [
     (Some [], Some ''Bit Stream'', Some ''Bit Stream''),
     (Some [], Some ''Filtered'', Some ''Filtered''),
     (Some [], Some ''Converted'', Some ''Converted'')]"

definition delta_sigma_ann_rows :: "srd_c_ann_row list" where
  "delta_sigma_ann_rows = [
     \<lparr>car_id = Some ''bit-streams'', car_desc = Some ''Bit Stream'', car_ann_classes = Some [0], car_num_ann_classes = 1\<rparr>,
     \<lparr>car_id = Some ''filtereds'', car_desc = Some ''Filtered'', car_ann_classes = Some [1], car_num_ann_classes = 1\<rparr>,
     \<lparr>car_id = Some ''converteds'', car_desc = Some ''Converted'', car_ann_classes = Some [2], car_num_ann_classes = 1\<rparr>]"

definition delta_sigma_inputs :: "string list" where
  "delta_sigma_inputs = [
     ''logic'']"

definition delta_sigma_tags :: "string list" where
  "delta_sigma_tags = [
     ''Util'']"

definition delta_sigma_c_def :: srd_c_decoder where
  "delta_sigma_c_def = \<lparr>cd_id = Some ''delta-sigma_c'', cd_name = Some ''Delta-Sigma(C)'',
     cd_longname = Some ''Delta-Sigma Decoder (C)'', cd_desc = Some ''Clocked.'', cd_license = Some ''gplv2+'',
     cd_channels = Some delta_sigma_channels, cd_num_channels = 2,
     cd_optional_channels = None, cd_num_optional_channels = 0,
     cd_options = Some delta_sigma_options, cd_num_options = 5,
     cd_num_annotations = 3, cd_ann_labels = Some delta_sigma_ann_labels,
     cd_num_annotation_rows = 3, cd_annotation_rows = Some delta_sigma_ann_rows,
     cd_inputs = Some delta_sigma_inputs, cd_num_inputs = 1, cd_outputs = None, cd_num_outputs = 0,
     cd_binary = None, cd_num_binary = 0, cd_tags = Some delta_sigma_tags, cd_num_tags = 1\<rparr>"

lemma delta_sigma_described: "described delta_sigma_c_def = (True, True, False)"
  by (simp add: described_simps delta_sigma_options_def delta_sigma_channels_def delta_sigma_ann_labels_def delta_sigma_ann_rows_def delta_sigma_inputs_def delta_sigma_tags_def delta_sigma_c_def_def)

section \<open>ds1307_c.c\<close>

definition ds1307_ann_labels :: "(string option \<times> string option \<times> string option) list" where
  "ds1307_ann_labels = [
     (Some [], Some ''reg_seconds'', Some ''Seconds register''),
     (Some [], Some ''reg_minutes'', Some ''Minutes register''),
     (Some [], Some ''reg_hours'', Some ''Hours register''),
     (Some [], Some ''reg_day'', Some ''Day register''),
     (Some [], Some ''reg_date'', Some ''Date register''),
     (Some [], Some ''reg_month'', Some ''Month register''),
     (Some [], Some ''reg_year'', Some ''Year register''),
     (Some [], Some ''reg_control'', Some ''Control register''),
     (Some [], Some ''reg_ram'', Some ''RAM register''),
     (Some [], Some ''bit_clock_halt'', Some ''Clock halt bit''),
     (Some [], Some ''bit_seconds'', Some ''Seconds bit''),
     (Some [], Some ''bit_reserved'', Some ''Reserved bit''),
     (Some [], Some ''bit_minutes'', Some ''Minutes bit''),
     (Some [], Some ''bit_12_24_hours'', Some ''12/24 hours bit''),
     (Some [], Some ''bit_am_pm'', Some ''AM/PM bit''),
     (Some [], Some ''bit_hours'', Some ''Hours bit''),
     (Some [], Some ''bit_day'', Some ''Day bit''),
     (Some [], Some ''bit_date'', Some ''Date bit''),
     (Some [], Some ''bit_month'', Some ''Month bit''),
     (Some [], Some ''bit_year'', Some ''Year bit''),
     (Some [], Some ''bit_out'', Some ''OUT bit''),
     (Some [], Some ''bit_sqwe'', Some ''SQWE bit''),
     (Some [], Some ''bit_rs'', Some ''RS bit''),
     (Some [], Some ''bit_ram'', Some ''RAM bit''),
     (Some [], Some ''read_date_time'', Some ''Read date/time''),
     (Some [], Some ''write_date_time'', Some ''Write date/time''),
     (Some [], Some ''read_reg'', Some ''Register read''),
     (Some [], Some ''write_reg'', Some ''Register write''),
     (Some [], Some ''warning'', Some ''Warning'')]"

definition ds1307_ann_rows :: "srd_c_ann_row list" where
  "ds1307_ann_rows = [
     \<lparr>car_id = Some ''bits'', car_desc = Some ''Bits'', car_ann_classes = Some [9, 10, 11, 12, 13, 14, 15, 16, 17, 18, 19, 20, 21, 22, 23], car_num_ann_classes = 15\<rparr>,
     \<lparr>car_id = Some ''regs'', car_desc = Some ''Registers'', car_ann_classes = Some [0, 1, 2, 3, 4, 5, 6, 7, 8], car_num_ann_classes = 9\<rparr>,
     \<lparr>car_id = Some ''date_time'', car_desc = Some ''Date/time'', car_ann_classes = Some [24, 25, 26, 27], car_num_ann_classes = 4\<rparr>,
     \<lparr>car_id = Some ''warnings'', car_desc = Some ''Warnings'', car_ann_classes = Some [28], car_num_ann_classes = 1\<rparr>]"

definition ds1307_inputs :: "string list" where
  "ds1307_inputs = [
     ''i2c'']"

definition ds1307_outputs :: "string list" where
  "ds1307_outputs = []"

definition ds1307_tags :: "string list" where
  "ds1307_tags = [
     ''Clock/timing'',
     ''IC'']"

definition ds1307_c_def :: srd_c_decoder where
  "ds1307_c_def = \<lparr>cd_id = Some ''ds1307_c'', cd_name = Some ''Ds1307(C)'',
     cd_longname = Some ''Dallas DS1307 (C)'', cd_desc = Some ''Dallas DS1307 realtime clock module protocol. (C implementation)'', cd_license = Some ''gplv2+'',
     cd_channels = None, cd_num_channels = 0,
     cd_optional_channels = None, cd_num_optional_channels = 0,
     cd_options = None, cd_num_options = 0,
     cd_num_annotations = 29, cd_ann_labels = Some ds1307_ann_labels,
     cd_num_annotation_rows = 4, cd_annotation_rows = Some ds1307_ann_rows,
     cd_inputs = Some ds1307_inputs, cd_num_inputs = 1, cd_outputs = Some ds1307_outputs, cd_num_outputs = 0,
     cd_binary = None, cd_num_binary = 0, cd_tags = Some ds1307_tags, cd_num_tags = 2\<rparr>"

lemma ds1307_described: "described ds1307_c_def = (True, True, True)"
  by (simp add: described_simps ds1307_ann_labels_def ds1307_ann_rows_def ds1307_inputs_def ds1307_outputs_def ds1307_tags_def ds1307_c_def_def)

section \<open>ds2408_c.c\<close>

definition ds2408_ann_labels :: "(string option \<times> string option \<times> string option) list" where
  "ds2408_ann_labels = [
     (Some [], Some ''reset-presence'', Some ''Reset/presence''),
     (Some [], Some ''rom'', Some ''ROM address''),
     (Some [], Some ''command'', Some ''Function command''),
     (Some [], Some ''address'', Some ''Target address''),
     (Some [], Some ''data'', Some ''Data byte''),
     (Some [], Some ''pio'', Some ''PIO sample''),
     (Some [], Some ''status'', Some ''Operation status''),
     (Some [], Some ''warnings'', Some ''Warnings'')]"

definition ds2408_ann_rows :: "srd_c_ann_row list" where
  "ds2408_ann_rows = [
     \<lparr>car_id = Some ''commands'', car_desc = Some ''Commands'', car_ann_classes = Some [2, 3], car_num_ann_classes = 2\<rparr>,
     \<lparr>car_id = Some ''data'', car_desc = Some ''Data'', car_ann_classes = Some [4, 5, 6], car_num_ann_classes = 3\<rparr>,
     \<lparr>car_id = Some ''rom'', car_desc = Some ''ROM'', car_ann_classes = Some [1, 0], car_num_ann_classes = 2\<rparr>,
     \<lparr>car_id = Some ''warnings'', car_desc = Some ''Warnings'', car_ann_classes = Some [7], car_num_ann_classes = 1\<rparr>]"

definition ds2408_inputs :: "string list" where
  "ds2408_inputs = [
     ''onewire_network'']"

definition ds2408_tags :: "string list" where
  "ds2408_tags = [
     ''Embedded/industrial'',
     ''IC'']"

definition ds2408_c_def :: srd_c_decoder where
  "ds2408_c_def = \<lparr>cd_id = Some ''ds2408_c'', cd_name = Some ''DS2408(C)'',
     cd_longname = Some ''Maxim DS2408 (C)'', cd_desc = Some ''Maxim DS2408 1-Wire 8-channel addressable switch. (C implementation)'', cd_license = Some ''gplv2+'',
     cd_channels = None, cd_num_channels = 0,
     cd_optional_channels = None, cd_num_optional_channels = 0,
     cd_options = None, cd_num_options = 0,
     cd_num_annotations = 8, cd_ann_labels = Some ds2408_ann_labels,
     cd_num_annotation_rows = 4, cd_annotation_rows = Some ds2408_ann_rows,
     cd_inputs = Some ds2408_inputs, cd_num_inputs = 1, cd_outputs = None, cd_num_outputs = 0,
     cd_binary = None, cd_num_binary = 0, cd_tags = Some ds2408_tags, cd_num_tags = 2\<rparr>"

lemma ds2408_described: "described ds2408_c_def = (True, True, True)"
  by (simp add: described_simps ds2408_ann_labels_def ds2408_ann_rows_def ds2408_inputs_def ds2408_tags_def ds2408_c_def_def)

section \<open>ds243x_c.c\<close>

definition ds243x_ann_labels :: "(string option \<times> string option \<times> string option) list" where
  "ds243x_ann_labels = [
     (Some [], Some ''reset-presence'', Some ''Reset/presence''),
     (Some [], Some ''rom'', Some ''ROM address''),
     (Some [], Some ''command'', Some ''Function command''),
     (Some [], Some ''address'', Some ''Target address''),
     (Some [], Some ''data'', Some ''Data''),
     (Some [], Some ''es'', Some ''E/S register''),
     (Some [], Some ''crc'', Some ''CRC check''),
     (Some [], Some ''auth'', Some ''Authorization pattern''),
     (Some [], Some ''mac'', Some ''Message authentication code''),
     (Some [], Some ''status'', Some ''Operation status''),
     (Some [], Some ''warnings'', Some ''Warnings'')]"

definition ds243x_ann_rows :: "srd_c_ann_row list" where
  "ds243x_ann_rows = [
     \<lparr>car_id = Some ''commands'', car_desc = Some ''Commands'', car_ann_classes = Some [2, 3, 5], car_num_ann_classes = 3\<rparr>,
     \<lparr>car_id = Some ''data'', car_desc = Some ''Data'', car_ann_classes = Some [4, 6, 7, 8, 9], car_num_ann_classes = 5\<rparr>,
     \<lparr>car_id = Some ''rom'', car_desc = Some ''ROM'', car_ann_classes = Some [1, 0], car_num_ann_classes = 2\<rparr>,
     \<lparr>car_id = Some ''warnings'', car_desc = Some ''Warnings'', car_ann_classes = Some [10], car_num_ann_classes = 1\<rparr>]"

definition ds243x_inputs :: "string list" where
  "ds243x_inputs = [
     ''onewire_network'']"

definition ds243x_tags :: "string list" where
  "ds243x_tags = [
     ''IC'',
     ''Memory'']"

definition ds243x_c_def :: srd_c_decoder where
  "ds243x_c_def = \<lparr>cd_id = Some ''ds243x_c'', cd_name = Some ''DS243x(C)'',
     cd_longname = Some ''Maxim DS2432/3 (C)'', cd_desc = Some ''Maxim DS243x series 1-Wire EEPROM protocol. (C implementation)'', cd_license = Some ''gplv2+'',
     cd_channels = None, cd_num_channels = 0,
     cd_optional_channels = None, cd_num_optional_channels = 0,
     cd_options = None, cd_num_options = 0,
     cd_num_annotations = 11, cd_ann_labels = Some ds243x_ann_labels,
     cd_num_annotation_rows = 4, cd_annotation_rows = Some ds243x_ann_rows,
     cd_inputs = Some ds243x_inputs, cd_num_inputs = 1, cd_outputs = None, cd_num_outputs = 0,
     cd_binary = None, cd_num_binary = 0, cd_tags = Some ds243x_tags, cd_num_tags = 2\<rparr>"

lemma ds243x_described: "described ds243x_c_def = (True, True, True)"
  by (simp add: described_simps ds243x_ann_labels_def ds243x_ann_rows_def ds243x_inputs_def ds243x_tags_def ds243x_c_def_def)

section \<open>ds28ea00_c.c\<close>

definition ds28ea00_ann_labels :: "(string option \<times> string option \<times> string option) list" where
  "ds28ea00_ann_labels = [
     (Some [], Some ''reset-presence'', Some ''Reset/presence''),
     (Some [], Some ''rom'', Some ''ROM address''),
     (Some [], Some ''command'', Some ''Function command''),
     (Some [], Some ''scratchpad'', Some ''Scratchpad data''),
     (Some [], Some ''temp-conv'', Some ''Temperature conversion''),
     (Some [], Some ''pio-read'', Some ''PIO read''),
     (Some [], Some ''pio-write'', Some ''PIO write''),
     (Some [], Some ''other'', Some ''Other data''),
     (Some [], Some ''warnings'', Some ''Warnings'')]"

definition ds28ea00_ann_rows :: "srd_c_ann_row list" where
  "ds28ea00_ann_rows = [
     \<lparr>car_id = Some ''commands'', car_desc = Some ''Commands'', car_ann_classes = Some [2], car_num_ann_classes = 1\<rparr>,
     \<lparr>car_id = Some ''data'', car_desc = Some ''Data'', car_ann_classes = Some [3, 4, 5, 6, 7], car_num_ann_classes = 5\<rparr>,
     \<lparr>car_id = Some ''rom'', car_desc = Some ''ROM'', car_ann_classes = Some [1, 0], car_num_ann_classes = 2\<rparr>,
     \<lparr>car_id = Some ''warnings'', car_desc = Some ''Warnings'', car_ann_classes = Some [8], car_num_ann_classes = 1\<rparr>]"

definition ds28ea00_inputs :: "string list" where
  "ds28ea00_inputs = [
     ''onewire_network'']"

definition ds28ea00_tags :: "string list" where
  "ds28ea00_tags = [
     ''IC'',
     ''Sensor'']"

definition ds28ea00_c_def :: srd_c_decoder where
  "ds28ea00_c_def = \<lparr>cd_id = Some ''ds28ea00_c'', cd_name = Some ''DS28EA00(C)'',
     cd_longname = Some ''Maxim DS28EA00 (C)'', cd_desc = Some ''Maxim DS28EA00 1-Wire digital thermometer with Sequence Detect and PIO. (C implementation)'', cd_license = Some ''gplv2+'',
     cd_channels = None, cd_num_channels = 0,
     cd_optional_channels = None, cd_num_optional_channels = 0,
     cd_options = None, cd_num_options = 0,
     cd_num_annotations = 9, cd_ann_labels = Some ds28ea00_ann_labels,
     cd_num_annotation_rows = 4, cd_annotation_rows = Some ds28ea00_ann_rows,
     cd_inputs = Some ds28ea00_inputs, cd_num_inputs = 1, cd_outputs = None, cd_num_outputs = 0,
     cd_binary = None, cd_num_binary = 0, cd_tags = Some ds28ea00_tags, cd_num_tags = 2\<rparr>"

lemma ds28ea00_described: "described ds28ea00_c_def = (True, True, True)"
  by (simp add: described_simps ds28ea00_ann_labels_def ds28ea00_ann_rows_def ds28ea00_inputs_def ds28ea00_tags_def ds28ea00_c_def_def)

section \<open>ds3231_c.c\<close>

definition ds3231_options :: "srd_decoder_option list" where
  "ds3231_options = [
     \<lparr>opt_id = Some ''day0'', opt_idn = None, opt_desc = Some ''First day of week'',
        opt_def = Some (GV_string ''Sunday''), opt_values = []\<rparr>]"

definition ds3231_ann_labels :: "(string option \<times> string option \<times> string option) list" where
  "ds3231_ann_labels = [
     (Some [], Some ''reg-date-time'', Some ''Date/Time register''),
     (Some [], Some ''reg-alarm1'', Some ''Alarm1 register''),
     (Some [], Some ''reg-alarm2'', Some ''Alarm2 register''),
     (Some [], Some ''reg-control-status'', Some ''Control/Status register''),
     (Some [], Some ''reg-ageing'', Some ''Ageing register''),
     (Some [], Some ''reg-temperature'', Some ''Temperature register''),
     (Some [], Some ''bit-date-time'', Some ''Date/Time bit''),
     (Some [], Some ''bit-alarm1'', Some ''Alarm1 bit''),
     (Some [], Some ''bit-alarm2'', Some ''Alarm2 bit''),
     (Some [], Some ''bit-control-status'', Some ''Control/Status bit''),
     (Some [], Some ''bit-ageing'', Some ''Ageing bit''),
     (Some [], Some ''bit-temperature'', Some ''Temperature bit''),
     (Some [], Some ''bit-reserved'', Some ''Reserved bit''),
     (Some [], Some ''reg-set'', Some ''Set register''),
     (Some [], Some ''read-datetime'', Some ''Read date/time''),
     (Some [], Some ''write-datetime'', Some ''Write date/time''),
     (Some [], Some ''read-alarm'', Some ''Read alarm''),
     (Some [], Some ''write-alarm'', Some ''Write alarm''),
     (Some [], Some ''read-temperature'', Some ''Read temperature''),
     (Some [], Some ''warning'', Some ''Warning'')]"

definition ds3231_ann_rows :: "srd_c_ann_row list" where
  "ds3231_ann_rows = [
     \<lparr>car_id = Some ''regs'', car_desc = Some ''Registers'', car_ann_classes = Some [0, 1, 2, 3, 4, 5, 13], car_num_ann_classes = 7\<rparr>,
     \<lparr>car_id = Some ''bits'', car_desc = Some ''Bits'', car_ann_classes = Some [6, 7, 8, 9, 10, 11, 12], car_num_ann_classes = 7\<rparr>,
     \<lparr>car_id = Some ''date-time'', car_desc = Some ''Date/time/temperature'', car_ann_classes = Some [14, 15, 16, 17, 18], car_num_ann_classes = 5\<rparr>,
     \<lparr>car_id = Some ''warnings'', car_desc = Some ''Warnings'', car_ann_classes = Some [19], car_num_ann_classes = 1\<rparr>]"

definition ds3231_inputs :: "string list" where
  "ds3231_inputs = [
     ''i2c'']"

definition ds3231_outputs :: "string list" where
  "ds3231_outputs = []"

definition ds3231_tags :: "string list" where
  "ds3231_tags = [
     ''Clock/timing'',
     ''IC'']"

definition ds3231_c_def :: srd_c_decoder where
  "ds3231_c_def = \<lparr>cd_id = Some ''ds3231_c'', cd_name = Some ''Ds3231(C)'',
     cd_longname = Some ''Maxim DS3231 (C)'', cd_desc = Some ''Maxim DS3231 realtime clock module protocol. (C implementation)'', cd_license = Some ''gplv2+'',
     cd_channels = None, cd_num_channels = 0,
     cd_optional_channels = None, cd_num_optional_channels = 0,
     cd_options = Some ds3231_options, cd_num_options = 1,
     cd_num_annotations = 20, cd_ann_labels = Some ds3231_ann_labels,
     cd_num_annotation_rows = 4, cd_annotation_rows = Some ds3231_ann_rows,
     cd_inputs = Some ds3231_inputs, cd_num_inputs = 1, cd_outputs = Some ds3231_outputs, cd_num_outputs = 0,
     cd_binary = None, cd_num_binary = 0, cd_tags = Some ds3231_tags, cd_num_tags = 2\<rparr>"

lemma ds3231_described: "described ds3231_c_def = (True, True, True)"
  by (simp add: described_simps ds3231_options_def ds3231_ann_labels_def ds3231_ann_rows_def ds3231_inputs_def ds3231_outputs_def ds3231_tags_def ds3231_c_def_def)

section \<open>dsi_c.c\<close>

definition dsi_options :: "srd_decoder_option list" where
  "dsi_options = [
     \<lparr>opt_id = Some ''polarity'', opt_idn = Some ''dec_dsi_opt_polarity'', opt_desc = Some ''Polarity'',
        opt_def = None, opt_values = []\<rparr>]"

definition dsi_channels :: "srd_channel list" where
  "dsi_channels = [
     \<lparr>ch_id = Some ''dsi'', ch_name = Some ''DSI'', ch_desc = Some ''DSI data line'', ch_order = 0, ch_type = 1, ch_idn = Some ''dec_dsi_chan_dsi''\<rparr>]"

definition dsi_ann_labels :: "(string option \<times> string option \<times> string option) list" where
  "dsi_ann_labels = [
     (Some [], Some ''Bit'', Some ''Bit''),
     (Some [], Some ''Start bit'', Some ''Start bit''),
     (Some [], Some ''Dimmer level'', Some ''Dimmer level''),
     (Some [], Some ''Raw data'', Some ''Raw data'')]"

definition dsi_ann_rows :: "srd_c_ann_row list" where
  "dsi_ann_rows = [
     \<lparr>car_id = Some ''bits'', car_desc = Some ''Bits'', car_ann_classes = Some [0], car_num_ann_classes = 1\<rparr>,
     \<lparr>car_id = Some ''raw'', car_desc = Some ''Raw data'', car_ann_classes = Some [3], car_num_ann_classes = 1\<rparr>,
     \<lparr>car_id = Some ''fields'', car_desc = Some ''Fields'', car_ann_classes = Some [1, 2], car_num_ann_classes = 2\<rparr>]"

definition dsi_inputs :: "string list" where
  "dsi_inputs = [
     ''logic'']"

definition dsi_tags :: "string list" where
  "dsi_tags = [
     ''Embedded/industrial'',
     ''Lighting'']"

definition dsi_c_def :: srd_c_decoder where
  "dsi_c_def = \<lparr>cd_id = Some ''dsi_c'', cd_name = Some ''DSI(C)'',
     cd_longname = Some ''Digital Serial Interface (C)'', cd_desc = Some ''Digital Serial Interface (DSI) lighting protocol.'', cd_license = Some ''gplv2+'',
     cd_channels = Some dsi_channels, cd_num_channels = 1,
     cd_optional_channels = None, cd_num_optional_channels = 0,
     cd_options = Some dsi_options, cd_num_options = 1,
     cd_num_annotations = 4, cd_ann_labels = Some dsi_ann_labels,
     cd_num_annotation_rows = 3, cd_annotation_rows = Some dsi_ann_rows,
     cd_inputs = Some dsi_inputs, cd_num_inputs = 1, cd_outputs = None, cd_num_outputs = 0,
     cd_binary = None, cd_num_binary = 0, cd_tags = Some dsi_tags, cd_num_tags = 2\<rparr>"

lemma dsi_described: "described dsi_c_def = (True, True, False)"
  by (simp add: described_simps dsi_options_def dsi_channels_def dsi_ann_labels_def dsi_ann_rows_def dsi_inputs_def dsi_tags_def dsi_c_def_def)

section \<open>edid_c.c\<close>

definition edid_ann_labels :: "(string option \<times> string option \<times> string option) list" where
  "edid_ann_labels = [
     (Some [], Some ''fields'', Some ''EDID structure fields''),
     (Some [], Some ''sections'', Some ''EDID structure sections'')]"

definition edid_ann_rows :: "srd_c_ann_row list" where
  "edid_ann_rows = [
     \<lparr>car_id = Some ''sections'', car_desc = Some ''Sections'', car_ann_classes = Some [1], car_num_ann_classes = 1\<rparr>,
     \<lparr>car_id = Some ''fields'', car_desc = Some ''Fields'', car_ann_classes = Some [0], car_num_ann_classes = 1\<rparr>]"

definition edid_inputs :: "string list" where
  "edid_inputs = [
     ''i2c'']"

definition edid_tags :: "string list" where
  "edid_tags = [
     ''Display'',
     ''Memory'',
     ''PC'']"

definition edid_c_def :: srd_c_decoder where
  "edid_c_def = \<lparr>cd_id = Some ''edid_c'', cd_name = Some ''EDID(C)'',
     cd_longname = Some ''Extended Display Identification Data (C)'', cd_desc = Some ''Data structure describing display device capabilities. (C implementation)'', cd_license = Some ''gplv3+'',
     cd_channels = None, cd_num_channels = 0,
     cd_optional_channels = None, cd_num_optional_channels = 0,
     cd_options = None, cd_num_options = 0,
     cd_num_annotations = 2, cd_ann_labels = Some edid_ann_labels,
     cd_num_annotation_rows = 2, cd_annotation_rows = Some edid_ann_rows,
     cd_inputs = Some edid_inputs, cd_num_inputs = 1, cd_outputs = None, cd_num_outputs = 0,
     cd_binary = None, cd_num_binary = 0, cd_tags = Some edid_tags, cd_num_tags = 3\<rparr>"

lemma edid_described: "described edid_c_def = (True, True, True)"
  by (simp add: described_simps edid_ann_labels_def edid_ann_rows_def edid_inputs_def edid_tags_def edid_c_def_def)

section \<open>eeprom93xx_c.c\<close>

definition eeprom93xx_options :: "srd_decoder_option list" where
  "eeprom93xx_options = [
     \<lparr>opt_id = Some ''addresssize'', opt_idn = Some ''dec_eeprom93xx_opt_addresssize'', opt_desc = Some ''Address size'',
        opt_def = Some (GV_int64 8), opt_values = [GV_int64 6, GV_int64 7, GV_int64 8, GV_int64 9, GV_int64 10]\<rparr>,
     \<lparr>opt_id = Some ''wordsize'', opt_idn = Some ''dec_eeprom93xx_opt_wordsize'', opt_desc = Some ''Word size'',
        opt_def = Some (GV_int64 16), opt_values = [GV_int64 8, GV_int64 16]\<rparr>]"

definition eeprom93xx_ann_labels :: "(string option \<times> string option \<times> string option) list" where
  "eeprom93xx_ann_labels = [
     (Some [], Some ''si-data'', Some ''SI data''),
     (Some [], Some ''so-data'', Some ''SO data''),
     (Some [], Some ''warning'', Some ''Warning'')]"

definition eeprom93xx_ann_rows :: "srd_c_ann_row list" where
  "eeprom93xx_ann_rows = [
     \<lparr>car_id = Some ''data'', car_desc = Some ''Data'', car_ann_classes = Some [0, 1], car_num_ann_classes = 2\<rparr>,
     \<lparr>car_id = Some ''warnings'', car_desc = Some ''Warnings'', car_ann_classes = Some [2], car_num_ann_classes = 1\<rparr>]"

definition eeprom93xx_inputs :: "string list" where
  "eeprom93xx_inputs = [
     ''microwire'']"

definition eeprom93xx_tags :: "string list" where
  "eeprom93xx_tags = [
     ''IC'',
     ''Memory'']"

definition eeprom93xx_c_def :: srd_c_decoder where
  "eeprom93xx_c_def = \<lparr>cd_id = Some ''eeprom93xx_c'', cd_name = Some ''93xx EEPROM(C)'',
     cd_longname = Some ''93xx Microwire EEPROM (C)'', cd_desc = Some ''93xx series Microwire EEPROM protocol. (C implementation)'', cd_license = Some ''gplv2+'',
     cd_channels = None, cd_num_channels = 0,
     cd_optional_channels = None, cd_num_optional_channels = 0,
     cd_options = Some eeprom93xx_options, cd_num_options = 2,
     cd_num_annotations = 3, cd_ann_labels = Some eeprom93xx_ann_labels,
     cd_num_annotation_rows = 2, cd_annotation_rows = Some eeprom93xx_ann_rows,
     cd_inputs = Some eeprom93xx_inputs, cd_num_inputs = 1, cd_outputs = None, cd_num_outputs = 0,
     cd_binary = None, cd_num_binary = 0, cd_tags = Some eeprom93xx_tags, cd_num_tags = 2\<rparr>"

lemma eeprom93xx_described: "described eeprom93xx_c_def = (True, True, True)"
  by (simp add: described_simps eeprom93xx_options_def eeprom93xx_ann_labels_def eeprom93xx_ann_rows_def eeprom93xx_inputs_def eeprom93xx_tags_def eeprom93xx_c_def_def)

section \<open>All of them\<close>

definition tables2 :: "srd_c_decoder list" where
  "tables2 = [c2_c_def, caliper_c_def, can_c_def, can_fd_c_def, carrera_c_def, cc1101_c_def,
     ccd_c_def, cec_c_def, cfp_c_def, cjtag_c_def, cjtag_oscan0_c_def, counter_c_def,
     crsf_c_def, cyrf6936_c_def, dcc_c_def, dcf77_c_def, delta_sigma_c_def, ds1307_c_def,
     ds2408_c_def, ds243x_c_def, ds28ea00_c_def, ds3231_c_def, dsi_c_def, edid_c_def,
     eeprom93xx_c_def]"

lemmas tables2_described =
  c2_described caliper_described can_described can_fd_described carrera_described cc1101_described
  ccd_described cec_described cfp_described cjtag_described cjtag_oscan0_described counter_described
  crsf_described cyrf6936_described dcc_described dcf77_described delta_sigma_described ds1307_described
  ds2408_described ds243x_described ds28ea00_described ds3231_described dsi_described edid_described
  eeprom93xx_described

lemma tables2_ids:
  "map cd_id tables2 = [Some ''c2_c'', Some ''caliper_c'', Some ''can_c'', Some ''can_fd_c'', Some ''carrera_c'',
     Some ''cc1101_c'', Some ''ccd_c'', Some ''cec_c'', Some ''cfp_c'', Some ''cjtag_c'',
     Some ''cjtag_oscan0_c'', Some ''counter_c'', Some ''crsf_c'', Some ''cyrf6936_c'', Some ''dcc_c'',
     Some ''dcf77_c'', Some ''delta-sigma_c'', Some ''ds1307_c'', Some ''ds2408_c'', Some ''ds243x_c'',
     Some ''ds28ea00_c'', Some ''ds3231_c'', Some ''dsi_c'', Some ''edid_c'', Some ''eeprom93xx_c'']"
  by (simp add: tables2_def
    c2_c_def_def caliper_c_def_def can_c_def_def can_fd_c_def_def carrera_c_def_def cc1101_c_def_def
    ccd_c_def_def cec_c_def_def cfp_c_def_def cjtag_c_def_def cjtag_oscan0_c_def_def counter_c_def_def
    crsf_c_def_def cyrf6936_c_def_def dcc_c_def_def dcf77_c_def_def delta_sigma_c_def_def ds1307_c_def_def
    ds2408_c_def_def ds243x_c_def_def ds28ea00_c_def_def ds3231_c_def_def dsi_c_def_def edid_c_def_def
    eeprom93xx_c_def_def)

end
