(* ===== verification/Tables3.thy ===== *)
theory Tables3
  imports Described
begin

text \<open>
  The descriptions of the decoders from em4100_c to ir_nec_c: the tables in their files, with the option
  defaults and values that \<^verbatim>\<open>srd_c_decoder_entry()\<close> fills in, and their checks. Text outside
  ASCII is given by its bytes.
\<close>

section \<open>em4100_c.c\<close>

definition em4100_options :: "srd_decoder_option list" where
  "em4100_options = [
     \<lparr>opt_id = Some ''polarity'', opt_idn = Some ''dec_em4100_opt_polarity'', opt_desc = Some ''Polarity'',
        opt_def = None, opt_values = []\<rparr>,
     \<lparr>opt_id = Some ''datarate'', opt_idn = Some ''dec_em4100_opt_datarate'', opt_desc = Some ''Data rate'',
        opt_def = None, opt_values = []\<rparr>,
     \<lparr>opt_id = Some ''coilfreq'', opt_idn = Some ''dec_em4100_opt_coilfreq'', opt_desc = Some ''Coil frequency'',
        opt_def = None, opt_values = []\<rparr>]"

definition em4100_channels :: "srd_channel list" where
  "em4100_channels = [
     \<lparr>ch_id = Some ''data'', ch_name = Some ''Data'', ch_desc = Some ''Data line'', ch_order = 0, ch_type = 1, ch_idn = Some ''dec_em4100_chan_data''\<rparr>]"

definition em4100_ann_labels :: "(string option \<times> string option \<times> string option) list" where
  "em4100_ann_labels = [
     (Some [], Some ''Bit'', Some ''Bit''),
     (Some [], Some ''Header'', Some ''Header''),
     (Some [], Some ''Version/customer'', Some ''Version/customer''),
     (Some [], Some ''Data'', Some ''Data''),
     (Some [], Some ''Row parity OK'', Some ''Row parity OK''),
     (Some [], Some ''Row parity error'', Some ''Row parity error''),
     (Some [], Some ''Column parity OK'', Some ''Column parity OK''),
     (Some [], Some ''Column parity error'', Some ''Column parity error''),
     (Some [], Some ''Stop bit'', Some ''Stop bit''),
     (Some [], Some ''Tag'', Some ''Tag'')]"

definition em4100_ann_rows :: "srd_c_ann_row list" where
  "em4100_ann_rows = [
     \<lparr>car_id = Some ''bits'', car_desc = Some ''Bits'', car_ann_classes = Some [0], car_num_ann_classes = 1\<rparr>,
     \<lparr>car_id = Some ''fields'', car_desc = Some ''Fields'', car_ann_classes = Some [1, 2, 3, 4, 5, 6, 7, 8], car_num_ann_classes = 8\<rparr>,
     \<lparr>car_id = Some ''tags'', car_desc = Some ''Tags'', car_ann_classes = Some [9], car_num_ann_classes = 1\<rparr>]"

definition em4100_inputs :: "string list" where
  "em4100_inputs = [
     ''logic'']"

definition em4100_tags :: "string list" where
  "em4100_tags = [
     ''IC'',
     ''RFID'']"

definition em4100_c_def :: srd_c_decoder where
  "em4100_c_def = \<lparr>cd_id = Some ''em4100_c'', cd_name = Some ''EM4100(C)'',
     cd_longname = Some ''RFID EM4100 (C)'', cd_desc = Some ''EM4100 100-150kHz RFID protocol.'', cd_license = Some ''gplv2+'',
     cd_channels = Some em4100_channels, cd_num_channels = 1,
     cd_optional_channels = None, cd_num_optional_channels = 0,
     cd_options = Some em4100_options, cd_num_options = 3,
     cd_num_annotations = 10, cd_ann_labels = Some em4100_ann_labels,
     cd_num_annotation_rows = 3, cd_annotation_rows = Some em4100_ann_rows,
     cd_inputs = Some em4100_inputs, cd_num_inputs = 1, cd_outputs = None, cd_num_outputs = 0,
     cd_binary = None, cd_num_binary = 0, cd_tags = Some em4100_tags, cd_num_tags = 2\<rparr>"

lemma em4100_described: "described em4100_c_def = (True, True, False)"
  by (simp add: described_simps em4100_options_def em4100_channels_def em4100_ann_labels_def em4100_ann_rows_def em4100_inputs_def em4100_tags_def em4100_c_def_def)

section \<open>em4305_c.c\<close>

definition em4305_options :: "srd_decoder_option list" where
  "em4305_options = [
     \<lparr>opt_id = Some ''coilfreq'', opt_idn = Some ''dec_em4305_opt_coilfreq'', opt_desc = Some ''Coil frequency'',
        opt_def = None, opt_values = []\<rparr>,
     \<lparr>opt_id = Some ''first_field_stop'', opt_idn = Some ''dec_em4305_opt_first_field_stop'', opt_desc = Some ''First field stop min'',
        opt_def = None, opt_values = []\<rparr>,
     \<lparr>opt_id = Some ''w_gap'', opt_idn = Some ''dec_em4305_opt_w_gap'', opt_desc = Some ''Write gap min'',
        opt_def = None, opt_values = []\<rparr>,
     \<lparr>opt_id = Some ''w_one_max'', opt_idn = Some ''dec_em4305_opt_w_one_max'', opt_desc = Some ''Write one max'',
        opt_def = None, opt_values = []\<rparr>,
     \<lparr>opt_id = Some ''w_zero_on_min'', opt_idn = Some ''dec_em4305_opt_w_zero_on_min'', opt_desc = Some ''Write zero on min'',
        opt_def = None, opt_values = []\<rparr>,
     \<lparr>opt_id = Some ''w_zero_off_max'', opt_idn = Some ''dec_em4305_opt_w_zero_off_max'', opt_desc = Some ''Write zero off max'',
        opt_def = None, opt_values = []\<rparr>,
     \<lparr>opt_id = Some ''em4100_decode'', opt_idn = Some ''dec_em4305_opt_em4100_decode'', opt_desc = Some ''EM4100 decode'',
        opt_def = None, opt_values = []\<rparr>]"

definition em4305_channels :: "srd_channel list" where
  "em4305_channels = [
     \<lparr>ch_id = Some ''data'', ch_name = Some ''Data'', ch_desc = Some ''Data line'', ch_order = 0, ch_type = 1, ch_idn = Some ''dec_em4305_chan_data''\<rparr>]"

definition em4305_ann_labels :: "(string option \<times> string option \<times> string option) list" where
  "em4305_ann_labels = [
     (Some [], Some ''Bit value'', Some ''Bit value''),
     (Some [], Some ''First field stop'', Some ''First field stop''),
     (Some [], Some ''Write gap'', Some ''Write gap''),
     (Some [], Some ''Write mode exit'', Some ''Write mode exit''),
     (Some [], Some ''Bit'', Some ''Bit''),
     (Some [], Some ''Opcode'', Some ''Opcode''),
     (Some [], Some ''Lock'', Some ''Lock''),
     (Some [], Some ''Data'', Some ''Data''),
     (Some [], Some ''Password'', Some ''Password''),
     (Some [], Some ''Address'', Some ''Address''),
     (Some [], Some ''Bitrate'', Some ''Bitrate'')]"

definition em4305_ann_rows :: "srd_c_ann_row list" where
  "em4305_ann_rows = [
     \<lparr>car_id = Some ''bits'', car_desc = Some ''Bits'', car_ann_classes = Some [0], car_num_ann_classes = 1\<rparr>,
     \<lparr>car_id = Some ''structure'', car_desc = Some ''Structure'', car_ann_classes = Some [1, 2, 3, 4], car_num_ann_classes = 4\<rparr>,
     \<lparr>car_id = Some ''fields'', car_desc = Some ''Fields'', car_ann_classes = Some [5, 6, 7, 8, 9], car_num_ann_classes = 5\<rparr>,
     \<lparr>car_id = Some ''decode'', car_desc = Some ''Decode'', car_ann_classes = Some [10], car_num_ann_classes = 1\<rparr>]"

definition em4305_inputs :: "string list" where
  "em4305_inputs = [
     ''logic'']"

definition em4305_tags :: "string list" where
  "em4305_tags = [
     ''IC'',
     ''RFID'']"

definition em4305_c_def :: srd_c_decoder where
  "em4305_c_def = \<lparr>cd_id = Some ''em4305_c'', cd_name = Some ''EM4305(C)'',
     cd_longname = Some ''RFID EM4205/EM4305 (C)'', cd_desc = Some ''EM4205/EM4305 100-150kHz RFID protocol.'', cd_license = Some ''gplv2+'',
     cd_channels = Some em4305_channels, cd_num_channels = 1,
     cd_optional_channels = None, cd_num_optional_channels = 0,
     cd_options = Some em4305_options, cd_num_options = 7,
     cd_num_annotations = 11, cd_ann_labels = Some em4305_ann_labels,
     cd_num_annotation_rows = 4, cd_annotation_rows = Some em4305_ann_rows,
     cd_inputs = Some em4305_inputs, cd_num_inputs = 1, cd_outputs = None, cd_num_outputs = 0,
     cd_binary = None, cd_num_binary = 0, cd_tags = Some em4305_tags, cd_num_tags = 2\<rparr>"

lemma em4305_described: "described em4305_c_def = (True, True, False)"
  by (simp add: described_simps em4305_options_def em4305_channels_def em4305_ann_labels_def em4305_ann_rows_def em4305_inputs_def em4305_tags_def em4305_c_def_def)

section \<open>enc28j60_c.c\<close>

definition enc28j60_ann_labels :: "(string option \<times> string option \<times> string option) list" where
  "enc28j60_ann_labels = [
     (Some [], Some ''rcr'', Some ''Read Control Register''),
     (Some [], Some ''rbm'', Some ''Read Buffer Memory''),
     (Some [], Some ''wcr'', Some ''Write Control Register''),
     (Some [], Some ''wbm'', Some ''Write Buffer Memory''),
     (Some [], Some ''bfs'', Some ''Bit Field Set''),
     (Some [], Some ''bfc'', Some ''Bit Field Clear''),
     (Some [], Some ''src'', Some ''System Reset Command''),
     (Some [], Some ''data'', Some ''Data''),
     (Some [], Some ''reg-addr'', Some ''Register Address''),
     (Some [], Some ''warning'', Some ''Warning'')]"

definition enc28j60_ann_rows :: "srd_c_ann_row list" where
  "enc28j60_ann_rows = [
     \<lparr>car_id = Some ''commands'', car_desc = Some ''Commands'', car_ann_classes = Some [0, 1, 2, 3, 4, 5, 6], car_num_ann_classes = 7\<rparr>,
     \<lparr>car_id = Some ''fields'', car_desc = Some ''Fields'', car_ann_classes = Some [7, 8], car_num_ann_classes = 2\<rparr>,
     \<lparr>car_id = Some ''warnings'', car_desc = Some ''Warnings'', car_ann_classes = Some [9], car_num_ann_classes = 1\<rparr>]"

definition enc28j60_inputs :: "string list" where
  "enc28j60_inputs = [
     ''spi'']"

definition enc28j60_tags :: "string list" where
  "enc28j60_tags = [
     ''Embedded/industrial'',
     ''Networking'']"

definition enc28j60_c_def :: srd_c_decoder where
  "enc28j60_c_def = \<lparr>cd_id = Some ''enc28j60_c'', cd_name = Some ''ENC28J60(C)'',
     cd_longname = Some ''Microchip ENC28J60 (C)'', cd_desc = Some ''Microchip ENC28J60 10Base-T Ethernet controller protocol. (C implementation)'', cd_license = Some ''mit'',
     cd_channels = None, cd_num_channels = 0,
     cd_optional_channels = None, cd_num_optional_channels = 0,
     cd_options = None, cd_num_options = 0,
     cd_num_annotations = 10, cd_ann_labels = Some enc28j60_ann_labels,
     cd_num_annotation_rows = 3, cd_annotation_rows = Some enc28j60_ann_rows,
     cd_inputs = Some enc28j60_inputs, cd_num_inputs = 1, cd_outputs = None, cd_num_outputs = 0,
     cd_binary = None, cd_num_binary = 0, cd_tags = Some enc28j60_tags, cd_num_tags = 2\<rparr>"

lemma enc28j60_described: "described enc28j60_c_def = (True, True, True)"
  by (simp add: described_simps enc28j60_ann_labels_def enc28j60_ann_rows_def enc28j60_inputs_def enc28j60_tags_def enc28j60_c_def_def)

section \<open>eth_an_c.c\<close>

definition eth_an_channels :: "srd_channel list" where
  "eth_an_channels = [
     \<lparr>ch_id = Some ''dp'', ch_name = Some ''TX+'', ch_desc = Some ''ETH TX+ signal'', ch_order = 0, ch_type = 2, ch_idn = Some ''dec_eth_an_chan_dp''\<rparr>]"

definition eth_an_ann_labels :: "(string option \<times> string option \<times> string option) list" where
  "eth_an_ann_labels = [
     (Some [], Some ''data'', Some ''FLP data''),
     (Some [], Some ''format'', Some ''format describe''),
     (Some [], Some ''bitd'', Some ''Bit desc''),
     (Some [], Some ''bit'', Some ''Bit''),
     (Some [], Some ''nlp'', Some ''Normal link pulses'')]"

definition eth_an_ann_rows :: "srd_c_ann_row list" where
  "eth_an_ann_rows = [
     \<lparr>car_id = Some ''data'', car_desc = Some ''Data'', car_ann_classes = Some [0], car_num_ann_classes = 1\<rparr>,
     \<lparr>car_id = Some ''format'', car_desc = Some ''Format'', car_ann_classes = Some [1], car_num_ann_classes = 1\<rparr>,
     \<lparr>car_id = Some ''bitd'', car_desc = Some ''Bit desc'', car_ann_classes = Some [2], car_num_ann_classes = 1\<rparr>,
     \<lparr>car_id = Some ''bit'', car_desc = Some ''Bit'', car_ann_classes = Some [3], car_num_ann_classes = 1\<rparr>,
     \<lparr>car_id = Some ''nlp'', car_desc = Some ''NLP'', car_ann_classes = Some [4], car_num_ann_classes = 1\<rparr>]"

definition eth_an_inputs :: "string list" where
  "eth_an_inputs = [
     ''logic'']"

definition eth_an_outputs :: "string list" where
  "eth_an_outputs = [
     ''eth_an'']"

definition eth_an_tags :: "string list" where
  "eth_an_tags = [
     ''PC'']"

definition eth_an_c_def :: srd_c_decoder where
  "eth_an_c_def = \<lparr>cd_id = Some ''eth_an_c'', cd_name = Some ''ETH_AN(C)'',
     cd_longname = Some ''ETH Auto Negotiation (C)'', cd_desc = Some ''ETH Auto Negotiation protocol. (C implementation)'', cd_license = Some ''gplv2+'',
     cd_channels = Some eth_an_channels, cd_num_channels = 1,
     cd_optional_channels = None, cd_num_optional_channels = 0,
     cd_options = None, cd_num_options = 0,
     cd_num_annotations = 5, cd_ann_labels = Some eth_an_ann_labels,
     cd_num_annotation_rows = 5, cd_annotation_rows = Some eth_an_ann_rows,
     cd_inputs = Some eth_an_inputs, cd_num_inputs = 1, cd_outputs = Some eth_an_outputs, cd_num_outputs = 1,
     cd_binary = None, cd_num_binary = 0, cd_tags = Some eth_an_tags, cd_num_tags = 1\<rparr>"

lemma eth_an_described: "described eth_an_c_def = (True, True, True)"
  by (simp add: described_simps eth_an_channels_def eth_an_ann_labels_def eth_an_ann_rows_def eth_an_inputs_def eth_an_outputs_def eth_an_tags_def eth_an_c_def_def)

section \<open>ethernet_c.c\<close>

definition ethernet_ann_labels :: "(string option \<times> string option \<times> string option) list" where
  "ethernet_ann_labels = [
     (Some [], Some ''header'', Some ''Decoded header''),
     (Some [], Some ''data'', Some ''Decoded data'')]"

definition ethernet_ann_rows :: "srd_c_ann_row list" where
  "ethernet_ann_rows = [
     \<lparr>car_id = Some ''headers'', car_desc = Some ''Headers'', car_ann_classes = Some [0], car_num_ann_classes = 1\<rparr>,
     \<lparr>car_id = Some ''datas'', car_desc = Some ''Datas'', car_ann_classes = Some [1], car_num_ann_classes = 1\<rparr>]"

definition ethernet_binary :: "srd_decoder_binary list" where
  "ethernet_binary = [
     \<lparr>bin_class = 0, bin_id = Some ''pcapng'', bin_desc = Some ''Wireshark packet capture (.pcapng)''\<rparr>]"

definition ethernet_inputs :: "string list" where
  "ethernet_inputs = [
     ''4b5b'']"

definition ethernet_outputs :: "string list" where
  "ethernet_outputs = [
     ''ethernet'']"

definition ethernet_tags :: "string list" where
  "ethernet_tags = [
     ''Networking'',
     ''PC'']"

definition ethernet_c_def :: srd_c_decoder where
  "ethernet_c_def = \<lparr>cd_id = Some ''ethernet_c'', cd_name = Some ''Ethernet(C)'',
     cd_longname = Some ''Ethernet II (IEEE 802.3) (C)'', cd_desc = Some ''Ethernet networking protocol (C implementation)'', cd_license = Some ''gplv2+'',
     cd_channels = None, cd_num_channels = 0,
     cd_optional_channels = None, cd_num_optional_channels = 0,
     cd_options = None, cd_num_options = 0,
     cd_num_annotations = 2, cd_ann_labels = Some ethernet_ann_labels,
     cd_num_annotation_rows = 2, cd_annotation_rows = Some ethernet_ann_rows,
     cd_inputs = Some ethernet_inputs, cd_num_inputs = 1, cd_outputs = Some ethernet_outputs, cd_num_outputs = 1,
     cd_binary = Some ethernet_binary, cd_num_binary = 1, cd_tags = Some ethernet_tags, cd_num_tags = 2\<rparr>"

lemma ethernet_described: "described ethernet_c_def = (True, True, True)"
  by (simp add: described_simps ethernet_ann_labels_def ethernet_ann_rows_def ethernet_binary_def ethernet_inputs_def ethernet_outputs_def ethernet_tags_def ethernet_c_def_def)

section \<open>flexray_c.c\<close>

definition flexray_options :: "srd_decoder_option list" where
  "flexray_options = [
     \<lparr>opt_id = Some ''channel_type'', opt_idn = Some ''dec_flexray_opt_channel_type'', opt_desc = Some ''Channel type'',
        opt_def = Some (GV_string ''A''), opt_values = [GV_string ''A'', GV_string ''B'']\<rparr>,
     \<lparr>opt_id = Some ''bitrate'', opt_idn = Some ''dec_flexray_opt_bitrate'', opt_desc = Some ''Bitrate (bit/s)'',
        opt_def = Some (GV_int64 10000000), opt_values = [GV_int64 10000000, GV_int64 5000000, GV_int64 2500000]\<rparr>]"

definition flexray_channels :: "srd_channel list" where
  "flexray_channels = [
     \<lparr>ch_id = Some ''channel'', ch_name = Some ''Channel'', ch_desc = Some ''FlexRay bus channel'', ch_order = 0, ch_type = 1, ch_idn = Some ''dec_flexray_chan_channel''\<rparr>]"

definition flexray_ann_labels :: "(string option \<times> string option \<times> string option) list" where
  "flexray_ann_labels = [
     (Some [], Some ''data'', Some ''FlexRay payload data''),
     (Some [], Some ''tss'', Some ''Transmission start sequence''),
     (Some [], Some ''fss'', Some ''Frame start sequence''),
     (Some [], Some ''reserved-bit'', Some ''Reserved bit''),
     (Some [], Some ''ppi'', Some ''Payload preamble indicator''),
     (Some [], Some ''null-frame'', Some ''Nullframe indicator''),
     (Some [], Some ''sync-frame'', Some ''Full identifier''),
     (Some [], Some ''startup-frame'', Some ''Startup frame indicator''),
     (Some [], Some ''id'', Some ''Frame ID''),
     (Some [], Some ''length'', Some ''Data length''),
     (Some [], Some ''header-crc'', Some ''Header CRC''),
     (Some [], Some ''cycle'', Some ''Cycle code''),
     (Some [], Some ''data-byte'', Some ''Data byte''),
     (Some [], Some ''frame-crc'', Some ''Frame CRC''),
     (Some [], Some ''fes'', Some ''Frame end sequence''),
     (Some [], Some ''bss'', Some ''Byte start sequence''),
     (Some [], Some ''warning'', Some ''Warning''),
     (Some [], Some ''bit'', Some ''Bit''),
     (Some [], Some ''cid'', Some ''Channel idle delimiter''),
     (Some [], Some ''dts'', Some ''Dynamic trailing sequence''),
     (Some [], Some ''cas'', Some ''Collision avoidance symbol'')]"

definition flexray_ann_rows :: "srd_c_ann_row list" where
  "flexray_ann_rows = [
     \<lparr>car_id = Some ''bits'', car_desc = Some ''Bits'', car_ann_classes = Some [15, 17], car_num_ann_classes = 2\<rparr>,
     \<lparr>car_id = Some ''fields'', car_desc = Some ''Fields'', car_ann_classes = Some [0, 1, 2, 3, 4, 5, 6, 7, 8, 9, 10, 11, 12, 13, 14, 18, 19, 20], car_num_ann_classes = 18\<rparr>,
     \<lparr>car_id = Some ''warnings'', car_desc = Some ''Warnings'', car_ann_classes = Some [16], car_num_ann_classes = 1\<rparr>]"

definition flexray_inputs :: "string list" where
  "flexray_inputs = [
     ''logic'']"

definition flexray_outputs :: "string list" where
  "flexray_outputs = []"

definition flexray_tags :: "string list" where
  "flexray_tags = [
     ''Automotive'']"

definition flexray_c_def :: srd_c_decoder where
  "flexray_c_def = \<lparr>cd_id = Some ''flexray_c'', cd_name = Some ''FlexRay(C)'',
     cd_longname = Some ''FlexRay (C)'', cd_desc = Some ''Automotive network communications protocol. (C implementation)'', cd_license = Some ''gplv2+'',
     cd_channels = Some flexray_channels, cd_num_channels = 1,
     cd_optional_channels = None, cd_num_optional_channels = 0,
     cd_options = Some flexray_options, cd_num_options = 2,
     cd_num_annotations = 21, cd_ann_labels = Some flexray_ann_labels,
     cd_num_annotation_rows = 3, cd_annotation_rows = Some flexray_ann_rows,
     cd_inputs = Some flexray_inputs, cd_num_inputs = 1, cd_outputs = Some flexray_outputs, cd_num_outputs = 0,
     cd_binary = None, cd_num_binary = 0, cd_tags = Some flexray_tags, cd_num_tags = 1\<rparr>"

lemma flexray_described: "described flexray_c_def = (True, True, True)"
  by (simp add: described_simps flexray_options_def flexray_channels_def flexray_ann_labels_def flexray_ann_rows_def flexray_inputs_def flexray_outputs_def flexray_tags_def flexray_c_def_def)

section \<open>fsi_c.c\<close>

definition fsi_channels :: "srd_channel list" where
  "fsi_channels = [
     \<lparr>ch_id = Some ''data'', ch_name = Some ''DATA'', ch_desc = Some ''Frame'', ch_order = 0, ch_type = 1, ch_idn = Some ''dec_fsi_chan_data''\<rparr>,
     \<lparr>ch_id = Some ''clock'', ch_name = Some ''CLOCK'', ch_desc = Some ''Clock'', ch_order = 1, ch_type = 0, ch_idn = Some ''dec_fsi_chan_clock''\<rparr>]"

definition fsi_ann_labels :: "(string option \<times> string option \<times> string option) list" where
  "fsi_ann_labels = [
     (Some [], Some ''warnings'', Some ''Warnings''),
     (Some [], Some ''start'', Some ''Start''),
     (Some [], Some ''cycle-type'', Some ''Cycle type''),
     (Some [], Some ''direction'', Some ''Direction''),
     (Some [], Some ''addr'', Some ''Address''),
     (Some [], Some ''data'', Some ''Data''),
     (Some [], Some ''commands'', Some ''Commands''),
     (Some [], Some ''crc'', Some ''CRC''),
     (Some [], Some ''turn-around'', Some ''TAR'')]"

definition fsi_ann_rows :: "srd_c_ann_row list" where
  "fsi_ann_rows = [
     \<lparr>car_id = Some ''data'', car_desc = Some ''Data'', car_ann_classes = Some [1, 2, 3, 4, 5, 6, 7, 8], car_num_ann_classes = 8\<rparr>,
     \<lparr>car_id = Some ''warnings'', car_desc = Some ''Warnings'', car_ann_classes = Some [0], car_num_ann_classes = 1\<rparr>]"

definition fsi_inputs :: "string list" where
  "fsi_inputs = [
     ''logic'']"

definition fsi_outputs :: "string list" where
  "fsi_outputs = []"

definition fsi_tags :: "string list" where
  "fsi_tags = [
     ''PC'']"

definition fsi_c_def :: srd_c_decoder where
  "fsi_c_def = \<lparr>cd_id = Some ''fsi_c'', cd_name = Some ''FSI(C)'',
     cd_longname = Some ''Flexible Service Interface (C)'', cd_desc = Some ''Protocol for FSI devices on Raptor OpenPOWER systems. (C implementation)'', cd_license = Some ''gplv2+'',
     cd_channels = Some fsi_channels, cd_num_channels = 2,
     cd_optional_channels = None, cd_num_optional_channels = 0,
     cd_options = None, cd_num_options = 0,
     cd_num_annotations = 9, cd_ann_labels = Some fsi_ann_labels,
     cd_num_annotation_rows = 2, cd_annotation_rows = Some fsi_ann_rows,
     cd_inputs = Some fsi_inputs, cd_num_inputs = 1, cd_outputs = Some fsi_outputs, cd_num_outputs = 0,
     cd_binary = None, cd_num_binary = 0, cd_tags = Some fsi_tags, cd_num_tags = 1\<rparr>"

lemma fsi_described: "described fsi_c_def = (True, True, True)"
  by (simp add: described_simps fsi_channels_def fsi_ann_labels_def fsi_ann_rows_def fsi_inputs_def fsi_outputs_def fsi_tags_def fsi_c_def_def)

section \<open>gpib_c.c\<close>

definition gpib_options :: "srd_decoder_option list" where
  "gpib_options = [
     \<lparr>opt_id = Some ''sample_total'', opt_idn = Some ''dec_gpib_opt_sample_total'', opt_desc = Some ''Total number of samples'',
        opt_def = None, opt_values = []\<rparr>]"

definition gpib_channels :: "srd_channel list" where
  "gpib_channels = [
     \<lparr>ch_id = Some ''dio1'', ch_name = Some ''DIO1'', ch_desc = Some ''Data I/O bit 1'', ch_order = 0, ch_type = 1, ch_idn = Some ''dec_gpib_chan_dio1''\<rparr>,
     \<lparr>ch_id = Some ''dio2'', ch_name = Some ''DIO2'', ch_desc = Some ''Data I/O bit 2'', ch_order = 1, ch_type = 1, ch_idn = Some ''dec_gpib_chan_dio2''\<rparr>,
     \<lparr>ch_id = Some ''dio3'', ch_name = Some ''DIO3'', ch_desc = Some ''Data I/O bit 3'', ch_order = 2, ch_type = 1, ch_idn = Some ''dec_gpib_chan_dio3''\<rparr>,
     \<lparr>ch_id = Some ''dio4'', ch_name = Some ''DIO4'', ch_desc = Some ''Data I/O bit 4'', ch_order = 3, ch_type = 1, ch_idn = Some ''dec_gpib_chan_dio4''\<rparr>,
     \<lparr>ch_id = Some ''dio5'', ch_name = Some ''DIO5'', ch_desc = Some ''Data I/O bit 5'', ch_order = 4, ch_type = 1, ch_idn = Some ''dec_gpib_chan_dio5''\<rparr>,
     \<lparr>ch_id = Some ''dio6'', ch_name = Some ''DIO6'', ch_desc = Some ''Data I/O bit 6'', ch_order = 5, ch_type = 1, ch_idn = Some ''dec_gpib_chan_dio6''\<rparr>,
     \<lparr>ch_id = Some ''dio7'', ch_name = Some ''DIO7'', ch_desc = Some ''Data I/O bit 7'', ch_order = 6, ch_type = 1, ch_idn = Some ''dec_gpib_chan_dio7''\<rparr>,
     \<lparr>ch_id = Some ''dio8'', ch_name = Some ''DIO8'', ch_desc = Some ''Data I/O bit 8'', ch_order = 7, ch_type = 1, ch_idn = Some ''dec_gpib_chan_dio8''\<rparr>,
     \<lparr>ch_id = Some ''eoi'', ch_name = Some ''EOI'', ch_desc = Some ''End or identify'', ch_order = 8, ch_type = 1, ch_idn = Some ''dec_gpib_chan_eoi''\<rparr>,
     \<lparr>ch_id = Some ''dav'', ch_name = Some ''DAV'', ch_desc = Some ''Data valid'', ch_order = 9, ch_type = 1, ch_idn = Some ''dec_gpib_chan_dav''\<rparr>,
     \<lparr>ch_id = Some ''nrfd'', ch_name = Some ''NRFD'', ch_desc = Some ''Not ready for data'', ch_order = 10, ch_type = 1, ch_idn = Some ''dec_gpib_chan_nrfd''\<rparr>,
     \<lparr>ch_id = Some ''ndac'', ch_name = Some ''NDAC'', ch_desc = Some ''Not data accepted'', ch_order = 11, ch_type = 1, ch_idn = Some ''dec_gpib_chan_ndac''\<rparr>,
     \<lparr>ch_id = Some ''ifc'', ch_name = Some ''IFC'', ch_desc = Some ''Interface clear'', ch_order = 12, ch_type = 1, ch_idn = Some ''dec_gpib_chan_ifc''\<rparr>,
     \<lparr>ch_id = Some ''srq'', ch_name = Some ''SRQ'', ch_desc = Some ''Service request'', ch_order = 13, ch_type = 1, ch_idn = Some ''dec_gpib_chan_srq''\<rparr>,
     \<lparr>ch_id = Some ''atn'', ch_name = Some ''ATN'', ch_desc = Some ''Attention'', ch_order = 14, ch_type = 1, ch_idn = Some ''dec_gpib_chan_atn''\<rparr>,
     \<lparr>ch_id = Some ''ren'', ch_name = Some ''REN'', ch_desc = Some ''Remote enable'', ch_order = 15, ch_type = 1, ch_idn = Some ''dec_gpib_chan_ren''\<rparr>]"

definition gpib_ann_labels :: "(string option \<times> string option \<times> string option) list" where
  "gpib_ann_labels = [
     (Some [], Some ''items'', Some ''Items''),
     (Some [], Some ''gpib'', Some ''DAT/CMD''),
     (Some [], Some ''eoi'', Some ''EOI'')]"

definition gpib_ann_rows :: "srd_c_ann_row list" where
  "gpib_ann_rows = [
     \<lparr>car_id = Some ''bytes'', car_desc = Some ''Bytes'', car_ann_classes = Some [0], car_num_ann_classes = 1\<rparr>,
     \<lparr>car_id = Some ''gpib'', car_desc = Some ''DAT/CMD'', car_ann_classes = Some [1], car_num_ann_classes = 1\<rparr>,
     \<lparr>car_id = Some ''eoi'', car_desc = Some ''EOI'', car_ann_classes = Some [2], car_num_ann_classes = 1\<rparr>]"

definition gpib_inputs :: "string list" where
  "gpib_inputs = [
     ''logic'']"

definition gpib_outputs :: "string list" where
  "gpib_outputs = []"

definition gpib_tags :: "string list" where
  "gpib_tags = [
     ''PC'']"

definition gpib_c_def :: srd_c_decoder where
  "gpib_c_def = \<lparr>cd_id = Some ''gpib_c'', cd_name = Some ''GPIB(C)'',
     cd_longname = Some ''General Purpose Interface Bus (C)'', cd_desc = Some ''IEEE-488 General Purpose Interface Bus (GPIB / HPIB). (C implementation)'', cd_license = Some ''gplv2+'',
     cd_channels = Some gpib_channels, cd_num_channels = 16,
     cd_optional_channels = None, cd_num_optional_channels = 0,
     cd_options = Some gpib_options, cd_num_options = 1,
     cd_num_annotations = 3, cd_ann_labels = Some gpib_ann_labels,
     cd_num_annotation_rows = 3, cd_annotation_rows = Some gpib_ann_rows,
     cd_inputs = Some gpib_inputs, cd_num_inputs = 1, cd_outputs = Some gpib_outputs, cd_num_outputs = 0,
     cd_binary = None, cd_num_binary = 0, cd_tags = Some gpib_tags, cd_num_tags = 1\<rparr>"

lemma gpib_described: "described gpib_c_def = (True, True, False)"
  by (simp add: described_simps gpib_options_def gpib_channels_def gpib_ann_labels_def gpib_ann_rows_def gpib_inputs_def gpib_outputs_def gpib_tags_def gpib_c_def_def)

section \<open>graycode_c.c\<close>

definition graycode_options :: "srd_decoder_option list" where
  "graycode_options = [
     \<lparr>opt_id = Some ''edges'', opt_idn = Some ''dec_graycode_opt_edges'', opt_desc = Some ''Edges per rotation'',
        opt_def = Some (GV_int64 0), opt_values = []\<rparr>,
     \<lparr>opt_id = Some ''avg_period'', opt_idn = Some ''dec_graycode_opt_avg_period'', opt_desc = Some ''Averaging period'',
        opt_def = Some (GV_int64 10), opt_values = []\<rparr>,
     \<lparr>opt_id = Some ''bits'', opt_idn = Some ''dec_graycode_opt_bits'', opt_desc = Some ''Number of Gray code bits'',
        opt_def = Some (GV_int64 0), opt_values = []\<rparr>,
     \<lparr>opt_id = Some ''si_prefix'', opt_idn = Some ''dec_graycode_opt_si_prefix'', opt_desc = Some ''SI prefix for interval/rate display'',
        opt_def = Some (GV_string []), opt_values = [GV_string [], GV_string ''k'', GV_string ''M'', GV_string ''G'', GV_string ''T'']\<rparr>]"

definition graycode_optional_channels :: "srd_channel list" where
  "graycode_optional_channels = [
     \<lparr>ch_id = Some ''d0'', ch_name = Some ''D0'', ch_desc = Some ''Data line 0'', ch_order = 0, ch_type = -1, ch_idn = None\<rparr>,
     \<lparr>ch_id = Some ''d1'', ch_name = Some ''D1'', ch_desc = Some ''Data line 1'', ch_order = 1, ch_type = -1, ch_idn = None\<rparr>,
     \<lparr>ch_id = Some ''d2'', ch_name = Some ''D2'', ch_desc = Some ''Data line 2'', ch_order = 2, ch_type = -1, ch_idn = None\<rparr>,
     \<lparr>ch_id = Some ''d3'', ch_name = Some ''D3'', ch_desc = Some ''Data line 3'', ch_order = 3, ch_type = -1, ch_idn = None\<rparr>,
     \<lparr>ch_id = Some ''d4'', ch_name = Some ''D4'', ch_desc = Some ''Data line 4'', ch_order = 4, ch_type = -1, ch_idn = None\<rparr>,
     \<lparr>ch_id = Some ''d5'', ch_name = Some ''D5'', ch_desc = Some ''Data line 5'', ch_order = 5, ch_type = -1, ch_idn = None\<rparr>,
     \<lparr>ch_id = Some ''d6'', ch_name = Some ''D6'', ch_desc = Some ''Data line 6'', ch_order = 6, ch_type = -1, ch_idn = None\<rparr>,
     \<lparr>ch_id = Some ''d7'', ch_name = Some ''D7'', ch_desc = Some ''Data line 7'', ch_order = 7, ch_type = -1, ch_idn = None\<rparr>]"

definition graycode_ann_labels :: "(string option \<times> string option \<times> string option) list" where
  "graycode_ann_labels = [
     (Some [], Some ''phase'', Some ''Phase''),
     (Some [], Some ''increment'', Some ''Increment''),
     (Some [], Some ''count'', Some ''Count''),
     (Some [], Some ''turns'', Some ''Turns''),
     (Some [], Some ''interval'', Some ''Interval''),
     (Some [], Some ''average'', Some ''Average''),
     (Some [], Some ''rpm'', Some ''Rate'')]"

definition graycode_ann_rows :: "srd_c_ann_row list" where
  "graycode_ann_rows = [
     \<lparr>car_id = Some ''phase'', car_desc = Some ''Phase'', car_ann_classes = Some [0], car_num_ann_classes = 1\<rparr>,
     \<lparr>car_id = Some ''increment'', car_desc = Some ''Increment'', car_ann_classes = Some [1], car_num_ann_classes = 1\<rparr>,
     \<lparr>car_id = Some ''count'', car_desc = Some ''Count'', car_ann_classes = Some [2], car_num_ann_classes = 1\<rparr>,
     \<lparr>car_id = Some ''turns'', car_desc = Some ''Turns'', car_ann_classes = Some [3], car_num_ann_classes = 1\<rparr>,
     \<lparr>car_id = Some ''interval'', car_desc = Some ''Interval'', car_ann_classes = Some [4], car_num_ann_classes = 1\<rparr>,
     \<lparr>car_id = Some ''average'', car_desc = Some ''Average'', car_ann_classes = Some [5], car_num_ann_classes = 1\<rparr>,
     \<lparr>car_id = Some ''rpm'', car_desc = Some ''Rate'', car_ann_classes = Some [6], car_num_ann_classes = 1\<rparr>]"

definition graycode_inputs :: "string list" where
  "graycode_inputs = [
     ''logic'']"

definition graycode_outputs :: "string list" where
  "graycode_outputs = []"

definition graycode_tags :: "string list" where
  "graycode_tags = [
     ''Encoding'']"

definition graycode_c_def :: srd_c_decoder where
  "graycode_c_def = \<lparr>cd_id = Some ''graycode_c'', cd_name = Some ''Gray Code(C)'',
     cd_longname = Some ''Gray code and rotary encoder (C)'', cd_desc = Some ''Accumulate rotary encoder increments, provide statistics. (C implementation)'', cd_license = Some ''gplv2+'',
     cd_channels = None, cd_num_channels = 0,
     cd_optional_channels = Some graycode_optional_channels, cd_num_optional_channels = 8,
     cd_options = Some graycode_options, cd_num_options = 4,
     cd_num_annotations = 7, cd_ann_labels = Some graycode_ann_labels,
     cd_num_annotation_rows = 7, cd_annotation_rows = Some graycode_ann_rows,
     cd_inputs = Some graycode_inputs, cd_num_inputs = 1, cd_outputs = Some graycode_outputs, cd_num_outputs = 0,
     cd_binary = None, cd_num_binary = 0, cd_tags = Some graycode_tags, cd_num_tags = 1\<rparr>"

lemma graycode_described: "described graycode_c_def = (True, True, True)"
  by (simp add: described_simps graycode_options_def graycode_optional_channels_def graycode_ann_labels_def graycode_ann_rows_def graycode_inputs_def graycode_outputs_def graycode_tags_def graycode_c_def_def)

section \<open>guess_bitrate_c.c\<close>

definition guess_bitrate_channels :: "srd_channel list" where
  "guess_bitrate_channels = [
     \<lparr>ch_id = Some ''data'', ch_name = Some ''Data'', ch_desc = Some ''Data line'', ch_order = 0, ch_type = 1, ch_idn = Some ''dec_guess_bitrate_chan_data''\<rparr>]"

definition guess_bitrate_ann_labels :: "(string option \<times> string option \<times> string option) list" where
  "guess_bitrate_ann_labels = [
     (Some [], Some ''bitrate'', Some ''Bitrate / baudrate'')]"

definition guess_bitrate_ann_rows :: "srd_c_ann_row list" where
  "guess_bitrate_ann_rows = [
     \<lparr>car_id = Some ''bitrate'', car_desc = Some ''Bitrate'', car_ann_classes = Some [0], car_num_ann_classes = 1\<rparr>]"

definition guess_bitrate_inputs :: "string list" where
  "guess_bitrate_inputs = [
     ''logic'']"

definition guess_bitrate_outputs :: "string list" where
  "guess_bitrate_outputs = []"

definition guess_bitrate_tags :: "string list" where
  "guess_bitrate_tags = [
     ''Clock/timing'',
     ''Util'']"

definition guess_bitrate_c_def :: srd_c_decoder where
  "guess_bitrate_c_def = \<lparr>cd_id = Some ''guess_bitrate_c'', cd_name = Some ''Guess bitrate(C)'',
     cd_longname = Some ''Guess bitrate/baudrate (C)'', cd_desc = Some ''Guess the bitrate/baudrate of a UART (or other) protocol. (C implementation)'', cd_license = Some ''gplv2+'',
     cd_channels = Some guess_bitrate_channels, cd_num_channels = 1,
     cd_optional_channels = None, cd_num_optional_channels = 0,
     cd_options = None, cd_num_options = 0,
     cd_num_annotations = 1, cd_ann_labels = Some guess_bitrate_ann_labels,
     cd_num_annotation_rows = 1, cd_annotation_rows = Some guess_bitrate_ann_rows,
     cd_inputs = Some guess_bitrate_inputs, cd_num_inputs = 1, cd_outputs = Some guess_bitrate_outputs, cd_num_outputs = 0,
     cd_binary = None, cd_num_binary = 0, cd_tags = Some guess_bitrate_tags, cd_num_tags = 2\<rparr>"

lemma guess_bitrate_described: "described guess_bitrate_c_def = (True, True, True)"
  by (simp add: described_simps guess_bitrate_channels_def guess_bitrate_ann_labels_def guess_bitrate_ann_rows_def guess_bitrate_inputs_def guess_bitrate_outputs_def guess_bitrate_tags_def guess_bitrate_c_def_def)

section \<open>hdcp_c.c\<close>

definition hdcp_ann_labels :: "(string option \<times> string option \<times> string option) list" where
  "hdcp_ann_labels = [
     (Some [], Some ''message-0x00'', Some ''Message 0x00''),
     (Some [], Some ''message-0x01'', Some ''Message 0x01''),
     (Some [], Some ''message-0x02'', Some ''Message 0x02''),
     (Some [], Some ''message-0x03'', Some ''Message 0x03''),
     (Some [], Some ''message-0x04'', Some ''Message 0x04''),
     (Some [], Some ''message-0x05'', Some ''Message 0x05''),
     (Some [], Some ''message-0x06'', Some ''Message 0x06''),
     (Some [], Some ''message-0x07'', Some ''Message 0x07''),
     (Some [], Some ''message-0x08'', Some ''Message 0x08''),
     (Some [], Some ''message-0x09'', Some ''Message 0x09''),
     (Some [], Some ''message-0x0a'', Some ''Message 0x0A''),
     (Some [], Some ''message-0x0b'', Some ''Message 0x0B''),
     (Some [], Some ''message-0x0c'', Some ''Message 0x0C''),
     (Some [], Some ''message-0x0d'', Some ''Message 0x0D''),
     (Some [], Some ''message-0x0e'', Some ''Message 0x0E''),
     (Some [], Some ''message-0x0f'', Some ''Message 0x0F''),
     (Some [], Some ''message-0x10'', Some ''Message 0x10''),
     (Some [], Some ''message-0x11'', Some ''Message 0x11''),
     (Some [], Some ''summary'', Some ''Summary''),
     (Some [], Some ''warning'', Some ''Warning'')]"

definition hdcp_ann_rows :: "srd_c_ann_row list" where
  "hdcp_ann_rows = [
     \<lparr>car_id = Some ''messages'', car_desc = Some ''Messages'', car_ann_classes = Some [0, 1, 2, 3, 4, 5, 6, 7, 8, 9, 10, 11, 12, 13, 14, 15, 16, 17], car_num_ann_classes = 18\<rparr>,
     \<lparr>car_id = Some ''summaries'', car_desc = Some ''Summaries'', car_ann_classes = Some [18], car_num_ann_classes = 1\<rparr>,
     \<lparr>car_id = Some ''warnings'', car_desc = Some ''Warnings'', car_ann_classes = Some [19], car_num_ann_classes = 1\<rparr>]"

definition hdcp_inputs :: "string list" where
  "hdcp_inputs = [
     ''i2c'']"

definition hdcp_outputs :: "string list" where
  "hdcp_outputs = [
     ''hdcp'']"

definition hdcp_tags :: "string list" where
  "hdcp_tags = [
     ''PC'',
     ''Security/crypto'']"

definition hdcp_c_def :: srd_c_decoder where
  "hdcp_c_def = \<lparr>cd_id = Some ''hdcp_c'', cd_name = Some ''HDCP(C)'',
     cd_longname = Some ''HDCP over HDMI (C)'', cd_desc = Some ''HDCP protocol over HDMI. (C implementation)'', cd_license = Some ''gplv2+'',
     cd_channels = None, cd_num_channels = 0,
     cd_optional_channels = None, cd_num_optional_channels = 0,
     cd_options = None, cd_num_options = 0,
     cd_num_annotations = 20, cd_ann_labels = Some hdcp_ann_labels,
     cd_num_annotation_rows = 3, cd_annotation_rows = Some hdcp_ann_rows,
     cd_inputs = Some hdcp_inputs, cd_num_inputs = 1, cd_outputs = Some hdcp_outputs, cd_num_outputs = 1,
     cd_binary = None, cd_num_binary = 0, cd_tags = Some hdcp_tags, cd_num_tags = 2\<rparr>"

lemma hdcp_described: "described hdcp_c_def = (True, True, True)"
  by (simp add: described_simps hdcp_ann_labels_def hdcp_ann_rows_def hdcp_inputs_def hdcp_outputs_def hdcp_tags_def hdcp_c_def_def)

section \<open>hdlc_c.c\<close>

definition hdlc_options :: "srd_decoder_option list" where
  "hdlc_options = [
     \<lparr>opt_id = Some ''en_polarity'', opt_idn = None, opt_desc = Some ''ENABLE polarity'',
        opt_def = Some (GV_string ''active-high''), opt_values = []\<rparr>,
     \<lparr>opt_id = Some ''cpol'', opt_idn = None, opt_desc = Some ''Clock polarity'',
        opt_def = Some (GV_int64 1), opt_values = []\<rparr>]"

definition hdlc_channels :: "srd_channel list" where
  "hdlc_channels = [
     \<lparr>ch_id = Some ''clk'', ch_name = Some ''CLK'', ch_desc = Some ''Clock'', ch_order = 0, ch_type = 0, ch_idn = None\<rparr>,
     \<lparr>ch_id = Some ''data'', ch_name = Some ''DATA'', ch_desc = Some ''Data in'', ch_order = 1, ch_type = 1, ch_idn = None\<rparr>]"

definition hdlc_optional_channels :: "srd_channel list" where
  "hdlc_optional_channels = [
     \<lparr>ch_id = Some ''en'', ch_name = Some ''ENABLE'', ch_desc = Some ''RX enabled'', ch_order = 2, ch_type = -1, ch_idn = None\<rparr>]"

definition hdlc_ann_labels :: "(string option \<times> string option \<times> string option) list" where
  "hdlc_ann_labels = [
     (Some [], Some ''rx-bit'', Some ''RX bit''),
     (Some [], Some ''data'', Some ''data''),
     (Some [], Some ''data-type'', Some ''data-type''),
     (Some [], Some ''warning'', Some ''Warning''),
     (Some [], Some ''transfer'', Some ''transfer'')]"

definition hdlc_ann_rows :: "srd_c_ann_row list" where
  "hdlc_ann_rows = [
     \<lparr>car_id = Some ''rx-bits'', car_desc = Some ''RX bits'', car_ann_classes = Some [0], car_num_ann_classes = 1\<rparr>,
     \<lparr>car_id = Some ''data-vals'', car_desc = Some ''data'', car_ann_classes = Some [1], car_num_ann_classes = 1\<rparr>,
     \<lparr>car_id = Some ''data-types'', car_desc = Some ''type'', car_ann_classes = Some [2], car_num_ann_classes = 1\<rparr>,
     \<lparr>car_id = Some ''transfers'', car_desc = Some ''transfers'', car_ann_classes = Some [4], car_num_ann_classes = 1\<rparr>,
     \<lparr>car_id = Some ''other'', car_desc = Some ''Other'', car_ann_classes = Some [3], car_num_ann_classes = 1\<rparr>]"

definition hdlc_binary :: "srd_decoder_binary list" where
  "hdlc_binary = [
     \<lparr>bin_class = 0, bin_id = Some ''transfer'', bin_desc = Some ''transfer''\<rparr>]"

definition hdlc_inputs :: "string list" where
  "hdlc_inputs = [
     ''logic'']"

definition hdlc_outputs :: "string list" where
  "hdlc_outputs = [
     ''hdlc'']"

definition hdlc_tags :: "string list" where
  "hdlc_tags = [
     ''Embedded/industrial'']"

definition hdlc_c_def :: srd_c_decoder where
  "hdlc_c_def = \<lparr>cd_id = Some ''hdlc_c'', cd_name = Some ''HDLC(C)'',
     cd_longname = Some ''High-Level Data Link Control (C)'', cd_desc = Some ''HDLC protocol decoder (C implementation, faster than Python)'', cd_license = Some ''gplv2+'',
     cd_channels = Some hdlc_channels, cd_num_channels = 2,
     cd_optional_channels = Some hdlc_optional_channels, cd_num_optional_channels = 1,
     cd_options = Some hdlc_options, cd_num_options = 2,
     cd_num_annotations = 5, cd_ann_labels = Some hdlc_ann_labels,
     cd_num_annotation_rows = 5, cd_annotation_rows = Some hdlc_ann_rows,
     cd_inputs = Some hdlc_inputs, cd_num_inputs = 1, cd_outputs = Some hdlc_outputs, cd_num_outputs = 1,
     cd_binary = Some hdlc_binary, cd_num_binary = 1, cd_tags = Some hdlc_tags, cd_num_tags = 1\<rparr>"

lemma hdlc_described: "described hdlc_c_def = (True, True, True)"
  by (simp add: described_simps hdlc_options_def hdlc_channels_def hdlc_optional_channels_def hdlc_ann_labels_def hdlc_ann_rows_def hdlc_binary_def hdlc_inputs_def hdlc_outputs_def hdlc_tags_def hdlc_c_def_def)

section \<open>hdmi_scdc_c.c\<close>

definition hdmi_scdc_options :: "srd_decoder_option list" where
  "hdmi_scdc_options = [
     \<lparr>opt_id = Some ''verbosity'', opt_idn = Some ''dec_hdmi_scdc_opt_verbosity'', opt_desc = Some ''Verbosity'',
        opt_def = Some (GV_string ''short''), opt_values = [GV_string ''short'', GV_string ''long'', GV_string ''debug'']\<rparr>]"

definition hdmi_scdc_ann_labels :: "(string option \<times> string option \<times> string option) list" where
  "hdmi_scdc_ann_labels = [
     (Some [], Some ''address'', Some (''I'' @ bytes_str [0xC2, 0xB2] @ ''C address'')),
     (Some [], Some ''register'', Some ''Register name and offset''),
     (Some [], Some ''fields'', Some ''Readable register interpretation''),
     (Some [], Some ''debug'', Some ''Debug messages'')]"

definition hdmi_scdc_ann_rows :: "srd_c_ann_row list" where
  "hdmi_scdc_ann_rows = [
     \<lparr>car_id = Some ''scdc'', car_desc = Some ''SCDC'', car_ann_classes = Some [0, 1, 2], car_num_ann_classes = 3\<rparr>,
     \<lparr>car_id = Some ''debug'', car_desc = Some ''Debug'', car_ann_classes = Some [3], car_num_ann_classes = 1\<rparr>]"

definition hdmi_scdc_inputs :: "string list" where
  "hdmi_scdc_inputs = [
     ''i2c'']"

definition hdmi_scdc_outputs :: "string list" where
  "hdmi_scdc_outputs = [
     ''scdc'']"

definition hdmi_scdc_tags :: "string list" where
  "hdmi_scdc_tags = [
     ''Embedded/industrial'']"

definition hdmi_scdc_c_def :: srd_c_decoder where
  "hdmi_scdc_c_def = \<lparr>cd_id = Some ''hdmi_scdc_c'', cd_name = Some ''HDMI_SCDC(C)'',
     cd_longname = Some ''Status and Control Data Channel (C)'', cd_desc = Some ''Status and Control Data Channel: SCDC for HDMI2.0 (C implementation)'', cd_license = Some ''gplv2+'',
     cd_channels = None, cd_num_channels = 0,
     cd_optional_channels = None, cd_num_optional_channels = 0,
     cd_options = Some hdmi_scdc_options, cd_num_options = 1,
     cd_num_annotations = 4, cd_ann_labels = Some hdmi_scdc_ann_labels,
     cd_num_annotation_rows = 2, cd_annotation_rows = Some hdmi_scdc_ann_rows,
     cd_inputs = Some hdmi_scdc_inputs, cd_num_inputs = 1, cd_outputs = Some hdmi_scdc_outputs, cd_num_outputs = 1,
     cd_binary = None, cd_num_binary = 0, cd_tags = Some hdmi_scdc_tags, cd_num_tags = 1\<rparr>"

lemma hdmi_scdc_described: "described hdmi_scdc_c_def = (True, True, True)"
  by (simp add: described_simps hdmi_scdc_options_def hdmi_scdc_ann_labels_def hdmi_scdc_ann_rows_def hdmi_scdc_inputs_def hdmi_scdc_outputs_def hdmi_scdc_tags_def hdmi_scdc_c_def_def)

section \<open>i2c_c.c\<close>

definition i2c_options :: "srd_decoder_option list" where
  "i2c_options = [
     \<lparr>opt_id = Some ''address_format'', opt_idn = None, opt_desc = Some (''Displayed slave address format('' @ bytes_str [0xE4, 0xBB, 0x8E, 0xE5, 0x9C, 0xB0, 0xE5, 0x9D, 0x80, 0xE6, 0xA0, 0xBC, 0xE5, 0xBC, 0x8F] @ '')''),
        opt_def = Some (GV_string ''shifted''), opt_values = [GV_string ''shifted'', GV_string ''unshifted'']\<rparr>,
     \<lparr>opt_id = Some ''packets_format'', opt_idn = None, opt_desc = Some (''Display packets('' @ bytes_str [0xE6, 0x95, 0xB0, 0xE6, 0x8D, 0xAE, 0xE6, 0xA0, 0xBC, 0xE5, 0xBC, 0x8F] @ '')''),
        opt_def = Some (GV_string ''hex''), opt_values = [GV_string ''none'', GV_string ''hex'', GV_string ''ascii'', GV_string ''dec'', GV_string ''bin'', GV_string ''oct'']\<rparr>,
     \<lparr>opt_id = Some ''show_data_point'', opt_idn = None, opt_desc = Some (''Show data point('' @ bytes_str [0xE6, 0x95, 0xB0, 0xE6, 0x8D, 0xAE, 0xE7, 0x82, 0xB9, 0xE6, 0x98, 0xBE, 0xE7, 0xA4, 0xBA] @ '')''),
        opt_def = Some (GV_string ''yes''), opt_values = [GV_string ''yes'', GV_string ''no'']\<rparr>]"

definition i2c_channels :: "srd_channel list" where
  "i2c_channels = [
     \<lparr>ch_id = Some ''scl'', ch_name = Some ''SCL'', ch_desc = Some (''Serial clock line('' @ bytes_str [0xE4, 0xB8, 0xB2, 0xE8, 0xA1, 0x8C, 0xE6, 0x97, 0xB6, 0xE9, 0x92, 0x9F, 0xE7, 0xBA, 0xBF] @ '')''), ch_order = 0, ch_type = 0, ch_idn = None\<rparr>,
     \<lparr>ch_id = Some ''sda'', ch_name = Some ''SDA'', ch_desc = Some (''Serial data line('' @ bytes_str [0xE4, 0xB8, 0xB2, 0xE8, 0xA1, 0x8C, 0xE6, 0x95, 0xB0, 0xE6, 0x8D, 0xAE, 0xE7, 0xBA, 0xBF] @ '')''), ch_order = 1, ch_type = 1, ch_idn = None\<rparr>]"

definition i2c_ann_labels :: "(string option \<times> string option \<times> string option) list" where
  "i2c_ann_labels = [
     (Some [], Some ''Start'', Some ''Start condition''),
     (Some [], Some ''Start repeat'', Some ''Repeat start condition''),
     (Some [], Some ''Stop'', Some ''Stop condition''),
     (Some [], Some ''ACK'', Some ''ACK''),
     (Some [], Some ''NACK'', Some ''NACK''),
     (Some [], Some ''Bit'', Some ''Data/address bit''),
     (Some [], Some ''Address read'', Some ''Address read''),
     (Some [], Some ''Address write'', Some ''Address write''),
     (Some [], Some ''Data read'', Some ''Data read''),
     (Some [], Some ''Data write'', Some ''Data write''),
     (Some [], Some ''Packet'', Some ''Packet''),
     (Some [], Some ''ATK Data point'', Some ''ATK Data point''),
     (Some [], Some ''ATK Rising edge'', Some ''ATK Rising edge'')]"

definition i2c_ann_rows :: "srd_c_ann_row list" where
  "i2c_ann_rows = [
     \<lparr>car_id = Some ''bits'', car_desc = Some ''Bits'', car_ann_classes = Some [5], car_num_ann_classes = 1\<rparr>,
     \<lparr>car_id = Some ''addr-data'', car_desc = Some ''Address/data'', car_ann_classes = Some [0, 1, 2, 3, 4, 6, 7, 8, 9], car_num_ann_classes = 9\<rparr>,
     \<lparr>car_id = Some ''packets'', car_desc = Some ''Packets'', car_ann_classes = Some [10], car_num_ann_classes = 1\<rparr>,
     \<lparr>car_id = Some ''atk-signs'', car_desc = Some ''ATK signs'', car_ann_classes = Some [11, 12], car_num_ann_classes = 2\<rparr>]"

definition i2c_binary :: "srd_decoder_binary list" where
  "i2c_binary = [
     \<lparr>bin_class = 0, bin_id = Some ''address-read'', bin_desc = Some ''Address read''\<rparr>,
     \<lparr>bin_class = 1, bin_id = Some ''address-write'', bin_desc = Some ''Address write''\<rparr>,
     \<lparr>bin_class = 2, bin_id = Some ''data-read'', bin_desc = Some ''Data read''\<rparr>,
     \<lparr>bin_class = 3, bin_id = Some ''data-write'', bin_desc = Some ''Data write''\<rparr>]"

definition i2c_inputs :: "string list" where
  "i2c_inputs = [
     ''logic'']"

definition i2c_outputs :: "string list" where
  "i2c_outputs = [
     ''i2c'']"

definition i2c_tags :: "string list" where
  "i2c_tags = [
     ''Embedded/industrial'']"

definition i2c_c_def :: srd_c_decoder where
  "i2c_c_def = \<lparr>cd_id = Some ''i2c_c'', cd_name = Some (''I'' @ bytes_str [0xC2, 0xB2] @ ''C(C)''),
     cd_longname = Some ''Inter-Integrated Circuit'', cd_desc = Some ''I2C serial bus protocol'', cd_license = Some ''gplv2+'',
     cd_channels = Some i2c_channels, cd_num_channels = 2,
     cd_optional_channels = None, cd_num_optional_channels = 0,
     cd_options = Some i2c_options, cd_num_options = 3,
     cd_num_annotations = 13, cd_ann_labels = Some i2c_ann_labels,
     cd_num_annotation_rows = 4, cd_annotation_rows = Some i2c_ann_rows,
     cd_inputs = Some i2c_inputs, cd_num_inputs = 1, cd_outputs = Some i2c_outputs, cd_num_outputs = 1,
     cd_binary = Some i2c_binary, cd_num_binary = 4, cd_tags = Some i2c_tags, cd_num_tags = 1\<rparr>"

lemma i2c_described: "described i2c_c_def = (True, True, True)"
  by (simp add: described_simps i2c_options_def i2c_channels_def i2c_ann_labels_def i2c_ann_rows_def i2c_binary_def i2c_inputs_def i2c_outputs_def i2c_tags_def i2c_c_def_def)

section \<open>i2c_packet_c.c\<close>

definition i2c_packet_options :: "srd_decoder_option list" where
  "i2c_packet_options = [
     \<lparr>opt_id = Some ''format'', opt_idn = Some ''dec_i2c_packet_opt_format'', opt_desc = Some ''Data format'',
        opt_def = Some (GV_string ''hex''), opt_values = [GV_string ''ascii'', GV_string ''dec'', GV_string ''hex'', GV_string ''oct'', GV_string ''bin'']\<rparr>]"

definition i2c_packet_ann_labels :: "(string option \<times> string option \<times> string option) list" where
  "i2c_packet_ann_labels = [
     (Some [], Some ''data'', Some ''Data'')]"

definition i2c_packet_ann_rows :: "srd_c_ann_row list" where
  "i2c_packet_ann_rows = [
     \<lparr>car_id = Some ''packet'', car_desc = Some ''Packet'', car_ann_classes = Some [0], car_num_ann_classes = 1\<rparr>]"

definition i2c_packet_inputs :: "string list" where
  "i2c_packet_inputs = [
     ''i2c'']"

definition i2c_packet_tags :: "string list" where
  "i2c_packet_tags = [
     ''Embedded/industrial'']"

definition i2c_packet_c_def :: srd_c_decoder where
  "i2c_packet_c_def = \<lparr>cd_id = Some ''i2c_packet_c'', cd_name = Some ''I2C packet(C)'',
     cd_longname = Some ''I2C packet builder (C)'', cd_desc = Some ''Concatenate I2C data to packets. (C implementation)'', cd_license = Some ''mit'',
     cd_channels = None, cd_num_channels = 0,
     cd_optional_channels = None, cd_num_optional_channels = 0,
     cd_options = Some i2c_packet_options, cd_num_options = 1,
     cd_num_annotations = 1, cd_ann_labels = Some i2c_packet_ann_labels,
     cd_num_annotation_rows = 1, cd_annotation_rows = Some i2c_packet_ann_rows,
     cd_inputs = Some i2c_packet_inputs, cd_num_inputs = 1, cd_outputs = None, cd_num_outputs = 0,
     cd_binary = None, cd_num_binary = 0, cd_tags = Some i2c_packet_tags, cd_num_tags = 1\<rparr>"

lemma i2c_packet_described: "described i2c_packet_c_def = (True, True, True)"
  by (simp add: described_simps i2c_packet_options_def i2c_packet_ann_labels_def i2c_packet_ann_rows_def i2c_packet_inputs_def i2c_packet_tags_def i2c_packet_c_def_def)

section \<open>i2cdemux_c.c\<close>

definition i2cdemux_inputs :: "string list" where
  "i2cdemux_inputs = [
     ''i2c'']"

definition i2cdemux_tags :: "string list" where
  "i2cdemux_tags = [
     ''Util'']"

definition i2cdemux_c_def :: srd_c_decoder where
  "i2cdemux_c_def = \<lparr>cd_id = Some ''i2cdemux_c'', cd_name = Some ''I2C demux(C)'',
     cd_longname = Some ''I2C demultiplexer (C)'', cd_desc = Some ''Demux I2C packets into per-slave-address streams. (C implementation)'', cd_license = Some ''gplv2+'',
     cd_channels = None, cd_num_channels = 0,
     cd_optional_channels = None, cd_num_optional_channels = 0,
     cd_options = None, cd_num_options = 0,
     cd_num_annotations = 0, cd_ann_labels = None,
     cd_num_annotation_rows = 0, cd_annotation_rows = None,
     cd_inputs = Some i2cdemux_inputs, cd_num_inputs = 1, cd_outputs = None, cd_num_outputs = 0,
     cd_binary = None, cd_num_binary = 0, cd_tags = Some i2cdemux_tags, cd_num_tags = 1\<rparr>"

lemma i2cdemux_described: "described i2cdemux_c_def = (True, True, True)"
  by (simp add: described_simps i2cdemux_inputs_def i2cdemux_tags_def i2cdemux_c_def_def)

section \<open>i2cfilter_c.c\<close>

definition i2cfilter_options :: "srd_decoder_option list" where
  "i2cfilter_options = [
     \<lparr>opt_id = Some ''address'', opt_idn = Some ''dec_i2cfilter_opt_address'', opt_desc = Some ''Address to filter out of the I2C stream'',
        opt_def = Some (GV_int64 0), opt_values = []\<rparr>,
     \<lparr>opt_id = Some ''direction'', opt_idn = Some ''dec_i2cfilter_opt_direction'', opt_desc = Some ''Direction to filter'',
        opt_def = Some (GV_string ''both''), opt_values = [GV_string ''read'', GV_string ''write'', GV_string ''both'']\<rparr>]"

definition i2cfilter_inputs :: "string list" where
  "i2cfilter_inputs = [
     ''i2c'']"

definition i2cfilter_outputs :: "string list" where
  "i2cfilter_outputs = [
     ''i2c'']"

definition i2cfilter_tags :: "string list" where
  "i2cfilter_tags = [
     ''Util'']"

definition i2cfilter_c_def :: srd_c_decoder where
  "i2cfilter_c_def = \<lparr>cd_id = Some ''i2cfilter_c'', cd_name = Some ''I2C filter(C)'',
     cd_longname = Some ''I2C filter (C)'', cd_desc = Some ''Filter out addresses/directions in an I2C stream. (C implementation)'', cd_license = Some ''gplv3+'',
     cd_channels = None, cd_num_channels = 0,
     cd_optional_channels = None, cd_num_optional_channels = 0,
     cd_options = Some i2cfilter_options, cd_num_options = 2,
     cd_num_annotations = 0, cd_ann_labels = None,
     cd_num_annotation_rows = 0, cd_annotation_rows = None,
     cd_inputs = Some i2cfilter_inputs, cd_num_inputs = 1, cd_outputs = Some i2cfilter_outputs, cd_num_outputs = 1,
     cd_binary = None, cd_num_binary = 0, cd_tags = Some i2cfilter_tags, cd_num_tags = 1\<rparr>"

lemma i2cfilter_described: "described i2cfilter_c_def = (True, True, True)"
  by (simp add: described_simps i2cfilter_options_def i2cfilter_inputs_def i2cfilter_outputs_def i2cfilter_tags_def i2cfilter_c_def_def)

section \<open>i2s_c.c\<close>

definition i2s_options :: "srd_decoder_option list" where
  "i2s_options = [
     \<lparr>opt_id = Some ''ws_polarity'', opt_idn = Some ''dec_i2s_opt_ws_polarity'', opt_desc = Some ''WS polarity'',
        opt_def = Some (GV_string ''left-high''), opt_values = []\<rparr>,
     \<lparr>opt_id = Some ''clk_edge'', opt_idn = Some ''dec_i2s_opt_clk_edge'', opt_desc = Some ''SCK active edge'',
        opt_def = Some (GV_string ''rising-edge''), opt_values = []\<rparr>,
     \<lparr>opt_id = Some ''bit_shift'', opt_idn = Some ''dec_i2s_opt_bit_shift'', opt_desc = Some ''Bit shift'',
        opt_def = Some (GV_string ''none''), opt_values = []\<rparr>,
     \<lparr>opt_id = Some ''bit_align'', opt_idn = Some ''dec_i2s_opt_bit_align'', opt_desc = Some ''Bit align'',
        opt_def = Some (GV_string ''left-aligned''), opt_values = []\<rparr>,
     \<lparr>opt_id = Some ''bitorder'', opt_idn = Some ''dec_i2s_opt_bitorder'', opt_desc = Some ''Bit order'',
        opt_def = Some (GV_string ''msb-first''), opt_values = []\<rparr>,
     \<lparr>opt_id = Some ''wordsize'', opt_idn = Some ''dec_i2s_opt_wordsize'', opt_desc = Some ''Word size'',
        opt_def = Some (GV_int64 16), opt_values = []\<rparr>]"

definition i2s_channels :: "srd_channel list" where
  "i2s_channels = [
     \<lparr>ch_id = Some ''sck'', ch_name = Some ''SCK'', ch_desc = Some ''Bit clock line'', ch_order = 0, ch_type = 0, ch_idn = Some ''dec_i2s_chan_sck''\<rparr>,
     \<lparr>ch_id = Some ''ws'', ch_name = Some ''WS'', ch_desc = Some ''Word select line'', ch_order = 1, ch_type = -1, ch_idn = Some ''dec_i2s_chan_ws''\<rparr>,
     \<lparr>ch_id = Some ''sd'', ch_name = Some ''SD'', ch_desc = Some ''Serial data line'', ch_order = 2, ch_type = 1, ch_idn = Some ''dec_i2s_chan_sd''\<rparr>]"

definition i2s_ann_labels :: "(string option \<times> string option \<times> string option) list" where
  "i2s_ann_labels = [
     (Some [], Some ''left'', Some ''Left channel''),
     (Some [], Some ''right'', Some ''Right channel''),
     (Some [], Some ''warnings'', Some ''Warnings'')]"

definition i2s_binary :: "srd_decoder_binary list" where
  "i2s_binary = [
     \<lparr>bin_class = 0, bin_id = Some ''wav'', bin_desc = Some ''WAV file''\<rparr>]"

definition i2s_inputs :: "string list" where
  "i2s_inputs = [
     ''logic'']"

definition i2s_outputs :: "string list" where
  "i2s_outputs = [
     ''i2s'']"

definition i2s_tags :: "string list" where
  "i2s_tags = [
     ''Audio'',
     ''PC'']"

definition i2s_c_def :: srd_c_decoder where
  "i2s_c_def = \<lparr>cd_id = Some ''i2s_c'', cd_name = Some (''I'' @ bytes_str [0xC2, 0xB2] @ ''S(C)''),
     cd_longname = Some ''Inter-IC Sound (C)'', cd_desc = Some ''I2S protocol decoder (C implementation)'', cd_license = Some ''gplv2+'',
     cd_channels = Some i2s_channels, cd_num_channels = 3,
     cd_optional_channels = None, cd_num_optional_channels = 0,
     cd_options = Some i2s_options, cd_num_options = 6,
     cd_num_annotations = 3, cd_ann_labels = Some i2s_ann_labels,
     cd_num_annotation_rows = 0, cd_annotation_rows = None,
     cd_inputs = Some i2s_inputs, cd_num_inputs = 1, cd_outputs = Some i2s_outputs, cd_num_outputs = 1,
     cd_binary = Some i2s_binary, cd_num_binary = 1, cd_tags = Some i2s_tags, cd_num_tags = 2\<rparr>"

lemma i2s_described: "described i2s_c_def = (True, True, True)"
  by (simp add: described_simps i2s_options_def i2s_channels_def i2s_ann_labels_def i2s_binary_def i2s_inputs_def i2s_outputs_def i2s_tags_def i2s_c_def_def)

section \<open>iebus_c.c\<close>

definition iebus_options :: "srd_decoder_option list" where
  "iebus_options = [
     \<lparr>opt_id = Some ''mode'', opt_idn = None, opt_desc = Some ''Mode'',
        opt_def = Some (GV_string ''Mode 2''), opt_values = [GV_string ''Mode 2'']\<rparr>,
     \<lparr>opt_id = Some ''bus_polarity'', opt_idn = None, opt_desc = Some ''Bus polarity'',
        opt_def = Some (GV_string ''idle-low''), opt_values = [GV_string ''idle-low'', GV_string ''idle-high'']\<rparr>,
     \<lparr>opt_id = Some ''ignore_nak'', opt_idn = None, opt_desc = Some ''Ignore NAK condition'',
        opt_def = Some (GV_string ''Disabled''), opt_values = [GV_string ''Disabled'', GV_string ''Enabled'']\<rparr>]"

definition iebus_channels :: "srd_channel list" where
  "iebus_channels = [
     \<lparr>ch_id = Some ''bus'', ch_name = Some ''BUS'', ch_desc = Some ''Bus input'', ch_order = 0, ch_type = 1, ch_idn = Some ''dec_iebus_chan_bus''\<rparr>]"

definition iebus_ann_labels :: "(string option \<times> string option \<times> string option) list" where
  "iebus_ann_labels = [
     (Some [], Some ''start-bit'', Some ''Start bit''),
     (Some [], Some ''bit'', Some ''Bit''),
     (Some [], Some ''parity'', Some ''Parity''),
     (Some [], Some ''ack'', Some ''Acknowledge''),
     (Some [], Some ''broadcast'', Some ''Broadcast flag''),
     (Some [], Some ''maddr'', Some ''Master address''),
     (Some [], Some ''saddr'', Some ''Slave address''),
     (Some [], Some ''control'', Some ''Control''),
     (Some [], Some ''datalen'', Some ''Data Length''),
     (Some [], Some ''byte'', Some ''Data Byte''),
     (Some [], Some ''warning'', Some ''Warning'')]"

definition iebus_ann_rows :: "srd_c_ann_row list" where
  "iebus_ann_rows = [
     \<lparr>car_id = Some ''bits'', car_desc = Some ''Bits'', car_ann_classes = Some [0, 1, 2, 3], car_num_ann_classes = 4\<rparr>,
     \<lparr>car_id = Some ''fields'', car_desc = Some ''Raw Fields'', car_ann_classes = Some [4, 5, 6, 7, 8, 9], car_num_ann_classes = 6\<rparr>,
     \<lparr>car_id = Some ''warnings'', car_desc = Some ''Warnings'', car_ann_classes = Some [10], car_num_ann_classes = 1\<rparr>]"

definition iebus_inputs :: "string list" where
  "iebus_inputs = [
     ''logic'']"

definition iebus_outputs :: "string list" where
  "iebus_outputs = [
     ''iebus'']"

definition iebus_tags :: "string list" where
  "iebus_tags = [
     ''Automotive'']"

definition iebus_c_def :: srd_c_decoder where
  "iebus_c_def = \<lparr>cd_id = Some ''iebus_c'', cd_name = Some ''IEBus(C)'',
     cd_longname = Some ''Inter-Equipment Bus (C)'', cd_desc = Some ''Inter-Equipment Bus is an automotive communication bus used in Toyota and Honda vehicles (C implementation)'', cd_license = Some ''gplv3+'',
     cd_channels = Some iebus_channels, cd_num_channels = 1,
     cd_optional_channels = None, cd_num_optional_channels = 0,
     cd_options = Some iebus_options, cd_num_options = 3,
     cd_num_annotations = 11, cd_ann_labels = Some iebus_ann_labels,
     cd_num_annotation_rows = 3, cd_annotation_rows = Some iebus_ann_rows,
     cd_inputs = Some iebus_inputs, cd_num_inputs = 1, cd_outputs = Some iebus_outputs, cd_num_outputs = 1,
     cd_binary = None, cd_num_binary = 0, cd_tags = Some iebus_tags, cd_num_tags = 1\<rparr>"

lemma iebus_described: "described iebus_c_def = (True, True, True)"
  by (simp add: described_simps iebus_options_def iebus_channels_def iebus_ann_labels_def iebus_ann_rows_def iebus_inputs_def iebus_outputs_def iebus_tags_def iebus_c_def_def)

section \<open>iec_c.c\<close>

definition iec_channels :: "srd_channel list" where
  "iec_channels = [
     \<lparr>ch_id = Some ''data'', ch_name = Some ''DATA'', ch_desc = Some ''Data I/O'', ch_order = 0, ch_type = 1, ch_idn = Some ''dec_iec_chan_data''\<rparr>,
     \<lparr>ch_id = Some ''clk'', ch_name = Some ''CLK'', ch_desc = Some ''Clock'', ch_order = 1, ch_type = 0, ch_idn = Some ''dec_iec_chan_clk''\<rparr>,
     \<lparr>ch_id = Some ''atn'', ch_name = Some ''ATN'', ch_desc = Some ''Attention'', ch_order = 2, ch_type = 1, ch_idn = Some ''dec_iec_chan_atn''\<rparr>]"

definition iec_optional_channels :: "srd_channel list" where
  "iec_optional_channels = [
     \<lparr>ch_id = Some ''srq'', ch_name = Some ''SRQ'', ch_desc = Some ''Service request'', ch_order = 0, ch_type = 1, ch_idn = Some ''dec_iec_opt_chan_srq''\<rparr>]"

definition iec_ann_labels :: "(string option \<times> string option \<times> string option) list" where
  "iec_ann_labels = [
     (Some [], Some ''items'', Some ''Items''),
     (Some [], Some ''gpib'', Some ''DAT/CMD''),
     (Some [], Some ''eoi'', Some ''EOI'')]"

definition iec_ann_rows :: "srd_c_ann_row list" where
  "iec_ann_rows = [
     \<lparr>car_id = Some ''bytes'', car_desc = Some ''Bytes'', car_ann_classes = Some [0], car_num_ann_classes = 1\<rparr>,
     \<lparr>car_id = Some ''gpib'', car_desc = Some ''DAT/CMD'', car_ann_classes = Some [1], car_num_ann_classes = 1\<rparr>,
     \<lparr>car_id = Some ''eoi'', car_desc = Some ''EOI'', car_ann_classes = Some [2], car_num_ann_classes = 1\<rparr>]"

definition iec_inputs :: "string list" where
  "iec_inputs = [
     ''logic'']"

definition iec_outputs :: "string list" where
  "iec_outputs = []"

definition iec_tags :: "string list" where
  "iec_tags = [
     ''PC'',
     ''Retro computing'']"

definition iec_c_def :: srd_c_decoder where
  "iec_c_def = \<lparr>cd_id = Some ''iec_c'', cd_name = Some ''IEC(C)'',
     cd_longname = Some ''Commodore IEC bus (C)'', cd_desc = Some ''Commodore serial IEEE-488 (IEC) bus protocol. (C implementation)'', cd_license = Some ''gplv2+'',
     cd_channels = Some iec_channels, cd_num_channels = 3,
     cd_optional_channels = Some iec_optional_channels, cd_num_optional_channels = 1,
     cd_options = None, cd_num_options = 0,
     cd_num_annotations = 3, cd_ann_labels = Some iec_ann_labels,
     cd_num_annotation_rows = 3, cd_annotation_rows = Some iec_ann_rows,
     cd_inputs = Some iec_inputs, cd_num_inputs = 1, cd_outputs = Some iec_outputs, cd_num_outputs = 0,
     cd_binary = None, cd_num_binary = 0, cd_tags = Some iec_tags, cd_num_tags = 2\<rparr>"

lemma iec_described: "described iec_c_def = (True, False, True)"
  by (simp add: described_simps iec_channels_def iec_optional_channels_def iec_ann_labels_def iec_ann_rows_def iec_inputs_def iec_outputs_def iec_tags_def iec_c_def_def)

section \<open>ieee488_c.c\<close>

definition ieee488_options :: "srd_decoder_option list" where
  "ieee488_options = [
     \<lparr>opt_id = Some ''iec_periph'', opt_idn = Some ''dec_ieee488_opt_iec_periph'', opt_desc = Some ''Decode Commodore IEC bus peripherals details'',
        opt_def = Some (GV_string ''no''), opt_values = [GV_string ''no'', GV_string ''yes'']\<rparr>,
     \<lparr>opt_id = Some ''delim'', opt_idn = Some ''dec_ieee488_opt_delim'', opt_desc = Some ''Payload data delimiter'',
        opt_def = Some (GV_string ''eol''), opt_values = [GV_string ''none'', GV_string ''eol'']\<rparr>]"

definition ieee488_channels :: "srd_channel list" where
  "ieee488_channels = [
     \<lparr>ch_id = Some ''dio1'', ch_name = Some ''DIO1/DATA'', ch_desc = Some ''Data I/O bit 1, or serial data'', ch_order = 0, ch_type = 1, ch_idn = Some ''dec_ieee488_chan_dio1''\<rparr>]"

definition ieee488_optional_channels :: "srd_channel list" where
  "ieee488_optional_channels = [
     \<lparr>ch_id = Some ''dio2'', ch_name = Some ''DIO2'', ch_desc = Some ''Data I/O bit 2'', ch_order = 1, ch_type = -1, ch_idn = Some ''dec_ieee488_opt_chan_dio2''\<rparr>,
     \<lparr>ch_id = Some ''dio3'', ch_name = Some ''DIO3'', ch_desc = Some ''Data I/O bit 3'', ch_order = 2, ch_type = -1, ch_idn = Some ''dec_ieee488_opt_chan_dio3''\<rparr>,
     \<lparr>ch_id = Some ''dio4'', ch_name = Some ''DIO4'', ch_desc = Some ''Data I/O bit 4'', ch_order = 3, ch_type = -1, ch_idn = Some ''dec_ieee488_opt_chan_dio4''\<rparr>,
     \<lparr>ch_id = Some ''dio5'', ch_name = Some ''DIO5'', ch_desc = Some ''Data I/O bit 5'', ch_order = 4, ch_type = -1, ch_idn = Some ''dec_ieee488_opt_chan_dio5''\<rparr>,
     \<lparr>ch_id = Some ''dio6'', ch_name = Some ''DIO6'', ch_desc = Some ''Data I/O bit 6'', ch_order = 5, ch_type = -1, ch_idn = Some ''dec_ieee488_opt_chan_dio6''\<rparr>,
     \<lparr>ch_id = Some ''dio7'', ch_name = Some ''DIO7'', ch_desc = Some ''Data I/O bit 7'', ch_order = 6, ch_type = -1, ch_idn = Some ''dec_ieee488_opt_chan_dio7''\<rparr>,
     \<lparr>ch_id = Some ''dio8'', ch_name = Some ''DIO8'', ch_desc = Some ''Data I/O bit 8'', ch_order = 7, ch_type = -1, ch_idn = Some ''dec_ieee488_opt_chan_dio8''\<rparr>,
     \<lparr>ch_id = Some ''eoi'', ch_name = Some ''EOI'', ch_desc = Some ''End or identify'', ch_order = 8, ch_type = -1, ch_idn = Some ''dec_ieee488_opt_chan_eoi''\<rparr>,
     \<lparr>ch_id = Some ''dav'', ch_name = Some ''DAV'', ch_desc = Some ''Data valid'', ch_order = 9, ch_type = -1, ch_idn = Some ''dec_ieee488_opt_chan_dav''\<rparr>,
     \<lparr>ch_id = Some ''nrfd'', ch_name = Some ''NRFD'', ch_desc = Some ''Not ready for data'', ch_order = 10, ch_type = -1, ch_idn = Some ''dec_ieee488_opt_chan_nrfd''\<rparr>,
     \<lparr>ch_id = Some ''ndac'', ch_name = Some ''NDAC'', ch_desc = Some ''Not data accepted'', ch_order = 11, ch_type = -1, ch_idn = Some ''dec_ieee488_opt_chan_ndac''\<rparr>,
     \<lparr>ch_id = Some ''ifc'', ch_name = Some ''IFC'', ch_desc = Some ''Interface clear'', ch_order = 12, ch_type = -1, ch_idn = Some ''dec_ieee488_opt_chan_ifc''\<rparr>,
     \<lparr>ch_id = Some ''srq'', ch_name = Some ''SRQ'', ch_desc = Some ''Service request'', ch_order = 13, ch_type = -1, ch_idn = Some ''dec_ieee488_opt_chan_srq''\<rparr>,
     \<lparr>ch_id = Some ''atn'', ch_name = Some ''ATN'', ch_desc = Some ''Attention'', ch_order = 14, ch_type = -1, ch_idn = Some ''dec_ieee488_opt_chan_atn''\<rparr>,
     \<lparr>ch_id = Some ''ren'', ch_name = Some ''REN'', ch_desc = Some ''Remote enable'', ch_order = 15, ch_type = -1, ch_idn = Some ''dec_ieee488_opt_chan_ren''\<rparr>,
     \<lparr>ch_id = Some ''clk'', ch_name = Some ''CLK'', ch_desc = Some ''Serial clock'', ch_order = 16, ch_type = -1, ch_idn = Some ''dec_ieee488_opt_chan_clk''\<rparr>]"

definition ieee488_ann_labels :: "(string option \<times> string option \<times> string option) list" where
  "ieee488_ann_labels = [
     (Some [], Some ''bit'', Some ''IEC bit''),
     (Some [], Some ''raw'', Some ''Raw byte''),
     (Some [], Some ''cmd'', Some ''Command''),
     (Some [], Some ''laddr'', Some ''Listener address''),
     (Some [], Some ''taddr'', Some ''Talker address''),
     (Some [], Some ''saddr'', Some ''Secondary address''),
     (Some [], Some ''data'', Some ''Data byte''),
     (Some [], Some ''eoi'', Some ''EOI''),
     (Some [], Some ''text'', Some ''Talker text''),
     (Some [], Some ''periph'', Some ''IEC bus peripherals''),
     (Some [], Some ''warning'', Some ''Warning'')]"

definition ieee488_ann_rows :: "srd_c_ann_row list" where
  "ieee488_ann_rows = [
     \<lparr>car_id = Some ''bits'', car_desc = Some ''IEC bits'', car_ann_classes = Some [0], car_num_ann_classes = 1\<rparr>,
     \<lparr>car_id = Some ''raws'', car_desc = Some ''Raw bytes'', car_ann_classes = Some [1], car_num_ann_classes = 1\<rparr>,
     \<lparr>car_id = Some ''gpib'', car_desc = Some ''Commands/data'', car_ann_classes = Some [2, 3, 4, 5, 6], car_num_ann_classes = 5\<rparr>,
     \<lparr>car_id = Some ''eois'', car_desc = Some ''EOI'', car_ann_classes = Some [7], car_num_ann_classes = 1\<rparr>,
     \<lparr>car_id = Some ''texts'', car_desc = Some ''Talker texts'', car_ann_classes = Some [8], car_num_ann_classes = 1\<rparr>,
     \<lparr>car_id = Some ''periphs'', car_desc = Some ''IEC peripherals'', car_ann_classes = Some [9], car_num_ann_classes = 1\<rparr>,
     \<lparr>car_id = Some ''warnings'', car_desc = Some ''Warnings'', car_ann_classes = Some [10], car_num_ann_classes = 1\<rparr>]"

definition ieee488_binary :: "srd_decoder_binary list" where
  "ieee488_binary = [
     \<lparr>bin_class = 0, bin_id = Some ''raw'', bin_desc = Some ''Raw bytes''\<rparr>,
     \<lparr>bin_class = 1, bin_id = Some ''data'', bin_desc = Some ''Talker bytes''\<rparr>]"

definition ieee488_inputs :: "string list" where
  "ieee488_inputs = [
     ''logic'']"

definition ieee488_outputs :: "string list" where
  "ieee488_outputs = [
     ''ieee488'']"

definition ieee488_tags :: "string list" where
  "ieee488_tags = [
     ''PC'',
     ''Retro computing'']"

definition ieee488_c_def :: srd_c_decoder where
  "ieee488_c_def = \<lparr>cd_id = Some ''ieee488_c'', cd_name = Some ''IEEE-488(C)'',
     cd_longname = Some ''IEEE-488 GPIB/HPIB/IEC (C)'', cd_desc = Some ''IEEE-488 General Purpose Interface Bus (GPIB/HPIB or IEC) decoder (C implementation)'', cd_license = Some ''gplv2+'',
     cd_channels = Some ieee488_channels, cd_num_channels = 1,
     cd_optional_channels = Some ieee488_optional_channels, cd_num_optional_channels = 16,
     cd_options = Some ieee488_options, cd_num_options = 2,
     cd_num_annotations = 11, cd_ann_labels = Some ieee488_ann_labels,
     cd_num_annotation_rows = 7, cd_annotation_rows = Some ieee488_ann_rows,
     cd_inputs = Some ieee488_inputs, cd_num_inputs = 1, cd_outputs = Some ieee488_outputs, cd_num_outputs = 1,
     cd_binary = Some ieee488_binary, cd_num_binary = 2, cd_tags = Some ieee488_tags, cd_num_tags = 2\<rparr>"

lemma ieee488_described: "described ieee488_c_def = (True, True, True)"
  by (simp add: described_simps ieee488_options_def ieee488_channels_def ieee488_optional_channels_def ieee488_ann_labels_def ieee488_ann_rows_def ieee488_binary_def ieee488_inputs_def ieee488_outputs_def ieee488_tags_def ieee488_c_def_def)

section \<open>ipv4_c.c\<close>

definition ipv4_ann_labels :: "(string option \<times> string option \<times> string option) list" where
  "ipv4_ann_labels = [
     (Some [], Some ''header'', Some ''Decoded header''),
     (Some [], Some ''data'', Some ''Decoded data'')]"

definition ipv4_ann_rows :: "srd_c_ann_row list" where
  "ipv4_ann_rows = [
     \<lparr>car_id = Some ''headers'', car_desc = Some ''Headers'', car_ann_classes = Some [0], car_num_ann_classes = 1\<rparr>,
     \<lparr>car_id = Some ''datas'', car_desc = Some ''Datas'', car_ann_classes = Some [1], car_num_ann_classes = 1\<rparr>]"

definition ipv4_inputs :: "string list" where
  "ipv4_inputs = [
     ''ethernet'']"

definition ipv4_outputs :: "string list" where
  "ipv4_outputs = [
     ''ipv4'']"

definition ipv4_tags :: "string list" where
  "ipv4_tags = [
     ''Networking'',
     ''PC'']"

definition ipv4_c_def :: srd_c_decoder where
  "ipv4_c_def = \<lparr>cd_id = Some ''ipv4_c'', cd_name = Some ''IPv4(C)'',
     cd_longname = Some ''Internet Protocol Version 4 (C)'', cd_desc = Some ''IPv4 (C implementation)'', cd_license = Some ''gplv2+'',
     cd_channels = None, cd_num_channels = 0,
     cd_optional_channels = None, cd_num_optional_channels = 0,
     cd_options = None, cd_num_options = 0,
     cd_num_annotations = 2, cd_ann_labels = Some ipv4_ann_labels,
     cd_num_annotation_rows = 2, cd_annotation_rows = Some ipv4_ann_rows,
     cd_inputs = Some ipv4_inputs, cd_num_inputs = 1, cd_outputs = Some ipv4_outputs, cd_num_outputs = 1,
     cd_binary = None, cd_num_binary = 0, cd_tags = Some ipv4_tags, cd_num_tags = 2\<rparr>"

lemma ipv4_described: "described ipv4_c_def = (True, True, True)"
  by (simp add: described_simps ipv4_ann_labels_def ipv4_ann_rows_def ipv4_inputs_def ipv4_outputs_def ipv4_tags_def ipv4_c_def_def)

section \<open>ir_irmp_c.c\<close>

definition ir_irmp_options :: "srd_decoder_option list" where
  "ir_irmp_options = [
     \<lparr>opt_id = Some ''polarity'', opt_idn = Some ''dec_ir_irmp_opt_polarity'', opt_desc = Some ''Polarity'',
        opt_def = Some (GV_string ''active-low''), opt_values = [GV_string ''active-low'', GV_string ''active-high'']\<rparr>]"

definition ir_irmp_channels :: "srd_channel list" where
  "ir_irmp_channels = [
     \<lparr>ch_id = Some ''ir'', ch_name = Some ''IR'', ch_desc = Some ''Data line'', ch_order = 0, ch_type = 1, ch_idn = Some ''dec_ir_irmp_chan_ir''\<rparr>]"

definition ir_irmp_ann_labels :: "(string option \<times> string option \<times> string option) list" where
  "ir_irmp_ann_labels = [
     (Some [], Some ''packet'', Some ''Packet'')]"

definition ir_irmp_ann_rows :: "srd_c_ann_row list" where
  "ir_irmp_ann_rows = [
     \<lparr>car_id = Some ''packets'', car_desc = Some ''IR Packets'', car_ann_classes = Some [0], car_num_ann_classes = 1\<rparr>]"

definition ir_irmp_inputs :: "string list" where
  "ir_irmp_inputs = [
     ''logic'']"

definition ir_irmp_outputs :: "string list" where
  "ir_irmp_outputs = []"

definition ir_irmp_tags :: "string list" where
  "ir_irmp_tags = [
     ''IR'']"

definition ir_irmp_c_def :: srd_c_decoder where
  "ir_irmp_c_def = \<lparr>cd_id = Some ''ir_irmp_c'', cd_name = Some ''IR IRMP(C)'',
     cd_longname = Some ''IRMP infrared remote control multi protocol (C)'', cd_desc = Some ''IRMP infrared remote control multi protocol decoder (C implementation)'', cd_license = Some ''gplv2+'',
     cd_channels = Some ir_irmp_channels, cd_num_channels = 1,
     cd_optional_channels = None, cd_num_optional_channels = 0,
     cd_options = Some ir_irmp_options, cd_num_options = 1,
     cd_num_annotations = 1, cd_ann_labels = Some ir_irmp_ann_labels,
     cd_num_annotation_rows = 1, cd_annotation_rows = Some ir_irmp_ann_rows,
     cd_inputs = Some ir_irmp_inputs, cd_num_inputs = 1, cd_outputs = Some ir_irmp_outputs, cd_num_outputs = 0,
     cd_binary = None, cd_num_binary = 0, cd_tags = Some ir_irmp_tags, cd_num_tags = 1\<rparr>"

lemma ir_irmp_described: "described ir_irmp_c_def = (True, True, True)"
  by (simp add: described_simps ir_irmp_options_def ir_irmp_channels_def ir_irmp_ann_labels_def ir_irmp_ann_rows_def ir_irmp_inputs_def ir_irmp_outputs_def ir_irmp_tags_def ir_irmp_c_def_def)

section \<open>ir_ltto_c.c\<close>

definition ir_ltto_options :: "srd_decoder_option list" where
  "ir_ltto_options = [
     \<lparr>opt_id = Some ''polarity'', opt_idn = Some [], opt_desc = Some ''Polarity'',
        opt_def = Some (GV_string ''active-low''), opt_values = [GV_string ''active-low'', GV_string ''active-high'']\<rparr>]"

definition ir_ltto_channels :: "srd_channel list" where
  "ir_ltto_channels = [
     \<lparr>ch_id = Some ''ir'', ch_name = Some ''IR'', ch_desc = Some ''Demodulated IR'', ch_order = 0, ch_type = 1, ch_idn = Some []\<rparr>]"

definition ir_ltto_ann_labels :: "(string option \<times> string option \<times> string option) list" where
  "ir_ltto_ann_labels = [
     (Some [], Some ''pre-sync'', Some ''PRE-SYNC''),
     (Some [], Some ''pre-sync-pause'', Some ''PRE-SYNC PAUSE''),
     (Some [], Some ''sync'', Some ''SYNC''),
     (Some [], Some ''long-sync'', Some ''LONG-SYNC''),
     (Some [], Some ''bit-pause'', Some ''Bit Pause''),
     (Some [], Some ''bit'', Some ''Bit''),
     (Some [], Some ''signature'', Some ''Signature''),
     (Some [], Some ''long-sync-signature'', Some ''Long SYNC Signature''),
     (Some [], Some ''signature-error'', Some ''Error'')]"

definition ir_ltto_ann_rows :: "srd_c_ann_row list" where
  "ir_ltto_ann_rows = [
     \<lparr>car_id = Some ''bits'', car_desc = Some ''Bits'', car_ann_classes = Some [0, 1, 2, 3, 4, 5], car_num_ann_classes = 6\<rparr>,
     \<lparr>car_id = Some ''signatures'', car_desc = Some ''Signatures'', car_ann_classes = Some [6, 7, 8], car_num_ann_classes = 3\<rparr>]"

definition ir_ltto_inputs :: "string list" where
  "ir_ltto_inputs = [
     ''logic'']"

definition ir_ltto_outputs :: "string list" where
  "ir_ltto_outputs = [
     ''ir_ltto'']"

definition ir_ltto_tags :: "string list" where
  "ir_ltto_tags = [
     ''Embedded/industrial'']"

definition ir_ltto_c_def :: srd_c_decoder where
  "ir_ltto_c_def = \<lparr>cd_id = Some ''ir_ltto_c'', cd_name = Some ''IR LTTO(C)'',
     cd_longname = Some ''LTTO laser tag IR (C)'', cd_desc = Some ''A decoder for the LTTO laser tag IR protocol (C implementation)'', cd_license = Some ''unknown'',
     cd_channels = Some ir_ltto_channels, cd_num_channels = 1,
     cd_optional_channels = None, cd_num_optional_channels = 0,
     cd_options = Some ir_ltto_options, cd_num_options = 1,
     cd_num_annotations = 9, cd_ann_labels = Some ir_ltto_ann_labels,
     cd_num_annotation_rows = 2, cd_annotation_rows = Some ir_ltto_ann_rows,
     cd_inputs = Some ir_ltto_inputs, cd_num_inputs = 1, cd_outputs = Some ir_ltto_outputs, cd_num_outputs = 1,
     cd_binary = None, cd_num_binary = 0, cd_tags = Some ir_ltto_tags, cd_num_tags = 1\<rparr>"

lemma ir_ltto_described: "described ir_ltto_c_def = (True, True, True)"
  by (simp add: described_simps ir_ltto_options_def ir_ltto_channels_def ir_ltto_ann_labels_def ir_ltto_ann_rows_def ir_ltto_inputs_def ir_ltto_outputs_def ir_ltto_tags_def ir_ltto_c_def_def)

section \<open>ir_ltto_decode_c.c\<close>

definition ir_ltto_decode_ann_labels :: "(string option \<times> string option \<times> string option) list" where
  "ir_ltto_decode_ann_labels = [
     (Some [], Some ''Signature Type'', Some ''Signature Type''),
     (Some [], Some ''Error'', Some ''Error''),
     (Some [], Some ''Signature Data'', Some ''Signature Data''),
     (Some [], Some ''Packet Type'', Some ''Packet Type''),
     (Some [], Some ''Packet Error'', Some ''Packet Error''),
     (Some [], Some ''Packet Data'', Some ''Packet Data'')]"

definition ir_ltto_decode_ann_rows :: "srd_c_ann_row list" where
  "ir_ltto_decode_ann_rows = [
     \<lparr>car_id = Some ''signature-types'', car_desc = Some ''Signature type'', car_ann_classes = Some [0, 1], car_num_ann_classes = 2\<rparr>,
     \<lparr>car_id = Some ''signature-datas'', car_desc = Some ''Signature data'', car_ann_classes = Some [2], car_num_ann_classes = 1\<rparr>,
     \<lparr>car_id = Some ''packet-types'', car_desc = Some ''Packet type'', car_ann_classes = Some [3, 4], car_num_ann_classes = 2\<rparr>,
     \<lparr>car_id = Some ''packet-datas'', car_desc = Some ''Packet data'', car_ann_classes = Some [5], car_num_ann_classes = 1\<rparr>]"

definition ir_ltto_decode_inputs :: "string list" where
  "ir_ltto_decode_inputs = [
     ''ir_ltto'']"

definition ir_ltto_decode_outputs :: "string list" where
  "ir_ltto_decode_outputs = [
     ''ir_ltto_decode'']"

definition ir_ltto_decode_tags :: "string list" where
  "ir_ltto_decode_tags = [
     ''Embedded/industrial'']"

definition ir_ltto_decode_c_def :: srd_c_decoder where
  "ir_ltto_decode_c_def = \<lparr>cd_id = Some ''ir_ltto_decode_c'', cd_name = Some ''IR LTTO Decode(C)'',
     cd_longname = Some ''LTTO laser tag IR Decode (C)'', cd_desc = Some ''A decoder for the LTTO laser tag IR protocol. (C implementation)'', cd_license = Some ''gplv2+'',
     cd_channels = None, cd_num_channels = 0,
     cd_optional_channels = None, cd_num_optional_channels = 0,
     cd_options = None, cd_num_options = 0,
     cd_num_annotations = 6, cd_ann_labels = Some ir_ltto_decode_ann_labels,
     cd_num_annotation_rows = 4, cd_annotation_rows = Some ir_ltto_decode_ann_rows,
     cd_inputs = Some ir_ltto_decode_inputs, cd_num_inputs = 1, cd_outputs = Some ir_ltto_decode_outputs, cd_num_outputs = 1,
     cd_binary = None, cd_num_binary = 0, cd_tags = Some ir_ltto_decode_tags, cd_num_tags = 1\<rparr>"

lemma ir_ltto_decode_described: "described ir_ltto_decode_c_def = (True, True, True)"
  by (simp add: described_simps ir_ltto_decode_ann_labels_def ir_ltto_decode_ann_rows_def ir_ltto_decode_inputs_def ir_ltto_decode_outputs_def ir_ltto_decode_tags_def ir_ltto_decode_c_def_def)

section \<open>ir_nec_c.c\<close>

definition ir_nec_options :: "srd_decoder_option list" where
  "ir_nec_options = [
     \<lparr>opt_id = Some ''polarity'', opt_idn = Some ''dec_ir_nec_opt_polarity'', opt_desc = Some ''Polarity'',
        opt_def = Some (GV_string ''active-low''), opt_values = [GV_string ''auto'', GV_string ''active-low'', GV_string ''active-high'']\<rparr>,
     \<lparr>opt_id = Some ''cd_freq'', opt_idn = Some ''dec_ir_nec_opt_cd_freq'', opt_desc = Some ''Carrier Frequency'',
        opt_def = Some (GV_int64 0), opt_values = []\<rparr>,
     \<lparr>opt_id = Some ''extended'', opt_idn = Some ''dec_ir_nec_opt_extended'', opt_desc = Some ''Extended NEC Protocol'',
        opt_def = Some (GV_string ''no''), opt_values = [GV_string ''yes'', GV_string ''no'']\<rparr>]"

definition ir_nec_channels :: "srd_channel list" where
  "ir_nec_channels = [
     \<lparr>ch_id = Some ''ir'', ch_name = Some ''IR'', ch_desc = Some ''Data line'', ch_order = 0, ch_type = 1, ch_idn = Some ''dec_ir_nec_chan_ir''\<rparr>]"

definition ir_nec_ann_labels :: "(string option \<times> string option \<times> string option) list" where
  "ir_nec_ann_labels = [
     (Some [], Some ''bit'', Some ''Bit''),
     (Some [], Some ''agc-pulse'', Some ''AGC pulse''),
     (Some [], Some ''longpause'', Some ''Long pause''),
     (Some [], Some ''shortpause'', Some ''Short pause''),
     (Some [], Some ''stop-bit'', Some ''Stop bit''),
     (Some [], Some ''leader-code'', Some ''Leader code''),
     (Some [], Some ''addr'', Some ''Address''),
     (Some [], Some ''addr-inv'', Some ''Address#''),
     (Some [], Some ''cmd'', Some ''Command''),
     (Some [], Some ''cmd-inv'', Some ''Command#''),
     (Some [], Some ''repeat-code'', Some ''Repeat code''),
     (Some [], Some ''remote'', Some ''Remote''),
     (Some [], Some ''warning'', Some ''Warning'')]"

definition ir_nec_ann_rows :: "srd_c_ann_row list" where
  "ir_nec_ann_rows = [
     \<lparr>car_id = Some ''bits'', car_desc = Some ''Bits'', car_ann_classes = Some [0, 1, 2, 3, 4], car_num_ann_classes = 5\<rparr>,
     \<lparr>car_id = Some ''fields'', car_desc = Some ''Fields'', car_ann_classes = Some [5, 6, 7, 8, 9, 10], car_num_ann_classes = 6\<rparr>,
     \<lparr>car_id = Some ''remote-vals'', car_desc = Some ''Remote'', car_ann_classes = Some [11], car_num_ann_classes = 1\<rparr>,
     \<lparr>car_id = Some ''warnings'', car_desc = Some ''Warnings'', car_ann_classes = Some [12], car_num_ann_classes = 1\<rparr>]"

definition ir_nec_inputs :: "string list" where
  "ir_nec_inputs = [
     ''logic'']"

definition ir_nec_outputs :: "string list" where
  "ir_nec_outputs = []"

definition ir_nec_tags :: "string list" where
  "ir_nec_tags = [
     ''IR'']"

definition ir_nec_c_def :: srd_c_decoder where
  "ir_nec_c_def = \<lparr>cd_id = Some ''ir_nec_c'', cd_name = Some ''IR NEC(C)'',
     cd_longname = Some ''NEC infrared remote control protocol (C)'', cd_desc = Some ''NEC IR remote control protocol decoder (C implementation)'', cd_license = Some ''gplv2+'',
     cd_channels = Some ir_nec_channels, cd_num_channels = 1,
     cd_optional_channels = None, cd_num_optional_channels = 0,
     cd_options = Some ir_nec_options, cd_num_options = 3,
     cd_num_annotations = 13, cd_ann_labels = Some ir_nec_ann_labels,
     cd_num_annotation_rows = 4, cd_annotation_rows = Some ir_nec_ann_rows,
     cd_inputs = Some ir_nec_inputs, cd_num_inputs = 1, cd_outputs = Some ir_nec_outputs, cd_num_outputs = 0,
     cd_binary = None, cd_num_binary = 0, cd_tags = Some ir_nec_tags, cd_num_tags = 1\<rparr>"

lemma ir_nec_described: "described ir_nec_c_def = (True, True, True)"
  by (simp add: described_simps ir_nec_options_def ir_nec_channels_def ir_nec_ann_labels_def ir_nec_ann_rows_def ir_nec_inputs_def ir_nec_outputs_def ir_nec_tags_def ir_nec_c_def_def)

section \<open>All of them\<close>

definition tables3 :: "srd_c_decoder list" where
  "tables3 = [em4100_c_def, em4305_c_def, enc28j60_c_def, eth_an_c_def, ethernet_c_def, flexray_c_def,
     fsi_c_def, gpib_c_def, graycode_c_def, guess_bitrate_c_def, hdcp_c_def, hdlc_c_def,
     hdmi_scdc_c_def, i2c_c_def, i2c_packet_c_def, i2cdemux_c_def, i2cfilter_c_def, i2s_c_def,
     iebus_c_def, iec_c_def, ieee488_c_def, ipv4_c_def, ir_irmp_c_def, ir_ltto_c_def,
     ir_ltto_decode_c_def, ir_nec_c_def]"

lemmas tables3_described =
  em4100_described em4305_described enc28j60_described eth_an_described ethernet_described flexray_described
  fsi_described gpib_described graycode_described guess_bitrate_described hdcp_described hdlc_described
  hdmi_scdc_described i2c_described i2c_packet_described i2cdemux_described i2cfilter_described i2s_described
  iebus_described iec_described ieee488_described ipv4_described ir_irmp_described ir_ltto_described
  ir_ltto_decode_described ir_nec_described

lemma tables3_ids:
  "map cd_id tables3 = [Some ''em4100_c'', Some ''em4305_c'', Some ''enc28j60_c'', Some ''eth_an_c'', Some ''ethernet_c'',
     Some ''flexray_c'', Some ''fsi_c'', Some ''gpib_c'', Some ''graycode_c'', Some ''guess_bitrate_c'',
     Some ''hdcp_c'', Some ''hdlc_c'', Some ''hdmi_scdc_c'', Some ''i2c_c'', Some ''i2c_packet_c'',
     Some ''i2cdemux_c'', Some ''i2cfilter_c'', Some ''i2s_c'', Some ''iebus_c'', Some ''iec_c'',
     Some ''ieee488_c'', Some ''ipv4_c'', Some ''ir_irmp_c'', Some ''ir_ltto_c'', Some ''ir_ltto_decode_c'',
     Some ''ir_nec_c'']"
  by (simp add: tables3_def
    em4100_c_def_def em4305_c_def_def enc28j60_c_def_def eth_an_c_def_def ethernet_c_def_def flexray_c_def_def
    fsi_c_def_def gpib_c_def_def graycode_c_def_def guess_bitrate_c_def_def hdcp_c_def_def hdlc_c_def_def
    hdmi_scdc_c_def_def i2c_c_def_def i2c_packet_c_def_def i2cdemux_c_def_def i2cfilter_c_def_def i2s_c_def_def
    iebus_c_def_def iec_c_def_def ieee488_c_def_def ipv4_c_def_def ir_irmp_c_def_def ir_ltto_c_def_def
    ir_ltto_decode_c_def_def ir_nec_c_def_def)

end
