(* ===== verification/Tables4.thy ===== *)
theory Tables4
  imports Described
begin

text \<open>
  The descriptions of the decoders from ir_rc5_c to miller_c: the tables in their files, with the option
  defaults and values that \<^verbatim>\<open>srd_c_decoder_entry()\<close> fills in, and their checks. Text outside
  ASCII is given by its bytes.
\<close>

section \<open>ir_rc5_c.c\<close>

definition ir_rc5_options :: "srd_decoder_option list" where
  "ir_rc5_options = [
     \<lparr>opt_id = Some ''polarity'', opt_idn = Some ''dec_ir_rc5_opt_polarity'', opt_desc = Some ''Polarity'',
        opt_def = Some (GV_string ''active-low''), opt_values = [GV_string ''active-low'', GV_string ''active-high'']\<rparr>,
     \<lparr>opt_id = Some ''protocol'', opt_idn = Some ''dec_ir_rc5_opt_protocol'', opt_desc = Some ''Protocol type'',
        opt_def = Some (GV_string ''standard''), opt_values = [GV_string ''standard'', GV_string ''extended'']\<rparr>]"

definition ir_rc5_channels :: "srd_channel list" where
  "ir_rc5_channels = [
     \<lparr>ch_id = Some ''ir'', ch_name = Some ''IR'', ch_desc = Some ''IR data line'', ch_order = 0, ch_type = 1, ch_idn = Some ''dec_ir_rc5_chan_ir''\<rparr>]"

definition ir_rc5_ann_labels :: "(string option \<times> string option \<times> string option) list" where
  "ir_rc5_ann_labels = [
     (Some [], Some ''bit'', Some ''Bit''),
     (Some [], Some ''startbit1'', Some ''Startbit 1''),
     (Some [], Some ''startbit2'', Some ''Startbit 2''),
     (Some [], Some ''togglebit-0'', Some ''Toggle bit 0''),
     (Some [], Some ''togglebit-1'', Some ''Toggle bit 1''),
     (Some [], Some ''address'', Some ''Address''),
     (Some [], Some ''command'', Some ''Command'')]"

definition ir_rc5_ann_rows :: "srd_c_ann_row list" where
  "ir_rc5_ann_rows = [
     \<lparr>car_id = Some ''bits'', car_desc = Some ''Bits'', car_ann_classes = Some [0], car_num_ann_classes = 1\<rparr>,
     \<lparr>car_id = Some ''fields'', car_desc = Some ''Fields'', car_ann_classes = Some [1, 2, 3, 4, 5, 6], car_num_ann_classes = 6\<rparr>]"

definition ir_rc5_inputs :: "string list" where
  "ir_rc5_inputs = [
     ''logic'']"

definition ir_rc5_outputs :: "string list" where
  "ir_rc5_outputs = []"

definition ir_rc5_tags :: "string list" where
  "ir_rc5_tags = [
     ''IR'']"

definition ir_rc5_c_def :: srd_c_decoder where
  "ir_rc5_c_def = \<lparr>cd_id = Some ''ir_rc5_c'', cd_name = Some ''IR RC-5(C)'',
     cd_longname = Some ''IR RC-5(C)'', cd_desc = Some ''RC-5 infrared remote control protocol (C implementation)'', cd_license = Some ''gplv2+'',
     cd_channels = Some ir_rc5_channels, cd_num_channels = 1,
     cd_optional_channels = None, cd_num_optional_channels = 0,
     cd_options = Some ir_rc5_options, cd_num_options = 2,
     cd_num_annotations = 7, cd_ann_labels = Some ir_rc5_ann_labels,
     cd_num_annotation_rows = 2, cd_annotation_rows = Some ir_rc5_ann_rows,
     cd_inputs = Some ir_rc5_inputs, cd_num_inputs = 1, cd_outputs = Some ir_rc5_outputs, cd_num_outputs = 0,
     cd_binary = None, cd_num_binary = 0, cd_tags = Some ir_rc5_tags, cd_num_tags = 1\<rparr>"

lemma ir_rc5_described: "described ir_rc5_c_def = (True, True, True)"
  by (simp add: described_simps ir_rc5_options_def ir_rc5_channels_def ir_rc5_ann_labels_def ir_rc5_ann_rows_def ir_rc5_inputs_def ir_rc5_outputs_def ir_rc5_tags_def ir_rc5_c_def_def)

section \<open>ir_rc6_c.c\<close>

definition ir_rc6_options :: "srd_decoder_option list" where
  "ir_rc6_options = [
     \<lparr>opt_id = Some ''polarity'', opt_idn = Some ''dec_ir_rc6_opt_polarity'', opt_desc = Some ''Polarity'',
        opt_def = Some (GV_string ''auto''), opt_values = [GV_string ''auto'', GV_string ''active-low'', GV_string ''active-high'']\<rparr>]"

definition ir_rc6_channels :: "srd_channel list" where
  "ir_rc6_channels = [
     \<lparr>ch_id = Some ''ir'', ch_name = Some ''IR'', ch_desc = Some ''IR data line'', ch_order = 0, ch_type = 1, ch_idn = Some ''dec_ir_rc6_chan_ir''\<rparr>]"

definition ir_rc6_ann_labels :: "(string option \<times> string option \<times> string option) list" where
  "ir_rc6_ann_labels = [
     (Some [], Some ''bit'', Some ''Bit''),
     (Some [], Some ''sync'', Some ''Sync''),
     (Some [], Some ''startbit'', Some ''Startbit''),
     (Some [], Some ''field'', Some ''Field''),
     (Some [], Some ''togglebit'', Some ''Togglebit''),
     (Some [], Some ''address'', Some ''Address''),
     (Some [], Some ''command'', Some ''Command'')]"

definition ir_rc6_ann_rows :: "srd_c_ann_row list" where
  "ir_rc6_ann_rows = [
     \<lparr>car_id = Some ''bits'', car_desc = Some ''Bits'', car_ann_classes = Some [0], car_num_ann_classes = 1\<rparr>,
     \<lparr>car_id = Some ''fields'', car_desc = Some ''Fields'', car_ann_classes = Some [1, 2, 3, 4, 5, 6], car_num_ann_classes = 6\<rparr>]"

definition ir_rc6_inputs :: "string list" where
  "ir_rc6_inputs = [
     ''logic'']"

definition ir_rc6_outputs :: "string list" where
  "ir_rc6_outputs = []"

definition ir_rc6_tags :: "string list" where
  "ir_rc6_tags = [
     ''IR'']"

definition ir_rc6_c_def :: srd_c_decoder where
  "ir_rc6_c_def = \<lparr>cd_id = Some ''ir_rc6_c'', cd_name = Some ''IR RC-6(C)'',
     cd_longname = Some ''RC-6 infrared remote control protocol (C)'', cd_desc = Some ''RC-6 infrared remote control protocol decoder (C implementation)'', cd_license = Some ''gplv2+'',
     cd_channels = Some ir_rc6_channels, cd_num_channels = 1,
     cd_optional_channels = None, cd_num_optional_channels = 0,
     cd_options = Some ir_rc6_options, cd_num_options = 1,
     cd_num_annotations = 7, cd_ann_labels = Some ir_rc6_ann_labels,
     cd_num_annotation_rows = 2, cd_annotation_rows = Some ir_rc6_ann_rows,
     cd_inputs = Some ir_rc6_inputs, cd_num_inputs = 1, cd_outputs = Some ir_rc6_outputs, cd_num_outputs = 0,
     cd_binary = None, cd_num_binary = 0, cd_tags = Some ir_rc6_tags, cd_num_tags = 1\<rparr>"

lemma ir_rc6_described: "described ir_rc6_c_def = (True, True, True)"
  by (simp add: described_simps ir_rc6_options_def ir_rc6_channels_def ir_rc6_ann_labels_def ir_rc6_ann_rows_def ir_rc6_inputs_def ir_rc6_outputs_def ir_rc6_tags_def ir_rc6_c_def_def)

section \<open>ir_recoil_c.c\<close>

definition ir_recoil_options :: "srd_decoder_option list" where
  "ir_recoil_options = [
     \<lparr>opt_id = Some ''polarity'', opt_idn = Some [], opt_desc = Some ''Polarity'',
        opt_def = Some (GV_string ''active-low''), opt_values = [GV_string ''active-low'', GV_string ''active-high'']\<rparr>]"

definition ir_recoil_channels :: "srd_channel list" where
  "ir_recoil_channels = [
     \<lparr>ch_id = Some ''ir'', ch_name = Some ''IR'', ch_desc = Some ''Demodulated IR'', ch_order = 0, ch_type = 1, ch_idn = Some []\<rparr>]"

definition ir_recoil_ann_labels :: "(string option \<times> string option \<times> string option) list" where
  "ir_recoil_ann_labels = [
     (Some [], Some ''sync'', Some ''SYNC''),
     (Some [], Some ''sync-pause'', Some ''SYNC PAUSE''),
     (Some [], Some ''bit'', Some ''Bit''),
     (Some [], Some ''packet'', Some ''Packet'')]"

definition ir_recoil_ann_rows :: "srd_c_ann_row list" where
  "ir_recoil_ann_rows = [
     \<lparr>car_id = Some ''bits'', car_desc = Some ''Bits'', car_ann_classes = Some [0, 1, 2], car_num_ann_classes = 3\<rparr>,
     \<lparr>car_id = Some ''packets'', car_desc = Some ''Packet'', car_ann_classes = Some [3], car_num_ann_classes = 1\<rparr>]"

definition ir_recoil_inputs :: "string list" where
  "ir_recoil_inputs = [
     ''logic'']"

definition ir_recoil_outputs :: "string list" where
  "ir_recoil_outputs = [
     ''ir_recoil'']"

definition ir_recoil_tags :: "string list" where
  "ir_recoil_tags = [
     ''Embedded/industrial'']"

definition ir_recoil_c_def :: srd_c_decoder where
  "ir_recoil_c_def = \<lparr>cd_id = Some ''ir_recoil_c'', cd_name = Some ''IR Recoil(C)'',
     cd_longname = Some ''Recoil laser tag IR (C)'', cd_desc = Some ''A decoder for the Recoil laser tag IR protocol (C implementation)'', cd_license = Some ''unknown'',
     cd_channels = Some ir_recoil_channels, cd_num_channels = 1,
     cd_optional_channels = None, cd_num_optional_channels = 0,
     cd_options = Some ir_recoil_options, cd_num_options = 1,
     cd_num_annotations = 4, cd_ann_labels = Some ir_recoil_ann_labels,
     cd_num_annotation_rows = 2, cd_annotation_rows = Some ir_recoil_ann_rows,
     cd_inputs = Some ir_recoil_inputs, cd_num_inputs = 1, cd_outputs = Some ir_recoil_outputs, cd_num_outputs = 1,
     cd_binary = None, cd_num_binary = 0, cd_tags = Some ir_recoil_tags, cd_num_tags = 1\<rparr>"

lemma ir_recoil_described: "described ir_recoil_c_def = (True, True, True)"
  by (simp add: described_simps ir_recoil_options_def ir_recoil_channels_def ir_recoil_ann_labels_def ir_recoil_ann_rows_def ir_recoil_inputs_def ir_recoil_outputs_def ir_recoil_tags_def ir_recoil_c_def_def)

section \<open>ir_sirc_c.c\<close>

definition ir_sirc_options :: "srd_decoder_option list" where
  "ir_sirc_options = [
     \<lparr>opt_id = Some ''polarity'', opt_idn = None, opt_desc = Some ''Polarity'',
        opt_def = Some (GV_string ''active-low''), opt_values = [GV_string ''active-low'', GV_string ''active-high'']\<rparr>]"

definition ir_sirc_channels :: "srd_channel list" where
  "ir_sirc_channels = [
     \<lparr>ch_id = Some ''ir'', ch_name = Some ''IR'', ch_desc = Some ''IR data line'', ch_order = 0, ch_type = 1, ch_idn = None\<rparr>]"

definition ir_sirc_ann_labels :: "(string option \<times> string option \<times> string option) list" where
  "ir_sirc_ann_labels = [
     (Some [], Some ''bit'', Some ''Bit''),
     (Some [], Some ''agc'', Some ''AGC''),
     (Some [], Some ''pause'', Some ''Pause''),
     (Some [], Some ''start'', Some ''Start''),
     (Some [], Some ''command'', Some ''Command''),
     (Some [], Some ''address'', Some ''Address''),
     (Some [], Some ''extended'', Some ''Extended''),
     (Some [], Some ''remote'', Some ''Remote''),
     (Some [], Some ''warning'', Some ''Warning'')]"

definition ir_sirc_ann_rows :: "srd_c_ann_row list" where
  "ir_sirc_ann_rows = [
     \<lparr>car_id = Some ''bits'', car_desc = Some ''Bits'', car_ann_classes = Some [0, 1, 2], car_num_ann_classes = 3\<rparr>,
     \<lparr>car_id = Some ''fields'', car_desc = Some ''Fields'', car_ann_classes = Some [3, 4, 5, 6], car_num_ann_classes = 4\<rparr>,
     \<lparr>car_id = Some ''remotes'', car_desc = Some ''Remotes'', car_ann_classes = Some [7], car_num_ann_classes = 1\<rparr>,
     \<lparr>car_id = Some ''warnings'', car_desc = Some ''Warnings'', car_ann_classes = Some [8], car_num_ann_classes = 1\<rparr>]"

definition ir_sirc_inputs :: "string list" where
  "ir_sirc_inputs = [
     ''logic'']"

definition ir_sirc_outputs :: "string list" where
  "ir_sirc_outputs = []"

definition ir_sirc_tags :: "string list" where
  "ir_sirc_tags = [
     ''IR'']"

definition ir_sirc_c_def :: srd_c_decoder where
  "ir_sirc_c_def = \<lparr>cd_id = Some ''ir_sirc_c'', cd_name = Some ''IR SIRC(C)'',
     cd_longname = Some ''Sony IR (SIRC) (C)'', cd_desc = Some ''Sony infrared remote control protocol (SIRC). (C implementation)'', cd_license = Some ''gplv2+'',
     cd_channels = Some ir_sirc_channels, cd_num_channels = 1,
     cd_optional_channels = None, cd_num_optional_channels = 0,
     cd_options = Some ir_sirc_options, cd_num_options = 1,
     cd_num_annotations = 9, cd_ann_labels = Some ir_sirc_ann_labels,
     cd_num_annotation_rows = 4, cd_annotation_rows = Some ir_sirc_ann_rows,
     cd_inputs = Some ir_sirc_inputs, cd_num_inputs = 1, cd_outputs = Some ir_sirc_outputs, cd_num_outputs = 0,
     cd_binary = None, cd_num_binary = 0, cd_tags = Some ir_sirc_tags, cd_num_tags = 1\<rparr>"

lemma ir_sirc_described: "described ir_sirc_c_def = (True, True, True)"
  by (simp add: described_simps ir_sirc_options_def ir_sirc_channels_def ir_sirc_ann_labels_def ir_sirc_ann_rows_def ir_sirc_inputs_def ir_sirc_outputs_def ir_sirc_tags_def ir_sirc_c_def_def)

section \<open>iso7816_c.c\<close>

definition iso7816_options :: "srd_decoder_option list" where
  "iso7816_options = [
     \<lparr>opt_id = Some ''clock_option'', opt_idn = Some ''dec_iso7816_opt_clock_option'', opt_desc = Some ''Clock option'',
        opt_def = Some (GV_string ''native''), opt_values = [GV_string ''native'', GV_string ''detect'', GV_string ''sample_as_clock'']\<rparr>,
     \<lparr>opt_id = Some ''protocol'', opt_idn = Some ''dec_iso7816_opt_protocol'', opt_desc = Some ''Protocol'',
        opt_def = Some (GV_string ''auto''), opt_values = [GV_string ''auto'', GV_string ''T=0'', GV_string ''T=1'']\<rparr>,
     \<lparr>opt_id = Some ''starts_with_atr'', opt_idn = Some ''dec_iso7816_opt_starts_with_atr'', opt_desc = Some ''Starts with ATR'',
        opt_def = Some (GV_string ''true''), opt_values = [GV_string ''true'', GV_string ''false'']\<rparr>]"

definition iso7816_channels :: "srd_channel list" where
  "iso7816_channels = [
     \<lparr>ch_id = Some ''clk'', ch_name = Some ''CLK'', ch_desc = Some ''clock'', ch_order = 0, ch_type = 0, ch_idn = Some ''dec_iso7816_chan_clk''\<rparr>,
     \<lparr>ch_id = Some ''data'', ch_name = Some ''data'', ch_desc = Some ''data'', ch_order = 1, ch_type = 1, ch_idn = Some ''dec_iso7816_chan_data''\<rparr>]"

definition iso7816_ann_labels :: "(string option \<times> string option \<times> string option) list" where
  "iso7816_ann_labels = [
     (Some [], Some ''warning'', Some ''Human-readable warnings''),
     (Some [], Some ''byte'', Some ''Byte''),
     (Some [], Some ''atr'', Some ''ATR (Answer to Reset)''),
     (Some [], Some ''pps'', Some ''PPS (Protocol and parameters selection)''),
     (Some [], Some ''t0'', Some ''T=0 packet''),
     (Some [], Some ''t1'', Some ''T=1 packet''),
     (Some [], Some ''t1-iblock'', Some ''T=1 I-Block''),
     (Some [], Some ''t1-rblock'', Some ''T=1 R-Block''),
     (Some [], Some ''t1-sblock'', Some ''T=1 S-Block''),
     (Some [], Some ''apdu'', Some ''APDU'')]"

definition iso7816_ann_rows :: "srd_c_ann_row list" where
  "iso7816_ann_rows = [
     \<lparr>car_id = Some ''warnings'', car_desc = Some ''Warnings'', car_ann_classes = Some [0], car_num_ann_classes = 1\<rparr>,
     \<lparr>car_id = Some ''bytes'', car_desc = Some ''Bytes'', car_ann_classes = Some [1], car_num_ann_classes = 1\<rparr>,
     \<lparr>car_id = Some ''type'', car_desc = Some ''Type'', car_ann_classes = Some [2, 3, 4, 5], car_num_ann_classes = 4\<rparr>,
     \<lparr>car_id = Some ''t1s'', car_desc = Some ''T=1 Decode'', car_ann_classes = Some [6, 7, 8], car_num_ann_classes = 3\<rparr>,
     \<lparr>car_id = Some ''apdus'', car_desc = Some ''apdus'', car_ann_classes = Some [9], car_num_ann_classes = 1\<rparr>]"

definition iso7816_binary :: "srd_decoder_binary list" where
  "iso7816_binary = [
     \<lparr>bin_class = 0, bin_id = Some ''pcap'', bin_desc = Some ''PCAP format''\<rparr>]"

definition iso7816_inputs :: "string list" where
  "iso7816_inputs = [
     ''logic'']"

definition iso7816_outputs :: "string list" where
  "iso7816_outputs = [
     ''iso7816'']"

definition iso7816_tags :: "string list" where
  "iso7816_tags = [
     ''Embedded/industrial'']"

definition iso7816_c_def :: srd_c_decoder where
  "iso7816_c_def = \<lparr>cd_id = Some ''iso7816_c'', cd_name = Some ''ISO 7816(C)'',
     cd_longname = Some ''Smartcard (C)'', cd_desc = Some ''ISO 7816 decoder (smartcard, C implementation, faster than Python)'', cd_license = Some ''gplv2+'',
     cd_channels = Some iso7816_channels, cd_num_channels = 2,
     cd_optional_channels = None, cd_num_optional_channels = 0,
     cd_options = Some iso7816_options, cd_num_options = 3,
     cd_num_annotations = 10, cd_ann_labels = Some iso7816_ann_labels,
     cd_num_annotation_rows = 5, cd_annotation_rows = Some iso7816_ann_rows,
     cd_inputs = Some iso7816_inputs, cd_num_inputs = 1, cd_outputs = Some iso7816_outputs, cd_num_outputs = 1,
     cd_binary = Some iso7816_binary, cd_num_binary = 1, cd_tags = Some iso7816_tags, cd_num_tags = 1\<rparr>"

lemma iso7816_described: "described iso7816_c_def = (True, True, True)"
  by (simp add: described_simps iso7816_options_def iso7816_channels_def iso7816_ann_labels_def iso7816_ann_rows_def iso7816_binary_def iso7816_inputs_def iso7816_outputs_def iso7816_tags_def iso7816_c_def_def)

section \<open>j1708_c.c\<close>

definition j1708_options :: "srd_decoder_option list" where
  "j1708_options = [
     \<lparr>opt_id = Some ''message_break'', opt_idn = Some ''dec_j1708_opt_message_break'', opt_desc = Some ''Delay (in bit times) for message break'',
        opt_def = Some (GV_int64 2), opt_values = [GV_int64 2, GV_int64 10, GV_int64 12]\<rparr>]"

definition j1708_ann_labels :: "(string option \<times> string option \<times> string option) list" where
  "j1708_ann_labels = [
     (Some [], Some ''datum'', Some ''A J1708 message''),
     (Some [], Some ''info'', Some ''Protocol info''),
     (Some [], Some ''error'', Some ''Protocol violation or error''),
     (Some [], Some ''inline_error'', Some ''Protocol violation or error''),
     (Some [], Some ''delay'', Some ''Inter-message Delay [bit times]''),
     (Some [], Some ''bus_access'', Some ''Bus Access time violation [bit times]'')]"

definition j1708_ann_rows :: "srd_c_ann_row list" where
  "j1708_ann_rows = [
     \<lparr>car_id = Some ''fields'', car_desc = Some ''RX Fields'', car_ann_classes = Some [1], car_num_ann_classes = 1\<rparr>,
     \<lparr>car_id = Some ''data'', car_desc = Some ''RX Data'', car_ann_classes = Some [0, 3], car_num_ann_classes = 2\<rparr>,
     \<lparr>car_id = Some ''errors'', car_desc = Some ''RX Errors'', car_ann_classes = Some [2, 5], car_num_ann_classes = 2\<rparr>,
     \<lparr>car_id = Some ''delays'', car_desc = Some ''RX Message Delays'', car_ann_classes = Some [4], car_num_ann_classes = 1\<rparr>]"

definition j1708_binary :: "srd_decoder_binary list" where
  "j1708_binary = [
     \<lparr>bin_class = 0, bin_id = Some ''mid'', bin_desc = Some ''J1708 MID''\<rparr>,
     \<lparr>bin_class = 1, bin_id = Some ''payload'', bin_desc = Some ''J1708 Payload''\<rparr>,
     \<lparr>bin_class = 2, bin_id = Some ''crc'', bin_desc = Some ''J1708 Checksum''\<rparr>]"

definition j1708_inputs :: "string list" where
  "j1708_inputs = [
     ''uart'']"

definition j1708_tags :: "string list" where
  "j1708_tags = [
     ''Automotive'']"

definition j1708_c_def :: srd_c_decoder where
  "j1708_c_def = \<lparr>cd_id = Some ''j1708_c'', cd_name = Some ''J1708(C)'',
     cd_longname = Some ''J1708 (C)'', cd_desc = Some ''J1708 truck/bus serial communication protocol. (C implementation)'', cd_license = Some ''gplv2+'',
     cd_channels = None, cd_num_channels = 0,
     cd_optional_channels = None, cd_num_optional_channels = 0,
     cd_options = Some j1708_options, cd_num_options = 1,
     cd_num_annotations = 6, cd_ann_labels = Some j1708_ann_labels,
     cd_num_annotation_rows = 4, cd_annotation_rows = Some j1708_ann_rows,
     cd_inputs = Some j1708_inputs, cd_num_inputs = 1, cd_outputs = None, cd_num_outputs = 0,
     cd_binary = Some j1708_binary, cd_num_binary = 3, cd_tags = Some j1708_tags, cd_num_tags = 1\<rparr>"

lemma j1708_described: "described j1708_c_def = (True, True, True)"
  by (simp add: described_simps j1708_options_def j1708_ann_labels_def j1708_ann_rows_def j1708_binary_def j1708_inputs_def j1708_tags_def j1708_c_def_def)

section \<open>jitter_c.c\<close>

definition jitter_options :: "srd_decoder_option list" where
  "jitter_options = [
     \<lparr>opt_id = Some ''clk_polarity'', opt_idn = Some ''dec_jitter_opt_clk_polarity'', opt_desc = Some ''Clock edge polarity'',
        opt_def = Some (GV_string ''rising''), opt_values = [GV_string ''rising'', GV_string ''falling'', GV_string ''both'']\<rparr>,
     \<lparr>opt_id = Some ''sig_polarity'', opt_idn = Some ''dec_jitter_opt_sig_polarity'', opt_desc = Some ''Resulting signal edge polarity'',
        opt_def = Some (GV_string ''rising''), opt_values = [GV_string ''rising'', GV_string ''falling'', GV_string ''both'']\<rparr>]"

definition jitter_channels :: "srd_channel list" where
  "jitter_channels = [
     \<lparr>ch_id = Some ''clk'', ch_name = Some ''Clock'', ch_desc = Some ''Clock reference channel'', ch_order = 0, ch_type = 0, ch_idn = Some ''dec_jitter_chan_clk''\<rparr>,
     \<lparr>ch_id = Some ''sig'', ch_name = Some ''Resulting signal'', ch_desc = Some ''Resulting signal controlled by the clock'', ch_order = 1, ch_type = 1, ch_idn = Some ''dec_jitter_chan_sig''\<rparr>]"

definition jitter_ann_labels :: "(string option \<times> string option \<times> string option) list" where
  "jitter_ann_labels = [
     (Some [], Some ''jitter'', Some ''Jitter value''),
     (Some [], Some ''clk_missed'', Some ''Clock missed''),
     (Some [], Some ''sig_missed'', Some ''Signal missed'')]"

definition jitter_ann_rows :: "srd_c_ann_row list" where
  "jitter_ann_rows = [
     \<lparr>car_id = Some ''jitter'', car_desc = Some ''Jitter values'', car_ann_classes = Some [0], car_num_ann_classes = 1\<rparr>,
     \<lparr>car_id = Some ''clk_missed'', car_desc = Some ''Clock missed'', car_ann_classes = Some [1], car_num_ann_classes = 1\<rparr>,
     \<lparr>car_id = Some ''sig_missed'', car_desc = Some ''Signal missed'', car_ann_classes = Some [2], car_num_ann_classes = 1\<rparr>]"

definition jitter_binary :: "srd_decoder_binary list" where
  "jitter_binary = [
     \<lparr>bin_class = 0, bin_id = Some ''ascii-float'', bin_desc = Some ''Jitter values as newline-separated ASCII floats''\<rparr>]"

definition jitter_inputs :: "string list" where
  "jitter_inputs = [
     ''logic'']"

definition jitter_tags :: "string list" where
  "jitter_tags = [
     ''Clock/timing'',
     ''Util'']"

definition jitter_c_def :: srd_c_decoder where
  "jitter_c_def = \<lparr>cd_id = Some ''jitter_c'', cd_name = Some ''Jitter(C)'',
     cd_longname = Some ''Timing jitter calculation (C)'', cd_desc = Some ''Retrieves the timing jitter between two digital signals (C implementation)'', cd_license = Some ''gplv2+'',
     cd_channels = Some jitter_channels, cd_num_channels = 2,
     cd_optional_channels = None, cd_num_optional_channels = 0,
     cd_options = Some jitter_options, cd_num_options = 2,
     cd_num_annotations = 3, cd_ann_labels = Some jitter_ann_labels,
     cd_num_annotation_rows = 3, cd_annotation_rows = Some jitter_ann_rows,
     cd_inputs = Some jitter_inputs, cd_num_inputs = 1, cd_outputs = None, cd_num_outputs = 0,
     cd_binary = Some jitter_binary, cd_num_binary = 1, cd_tags = Some jitter_tags, cd_num_tags = 2\<rparr>"

lemma jitter_described: "described jitter_c_def = (True, True, True)"
  by (simp add: described_simps jitter_options_def jitter_channels_def jitter_ann_labels_def jitter_ann_rows_def jitter_binary_def jitter_inputs_def jitter_tags_def jitter_c_def_def)

section \<open>jtag_avr_c.c\<close>

definition jtag_avr_ann_labels :: "(string option \<times> string option \<times> string option) list" where
  "jtag_avr_ann_labels = [
     (Some [], Some ''item'', Some ''Item''),
     (Some [], Some ''field'', Some ''Field''),
     (Some [], Some ''command'', Some ''Command''),
     (Some [], Some ''warning'', Some ''Warning''),
     (Some [], Some ''data-in'', Some ''PDI data in''),
     (Some [], Some ''parity-in-ok'', Some ''Parity OK''),
     (Some [], Some ''parity-in-err'', Some ''Parity error''),
     (Some [], Some ''data-out'', Some ''PDI data out''),
     (Some [], Some ''parity-out-ok'', Some ''Parity OK''),
     (Some [], Some ''parity-out-err'', Some ''Parity error''),
     (Some [], Some ''break'', Some ''BREAK condition''),
     (Some [], Some ''opcode'', Some ''Instruction opcode''),
     (Some [], Some ''data-prog'', Some ''Programmer data''),
     (Some [], Some ''data-dev'', Some ''Device data''),
     (Some [], Some ''pdi-break'', Some ''BREAK at PDI level''),
     (Some [], Some ''enable'', Some ''Enable PDI''),
     (Some [], Some ''disable'', Some ''Disable PDI''),
     (Some [], Some ''cmd-data'', Some ''PDI command with data'')]"

definition jtag_avr_ann_rows :: "srd_c_ann_row list" where
  "jtag_avr_ann_rows = [
     \<lparr>car_id = Some ''items'', car_desc = Some ''Items'', car_ann_classes = Some [0], car_num_ann_classes = 1\<rparr>,
     \<lparr>car_id = Some ''fields'', car_desc = Some ''Fields'', car_ann_classes = Some [1], car_num_ann_classes = 1\<rparr>,
     \<lparr>car_id = Some ''commands'', car_desc = Some ''Commands'', car_ann_classes = Some [2], car_num_ann_classes = 1\<rparr>,
     \<lparr>car_id = Some ''warnings'', car_desc = Some ''Warnings'', car_ann_classes = Some [3], car_num_ann_classes = 1\<rparr>,
     \<lparr>car_id = Some ''data_in'', car_desc = Some ''PDI Data (In)'', car_ann_classes = Some [4, 5, 6], car_num_ann_classes = 3\<rparr>,
     \<lparr>car_id = Some ''data_out'', car_desc = Some ''PDI Data (Out)'', car_ann_classes = Some [7, 8, 9], car_num_ann_classes = 3\<rparr>,
     \<lparr>car_id = Some ''data_fields'', car_desc = Some ''PDI Data Fields'', car_ann_classes = Some [10], car_num_ann_classes = 1\<rparr>,
     \<lparr>car_id = Some ''pdi_fields'', car_desc = Some ''PDI Fields'', car_ann_classes = Some [14], car_num_ann_classes = 1\<rparr>,
     \<lparr>car_id = Some ''pdi_prog'', car_desc = Some ''PDI Programmer In'', car_ann_classes = Some [11, 12], car_num_ann_classes = 2\<rparr>,
     \<lparr>car_id = Some ''pdi_dev'', car_desc = Some ''PDI Device Out'', car_ann_classes = Some [13], car_num_ann_classes = 1\<rparr>,
     \<lparr>car_id = Some ''pdi_cmds'', car_desc = Some ''PDI Commands'', car_ann_classes = Some [15, 16, 17], car_num_ann_classes = 3\<rparr>]"

definition jtag_avr_inputs :: "string list" where
  "jtag_avr_inputs = [
     ''jtag'']"

definition jtag_avr_tags :: "string list" where
  "jtag_avr_tags = [
     ''Debug/trace'']"

definition jtag_avr_c_def :: srd_c_decoder where
  "jtag_avr_c_def = \<lparr>cd_id = Some ''jtag_avr_c'', cd_name = Some ''JTAG/AVR(C)'',
     cd_longname = Some ''JTAG / Atmel AVR PDI (C)'', cd_desc = Some ''Atmel AVR PDI JTAG protocol. (C implementation)'', cd_license = Some ''gplv2+'',
     cd_channels = None, cd_num_channels = 0,
     cd_optional_channels = None, cd_num_optional_channels = 0,
     cd_options = None, cd_num_options = 0,
     cd_num_annotations = 18, cd_ann_labels = Some jtag_avr_ann_labels,
     cd_num_annotation_rows = 11, cd_annotation_rows = Some jtag_avr_ann_rows,
     cd_inputs = Some jtag_avr_inputs, cd_num_inputs = 1, cd_outputs = None, cd_num_outputs = 0,
     cd_binary = None, cd_num_binary = 0, cd_tags = Some jtag_avr_tags, cd_num_tags = 1\<rparr>"

lemma jtag_avr_described: "described jtag_avr_c_def = (True, True, True)"
  by (simp add: described_simps jtag_avr_ann_labels_def jtag_avr_ann_rows_def jtag_avr_inputs_def jtag_avr_tags_def jtag_avr_c_def_def)

section \<open>jtag_c.c\<close>

definition jtag_channels :: "srd_channel list" where
  "jtag_channels = [
     \<lparr>ch_id = Some ''tdi'', ch_name = Some ''TDI'', ch_desc = Some ''Test data input'', ch_order = 0, ch_type = 1, ch_idn = Some ''dec_jtag_chan_tdi''\<rparr>,
     \<lparr>ch_id = Some ''tdo'', ch_name = Some ''TDO'', ch_desc = Some ''Test data output'', ch_order = 1, ch_type = 1, ch_idn = Some ''dec_jtag_chan_tdo''\<rparr>,
     \<lparr>ch_id = Some ''tck'', ch_name = Some ''TCK'', ch_desc = Some ''Test clock'', ch_order = 2, ch_type = 0, ch_idn = Some ''dec_jtag_chan_tck''\<rparr>,
     \<lparr>ch_id = Some ''tms'', ch_name = Some ''TMS'', ch_desc = Some ''Test mode select'', ch_order = 3, ch_type = -1, ch_idn = Some ''dec_jtag_chan_tms''\<rparr>]"

definition jtag_optional_channels :: "srd_channel list" where
  "jtag_optional_channels = [
     \<lparr>ch_id = Some ''trst'', ch_name = Some ''TRST#'', ch_desc = Some ''Test reset'', ch_order = 4, ch_type = -1, ch_idn = Some ''dec_jtag_opt_chan_trst''\<rparr>,
     \<lparr>ch_id = Some ''srst'', ch_name = Some ''SRST#'', ch_desc = Some ''System reset'', ch_order = 5, ch_type = -1, ch_idn = Some ''dec_jtag_opt_chan_srst''\<rparr>,
     \<lparr>ch_id = Some ''rtck'', ch_name = Some ''RTCK'', ch_desc = Some ''Return clock signal'', ch_order = 6, ch_type = 0, ch_idn = Some ''dec_jtag_opt_chan_rtck''\<rparr>]"

definition jtag_ann_labels :: "(string option \<times> string option \<times> string option) list" where
  "jtag_ann_labels = [
     (Some [], Some ''test-logic-reset'', Some ''TEST-LOGIC-RESET''),
     (Some [], Some ''run-test/idle'', Some ''RUN-TEST/IDLE''),
     (Some [], Some ''select-dr-scan'', Some ''SELECT-DR-SCAN''),
     (Some [], Some ''capture-dr'', Some ''CAPTURE-DR''),
     (Some [], Some ''update-dr'', Some ''UPDATE-DR''),
     (Some [], Some ''pause-dr'', Some ''PAUSE-DR''),
     (Some [], Some ''shift-dr'', Some ''SHIFT-DR''),
     (Some [], Some ''exit1-dr'', Some ''EXIT1-DR''),
     (Some [], Some ''exit2-dr'', Some ''EXIT2-DR''),
     (Some [], Some ''select-ir-scan'', Some ''SELECT-IR-SCAN''),
     (Some [], Some ''capture-ir'', Some ''CAPTURE-IR''),
     (Some [], Some ''update-ir'', Some ''UPDATE-IR''),
     (Some [], Some ''pause-ir'', Some ''PAUSE-IR''),
     (Some [], Some ''shift-ir'', Some ''SHIFT-IR''),
     (Some [], Some ''exit1-ir'', Some ''EXIT1-IR''),
     (Some [], Some ''exit2-ir'', Some ''EXIT2-IR''),
     (Some [], Some ''bit-tdi'', Some ''Bit (TDI)''),
     (Some [], Some ''bit-tdo'', Some ''Bit (TDO)''),
     (Some [], Some ''bitstring-tdi'', Some ''Bitstring (TDI)''),
     (Some [], Some ''bitstring-tdo'', Some ''Bitstring (TDO)'')]"

definition jtag_ann_rows :: "srd_c_ann_row list" where
  "jtag_ann_rows = [
     \<lparr>car_id = Some ''bits-tdi'', car_desc = Some ''Bits (TDI)'', car_ann_classes = Some [16], car_num_ann_classes = 1\<rparr>,
     \<lparr>car_id = Some ''bits-tdo'', car_desc = Some ''Bits (TDO)'', car_ann_classes = Some [17], car_num_ann_classes = 1\<rparr>,
     \<lparr>car_id = Some ''bitstrings-tdi'', car_desc = Some ''Bitstring (TDI)'', car_ann_classes = Some [18], car_num_ann_classes = 1\<rparr>,
     \<lparr>car_id = Some ''bitstrings-tdo'', car_desc = Some ''Bitstring (TDO)'', car_ann_classes = Some [19], car_num_ann_classes = 1\<rparr>,
     \<lparr>car_id = Some ''states'', car_desc = Some ''States'', car_ann_classes = Some [0, 1, 2, 3, 4, 5, 6, 7, 8, 9, 10, 11, 12, 13, 14, 15], car_num_ann_classes = 16\<rparr>]"

definition jtag_inputs :: "string list" where
  "jtag_inputs = [
     ''logic'']"

definition jtag_outputs :: "string list" where
  "jtag_outputs = [
     ''jtag'']"

definition jtag_tags :: "string list" where
  "jtag_tags = [
     ''Debug/trace'']"

definition jtag_c_def :: srd_c_decoder where
  "jtag_c_def = \<lparr>cd_id = Some ''jtag_c'', cd_name = Some ''JTAG(C)'',
     cd_longname = Some ''Joint Test Action Group (C)'', cd_desc = Some ''JTAG protocol decoder (C implementation, faster than Python)'', cd_license = Some ''gplv2+'',
     cd_channels = Some jtag_channels, cd_num_channels = 4,
     cd_optional_channels = Some jtag_optional_channels, cd_num_optional_channels = 3,
     cd_options = None, cd_num_options = 0,
     cd_num_annotations = 20, cd_ann_labels = Some jtag_ann_labels,
     cd_num_annotation_rows = 5, cd_annotation_rows = Some jtag_ann_rows,
     cd_inputs = Some jtag_inputs, cd_num_inputs = 1, cd_outputs = Some jtag_outputs, cd_num_outputs = 1,
     cd_binary = None, cd_num_binary = 0, cd_tags = Some jtag_tags, cd_num_tags = 1\<rparr>"

lemma jtag_described: "described jtag_c_def = (True, True, True)"
  by (simp add: described_simps jtag_channels_def jtag_optional_channels_def jtag_ann_labels_def jtag_ann_rows_def jtag_inputs_def jtag_outputs_def jtag_tags_def jtag_c_def_def)

section \<open>jtag_ejtag_c.c\<close>

definition jtag_ejtag_ann_labels :: "(string option \<times> string option \<times> string option) list" where
  "jtag_ejtag_ann_labels = [
     (Some [], Some ''instruction'', Some ''Instruction''),
     (Some [], Some ''reset'', Some ''RESET''),
     (Some [], Some ''device_id'', Some ''DEVICE_ID''),
     (Some [], Some ''implementation'', Some ''IMPLEMENTATION''),
     (Some [], Some ''data'', Some ''DATA''),
     (Some [], Some ''address'', Some ''ADDRESS''),
     (Some [], Some ''control'', Some ''CONTROL''),
     (Some [], Some ''fastdata'', Some ''FASTDATA''),
     (Some [], Some ''pc_sample'', Some ''PC_SAMPLE''),
     (Some [], Some ''bypass'', Some ''BYPASS''),
     (Some [], Some ''control_field_in'', Some ''Control field in''),
     (Some [], Some ''control_field_out'', Some ''Control field out''),
     (Some [], Some ''pracc'', Some ''PrAcc'')]"

definition jtag_ejtag_ann_rows :: "srd_c_ann_row list" where
  "jtag_ejtag_ann_rows = [
     \<lparr>car_id = Some ''instructions'', car_desc = Some ''Instructions'', car_ann_classes = Some [0], car_num_ann_classes = 1\<rparr>,
     \<lparr>car_id = Some ''regs'', car_desc = Some ''Registers'', car_ann_classes = Some [1, 2, 3, 4, 5, 6, 7, 8, 9], car_num_ann_classes = 9\<rparr>,
     \<lparr>car_id = Some ''control_fields_in'', car_desc = Some ''Control fields in'', car_ann_classes = Some [10], car_num_ann_classes = 1\<rparr>,
     \<lparr>car_id = Some ''control_fields_out'', car_desc = Some ''Control fields out'', car_ann_classes = Some [11], car_num_ann_classes = 1\<rparr>,
     \<lparr>car_id = Some ''pracc'', car_desc = Some ''PrAcc'', car_ann_classes = Some [12], car_num_ann_classes = 1\<rparr>]"

definition jtag_ejtag_inputs :: "string list" where
  "jtag_ejtag_inputs = [
     ''jtag'']"

definition jtag_ejtag_tags :: "string list" where
  "jtag_ejtag_tags = [
     ''Debug/trace'']"

definition jtag_ejtag_c_def :: srd_c_decoder where
  "jtag_ejtag_c_def = \<lparr>cd_id = Some ''jtag_ejtag_c'', cd_name = Some ''JTAG/EJTAG(C)'',
     cd_longname = Some ''JTAG / MIPS EJTAG (C)'', cd_desc = Some ''MIPS EJTAG debug protocol. (C implementation)'', cd_license = Some ''gplv2+'',
     cd_channels = None, cd_num_channels = 0,
     cd_optional_channels = None, cd_num_optional_channels = 0,
     cd_options = None, cd_num_options = 0,
     cd_num_annotations = 13, cd_ann_labels = Some jtag_ejtag_ann_labels,
     cd_num_annotation_rows = 5, cd_annotation_rows = Some jtag_ejtag_ann_rows,
     cd_inputs = Some jtag_ejtag_inputs, cd_num_inputs = 1, cd_outputs = None, cd_num_outputs = 0,
     cd_binary = None, cd_num_binary = 0, cd_tags = Some jtag_ejtag_tags, cd_num_tags = 1\<rparr>"

lemma jtag_ejtag_described: "described jtag_ejtag_c_def = (True, True, True)"
  by (simp add: described_simps jtag_ejtag_ann_labels_def jtag_ejtag_ann_rows_def jtag_ejtag_inputs_def jtag_ejtag_tags_def jtag_ejtag_c_def_def)

section \<open>jtag_stm32_c.c\<close>

definition jtag_stm32_ann_labels :: "(string option \<times> string option \<times> string option) list" where
  "jtag_stm32_ann_labels = [
     (Some [], Some ''item'', Some ''Item''),
     (Some [], Some ''field'', Some ''Field''),
     (Some [], Some ''command'', Some ''Command''),
     (Some [], Some ''warning'', Some ''Warning'')]"

definition jtag_stm32_ann_rows :: "srd_c_ann_row list" where
  "jtag_stm32_ann_rows = [
     \<lparr>car_id = Some ''items'', car_desc = Some ''Items'', car_ann_classes = Some [0], car_num_ann_classes = 1\<rparr>,
     \<lparr>car_id = Some ''fields'', car_desc = Some ''Fields'', car_ann_classes = Some [1], car_num_ann_classes = 1\<rparr>,
     \<lparr>car_id = Some ''commands'', car_desc = Some ''Commands'', car_ann_classes = Some [2], car_num_ann_classes = 1\<rparr>,
     \<lparr>car_id = Some ''warnings'', car_desc = Some ''Warnings'', car_ann_classes = Some [3], car_num_ann_classes = 1\<rparr>]"

definition jtag_stm32_inputs :: "string list" where
  "jtag_stm32_inputs = [
     ''jtag'']"

definition jtag_stm32_tags :: "string list" where
  "jtag_stm32_tags = [
     ''Debug/trace'']"

definition jtag_stm32_c_def :: srd_c_decoder where
  "jtag_stm32_c_def = \<lparr>cd_id = Some ''jtag_stm32_c'', cd_name = Some ''JTAG/STM32(C)'',
     cd_longname = Some ''JTAG / ST STM32 (C)'', cd_desc = Some ''ST STM32-specific JTAG protocol. (C implementation)'', cd_license = Some ''gplv2+'',
     cd_channels = None, cd_num_channels = 0,
     cd_optional_channels = None, cd_num_optional_channels = 0,
     cd_options = None, cd_num_options = 0,
     cd_num_annotations = 4, cd_ann_labels = Some jtag_stm32_ann_labels,
     cd_num_annotation_rows = 4, cd_annotation_rows = Some jtag_stm32_ann_rows,
     cd_inputs = Some jtag_stm32_inputs, cd_num_inputs = 1, cd_outputs = None, cd_num_outputs = 0,
     cd_binary = None, cd_num_binary = 0, cd_tags = Some jtag_stm32_tags, cd_num_tags = 1\<rparr>"

lemma jtag_stm32_described: "described jtag_stm32_c_def = (True, True, True)"
  by (simp add: described_simps jtag_stm32_ann_labels_def jtag_stm32_ann_rows_def jtag_stm32_inputs_def jtag_stm32_tags_def jtag_stm32_c_def_def)

section \<open>lfast_c.c\<close>

definition lfast_channels :: "srd_channel list" where
  "lfast_channels = [
     \<lparr>ch_id = Some ''data'', ch_name = Some ''Data'', ch_desc = Some ''TXP or RXP'', ch_order = 0, ch_type = 1, ch_idn = Some ''dec_lfast_chan_data''\<rparr>]"

definition lfast_ann_labels :: "(string option \<times> string option \<times> string option) list" where
  "lfast_ann_labels = [
     (Some [], Some ''bit'', Some ''Bits''),
     (Some [], Some ''sync'', Some ''Sync Pattern''),
     (Some [], Some ''header_pl_size'', Some ''Payload Size''),
     (Some [], Some ''header_ch_type'', Some ''Logical Channel Type''),
     (Some [], Some ''header_cts'', Some ''Clear To Send''),
     (Some [], Some ''payload'', Some ''Payload''),
     (Some [], Some ''ctrl_data'', Some ''Control Data''),
     (Some [], Some ''sleep'', Some ''Sleep Bit''),
     (Some [], Some ''warning'', Some ''Warning'')]"

definition lfast_ann_rows :: "srd_c_ann_row list" where
  "lfast_ann_rows = [
     \<lparr>car_id = Some ''bits'', car_desc = Some ''Bits'', car_ann_classes = Some [0], car_num_ann_classes = 1\<rparr>,
     \<lparr>car_id = Some ''fields'', car_desc = Some ''Fields'', car_ann_classes = Some [1, 2, 3, 4, 5, 6, 7], car_num_ann_classes = 7\<rparr>,
     \<lparr>car_id = Some ''warnings'', car_desc = Some ''Warnings'', car_ann_classes = Some [8], car_num_ann_classes = 1\<rparr>]"

definition lfast_inputs :: "string list" where
  "lfast_inputs = [
     ''logic'']"

definition lfast_outputs :: "string list" where
  "lfast_outputs = [
     ''lfast'']"

definition lfast_tags :: "string list" where
  "lfast_tags = [
     ''Embedded/industrial'']"

definition lfast_c_def :: srd_c_decoder where
  "lfast_c_def = \<lparr>cd_id = Some ''lfast_c'', cd_name = Some ''LFAST(C)'',
     cd_longname = Some ''NXP LFAST interface (C)'', cd_desc = Some ''Differential high-speed P2P interface (C implementation)'', cd_license = Some ''gplv2+'',
     cd_channels = Some lfast_channels, cd_num_channels = 1,
     cd_optional_channels = None, cd_num_optional_channels = 0,
     cd_options = None, cd_num_options = 0,
     cd_num_annotations = 9, cd_ann_labels = Some lfast_ann_labels,
     cd_num_annotation_rows = 3, cd_annotation_rows = Some lfast_ann_rows,
     cd_inputs = Some lfast_inputs, cd_num_inputs = 1, cd_outputs = Some lfast_outputs, cd_num_outputs = 1,
     cd_binary = None, cd_num_binary = 0, cd_tags = Some lfast_tags, cd_num_tags = 1\<rparr>"

lemma lfast_described: "described lfast_c_def = (True, True, True)"
  by (simp add: described_simps lfast_channels_def lfast_ann_labels_def lfast_ann_rows_def lfast_inputs_def lfast_outputs_def lfast_tags_def lfast_c_def_def)

section \<open>lin_c.c\<close>

definition lin_options :: "srd_decoder_option list" where
  "lin_options = [
     \<lparr>opt_id = Some ''version'', opt_idn = Some ''dec_lin_opt_version'', opt_desc = Some ''Protocol version'',
        opt_def = Some (GV_int64 2), opt_values = [GV_int64 1, GV_int64 2]\<rparr>]"

definition lin_ann_labels :: "(string option \<times> string option \<times> string option) list" where
  "lin_ann_labels = [
     (Some [], Some ''data'', Some ''LIN data''),
     (Some [], Some ''control'', Some ''Protocol info''),
     (Some [], Some ''error'', Some ''Error descriptions''),
     (Some [], Some ''inline_error'', Some ''Protocol violations and errors'')]"

definition lin_ann_rows :: "srd_c_ann_row list" where
  "lin_ann_rows = [
     \<lparr>car_id = Some ''data'', car_desc = Some ''Data'', car_ann_classes = Some [0, 1, 3], car_num_ann_classes = 3\<rparr>,
     \<lparr>car_id = Some ''error'', car_desc = Some ''Error'', car_ann_classes = Some [2], car_num_ann_classes = 1\<rparr>]"

definition lin_inputs :: "string list" where
  "lin_inputs = [
     ''uart'']"

definition lin_outputs :: "string list" where
  "lin_outputs = []"

definition lin_tags :: "string list" where
  "lin_tags = [
     ''Automotive'']"

definition lin_c_def :: srd_c_decoder where
  "lin_c_def = \<lparr>cd_id = Some ''lin_c'', cd_name = Some ''LIN'',
     cd_longname = Some ''Local Interconnect Network'', cd_desc = Some ''Local Interconnect Network (LIN) protocol.'', cd_license = Some ''gplv2+'',
     cd_channels = None, cd_num_channels = 0,
     cd_optional_channels = None, cd_num_optional_channels = 0,
     cd_options = Some lin_options, cd_num_options = 1,
     cd_num_annotations = 4, cd_ann_labels = Some lin_ann_labels,
     cd_num_annotation_rows = 2, cd_annotation_rows = Some lin_ann_rows,
     cd_inputs = Some lin_inputs, cd_num_inputs = 1, cd_outputs = Some lin_outputs, cd_num_outputs = 0,
     cd_binary = None, cd_num_binary = 0, cd_tags = Some lin_tags, cd_num_tags = 1\<rparr>"

lemma lin_described: "described lin_c_def = (True, True, True)"
  by (simp add: described_simps lin_options_def lin_ann_labels_def lin_ann_rows_def lin_inputs_def lin_outputs_def lin_tags_def lin_c_def_def)

section \<open>lm75_c.c\<close>

definition lm75_options :: "srd_decoder_option list" where
  "lm75_options = [
     \<lparr>opt_id = Some ''sensor'', opt_idn = Some ''dec_lm75_opt_sensor'', opt_desc = Some ''Sensor type'',
        opt_def = Some (GV_string ''lm75''), opt_values = [GV_string ''lm75'']\<rparr>,
     \<lparr>opt_id = Some ''resolution'', opt_idn = Some ''dec_lm75_opt_resolution'', opt_desc = Some ''Resolution (bits)'',
        opt_def = Some (GV_int64 9), opt_values = [GV_int64 9, GV_int64 10, GV_int64 11, GV_int64 12]\<rparr>]"

definition lm75_ann_labels :: "(string option \<times> string option \<times> string option) list" where
  "lm75_ann_labels = [
     (Some [], Some ''celsius'', Some ''Temperature in degrees Celsius''),
     (Some [], Some ''kelvin'', Some ''Temperature in Kelvin''),
     (Some [], Some ''text-verbose'', Some ''Human-readable text (verbose)''),
     (Some [], Some ''text'', Some ''Human-readable text''),
     (Some [], Some ''warnings'', Some ''Human-readable warnings'')]"

definition lm75_ann_rows :: "srd_c_ann_row list" where
  "lm75_ann_rows = [
     \<lparr>car_id = Some ''celsius'', car_desc = Some ''Temperature in degrees Celsius'', car_ann_classes = Some [0], car_num_ann_classes = 1\<rparr>,
     \<lparr>car_id = Some ''kelvin'', car_desc = Some ''Temperature in Kelvin'', car_ann_classes = Some [1], car_num_ann_classes = 1\<rparr>,
     \<lparr>car_id = Some ''text-verbose'', car_desc = Some ''Human-readable text (verbose)'', car_ann_classes = Some [2], car_num_ann_classes = 1\<rparr>,
     \<lparr>car_id = Some ''text'', car_desc = Some ''Human-readable text'', car_ann_classes = Some [3], car_num_ann_classes = 1\<rparr>,
     \<lparr>car_id = Some ''warnings'', car_desc = Some ''Human-readable warnings'', car_ann_classes = Some [4], car_num_ann_classes = 1\<rparr>]"

definition lm75_inputs :: "string list" where
  "lm75_inputs = [
     ''i2c'']"

definition lm75_tags :: "string list" where
  "lm75_tags = [
     ''Sensor'']"

definition lm75_c_def :: srd_c_decoder where
  "lm75_c_def = \<lparr>cd_id = Some ''lm75_c'', cd_name = Some ''Lm75(C)'',
     cd_longname = Some ''National LM75 (C)'', cd_desc = Some ''National LM75 (and compatibles) temperature sensor. (C implementation)'', cd_license = Some ''gplv2+'',
     cd_channels = None, cd_num_channels = 0,
     cd_optional_channels = None, cd_num_optional_channels = 0,
     cd_options = Some lm75_options, cd_num_options = 2,
     cd_num_annotations = 5, cd_ann_labels = Some lm75_ann_labels,
     cd_num_annotation_rows = 5, cd_annotation_rows = Some lm75_ann_rows,
     cd_inputs = Some lm75_inputs, cd_num_inputs = 1, cd_outputs = None, cd_num_outputs = 0,
     cd_binary = None, cd_num_binary = 0, cd_tags = Some lm75_tags, cd_num_tags = 1\<rparr>"

lemma lm75_described: "described lm75_c_def = (True, True, True)"
  by (simp add: described_simps lm75_options_def lm75_ann_labels_def lm75_ann_rows_def lm75_inputs_def lm75_tags_def lm75_c_def_def)

section \<open>lpc_c.c\<close>

definition lpc_channels :: "srd_channel list" where
  "lpc_channels = [
     \<lparr>ch_id = Some ''lframe'', ch_name = Some ''LFRAME#'', ch_desc = Some ''Frame'', ch_order = 0, ch_type = -1, ch_idn = Some ''dec_lpc_chan_lframe''\<rparr>,
     \<lparr>ch_id = Some ''lclk'', ch_name = Some ''LCLK'', ch_desc = Some ''Clock'', ch_order = 1, ch_type = 0, ch_idn = Some ''dec_lpc_chan_lclk''\<rparr>,
     \<lparr>ch_id = Some ''lad0'', ch_name = Some ''LAD[0]'', ch_desc = Some ''Addr/control/data 0'', ch_order = 2, ch_type = 1, ch_idn = Some ''dec_lpc_chan_lad0''\<rparr>,
     \<lparr>ch_id = Some ''lad1'', ch_name = Some ''LAD[1]'', ch_desc = Some ''Addr/control/data 1'', ch_order = 3, ch_type = 1, ch_idn = Some ''dec_lpc_chan_lad1''\<rparr>,
     \<lparr>ch_id = Some ''lad2'', ch_name = Some ''LAD[2]'', ch_desc = Some ''Addr/control/data 2'', ch_order = 4, ch_type = 1, ch_idn = Some ''dec_lpc_chan_lad2''\<rparr>,
     \<lparr>ch_id = Some ''lad3'', ch_name = Some ''LAD[3]'', ch_desc = Some ''Addr/control/data 3'', ch_order = 5, ch_type = 1, ch_idn = Some ''dec_lpc_chan_lad3''\<rparr>]"

definition lpc_optional_channels :: "srd_channel list" where
  "lpc_optional_channels = [
     \<lparr>ch_id = Some ''lreset'', ch_name = Some ''LRESET#'', ch_desc = Some ''Reset'', ch_order = 6, ch_type = -1, ch_idn = Some ''dec_lpc_chan_lreset''\<rparr>,
     \<lparr>ch_id = Some ''ldrq'', ch_name = Some ''LDRQ#'', ch_desc = Some ''Encoded DMA / bus master request'', ch_order = 7, ch_type = -1, ch_idn = Some ''dec_lpc_chan_ldrq''\<rparr>,
     \<lparr>ch_id = Some ''serirq'', ch_name = Some ''SERIRQ'', ch_desc = Some ''Serialized IRQ'', ch_order = 8, ch_type = -1, ch_idn = Some ''dec_lpc_chan_serirq''\<rparr>,
     \<lparr>ch_id = Some ''clkrun'', ch_name = Some ''CLKRUN#'', ch_desc = Some ''Clock run'', ch_order = 9, ch_type = -1, ch_idn = Some ''dec_lpc_chan_clkrun''\<rparr>,
     \<lparr>ch_id = Some ''lpme'', ch_name = Some ''LPME#'', ch_desc = Some ''LPC power management event'', ch_order = 10, ch_type = -1, ch_idn = Some ''dec_lpc_chan_lpme''\<rparr>,
     \<lparr>ch_id = Some ''lpcpd'', ch_name = Some ''LPCPD#'', ch_desc = Some ''Power down'', ch_order = 11, ch_type = -1, ch_idn = Some ''dec_lpc_chan_lpcpd''\<rparr>,
     \<lparr>ch_id = Some ''lsmi'', ch_name = Some ''LSMI#'', ch_desc = Some ''System Management Interrupt'', ch_order = 12, ch_type = -1, ch_idn = Some ''dec_lpc_chan_lsmi''\<rparr>]"

definition lpc_ann_labels :: "(string option \<times> string option \<times> string option) list" where
  "lpc_ann_labels = [
     (Some [], Some ''warnings'', Some ''Warnings''),
     (Some [], Some ''start'', Some ''Start''),
     (Some [], Some ''cycle-type'', Some ''Cycle-type/direction''),
     (Some [], Some ''addr'', Some ''Address''),
     (Some [], Some ''tar1'', Some ''Turn-around cycle 1''),
     (Some [], Some ''sync'', Some ''Sync''),
     (Some [], Some ''timeout'', Some ''Time Out''),
     (Some [], Some ''data'', Some ''Data''),
     (Some [], Some ''tar2'', Some ''Turn-around cycle 2'')]"

definition lpc_ann_rows :: "srd_c_ann_row list" where
  "lpc_ann_rows = [
     \<lparr>car_id = Some ''data'', car_desc = Some ''Data'', car_ann_classes = Some [1, 2, 3, 4, 5, 6, 7, 8], car_num_ann_classes = 8\<rparr>,
     \<lparr>car_id = Some ''warnings'', car_desc = Some ''Warnings'', car_ann_classes = Some [0], car_num_ann_classes = 1\<rparr>]"

definition lpc_inputs :: "string list" where
  "lpc_inputs = [
     ''logic'']"

definition lpc_tags :: "string list" where
  "lpc_tags = [
     ''PC'']"

definition lpc_c_def :: srd_c_decoder where
  "lpc_c_def = \<lparr>cd_id = Some ''lpc_c'', cd_name = Some ''LPC(C)'',
     cd_longname = Some ''Low Pin Count (C)'', cd_desc = Some ''LPC bus protocol decoder (C implementation, faster than Python)'', cd_license = Some ''gplv2+'',
     cd_channels = Some lpc_channels, cd_num_channels = 6,
     cd_optional_channels = Some lpc_optional_channels, cd_num_optional_channels = 7,
     cd_options = None, cd_num_options = 0,
     cd_num_annotations = 9, cd_ann_labels = Some lpc_ann_labels,
     cd_num_annotation_rows = 2, cd_annotation_rows = Some lpc_ann_rows,
     cd_inputs = Some lpc_inputs, cd_num_inputs = 1, cd_outputs = None, cd_num_outputs = 0,
     cd_binary = None, cd_num_binary = 0, cd_tags = Some lpc_tags, cd_num_tags = 1\<rparr>"

lemma lpc_described: "described lpc_c_def = (True, True, True)"
  by (simp add: described_simps lpc_channels_def lpc_optional_channels_def lpc_ann_labels_def lpc_ann_rows_def lpc_inputs_def lpc_tags_def lpc_c_def_def)

section \<open>ltar_smartdevice_c.c\<close>

definition ltar_smartdevice_ann_labels :: "(string option \<times> string option \<times> string option) list" where
  "ltar_smartdevice_ann_labels = [
     (Some [], Some ''Start Bit'', Some ''Start Bit''),
     (Some [], Some ''Data Bit'', Some ''Data Bit''),
     (Some [], Some ''Stop Bit'', Some ''Stop Bit''),
     (Some [], Some ''Spacer Bit'', Some ''Spacer Bit''),
     (Some [], Some ''Block Stop Bit'', Some ''Block Stop Bit''),
     (Some [], Some ''Data frame'', Some ''Data frame''),
     (Some [], Some ''Framing error'', Some ''Framing error''),
     (Some [], Some ''Data block'', Some ''Data block''),
     (Some [], Some ''Block error'', Some ''Block error'')]"

definition ltar_smartdevice_ann_rows :: "srd_c_ann_row list" where
  "ltar_smartdevice_ann_rows = [
     \<lparr>car_id = Some ''bits'', car_desc = Some ''Bits'', car_ann_classes = Some [0, 1, 2, 3, 4], car_num_ann_classes = 5\<rparr>,
     \<lparr>car_id = Some ''frames'', car_desc = Some ''Frames'', car_ann_classes = Some [5, 6], car_num_ann_classes = 2\<rparr>,
     \<lparr>car_id = Some ''blocks'', car_desc = Some ''Blocks'', car_ann_classes = Some [7, 8], car_num_ann_classes = 2\<rparr>]"

definition ltar_smartdevice_inputs :: "string list" where
  "ltar_smartdevice_inputs = [
     ''afsk_bits'']"

definition ltar_smartdevice_outputs :: "string list" where
  "ltar_smartdevice_outputs = [
     ''ltar_smartdevice'']"

definition ltar_smartdevice_tags :: "string list" where
  "ltar_smartdevice_tags = [
     ''Embedded/industrial'']"

definition ltar_smartdevice_c_def :: srd_c_decoder where
  "ltar_smartdevice_c_def = \<lparr>cd_id = Some ''ltar_smartdevice_c'', cd_name = Some ''LTAR SmartDevice(C)'',
     cd_longname = Some ''LTAR SmartDevice (C)'', cd_desc = Some ''A decoder for the LTAR laser tag blaster's Smart Device protocol. (C implementation)'', cd_license = Some ''gplv2+'',
     cd_channels = None, cd_num_channels = 0,
     cd_optional_channels = None, cd_num_optional_channels = 0,
     cd_options = None, cd_num_options = 0,
     cd_num_annotations = 9, cd_ann_labels = Some ltar_smartdevice_ann_labels,
     cd_num_annotation_rows = 3, cd_annotation_rows = Some ltar_smartdevice_ann_rows,
     cd_inputs = Some ltar_smartdevice_inputs, cd_num_inputs = 1, cd_outputs = Some ltar_smartdevice_outputs, cd_num_outputs = 1,
     cd_binary = None, cd_num_binary = 0, cd_tags = Some ltar_smartdevice_tags, cd_num_tags = 1\<rparr>"

lemma ltar_smartdevice_described: "described ltar_smartdevice_c_def = (True, True, True)"
  by (simp add: described_simps ltar_smartdevice_ann_labels_def ltar_smartdevice_ann_rows_def ltar_smartdevice_inputs_def ltar_smartdevice_outputs_def ltar_smartdevice_tags_def ltar_smartdevice_c_def_def)

section \<open>ltar_smartdevice_decode_c.c\<close>

definition ltar_smartdevice_decode_ann_labels :: "(string option \<times> string option \<times> string option) list" where
  "ltar_smartdevice_decode_ann_labels = [
     (Some [], Some ''frame-name'', Some ''Frame Name''),
     (Some [], Some ''frame-error'', Some ''Frame Error''),
     (Some [], Some ''frame-bit-name'', Some ''Frame Bit Name''),
     (Some [], Some ''frame-bits-data'', Some ''Frame Bits Data''),
     (Some [], Some ''block-error'', Some ''Block Errors''),
     (Some [], Some ''block-data'', Some ''Block Data'')]"

definition ltar_smartdevice_decode_ann_rows :: "srd_c_ann_row list" where
  "ltar_smartdevice_decode_ann_rows = [
     \<lparr>car_id = Some ''frame-names'', car_desc = Some ''Frame name'', car_ann_classes = Some [0], car_num_ann_classes = 1\<rparr>,
     \<lparr>car_id = Some ''frame-errors'', car_desc = Some ''Frame errors'', car_ann_classes = Some [1], car_num_ann_classes = 1\<rparr>,
     \<lparr>car_id = Some ''frame-bit-names'', car_desc = Some ''Frame bit names'', car_ann_classes = Some [2], car_num_ann_classes = 1\<rparr>,
     \<lparr>car_id = Some ''frame-bits-datas'', car_desc = Some ''Frame bits data'', car_ann_classes = Some [3], car_num_ann_classes = 1\<rparr>,
     \<lparr>car_id = Some ''block-errors'', car_desc = Some ''Block errors'', car_ann_classes = Some [4], car_num_ann_classes = 1\<rparr>]"

definition ltar_smartdevice_decode_inputs :: "string list" where
  "ltar_smartdevice_decode_inputs = [
     ''ltar_smartdevice'']"

definition ltar_smartdevice_decode_outputs :: "string list" where
  "ltar_smartdevice_decode_outputs = [
     ''ltar_smartdevice_decode'']"

definition ltar_smartdevice_decode_tags :: "string list" where
  "ltar_smartdevice_decode_tags = [
     ''Embedded/industrial'']"

definition ltar_smartdevice_decode_c_def :: srd_c_decoder where
  "ltar_smartdevice_decode_c_def = \<lparr>cd_id = Some ''ltar_smartdevice_decode_c'', cd_name = Some ''LTAR SmartDevice Decode(C)'',
     cd_longname = Some ''LTAR SmartDevice Decode (C)'', cd_desc = Some ''A decoder for the LTAR SmartDevice protocol. (C implementation)'', cd_license = Some ''gplv2+'',
     cd_channels = None, cd_num_channels = 0,
     cd_optional_channels = None, cd_num_optional_channels = 0,
     cd_options = None, cd_num_options = 0,
     cd_num_annotations = 6, cd_ann_labels = Some ltar_smartdevice_decode_ann_labels,
     cd_num_annotation_rows = 5, cd_annotation_rows = Some ltar_smartdevice_decode_ann_rows,
     cd_inputs = Some ltar_smartdevice_decode_inputs, cd_num_inputs = 1, cd_outputs = Some ltar_smartdevice_decode_outputs, cd_num_outputs = 1,
     cd_binary = None, cd_num_binary = 0, cd_tags = Some ltar_smartdevice_decode_tags, cd_num_tags = 1\<rparr>"

lemma ltar_smartdevice_decode_described: "described ltar_smartdevice_decode_c_def = (True, True, True)"
  by (simp add: described_simps ltar_smartdevice_decode_ann_labels_def ltar_smartdevice_decode_ann_rows_def ltar_smartdevice_decode_inputs_def ltar_smartdevice_decode_outputs_def ltar_smartdevice_decode_tags_def ltar_smartdevice_decode_c_def_def)

section \<open>ltc242x_c.c\<close>

definition ltc242x_options :: "srd_decoder_option list" where
  "ltc242x_options = [
     \<lparr>opt_id = Some ''vref'', opt_idn = Some ''dec_ltc242x_opt_vref'', opt_desc = Some ''Reference voltage (V)'',
        opt_def = Some (GV_double (3 / 2)), opt_values = []\<rparr>]"

definition ltc242x_ann_labels :: "(string option \<times> string option \<times> string option) list" where
  "ltc242x_ann_labels = [
     (Some [], Some ''ch0_voltage'', Some ''CH0 voltage''),
     (Some [], Some ''ch1_voltage'', Some ''CH1 voltage'')]"

definition ltc242x_ann_rows :: "srd_c_ann_row list" where
  "ltc242x_ann_rows = [
     \<lparr>car_id = Some ''ch0_voltages'', car_desc = Some ''CH0 voltages'', car_ann_classes = Some [0], car_num_ann_classes = 1\<rparr>,
     \<lparr>car_id = Some ''ch1_voltages'', car_desc = Some ''CH1 voltages'', car_ann_classes = Some [1], car_num_ann_classes = 1\<rparr>]"

definition ltc242x_inputs :: "string list" where
  "ltc242x_inputs = [
     ''spi'']"

definition ltc242x_tags :: "string list" where
  "ltc242x_tags = [
     ''IC'',
     ''Analog/digital'']"

definition ltc242x_c_def :: srd_c_decoder where
  "ltc242x_c_def = \<lparr>cd_id = Some ''ltc242x_c'', cd_name = Some ''LTC242x(C)'',
     cd_longname = Some ''Linear Technology LTC242x (C)'', cd_desc = Some ''Linear Technology LTC2421/LTC2422 1-/2-channel 20-bit ADC. (C implementation)'', cd_license = Some ''gplv2+'',
     cd_channels = None, cd_num_channels = 0,
     cd_optional_channels = None, cd_num_optional_channels = 0,
     cd_options = Some ltc242x_options, cd_num_options = 1,
     cd_num_annotations = 2, cd_ann_labels = Some ltc242x_ann_labels,
     cd_num_annotation_rows = 2, cd_annotation_rows = Some ltc242x_ann_rows,
     cd_inputs = Some ltc242x_inputs, cd_num_inputs = 1, cd_outputs = None, cd_num_outputs = 0,
     cd_binary = None, cd_num_binary = 0, cd_tags = Some ltc242x_tags, cd_num_tags = 2\<rparr>"

lemma ltc242x_described: "described ltc242x_c_def = (True, True, True)"
  by (simp add: described_simps ltc242x_options_def ltc242x_ann_labels_def ltc242x_ann_rows_def ltc242x_inputs_def ltc242x_tags_def ltc242x_c_def_def)

section \<open>ltc26x7_c.c\<close>

definition ltc26x7_options :: "srd_decoder_option list" where
  "ltc26x7_options = [
     \<lparr>opt_id = Some ''chip'', opt_idn = Some ''dec_ltc26x7_opt_chip'', opt_desc = Some ''Chip'',
        opt_def = Some (GV_string ''ltc2607''), opt_values = [GV_string ''ltc2607'', GV_string ''ltc2617'', GV_string ''ltc2627'']\<rparr>,
     \<lparr>opt_id = Some ''vref'', opt_idn = Some ''dec_ltc26x7_opt_vref'', opt_desc = Some ''Reference voltage (V)'',
        opt_def = Some (GV_double (3 / 2)), opt_values = []\<rparr>]"

definition ltc26x7_ann_labels :: "(string option \<times> string option \<times> string option) list" where
  "ltc26x7_ann_labels = [
     (Some [], Some ''slave_addr'', Some ''Slave address''),
     (Some [], Some ''command'', Some ''Command''),
     (Some [], Some ''address'', Some ''Address''),
     (Some [], Some ''dac_a_voltage'', Some ''DAC A voltage''),
     (Some [], Some ''dac_b_voltage'', Some ''DAC B voltage'')]"

definition ltc26x7_ann_rows :: "srd_c_ann_row list" where
  "ltc26x7_ann_rows = [
     \<lparr>car_id = Some ''addr_cmd'', car_desc = Some ''Address/command'', car_ann_classes = Some [0, 1, 2], car_num_ann_classes = 3\<rparr>,
     \<lparr>car_id = Some ''dac_a_voltages'', car_desc = Some ''DAC A voltages'', car_ann_classes = Some [3], car_num_ann_classes = 1\<rparr>,
     \<lparr>car_id = Some ''dac_b_voltages'', car_desc = Some ''DAC B voltages'', car_ann_classes = Some [4], car_num_ann_classes = 1\<rparr>]"

definition ltc26x7_inputs :: "string list" where
  "ltc26x7_inputs = [
     ''i2c'']"

definition ltc26x7_tags :: "string list" where
  "ltc26x7_tags = [
     ''IC'',
     ''Analog/digital'']"

definition ltc26x7_c_def :: srd_c_decoder where
  "ltc26x7_c_def = \<lparr>cd_id = Some ''ltc26x7_c'', cd_name = Some ''LTC26x7(C)'',
     cd_longname = Some ''Linear Technology LTC26x7 (C)'', cd_desc = Some ''Linear Technology LTC26x7 16-/14-/12-bit rail-to-rail DACs. (C implementation)'', cd_license = Some ''gplv2+'',
     cd_channels = None, cd_num_channels = 0,
     cd_optional_channels = None, cd_num_optional_channels = 0,
     cd_options = Some ltc26x7_options, cd_num_options = 2,
     cd_num_annotations = 5, cd_ann_labels = Some ltc26x7_ann_labels,
     cd_num_annotation_rows = 3, cd_annotation_rows = Some ltc26x7_ann_rows,
     cd_inputs = Some ltc26x7_inputs, cd_num_inputs = 1, cd_outputs = None, cd_num_outputs = 0,
     cd_binary = None, cd_num_binary = 0, cd_tags = Some ltc26x7_tags, cd_num_tags = 2\<rparr>"

lemma ltc26x7_described: "described ltc26x7_c_def = (True, True, True)"
  by (simp add: described_simps ltc26x7_options_def ltc26x7_ann_labels_def ltc26x7_ann_rows_def ltc26x7_inputs_def ltc26x7_tags_def ltc26x7_c_def_def)

section \<open>maple_bus_c.c\<close>

definition maple_bus_channels :: "srd_channel list" where
  "maple_bus_channels = [
     \<lparr>ch_id = Some ''sdcka'', ch_name = Some ''SDCKA'', ch_desc = Some ''Data/clock line A'', ch_order = 0, ch_type = 0, ch_idn = Some ''dec_maple_bus_chan_sdcka''\<rparr>,
     \<lparr>ch_id = Some ''sdckb'', ch_name = Some ''SDCKB'', ch_desc = Some ''Data/clock line B'', ch_order = 1, ch_type = 1, ch_idn = Some ''dec_maple_bus_chan_sdckb''\<rparr>]"

definition maple_bus_ann_labels :: "(string option \<times> string option \<times> string option) list" where
  "maple_bus_ann_labels = [
     (Some [], Some ''start'', Some ''Start pattern''),
     (Some [], Some ''end'', Some ''End pattern''),
     (Some [], Some ''start-with-crc'', Some ''Start pattern with CRC''),
     (Some [], Some ''occupancy'', Some ''SDCKB occupancy pattern''),
     (Some [], Some ''reset'', Some ''RESET pattern''),
     (Some [], Some ''bit'', Some ''Bit''),
     (Some [], Some ''size'', Some ''Data size''),
     (Some [], Some ''source'', Some ''Source AP''),
     (Some [], Some ''dest'', Some ''Destination AP''),
     (Some [], Some ''command'', Some ''Command''),
     (Some [], Some ''data'', Some ''Data''),
     (Some [], Some ''checksum'', Some ''Checksum''),
     (Some [], Some ''frame-error'', Some ''Frame error''),
     (Some [], Some ''checksum-error'', Some ''Checksum error''),
     (Some [], Some ''size-error'', Some ''Size error'')]"

definition maple_bus_ann_rows :: "srd_c_ann_row list" where
  "maple_bus_ann_rows = [
     \<lparr>car_id = Some ''bits'', car_desc = Some ''Bits'', car_ann_classes = Some [0, 1, 2, 3, 4, 5], car_num_ann_classes = 6\<rparr>,
     \<lparr>car_id = Some ''fields'', car_desc = Some ''Fields'', car_ann_classes = Some [6, 7, 8, 9, 10, 11], car_num_ann_classes = 6\<rparr>,
     \<lparr>car_id = Some ''warnings'', car_desc = Some ''Warnings'', car_ann_classes = Some [12, 13, 14], car_num_ann_classes = 3\<rparr>]"

definition maple_bus_binary :: "srd_decoder_binary list" where
  "maple_bus_binary = [
     \<lparr>bin_class = 0, bin_id = Some ''size'', bin_desc = Some ''Data size''\<rparr>,
     \<lparr>bin_class = 1, bin_id = Some ''source'', bin_desc = Some ''Source AP''\<rparr>,
     \<lparr>bin_class = 2, bin_id = Some ''dest'', bin_desc = Some ''Destination AP''\<rparr>,
     \<lparr>bin_class = 3, bin_id = Some ''command'', bin_desc = Some ''Command code''\<rparr>,
     \<lparr>bin_class = 4, bin_id = Some ''data'', bin_desc = Some ''Data''\<rparr>,
     \<lparr>bin_class = 5, bin_id = Some ''checksum'', bin_desc = Some ''Checksum''\<rparr>]"

definition maple_bus_inputs :: "string list" where
  "maple_bus_inputs = [
     ''logic'']"

definition maple_bus_tags :: "string list" where
  "maple_bus_tags = [
     ''Retro computing'']"

definition maple_bus_c_def :: srd_c_decoder where
  "maple_bus_c_def = \<lparr>cd_id = Some ''maple_bus_c'', cd_name = Some ''Maple bus(C)'',
     cd_longname = Some ''SEGA Maple bus (C)'', cd_desc = Some ''Maple bus peripheral protocol for SEGA Dreamcast (C implementation)'', cd_license = Some ''gplv2+'',
     cd_channels = Some maple_bus_channels, cd_num_channels = 2,
     cd_optional_channels = None, cd_num_optional_channels = 0,
     cd_options = None, cd_num_options = 0,
     cd_num_annotations = 15, cd_ann_labels = Some maple_bus_ann_labels,
     cd_num_annotation_rows = 3, cd_annotation_rows = Some maple_bus_ann_rows,
     cd_inputs = Some maple_bus_inputs, cd_num_inputs = 1, cd_outputs = None, cd_num_outputs = 0,
     cd_binary = Some maple_bus_binary, cd_num_binary = 6, cd_tags = Some maple_bus_tags, cd_num_tags = 1\<rparr>"

lemma maple_bus_described: "described maple_bus_c_def = (True, True, True)"
  by (simp add: described_simps maple_bus_channels_def maple_bus_ann_labels_def maple_bus_ann_rows_def maple_bus_binary_def maple_bus_inputs_def maple_bus_tags_def maple_bus_c_def_def)

section \<open>max6954_c.c\<close>

definition max6954_ann_labels :: "(string option \<times> string option \<times> string option) list" where
  "max6954_ann_labels = [
     (Some [], Some ''register'', Some ''Register write''),
     (Some [], Some ''digit'', Some ''Digit displayed''),
     (Some [], Some ''warning'', Some ''Warning'')]"

definition max6954_ann_rows :: "srd_c_ann_row list" where
  "max6954_ann_rows = [
     \<lparr>car_id = Some ''commands'', car_desc = Some ''Commands'', car_ann_classes = Some [0, 1], car_num_ann_classes = 2\<rparr>,
     \<lparr>car_id = Some ''warnings'', car_desc = Some ''Warnings'', car_ann_classes = Some [2], car_num_ann_classes = 1\<rparr>]"

definition max6954_inputs :: "string list" where
  "max6954_inputs = [
     ''spi'']"

definition max6954_tags :: "string list" where
  "max6954_tags = [
     ''Display'']"

definition max6954_c_def :: srd_c_decoder where
  "max6954_c_def = \<lparr>cd_id = Some ''max6954_c'', cd_name = Some ''MAX6954(C)'',
     cd_longname = Some ''Maxim MAX6954 (C)'', cd_desc = Some ''Maxim MAX6954 LED display driver. (C implementation)'', cd_license = Some ''gplv2+'',
     cd_channels = None, cd_num_channels = 0,
     cd_optional_channels = None, cd_num_optional_channels = 0,
     cd_options = None, cd_num_options = 0,
     cd_num_annotations = 3, cd_ann_labels = Some max6954_ann_labels,
     cd_num_annotation_rows = 2, cd_annotation_rows = Some max6954_ann_rows,
     cd_inputs = Some max6954_inputs, cd_num_inputs = 1, cd_outputs = None, cd_num_outputs = 0,
     cd_binary = None, cd_num_binary = 0, cd_tags = Some max6954_tags, cd_num_tags = 1\<rparr>"

lemma max6954_described: "described max6954_c_def = (True, True, True)"
  by (simp add: described_simps max6954_ann_labels_def max6954_ann_rows_def max6954_inputs_def max6954_tags_def max6954_c_def_def)

section \<open>max7219_c.c\<close>

definition max7219_ann_labels :: "(string option \<times> string option \<times> string option) list" where
  "max7219_ann_labels = [
     (Some [], Some ''register'', Some ''Registers written to the device''),
     (Some [], Some ''digit'', Some ''Digits displayed on the device''),
     (Some [], Some ''warnings'', Some ''Human-readable warnings'')]"

definition max7219_ann_rows :: "srd_c_ann_row list" where
  "max7219_ann_rows = [
     \<lparr>car_id = Some ''commands'', car_desc = Some ''Commands'', car_ann_classes = Some [0, 1], car_num_ann_classes = 2\<rparr>,
     \<lparr>car_id = Some ''warnings'', car_desc = Some ''Warnings'', car_ann_classes = Some [2], car_num_ann_classes = 1\<rparr>]"

definition max7219_inputs :: "string list" where
  "max7219_inputs = [
     ''spi'']"

definition max7219_tags :: "string list" where
  "max7219_tags = [
     ''Display'']"

definition max7219_c_def :: srd_c_decoder where
  "max7219_c_def = \<lparr>cd_id = Some ''max7219_c'', cd_name = Some ''MAX7219(C)'',
     cd_longname = Some ''Maxim MAX7219/MAX7221 (C)'', cd_desc = Some ''Maxim MAX72xx series 8-digit LED display driver. (C implementation)'', cd_license = Some ''gplv2+'',
     cd_channels = None, cd_num_channels = 0,
     cd_optional_channels = None, cd_num_optional_channels = 0,
     cd_options = None, cd_num_options = 0,
     cd_num_annotations = 3, cd_ann_labels = Some max7219_ann_labels,
     cd_num_annotation_rows = 2, cd_annotation_rows = Some max7219_ann_rows,
     cd_inputs = Some max7219_inputs, cd_num_inputs = 1, cd_outputs = None, cd_num_outputs = 0,
     cd_binary = None, cd_num_binary = 0, cd_tags = Some max7219_tags, cd_num_tags = 1\<rparr>"

lemma max7219_described: "described max7219_c_def = (True, True, True)"
  by (simp add: described_simps max7219_ann_labels_def max7219_ann_rows_def max7219_inputs_def max7219_tags_def max7219_c_def_def)

section \<open>mcs48_c.c\<close>

definition mcs48_channels :: "srd_channel list" where
  "mcs48_channels = [
     \<lparr>ch_id = Some ''ale'', ch_name = Some ''ALE'', ch_desc = Some ''Address latch enable'', ch_order = 0, ch_type = -1, ch_idn = None\<rparr>,
     \<lparr>ch_id = Some ''psen'', ch_name = Some ''/PSEN'', ch_desc = Some ''Program store enable'', ch_order = 1, ch_type = -1, ch_idn = None\<rparr>,
     \<lparr>ch_id = Some ''d0'', ch_name = Some ''D0'', ch_desc = Some ''CPU data line 0'', ch_order = 2, ch_type = 1, ch_idn = None\<rparr>,
     \<lparr>ch_id = Some ''d1'', ch_name = Some ''D1'', ch_desc = Some ''CPU data line 1'', ch_order = 3, ch_type = 1, ch_idn = None\<rparr>,
     \<lparr>ch_id = Some ''d2'', ch_name = Some ''D2'', ch_desc = Some ''CPU data line 2'', ch_order = 4, ch_type = 1, ch_idn = None\<rparr>,
     \<lparr>ch_id = Some ''d3'', ch_name = Some ''D3'', ch_desc = Some ''CPU data line 3'', ch_order = 5, ch_type = 1, ch_idn = None\<rparr>,
     \<lparr>ch_id = Some ''d4'', ch_name = Some ''D4'', ch_desc = Some ''CPU data line 4'', ch_order = 6, ch_type = 1, ch_idn = None\<rparr>,
     \<lparr>ch_id = Some ''d5'', ch_name = Some ''D5'', ch_desc = Some ''CPU data line 5'', ch_order = 7, ch_type = 1, ch_idn = None\<rparr>,
     \<lparr>ch_id = Some ''d6'', ch_name = Some ''D6'', ch_desc = Some ''CPU data line 6'', ch_order = 8, ch_type = 1, ch_idn = None\<rparr>,
     \<lparr>ch_id = Some ''d7'', ch_name = Some ''D7'', ch_desc = Some ''CPU data line 7'', ch_order = 9, ch_type = 1, ch_idn = None\<rparr>,
     \<lparr>ch_id = Some ''a8'', ch_name = Some ''A8'', ch_desc = Some ''CPU address line 8'', ch_order = 10, ch_type = 1, ch_idn = None\<rparr>,
     \<lparr>ch_id = Some ''a9'', ch_name = Some ''A9'', ch_desc = Some ''CPU address line 9'', ch_order = 11, ch_type = 1, ch_idn = None\<rparr>,
     \<lparr>ch_id = Some ''a10'', ch_name = Some ''A10'', ch_desc = Some ''CPU address line 10'', ch_order = 12, ch_type = 1, ch_idn = None\<rparr>,
     \<lparr>ch_id = Some ''a11'', ch_name = Some ''A11'', ch_desc = Some ''CPU address line 11'', ch_order = 13, ch_type = 1, ch_idn = None\<rparr>]"

definition mcs48_optional_channels :: "srd_channel list" where
  "mcs48_optional_channels = [
     \<lparr>ch_id = Some ''a12'', ch_name = Some ''A12'', ch_desc = Some ''CPU address line 12'', ch_order = 14, ch_type = 1, ch_idn = None\<rparr>]"

definition mcs48_ann_labels :: "(string option \<times> string option \<times> string option) list" where
  "mcs48_ann_labels = [
     (Some [], Some ''romdata'', Some ''Address:Data'')]"

definition mcs48_ann_rows :: "srd_c_ann_row list" where
  "mcs48_ann_rows = [
     \<lparr>car_id = Some ''romdata'', car_desc = Some ''Address:Data'', car_ann_classes = Some [0], car_num_ann_classes = 1\<rparr>]"

definition mcs48_binary :: "srd_decoder_binary list" where
  "mcs48_binary = [
     \<lparr>bin_class = 0, bin_id = Some ''romdata'', bin_desc = Some ''AAAA:DD''\<rparr>]"

definition mcs48_inputs :: "string list" where
  "mcs48_inputs = [
     ''logic'']"

definition mcs48_tags :: "string list" where
  "mcs48_tags = [
     ''Retro computing'']"

definition mcs48_c_def :: srd_c_decoder where
  "mcs48_c_def = \<lparr>cd_id = Some ''mcs48_c'', cd_name = Some ''MCS-48(C)'',
     cd_longname = Some ''Intel MCS-48 (C)'', cd_desc = Some ''Intel MCS-48 external memory access protocol. (C implementation)'', cd_license = Some ''gplv2+'',
     cd_channels = Some mcs48_channels, cd_num_channels = 14,
     cd_optional_channels = Some mcs48_optional_channels, cd_num_optional_channels = 1,
     cd_options = None, cd_num_options = 0,
     cd_num_annotations = 1, cd_ann_labels = Some mcs48_ann_labels,
     cd_num_annotation_rows = 1, cd_annotation_rows = Some mcs48_ann_rows,
     cd_inputs = Some mcs48_inputs, cd_num_inputs = 1, cd_outputs = None, cd_num_outputs = 0,
     cd_binary = Some mcs48_binary, cd_num_binary = 1, cd_tags = Some mcs48_tags, cd_num_tags = 1\<rparr>"

lemma mcs48_described: "described mcs48_c_def = (True, True, True)"
  by (simp add: described_simps mcs48_channels_def mcs48_optional_channels_def mcs48_ann_labels_def mcs48_ann_rows_def mcs48_binary_def mcs48_inputs_def mcs48_tags_def mcs48_c_def_def)

section \<open>mdio_c.c\<close>

definition mdio_options :: "srd_decoder_option list" where
  "mdio_options = [
     \<lparr>opt_id = Some ''show_debug_bits'', opt_idn = None, opt_desc = Some ''Show debug bits'',
        opt_def = Some (GV_string ''no''), opt_values = [GV_string ''yes'', GV_string ''no'']\<rparr>,
     \<lparr>opt_id = Some ''read_edge'', opt_idn = None, opt_desc = Some ''read edge'',
        opt_def = Some (GV_string ''falling''), opt_values = [GV_string ''rising'', GV_string ''falling'']\<rparr>]"

definition mdio_channels :: "srd_channel list" where
  "mdio_channels = [
     \<lparr>ch_id = Some ''mdc'', ch_name = Some ''MDC'', ch_desc = Some ''Clock'', ch_order = 0, ch_type = 0, ch_idn = None\<rparr>,
     \<lparr>ch_id = Some ''mdio'', ch_name = Some ''MDIO'', ch_desc = Some ''Data'', ch_order = 1, ch_type = 1, ch_idn = None\<rparr>]"

definition mdio_ann_labels :: "(string option \<times> string option \<times> string option) list" where
  "mdio_ann_labels = [
     (Some [], Some ''bit-val'', Some ''Bit value''),
     (Some [], Some ''bit-num'', Some ''Bit number''),
     (Some [], Some ''frame'', Some ''Frame''),
     (Some [], Some ''frame-idle'', Some ''Bus idle state''),
     (Some [], Some ''frame-error'', Some ''Frame error''),
     (Some [], Some ''decode'', Some ''Decode'')]"

definition mdio_ann_rows :: "srd_c_ann_row list" where
  "mdio_ann_rows = [
     \<lparr>car_id = Some ''bit-val'', car_desc = Some ''Bit value'', car_ann_classes = Some [0], car_num_ann_classes = 1\<rparr>,
     \<lparr>car_id = Some ''bit-num'', car_desc = Some ''Bit number'', car_ann_classes = Some [1], car_num_ann_classes = 1\<rparr>,
     \<lparr>car_id = Some ''frame'', car_desc = Some ''Frame'', car_ann_classes = Some [2, 3], car_num_ann_classes = 2\<rparr>,
     \<lparr>car_id = Some ''frame-error'', car_desc = Some ''Frame error'', car_ann_classes = Some [4], car_num_ann_classes = 1\<rparr>,
     \<lparr>car_id = Some ''decode'', car_desc = Some ''Decode'', car_ann_classes = Some [5], car_num_ann_classes = 1\<rparr>]"

definition mdio_inputs :: "string list" where
  "mdio_inputs = [
     ''logic'']"

definition mdio_outputs :: "string list" where
  "mdio_outputs = [
     ''mdio'']"

definition mdio_tags :: "string list" where
  "mdio_tags = [
     ''Networking'']"

definition mdio_c_def :: srd_c_decoder where
  "mdio_c_def = \<lparr>cd_id = Some ''mdio_c'', cd_name = Some ''MDIO(C)'',
     cd_longname = Some ''Management Data Input/Output (C)'', cd_desc = Some ''MII management bus between MAC and PHY (C implementation)'', cd_license = Some ''bsd'',
     cd_channels = Some mdio_channels, cd_num_channels = 2,
     cd_optional_channels = None, cd_num_optional_channels = 0,
     cd_options = Some mdio_options, cd_num_options = 2,
     cd_num_annotations = 6, cd_ann_labels = Some mdio_ann_labels,
     cd_num_annotation_rows = 5, cd_annotation_rows = Some mdio_ann_rows,
     cd_inputs = Some mdio_inputs, cd_num_inputs = 1, cd_outputs = Some mdio_outputs, cd_num_outputs = 1,
     cd_binary = None, cd_num_binary = 0, cd_tags = Some mdio_tags, cd_num_tags = 1\<rparr>"

lemma mdio_described: "described mdio_c_def = (True, True, True)"
  by (simp add: described_simps mdio_options_def mdio_channels_def mdio_ann_labels_def mdio_ann_rows_def mdio_inputs_def mdio_outputs_def mdio_tags_def mdio_c_def_def)

section \<open>microwire_c.c\<close>

definition microwire_channels :: "srd_channel list" where
  "microwire_channels = [
     \<lparr>ch_id = Some ''cs'', ch_name = Some ''CS'', ch_desc = Some ''Chip select'', ch_order = 0, ch_type = -1, ch_idn = None\<rparr>,
     \<lparr>ch_id = Some ''sk'', ch_name = Some ''SK'', ch_desc = Some ''Clock'', ch_order = 1, ch_type = 0, ch_idn = None\<rparr>,
     \<lparr>ch_id = Some ''si'', ch_name = Some ''SI'', ch_desc = Some ''Slave in'', ch_order = 2, ch_type = 1, ch_idn = None\<rparr>,
     \<lparr>ch_id = Some ''so'', ch_name = Some ''SO'', ch_desc = Some ''Slave out'', ch_order = 3, ch_type = 1, ch_idn = None\<rparr>]"

definition microwire_ann_labels :: "(string option \<times> string option \<times> string option) list" where
  "microwire_ann_labels = [
     (Some [], Some ''start-bit'', Some ''Start bit''),
     (Some [], Some ''si-bit'', Some ''SI bit''),
     (Some [], Some ''so-bit'', Some ''SO bit''),
     (Some [], Some ''status-check-ready'', Some ''Status check ready''),
     (Some [], Some ''status-check-busy'', Some ''Status check busy''),
     (Some [], Some ''warning'', Some ''Warning'')]"

definition microwire_ann_rows :: "srd_c_ann_row list" where
  "microwire_ann_rows = [
     \<lparr>car_id = Some ''si-bits'', car_desc = Some ''SI bits'', car_ann_classes = Some [0, 1], car_num_ann_classes = 2\<rparr>,
     \<lparr>car_id = Some ''so-bits'', car_desc = Some ''SO bits'', car_ann_classes = Some [2], car_num_ann_classes = 1\<rparr>,
     \<lparr>car_id = Some ''status'', car_desc = Some ''Status'', car_ann_classes = Some [3, 4], car_num_ann_classes = 2\<rparr>,
     \<lparr>car_id = Some ''warnings'', car_desc = Some ''Warnings'', car_ann_classes = Some [5], car_num_ann_classes = 1\<rparr>]"

definition microwire_inputs :: "string list" where
  "microwire_inputs = [
     ''logic'']"

definition microwire_outputs :: "string list" where
  "microwire_outputs = [
     ''microwire'']"

definition microwire_tags :: "string list" where
  "microwire_tags = [
     ''Embedded/industrial'']"

definition microwire_c_def :: srd_c_decoder where
  "microwire_c_def = \<lparr>cd_id = Some ''microwire_c'', cd_name = Some ''Microwire(C)'',
     cd_longname = Some ''Microwire (C)'', cd_desc = Some ''3-wire, half-duplex, synchronous serial bus (C implementation)'', cd_license = Some ''gplv2+'',
     cd_channels = Some microwire_channels, cd_num_channels = 4,
     cd_optional_channels = None, cd_num_optional_channels = 0,
     cd_options = None, cd_num_options = 0,
     cd_num_annotations = 6, cd_ann_labels = Some microwire_ann_labels,
     cd_num_annotation_rows = 4, cd_annotation_rows = Some microwire_ann_rows,
     cd_inputs = Some microwire_inputs, cd_num_inputs = 1, cd_outputs = Some microwire_outputs, cd_num_outputs = 1,
     cd_binary = None, cd_num_binary = 0, cd_tags = Some microwire_tags, cd_num_tags = 1\<rparr>"

lemma microwire_described: "described microwire_c_def = (True, True, True)"
  by (simp add: described_simps microwire_channels_def microwire_ann_labels_def microwire_ann_rows_def microwire_inputs_def microwire_outputs_def microwire_tags_def microwire_c_def_def)

section \<open>midi_c.c\<close>

definition midi_ann_labels :: "(string option \<times> string option \<times> string option) list" where
  "midi_ann_labels = [
     (Some [], Some ''text-verbose'', Some ''Human-readable text (verbose)''),
     (Some [], Some ''text-sysreal-verbose'', Some ''Human-readable SysReal text (verbose)''),
     (Some [], Some ''text-error'', Some ''Human-readable Error text'')]"

definition midi_ann_rows :: "srd_c_ann_row list" where
  "midi_ann_rows = [
     \<lparr>car_id = Some ''normal'', car_desc = Some ''Normal'', car_ann_classes = Some [0, 2], car_num_ann_classes = 2\<rparr>,
     \<lparr>car_id = Some ''sys-real'', car_desc = Some ''SysReal'', car_ann_classes = Some [1], car_num_ann_classes = 1\<rparr>]"

definition midi_inputs :: "string list" where
  "midi_inputs = [
     ''uart'']"

definition midi_tags :: "string list" where
  "midi_tags = [
     ''Audio'',
     ''PC'']"

definition midi_c_def :: srd_c_decoder where
  "midi_c_def = \<lparr>cd_id = Some ''midi_c'', cd_name = Some ''MIDI(C)'',
     cd_longname = Some ''Musical Instrument Digital Interface (C)'', cd_desc = Some ''Musical Instrument Digital Interface (MIDI) protocol. (C implementation)'', cd_license = Some ''gplv2+'',
     cd_channels = None, cd_num_channels = 0,
     cd_optional_channels = None, cd_num_optional_channels = 0,
     cd_options = None, cd_num_options = 0,
     cd_num_annotations = 3, cd_ann_labels = Some midi_ann_labels,
     cd_num_annotation_rows = 2, cd_annotation_rows = Some midi_ann_rows,
     cd_inputs = Some midi_inputs, cd_num_inputs = 1, cd_outputs = None, cd_num_outputs = 0,
     cd_binary = None, cd_num_binary = 0, cd_tags = Some midi_tags, cd_num_tags = 2\<rparr>"

lemma midi_described: "described midi_c_def = (True, True, True)"
  by (simp add: described_simps midi_ann_labels_def midi_ann_rows_def midi_inputs_def midi_tags_def midi_c_def_def)

section \<open>miller_c.c\<close>

definition miller_options :: "srd_decoder_option list" where
  "miller_options = [
     \<lparr>opt_id = Some ''baudrate'', opt_idn = Some ''dec_miller_opt_baudrate'', opt_desc = Some ''Baud rate'',
        opt_def = Some (GV_int64 106000), opt_values = []\<rparr>,
     \<lparr>opt_id = Some ''edge'', opt_idn = Some ''dec_miller_opt_edge'', opt_desc = Some ''Edge'',
        opt_def = Some (GV_string ''falling''), opt_values = [GV_string ''rising'', GV_string ''falling'', GV_string ''either'']\<rparr>]"

definition miller_channels :: "srd_channel list" where
  "miller_channels = [
     \<lparr>ch_id = Some ''data'', ch_name = Some ''Data'', ch_desc = Some ''Data signal'', ch_order = 0, ch_type = 1, ch_idn = Some ''dec_miller_chan_data''\<rparr>]"

definition miller_ann_labels :: "(string option \<times> string option \<times> string option) list" where
  "miller_ann_labels = [
     (Some [], Some ''bit'', Some ''Bit''),
     (Some [], Some ''bitstring'', Some ''Bitstring'')]"

definition miller_ann_rows :: "srd_c_ann_row list" where
  "miller_ann_rows = [
     \<lparr>car_id = Some ''bit'', car_desc = Some ''Bit'', car_ann_classes = Some [0], car_num_ann_classes = 1\<rparr>,
     \<lparr>car_id = Some ''bitstring'', car_desc = Some ''Bitstring'', car_ann_classes = Some [1], car_num_ann_classes = 1\<rparr>]"

definition miller_binary :: "srd_decoder_binary list" where
  "miller_binary = [
     \<lparr>bin_class = 0, bin_id = Some ''raw'', bin_desc = Some ''Raw binary''\<rparr>]"

definition miller_inputs :: "string list" where
  "miller_inputs = [
     ''logic'']"

definition miller_tags :: "string list" where
  "miller_tags = [
     ''Encoding'']"

definition miller_c_def :: srd_c_decoder where
  "miller_c_def = \<lparr>cd_id = Some ''miller_c'', cd_name = Some ''Miller(C)'',
     cd_longname = Some ''Miller encoding (C)'', cd_desc = Some ''Miller encoding protocol (C implementation)'', cd_license = Some ''gplv2+'',
     cd_channels = Some miller_channels, cd_num_channels = 1,
     cd_optional_channels = None, cd_num_optional_channels = 0,
     cd_options = Some miller_options, cd_num_options = 2,
     cd_num_annotations = 2, cd_ann_labels = Some miller_ann_labels,
     cd_num_annotation_rows = 2, cd_annotation_rows = Some miller_ann_rows,
     cd_inputs = Some miller_inputs, cd_num_inputs = 1, cd_outputs = None, cd_num_outputs = 0,
     cd_binary = Some miller_binary, cd_num_binary = 1, cd_tags = Some miller_tags, cd_num_tags = 1\<rparr>"

lemma miller_described: "described miller_c_def = (True, True, True)"
  by (simp add: described_simps miller_options_def miller_channels_def miller_ann_labels_def miller_ann_rows_def miller_binary_def miller_inputs_def miller_tags_def miller_c_def_def)

section \<open>All of them\<close>

definition tables4 :: "srd_c_decoder list" where
  "tables4 = [ir_rc5_c_def, ir_rc6_c_def, ir_recoil_c_def, ir_sirc_c_def, iso7816_c_def, j1708_c_def,
     jitter_c_def, jtag_avr_c_def, jtag_c_def, jtag_ejtag_c_def, jtag_stm32_c_def, lfast_c_def,
     lin_c_def, lm75_c_def, lpc_c_def, ltar_smartdevice_c_def, ltar_smartdevice_decode_c_def, ltc242x_c_def,
     ltc26x7_c_def, maple_bus_c_def, max6954_c_def, max7219_c_def, mcs48_c_def, mdio_c_def,
     microwire_c_def, midi_c_def, miller_c_def]"

lemmas tables4_described =
  ir_rc5_described ir_rc6_described ir_recoil_described ir_sirc_described iso7816_described j1708_described
  jitter_described jtag_avr_described jtag_described jtag_ejtag_described jtag_stm32_described lfast_described
  lin_described lm75_described lpc_described ltar_smartdevice_described ltar_smartdevice_decode_described ltc242x_described
  ltc26x7_described maple_bus_described max6954_described max7219_described mcs48_described mdio_described
  microwire_described midi_described miller_described

lemma tables4_ids:
  "map cd_id tables4 = [Some ''ir_rc5_c'', Some ''ir_rc6_c'', Some ''ir_recoil_c'', Some ''ir_sirc_c'', Some ''iso7816_c'',
     Some ''j1708_c'', Some ''jitter_c'', Some ''jtag_avr_c'', Some ''jtag_c'', Some ''jtag_ejtag_c'',
     Some ''jtag_stm32_c'', Some ''lfast_c'', Some ''lin_c'', Some ''lm75_c'', Some ''lpc_c'',
     Some ''ltar_smartdevice_c'', Some ''ltar_smartdevice_decode_c'', Some ''ltc242x_c'', Some ''ltc26x7_c'', Some ''maple_bus_c'',
     Some ''max6954_c'', Some ''max7219_c'', Some ''mcs48_c'', Some ''mdio_c'', Some ''microwire_c'',
     Some ''midi_c'', Some ''miller_c'']"
  by (simp add: tables4_def
    ir_rc5_c_def_def ir_rc6_c_def_def ir_recoil_c_def_def ir_sirc_c_def_def iso7816_c_def_def j1708_c_def_def
    jitter_c_def_def jtag_avr_c_def_def jtag_c_def_def jtag_ejtag_c_def_def jtag_stm32_c_def_def lfast_c_def_def
    lin_c_def_def lm75_c_def_def lpc_c_def_def ltar_smartdevice_c_def_def ltar_smartdevice_decode_c_def_def ltc242x_c_def_def
    ltc26x7_c_def_def maple_bus_c_def_def max6954_c_def_def max7219_c_def_def mcs48_c_def_def mdio_c_def_def
    microwire_c_def_def midi_c_def_def miller_c_def_def)

end
