(* ===== verification/Tables5.thy ===== *)
theory Tables5
  imports Described
begin

text \<open>
  The descriptions of the decoders from mipi_dsi_c to ps2_c: the tables in their files, with the option
  defaults and values that \<^verbatim>\<open>srd_c_decoder_entry()\<close> fills in, and their checks. Text outside
  ASCII is given by its bytes.
\<close>

section \<open>mipi_dsi_c.c\<close>

definition mipi_dsi_channels :: "srd_channel list" where
  "mipi_dsi_channels = [
     \<lparr>ch_id = Some ''D0N'', ch_name = Some ''D0N'', ch_desc = Some ''LP data 0 neg'', ch_order = 0, ch_type = 1, ch_idn = Some ''dec_mipi_dsi_chan_D0N''\<rparr>,
     \<lparr>ch_id = Some ''D0P'', ch_name = Some ''D0P'', ch_desc = Some ''LP data 0 pos'', ch_order = 1, ch_type = 2, ch_idn = Some ''dec_mipi_dsi_chan_D0P''\<rparr>]"

definition mipi_dsi_ann_labels :: "(string option \<times> string option \<times> string option) list" where
  "mipi_dsi_ann_labels = [
     (Some [], Some ''LP-00'', Some ''LP-00''),
     (Some [], Some ''LP-01'', Some ''LP-01''),
     (Some [], Some ''LP-10'', Some ''LP-10''),
     (Some [], Some ''LP-11'', Some ''LP-11''),
     (Some [], Some ''EscapeMode'', Some ''Escape mode''),
     (Some [], Some ''BTA'', Some ''Bi-directional Data Lane Turnaround''),
     (Some [], Some ''LPDT'', Some ''LPDT''),
     (Some [], Some ''DI'', Some ''Data identifier''),
     (Some [], Some ''ECC'', Some ''ECC''),
     (Some [], Some ''WC'', Some ''Word count''),
     (Some [], Some ''CRC'', Some ''CheckSUM''),
     (Some [], Some ''Stop'', Some ''Stop condition''),
     (Some [], Some ''Idle'', Some ''Idle'')]"

definition mipi_dsi_ann_rows :: "srd_c_ann_row list" where
  "mipi_dsi_ann_rows = [
     \<lparr>car_id = Some ''LPData'', car_desc = Some ''LPData'', car_ann_classes = Some [0, 1, 2, 3], car_num_ann_classes = 4\<rparr>,
     \<lparr>car_id = Some ''LP'', car_desc = Some ''LP'', car_ann_classes = Some [4, 5, 6, 7, 8, 9, 10, 11, 12], car_num_ann_classes = 9\<rparr>]"

definition mipi_dsi_inputs :: "string list" where
  "mipi_dsi_inputs = [
     ''logic'']"

definition mipi_dsi_outputs :: "string list" where
  "mipi_dsi_outputs = [
     ''mipi_dsi'']"

definition mipi_dsi_tags :: "string list" where
  "mipi_dsi_tags = [
     ''Embedded/industrial'']"

definition mipi_dsi_c_def :: srd_c_decoder where
  "mipi_dsi_c_def = \<lparr>cd_id = Some ''mipi_dsi_c'', cd_name = Some ''MIPI_DSI(C)'',
     cd_longname = Some ''MIPI Display Serial Interface (C)'', cd_desc = Some ''MIPI Display Serial Interface low power communication (C implementation)'', cd_license = Some ''gplv2+'',
     cd_channels = Some mipi_dsi_channels, cd_num_channels = 2,
     cd_optional_channels = None, cd_num_optional_channels = 0,
     cd_options = None, cd_num_options = 0,
     cd_num_annotations = 13, cd_ann_labels = Some mipi_dsi_ann_labels,
     cd_num_annotation_rows = 2, cd_annotation_rows = Some mipi_dsi_ann_rows,
     cd_inputs = Some mipi_dsi_inputs, cd_num_inputs = 1, cd_outputs = Some mipi_dsi_outputs, cd_num_outputs = 1,
     cd_binary = None, cd_num_binary = 0, cd_tags = Some mipi_dsi_tags, cd_num_tags = 1\<rparr>"

lemma mipi_dsi_described: "described mipi_dsi_c_def = (True, True, True)"
  by (simp add: described_simps mipi_dsi_channels_def mipi_dsi_ann_labels_def mipi_dsi_ann_rows_def mipi_dsi_inputs_def mipi_dsi_outputs_def mipi_dsi_tags_def mipi_dsi_c_def_def)

section \<open>mipi_rffe_c.c\<close>

definition mipi_rffe_options :: "srd_decoder_option list" where
  "mipi_rffe_options = [
     \<lparr>opt_id = Some ''error_display'', opt_idn = Some ''dec_mipi_rffe_opt_error_display'', opt_desc = Some ''Error display options'',
        opt_def = Some (GV_string ''display''), opt_values = [GV_string ''display'', GV_string ''not_display'']\<rparr>]"

definition mipi_rffe_channels :: "srd_channel list" where
  "mipi_rffe_channels = [
     \<lparr>ch_id = Some ''sclk'', ch_name = Some ''SCLK'', ch_desc = Some ''Serial clock line'', ch_order = 0, ch_type = 0, ch_idn = Some ''dec_mipi_rffe_chan_sclk''\<rparr>,
     \<lparr>ch_id = Some ''sdata'', ch_name = Some ''SDATA'', ch_desc = Some ''Serial data line'', ch_order = 1, ch_type = 1, ch_idn = Some ''dec_mipi_rffe_chan_sdata''\<rparr>]"

definition mipi_rffe_ann_labels :: "(string option \<times> string option \<times> string option) list" where
  "mipi_rffe_ann_labels = [
     (Some [], Some ''ssc'', Some ''Sequence Start Condition''),
     (Some [], Some ''sa'', Some ''Slave Address''),
     (Some [], Some ''erw'', Some ''Extended register write''),
     (Some [], Some ''err'', Some ''Extended register read''),
     (Some [], Some ''erwl'', Some ''Extended register write long''),
     (Some [], Some ''errl'', Some ''Extended register read long''),
     (Some [], Some ''rw'', Some ''Register write''),
     (Some [], Some ''rr'', Some ''Register read''),
     (Some [], Some ''r0w'', Some ''Register 0 write''),
     (Some [], Some ''bc'', Some ''Byte''),
     (Some [], Some ''p'', Some ''Parity''),
     (Some [], Some ''address'', Some ''Address''),
     (Some [], Some ''bp'', Some ''Bus pack''),
     (Some [], Some ''data'', Some ''DATA''),
     (Some [], Some ''cmd_warnings'', Some ''Command warnings''),
     (Some [], Some ''bic'', Some ''Bus Idle Condition''),
     (Some [], Some ''bc_warnings'', Some ''BC warnings''),
     (Some [], Some ''ije'', Some ''Illegal Jump Edge''),
     (Some [], Some ''pw'', Some ''Parity warnings'')]"

definition mipi_rffe_ann_rows :: "srd_c_ann_row list" where
  "mipi_rffe_ann_rows = [
     \<lparr>car_id = Some ''command-data'', car_desc = Some ''Command/Data'', car_ann_classes = Some [0, 1, 2, 3, 4, 5, 6, 7, 8, 9, 10, 11, 12, 13, 15], car_num_ann_classes = 15\<rparr>,
     \<lparr>car_id = Some ''warnings'', car_desc = Some ''Warnings'', car_ann_classes = Some [14, 16, 17, 18], car_num_ann_classes = 4\<rparr>]"

definition mipi_rffe_inputs :: "string list" where
  "mipi_rffe_inputs = [
     ''logic'']"

definition mipi_rffe_outputs :: "string list" where
  "mipi_rffe_outputs = [
     ''mipi_rffe'']"

definition mipi_rffe_tags :: "string list" where
  "mipi_rffe_tags = [
     ''Embedded/industrial'']"

definition mipi_rffe_c_def :: srd_c_decoder where
  "mipi_rffe_c_def = \<lparr>cd_id = Some ''mipi_rffe_c'', cd_name = Some ''MIPI_RFFE(C)'',
     cd_longname = Some ''RF Front-End Control Interface (C)'', cd_desc = Some ''Two-wire, single-master, serial bus. (C implementation)'', cd_license = Some ''gplv2+'',
     cd_channels = Some mipi_rffe_channels, cd_num_channels = 2,
     cd_optional_channels = None, cd_num_optional_channels = 0,
     cd_options = Some mipi_rffe_options, cd_num_options = 1,
     cd_num_annotations = 19, cd_ann_labels = Some mipi_rffe_ann_labels,
     cd_num_annotation_rows = 2, cd_annotation_rows = Some mipi_rffe_ann_rows,
     cd_inputs = Some mipi_rffe_inputs, cd_num_inputs = 1, cd_outputs = Some mipi_rffe_outputs, cd_num_outputs = 1,
     cd_binary = None, cd_num_binary = 0, cd_tags = Some mipi_rffe_tags, cd_num_tags = 1\<rparr>"

lemma mipi_rffe_described: "described mipi_rffe_c_def = (True, True, True)"
  by (simp add: described_simps mipi_rffe_options_def mipi_rffe_channels_def mipi_rffe_ann_labels_def mipi_rffe_ann_rows_def mipi_rffe_inputs_def mipi_rffe_outputs_def mipi_rffe_tags_def mipi_rffe_c_def_def)

section \<open>mlx90614_c.c\<close>

definition mlx90614_ann_labels :: "(string option \<times> string option \<times> string option) list" where
  "mlx90614_ann_labels = [
     (Some [], Some ''celsius'', Some (''Temperature / '' @ bytes_str [0xC2, 0xB0] @ ''C'')),
     (Some [], Some ''kelvin'', Some ''Temperature / K'')]"

definition mlx90614_ann_rows :: "srd_c_ann_row list" where
  "mlx90614_ann_rows = [
     \<lparr>car_id = Some ''temps-celsius'', car_desc = Some (''Temperature / '' @ bytes_str [0xC2, 0xB0] @ ''C''), car_ann_classes = Some [0], car_num_ann_classes = 1\<rparr>,
     \<lparr>car_id = Some ''temps-kelvin'', car_desc = Some ''Temperature / K'', car_ann_classes = Some [1], car_num_ann_classes = 1\<rparr>]"

definition mlx90614_inputs :: "string list" where
  "mlx90614_inputs = [
     ''i2c'']"

definition mlx90614_tags :: "string list" where
  "mlx90614_tags = [
     ''IC'',
     ''Sensor'']"

definition mlx90614_c_def :: srd_c_decoder where
  "mlx90614_c_def = \<lparr>cd_id = Some ''mlx90614_c'', cd_name = Some ''MLX90614(C)'',
     cd_longname = Some ''Melexis MLX90614 (C)'', cd_desc = Some ''Melexis MLX90614 infrared thermometer protocol. (C implementation)'', cd_license = Some ''gplv2+'',
     cd_channels = None, cd_num_channels = 0,
     cd_optional_channels = None, cd_num_optional_channels = 0,
     cd_options = None, cd_num_options = 0,
     cd_num_annotations = 2, cd_ann_labels = Some mlx90614_ann_labels,
     cd_num_annotation_rows = 2, cd_annotation_rows = Some mlx90614_ann_rows,
     cd_inputs = Some mlx90614_inputs, cd_num_inputs = 1, cd_outputs = None, cd_num_outputs = 0,
     cd_binary = None, cd_num_binary = 0, cd_tags = Some mlx90614_tags, cd_num_tags = 2\<rparr>"

lemma mlx90614_described: "described mlx90614_c_def = (True, True, True)"
  by (simp add: described_simps mlx90614_ann_labels_def mlx90614_ann_rows_def mlx90614_inputs_def mlx90614_tags_def mlx90614_c_def_def)

section \<open>modbus_c.c\<close>

definition modbus_options :: "srd_decoder_option list" where
  "modbus_options = [
     \<lparr>opt_id = Some ''scchannel'', opt_idn = Some ''dec_modbus_opt_scchannel'', opt_desc = Some ''Server -> client channel'',
        opt_def = Some (GV_string ''RX''), opt_values = [GV_string ''RX'', GV_string ''TX'']\<rparr>,
     \<lparr>opt_id = Some ''cschannel'', opt_idn = Some ''dec_modbus_opt_cschannel'', opt_desc = Some ''Client -> server channel'',
        opt_def = Some (GV_string ''TX''), opt_values = [GV_string ''RX'', GV_string ''TX'']\<rparr>,
     \<lparr>opt_id = Some ''framegap'', opt_idn = Some ''dec_modbus_opt_framegap'', opt_desc = Some ''Inter-frame bit gap'',
        opt_def = Some (GV_int64 28), opt_values = []\<rparr>]"

definition modbus_ann_labels :: "(string option \<times> string option \<times> string option) list" where
  "modbus_ann_labels = [
     (Some [], Some ''sc-server-id'', Some ''SC server ID''),
     (Some [], Some ''sc-function'', Some ''SC function''),
     (Some [], Some ''sc-crc'', Some ''SC CRC''),
     (Some [], Some ''sc-address'', Some ''SC address''),
     (Some [], Some ''sc-data'', Some ''SC data''),
     (Some [], Some ''sc-length'', Some ''SC length''),
     (Some [], Some ''sc-error'', Some ''SC error''),
     (Some [], Some ''cs-server-id'', Some ''CS server ID''),
     (Some [], Some ''cs-function'', Some ''CS function''),
     (Some [], Some ''cs-crc'', Some ''CS CRC''),
     (Some [], Some ''cs-address'', Some ''CS address''),
     (Some [], Some ''cs-data'', Some ''CS data''),
     (Some [], Some ''cs-length'', Some ''CS length''),
     (Some [], Some ''cs-error'', Some ''CS error''),
     (Some [], Some ''error-indication'', Some ''Error indication'')]"

definition modbus_ann_rows :: "srd_c_ann_row list" where
  "modbus_ann_rows = [
     \<lparr>car_id = Some ''sc'', car_desc = Some ''Server->client'', car_ann_classes = Some [0, 1, 2, 3, 4, 5, 6], car_num_ann_classes = 7\<rparr>,
     \<lparr>car_id = Some ''cs'', car_desc = Some ''Client->server'', car_ann_classes = Some [7, 8, 9, 10, 11, 12, 13], car_num_ann_classes = 7\<rparr>,
     \<lparr>car_id = Some ''error-indicators'', car_desc = Some ''Errors in frame'', car_ann_classes = Some [14], car_num_ann_classes = 1\<rparr>]"

definition modbus_inputs :: "string list" where
  "modbus_inputs = [
     ''uart'']"

definition modbus_outputs :: "string list" where
  "modbus_outputs = [
     ''modbus'']"

definition modbus_tags :: "string list" where
  "modbus_tags = [
     ''Embedded/industrial'']"

definition modbus_c_def :: srd_c_decoder where
  "modbus_c_def = \<lparr>cd_id = Some ''modbus_c'', cd_name = Some ''Modbus(C)'',
     cd_longname = Some ''Modbus RTU over RS232/RS485 (C)'', cd_desc = Some ''Modbus RTU protocol for industrial applications. (C implementation)'', cd_license = Some ''gplv3+'',
     cd_channels = None, cd_num_channels = 0,
     cd_optional_channels = None, cd_num_optional_channels = 0,
     cd_options = Some modbus_options, cd_num_options = 3,
     cd_num_annotations = 15, cd_ann_labels = Some modbus_ann_labels,
     cd_num_annotation_rows = 3, cd_annotation_rows = Some modbus_ann_rows,
     cd_inputs = Some modbus_inputs, cd_num_inputs = 1, cd_outputs = Some modbus_outputs, cd_num_outputs = 1,
     cd_binary = None, cd_num_binary = 0, cd_tags = Some modbus_tags, cd_num_tags = 1\<rparr>"

lemma modbus_described: "described modbus_c_def = (True, True, True)"
  by (simp add: described_simps modbus_options_def modbus_ann_labels_def modbus_ann_rows_def modbus_inputs_def modbus_outputs_def modbus_tags_def modbus_c_def_def)

section \<open>mpu6050_c.c\<close>

definition mpu6050_ann_labels :: "(string option \<times> string option \<times> string option) list" where
  "mpu6050_ann_labels = [
     (Some [], Some ''reg-smplrt-div'', Some ''SMPLRT_DIV register''),
     (Some [], Some ''reg-config'', Some ''CONFIG register''),
     (Some [], Some ''reg-gyro-config'', Some ''GYRO_CONFIG register''),
     (Some [], Some ''reg-accel-config'', Some ''ACCEL_CONFIG register''),
     (Some [], Some ''reg-int-enable'', Some ''INT_ENABLE register''),
     (Some [], Some ''reg-pwr-mgmt-1'', Some ''PWR_MGMT_1 register''),
     (Some [], Some ''reg-who-am-i'', Some ''WHO_AM_I register''),
     (Some [], Some ''reg-data'', Some ''Data register''),
     (Some [], Some ''reg-reserved'', Some ''Reserved register''),
     (Some [], Some ''bit-fs-sel'', Some ''FS_SEL (gyro full scale select)''),
     (Some [], Some ''bit-afs-sel'', Some ''AFS_SEL (accel full scale select)''),
     (Some [], Some ''bit-clk-sel'', Some ''CLK_SEL (clock select)''),
     (Some [], Some ''bit-sleep'', Some ''SLEEP bit''),
     (Some [], Some ''bit-cycle'', Some ''CYCLE bit''),
     (Some [], Some ''bit-temp-dis'', Some ''TEMP_DIS bit''),
     (Some [], Some ''bit-reset'', Some ''DEVICE_RESET bit''),
     (Some [], Some ''bit-dlpf'', Some ''Digital low pass filter bits''),
     (Some [], Some ''bit-ext-sync'', Some ''External sync bits''),
     (Some [], Some ''bit-int-en'', Some ''Interrupt enable bits''),
     (Some [], Some ''bit-xg-st'', Some ''XG_ST (gyro X self-test)''),
     (Some [], Some ''bit-yg-st'', Some ''YG_ST (gyro Y self-test)''),
     (Some [], Some ''bit-zg-st'', Some ''ZG_ST (gyro Z self-test)''),
     (Some [], Some ''bit-xa-st'', Some ''XA_ST (accel X self-test)''),
     (Some [], Some ''bit-ya-st'', Some ''YA_ST (accel Y self-test)''),
     (Some [], Some ''accel-data'', Some ''Accelerometer data''),
     (Some [], Some ''gyro-data'', Some ''Gyroscope data''),
     (Some [], Some ''temp-data'', Some ''Temperature data''),
     (Some [], Some ''reg-write'', Some ''Register write''),
     (Some [], Some ''warning'', Some ''Warning'')]"

definition mpu6050_ann_rows :: "srd_c_ann_row list" where
  "mpu6050_ann_rows = [
     \<lparr>car_id = Some ''bits'', car_desc = Some ''Bits'', car_ann_classes = Some [9, 10, 11, 12, 13, 14, 15, 16, 17, 18, 19, 20, 21, 22, 23], car_num_ann_classes = 15\<rparr>,
     \<lparr>car_id = Some ''regs'', car_desc = Some ''Registers'', car_ann_classes = Some [0, 1, 2, 3, 4, 5, 6, 7, 8], car_num_ann_classes = 9\<rparr>,
     \<lparr>car_id = Some ''accel-gyro'', car_desc = Some ''AccelXYZ/Temp/GyroXYZ'', car_ann_classes = Some [24, 25, 26, 27], car_num_ann_classes = 4\<rparr>,
     \<lparr>car_id = Some ''warnings'', car_desc = Some ''Warnings'', car_ann_classes = Some [28], car_num_ann_classes = 1\<rparr>]"

definition mpu6050_inputs :: "string list" where
  "mpu6050_inputs = [
     ''i2c'']"

definition mpu6050_outputs :: "string list" where
  "mpu6050_outputs = [
     ''mpu6050'']"

definition mpu6050_tags :: "string list" where
  "mpu6050_tags = [
     ''Gyroscope'']"

definition mpu6050_c_def :: srd_c_decoder where
  "mpu6050_c_def = \<lparr>cd_id = Some ''mpu6050_c'', cd_name = Some ''MPU6050(C)'',
     cd_longname = Some ''InvenSense MPU6050 (C)'', cd_desc = Some ''Accelerometer module protocol. (C implementation)'', cd_license = Some ''gplv2+'',
     cd_channels = None, cd_num_channels = 0,
     cd_optional_channels = None, cd_num_optional_channels = 0,
     cd_options = None, cd_num_options = 0,
     cd_num_annotations = 29, cd_ann_labels = Some mpu6050_ann_labels,
     cd_num_annotation_rows = 4, cd_annotation_rows = Some mpu6050_ann_rows,
     cd_inputs = Some mpu6050_inputs, cd_num_inputs = 1, cd_outputs = Some mpu6050_outputs, cd_num_outputs = 1,
     cd_binary = None, cd_num_binary = 0, cd_tags = Some mpu6050_tags, cd_num_tags = 1\<rparr>"

lemma mpu6050_described: "described mpu6050_c_def = (True, True, True)"
  by (simp add: described_simps mpu6050_ann_labels_def mpu6050_ann_rows_def mpu6050_inputs_def mpu6050_outputs_def mpu6050_tags_def mpu6050_c_def_def)

section \<open>mrf24j40_c.c\<close>

definition mrf24j40_ann_labels :: "(string option \<times> string option \<times> string option) list" where
  "mrf24j40_ann_labels = [
     (Some [], Some ''sread'', Some ''Short register read''),
     (Some [], Some ''swrite'', Some ''Short register write''),
     (Some [], Some ''lread'', Some ''Long register read''),
     (Some [], Some ''lwrite'', Some ''Long register write''),
     (Some [], Some ''warning'', Some ''Warning''),
     (Some [], Some ''tx-frame'', Some ''TX frame''),
     (Some [], Some ''rx-frame'', Some ''RX frame''),
     (Some [], Some ''tx-retry-1'', Some ''1x TX retry''),
     (Some [], Some ''tx-retry-2'', Some ''2x TX retry''),
     (Some [], Some ''tx-retry-3'', Some ''3x TX retry''),
     (Some [], Some ''tx-fail'', Some ''TX fail (too many retries)''),
     (Some [], Some ''ccafail'', Some ''CCAFAIL (channel busy)'')]"

definition mrf24j40_ann_rows :: "srd_c_ann_row list" where
  "mrf24j40_ann_rows = [
     \<lparr>car_id = Some ''reads'', car_desc = Some ''Reads'', car_ann_classes = Some [0, 2], car_num_ann_classes = 2\<rparr>,
     \<lparr>car_id = Some ''writes'', car_desc = Some ''Writes'', car_ann_classes = Some [1, 3], car_num_ann_classes = 2\<rparr>,
     \<lparr>car_id = Some ''warnings'', car_desc = Some ''Warnings'', car_ann_classes = Some [4], car_num_ann_classes = 1\<rparr>,
     \<lparr>car_id = Some ''tx-frames'', car_desc = Some ''TX frames'', car_ann_classes = Some [5], car_num_ann_classes = 1\<rparr>,
     \<lparr>car_id = Some ''rx-frames'', car_desc = Some ''RX frames'', car_ann_classes = Some [6], car_num_ann_classes = 1\<rparr>,
     \<lparr>car_id = Some ''tx-retries-1'', car_desc = Some ''1x TX retries'', car_ann_classes = Some [7], car_num_ann_classes = 1\<rparr>,
     \<lparr>car_id = Some ''tx-retries-2'', car_desc = Some ''2x TX retries'', car_ann_classes = Some [8], car_num_ann_classes = 1\<rparr>,
     \<lparr>car_id = Some ''tx-retries-3'', car_desc = Some ''3x TX retries'', car_ann_classes = Some [9], car_num_ann_classes = 1\<rparr>,
     \<lparr>car_id = Some ''tx-fails'', car_desc = Some ''TX fails'', car_ann_classes = Some [10], car_num_ann_classes = 1\<rparr>,
     \<lparr>car_id = Some ''ccafails'', car_desc = Some ''CCAFAILs'', car_ann_classes = Some [11], car_num_ann_classes = 1\<rparr>]"

definition mrf24j40_inputs :: "string list" where
  "mrf24j40_inputs = [
     ''spi'']"

definition mrf24j40_tags :: "string list" where
  "mrf24j40_tags = [
     ''IC'',
     ''Wireless/RF'']"

definition mrf24j40_c_def :: srd_c_decoder where
  "mrf24j40_c_def = \<lparr>cd_id = Some ''mrf24j40_c'', cd_name = Some ''MRF24J40(C)'',
     cd_longname = Some ''Microchip MRF24J40 (C)'', cd_desc = Some ''IEEE 802.15.4 2.4 GHz RF tranceiver chip. (C implementation)'', cd_license = Some ''gplv2+'',
     cd_channels = None, cd_num_channels = 0,
     cd_optional_channels = None, cd_num_optional_channels = 0,
     cd_options = None, cd_num_options = 0,
     cd_num_annotations = 12, cd_ann_labels = Some mrf24j40_ann_labels,
     cd_num_annotation_rows = 10, cd_annotation_rows = Some mrf24j40_ann_rows,
     cd_inputs = Some mrf24j40_inputs, cd_num_inputs = 1, cd_outputs = None, cd_num_outputs = 0,
     cd_binary = None, cd_num_binary = 0, cd_tags = Some mrf24j40_tags, cd_num_tags = 2\<rparr>"

lemma mrf24j40_described: "described mrf24j40_c_def = (True, True, True)"
  by (simp add: described_simps mrf24j40_ann_labels_def mrf24j40_ann_rows_def mrf24j40_inputs_def mrf24j40_tags_def mrf24j40_c_def_def)

section \<open>mvb_c.c\<close>

definition mvb_channels :: "srd_channel list" where
  "mvb_channels = [
     \<lparr>ch_id = Some ''mvb'', ch_name = Some ''MVB'', ch_desc = Some ''TTL from RS485'', ch_order = 0, ch_type = 1, ch_idn = None\<rparr>]"

definition mvb_ann_labels :: "(string option \<times> string option \<times> string option) list" where
  "mvb_ann_labels = [
     (Some [], Some ''master_preamble'', Some ''Master preamble''),
     (Some [], Some ''slave_preamble'', Some ''Slave preamble''),
     (Some [], Some ''master_data'', Some ''Master data''),
     (Some [], Some ''f_code'', Some ''Function code''),
     (Some [], Some ''slave_data'', Some ''Slave data''),
     (Some [], Some ''crc'', Some ''CRC''),
     (Some [], Some ''crc_error'', Some ''CRC Error''),
     (Some [], Some ''bit'', Some ''Bit''),
     (Some [], Some ''addr'', Some ''Address'')]"

definition mvb_ann_rows :: "srd_c_ann_row list" where
  "mvb_ann_rows = [
     \<lparr>car_id = Some ''bits'', car_desc = Some ''Bits'', car_ann_classes = Some [0, 1, 7], car_num_ann_classes = 3\<rparr>,
     \<lparr>car_id = Some ''crcs'', car_desc = Some ''Check sequence'', car_ann_classes = Some [5], car_num_ann_classes = 1\<rparr>,
     \<lparr>car_id = Some ''ma-sl-data'', car_desc = Some ''Data'', car_ann_classes = Some [2, 4], car_num_ann_classes = 2\<rparr>,
     \<lparr>car_id = Some ''f_codes'', car_desc = Some ''Function code'', car_ann_classes = Some [3, 8], car_num_ann_classes = 2\<rparr>,
     \<lparr>car_id = Some ''errors'', car_desc = Some ''Decoding errors'', car_ann_classes = Some [6], car_num_ann_classes = 1\<rparr>]"

definition mvb_inputs :: "string list" where
  "mvb_inputs = [
     ''logic'']"

definition mvb_tags :: "string list" where
  "mvb_tags = [
     ''Frame'']"

definition mvb_c_def :: srd_c_decoder where
  "mvb_c_def = \<lparr>cd_id = Some ''mvb_c'', cd_name = Some ''MVB(C)'',
     cd_longname = Some ''Multifunction Vehicle Bus (C)'', cd_desc = Some ''Multifunction Vehicle Bus Manchester II with custom preamble. (C implementation)'', cd_license = Some ''gplv2+'',
     cd_channels = Some mvb_channels, cd_num_channels = 1,
     cd_optional_channels = None, cd_num_optional_channels = 0,
     cd_options = None, cd_num_options = 0,
     cd_num_annotations = 9, cd_ann_labels = Some mvb_ann_labels,
     cd_num_annotation_rows = 5, cd_annotation_rows = Some mvb_ann_rows,
     cd_inputs = Some mvb_inputs, cd_num_inputs = 1, cd_outputs = None, cd_num_outputs = 0,
     cd_binary = None, cd_num_binary = 0, cd_tags = Some mvb_tags, cd_num_tags = 1\<rparr>"

lemma mvb_described: "described mvb_c_def = (True, True, True)"
  by (simp add: described_simps mvb_channels_def mvb_ann_labels_def mvb_ann_rows_def mvb_inputs_def mvb_tags_def mvb_c_def_def)

section \<open>mxc6225xu_c.c\<close>

definition mxc6225xu_ann_labels :: "(string option \<times> string option \<times> string option) list" where
  "mxc6225xu_ann_labels = [
     (Some [], Some ''text'', Some ''Human-readable text'')]"

definition mxc6225xu_ann_rows :: "srd_c_ann_row list" where
  "mxc6225xu_ann_rows = [
     \<lparr>car_id = Some ''text'', car_desc = Some ''Human-readable text'', car_ann_classes = Some [0], car_num_ann_classes = 1\<rparr>]"

definition mxc6225xu_inputs :: "string list" where
  "mxc6225xu_inputs = [
     ''i2c'']"

definition mxc6225xu_tags :: "string list" where
  "mxc6225xu_tags = [
     ''IC'',
     ''Sensor'']"

definition mxc6225xu_c_def :: srd_c_decoder where
  "mxc6225xu_c_def = \<lparr>cd_id = Some ''mxc6225xu_c'', cd_name = Some ''MXC6225XU(C)'',
     cd_longname = Some ''MEMSIC MXC6225XU (C)'', cd_desc = Some ''Digital Thermal Orientation Sensor (DTOS) protocol. (C implementation)'', cd_license = Some ''gplv2+'',
     cd_channels = None, cd_num_channels = 0,
     cd_optional_channels = None, cd_num_optional_channels = 0,
     cd_options = None, cd_num_options = 0,
     cd_num_annotations = 1, cd_ann_labels = Some mxc6225xu_ann_labels,
     cd_num_annotation_rows = 1, cd_annotation_rows = Some mxc6225xu_ann_rows,
     cd_inputs = Some mxc6225xu_inputs, cd_num_inputs = 1, cd_outputs = None, cd_num_outputs = 0,
     cd_binary = None, cd_num_binary = 0, cd_tags = Some mxc6225xu_tags, cd_num_tags = 2\<rparr>"

lemma mxc6225xu_described: "described mxc6225xu_c_def = (True, True, True)"
  by (simp add: described_simps mxc6225xu_ann_labels_def mxc6225xu_ann_rows_def mxc6225xu_inputs_def mxc6225xu_tags_def mxc6225xu_c_def_def)

section \<open>nes_gamepad_c.c\<close>

definition nes_gamepad_options :: "srd_decoder_option list" where
  "nes_gamepad_options = [
     \<lparr>opt_id = Some ''variant'', opt_idn = Some ''dec_nes_gamepad_opt_variant'', opt_desc = Some ''Gamepad variant'',
        opt_def = Some (GV_string ''Standard gamepad''), opt_values = [GV_string ''Standard gamepad'']\<rparr>]"

definition nes_gamepad_ann_labels :: "(string option \<times> string option \<times> string option) list" where
  "nes_gamepad_ann_labels = [
     (Some [], Some ''button'', Some ''Button state''),
     (Some [], Some ''no-press'', Some ''No button press''),
     (Some [], Some ''not-connected'', Some ''Gamepad unconnected'')]"

definition nes_gamepad_ann_rows :: "srd_c_ann_row list" where
  "nes_gamepad_ann_rows = [
     \<lparr>car_id = Some ''buttons'', car_desc = Some ''Button states'', car_ann_classes = Some [0], car_num_ann_classes = 1\<rparr>,
     \<lparr>car_id = Some ''no-presses'', car_desc = Some ''No button presses'', car_ann_classes = Some [1], car_num_ann_classes = 1\<rparr>,
     \<lparr>car_id = Some ''not-connected-vals'', car_desc = Some ''Gamepad unconnected'', car_ann_classes = Some [2], car_num_ann_classes = 1\<rparr>]"

definition nes_gamepad_inputs :: "string list" where
  "nes_gamepad_inputs = [
     ''spi'']"

definition nes_gamepad_tags :: "string list" where
  "nes_gamepad_tags = [
     ''Retro computing'']"

definition nes_gamepad_c_def :: srd_c_decoder where
  "nes_gamepad_c_def = \<lparr>cd_id = Some ''nes_gamepad_c'', cd_name = Some ''NES gamepad(C)'',
     cd_longname = Some ''Nintendo Entertainment System gamepad (C)'', cd_desc = Some ''NES gamepad button states. (C implementation)'', cd_license = Some ''gplv2+'',
     cd_channels = None, cd_num_channels = 0,
     cd_optional_channels = None, cd_num_optional_channels = 0,
     cd_options = Some nes_gamepad_options, cd_num_options = 1,
     cd_num_annotations = 3, cd_ann_labels = Some nes_gamepad_ann_labels,
     cd_num_annotation_rows = 3, cd_annotation_rows = Some nes_gamepad_ann_rows,
     cd_inputs = Some nes_gamepad_inputs, cd_num_inputs = 1, cd_outputs = None, cd_num_outputs = 0,
     cd_binary = None, cd_num_binary = 0, cd_tags = Some nes_gamepad_tags, cd_num_tags = 1\<rparr>"

lemma nes_gamepad_described: "described nes_gamepad_c_def = (True, True, True)"
  by (simp add: described_simps nes_gamepad_options_def nes_gamepad_ann_labels_def nes_gamepad_ann_rows_def nes_gamepad_inputs_def nes_gamepad_tags_def nes_gamepad_c_def_def)

section \<open>nrf24l01_c.c\<close>

definition nrf24l01_options :: "srd_decoder_option list" where
  "nrf24l01_options = [
     \<lparr>opt_id = Some ''chip'', opt_idn = Some ''dec_nrf24l01_opt_chip'', opt_desc = Some ''Chip type'',
        opt_def = Some (GV_string ''nrf24l01''), opt_values = [GV_string ''nrf24l01'', GV_string ''xn297'']\<rparr>]"

definition nrf24l01_ann_labels :: "(string option \<times> string option \<times> string option) list" where
  "nrf24l01_ann_labels = [
     (Some [], Some ''cmd'', Some ''Commands sent to the device''),
     (Some [], Some ''tx-data'', Some ''Payload sent to the device''),
     (Some [], Some ''register'', Some ''Registers read from the device''),
     (Some [], Some ''rx-data'', Some ''Payload read from the device''),
     (Some [], Some ''warning'', Some ''Warnings'')]"

definition nrf24l01_ann_rows :: "srd_c_ann_row list" where
  "nrf24l01_ann_rows = [
     \<lparr>car_id = Some ''commands'', car_desc = Some ''Commands'', car_ann_classes = Some [0, 1], car_num_ann_classes = 2\<rparr>,
     \<lparr>car_id = Some ''responses'', car_desc = Some ''Responses'', car_ann_classes = Some [2, 3], car_num_ann_classes = 2\<rparr>,
     \<lparr>car_id = Some ''warnings'', car_desc = Some ''Warnings'', car_ann_classes = Some [4], car_num_ann_classes = 1\<rparr>]"

definition nrf24l01_inputs :: "string list" where
  "nrf24l01_inputs = [
     ''spi'']"

definition nrf24l01_tags :: "string list" where
  "nrf24l01_tags = [
     ''IC'',
     ''Wireless/RF'']"

definition nrf24l01_c_def :: srd_c_decoder where
  "nrf24l01_c_def = \<lparr>cd_id = Some ''nrf24l01_c'', cd_name = Some ''nRF24L01(+)(C)'',
     cd_longname = Some ''Nordic Semiconductor nRF24L01(+) (C)'', cd_desc = Some ''2.4GHz RF transceiver chip. (C implementation)'', cd_license = Some ''gplv2+'',
     cd_channels = None, cd_num_channels = 0,
     cd_optional_channels = None, cd_num_optional_channels = 0,
     cd_options = Some nrf24l01_options, cd_num_options = 1,
     cd_num_annotations = 5, cd_ann_labels = Some nrf24l01_ann_labels,
     cd_num_annotation_rows = 3, cd_annotation_rows = Some nrf24l01_ann_rows,
     cd_inputs = Some nrf24l01_inputs, cd_num_inputs = 1, cd_outputs = None, cd_num_outputs = 0,
     cd_binary = None, cd_num_binary = 0, cd_tags = Some nrf24l01_tags, cd_num_tags = 2\<rparr>"

lemma nrf24l01_described: "described nrf24l01_c_def = (True, True, True)"
  by (simp add: described_simps nrf24l01_options_def nrf24l01_ann_labels_def nrf24l01_ann_rows_def nrf24l01_inputs_def nrf24l01_tags_def nrf24l01_c_def_def)

section \<open>nrf905_c.c\<close>

definition nrf905_ann_labels :: "(string option \<times> string option \<times> string option) list" where
  "nrf905_ann_labels = [
     (Some [], Some ''cmd'', Some ''Command sent to the device''),
     (Some [], Some ''reg-write'', Some ''Config register written to the device''),
     (Some [], Some ''reg-read'', Some ''Config register read from the device''),
     (Some [], Some ''tx-data'', Some ''Payload sent to the device''),
     (Some [], Some ''rx-data'', Some ''Payload read from the device''),
     (Some [], Some ''resp'', Some ''Response to commands received from the device''),
     (Some [], Some ''warning'', Some ''Warning'')]"

definition nrf905_ann_rows :: "srd_c_ann_row list" where
  "nrf905_ann_rows = [
     \<lparr>car_id = Some ''commands'', car_desc = Some ''Commands'', car_ann_classes = Some [0], car_num_ann_classes = 1\<rparr>,
     \<lparr>car_id = Some ''responses'', car_desc = Some ''Responses'', car_ann_classes = Some [5], car_num_ann_classes = 1\<rparr>,
     \<lparr>car_id = Some ''registers'', car_desc = Some ''Registers'', car_ann_classes = Some [1, 2], car_num_ann_classes = 2\<rparr>,
     \<lparr>car_id = Some ''tx'', car_desc = Some ''Transmitted data'', car_ann_classes = Some [3], car_num_ann_classes = 1\<rparr>,
     \<lparr>car_id = Some ''rx'', car_desc = Some ''Received data'', car_ann_classes = Some [4], car_num_ann_classes = 1\<rparr>,
     \<lparr>car_id = Some ''warnings'', car_desc = Some ''Warnings'', car_ann_classes = Some [6], car_num_ann_classes = 1\<rparr>]"

definition nrf905_inputs :: "string list" where
  "nrf905_inputs = [
     ''spi'']"

definition nrf905_tags :: "string list" where
  "nrf905_tags = [
     ''IC'',
     ''Wireless/RF'']"

definition nrf905_c_def :: srd_c_decoder where
  "nrf905_c_def = \<lparr>cd_id = Some ''nrf905_c'', cd_name = Some ''nRF905(C)'',
     cd_longname = Some ''Nordic Semiconductor nRF905 (C)'', cd_desc = Some ''433/868/933MHz transceiver chip. (C implementation)'', cd_license = Some ''mit'',
     cd_channels = None, cd_num_channels = 0,
     cd_optional_channels = None, cd_num_optional_channels = 0,
     cd_options = None, cd_num_options = 0,
     cd_num_annotations = 7, cd_ann_labels = Some nrf905_ann_labels,
     cd_num_annotation_rows = 6, cd_annotation_rows = Some nrf905_ann_rows,
     cd_inputs = Some nrf905_inputs, cd_num_inputs = 1, cd_outputs = None, cd_num_outputs = 0,
     cd_binary = None, cd_num_binary = 0, cd_tags = Some nrf905_tags, cd_num_tags = 2\<rparr>"

lemma nrf905_described: "described nrf905_c_def = (True, True, True)"
  by (simp add: described_simps nrf905_ann_labels_def nrf905_ann_rows_def nrf905_inputs_def nrf905_tags_def nrf905_c_def_def)

section \<open>nrzi_c.c\<close>

definition nrzi_options :: "srd_decoder_option list" where
  "nrzi_options = [
     \<lparr>opt_id = Some ''preamble_len'', opt_idn = None, opt_desc = Some ''Preamble Length'',
        opt_def = Some (GV_string ''16''), opt_values = [GV_string ''4'', GV_string ''8'', GV_string ''16'', GV_string ''32'', GV_string ''64'']\<rparr>]"

definition nrzi_channels :: "srd_channel list" where
  "nrzi_channels = [
     \<lparr>ch_id = Some ''data'', ch_name = Some ''Data'', ch_desc = Some ''Data line'', ch_order = 0, ch_type = 1, ch_idn = None\<rparr>]"

definition nrzi_ann_labels :: "(string option \<times> string option \<times> string option) list" where
  "nrzi_ann_labels = [
     (Some [], Some ''preamble'', Some ''Preamble''),
     (Some [], Some ''bit'', Some ''Decoded bits'')]"

definition nrzi_ann_rows :: "srd_c_ann_row list" where
  "nrzi_ann_rows = [
     \<lparr>car_id = Some ''bits'', car_desc = Some ''Bits'', car_ann_classes = Some [0, 1], car_num_ann_classes = 2\<rparr>]"

definition nrzi_inputs :: "string list" where
  "nrzi_inputs = [
     ''logic'']"

definition nrzi_outputs :: "string list" where
  "nrzi_outputs = [
     ''nrzi'']"

definition nrzi_tags :: "string list" where
  "nrzi_tags = [
     ''Encoding'']"

definition nrzi_c_def :: srd_c_decoder where
  "nrzi_c_def = \<lparr>cd_id = Some ''nrzi_c'', cd_name = Some ''NRZ-I(C)'',
     cd_longname = Some ''Non-return-to-zero Inverted (C)'', cd_desc = Some ''Bits encoded as presence or absence of a transition. (C implementation)'', cd_license = Some ''gplv2+'',
     cd_channels = Some nrzi_channels, cd_num_channels = 1,
     cd_optional_channels = None, cd_num_optional_channels = 0,
     cd_options = Some nrzi_options, cd_num_options = 1,
     cd_num_annotations = 2, cd_ann_labels = Some nrzi_ann_labels,
     cd_num_annotation_rows = 1, cd_annotation_rows = Some nrzi_ann_rows,
     cd_inputs = Some nrzi_inputs, cd_num_inputs = 1, cd_outputs = Some nrzi_outputs, cd_num_outputs = 1,
     cd_binary = None, cd_num_binary = 0, cd_tags = Some nrzi_tags, cd_num_tags = 1\<rparr>"

lemma nrzi_described: "described nrzi_c_def = (True, True, True)"
  by (simp add: described_simps nrzi_options_def nrzi_channels_def nrzi_ann_labels_def nrzi_ann_rows_def nrzi_inputs_def nrzi_outputs_def nrzi_tags_def nrzi_c_def_def)

section \<open>nunchuk_c.c\<close>

definition nunchuk_ann_labels :: "(string option \<times> string option \<times> string option) list" where
  "nunchuk_ann_labels = [
     (Some [], Some ''reg-0x00'', Some (''Register 0x00 '' @ bytes_str [0xE2, 0x80, 0x94] @ '' Analog stick X'')),
     (Some [], Some ''reg-0x01'', Some (''Register 0x01 '' @ bytes_str [0xE2, 0x80, 0x94] @ '' Analog stick Y'')),
     (Some [], Some ''reg-0x02'', Some (''Register 0x02 '' @ bytes_str [0xE2, 0x80, 0x94] @ '' Accelerometer X[9:2]'')),
     (Some [], Some ''reg-0x03'', Some (''Register 0x03 '' @ bytes_str [0xE2, 0x80, 0x94] @ '' Accelerometer Y[9:2]'')),
     (Some [], Some ''reg-0x04'', Some (''Register 0x04 '' @ bytes_str [0xE2, 0x80, 0x94] @ '' Accelerometer Z[9:2]'')),
     (Some [], Some ''reg-0x05'', Some (''Register 0x05 '' @ bytes_str [0xE2, 0x80, 0x94] @ '' Buttons + accel LSB'')),
     (Some [], Some ''bit-bz'', Some (''BZ bit '' @ bytes_str [0xE2, 0x80, 0x94] @ '' Z button status'')),
     (Some [], Some ''bit-bc'', Some (''BC bit '' @ bytes_str [0xE2, 0x80, 0x94] @ '' C button status'')),
     (Some [], Some ''bit-ax'', Some (''AX bits '' @ bytes_str [0xE2, 0x80, 0x94] @ '' Accelerometer X[1:0]'')),
     (Some [], Some ''bit-ay'', Some (''AY bits '' @ bytes_str [0xE2, 0x80, 0x94] @ '' Accelerometer Y[1:0]'')),
     (Some [], Some ''bit-az'', Some (''AZ bits '' @ bytes_str [0xE2, 0x80, 0x94] @ '' Accelerometer Z[1:0]'')),
     (Some [], Some ''nunchuk-write'', Some ''Nunchuk write''),
     (Some [], Some ''cmd-init'', Some ''Init command''),
     (Some [], Some ''summary'', Some ''Summary''),
     (Some [], Some ''warnings'', Some ''Warnings'')]"

definition nunchuk_ann_rows :: "srd_c_ann_row list" where
  "nunchuk_ann_rows = [
     \<lparr>car_id = Some ''regs'', car_desc = Some ''Registers'', car_ann_classes = Some [0, 1, 2, 3, 4, 5, 6, 7, 8, 9, 10, 11, 12], car_num_ann_classes = 13\<rparr>,
     \<lparr>car_id = Some ''summary'', car_desc = Some ''Summary'', car_ann_classes = Some [13], car_num_ann_classes = 1\<rparr>,
     \<lparr>car_id = Some ''warnings'', car_desc = Some ''Warnings'', car_ann_classes = Some [14], car_num_ann_classes = 1\<rparr>]"

definition nunchuk_inputs :: "string list" where
  "nunchuk_inputs = [
     ''i2c'']"

definition nunchuk_tags :: "string list" where
  "nunchuk_tags = [
     ''Sensor'']"

definition nunchuk_c_def :: srd_c_decoder where
  "nunchuk_c_def = \<lparr>cd_id = Some ''nunchuk_c'', cd_name = Some ''Nunchuk(C)'',
     cd_longname = Some ''Nintendo Wii Nunchuk (C)'', cd_desc = Some ''Nintendo Wii Nunchuk controller protocol. (C implementation)'', cd_license = Some ''gplv2+'',
     cd_channels = None, cd_num_channels = 0,
     cd_optional_channels = None, cd_num_optional_channels = 0,
     cd_options = None, cd_num_options = 0,
     cd_num_annotations = 15, cd_ann_labels = Some nunchuk_ann_labels,
     cd_num_annotation_rows = 3, cd_annotation_rows = Some nunchuk_ann_rows,
     cd_inputs = Some nunchuk_inputs, cd_num_inputs = 1, cd_outputs = None, cd_num_outputs = 0,
     cd_binary = None, cd_num_binary = 0, cd_tags = Some nunchuk_tags, cd_num_tags = 1\<rparr>"

lemma nunchuk_described: "described nunchuk_c_def = (True, True, True)"
  by (simp add: described_simps nunchuk_ann_labels_def nunchuk_ann_rows_def nunchuk_inputs_def nunchuk_tags_def nunchuk_c_def_def)

section \<open>one_single_wire_c.c\<close>

definition one_single_wire_options :: "srd_decoder_option list" where
  "one_single_wire_options = [
     \<lparr>opt_id = Some ''threshold'', opt_idn = None, opt_desc = Some ''Threshold time value (us)'',
        opt_def = Some (GV_int64 8), opt_values = []\<rparr>]"

definition one_single_wire_channels :: "srd_channel list" where
  "one_single_wire_channels = [
     \<lparr>ch_id = Some ''osw'', ch_name = Some ''OSW'', ch_desc = Some ''OSW signal line'', ch_order = 0, ch_type = 1, ch_idn = None\<rparr>,
     \<lparr>ch_id = Some ''strt'', ch_name = Some ''Start Pulse'', ch_desc = Some ''OSW device start pulse signal'', ch_order = 1, ch_type = -1, ch_idn = None\<rparr>]"

definition one_single_wire_ann_labels :: "(string option \<times> string option \<times> string option) list" where
  "one_single_wire_ann_labels = [
     (Some [], Some ''bit'', Some ''Bit''),
     (Some [], Some ''byte'', Some ''Byte''),
     (Some [], Some ''sample'', Some ''Sample''),
     (Some [], Some ''wait'', Some ''Wait''),
     (Some [], Some ''pb'', Some ''PB (Parity Bit)'')]"

definition one_single_wire_ann_rows :: "srd_c_ann_row list" where
  "one_single_wire_ann_rows = [
     \<lparr>car_id = Some ''bits'', car_desc = Some ''Bits'', car_ann_classes = Some [0, 3], car_num_ann_classes = 2\<rparr>,
     \<lparr>car_id = Some ''bytes'', car_desc = Some ''Bytes'', car_ann_classes = Some [1, 4], car_num_ann_classes = 2\<rparr>,
     \<lparr>car_id = Some ''samples'', car_desc = Some ''Samples'', car_ann_classes = Some [2], car_num_ann_classes = 1\<rparr>]"

definition one_single_wire_inputs :: "string list" where
  "one_single_wire_inputs = [
     ''logic'']"

definition one_single_wire_tags :: "string list" where
  "one_single_wire_tags = [
     ''Custom'']"

definition one_single_wire_c_def :: srd_c_decoder where
  "one_single_wire_c_def = \<lparr>cd_id = Some ''one_single_wire_c'', cd_name = Some ''OneSingleWire(C)'',
     cd_longname = Some ''OneSingleWire custom bus (C)'', cd_desc = Some ''Bidirectional, half-duplex, asynchronous serial bus. (C implementation)'', cd_license = Some ''gplv2+'',
     cd_channels = Some one_single_wire_channels, cd_num_channels = 2,
     cd_optional_channels = None, cd_num_optional_channels = 0,
     cd_options = Some one_single_wire_options, cd_num_options = 1,
     cd_num_annotations = 5, cd_ann_labels = Some one_single_wire_ann_labels,
     cd_num_annotation_rows = 3, cd_annotation_rows = Some one_single_wire_ann_rows,
     cd_inputs = Some one_single_wire_inputs, cd_num_inputs = 1, cd_outputs = None, cd_num_outputs = 0,
     cd_binary = None, cd_num_binary = 0, cd_tags = Some one_single_wire_tags, cd_num_tags = 1\<rparr>"

lemma one_single_wire_described: "described one_single_wire_c_def = (True, True, True)"
  by (simp add: described_simps one_single_wire_options_def one_single_wire_channels_def one_single_wire_ann_labels_def one_single_wire_ann_rows_def one_single_wire_inputs_def one_single_wire_tags_def one_single_wire_c_def_def)

section \<open>onewire_c.c\<close>

definition onewire_options :: "srd_decoder_option list" where
  "onewire_options = [
     \<lparr>opt_id = Some ''overdrive'', opt_idn = Some ''dec_onewire_link_opt_overdrive'', opt_desc = Some ''Start in overdrive speed'',
        opt_def = Some (GV_string ''no''), opt_values = [GV_string ''yes'', GV_string ''no'']\<rparr>]"

definition onewire_channels :: "srd_channel list" where
  "onewire_channels = [
     \<lparr>ch_id = Some ''owr'', ch_name = Some ''OWR'', ch_desc = Some ''1-Wire signal line'', ch_order = 0, ch_type = 1, ch_idn = Some ''dec_onewire_link_chan_owr''\<rparr>]"

definition onewire_ann_labels :: "(string option \<times> string option \<times> string option) list" where
  "onewire_ann_labels = [
     (Some [], Some ''bit'', Some ''Bit''),
     (Some [], Some ''warnings'', Some ''Warnings''),
     (Some [], Some ''reset'', Some ''Reset''),
     (Some [], Some ''presence'', Some ''Presence''),
     (Some [], Some ''overdrive'', Some ''Overdrive speed notifications'')]"

definition onewire_ann_rows :: "srd_c_ann_row list" where
  "onewire_ann_rows = [
     \<lparr>car_id = Some ''bits'', car_desc = Some ''Bits'', car_ann_classes = Some [0, 2, 3], car_num_ann_classes = 3\<rparr>,
     \<lparr>car_id = Some ''info'', car_desc = Some ''Info'', car_ann_classes = Some [4], car_num_ann_classes = 1\<rparr>,
     \<lparr>car_id = Some ''warnings'', car_desc = Some ''Warnings'', car_ann_classes = Some [1], car_num_ann_classes = 1\<rparr>]"

definition onewire_inputs :: "string list" where
  "onewire_inputs = [
     ''logic'']"

definition onewire_outputs :: "string list" where
  "onewire_outputs = [
     ''onewire_link'']"

definition onewire_tags :: "string list" where
  "onewire_tags = [
     ''Embedded/industrial'']"

definition onewire_c_def :: srd_c_decoder where
  "onewire_c_def = \<lparr>cd_id = Some ''onewire_c'', cd_name = Some ''OneWire link layer(C)'',
     cd_longname = Some ''1-Wire serial communication bus (link layer)(C)'', cd_desc = Some ''Bidirectional, half-duplex, asynchronous serial bus.(C implementation)'', cd_license = Some ''gplv2+'',
     cd_channels = Some onewire_channels, cd_num_channels = 1,
     cd_optional_channels = None, cd_num_optional_channels = 0,
     cd_options = Some onewire_options, cd_num_options = 1,
     cd_num_annotations = 5, cd_ann_labels = Some onewire_ann_labels,
     cd_num_annotation_rows = 3, cd_annotation_rows = Some onewire_ann_rows,
     cd_inputs = Some onewire_inputs, cd_num_inputs = 1, cd_outputs = Some onewire_outputs, cd_num_outputs = 1,
     cd_binary = None, cd_num_binary = 0, cd_tags = Some onewire_tags, cd_num_tags = 1\<rparr>"

lemma onewire_described: "described onewire_c_def = (True, True, True)"
  by (simp add: described_simps onewire_options_def onewire_channels_def onewire_ann_labels_def onewire_ann_rows_def onewire_inputs_def onewire_outputs_def onewire_tags_def onewire_c_def_def)

section \<open>onewire_link_c.c\<close>

definition onewire_link_options :: "srd_decoder_option list" where
  "onewire_link_options = [
     \<lparr>opt_id = Some ''overdrive'', opt_idn = Some ''dec_onewire_link_opt_overdrive'', opt_desc = Some ''Start in overdrive speed'',
        opt_def = Some (GV_string ''no''), opt_values = [GV_string ''yes'', GV_string ''no'']\<rparr>]"

definition onewire_link_channels :: "srd_channel list" where
  "onewire_link_channels = [
     \<lparr>ch_id = Some ''owr'', ch_name = Some ''OWR'', ch_desc = Some ''1-Wire signal line'', ch_order = 0, ch_type = 1, ch_idn = Some ''dec_onewire_link_chan_owr''\<rparr>]"

definition onewire_link_ann_labels :: "(string option \<times> string option \<times> string option) list" where
  "onewire_link_ann_labels = [
     (Some [], Some ''Bit'', Some ''B''),
     (Some [], Some ''Warnings'', Some ''Warn''),
     (Some [], Some ''Reset'', Some ''Rst''),
     (Some [], Some ''Presence'', Some ''Pres''),
     (Some [], Some ''Overdrive speed notifications'', Some ''Overdrive'')]"

definition onewire_link_ann_rows :: "srd_c_ann_row list" where
  "onewire_link_ann_rows = [
     \<lparr>car_id = Some ''bits'', car_desc = Some ''Bits'', car_ann_classes = Some [0, 2, 3], car_num_ann_classes = 3\<rparr>,
     \<lparr>car_id = Some ''info'', car_desc = Some ''Info'', car_ann_classes = Some [4], car_num_ann_classes = 1\<rparr>,
     \<lparr>car_id = Some ''warnings'', car_desc = Some ''Warnings'', car_ann_classes = Some [1], car_num_ann_classes = 1\<rparr>]"

definition onewire_link_inputs :: "string list" where
  "onewire_link_inputs = [
     ''logic'']"

definition onewire_link_outputs :: "string list" where
  "onewire_link_outputs = [
     ''onewire_link'']"

definition onewire_link_tags :: "string list" where
  "onewire_link_tags = [
     ''Embedded/industrial'']"

definition onewire_link_c_def :: srd_c_decoder where
  "onewire_link_c_def = \<lparr>cd_id = Some ''onewire_link_c'', cd_name = Some ''OneWire link layer(C)'',
     cd_longname = Some ''1-Wire serial communication bus (link layer)(C)'', cd_desc = Some ''Bidirectional, half-duplex, asynchronous serial bus.(C implementation)'', cd_license = Some ''gplv2+'',
     cd_channels = Some onewire_link_channels, cd_num_channels = 1,
     cd_optional_channels = None, cd_num_optional_channels = 0,
     cd_options = Some onewire_link_options, cd_num_options = 1,
     cd_num_annotations = 5, cd_ann_labels = Some onewire_link_ann_labels,
     cd_num_annotation_rows = 3, cd_annotation_rows = Some onewire_link_ann_rows,
     cd_inputs = Some onewire_link_inputs, cd_num_inputs = 1, cd_outputs = Some onewire_link_outputs, cd_num_outputs = 1,
     cd_binary = None, cd_num_binary = 0, cd_tags = Some onewire_link_tags, cd_num_tags = 1\<rparr>"

lemma onewire_link_described: "described onewire_link_c_def = (True, True, True)"
  by (simp add: described_simps onewire_link_options_def onewire_link_channels_def onewire_link_ann_labels_def onewire_link_ann_rows_def onewire_link_inputs_def onewire_link_outputs_def onewire_link_tags_def onewire_link_c_def_def)

section \<open>onewire_network_c.c\<close>

definition onewire_network_ann_labels :: "(string option \<times> string option \<times> string option) list" where
  "onewire_network_ann_labels = [
     (Some ''text'', Some ''text'', Some ''Human-readable text'')]"

definition onewire_network_ann_rows :: "srd_c_ann_row list" where
  "onewire_network_ann_rows = [
     \<lparr>car_id = Some ''text'', car_desc = Some ''Human-readable text'', car_ann_classes = Some [0], car_num_ann_classes = 1\<rparr>]"

definition onewire_network_inputs :: "string list" where
  "onewire_network_inputs = [
     ''onewire_link'']"

definition onewire_network_outputs :: "string list" where
  "onewire_network_outputs = [
     ''onewire_network'']"

definition onewire_network_tags :: "string list" where
  "onewire_network_tags = [
     ''Embedded/industrial'']"

definition onewire_network_c_def :: srd_c_decoder where
  "onewire_network_c_def = \<lparr>cd_id = Some ''onewire_network_c'', cd_name = Some ''OneWire network(C)'',
     cd_longname = Some ''1-Wire serial communication bus (network layer)(C)'', cd_desc = Some ''1-Wire network layer: ROM commands, device addressing and enumeration. (C implementation)'', cd_license = Some ''gplv2+'',
     cd_channels = None, cd_num_channels = 0,
     cd_optional_channels = None, cd_num_optional_channels = 0,
     cd_options = None, cd_num_options = 0,
     cd_num_annotations = 1, cd_ann_labels = Some onewire_network_ann_labels,
     cd_num_annotation_rows = 1, cd_annotation_rows = Some onewire_network_ann_rows,
     cd_inputs = Some onewire_network_inputs, cd_num_inputs = 1, cd_outputs = Some onewire_network_outputs, cd_num_outputs = 1,
     cd_binary = None, cd_num_binary = 0, cd_tags = Some onewire_network_tags, cd_num_tags = 1\<rparr>"

lemma onewire_network_described: "described onewire_network_c_def = (True, True, True)"
  by (simp add: described_simps onewire_network_ann_labels_def onewire_network_ann_rows_def onewire_network_inputs_def onewire_network_outputs_def onewire_network_tags_def onewire_network_c_def_def)

section \<open>ook_c.c\<close>

definition ook_options :: "srd_decoder_option list" where
  "ook_options = [
     \<lparr>opt_id = Some ''invert'', opt_idn = None, opt_desc = Some ''Invert data'',
        opt_def = Some (GV_string ''no''), opt_values = [GV_string ''no'', GV_string ''yes'']\<rparr>,
     \<lparr>opt_id = Some ''decodeas'', opt_idn = None, opt_desc = Some ''Decode type'',
        opt_def = Some (GV_string ''Manchester''), opt_values = [GV_string ''NRZ'', GV_string ''Manchester'', GV_string ''Diff Manchester'']\<rparr>,
     \<lparr>opt_id = Some ''preamble'', opt_idn = None, opt_desc = Some ''Preamble'',
        opt_def = Some (GV_string ''auto''), opt_values = [GV_string ''auto'', GV_string ''1010'', GV_string ''1111'']\<rparr>,
     \<lparr>opt_id = Some ''preamlen'', opt_idn = None, opt_desc = Some ''Filter length'',
        opt_def = Some (GV_string ''7''), opt_values = [GV_string ''0'', GV_string ''3'', GV_string ''4'', GV_string ''5'', GV_string ''6'', GV_string ''7'', GV_string ''8'', GV_string ''9'', GV_string ''10'']\<rparr>,
     \<lparr>opt_id = Some ''diffmanvar'', opt_idn = None, opt_desc = Some ''Transition at start'',
        opt_def = Some (GV_string ''1''), opt_values = [GV_string ''1'', GV_string ''0'']\<rparr>]"

definition ook_channels :: "srd_channel list" where
  "ook_channels = [
     \<lparr>ch_id = Some ''data'', ch_name = Some ''DATA'', ch_desc = Some ''Data line'', ch_order = 0, ch_type = 1, ch_idn = None\<rparr>]"

definition ook_ann_labels :: "(string option \<times> string option \<times> string option) list" where
  "ook_ann_labels = [
     (Some [], Some ''frame'', Some ''Frame''),
     (Some [], Some ''info'', Some ''Info''),
     (Some [], Some ''1111'', Some ''1111''),
     (Some [], Some ''1010'', Some ''1010''),
     (Some [], Some ''diffman'', Some ''Diff man''),
     (Some [], Some ''nrz'', Some ''NRZ'')]"

definition ook_ann_rows :: "srd_c_ann_row list" where
  "ook_ann_rows = [
     \<lparr>car_id = Some ''frames'', car_desc = Some ''Framing'', car_ann_classes = Some [0], car_num_ann_classes = 1\<rparr>,
     \<lparr>car_id = Some ''info-vals'', car_desc = Some ''Info'', car_ann_classes = Some [1], car_num_ann_classes = 1\<rparr>,
     \<lparr>car_id = Some ''man1111'', car_desc = Some ''Man 1111'', car_ann_classes = Some [2], car_num_ann_classes = 1\<rparr>,
     \<lparr>car_id = Some ''man1010'', car_desc = Some ''Man 1010'', car_ann_classes = Some [3], car_num_ann_classes = 1\<rparr>,
     \<lparr>car_id = Some ''diffmans'', car_desc = Some ''Diff man'', car_ann_classes = Some [4], car_num_ann_classes = 1\<rparr>,
     \<lparr>car_id = Some ''nrz-vals'', car_desc = Some ''NRZ'', car_ann_classes = Some [5], car_num_ann_classes = 1\<rparr>]"

definition ook_binary :: "srd_decoder_binary list" where
  "ook_binary = [
     \<lparr>bin_class = 0, bin_id = Some ''pulse-lengths'', bin_desc = Some ''Pulse lengths''\<rparr>]"

definition ook_inputs :: "string list" where
  "ook_inputs = [
     ''logic'']"

definition ook_outputs :: "string list" where
  "ook_outputs = [
     ''ook'']"

definition ook_tags :: "string list" where
  "ook_tags = [
     ''Encoding'']"

definition ook_c_def :: srd_c_decoder where
  "ook_c_def = \<lparr>cd_id = Some ''ook_c'', cd_name = Some ''OOK(C)'',
     cd_longname = Some ''On-off keying (C)'', cd_desc = Some ''On-off keying protocol. (C implementation)'', cd_license = Some ''gplv2+'',
     cd_channels = Some ook_channels, cd_num_channels = 1,
     cd_optional_channels = None, cd_num_optional_channels = 0,
     cd_options = Some ook_options, cd_num_options = 5,
     cd_num_annotations = 6, cd_ann_labels = Some ook_ann_labels,
     cd_num_annotation_rows = 6, cd_annotation_rows = Some ook_ann_rows,
     cd_inputs = Some ook_inputs, cd_num_inputs = 1, cd_outputs = Some ook_outputs, cd_num_outputs = 1,
     cd_binary = Some ook_binary, cd_num_binary = 1, cd_tags = Some ook_tags, cd_num_tags = 1\<rparr>"

lemma ook_described: "described ook_c_def = (True, True, True)"
  by (simp add: described_simps ook_options_def ook_channels_def ook_ann_labels_def ook_ann_rows_def ook_binary_def ook_inputs_def ook_outputs_def ook_tags_def ook_c_def_def)

section \<open>ook_oregon_c.c\<close>

definition ook_oregon_options :: "srd_decoder_option list" where
  "ook_oregon_options = [
     \<lparr>opt_id = Some ''unknown'', opt_idn = Some ''dec_ook_oregon_opt_unknown'', opt_desc = Some ''Unknown type is'',
        opt_def = Some (GV_string ''Unknown''), opt_values = [GV_string ''Unknown'', GV_string ''Temp'', GV_string ''Temp_Hum'', GV_string ''Temp_Hum1'', GV_string ''Temp_Hum_Baro'', GV_string ''Temp_Hum_Baro1'', GV_string ''UV'', GV_string ''UV1'', GV_string ''Wind'', GV_string ''Rain'', GV_string ''Rain1'']\<rparr>]"

definition ook_oregon_ann_labels :: "(string option \<times> string option \<times> string option) list" where
  "ook_oregon_ann_labels = [
     (Some [], Some ''Bit'', Some ''Bit''),
     (Some [], Some ''Field'', Some ''Field''),
     (Some [], Some ''L2'', Some ''Level 2''),
     (Some [], Some ''Preamble'', Some ''Preamble''),
     (Some [], Some ''Sync'', Some ''Sync''),
     (Some [], Some ''SensorID'', Some ''SensorID''),
     (Some [], Some ''Channel'', Some ''Channel''),
     (Some [], Some ''Rolling code'', Some ''Rolling code''),
     (Some [], Some ''Flags1'', Some ''Flags1'')]"

definition ook_oregon_ann_rows :: "srd_c_ann_row list" where
  "ook_oregon_ann_rows = [
     \<lparr>car_id = Some ''bits'', car_desc = Some ''Bits'', car_ann_classes = Some [0], car_num_ann_classes = 1\<rparr>,
     \<lparr>car_id = Some ''fields'', car_desc = Some ''Fields'', car_ann_classes = Some [1, 3, 4], car_num_ann_classes = 3\<rparr>,
     \<lparr>car_id = Some ''l2'', car_desc = Some ''Level 2'', car_ann_classes = Some [2], car_num_ann_classes = 1\<rparr>]"

definition ook_oregon_inputs :: "string list" where
  "ook_oregon_inputs = [
     ''ook'']"

definition ook_oregon_tags :: "string list" where
  "ook_oregon_tags = [
     ''Sensor'']"

definition ook_oregon_c_def :: srd_c_decoder where
  "ook_oregon_c_def = \<lparr>cd_id = Some ''ook_oregon_c'', cd_name = Some ''Oregon(C)'',
     cd_longname = Some ''Oregon Scientific (C)'', cd_desc = Some ''Oregon Scientific weather sensor protocol. (C implementation)'', cd_license = Some ''gplv2+'',
     cd_channels = None, cd_num_channels = 0,
     cd_optional_channels = None, cd_num_optional_channels = 0,
     cd_options = Some ook_oregon_options, cd_num_options = 1,
     cd_num_annotations = 9, cd_ann_labels = Some ook_oregon_ann_labels,
     cd_num_annotation_rows = 3, cd_annotation_rows = Some ook_oregon_ann_rows,
     cd_inputs = Some ook_oregon_inputs, cd_num_inputs = 1, cd_outputs = None, cd_num_outputs = 0,
     cd_binary = None, cd_num_binary = 0, cd_tags = Some ook_oregon_tags, cd_num_tags = 1\<rparr>"

lemma ook_oregon_described: "described ook_oregon_c_def = (True, True, True)"
  by (simp add: described_simps ook_oregon_options_def ook_oregon_ann_labels_def ook_oregon_ann_rows_def ook_oregon_inputs_def ook_oregon_tags_def ook_oregon_c_def_def)

section \<open>opentherm_c.c\<close>

definition opentherm_options :: "srd_decoder_option list" where
  "opentherm_options = [
     \<lparr>opt_id = Some ''polarity'', opt_idn = None, opt_desc = Some ''Polarity'',
        opt_def = Some (GV_string ''active-low''), opt_values = [GV_string ''active-low'', GV_string ''active-high'']\<rparr>,
     \<lparr>opt_id = Some ''bitlen'', opt_idn = None, opt_desc = Some ''Single bit period (us)'',
        opt_def = Some (GV_int64 1000), opt_values = []\<rparr>,
     \<lparr>opt_id = Some ''jitter_m'', opt_idn = None, opt_desc = Some ''Edge jitter minus (us)'',
        opt_def = Some (GV_int64 100), opt_values = []\<rparr>,
     \<lparr>opt_id = Some ''jitter_p'', opt_idn = None, opt_desc = Some ''Edge jitter plus (us)'',
        opt_def = Some (GV_int64 150), opt_values = []\<rparr>,
     \<lparr>opt_id = Some ''m2s_silence_min'', opt_idn = None, opt_desc = Some ''Master to Slave min silence (us)'',
        opt_def = Some (GV_int64 20000), opt_values = []\<rparr>,
     \<lparr>opt_id = Some ''m2s_silence_max'', opt_idn = None, opt_desc = Some ''Master to Slave max silence (us)'',
        opt_def = Some (GV_int64 800000), opt_values = []\<rparr>,
     \<lparr>opt_id = Some ''s2m_silence_min'', opt_idn = None, opt_desc = Some ''Slave to Master min silence (us)'',
        opt_def = Some (GV_int64 100000), opt_values = []\<rparr>,
     \<lparr>opt_id = Some ''m2m_act_max'', opt_idn = None, opt_desc = Some ''Master req to req max period (us)'',
        opt_def = Some (GV_int64 1150000), opt_values = []\<rparr>,
     \<lparr>opt_id = Some ''ignore_glitches'', opt_idn = None, opt_desc = Some ''Ignore glitches up to (us)'',
        opt_def = Some (GV_int64 0), opt_values = []\<rparr>,
     \<lparr>opt_id = Some ''format'', opt_idn = None, opt_desc = Some ''Data format'',
        opt_def = Some (GV_string ''dec''), opt_values = [GV_string ''hex'', GV_string ''dec'', GV_string ''oct'', GV_string ''bin'']\<rparr>]"

definition opentherm_channels :: "srd_channel list" where
  "opentherm_channels = [
     \<lparr>ch_id = Some ''ot'', ch_name = Some ''OT'', ch_desc = Some ''OpenTherm line'', ch_order = 0, ch_type = 1, ch_idn = None\<rparr>]"

definition opentherm_ann_labels :: "(string option \<times> string option \<times> string option) list" where
  "opentherm_ann_labels = [
     (Some [], Some ''bit'', Some ''Bit''),
     (Some [], Some ''startbit'', Some ''Startbit''),
     (Some [], Some ''stopbit'', Some ''Stopbit''),
     (Some [], Some ''paritybit'', Some ''Paritybit''),
     (Some [], Some ''msgtype'', Some ''MSG-TYPE''),
     (Some [], Some ''spare'', Some ''Spare''),
     (Some [], Some ''dataid'', Some ''DATA-ID''),
     (Some [], Some ''datavalue'', Some ''DATA-VALUE''),
     (Some [], Some ''m2s'', Some ''MasterToSlave''),
     (Some [], Some ''s2m'', Some ''SlaveToMaster''),
     (Some [], Some ''frame'', Some ''OpenThermFrame''),
     (Some [], Some ''timing'', Some ''Timing error''),
     (Some [], Some ''warning'', Some ''Warning''),
     (Some [], Some ''otx'', Some ''OpenThermExchange'')]"

definition opentherm_ann_rows :: "srd_c_ann_row list" where
  "opentherm_ann_rows = [
     \<lparr>car_id = Some ''bits'', car_desc = Some ''Bits'', car_ann_classes = Some [0], car_num_ann_classes = 1\<rparr>,
     \<lparr>car_id = Some ''fields'', car_desc = Some ''Fields'', car_ann_classes = Some [1, 2, 3, 4, 5, 6, 7], car_num_ann_classes = 7\<rparr>,
     \<lparr>car_id = Some ''direction'', car_desc = Some ''Direction'', car_ann_classes = Some [8, 9], car_num_ann_classes = 2\<rparr>,
     \<lparr>car_id = Some ''frames'', car_desc = Some ''Frame'', car_ann_classes = Some [10], car_num_ann_classes = 1\<rparr>,
     \<lparr>car_id = Some ''otxs'', car_desc = Some ''Description'', car_ann_classes = Some [13], car_num_ann_classes = 1\<rparr>,
     \<lparr>car_id = Some ''warnings'', car_desc = Some ''Warnings'', car_ann_classes = Some [12], car_num_ann_classes = 1\<rparr>,
     \<lparr>car_id = Some ''timings'', car_desc = Some ''Timing errors'', car_ann_classes = Some [11], car_num_ann_classes = 1\<rparr>]"

definition opentherm_inputs :: "string list" where
  "opentherm_inputs = [
     ''logic'']"

definition opentherm_tags :: "string list" where
  "opentherm_tags = [
     ''OT'']"

definition opentherm_c_def :: srd_c_decoder where
  "opentherm_c_def = \<lparr>cd_id = Some ''opentherm_c'', cd_name = Some ''OpenTherm(C)'',
     cd_longname = Some ''OpenTherm (C)'', cd_desc = Some ''OpenTherm protocol. (C implementation)'', cd_license = Some ''gplv2+'',
     cd_channels = Some opentherm_channels, cd_num_channels = 1,
     cd_optional_channels = None, cd_num_optional_channels = 0,
     cd_options = Some opentherm_options, cd_num_options = 10,
     cd_num_annotations = 14, cd_ann_labels = Some opentherm_ann_labels,
     cd_num_annotation_rows = 7, cd_annotation_rows = Some opentherm_ann_rows,
     cd_inputs = Some opentherm_inputs, cd_num_inputs = 1, cd_outputs = None, cd_num_outputs = 0,
     cd_binary = None, cd_num_binary = 0, cd_tags = Some opentherm_tags, cd_num_tags = 1\<rparr>"

lemma opentherm_described: "described opentherm_c_def = (True, True, True)"
  by (simp add: described_simps opentherm_options_def opentherm_channels_def opentherm_ann_labels_def opentherm_ann_rows_def opentherm_inputs_def opentherm_tags_def opentherm_c_def_def)

section \<open>pan1321_c.c\<close>

definition pan1321_ann_labels :: "(string option \<times> string option \<times> string option) list" where
  "pan1321_ann_labels = [
     (Some [], Some ''text-verbose'', Some ''Human-readable text (verbose)''),
     (Some [], Some ''text'', Some ''Human-readable text''),
     (Some [], Some ''warnings'', Some ''Human-readable warnings'')]"

definition pan1321_ann_rows :: "srd_c_ann_row list" where
  "pan1321_ann_rows = [
     \<lparr>car_id = Some ''text'', car_desc = Some ''Text'', car_ann_classes = Some [0, 1, 2], car_num_ann_classes = 3\<rparr>]"

definition pan1321_inputs :: "string list" where
  "pan1321_inputs = [
     ''uart'']"

definition pan1321_tags :: "string list" where
  "pan1321_tags = [
     ''Wireless/RF'']"

definition pan1321_c_def :: srd_c_decoder where
  "pan1321_c_def = \<lparr>cd_id = Some ''pan1321_c'', cd_name = Some ''PAN1321(C)'',
     cd_longname = Some ''Panasonic PAN1321 (C)'', cd_desc = Some ''Bluetooth RF module with Serial Port Profile (SPP). (C implementation)'', cd_license = Some ''gplv2+'',
     cd_channels = None, cd_num_channels = 0,
     cd_optional_channels = None, cd_num_optional_channels = 0,
     cd_options = None, cd_num_options = 0,
     cd_num_annotations = 3, cd_ann_labels = Some pan1321_ann_labels,
     cd_num_annotation_rows = 1, cd_annotation_rows = Some pan1321_ann_rows,
     cd_inputs = Some pan1321_inputs, cd_num_inputs = 1, cd_outputs = None, cd_num_outputs = 0,
     cd_binary = None, cd_num_binary = 0, cd_tags = Some pan1321_tags, cd_num_tags = 1\<rparr>"

lemma pan1321_described: "described pan1321_c_def = (True, True, True)"
  by (simp add: described_simps pan1321_ann_labels_def pan1321_ann_rows_def pan1321_inputs_def pan1321_tags_def pan1321_c_def_def)

section \<open>pca9571_c.c\<close>

definition pca9571_ann_labels :: "(string option \<times> string option \<times> string option) list" where
  "pca9571_ann_labels = [
     (Some [], Some ''register'', Some ''Register type''),
     (Some [], Some ''value'', Some ''Register value''),
     (Some [], Some ''warning'', Some ''Warning'')]"

definition pca9571_ann_rows :: "srd_c_ann_row list" where
  "pca9571_ann_rows = [
     \<lparr>car_id = Some ''regs'', car_desc = Some ''Registers'', car_ann_classes = Some [0, 1], car_num_ann_classes = 2\<rparr>,
     \<lparr>car_id = Some ''warnings'', car_desc = Some ''Warnings'', car_ann_classes = Some [2], car_num_ann_classes = 1\<rparr>]"

definition pca9571_inputs :: "string list" where
  "pca9571_inputs = [
     ''i2c'']"

definition pca9571_tags :: "string list" where
  "pca9571_tags = [
     ''Embedded/industrial'',
     ''IC'']"

definition pca9571_c_def :: srd_c_decoder where
  "pca9571_c_def = \<lparr>cd_id = Some ''pca9571_c'', cd_name = Some ''PCA9571(C)'',
     cd_longname = Some ''NXP PCA9571 (C)'', cd_desc = Some (''NXP PCA9571 8-bit I'' @ bytes_str [0xC2, 0xB2] @ ''C output expander. (C implementation)''), cd_license = Some ''gplv2+'',
     cd_channels = None, cd_num_channels = 0,
     cd_optional_channels = None, cd_num_optional_channels = 0,
     cd_options = None, cd_num_options = 0,
     cd_num_annotations = 3, cd_ann_labels = Some pca9571_ann_labels,
     cd_num_annotation_rows = 2, cd_annotation_rows = Some pca9571_ann_rows,
     cd_inputs = Some pca9571_inputs, cd_num_inputs = 1, cd_outputs = None, cd_num_outputs = 0,
     cd_binary = None, cd_num_binary = 0, cd_tags = Some pca9571_tags, cd_num_tags = 2\<rparr>"

lemma pca9571_described: "described pca9571_c_def = (True, True, True)"
  by (simp add: described_simps pca9571_ann_labels_def pca9571_ann_rows_def pca9571_inputs_def pca9571_tags_def pca9571_c_def_def)

section \<open>pcfx_ctrlr_c.c\<close>

definition pcfx_ctrlr_options :: "srd_decoder_option list" where
  "pcfx_ctrlr_options = [
     \<lparr>opt_id = Some ''bitvals'', opt_idn = Some ''dec_pcfx_ctrlr_opt_bitvals'', opt_desc = Some ''Show bit values'',
        opt_def = Some (GV_string ''electrical''), opt_values = [GV_string ''electrical'', GV_string ''internal'']\<rparr>]"

definition pcfx_ctrlr_channels :: "srd_channel list" where
  "pcfx_ctrlr_channels = [
     \<lparr>ch_id = Some ''trigger'', ch_name = Some ''TRG'', ch_desc = Some ''Trigger'', ch_order = 0, ch_type = 1, ch_idn = None\<rparr>,
     \<lparr>ch_id = Some ''clk'', ch_name = Some ''CLK'', ch_desc = Some ''Clock'', ch_order = 1, ch_type = 0, ch_idn = None\<rparr>,
     \<lparr>ch_id = Some ''data'', ch_name = Some ''DATA'', ch_desc = Some ''Data'', ch_order = 2, ch_type = 1, ch_idn = None\<rparr>]"

definition pcfx_ctrlr_optional_channels :: "srd_channel list" where
  "pcfx_ctrlr_optional_channels = [
     \<lparr>ch_id = Some ''dir'', ch_name = Some ''DIR'', ch_desc = Some ''Data Direction'', ch_order = 3, ch_type = 1, ch_idn = None\<rparr>]"

definition pcfx_ctrlr_ann_labels :: "(string option \<times> string option \<times> string option) list" where
  "pcfx_ctrlr_ann_labels = [
     (Some [], Some ''start'', Some ''Start''),
     (Some [], Some ''reset'', Some ''Reset''),
     (Some [], Some ''bit'', Some ''Bit''),
     (Some [], Some ''outbits'', Some ''Outbound Bits''),
     (Some [], Some ''byte'', Some ''Byte''),
     (Some [], Some ''word'', Some ''Word''),
     (Some [], Some ''ctrldata'', Some ''Controller Data''),
     (Some [], Some ''ctrlpad'', Some ''Joypad Controller''),
     (Some [], Some ''ctrltap'', Some ''Multitap Controller''),
     (Some [], Some ''ctrlmouse'', Some ''Mouse Controller''),
     (Some [], Some ''ctrlunkn'', Some ''Unknown Controller''),
     (Some [], Some ''warning'', Some ''Warnings'')]"

definition pcfx_ctrlr_ann_rows :: "srd_c_ann_row list" where
  "pcfx_ctrlr_ann_rows = [
     \<lparr>car_id = Some ''starts'', car_desc = Some ''Start'', car_ann_classes = Some [0, 1], car_num_ann_classes = 2\<rparr>,
     \<lparr>car_id = Some ''bits'', car_desc = Some ''Bits'', car_ann_classes = Some [2, 3], car_num_ann_classes = 2\<rparr>,
     \<lparr>car_id = Some ''bytes'', car_desc = Some ''Bytes'', car_ann_classes = Some [4], car_num_ann_classes = 1\<rparr>,
     \<lparr>car_id = Some ''words'', car_desc = Some ''Words'', car_ann_classes = Some [5], car_num_ann_classes = 1\<rparr>,
     \<lparr>car_id = Some ''controller'', car_desc = Some ''Controller'', car_ann_classes = Some [6, 7, 8, 9, 10], car_num_ann_classes = 5\<rparr>,
     \<lparr>car_id = Some ''warnings'', car_desc = Some ''Warnings'', car_ann_classes = Some [11], car_num_ann_classes = 1\<rparr>]"

definition pcfx_ctrlr_inputs :: "string list" where
  "pcfx_ctrlr_inputs = [
     ''logic'']"

definition pcfx_ctrlr_outputs :: "string list" where
  "pcfx_ctrlr_outputs = []"

definition pcfx_ctrlr_tags :: "string list" where
  "pcfx_ctrlr_tags = [
     ''Retro computing'']"

definition pcfx_ctrlr_c_def :: srd_c_decoder where
  "pcfx_ctrlr_c_def = \<lparr>cd_id = Some ''pcfx_ctrlr_c'', cd_name = Some ''PCFX Cntrlr(C)'',
     cd_longname = Some ''PCFX Controller (C)'', cd_desc = Some ''Controller protocol for NEC PC-FX videogame console (C implementation)'', cd_license = Some ''gplv2+'',
     cd_channels = Some pcfx_ctrlr_channels, cd_num_channels = 3,
     cd_optional_channels = Some pcfx_ctrlr_optional_channels, cd_num_optional_channels = 1,
     cd_options = Some pcfx_ctrlr_options, cd_num_options = 1,
     cd_num_annotations = 12, cd_ann_labels = Some pcfx_ctrlr_ann_labels,
     cd_num_annotation_rows = 6, cd_annotation_rows = Some pcfx_ctrlr_ann_rows,
     cd_inputs = Some pcfx_ctrlr_inputs, cd_num_inputs = 1, cd_outputs = Some pcfx_ctrlr_outputs, cd_num_outputs = 0,
     cd_binary = None, cd_num_binary = 0, cd_tags = Some pcfx_ctrlr_tags, cd_num_tags = 1\<rparr>"

lemma pcfx_ctrlr_described: "described pcfx_ctrlr_c_def = (True, True, True)"
  by (simp add: described_simps pcfx_ctrlr_options_def pcfx_ctrlr_channels_def pcfx_ctrlr_optional_channels_def pcfx_ctrlr_ann_labels_def pcfx_ctrlr_ann_rows_def pcfx_ctrlr_inputs_def pcfx_ctrlr_outputs_def pcfx_ctrlr_tags_def pcfx_ctrlr_c_def_def)

section \<open>pjdl_c.c\<close>

definition pjdl_options :: "srd_decoder_option list" where
  "pjdl_options = [
     \<lparr>opt_id = Some ''mode'', opt_idn = Some ''dec_pjdl_opt_mode'', opt_desc = Some ''Communication mode'',
        opt_def = Some (GV_int64 1), opt_values = [GV_int64 1, GV_int64 2, GV_int64 3, GV_int64 4]\<rparr>,
     \<lparr>opt_id = Some ''idle_add_us'', opt_idn = Some ''dec_pjdl_opt_idle_add_us'', opt_desc = Some ''Added idle time (us)'',
        opt_def = Some (GV_int64 4), opt_values = []\<rparr>]"

definition pjdl_channels :: "srd_channel list" where
  "pjdl_channels = [
     \<lparr>ch_id = Some ''data'', ch_name = Some ''DATA'', ch_desc = Some ''Single wire data'', ch_order = 0, ch_type = 1, ch_idn = Some ''dec_pjdl_chan_data''\<rparr>]"

definition pjdl_ann_labels :: "(string option \<times> string option \<times> string option) list" where
  "pjdl_ann_labels = [
     (Some [], Some ''Carrier busy'', Some ''BUSY''),
     (Some [], Some ''Carrier idle'', Some ''IDLE''),
     (Some [], Some ''Pad bit'', Some ''PAD''),
     (Some [], Some ''Low bit'', Some ''ZERO''),
     (Some [], Some ''Data bit'', Some ''DATA''),
     (Some [], Some ''Short data'', Some ''SHORT''),
     (Some [], Some ''Sync loss'', Some ''LOSS''),
     (Some [], Some ''Data byte'', Some ''BYTE''),
     (Some [], Some ''Frame init'', Some ''INIT''),
     (Some [], Some ''Frame bytes'', Some ''FRAME''),
     (Some [], Some ''Frame wait'', Some ''WAIT'')]"

definition pjdl_ann_rows :: "srd_c_ann_row list" where
  "pjdl_ann_rows = [
     \<lparr>car_id = Some ''carriers'', car_desc = Some ''Carriers'', car_ann_classes = Some [0, 1], car_num_ann_classes = 2\<rparr>,
     \<lparr>car_id = Some ''bits'', car_desc = Some ''Bits'', car_ann_classes = Some [2, 3, 4, 5], car_num_ann_classes = 4\<rparr>,
     \<lparr>car_id = Some ''bytes'', car_desc = Some ''Bytes'', car_ann_classes = Some [8, 7, 10], car_num_ann_classes = 3\<rparr>,
     \<lparr>car_id = Some ''frames'', car_desc = Some ''Frames'', car_ann_classes = Some [9], car_num_ann_classes = 1\<rparr>,
     \<lparr>car_id = Some ''warns'', car_desc = Some ''Warnings'', car_ann_classes = Some [6], car_num_ann_classes = 1\<rparr>]"

definition pjdl_inputs :: "string list" where
  "pjdl_inputs = [
     ''logic'']"

definition pjdl_outputs :: "string list" where
  "pjdl_outputs = [
     ''pjon_link'']"

definition pjdl_tags :: "string list" where
  "pjdl_tags = [
     ''Embedded/industrial'']"

definition pjdl_c_def :: srd_c_decoder where
  "pjdl_c_def = \<lparr>cd_id = Some ''pjdl_c'', cd_name = Some ''PJDL(C)'',
     cd_longname = Some ''Padded Jittering Data Link(C)'', cd_desc = Some ''PJDL, a single wire serial link layer for PJON.(C implementation)'', cd_license = Some ''gplv2+'',
     cd_channels = Some pjdl_channels, cd_num_channels = 1,
     cd_optional_channels = None, cd_num_optional_channels = 0,
     cd_options = Some pjdl_options, cd_num_options = 2,
     cd_num_annotations = 11, cd_ann_labels = Some pjdl_ann_labels,
     cd_num_annotation_rows = 5, cd_annotation_rows = Some pjdl_ann_rows,
     cd_inputs = Some pjdl_inputs, cd_num_inputs = 1, cd_outputs = Some pjdl_outputs, cd_num_outputs = 1,
     cd_binary = None, cd_num_binary = 0, cd_tags = Some pjdl_tags, cd_num_tags = 1\<rparr>"

lemma pjdl_described: "described pjdl_c_def = (True, True, True)"
  by (simp add: described_simps pjdl_options_def pjdl_channels_def pjdl_ann_labels_def pjdl_ann_rows_def pjdl_inputs_def pjdl_outputs_def pjdl_tags_def pjdl_c_def_def)

section \<open>pjon_c.c\<close>

definition pjon_ann_labels :: "(string option \<times> string option \<times> string option) list" where
  "pjon_ann_labels = [
     (Some [], Some ''rx_info'', Some ''Receiver ID''),
     (Some [], Some ''hdr_cfg'', Some ''Header config''),
     (Some [], Some ''pkt_len'', Some ''Packet length''),
     (Some [], Some ''meta_crc'', Some ''Meta CRC''),
     (Some [], Some ''tx_info'', Some ''Sender ID''),
     (Some [], Some ''port'', Some ''Service ID''),
     (Some [], Some ''pkt_id'', Some ''Packet ID''),
     (Some [], Some ''anon'', Some ''Anonymous data''),
     (Some [], Some ''payload'', Some ''Payload''),
     (Some [], Some ''end_crc'', Some ''End CRC''),
     (Some [], Some ''syn_rsp'', Some ''Sync response''),
     (Some [], Some ''relation'', Some ''Relation''),
     (Some [], Some ''warning'', Some ''Warning'')]"

definition pjon_ann_rows :: "srd_c_ann_row list" where
  "pjon_ann_rows = [
     \<lparr>car_id = Some ''fields'', car_desc = Some ''Fields'', car_ann_classes = Some [0, 1, 2, 3, 4, 5, 7, 8, 9, 10], car_num_ann_classes = 10\<rparr>,
     \<lparr>car_id = Some ''relations'', car_desc = Some ''Relations'', car_ann_classes = Some [11], car_num_ann_classes = 1\<rparr>,
     \<lparr>car_id = Some ''warnings'', car_desc = Some ''Warnings'', car_ann_classes = Some [12], car_num_ann_classes = 1\<rparr>]"

definition pjon_inputs :: "string list" where
  "pjon_inputs = [
     ''pjon_link'']"

definition pjon_tags :: "string list" where
  "pjon_tags = [
     ''Embedded/industrial'']"

definition pjon_c_def :: srd_c_decoder where
  "pjon_c_def = \<lparr>cd_id = Some ''pjon_c'', cd_name = Some ''PJON(C)'',
     cd_longname = Some ''PJON (C)'', cd_desc = Some ''The PJON protocol. (C implementation)'', cd_license = Some ''gplv2+'',
     cd_channels = None, cd_num_channels = 0,
     cd_optional_channels = None, cd_num_optional_channels = 0,
     cd_options = None, cd_num_options = 0,
     cd_num_annotations = 13, cd_ann_labels = Some pjon_ann_labels,
     cd_num_annotation_rows = 3, cd_annotation_rows = Some pjon_ann_rows,
     cd_inputs = Some pjon_inputs, cd_num_inputs = 1, cd_outputs = None, cd_num_outputs = 0,
     cd_binary = None, cd_num_binary = 0, cd_tags = Some pjon_tags, cd_num_tags = 1\<rparr>"

lemma pjon_described: "described pjon_c_def = (True, True, True)"
  by (simp add: described_simps pjon_ann_labels_def pjon_ann_rows_def pjon_inputs_def pjon_tags_def pjon_c_def_def)

section \<open>pn532_c.c\<close>

definition pn532_options :: "srd_decoder_option list" where
  "pn532_options = [
     \<lparr>opt_id = Some ''preamble'', opt_idn = Some ''dec_pn532_opt_preamble'', opt_desc = Some ''Preamble byte'',
        opt_def = Some (GV_int64 0), opt_values = []\<rparr>,
     \<lparr>opt_id = Some ''postamble'', opt_idn = Some ''dec_pn532_opt_postamble'', opt_desc = Some ''Postamble byte'',
        opt_def = Some (GV_int64 0), opt_values = []\<rparr>,
     \<lparr>opt_id = Some ''start frame'', opt_idn = Some ''dec_pn532_opt_start_frame'', opt_desc = Some ''Start frame byte'',
        opt_def = Some (GV_int64 0), opt_values = []\<rparr>,
     \<lparr>opt_id = Some ''format'', opt_idn = Some ''dec_pn532_opt_format'', opt_desc = Some ''Data format'',
        opt_def = Some (GV_string ''hex''), opt_values = [GV_string ''ascii'', GV_string ''dec'', GV_string ''hex'', GV_string ''oct'', GV_string ''bin'']\<rparr>]"

definition pn532_ann_labels :: "(string option \<times> string option \<times> string option) list" where
  "pn532_ann_labels = [
     (Some [], Some ''start'', Some ''Start frame''),
     (Some [], Some ''len'', Some ''Data length''),
     (Some [], Some ''lcs'', Some ''Data length checksum''),
     (Some [], Some ''tfi'', Some ''Frame identifier''),
     (Some [], Some ''data'', Some ''Packet data''),
     (Some [], Some ''dcs'', Some ''Data checksum''),
     (Some [], Some ''end'', Some ''Postamble''),
     (Some [], Some ''error'', Some ''Error description''),
     (Some [], Some ''frame'', Some ''Frame type''),
     (Some [], Some ''cmd'', Some ''Command''),
     (Some [], Some ''preamble'', Some ''Preamble''),
     (Some [], Some ''instruction'', Some ''Instruction'')]"

definition pn532_ann_rows :: "srd_c_ann_row list" where
  "pn532_ann_rows = [
     \<lparr>car_id = Some ''data_vals'', car_desc = Some ''Data'', car_ann_classes = Some [0, 1, 2, 3, 4, 5, 6, 10, 11], car_num_ann_classes = 9\<rparr>,
     \<lparr>car_id = Some ''frame_type'', car_desc = Some ''Frame type'', car_ann_classes = Some [8], car_num_ann_classes = 1\<rparr>,
     \<lparr>car_id = Some ''commands'', car_desc = Some ''Commands'', car_ann_classes = Some [9], car_num_ann_classes = 1\<rparr>,
     \<lparr>car_id = Some ''errors'', car_desc = Some ''Errors'', car_ann_classes = Some [7], car_num_ann_classes = 1\<rparr>]"

definition pn532_inputs :: "string list" where
  "pn532_inputs = [
     ''uart'']"

definition pn532_outputs :: "string list" where
  "pn532_outputs = [
     ''ISO14443'']"

definition pn532_tags :: "string list" where
  "pn532_tags = [
     ''Automotive'']"

definition pn532_c_def :: srd_c_decoder where
  "pn532_c_def = \<lparr>cd_id = Some ''pn532_c'', cd_name = Some ''PN532(C)'',
     cd_longname = Some ''PN532 nfc transceiver (C)'', cd_desc = Some ''PN532 chip command decoder. (C implementation)'', cd_license = Some ''gplv2+'',
     cd_channels = None, cd_num_channels = 0,
     cd_optional_channels = None, cd_num_optional_channels = 0,
     cd_options = Some pn532_options, cd_num_options = 4,
     cd_num_annotations = 12, cd_ann_labels = Some pn532_ann_labels,
     cd_num_annotation_rows = 4, cd_annotation_rows = Some pn532_ann_rows,
     cd_inputs = Some pn532_inputs, cd_num_inputs = 1, cd_outputs = Some pn532_outputs, cd_num_outputs = 1,
     cd_binary = None, cd_num_binary = 0, cd_tags = Some pn532_tags, cd_num_tags = 1\<rparr>"

lemma pn532_described: "described pn532_c_def = (True, True, True)"
  by (simp add: described_simps pn532_options_def pn532_ann_labels_def pn532_ann_rows_def pn532_inputs_def pn532_outputs_def pn532_tags_def pn532_c_def_def)

section \<open>ps2_c.c\<close>

definition ps2_options :: "srd_decoder_option list" where
  "ps2_options = [
     \<lparr>opt_id = Some ''HtoD_Clock'', opt_idn = Some ''dec_ps2_opt_HtoD_Clock'', opt_desc = Some ''HtoD_Clock'',
        opt_def = Some (GV_string ''rise''), opt_values = [GV_string ''rise'', GV_string ''fall'']\<rparr>,
     \<lparr>opt_id = Some ''DtoH_Clock'', opt_idn = Some ''dec_ps2_opt_DtoH_Clock'', opt_desc = Some ''DtoH_Clock'',
        opt_def = Some (GV_string ''fall''), opt_values = [GV_string ''fall'', GV_string ''rise'']\<rparr>]"

definition ps2_channels :: "srd_channel list" where
  "ps2_channels = [
     \<lparr>ch_id = Some ''clk'', ch_name = Some ''CLK'', ch_desc = Some ''Clock line'', ch_order = 0, ch_type = 0, ch_idn = Some ''dec_ps2_chan_clk''\<rparr>,
     \<lparr>ch_id = Some ''data'', ch_name = Some ''DATA'', ch_desc = Some ''Data line'', ch_order = 1, ch_type = 1, ch_idn = Some ''dec_ps2_chan_data''\<rparr>]"

definition ps2_ann_labels :: "(string option \<times> string option \<times> string option) list" where
  "ps2_ann_labels = [
     (Some ''207'', Some ''bit'', Some ''Bit''),
     (Some ''109'', Some ''HSTART'', Some ''HSTART''),
     (Some ''50'', Some ''DSTART'', Some ''DSTART''),
     (Some ''1000'', Some ''stop-bit'', Some ''Stop bit''),
     (Some ''7'', Some ''parity-ok'', Some ''Parity OK bit''),
     (Some ''1000'', Some ''parity-err'', Some ''Parity error bit''),
     (Some ''40'', Some ''data-bit'', Some ''Data bit''),
     (Some ''65'', Some ''word'', Some ''Word''),
     (Some ''75'', Some ''ACK'', Some ''ACK''),
     (Some ''90'', Some ''atk-data-point'', Some ''ATK Data point'')]"

definition ps2_ann_rows :: "srd_c_ann_row list" where
  "ps2_ann_rows = [
     \<lparr>car_id = Some ''bits'', car_desc = Some ''Bits'', car_ann_classes = Some [0], car_num_ann_classes = 1\<rparr>,
     \<lparr>car_id = Some ''fields'', car_desc = Some ''Fields'', car_ann_classes = Some [1, 2, 3, 4, 5, 6, 7, 8], car_num_ann_classes = 8\<rparr>,
     \<lparr>car_id = Some ''atk-signs'', car_desc = Some ''ATK signs'', car_ann_classes = Some [9], car_num_ann_classes = 1\<rparr>]"

definition ps2_inputs :: "string list" where
  "ps2_inputs = [
     ''logic'']"

definition ps2_outputs :: "string list" where
  "ps2_outputs = [
     ''ps2'']"

definition ps2_tags :: "string list" where
  "ps2_tags = [
     ''PC'']"

definition ps2_c_def :: srd_c_decoder where
  "ps2_c_def = \<lparr>cd_id = Some ''ps2_c'', cd_name = Some ''PS/2(C)'',
     cd_longname = Some ''PS/2 keyboard/mouse (C)'', cd_desc = Some ''PS/2 keyboard/mouse protocol decoder (C implementation, faster than Python)'', cd_license = Some ''gplv2+'',
     cd_channels = Some ps2_channels, cd_num_channels = 2,
     cd_optional_channels = None, cd_num_optional_channels = 0,
     cd_options = Some ps2_options, cd_num_options = 2,
     cd_num_annotations = 10, cd_ann_labels = Some ps2_ann_labels,
     cd_num_annotation_rows = 3, cd_annotation_rows = Some ps2_ann_rows,
     cd_inputs = Some ps2_inputs, cd_num_inputs = 1, cd_outputs = Some ps2_outputs, cd_num_outputs = 1,
     cd_binary = None, cd_num_binary = 0, cd_tags = Some ps2_tags, cd_num_tags = 1\<rparr>"

lemma ps2_described: "described ps2_c_def = (True, True, True)"
  by (simp add: described_simps ps2_options_def ps2_channels_def ps2_ann_labels_def ps2_ann_rows_def ps2_inputs_def ps2_outputs_def ps2_tags_def ps2_c_def_def)

section \<open>All of them\<close>

definition tables5 :: "srd_c_decoder list" where
  "tables5 = [mipi_dsi_c_def, mipi_rffe_c_def, mlx90614_c_def, modbus_c_def, mpu6050_c_def, mrf24j40_c_def,
     mvb_c_def, mxc6225xu_c_def, nes_gamepad_c_def, nrf24l01_c_def, nrf905_c_def, nrzi_c_def,
     nunchuk_c_def, one_single_wire_c_def, onewire_c_def, onewire_link_c_def, onewire_network_c_def, ook_c_def,
     ook_oregon_c_def, opentherm_c_def, pan1321_c_def, pca9571_c_def, pcfx_ctrlr_c_def, pjdl_c_def,
     pjon_c_def, pn532_c_def, ps2_c_def]"

lemmas tables5_described =
  mipi_dsi_described mipi_rffe_described mlx90614_described modbus_described mpu6050_described mrf24j40_described
  mvb_described mxc6225xu_described nes_gamepad_described nrf24l01_described nrf905_described nrzi_described
  nunchuk_described one_single_wire_described onewire_described onewire_link_described onewire_network_described ook_described
  ook_oregon_described opentherm_described pan1321_described pca9571_described pcfx_ctrlr_described pjdl_described
  pjon_described pn532_described ps2_described

lemma tables5_ids:
  "map cd_id tables5 = [Some ''mipi_dsi_c'', Some ''mipi_rffe_c'', Some ''mlx90614_c'', Some ''modbus_c'', Some ''mpu6050_c'',
     Some ''mrf24j40_c'', Some ''mvb_c'', Some ''mxc6225xu_c'', Some ''nes_gamepad_c'', Some ''nrf24l01_c'',
     Some ''nrf905_c'', Some ''nrzi_c'', Some ''nunchuk_c'', Some ''one_single_wire_c'', Some ''onewire_c'',
     Some ''onewire_link_c'', Some ''onewire_network_c'', Some ''ook_c'', Some ''ook_oregon_c'', Some ''opentherm_c'',
     Some ''pan1321_c'', Some ''pca9571_c'', Some ''pcfx_ctrlr_c'', Some ''pjdl_c'', Some ''pjon_c'',
     Some ''pn532_c'', Some ''ps2_c'']"
  by (simp add: tables5_def
    mipi_dsi_c_def_def mipi_rffe_c_def_def mlx90614_c_def_def modbus_c_def_def mpu6050_c_def_def mrf24j40_c_def_def
    mvb_c_def_def mxc6225xu_c_def_def nes_gamepad_c_def_def nrf24l01_c_def_def nrf905_c_def_def nrzi_c_def_def
    nunchuk_c_def_def one_single_wire_c_def_def onewire_c_def_def onewire_link_c_def_def onewire_network_c_def_def ook_c_def_def
    ook_oregon_c_def_def opentherm_c_def_def pan1321_c_def_def pca9571_c_def_def pcfx_ctrlr_c_def_def pjdl_c_def_def
    pjon_c_def_def pn532_c_def_def ps2_c_def_def)

end
