(* ===== verification/Tables6.thy ===== *)
theory Tables6
  imports Described
begin

text \<open>
  The descriptions of the decoders from ps2_keyboard_c to spacewire_c: the tables in their files, with the option
  defaults and values that \<^verbatim>\<open>srd_c_decoder_entry()\<close> fills in, and their checks. Text outside
  ASCII is given by its bytes.
\<close>

section \<open>ps2_keyboard_c.c\<close>

definition ps2_keyboard_ann_labels :: "(string option \<times> string option \<times> string option) list" where
  "ps2_keyboard_ann_labels = [
     (Some [], Some ''Press'', Some ''Key pressed''),
     (Some [], Some ''Release'', Some ''Key released''),
     (Some [], Some ''Ack'', Some ''Acknowledge'')]"

definition ps2_keyboard_ann_rows :: "srd_c_ann_row list" where
  "ps2_keyboard_ann_rows = [
     \<lparr>car_id = Some ''keys'', car_desc = Some ''Key presses and releases'', car_ann_classes = Some [0, 1, 2], car_num_ann_classes = 3\<rparr>]"

definition ps2_keyboard_binary :: "srd_decoder_binary list" where
  "ps2_keyboard_binary = [
     \<lparr>bin_class = 0, bin_id = Some ''keys'', bin_desc = Some ''Key presses''\<rparr>]"

definition ps2_keyboard_inputs :: "string list" where
  "ps2_keyboard_inputs = [
     ''ps2'']"

definition ps2_keyboard_outputs :: "string list" where
  "ps2_keyboard_outputs = []"

definition ps2_keyboard_tags :: "string list" where
  "ps2_keyboard_tags = [
     ''PC'']"

definition ps2_keyboard_c_def :: srd_c_decoder where
  "ps2_keyboard_c_def = \<lparr>cd_id = Some ''ps2_keyboard_c'', cd_name = Some ''PS/2 Keyboard(C)'',
     cd_longname = Some ''PS/2 Keyboard (C)'', cd_desc = Some ''PS/2 keyboard interface. (C implementation)'', cd_license = Some ''gplv2+'',
     cd_channels = None, cd_num_channels = 0,
     cd_optional_channels = None, cd_num_optional_channels = 0,
     cd_options = None, cd_num_options = 0,
     cd_num_annotations = 3, cd_ann_labels = Some ps2_keyboard_ann_labels,
     cd_num_annotation_rows = 1, cd_annotation_rows = Some ps2_keyboard_ann_rows,
     cd_inputs = Some ps2_keyboard_inputs, cd_num_inputs = 1, cd_outputs = Some ps2_keyboard_outputs, cd_num_outputs = 0,
     cd_binary = Some ps2_keyboard_binary, cd_num_binary = 1, cd_tags = Some ps2_keyboard_tags, cd_num_tags = 1\<rparr>"

lemma ps2_keyboard_described: "described ps2_keyboard_c_def = (True, True, True)"
  by (simp add: described_simps ps2_keyboard_ann_labels_def ps2_keyboard_ann_rows_def ps2_keyboard_binary_def ps2_keyboard_inputs_def ps2_keyboard_outputs_def ps2_keyboard_tags_def ps2_keyboard_c_def_def)

section \<open>ps2_mouse_c.c\<close>

definition ps2_mouse_ann_labels :: "(string option \<times> string option \<times> string option) list" where
  "ps2_mouse_ann_labels = [
     (Some [], Some ''Movement'', Some ''Mouse movement packets'')]"

definition ps2_mouse_ann_rows :: "srd_c_ann_row list" where
  "ps2_mouse_ann_rows = [
     \<lparr>car_id = Some ''mov'', car_desc = Some ''Mouse Movement'', car_ann_classes = Some [0], car_num_ann_classes = 1\<rparr>]"

definition ps2_mouse_binary :: "srd_decoder_binary list" where
  "ps2_mouse_binary = [
     \<lparr>bin_class = 0, bin_id = Some ''bytes'', bin_desc = Some ''Bytes without explanation''\<rparr>,
     \<lparr>bin_class = 1, bin_id = Some ''movement'', bin_desc = Some ''Explanation of mouse movement''\<rparr>]"

definition ps2_mouse_inputs :: "string list" where
  "ps2_mouse_inputs = [
     ''ps2'']"

definition ps2_mouse_outputs :: "string list" where
  "ps2_mouse_outputs = []"

definition ps2_mouse_tags :: "string list" where
  "ps2_mouse_tags = [
     ''PC'']"

definition ps2_mouse_c_def :: srd_c_decoder where
  "ps2_mouse_c_def = \<lparr>cd_id = Some ''ps2_mouse_c'', cd_name = Some ''PS/2 Mouse(C)'',
     cd_longname = Some ''PS/2 Mouse (C)'', cd_desc = Some ''PS/2 mouse interface. (C implementation)'', cd_license = Some ''gplv2+'',
     cd_channels = None, cd_num_channels = 0,
     cd_optional_channels = None, cd_num_optional_channels = 0,
     cd_options = None, cd_num_options = 0,
     cd_num_annotations = 1, cd_ann_labels = Some ps2_mouse_ann_labels,
     cd_num_annotation_rows = 1, cd_annotation_rows = Some ps2_mouse_ann_rows,
     cd_inputs = Some ps2_mouse_inputs, cd_num_inputs = 1, cd_outputs = Some ps2_mouse_outputs, cd_num_outputs = 0,
     cd_binary = Some ps2_mouse_binary, cd_num_binary = 2, cd_tags = Some ps2_mouse_tags, cd_num_tags = 1\<rparr>"

lemma ps2_mouse_described: "described ps2_mouse_c_def = (True, True, True)"
  by (simp add: described_simps ps2_mouse_ann_labels_def ps2_mouse_ann_rows_def ps2_mouse_binary_def ps2_mouse_inputs_def ps2_mouse_outputs_def ps2_mouse_tags_def ps2_mouse_c_def_def)

section \<open>pwm_c.c\<close>

definition pwm_options :: "srd_decoder_option list" where
  "pwm_options = [
     \<lparr>opt_id = Some ''polarity'', opt_idn = Some ''dec_pwm_opt_polarity'', opt_desc = Some ''Polarity'',
        opt_def = Some (GV_string ''active-high''), opt_values = [GV_string ''active-low'', GV_string ''active-high'']\<rparr>]"

definition pwm_channels :: "srd_channel list" where
  "pwm_channels = [
     \<lparr>ch_id = Some ''data'', ch_name = Some ''Data'', ch_desc = Some ''Data line'', ch_order = 0, ch_type = 1, ch_idn = Some ''dec_pwm_chan_data''\<rparr>]"

definition pwm_ann_labels :: "(string option \<times> string option \<times> string option) list" where
  "pwm_ann_labels = [
     (Some [], Some ''duty-cycle'', Some ''Duty cycle''),
     (Some [], Some ''period'', Some ''Period'')]"

definition pwm_ann_rows :: "srd_c_ann_row list" where
  "pwm_ann_rows = [
     \<lparr>car_id = Some ''duty-cycle'', car_desc = Some ''Duty cycle'', car_ann_classes = Some [0], car_num_ann_classes = 1\<rparr>,
     \<lparr>car_id = Some ''period'', car_desc = Some ''Period'', car_ann_classes = Some [1], car_num_ann_classes = 1\<rparr>]"

definition pwm_binary :: "srd_decoder_binary list" where
  "pwm_binary = [
     \<lparr>bin_class = 0, bin_id = Some ''raw'', bin_desc = Some ''RAW file''\<rparr>]"

definition pwm_inputs :: "string list" where
  "pwm_inputs = [
     ''logic'']"

definition pwm_outputs :: "string list" where
  "pwm_outputs = []"

definition pwm_tags :: "string list" where
  "pwm_tags = [
     ''Encoding'']"

definition pwm_c_def :: srd_c_decoder where
  "pwm_c_def = \<lparr>cd_id = Some ''pwm_c'', cd_name = Some ''PWM(C)'',
     cd_longname = Some ''Pulse-width modulation (C)'', cd_desc = Some ''Analog level encoded in duty cycle percentage. (C implementation)'', cd_license = Some ''gplv2+'',
     cd_channels = Some pwm_channels, cd_num_channels = 1,
     cd_optional_channels = None, cd_num_optional_channels = 0,
     cd_options = Some pwm_options, cd_num_options = 1,
     cd_num_annotations = 2, cd_ann_labels = Some pwm_ann_labels,
     cd_num_annotation_rows = 2, cd_annotation_rows = Some pwm_ann_rows,
     cd_inputs = Some pwm_inputs, cd_num_inputs = 1, cd_outputs = Some pwm_outputs, cd_num_outputs = 0,
     cd_binary = Some pwm_binary, cd_num_binary = 1, cd_tags = Some pwm_tags, cd_num_tags = 1\<rparr>"

lemma pwm_described: "described pwm_c_def = (True, True, True)"
  by (simp add: described_simps pwm_options_def pwm_channels_def pwm_ann_labels_def pwm_ann_rows_def pwm_binary_def pwm_inputs_def pwm_outputs_def pwm_tags_def pwm_c_def_def)

section \<open>pxx1_c.c\<close>

definition pxx1_channels :: "srd_channel list" where
  "pxx1_channels = [
     \<lparr>ch_id = Some ''data'', ch_name = Some ''Data'', ch_desc = Some ''Data line'', ch_order = 0, ch_type = 1, ch_idn = Some ''dec_pxx1_chan_data''\<rparr>]"

definition pxx1_ann_labels :: "(string option \<times> string option \<times> string option) list" where
  "pxx1_ann_labels = [
     (Some [], Some ''byte'', Some ''Byte''),
     (Some [], Some ''bit'', Some ''Bit''),
     (Some [], Some ''bit_stuff'', Some ''BitStuff''),
     (Some [], Some ''start_header'', Some ''Start Header''),
     (Some [], Some ''model_id'', Some ''Model ID''),
     (Some [], Some ''type'', Some ''Type''),
     (Some [], Some ''range_check'', Some ''RangeCheck''),
     (Some [], Some ''fail_safe'', Some ''FailSafe''),
     (Some [], Some ''country_code'', Some ''CountryCode''),
     (Some [], Some ''bind'', Some ''Bind''),
     (Some [], Some ''flags2'', Some ''Flags2''),
     (Some [], Some ''channels'', Some ''Channels''),
     (Some [], Some ''reserved'', Some ''Reserved''),
     (Some [], Some ''is_euplus'', Some ''EU-PLUS''),
     (Some [], Some ''disable_sport'', Some ''Disable SPort''),
     (Some [], Some ''power_level'', Some ''Power Level''),
     (Some [], Some ''rx_highchan'', Some ''Receive Hight Channel''),
     (Some [], Some ''telemetry_off'', Some ''Telemetry Off''),
     (Some [], Some ''external_antena'', Some ''ExternalAntena''),
     (Some [], Some ''CRC'', Some ''CRC'')]"

definition pxx1_ann_rows :: "srd_c_ann_row list" where
  "pxx1_ann_rows = [
     \<lparr>car_id = Some ''bytes'', car_desc = Some ''Bytes'', car_ann_classes = Some [0], car_num_ann_classes = 1\<rparr>,
     \<lparr>car_id = Some ''bits'', car_desc = Some ''Bits'', car_ann_classes = Some [1, 2], car_num_ann_classes = 2\<rparr>,
     \<lparr>car_id = Some ''desc'', car_desc = Some ''Description'', car_ann_classes = Some [3, 4, 5, 6, 7, 8, 9, 10, 11, 12, 13, 14, 15, 16, 17, 18, 19], car_num_ann_classes = 17\<rparr>]"

definition pxx1_binary :: "srd_decoder_binary list" where
  "pxx1_binary = [
     \<lparr>bin_class = 0, bin_id = Some ''raw'', bin_desc = Some ''RAW file''\<rparr>]"

definition pxx1_inputs :: "string list" where
  "pxx1_inputs = [
     ''logic'']"

definition pxx1_outputs :: "string list" where
  "pxx1_outputs = []"

definition pxx1_tags :: "string list" where
  "pxx1_tags = [
     ''PXX1'']"

definition pxx1_c_def :: srd_c_decoder where
  "pxx1_c_def = \<lparr>cd_id = Some ''pxx1_c'', cd_name = Some ''PXX1(C)'',
     cd_longname = Some ''PXX1 modulation (C)'', cd_desc = Some ''FrSky PXX1(R9M) Protcol (C implementation)'', cd_license = Some ''gplv2+'',
     cd_channels = Some pxx1_channels, cd_num_channels = 1,
     cd_optional_channels = None, cd_num_optional_channels = 0,
     cd_options = None, cd_num_options = 0,
     cd_num_annotations = 20, cd_ann_labels = Some pxx1_ann_labels,
     cd_num_annotation_rows = 3, cd_annotation_rows = Some pxx1_ann_rows,
     cd_inputs = Some pxx1_inputs, cd_num_inputs = 1, cd_outputs = Some pxx1_outputs, cd_num_outputs = 0,
     cd_binary = Some pxx1_binary, cd_num_binary = 1, cd_tags = Some pxx1_tags, cd_num_tags = 1\<rparr>"

lemma pxx1_described: "described pxx1_c_def = (True, True, True)"
  by (simp add: described_simps pxx1_channels_def pxx1_ann_labels_def pxx1_ann_rows_def pxx1_binary_def pxx1_inputs_def pxx1_outputs_def pxx1_tags_def pxx1_c_def_def)

section \<open>qi_c.c\<close>

definition qi_channels :: "srd_channel list" where
  "qi_channels = [
     \<lparr>ch_id = Some ''qi'', ch_name = Some ''Qi'', ch_desc = Some ''Demodulated Qi data line'', ch_order = 0, ch_type = 1, ch_idn = Some ''dec_qi_chan_qi''\<rparr>]"

definition qi_ann_labels :: "(string option \<times> string option \<times> string option) list" where
  "qi_ann_labels = [
     (Some [], Some ''bits'', Some ''Bits''),
     (Some [], Some ''bytes-errors'', Some ''Bit errors''),
     (Some [], Some ''bytes-start'', Some ''Start bits''),
     (Some [], Some ''bytes-info'', Some ''Info bits''),
     (Some [], Some ''bytes-data'', Some ''Data bytes''),
     (Some [], Some ''packets-data'', Some ''Packet data''),
     (Some [], Some ''packets-checksum-ok'', Some ''Packet checksum''),
     (Some [], Some ''packets-checksum-err'', Some ''Packet checksum'')]"

definition qi_ann_rows :: "srd_c_ann_row list" where
  "qi_ann_rows = [
     \<lparr>car_id = Some ''bits'', car_desc = Some ''Bits'', car_ann_classes = Some [0], car_num_ann_classes = 1\<rparr>,
     \<lparr>car_id = Some ''bytes'', car_desc = Some ''Bytes'', car_ann_classes = Some [1, 2, 3, 4], car_num_ann_classes = 4\<rparr>,
     \<lparr>car_id = Some ''packets'', car_desc = Some ''Packets'', car_ann_classes = Some [5, 6, 7], car_num_ann_classes = 3\<rparr>]"

definition qi_inputs :: "string list" where
  "qi_inputs = [
     ''logic'']"

definition qi_outputs :: "string list" where
  "qi_outputs = []"

definition qi_tags :: "string list" where
  "qi_tags = [
     ''Embedded/industrial'',
     ''Wireless/RF'']"

definition qi_c_def :: srd_c_decoder where
  "qi_c_def = \<lparr>cd_id = Some ''qi_c'', cd_name = Some ''Qi(C)'',
     cd_longname = Some ''Qi charger protocol (C)'', cd_desc = Some ''Protocol used by Qi receiver. (C implementation)'', cd_license = Some ''gplv2+'',
     cd_channels = Some qi_channels, cd_num_channels = 1,
     cd_optional_channels = None, cd_num_optional_channels = 0,
     cd_options = None, cd_num_options = 0,
     cd_num_annotations = 8, cd_ann_labels = Some qi_ann_labels,
     cd_num_annotation_rows = 3, cd_annotation_rows = Some qi_ann_rows,
     cd_inputs = Some qi_inputs, cd_num_inputs = 1, cd_outputs = Some qi_outputs, cd_num_outputs = 0,
     cd_binary = None, cd_num_binary = 0, cd_tags = Some qi_tags, cd_num_tags = 2\<rparr>"

lemma qi_described: "described qi_c_def = (True, True, True)"
  by (simp add: described_simps qi_channels_def qi_ann_labels_def qi_ann_rows_def qi_inputs_def qi_outputs_def qi_tags_def qi_c_def_def)

section \<open>qspi_c.c\<close>

definition qspi_options :: "srd_decoder_option list" where
  "qspi_options = [
     \<lparr>opt_id = Some ''cs_polarity'', opt_idn = None, opt_desc = Some ''CS# polarity'',
        opt_def = Some (GV_string ''active-low''), opt_values = [GV_string ''active-low'', GV_string ''active-high'']\<rparr>,
     \<lparr>opt_id = Some ''cpol'', opt_idn = None, opt_desc = Some ''Clock polarity (CPOL)'',
        opt_def = Some (GV_int64 0), opt_values = []\<rparr>,
     \<lparr>opt_id = Some ''cpha'', opt_idn = None, opt_desc = Some ''Clock phase (CPHA)'',
        opt_def = Some (GV_int64 0), opt_values = []\<rparr>,
     \<lparr>opt_id = Some ''bitorder'', opt_idn = None, opt_desc = Some ''Bit order'',
        opt_def = Some (GV_string ''msb-first''), opt_values = [GV_string ''msb-first'', GV_string ''lsb-first'']\<rparr>,
     \<lparr>opt_id = Some ''ads'', opt_idn = None, opt_desc = Some ''Address Mode'',
        opt_def = Some (GV_string ''24-Bit Address''), opt_values = [GV_string ''32-Bit Address'', GV_string ''24-Bit Address'']\<rparr>,
     \<lparr>opt_id = Some ''frame'', opt_idn = None, opt_desc = Some ''Frame Decoder'',
        opt_def = Some (GV_string ''no''), opt_values = [GV_string ''yes'', GV_string ''no'']\<rparr>,
     \<lparr>opt_id = Some ''twolinesmode'', opt_idn = None, opt_desc = Some ''TwoLinesMode'',
        opt_def = Some (GV_string ''spi''), opt_values = [GV_string ''spi'', GV_string ''dspi'', GV_string ''qspi'']\<rparr>,
     \<lparr>opt_id = Some ''invalidlevel'', opt_idn = None, opt_desc = Some ''Keep high or low as invalid'',
        opt_def = Some (GV_string ''both''), opt_values = [GV_string ''both'', GV_string ''low'', GV_string ''high'']\<rparr>]"

definition qspi_channels :: "srd_channel list" where
  "qspi_channels = [
     \<lparr>ch_id = Some ''clk'', ch_name = Some ''CLK'', ch_desc = Some ''Clock'', ch_order = 0, ch_type = 0, ch_idn = Some ''dec_qspi_chan_clk''\<rparr>,
     \<lparr>ch_id = Some ''io0'', ch_name = Some ''IO0'', ch_desc = Some ''Data i/o 0'', ch_order = 1, ch_type = 1, ch_idn = Some ''dec_qspi_chan_io0''\<rparr>]"

definition qspi_optional_channels :: "srd_channel list" where
  "qspi_optional_channels = [
     \<lparr>ch_id = Some ''io1'', ch_name = Some ''IO1'', ch_desc = Some ''Data i/o 1'', ch_order = 2, ch_type = 1, ch_idn = Some ''dec_qspi_opt_chan_io1''\<rparr>,
     \<lparr>ch_id = Some ''io2'', ch_name = Some ''IO2'', ch_desc = Some ''Data i/o 2'', ch_order = 3, ch_type = 1, ch_idn = Some ''dec_qspi_opt_chan_io2''\<rparr>,
     \<lparr>ch_id = Some ''io3'', ch_name = Some ''IO3'', ch_desc = Some ''Data i/o 3'', ch_order = 4, ch_type = 1, ch_idn = Some ''dec_qspi_opt_chan_io3''\<rparr>,
     \<lparr>ch_id = Some ''cs'', ch_name = Some ''CS#'', ch_desc = Some ''Chip-select'', ch_order = 5, ch_type = -1, ch_idn = Some ''dec_qspi_opt_chan_cs''\<rparr>]"

definition qspi_ann_labels :: "(string option \<times> string option \<times> string option) list" where
  "qspi_ann_labels = [
     (Some [], Some ''data-transfer'', Some ''data transfer''),
     (Some [], Some ''Quad data'', Some ''Q-Data''),
     (Some [], Some ''Dual data'', Some ''D-Data''),
     (Some [], Some ''d0'', Some ''IO0 data''),
     (Some [], Some ''d1'', Some ''IO1 data''),
     (Some [], Some ''d2'', Some ''IO2 data''),
     (Some [], Some ''d3'', Some ''IO3 data''),
     (Some [], Some ''other'', Some ''Human-readable warnings'')]"

definition qspi_ann_rows :: "srd_c_ann_row list" where
  "qspi_ann_rows = [
     \<lparr>car_id = Some ''data-transfer'', car_desc = Some ''data transfer'', car_ann_classes = Some [0], car_num_ann_classes = 1\<rparr>,
     \<lparr>car_id = Some ''Quad data'', car_desc = Some ''Q-Data'', car_ann_classes = Some [1], car_num_ann_classes = 1\<rparr>,
     \<lparr>car_id = Some ''Dual data'', car_desc = Some ''D-Data'', car_ann_classes = Some [2], car_num_ann_classes = 1\<rparr>,
     \<lparr>car_id = Some ''d0'', car_desc = Some ''D0'', car_ann_classes = Some [3], car_num_ann_classes = 1\<rparr>,
     \<lparr>car_id = Some ''d1'', car_desc = Some ''D1'', car_ann_classes = Some [4], car_num_ann_classes = 1\<rparr>,
     \<lparr>car_id = Some ''d2'', car_desc = Some ''D2'', car_ann_classes = Some [5], car_num_ann_classes = 1\<rparr>,
     \<lparr>car_id = Some ''d3'', car_desc = Some ''D3'', car_ann_classes = Some [6], car_num_ann_classes = 1\<rparr>,
     \<lparr>car_id = Some ''Other'', car_desc = Some ''Other'', car_ann_classes = Some [7], car_num_ann_classes = 1\<rparr>]"

definition qspi_inputs :: "string list" where
  "qspi_inputs = [
     ''logic'']"

definition qspi_outputs :: "string list" where
  "qspi_outputs = [
     ''spi'']"

definition qspi_tags :: "string list" where
  "qspi_tags = [
     ''Embedded/industrial'']"

definition qspi_c_def :: srd_c_decoder where
  "qspi_c_def = \<lparr>cd_id = Some ''qspi_c'', cd_name = Some ''Smart QSPI(C)'',
     cd_longname = Some ''Quad Serial Peripheral Interface (C)'', cd_desc = Some ''Full-duplex, synchronous, serial bus. Compatible with Dual SPI and Quad SPI interfaces. (C implementation)'', cd_license = Some ''gplv2+'',
     cd_channels = Some qspi_channels, cd_num_channels = 2,
     cd_optional_channels = Some qspi_optional_channels, cd_num_optional_channels = 4,
     cd_options = Some qspi_options, cd_num_options = 8,
     cd_num_annotations = 8, cd_ann_labels = Some qspi_ann_labels,
     cd_num_annotation_rows = 8, cd_annotation_rows = Some qspi_ann_rows,
     cd_inputs = Some qspi_inputs, cd_num_inputs = 1, cd_outputs = Some qspi_outputs, cd_num_outputs = 1,
     cd_binary = None, cd_num_binary = 0, cd_tags = Some qspi_tags, cd_num_tags = 1\<rparr>"

lemma qspi_described: "described qspi_c_def = (True, True, True)"
  by (simp add: described_simps qspi_options_def qspi_channels_def qspi_optional_channels_def qspi_ann_labels_def qspi_ann_rows_def qspi_inputs_def qspi_outputs_def qspi_tags_def qspi_c_def_def)

section \<open>rc_encode_c.c\<close>

definition rc_encode_options :: "srd_decoder_option list" where
  "rc_encode_options = [
     \<lparr>opt_id = Some ''remote'', opt_idn = Some ''dec_rc_encode_opt_remote'', opt_desc = Some ''Remote'',
        opt_def = Some (GV_string ''none''), opt_values = [GV_string ''none'', GV_string ''maplin_l95ar'']\<rparr>]"

definition rc_encode_channels :: "srd_channel list" where
  "rc_encode_channels = [
     \<lparr>ch_id = Some ''data'', ch_name = Some ''Data'', ch_desc = Some ''Data line'', ch_order = 0, ch_type = 1, ch_idn = Some ''dec_rc_encode_chan_data''\<rparr>]"

definition rc_encode_ann_labels :: "(string option \<times> string option \<times> string option) list" where
  "rc_encode_ann_labels = [
     (Some [], Some ''bit-0'', Some ''Bit 0''),
     (Some [], Some ''bit-1'', Some ''Bit 1''),
     (Some [], Some ''bit-f'', Some ''Bit f''),
     (Some [], Some ''bit-U'', Some ''Bit U''),
     (Some [], Some ''bit-sync'', Some ''Bit sync''),
     (Some [], Some ''pin'', Some ''Pin''),
     (Some [], Some ''code-word-addr'', Some ''Code word address''),
     (Some [], Some ''code-word-data'', Some ''Code word data'')]"

definition rc_encode_ann_rows :: "srd_c_ann_row list" where
  "rc_encode_ann_rows = [
     \<lparr>car_id = Some ''bits'', car_desc = Some ''Bits'', car_ann_classes = Some [0, 1, 2, 3, 4], car_num_ann_classes = 5\<rparr>,
     \<lparr>car_id = Some ''pins'', car_desc = Some ''Pins'', car_ann_classes = Some [5], car_num_ann_classes = 1\<rparr>,
     \<lparr>car_id = Some ''code-words'', car_desc = Some ''Code words'', car_ann_classes = Some [6, 7], car_num_ann_classes = 2\<rparr>]"

definition rc_encode_inputs :: "string list" where
  "rc_encode_inputs = [
     ''logic'']"

definition rc_encode_outputs :: "string list" where
  "rc_encode_outputs = []"

definition rc_encode_tags :: "string list" where
  "rc_encode_tags = [
     ''IC'',
     ''IR'']"

definition rc_encode_c_def :: srd_c_decoder where
  "rc_encode_c_def = \<lparr>cd_id = Some ''rc_encode_c'', cd_name = Some ''RC encode(C)'',
     cd_longname = Some ''Remote control encoder (C)'', cd_desc = Some ''PT2262/HX2262/SC5262 remote control encoder protocol. (C implementation)'', cd_license = Some ''gplv2+'',
     cd_channels = Some rc_encode_channels, cd_num_channels = 1,
     cd_optional_channels = None, cd_num_optional_channels = 0,
     cd_options = Some rc_encode_options, cd_num_options = 1,
     cd_num_annotations = 8, cd_ann_labels = Some rc_encode_ann_labels,
     cd_num_annotation_rows = 3, cd_annotation_rows = Some rc_encode_ann_rows,
     cd_inputs = Some rc_encode_inputs, cd_num_inputs = 1, cd_outputs = Some rc_encode_outputs, cd_num_outputs = 0,
     cd_binary = None, cd_num_binary = 0, cd_tags = Some rc_encode_tags, cd_num_tags = 2\<rparr>"

lemma rc_encode_described: "described rc_encode_c_def = (True, True, True)"
  by (simp add: described_simps rc_encode_options_def rc_encode_channels_def rc_encode_ann_labels_def rc_encode_ann_rows_def rc_encode_inputs_def rc_encode_outputs_def rc_encode_tags_def rc_encode_c_def_def)

section \<open>rfm12_c.c\<close>

definition rfm12_ann_labels :: "(string option \<times> string option \<times> string option) list" where
  "rfm12_ann_labels = [
     (Some [], Some ''cmd'', Some ''Command''),
     (Some [], Some ''params'', Some ''Command parameters''),
     (Some [], Some ''disabled'', Some ''Disabled bits''),
     (Some [], Some ''return'', Some ''Returned values''),
     (Some [], Some ''disabled_return'', Some ''Disabled returned values''),
     (Some [], Some ''interpretation'', Some ''Interpretation'')]"

definition rfm12_ann_rows :: "srd_c_ann_row list" where
  "rfm12_ann_rows = [
     \<lparr>car_id = Some ''commands'', car_desc = Some ''Commands'', car_ann_classes = Some [0, 1, 2], car_num_ann_classes = 3\<rparr>,
     \<lparr>car_id = Some ''return'', car_desc = Some ''Return'', car_ann_classes = Some [3, 4], car_num_ann_classes = 2\<rparr>,
     \<lparr>car_id = Some ''interpretation'', car_desc = Some ''Interpretation'', car_ann_classes = Some [5], car_num_ann_classes = 1\<rparr>]"

definition rfm12_inputs :: "string list" where
  "rfm12_inputs = [
     ''spi'']"

definition rfm12_tags :: "string list" where
  "rfm12_tags = [
     ''Wireless/RF'']"

definition rfm12_c_def :: srd_c_decoder where
  "rfm12_c_def = \<lparr>cd_id = Some ''rfm12_c'', cd_name = Some ''RFM12(C)'',
     cd_longname = Some ''HopeRF RFM12 (C)'', cd_desc = Some ''HopeRF RFM12 wireless transceiver control protocol. (C implementation)'', cd_license = Some ''gplv2+'',
     cd_channels = None, cd_num_channels = 0,
     cd_optional_channels = None, cd_num_optional_channels = 0,
     cd_options = None, cd_num_options = 0,
     cd_num_annotations = 6, cd_ann_labels = Some rfm12_ann_labels,
     cd_num_annotation_rows = 3, cd_annotation_rows = Some rfm12_ann_rows,
     cd_inputs = Some rfm12_inputs, cd_num_inputs = 1, cd_outputs = None, cd_num_outputs = 0,
     cd_binary = None, cd_num_binary = 0, cd_tags = Some rfm12_tags, cd_num_tags = 1\<rparr>"

lemma rfm12_described: "described rfm12_c_def = (True, True, True)"
  by (simp add: described_simps rfm12_ann_labels_def rfm12_ann_rows_def rfm12_inputs_def rfm12_tags_def rfm12_c_def_def)

section \<open>rgb_led_spi_c.c\<close>

definition rgb_led_spi_options :: "srd_decoder_option list" where
  "rgb_led_spi_options = [
     \<lparr>opt_id = Some ''led_type'', opt_idn = Some ''dec_rgb_led_spi_opt_led_type'', opt_desc = Some ''LED strip type (simple/apa102)'',
        opt_def = Some (GV_string ''simple''), opt_values = [GV_string ''simple'', GV_string ''apa102'']\<rparr>]"

definition rgb_led_spi_ann_labels :: "(string option \<times> string option \<times> string option) list" where
  "rgb_led_spi_ann_labels = [
     (Some [], Some ''rgb'', Some ''RGB values''),
     (Some [], Some ''start_frame'', Some ''Start frame''),
     (Some [], Some ''led_frame'', Some ''LED frame''),
     (Some [], Some ''warnings'', Some ''Human-readable warnings'')]"

definition rgb_led_spi_ann_rows :: "srd_c_ann_row list" where
  "rgb_led_spi_ann_rows = [
     \<lparr>car_id = Some ''rgb'', car_desc = Some ''RGB values'', car_ann_classes = Some [0], car_num_ann_classes = 1\<rparr>,
     \<lparr>car_id = Some ''frames'', car_desc = Some ''Frames'', car_ann_classes = Some [1, 2], car_num_ann_classes = 2\<rparr>,
     \<lparr>car_id = Some ''warnings'', car_desc = Some ''Warnings'', car_ann_classes = Some [3], car_num_ann_classes = 1\<rparr>]"

definition rgb_led_spi_inputs :: "string list" where
  "rgb_led_spi_inputs = [
     ''spi'']"

definition rgb_led_spi_tags :: "string list" where
  "rgb_led_spi_tags = [
     ''Display'']"

definition rgb_led_spi_c_def :: srd_c_decoder where
  "rgb_led_spi_c_def = \<lparr>cd_id = Some ''rgb_led_spi_c'', cd_name = Some ''RGB LED SPI(C)'',
     cd_longname = Some ''RGB LED string decoder (SPI) (C)'', cd_desc = Some ''RGB LED string protocol (RGB values clocked over SPI). (C implementation)'', cd_license = Some ''gplv2+'',
     cd_channels = None, cd_num_channels = 0,
     cd_optional_channels = None, cd_num_optional_channels = 0,
     cd_options = Some rgb_led_spi_options, cd_num_options = 1,
     cd_num_annotations = 4, cd_ann_labels = Some rgb_led_spi_ann_labels,
     cd_num_annotation_rows = 3, cd_annotation_rows = Some rgb_led_spi_ann_rows,
     cd_inputs = Some rgb_led_spi_inputs, cd_num_inputs = 1, cd_outputs = None, cd_num_outputs = 0,
     cd_binary = None, cd_num_binary = 0, cd_tags = Some rgb_led_spi_tags, cd_num_tags = 1\<rparr>"

lemma rgb_led_spi_described: "described rgb_led_spi_c_def = (True, True, True)"
  by (simp add: described_simps rgb_led_spi_options_def rgb_led_spi_ann_labels_def rgb_led_spi_ann_rows_def rgb_led_spi_inputs_def rgb_led_spi_tags_def rgb_led_spi_c_def_def)

section \<open>rgb_led_ws281x_c.c\<close>

definition rgb_led_ws281x_options :: "srd_decoder_option list" where
  "rgb_led_ws281x_options = [
     \<lparr>opt_id = Some ''colors'', opt_idn = Some ''dec_rgb_led_ws281x_opt_colors'', opt_desc = Some ''Colors'',
        opt_def = Some (GV_string ''GRB''), opt_values = [GV_string ''GRB'', GV_string ''RGB'', GV_string ''BRG'', GV_string ''RBG'', GV_string ''BGR'', GV_string ''GRBW'', GV_string ''RGBW'', GV_string ''WRGB'', GV_string ''LBGR'', GV_string ''LGRB'', GV_string ''LRGB'', GV_string ''LRBG'', GV_string ''LGBR'', GV_string ''LBRG'']\<rparr>,
     \<lparr>opt_id = Some ''polarity'', opt_idn = Some ''dec_rgb_led_ws281x_opt_polarity'', opt_desc = Some ''Polarity'',
        opt_def = Some (GV_string ''normal''), opt_values = [GV_string ''normal'', GV_string ''inverted'']\<rparr>]"

definition rgb_led_ws281x_channels :: "srd_channel list" where
  "rgb_led_ws281x_channels = [
     \<lparr>ch_id = Some ''din'', ch_name = Some ''DIN'', ch_desc = Some ''DIN data line'', ch_order = 0, ch_type = 1, ch_idn = Some ''dec_rgb_led_ws281x_chan_din''\<rparr>]"

definition rgb_led_ws281x_ann_labels :: "(string option \<times> string option \<times> string option) list" where
  "rgb_led_ws281x_ann_labels = [
     (Some [], Some ''bit'', Some ''Bit''),
     (Some [], Some ''reset'', Some ''RESET''),
     (Some [], Some ''rgb'', Some ''RGB'')]"

definition rgb_led_ws281x_ann_rows :: "srd_c_ann_row list" where
  "rgb_led_ws281x_ann_rows = [
     \<lparr>car_id = Some ''bit'', car_desc = Some ''Bits'', car_ann_classes = Some [0, 1], car_num_ann_classes = 2\<rparr>,
     \<lparr>car_id = Some ''rgb'', car_desc = Some ''RGB'', car_ann_classes = Some [2], car_num_ann_classes = 1\<rparr>]"

definition rgb_led_ws281x_inputs :: "string list" where
  "rgb_led_ws281x_inputs = [
     ''logic'']"

definition rgb_led_ws281x_tags :: "string list" where
  "rgb_led_ws281x_tags = [
     ''Display'',
     ''IC'']"

definition rgb_led_ws281x_c_def :: srd_c_decoder where
  "rgb_led_ws281x_c_def = \<lparr>cd_id = Some ''rgb_led_ws281x_c'', cd_name = Some ''RGB LED WS2812+(C)'',
     cd_longname = Some ''RGB LED color decoder (C)'', cd_desc = Some ''Decodes colors from bus pulses for single wire RGB leds like APA106, WS2811, WS2812, WS2813, SK6812, TM1829, TM1814, and TX1812 (C implementation)'', cd_license = Some ''gplv3+'',
     cd_channels = Some rgb_led_ws281x_channels, cd_num_channels = 1,
     cd_optional_channels = None, cd_num_optional_channels = 0,
     cd_options = Some rgb_led_ws281x_options, cd_num_options = 2,
     cd_num_annotations = 3, cd_ann_labels = Some rgb_led_ws281x_ann_labels,
     cd_num_annotation_rows = 2, cd_annotation_rows = Some rgb_led_ws281x_ann_rows,
     cd_inputs = Some rgb_led_ws281x_inputs, cd_num_inputs = 1, cd_outputs = None, cd_num_outputs = 0,
     cd_binary = None, cd_num_binary = 0, cd_tags = Some rgb_led_ws281x_tags, cd_num_tags = 2\<rparr>"

lemma rgb_led_ws281x_described: "described rgb_led_ws281x_c_def = (True, True, True)"
  by (simp add: described_simps rgb_led_ws281x_options_def rgb_led_ws281x_channels_def rgb_led_ws281x_ann_labels_def rgb_led_ws281x_ann_rows_def rgb_led_ws281x_inputs_def rgb_led_ws281x_tags_def rgb_led_ws281x_c_def_def)

section \<open>rinnai_control_panel_c.c\<close>

definition rinnai_control_panel_options :: "srd_decoder_option list" where
  "rinnai_control_panel_options = [
     \<lparr>opt_id = Some ''invert'', opt_idn = Some ''dec_rinnai_control_panel_opt_invert'', opt_desc = Some ''Invert bits'',
        opt_def = Some (GV_string ''no''), opt_values = [GV_string ''yes'', GV_string ''no'']\<rparr>,
     \<lparr>opt_id = Some ''bit_numbering'', opt_idn = Some ''dec_rinnai_control_panel_opt_bit_numbering'', opt_desc = Some ''Bit numbering, first'',
        opt_def = Some (GV_string ''lsb''), opt_values = [GV_string ''lsb'', GV_string ''msb'']\<rparr>]"

definition rinnai_control_panel_channels :: "srd_channel list" where
  "rinnai_control_panel_channels = [
     \<lparr>ch_id = Some ''data'', ch_name = Some ''Data'', ch_desc = Some ''Pulse length signal line'', ch_order = 0, ch_type = 1, ch_idn = None\<rparr>]"

definition rinnai_control_panel_ann_labels :: "(string option \<times> string option \<times> string option) list" where
  "rinnai_control_panel_ann_labels = [
     (Some [], Some ''bit'', Some ''Bit''),
     (Some [], Some ''warning'', Some ''Warning''),
     (Some [], Some ''reset'', Some ''Reset''),
     (Some [], Some ''byte'', Some ''Byte''),
     (Some [], Some ''packet'', Some ''Packet'')]"

definition rinnai_control_panel_ann_rows :: "srd_c_ann_row list" where
  "rinnai_control_panel_ann_rows = [
     \<lparr>car_id = Some ''bits'', car_desc = Some ''Bits'', car_ann_classes = Some [0, 2], car_num_ann_classes = 2\<rparr>,
     \<lparr>car_id = Some ''warnings'', car_desc = Some ''Warnings'', car_ann_classes = Some [1], car_num_ann_classes = 1\<rparr>,
     \<lparr>car_id = Some ''bytes'', car_desc = Some ''Bytes'', car_ann_classes = Some [3], car_num_ann_classes = 1\<rparr>,
     \<lparr>car_id = Some ''packets'', car_desc = Some ''Packets'', car_ann_classes = Some [4], car_num_ann_classes = 1\<rparr>]"

definition rinnai_control_panel_inputs :: "string list" where
  "rinnai_control_panel_inputs = [
     ''logic'']"

definition rinnai_control_panel_outputs :: "string list" where
  "rinnai_control_panel_outputs = [
     ''rinnai'']"

definition rinnai_control_panel_tags :: "string list" where
  "rinnai_control_panel_tags = [
     ''Embedded/industrial'']"

definition rinnai_control_panel_c_def :: srd_c_decoder where
  "rinnai_control_panel_c_def = \<lparr>cd_id = Some ''rinnai_control_panel_c'', cd_name = Some ''Rinnai Control Panel(C)'',
     cd_longname = Some ''Rinnai control panel internal pulse length encoding protocol (C)'', cd_desc = Some ''Bidirectional, half-duplex, asynchronous serial bus. (C implementation)'', cd_license = Some ''gplv2+'',
     cd_channels = Some rinnai_control_panel_channels, cd_num_channels = 1,
     cd_optional_channels = None, cd_num_optional_channels = 0,
     cd_options = Some rinnai_control_panel_options, cd_num_options = 2,
     cd_num_annotations = 5, cd_ann_labels = Some rinnai_control_panel_ann_labels,
     cd_num_annotation_rows = 4, cd_annotation_rows = Some rinnai_control_panel_ann_rows,
     cd_inputs = Some rinnai_control_panel_inputs, cd_num_inputs = 1, cd_outputs = Some rinnai_control_panel_outputs, cd_num_outputs = 1,
     cd_binary = None, cd_num_binary = 0, cd_tags = Some rinnai_control_panel_tags, cd_num_tags = 1\<rparr>"

lemma rinnai_control_panel_described: "described rinnai_control_panel_c_def = (True, True, True)"
  by (simp add: described_simps rinnai_control_panel_options_def rinnai_control_panel_channels_def rinnai_control_panel_ann_labels_def rinnai_control_panel_ann_rows_def rinnai_control_panel_inputs_def rinnai_control_panel_outputs_def rinnai_control_panel_tags_def rinnai_control_panel_c_def_def)

section \<open>rpm_c.c\<close>

definition rpm_options :: "srd_decoder_option list" where
  "rpm_options = [
     \<lparr>opt_id = Some ''num_pulses'', opt_idn = Some ''dec_rpm_opt_num_pulses'', opt_desc = Some ''Number of pulses per revolution'',
        opt_def = Some (GV_int64 2), opt_values = []\<rparr>,
     \<lparr>opt_id = Some ''edge'', opt_idn = Some ''dec_rpm_opt_edge'', opt_desc = Some ''Edges to check'',
        opt_def = Some (GV_string ''falling''), opt_values = [GV_string ''rising'', GV_string ''falling'']\<rparr>]"

definition rpm_channels :: "srd_channel list" where
  "rpm_channels = [
     \<lparr>ch_id = Some ''data'', ch_name = Some ''Data'', ch_desc = Some ''Data line'', ch_order = 0, ch_type = 1, ch_idn = None\<rparr>]"

definition rpm_ann_labels :: "(string option \<times> string option \<times> string option) list" where
  "rpm_ann_labels = [
     (Some [], Some ''rpm'', Some ''RPM'')]"

definition rpm_ann_rows :: "srd_c_ann_row list" where
  "rpm_ann_rows = [
     \<lparr>car_id = Some ''rpms'', car_desc = Some ''RPM'', car_ann_classes = Some [0], car_num_ann_classes = 1\<rparr>]"

definition rpm_inputs :: "string list" where
  "rpm_inputs = [
     ''logic'']"

definition rpm_outputs :: "string list" where
  "rpm_outputs = []"

definition rpm_tags :: "string list" where
  "rpm_tags = [
     ''Util'']"

definition rpm_c_def :: srd_c_decoder where
  "rpm_c_def = \<lparr>cd_id = Some ''rpm_c'', cd_name = Some ''RPM(C)'',
     cd_longname = Some ''Revolutions per minute (C)'', cd_desc = Some ''Calculate the number of turns in one minute. (C implementation)'', cd_license = Some ''gplv2+'',
     cd_channels = Some rpm_channels, cd_num_channels = 1,
     cd_optional_channels = None, cd_num_optional_channels = 0,
     cd_options = Some rpm_options, cd_num_options = 2,
     cd_num_annotations = 1, cd_ann_labels = Some rpm_ann_labels,
     cd_num_annotation_rows = 1, cd_annotation_rows = Some rpm_ann_rows,
     cd_inputs = Some rpm_inputs, cd_num_inputs = 1, cd_outputs = Some rpm_outputs, cd_num_outputs = 0,
     cd_binary = None, cd_num_binary = 0, cd_tags = Some rpm_tags, cd_num_tags = 1\<rparr>"

lemma rpm_described: "described rpm_c_def = (True, True, True)"
  by (simp add: described_simps rpm_options_def rpm_channels_def rpm_ann_labels_def rpm_ann_rows_def rpm_inputs_def rpm_outputs_def rpm_tags_def rpm_c_def_def)

section \<open>rtc8564_c.c\<close>

definition rtc8564_ann_labels :: "(string option \<times> string option \<times> string option) list" where
  "rtc8564_ann_labels = [
     (Some [], Some ''reg-0x00'', Some ''Register 0x00''),
     (Some [], Some ''reg-0x01'', Some ''Register 0x01''),
     (Some [], Some ''reg-0x02'', Some ''Register 0x02''),
     (Some [], Some ''reg-0x03'', Some ''Register 0x03''),
     (Some [], Some ''reg-0x04'', Some ''Register 0x04''),
     (Some [], Some ''reg-0x05'', Some ''Register 0x05''),
     (Some [], Some ''reg-0x06'', Some ''Register 0x06''),
     (Some [], Some ''reg-0x07'', Some ''Register 0x07''),
     (Some [], Some ''reg-0x08'', Some ''Register 0x08''),
     (Some [], Some ''read'', Some ''Read date/time''),
     (Some [], Some ''write'', Some ''Write date/time''),
     (Some [], Some ''bit-reserved'', Some ''Reserved bit''),
     (Some [], Some ''bit-vl'', Some ''VL bit''),
     (Some [], Some ''bit-century'', Some ''Century bit''),
     (Some [], Some ''reg-read'', Some ''Register read''),
     (Some [], Some ''reg-write'', Some ''Register write'')]"

definition rtc8564_ann_rows :: "srd_c_ann_row list" where
  "rtc8564_ann_rows = [
     \<lparr>car_id = Some ''bits'', car_desc = Some ''Bits'', car_ann_classes = Some [0, 1, 2, 3, 4, 5, 6, 7, 8, 11, 12, 13], car_num_ann_classes = 12\<rparr>,
     \<lparr>car_id = Some ''regs'', car_desc = Some ''Register access'', car_ann_classes = Some [14, 15], car_num_ann_classes = 2\<rparr>,
     \<lparr>car_id = Some ''date-time'', car_desc = Some ''Date/time'', car_ann_classes = Some [9, 10], car_num_ann_classes = 2\<rparr>]"

definition rtc8564_inputs :: "string list" where
  "rtc8564_inputs = [
     ''i2c'']"

definition rtc8564_tags :: "string list" where
  "rtc8564_tags = [
     ''Clock/timing'']"

definition rtc8564_c_def :: srd_c_decoder where
  "rtc8564_c_def = \<lparr>cd_id = Some ''rtc8564_c'', cd_name = Some ''RTC-8564(C)'',
     cd_longname = Some ''Epson RTC-8564 JE/NB'', cd_desc = Some ''Epson RTC-8564 JE/NB realtime clock module protocol.'', cd_license = Some ''gplv2+'',
     cd_channels = None, cd_num_channels = 0,
     cd_optional_channels = None, cd_num_optional_channels = 0,
     cd_options = None, cd_num_options = 0,
     cd_num_annotations = 16, cd_ann_labels = Some rtc8564_ann_labels,
     cd_num_annotation_rows = 3, cd_annotation_rows = Some rtc8564_ann_rows,
     cd_inputs = Some rtc8564_inputs, cd_num_inputs = 1, cd_outputs = None, cd_num_outputs = 0,
     cd_binary = None, cd_num_binary = 0, cd_tags = Some rtc8564_tags, cd_num_tags = 1\<rparr>"

lemma rtc8564_described: "described rtc8564_c_def = (True, True, True)"
  by (simp add: described_simps rtc8564_ann_labels_def rtc8564_ann_rows_def rtc8564_inputs_def rtc8564_tags_def rtc8564_c_def_def)

section \<open>rvswd_c.c\<close>

definition rvswd_channels :: "srd_channel list" where
  "rvswd_channels = [
     \<lparr>ch_id = Some ''clk'', ch_name = Some ''CLK'', ch_desc = Some ''Serial clock line'', ch_order = 0, ch_type = 0, ch_idn = None\<rparr>,
     \<lparr>ch_id = Some ''dio'', ch_name = Some ''DIO'', ch_desc = Some ''Serial data line'', ch_order = 1, ch_type = 1, ch_idn = None\<rparr>]"

definition rvswd_ann_labels :: "(string option \<times> string option \<times> string option) list" where
  "rvswd_ann_labels = [
     (Some [], Some ''Start condition'', Some ''START''),
     (Some [], Some ''Stop condition'', Some ''STOP''),
     (Some [], Some ''Address host'', Some ''ADDR HOST''),
     (Some [], Some ''Address target'', Some ''ADDR TARGET''),
     (Some [], Some ''Data host'', Some ''DATA HOST''),
     (Some [], Some ''Data target'', Some ''DATA TARGET''),
     (Some [], Some ''Parity host'', Some ''PARITY HOST''),
     (Some [], Some ''Parity target'', Some ''PARITY TARGET''),
     (Some [], Some ''Operation'', Some ''OPERATION''),
     (Some [], Some ''Status'', Some ''STATUS''),
     (Some [], Some ''Bit'', Some ''BIT'')]"

definition rvswd_ann_rows :: "srd_c_ann_row list" where
  "rvswd_ann_rows = [
     \<lparr>car_id = Some ''addr-data'', car_desc = Some ''Address/data'', car_ann_classes = Some [0, 1, 2, 3, 4, 5, 6, 7, 8, 9], car_num_ann_classes = 10\<rparr>,
     \<lparr>car_id = Some ''bits'', car_desc = Some ''Bits'', car_ann_classes = Some [10], car_num_ann_classes = 1\<rparr>]"

definition rvswd_inputs :: "string list" where
  "rvswd_inputs = [
     ''logic'']"

definition rvswd_tags :: "string list" where
  "rvswd_tags = [
     ''Debug/trace'']"

definition rvswd_c_def :: srd_c_decoder where
  "rvswd_c_def = \<lparr>cd_id = Some ''rvswd_c'', cd_name = Some ''RVSWD(C)'',
     cd_longname = Some ''RISC-V Serial Wire Debug (WCH) (C)'', cd_desc = Some ''WCH RISC-V Serial Wire Debug protocol.'', cd_license = Some ''gplv2+'',
     cd_channels = Some rvswd_channels, cd_num_channels = 2,
     cd_optional_channels = None, cd_num_optional_channels = 0,
     cd_options = None, cd_num_options = 0,
     cd_num_annotations = 11, cd_ann_labels = Some rvswd_ann_labels,
     cd_num_annotation_rows = 2, cd_annotation_rows = Some rvswd_ann_rows,
     cd_inputs = Some rvswd_inputs, cd_num_inputs = 1, cd_outputs = None, cd_num_outputs = 0,
     cd_binary = None, cd_num_binary = 0, cd_tags = Some rvswd_tags, cd_num_tags = 1\<rparr>"

lemma rvswd_described: "described rvswd_c_def = (True, True, True)"
  by (simp add: described_simps rvswd_channels_def rvswd_ann_labels_def rvswd_ann_rows_def rvswd_inputs_def rvswd_tags_def rvswd_c_def_def)

section \<open>sae_j1850_vpw_c.c\<close>

definition sae_j1850_vpw_channels :: "srd_channel list" where
  "sae_j1850_vpw_channels = [
     \<lparr>ch_id = Some ''data'', ch_name = Some ''Data'', ch_desc = Some ''Data line'', ch_order = 0, ch_type = 1, ch_idn = None\<rparr>]"

definition sae_j1850_vpw_ann_labels :: "(string option \<times> string option \<times> string option) list" where
  "sae_j1850_vpw_ann_labels = [
     (Some [], Some ''raw'', Some ''Raw''),
     (Some [], Some ''sof'', Some ''SOF''),
     (Some [], Some ''ifs'', Some ''EOF/IFS''),
     (Some [], Some ''data'', Some ''Data''),
     (Some [], Some ''packet'', Some ''Packet'')]"

definition sae_j1850_vpw_ann_rows :: "srd_c_ann_row list" where
  "sae_j1850_vpw_ann_rows = [
     \<lparr>car_id = Some ''raws'', car_desc = Some ''Raws'', car_ann_classes = Some [0, 1, 2], car_num_ann_classes = 3\<rparr>,
     \<lparr>car_id = Some ''bytes'', car_desc = Some ''Bytes'', car_ann_classes = Some [3], car_num_ann_classes = 1\<rparr>,
     \<lparr>car_id = Some ''packets'', car_desc = Some ''Packets'', car_ann_classes = Some [4], car_num_ann_classes = 1\<rparr>]"

definition sae_j1850_vpw_inputs :: "string list" where
  "sae_j1850_vpw_inputs = [
     ''logic'']"

definition sae_j1850_vpw_outputs :: "string list" where
  "sae_j1850_vpw_outputs = []"

definition sae_j1850_vpw_tags :: "string list" where
  "sae_j1850_vpw_tags = [
     ''Automotive'']"

definition sae_j1850_vpw_c_def :: srd_c_decoder where
  "sae_j1850_vpw_c_def = \<lparr>cd_id = Some ''sae_j1850_vpw_c'', cd_name = Some ''SAE J1850 VPW(C)'',
     cd_longname = Some ''SAE J1850 VPW. (C)'', cd_desc = Some ''SAE J1850 Variable Pulse Width 1x and 4x. (C implementation)'', cd_license = Some ''gplv2+'',
     cd_channels = Some sae_j1850_vpw_channels, cd_num_channels = 1,
     cd_optional_channels = None, cd_num_optional_channels = 0,
     cd_options = None, cd_num_options = 0,
     cd_num_annotations = 5, cd_ann_labels = Some sae_j1850_vpw_ann_labels,
     cd_num_annotation_rows = 3, cd_annotation_rows = Some sae_j1850_vpw_ann_rows,
     cd_inputs = Some sae_j1850_vpw_inputs, cd_num_inputs = 1, cd_outputs = Some sae_j1850_vpw_outputs, cd_num_outputs = 0,
     cd_binary = None, cd_num_binary = 0, cd_tags = Some sae_j1850_vpw_tags, cd_num_tags = 1\<rparr>"

lemma sae_j1850_vpw_described: "described sae_j1850_vpw_c_def = (True, True, True)"
  by (simp add: described_simps sae_j1850_vpw_channels_def sae_j1850_vpw_ann_labels_def sae_j1850_vpw_ann_rows_def sae_j1850_vpw_inputs_def sae_j1850_vpw_outputs_def sae_j1850_vpw_tags_def sae_j1850_vpw_c_def_def)

section \<open>sbus_futaba_c.c\<close>

definition sbus_futaba_options :: "srd_decoder_option list" where
  "sbus_futaba_options = [
     \<lparr>opt_id = Some ''prop_val_min'', opt_idn = Some ''dec_sbus_futaba_opt_prop_val_min'', opt_desc = Some ''Proportional value lower boundary'',
        opt_def = Some (GV_int64 0), opt_values = []\<rparr>,
     \<lparr>opt_id = Some ''prop_val_max'', opt_idn = Some ''dec_sbus_futaba_opt_prop_val_max'', opt_desc = Some ''Proportional value upper boundary'',
        opt_def = Some (GV_int64 2047), opt_values = []\<rparr>]"

definition sbus_futaba_ann_labels :: "(string option \<times> string option \<times> string option) list" where
  "sbus_futaba_ann_labels = [
     (Some [], Some ''header'', Some ''Header''),
     (Some [], Some ''proportional'', Some ''Proportional''),
     (Some [], Some ''digital'', Some ''Digital''),
     (Some [], Some ''framelost'', Some ''Frame Lost''),
     (Some [], Some ''failsafe'', Some ''Failsafe''),
     (Some [], Some ''footer'', Some ''Footer''),
     (Some [], Some ''warning'', Some ''Warning'')]"

definition sbus_futaba_ann_rows :: "srd_c_ann_row list" where
  "sbus_futaba_ann_rows = [
     \<lparr>car_id = Some ''framing'', car_desc = Some ''Framing'', car_ann_classes = Some [0, 5, 3, 4], car_num_ann_classes = 4\<rparr>,
     \<lparr>car_id = Some ''channels'', car_desc = Some ''Channels'', car_ann_classes = Some [1, 2], car_num_ann_classes = 2\<rparr>,
     \<lparr>car_id = Some ''warnings'', car_desc = Some ''Warnings'', car_ann_classes = Some [6], car_num_ann_classes = 1\<rparr>]"

definition sbus_futaba_inputs :: "string list" where
  "sbus_futaba_inputs = [
     ''uart'']"

definition sbus_futaba_outputs :: "string list" where
  "sbus_futaba_outputs = [
     ''sbus_futaba'']"

definition sbus_futaba_tags :: "string list" where
  "sbus_futaba_tags = [
     ''Remote Control'']"

definition sbus_futaba_c_def :: srd_c_decoder where
  "sbus_futaba_c_def = \<lparr>cd_id = Some ''sbus_futaba_c'', cd_name = Some ''SBUS(C)'',
     cd_longname = Some ''Futaba SBUS Serial Bus (C)'', cd_desc = Some ''Serial bus for hobby remote control by Futaba (C implementation)'', cd_license = Some ''gplv2+'',
     cd_channels = None, cd_num_channels = 0,
     cd_optional_channels = None, cd_num_optional_channels = 0,
     cd_options = Some sbus_futaba_options, cd_num_options = 2,
     cd_num_annotations = 7, cd_ann_labels = Some sbus_futaba_ann_labels,
     cd_num_annotation_rows = 3, cd_annotation_rows = Some sbus_futaba_ann_rows,
     cd_inputs = Some sbus_futaba_inputs, cd_num_inputs = 1, cd_outputs = Some sbus_futaba_outputs, cd_num_outputs = 1,
     cd_binary = None, cd_num_binary = 0, cd_tags = Some sbus_futaba_tags, cd_num_tags = 1\<rparr>"

lemma sbus_futaba_described: "described sbus_futaba_c_def = (True, True, True)"
  by (simp add: described_simps sbus_futaba_options_def sbus_futaba_ann_labels_def sbus_futaba_ann_rows_def sbus_futaba_inputs_def sbus_futaba_outputs_def sbus_futaba_tags_def sbus_futaba_c_def_def)

section \<open>scs_c.c\<close>

definition scs_ann_labels :: "(string option \<times> string option \<times> string option) list" where
  "scs_ann_labels = [
     (Some [], Some ''scs'', Some ''SCS'')]"

definition scs_ann_rows :: "srd_c_ann_row list" where
  "scs_ann_rows = [
     \<lparr>car_id = Some ''scs'', car_desc = Some ''SCS'', car_ann_classes = Some [0], car_num_ann_classes = 1\<rparr>]"

definition scs_inputs :: "string list" where
  "scs_inputs = [
     ''uart'']"

definition scs_tags :: "string list" where
  "scs_tags = [
     ''Embedded/industrial'',
     ''Networking'']"

definition scs_c_def :: srd_c_decoder where
  "scs_c_def = \<lparr>cd_id = Some ''scs_c'', cd_name = Some ''SCS(C)'',
     cd_longname = Some ''Sistema Cablaggio Semplificato (C)'', cd_desc = Some ''Fieldbus network protocol for home automation (C implementation)'', cd_license = Some ''gplv2+'',
     cd_channels = None, cd_num_channels = 0,
     cd_optional_channels = None, cd_num_optional_channels = 0,
     cd_options = None, cd_num_options = 0,
     cd_num_annotations = 1, cd_ann_labels = Some scs_ann_labels,
     cd_num_annotation_rows = 1, cd_annotation_rows = Some scs_ann_rows,
     cd_inputs = Some scs_inputs, cd_num_inputs = 1, cd_outputs = None, cd_num_outputs = 0,
     cd_binary = None, cd_num_binary = 0, cd_tags = Some scs_tags, cd_num_tags = 2\<rparr>"

lemma scs_described: "described scs_c_def = (True, True, True)"
  by (simp add: described_simps scs_ann_labels_def scs_ann_rows_def scs_inputs_def scs_tags_def scs_c_def_def)

section \<open>sda2506_c.c\<close>

definition sda2506_channels :: "srd_channel list" where
  "sda2506_channels = [
     \<lparr>ch_id = Some ''clk'', ch_name = Some ''CLK'', ch_desc = Some ''Clock'', ch_order = 0, ch_type = 0, ch_idn = Some ''dec_sda2506_chan_clk''\<rparr>,
     \<lparr>ch_id = Some ''d'', ch_name = Some ''DATA'', ch_desc = Some ''Data'', ch_order = 1, ch_type = 1, ch_idn = Some ''dec_sda2506_chan_d''\<rparr>,
     \<lparr>ch_id = Some ''ce'', ch_name = Some ''CE#'', ch_desc = Some ''Chip-enable'', ch_order = 2, ch_type = -1, ch_idn = Some ''dec_sda2506_chan_ce''\<rparr>]"

definition sda2506_ann_labels :: "(string option \<times> string option \<times> string option) list" where
  "sda2506_ann_labels = [
     (Some [], Some ''cmdbit'', Some ''Command bit''),
     (Some [], Some ''databit'', Some ''Data bit''),
     (Some [], Some ''cmd'', Some ''Command''),
     (Some [], Some ''data'', Some ''Data byte''),
     (Some [], Some ''warnings'', Some ''Human-readable warnings'')]"

definition sda2506_ann_rows :: "srd_c_ann_row list" where
  "sda2506_ann_rows = [
     \<lparr>car_id = Some ''bits'', car_desc = Some ''Bits'', car_ann_classes = Some [0, 1], car_num_ann_classes = 2\<rparr>,
     \<lparr>car_id = Some ''commands'', car_desc = Some ''Commands'', car_ann_classes = Some [2], car_num_ann_classes = 1\<rparr>,
     \<lparr>car_id = Some ''data'', car_desc = Some ''Data'', car_ann_classes = Some [3], car_num_ann_classes = 1\<rparr>,
     \<lparr>car_id = Some ''warnings'', car_desc = Some ''Warnings'', car_ann_classes = Some [4], car_num_ann_classes = 1\<rparr>]"

definition sda2506_inputs :: "string list" where
  "sda2506_inputs = [
     ''logic'']"

definition sda2506_tags :: "string list" where
  "sda2506_tags = [
     ''IC'',
     ''Memory'']"

definition sda2506_c_def :: srd_c_decoder where
  "sda2506_c_def = \<lparr>cd_id = Some ''sda2506_c'', cd_name = Some ''SDA2506(C)'',
     cd_longname = Some ''Siemens SDA 2506-5 (C)'', cd_desc = Some ''Serial nonvolatile 1-Kbit EEPROM. (C implementation)'', cd_license = Some ''gplv2+'',
     cd_channels = Some sda2506_channels, cd_num_channels = 3,
     cd_optional_channels = None, cd_num_optional_channels = 0,
     cd_options = None, cd_num_options = 0,
     cd_num_annotations = 5, cd_ann_labels = Some sda2506_ann_labels,
     cd_num_annotation_rows = 4, cd_annotation_rows = Some sda2506_ann_rows,
     cd_inputs = Some sda2506_inputs, cd_num_inputs = 1, cd_outputs = None, cd_num_outputs = 0,
     cd_binary = None, cd_num_binary = 0, cd_tags = Some sda2506_tags, cd_num_tags = 2\<rparr>"

lemma sda2506_described: "described sda2506_c_def = (True, True, True)"
  by (simp add: described_simps sda2506_channels_def sda2506_ann_labels_def sda2506_ann_rows_def sda2506_inputs_def sda2506_tags_def sda2506_c_def_def)

section \<open>sdq_c.c\<close>

definition sdq_options :: "srd_decoder_option list" where
  "sdq_options = [
     \<lparr>opt_id = Some ''bitrate'', opt_idn = Some ''dec_sdq_opt_bitrate'', opt_desc = Some ''Bit rate'',
        opt_def = Some (GV_int64 98425), opt_values = []\<rparr>]"

definition sdq_channels :: "srd_channel list" where
  "sdq_channels = [
     \<lparr>ch_id = Some ''sdq'', ch_name = Some ''SDQ'', ch_desc = Some ''Single wire SDQ data line.'', ch_order = 0, ch_type = 1, ch_idn = Some ''dec_sdq_chan_sdq''\<rparr>]"

definition sdq_ann_labels :: "(string option \<times> string option \<times> string option) list" where
  "sdq_ann_labels = [
     (Some [], Some ''bit'', Some ''Bit''),
     (Some [], Some ''byte'', Some ''Byte''),
     (Some [], Some ''break'', Some ''Break'')]"

definition sdq_ann_rows :: "srd_c_ann_row list" where
  "sdq_ann_rows = [
     \<lparr>car_id = Some ''bits'', car_desc = Some ''Bits'', car_ann_classes = Some [0], car_num_ann_classes = 1\<rparr>,
     \<lparr>car_id = Some ''bytes'', car_desc = Some ''Bytes'', car_ann_classes = Some [1], car_num_ann_classes = 1\<rparr>,
     \<lparr>car_id = Some ''breaks'', car_desc = Some ''Breaks'', car_ann_classes = Some [2], car_num_ann_classes = 1\<rparr>]"

definition sdq_inputs :: "string list" where
  "sdq_inputs = [
     ''logic'']"

definition sdq_outputs :: "string list" where
  "sdq_outputs = []"

definition sdq_tags :: "string list" where
  "sdq_tags = [
     ''Embedded/industrial'']"

definition sdq_c_def :: srd_c_decoder where
  "sdq_c_def = \<lparr>cd_id = Some ''sdq_c'', cd_name = Some ''SDQ(C)'',
     cd_longname = Some ''Texas Instruments SDQ (C)'', cd_desc = Some ''Texas Instruments SDQ. The SDQ protocol is also used by Apple. (C implementation)'', cd_license = Some ''gplv2+'',
     cd_channels = Some sdq_channels, cd_num_channels = 1,
     cd_optional_channels = None, cd_num_optional_channels = 0,
     cd_options = Some sdq_options, cd_num_options = 1,
     cd_num_annotations = 3, cd_ann_labels = Some sdq_ann_labels,
     cd_num_annotation_rows = 3, cd_annotation_rows = Some sdq_ann_rows,
     cd_inputs = Some sdq_inputs, cd_num_inputs = 1, cd_outputs = Some sdq_outputs, cd_num_outputs = 0,
     cd_binary = None, cd_num_binary = 0, cd_tags = Some sdq_tags, cd_num_tags = 1\<rparr>"

lemma sdq_described: "described sdq_c_def = (True, True, True)"
  by (simp add: described_simps sdq_options_def sdq_channels_def sdq_ann_labels_def sdq_ann_rows_def sdq_inputs_def sdq_outputs_def sdq_tags_def sdq_c_def_def)

section \<open>sent_c.c\<close>

definition sent_options :: "srd_decoder_option list" where
  "sent_options = [
     \<lparr>opt_id = Some ''dataSize'', opt_idn = Some ''dec_sent_opt_datasize'', opt_desc = Some ''Number of data nibbles'',
        opt_def = Some (GV_int64 6), opt_values = [GV_int64 1, GV_int64 2, GV_int64 3, GV_int64 4, GV_int64 5, GV_int64 6, GV_int64 7, GV_int64 8]\<rparr>,
     \<lparr>opt_id = Some ''tickPer'', opt_idn = Some ''dec_sent_opt_tickper'', opt_desc = Some ''Clock period (us)'',
        opt_def = Some (GV_int64 3), opt_values = [GV_int64 2, GV_int64 3, GV_int64 4, GV_int64 5, GV_int64 6, GV_int64 7, GV_int64 8, GV_int64 9, GV_int64 10, GV_int64 11, GV_int64 12, GV_int64 13, GV_int64 14, GV_int64 15, GV_int64 16, GV_int64 17, GV_int64 18, GV_int64 19, GV_int64 20, GV_int64 21, GV_int64 22, GV_int64 23, GV_int64 24, GV_int64 25, GV_int64 26, GV_int64 27, GV_int64 28, GV_int64 29, GV_int64 30, GV_int64 31, GV_int64 32, GV_int64 33, GV_int64 34, GV_int64 35, GV_int64 36, GV_int64 37, GV_int64 38, GV_int64 39, GV_int64 40, GV_int64 41, GV_int64 42, GV_int64 43, GV_int64 44, GV_int64 45, GV_int64 46, GV_int64 47, GV_int64 48, GV_int64 49, GV_int64 50, GV_int64 51, GV_int64 52, GV_int64 53, GV_int64 54, GV_int64 55, GV_int64 56, GV_int64 57, GV_int64 58, GV_int64 59, GV_int64 60, GV_int64 61, GV_int64 62, GV_int64 63, GV_int64 64, GV_int64 65, GV_int64 66, GV_int64 67, GV_int64 68, GV_int64 69, GV_int64 70, GV_int64 71, GV_int64 72, GV_int64 73, GV_int64 74, GV_int64 75, GV_int64 76, GV_int64 77, GV_int64 78, GV_int64 79, GV_int64 80, GV_int64 81, GV_int64 82, GV_int64 83, GV_int64 84, GV_int64 85, GV_int64 86, GV_int64 87, GV_int64 88, GV_int64 89, GV_int64 90, GV_int64 91, GV_int64 92, GV_int64 93, GV_int64 94, GV_int64 95, GV_int64 96, GV_int64 97, GV_int64 98, GV_int64 99, GV_int64 100]\<rparr>,
     \<lparr>opt_id = Some ''tickTol'', opt_idn = Some ''dec_sent_opt_ticktol'', opt_desc = Some ''Tick tolerance (%)'',
        opt_def = Some (GV_int64 5), opt_values = [GV_int64 0, GV_int64 1, GV_int64 2, GV_int64 3, GV_int64 4, GV_int64 5, GV_int64 6, GV_int64 7, GV_int64 8, GV_int64 9, GV_int64 10, GV_int64 11, GV_int64 12, GV_int64 13, GV_int64 14, GV_int64 15, GV_int64 16, GV_int64 17, GV_int64 18, GV_int64 19, GV_int64 20]\<rparr>,
     \<lparr>opt_id = Some ''pausePulse'', opt_idn = Some ''dec_sent_opt_pausepulse'', opt_desc = Some ''Pause Pulse'',
        opt_def = Some (GV_string ''on''), opt_values = [GV_string ''off'', GV_string ''on'']\<rparr>,
     \<lparr>opt_id = Some ''crcMode'', opt_idn = Some ''dec_sent_opt_crcmode'', opt_desc = Some ''CRC Mode'',
        opt_def = Some (GV_string ''recommended''), opt_values = [GV_string ''legacy'', GV_string ''recommended'']\<rparr>,
     \<lparr>opt_id = Some ''serialMode'', opt_idn = Some ''dec_sent_opt_serialmode'', opt_desc = Some ''Serial Decoding'',
        opt_def = Some (GV_string ''off''), opt_values = [GV_string ''short'', GV_string ''enhanced'', GV_string ''off'']\<rparr>]"

definition sent_channels :: "srd_channel list" where
  "sent_channels = [
     \<lparr>ch_id = Some ''data'', ch_name = Some ''data'', ch_desc = Some ''Nibble Data'', ch_order = 0, ch_type = 1, ch_idn = Some ''dec_sent_chan_data''\<rparr>]"

definition sent_ann_labels :: "(string option \<times> string option \<times> string option) list" where
  "sent_ann_labels = [
     (Some [], Some ''Pulse length'', Some ''Pulse''),
     (Some [], Some ''Calibration Pulse'', Some ''CAL''),
     (Some [], Some ''Status&Comm Nibble'', Some ''SC''),
     (Some [], Some ''Nibble Data'', Some ''Data''),
     (Some [], Some ''CRC Nibble'', Some ''CRC''),
     (Some [], Some ''Pause Pulse'', Some ''Pause''),
     (Some [], Some ''Start of Frame'', Some ''Start''),
     (Some [], Some ''Serial Data'', Some ''SerData''),
     (Some [], Some ''Serial ID'', Some ''SerID''),
     (Some [], Some ''Serial Config'', Some ''SerCfg''),
     (Some [], Some ''Serial Frame Bit'', Some ''SerFrame''),
     (Some [], Some ''Serial Sync Bit'', Some ''SerSync''),
     (Some [], Some ''Serial CRC'', Some ''SerCRC''),
     (Some [], Some ''Warning'', Some ''Warn'')]"

definition sent_ann_rows :: "srd_c_ann_row list" where
  "sent_ann_rows = [
     \<lparr>car_id = Some ''sent'', car_desc = Some ''SENT fast messages'', car_ann_classes = Some [1, 2, 3, 4, 5], car_num_ann_classes = 5\<rparr>,
     \<lparr>car_id = Some ''pulses'', car_desc = Some ''Pulse lengths'', car_ann_classes = Some [0], car_num_ann_classes = 1\<rparr>,
     \<lparr>car_id = Some ''serial'', car_desc = Some ''SENT slow messages'', car_ann_classes = Some [6, 7, 12], car_num_ann_classes = 3\<rparr>,
     \<lparr>car_id = Some ''serialID'', car_desc = Some ''Enhanced slow message IDs'', car_ann_classes = Some [8, 9, 10, 11], car_num_ann_classes = 4\<rparr>,
     \<lparr>car_id = Some ''warnings'', car_desc = Some ''Warnings'', car_ann_classes = Some [13], car_num_ann_classes = 1\<rparr>]"

definition sent_inputs :: "string list" where
  "sent_inputs = [
     ''logic'']"

definition sent_outputs :: "string list" where
  "sent_outputs = [
     ''sent'']"

definition sent_tags :: "string list" where
  "sent_tags = [
     ''Embedded/automotive'']"

definition sent_c_def :: srd_c_decoder where
  "sent_c_def = \<lparr>cd_id = Some ''sent_c'', cd_name = Some ''SENT(C)'',
     cd_longname = Some ''Single Edge Nibble Transmission(C)'', cd_desc = Some ''Single line, one-directional, nibble based protocol.(C implementation)'', cd_license = Some ''gplv2+'',
     cd_channels = Some sent_channels, cd_num_channels = 1,
     cd_optional_channels = None, cd_num_optional_channels = 0,
     cd_options = Some sent_options, cd_num_options = 6,
     cd_num_annotations = 14, cd_ann_labels = Some sent_ann_labels,
     cd_num_annotation_rows = 5, cd_annotation_rows = Some sent_ann_rows,
     cd_inputs = Some sent_inputs, cd_num_inputs = 1, cd_outputs = Some sent_outputs, cd_num_outputs = 1,
     cd_binary = None, cd_num_binary = 0, cd_tags = Some sent_tags, cd_num_tags = 1\<rparr>"

lemma sent_described: "described sent_c_def = (True, True, True)"
  by (simp add: described_simps sent_options_def sent_channels_def sent_ann_labels_def sent_ann_rows_def sent_inputs_def sent_outputs_def sent_tags_def sent_c_def_def)

section \<open>seven_segment_c.c\<close>

definition seven_segment_options :: "srd_decoder_option list" where
  "seven_segment_options = [
     \<lparr>opt_id = Some ''polarity'', opt_idn = Some ''dec_seven_segment_opt_polarity'', opt_desc = Some ''Expected polarity'',
        opt_def = Some (GV_string ''common-cathode''), opt_values = [GV_string ''common-cathode'', GV_string ''common-anode'']\<rparr>]"

definition seven_segment_channels :: "srd_channel list" where
  "seven_segment_channels = [
     \<lparr>ch_id = Some ''a'', ch_name = Some ''A'', ch_desc = Some ''Segment A'', ch_order = 0, ch_type = 1, ch_idn = Some ''dec_seven_segment_chan_A''\<rparr>,
     \<lparr>ch_id = Some ''b'', ch_name = Some ''B'', ch_desc = Some ''Segment B'', ch_order = 1, ch_type = 1, ch_idn = Some ''dec_seven_segment_chan_B''\<rparr>,
     \<lparr>ch_id = Some ''c'', ch_name = Some ''C'', ch_desc = Some ''Segment C'', ch_order = 2, ch_type = 1, ch_idn = Some ''dec_seven_segment_chan_C''\<rparr>,
     \<lparr>ch_id = Some ''d'', ch_name = Some ''D'', ch_desc = Some ''Segment D'', ch_order = 3, ch_type = 1, ch_idn = Some ''dec_seven_segment_chan_D''\<rparr>,
     \<lparr>ch_id = Some ''e'', ch_name = Some ''E'', ch_desc = Some ''Segment E'', ch_order = 4, ch_type = 1, ch_idn = Some ''dec_seven_segment_chan_E''\<rparr>,
     \<lparr>ch_id = Some ''f'', ch_name = Some ''F'', ch_desc = Some ''Segment F'', ch_order = 5, ch_type = 1, ch_idn = Some ''dec_seven_segment_chan_F''\<rparr>,
     \<lparr>ch_id = Some ''g'', ch_name = Some ''G'', ch_desc = Some ''Segment G'', ch_order = 6, ch_type = 1, ch_idn = Some ''dec_seven_segment_chan_G''\<rparr>]"

definition seven_segment_optional_channels :: "srd_channel list" where
  "seven_segment_optional_channels = [
     \<lparr>ch_id = Some ''dp'', ch_name = Some ''DP'', ch_desc = Some ''Decimal point'', ch_order = 7, ch_type = 1, ch_idn = Some ''dec_seven_segment_chan_dp''\<rparr>]"

definition seven_segment_ann_labels :: "(string option \<times> string option \<times> string option) list" where
  "seven_segment_ann_labels = [
     (Some [], Some ''decoded-digit'', Some ''Decoded digit'')]"

definition seven_segment_ann_rows :: "srd_c_ann_row list" where
  "seven_segment_ann_rows = [
     \<lparr>car_id = Some ''decoded-digits'', car_desc = Some ''Decoded digits'', car_ann_classes = Some [0], car_num_ann_classes = 1\<rparr>]"

definition seven_segment_inputs :: "string list" where
  "seven_segment_inputs = [
     ''logic'']"

definition seven_segment_outputs :: "string list" where
  "seven_segment_outputs = []"

definition seven_segment_tags :: "string list" where
  "seven_segment_tags = [
     ''Display'']"

definition seven_segment_c_def :: srd_c_decoder where
  "seven_segment_c_def = \<lparr>cd_id = Some ''seven_segment_c'', cd_name = Some ''Segment-7(C)'',
     cd_longname = Some ''7-segment display (C)'', cd_desc = Some ''7-segment display protocol. (C implementation)'', cd_license = Some ''gplv2+'',
     cd_channels = Some seven_segment_channels, cd_num_channels = 7,
     cd_optional_channels = Some seven_segment_optional_channels, cd_num_optional_channels = 1,
     cd_options = Some seven_segment_options, cd_num_options = 1,
     cd_num_annotations = 1, cd_ann_labels = Some seven_segment_ann_labels,
     cd_num_annotation_rows = 1, cd_annotation_rows = Some seven_segment_ann_rows,
     cd_inputs = Some seven_segment_inputs, cd_num_inputs = 1, cd_outputs = Some seven_segment_outputs, cd_num_outputs = 0,
     cd_binary = None, cd_num_binary = 0, cd_tags = Some seven_segment_tags, cd_num_tags = 1\<rparr>"

lemma seven_segment_described: "described seven_segment_c_def = (True, True, True)"
  by (simp add: described_simps seven_segment_options_def seven_segment_channels_def seven_segment_optional_channels_def seven_segment_ann_labels_def seven_segment_ann_rows_def seven_segment_inputs_def seven_segment_outputs_def seven_segment_tags_def seven_segment_c_def_def)

section \<open>signature_c.c\<close>

definition signature_options :: "srd_decoder_option list" where
  "signature_options = [
     \<lparr>opt_id = Some ''start_edge'', opt_idn = Some ''dec_signature_opt_start_edge'', opt_desc = Some ''START edge polarity'',
        opt_def = Some (GV_string ''rising''), opt_values = [GV_string ''rising'', GV_string ''falling'']\<rparr>,
     \<lparr>opt_id = Some ''stop_edge'', opt_idn = Some ''dec_signature_opt_stop_edge'', opt_desc = Some ''STOP edge polarity'',
        opt_def = Some (GV_string ''rising''), opt_values = [GV_string ''rising'', GV_string ''falling'']\<rparr>,
     \<lparr>opt_id = Some ''clk_edge'', opt_idn = Some ''dec_signature_opt_clk_edge'', opt_desc = Some ''CLOCK edge polarity'',
        opt_def = Some (GV_string ''falling''), opt_values = [GV_string ''rising'', GV_string ''falling'']\<rparr>,
     \<lparr>opt_id = Some ''annbits'', opt_idn = Some ''dec_signature_opt_annbits'', opt_desc = Some ''Enable bit level annotations'',
        opt_def = Some (GV_string ''no''), opt_values = [GV_string ''yes'', GV_string ''no'']\<rparr>]"

definition signature_channels :: "srd_channel list" where
  "signature_channels = [
     \<lparr>ch_id = Some ''start'', ch_name = Some ''START'', ch_desc = Some ''START channel'', ch_order = 0, ch_type = -1, ch_idn = Some ''dec_signature_chan_start''\<rparr>,
     \<lparr>ch_id = Some ''stop'', ch_name = Some ''STOP'', ch_desc = Some ''STOP channel'', ch_order = 1, ch_type = -1, ch_idn = Some ''dec_signature_chan_stop''\<rparr>,
     \<lparr>ch_id = Some ''clk'', ch_name = Some ''CLOCK'', ch_desc = Some ''CLOCK channel'', ch_order = 2, ch_type = 0, ch_idn = Some ''dec_signature_chan_clk''\<rparr>,
     \<lparr>ch_id = Some ''data'', ch_name = Some ''DATA'', ch_desc = Some ''DATA channel'', ch_order = 3, ch_type = 1, ch_idn = Some ''dec_signature_chan_data''\<rparr>]"

definition signature_ann_labels :: "(string option \<times> string option \<times> string option) list" where
  "signature_ann_labels = [
     (Some [], Some ''bit0'', Some ''Bit0''),
     (Some [], Some ''bit1'', Some ''Bit1''),
     (Some [], Some ''start'', Some ''START''),
     (Some [], Some ''stop'', Some ''STOP''),
     (Some [], Some ''signature'', Some ''Signature'')]"

definition signature_ann_rows :: "srd_c_ann_row list" where
  "signature_ann_rows = [
     \<lparr>car_id = Some ''bits'', car_desc = Some ''Bits'', car_ann_classes = Some [0, 1, 2, 3], car_num_ann_classes = 4\<rparr>,
     \<lparr>car_id = Some ''signatures'', car_desc = Some ''Signatures'', car_ann_classes = Some [4], car_num_ann_classes = 1\<rparr>]"

definition signature_inputs :: "string list" where
  "signature_inputs = [
     ''logic'']"

definition signature_tags :: "string list" where
  "signature_tags = [
     ''Debug/trace'',
     ''Util'',
     ''Encoding'']"

definition signature_c_def :: srd_c_decoder where
  "signature_c_def = \<lparr>cd_id = Some ''signature_c'', cd_name = Some ''Signature(C)'',
     cd_longname = Some ''Signature analysis (C)'', cd_desc = Some ''Annotate signature of logic patterns. (C implementation)'', cd_license = Some ''gplv2+'',
     cd_channels = Some signature_channels, cd_num_channels = 4,
     cd_optional_channels = None, cd_num_optional_channels = 0,
     cd_options = Some signature_options, cd_num_options = 4,
     cd_num_annotations = 5, cd_ann_labels = Some signature_ann_labels,
     cd_num_annotation_rows = 2, cd_annotation_rows = Some signature_ann_rows,
     cd_inputs = Some signature_inputs, cd_num_inputs = 1, cd_outputs = None, cd_num_outputs = 0,
     cd_binary = None, cd_num_binary = 0, cd_tags = Some signature_tags, cd_num_tags = 3\<rparr>"

lemma signature_described: "described signature_c_def = (True, True, True)"
  by (simp add: described_simps signature_options_def signature_channels_def signature_ann_labels_def signature_ann_rows_def signature_inputs_def signature_tags_def signature_c_def_def)

section \<open>sipi_c.c\<close>

definition sipi_ann_labels :: "(string option \<times> string option \<times> string option) list" where
  "sipi_ann_labels = [
     (Some [], Some ''header_tag'', Some ''Transaction Tag''),
     (Some [], Some ''header_cmd'', Some ''Command Code''),
     (Some [], Some ''header_ch'', Some ''Channel''),
     (Some [], Some ''address'', Some ''Address''),
     (Some [], Some ''data'', Some ''Data''),
     (Some [], Some ''crc'', Some ''CRC''),
     (Some [], Some ''warning'', Some ''Warning'')]"

definition sipi_ann_rows :: "srd_c_ann_row list" where
  "sipi_ann_rows = [
     \<lparr>car_id = Some ''fields'', car_desc = Some ''Fields'', car_ann_classes = Some [0, 1, 2, 3, 4, 5], car_num_ann_classes = 6\<rparr>,
     \<lparr>car_id = Some ''warnings'', car_desc = Some ''Warnings'', car_ann_classes = Some [6], car_num_ann_classes = 1\<rparr>]"

definition sipi_inputs :: "string list" where
  "sipi_inputs = [
     ''lfast'']"

definition sipi_tags :: "string list" where
  "sipi_tags = [
     ''Embedded/industrial'']"

definition sipi_c_def :: srd_c_decoder where
  "sipi_c_def = \<lparr>cd_id = Some ''sipi_c'', cd_name = Some ''SIPI(C)'',
     cd_longname = Some ''NXP SIPI (C)'', cd_desc = Some ''Serial Inter-Processor Interface (SIPI) aka Zipwire, aka HSSL. (C implementation)'', cd_license = Some ''gplv2+'',
     cd_channels = None, cd_num_channels = 0,
     cd_optional_channels = None, cd_num_optional_channels = 0,
     cd_options = None, cd_num_options = 0,
     cd_num_annotations = 7, cd_ann_labels = Some sipi_ann_labels,
     cd_num_annotation_rows = 2, cd_annotation_rows = Some sipi_ann_rows,
     cd_inputs = Some sipi_inputs, cd_num_inputs = 1, cd_outputs = None, cd_num_outputs = 0,
     cd_binary = None, cd_num_binary = 0, cd_tags = Some sipi_tags, cd_num_tags = 1\<rparr>"

lemma sipi_described: "described sipi_c_def = (True, True, True)"
  by (simp add: described_simps sipi_ann_labels_def sipi_ann_rows_def sipi_inputs_def sipi_tags_def sipi_c_def_def)

section \<open>sle44xx_c.c\<close>

definition sle44xx_channels :: "srd_channel list" where
  "sle44xx_channels = [
     \<lparr>ch_id = Some ''rst'', ch_name = Some ''RST'', ch_desc = Some ''Reset line'', ch_order = 0, ch_type = -1, ch_idn = Some ''dec_sle44xx_chan_rst''\<rparr>,
     \<lparr>ch_id = Some ''clk'', ch_name = Some ''CLK'', ch_desc = Some ''Clock line'', ch_order = 1, ch_type = 0, ch_idn = Some ''dec_sle44xx_chan_clk''\<rparr>,
     \<lparr>ch_id = Some ''io'', ch_name = Some ''I/O'', ch_desc = Some ''I/O data line'', ch_order = 2, ch_type = 1, ch_idn = Some ''dec_sle44xx_chan_io''\<rparr>]"

definition sle44xx_ann_labels :: "(string option \<times> string option \<times> string option) list" where
  "sle44xx_ann_labels = [
     (Some [], Some ''Reset Symbol'', Some ''R''),
     (Some [], Some ''Interrupt Symbol'', Some ''Intr''),
     (Some [], Some ''Start Symbol'', Some ''ST''),
     (Some [], Some ''Stop Symbol'', Some ''SP''),
     (Some [], Some ''Bit Symbol'', Some ''B''),
     (Some [], Some ''ATR Byte'', Some ''ATR''),
     (Some [], Some ''Command Byte'', Some ''Cmd''),
     (Some [], Some ''Outgoing Byte'', Some ''Out''),
     (Some [], Some ''Processing Byte'', Some ''Proc''),
     (Some [], Some ''ATR data'', Some ''ATR data''),
     (Some [], Some ''Command data'', Some ''Cmd data''),
     (Some [], Some ''Outgoing data'', Some ''Out data''),
     (Some [], Some ''Processing data'', Some ''Proc data'')]"

definition sle44xx_ann_rows :: "srd_c_ann_row list" where
  "sle44xx_ann_rows = [
     \<lparr>car_id = Some ''symbols'', car_desc = Some ''Symbols'', car_ann_classes = Some [0, 1, 2, 3, 4], car_num_ann_classes = 5\<rparr>,
     \<lparr>car_id = Some ''fields'', car_desc = Some ''Fields'', car_ann_classes = Some [5, 6, 7, 8], car_num_ann_classes = 4\<rparr>,
     \<lparr>car_id = Some ''operations'', car_desc = Some ''Operations'', car_ann_classes = Some [9, 10, 11, 12], car_num_ann_classes = 4\<rparr>]"

definition sle44xx_binary :: "srd_decoder_binary list" where
  "sle44xx_binary = [
     \<lparr>bin_class = 0, bin_id = Some ''bytes'', bin_desc = Some ''Bytes''\<rparr>]"

definition sle44xx_inputs :: "string list" where
  "sle44xx_inputs = [
     ''logic'']"

definition sle44xx_outputs :: "string list" where
  "sle44xx_outputs = []"

definition sle44xx_tags :: "string list" where
  "sle44xx_tags = [
     ''Memory'']"

definition sle44xx_c_def :: srd_c_decoder where
  "sle44xx_c_def = \<lparr>cd_id = Some ''sle44xx_c'', cd_name = Some ''SLE 44xx(C)'',
     cd_longname = Some ''SLE44xx memory card(C)'', cd_desc = Some ''SLE 4418/28/32/42 memory card serial protocol.(C implementation)'', cd_license = Some ''gplv2+'',
     cd_channels = Some sle44xx_channels, cd_num_channels = 3,
     cd_optional_channels = None, cd_num_optional_channels = 0,
     cd_options = None, cd_num_options = 0,
     cd_num_annotations = 13, cd_ann_labels = Some sle44xx_ann_labels,
     cd_num_annotation_rows = 3, cd_annotation_rows = Some sle44xx_ann_rows,
     cd_inputs = Some sle44xx_inputs, cd_num_inputs = 1, cd_outputs = Some sle44xx_outputs, cd_num_outputs = 0,
     cd_binary = Some sle44xx_binary, cd_num_binary = 1, cd_tags = Some sle44xx_tags, cd_num_tags = 1\<rparr>"

lemma sle44xx_described: "described sle44xx_c_def = (True, True, True)"
  by (simp add: described_simps sle44xx_channels_def sle44xx_ann_labels_def sle44xx_ann_rows_def sle44xx_binary_def sle44xx_inputs_def sle44xx_outputs_def sle44xx_tags_def sle44xx_c_def_def)

section \<open>sony_md_c.c\<close>

definition sony_md_options :: "srd_decoder_option list" where
  "sony_md_options = [
     \<lparr>opt_id = Some ''marginpct'', opt_idn = Some ''dec_sony_md_opt_marginpct'', opt_desc = Some ''Error margin %'',
        opt_def = Some (GV_int64 20), opt_values = []\<rparr>]"

definition sony_md_channels :: "srd_channel list" where
  "sony_md_channels = [
     \<lparr>ch_id = Some ''data'', ch_name = Some ''data'', ch_desc = Some ''Data stream'', ch_order = 0, ch_type = 1, ch_idn = None\<rparr>]"

definition sony_md_ann_labels :: "(string option \<times> string option \<times> string option) list" where
  "sony_md_ann_labels = [
     (Some [], Some ''signals'', Some ''Signals''),
     (Some [], Some ''bit-zero'', Some ''0''),
     (Some [], Some ''bit-one'', Some ''1''),
     (Some [], Some ''bit-error'', Some ''Unknown half-cycle''),
     (Some [], Some ''state-error'', Some ''State error''),
     (Some [], Some ''byte'', Some ''Byte value''),
     (Some [], Some ''bit-count'', Some ''Message bit count''),
     (Some [], Some ''bit-count-error'', Some ''Expected multiple of 8 bits'')]"

definition sony_md_ann_rows :: "srd_c_ann_row list" where
  "sony_md_ann_rows = [
     \<lparr>car_id = Some ''signalling'', car_desc = Some ''Signalling'', car_ann_classes = Some [0], car_num_ann_classes = 1\<rparr>,
     \<lparr>car_id = Some ''raw-bits'', car_desc = Some ''Raw Bits'', car_ann_classes = Some [1, 2], car_num_ann_classes = 2\<rparr>,
     \<lparr>car_id = Some ''byte-values'', car_desc = Some ''Byte Values'', car_ann_classes = Some [5], car_num_ann_classes = 1\<rparr>,
     \<lparr>car_id = Some ''Messages'', car_desc = Some ''Messages'', car_ann_classes = Some [6], car_num_ann_classes = 1\<rparr>,
     \<lparr>car_id = Some ''errors'', car_desc = Some ''Errors'', car_ann_classes = Some [3, 4, 7], car_num_ann_classes = 3\<rparr>]"

definition sony_md_inputs :: "string list" where
  "sony_md_inputs = [
     ''logic'']"

definition sony_md_outputs :: "string list" where
  "sony_md_outputs = [
     ''sony_md'']"

definition sony_md_tags :: "string list" where
  "sony_md_tags = [
     []]"

definition sony_md_c_def :: srd_c_decoder where
  "sony_md_c_def = \<lparr>cd_id = Some ''sony_md_c'', cd_name = Some ''Sony MD Remote(C)'',
     cd_longname = Some ''Sony MD LCD Remote (C)'', cd_desc = Some ''Sony MD LCD Remote protocol decoder (C implementation)'', cd_license = Some ''unknown'',
     cd_channels = Some sony_md_channels, cd_num_channels = 1,
     cd_optional_channels = None, cd_num_optional_channels = 0,
     cd_options = Some sony_md_options, cd_num_options = 1,
     cd_num_annotations = 8, cd_ann_labels = Some sony_md_ann_labels,
     cd_num_annotation_rows = 5, cd_annotation_rows = Some sony_md_ann_rows,
     cd_inputs = Some sony_md_inputs, cd_num_inputs = 1, cd_outputs = Some sony_md_outputs, cd_num_outputs = 1,
     cd_binary = None, cd_num_binary = 0, cd_tags = Some sony_md_tags, cd_num_tags = 1\<rparr>"

lemma sony_md_described: "described sony_md_c_def = (True, True, True)"
  by (simp add: described_simps sony_md_options_def sony_md_channels_def sony_md_ann_labels_def sony_md_ann_rows_def sony_md_inputs_def sony_md_outputs_def sony_md_tags_def sony_md_c_def_def)

section \<open>sony_md_decode_c.c\<close>

definition sony_md_decode_ann_labels :: "(string option \<times> string option \<times> string option) list" where
  "sony_md_decode_ann_labels = [
     (Some [], Some ''Info'', Some ''Info''),
     (Some [], Some ''Transfer block'', Some ''Transfer block''),
     (Some [], Some ''Raw Value'', Some ''Raw Value''),
     (Some [], Some ''Data Field Value (Positive)'', Some ''Data Field Value (Positive)''),
     (Some [], Some ''Debug'', Some ''Debug''),
     (Some [], Some ''Debug2'', Some ''Debug2''),
     (Some [], Some ''Data Field Value (Negative)'', Some ''Data Field Value (Negative)''),
     (Some [], Some ''Transfer Block From Player'', Some ''Transfer Block From Player''),
     (Some [], Some ''Transfer Block From Remote'', Some ''Transfer Block From Remote''),
     (Some [], Some ''Data Field Name'', Some ''Data Field Name''),
     (Some [], Some ''Error'', Some ''Error''),
     (Some [], Some ''Warning'', Some ''Warning''),
     (Some [], Some ''Data Field (Unused)'', Some ''Data Field (Unused)''),
     (Some [], Some ''Data Field (Unknown)'', Some ''Data Field (Unknown)''),
     (Some [], Some ''Data Field (Static)'', Some ''Data Field (Static)''),
     (Some [], Some ''Command'', Some ''Command'')]"

definition sony_md_decode_ann_rows :: "srd_c_ann_row list" where
  "sony_md_decode_ann_rows = [
     \<lparr>car_id = Some ''informational'', car_desc = Some ''Informational'', car_ann_classes = Some [0], car_num_ann_classes = 1\<rparr>,
     \<lparr>car_id = Some ''transfer-blocks'', car_desc = Some ''Data Transfer Blocks'', car_ann_classes = Some [1], car_num_ann_classes = 1\<rparr>,
     \<lparr>car_id = Some ''senders'', car_desc = Some ''Block Sender'', car_ann_classes = Some [7, 8], car_num_ann_classes = 2\<rparr>,
     \<lparr>car_id = Some ''commands'', car_desc = Some ''Commands'', car_ann_classes = Some [15], car_num_ann_classes = 1\<rparr>,
     \<lparr>car_id = Some ''raw-values'', car_desc = Some ''Raw Values'', car_ann_classes = Some [2], car_num_ann_classes = 1\<rparr>,
     \<lparr>car_id = Some ''data-field-names'', car_desc = Some ''Data Field Names'', car_ann_classes = Some [9], car_num_ann_classes = 1\<rparr>,
     \<lparr>car_id = Some ''data-field-values'', car_desc = Some ''Data Field Values'', car_ann_classes = Some [3, 6, 12, 13, 14], car_num_ann_classes = 5\<rparr>,
     \<lparr>car_id = Some ''debugs'', car_desc = Some ''Debugs'', car_ann_classes = Some [4], car_num_ann_classes = 1\<rparr>,
     \<lparr>car_id = Some ''debugs-two'', car_desc = Some ''Debugs 2'', car_ann_classes = Some [5], car_num_ann_classes = 1\<rparr>,
     \<lparr>car_id = Some ''errors'', car_desc = Some ''Errors'', car_ann_classes = Some [10], car_num_ann_classes = 1\<rparr>,
     \<lparr>car_id = Some ''warnings'', car_desc = Some ''Warnings'', car_ann_classes = Some [11], car_num_ann_classes = 1\<rparr>]"

definition sony_md_decode_inputs :: "string list" where
  "sony_md_decode_inputs = [
     ''sony_md'']"

definition sony_md_decode_outputs :: "string list" where
  "sony_md_decode_outputs = [
     ''sony_md_decode'']"

definition sony_md_decode_tags :: "string list" where
  "sony_md_decode_tags = [
     []]"

definition sony_md_decode_c_def :: srd_c_decoder where
  "sony_md_decode_c_def = \<lparr>cd_id = Some ''sony_md_decode_c'', cd_name = Some ''Sony MD Remote Decode(C)'',
     cd_longname = Some ''Sony MD LCD Remote Decoder (C)'', cd_desc = Some ''Sony MD LCD Remote Decoder. (C implementation)'', cd_license = Some ''gplv2+'',
     cd_channels = None, cd_num_channels = 0,
     cd_optional_channels = None, cd_num_optional_channels = 0,
     cd_options = None, cd_num_options = 0,
     cd_num_annotations = 16, cd_ann_labels = Some sony_md_decode_ann_labels,
     cd_num_annotation_rows = 11, cd_annotation_rows = Some sony_md_decode_ann_rows,
     cd_inputs = Some sony_md_decode_inputs, cd_num_inputs = 1, cd_outputs = Some sony_md_decode_outputs, cd_num_outputs = 1,
     cd_binary = None, cd_num_binary = 0, cd_tags = Some sony_md_decode_tags, cd_num_tags = 1\<rparr>"

lemma sony_md_decode_described: "described sony_md_decode_c_def = (True, True, True)"
  by (simp add: described_simps sony_md_decode_ann_labels_def sony_md_decode_ann_rows_def sony_md_decode_inputs_def sony_md_decode_outputs_def sony_md_decode_tags_def sony_md_decode_c_def_def)

section \<open>spacewire_c.c\<close>

definition spacewire_channels :: "srd_channel list" where
  "spacewire_channels = [
     \<lparr>ch_id = Some ''data'', ch_name = Some ''Data'', ch_desc = Some ''Data line'', ch_order = 0, ch_type = 1, ch_idn = Some ''dec_spacewire_chan_data''\<rparr>,
     \<lparr>ch_id = Some ''strobe'', ch_name = Some ''Strobe'', ch_desc = Some ''Strobe line'', ch_order = 1, ch_type = 0, ch_idn = Some ''dec_spacewire_chan_strobe''\<rparr>]"

definition spacewire_ann_labels :: "(string option \<times> string option \<times> string option) list" where
  "spacewire_ann_labels = [
     (Some [], Some ''D'', Some ''Data''),
     (Some [], Some ''P'', Some ''Parity''),
     (Some [], Some ''DCF'', Some ''Data Control Flag''),
     (Some [], Some ''ctrl-char'', Some ''Control Character''),
     (Some [], Some ''data-char'', Some ''Data Character''),
     (Some [], Some ''code'', Some ''Control Code''),
     (Some [], Some ''time'', Some ''Control Code''),
     (Some [], Some ''warning'', Some ''Warning'')]"

definition spacewire_ann_rows :: "srd_c_ann_row list" where
  "spacewire_ann_rows = [
     \<lparr>car_id = Some ''bits'', car_desc = Some ''Bits'', car_ann_classes = Some [0, 1, 2], car_num_ann_classes = 3\<rparr>,
     \<lparr>car_id = Some ''characters'', car_desc = Some ''Characters'', car_ann_classes = Some [3, 4], car_num_ann_classes = 2\<rparr>,
     \<lparr>car_id = Some ''codes'', car_desc = Some ''Control Codes'', car_ann_classes = Some [5, 6], car_num_ann_classes = 2\<rparr>,
     \<lparr>car_id = Some ''warnings'', car_desc = Some ''Warnings'', car_ann_classes = Some [7], car_num_ann_classes = 1\<rparr>]"

definition spacewire_inputs :: "string list" where
  "spacewire_inputs = [
     ''logic'']"

definition spacewire_outputs :: "string list" where
  "spacewire_outputs = [
     ''spacewire'']"

definition spacewire_tags :: "string list" where
  "spacewire_tags = [
     ''Aerospace'']"

definition spacewire_c_def :: srd_c_decoder where
  "spacewire_c_def = \<lparr>cd_id = Some ''spacewire_c'', cd_name = Some ''Spacewire(C)'',
     cd_longname = Some ''Spacewire (C)'', cd_desc = Some ''High speed data transfer protocol used for communication between spacecraft subsystems (C implementation)'', cd_license = Some ''gplv2+'',
     cd_channels = Some spacewire_channels, cd_num_channels = 2,
     cd_optional_channels = None, cd_num_optional_channels = 0,
     cd_options = None, cd_num_options = 0,
     cd_num_annotations = 8, cd_ann_labels = Some spacewire_ann_labels,
     cd_num_annotation_rows = 4, cd_annotation_rows = Some spacewire_ann_rows,
     cd_inputs = Some spacewire_inputs, cd_num_inputs = 1, cd_outputs = Some spacewire_outputs, cd_num_outputs = 1,
     cd_binary = None, cd_num_binary = 0, cd_tags = Some spacewire_tags, cd_num_tags = 1\<rparr>"

lemma spacewire_described: "described spacewire_c_def = (True, True, True)"
  by (simp add: described_simps spacewire_channels_def spacewire_ann_labels_def spacewire_ann_rows_def spacewire_inputs_def spacewire_outputs_def spacewire_tags_def spacewire_c_def_def)

section \<open>All of them\<close>

definition tables6 :: "srd_c_decoder list" where
  "tables6 = [ps2_keyboard_c_def, ps2_mouse_c_def, pwm_c_def, pxx1_c_def, qi_c_def, qspi_c_def,
     rc_encode_c_def, rfm12_c_def, rgb_led_spi_c_def, rgb_led_ws281x_c_def, rinnai_control_panel_c_def, rpm_c_def,
     rtc8564_c_def, rvswd_c_def, sae_j1850_vpw_c_def, sbus_futaba_c_def, scs_c_def, sda2506_c_def,
     sdq_c_def, sent_c_def, seven_segment_c_def, signature_c_def, sipi_c_def, sle44xx_c_def,
     sony_md_c_def, sony_md_decode_c_def, spacewire_c_def]"

lemmas tables6_described =
  ps2_keyboard_described ps2_mouse_described pwm_described pxx1_described qi_described qspi_described
  rc_encode_described rfm12_described rgb_led_spi_described rgb_led_ws281x_described rinnai_control_panel_described rpm_described
  rtc8564_described rvswd_described sae_j1850_vpw_described sbus_futaba_described scs_described sda2506_described
  sdq_described sent_described seven_segment_described signature_described sipi_described sle44xx_described
  sony_md_described sony_md_decode_described spacewire_described

lemma tables6_ids:
  "map cd_id tables6 = [Some ''ps2_keyboard_c'', Some ''ps2_mouse_c'', Some ''pwm_c'', Some ''pxx1_c'', Some ''qi_c'',
     Some ''qspi_c'', Some ''rc_encode_c'', Some ''rfm12_c'', Some ''rgb_led_spi_c'', Some ''rgb_led_ws281x_c'',
     Some ''rinnai_control_panel_c'', Some ''rpm_c'', Some ''rtc8564_c'', Some ''rvswd_c'', Some ''sae_j1850_vpw_c'',
     Some ''sbus_futaba_c'', Some ''scs_c'', Some ''sda2506_c'', Some ''sdq_c'', Some ''sent_c'',
     Some ''seven_segment_c'', Some ''signature_c'', Some ''sipi_c'', Some ''sle44xx_c'', Some ''sony_md_c'',
     Some ''sony_md_decode_c'', Some ''spacewire_c'']"
  by (simp add: tables6_def
    ps2_keyboard_c_def_def ps2_mouse_c_def_def pwm_c_def_def pxx1_c_def_def qi_c_def_def qspi_c_def_def
    rc_encode_c_def_def rfm12_c_def_def rgb_led_spi_c_def_def rgb_led_ws281x_c_def_def rinnai_control_panel_c_def_def rpm_c_def_def
    rtc8564_c_def_def rvswd_c_def_def sae_j1850_vpw_c_def_def sbus_futaba_c_def_def scs_c_def_def sda2506_c_def_def
    sdq_c_def_def sent_c_def_def seven_segment_c_def_def signature_c_def_def sipi_c_def_def sle44xx_c_def_def
    sony_md_c_def_def sony_md_decode_c_def_def spacewire_c_def_def)

end
