(* ===== verification/Tables7.thy ===== *)
theory Tables7
  imports Described
begin

text \<open>
  The descriptions of the decoders from spdif_c to tmc_c: the tables in their files, with the option
  defaults and values that \<^verbatim>\<open>srd_c_decoder_entry()\<close> fills in, and their checks. Text outside
  ASCII is given by its bytes.
\<close>

section \<open>spdif_c.c\<close>

definition spdif_channels :: "srd_channel list" where
  "spdif_channels = [
     \<lparr>ch_id = Some ''data'', ch_name = Some ''Data'', ch_desc = Some ''Data line'', ch_order = 0, ch_type = -1, ch_idn = Some ''dec_spdif_chan_data''\<rparr>]"

definition spdif_ann_labels :: "(string option \<times> string option \<times> string option) list" where
  "spdif_ann_labels = [
     (Some [], Some ''bitrate'', Some ''Bitrate / baudrate''),
     (Some [], Some ''preamble'', Some ''Preamble''),
     (Some [], Some ''bits'', Some ''Bits''),
     (Some [], Some ''aux'', Some ''Auxillary-audio-databits''),
     (Some [], Some ''samples'', Some ''Audio Samples''),
     (Some [], Some ''validity'', Some ''Data Valid''),
     (Some [], Some ''subcode'', Some ''Subcode data''),
     (Some [], Some ''chan_stat'', Some ''Channnel Status''),
     (Some [], Some ''parity'', Some ''Parity Bit'')]"

definition spdif_ann_rows :: "srd_c_ann_row list" where
  "spdif_ann_rows = [
     \<lparr>car_id = Some ''info'', car_desc = Some ''Info'', car_ann_classes = Some [0, 1, 3, 5, 6, 7, 8], car_num_ann_classes = 7\<rparr>,
     \<lparr>car_id = Some ''bits'', car_desc = Some ''Bits'', car_ann_classes = Some [2], car_num_ann_classes = 1\<rparr>,
     \<lparr>car_id = Some ''samples'', car_desc = Some ''Samples'', car_ann_classes = Some [4], car_num_ann_classes = 1\<rparr>]"

definition spdif_inputs :: "string list" where
  "spdif_inputs = [
     ''logic'']"

definition spdif_outputs :: "string list" where
  "spdif_outputs = []"

definition spdif_tags :: "string list" where
  "spdif_tags = [
     ''Audio'',
     ''PC'']"

definition spdif_c_def :: srd_c_decoder where
  "spdif_c_def = \<lparr>cd_id = Some ''spdif_c'', cd_name = Some ''S/PDIF(C)'',
     cd_longname = Some ''Sony/Philips Digital Interface Format (C)'', cd_desc = Some ''S/PDIF protocol decoder (C implementation)'', cd_license = Some ''gplv2+'',
     cd_channels = Some spdif_channels, cd_num_channels = 1,
     cd_optional_channels = None, cd_num_optional_channels = 0,
     cd_options = None, cd_num_options = 0,
     cd_num_annotations = 9, cd_ann_labels = Some spdif_ann_labels,
     cd_num_annotation_rows = 3, cd_annotation_rows = Some spdif_ann_rows,
     cd_inputs = Some spdif_inputs, cd_num_inputs = 1, cd_outputs = Some spdif_outputs, cd_num_outputs = 0,
     cd_binary = None, cd_num_binary = 0, cd_tags = Some spdif_tags, cd_num_tags = 2\<rparr>"

lemma spdif_described: "described spdif_c_def = (True, True, True)"
  by (simp add: described_simps spdif_channels_def spdif_ann_labels_def spdif_ann_rows_def spdif_inputs_def spdif_outputs_def spdif_tags_def spdif_c_def_def)

section \<open>spi_c.c\<close>

definition spi_options :: "srd_decoder_option list" where
  "spi_options = [
     \<lparr>opt_id = Some ''cs_polarity'', opt_idn = None, opt_desc = Some (''CS# polarity('' @ bytes_str [0xE7, 0x89, 0x87, 0xE9, 0x80, 0x89, 0xE6, 0x9E, 0x81, 0xE6, 0x80, 0xA7] @ '')''),
        opt_def = Some (GV_string ''active-low''), opt_values = [GV_string ''active-low'', GV_string ''active-high'']\<rparr>,
     \<lparr>opt_id = Some ''cpol'', opt_idn = None, opt_desc = Some (''Clock polarity('' @ bytes_str [0xE6, 0x97, 0xB6, 0xE9, 0x92, 0x9F, 0xE6, 0x9E, 0x81, 0xE6, 0x80, 0xA7] @ '')''),
        opt_def = Some (GV_uint64 0), opt_values = [GV_uint64 0, GV_uint64 1]\<rparr>,
     \<lparr>opt_id = Some ''cpha'', opt_idn = None, opt_desc = Some (''Clock phase('' @ bytes_str [0xE6, 0x97, 0xB6, 0xE9, 0x92, 0x9F, 0xE7, 0x9B, 0xB8, 0xE4, 0xBD, 0x8D] @ '')''),
        opt_def = Some (GV_uint64 0), opt_values = [GV_uint64 0, GV_uint64 1]\<rparr>,
     \<lparr>opt_id = Some ''bitorder'', opt_idn = None, opt_desc = Some (''Bit order('' @ bytes_str [0xE4, 0xBD, 0x8D, 0xE5, 0xBA, 0x8F] @ '')''),
        opt_def = Some (GV_string ''msb-first''), opt_values = [GV_string ''msb-first'', GV_string ''lsb-first'']\<rparr>,
     \<lparr>opt_id = Some ''wordsize'', opt_idn = None, opt_desc = Some (''Word size('' @ bytes_str [0xE5, 0xAD, 0x97, 0xE9, 0x95, 0xBF] @ '')''),
        opt_def = Some (GV_uint64 8), opt_values = []\<rparr>,
     \<lparr>opt_id = Some ''format'', opt_idn = None, opt_desc = Some (''Data format('' @ bytes_str [0xE6, 0x95, 0xB0, 0xE6, 0x8D, 0xAE, 0xE6, 0xA0, 0xBC, 0xE5, 0xBC, 0x8F] @ '')''),
        opt_def = Some (GV_string ''hex''), opt_values = [GV_string ''ascii'', GV_string ''dec'', GV_string ''hex'', GV_string ''oct'', GV_string ''bin'']\<rparr>,
     \<lparr>opt_id = Some ''show_data_point'', opt_idn = None, opt_desc = Some (''Show data point('' @ bytes_str [0xE6, 0x95, 0xB0, 0xE6, 0x8D, 0xAE, 0xE7, 0x82, 0xB9, 0xE6, 0x98, 0xBE, 0xE7, 0xA4, 0xBA] @ '')''),
        opt_def = Some (GV_string ''yes''), opt_values = [GV_string ''yes'', GV_string ''no'']\<rparr>]"

definition spi_channels :: "srd_channel list" where
  "spi_channels = [
     \<lparr>ch_id = Some ''clk'', ch_name = Some ''CLK'', ch_desc = Some (''Clock('' @ bytes_str [0xE4, 0xB8, 0xB2, 0xE8, 0xA1, 0x8C, 0xE6, 0x97, 0xB6, 0xE9, 0x92, 0x9F] @ '')''), ch_order = 0, ch_type = 0, ch_idn = None\<rparr>]"

definition spi_optional_channels :: "srd_channel list" where
  "spi_optional_channels = [
     \<lparr>ch_id = Some ''miso'', ch_name = Some ''MISO'', ch_desc = Some (''Master in, slave out('' @ bytes_str [0xE4, 0xB8, 0xBB, 0xE5, 0x85, 0xA5, 0xE4, 0xBB, 0x8E, 0xE5, 0x87, 0xBA] @ '')''), ch_order = 1, ch_type = 1, ch_idn = None\<rparr>,
     \<lparr>ch_id = Some ''mosi'', ch_name = Some ''MOSI'', ch_desc = Some (''Master out, slave in('' @ bytes_str [0xE4, 0xB8, 0xBB, 0xE5, 0x87, 0xBA, 0xE4, 0xBB, 0x8E, 0xE5, 0x85, 0xA5] @ '')''), ch_order = 2, ch_type = 1, ch_idn = None\<rparr>,
     \<lparr>ch_id = Some ''cs'', ch_name = Some ''CS#'', ch_desc = Some (''Chip-select('' @ bytes_str [0xE7, 0x89, 0x87, 0xE9, 0x80, 0x89, 0xE4, 0xBF, 0xA1, 0xE5, 0x8F, 0xB7] @ '')''), ch_order = 3, ch_type = -1, ch_idn = None\<rparr>]"

definition spi_ann_labels :: "(string option \<times> string option \<times> string option) list" where
  "spi_ann_labels = [
     (Some [], Some ''MISO'', Some ''MISO data''),
     (Some [], Some ''MOSI'', Some ''MOSI data''),
     (Some [], Some ''MISO bit'', Some ''MISO bit''),
     (Some [], Some ''MOSI bit'', Some ''MOSI bit''),
     (Some [], Some ''Warning'', Some ''Warning''),
     (Some [], Some ''MISO transfer'', Some ''MISO transfer''),
     (Some [], Some ''MOSI transfer'', Some ''MOSI transfer''),
     (Some [], Some ''ATK Data point'', Some ''ATK Data point''),
     (Some [], Some ''ATK Rising edge'', Some ''ATK Rising edge''),
     (Some [], Some ''ATK Falling edge'', Some ''ATK Falling edge'')]"

definition spi_ann_rows :: "srd_c_ann_row list" where
  "spi_ann_rows = [
     \<lparr>car_id = Some ''miso-bits'', car_desc = Some ''MISO bits'', car_ann_classes = Some [2], car_num_ann_classes = 1\<rparr>,
     \<lparr>car_id = Some ''miso-data-vals'', car_desc = Some ''MISO data'', car_ann_classes = Some [0], car_num_ann_classes = 1\<rparr>,
     \<lparr>car_id = Some ''miso-transfers'', car_desc = Some ''MISO transfers'', car_ann_classes = Some [5], car_num_ann_classes = 1\<rparr>,
     \<lparr>car_id = Some ''mosi-bits'', car_desc = Some ''MOSI bits'', car_ann_classes = Some [3], car_num_ann_classes = 1\<rparr>,
     \<lparr>car_id = Some ''mosi-data-vals'', car_desc = Some ''MOSI data'', car_ann_classes = Some [1], car_num_ann_classes = 1\<rparr>,
     \<lparr>car_id = Some ''mosi-transfers'', car_desc = Some ''MOSI transfers'', car_ann_classes = Some [6], car_num_ann_classes = 1\<rparr>,
     \<lparr>car_id = Some ''other'', car_desc = Some ''Other'', car_ann_classes = Some [4], car_num_ann_classes = 1\<rparr>,
     \<lparr>car_id = Some ''atk-signs'', car_desc = Some ''ATK signs'', car_ann_classes = Some [7, 8, 9], car_num_ann_classes = 3\<rparr>]"

definition spi_binary :: "srd_decoder_binary list" where
  "spi_binary = [
     \<lparr>bin_class = 0, bin_id = Some ''miso'', bin_desc = Some ''MISO''\<rparr>,
     \<lparr>bin_class = 1, bin_id = Some ''mosi'', bin_desc = Some ''MOSI''\<rparr>]"

definition spi_inputs :: "string list" where
  "spi_inputs = [
     ''logic'']"

definition spi_outputs :: "string list" where
  "spi_outputs = [
     ''spi'']"

definition spi_tags :: "string list" where
  "spi_tags = [
     ''Embedded/industrial'']"

definition spi_c_def :: srd_c_decoder where
  "spi_c_def = \<lparr>cd_id = Some ''spi_c'', cd_name = Some ''SPI(C)'',
     cd_longname = Some ''Serial Peripheral Interface (C)'', cd_desc = Some ''SPI protocol decoder (C implementation, faster than Python)'', cd_license = Some ''gplv2+'',
     cd_channels = Some spi_channels, cd_num_channels = 1,
     cd_optional_channels = Some spi_optional_channels, cd_num_optional_channels = 3,
     cd_options = Some spi_options, cd_num_options = 7,
     cd_num_annotations = 10, cd_ann_labels = Some spi_ann_labels,
     cd_num_annotation_rows = 8, cd_annotation_rows = Some spi_ann_rows,
     cd_inputs = Some spi_inputs, cd_num_inputs = 1, cd_outputs = Some spi_outputs, cd_num_outputs = 1,
     cd_binary = Some spi_binary, cd_num_binary = 2, cd_tags = Some spi_tags, cd_num_tags = 1\<rparr>"

lemma spi_described: "described spi_c_def = (True, True, True)"
  by (simp add: described_simps spi_options_def spi_channels_def spi_optional_channels_def spi_ann_labels_def spi_ann_rows_def spi_binary_def spi_inputs_def spi_outputs_def spi_tags_def spi_c_def_def)

section \<open>spi_dual_quad_c.c\<close>

definition spi_dual_quad_options :: "srd_decoder_option list" where
  "spi_dual_quad_options = [
     \<lparr>opt_id = Some ''cs_polarity'', opt_idn = None, opt_desc = Some ''CS# polarity'',
        opt_def = Some (GV_string ''active-low''), opt_values = [GV_string ''active-low'', GV_string ''active-high'']\<rparr>,
     \<lparr>opt_id = Some ''cpol'', opt_idn = None, opt_desc = Some ''Clock polarity'',
        opt_def = Some (GV_int64 0), opt_values = []\<rparr>,
     \<lparr>opt_id = Some ''cpha'', opt_idn = None, opt_desc = Some ''Clock phase'',
        opt_def = Some (GV_int64 0), opt_values = []\<rparr>,
     \<lparr>opt_id = Some ''bitorder'', opt_idn = None, opt_desc = Some ''Bit order'',
        opt_def = Some (GV_string ''msb-first''), opt_values = [GV_string ''msb-first'', GV_string ''lsb-first'']\<rparr>,
     \<lparr>opt_id = Some ''wordsize'', opt_idn = None, opt_desc = Some ''Word size'',
        opt_def = Some (GV_int64 8), opt_values = []\<rparr>,
     \<lparr>opt_id = Some ''twolnmd'', opt_idn = None, opt_desc = Some ''Twolnmd'',
        opt_def = Some (GV_string ''qspi''), opt_values = [GV_string ''spi'', GV_string ''qspi'', GV_string ''dspi'']\<rparr>,
     \<lparr>opt_id = Some ''protocol'', opt_idn = None, opt_desc = Some ''protocol mode'',
        opt_def = Some (GV_string ''spi''), opt_values = [GV_string ''spi'', GV_string ''dual'', GV_string ''quad'', GV_string ''sqi'']\<rparr>]"

definition spi_dual_quad_channels :: "srd_channel list" where
  "spi_dual_quad_channels = [
     \<lparr>ch_id = Some ''clk'', ch_name = Some ''CLK'', ch_desc = Some ''Clock'', ch_order = 0, ch_type = 0, ch_idn = Some ''dec_spi_dual_quad_chan_clk''\<rparr>,
     \<lparr>ch_id = Some ''sio0'', ch_name = Some ''SIO0'', ch_desc = Some ''SPI Input/Output 0'', ch_order = 1, ch_type = 1, ch_idn = Some ''dec_spi_dual_quad_chan_sio0''\<rparr>,
     \<lparr>ch_id = Some ''sio1'', ch_name = Some ''SIO1'', ch_desc = Some ''SPI Input/Output 1'', ch_order = 2, ch_type = 1, ch_idn = Some ''dec_spi_dual_quad_chan_sio1''\<rparr>]"

definition spi_dual_quad_optional_channels :: "srd_channel list" where
  "spi_dual_quad_optional_channels = [
     \<lparr>ch_id = Some ''sio2'', ch_name = Some ''SIO2'', ch_desc = Some ''SPI Input/Output 2'', ch_order = 3, ch_type = 1, ch_idn = Some ''dec_spi_dual_quad_opt_chan_sio2''\<rparr>,
     \<lparr>ch_id = Some ''sio3'', ch_name = Some ''SIO3'', ch_desc = Some ''SPI Input/Output 3'', ch_order = 4, ch_type = 1, ch_idn = Some ''dec_spi_dual_quad_opt_chan_sio3''\<rparr>,
     \<lparr>ch_id = Some ''cs'', ch_name = Some ''CS#'', ch_desc = Some ''Chip-select'', ch_order = 5, ch_type = -1, ch_idn = Some ''dec_spi_dual_quad_opt_chan_cs''\<rparr>]"

definition spi_dual_quad_ann_labels :: "(string option \<times> string option \<times> string option) list" where
  "spi_dual_quad_ann_labels = [
     (Some [], Some ''spi-data'', Some ''SPI data''),
     (Some [], Some ''sio0-bit'', Some ''SIO0 bit''),
     (Some [], Some ''sio1-bit'', Some ''SIO1 bit''),
     (Some [], Some ''sio2-bit'', Some ''SIO2 bit''),
     (Some [], Some ''sio3-bit'', Some ''SIO3 bit''),
     (Some [], Some ''warning'', Some ''Warning''),
     (Some [], Some ''spi-transfer'', Some ''SPI transfer'')]"

definition spi_dual_quad_ann_rows :: "srd_c_ann_row list" where
  "spi_dual_quad_ann_rows = [
     \<lparr>car_id = Some ''sio0-bits'', car_desc = Some ''SIO0 bits'', car_ann_classes = Some [1], car_num_ann_classes = 1\<rparr>,
     \<lparr>car_id = Some ''sio1-bits'', car_desc = Some ''SIO1 bits'', car_ann_classes = Some [2], car_num_ann_classes = 1\<rparr>,
     \<lparr>car_id = Some ''sio2-bits'', car_desc = Some ''SIO2 bits'', car_ann_classes = Some [3], car_num_ann_classes = 1\<rparr>,
     \<lparr>car_id = Some ''sio3-bits'', car_desc = Some ''SIO3 bits'', car_ann_classes = Some [4], car_num_ann_classes = 1\<rparr>,
     \<lparr>car_id = Some ''spi-data-vals'', car_desc = Some ''SPI data'', car_ann_classes = Some [0], car_num_ann_classes = 1\<rparr>,
     \<lparr>car_id = Some ''spi-transfers'', car_desc = Some ''SPI transfers'', car_ann_classes = Some [6], car_num_ann_classes = 1\<rparr>,
     \<lparr>car_id = Some ''other'', car_desc = Some ''Other'', car_ann_classes = Some [5], car_num_ann_classes = 1\<rparr>]"

definition spi_dual_quad_binary :: "srd_decoder_binary list" where
  "spi_dual_quad_binary = [
     \<lparr>bin_class = 0, bin_id = Some ''spi-data'', bin_desc = Some ''SPI Data''\<rparr>]"

definition spi_dual_quad_inputs :: "string list" where
  "spi_dual_quad_inputs = [
     ''logic'']"

definition spi_dual_quad_outputs :: "string list" where
  "spi_dual_quad_outputs = [
     ''spi'']"

definition spi_dual_quad_tags :: "string list" where
  "spi_dual_quad_tags = [
     ''Embedded/industrial'']"

definition spi_dual_quad_c_def :: srd_c_decoder where
  "spi_dual_quad_c_def = \<lparr>cd_id = Some ''spi_dual_quad_c'', cd_name = Some ''SPI Dual/Quad(C)'',
     cd_longname = Some ''Dual/Quad Serial Peripheral Interface (C)'', cd_desc = Some ''Full-duplex, synchronous, serial bus. (C implementation)'', cd_license = Some ''gplv2+'',
     cd_channels = Some spi_dual_quad_channels, cd_num_channels = 3,
     cd_optional_channels = Some spi_dual_quad_optional_channels, cd_num_optional_channels = 3,
     cd_options = Some spi_dual_quad_options, cd_num_options = 7,
     cd_num_annotations = 7, cd_ann_labels = Some spi_dual_quad_ann_labels,
     cd_num_annotation_rows = 7, cd_annotation_rows = Some spi_dual_quad_ann_rows,
     cd_inputs = Some spi_dual_quad_inputs, cd_num_inputs = 1, cd_outputs = Some spi_dual_quad_outputs, cd_num_outputs = 1,
     cd_binary = Some spi_dual_quad_binary, cd_num_binary = 1, cd_tags = Some spi_dual_quad_tags, cd_num_tags = 1\<rparr>"

lemma spi_dual_quad_described: "described spi_dual_quad_c_def = (True, True, True)"
  by (simp add: described_simps spi_dual_quad_options_def spi_dual_quad_channels_def spi_dual_quad_optional_channels_def spi_dual_quad_ann_labels_def spi_dual_quad_ann_rows_def spi_dual_quad_binary_def spi_dual_quad_inputs_def spi_dual_quad_outputs_def spi_dual_quad_tags_def spi_dual_quad_c_def_def)

section \<open>spi_fast_c.c\<close>

definition spi_fast_options :: "srd_decoder_option list" where
  "spi_fast_options = [
     \<lparr>opt_id = Some ''cs_polarity'', opt_idn = Some ''dec_spi_fast_opt_cs_polarity'', opt_desc = Some (''CS# polarity('' @ bytes_str [0xE7, 0x89, 0x87, 0xE9, 0x80, 0x89, 0xE6, 0x9E, 0x81, 0xE6, 0x80, 0xA7] @ '')''),
        opt_def = Some (GV_string ''active-low''), opt_values = [GV_string ''active-low'', GV_string ''active-high'']\<rparr>,
     \<lparr>opt_id = Some ''cpol'', opt_idn = Some ''dec_spi_fast_opt_cpol'', opt_desc = Some (''Clock polarity('' @ bytes_str [0xE6, 0x97, 0xB6, 0xE9, 0x92, 0x9F, 0xE6, 0x9E, 0x81, 0xE6, 0x80, 0xA7] @ '')''),
        opt_def = Some (GV_uint64 0), opt_values = [GV_uint64 0, GV_uint64 1]\<rparr>,
     \<lparr>opt_id = Some ''cpha'', opt_idn = Some ''dec_spi_fast_opt_cpha'', opt_desc = Some (''Clock phase('' @ bytes_str [0xE6, 0x97, 0xB6, 0xE9, 0x92, 0x9F, 0xE7, 0x9B, 0xB8, 0xE4, 0xBD, 0x8D] @ '')''),
        opt_def = Some (GV_uint64 0), opt_values = [GV_uint64 0, GV_uint64 1]\<rparr>,
     \<lparr>opt_id = Some ''bitorder'', opt_idn = Some ''dec_spi_fast_opt_bitorder'', opt_desc = Some (''Bit order('' @ bytes_str [0xE4, 0xBD, 0x8D, 0xE5, 0xBA, 0x8F] @ '')''),
        opt_def = Some (GV_string ''msb-first''), opt_values = [GV_string ''msb-first'', GV_string ''lsb-first'']\<rparr>,
     \<lparr>opt_id = Some ''wordsize'', opt_idn = Some ''dec_spi_fast_opt_wordsize'', opt_desc = Some (''Word size('' @ bytes_str [0xE5, 0xAD, 0x97, 0xE9, 0x95, 0xBF] @ '')''),
        opt_def = Some (GV_uint64 8), opt_values = []\<rparr>,
     \<lparr>opt_id = Some ''format'', opt_idn = Some ''dec_spi_fast_opt_format'', opt_desc = Some (''Data format('' @ bytes_str [0xE6, 0x95, 0xB0, 0xE6, 0x8D, 0xAE, 0xE6, 0xA0, 0xBC, 0xE5, 0xBC, 0x8F] @ '')''),
        opt_def = Some (GV_string ''hex''), opt_values = [GV_string ''ascii'', GV_string ''dec'', GV_string ''hex'', GV_string ''oct'', GV_string ''bin'']\<rparr>,
     \<lparr>opt_id = Some ''show_data_point'', opt_idn = Some ''dec_spi_fast_opt_show_data_point'', opt_desc = Some (''Show data point('' @ bytes_str [0xE6, 0x95, 0xB0, 0xE6, 0x8D, 0xAE, 0xE7, 0x82, 0xB9, 0xE6, 0x98, 0xBE, 0xE7, 0xA4, 0xBA] @ '')''),
        opt_def = Some (GV_string ''no''), opt_values = [GV_string ''yes'', GV_string ''no'']\<rparr>]"

definition spi_fast_channels :: "srd_channel list" where
  "spi_fast_channels = [
     \<lparr>ch_id = Some ''clk'', ch_name = Some ''CLK'', ch_desc = Some (''Clock('' @ bytes_str [0xE4, 0xB8, 0xB2, 0xE8, 0xA1, 0x8C, 0xE6, 0x97, 0xB6, 0xE9, 0x92, 0x9F] @ '')''), ch_order = 0, ch_type = 0, ch_idn = None\<rparr>]"

definition spi_fast_optional_channels :: "srd_channel list" where
  "spi_fast_optional_channels = [
     \<lparr>ch_id = Some ''miso'', ch_name = Some ''MISO'', ch_desc = Some (''Master in, slave out('' @ bytes_str [0xE4, 0xB8, 0xBB, 0xE5, 0x85, 0xA5, 0xE4, 0xBB, 0x8E, 0xE5, 0x87, 0xBA] @ '')''), ch_order = 1, ch_type = 1, ch_idn = None\<rparr>,
     \<lparr>ch_id = Some ''mosi'', ch_name = Some ''MOSI'', ch_desc = Some (''Master out, slave in('' @ bytes_str [0xE4, 0xB8, 0xBB, 0xE5, 0x87, 0xBA, 0xE4, 0xBB, 0x8E, 0xE5, 0x85, 0xA5] @ '')''), ch_order = 2, ch_type = 1, ch_idn = None\<rparr>,
     \<lparr>ch_id = Some ''cs'', ch_name = Some ''CS#'', ch_desc = Some (''Chip-select('' @ bytes_str [0xE7, 0x89, 0x87, 0xE9, 0x80, 0x89, 0xE4, 0xBF, 0xA1, 0xE5, 0x8F, 0xB7] @ '')''), ch_order = 3, ch_type = -1, ch_idn = None\<rparr>]"

definition spi_fast_ann_labels :: "(string option \<times> string option \<times> string option) list" where
  "spi_fast_ann_labels = [
     (Some [], Some ''miso-data'', Some ''MISO data''),
     (Some [], Some ''mosi-data'', Some ''MOSI data''),
     (Some [], Some ''atk-data-point'', Some ''ATK Data point''),
     (Some [], Some ''atk-rising-edge'', Some ''ATK Rising edge''),
     (Some [], Some ''atk-falling-edge'', Some ''ATK Falling edge'')]"

definition spi_fast_ann_rows :: "srd_c_ann_row list" where
  "spi_fast_ann_rows = [
     \<lparr>car_id = Some ''miso-data-vals'', car_desc = Some ''MISO data'', car_ann_classes = Some [0], car_num_ann_classes = 1\<rparr>,
     \<lparr>car_id = Some ''mosi-data-vals'', car_desc = Some ''MOSI data'', car_ann_classes = Some [1], car_num_ann_classes = 1\<rparr>,
     \<lparr>car_id = Some ''atk-signs'', car_desc = Some ''ATK signs'', car_ann_classes = Some [2, 3, 4], car_num_ann_classes = 3\<rparr>]"

definition spi_fast_binary :: "srd_decoder_binary list" where
  "spi_fast_binary = [
     \<lparr>bin_class = 0, bin_id = Some ''miso'', bin_desc = Some ''MISO''\<rparr>,
     \<lparr>bin_class = 1, bin_id = Some ''mosi'', bin_desc = Some ''MOSI''\<rparr>]"

definition spi_fast_inputs :: "string list" where
  "spi_fast_inputs = [
     ''logic'']"

definition spi_fast_outputs :: "string list" where
  "spi_fast_outputs = [
     ''spi'']"

definition spi_fast_tags :: "string list" where
  "spi_fast_tags = [
     ''Embedded/industrial'']"

definition spi_fast_c_def :: srd_c_decoder where
  "spi_fast_c_def = \<lparr>cd_id = Some ''spi_fast_c'', cd_name = Some ''SPI-Fast(C)'',
     cd_longname = Some ''Serial Peripheral Interface (C)'', cd_desc = Some ''SPI protocol decoder ultra-fast version (C implementation)'', cd_license = Some ''gplv2+'',
     cd_channels = Some spi_fast_channels, cd_num_channels = 1,
     cd_optional_channels = Some spi_fast_optional_channels, cd_num_optional_channels = 3,
     cd_options = Some spi_fast_options, cd_num_options = 7,
     cd_num_annotations = 5, cd_ann_labels = Some spi_fast_ann_labels,
     cd_num_annotation_rows = 3, cd_annotation_rows = Some spi_fast_ann_rows,
     cd_inputs = Some spi_fast_inputs, cd_num_inputs = 1, cd_outputs = Some spi_fast_outputs, cd_num_outputs = 1,
     cd_binary = Some spi_fast_binary, cd_num_binary = 2, cd_tags = Some spi_fast_tags, cd_num_tags = 1\<rparr>"

lemma spi_fast_described: "described spi_fast_c_def = (True, True, True)"
  by (simp add: described_simps spi_fast_options_def spi_fast_channels_def spi_fast_optional_channels_def spi_fast_ann_labels_def spi_fast_ann_rows_def spi_fast_binary_def spi_fast_inputs_def spi_fast_outputs_def spi_fast_tags_def spi_fast_c_def_def)

section \<open>spi_tpm_c.c\<close>

definition spi_tpm_options :: "srd_decoder_option list" where
  "spi_tpm_options = [
     \<lparr>opt_id = Some ''tpm_version'', opt_idn = Some ''dec_spi_tpm_opt_tpm_version'', opt_desc = Some ''TPM Version 1.2 or 2.0'',
        opt_def = Some (GV_string ''2.0''), opt_values = [GV_string ''2.0'', GV_string ''1.2'']\<rparr>]"

definition spi_tpm_ann_labels :: "(string option \<times> string option \<times> string option) list" where
  "spi_tpm_ann_labels = [
     (Some [], Some ''Read'', Some ''Read register operation''),
     (Some [], Some ''Write'', Some ''Write register operation''),
     (Some [], Some ''Address'', Some ''Register address''),
     (Some [], Some ''Wait'', Some ''Wait''),
     (Some [], Some ''Data'', Some ''Data''),
     (Some [], Some ''VMK'', Some ''Extracted BitLocker VMK'')]"

definition spi_tpm_ann_rows :: "srd_c_ann_row list" where
  "spi_tpm_ann_rows = [
     \<lparr>car_id = Some ''Transactions'', car_desc = Some ''TPM transactions'', car_ann_classes = Some [0, 1, 2, 3, 4], car_num_ann_classes = 5\<rparr>,
     \<lparr>car_id = Some ''B-VMK'', car_desc = Some ''BitLocker Volume Master Key'', car_ann_classes = Some [5], car_num_ann_classes = 1\<rparr>]"

definition spi_tpm_inputs :: "string list" where
  "spi_tpm_inputs = [
     ''spi'']"

definition spi_tpm_tags :: "string list" where
  "spi_tpm_tags = [
     ''IC'',
     ''TPM'',
     ''BitLocker'']"

definition spi_tpm_c_def :: srd_c_decoder where
  "spi_tpm_c_def = \<lparr>cd_id = Some ''spi_tpm_c'', cd_name = Some ''SPI TPM(C)'',
     cd_longname = Some ''SPI TPM transactions (C)'', cd_desc = Some ''TPM SPI transaction decoder with VMK extraction (C implementation)'', cd_license = Some ''gplv2+'',
     cd_channels = None, cd_num_channels = 0,
     cd_optional_channels = None, cd_num_optional_channels = 0,
     cd_options = Some spi_tpm_options, cd_num_options = 1,
     cd_num_annotations = 6, cd_ann_labels = Some spi_tpm_ann_labels,
     cd_num_annotation_rows = 2, cd_annotation_rows = Some spi_tpm_ann_rows,
     cd_inputs = Some spi_tpm_inputs, cd_num_inputs = 1, cd_outputs = None, cd_num_outputs = 0,
     cd_binary = None, cd_num_binary = 0, cd_tags = Some spi_tpm_tags, cd_num_tags = 3\<rparr>"

lemma spi_tpm_described: "described spi_tpm_c_def = (True, True, True)"
  by (simp add: described_simps spi_tpm_options_def spi_tpm_ann_labels_def spi_tpm_ann_rows_def spi_tpm_inputs_def spi_tpm_tags_def spi_tpm_c_def_def)

section \<open>spiflash_c.c\<close>

definition spiflash_options :: "srd_decoder_option list" where
  "spiflash_options = [
     \<lparr>opt_id = Some ''chip'', opt_idn = Some ''dec_spiflash_opt_chip'', opt_desc = Some ''Chip'',
        opt_def = Some (GV_string ''macronix_mx25l1605d''), opt_values = [GV_string ''adesto_at45db161e'', GV_string ''fidelix_fm25q32'', GV_string ''macronix_mx25l1605d'', GV_string ''macronix_mx25l3205d'', GV_string ''macronix_mx25l6405d'', GV_string ''winbond_w25q80dv'']\<rparr>,
     \<lparr>opt_id = Some ''format'', opt_idn = Some ''dec_spiflash_opt_format'', opt_desc = Some ''Data format'',
        opt_def = Some (GV_string ''hex''), opt_values = [GV_string ''hex'', GV_string ''ascii'']\<rparr>]"

definition spiflash_ann_labels :: "(string option \<times> string option \<times> string option) list" where
  "spiflash_ann_labels = [
     (Some [], Some ''wrsr'', Some ''Write status register''),
     (Some [], Some ''pp'', Some ''Page program''),
     (Some [], Some ''read'', Some ''Read data''),
     (Some [], Some ''wrdi'', Some ''Write disable''),
     (Some [], Some ''rdsr'', Some ''Read status register''),
     (Some [], Some ''wren'', Some ''Write enable''),
     (Some [], Some ''fast_read'', Some ''Fast read data''),
     (Some [], Some ''se'', Some ''Sector erase''),
     (Some [], Some ''rdscur'', Some ''Read security register''),
     (Some [], Some ''wrscur'', Some ''Write security register''),
     (Some [], Some ''rdsr2'', Some ''Read status register 2''),
     (Some [], Some ''ce'', Some ''Chip erase''),
     (Some [], Some ''esry'', Some ''Enable SO to output RY/BY#''),
     (Some [], Some ''dsry'', Some ''Disable SO to output RY/BY#''),
     (Some [], Some ''write1'', Some ''Main memory page program through buffer 1''),
     (Some [], Some ''write2'', Some ''Main memory page program through buffer 2''),
     (Some [], Some ''rems'', Some ''Read electronic manufacturer & device ID''),
     (Some [], Some ''rdid'', Some ''Read identification''),
     (Some [], Some ''rdp_res'', Some ''Release from deep powerdown / Read electronic ID''),
     (Some [], Some ''cp'', Some ''Continuously program mode''),
     (Some [], Some ''enso'', Some ''Enter secured OTP''),
     (Some [], Some ''dp'', Some ''Deep power down''),
     (Some [], Some ''2read'', Some ''2x I/O read''),
     (Some [], Some ''exso'', Some ''Exit secured OTP''),
     (Some [], Some ''ce2'', Some ''Chip erase''),
     (Some [], Some ''status'', Some ''Status register read''),
     (Some [], Some ''be'', Some ''Block erase''),
     (Some [], Some ''rems2'', Some ''Read ID for 2x I/O mode''),
     (Some [], Some ''bit'', Some ''Bit''),
     (Some [], Some ''field'', Some ''Field''),
     (Some [], Some ''warning'', Some ''Warning'')]"

definition spiflash_ann_rows :: "srd_c_ann_row list" where
  "spiflash_ann_rows = [
     \<lparr>car_id = Some ''bits'', car_desc = Some ''Bits'', car_ann_classes = Some [28], car_num_ann_classes = 1\<rparr>,
     \<lparr>car_id = Some ''fields'', car_desc = Some ''Fields'', car_ann_classes = Some [29], car_num_ann_classes = 1\<rparr>,
     \<lparr>car_id = Some ''commands'', car_desc = Some ''Commands'', car_ann_classes = Some [0, 1, 2, 3, 4, 5, 6, 7, 8, 9, 10, 11, 12, 13, 14, 15, 16, 17, 18, 19, 20, 21, 22, 23, 24, 25, 26, 27], car_num_ann_classes = 28\<rparr>,
     \<lparr>car_id = Some ''warnings'', car_desc = Some ''Warnings'', car_ann_classes = Some [30], car_num_ann_classes = 1\<rparr>]"

definition spiflash_inputs :: "string list" where
  "spiflash_inputs = [
     ''spi'']"

definition spiflash_tags :: "string list" where
  "spiflash_tags = [
     ''IC'',
     ''Memory'']"

definition spiflash_c_def :: srd_c_decoder where
  "spiflash_c_def = \<lparr>cd_id = Some ''spiflash_c'', cd_name = Some ''SPI Flash(C)'',
     cd_longname = Some ''xx25 series SPI NOR flash chips (C)'', cd_desc = Some ''xx25 series SPI NOR flash chip protocol decoder (C implementation)'', cd_license = Some ''gplv2+'',
     cd_channels = None, cd_num_channels = 0,
     cd_optional_channels = None, cd_num_optional_channels = 0,
     cd_options = Some spiflash_options, cd_num_options = 2,
     cd_num_annotations = 31, cd_ann_labels = Some spiflash_ann_labels,
     cd_num_annotation_rows = 4, cd_annotation_rows = Some spiflash_ann_rows,
     cd_inputs = Some spiflash_inputs, cd_num_inputs = 1, cd_outputs = None, cd_num_outputs = 0,
     cd_binary = None, cd_num_binary = 0, cd_tags = Some spiflash_tags, cd_num_tags = 2\<rparr>"

lemma spiflash_described: "described spiflash_c_def = (True, True, True)"
  by (simp add: described_simps spiflash_options_def spiflash_ann_labels_def spiflash_ann_rows_def spiflash_inputs_def spiflash_tags_def spiflash_c_def_def)

section \<open>ssi32_c.c\<close>

definition ssi32_options :: "srd_decoder_option list" where
  "ssi32_options = [
     \<lparr>opt_id = Some ''msgsize'', opt_idn = Some ''dec_ssi32_opt_msgsize'', opt_desc = Some ''Message size'',
        opt_def = Some (GV_int64 64), opt_values = [GV_int64 64]\<rparr>]"

definition ssi32_ann_labels :: "(string option \<times> string option \<times> string option) list" where
  "ssi32_ann_labels = [
     (Some [], Some ''ctrl-tx'', Some ''CTRL TX''),
     (Some [], Some ''ack-tx'', Some ''ACK TX''),
     (Some [], Some ''ctrl-rx'', Some ''CTRL RX''),
     (Some [], Some ''ack-rx'', Some ''ACK RX'')]"

definition ssi32_ann_rows :: "srd_c_ann_row list" where
  "ssi32_ann_rows = [
     \<lparr>car_id = Some ''tx'', car_desc = Some ''TX'', car_ann_classes = Some [0, 1], car_num_ann_classes = 2\<rparr>,
     \<lparr>car_id = Some ''rx'', car_desc = Some ''RX'', car_ann_classes = Some [2, 3], car_num_ann_classes = 2\<rparr>]"

definition ssi32_inputs :: "string list" where
  "ssi32_inputs = [
     ''spi'']"

definition ssi32_tags :: "string list" where
  "ssi32_tags = [
     ''Embedded/industrial'']"

definition ssi32_c_def :: srd_c_decoder where
  "ssi32_c_def = \<lparr>cd_id = Some ''ssi32_c'', cd_name = Some ''SSI32(C)'',
     cd_longname = Some ''Synchronous Serial Interface (32bit) (C)'', cd_desc = Some ''Synchronous Serial Interface (32bit) protocol. (C implementation)'', cd_license = Some ''gplv2+'',
     cd_channels = None, cd_num_channels = 0,
     cd_optional_channels = None, cd_num_optional_channels = 0,
     cd_options = Some ssi32_options, cd_num_options = 1,
     cd_num_annotations = 4, cd_ann_labels = Some ssi32_ann_labels,
     cd_num_annotation_rows = 2, cd_annotation_rows = Some ssi32_ann_rows,
     cd_inputs = Some ssi32_inputs, cd_num_inputs = 1, cd_outputs = None, cd_num_outputs = 0,
     cd_binary = None, cd_num_binary = 0, cd_tags = Some ssi32_tags, cd_num_tags = 1\<rparr>"

lemma ssi32_described: "described ssi32_c_def = (True, True, True)"
  by (simp add: described_simps ssi32_options_def ssi32_ann_labels_def ssi32_ann_rows_def ssi32_inputs_def ssi32_tags_def ssi32_c_def_def)

section \<open>st25dv_c.c\<close>

definition st25dv_ann_labels :: "(string option \<times> string option \<times> string option) list" where
  "st25dv_ann_labels = [
     (Some [], Some ''sys'', Some ''System''),
     (Some [], Some ''data'', Some ''Data''),
     (Some [], Some ''read'', Some ''Read''),
     (Some [], Some ''write'', Some ''Write''),
     (Some [], Some ''error'', Some ''Error'')]"

definition st25dv_ann_rows :: "srd_c_ann_row list" where
  "st25dv_ann_rows = [
     \<lparr>car_id = Some ''regs'', car_desc = Some ''Register access'', car_ann_classes = Some [0, 1, 2, 3, 4], car_num_ann_classes = 5\<rparr>]"

definition st25dv_inputs :: "string list" where
  "st25dv_inputs = [
     ''i2c'']"

definition st25dv_outputs :: "string list" where
  "st25dv_outputs = [
     ''st25dv'']"

definition st25dv_tags :: "string list" where
  "st25dv_tags = [
     ''Embedded/industrial'']"

definition st25dv_c_def :: srd_c_decoder where
  "st25dv_c_def = \<lparr>cd_id = Some ''st25dv_c'', cd_name = Some ''ST25DV(C)'',
     cd_longname = Some ''ST25DV'', cd_desc = Some ''ST25DV NFC EEPROM'', cd_license = Some ''mit'',
     cd_channels = None, cd_num_channels = 0,
     cd_optional_channels = None, cd_num_optional_channels = 0,
     cd_options = None, cd_num_options = 0,
     cd_num_annotations = 5, cd_ann_labels = Some st25dv_ann_labels,
     cd_num_annotation_rows = 1, cd_annotation_rows = Some st25dv_ann_rows,
     cd_inputs = Some st25dv_inputs, cd_num_inputs = 1, cd_outputs = Some st25dv_outputs, cd_num_outputs = 1,
     cd_binary = None, cd_num_binary = 0, cd_tags = Some st25dv_tags, cd_num_tags = 1\<rparr>"

lemma st25dv_described: "described st25dv_c_def = (True, True, True)"
  by (simp add: described_simps st25dv_ann_labels_def st25dv_ann_rows_def st25dv_inputs_def st25dv_outputs_def st25dv_tags_def st25dv_c_def_def)

section \<open>st25r39xx_spi_c.c\<close>

definition st25r39xx_spi_ann_labels :: "(string option \<times> string option \<times> string option) list" where
  "st25r39xx_spi_ann_labels = [
     (Some [], Some ''Read'', Some ''Burst register read''),
     (Some [], Some ''Write'', Some ''Burst register write''),
     (Some [], Some ''ReadB'', Some ''Burst register SpaceB read''),
     (Some [], Some ''WriteB'', Some ''Burst register SpaceB write''),
     (Some [], Some ''ReadT'', Some ''Burst register Test read''),
     (Some [], Some ''WriteT'', Some ''Burst register Test write''),
     (Some [], Some ''Cmd'', Some ''Direct command''),
     (Some [], Some ''FIFOW'', Some ''FIFO write''),
     (Some [], Some ''FIFOR'', Some ''FIFO read''),
     (Some [], Some ''status_reg'', Some ''Status register''),
     (Some [], Some ''warning'', Some ''Warning'')]"

definition st25r39xx_spi_ann_rows :: "srd_c_ann_row list" where
  "st25r39xx_spi_ann_rows = [
     \<lparr>car_id = Some ''regs'', car_desc = Some ''Regs'', car_ann_classes = Some [0, 1, 2, 3, 4, 5], car_num_ann_classes = 6\<rparr>,
     \<lparr>car_id = Some ''cmds'', car_desc = Some ''Commands'', car_ann_classes = Some [6], car_num_ann_classes = 1\<rparr>,
     \<lparr>car_id = Some ''data'', car_desc = Some ''Data'', car_ann_classes = Some [7, 8], car_num_ann_classes = 2\<rparr>,
     \<lparr>car_id = Some ''status'', car_desc = Some ''Status register'', car_ann_classes = Some [9], car_num_ann_classes = 1\<rparr>,
     \<lparr>car_id = Some ''warnings'', car_desc = Some ''Warnings'', car_ann_classes = Some [10], car_num_ann_classes = 1\<rparr>]"

definition st25r39xx_spi_inputs :: "string list" where
  "st25r39xx_spi_inputs = [
     ''spi'']"

definition st25r39xx_spi_tags :: "string list" where
  "st25r39xx_spi_tags = [
     ''IC'',
     ''Wireless/RF'']"

definition st25r39xx_spi_c_def :: srd_c_decoder where
  "st25r39xx_spi_c_def = \<lparr>cd_id = Some ''st25r39xx_spi_c'', cd_name = Some ''ST25R39xx(C)'',
     cd_longname = Some ''STMicroelectronics ST25R39xx (C)'', cd_desc = Some ''ST25R39xx NFC chip SPI protocol decoder (C implementation)'', cd_license = Some ''gplv2+'',
     cd_channels = None, cd_num_channels = 0,
     cd_optional_channels = None, cd_num_optional_channels = 0,
     cd_options = None, cd_num_options = 0,
     cd_num_annotations = 11, cd_ann_labels = Some st25r39xx_spi_ann_labels,
     cd_num_annotation_rows = 5, cd_annotation_rows = Some st25r39xx_spi_ann_rows,
     cd_inputs = Some st25r39xx_spi_inputs, cd_num_inputs = 1, cd_outputs = None, cd_num_outputs = 0,
     cd_binary = None, cd_num_binary = 0, cd_tags = Some st25r39xx_spi_tags, cd_num_tags = 2\<rparr>"

lemma st25r39xx_spi_described: "described st25r39xx_spi_c_def = (True, True, True)"
  by (simp add: described_simps st25r39xx_spi_ann_labels_def st25r39xx_spi_ann_rows_def st25r39xx_spi_inputs_def st25r39xx_spi_tags_def st25r39xx_spi_c_def_def)

section \<open>st7735_c.c\<close>

definition st7735_channels :: "srd_channel list" where
  "st7735_channels = [
     \<lparr>ch_id = Some ''cs'', ch_name = Some ''CS#'', ch_desc = Some ''Chip-select'', ch_order = 0, ch_type = -1, ch_idn = Some ''dec_st7735_chan_cs''\<rparr>,
     \<lparr>ch_id = Some ''clk'', ch_name = Some ''CLK'', ch_desc = Some ''Clock'', ch_order = 1, ch_type = 0, ch_idn = Some ''dec_st7735_chan_clk''\<rparr>,
     \<lparr>ch_id = Some ''mosi'', ch_name = Some ''MOSI'', ch_desc = Some ''Master out, slave in'', ch_order = 2, ch_type = 1, ch_idn = Some ''dec_st7735_chan_mosi''\<rparr>,
     \<lparr>ch_id = Some ''dc'', ch_name = Some ''DC'', ch_desc = Some ''Data or command'', ch_order = 3, ch_type = -1, ch_idn = Some ''dec_st7735_chan_dc''\<rparr>]"

definition st7735_ann_labels :: "(string option \<times> string option \<times> string option) list" where
  "st7735_ann_labels = [
     (Some [], Some ''bit'', Some ''Bit''),
     (Some [], Some ''command'', Some ''Command''),
     (Some [], Some ''data'', Some ''Data''),
     (Some [], Some ''description'', Some ''Description'')]"

definition st7735_ann_rows :: "srd_c_ann_row list" where
  "st7735_ann_rows = [
     \<lparr>car_id = Some ''bits'', car_desc = Some ''Bits'', car_ann_classes = Some [0], car_num_ann_classes = 1\<rparr>,
     \<lparr>car_id = Some ''fields'', car_desc = Some ''Fields'', car_ann_classes = Some [1, 2], car_num_ann_classes = 2\<rparr>,
     \<lparr>car_id = Some ''description'', car_desc = Some ''Description'', car_ann_classes = Some [3], car_num_ann_classes = 1\<rparr>]"

definition st7735_inputs :: "string list" where
  "st7735_inputs = [
     ''logic'']"

definition st7735_tags :: "string list" where
  "st7735_tags = [
     ''Display'',
     ''IC'']"

definition st7735_c_def :: srd_c_decoder where
  "st7735_c_def = \<lparr>cd_id = Some ''st7735_c'', cd_name = Some ''ST7735(C)'',
     cd_longname = Some ''Sitronix ST7735 (C)'', cd_desc = Some ''Sitronix ST7735 TFT controller protocol. (C implementation)'', cd_license = Some ''gplv2+'',
     cd_channels = Some st7735_channels, cd_num_channels = 4,
     cd_optional_channels = None, cd_num_optional_channels = 0,
     cd_options = None, cd_num_options = 0,
     cd_num_annotations = 4, cd_ann_labels = Some st7735_ann_labels,
     cd_num_annotation_rows = 3, cd_annotation_rows = Some st7735_ann_rows,
     cd_inputs = Some st7735_inputs, cd_num_inputs = 1, cd_outputs = None, cd_num_outputs = 0,
     cd_binary = None, cd_num_binary = 0, cd_tags = Some st7735_tags, cd_num_tags = 2\<rparr>"

lemma st7735_described: "described st7735_c_def = (True, True, True)"
  by (simp add: described_simps st7735_channels_def st7735_ann_labels_def st7735_ann_rows_def st7735_inputs_def st7735_tags_def st7735_c_def_def)

section \<open>st7789_c.c\<close>

definition st7789_channels :: "srd_channel list" where
  "st7789_channels = [
     \<lparr>ch_id = Some ''csx'', ch_name = Some ''CSX'', ch_desc = Some ''Chip selection signal'', ch_order = 0, ch_type = -1, ch_idn = Some ''dec_st7789_chan_csx''\<rparr>,
     \<lparr>ch_id = Some ''dcx'', ch_name = Some ''DCX'', ch_desc = Some ''Clock signal'', ch_order = 1, ch_type = -1, ch_idn = Some ''dec_st7789_chan_dcx''\<rparr>,
     \<lparr>ch_id = Some ''sdo'', ch_name = Some ''SDO'', ch_desc = Some ''Serial output data'', ch_order = 2, ch_type = 1, ch_idn = Some ''dec_st7789_chan_sdo''\<rparr>,
     \<lparr>ch_id = Some ''wrx'', ch_name = Some ''WRX'', ch_desc = Some ''Command / data'', ch_order = 3, ch_type = -1, ch_idn = Some ''dec_st7789_chan_wrx''\<rparr>]"

definition st7789_ann_labels :: "(string option \<times> string option \<times> string option) list" where
  "st7789_ann_labels = [
     (Some [], Some ''bit'', Some ''Bit''),
     (Some [], Some ''command'', Some ''Command''),
     (Some [], Some ''data'', Some ''Data''),
     (Some [], Some ''cmd_data'', Some ''Command + Data''),
     (Some [], Some ''asserted'', Some ''Assertion'')]"

definition st7789_ann_rows :: "srd_c_ann_row list" where
  "st7789_ann_rows = [
     \<lparr>car_id = Some ''bits'', car_desc = Some ''Bits'', car_ann_classes = Some [0], car_num_ann_classes = 1\<rparr>,
     \<lparr>car_id = Some ''bytes'', car_desc = Some ''Bytes'', car_ann_classes = Some [1, 2], car_num_ann_classes = 2\<rparr>,
     \<lparr>car_id = Some ''cmd_data'', car_desc = Some ''Command + Data'', car_ann_classes = Some [3], car_num_ann_classes = 1\<rparr>,
     \<lparr>car_id = Some ''asserted'', car_desc = Some ''Assertion'', car_ann_classes = Some [4], car_num_ann_classes = 1\<rparr>]"

definition st7789_inputs :: "string list" where
  "st7789_inputs = [
     ''logic'']"

definition st7789_tags :: "string list" where
  "st7789_tags = [
     ''Display'',
     ''SPI'']"

definition st7789_c_def :: srd_c_decoder where
  "st7789_c_def = \<lparr>cd_id = Some ''st7789_c'', cd_name = Some ''ST7789(C)'',
     cd_longname = Some ''Sitronix ST7789 (C)'', cd_desc = Some ''Sitronix ST7789 TFT controller protocol. (C implementation)'', cd_license = Some ''gplv2+'',
     cd_channels = Some st7789_channels, cd_num_channels = 4,
     cd_optional_channels = None, cd_num_optional_channels = 0,
     cd_options = None, cd_num_options = 0,
     cd_num_annotations = 5, cd_ann_labels = Some st7789_ann_labels,
     cd_num_annotation_rows = 4, cd_annotation_rows = Some st7789_ann_rows,
     cd_inputs = Some st7789_inputs, cd_num_inputs = 1, cd_outputs = None, cd_num_outputs = 0,
     cd_binary = None, cd_num_binary = 0, cd_tags = Some st7789_tags, cd_num_tags = 2\<rparr>"

lemma st7789_described: "described st7789_c_def = (True, True, True)"
  by (simp add: described_simps st7789_channels_def st7789_ann_labels_def st7789_ann_rows_def st7789_inputs_def st7789_tags_def st7789_c_def_def)

section \<open>stepper_motor_c.c\<close>

definition stepper_motor_options :: "srd_decoder_option list" where
  "stepper_motor_options = [
     \<lparr>opt_id = Some ''unit'', opt_idn = Some ''dec_stepper_motor_opt_unit'', opt_desc = Some ''Unit'',
        opt_def = Some (GV_string ''steps''), opt_values = [GV_string ''steps'', GV_string ''mm'']\<rparr>,
     \<lparr>opt_id = Some ''steps_per_mm'', opt_idn = Some ''dec_stepper_motor_opt_steps_per_mm'', opt_desc = Some ''Steps per mm'',
        opt_def = Some (GV_double 100), opt_values = []\<rparr>]"

definition stepper_motor_channels :: "srd_channel list" where
  "stepper_motor_channels = [
     \<lparr>ch_id = Some ''step'', ch_name = Some ''Step'', ch_desc = Some ''Step pulse'', ch_order = 0, ch_type = 0, ch_idn = Some ''dec_stepper_motor_chan_step''\<rparr>,
     \<lparr>ch_id = Some ''dir'', ch_name = Some ''Direction'', ch_desc = Some ''Direction select'', ch_order = 1, ch_type = 1, ch_idn = Some ''dec_stepper_motor_chan_dir''\<rparr>]"

definition stepper_motor_ann_labels :: "(string option \<times> string option \<times> string option) list" where
  "stepper_motor_ann_labels = [
     (Some [], Some ''speed'', Some ''Speed''),
     (Some [], Some ''position'', Some ''Position'')]"

definition stepper_motor_ann_rows :: "srd_c_ann_row list" where
  "stepper_motor_ann_rows = [
     \<lparr>car_id = Some ''speed'', car_desc = Some ''Speed'', car_ann_classes = Some [0], car_num_ann_classes = 1\<rparr>,
     \<lparr>car_id = Some ''position'', car_desc = Some ''Position'', car_ann_classes = Some [1], car_num_ann_classes = 1\<rparr>]"

definition stepper_motor_inputs :: "string list" where
  "stepper_motor_inputs = [
     ''logic'']"

definition stepper_motor_tags :: "string list" where
  "stepper_motor_tags = [
     ''Embedded/industrial'']"

definition stepper_motor_c_def :: srd_c_decoder where
  "stepper_motor_c_def = \<lparr>cd_id = Some ''stepper_motor_c'', cd_name = Some ''Stepper motor(C)'',
     cd_longname = Some ''Stepper motor position / speed (C)'', cd_desc = Some ''Absolute position and movement speed from step/dir (C implementation)'', cd_license = Some ''gplv2+'',
     cd_channels = Some stepper_motor_channels, cd_num_channels = 2,
     cd_optional_channels = None, cd_num_optional_channels = 0,
     cd_options = Some stepper_motor_options, cd_num_options = 2,
     cd_num_annotations = 2, cd_ann_labels = Some stepper_motor_ann_labels,
     cd_num_annotation_rows = 2, cd_annotation_rows = Some stepper_motor_ann_rows,
     cd_inputs = Some stepper_motor_inputs, cd_num_inputs = 1, cd_outputs = None, cd_num_outputs = 0,
     cd_binary = None, cd_num_binary = 0, cd_tags = Some stepper_motor_tags, cd_num_tags = 1\<rparr>"

lemma stepper_motor_described: "described stepper_motor_c_def = (True, True, True)"
  by (simp add: described_simps stepper_motor_options_def stepper_motor_channels_def stepper_motor_ann_labels_def stepper_motor_ann_rows_def stepper_motor_inputs_def stepper_motor_tags_def stepper_motor_c_def_def)

section \<open>streletz_c.c\<close>

definition streletz_options :: "srd_decoder_option list" where
  "streletz_options = [
     \<lparr>opt_id = Some ''header_tx'', opt_idn = Some ''dec_streletz_opt_header_tx'', opt_desc = Some ''Request header'',
        opt_def = Some (GV_int64 217), opt_values = []\<rparr>,
     \<lparr>opt_id = Some ''header_rx'', opt_idn = Some ''dec_streletz_opt_header_rx'', opt_desc = Some ''Response header'',
        opt_def = Some (GV_int64 157), opt_values = []\<rparr>]"

definition streletz_ann_labels :: "(string option \<times> string option \<times> string option) list" where
  "streletz_ann_labels = [
     (Some [], Some ''head'', Some ''Header''),
     (Some [], Some ''datasize'', Some ''Data Size''),
     (Some [], Some ''checksum'', Some ''Checksum''),
     (Some [], Some ''answer'', Some ''Answer''),
     (Some [], Some ''command'', Some ''Command''),
     (Some [], Some ''rx-data'', Some ''RX Data''),
     (Some [], Some ''tx-data'', Some ''TX Data''),
     (Some [], Some ''rx-packet'', Some ''RX packet''),
     (Some [], Some ''tx-packet'', Some ''TX packet''),
     (Some [], Some ''warning'', Some ''Warning'')]"

definition streletz_ann_rows :: "srd_c_ann_row list" where
  "streletz_ann_rows = [
     \<lparr>car_id = Some ''framing'', car_desc = Some ''Framing'', car_ann_classes = Some [0, 1, 2], car_num_ann_classes = 3\<rparr>,
     \<lparr>car_id = Some ''data'', car_desc = Some ''Data'', car_ann_classes = Some [3, 4, 5, 6], car_num_ann_classes = 4\<rparr>,
     \<lparr>car_id = Some ''warnings'', car_desc = Some ''Warnings'', car_ann_classes = Some [9], car_num_ann_classes = 1\<rparr>,
     \<lparr>car_id = Some ''packets'', car_desc = Some ''Packets'', car_ann_classes = Some [7, 8], car_num_ann_classes = 2\<rparr>]"

definition streletz_inputs :: "string list" where
  "streletz_inputs = [
     ''uart'']"

definition streletz_outputs :: "string list" where
  "streletz_outputs = [
     ''streletz'']"

definition streletz_tags :: "string list" where
  "streletz_tags = [
     ''Embedded/industrial'']"

definition streletz_c_def :: srd_c_decoder where
  "streletz_c_def = \<lparr>cd_id = Some ''streletz_c'', cd_name = Some ''Streletz(C)'',
     cd_longname = Some ''Streletz RS232 Serial Bus (C)'', cd_desc = Some ''Serial bus for guard system Streletz (C implementation)'', cd_license = Some ''mit'',
     cd_channels = None, cd_num_channels = 0,
     cd_optional_channels = None, cd_num_optional_channels = 0,
     cd_options = Some streletz_options, cd_num_options = 2,
     cd_num_annotations = 10, cd_ann_labels = Some streletz_ann_labels,
     cd_num_annotation_rows = 4, cd_annotation_rows = Some streletz_ann_rows,
     cd_inputs = Some streletz_inputs, cd_num_inputs = 1, cd_outputs = Some streletz_outputs, cd_num_outputs = 1,
     cd_binary = None, cd_num_binary = 0, cd_tags = Some streletz_tags, cd_num_tags = 1\<rparr>"

lemma streletz_described: "described streletz_c_def = (True, True, True)"
  by (simp add: described_simps streletz_options_def streletz_ann_labels_def streletz_ann_rows_def streletz_inputs_def streletz_outputs_def streletz_tags_def streletz_c_def_def)

section \<open>swd_c.c\<close>

definition swd_options :: "srd_decoder_option list" where
  "swd_options = [
     \<lparr>opt_id = Some ''strict_start'', opt_idn = Some ''dec_swd_opt_strict_start'', opt_desc = Some ''Wait for a line reset before starting to decode'',
        opt_def = Some (GV_string ''no''), opt_values = [GV_string ''yes'', GV_string ''no'']\<rparr>]"

definition swd_channels :: "srd_channel list" where
  "swd_channels = [
     \<lparr>ch_id = Some ''swclk'', ch_name = Some ''SWCLK'', ch_desc = Some ''Master clock'', ch_order = 0, ch_type = 0, ch_idn = Some ''dec_swd_chan_swclk''\<rparr>,
     \<lparr>ch_id = Some ''swdio'', ch_name = Some ''SWDIO'', ch_desc = Some ''Data input/output'', ch_order = 1, ch_type = 1, ch_idn = Some ''dec_swd_chan_swdio''\<rparr>]"

definition swd_ann_labels :: "(string option \<times> string option \<times> string option) list" where
  "swd_ann_labels = [
     (Some [], Some ''reset'', Some ''RESET''),
     (Some [], Some ''enable'', Some ''ENABLE''),
     (Some [], Some ''read'', Some ''READ''),
     (Some [], Some ''write'', Some ''WRITE''),
     (Some [], Some ''ack'', Some ''ACK''),
     (Some [], Some ''data'', Some ''DATA''),
     (Some [], Some ''parity'', Some ''PARITY'')]"

definition swd_ann_rows :: "srd_c_ann_row list" where
  "swd_ann_rows = [
     \<lparr>car_id = Some ''swd'', car_desc = Some ''SWD'', car_ann_classes = Some [0, 1, 2, 3, 4, 5, 6], car_num_ann_classes = 7\<rparr>]"

definition swd_inputs :: "string list" where
  "swd_inputs = [
     ''logic'']"

definition swd_outputs :: "string list" where
  "swd_outputs = [
     ''swd'']"

definition swd_tags :: "string list" where
  "swd_tags = [
     ''Debug/trace'']"

definition swd_c_def :: srd_c_decoder where
  "swd_c_def = \<lparr>cd_id = Some ''swd_c'', cd_name = Some ''SWD(C)'',
     cd_longname = Some ''Serial Wire Debug (C)'', cd_desc = Some ''SWD protocol decoder (C implementation, faster than Python)'', cd_license = Some ''gplv2+'',
     cd_channels = Some swd_channels, cd_num_channels = 2,
     cd_optional_channels = None, cd_num_optional_channels = 0,
     cd_options = Some swd_options, cd_num_options = 1,
     cd_num_annotations = 7, cd_ann_labels = Some swd_ann_labels,
     cd_num_annotation_rows = 1, cd_annotation_rows = Some swd_ann_rows,
     cd_inputs = Some swd_inputs, cd_num_inputs = 1, cd_outputs = Some swd_outputs, cd_num_outputs = 1,
     cd_binary = None, cd_num_binary = 0, cd_tags = Some swd_tags, cd_num_tags = 1\<rparr>"

lemma swd_described: "described swd_c_def = (True, True, True)"
  by (simp add: described_simps swd_options_def swd_channels_def swd_ann_labels_def swd_ann_rows_def swd_inputs_def swd_outputs_def swd_tags_def swd_c_def_def)

section \<open>swi_c.c\<close>

definition swi_channels :: "srd_channel list" where
  "swi_channels = [
     \<lparr>ch_id = Some ''swi'', ch_name = Some ''SWI'', ch_desc = Some ''SWI channel'', ch_order = 0, ch_type = 1, ch_idn = None\<rparr>]"

definition swi_ann_labels :: "(string option \<times> string option \<times> string option) list" where
  "swi_ann_labels = [
     (Some [], Some ''baud_rate'', Some ''Bauds''),
     (Some [], Some ''bits'', Some ''Bits''),
     (Some [], Some ''bytes'', Some ''Words''),
     (Some [], Some ''err'', Some ''Errors''),
     (Some [], Some ''mean'', Some ''Means''),
     (Some [], Some ''pbytes'', Some ''Byte''),
     (Some [], Some ''nmbr'', Some ''Number'')]"

definition swi_ann_rows :: "srd_c_ann_row list" where
  "swi_ann_rows = [
     \<lparr>car_id = Some ''bauds'', car_desc = Some ''Timing'', car_ann_classes = Some [0], car_num_ann_classes = 1\<rparr>,
     \<lparr>car_id = Some ''bits_a'', car_desc = Some ''Bits'', car_ann_classes = Some [1], car_num_ann_classes = 1\<rparr>,
     \<lparr>car_id = Some ''data'', car_desc = Some ''Words'', car_ann_classes = Some [2], car_num_ann_classes = 1\<rparr>,
     \<lparr>car_id = Some ''errors'', car_desc = Some ''Errors'', car_ann_classes = Some [3], car_num_ann_classes = 1\<rparr>,
     \<lparr>car_id = Some ''meanings'', car_desc = Some ''Meaning'', car_ann_classes = Some [4], car_num_ann_classes = 1\<rparr>,
     \<lparr>car_id = Some ''meanings_data'', car_desc = Some ''Data'', car_ann_classes = Some [5], car_num_ann_classes = 1\<rparr>,
     \<lparr>car_id = Some ''numbs'', car_desc = Some ''Numbers'', car_ann_classes = Some [6], car_num_ann_classes = 1\<rparr>]"

definition swi_inputs :: "string list" where
  "swi_inputs = [
     ''logic'']"

definition swi_tags :: "string list" where
  "swi_tags = [
     ''Clock/timing'',
     ''Util'']"

definition swi_c_def :: srd_c_decoder where
  "swi_c_def = \<lparr>cd_id = Some ''swi_c'', cd_name = Some ''SWI(C)'',
     cd_longname = Some ''Infineon SWI(C)'', cd_desc = Some ''Infineon Single Wire Interface protocol (C implementation)'', cd_license = Some ''gplv2+'',
     cd_channels = Some swi_channels, cd_num_channels = 1,
     cd_optional_channels = None, cd_num_optional_channels = 0,
     cd_options = None, cd_num_options = 0,
     cd_num_annotations = 7, cd_ann_labels = Some swi_ann_labels,
     cd_num_annotation_rows = 7, cd_annotation_rows = Some swi_ann_rows,
     cd_inputs = Some swi_inputs, cd_num_inputs = 1, cd_outputs = None, cd_num_outputs = 0,
     cd_binary = None, cd_num_binary = 0, cd_tags = Some swi_tags, cd_num_tags = 2\<rparr>"

lemma swi_described: "described swi_c_def = (True, True, True)"
  by (simp add: described_simps swi_channels_def swi_ann_labels_def swi_ann_rows_def swi_inputs_def swi_tags_def swi_c_def_def)

section \<open>swim_c.c\<close>

definition swim_options :: "srd_decoder_option list" where
  "swim_options = [
     \<lparr>opt_id = Some ''debug'', opt_idn = Some ''dec_swim_opt_debug'', opt_desc = Some ''Debug'',
        opt_def = None, opt_values = []\<rparr>]"

definition swim_channels :: "srd_channel list" where
  "swim_channels = [
     \<lparr>ch_id = Some ''swim'', ch_name = Some ''SWIM'', ch_desc = Some ''SWIM data line'', ch_order = 0, ch_type = 1, ch_idn = Some ''dec_swim_chan_swim''\<rparr>]"

definition swim_ann_labels :: "(string option \<times> string option \<times> string option) list" where
  "swim_ann_labels = [
     (Some [], Some ''Bit'', Some ''Bit''),
     (Some [], Some ''SWIM enter sequence'', Some ''SWIM enter sequence''),
     (Some [], Some ''Start bit (host)'', Some ''Start bit (host)''),
     (Some [], Some ''Start bit (target)'', Some ''Start bit (target)''),
     (Some [], Some ''Parity bit'', Some ''Parity bit''),
     (Some [], Some ''Acknowledgement'', Some ''ACK''),
     (Some [], Some ''Negative acknowledgement'', Some ''NACK''),
     (Some [], Some ''Byte write'', Some ''Byte write''),
     (Some [], Some ''Byte read'', Some ''Byte read''),
     (Some [], Some ''Unknown SWIM command'', Some ''Unknown SWIM command''),
     (Some [], Some ''SWIM command'', Some ''SWIM command''),
     (Some [], Some ''Byte count'', Some ''Byte count''),
     (Some [], Some ''Address'', Some ''Address''),
     (Some [], Some ''Data write'', Some ''Data write''),
     (Some [], Some ''Data read'', Some ''Data read''),
     (Some [], Some ''Debug'', Some ''Debug'')]"

definition swim_ann_rows :: "srd_c_ann_row list" where
  "swim_ann_rows = [
     \<lparr>car_id = Some ''bits'', car_desc = Some ''Bits'', car_ann_classes = Some [0], car_num_ann_classes = 1\<rparr>,
     \<lparr>car_id = Some ''framing'', car_desc = Some ''Framing'', car_ann_classes = Some [2, 3, 4, 5, 6, 7, 8], car_num_ann_classes = 7\<rparr>,
     \<lparr>car_id = Some ''protocol'', car_desc = Some ''Protocol'', car_ann_classes = Some [1, 9, 10, 11, 12, 13, 14], car_num_ann_classes = 7\<rparr>,
     \<lparr>car_id = Some ''debug'', car_desc = Some ''Debug'', car_ann_classes = Some [15], car_num_ann_classes = 1\<rparr>]"

definition swim_binary :: "srd_decoder_binary list" where
  "swim_binary = [
     \<lparr>bin_class = 0, bin_id = Some ''tx'', bin_desc = Some ''Dump of data written to target''\<rparr>,
     \<lparr>bin_class = 1, bin_id = Some ''rx'', bin_desc = Some ''Dump of data read from target''\<rparr>]"

definition swim_inputs :: "string list" where
  "swim_inputs = [
     ''logic'']"

definition swim_tags :: "string list" where
  "swim_tags = [
     ''Debug/trace'']"

definition swim_c_def :: srd_c_decoder where
  "swim_c_def = \<lparr>cd_id = Some ''swim_c'', cd_name = Some ''SWIM(C)'',
     cd_longname = Some ''STM8 SWIM bus (C)'', cd_desc = Some ''STM8 Single Wire Interface Module (SWIM) protocol.'', cd_license = Some ''gplv2+'',
     cd_channels = Some swim_channels, cd_num_channels = 1,
     cd_optional_channels = None, cd_num_optional_channels = 0,
     cd_options = Some swim_options, cd_num_options = 1,
     cd_num_annotations = 16, cd_ann_labels = Some swim_ann_labels,
     cd_num_annotation_rows = 4, cd_annotation_rows = Some swim_ann_rows,
     cd_inputs = Some swim_inputs, cd_num_inputs = 1, cd_outputs = None, cd_num_outputs = 0,
     cd_binary = Some swim_binary, cd_num_binary = 2, cd_tags = Some swim_tags, cd_num_tags = 1\<rparr>"

lemma swim_described: "described swim_c_def = (True, True, False)"
  by (simp add: described_simps swim_options_def swim_channels_def swim_ann_labels_def swim_ann_rows_def swim_binary_def swim_inputs_def swim_tags_def swim_c_def_def)

section \<open>t55xx_c.c\<close>

definition t55xx_options :: "srd_decoder_option list" where
  "t55xx_options = [
     \<lparr>opt_id = Some ''coilfreq'', opt_idn = Some ''dec_t55xx_opt_coilfreq'', opt_desc = Some ''Coil frequency'',
        opt_def = Some (GV_uint64 125000), opt_values = []\<rparr>,
     \<lparr>opt_id = Some ''start_gap'', opt_idn = Some ''dec_t55xx_opt_start_gap'', opt_desc = Some ''Start gap min'',
        opt_def = Some (GV_uint64 20), opt_values = []\<rparr>,
     \<lparr>opt_id = Some ''w_gap'', opt_idn = Some ''dec_t55xx_opt_w_gap'', opt_desc = Some ''Write gap min'',
        opt_def = Some (GV_uint64 20), opt_values = []\<rparr>,
     \<lparr>opt_id = Some ''w_one_min'', opt_idn = Some ''dec_t55xx_opt_w_one_min'', opt_desc = Some ''Write one min'',
        opt_def = Some (GV_uint64 48), opt_values = []\<rparr>,
     \<lparr>opt_id = Some ''w_one_max'', opt_idn = Some ''dec_t55xx_opt_w_one_max'', opt_desc = Some ''Write one max'',
        opt_def = Some (GV_uint64 63), opt_values = []\<rparr>,
     \<lparr>opt_id = Some ''w_zero_min'', opt_idn = Some ''dec_t55xx_opt_w_zero_min'', opt_desc = Some ''Write zero min'',
        opt_def = Some (GV_uint64 16), opt_values = []\<rparr>,
     \<lparr>opt_id = Some ''w_zero_max'', opt_idn = Some ''dec_t55xx_opt_w_zero_max'', opt_desc = Some ''Write zero max'',
        opt_def = Some (GV_uint64 31), opt_values = []\<rparr>,
     \<lparr>opt_id = Some ''em4100_decode'', opt_idn = Some ''dec_t55xx_opt_em4100_decode'', opt_desc = Some ''EM4100 decode'',
        opt_def = Some (GV_string ''on''), opt_values = [GV_string ''on'', GV_string ''off'']\<rparr>]"

definition t55xx_channels :: "srd_channel list" where
  "t55xx_channels = [
     \<lparr>ch_id = Some ''data'', ch_name = Some ''Data'', ch_desc = Some ''Data line'', ch_order = 0, ch_type = 1, ch_idn = None\<rparr>]"

definition t55xx_ann_labels :: "(string option \<times> string option \<times> string option) list" where
  "t55xx_ann_labels = [
     (Some [], Some ''bit_value'', Some ''Bit value''),
     (Some [], Some ''start_gap'', Some ''Start gap''),
     (Some [], Some ''write_gap'', Some ''Write gap''),
     (Some [], Some ''write_mode_exit'', Some ''Write mode exit''),
     (Some [], Some ''bit'', Some ''Bit''),
     (Some [], Some ''opcode'', Some ''Opcode''),
     (Some [], Some ''lock'', Some ''Lock''),
     (Some [], Some ''data'', Some ''Data''),
     (Some [], Some ''password'', Some ''Password''),
     (Some [], Some ''address'', Some ''Address''),
     (Some [], Some ''bitrate'', Some ''Bitrate'')]"

definition t55xx_ann_rows :: "srd_c_ann_row list" where
  "t55xx_ann_rows = [
     \<lparr>car_id = Some ''bits'', car_desc = Some ''Bits'', car_ann_classes = Some [0], car_num_ann_classes = 1\<rparr>,
     \<lparr>car_id = Some ''structure'', car_desc = Some ''Structure'', car_ann_classes = Some [1, 2, 3, 4], car_num_ann_classes = 4\<rparr>,
     \<lparr>car_id = Some ''fields'', car_desc = Some ''Fields'', car_ann_classes = Some [5, 6, 7, 8, 9], car_num_ann_classes = 5\<rparr>,
     \<lparr>car_id = Some ''decode'', car_desc = Some ''Decode'', car_ann_classes = Some [10], car_num_ann_classes = 1\<rparr>]"

definition t55xx_inputs :: "string list" where
  "t55xx_inputs = [
     ''logic'']"

definition t55xx_tags :: "string list" where
  "t55xx_tags = [
     ''IC'',
     ''RFID'']"

definition t55xx_c_def :: srd_c_decoder where
  "t55xx_c_def = \<lparr>cd_id = Some ''t55xx_c'', cd_name = Some ''T55xx(C)'',
     cd_longname = Some ''T55xx RFID (C)'', cd_desc = Some ''T55xx 100-150kHz RFID protocol (C implementation)'', cd_license = Some ''gplv2+'',
     cd_channels = Some t55xx_channels, cd_num_channels = 1,
     cd_optional_channels = None, cd_num_optional_channels = 0,
     cd_options = Some t55xx_options, cd_num_options = 8,
     cd_num_annotations = 11, cd_ann_labels = Some t55xx_ann_labels,
     cd_num_annotation_rows = 4, cd_annotation_rows = Some t55xx_ann_rows,
     cd_inputs = Some t55xx_inputs, cd_num_inputs = 1, cd_outputs = None, cd_num_outputs = 0,
     cd_binary = None, cd_num_binary = 0, cd_tags = Some t55xx_tags, cd_num_tags = 2\<rparr>"

lemma t55xx_described: "described t55xx_c_def = (True, True, True)"
  by (simp add: described_simps t55xx_options_def t55xx_channels_def t55xx_ann_labels_def t55xx_ann_rows_def t55xx_inputs_def t55xx_tags_def t55xx_c_def_def)

section \<open>tca6408a_c.c\<close>

definition tca6408a_ann_labels :: "(string option \<times> string option \<times> string option) list" where
  "tca6408a_ann_labels = [
     (Some [], Some ''register'', Some ''Register type''),
     (Some [], Some ''value'', Some ''Register value''),
     (Some [], Some ''warning'', Some ''Warning'')]"

definition tca6408a_ann_rows :: "srd_c_ann_row list" where
  "tca6408a_ann_rows = [
     \<lparr>car_id = Some ''regs'', car_desc = Some ''Registers'', car_ann_classes = Some [0, 1], car_num_ann_classes = 2\<rparr>,
     \<lparr>car_id = Some ''warnings'', car_desc = Some ''Warnings'', car_ann_classes = Some [2], car_num_ann_classes = 1\<rparr>]"

definition tca6408a_inputs :: "string list" where
  "tca6408a_inputs = [
     ''i2c'']"

definition tca6408a_tags :: "string list" where
  "tca6408a_tags = [
     ''Embedded/industrial'',
     ''IC'']"

definition tca6408a_c_def :: srd_c_decoder where
  "tca6408a_c_def = \<lparr>cd_id = Some ''tca6408a_c'', cd_name = Some ''TCA6408A(C)'',
     cd_longname = Some ''Texas Instruments TCA6408A (C)'', cd_desc = Some (''Texas Instruments TCA6408A 8-bit I'' @ bytes_str [0xC2, 0xB2] @ ''C I/O expander. (C implementation)''), cd_license = Some ''gplv2+'',
     cd_channels = None, cd_num_channels = 0,
     cd_optional_channels = None, cd_num_optional_channels = 0,
     cd_options = None, cd_num_options = 0,
     cd_num_annotations = 3, cd_ann_labels = Some tca6408a_ann_labels,
     cd_num_annotation_rows = 2, cd_annotation_rows = Some tca6408a_ann_rows,
     cd_inputs = Some tca6408a_inputs, cd_num_inputs = 1, cd_outputs = None, cd_num_outputs = 0,
     cd_binary = None, cd_num_binary = 0, cd_tags = Some tca6408a_tags, cd_num_tags = 2\<rparr>"

lemma tca6408a_described: "described tca6408a_c_def = (True, True, True)"
  by (simp add: described_simps tca6408a_ann_labels_def tca6408a_ann_rows_def tca6408a_inputs_def tca6408a_tags_def tca6408a_c_def_def)

section \<open>tcs3472x_c.c\<close>

definition tcs3472x_options :: "srd_decoder_option list" where
  "tcs3472x_options = [
     \<lparr>opt_id = Some ''device_address'', opt_idn = Some ''dec_tcs3472x_opt_addr'', opt_desc = Some ''I2C device address'',
        opt_def = Some (GV_string ''0x29''), opt_values = [GV_string ''0x29'', GV_string ''0x39'']\<rparr>]"

definition tcs3472x_ann_labels :: "(string option \<times> string option \<times> string option) list" where
  "tcs3472x_ann_labels = [
     (Some [], Some ''register'', Some ''Register'')]"

definition tcs3472x_ann_rows :: "srd_c_ann_row list" where
  "tcs3472x_ann_rows = [
     \<lparr>car_id = Some ''registers'', car_desc = Some ''Data'', car_ann_classes = Some [0], car_num_ann_classes = 1\<rparr>]"

definition tcs3472x_inputs :: "string list" where
  "tcs3472x_inputs = [
     ''i2c'']"

definition tcs3472x_tags :: "string list" where
  "tcs3472x_tags = [
     ''Embedded/industrial'']"

definition tcs3472x_c_def :: srd_c_decoder where
  "tcs3472x_c_def = \<lparr>cd_id = Some ''tcs3472x_c'', cd_name = Some ''TCS3472X(C)'',
     cd_longname = Some ''TCS3472X'', cd_desc = Some ''Color light-to-digital converter with IR filter'', cd_license = Some ''gplv2+'',
     cd_channels = None, cd_num_channels = 0,
     cd_optional_channels = None, cd_num_optional_channels = 0,
     cd_options = Some tcs3472x_options, cd_num_options = 1,
     cd_num_annotations = 1, cd_ann_labels = Some tcs3472x_ann_labels,
     cd_num_annotation_rows = 1, cd_annotation_rows = Some tcs3472x_ann_rows,
     cd_inputs = Some tcs3472x_inputs, cd_num_inputs = 1, cd_outputs = None, cd_num_outputs = 0,
     cd_binary = None, cd_num_binary = 0, cd_tags = Some tcs3472x_tags, cd_num_tags = 1\<rparr>"

lemma tcs3472x_described: "described tcs3472x_c_def = (True, True, True)"
  by (simp add: described_simps tcs3472x_options_def tcs3472x_ann_labels_def tcs3472x_ann_rows_def tcs3472x_inputs_def tcs3472x_tags_def tcs3472x_c_def_def)

section \<open>tdm_audio_c.c\<close>

definition tdm_audio_options :: "srd_decoder_option list" where
  "tdm_audio_options = [
     \<lparr>opt_id = Some ''bps'', opt_idn = Some ''dec_tdm_audio_opt_bps'', opt_desc = Some ''Bits per sample'',
        opt_def = Some (GV_uint64 16), opt_values = []\<rparr>,
     \<lparr>opt_id = Some ''channels'', opt_idn = Some ''dec_tdm_audio_opt_channels'', opt_desc = Some ''Channels per frame'',
        opt_def = Some (GV_uint64 8), opt_values = [GV_uint64 1, GV_uint64 2, GV_uint64 3, GV_uint64 4, GV_uint64 5, GV_uint64 6, GV_uint64 7, GV_uint64 8]\<rparr>,
     \<lparr>opt_id = Some ''edge'', opt_idn = Some ''dec_tdm_audio_opt_edge'', opt_desc = Some ''Clock edge to sample on'',
        opt_def = Some (GV_string ''rising''), opt_values = [GV_string ''rising'', GV_string ''falling'']\<rparr>,
     \<lparr>opt_id = Some ''sampling_edge'', opt_idn = Some ''dec_tdm_audio_opt_sampling_edge'', opt_desc = Some ''Sampling Edge'',
        opt_def = Some (GV_string ''first edge''), opt_values = [GV_string ''first edge'', GV_string ''second edge'']\<rparr>]"

definition tdm_audio_channels :: "srd_channel list" where
  "tdm_audio_channels = [
     \<lparr>ch_id = Some ''clock'', ch_name = Some ''Bitclk'', ch_desc = Some ''Data bit clock'', ch_order = 0, ch_type = 0, ch_idn = None\<rparr>,
     \<lparr>ch_id = Some ''frame'', ch_name = Some ''Framesync'', ch_desc = Some ''Frame sync'', ch_order = 1, ch_type = -1, ch_idn = None\<rparr>,
     \<lparr>ch_id = Some ''data'', ch_name = Some ''Data'', ch_desc = Some ''Serial data'', ch_order = 2, ch_type = 1, ch_idn = None\<rparr>]"

definition tdm_audio_ann_labels :: "(string option \<times> string option \<times> string option) list" where
  "tdm_audio_ann_labels = [
     (Some [], Some ''ch0'', Some ''Ch0''),
     (Some [], Some ''ch1'', Some ''Ch1''),
     (Some [], Some ''ch2'', Some ''Ch2''),
     (Some [], Some ''ch3'', Some ''Ch3''),
     (Some [], Some ''ch4'', Some ''Ch4''),
     (Some [], Some ''ch5'', Some ''Ch5''),
     (Some [], Some ''ch6'', Some ''Ch6''),
     (Some [], Some ''ch7'', Some ''Ch7'')]"

definition tdm_audio_ann_rows :: "srd_c_ann_row list" where
  "tdm_audio_ann_rows = [
     \<lparr>car_id = Some ''ch0-vals'', car_desc = Some ''Ch0'', car_ann_classes = Some [0], car_num_ann_classes = 1\<rparr>,
     \<lparr>car_id = Some ''ch1-vals'', car_desc = Some ''Ch1'', car_ann_classes = Some [1], car_num_ann_classes = 1\<rparr>,
     \<lparr>car_id = Some ''ch2-vals'', car_desc = Some ''Ch2'', car_ann_classes = Some [2], car_num_ann_classes = 1\<rparr>,
     \<lparr>car_id = Some ''ch3-vals'', car_desc = Some ''Ch3'', car_ann_classes = Some [3], car_num_ann_classes = 1\<rparr>,
     \<lparr>car_id = Some ''ch4-vals'', car_desc = Some ''Ch4'', car_ann_classes = Some [4], car_num_ann_classes = 1\<rparr>,
     \<lparr>car_id = Some ''ch5-vals'', car_desc = Some ''Ch5'', car_ann_classes = Some [5], car_num_ann_classes = 1\<rparr>,
     \<lparr>car_id = Some ''ch6-vals'', car_desc = Some ''Ch6'', car_ann_classes = Some [6], car_num_ann_classes = 1\<rparr>,
     \<lparr>car_id = Some ''ch7-vals'', car_desc = Some ''Ch7'', car_ann_classes = Some [7], car_num_ann_classes = 1\<rparr>]"

definition tdm_audio_inputs :: "string list" where
  "tdm_audio_inputs = [
     ''logic'']"

definition tdm_audio_tags :: "string list" where
  "tdm_audio_tags = [
     ''Audio'']"

definition tdm_audio_c_def :: srd_c_decoder where
  "tdm_audio_c_def = \<lparr>cd_id = Some ''tdm_audio_c'', cd_name = Some ''TDM audio(C)'',
     cd_longname = Some ''Time division multiplex audio (C)'', cd_desc = Some ''TDM multi-channel audio protocol (C implementation)'', cd_license = Some ''gplv2+'',
     cd_channels = Some tdm_audio_channels, cd_num_channels = 3,
     cd_optional_channels = None, cd_num_optional_channels = 0,
     cd_options = Some tdm_audio_options, cd_num_options = 4,
     cd_num_annotations = 8, cd_ann_labels = Some tdm_audio_ann_labels,
     cd_num_annotation_rows = 8, cd_annotation_rows = Some tdm_audio_ann_rows,
     cd_inputs = Some tdm_audio_inputs, cd_num_inputs = 1, cd_outputs = None, cd_num_outputs = 0,
     cd_binary = None, cd_num_binary = 0, cd_tags = Some tdm_audio_tags, cd_num_tags = 1\<rparr>"

lemma tdm_audio_described: "described tdm_audio_c_def = (True, True, True)"
  by (simp add: described_simps tdm_audio_options_def tdm_audio_channels_def tdm_audio_ann_labels_def tdm_audio_ann_rows_def tdm_audio_inputs_def tdm_audio_tags_def tdm_audio_c_def_def)

section \<open>timing_c.c\<close>

definition timing_options :: "srd_decoder_option list" where
  "timing_options = [
     \<lparr>opt_id = Some ''avg_period'', opt_idn = Some ''dec_timing_opt_avg_period'', opt_desc = Some ''Averaging period'',
        opt_def = Some (GV_uint64 100), opt_values = []\<rparr>,
     \<lparr>opt_id = Some ''edge'', opt_idn = Some ''dec_timing_opt_edge'', opt_desc = Some ''Edges to check'',
        opt_def = Some (GV_string ''any''), opt_values = [GV_string ''any'', GV_string ''rising'', GV_string ''falling'']\<rparr>,
     \<lparr>opt_id = Some ''delta'', opt_idn = Some ''dec_timing_opt_delta'', opt_desc = Some ''Show delta from last'',
        opt_def = Some (GV_string ''no''), opt_values = [GV_string ''yes'', GV_string ''no'']\<rparr>,
     \<lparr>opt_id = Some ''format'', opt_idn = Some ''dec_timing_opt_format'', opt_desc = Some ''Format of 'time' annotation'',
        opt_def = Some (GV_string ''full''), opt_values = [GV_string ''full'', GV_string ''terse-auto'', GV_string ''terse-s'', GV_string ''terse-ms'', GV_string ''terse-us'', GV_string ''terse-ns'', GV_string ''terse-ps'', GV_string ''samples'']\<rparr>]"

definition timing_channels :: "srd_channel list" where
  "timing_channels = [
     \<lparr>ch_id = Some ''data'', ch_name = Some ''Data'', ch_desc = Some ''Data line'', ch_order = 0, ch_type = 1, ch_idn = None\<rparr>]"

definition timing_ann_labels :: "(string option \<times> string option \<times> string option) list" where
  "timing_ann_labels = [
     (Some [], Some ''time'', Some ''Time''),
     (Some [], Some ''terse'', Some ''Terse''),
     (Some [], Some ''average'', Some ''Average''),
     (Some [], Some ''delta'', Some ''Delta'')]"

definition timing_ann_rows :: "srd_c_ann_row list" where
  "timing_ann_rows = [
     \<lparr>car_id = Some ''times'', car_desc = Some ''Times'', car_ann_classes = Some [0, 1], car_num_ann_classes = 2\<rparr>,
     \<lparr>car_id = Some ''averages'', car_desc = Some ''Averages'', car_ann_classes = Some [2], car_num_ann_classes = 1\<rparr>,
     \<lparr>car_id = Some ''deltas'', car_desc = Some ''Deltas'', car_ann_classes = Some [3], car_num_ann_classes = 1\<rparr>]"

definition timing_inputs :: "string list" where
  "timing_inputs = [
     ''logic'']"

definition timing_tags :: "string list" where
  "timing_tags = [
     ''Clock/timing'',
     ''Util'']"

definition timing_c_def :: srd_c_decoder where
  "timing_c_def = \<lparr>cd_id = Some ''timing_c'', cd_name = Some ''Timing(C)'',
     cd_longname = Some ''Timing calculation with frequency and averaging (C)'', cd_desc = Some ''Calculate time between edges (C implementation)'', cd_license = Some ''gplv2+'',
     cd_channels = Some timing_channels, cd_num_channels = 1,
     cd_optional_channels = None, cd_num_optional_channels = 0,
     cd_options = Some timing_options, cd_num_options = 4,
     cd_num_annotations = 4, cd_ann_labels = Some timing_ann_labels,
     cd_num_annotation_rows = 3, cd_annotation_rows = Some timing_ann_rows,
     cd_inputs = Some timing_inputs, cd_num_inputs = 1, cd_outputs = None, cd_num_outputs = 0,
     cd_binary = None, cd_num_binary = 0, cd_tags = Some timing_tags, cd_num_tags = 2\<rparr>"

lemma timing_described: "described timing_c_def = (True, True, True)"
  by (simp add: described_simps timing_options_def timing_channels_def timing_ann_labels_def timing_ann_rows_def timing_inputs_def timing_tags_def timing_c_def_def)

section \<open>tm1637_c.c\<close>

definition tm1637_options :: "srd_decoder_option list" where
  "tm1637_options = [
     \<lparr>opt_id = Some ''dpoint'', opt_idn = Some ''dec_tm1637_opt_dpoint'', opt_desc = Some ''Decimal point'',
        opt_def = Some (GV_string ''Dot''), opt_values = [GV_string ''Dot'', GV_string ''Colon'']\<rparr>]"

definition tm1637_ann_labels :: "(string option \<times> string option \<times> string option) list" where
  "tm1637_ann_labels = [
     (Some [], Some ''reserved'', Some ''Reserved''),
     (Some [], Some ''write'', Some ''Write''),
     (Some [], Some ''read'', Some ''Read''),
     (Some [], Some ''data'', Some ''Data command''),
     (Some [], Some ''display'', Some ''Display command''),
     (Some [], Some ''address'', Some ''Address command''),
     (Some [], Some ''auto'', Some ''AutoAddr''),
     (Some [], Some ''fixed'', Some ''FixedAddr''),
     (Some [], Some ''normal'', Some ''Normal''),
     (Some [], Some ''test'', Some ''Test''),
     (Some [], Some ''digit'', Some ''Digit''),
     (Some [], Some ''contrast'', Some ''Contrast''),
     (Some [], Some ''off'', Some ''OFF''),
     (Some [], Some ''on'', Some ''ON''),
     (Some [], Some ''warnings'', Some ''Warnings''),
     (Some [], Some ''display-info'', Some ''Tubes'')]"

definition tm1637_ann_rows :: "srd_c_ann_row list" where
  "tm1637_ann_rows = [
     \<lparr>car_id = Some ''bits'', car_desc = Some ''Bits'', car_ann_classes = Some [0, 1, 2, 3, 4, 5, 6, 7, 8, 9, 10, 11, 12, 13], car_num_ann_classes = 14\<rparr>,
     \<lparr>car_id = Some ''display'', car_desc = Some ''Display'', car_ann_classes = Some [15], car_num_ann_classes = 1\<rparr>,
     \<lparr>car_id = Some ''warnings'', car_desc = Some ''Warnings'', car_ann_classes = Some [14], car_num_ann_classes = 1\<rparr>]"

definition tm1637_inputs :: "string list" where
  "tm1637_inputs = [
     ''tmc'']"

definition tm1637_outputs :: "string list" where
  "tm1637_outputs = [
     ''tm1637'']"

definition tm1637_tags :: "string list" where
  "tm1637_tags = [
     ''Embedded/industrial'']"

definition tm1637_c_def :: srd_c_decoder where
  "tm1637_c_def = \<lparr>cd_id = Some ''tm1637_c'', cd_name = Some ''TM1637(C)'',
     cd_longname = Some ''LED drive control special circuit (C)'', cd_desc = Some ''Titan Micro Electronics LED drive control special circuit for driving displays with 7-segments digital tubes. (C implementation)'', cd_license = Some ''gplv2+'',
     cd_channels = None, cd_num_channels = 0,
     cd_optional_channels = None, cd_num_optional_channels = 0,
     cd_options = Some tm1637_options, cd_num_options = 1,
     cd_num_annotations = 16, cd_ann_labels = Some tm1637_ann_labels,
     cd_num_annotation_rows = 3, cd_annotation_rows = Some tm1637_ann_rows,
     cd_inputs = Some tm1637_inputs, cd_num_inputs = 1, cd_outputs = Some tm1637_outputs, cd_num_outputs = 1,
     cd_binary = None, cd_num_binary = 0, cd_tags = Some tm1637_tags, cd_num_tags = 1\<rparr>"

lemma tm1637_described: "described tm1637_c_def = (True, True, True)"
  by (simp add: described_simps tm1637_options_def tm1637_ann_labels_def tm1637_ann_rows_def tm1637_inputs_def tm1637_outputs_def tm1637_tags_def tm1637_c_def_def)

section \<open>tm1638_c.c\<close>

definition tm1638_ann_labels :: "(string option \<times> string option \<times> string option) list" where
  "tm1638_ann_labels = [
     (Some [], Some ''reserved'', Some ''Reserved''),
     (Some [], Some ''write'', Some ''Write''),
     (Some [], Some ''read'', Some ''Read''),
     (Some [], Some ''data'', Some ''Data command''),
     (Some [], Some ''display'', Some ''Display command''),
     (Some [], Some ''address'', Some ''Address command''),
     (Some [], Some ''auto'', Some ''AutoAddr''),
     (Some [], Some ''fixed'', Some ''FixedAddr''),
     (Some [], Some ''normal'', Some ''Normal''),
     (Some [], Some ''test'', Some ''Test''),
     (Some [], Some ''position'', Some ''Position''),
     (Some [], Some ''digit'', Some ''Digit''),
     (Some [], Some ''led'', Some ''LED''),
     (Some [], Some ''key'', Some ''Key''),
     (Some [], Some ''red'', Some ''Red LED''),
     (Some [], Some ''green'', Some ''Green LED''),
     (Some [], Some ''contrast'', Some ''Contrast''),
     (Some [], Some ''off'', Some ''OFF''),
     (Some [], Some ''on'', Some ''ON''),
     (Some [], Some ''warnings'', Some ''Warnings''),
     (Some [], Some ''display-info'', Some ''Tubes''),
     (Some [], Some ''leds-info'', Some ''LEDs''),
     (Some [], Some ''keys-info'', Some ''Keys'')]"

definition tm1638_ann_rows :: "srd_c_ann_row list" where
  "tm1638_ann_rows = [
     \<lparr>car_id = Some ''bits'', car_desc = Some ''Bits'', car_ann_classes = Some [0, 1, 2, 3, 4, 5, 6, 7, 8, 9, 10, 11, 12, 13, 14, 15, 16, 17, 18], car_num_ann_classes = 19\<rparr>,
     \<lparr>car_id = Some ''display'', car_desc = Some ''Display'', car_ann_classes = Some [20], car_num_ann_classes = 1\<rparr>,
     \<lparr>car_id = Some ''leds'', car_desc = Some ''LEDchain'', car_ann_classes = Some [21], car_num_ann_classes = 1\<rparr>,
     \<lparr>car_id = Some ''keys'', car_desc = Some ''Keyboard'', car_ann_classes = Some [22], car_num_ann_classes = 1\<rparr>,
     \<lparr>car_id = Some ''warnings'', car_desc = Some ''Warnings'', car_ann_classes = Some [19], car_num_ann_classes = 1\<rparr>]"

definition tm1638_inputs :: "string list" where
  "tm1638_inputs = [
     ''tmc'']"

definition tm1638_outputs :: "string list" where
  "tm1638_outputs = [
     ''tm1638'']"

definition tm1638_tags :: "string list" where
  "tm1638_tags = [
     ''Embedded/industrial'']"

definition tm1638_c_def :: srd_c_decoder where
  "tm1638_c_def = \<lparr>cd_id = Some ''tm1638_c'', cd_name = Some ''TM1638(C)'',
     cd_longname = Some ''Special circuit for LED driver control (C)'', cd_desc = Some ''Titan Micro Electronics LED drive control special circuit for driving displays with 7-segments digital tubes, two-color LEDs, and keyboard scanning. (C implementation)'', cd_license = Some ''gplv2+'',
     cd_channels = None, cd_num_channels = 0,
     cd_optional_channels = None, cd_num_optional_channels = 0,
     cd_options = None, cd_num_options = 0,
     cd_num_annotations = 23, cd_ann_labels = Some tm1638_ann_labels,
     cd_num_annotation_rows = 5, cd_annotation_rows = Some tm1638_ann_rows,
     cd_inputs = Some tm1638_inputs, cd_num_inputs = 1, cd_outputs = Some tm1638_outputs, cd_num_outputs = 1,
     cd_binary = None, cd_num_binary = 0, cd_tags = Some tm1638_tags, cd_num_tags = 1\<rparr>"

lemma tm1638_described: "described tm1638_c_def = (True, True, True)"
  by (simp add: described_simps tm1638_ann_labels_def tm1638_ann_rows_def tm1638_inputs_def tm1638_outputs_def tm1638_tags_def tm1638_c_def_def)

section \<open>tmc_c.c\<close>

definition tmc_options :: "srd_decoder_option list" where
  "tmc_options = [
     \<lparr>opt_id = Some ''radix'', opt_idn = None, opt_desc = Some ''Number format'',
        opt_def = Some (GV_string ''Hex''), opt_values = [GV_string ''Hex'', GV_string ''Dec'', GV_string ''Oct'', GV_string ''Bin'']\<rparr>]"

definition tmc_channels :: "srd_channel list" where
  "tmc_channels = [
     \<lparr>ch_id = Some ''clk'', ch_name = Some ''CLK'', ch_desc = Some ''Clock line'', ch_order = 0, ch_type = 0, ch_idn = None\<rparr>,
     \<lparr>ch_id = Some ''dio'', ch_name = Some ''DIO'', ch_desc = Some ''Data line'', ch_order = 1, ch_type = 1, ch_idn = None\<rparr>]"

definition tmc_optional_channels :: "srd_channel list" where
  "tmc_optional_channels = [
     \<lparr>ch_id = Some ''stb'', ch_name = Some ''STB'', ch_desc = Some ''Strobe line'', ch_order = 2, ch_type = -1, ch_idn = None\<rparr>]"

definition tmc_ann_labels :: "(string option \<times> string option \<times> string option) list" where
  "tmc_ann_labels = [
     (Some [], Some ''Start'', Some ''S''),
     (Some [], Some ''Stop'', Some ''P''),
     (Some [], Some ''ACK'', Some ''A''),
     (Some [], Some ''NACK'', Some ''N''),
     (Some [], Some ''Command'', Some ''Cmd''),
     (Some [], Some ''Data'', Some ''D''),
     (Some [], Some ''Bit'', Some ''B''),
     (Some [], Some ''Warnings'', Some ''Warn'')]"

definition tmc_ann_rows :: "srd_c_ann_row list" where
  "tmc_ann_rows = [
     \<lparr>car_id = Some ''bits'', car_desc = Some ''Bits'', car_ann_classes = Some [6], car_num_ann_classes = 1\<rparr>,
     \<lparr>car_id = Some ''data'', car_desc = Some ''Cmd/Data'', car_ann_classes = Some [0, 1, 2, 3, 4, 5], car_num_ann_classes = 6\<rparr>,
     \<lparr>car_id = Some ''warnings'', car_desc = Some ''Warnings'', car_ann_classes = Some [7], car_num_ann_classes = 1\<rparr>]"

definition tmc_binary :: "srd_decoder_binary list" where
  "tmc_binary = [
     \<lparr>bin_class = 0, bin_id = Some ''DATA'', bin_desc = Some ''D''\<rparr>]"

definition tmc_inputs :: "string list" where
  "tmc_inputs = [
     ''logic'']"

definition tmc_outputs :: "string list" where
  "tmc_outputs = [
     ''tmc'']"

definition tmc_tags :: "string list" where
  "tmc_tags = [
     ''Embedded/industrial'']"

definition tmc_c_def :: srd_c_decoder where
  "tmc_c_def = \<lparr>cd_id = Some ''tmc_c'', cd_name = Some ''TMC(C)'',
     cd_longname = Some ''Titan Micro Circuit(C)'', cd_desc = Some ''Bus for TM1636/37/38 7-segment digital tubes.(C implementation)'', cd_license = Some ''gplv2+'',
     cd_channels = Some tmc_channels, cd_num_channels = 2,
     cd_optional_channels = Some tmc_optional_channels, cd_num_optional_channels = 1,
     cd_options = Some tmc_options, cd_num_options = 1,
     cd_num_annotations = 8, cd_ann_labels = Some tmc_ann_labels,
     cd_num_annotation_rows = 3, cd_annotation_rows = Some tmc_ann_rows,
     cd_inputs = Some tmc_inputs, cd_num_inputs = 1, cd_outputs = Some tmc_outputs, cd_num_outputs = 1,
     cd_binary = Some tmc_binary, cd_num_binary = 1, cd_tags = Some tmc_tags, cd_num_tags = 1\<rparr>"

lemma tmc_described: "described tmc_c_def = (True, True, True)"
  by (simp add: described_simps tmc_options_def tmc_channels_def tmc_optional_channels_def tmc_ann_labels_def tmc_ann_rows_def tmc_binary_def tmc_inputs_def tmc_outputs_def tmc_tags_def tmc_c_def_def)

section \<open>All of them\<close>

definition tables7 :: "srd_c_decoder list" where
  "tables7 = [spdif_c_def, spi_c_def, spi_dual_quad_c_def, spi_fast_c_def, spi_tpm_c_def, spiflash_c_def,
     ssi32_c_def, st25dv_c_def, st25r39xx_spi_c_def, st7735_c_def, st7789_c_def, stepper_motor_c_def,
     streletz_c_def, swd_c_def, swi_c_def, swim_c_def, t55xx_c_def, tca6408a_c_def,
     tcs3472x_c_def, tdm_audio_c_def, timing_c_def, tm1637_c_def, tm1638_c_def, tmc_c_def]"

lemmas tables7_described =
  spdif_described spi_described spi_dual_quad_described spi_fast_described spi_tpm_described spiflash_described
  ssi32_described st25dv_described st25r39xx_spi_described st7735_described st7789_described stepper_motor_described
  streletz_described swd_described swi_described swim_described t55xx_described tca6408a_described
  tcs3472x_described tdm_audio_described timing_described tm1637_described tm1638_described tmc_described

lemma tables7_ids:
  "map cd_id tables7 = [Some ''spdif_c'', Some ''spi_c'', Some ''spi_dual_quad_c'', Some ''spi_fast_c'', Some ''spi_tpm_c'',
     Some ''spiflash_c'', Some ''ssi32_c'', Some ''st25dv_c'', Some ''st25r39xx_spi_c'', Some ''st7735_c'',
     Some ''st7789_c'', Some ''stepper_motor_c'', Some ''streletz_c'', Some ''swd_c'', Some ''swi_c'',
     Some ''swim_c'', Some ''t55xx_c'', Some ''tca6408a_c'', Some ''tcs3472x_c'', Some ''tdm_audio_c'',
     Some ''timing_c'', Some ''tm1637_c'', Some ''tm1638_c'', Some ''tmc_c'']"
  by (simp add: tables7_def
    spdif_c_def_def spi_c_def_def spi_dual_quad_c_def_def spi_fast_c_def_def spi_tpm_c_def_def spiflash_c_def_def
    ssi32_c_def_def st25dv_c_def_def st25r39xx_spi_c_def_def st7735_c_def_def st7789_c_def_def stepper_motor_c_def_def
    streletz_c_def_def swd_c_def_def swi_c_def_def swim_c_def_def t55xx_c_def_def tca6408a_c_def_def
    tcs3472x_c_def_def tdm_audio_c_def_def timing_c_def_def tm1637_c_def_def tm1638_c_def_def tmc_c_def_def)

end
