(* ===== verification/Tables8.thy ===== *)
theory Tables8
  imports Described
begin

text \<open>
  The descriptions of the decoders from tmp102_c to z80_c: the tables in their files, with the option
  defaults and values that \<^verbatim>\<open>srd_c_decoder_entry()\<close> fills in, and their checks. Text outside
  ASCII is given by its bytes.
\<close>

section \<open>tmp102_c.c\<close>

definition tmp102_options :: "srd_decoder_option list" where
  "tmp102_options = [
     \<lparr>opt_id = Some ''radix'', opt_idn = Some ''dec_tmp102_opt_radix'', opt_desc = Some ''Number format'',
        opt_def = Some (GV_string ''Hex''), opt_values = [GV_string ''Hex'', GV_string ''Dec'', GV_string ''Oct'', GV_string ''Bin'']\<rparr>,
     \<lparr>opt_id = Some ''units'', opt_idn = Some ''dec_tmp102_opt_units'', opt_desc = Some ''Temperature unit'',
        opt_def = Some (GV_string ''Celsius''), opt_values = [GV_string ''Celsius'', GV_string ''Fahrenheit'', GV_string ''Kelvin'']\<rparr>]"

definition tmp102_ann_labels :: "(string option \<times> string option \<times> string option) list" where
  "tmp102_ann_labels = [
     (Some [], Some ''gc'', Some ''General call''),
     (Some [], Some ''gnd'', Some ''ADD0 grounded''),
     (Some [], Some ''vcc'', Some ''ADD0 powered''),
     (Some [], Some ''sda'', Some ''ADD0 to SDA''),
     (Some [], Some ''scl'', Some ''ADD0 to SCL''),
     (Some [], Some ''reset'', Some ''Reset register''),
     (Some [], Some ''conf'', Some ''Configuration register''),
     (Some [], Some ''temp'', Some ''Temperature register''),
     (Some [], Some ''tlow'', Some ''Low alert register''),
     (Some [], Some ''thigh'', Some ''High alert register''),
     (Some [], Some ''bit_reserved'', Some ''Reserved''),
     (Some [], Some ''bit_data'', Some ''Data''),
     (Some [], Some ''bit_em'', Some ''Extended mode''),
     (Some [], Some ''bit_al'', Some ''Alert''),
     (Some [], Some ''bit_cr0'', Some ''Conversion rate''),
     (Some [], Some ''bit_sd'', Some ''Shutdown mode''),
     (Some [], Some ''bit_tm'', Some ''Thermostat mode''),
     (Some [], Some ''bit_pol'', Some ''Polarity''),
     (Some [], Some ''bit_f0'', Some ''Consecutive faults''),
     (Some [], Some ''bit_r0'', Some ''Converter resolution''),
     (Some [], Some ''bit_os'', Some ''One-shot conversion''),
     (Some [], Some ''warn'', Some ''Warnings''),
     (Some [], Some ''badadd'', Some ''Unknown slave address''),
     (Some [], Some ''grst'', Some ''General reset''),
     (Some [], Some ''check'', Some ''Slave presence check''),
     (Some [], Some ''write'', Some ''Write''),
     (Some [], Some ''read'', Some ''Read''),
     (Some [], Some ''select'', Some ''Select''),
     (Some [], Some ''custom'', Some ''Custom''),
     (Some [], Some ''pwrup'', Some ''Power-up reset''),
     (Some [], Some ''info_conf'', Some ''Configuration''),
     (Some [], Some ''info_temp'', Some ''Measured temperature''),
     (Some [], Some ''info_tlow'', Some ''Low temperature limit''),
     (Some [], Some ''info_thigh'', Some ''High temperature limit'')]"

definition tmp102_ann_rows :: "srd_c_ann_row list" where
  "tmp102_ann_rows = [
     \<lparr>car_id = Some ''bits'', car_desc = Some ''Bits'', car_ann_classes = Some [10, 11, 12, 13, 14, 15, 16, 17, 18, 19, 20], car_num_ann_classes = 11\<rparr>,
     \<lparr>car_id = Some ''regs'', car_desc = Some ''Registers'', car_ann_classes = Some [0, 1, 2, 3, 4, 5, 6, 7, 8, 9], car_num_ann_classes = 10\<rparr>,
     \<lparr>car_id = Some ''info'', car_desc = Some ''Info'', car_ann_classes = Some [23, 24, 25, 26, 27, 28, 29, 30, 31, 32, 33], car_num_ann_classes = 11\<rparr>,
     \<lparr>car_id = Some ''warnings'', car_desc = Some ''Warnings'', car_ann_classes = Some [21, 22], car_num_ann_classes = 2\<rparr>]"

definition tmp102_inputs :: "string list" where
  "tmp102_inputs = [
     ''i2c'']"

definition tmp102_outputs :: "string list" where
  "tmp102_outputs = [
     ''tmp102'']"

definition tmp102_tags :: "string list" where
  "tmp102_tags = [
     ''Embedded/industrial'']"

definition tmp102_c_def :: srd_c_decoder where
  "tmp102_c_def = \<lparr>cd_id = Some ''tmp102_c'', cd_name = Some ''TMP102(C)'',
     cd_longname = Some ''Digital temperature sensor TMP102 (C)'', cd_desc = Some ''Low power digital temperature sensor. (C implementation)'', cd_license = Some ''gplv2+'',
     cd_channels = None, cd_num_channels = 0,
     cd_optional_channels = None, cd_num_optional_channels = 0,
     cd_options = Some tmp102_options, cd_num_options = 2,
     cd_num_annotations = 34, cd_ann_labels = Some tmp102_ann_labels,
     cd_num_annotation_rows = 4, cd_annotation_rows = Some tmp102_ann_rows,
     cd_inputs = Some tmp102_inputs, cd_num_inputs = 1, cd_outputs = Some tmp102_outputs, cd_num_outputs = 1,
     cd_binary = None, cd_num_binary = 0, cd_tags = Some tmp102_tags, cd_num_tags = 1\<rparr>"

lemma tmp102_described: "described tmp102_c_def = (True, True, True)"
  by (simp add: described_simps tmp102_options_def tmp102_ann_labels_def tmp102_ann_rows_def tmp102_inputs_def tmp102_outputs_def tmp102_tags_def tmp102_c_def_def)

section \<open>tpm_fifo_tis_c.c\<close>

definition tpm_fifo_tis_ann_labels :: "(string option \<times> string option \<times> string option) list" where
  "tpm_fifo_tis_ann_labels = [
     (Some [], Some ''register-read'', Some ''Register Read''),
     (Some [], Some ''register-write'', Some ''Register Write''),
     (Some [], Some ''tpm-command'', Some ''TPM Command''),
     (Some [], Some ''tpm-response'', Some ''TPM Response''),
     (Some [], Some ''warning'', Some ''Warning''),
     (Some [], Some ''state'', Some ''State'')]"

definition tpm_fifo_tis_ann_rows :: "srd_c_ann_row list" where
  "tpm_fifo_tis_ann_rows = [
     \<lparr>car_id = Some ''register'', car_desc = Some ''Register Transaction'', car_ann_classes = Some [0, 1], car_num_ann_classes = 2\<rparr>,
     \<lparr>car_id = Some ''tpm'', car_desc = Some ''TPM Command/Response'', car_ann_classes = Some [2, 3], car_num_ann_classes = 2\<rparr>,
     \<lparr>car_id = Some ''warnings'', car_desc = Some ''Warnings'', car_ann_classes = Some [4], car_num_ann_classes = 1\<rparr>,
     \<lparr>car_id = Some ''states'', car_desc = Some ''TPM States'', car_ann_classes = Some [5], car_num_ann_classes = 1\<rparr>]"

definition tpm_fifo_tis_inputs :: "string list" where
  "tpm_fifo_tis_inputs = [
     ''tpm-tis'']"

definition tpm_fifo_tis_outputs :: "string list" where
  "tpm_fifo_tis_outputs = [
     ''tpm'']"

definition tpm_fifo_tis_tags :: "string list" where
  "tpm_fifo_tis_tags = [
     ''TPM'']"

definition tpm_fifo_tis_c_def :: srd_c_decoder where
  "tpm_fifo_tis_c_def = \<lparr>cd_id = Some ''tpm_fifo_tis_c'', cd_name = Some ''TPM FIFO(C)'',
     cd_longname = Some ''Trusted Platform Module Commands over TIS 2.0 interface (C)'', cd_desc = Some ''Trusted Platform Module Commands over TIS 2.0 interface. (C implementation)'', cd_license = Some ''gplv3+'',
     cd_channels = None, cd_num_channels = 0,
     cd_optional_channels = None, cd_num_optional_channels = 0,
     cd_options = None, cd_num_options = 0,
     cd_num_annotations = 6, cd_ann_labels = Some tpm_fifo_tis_ann_labels,
     cd_num_annotation_rows = 4, cd_annotation_rows = Some tpm_fifo_tis_ann_rows,
     cd_inputs = Some tpm_fifo_tis_inputs, cd_num_inputs = 1, cd_outputs = Some tpm_fifo_tis_outputs, cd_num_outputs = 1,
     cd_binary = None, cd_num_binary = 0, cd_tags = Some tpm_fifo_tis_tags, cd_num_tags = 1\<rparr>"

lemma tpm_fifo_tis_described: "described tpm_fifo_tis_c_def = (True, True, True)"
  by (simp add: described_simps tpm_fifo_tis_ann_labels_def tpm_fifo_tis_ann_rows_def tpm_fifo_tis_inputs_def tpm_fifo_tis_outputs_def tpm_fifo_tis_tags_def tpm_fifo_tis_c_def_def)

section \<open>tpm_tis_i2c_c.c\<close>

definition tpm_tis_i2c_ann_labels :: "(string option \<times> string option \<times> string option) list" where
  "tpm_tis_i2c_ann_labels = [
     (Some [], Some ''address'', Some ''Address''),
     (Some [], Some ''data_read'', Some ''Data (Read)''),
     (Some [], Some ''data_write'', Some ''Data (Write)''),
     (Some [], Some ''transaction'', Some ''Transaction''),
     (Some [], Some ''warning'', Some ''Warning'')]"

definition tpm_tis_i2c_ann_rows :: "srd_c_ann_row list" where
  "tpm_tis_i2c_ann_rows = [
     \<lparr>car_id = Some ''protocol'', car_desc = Some ''Protocol'', car_ann_classes = Some [0, 1, 2], car_num_ann_classes = 3\<rparr>,
     \<lparr>car_id = Some ''transactions'', car_desc = Some ''Transactions'', car_ann_classes = Some [3], car_num_ann_classes = 1\<rparr>,
     \<lparr>car_id = Some ''warnings'', car_desc = Some ''Warnings'', car_ann_classes = Some [4], car_num_ann_classes = 1\<rparr>]"

definition tpm_tis_i2c_inputs :: "string list" where
  "tpm_tis_i2c_inputs = [
     ''i2c'']"

definition tpm_tis_i2c_outputs :: "string list" where
  "tpm_tis_i2c_outputs = [
     ''tpm-tis'']"

definition tpm_tis_i2c_tags :: "string list" where
  "tpm_tis_i2c_tags = [
     ''TPM'']"

definition tpm_tis_i2c_c_def :: srd_c_decoder where
  "tpm_tis_i2c_c_def = \<lparr>cd_id = Some ''tpm_tis_i2c_c'', cd_name = Some ''TPM TIS 2.0 I2C(C)'',
     cd_longname = Some ''Trusted Platform Module Interface (TIS 2.0) over Inter-Integrated Circuit Bus'', cd_desc = Some ''Trusted Platform Module Interface (TIS 2.0) over Inter-Integrated Circuit Bus'', cd_license = Some ''gplv3+'',
     cd_channels = None, cd_num_channels = 0,
     cd_optional_channels = None, cd_num_optional_channels = 0,
     cd_options = None, cd_num_options = 0,
     cd_num_annotations = 5, cd_ann_labels = Some tpm_tis_i2c_ann_labels,
     cd_num_annotation_rows = 3, cd_annotation_rows = Some tpm_tis_i2c_ann_rows,
     cd_inputs = Some tpm_tis_i2c_inputs, cd_num_inputs = 1, cd_outputs = Some tpm_tis_i2c_outputs, cd_num_outputs = 1,
     cd_binary = None, cd_num_binary = 0, cd_tags = Some tpm_tis_i2c_tags, cd_num_tags = 1\<rparr>"

lemma tpm_tis_i2c_described: "described tpm_tis_i2c_c_def = (True, True, True)"
  by (simp add: described_simps tpm_tis_i2c_ann_labels_def tpm_tis_i2c_ann_rows_def tpm_tis_i2c_inputs_def tpm_tis_i2c_outputs_def tpm_tis_i2c_tags_def tpm_tis_i2c_c_def_def)

section \<open>tpm_tis_spi_c.c\<close>

definition tpm_tis_spi_ann_labels :: "(string option \<times> string option \<times> string option) list" where
  "tpm_tis_spi_ann_labels = [
     (Some [], Some ''rw-length'', Some ''RW/Length''),
     (Some [], Some ''address'', Some ''Address''),
     (Some [], Some ''wait-state'', Some ''Wait State''),
     (Some [], Some ''data'', Some ''Data''),
     (Some [], Some ''transaction'', Some ''Transaction''),
     (Some [], Some ''warning'', Some ''Warning'')]"

definition tpm_tis_spi_ann_rows :: "srd_c_ann_row list" where
  "tpm_tis_spi_ann_rows = [
     \<lparr>car_id = Some ''protocol'', car_desc = Some ''Protocol'', car_ann_classes = Some [0, 1, 2, 3], car_num_ann_classes = 4\<rparr>,
     \<lparr>car_id = Some ''transactions'', car_desc = Some ''Transactions'', car_ann_classes = Some [4], car_num_ann_classes = 1\<rparr>,
     \<lparr>car_id = Some ''warnings'', car_desc = Some ''Warnings'', car_ann_classes = Some [5], car_num_ann_classes = 1\<rparr>]"

definition tpm_tis_spi_inputs :: "string list" where
  "tpm_tis_spi_inputs = [
     ''spi'']"

definition tpm_tis_spi_outputs :: "string list" where
  "tpm_tis_spi_outputs = [
     ''tpm-tis'']"

definition tpm_tis_spi_tags :: "string list" where
  "tpm_tis_spi_tags = [
     ''TPM'']"

definition tpm_tis_spi_c_def :: srd_c_decoder where
  "tpm_tis_spi_c_def = \<lparr>cd_id = Some ''tpm_tis_spi_c'', cd_name = Some ''TPM TIS 2.0 SPI(C)'',
     cd_longname = Some ''Trusted Platform Module Interface (TIS 2.0) over SPI (C)'', cd_desc = Some ''TPM TIS 2.0 over SPI protocol decoder (C implementation)'', cd_license = Some ''gplv3+'',
     cd_channels = None, cd_num_channels = 0,
     cd_optional_channels = None, cd_num_optional_channels = 0,
     cd_options = None, cd_num_options = 0,
     cd_num_annotations = 6, cd_ann_labels = Some tpm_tis_spi_ann_labels,
     cd_num_annotation_rows = 3, cd_annotation_rows = Some tpm_tis_spi_ann_rows,
     cd_inputs = Some tpm_tis_spi_inputs, cd_num_inputs = 1, cd_outputs = Some tpm_tis_spi_outputs, cd_num_outputs = 1,
     cd_binary = None, cd_num_binary = 0, cd_tags = Some tpm_tis_spi_tags, cd_num_tags = 1\<rparr>"

lemma tpm_tis_spi_described: "described tpm_tis_spi_c_def = (True, True, True)"
  by (simp add: described_simps tpm_tis_spi_ann_labels_def tpm_tis_spi_ann_rows_def tpm_tis_spi_inputs_def tpm_tis_spi_outputs_def tpm_tis_spi_tags_def tpm_tis_spi_c_def_def)

section \<open>uart_c.c\<close>

definition uart_options :: "srd_decoder_option list" where
  "uart_options = [
     \<lparr>opt_id = Some ''baudrate'', opt_idn = None, opt_desc = Some (''Baud rate('' @ bytes_str [0xE6, 0xB3, 0xA2, 0xE7, 0x89, 0xB9, 0xE7, 0x8E, 0x87] @ '')''),
        opt_def = Some (GV_int64 115200), opt_values = []\<rparr>,
     \<lparr>opt_id = Some ''data_bits'', opt_idn = None, opt_desc = Some (''Data bits('' @ bytes_str [0xE6, 0x95, 0xB0, 0xE6, 0x8D, 0xAE, 0xE4, 0xBD, 0x8D, 0xE6, 0x95, 0xB0] @ '')''),
        opt_def = Some (GV_int64 8), opt_values = [GV_int64 5, GV_int64 6, GV_int64 7, GV_int64 8, GV_int64 9]\<rparr>,
     \<lparr>opt_id = Some ''stop_bits'', opt_idn = None, opt_desc = Some (''Stop bits('' @ bytes_str [0xE5, 0x81, 0x9C, 0xE6, 0xAD, 0xA2, 0xE4, 0xBD, 0x8D] @ '')''),
        opt_def = Some (GV_double 1), opt_values = [GV_double 0, GV_double (1 / 2), GV_double 1, GV_double (3 / 2), GV_double 2]\<rparr>,
     \<lparr>opt_id = Some ''parity'', opt_idn = None, opt_desc = Some (''Parity('' @ bytes_str [0xE6, 0xA0, 0xA1, 0xE9, 0xAA, 0x8C, 0xE4, 0xBD, 0x8D] @ '')''),
        opt_def = Some (GV_string ''none''), opt_values = [GV_string ''none'', GV_string ''odd'', GV_string ''even'', GV_string ''zero'', GV_string ''one'', GV_string ''ignore'']\<rparr>,
     \<lparr>opt_id = Some ''bit_order'', opt_idn = None, opt_desc = Some (''Bit order('' @ bytes_str [0xE4, 0xBD, 0x8D, 0xE5, 0xBA, 0x8F] @ '')''),
        opt_def = Some (GV_string ''lsb-first''), opt_values = [GV_string ''lsb-first'', GV_string ''msb-first'']\<rparr>,
     \<lparr>opt_id = Some ''format'', opt_idn = None, opt_desc = Some (''Data format('' @ bytes_str [0xE6, 0x95, 0xB0, 0xE6, 0x8D, 0xAE, 0xE6, 0xA0, 0xBC, 0xE5, 0xBC, 0x8F] @ '')''),
        opt_def = Some (GV_string ''hex''), opt_values = [GV_string ''hex'', GV_string ''ascii'', GV_string ''dec'', GV_string ''oct'', GV_string ''bin'']\<rparr>,
     \<lparr>opt_id = Some ''invert_rx'', opt_idn = None, opt_desc = Some (''Invert RX('' @ bytes_str [0xE5, 0x8F, 0x8D, 0xE8, 0xBD, 0xAC] @ ''RX)''),
        opt_def = Some (GV_string ''no''), opt_values = [GV_string ''yes'', GV_string ''no'']\<rparr>,
     \<lparr>opt_id = Some ''invert_tx'', opt_idn = None, opt_desc = Some (''Invert TX('' @ bytes_str [0xE5, 0x8F, 0x8D, 0xE8, 0xBD, 0xAC] @ ''TX)''),
        opt_def = Some (GV_string ''no''), opt_values = [GV_string ''yes'', GV_string ''no'']\<rparr>,
     \<lparr>opt_id = Some ''show_data_point'', opt_idn = None, opt_desc = Some (''Show data point('' @ bytes_str [0xE6, 0x95, 0xB0, 0xE6, 0x8D, 0xAE, 0xE7, 0x82, 0xB9, 0xE6, 0x98, 0xBE, 0xE7, 0xA4, 0xBA] @ '')''),
        opt_def = Some (GV_string ''yes''), opt_values = [GV_string ''yes'', GV_string ''no'']\<rparr>,
     \<lparr>opt_id = Some ''sample_point'', opt_idn = None, opt_desc = Some (''Sample point('' @ bytes_str [0xE9, 0x87, 0x87, 0xE6, 0xA0, 0xB7, 0xE7, 0x82, 0xB9] @ ''%)''),
        opt_def = Some (GV_double 50), opt_values = []\<rparr>,
     \<lparr>opt_id = Some ''show_start_stop'', opt_idn = None, opt_desc = Some (''Show start/stop bits('' @ bytes_str [0xE6, 0x98, 0xBE, 0xE7, 0xA4, 0xBA, 0xE8, 0xB5, 0xB7, 0xE5, 0xA7, 0x8B] @ ''/'' @ bytes_str [0xE5, 0x81, 0x9C, 0xE6, 0xAD, 0xA2, 0xE4, 0xBD, 0x8D] @ '')''),
        opt_def = Some (GV_string ''yes''), opt_values = [GV_string ''yes'', GV_string ''no'']\<rparr>,
     \<lparr>opt_id = Some ''packet_idle_us'', opt_idn = None, opt_desc = Some ''Packet idle time (us)'',
        opt_def = Some (GV_double (- 1)), opt_values = []\<rparr>,
     \<lparr>opt_id = Some ''rx_packet_delim'', opt_idn = None, opt_desc = Some ''RX packet delimiter (decimal)'',
        opt_def = Some (GV_int64 (- 1)), opt_values = []\<rparr>,
     \<lparr>opt_id = Some ''tx_packet_delim'', opt_idn = None, opt_desc = Some ''TX packet delimiter (decimal)'',
        opt_def = Some (GV_int64 (- 1)), opt_values = []\<rparr>,
     \<lparr>opt_id = Some ''rx_packet_len'', opt_idn = None, opt_desc = Some ''RX packet length'',
        opt_def = Some (GV_int64 (- 1)), opt_values = []\<rparr>,
     \<lparr>opt_id = Some ''tx_packet_len'', opt_idn = None, opt_desc = Some ''TX packet length'',
        opt_def = Some (GV_int64 (- 1)), opt_values = []\<rparr>]"

definition uart_optional_channels :: "srd_channel list" where
  "uart_optional_channels = [
     \<lparr>ch_id = Some ''rx'', ch_name = Some ''RX'', ch_desc = Some ''UART receive line'', ch_order = 0, ch_type = 1, ch_idn = None\<rparr>,
     \<lparr>ch_id = Some ''tx'', ch_name = Some ''TX'', ch_desc = Some ''UART transmit line'', ch_order = 1, ch_type = 1, ch_idn = None\<rparr>]"

definition uart_ann_labels :: "(string option \<times> string option \<times> string option) list" where
  "uart_ann_labels = [
     (Some [], Some ''rx-warning'', Some ''RX warning''),
     (Some [], Some ''tx-warning'', Some ''TX warning''),
     (Some [], Some ''rx-data'', Some ''RX data''),
     (Some [], Some ''tx-data'', Some ''TX data''),
     (Some [], Some ''rx-start'', Some ''RX start bit''),
     (Some [], Some ''tx-start'', Some ''TX start bit''),
     (Some [], Some ''rx-parity-ok'', Some ''RX parity OK bit''),
     (Some [], Some ''tx-parity-ok'', Some ''TX parity OK bit''),
     (Some [], Some ''rx-parity-err'', Some ''RX parity error bit''),
     (Some [], Some ''tx-parity-err'', Some ''TX parity error bit''),
     (Some [], Some ''rx-stop'', Some ''RX stop bit''),
     (Some [], Some ''tx-stop'', Some ''TX stop bit''),
     (Some [], Some ''rx-data-bit'', Some ''RX data bit''),
     (Some [], Some ''tx-data-bit'', Some ''TX data bit''),
     (Some [], Some ''rx-break'', Some ''RX break''),
     (Some [], Some ''tx-break'', Some ''TX break''),
     (Some [], Some ''rx-packet'', Some ''RX packet''),
     (Some [], Some ''tx-packet'', Some ''TX packet''),
     (Some [], Some ''rx-sample'', Some ''RX sample''),
     (Some [], Some ''tx-sample'', Some ''TX sample''),
     (Some [], Some ''atk-data-point'', Some ''ATK Data point'')]"

definition uart_ann_rows :: "srd_c_ann_row list" where
  "uart_ann_rows = [
     \<lparr>car_id = Some ''rx-data-bits'', car_desc = Some ''RX bits'', car_ann_classes = Some [12], car_num_ann_classes = 1\<rparr>,
     \<lparr>car_id = Some ''rx-samples'', car_desc = Some ''RX samples'', car_ann_classes = Some [18], car_num_ann_classes = 1\<rparr>,
     \<lparr>car_id = Some ''rx-data-vals'', car_desc = Some ''RX data'', car_ann_classes = Some [2, 4, 6, 8, 10], car_num_ann_classes = 5\<rparr>,
     \<lparr>car_id = Some ''rx-warnings'', car_desc = Some ''RX warnings'', car_ann_classes = Some [0], car_num_ann_classes = 1\<rparr>,
     \<lparr>car_id = Some ''rx-breaks'', car_desc = Some ''RX breaks'', car_ann_classes = Some [14], car_num_ann_classes = 1\<rparr>,
     \<lparr>car_id = Some ''rx-packets'', car_desc = Some ''RX packets'', car_ann_classes = Some [16], car_num_ann_classes = 1\<rparr>,
     \<lparr>car_id = Some ''tx-data-bits'', car_desc = Some ''TX bits'', car_ann_classes = Some [13], car_num_ann_classes = 1\<rparr>,
     \<lparr>car_id = Some ''tx-samples'', car_desc = Some ''TX samples'', car_ann_classes = Some [19], car_num_ann_classes = 1\<rparr>,
     \<lparr>car_id = Some ''tx-data-vals'', car_desc = Some ''TX data'', car_ann_classes = Some [3, 5, 7, 9, 11], car_num_ann_classes = 5\<rparr>,
     \<lparr>car_id = Some ''tx-warnings'', car_desc = Some ''TX warnings'', car_ann_classes = Some [1], car_num_ann_classes = 1\<rparr>,
     \<lparr>car_id = Some ''tx-breaks'', car_desc = Some ''TX breaks'', car_ann_classes = Some [15], car_num_ann_classes = 1\<rparr>,
     \<lparr>car_id = Some ''tx-packets'', car_desc = Some ''TX packets'', car_ann_classes = Some [17], car_num_ann_classes = 1\<rparr>,
     \<lparr>car_id = Some ''atk-signs'', car_desc = Some ''ATK signs'', car_ann_classes = Some [20], car_num_ann_classes = 1\<rparr>]"

definition uart_binary :: "srd_decoder_binary list" where
  "uart_binary = [
     \<lparr>bin_class = 0, bin_id = Some ''rx'', bin_desc = Some ''RX dump''\<rparr>,
     \<lparr>bin_class = 1, bin_id = Some ''tx'', bin_desc = Some ''TX dump''\<rparr>,
     \<lparr>bin_class = 2, bin_id = Some ''rxtx'', bin_desc = Some ''RX/TX dump''\<rparr>,
     \<lparr>bin_class = 3, bin_id = Some ''rx-ok'', bin_desc = Some ''RX dump (no error)''\<rparr>,
     \<lparr>bin_class = 4, bin_id = Some ''tx-ok'', bin_desc = Some ''TX dump (no error)''\<rparr>,
     \<lparr>bin_class = 5, bin_id = Some ''rxtx-ok'', bin_desc = Some ''RX/TX dump (no error)''\<rparr>]"

definition uart_inputs :: "string list" where
  "uart_inputs = [
     ''logic'']"

definition uart_outputs :: "string list" where
  "uart_outputs = [
     ''uart'']"

definition uart_tags :: "string list" where
  "uart_tags = [
     ''Embedded/industrial'']"

definition uart_c_def :: srd_c_decoder where
  "uart_c_def = \<lparr>cd_id = Some ''uart_c'', cd_name = Some ''UART(C)'',
     cd_longname = Some ''Universal Asynchronous Receiver/Transmitter (C)'', cd_desc = Some ''UART protocol decoder (C implementation, faster than Python)'', cd_license = Some ''gplv2+'',
     cd_channels = None, cd_num_channels = 0,
     cd_optional_channels = Some uart_optional_channels, cd_num_optional_channels = 2,
     cd_options = Some uart_options, cd_num_options = 16,
     cd_num_annotations = 21, cd_ann_labels = Some uart_ann_labels,
     cd_num_annotation_rows = 13, cd_annotation_rows = Some uart_ann_rows,
     cd_inputs = Some uart_inputs, cd_num_inputs = 1, cd_outputs = Some uart_outputs, cd_num_outputs = 1,
     cd_binary = Some uart_binary, cd_num_binary = 6, cd_tags = Some uart_tags, cd_num_tags = 1\<rparr>"

lemma uart_described: "described uart_c_def = (True, True, True)"
  by (simp add: described_simps uart_options_def uart_optional_channels_def uart_ann_labels_def uart_ann_rows_def uart_binary_def uart_inputs_def uart_outputs_def uart_tags_def uart_c_def_def)

section \<open>uart_fast_c.c\<close>

definition uart_fast_options :: "srd_decoder_option list" where
  "uart_fast_options = [
     \<lparr>opt_id = Some ''baudrate'', opt_idn = None, opt_desc = Some ''Baud rate'',
        opt_def = Some (GV_int64 115200), opt_values = []\<rparr>,
     \<lparr>opt_id = Some ''data_bits'', opt_idn = None, opt_desc = Some ''Data bits'',
        opt_def = Some (GV_int64 8), opt_values = [GV_int64 5, GV_int64 6, GV_int64 7, GV_int64 8, GV_int64 9]\<rparr>,
     \<lparr>opt_id = Some ''parity'', opt_idn = None, opt_desc = Some ''Parity'',
        opt_def = Some (GV_string ''none''), opt_values = [GV_string ''none'', GV_string ''odd'', GV_string ''even'', GV_string ''zero'', GV_string ''one'', GV_string ''ignore'']\<rparr>,
     \<lparr>opt_id = Some ''stop_bits'', opt_idn = None, opt_desc = Some ''Stop bits'',
        opt_def = Some (GV_double 1), opt_values = [GV_double 0, GV_double (1 / 2), GV_double 1, GV_double (3 / 2), GV_double 2]\<rparr>,
     \<lparr>opt_id = Some ''bit_order'', opt_idn = None, opt_desc = Some ''Bit order'',
        opt_def = Some (GV_string ''lsb-first''), opt_values = [GV_string ''lsb-first'', GV_string ''msb-first'']\<rparr>,
     \<lparr>opt_id = Some ''format'', opt_idn = None, opt_desc = Some ''Data format'',
        opt_def = Some (GV_string ''hex''), opt_values = [GV_string ''ascii'', GV_string ''dec'', GV_string ''hex'', GV_string ''oct'', GV_string ''bin'']\<rparr>,
     \<lparr>opt_id = Some ''invert'', opt_idn = None, opt_desc = Some ''Invert RX/TX'',
        opt_def = Some (GV_string ''no''), opt_values = [GV_string ''yes'', GV_string ''no'']\<rparr>,
     \<lparr>opt_id = Some ''packet_idle_us'', opt_idn = None, opt_desc = Some ''Packet delimit by idle time, us'',
        opt_def = Some (GV_int64 (- 1)), opt_values = []\<rparr>,
     \<lparr>opt_id = Some ''show_data_point'', opt_idn = None, opt_desc = Some ''Show data point'',
        opt_def = Some (GV_string ''no''), opt_values = [GV_string ''yes'', GV_string ''no'']\<rparr>]"

definition uart_fast_optional_channels :: "srd_channel list" where
  "uart_fast_optional_channels = [
     \<lparr>ch_id = Some ''rx'', ch_name = Some ''RX'', ch_desc = Some ''UART receive line'', ch_order = 0, ch_type = 1, ch_idn = Some ''dec_uart_fast_opt_chan_rx''\<rparr>,
     \<lparr>ch_id = Some ''tx'', ch_name = Some ''TX'', ch_desc = Some ''UART transmit line'', ch_order = 1, ch_type = 1, ch_idn = Some ''dec_uart_fast_opt_chan_tx''\<rparr>]"

definition uart_fast_ann_labels :: "(string option \<times> string option \<times> string option) list" where
  "uart_fast_ann_labels = [
     (Some [], Some ''rx-warning'', Some ''RX warning''),
     (Some [], Some ''tx-warning'', Some ''TX warning''),
     (Some [], Some ''rx-data'', Some ''RX data''),
     (Some [], Some ''tx-data'', Some ''TX data''),
     (Some [], Some ''rx-start'', Some ''RX start bit''),
     (Some [], Some ''tx-start'', Some ''TX start bit''),
     (Some [], Some ''rx-parity-ok'', Some ''RX parity OK bit''),
     (Some [], Some ''tx-parity-ok'', Some ''TX parity OK bit''),
     (Some [], Some ''rx-parity-err'', Some ''RX parity error bit''),
     (Some [], Some ''tx-parity-err'', Some ''TX parity error bit''),
     (Some [], Some ''rx-stop'', Some ''RX stop bit''),
     (Some [], Some ''tx-stop'', Some ''TX stop bit''),
     (Some [], Some ''atk-data-point'', Some ''ATK Data point'')]"

definition uart_fast_ann_rows :: "srd_c_ann_row list" where
  "uart_fast_ann_rows = [
     \<lparr>car_id = Some ''rx-data-vals'', car_desc = Some ''RX data'', car_ann_classes = Some [2, 4, 6, 8, 10], car_num_ann_classes = 5\<rparr>,
     \<lparr>car_id = Some ''rx-warnings'', car_desc = Some ''RX warnings'', car_ann_classes = Some [0], car_num_ann_classes = 1\<rparr>,
     \<lparr>car_id = Some ''tx-data-vals'', car_desc = Some ''TX data'', car_ann_classes = Some [3, 5, 7, 9, 11], car_num_ann_classes = 5\<rparr>,
     \<lparr>car_id = Some ''tx-warnings'', car_desc = Some ''TX warnings'', car_ann_classes = Some [1], car_num_ann_classes = 1\<rparr>,
     \<lparr>car_id = Some ''atk-signs'', car_desc = Some ''ATK signs'', car_ann_classes = Some [12], car_num_ann_classes = 1\<rparr>]"

definition uart_fast_binary :: "srd_decoder_binary list" where
  "uart_fast_binary = [
     \<lparr>bin_class = 0, bin_id = Some ''rx'', bin_desc = Some ''RX dump''\<rparr>,
     \<lparr>bin_class = 1, bin_id = Some ''tx'', bin_desc = Some ''TX dump''\<rparr>,
     \<lparr>bin_class = 2, bin_id = Some ''rxtx'', bin_desc = Some ''RX/TX dump''\<rparr>,
     \<lparr>bin_class = 3, bin_id = Some ''rx-ok'', bin_desc = Some ''RX dump (no error)''\<rparr>,
     \<lparr>bin_class = 4, bin_id = Some ''tx-ok'', bin_desc = Some ''TX dump (no error)''\<rparr>,
     \<lparr>bin_class = 5, bin_id = Some ''rxtx-ok'', bin_desc = Some ''RX/TX dump (no error)''\<rparr>]"

definition uart_fast_inputs :: "string list" where
  "uart_fast_inputs = [
     ''logic'']"

definition uart_fast_outputs :: "string list" where
  "uart_fast_outputs = [
     ''uart'']"

definition uart_fast_tags :: "string list" where
  "uart_fast_tags = [
     ''Embedded/industrial'']"

definition uart_fast_c_def :: srd_c_decoder where
  "uart_fast_c_def = \<lparr>cd_id = Some ''uart_fast_c'', cd_name = Some ''UART-fast(C)'',
     cd_longname = Some ''Universal Asynchronous Receiver/Transmitter (C)'', cd_desc = Some ''Asynchronous, serial bus. (Ultra-fast version, C implementation)'', cd_license = Some ''gplv2+'',
     cd_channels = None, cd_num_channels = 0,
     cd_optional_channels = Some uart_fast_optional_channels, cd_num_optional_channels = 2,
     cd_options = Some uart_fast_options, cd_num_options = 9,
     cd_num_annotations = 13, cd_ann_labels = Some uart_fast_ann_labels,
     cd_num_annotation_rows = 5, cd_annotation_rows = Some uart_fast_ann_rows,
     cd_inputs = Some uart_fast_inputs, cd_num_inputs = 1, cd_outputs = Some uart_fast_outputs, cd_num_outputs = 1,
     cd_binary = Some uart_fast_binary, cd_num_binary = 6, cd_tags = Some uart_fast_tags, cd_num_tags = 1\<rparr>"

lemma uart_fast_described: "described uart_fast_c_def = (True, True, True)"
  by (simp add: described_simps uart_fast_options_def uart_fast_optional_channels_def uart_fast_ann_labels_def uart_fast_ann_rows_def uart_fast_binary_def uart_fast_inputs_def uart_fast_outputs_def uart_fast_tags_def uart_fast_c_def_def)

section \<open>udp_c.c\<close>

definition udp_options :: "srd_decoder_option list" where
  "udp_options = [
     \<lparr>opt_id = Some ''format'', opt_idn = None, opt_desc = Some ''Data format'',
        opt_def = Some (GV_string ''hex''), opt_values = [GV_string ''ascii'', GV_string ''dec'', GV_string ''hex'', GV_string ''oct'', GV_string ''bin'']\<rparr>]"

definition udp_ann_labels :: "(string option \<times> string option \<times> string option) list" where
  "udp_ann_labels = [
     (Some [], Some ''header'', Some ''Decoded header''),
     (Some [], Some ''data'', Some ''Decoded data'')]"

definition udp_ann_rows :: "srd_c_ann_row list" where
  "udp_ann_rows = [
     \<lparr>car_id = Some ''headers'', car_desc = Some ''Headers'', car_ann_classes = Some [0], car_num_ann_classes = 1\<rparr>,
     \<lparr>car_id = Some ''datas'', car_desc = Some ''Datas'', car_ann_classes = Some [1], car_num_ann_classes = 1\<rparr>]"

definition udp_binary :: "srd_decoder_binary list" where
  "udp_binary = [
     \<lparr>bin_class = 0, bin_id = Some ''raw'', bin_desc = Some ''Raw UDP payload''\<rparr>]"

definition udp_inputs :: "string list" where
  "udp_inputs = [
     ''ipv4'']"

definition udp_outputs :: "string list" where
  "udp_outputs = [
     ''udp'']"

definition udp_tags :: "string list" where
  "udp_tags = [
     ''Networking'',
     ''PC'']"

definition udp_c_def :: srd_c_decoder where
  "udp_c_def = \<lparr>cd_id = Some ''udp_c'', cd_name = Some ''UDP(C)'',
     cd_longname = Some ''User Datagram Protocol (C)'', cd_desc = Some ''UDP (C implementation)'', cd_license = Some ''gplv2+'',
     cd_channels = None, cd_num_channels = 0,
     cd_optional_channels = None, cd_num_optional_channels = 0,
     cd_options = Some udp_options, cd_num_options = 1,
     cd_num_annotations = 2, cd_ann_labels = Some udp_ann_labels,
     cd_num_annotation_rows = 2, cd_annotation_rows = Some udp_ann_rows,
     cd_inputs = Some udp_inputs, cd_num_inputs = 1, cd_outputs = Some udp_outputs, cd_num_outputs = 1,
     cd_binary = Some udp_binary, cd_num_binary = 1, cd_tags = Some udp_tags, cd_num_tags = 2\<rparr>"

lemma udp_described: "described udp_c_def = (True, True, True)"
  by (simp add: described_simps udp_options_def udp_ann_labels_def udp_ann_rows_def udp_binary_def udp_inputs_def udp_outputs_def udp_tags_def udp_c_def_def)

section \<open>ufcs_c.c\<close>

definition ufcs_options :: "srd_decoder_option list" where
  "ufcs_options = [
     \<lparr>opt_id = Some ''fulltext'', opt_idn = Some ''dec_ufcs_opt_fulltext'', opt_desc = Some ''Full text decoding of packets'',
        opt_def = Some (GV_string ''no''), opt_values = [GV_string ''yes'', GV_string ''no'']\<rparr>]"

definition ufcs_ann_labels :: "(string option \<times> string option \<times> string option) list" where
  "ufcs_ann_labels = [
     (Some [], Some ''type'', Some ''Packet Type''),
     (Some [], Some ''training'', Some ''Training''),
     (Some [], Some ''header'', Some ''Header''),
     (Some [], Some ''data'', Some ''Data''),
     (Some [], Some ''crc'', Some ''Checksum''),
     (Some [], Some ''warnings'', Some ''Warnings''),
     (Some [], Some ''src'', Some ''Source Message''),
     (Some [], Some ''snk'', Some ''Sink Message''),
     (Some [], Some ''payload'', Some ''Payload''),
     (Some [], Some ''text'', Some ''Plain text''),
     (Some [], Some ''cable'', Some ''Cable Message''),
     (Some [], Some ''reserved'', Some ''Reserved'')]"

definition ufcs_ann_rows :: "srd_c_ann_row list" where
  "ufcs_ann_rows = [
     \<lparr>car_id = Some ''phase'', car_desc = Some ''Parts'', car_ann_classes = Some [1, 2, 3, 4], car_num_ann_classes = 4\<rparr>,
     \<lparr>car_id = Some ''payload'', car_desc = Some ''Payload'', car_ann_classes = Some [8], car_num_ann_classes = 1\<rparr>,
     \<lparr>car_id = Some ''type'', car_desc = Some ''Type'', car_ann_classes = Some [0, 6, 7, 10, 11], car_num_ann_classes = 5\<rparr>,
     \<lparr>car_id = Some ''warnings'', car_desc = Some ''Warnings'', car_ann_classes = Some [5], car_num_ann_classes = 1\<rparr>,
     \<lparr>car_id = Some ''text'', car_desc = Some ''Full text'', car_ann_classes = Some [9], car_num_ann_classes = 1\<rparr>]"

definition ufcs_inputs :: "string list" where
  "ufcs_inputs = [
     ''uart'']"

definition ufcs_tags :: "string list" where
  "ufcs_tags = [
     ''PC/Mobile'']"

definition ufcs_c_def :: srd_c_decoder where
  "ufcs_c_def = \<lparr>cd_id = Some ''ufcs_c'', cd_name = Some ''UFCS(C)'',
     cd_longname = Some ''Universal Fast Charging Specification (C)'', cd_desc = Some ''Universal fast charging specification for mobile devices. T/TAF 083-2021 (C implementation)'', cd_license = Some ''gplv2+'',
     cd_channels = None, cd_num_channels = 0,
     cd_optional_channels = None, cd_num_optional_channels = 0,
     cd_options = Some ufcs_options, cd_num_options = 1,
     cd_num_annotations = 12, cd_ann_labels = Some ufcs_ann_labels,
     cd_num_annotation_rows = 5, cd_annotation_rows = Some ufcs_ann_rows,
     cd_inputs = Some ufcs_inputs, cd_num_inputs = 1, cd_outputs = None, cd_num_outputs = 0,
     cd_binary = None, cd_num_binary = 0, cd_tags = Some ufcs_tags, cd_num_tags = 1\<rparr>"

lemma ufcs_described: "described ufcs_c_def = (True, True, True)"
  by (simp add: described_simps ufcs_options_def ufcs_ann_labels_def ufcs_ann_rows_def ufcs_inputs_def ufcs_tags_def ufcs_c_def_def)

section \<open>usb_packet_c.c\<close>

definition usb_packet_options :: "srd_decoder_option list" where
  "usb_packet_options = [
     \<lparr>opt_id = Some ''signalling'', opt_idn = Some ''dec_usb_packet_opt_signalling'', opt_desc = Some ''Signalling'',
        opt_def = Some (GV_string ''full-speed''), opt_values = [GV_string ''full-speed'', GV_string ''low-speed'']\<rparr>]"

definition usb_packet_ann_labels :: "(string option \<times> string option \<times> string option) list" where
  "usb_packet_ann_labels = [
     (Some [], Some ''sync-ok'', Some ''SYNC''),
     (Some [], Some ''sync-err'', Some ''SYNC (error)''),
     (Some [], Some ''pid'', Some ''PID''),
     (Some [], Some ''framenum'', Some ''FRAMENUM''),
     (Some [], Some ''addr'', Some ''ADDR''),
     (Some [], Some ''ep'', Some ''EP''),
     (Some [], Some ''crc5-ok'', Some ''CRC5''),
     (Some [], Some ''crc5-err'', Some ''CRC5 (error)''),
     (Some [], Some ''data'', Some ''DATA''),
     (Some [], Some ''crc16-ok'', Some ''CRC16''),
     (Some [], Some ''crc16-err'', Some ''CRC16 (error)''),
     (Some [], Some ''packet-out'', Some ''Packet: OUT''),
     (Some [], Some ''packet-in'', Some ''Packet: IN''),
     (Some [], Some ''packet-sof'', Some ''Packet: SOF''),
     (Some [], Some ''packet-setup'', Some ''Packet: SETUP''),
     (Some [], Some ''packet-data0'', Some ''Packet: DATA0''),
     (Some [], Some ''packet-data1'', Some ''Packet: DATA1''),
     (Some [], Some ''packet-data2'', Some ''Packet: DATA2''),
     (Some [], Some ''packet-mdata'', Some ''Packet: MDATA''),
     (Some [], Some ''packet-ack'', Some ''Packet: ACK''),
     (Some [], Some ''packet-nak'', Some ''Packet: NAK''),
     (Some [], Some ''packet-stall'', Some ''Packet: STALL''),
     (Some [], Some ''packet-nyet'', Some ''Packet: NYET''),
     (Some [], Some ''packet-pre'', Some ''Packet: PRE''),
     (Some [], Some ''packet-err'', Some ''Packet: ERR''),
     (Some [], Some ''packet-split'', Some ''Packet: SPLIT''),
     (Some [], Some ''packet-ping'', Some ''Packet: PING''),
     (Some [], Some ''packet-reserved'', Some ''Packet: Reserved''),
     (Some [], Some ''packet-invalid'', Some ''Packet: Invalid'')]"

definition usb_packet_ann_rows :: "srd_c_ann_row list" where
  "usb_packet_ann_rows = [
     \<lparr>car_id = Some ''fields'', car_desc = Some ''Packet fields'', car_ann_classes = Some [0, 1, 2, 3, 4, 5, 6, 7, 8, 9, 10], car_num_ann_classes = 11\<rparr>,
     \<lparr>car_id = Some ''packet'', car_desc = Some ''Packets'', car_ann_classes = Some [11, 12, 13, 14, 15, 16, 17, 18, 19, 20, 21, 22, 23, 24, 25, 26, 27, 28], car_num_ann_classes = 18\<rparr>]"

definition usb_packet_inputs :: "string list" where
  "usb_packet_inputs = [
     ''usb_signalling'']"

definition usb_packet_outputs :: "string list" where
  "usb_packet_outputs = [
     ''usb_packet'']"

definition usb_packet_tags :: "string list" where
  "usb_packet_tags = [
     ''PC'']"

definition usb_packet_c_def :: srd_c_decoder where
  "usb_packet_c_def = \<lparr>cd_id = Some ''usb_packet_c'', cd_name = Some ''USB packet(C)'',
     cd_longname = Some ''Universal Serial Bus (LS/FS) packet (C)'', cd_desc = Some ''USB (low-speed and full-speed) packet protocol. (C implementation)'', cd_license = Some ''gplv2+'',
     cd_channels = None, cd_num_channels = 0,
     cd_optional_channels = None, cd_num_optional_channels = 0,
     cd_options = Some usb_packet_options, cd_num_options = 1,
     cd_num_annotations = 29, cd_ann_labels = Some usb_packet_ann_labels,
     cd_num_annotation_rows = 2, cd_annotation_rows = Some usb_packet_ann_rows,
     cd_inputs = Some usb_packet_inputs, cd_num_inputs = 1, cd_outputs = Some usb_packet_outputs, cd_num_outputs = 1,
     cd_binary = None, cd_num_binary = 0, cd_tags = Some usb_packet_tags, cd_num_tags = 1\<rparr>"

lemma usb_packet_described: "described usb_packet_c_def = (True, True, True)"
  by (simp add: described_simps usb_packet_options_def usb_packet_ann_labels_def usb_packet_ann_rows_def usb_packet_inputs_def usb_packet_outputs_def usb_packet_tags_def usb_packet_c_def_def)

section \<open>usb_power_delivery_c.c\<close>

definition usb_pd_options :: "srd_decoder_option list" where
  "usb_pd_options = [
     \<lparr>opt_id = Some ''fulltext'', opt_idn = Some ''dec_usb_power_delivery_opt_fulltext'', opt_desc = Some ''Full text decoding of packets'',
        opt_def = Some (GV_string ''no''), opt_values = [GV_string ''yes'', GV_string ''no'']\<rparr>]"

definition usb_pd_channels :: "srd_channel list" where
  "usb_pd_channels = [
     \<lparr>ch_id = Some ''cc1'', ch_name = Some ''CC1'', ch_desc = Some ''Configuration Channel 1'', ch_order = 0, ch_type = 1, ch_idn = Some ''dec_usb_power_delivery_chan_cc1''\<rparr>]"

definition usb_pd_optional_channels :: "srd_channel list" where
  "usb_pd_optional_channels = [
     \<lparr>ch_id = Some ''cc2'', ch_name = Some ''CC2'', ch_desc = Some ''Configuration Channel 2'', ch_order = 0, ch_type = 1, ch_idn = Some ''dec_usb_power_delivery_opt_chan_cc2''\<rparr>]"

definition usb_pd_ann_labels :: "(string option \<times> string option \<times> string option) list" where
  "usb_pd_ann_labels = [
     (Some [], Some ''type'', Some ''Packet Type''),
     (Some [], Some ''preamble'', Some ''Preamble''),
     (Some [], Some ''sop'', Some ''Start of Packet''),
     (Some [], Some ''header'', Some ''Header''),
     (Some [], Some ''data'', Some ''Data''),
     (Some [], Some ''crc'', Some ''Checksum''),
     (Some [], Some ''eop'', Some ''End Of Packet''),
     (Some [], Some ''sym'', Some ''4b5b symbols''),
     (Some [], Some ''warnings'', Some ''Warnings''),
     (Some [], Some ''src'', Some ''Source Message''),
     (Some [], Some ''snk'', Some ''Sink Message''),
     (Some [], Some ''payload'', Some ''Payload''),
     (Some [], Some ''text'', Some ''Plain text'')]"

definition usb_pd_ann_rows :: "srd_c_ann_row list" where
  "usb_pd_ann_rows = [
     \<lparr>car_id = Some ''4b5b'', car_desc = Some ''Symbols'', car_ann_classes = Some [7], car_num_ann_classes = 1\<rparr>,
     \<lparr>car_id = Some ''phase'', car_desc = Some ''Parts'', car_ann_classes = Some [1, 2, 3, 4, 5, 6], car_num_ann_classes = 6\<rparr>,
     \<lparr>car_id = Some ''payload'', car_desc = Some ''Payload'', car_ann_classes = Some [11], car_num_ann_classes = 1\<rparr>,
     \<lparr>car_id = Some ''type'', car_desc = Some ''Type'', car_ann_classes = Some [0, 9, 10], car_num_ann_classes = 3\<rparr>,
     \<lparr>car_id = Some ''warnings'', car_desc = Some ''Warnings'', car_ann_classes = Some [8], car_num_ann_classes = 1\<rparr>,
     \<lparr>car_id = Some ''text'', car_desc = Some ''Full text'', car_ann_classes = Some [12], car_num_ann_classes = 1\<rparr>]"

definition usb_pd_binary :: "srd_decoder_binary list" where
  "usb_pd_binary = [
     \<lparr>bin_class = 0, bin_id = Some ''raw-data'', bin_desc = Some ''RAW binary data''\<rparr>]"

definition usb_pd_inputs :: "string list" where
  "usb_pd_inputs = [
     ''logic'']"

definition usb_pd_outputs :: "string list" where
  "usb_pd_outputs = [
     ''usb_pd'']"

definition usb_pd_tags :: "string list" where
  "usb_pd_tags = [
     ''PC'']"

definition usb_pd_c_def :: srd_c_decoder where
  "usb_pd_c_def = \<lparr>cd_id = Some ''usb_power_delivery_c'', cd_name = Some ''USB PD(C)'',
     cd_longname = Some ''USB Power Delivery (C)'', cd_desc = Some ''USB Power Delivery protocol. (C implementation)'', cd_license = Some ''gplv2+'',
     cd_channels = Some usb_pd_channels, cd_num_channels = 1,
     cd_optional_channels = Some usb_pd_optional_channels, cd_num_optional_channels = 1,
     cd_options = Some usb_pd_options, cd_num_options = 1,
     cd_num_annotations = 13, cd_ann_labels = Some usb_pd_ann_labels,
     cd_num_annotation_rows = 6, cd_annotation_rows = Some usb_pd_ann_rows,
     cd_inputs = Some usb_pd_inputs, cd_num_inputs = 1, cd_outputs = Some usb_pd_outputs, cd_num_outputs = 1,
     cd_binary = Some usb_pd_binary, cd_num_binary = 1, cd_tags = Some usb_pd_tags, cd_num_tags = 1\<rparr>"

lemma usb_pd_described: "described usb_pd_c_def = (True, False, True)"
  by (simp add: described_simps usb_pd_options_def usb_pd_channels_def usb_pd_optional_channels_def usb_pd_ann_labels_def usb_pd_ann_rows_def usb_pd_binary_def usb_pd_inputs_def usb_pd_outputs_def usb_pd_tags_def usb_pd_c_def_def)

section \<open>usb_request_c.c\<close>

definition usb_request_options :: "srd_decoder_option list" where
  "usb_request_options = [
     \<lparr>opt_id = Some ''in_request_start'', opt_idn = Some ''dec_usb_request_opt_in_request_start'', opt_desc = Some ''Start IN requests on'',
        opt_def = Some (GV_string ''submit''), opt_values = [GV_string ''submit'', GV_string ''first-ack'']\<rparr>]"

definition usb_request_ann_labels :: "(string option \<times> string option \<times> string option) list" where
  "usb_request_ann_labels = [
     (Some [], Some ''request-setup-read'', Some ''Setup: Device-to-host''),
     (Some [], Some ''request-setup-write'', Some ''Setup: Host-to-device''),
     (Some [], Some ''request-bulk-read'', Some ''Bulk: Device-to-host''),
     (Some [], Some ''request-bulk-write'', Some ''Bulk: Host-to-device''),
     (Some [], Some ''error'', Some ''Unexpected packet'')]"

definition usb_request_ann_rows :: "srd_c_ann_row list" where
  "usb_request_ann_rows = [
     \<lparr>car_id = Some ''request-setup'', car_desc = Some ''USB SETUP'', car_ann_classes = Some [0, 1], car_num_ann_classes = 2\<rparr>,
     \<lparr>car_id = Some ''request-in'', car_desc = Some ''USB BULK IN'', car_ann_classes = Some [2], car_num_ann_classes = 1\<rparr>,
     \<lparr>car_id = Some ''request-out'', car_desc = Some ''USB BULK OUT'', car_ann_classes = Some [3], car_num_ann_classes = 1\<rparr>,
     \<lparr>car_id = Some ''errors'', car_desc = Some ''Errors'', car_ann_classes = Some [4], car_num_ann_classes = 1\<rparr>]"

definition usb_request_binary :: "srd_decoder_binary list" where
  "usb_request_binary = [
     \<lparr>bin_class = 0, bin_id = Some ''pcap'', bin_desc = Some ''PCAP format''\<rparr>]"

definition usb_request_inputs :: "string list" where
  "usb_request_inputs = [
     ''usb_packet'']"

definition usb_request_outputs :: "string list" where
  "usb_request_outputs = [
     ''usb_request'']"

definition usb_request_tags :: "string list" where
  "usb_request_tags = [
     ''PC'']"

definition usb_request_c_def :: srd_c_decoder where
  "usb_request_c_def = \<lparr>cd_id = Some ''usb_request_c'', cd_name = Some ''USB request(C)'',
     cd_longname = Some ''Universal Serial Bus (LS/FS) transaction/request (C)'', cd_desc = Some ''USB (low-speed/full-speed) transaction/request protocol. (C implementation)'', cd_license = Some ''gplv2+'',
     cd_channels = None, cd_num_channels = 0,
     cd_optional_channels = None, cd_num_optional_channels = 0,
     cd_options = Some usb_request_options, cd_num_options = 1,
     cd_num_annotations = 5, cd_ann_labels = Some usb_request_ann_labels,
     cd_num_annotation_rows = 4, cd_annotation_rows = Some usb_request_ann_rows,
     cd_inputs = Some usb_request_inputs, cd_num_inputs = 1, cd_outputs = Some usb_request_outputs, cd_num_outputs = 1,
     cd_binary = Some usb_request_binary, cd_num_binary = 1, cd_tags = Some usb_request_tags, cd_num_tags = 1\<rparr>"

lemma usb_request_described: "described usb_request_c_def = (True, True, True)"
  by (simp add: described_simps usb_request_options_def usb_request_ann_labels_def usb_request_ann_rows_def usb_request_binary_def usb_request_inputs_def usb_request_outputs_def usb_request_tags_def usb_request_c_def_def)

section \<open>usb_signalling_c.c\<close>

definition usb_signalling_options :: "srd_decoder_option list" where
  "usb_signalling_options = [
     \<lparr>opt_id = Some ''signalling'', opt_idn = Some ''dec_usb_signalling_opt_signalling'', opt_desc = Some ''Signalling'',
        opt_def = Some (GV_string ''automatic''), opt_values = [GV_string ''automatic'', GV_string ''full-speed'', GV_string ''low-speed'']\<rparr>]"

definition usb_signalling_channels :: "srd_channel list" where
  "usb_signalling_channels = [
     \<lparr>ch_id = Some ''dp'', ch_name = Some ''D+'', ch_desc = Some ''USB D+ signal'', ch_order = 0, ch_type = -1, ch_idn = Some ''dec_usb_signalling_chan_dp''\<rparr>,
     \<lparr>ch_id = Some ''dm'', ch_name = Some ''D-'', ch_desc = Some ''USB D- signal'', ch_order = 1, ch_type = -1, ch_idn = Some ''dec_usb_signalling_chan_dm''\<rparr>]"

definition usb_signalling_ann_labels :: "(string option \<times> string option \<times> string option) list" where
  "usb_signalling_ann_labels = [
     (Some [], Some ''sym-j'', Some ''J symbol''),
     (Some [], Some ''sym-k'', Some ''K symbol''),
     (Some [], Some ''sym-se0'', Some ''SE0 symbol''),
     (Some [], Some ''sym-se1'', Some ''SE1 symbol''),
     (Some [], Some ''sop'', Some ''Start of packet (SOP)''),
     (Some [], Some ''eop'', Some ''End of packet (EOP)''),
     (Some [], Some ''bit'', Some ''Bit''),
     (Some [], Some ''stuffbit'', Some ''Stuff bit''),
     (Some [], Some ''error'', Some ''Error''),
     (Some [], Some ''keep-alive'', Some ''Low-speed keep-alive''),
     (Some [], Some ''reset'', Some ''Reset'')]"

definition usb_signalling_ann_rows :: "srd_c_ann_row list" where
  "usb_signalling_ann_rows = [
     \<lparr>car_id = Some ''bits'', car_desc = Some ''Bits'', car_ann_classes = Some [4, 5, 6, 7, 8, 9, 10], car_num_ann_classes = 7\<rparr>,
     \<lparr>car_id = Some ''symbols'', car_desc = Some ''Symbols'', car_ann_classes = Some [0, 1, 2, 3], car_num_ann_classes = 4\<rparr>]"

definition usb_signalling_inputs :: "string list" where
  "usb_signalling_inputs = [
     ''logic'']"

definition usb_signalling_outputs :: "string list" where
  "usb_signalling_outputs = [
     ''usb_signalling'']"

definition usb_signalling_tags :: "string list" where
  "usb_signalling_tags = [
     ''PC'']"

definition usb_signalling_c_def :: srd_c_decoder where
  "usb_signalling_c_def = \<lparr>cd_id = Some ''usb_signalling_c'', cd_name = Some ''USB signalling'',
     cd_longname = Some ''Universal Serial Bus (LS/FS) signalling'', cd_desc = Some ''USB (low-speed/full-speed) signalling protocol.'', cd_license = Some ''gplv2+'',
     cd_channels = Some usb_signalling_channels, cd_num_channels = 2,
     cd_optional_channels = None, cd_num_optional_channels = 0,
     cd_options = Some usb_signalling_options, cd_num_options = 1,
     cd_num_annotations = 11, cd_ann_labels = Some usb_signalling_ann_labels,
     cd_num_annotation_rows = 2, cd_annotation_rows = Some usb_signalling_ann_rows,
     cd_inputs = Some usb_signalling_inputs, cd_num_inputs = 1, cd_outputs = Some usb_signalling_outputs, cd_num_outputs = 1,
     cd_binary = None, cd_num_binary = 0, cd_tags = Some usb_signalling_tags, cd_num_tags = 1\<rparr>"

lemma usb_signalling_described: "described usb_signalling_c_def = (True, True, True)"
  by (simp add: described_simps usb_signalling_options_def usb_signalling_channels_def usb_signalling_ann_labels_def usb_signalling_ann_rows_def usb_signalling_inputs_def usb_signalling_outputs_def usb_signalling_tags_def usb_signalling_c_def_def)

section \<open>wiegand_c.c\<close>

definition wiegand_options :: "srd_decoder_option list" where
  "wiegand_options = [
     \<lparr>opt_id = Some ''active'', opt_idn = Some ''dec_wiegand_opt_active'', opt_desc = Some ''Data lines active level'',
        opt_def = Some (GV_string ''low''), opt_values = [GV_string ''low'', GV_string ''high'']\<rparr>,
     \<lparr>opt_id = Some ''bitwidth_ms'', opt_idn = Some ''dec_wiegand_opt_bitwidth_ms'', opt_desc = Some ''Single bit width in milliseconds'',
        opt_def = Some (GV_int64 4), opt_values = [GV_int64 1, GV_int64 2, GV_int64 4, GV_int64 8, GV_int64 16, GV_int64 32]\<rparr>]"

definition wiegand_channels :: "srd_channel list" where
  "wiegand_channels = [
     \<lparr>ch_id = Some ''d0'', ch_name = Some ''D0'', ch_desc = Some ''Data 0 line'', ch_order = 0, ch_type = 1, ch_idn = Some ''dec_wiegand_chan_d0''\<rparr>,
     \<lparr>ch_id = Some ''d1'', ch_name = Some ''D1'', ch_desc = Some ''Data 1 line'', ch_order = 1, ch_type = 1, ch_idn = Some ''dec_wiegand_chan_d1''\<rparr>]"

definition wiegand_ann_labels :: "(string option \<times> string option \<times> string option) list" where
  "wiegand_ann_labels = [
     (Some [], Some ''bits'', Some ''Bits''),
     (Some [], Some ''state'', Some ''State'')]"

definition wiegand_ann_rows :: "srd_c_ann_row list" where
  "wiegand_ann_rows = [
     \<lparr>car_id = Some ''bits'', car_desc = Some ''Binary value'', car_ann_classes = Some [0], car_num_ann_classes = 1\<rparr>,
     \<lparr>car_id = Some ''state'', car_desc = Some ''Stream state'', car_ann_classes = Some [1], car_num_ann_classes = 1\<rparr>]"

definition wiegand_inputs :: "string list" where
  "wiegand_inputs = [
     ''logic'']"

definition wiegand_outputs :: "string list" where
  "wiegand_outputs = []"

definition wiegand_tags :: "string list" where
  "wiegand_tags = [
     ''Embedded/industrial'',
     ''RFID'']"

definition wiegand_c_def :: srd_c_decoder where
  "wiegand_c_def = \<lparr>cd_id = Some ''wiegand_c'', cd_name = Some ''Wiegand(C)'',
     cd_longname = Some ''Wiegand interface (C)'', cd_desc = Some ''Wiegand interface for electronic entry systems (C implementation)'', cd_license = Some ''gplv2+'',
     cd_channels = Some wiegand_channels, cd_num_channels = 2,
     cd_optional_channels = None, cd_num_optional_channels = 0,
     cd_options = Some wiegand_options, cd_num_options = 2,
     cd_num_annotations = 2, cd_ann_labels = Some wiegand_ann_labels,
     cd_num_annotation_rows = 2, cd_annotation_rows = Some wiegand_ann_rows,
     cd_inputs = Some wiegand_inputs, cd_num_inputs = 1, cd_outputs = Some wiegand_outputs, cd_num_outputs = 0,
     cd_binary = None, cd_num_binary = 0, cd_tags = Some wiegand_tags, cd_num_tags = 2\<rparr>"

lemma wiegand_described: "described wiegand_c_def = (True, True, True)"
  by (simp add: described_simps wiegand_options_def wiegand_channels_def wiegand_ann_labels_def wiegand_ann_rows_def wiegand_inputs_def wiegand_outputs_def wiegand_tags_def wiegand_c_def_def)

section \<open>x2444m_c.c\<close>

definition x2444m_ann_labels :: "(string option \<times> string option \<times> string option) list" where
  "x2444m_ann_labels = [
     (Some [], Some ''wrds'', Some ''Write disable''),
     (Some [], Some ''sto'', Some ''Store RAM data in EEPROM''),
     (Some [], Some ''sleep'', Some ''Enter sleep mode''),
     (Some [], Some ''write'', Some ''Write data into RAM''),
     (Some [], Some ''wren'', Some ''Write enable''),
     (Some [], Some ''rcl'', Some ''Recall EEPROM data into RAM''),
     (Some [], Some ''read'', Some ''Data read from RAM''),
     (Some [], Some ''read'', Some ''Data read from RAM'')]"

definition x2444m_ann_rows :: "srd_c_ann_row list" where
  "x2444m_ann_rows = [
     \<lparr>car_id = Some ''commands'', car_desc = Some ''Commands'', car_ann_classes = Some [0, 1, 2, 4, 5], car_num_ann_classes = 5\<rparr>,
     \<lparr>car_id = Some ''data'', car_desc = Some ''Data read/write'', car_ann_classes = Some [3, 6, 7], car_num_ann_classes = 3\<rparr>]"

definition x2444m_inputs :: "string list" where
  "x2444m_inputs = [
     ''spi'']"

definition x2444m_tags :: "string list" where
  "x2444m_tags = [
     ''IC'',
     ''Memory'']"

definition x2444m_c_def :: srd_c_decoder where
  "x2444m_c_def = \<lparr>cd_id = Some ''x2444m_c'', cd_name = Some ''X2444M(C)'',
     cd_longname = Some ''Xicor X2444M/P (C)'', cd_desc = Some ''Xicor X2444M/P nonvolatile static RAM protocol. (C implementation)'', cd_license = Some ''gplv2+'',
     cd_channels = None, cd_num_channels = 0,
     cd_optional_channels = None, cd_num_optional_channels = 0,
     cd_options = None, cd_num_options = 0,
     cd_num_annotations = 8, cd_ann_labels = Some x2444m_ann_labels,
     cd_num_annotation_rows = 2, cd_annotation_rows = Some x2444m_ann_rows,
     cd_inputs = Some x2444m_inputs, cd_num_inputs = 1, cd_outputs = None, cd_num_outputs = 0,
     cd_binary = None, cd_num_binary = 0, cd_tags = Some x2444m_tags, cd_num_tags = 2\<rparr>"

lemma x2444m_described: "described x2444m_c_def = (True, True, True)"
  by (simp add: described_simps x2444m_ann_labels_def x2444m_ann_rows_def x2444m_inputs_def x2444m_tags_def x2444m_c_def_def)

section \<open>xfp_c.c\<close>

definition xfp_ann_labels :: "(string option \<times> string option \<times> string option) list" where
  "xfp_ann_labels = [
     (Some [], Some ''field-name-and-val'', Some ''Field name and value''),
     (Some [], Some ''field-val'', Some ''Field value'')]"

definition xfp_ann_rows :: "srd_c_ann_row list" where
  "xfp_ann_rows = [
     \<lparr>car_id = Some ''field-names-and-vals'', car_desc = Some ''Field names and values'', car_ann_classes = Some [0], car_num_ann_classes = 1\<rparr>,
     \<lparr>car_id = Some ''field-vals'', car_desc = Some ''Field values'', car_ann_classes = Some [1], car_num_ann_classes = 1\<rparr>]"

definition xfp_inputs :: "string list" where
  "xfp_inputs = [
     ''i2c'']"

definition xfp_tags :: "string list" where
  "xfp_tags = [
     ''Networking'']"

definition xfp_c_def :: srd_c_decoder where
  "xfp_c_def = \<lparr>cd_id = Some ''xfp_c'', cd_name = Some ''XFP(C)'',
     cd_longname = Some ''10 Gigabit Small Form Factor Pluggable Module (XFP) (C)'', cd_desc = Some (''XFP I'' @ bytes_str [0xC2, 0xB2] @ ''C management interface structures/protocol. (C implementation)''), cd_license = Some ''gplv3+'',
     cd_channels = None, cd_num_channels = 0,
     cd_optional_channels = None, cd_num_optional_channels = 0,
     cd_options = None, cd_num_options = 0,
     cd_num_annotations = 2, cd_ann_labels = Some xfp_ann_labels,
     cd_num_annotation_rows = 2, cd_annotation_rows = Some xfp_ann_rows,
     cd_inputs = Some xfp_inputs, cd_num_inputs = 1, cd_outputs = None, cd_num_outputs = 0,
     cd_binary = None, cd_num_binary = 0, cd_tags = Some xfp_tags, cd_num_tags = 1\<rparr>"

lemma xfp_described: "described xfp_c_def = (True, True, True)"
  by (simp add: described_simps xfp_ann_labels_def xfp_ann_rows_def xfp_inputs_def xfp_tags_def xfp_c_def_def)

section \<open>xy2_100_c.c\<close>

definition xy2_100_channels :: "srd_channel list" where
  "xy2_100_channels = [
     \<lparr>ch_id = Some ''clk'', ch_name = Some ''CLK'', ch_desc = Some ''Clock'', ch_order = 0, ch_type = 0, ch_idn = None\<rparr>,
     \<lparr>ch_id = Some ''sync'', ch_name = Some ''SYNC'', ch_desc = Some ''Sync'', ch_order = 1, ch_type = -1, ch_idn = None\<rparr>,
     \<lparr>ch_id = Some ''data'', ch_name = Some ''DATA'', ch_desc = Some ''X, Y or Z axis data'', ch_order = 2, ch_type = 1, ch_idn = None\<rparr>]"

definition xy2_100_optional_channels :: "srd_channel list" where
  "xy2_100_optional_channels = [
     \<lparr>ch_id = Some ''status'', ch_name = Some ''STAT'', ch_desc = Some ''X, Y or Z axis status'', ch_order = 3, ch_type = 1, ch_idn = None\<rparr>]"

definition xy2_100_ann_labels :: "(string option \<times> string option \<times> string option) list" where
  "xy2_100_ann_labels = [
     (Some [], Some ''Data Bit'', Some ''Data Bit''),
     (Some [], Some ''Status Bit'', Some ''Status Bit''),
     (Some [], Some ''Frame Type'', Some ''Frame Type''),
     (Some [], Some ''Command'', Some ''Command''),
     (Some [], Some ''Parameter'', Some ''Parameter''),
     (Some [], Some ''Parity'', Some ''Parity''),
     (Some [], Some ''Position'', Some ''Position''),
     (Some [], Some ''Status'', Some ''Status''),
     (Some [], Some ''Warning'', Some ''Human-readable warnings'')]"

definition xy2_100_ann_rows :: "srd_c_ann_row list" where
  "xy2_100_ann_rows = [
     \<lparr>car_id = Some ''bits'', car_desc = Some ''Data Bits'', car_ann_classes = Some [0], car_num_ann_classes = 1\<rparr>,
     \<lparr>car_id = Some ''stat_bits'', car_desc = Some ''Status Bits'', car_ann_classes = Some [1], car_num_ann_classes = 1\<rparr>,
     \<lparr>car_id = Some ''data'', car_desc = Some ''Data'', car_ann_classes = Some [2, 3, 4, 5], car_num_ann_classes = 4\<rparr>,
     \<lparr>car_id = Some ''positions'', car_desc = Some ''Positions'', car_ann_classes = Some [6], car_num_ann_classes = 1\<rparr>,
     \<lparr>car_id = Some ''statuses'', car_desc = Some ''Statuses'', car_ann_classes = Some [7], car_num_ann_classes = 1\<rparr>,
     \<lparr>car_id = Some ''warnings'', car_desc = Some ''Warnings'', car_ann_classes = Some [8], car_num_ann_classes = 1\<rparr>]"

definition xy2_100_inputs :: "string list" where
  "xy2_100_inputs = [
     ''logic'']"

definition xy2_100_tags :: "string list" where
  "xy2_100_tags = [
     ''Embedded/industrial'']"

definition xy2_100_c_def :: srd_c_decoder where
  "xy2_100_c_def = \<lparr>cd_id = Some ''xy2_100_c'', cd_name = Some ''XY2-100(C)'',
     cd_longname = Some ''XY2-100(E) and XY-200(E) galvanometer protocol (C)'', cd_desc = Some ''Serial protocol for galvanometer positioning in laser systems (C implementation)'', cd_license = Some ''gplv2+'',
     cd_channels = Some xy2_100_channels, cd_num_channels = 3,
     cd_optional_channels = Some xy2_100_optional_channels, cd_num_optional_channels = 1,
     cd_options = None, cd_num_options = 0,
     cd_num_annotations = 9, cd_ann_labels = Some xy2_100_ann_labels,
     cd_num_annotation_rows = 6, cd_annotation_rows = Some xy2_100_ann_rows,
     cd_inputs = Some xy2_100_inputs, cd_num_inputs = 1, cd_outputs = None, cd_num_outputs = 0,
     cd_binary = None, cd_num_binary = 0, cd_tags = Some xy2_100_tags, cd_num_tags = 1\<rparr>"

lemma xy2_100_described: "described xy2_100_c_def = (True, True, True)"
  by (simp add: described_simps xy2_100_channels_def xy2_100_optional_channels_def xy2_100_ann_labels_def xy2_100_ann_rows_def xy2_100_inputs_def xy2_100_tags_def xy2_100_c_def_def)

section \<open>z80_c.c\<close>

definition z80_channels :: "srd_channel list" where
  "z80_channels = [
     \<lparr>ch_id = Some ''d0'', ch_name = Some ''D0'', ch_desc = Some ''Data bus line 0'', ch_order = 0, ch_type = -1, ch_idn = None\<rparr>,
     \<lparr>ch_id = Some ''d1'', ch_name = Some ''D1'', ch_desc = Some ''Data bus line 1'', ch_order = 1, ch_type = -1, ch_idn = None\<rparr>,
     \<lparr>ch_id = Some ''d2'', ch_name = Some ''D2'', ch_desc = Some ''Data bus line 2'', ch_order = 2, ch_type = -1, ch_idn = None\<rparr>,
     \<lparr>ch_id = Some ''d3'', ch_name = Some ''D3'', ch_desc = Some ''Data bus line 3'', ch_order = 3, ch_type = -1, ch_idn = None\<rparr>,
     \<lparr>ch_id = Some ''d4'', ch_name = Some ''D4'', ch_desc = Some ''Data bus line 4'', ch_order = 4, ch_type = -1, ch_idn = None\<rparr>,
     \<lparr>ch_id = Some ''d5'', ch_name = Some ''D5'', ch_desc = Some ''Data bus line 5'', ch_order = 5, ch_type = -1, ch_idn = None\<rparr>,
     \<lparr>ch_id = Some ''d6'', ch_name = Some ''D6'', ch_desc = Some ''Data bus line 6'', ch_order = 6, ch_type = -1, ch_idn = None\<rparr>,
     \<lparr>ch_id = Some ''d7'', ch_name = Some ''D7'', ch_desc = Some ''Data bus line 7'', ch_order = 7, ch_type = -1, ch_idn = None\<rparr>,
     \<lparr>ch_id = Some ''m1'', ch_name = Some ''/M1'', ch_desc = Some ''Machine cycle 1'', ch_order = 8, ch_type = -1, ch_idn = Some ''dec_z80_chan_m1''\<rparr>,
     \<lparr>ch_id = Some ''rd'', ch_name = Some ''/RD'', ch_desc = Some ''Memory or I/O read'', ch_order = 9, ch_type = -1, ch_idn = Some ''dec_z80_chan_rd''\<rparr>,
     \<lparr>ch_id = Some ''wr'', ch_name = Some ''/WR'', ch_desc = Some ''Memory or I/O write'', ch_order = 10, ch_type = -1, ch_idn = Some ''dec_z80_chan_wr''\<rparr>]"

definition z80_optional_channels :: "srd_channel list" where
  "z80_optional_channels = [
     \<lparr>ch_id = Some ''mreq'', ch_name = Some ''/MREQ'', ch_desc = Some ''Memory request'', ch_order = 11, ch_type = -1, ch_idn = Some ''dec_z80_opt_chan_mreq''\<rparr>,
     \<lparr>ch_id = Some ''iorq'', ch_name = Some ''/IORQ'', ch_desc = Some ''I/O request'', ch_order = 12, ch_type = -1, ch_idn = Some ''dec_z80_opt_chan_iorq''\<rparr>,
     \<lparr>ch_id = Some ''a0'', ch_name = Some ''A0'', ch_desc = Some ''Address bus line 0'', ch_order = 13, ch_type = -1, ch_idn = None\<rparr>,
     \<lparr>ch_id = Some ''a1'', ch_name = Some ''A1'', ch_desc = Some ''Address bus line 1'', ch_order = 14, ch_type = -1, ch_idn = None\<rparr>,
     \<lparr>ch_id = Some ''a2'', ch_name = Some ''A2'', ch_desc = Some ''Address bus line 2'', ch_order = 15, ch_type = -1, ch_idn = None\<rparr>,
     \<lparr>ch_id = Some ''a3'', ch_name = Some ''A3'', ch_desc = Some ''Address bus line 3'', ch_order = 16, ch_type = -1, ch_idn = None\<rparr>,
     \<lparr>ch_id = Some ''a4'', ch_name = Some ''A4'', ch_desc = Some ''Address bus line 4'', ch_order = 17, ch_type = -1, ch_idn = None\<rparr>,
     \<lparr>ch_id = Some ''a5'', ch_name = Some ''A5'', ch_desc = Some ''Address bus line 5'', ch_order = 18, ch_type = -1, ch_idn = None\<rparr>,
     \<lparr>ch_id = Some ''a6'', ch_name = Some ''A6'', ch_desc = Some ''Address bus line 6'', ch_order = 19, ch_type = -1, ch_idn = None\<rparr>,
     \<lparr>ch_id = Some ''a7'', ch_name = Some ''A7'', ch_desc = Some ''Address bus line 7'', ch_order = 20, ch_type = -1, ch_idn = None\<rparr>,
     \<lparr>ch_id = Some ''a8'', ch_name = Some ''A8'', ch_desc = Some ''Address bus line 8'', ch_order = 21, ch_type = -1, ch_idn = None\<rparr>,
     \<lparr>ch_id = Some ''a9'', ch_name = Some ''A9'', ch_desc = Some ''Address bus line 9'', ch_order = 22, ch_type = -1, ch_idn = None\<rparr>,
     \<lparr>ch_id = Some ''a10'', ch_name = Some ''A10'', ch_desc = Some ''Address bus line 10'', ch_order = 23, ch_type = -1, ch_idn = None\<rparr>,
     \<lparr>ch_id = Some ''a11'', ch_name = Some ''A11'', ch_desc = Some ''Address bus line 11'', ch_order = 24, ch_type = -1, ch_idn = None\<rparr>,
     \<lparr>ch_id = Some ''a12'', ch_name = Some ''A12'', ch_desc = Some ''Address bus line 12'', ch_order = 25, ch_type = -1, ch_idn = None\<rparr>,
     \<lparr>ch_id = Some ''a13'', ch_name = Some ''A13'', ch_desc = Some ''Address bus line 13'', ch_order = 26, ch_type = -1, ch_idn = None\<rparr>,
     \<lparr>ch_id = Some ''a14'', ch_name = Some ''A14'', ch_desc = Some ''Address bus line 14'', ch_order = 27, ch_type = -1, ch_idn = None\<rparr>,
     \<lparr>ch_id = Some ''a15'', ch_name = Some ''A15'', ch_desc = Some ''Address bus line 15'', ch_order = 28, ch_type = -1, ch_idn = None\<rparr>]"

definition z80_ann_labels :: "(string option \<times> string option \<times> string option) list" where
  "z80_ann_labels = [
     (Some [], Some ''addr'', Some ''Memory or I/O address''),
     (Some [], Some ''memrd'', Some ''Byte read from memory''),
     (Some [], Some ''memwr'', Some ''Byte written to memory''),
     (Some [], Some ''iord'', Some ''Byte read from I/O port''),
     (Some [], Some ''iowr'', Some ''Byte written to I/O port''),
     (Some [], Some ''instr'', Some ''Z80 CPU instruction''),
     (Some [], Some ''rop'', Some ''Value of input operand''),
     (Some [], Some ''wop'', Some ''Value of output operand''),
     (Some [], Some ''warn'', Some ''Warning message'')]"

definition z80_ann_rows :: "srd_c_ann_row list" where
  "z80_ann_rows = [
     \<lparr>car_id = Some ''addrbus'', car_desc = Some ''Address bus'', car_ann_classes = Some [0], car_num_ann_classes = 1\<rparr>,
     \<lparr>car_id = Some ''databus'', car_desc = Some ''Data bus'', car_ann_classes = Some [1, 2, 3, 4], car_num_ann_classes = 4\<rparr>,
     \<lparr>car_id = Some ''instructions'', car_desc = Some ''Instructions'', car_ann_classes = Some [5], car_num_ann_classes = 1\<rparr>,
     \<lparr>car_id = Some ''operands'', car_desc = Some ''Operands'', car_ann_classes = Some [6, 7], car_num_ann_classes = 2\<rparr>,
     \<lparr>car_id = Some ''warnings'', car_desc = Some ''Warnings'', car_ann_classes = Some [8], car_num_ann_classes = 1\<rparr>]"

definition z80_inputs :: "string list" where
  "z80_inputs = [
     ''logic'']"

definition z80_tags :: "string list" where
  "z80_tags = [
     ''Retro computing'']"

definition z80_c_def :: srd_c_decoder where
  "z80_c_def = \<lparr>cd_id = Some ''z80_c'', cd_name = Some ''Z80(C)'',
     cd_longname = Some ''Zilog Z80 CPU(C)'', cd_desc = Some ''Zilog Z80 microprocessor disassembly. (C implementation)'', cd_license = Some ''gplv3+'',
     cd_channels = Some z80_channels, cd_num_channels = 11,
     cd_optional_channels = Some z80_optional_channels, cd_num_optional_channels = 18,
     cd_options = None, cd_num_options = 0,
     cd_num_annotations = 9, cd_ann_labels = Some z80_ann_labels,
     cd_num_annotation_rows = 5, cd_annotation_rows = Some z80_ann_rows,
     cd_inputs = Some z80_inputs, cd_num_inputs = 1, cd_outputs = None, cd_num_outputs = 0,
     cd_binary = None, cd_num_binary = 0, cd_tags = Some z80_tags, cd_num_tags = 1\<rparr>"

lemma z80_described: "described z80_c_def = (True, True, True)"
  by (simp add: described_simps z80_channels_def z80_optional_channels_def z80_ann_labels_def z80_ann_rows_def z80_inputs_def z80_tags_def z80_c_def_def)

section \<open>All of them\<close>

definition tables8 :: "srd_c_decoder list" where
  "tables8 = [tmp102_c_def, tpm_fifo_tis_c_def, tpm_tis_i2c_c_def, tpm_tis_spi_c_def, uart_c_def, uart_fast_c_def,
     udp_c_def, ufcs_c_def, usb_packet_c_def, usb_pd_c_def, usb_request_c_def, usb_signalling_c_def,
     wiegand_c_def, x2444m_c_def, xfp_c_def, xy2_100_c_def, z80_c_def]"

lemmas tables8_described =
  tmp102_described tpm_fifo_tis_described tpm_tis_i2c_described tpm_tis_spi_described uart_described uart_fast_described
  udp_described ufcs_described usb_packet_described usb_pd_described usb_request_described usb_signalling_described
  wiegand_described x2444m_described xfp_described xy2_100_described z80_described

lemma tables8_ids:
  "map cd_id tables8 = [Some ''tmp102_c'', Some ''tpm_fifo_tis_c'', Some ''tpm_tis_i2c_c'', Some ''tpm_tis_spi_c'', Some ''uart_c'',
     Some ''uart_fast_c'', Some ''udp_c'', Some ''ufcs_c'', Some ''usb_packet_c'', Some ''usb_power_delivery_c'',
     Some ''usb_request_c'', Some ''usb_signalling_c'', Some ''wiegand_c'', Some ''x2444m_c'', Some ''xfp_c'',
     Some ''xy2_100_c'', Some ''z80_c'']"
  by (simp add: tables8_def
    tmp102_c_def_def tpm_fifo_tis_c_def_def tpm_tis_i2c_c_def_def tpm_tis_spi_c_def_def uart_c_def_def uart_fast_c_def_def
    udp_c_def_def ufcs_c_def_def usb_packet_c_def_def usb_pd_c_def_def usb_request_c_def_def usb_signalling_c_def_def
    wiegand_c_def_def x2444m_c_def_def xfp_c_def_def xy2_100_c_def_def z80_c_def_def)

end
