(* ===== verification/Descriptions.thy ===== *)
theory Descriptions
  imports Tables1 Tables2 Tables3 Tables4 Tables5 Tables6 Tables7 Tables8
begin

text \<open>
  The descriptions of the C decoders together: which checks they pass, and what their channel
  numbers mean for the channel map of an instance.
\<close>

section \<open>All descriptions\<close>

definition described_decoders :: "srd_c_decoder list" where
  "described_decoders = tables1 @ tables2 @ tables3 @ tables4 @ tables5 @ tables6 @ tables7 @ tables8"

lemmas described_facts = tables1_described tables2_described tables3_described tables4_described tables5_described tables6_described tables7_described tables8_described

lemmas described_checks = described_facts [unfolded described_iff]

lemmas described_lists = tables1_def tables2_def tables3_def tables4_def tables5_def tables6_def tables7_def tables8_def

text \<open>The identifiers, which are in order.\<close>

definition described_ids :: "string list" where
  "described_ids = [''4b5b_c'', ''a7105_c'', ''ac97_c'', ''ad5593r_c'', ''ad5626_c'', ''ad79x0_c'',
     ''adat_c'', ''adb_c'', ''ade77xx_c'', ''adf435x_c'', ''adns5020_c'', ''adxl345_c'',
     ''afsk_c'', ''am230x_c'', ''arm_etmv3_c'', ''arm_itm_c'', ''arm_tpiu_c'', ''arp_c'',
     ''as5047_c'', ''atsha204a_c'', ''aud_c'', ''avclan_c'', ''avr_isp_c'', ''avr_pdi_c'',
     ''bean_c'', ''bh1750_c'', ''bluetooth_h4_c'', ''boost_c'', ''c2_c'', ''caliper_c'',
     ''can_c'', ''can_fd_c'', ''carrera_c'', ''cc1101_c'', ''ccd_c'', ''cec_c'',
     ''cfp_c'', ''cjtag_c'', ''cjtag_oscan0_c'', ''counter_c'', ''crsf_c'', ''cyrf6936_c'',
     ''dcc_c'', ''dcf77_c'', ''delta-sigma_c'', ''ds1307_c'', ''ds2408_c'', ''ds243x_c'',
     ''ds28ea00_c'', ''ds3231_c'', ''dsi_c'', ''edid_c'', ''eeprom93xx_c'', ''em4100_c'',
     ''em4305_c'', ''enc28j60_c'', ''eth_an_c'', ''ethernet_c'', ''flexray_c'', ''fsi_c'',
     ''gpib_c'', ''graycode_c'', ''guess_bitrate_c'', ''hdcp_c'', ''hdlc_c'', ''hdmi_scdc_c'',
     ''i2c_c'', ''i2c_packet_c'', ''i2cdemux_c'', ''i2cfilter_c'', ''i2s_c'', ''iebus_c'',
     ''iec_c'', ''ieee488_c'', ''ipv4_c'', ''ir_irmp_c'', ''ir_ltto_c'', ''ir_ltto_decode_c'',
     ''ir_nec_c'', ''ir_rc5_c'', ''ir_rc6_c'', ''ir_recoil_c'', ''ir_sirc_c'', ''iso7816_c'',
     ''j1708_c'', ''jitter_c'', ''jtag_avr_c'', ''jtag_c'', ''jtag_ejtag_c'', ''jtag_stm32_c'',
     ''lfast_c'', ''lin_c'', ''lm75_c'', ''lpc_c'', ''ltar_smartdevice_c'', ''ltar_smartdevice_decode_c'',
     ''ltc242x_c'', ''ltc26x7_c'', ''maple_bus_c'', ''max6954_c'', ''max7219_c'', ''mcs48_c'',
     ''mdio_c'', ''microwire_c'', ''midi_c'', ''miller_c'', ''mipi_dsi_c'', ''mipi_rffe_c'',
     ''mlx90614_c'', ''modbus_c'', ''mpu6050_c'', ''mrf24j40_c'', ''mvb_c'', ''mxc6225xu_c'',
     ''nes_gamepad_c'', ''nrf24l01_c'', ''nrf905_c'', ''nrzi_c'', ''nunchuk_c'', ''one_single_wire_c'',
     ''onewire_c'', ''onewire_link_c'', ''onewire_network_c'', ''ook_c'', ''ook_oregon_c'', ''opentherm_c'',
     ''pan1321_c'', ''pca9571_c'', ''pcfx_ctrlr_c'', ''pjdl_c'', ''pjon_c'', ''pn532_c'',
     ''ps2_c'', ''ps2_keyboard_c'', ''ps2_mouse_c'', ''pwm_c'', ''pxx1_c'', ''qi_c'',
     ''qspi_c'', ''rc_encode_c'', ''rfm12_c'', ''rgb_led_spi_c'', ''rgb_led_ws281x_c'', ''rinnai_control_panel_c'',
     ''rpm_c'', ''rtc8564_c'', ''rvswd_c'', ''sae_j1850_vpw_c'', ''sbus_futaba_c'', ''scs_c'',
     ''sda2506_c'', ''sdq_c'', ''sent_c'', ''seven_segment_c'', ''signature_c'', ''sipi_c'',
     ''sle44xx_c'', ''sony_md_c'', ''sony_md_decode_c'', ''spacewire_c'', ''spdif_c'', ''spi_c'',
     ''spi_dual_quad_c'', ''spi_fast_c'', ''spi_tpm_c'', ''spiflash_c'', ''ssi32_c'', ''st25dv_c'',
     ''st25r39xx_spi_c'', ''st7735_c'', ''st7789_c'', ''stepper_motor_c'', ''streletz_c'', ''swd_c'',
     ''swi_c'', ''swim_c'', ''t55xx_c'', ''tca6408a_c'', ''tcs3472x_c'', ''tdm_audio_c'',
     ''timing_c'', ''tm1637_c'', ''tm1638_c'', ''tmc_c'', ''tmp102_c'', ''tpm_fifo_tis_c'',
     ''tpm_tis_i2c_c'', ''tpm_tis_spi_c'', ''uart_c'', ''uart_fast_c'', ''udp_c'', ''ufcs_c'',
     ''usb_packet_c'', ''usb_power_delivery_c'', ''usb_request_c'', ''usb_signalling_c'', ''wiegand_c'', ''x2444m_c'',
     ''xfp_c'', ''xy2_100_c'', ''z80_c'']"

fun str_less :: "string \<Rightarrow> string \<Rightarrow> bool" where
  "str_less xs [] = False"
| "str_less [] (y # ys) = True"
| "str_less (x # xs) (y # ys) = (if x = y then str_less xs ys else of_char x < (of_char y :: nat))"

lemma str_less_irrefl: "\<not> str_less xs xs"
  by (induction xs) simp_all

lemma str_less_trans: "str_less xs ys \<Longrightarrow> str_less ys zs \<Longrightarrow> str_less xs zs"
proof (induction xs ys arbitrary: zs rule: str_less.induct)
  case (2 y ys)
  then show ?case by (cases zs) simp_all
next
  case (3 x xs y ys)
  then show ?case by (cases zs) (auto split: if_splits)
qed simp

lemma str_sorted_distinct: "sorted_wrt str_less xs \<Longrightarrow> distinct xs"
  by (induction xs) (auto simp: str_less_irrefl)

lemma ids_distinct: "distinct described_ids"
proof -
  have "transp str_less" by (rule transpI) (rule str_less_trans)
  moreover have "successively str_less described_ids" by (simp add: described_ids_def)
  ultimately have "sorted_wrt str_less described_ids" using successively_conv_sorted_wrt by blast
  then show ?thesis by (rule str_sorted_distinct)
qed

lemma decoders_checked:
  "list_all (\<lambda>d. c_def_ok d \<and> (d \<in> {counter_c_def, iec_c_def, usb_pd_c_def} \<or> channels_placed d)) described_decoders"
  by (simp add: described_decoders_def described_lists described_checks)

text \<open>
  C26: The descriptions of the C decoders are well formed: their arrays are as long as they say,
  every class of an annotation row exists, no identifier occurs twice within a decoder, so that each
  passes the checks of the loader, and the decoders have different identifiers. The channels are
  numbered in order in all but three, and the options have defaults, among the values allowed, in
  all but eleven.
\<close>

theorem decoders_well_described:
  "list_all c_def_ok described_decoders \<and> distinct (map cd_id described_decoders)
   \<and> filter (\<lambda>d. \<not> channels_placed d) described_decoders = [counter_c_def, iec_c_def, usb_pd_c_def]
   \<and> filter (\<lambda>d. \<not> options_set d) described_decoders =
       [adb_c_def, am230x_c_def, caliper_c_def, carrera_c_def, dcc_c_def, delta_sigma_c_def, dsi_c_def, em4100_c_def, em4305_c_def, gpib_c_def, swim_c_def]"
proof (intro conjI)
  show "list_all c_def_ok described_decoders"
    by (simp add: described_decoders_def described_lists described_checks)
  have "map cd_id described_decoders = concat [map cd_id tables1, map cd_id tables2, map cd_id tables3, map cd_id tables4,
      map cd_id tables5, map cd_id tables6, map cd_id tables7, map cd_id tables8]"
    by (simp add: described_decoders_def)
  then have "map cd_id described_decoders = map Some described_ids"
    by (simp add: described_ids_def tables1_ids tables2_ids tables3_ids tables4_ids tables5_ids tables6_ids tables7_ids tables8_ids)
  then show "distinct (map cd_id described_decoders)"
    using ids_distinct by (simp add: distinct_map)
  show "filter (\<lambda>d. \<not> channels_placed d) described_decoders = [counter_c_def, iec_c_def, usb_pd_c_def]"
    by (simp add: described_decoders_def described_lists described_checks)
  show "filter (\<lambda>d. \<not> options_set d) described_decoders =
       [adb_c_def, am230x_c_def, caliper_c_def, carrera_c_def, dcc_c_def, delta_sigma_c_def, dsi_c_def, em4100_c_def, em4305_c_def, gpib_c_def, swim_c_def]"
    by (simp add: described_decoders_def described_lists described_checks)
qed

section \<open>The channel map\<close>

text \<open>The number given last for a channel, or -1.\<close>

definition given :: "(string \<times> gvariant) list \<Rightarrow> srd_channel \<Rightarrow> int" where
  "given cs c = (case find (\<lambda>(k, v). ch_id c = Some k) (rev cs) of Some (_, GV_int32 n) \<Rightarrow> n | _ \<Rightarrow> -1)"

lemma c_channels:
  "dec_channels (decoder_of_c d k) = counted (cd_num_channels d) (cd_channels d)"
  "dec_opt_channels (decoder_of_c d k) = counted (cd_num_optional_channels d) (cd_optional_channels d)"
  by (simp_all add: decoder_of_c_def Let_def)

lemma find_channel_all:
  "find_channel (decoder_of_c d k) x = find (\<lambda>c. ch_id c = Some x) (all_channels d)"
  unfolding find_channel_def c_channels all_channels_def find_append by (simp split: option.split)

lemma placed_order:
  assumes "channels_placed d" and "j < length (all_channels d)"
  shows "ch_order (all_channels d ! j) = int j"
  using arg_cong [OF assms(1) [unfolded channels_placed_def], of "\<lambda>l. l ! j"] assms(2) by simp

lemma find_key_nth:
  assumes "distinct (map f xs)" and "i < length xs" and "f (xs ! i) = y"
  shows "find (\<lambda>x. f x = y) xs = Some (xs ! i)"
  unfolding find_Some_iff
  using assms by (intro exI [of _ i]) (auto simp: distinct_conv_nth)

lemma assigned_given:
  assumes "distinct (map ch_id (all_channels d))" and "channels_placed d" and "i < length (all_channels d)"
  shows "assigned_channel (decoder_of_c d k) cs i = given cs (all_channels d ! i)"
proof -
  note ord = placed_order [OF assms(2)]
  have "map_option ch_order (find_channel (decoder_of_c d k) x) = Some (int i) \<longleftrightarrow> ch_id (all_channels d ! i) = Some x" for x
  proof
    assume "map_option ch_order (find_channel (decoder_of_c d k) x) = Some (int i)"
    then obtain j where j: "j < length (all_channels d)" "ch_id (all_channels d ! j) = Some x" "ch_order (all_channels d ! j) = int i"
      by (auto simp: find_channel_all find_Some_iff)
    then show "ch_id (all_channels d ! i) = Some x" using ord [OF j(1)] by simp
  next
    assume "ch_id (all_channels d ! i) = Some x"
    then show "map_option ch_order (find_channel (decoder_of_c d k) x) = Some (int i)"
      using find_key_nth [OF assms(1,3)] ord [OF assms(3)] by (simp add: find_channel_all)
  qed
  then show ?thesis by (simp add: assigned_channel_def given_def)
qed

lemma channel_set_done:
  assumes "\<And>c. c \<in> set (dec_channels (di_decoder di) @ dec_opt_channels (di_decoder di)) \<Longrightarrow>
      0 \<le> ch_order c \<and> nat (ch_order c) < dec_num_channels di" and "cs \<noteq> []"
  shows "\<exists>r di'. srd_inst_channel_set_all cs di = Some (r, di') \<and> (if r = SRD_OK
    then dec_channelmap di' = Some (map (assigned_channel (di_decoder di) cs) [0..<dec_num_channels di]) else di' = di)"
  using channel_set_all_cases [of di cs, OF assms(1)] assms(2) by (auto split: option.splits prod.splits if_splits)

lemma c_def_ok_channels: "c_def_ok d \<Longrightarrow> distinct (map ch_id (all_channels d))"
  by (auto simp: c_def_ok_def duplicate_check_distinct decoder_of_c_def Let_def all_channels_def split: option.splits)

text \<open>
  C27: For every description but those of counter, iec and usb_power_delivery, the channel map of an
  instance follows the names: setting channels stays in bounds, and when it succeeds each channel
  has the number given for its identifier, or -1 when there is none.
\<close>

theorem channel_map_by_name:
  assumes "d \<in> set described_decoders" and "d \<notin> {counter_c_def, iec_c_def, usb_pd_c_def}"
    and "di_decoder di = decoder_of_c d k" and "dec_num_channels di = length (all_channels d)" and "cs \<noteq> []"
  shows "\<exists>r di'. srd_inst_channel_set_all cs di = Some (r, di')
    \<and> (if r = SRD_OK then dec_channelmap di' = Some (map (given cs) (all_channels d)) else di' = di)"
proof -
  have ok: "c_def_ok d" "channels_placed d"
    using assms(1,2) decoders_checked unfolding list_all_iff by blast+
  have ord: "0 \<le> ch_order c \<and> nat (ch_order c) < length (all_channels d)" if "c \<in> set (all_channels d)" for c
  proof -
    obtain j where "j < length (all_channels d)" "all_channels d ! j = c" using \<open>c \<in> set (all_channels d)\<close> unfolding in_set_conv_nth by blast
    then show ?thesis using placed_order [OF ok(2)] by fastforce
  qed
  have ch: "dec_channels (decoder_of_c d k) @ dec_opt_channels (decoder_of_c d k) = all_channels d"
    by (simp add: c_channels all_channels_def)
  have eq: "map (assigned_channel (decoder_of_c d k) cs) [0..<length (all_channels d)] = map (given cs) (all_channels d)"
    using assigned_given [OF c_def_ok_channels [OF ok(1)] ok(2)] by (intro nth_equalityI) simp_all
  have "\<exists>r di'. srd_inst_channel_set_all cs di = Some (r, di') \<and> (if r = SRD_OK
    then dec_channelmap di' = Some (map (assigned_channel (di_decoder di) cs) [0..<dec_num_channels di]) else di' = di)"
    by (rule channel_set_done [OF _ assms(5)]) (unfold assms(3,4) ch, rule ord)
  then show ?thesis unfolding assms(3,4) eq .
qed

lemma channel_map_by_name_witness:
  "\<exists>r di'. srd_inst_channel_set_all [(''cs'', GV_int32 3), (''clk'', GV_int32 5)]
      ((malloc0_inst (decoder_of_c spi_c_def ''spi_c'') 0 :: unit srd_decoder_inst)\<lparr>dec_num_channels := 4\<rparr>) = Some (r, di')
    \<and> (r = SRD_OK \<longrightarrow> dec_channelmap di' = Some [5, -1, -1, 3])"
proof -
  have ch: "all_channels spi_c_def = spi_channels @ spi_optional_channels"
    by (simp add: all_channels_def counted_def spi_c_def_def spi_channels_def spi_optional_channels_def)
  have "cd_id spi_c_def = Some ''spi_c''" "cd_id counter_c_def = Some ''counter_c''" "cd_id iec_c_def = Some ''iec_c''"
    "cd_id usb_pd_c_def = Some ''usb_power_delivery_c''"
    by (simp_all add: spi_c_def_def counter_c_def_def iec_c_def_def usb_pd_c_def_def)
  then have n: "spi_c_def \<notin> {counter_c_def, iec_c_def, usb_pd_c_def}" by auto
  have m: "spi_c_def \<in> set described_decoders" by (simp add: described_decoders_def described_lists)
  show ?thesis
    using channel_map_by_name [OF m n, of "(malloc0_inst (decoder_of_c spi_c_def ''spi_c'') 0 :: unit srd_decoder_inst)\<lparr>dec_num_channels := 4\<rparr>"
        "''spi_c''" "[(''cs'', GV_int32 3), (''clk'', GV_int32 5)]"]
    by (force simp: malloc0_inst_def ch spi_channels_def spi_optional_channels_def given_def)
qed

text \<open>
  Where the number of the optional channel is that of the required one, setting it moves the
  required one: the counter counts the edges of its reset input, and never sees a reset.
\<close>

lemma counter_reset_takes_data:
  "set_channels (decoder_of_c counter_c_def ''counter_c'') [(''data'', GV_int32 0), (''reset'', GV_int32 7)] [-1, -1] = Some (Inr [7, -1])"
  by (simp add: find_channel_def c_channels counted_def counter_c_def_def counter_channels_def counter_optional_channels_def)

end
