(* ===== verification/PyObj.thy ===== *)
theory PyObj
  imports AnnBatch Format
begin

text \<open>
  util.c and exception.c: reading Python objects (\<open>pyval\<close> of DecTypes) and the text of an
  exception. The CPython functions these use are written out as their documentation has them.
\<close>

section \<open>Python objects\<close>

text \<open>\<^verbatim>\<open>Py_TYPE\<close>, compared only with the type of a value that was converted to a variant.\<close>

fun py_type :: "pyval \<Rightarrow> nat" where
  "py_type PV_none = 0" | "py_type (PV_bool _) = 1" | "py_type (PV_long _) = 2"
| "py_type (PV_float _) = 3" | "py_type (PV_str _) = 4" | "py_type (PV_bytes _) = 5"
| "py_type (PV_list _) = 6" | "py_type (PV_tuple _) = 7" | "py_type (PV_dict _) = 8"
| "py_type (PV_object _ _) = 9"

text \<open>\<^verbatim>\<open>PyLong_Check\<close> holds for a \<^verbatim>\<open>bool\<close> too, which is a subclass of \<^verbatim>\<open>int\<close>.\<close>

fun py_long :: "pyval \<Rightarrow> int option" where
  "py_long (PV_long i) = Some i"
| "py_long (PV_bool b) = Some (of_bool b)"
| "py_long _ = None"

text \<open>
  \<^verbatim>\<open>PyLong_AsLong\<close> and \<^verbatim>\<open>PyLong_AsLongLong\<close> (64 bits), \<^verbatim>\<open>PyLong_AsUnsignedLongLong\<close> and
  \<^verbatim>\<open>PyLong_AsSize_t\<close>: -1 and an exception when the number does not fit. An assignment to an
  \<^verbatim>\<open>int\<close> keeps the low 32 bits.
\<close>

definition fits_long :: "int \<Rightarrow> bool" where
  "fits_long i \<longleftrightarrow> - (2 ^ 63) \<le> i \<and> i < 2 ^ 63"

definition as_long :: "int \<Rightarrow> int" where
  "as_long i = (if fits_long i then i else -1)"

definition fits_ulong :: "int \<Rightarrow> bool" where
  "fits_ulong i \<longleftrightarrow> 0 \<le> i \<and> i < 2 ^ 64"

definition as_ulong :: "int \<Rightarrow> u64" where
  "as_ulong i = (if fits_ulong i then word_of_int i else -1)"

definition to_int :: "int \<Rightarrow> int" where
  "to_int i = sint (word_of_int i :: 32 word)"

text \<open>\<^verbatim>\<open>PyObject_GetAttrString\<close> and \<^verbatim>\<open>PyDict_GetItemString\<close>.\<close>

fun py_getattr :: "pyval \<Rightarrow> string \<Rightarrow> pyval option" where
  "py_getattr (PV_object attrs _) k = map_of attrs k"
| "py_getattr _ k = None"

definition py_dict_get :: "(pyval \<times> pyval) list \<Rightarrow> string \<Rightarrow> pyval option" where
  "py_dict_get d k = map_of d (PV_str (Some k))"

section \<open>Conversions\<close>

text \<open>A text that has a NUL in it is cut there, because it passes through a C string.\<close>

definition py_str_as_str :: "pyval \<Rightarrow> srd_error_code + string" where
  "py_str_as_str v = (case v of PV_str (Some s) \<Rightarrow> Inr (c_string s) | _ \<Rightarrow> Inl SRD_ERR_PYTHON)"

definition py_attr_as_str :: "pyval \<Rightarrow> string \<Rightarrow> srd_error_code + string" where
  "py_attr_as_str v attr = (case py_getattr v attr of
      None \<Rightarrow> Inl SRD_ERR_PYTHON
    | Some s \<Rightarrow> py_str_as_str s)"

definition py_listitem_as_str :: "pyval \<Rightarrow> nat \<Rightarrow> srd_error_code + string" where
  "py_listitem_as_str v i = (case v of
      PV_list vs \<Rightarrow> if i < length vs then py_str_as_str (vs ! i) else Inl SRD_ERR_PYTHON
    | _ \<Rightarrow> Inl SRD_ERR_PYTHON)"

text \<open>
  The loop over the items of a list, which ends at the first error. The items are those of the
  list object all the time.
\<close>

fun strlist_loop :: "pyval \<Rightarrow> nat list \<Rightarrow> string list \<Rightarrow> srd_error_code + string list" where
  "strlist_loop v [] acc = Inr acc"
| "strlist_loop v (i # is) acc = (case py_listitem_as_str v i of
      Inl e \<Rightarrow> Inl SRD_ERR_PYTHON
    | Inr s \<Rightarrow> strlist_loop v is (acc @ [s]))"

definition py_attr_as_strlist :: "pyval \<Rightarrow> string \<Rightarrow> srd_error_code + string list" where
  "py_attr_as_strlist v attr = (case py_getattr v attr of
      Some (PV_list vs) \<Rightarrow> strlist_loop (PV_list vs) [0..<length vs] []
    | _ \<Rightarrow> Inl SRD_ERR_PYTHON)"

definition py_dictitem_as_str :: "pyval \<Rightarrow> string \<Rightarrow> srd_error_code + string" where
  "py_dictitem_as_str v k = (case v of
      PV_dict d \<Rightarrow> (case py_dict_get d k of None \<Rightarrow> Inl SRD_ERR_PYTHON | Some x \<Rightarrow> py_str_as_str x)
    | _ \<Rightarrow> Inl SRD_ERR_PYTHON)"

definition py_dictitem_to_int :: "pyval \<Rightarrow> string \<Rightarrow> int" where
  "py_dictitem_to_int v k = (case v of
      PV_dict d \<Rightarrow> (case py_dict_get d k of
          None \<Rightarrow> error_code_value SRD_ERR
        | Some x \<Rightarrow> (case py_long x of None \<Rightarrow> error_code_value SRD_ERR | Some i \<Rightarrow> to_int (as_long i)))
    | _ \<Rightarrow> error_code_value SRD_ERR)"

definition py_dict_value_to_str :: "pyval \<Rightarrow> pyval \<Rightarrow> srd_error_code + string" where
  "py_dict_value_to_str v k = (case v of
      PV_dict d \<Rightarrow> (case map_of d k of
          Some (PV_str s) \<Rightarrow> py_str_as_str (PV_str s)
        | _ \<Rightarrow> Inl SRD_ERR_PYTHON)
    | _ \<Rightarrow> Inl SRD_ERR_PYTHON)"

definition py_pydictitem_as_long :: "pyval \<Rightarrow> pyval \<Rightarrow> srd_error_code + u64" where
  "py_pydictitem_as_long v k = (case v of
      PV_dict d \<Rightarrow> (case Option.bind (map_of d k) py_long of
          None \<Rightarrow> Inl SRD_ERR_PYTHON
        | Some i \<Rightarrow> Inr (as_ulong i))
    | _ \<Rightarrow> Inl SRD_ERR_PYTHON)"

text \<open>The two have no check of the exception: a number that does not fit comes out as -1.\<close>

definition py_object_to_int :: "pyval option \<Rightarrow> srd_error_code + int" where
  "py_object_to_int v = (case Option.bind v py_long of None \<Rightarrow> Inl SRD_ERR_PYTHON | Some i \<Rightarrow> Inr (as_long i))"

definition py_object_to_uint :: "pyval option \<Rightarrow> srd_error_code + u64" where
  "py_object_to_uint v = (case Option.bind v py_long of None \<Rightarrow> Inl SRD_ERR_PYTHON | Some i \<Rightarrow> Inr (as_ulong i))"

text \<open>
  \<^verbatim>\<open>py_strseq_to_char\<close>, which is called with tuples: strings as they are, numbers in decimal
  as an \<^verbatim>\<open>int\<close>.
\<close>

definition strseq_item :: "pyval \<Rightarrow> string option" where
  "strseq_item v = (case v of
      PV_str s \<Rightarrow> map_option c_string s
    | _ \<Rightarrow> map_option (\<lambda>i. fmt_int (to_int (as_long i))) (py_long v))"

fun py_strseq_to_char :: "pyval list \<Rightarrow> srd_error_code + string list" where
  "py_strseq_to_char [] = Inr []"
| "py_strseq_to_char (v # vs) = (case strseq_item v of
      None \<Rightarrow> Inl SRD_ERR_PYTHON
    | Some s \<Rightarrow> (case py_strseq_to_char vs of Inl e \<Rightarrow> Inl e | Inr ss \<Rightarrow> Inr (s # ss)))"

definition py_obj_to_variant :: "pyval \<Rightarrow> gvariant option" where
  "py_obj_to_variant v = (case v of
      PV_str s \<Rightarrow> map_option (\<lambda>t. GV_string (c_string t)) s
    | PV_float x \<Rightarrow> Some (GV_double x)
    | _ \<Rightarrow> (case py_long v of
        None \<Rightarrow> None
      | Some i \<Rightarrow> if fits_long i then Some (GV_int64 i) else None))"

section \<open>Exceptions\<close>

text \<open>
  exception.c: the text that \<^verbatim>\<open>srd_exception_catch\<close> hands to its caller. The exception is the name
  of its type and its text, each None when it cannot be had.
\<close>

definition exception_message :: "string \<Rightarrow> (string option \<times> string option) option \<Rightarrow> string" where
  "exception_message msg exc = (case exc of
      None \<Rightarrow> msg @ '':unknown error''
    | Some (etype, evalue) \<Rightarrow>
        msg @ '':'' @ (case etype of None \<Rightarrow> ''(unknown exception)'' | Some n \<Rightarrow> n)
          @ (case evalue of None \<Rightarrow> [] | Some t \<Rightarrow> '':'' @ t))"

section \<open>Facts\<close>

lemma c_string_c_string [simp]: "c_string (c_string s) = c_string s"
  by (simp add: c_string_def)

lemma c_string_no_nul: "CHR 0x00 \<notin> set s \<Longrightarrow> c_string s = s"
  by (auto simp: c_string_def takeWhile_eq_all_conv)

lemma to_int_small: "- (2 ^ 31) \<le> i \<Longrightarrow> i < 2 ^ 31 \<Longrightarrow> to_int i = i"
  by (simp add: to_int_def sint_sbintrunc' signed_take_bit_int_eq_self)

lemma strlist_loop_ok:
  "strlist_loop (PV_list vs) is acc = Inr ss \<longleftrightarrow>
     (\<forall>i \<in> set is. \<exists>s. py_listitem_as_str (PV_list vs) i = Inr s)
     \<and> ss = acc @ map (\<lambda>i. projr (py_listitem_as_str (PV_list vs) i)) is"
  by (induction "is" arbitrary: acc) (auto split: sum.split)

text \<open>A list attribute is read exactly when every item is a string that has a UTF-8 form.\<close>

definition str_of :: "string \<Rightarrow> pyval" where
  "str_of s = PV_str (Some s)"

lemma py_attr_as_strlist_strings:
  assumes "py_getattr v attr = Some (PV_list (map str_of ss))"
  shows "py_attr_as_strlist v attr = Inr (map c_string ss)"
proof -
  have "py_listitem_as_str (PV_list (map str_of ss)) i = Inr (c_string (ss ! i))" if "i < length ss" for i
    using that by (simp add: py_listitem_as_str_def py_str_as_str_def str_of_def)
  then have "map (\<lambda>i. projr (py_listitem_as_str (PV_list (map str_of ss)) i)) [0..<length ss] = map (c_string \<circ> (!) ss) [0..<length ss]"
    by simp
  moreover have "map (c_string \<circ> (!) ss) [0..<length ss] = map c_string ss"
    by (metis map_map map_nth)
  ultimately have "strlist_loop (PV_list (map str_of ss)) [0..<length ss] [] = Inr (map c_string ss)"
    by (subst strlist_loop_ok) (simp add: py_listitem_as_str_def py_str_as_str_def str_of_def)
  then show ?thesis using assms by (simp add: py_attr_as_strlist_def)
qed

lemma py_strseq_to_char_length: "py_strseq_to_char vs = Inr ss \<Longrightarrow> length ss = length vs"
  by (induction vs arbitrary: ss) (auto split: option.splits sum.splits)

end
