(* ===== verification/PyLoad.thy ===== *)
theory PyLoad
  imports PyObj Session "HOL-Library.Monad_Syntax"
begin

text \<open>
  decoder.c, the loader of Python decoders: it imports a module, checks its class and copies
  the tables of the class into a \<open>srd_decoder\<close>. Python's import machinery is a parameter. The
  text that says what a failed load failed with is only logged.
\<close>

section \<open>Loops over a tuple\<close>

text \<open>
  The loops over a tuple run from the last entry to the first, prepend what they read, and stop
  at the first entry that cannot be read.
\<close>

fun rev_loop :: "(nat \<Rightarrow> 'b \<Rightarrow> 'a option) \<Rightarrow> 'b list \<Rightarrow> nat \<Rightarrow> 'a list \<Rightarrow> 'a list option" where
  "rev_loop f vs 0 acc = Some acc"
| "rev_loop f vs (Suc i) acc = (case f i (vs ! i) of None \<Rightarrow> None | Some x \<Rightarrow> rev_loop f vs i (x # acc))"

text \<open>An attribute that is a tuple; a class without it has none of these.\<close>

definition tuple_attr :: "pyval \<Rightarrow> string \<Rightarrow> (nat \<Rightarrow> pyval \<Rightarrow> 'a option) \<Rightarrow> 'a list option" where
  "tuple_attr cls attr f = (case py_getattr cls attr of
      None \<Rightarrow> Some []
    | Some (PV_tuple vs) \<Rightarrow> rev_loop f vs (length vs) []
    | Some _ \<Rightarrow> None)"

lemma rev_loop_Some:
  "rev_loop f vs n acc = Some r \<longleftrightarrow>
     (\<exists>xs. length xs = n \<and> (\<forall>i < n. f i (vs ! i) = Some (xs ! i)) \<and> r = xs @ acc)"
proof (induction n arbitrary: acc)
  case (Suc n)
  show ?case
  proof
    assume l: "rev_loop f vs (Suc n) acc = Some r"
    then obtain x where x: "f n (vs ! n) = Some x" "rev_loop f vs n (x # acc) = Some r" by (auto split: option.splits)
    with Suc obtain xs where xs: "length xs = n" "\<forall>i < n. f i (vs ! i) = Some (xs ! i)" "r = xs @ x # acc" by auto
    then have "length (xs @ [x]) = Suc n \<and> (\<forall>i < Suc n. f i (vs ! i) = Some ((xs @ [x]) ! i)) \<and> r = (xs @ [x]) @ acc"
      using x(1) by (auto simp: nth_append less_Suc_eq)
    then show "\<exists>xs. length xs = Suc n \<and> (\<forall>i < Suc n. f i (vs ! i) = Some (xs ! i)) \<and> r = xs @ acc" by blast
  next
    assume "\<exists>xs. length xs = Suc n \<and> (\<forall>i < Suc n. f i (vs ! i) = Some (xs ! i)) \<and> r = xs @ acc"
    then obtain xs where xs: "length xs = Suc n" "\<forall>i < Suc n. f i (vs ! i) = Some (xs ! i)" "r = xs @ acc" by blast
    have "xs = take n xs @ [xs ! n]" using xs(1) by (metis lessI take_Suc_conv_app_nth take_all order_refl)
    then have "r = take n xs @ xs ! n # acc" using xs(3) by (metis append_Cons append_assoc append_Nil)
    moreover have "length (take n xs) = n \<and> (\<forall>i < n. f i (vs ! i) = Some (take n xs ! i))" using xs by simp
    ultimately have "rev_loop f vs n (xs ! n # acc) = Some r" using Suc by blast
    then show "rev_loop f vs (Suc n) acc = Some r" using xs(2) by simp
  qed
qed auto

lemma tuple_attr_Some:
  assumes "tuple_attr cls attr f = Some xs"
  shows "py_getattr cls attr = None \<and> xs = []
    \<or> (\<exists>vs. py_getattr cls attr = Some (PV_tuple vs) \<and> length xs = length vs
        \<and> (\<forall>i < length vs. f i (vs ! i) = Some (xs ! i)))"
  using assms by (auto simp: tuple_attr_def rev_loop_Some split: option.splits pyval.splits)

section \<open>Channels\<close>

definition SRD_CHANNEL_COMMON :: int where "SRD_CHANNEL_COMMON = -1"

definition ok_value :: "'e + 'a \<Rightarrow> 'a option" where
  "ok_value r = (case r of Inl _ \<Rightarrow> None | Inr x \<Rightarrow> Some x)"

definition channel_of_py :: "int \<Rightarrow> pyval \<Rightarrow> srd_channel option" where
  "channel_of_py n v = (case v of
      PV_dict d \<Rightarrow> do {
        ident \<leftarrow> ok_value (py_dictitem_as_str v ''id'');
        name \<leftarrow> ok_value (py_dictitem_as_str v ''name'');
        desc \<leftarrow> ok_value (py_dictitem_as_str v ''desc'');
        let ty = py_dictitem_to_int v ''type'';
        Some \<lparr>ch_id = Some ident, ch_name = Some name, ch_desc = Some desc, ch_order = n,
          ch_type = (if ty < 0 then SRD_CHANNEL_COMMON else ty),
          ch_idn = ok_value (py_dictitem_as_str v ''idn'')\<rparr>
      }
    | _ \<Rightarrow> None)"

definition get_channels :: "pyval \<Rightarrow> string \<Rightarrow> int \<Rightarrow> srd_channel list option" where
  "get_channels cls attr offset = tuple_attr cls attr (\<lambda>i. channel_of_py (offset + int i))"

section \<open>Options\<close>

definition value_like :: "pyval \<Rightarrow> pyval \<Rightarrow> gvariant option" where
  "value_like deflt v = (if py_type deflt \<noteq> py_type v then None else py_obj_to_variant v)"

text \<open>Values without a default are refused, because the default gives their type.\<close>

definition option_values :: "pyval option \<Rightarrow> pyval option \<Rightarrow> gvariant list option" where
  "option_values deflt values = (case values of
      None \<Rightarrow> Some []
    | Some (PV_tuple vs) \<Rightarrow> (case deflt of None \<Rightarrow> None | Some v \<Rightarrow> rev_loop (\<lambda>_. value_like v) vs (length vs) [])
    | Some _ \<Rightarrow> None)"

definition option_of_py :: "pyval \<Rightarrow> srd_decoder_option option" where
  "option_of_py v = (case v of
      PV_dict d \<Rightarrow> do {
        ident \<leftarrow> Option.bind (py_dict_get d ''id'') (\<lambda>x. ok_value (py_str_as_str x));
        desc \<leftarrow> (case py_dict_get d ''desc'' of
            None \<Rightarrow> Some None
          | Some x \<Rightarrow> map_option Some (ok_value (py_str_as_str x)));
        deflt \<leftarrow> (case py_dict_get d ''default'' of
            None \<Rightarrow> Some None
          | Some x \<Rightarrow> map_option Some (py_obj_to_variant x));
        values \<leftarrow> option_values (py_dict_get d ''default'') (py_dict_get d ''values'');
        Some \<lparr>opt_id = Some ident,
          opt_idn = Option.bind (py_dict_get d ''idn'') (\<lambda>x. ok_value (py_str_as_str x)),
          opt_desc = desc, opt_def = deflt, opt_values = values\<rparr>
      }
    | _ \<Rightarrow> None)"

definition get_options :: "pyval \<Rightarrow> srd_decoder_option list option" where
  "get_options cls = tuple_attr cls ''options'' (\<lambda>_. option_of_py)"

section \<open>Annotations, rows and binary classes\<close>

text \<open>A plain \<^verbatim>\<open>char\<close> is signed; the sum is kept at 32 bits, beyond which C leaves it open.\<close>

definition schar :: "char \<Rightarrow> int" where
  "schar c = (let v = of_char c in if v < 128 then v else v - 256)"

definition ann_type_digits :: "string \<Rightarrow> int" where
  "ann_type_digits s = foldl (\<lambda>t c. to_int (t * 10 + (schar c - 48))) 0 s"

text \<open>
  This loop runs forwards: the texts are prepended, the types appended. \<open>ty\<close> is the next type of
  an annotation that names none.
\<close>

fun annotations_loop ::
    "pyval list \<Rightarrow> int \<Rightarrow> string list list \<Rightarrow> int list \<Rightarrow> (string list list \<times> int list) option" where
  "annotations_loop [] ty anns types = Some (anns, types)"
| "annotations_loop (v # vs) ty anns types = (case v of
      PV_tuple xs \<Rightarrow>
        if length xs \<noteq> 3 \<and> length xs \<noteq> 2 then None
        else (case py_strseq_to_char xs of
            Inl _ \<Rightarrow> None
          | Inr strs \<Rightarrow>
              if length xs = 3
              then (let t = ann_type_digits (strs ! 0) in annotations_loop vs t (strs # anns) (types @ [t]))
              else annotations_loop vs (to_int (ty + 1)) (strs # anns) (types @ [ty]))
    | _ \<Rightarrow> None)"

definition get_annotations :: "pyval \<Rightarrow> (string list list \<times> int list) option" where
  "get_annotations cls = (case py_getattr cls ''annotations'' of
      None \<Rightarrow> Some ([], [])
    | Some (PV_tuple vs) \<Rightarrow> annotations_loop vs 7 [] []
    | Some _ \<Rightarrow> None)"

definition class_index :: "pyval \<Rightarrow> int option" where
  "class_index v = Option.bind (py_long v) (\<lambda>n. if fits_ulong n then Some n else None)"

definition row_of_py :: "pyval \<Rightarrow> srd_decoder_annotation_row option" where
  "row_of_py v = (case v of
      PV_tuple [a, b, PV_tuple cs] \<Rightarrow> do {
        ident \<leftarrow> ok_value (py_str_as_str a);
        desc \<leftarrow> ok_value (py_str_as_str b);
        classes \<leftarrow> rev_loop (\<lambda>_. class_index) cs (length cs) [];
        Some \<lparr>row_id = ident, row_desc = desc, row_ann_classes = classes\<rparr>
      }
    | _ \<Rightarrow> None)"

definition get_annotation_rows :: "pyval \<Rightarrow> srd_decoder_annotation_row list option" where
  "get_annotation_rows cls = tuple_attr cls ''annotation_rows'' (\<lambda>_. row_of_py)"

definition binary_of_py :: "pyval \<Rightarrow> (string \<times> string) option" where
  "binary_of_py v = (case v of
      PV_tuple xs \<Rightarrow> if length xs \<noteq> 2 then None
        else map_option (\<lambda>strs. (strs ! 0, strs ! 1)) (ok_value (py_strseq_to_char xs))
    | _ \<Rightarrow> None)"

definition get_binary_classes :: "pyval \<Rightarrow> (string \<times> string) list option" where
  "get_binary_classes cls = tuple_attr cls ''binary'' (\<lambda>_. binary_of_py)"

section \<open>The class\<close>

definition check_method :: "pyval \<Rightarrow> string \<Rightarrow> bool" where
  "check_method cls name = (case py_getattr cls name of Some (PV_object _ callable) \<Rightarrow> callable | _ \<Rightarrow> False)"

definition srd_decoder_apiver :: "pyval \<Rightarrow> int" where
  "srd_decoder_apiver cls = (case Option.bind (py_getattr cls ''api_version'') py_long of
      None \<Rightarrow> 0
    | Some i \<Rightarrow> as_long i)"

text \<open>The part of \<open>srd_decoder_load\<close> after the class has been found: checks and tables.\<close>

definition decoder_of_py :: "pyval \<Rightarrow> srd_decoder option" where
  "decoder_of_py cls =
     (if srd_decoder_apiver cls \<noteq> 3 then None
      else if \<not> (check_method cls ''reset'' \<and> check_method cls ''start'' \<and> check_method cls ''decode'') then None
      else do {
        ident \<leftarrow> ok_value (py_attr_as_str cls ''id'');
        name \<leftarrow> ok_value (py_attr_as_str cls ''name'');
        longname \<leftarrow> ok_value (py_attr_as_str cls ''longname'');
        desc \<leftarrow> ok_value (py_attr_as_str cls ''desc'');
        license \<leftarrow> ok_value (py_attr_as_str cls ''license'');
        inputs \<leftarrow> ok_value (py_attr_as_strlist cls ''inputs'');
        outputs \<leftarrow> ok_value (py_attr_as_strlist cls ''outputs'');
        tags \<leftarrow> ok_value (py_attr_as_strlist cls ''tags'');
        options \<leftarrow> get_options cls;
        channels \<leftarrow> get_channels cls ''channels'' 0;
        opt_channels \<leftarrow> get_channels cls ''optional_channels'' (int (length channels));
        (anns, types) \<leftarrow> get_annotations cls;
        rows \<leftarrow> get_annotation_rows cls;
        binary \<leftarrow> get_binary_classes cls;
        let d = \<lparr>dec_id = ident, dec_name = Some name, dec_longname = Some longname, dec_desc = Some desc,
          dec_license = Some license, dec_inputs = inputs, dec_outputs = outputs, dec_tags = tags,
          dec_channels = channels, dec_opt_channels = opt_channels, dec_annotations = map (map Some) anns,
          dec_ann_types = types, dec_annotation_rows = rows, dec_binary = binary, dec_options = options,
          is_c_decoder = False, dec_c_dec = None\<rparr>;
        (if duplicate_check d = None then Some d else None)
      })"

section \<open>Loading\<close>

text \<open>
  Python's imports: importing a name gives the module or an exception, and a new table of
  modules. \<open>py_is_subclass\<close> is the result of \<^verbatim>\<open>PyObject_IsSubclass\<close> against sigrokdecode's
  Decoder, -1 with an exception when the object is no class.
\<close>

record py_loader =
  py_import :: "string \<Rightarrow> string list \<Rightarrow> pyval option \<times> string list"
  sigrokdecode_ready :: bool
  py_is_subclass :: "pyval \<Rightarrow> int"

type_synonym 'p load_state = "string list \<times> 'p srd_world"

definition srd_decoder_load ::
    "py_loader \<Rightarrow> string option \<Rightarrow> 'p load_state \<Rightarrow> srd_error_code \<times> 'p load_state" where
  "srd_decoder_load py module_name st = (case st of (mods, w) \<Rightarrow>
     if \<not> srd_check_init w then (SRD_ERR, mods, w)
     else case module_name of
       None \<Rightarrow> (SRD_ERR_ARG, mods, w)
     | Some n \<Rightarrow>
         if n \<in> set mods then (SRD_OK, mods, w)
         else (case py_import py n mods of
             (None, mods1) \<Rightarrow> (SRD_ERR_PYTHON, mods1, w)
           | (Some md, mods1) \<Rightarrow>
               if \<not> sigrokdecode_ready py then (SRD_ERR_PYTHON, mods1, w)
               else case py_getattr md ''Decoder'' of
                 None \<Rightarrow> (SRD_ERR_PYTHON, mods1, w)
               | Some cls \<Rightarrow>
                   if py_is_subclass py cls = 0 then (SRD_ERR_PYTHON, mods1, w)
                   else case decoder_of_py cls of
                     None \<Rightarrow> (SRD_ERR_PYTHON, mods1, w)
                   | Some d \<Rightarrow> (SRD_OK, mods1, w\<lparr>w_pd_list := w_pd_list w @ [d]\<rparr>)))"

text \<open>The docstring of a Python decoder's module \<open>md\<close>; a C decoder has its description.\<close>

definition srd_decoder_doc_get ::
    "(srd_decoder \<Rightarrow> pyval) \<Rightarrow> srd_decoder option \<Rightarrow> 'p srd_world \<Rightarrow> string option" where
  "srd_decoder_doc_get py_mod dec w =
     (if \<not> srd_check_init w then None
      else case dec of None \<Rightarrow> None
        | Some d \<Rightarrow>
            if is_c_decoder d then Some (str_or [] (dec_desc d))
            else case py_getattr (py_mod d) ''__doc__'' of
              None \<Rightarrow> None
            | Some v \<Rightarrow> if v = PV_none then None else ok_value (py_str_as_str v))"

text \<open>
  Every directory of a search path is tried as a module. A path that is no directory may be a
  zip archive: \<open>zip_files\<close> gives the prefix within the archive and the files, \<open>set_order\<close> the
  order in which a Python set gives out its elements. Errors of single modules are ignored.
\<close>

record dir_environ =
  dir_entries :: "string \<Rightarrow> (string \<times> bool) list option"
  zip_files :: "string \<Rightarrow> (pyval \<times> pyval list) option"
  set_order :: "string list \<Rightarrow> string list"

definition load_each :: "py_loader \<Rightarrow> string list \<Rightarrow> 'p load_state \<Rightarrow> 'p load_state" where
  "load_each py names st = fold (\<lambda>n s. snd (srd_decoder_load py (Some n) s)) names st"

definition zip_module :: "string \<Rightarrow> pyval \<Rightarrow> string option" where
  "zip_module prefix key = (case py_str_as_str key of
      Inl _ \<Rightarrow> None
    | Inr path \<Rightarrow>
        if length prefix < length path \<and> take (length prefix) path = prefix
           \<and> CHR ''/'' \<in> set (drop (length prefix) path)
        then Some (takeWhile (\<lambda>c. c \<noteq> CHR ''/'') (drop (length prefix) path)) else None)"

definition srd_decoder_load_all_zip_path ::
    "py_loader \<Rightarrow> dir_environ \<Rightarrow> string \<Rightarrow> 'p load_state \<Rightarrow> 'p load_state" where
  "srd_decoder_load_all_zip_path py dirs path st = (case zip_files dirs path of
      None \<Rightarrow> st
    | Some (prefix_obj, keys) \<Rightarrow> (case py_str_as_str prefix_obj of
        Inl _ \<Rightarrow> st
      | Inr prefix \<Rightarrow>
          load_each py (map c_string (set_order dirs (remdups (List.map_filter (zip_module prefix) keys)))) st))"

definition srd_decoder_load_all_path ::
    "py_loader \<Rightarrow> dir_environ \<Rightarrow> string \<Rightarrow> 'p load_state \<Rightarrow> 'p load_state" where
  "srd_decoder_load_all_path py dirs path st = (case dir_entries dirs path of
      None \<Rightarrow> srd_decoder_load_all_zip_path py dirs path st
    | Some entries \<Rightarrow> load_each py (map fst (filter snd entries)) st)"

text \<open>The libraries of C decoders are loaded last.\<close>

definition srd_decoder_load_all ::
    "py_loader \<Rightarrow> dir_environ \<Rightarrow> (string \<Rightarrow> string \<Rightarrow> string) \<Rightarrow> (string \<Rightarrow> string list option) \<Rightarrow> dl_environ \<Rightarrow>
     'p load_state \<Rightarrow> srd_error_code \<times> 'p load_state" where
  "srd_decoder_load_all py dirs g_build_filename read_dir dl st =
     (if \<not> srd_check_init (snd st) then (SRD_ERR, st)
      else let (mods, w) = fold (srd_decoder_load_all_path py dirs) (w_searchpaths (snd st)) st;
               (_, _, w1) = srd_c_decoder_load_all g_build_filename read_dir dl w
           in (SRD_OK, mods, w1))"

section \<open>What a loaded decoder looks like\<close>

lemma ok_value_Some [simp]: "ok_value r = Some x \<longleftrightarrow> r = Inr x"
  by (simp add: ok_value_def split: sum.split)

lemma channel_of_py_fields:
  "channel_of_py n v = Some c \<Longrightarrow>
     ch_order c = n \<and> ch_id c \<noteq> None \<and> ch_name c \<noteq> None \<and> ch_desc c \<noteq> None \<and> -1 \<le> ch_type c"
  by (auto simp: channel_of_py_def Let_def SRD_CHANNEL_COMMON_def bind_eq_Some_conv split: pyval.splits)

lemma get_channels_orders:
  assumes "get_channels cls attr offset = Some chs" and "i < length chs"
  shows "ch_order (chs ! i) = offset + int i \<and> ch_id (chs ! i) \<noteq> None \<and> ch_name (chs ! i) \<noteq> None
    \<and> ch_desc (chs ! i) \<noteq> None \<and> -1 \<le> ch_type (chs ! i)"
proof -
  from assms obtain v where "channel_of_py (offset + int i) v = Some (chs ! i)"
    unfolding get_channels_def by (auto dest!: tuple_attr_Some)
  then show ?thesis by (rule channel_of_py_fields)
qed

lemma annotations_loop_lengths:
  "annotations_loop vs ty anns types = Some (anns', types') \<Longrightarrow> length anns = length types \<Longrightarrow>
     length anns' = length types'"
  by (induction vs ty anns types rule: annotations_loop.induct)
    (auto simp: Let_def split: pyval.splits if_splits sum.splits)

lemma get_annotations_lengths: "get_annotations cls = Some (anns, types) \<Longrightarrow> length anns = length types"
  by (auto simp: get_annotations_def dest: annotations_loop_lengths split: option.splits pyval.splits)

text \<open>What the rest of the library relies on.\<close>

definition loaded_ok :: "srd_decoder \<Rightarrow> bool" where
  "loaded_ok d \<longleftrightarrow> \<not> is_c_decoder d \<and> duplicate_check d = None
     \<and> map ch_order (dec_channels d @ dec_opt_channels d) = map int [0..<num_channels d]
     \<and> length (dec_ann_types d) = length (dec_annotations d)"

lemma decoder_of_py_ok:
  assumes "decoder_of_py cls = Some d"
  shows "loaded_ok d"
proof -
  obtain chs ochs anns types where c: "get_channels cls ''channels'' 0 = Some chs"
    and oc: "get_channels cls ''optional_channels'' (int (length chs)) = Some ochs"
    and a: "get_annotations cls = Some (anns, types)"
    and d: "dec_channels d = chs" "dec_opt_channels d = ochs" "dec_annotations d = map (map Some) anns"
      "dec_ann_types d = types" "\<not> is_c_decoder d" "duplicate_check d = None"
    using assms by (auto simp: decoder_of_py_def Let_def bind_eq_Some_conv split: if_splits)
  have "map ch_order (chs @ ochs) = map int [0..<length chs + length ochs]"
  proof (rule nth_equalityI)
    fix i assume "i < length (map ch_order (chs @ ochs))"
    then show "map ch_order (chs @ ochs) ! i = map int [0..<length chs + length ochs] ! i"
      using get_channels_orders [OF c, of i] get_channels_orders [OF oc, of "i - length chs"]
      by (auto simp: nth_append)
  qed simp
  then show ?thesis using d get_annotations_lengths [OF a] by (simp add: loaded_ok_def num_channels_def)
qed

lemma loaded_channel_order:
  assumes "loaded_ok d" and "c \<in> set (dec_channels d @ dec_opt_channels d)"
  shows "0 \<le> ch_order c \<and> nat (ch_order c) < num_channels d"
proof -
  have "ch_order c \<in> set (map int [0..<num_channels d])"
    using assms unfolding loaded_ok_def by (metis image_eqI set_map)
  then show ?thesis by auto
qed

definition example_class :: pyval where
  "example_class = PV_object [
     (''api_version'', PV_long 3), (''reset'', PV_object [] True), (''start'', PV_object [] True),
     (''decode'', PV_object [] True), (''id'', str_of ''ex''), (''name'', str_of ''Ex''),
     (''longname'', str_of ''Example''), (''desc'', str_of ''An example''), (''license'', str_of ''gplv2+''),
     (''inputs'', PV_list [str_of ''logic'']), (''outputs'', PV_list []), (''tags'', PV_list []),
     (''channels'', PV_tuple [PV_dict [(str_of ''id'', str_of ''clk''), (str_of ''name'', str_of ''CLK''),
        (str_of ''desc'', str_of ''Clock'')]]),
     (''optional_channels'', PV_tuple [PV_dict [(str_of ''id'', str_of ''cs''), (str_of ''name'', str_of ''CS''),
        (str_of ''desc'', str_of ''Select''), (str_of ''type'', PV_long 0)]]),
     (''annotations'', PV_tuple [PV_tuple [str_of ''a'', str_of ''A''], PV_tuple [str_of ''21'', str_of ''b'', str_of ''B'']])] True"

definition example_channel :: "string \<Rightarrow> string \<Rightarrow> string \<Rightarrow> int \<Rightarrow> int \<Rightarrow> srd_channel" where
  "example_channel i n d k ty = \<lparr>ch_id = Some i, ch_name = Some n, ch_desc = Some d, ch_order = k,
     ch_type = ty, ch_idn = None\<rparr>"

lemma error_is_negative: "error_code_value SRD_ERR < 0" by simp

lemma example_class_loads:
  "decoder_of_py example_class = Some \<lparr>dec_id = ''ex'', dec_name = Some ''Ex'', dec_longname = Some ''Example'',
     dec_desc = Some ''An example'', dec_license = Some ''gplv2+'', dec_inputs = [''logic''], dec_outputs = [],
     dec_tags = [], dec_channels = [example_channel ''clk'' ''CLK'' ''Clock'' 0 (- 1)],
     dec_opt_channels = [example_channel ''cs'' ''CS'' ''Select'' 1 0],
     dec_annotations = [[Some ''21'', Some ''b'', Some ''B''], [Some ''a'', Some ''A'']], dec_ann_types = [7, 21],
     dec_annotation_rows = [], dec_binary = [], dec_options = [], is_c_decoder = False, dec_c_dec = None\<rparr>"
  apply (simp add: decoder_of_py_def example_class_def srd_decoder_apiver_def as_long_def fits_long_def check_method_def py_attr_as_str_def
    py_str_as_str_def str_of_def c_string_def py_attr_as_strlist_def py_listitem_as_str_def get_options_def tuple_attr_def
    get_channels_def channel_of_py_def py_dictitem_as_str_def py_dict_get_def py_dictitem_to_int_def error_is_negative
    get_annotations_def get_annotation_rows_def get_binary_classes_def strseq_item_def ann_type_digits_def schar_def
    example_channel_def SRD_CHANNEL_COMMON_def to_int_def duplicate_check_distinct ok_value_def)
  done

text \<open>
  C31: A decoder that was loaded from a Python class can be given any channels: the call stays
  inside the channel map, because the loader numbers the channels one after the other, the
  optional ones behind the required ones.
\<close>

theorem python_channel_map_in_bounds:
  assumes "decoder_of_py cls = Some d" and "di_decoder di = d" and "dec_num_channels di = num_channels d"
  shows "\<exists>r di'. srd_inst_channel_set_all cs di = Some (r, di')"
proof -
  have "set_channels d cs (replicate (num_channels d) (-1)) \<noteq> None"
    by (rule set_channels_safe) (use loaded_channel_order [OF decoder_of_py_ok [OF assms(1)]] in simp)
  then show ?thesis
    using assms(2,3) by (auto simp: srd_inst_channel_set_all_def split: option.split sum.split)
qed

lemma python_channel_map_in_bounds_witness:
  "\<exists>r di'. srd_inst_channel_set_all [(''cs'', GV_int32 4), (''clk'', GV_int32 0)]
     ((malloc0_inst (the (decoder_of_py example_class)) 0 :: unit srd_decoder_inst)\<lparr>dec_num_channels := 2\<rparr>) = Some (r, di')"
  by (rule python_channel_map_in_bounds [OF example_class_loads])
    (simp_all add: malloc0_inst_def example_class_loads num_channels_def)

section \<open>Loading many decoders\<close>

text \<open>
  A step that only appends to the list of decoders: Python decoders that are sound, and C
  decoders made from the description that a library of an accepted version returned.
\<close>

definition from_library :: "dl_environ \<Rightarrow> srd_decoder \<Rightarrow> bool" where
  "from_library dl d \<longleftrightarrow> (\<exists>path h c k. dlopen dl path = Some h \<and> dlsym_entry dl h = Some (Some c)
     \<and> dlsym_version dl h = Some 4 \<and> cd_id c = Some k \<and> d = decoder_of_c c k)"

definition appends :: "dl_environ \<Rightarrow> 'p srd_world \<Rightarrow> 'p srd_world \<Rightarrow> bool" where
  "appends dl w w' \<longleftrightarrow> (\<exists>ds. w_pd_list w' = w_pd_list w @ ds \<and> (\<forall>d \<in> set ds. from_library dl d \<or> loaded_ok d))"

lemma appends_refl [simp]: "appends dl w w"
  by (simp add: appends_def)

lemma appends_trans: "appends dl a b \<Longrightarrow> appends dl b c \<Longrightarrow> appends dl a c"
  unfolding appends_def by (metis Un_iff append.assoc set_append)

lemma load_appends: "appends dl (snd st) (snd (snd (srd_decoder_load py n st)))"
  by (auto simp: srd_decoder_load_def appends_def dest: decoder_of_py_ok split: prod.split option.split)

lemma fold_appends:
  assumes "\<And>x st. appends dl (snd st) (snd (f x st))"
  shows "appends dl (snd st) (snd (fold f xs st))"
proof (induction xs arbitrary: st)
  case (Cons x xs)
  show ?case using appends_trans [OF assms Cons] by simp
qed simp

lemma load_path_appends: "appends dl (snd st) (snd (srd_decoder_load_all_path py dirs path st))"
proof -
  have "appends dl (snd st) (snd (load_each py names st))" for names
    unfolding load_each_def by (rule fold_appends) (rule load_appends)
  then show ?thesis
    by (simp add: srd_decoder_load_all_path_def srd_decoder_load_all_zip_path_def split: option.split sum.split)
qed

lemma c_load_single_appends: "appends dl w (snd (snd (srd_c_decoder_load_single dl path w)))"
  by (auto simp: srd_c_decoder_load_single_def appends_def reg_add_def srd_c_decoder_register_def from_library_def
      check_version Let_def split: option.split)

lemma run_loads_appends: "appends dl w (snd (run_loads dl paths w))"
proof (induction paths arbitrary: w)
  case (Cons p ps)
  show ?case
    using appends_trans [OF c_load_single_appends [of dl w p] Cons [of "snd (snd (srd_c_decoder_load_single dl p w))"]]
    by (simp add: Let_def split_beta)
qed simp

text \<open>
  C32: Loading everything only appends to the list of decoders. Every Python decoder it
  appends has distinct identifiers, channels numbered in order, and a type for each
  annotation; every other decoder it appends is a C decoder, as it was described by a library of the
  right version and with an identifier. Of these descriptions nothing is checked.
\<close>

theorem load_all_appends_sound_decoders:
  assumes "srd_decoder_load_all py dirs g_build_filename read_dir dl st = (r, mods', w')"
  shows "\<exists>ds. w_pd_list w' = w_pd_list (snd st) @ ds \<and> (\<forall>d \<in> set ds. from_library dl d \<or> loaded_ok d)"
proof -
  let ?s = "fold (srd_decoder_load_all_path py dirs) (w_searchpaths (snd st)) st"
  have "appends dl (snd st) (snd ?s)" by (rule fold_appends) (rule load_path_appends)
  moreover have "appends dl (snd ?s) (snd (snd (srd_c_decoder_load_all g_build_filename read_dir dl (snd ?s))))"
    using run_loads_appends by (auto simp: srd_c_decoder_load_all_def Let_def split: prod.split)
  ultimately have "appends dl (snd st) w'"
    using assms appends_trans by (auto simp: srd_decoder_load_all_def Let_def split: if_splits prod.splits)
  then show ?thesis by (simp add: appends_def)
qed

definition example_py :: py_loader where
  "example_py = \<lparr>py_import = (\<lambda>n mods. if n = ''ex'' then (Some (PV_object [(''Decoder'', example_class)] False), n # mods)
       else (None, mods)),
     sigrokdecode_ready = True, py_is_subclass = (\<lambda>_. 1)\<rparr>"

definition example_dirs :: dir_environ where
  "example_dirs = \<lparr>dir_entries = (\<lambda>p. if p = ''/d'' then Some [(''README'', False), (''common'', True), (''ex'', True)] else None),
     zip_files = (\<lambda>_. None), set_order = id\<rparr>"

lemma load_all_appends_sound_decoders_witness:
  "let (r, mods, w) = srd_decoder_load_all example_py example_dirs (\<lambda>a b. a @ ''/'' @ b) (\<lambda>_. None) example_dl
      ([], (empty_world :: unit srd_world)\<lparr>w_max_session_id := 0, w_searchpaths := [''/d'']\<rparr>)
   in r = SRD_OK \<and> mods = [''ex''] \<and> (\<exists>d. w_pd_list w = [d] \<and> loaded_ok d)"
proof -
  let ?w = "(empty_world :: unit srd_world)\<lparr>w_max_session_id := 0, w_searchpaths := [''/d'']\<rparr>"
  let ?l = "srd_decoder_load_all example_py example_dirs (\<lambda>a b. a @ ''/'' @ b) (\<lambda>_. None) example_dl ([], ?w)"
  obtain d where d: "decoder_of_py example_class = Some d" using example_class_loads by blast
  have l: "?l = (SRD_OK, [''ex''], ?w\<lparr>w_pd_list := [d]\<rparr>)"
    by (simp add: srd_decoder_load_all_def srd_decoder_load_all_path_def load_each_def srd_decoder_load_def
        srd_check_init_def example_dirs_def example_py_def empty_world_def srd_c_decoder_load_all_def d)
  obtain ds where "w_pd_list (?w\<lparr>w_pd_list := [d]\<rparr>) = w_pd_list ?w @ ds" "\<forall>x \<in> set ds. from_library example_dl x \<or> loaded_ok x"
    using load_all_appends_sound_decoders [OF l] by auto
  then have "from_library example_dl d \<or> loaded_ok d" by (auto simp: empty_world_def)
  moreover have "\<not> from_library example_dl d"
    using decoder_of_py_ok [OF d] by (auto simp: loaded_ok_def from_library_def decoder_of_c_def Let_def)
  ultimately show ?thesis unfolding l by simp
qed

text \<open>
  A module whose class is refused stays among Python's modules, so loading it a second time
  reports success, although there is no decoder.
\<close>

lemma refused_module_counts_as_loaded:
  assumes "srd_check_init w" and "n \<notin> set mods" and "py_import py n mods = (Some md, mods1)" and "n \<in> set mods1"
    and "\<And>cls. py_getattr md ''Decoder'' = Some cls \<Longrightarrow> decoder_of_py cls = None"
  shows "srd_decoder_load py (Some n) (mods, w) = (SRD_ERR_PYTHON, mods1, w)
    \<and> srd_decoder_load py (Some n) (mods1, w) = (SRD_OK, mods1, w)"
  using assms by (auto simp: srd_decoder_load_def split: option.split)

text \<open>An object that is no class at all passes the test for a subclass, whose error value is -1.\<close>

lemma no_class_passes_subclass_test:
  assumes "srd_check_init w" and "n \<notin> set mods" and "py_import py n mods = (Some md, mods1)"
    and "py_getattr md ''Decoder'' = Some v" and "sigrokdecode_ready py" and "py_is_subclass py v = -1"
    and "decoder_of_py v = Some d"
  shows "srd_decoder_load py (Some n) (mods, w) = (SRD_OK, mods1, w\<lparr>w_pd_list := w_pd_list w @ [d]\<rparr>)"
  using assms by (simp add: srd_decoder_load_def)

section \<open>The order of annotations\<close>

lemma annotations_loop_order:
  "annotations_loop vs ty anns types = Some (anns', types') \<Longrightarrow>
     \<exists>xs ts. anns' = rev xs @ anns \<and> types' = types @ ts \<and> length xs = length vs \<and> length ts = length vs
       \<and> (\<forall>i < length vs. \<exists>ys. vs ! i = PV_tuple ys \<and> py_strseq_to_char ys = Inr (xs ! i)
            \<and> (length ys = 3 \<longrightarrow> ts ! i = ann_type_digits (xs ! i ! 0)))"
proof (induction vs ty anns types rule: annotations_loop.induct)
  case (2 v vs ty anns types)
  obtain ys strs where v: "v = PV_tuple ys" "length ys = 3 \<or> length ys = 2" "py_strseq_to_char ys = Inr strs"
    using "2.prems" by (auto split: pyval.splits if_splits sum.splits)
  obtain t ty' where t: "annotations_loop vs ty' (strs # anns) (types @ [t]) = Some (anns', types')"
    "if length ys = 3 then t = ann_type_digits (strs ! 0) \<and> ty' = t else t = ty \<and> ty' = to_int (ty + 1)"
    using "2.prems" v by (auto simp: Let_def split: if_splits)
  have "\<exists>xs ts. anns' = rev xs @ strs # anns \<and> types' = (types @ [t]) @ ts \<and> length xs = length vs \<and> length ts = length vs
       \<and> (\<forall>i < length vs. \<exists>ys. vs ! i = PV_tuple ys \<and> py_strseq_to_char ys = Inr (xs ! i)
            \<and> (length ys = 3 \<longrightarrow> ts ! i = ann_type_digits (xs ! i ! 0)))"
  proof (cases "length ys = 3")
    case True
    show ?thesis using "2.IH"(1) [OF v(1) _ v(3) True refl] "2.prems" v True t by (simp add: Let_def)
  next
    case False
    show ?thesis using "2.IH"(2) [OF v(1) _ v(3) False] "2.prems" v False t by auto
  qed
  then obtain xs ts where x: "anns' = rev (strs # xs) @ anns" "types' = types @ t # ts" "length xs = length vs" "length ts = length vs"
    "\<forall>i < length vs. \<exists>ys. vs ! i = PV_tuple ys \<and> py_strseq_to_char ys = Inr (xs ! i)
            \<and> (length ys = 3 \<longrightarrow> ts ! i = ann_type_digits (xs ! i ! 0))" by auto
  show ?case
    by (intro exI [of _ "strs # xs"] exI [of _ "t # ts"]) (use x v t(2) in \<open>auto simp: nth_Cons' less_Suc_eq_0_disj split: if_splits\<close>)
qed simp

text \<open>
  The texts of a Python decoder's annotations are stored in reverse order, while their types
  are in the order of the class: annotation \<open>i\<close> of \<open>n\<close> has its texts at place \<open>n - 1 - i\<close> and its
  type at place \<open>i\<close>. (For a C decoder both are in order.)
\<close>

theorem python_annotations_reversed:
  assumes "get_annotations cls = Some (anns, types)" and "py_getattr cls ''annotations'' = Some (PV_tuple vs)"
    and "i < length vs"
  shows "\<exists>ys. vs ! i = PV_tuple ys \<and> py_strseq_to_char ys = Inr (anns ! (length vs - 1 - i))
    \<and> (length ys = 3 \<longrightarrow> types ! i = ann_type_digits (anns ! (length vs - 1 - i) ! 0))"
proof -
  have "annotations_loop vs 7 [] [] = Some (anns, types)" using assms(1,2) by (simp add: get_annotations_def)
  from annotations_loop_order [OF this] obtain xs where x: "anns = rev xs" "length xs = length vs"
    "\<forall>i < length vs. \<exists>ys. vs ! i = PV_tuple ys \<and> py_strseq_to_char ys = Inr (xs ! i)
            \<and> (length ys = 3 \<longrightarrow> types ! i = ann_type_digits (xs ! i ! 0))" by auto
  have "anns ! (length vs - 1 - i) = xs ! i" using x(1,2) assms(3) by (simp add: rev_nth)
  with x(3) assms(3) show ?thesis by simp
qed

lemma example_annotations:
  "get_annotations example_class = Some ([[''21'', ''b'', ''B''], [''a'', ''A'']], [7, 21])"
  by (simp add: get_annotations_def example_class_def strseq_item_def str_of_def c_string_def ann_type_digits_def
      schar_def to_int_def)

lemma python_annotations_reversed_witness:
  "\<exists>ys. py_strseq_to_char ys = Inr [''a'', ''A''] \<and> ys = [str_of ''a'', str_of ''A'']"
proof -
  have a: "py_getattr example_class ''annotations'' =
      Some (PV_tuple [PV_tuple [str_of ''a'', str_of ''A''], PV_tuple [str_of ''21'', str_of ''b'', str_of ''B'']])"
    by (simp add: example_class_def)
  from python_annotations_reversed [OF example_annotations a, of 0] show ?thesis by simp
qed

end
