(* ===== verification/PyDecoder.thy ===== *)
theory PyDecoder
  imports PyObj CApi
begin

text \<open>
  type_decoder.c: the class \<^verbatim>\<open>sigrokdecode.Decoder\<close> that Python decoders inherit from. Its methods
  \<open>register\<close>, \<open>put\<close>, \<open>wait\<close> and \<open>has_channel\<close> find the instance of their object and work on it
  as the functions of the C API do. An argument tuple enters as its values after parsing.
\<close>

section \<open>Finding the instance\<close>

text \<open>
  The search of one session's stacks: depth first, an instance before what is stacked on it. Fuel
  bounds the depth, out of fuel is the outer None. \<open>stack\<close> empty is a NULL list.
\<close>

fun find_by_obj_loop :: "nat \<Rightarrow> nat \<Rightarrow> inst_ptr list \<Rightarrow> 'p srd_world \<Rightarrow> inst_ptr option option" where
  "find_by_obj_loop 0 obj l w = None"
| "find_by_obj_loop (Suc n) obj [] w = Some None"
| "find_by_obj_loop (Suc n) obj (p # ps) w = (case inst_at w p of
      None \<Rightarrow> Some None
    | Some di \<Rightarrow>
        if py_inst di = Some obj then Some (Some p)
        else case (if next_di di = [] then Some None else find_by_obj_loop n obj (next_di di) w) of
               None \<Rightarrow> None
             | Some (Some q) \<Rightarrow> Some (Some q)
             | Some None \<Rightarrow> find_by_obj_loop (Suc n) obj ps w)"

definition srd_sess_inst_find_by_obj ::
    "nat \<Rightarrow> sess_ptr \<Rightarrow> inst_ptr list \<Rightarrow> nat \<Rightarrow> 'p srd_world \<Rightarrow> inst_ptr option option" where
  "srd_sess_inst_find_by_obj n sess stack obj w = (case w_sess w sess of
      None \<Rightarrow> Some None
    | Some se \<Rightarrow> find_by_obj_loop n obj (if stack = [] then di_list se else stack) w)"

fun find_in_sessions :: "nat \<Rightarrow> nat \<Rightarrow> sess_ptr list \<Rightarrow> 'p srd_world \<Rightarrow> inst_ptr option option" where
  "find_in_sessions n obj [] w = Some None"
| "find_in_sessions n obj (s # ss) w = (case srd_sess_inst_find_by_obj n s [] obj w of
      Some None \<Rightarrow> find_in_sessions n obj ss w
    | r \<Rightarrow> r)"

text \<open>The first instance of the first session is tried on its own.\<close>

definition srd_inst_find_by_obj :: "nat \<Rightarrow> nat \<Rightarrow> 'p srd_world \<Rightarrow> inst_ptr option option" where
  "srd_inst_find_by_obj n obj w = (case w_sessions w of
      [] \<Rightarrow> Some None
    | s # _ \<Rightarrow>
        let first = (case w_sess w s of None \<Rightarrow> None | Some se \<Rightarrow> (case di_list se of [] \<Rightarrow> None | p # _ \<Rightarrow> Some p))
        in case Option.bind first (inst_at w) of
             Some di \<Rightarrow> if py_inst di = Some obj then Some first else find_in_sessions n obj (w_sessions w) w
           | None \<Rightarrow> find_in_sessions n obj (w_sessions w) w)"

section \<open>Annotations\<close>

text \<open>
  A call may fail with an error, or have undefined behaviour: more than ten texts overrun
  \<^verbatim>\<open>text_items\<close>.
\<close>

datatype 'a outcome = Done 'a | Failed srd_error_code | Undefined

definition is_text :: "pyval \<Rightarrow> bool" where
  "is_text v = (case v of PV_str _ \<Rightarrow> True | _ \<Rightarrow> False)"

definition ann_number :: "pyval list \<Rightarrow> int option" where
  "ann_number vs = (case rev (filter (\<lambda>v. py_long v \<noteq> None) vs) of [] \<Rightarrow> None | v # _ \<Rightarrow> py_long v)"

definition long_hex :: "int \<Rightarrow> string" where
  "long_hex i = fmt_num 16 2 (unat (word_of_int (as_long i) :: u64))"

definition upcase_hex :: "string \<Rightarrow> string" where
  "upcase_hex s = map (\<lambda>c. let v = of_char c :: nat in if 97 \<le> v \<and> v \<le> 102 then char_of (v - 32) else c) s"

text \<open>
  A text that begins with @ carries the number in hexadecimal; the frontend sees a line feed in
  its place. With too many digits only the @ goes.
\<close>

definition ann_text_item :: "string \<Rightarrow> string \<Rightarrow> string \<times> string" where
  "ann_text_item str hex = (case str of
      c # cs \<Rightarrow>
        if c = CHR ''@'' then
          (if 0 < length cs \<and> length cs < DECODE_NUM_HEX_MAX_LEN then ([CHR 0x0A], upcase_hex cs)
           else if 0 < length cs then (cs, hex) else (str, hex))
        else (str, hex)
    | [] \<Rightarrow> (str, hex))"

fun parse_texts :: "pyval list \<Rightarrow> string list \<Rightarrow> string \<Rightarrow> (string list \<times> string) outcome" where
  "parse_texts [] acc hex = Done (acc, hex)"
| "parse_texts (v # vs) acc hex = (case py_str_as_str v of
      Inl e \<Rightarrow> Failed SRD_ERR_PYTHON
    | Inr s \<Rightarrow> (let (s', hex') = ann_text_item s hex in parse_texts vs (acc @ [s']) hex'))"

text \<open>The texts (NULL when there are none), the hexadecimal number and the number.\<close>

definition py_parse_ann_data :: "pyval list \<Rightarrow> (string list option \<times> string \<times> int) outcome" where
  "py_parse_ann_data items =
     (let texts = filter is_text items; num = ann_number items
      in if 10 < length texts then Undefined
         else if num = None \<and> texts = [] then Failed SRD_ERR_PYTHON
         else let hex = (case num of None \<Rightarrow> [] | Some i \<Rightarrow> long_hex i);
                  numeric = (case num of None \<Rightarrow> 0 | Some i \<Rightarrow> as_long i)
              in if texts = [] then Done (None, hex, numeric)
                 else case parse_texts texts [] hex of
                        Done (strs, hex') \<Rightarrow> Done (Some strs, hex', numeric)
                      | Failed e \<Rightarrow> Failed e
                      | Undefined \<Rightarrow> Undefined)"

text \<open>The common part of both paths: a list of a registered class and a list that is not empty.\<close>

definition ann_parts :: "srd_decoder \<Rightarrow> pyval \<Rightarrow> (int \<times> pyval list) option" where
  "ann_parts dec obj = (case obj of
      PV_list [c, PV_list items] \<Rightarrow> (case py_long c of
          None \<Rightarrow> None
        | Some i \<Rightarrow>
            (let cls = to_int (as_long i)
             in if int (length (dec_ann_types dec)) \<le> cls \<or> cls < 0 \<or> items = [] then None
                else Some (cls, items)))
    | _ \<Rightarrow> None)"

definition convert_annotation :: "srd_decoder \<Rightarrow> pyval \<Rightarrow> srd_proto_data_annotation outcome" where
  "convert_annotation dec obj = (case ann_parts dec obj of
      None \<Rightarrow> Failed SRD_ERR_PYTHON
    | Some (cls, items) \<Rightarrow> (case py_parse_ann_data items of
        Done (texts, hex, numeric) \<Rightarrow> Done \<lparr>pda_ann_class = cls, pda_ann_type = dec_ann_types dec ! nat cls,
          pda_str_number_hex = hex, pda_numberic_value = numeric, pda_ann_text = texts\<rparr>
      | Failed e \<Rightarrow> Failed SRD_ERR_PYTHON
      | Undefined \<Rightarrow> Undefined))"

text \<open>
  The batch path copies each text into the arena and edits the copy there: the edited string is
  never longer. As in \<open>srd_ann_batch_append_fields\<close> the vector is written once all of its slots
  are known.
\<close>

fun copy_py_texts ::
    "pyval list \<Rightarrow> srd_ann_batch_state \<Rightarrow> arena_addr list \<Rightarrow> string \<Rightarrow>
     (arena_addr list \<times> string) outcome \<times> srd_ann_batch_state" where
  "copy_py_texts [] st acc hex = (Done (acc, hex), st)"
| "copy_py_texts (v # vs) st acc hex = (case py_str_as_str v of
      Inl e \<Rightarrow> (Failed SRD_ERR_PYTHON, st)
    | Inr s \<Rightarrow>
        (let (dst, st1) = srd_ann_arena_strdup st s;
             (s', hex') = ann_text_item s hex;
             st2 = st1\<lparr>ab_mem := mem_write dst (length s' + 1) (AStr s') (ab_mem st1)\<rparr>
         in copy_py_texts vs st2 (acc @ [dst]) hex'))"

definition py_put_ann_batch ::
    "srd_decoder \<Rightarrow> u64 \<Rightarrow> u64 \<Rightarrow> pyval \<Rightarrow> srd_ann_batch_state \<Rightarrow>
     batch_call list outcome \<times> srd_ann_batch_state" where
  "py_put_ann_batch dec ss es obj st = (case ann_parts dec obj of
      None \<Rightarrow> (Failed SRD_ERR_PYTHON, st)
    | Some (cls, items) \<Rightarrow>
        (let texts = filter is_text items; num = ann_number items;
             hex = (case num of None \<Rightarrow> [] | Some i \<Rightarrow> long_hex i);
             numeric = (case num of None \<Rightarrow> 0 | Some i \<Rightarrow> as_long i);
             item = (\<lambda>strv h. \<lparr>it_start_sample = ss, it_end_sample = es, it_ann_class = cls,
               it_ann_type = dec_ann_types dec ! nat cls, it_ann_text = strv, it_str_number_hex = h,
               it_numberic_value = numeric, it_decoder = Some dec\<rparr>)
         in if 10 < length texts then (Undefined, st)
            else if num = None \<and> texts = [] then (Failed SRD_ERR_PYTHON, st)
            else if texts = [] then
              (let (calls, st1) = srd_ann_batch_append_item st (item None hex) in (Done calls, st1))
            else
              (let n = (length texts + 1) * 8; (strv, st1) = srd_ann_arena_alloc st n
               in case copy_py_texts texts st1 [] hex of
                    (Done (ptrs, hex'), st2) \<Rightarrow>
                      (let st3 = st2\<lparr>ab_mem := mem_write strv n (AStrv ptrs) (ab_mem st2)\<rparr>;
                           (calls, st4) = srd_ann_batch_append_item st3 (item (Some strv) hex')
                       in (Done calls, st4))
                  | (Failed e, st2) \<Rightarrow> (Failed SRD_ERR_PYTHON, st2)
                  | (Undefined, st2) \<Rightarrow> (Undefined, st2))))"

section \<open>Bytes and metadata\<close>

definition convert_binary :: "srd_decoder \<Rightarrow> pyval \<Rightarrow> srd_error_code + proto_payload" where
  "convert_binary dec obj = (case obj of
      PV_list [c, PV_bytes bs] \<Rightarrow> (case py_long c of
          None \<Rightarrow> Inl SRD_ERR_PYTHON
        | Some i \<Rightarrow>
            (let cls = to_int (as_long i)
             in if g_slist_nth (dec_binary dec) cls = None \<or> bs = [] then Inl SRD_ERR_PYTHON
                else Inr (PD_binary cls (of_nat (length bs)) bs)))
    | _ \<Rightarrow> Inl SRD_ERR_PYTHON)"

text \<open>The GVariant itself goes to the callback, where \<open>c_decoder_put_meta_int\<close> passes a structure.\<close>

definition convert_meta :: "srd_pd_output \<Rightarrow> pyval \<Rightarrow> srd_error_code + proto_payload" where
  "convert_meta pdo obj =
     (if pdo_meta_type pdo = Some ''x'' then (case py_long obj of
          None \<Rightarrow> Inl SRD_ERR_PYTHON
        | Some i \<Rightarrow> if fits_long i then Inr (PD_variant (GV_int64 i)) else Inl SRD_ERR_PYTHON)
      else if pdo_meta_type pdo = Some ''d'' then (case obj of
          PV_float x \<Rightarrow> Inr (PD_variant (GV_double x))
        | _ \<Rightarrow> Inl SRD_ERR_PYTHON)
      else Inr PD_none)"


section \<open>put()\<close>

text \<open>
  What Python does outside of this file: the decode() of a Python decoder on top, and what is read
  through a pointer into a bytes object that was released. The bridge to a C decoder releases the
  UTF-8 forms of its strings before it calls.
\<close>

record 'p py_runtime =
  py_decode :: "inst_ptr \<Rightarrow> u64 \<Rightarrow> u64 \<Rightarrow> pyval \<Rightarrow> 'p srd_world \<Rightarrow> 'p srd_world"
  released :: "string \<Rightarrow> string"

definition c_text :: "'p py_runtime \<Rightarrow> string \<Rightarrow> string" where
  "c_text rt s = c_string (released rt s)"

definition bridge_field :: "'p py_runtime \<Rightarrow> pyval \<Rightarrow> c_field option" where
  "bridge_field rt v = (case v of
      PV_str s \<Rightarrow> map_option (\<lambda>t. C_STR (c_text rt t)) s
    | PV_float x \<Rightarrow> Some (C_F64 x)
    | PV_bytes bs \<Rightarrow> Some (C_BYTES bs)
    | _ \<Rightarrow> map_option (\<lambda>i. C_I64 (word_of_int (as_long i))) (py_long v))"

text \<open>Items without a field, None among them, are left out, so later ones move up.\<close>

definition bridge_message :: "'p py_runtime \<Rightarrow> pyval \<Rightarrow> string \<times> c_field list" where
  "bridge_message rt data = (case data of
      PV_list (c # items) \<Rightarrow>
        ((case c of PV_str (Some s) \<Rightarrow> c_text rt s | _ \<Rightarrow> []), take 64 (List.map_filter (bridge_field rt) items))
    | _ \<Rightarrow> ([], []))"

definition put_to_upper ::
    "'p environ \<Rightarrow> 'p py_runtime \<Rightarrow> u64 \<Rightarrow> u64 \<Rightarrow> pyval \<Rightarrow> inst_ptr \<Rightarrow> 'p srd_world \<Rightarrow> 'p srd_world" where
  "put_to_upper env rt ss es data q w = (case inst_at w q of
      None \<Rightarrow> w
    | Some d \<Rightarrow>
        if is_c_inst d then (let (cmd, flds) = bridge_message rt data in call_upper env ss es cmd flds q w)
        else py_decode rt q ss es data w)"

text \<open>The callback registered with the instance's session for a type of output.\<close>

definition py_callback :: "'p srd_decoder_inst \<Rightarrow> srd_output_type \<Rightarrow> 'p srd_world \<Rightarrow> srd_pd_callback option" where
  "py_callback di ty w = Option.bind (w_sess w (di_sess di)) (srd_pd_output_callback_find ty)"

text \<open>
  One put() of an instance on output \<open>output_id\<close>. It returns false, for an exception, only when
  the output does not exist; data that cannot be converted is dropped.
\<close>

definition put_ann :: "inst_ptr \<Rightarrow> 'p srd_decoder_inst \<Rightarrow> srd_pd_output \<Rightarrow> u64 \<Rightarrow> u64 \<Rightarrow> pyval \<Rightarrow> 'p srd_world \<Rightarrow> 'p srd_world option" where
  "put_ann p di pdo ss es data w = (case w_sess w (di_sess di) of
      Some se \<Rightarrow>
        if ab_cb (ann_batch se) \<noteq> None then
          (case py_put_ann_batch (di_decoder di) ss es data (ann_batch se) of
             (Done calls, st) \<Rightarrow> Some (on_batch (\<lambda>_. (calls, st)) (di_sess di) w)
           | (Failed e, st) \<Rightarrow> Some (on_batch (\<lambda>_. ([], st)) (di_sess di) w)
           | (Undefined, st) \<Rightarrow> None)
        else (case srd_pd_output_callback_find (pdo_output_type pdo) se of
            None \<Rightarrow> Some w
          | Some cb \<Rightarrow> (case convert_annotation (di_decoder di) data of
                Done pda \<Rightarrow> Some (run_callback cb (mk_pdata ss es pdo (PD_annotation pda)) w)
              | Failed e \<Rightarrow> Some w
              | Undefined \<Rightarrow> None))
    | None \<Rightarrow> Some w)"

definition put_converted ::
    "'p srd_decoder_inst \<Rightarrow> srd_pd_output \<Rightarrow> u64 \<Rightarrow> u64 \<Rightarrow> srd_error_code + proto_payload \<Rightarrow> 'p srd_world \<Rightarrow> 'p srd_world" where
  "put_converted di pdo ss es r w = (case py_callback di (pdo_output_type pdo) w of
      None \<Rightarrow> w
    | Some cb \<Rightarrow> (case r of Inl e \<Rightarrow> w | Inr x \<Rightarrow> run_callback cb (mk_pdata ss es pdo x) w))"

definition put_on_output ::
    "'p environ \<Rightarrow> 'p py_runtime \<Rightarrow> inst_ptr \<Rightarrow> 'p srd_decoder_inst \<Rightarrow> u64 \<Rightarrow> u64 \<Rightarrow> int \<Rightarrow> pyval \<Rightarrow> 'p srd_world \<Rightarrow>
     (bool \<times> 'p srd_world) option" where
  "put_on_output env rt p di ss es output_id data w = (case g_slist_nth (pd_output di) output_id of
      None \<Rightarrow> Some (False, w)
    | Some pdo \<Rightarrow> map_option (Pair True) (case pdo_output_type pdo of
          SRD_OUTPUT_ANN \<Rightarrow> put_ann p di pdo ss es data w
        | SRD_OUTPUT_PROTO \<Rightarrow>
            Some (put_converted di pdo ss es (Inr (PD_python data))
              (fold (put_to_upper env rt ss es data) (next_di di) w))
        | SRD_OUTPUT_BINARY \<Rightarrow> Some (put_converted di pdo ss es (convert_binary (di_decoder di) data) w)
        | SRD_OUTPUT_META \<Rightarrow> Some (put_converted di pdo ss es (convert_meta pdo data) w)
        | _ \<Rightarrow> Some w))"

definition Decoder_put ::
    "nat \<Rightarrow> 'p environ \<Rightarrow> 'p py_runtime \<Rightarrow> nat \<Rightarrow> u64 \<Rightarrow> u64 \<Rightarrow> int \<Rightarrow> pyval \<Rightarrow> 'p srd_world \<Rightarrow>
     (bool \<times> 'p srd_world) option" where
  "Decoder_put n env rt self ss es output_id data w = (case srd_inst_find_by_obj n self w of
      None \<Rightarrow> None
    | Some None \<Rightarrow> Some (False, w)
    | Some (Some p) \<Rightarrow> (case inst_at w p of
        None \<Rightarrow> Some (False, w)
      | Some di \<Rightarrow> put_on_output env rt p di ss es output_id data w))"

section \<open>register()\<close>

datatype py_type_object = PyLong_Type | PyFloat_Type | Py_other_type

definition meta_variant_type :: "(py_type_object \<times> string \<times> string) option \<Rightarrow> string option" where
  "meta_variant_type meta = (case meta of
      Some (PyLong_Type, _) \<Rightarrow> Some ''x''
    | Some (PyFloat_Type, _) \<Rightarrow> Some ''d''
    | _ \<Rightarrow> None)"

text \<open>The output asked for, with number \<open>n\<close>.\<close>

definition output_for ::
    "inst_ptr \<Rightarrow> int \<Rightarrow> srd_output_type \<Rightarrow> string \<Rightarrow> (py_type_object \<times> string \<times> string) option \<Rightarrow> srd_pd_output" where
  "output_for p n ty proto_id meta =
     \<lparr>pdo_id = n, pdo_output_type = ty, pdo_di = p, pdo_proto_id = proto_id,
      pdo_meta_type = (if ty = SRD_OUTPUT_META then meta_variant_type meta else None),
      pdo_meta_name = (if ty = SRD_OUTPUT_META then map_option (fst \<circ> snd) meta else None),
      pdo_meta_descr = (if ty = SRD_OUTPUT_META then map_option (snd \<circ> snd) meta else None)\<rparr>"

definition same_output :: "srd_pd_output \<Rightarrow> srd_pd_output \<Rightarrow> bool" where
  "same_output a b \<longleftrightarrow> pdo_output_type a = pdo_output_type b \<and> pdo_proto_id a = pdo_proto_id b
     \<and> (pdo_output_type a = SRD_OUTPUT_META \<longrightarrow> pdo_meta_type a = pdo_meta_type b
          \<and> pdo_meta_name a = pdo_meta_name b \<and> pdo_meta_descr a = pdo_meta_descr b)"

text \<open>The result is None for an exception. The name defaults to the instance's identifier.\<close>

definition register_output ::
    "inst_ptr \<Rightarrow> srd_output_type \<Rightarrow> string option \<Rightarrow> (py_type_object \<times> string \<times> string) option \<Rightarrow>
     'p srd_world \<Rightarrow> int option \<times> 'p srd_world" where
  "register_output p ty proto_id meta w = (case inst_at w p of
      None \<Rightarrow> (None, w)
    | Some di \<Rightarrow>
        if ty = SRD_OUTPUT_META \<and> meta_variant_type meta = None then (None, w)
        else let pdo = output_for p (int (length (pd_output di))) ty (case proto_id of None \<Rightarrow> inst_id di | Some k \<Rightarrow> k) meta
          in case find (same_output pdo) (pd_output di) of
               Some cmp \<Rightarrow> (Some (pdo_id cmp), w)
             | None \<Rightarrow> (Some (pdo_id pdo), upd_inst p (\<lambda>d. d\<lparr>pd_output := pd_output d @ [pdo]\<rparr>) w))"

definition Decoder_register ::
    "nat \<Rightarrow> nat \<Rightarrow> srd_output_type \<Rightarrow> string option \<Rightarrow> (py_type_object \<times> string \<times> string) option \<Rightarrow>
     'p srd_world \<Rightarrow> (int option \<times> 'p srd_world) option" where
  "Decoder_register n self ty proto_id meta w = (case srd_inst_find_by_obj n self w of
      None \<Rightarrow> None
    | Some None \<Rightarrow> Some (None, w)
    | Some (Some p) \<Rightarrow> Some (register_output p ty proto_id meta w))"

section \<open>wait()\<close>

definition get_term_type :: "string \<Rightarrow> int" where
  "get_term_type v = (case v of
      [] \<Rightarrow> -1
    | c # _ \<Rightarrow> if c = CHR ''h'' then 0 else if c = CHR ''l'' then 1 else if c = CHR ''r'' then 2
        else if c = CHR ''f'' then 3 else if c = CHR ''e'' then 4 else if c = CHR ''n'' then 5 else -1)"

definition skip_term :: "bool \<Rightarrow> u64 \<Rightarrow> srd_term" where
  "skip_term cur_matched n = \<lparr>t_type = SRD_TERM_SKIP, t_channel = 0, num_samples_to_skip = n,
     num_samples_already_skipped = (if cur_matched \<and> n \<noteq> 0 then 1 else 0)\<rparr>"

text \<open>The terms of one dictionary, in its order: channel numbers with levels, strings with counts.\<close>

definition term_of_py :: "bool \<Rightarrow> pyval \<times> pyval \<Rightarrow> srd_term option" where
  "term_of_py cur_matched kv = (case kv of (k, v) \<Rightarrow> (case py_long k of
      Some ch \<Rightarrow> (case py_str_as_str v of
          Inl _ \<Rightarrow> None
        | Inr s \<Rightarrow> Some \<lparr>t_type = srd_term_type_of (get_term_type s), t_channel = to_int (as_long ch),
            num_samples_to_skip = 0, num_samples_already_skipped = 0\<rparr>)
    | None \<Rightarrow> (case k of
          PV_str _ \<Rightarrow> (case py_object_to_uint (Some v) of
              Inl _ \<Rightarrow> None
            | Inr n \<Rightarrow> Some (skip_term cur_matched n))
        | _ \<Rightarrow> None)))"

fun create_term_list :: "bool \<Rightarrow> (pyval \<times> pyval) list \<Rightarrow> srd_term list \<Rightarrow> srd_error_code + srd_term list" where
  "create_term_list cur_matched [] acc = Inr acc"
| "create_term_list cur_matched (kv # kvs) acc = (case term_of_py cur_matched kv of
      None \<Rightarrow> Inl SRD_ERR
    | Some t \<Rightarrow> create_term_list cur_matched kvs (acc @ [t]))"

fun add_conditions :: "pyval list \<Rightarrow> 'p srd_decoder_inst \<Rightarrow> srd_error_code \<times> 'p srd_decoder_inst" where
  "add_conditions [] di = (SRD_OK, di)"
| "add_conditions (v # vs) di = (case v of
      PV_dict d \<Rightarrow> (case create_term_list (abs_cur_matched di) d [] of
          Inl e \<Rightarrow> (e, di)
        | Inr ts \<Rightarrow> add_conditions vs (di\<lparr>condition_list := condition_list di @ [ts]\<rparr>))
    | _ \<Rightarrow> (SRD_ERR, di))"

text \<open>The result None stands for 9999: there are no conditions.\<close>

definition set_new_condition_list ::
    "pyval \<Rightarrow> 'p srd_decoder_inst \<Rightarrow> srd_error_code option \<times> 'p srd_decoder_inst" where
  "set_new_condition_list conds di =
     (if want_wait_terminate di then (Some SRD_ERR, di)
      else if conds \<in> {PV_none, PV_list [], PV_dict []} then (None, di)
      else case conds of
        PV_list vs \<Rightarrow> (let (r, d) = add_conditions vs (condition_list_free di) in (Some r, d))
      | PV_dict d \<Rightarrow> (let (r, d) = add_conditions [PV_dict d] (condition_list_free di) in (Some r, d))
      | _ \<Rightarrow> (Some SRD_ERR, di))"

definition set_skip_condition :: "u64 \<Rightarrow> 'p srd_decoder_inst \<Rightarrow> 'p srd_decoder_inst" where
  "set_skip_condition n di = (condition_list_free di)\<lparr>condition_list := [[skip_term (abs_cur_matched di) n]]\<rparr>"

definition pin_value :: "'p srd_decoder_inst \<Rightarrow> int list \<Rightarrow> nat \<Rightarrow> int" where
  "pin_value di chmap i =
     (if chmap ! i = -1 then 0xff
      else case read_sample di of
        Some rd \<Rightarrow> uint (rd (int i) (abs_cur_samplenum di))
      | None \<Rightarrow> (case channel_buffer di (int i) of
          None \<Rightarrow> uint (const_sample di (int i))
        | Some buf \<Rightarrow>
            if abs_cur_samplenum di < abs_start_samplenum di \<or> abs_end_samplenum di \<le> abs_cur_samplenum di then 0
            else let off = abs_cur_samplenum di - abs_start_samplenum di
                 in if bit (buf (unat (off div 8))) (unat (off mod 8)) then 1 else 0))"

definition get_current_pinvalues :: "'p srd_decoder_inst \<Rightarrow> 'p srd_decoder_inst" where
  "get_current_pinvalues di = di\<lparr>py_pinvalues := (case dec_channelmap di of
      None \<Rightarrow> []
    | Some chmap \<Rightarrow> map (pin_value di chmap) [0..<dec_num_channels di])\<rparr>"

text \<open>
  One pass of the loop in \<open>Decoder_wait\<close>. A match sets \<^verbatim>\<open>samplenum\<close> and \<^verbatim>\<open>matched\<close> of the
  Python object to the values in the status, and the result of the call is the tuple of pins.
\<close>

definition py_wait_pass :: "'p srd_decoder_inst \<Rightarrow> wait_status \<times> 'p srd_decoder_inst" where
  "py_wait_pass di =
     (if \<not> got_new_samples di \<and> \<not> want_wait_terminate di then (Wait_blocked, di)
      else case process_samples_until_condition_match 1 di of
        None \<Rightarrow> (Wait_blocked, di)
      | Some (found_match, di1) \<Rightarrow>
          if found_match
          then (Wait_found (abs_cur_samplenum di1) (match_array di1), get_current_pinvalues di1)
          else let di2 = release_chunk di1
               in if want_wait_terminate di2 then (Wait_term_req, di2) else (Wait_chunk_done, di2))"

fun py_wait_loop ::
    "sample_chunk list \<Rightarrow> 'p srd_decoder_inst \<Rightarrow> wait_status \<times> sample_chunk list \<times> 'p srd_decoder_inst" where
  "py_wait_loop [] di = (let (st, di1) = py_wait_pass di in (st, [], di1))"
| "py_wait_loop (ck # feed) di =
     (let (st, di1) = py_wait_pass di
      in if st = Wait_chunk_done \<or> st = Wait_blocked
         then py_wait_loop feed (snd (srd_inst_decode_begin ck di1))
         else (st, ck # feed, di1))"

definition Decoder_wait ::
    "pyval \<Rightarrow> sample_chunk list \<Rightarrow> 'p srd_decoder_inst \<Rightarrow>
     (wait_status \<times> sample_chunk list \<times> 'p srd_decoder_inst) option" where
  "Decoder_wait conds feed di = (case set_new_condition_list conds di of
      (Some r, d) \<Rightarrow> if r \<noteq> SRD_OK then None else Some (py_wait_loop feed d)
    | (None, d) \<Rightarrow>
        (let skip_count = (if \<not> first_pos d \<and> abs_cur_samplenum d \<noteq> 0 then 1
                           else if condition_list d = [] then 0 else 1)
         in Some (py_wait_loop feed (set_skip_condition skip_count d))))"

section \<open>has_channel()\<close>

definition Decoder_has_channel :: "int \<Rightarrow> 'p srd_decoder_inst \<Rightarrow> bool option" where
  "Decoder_has_channel idx di =
     (if idx < 0 \<or> int (num_channels (di_decoder di)) \<le> idx then None
      else case dec_channelmap di of None \<Rightarrow> None | Some chmap \<Rightarrow> Some (chmap ! nat idx \<noteq> -1))"

section \<open>Waiting in Python is waiting in C\<close>

lemma conds_frame:
  "oldpins_array_seed (d\<lparr>condition_list := L\<rparr>) = (oldpins_array_seed d)\<lparr>condition_list := L\<rparr>"
  "old_pin_sample (d\<lparr>condition_list := L\<rparr>) ch = old_pin_sample d ch"
proof -
  show "oldpins_array_seed (d\<lparr>condition_list := L\<rparr>) = (oldpins_array_seed d)\<lparr>condition_list := L\<rparr>"
    by (cases "old_pins_array d") (simp_all add: oldpins_array_seed_def)
  have b: "buffer_sample (d\<lparr>condition_list := L\<rparr>) = buffer_sample d"
    by (rule ext) (simp add: buffer_sample_def sample_byte_pos_def)
  show "old_pin_sample (d\<lparr>condition_list := L\<rparr>) ch = old_pin_sample d ch"
    unfolding old_pin_sample_def channel_buffer_def const_sample_def cur_out_of_range_def b by (simp split: option.split)
qed

lemma initial_pins_conds:
  "update_old_pins_array_initial_pins (d\<lparr>condition_list := L\<rparr>)
     = (update_old_pins_array_initial_pins d)\<lparr>condition_list := L\<rparr>"
proof (cases "dec_channelmap d")
  case None
  then show ?thesis by (simp add: update_old_pins_array_initial_pins_def)
next
  case (Some cm)
  define f where "f = (\<lambda>i v. if v \<noteq> 2 then v else old_pin_sample (oldpins_array_seed d) (int i))"
  have "update_old_pins_array_initial_pins (d\<lparr>condition_list := L\<rparr>) = (oldpins_array_seed d)\<lparr>condition_list := L,
      old_pins_array := map_option (update_range (dec_num_channels (oldpins_array_seed d)) f) (old_pins_array (oldpins_array_seed d))\<rparr>"
    using Some by (simp add: update_old_pins_array_initial_pins_def conds_frame Let_def f_def cong: if_cong)
  moreover have "update_old_pins_array_initial_pins d = (oldpins_array_seed d)\<lparr>
      old_pins_array := map_option (update_range (dec_num_channels (oldpins_array_seed d)) f) (old_pins_array (oldpins_array_seed d))\<rparr>"
    using Some by (simp add: update_old_pins_array_initial_pins_def Let_def f_def)
  ultimately show ?thesis by simp
qed

lemma initial_pins_view:
  "abs_cur_matched (update_old_pins_array_initial_pins d) = abs_cur_matched d"
  "condition_list (update_old_pins_array_initial_pins d) = condition_list d"
  by (simp_all add: update_old_pins_array_initial_pins_def oldpins_array_seed_def Let_def split: option.split)

text \<open>The scan begins from a state in which every skip after a match counts from the match.\<close>

lemma scan_start_conds:
  "scan_start (d\<lparr>condition_list := L\<rparr>)
     = (scan_start d)\<lparr>condition_list := (if abs_cur_matched d then map (map restart_skip) L else L)\<rparr>"
proof -
  have "d\<lparr>match_array := 0, condition_list := L, first_pos := False\<rparr> = d\<lparr>match_array := 0, first_pos := False, condition_list := L\<rparr>"
    "d\<lparr>condition_list := L, match_array := 0\<rparr> = d\<lparr>match_array := 0, condition_list := L\<rparr>" by simp_all
  note e = this(1) [symmetric] this(2)
  show ?thesis
    using initial_pins_conds [where d = "d\<lparr>match_array := 0, first_pos := False\<rparr>" and L = L]
    by (simp add: e(1) [symmetric] e(2) scan_start_def advance_past_match_def Let_def initial_pins_view)
qed

lemma scan_start_condition_list:
  "condition_list (scan_start d) = (if abs_cur_matched d then map (map restart_skip) (condition_list d) else condition_list d)"
  by (simp add: scan_start_def advance_past_match_def Let_def initial_pins_view)

text \<open>Two instances that differ in their condition lists only, and not once the scan has begun.\<close>

definition same_wait :: "'p srd_decoder_inst \<Rightarrow> 'p srd_decoder_inst \<Rightarrow> bool" where
  "same_wait d e \<longleftrightarrow> (\<exists>L. e = d\<lparr>condition_list := L\<rparr>
     \<and> (L = condition_list d \<or> have_non_null_conds d \<and> have_non_null_conds e
        \<and> abs_cur_matched d \<and> map (map restart_skip) L = map (map restart_skip) (condition_list d)))"

lemma same_wait_refl [simp]: "same_wait d d"
  by (auto simp: same_wait_def intro!: exI [of _ "condition_list d"])

lemma same_wait_find_match:
  assumes "same_wait d e"
  shows "find_match e = find_match d"
proof -
  obtain L where L: "e = d\<lparr>condition_list := L\<rparr>"
    and c: "L = condition_list d \<or> have_non_null_conds d \<and> have_non_null_conds e
        \<and> abs_cur_matched d \<and> map (map restart_skip) L = map (map restart_skip) (condition_list d)"
    using assms by (auto simp: same_wait_def)
  from c show ?thesis
  proof
    assume "L = condition_list d"
    then have "e = d" using L by simp
    then show ?thesis by simp
  next
    assume h: "have_non_null_conds d \<and> have_non_null_conds e
        \<and> abs_cur_matched d \<and> map (map restart_skip) L = map (map restart_skip) (condition_list d)"
    then have s: "condition_list (scan_start d) = map (map restart_skip) L"
      by (simp add: scan_start_condition_list)
    have "scan_start e = (scan_start d)\<lparr>condition_list := condition_list (scan_start d)\<rparr>"
      unfolding s L scan_start_conds using h by simp
    then have "scan_start e = scan_start d" by simp
    with h show ?thesis by (auto simp: find_match_def have_non_null_conds_def)
  qed
qed

lemma same_wait_fields:
  "same_wait d e \<Longrightarrow> got_new_samples e = got_new_samples d \<and> want_wait_terminate e = want_wait_terminate d"
  by (auto simp: same_wait_def)

lemma load_chunk_conds:
  "load_chunk s e ib ic len (d\<lparr>condition_list := L\<rparr>) = (load_chunk s e ib ic len d)\<lparr>condition_list := L\<rparr>"
  by (simp add: load_chunk_def)

text \<open>Taking a chunk does not look at the conditions.\<close>

definition begun :: "sample_chunk \<Rightarrow> 'p srd_decoder_inst \<Rightarrow> 'p srd_decoder_inst" where
  "begun ck di = (load_chunk (ck_start ck) (ck_end ck) (ck_inbuf ck) (ck_const ck) (ck_len ck)
     (di\<lparr>thread_handle := True\<rparr>))\<lparr>got_new_samples := True, handled_all_samples := False\<rparr>"

definition moved :: "sample_chunk \<Rightarrow> 'p srd_decoder_inst \<Rightarrow> 'p srd_decoder_inst" where
  "moved ck di = (if first_pos di then di\<lparr>abs_cur_samplenum := ck_start ck\<rparr> else di)"

lemma decode_begin_cases:
  "snd (srd_inst_decode_begin ck di) =
     (if ck_inbuf ck = None \<or> ck_len ck = 0 then di
      else if ck_start ck \<noteq> abs_cur_samplenum (moved ck di) \<or> ck_end ck < ck_start ck then moved ck di
      else begun ck (moved ck di))"
  unfolding srd_inst_decode_begin_def Let_def moved_def [symmetric] begun_def [symmetric] by simp

lemma begun_conds: "begun ck (d\<lparr>condition_list := L\<rparr>) = (begun ck d)\<lparr>condition_list := L\<rparr>"
proof -
  have "d\<lparr>condition_list := L, thread_handle := True\<rparr> = d\<lparr>thread_handle := True, condition_list := L\<rparr>" by simp
  moreover have "x\<lparr>condition_list := L, got_new_samples := True, handled_all_samples := False\<rparr>
      = x\<lparr>got_new_samples := True, handled_all_samples := False, condition_list := L\<rparr>" for x :: "'a srd_decoder_inst"
    by simp
  ultimately show ?thesis by (simp only: begun_def load_chunk_conds)
qed

lemma moved_conds:
  "moved ck (d\<lparr>condition_list := L\<rparr>) = (moved ck d)\<lparr>condition_list := L\<rparr>"
  "abs_cur_samplenum (moved ck (d\<lparr>condition_list := L\<rparr>)) = abs_cur_samplenum (moved ck d)"
  by (simp_all add: moved_def)

lemma decode_begin_conds:
  "snd (srd_inst_decode_begin ck (d\<lparr>condition_list := L\<rparr>)) = (snd (srd_inst_decode_begin ck d))\<lparr>condition_list := L\<rparr>"
  unfolding decode_begin_cases moved_conds(2)
  by (cases "ck_inbuf ck = None \<or> ck_len ck = 0";
      cases "ck_start ck \<noteq> abs_cur_samplenum (moved ck d) \<or> ck_end ck < ck_start ck")
    (simp_all only: moved_conds(1) begun_conds if_True if_False simp_thms)

lemma decode_begin_keeps:
  "condition_list (snd (srd_inst_decode_begin ck d)) = condition_list d"
  "abs_cur_matched (snd (srd_inst_decode_begin ck d)) = abs_cur_matched d"
  unfolding decode_begin_cases by (simp_all add: begun_def moved_def load_chunk_def)

lemma same_wait_chunk:
  assumes "same_wait d e"
  shows "same_wait (snd (srd_inst_decode_begin ck d)) (snd (srd_inst_decode_begin ck e))"
proof -
  obtain L where L: "e = d\<lparr>condition_list := L\<rparr>"
    and c: "L = condition_list d \<or> have_non_null_conds d \<and> have_non_null_conds e
        \<and> abs_cur_matched d \<and> map (map restart_skip) L = map (map restart_skip) (condition_list d)"
    using assms by (auto simp: same_wait_def)
  show ?thesis
    unfolding same_wait_def have_non_null_conds_def L decode_begin_conds decode_begin_keeps
    by (rule exI [of _ L]) (use c L in \<open>simp add: have_non_null_conds_def\<close>)
qed

lemma same_wait_pass:
  assumes "same_wait d e"
  shows "fst (py_wait_pass e) = fst (wait_pass d)
    \<and> (fst (wait_pass d) = Wait_chunk_done \<or> fst (wait_pass d) = Wait_blocked \<longrightarrow>
        same_wait (snd (wait_pass d)) (snd (py_wait_pass e)))"
proof -
  note f = same_wait_fields [OF assms]
  have p: "process_samples_until_condition_match (Suc 0) x = Some (if want_wait_terminate x then (False, x) else find_match x)"
    for x :: "'a srd_decoder_inst"
    using process_samples_loop_one [of 0 x] by (simp add: process_samples_until_condition_match_def)
  show ?thesis
  proof (cases "want_wait_terminate d")
    case True
    with f show ?thesis by (simp add: wait_pass_def py_wait_pass_def p release_chunk_def Let_def)
  next
    case False
    with f show ?thesis
      using assms
      by (cases "find_match d")
        (simp add: wait_pass_def py_wait_pass_def p same_wait_find_match [OF assms] release_chunk_def Let_def)
  qed
qed

text \<open>
  What is left of a wait in the instance, without what each side keeps for itself: the pin cache
  of the C interface and the tuple of the Python object. (A match also clears \<open>first_pos\<close>, which
  the scan has cleared already.)
\<close>

definition wait_view :: "'p srd_decoder_inst \<Rightarrow> 'p srd_decoder_inst" where
  "wait_view di = di\<lparr>first_pos := False, c_pin_cache := None, c_pin_cache_samplenum := 0,
     c_pin_cache_inbuf_serial := 0, py_pinvalues := []\<rparr>"

lemma wait_view_found [simp]:
  "wait_view (fill_pin_cache d) = wait_view d" "wait_view (get_current_pinvalues d) = wait_view d"
  "wait_view (d\<lparr>first_pos := False\<rparr>) = wait_view d"
  by (simp_all add: wait_view_def fill_pin_cache_def get_current_pinvalues_def Let_def split: option.split)

definition same_end :: "wait_status \<Rightarrow> 'p srd_decoder_inst \<Rightarrow> 'p srd_decoder_inst \<Rightarrow> bool" where
  "same_end st d e \<longleftrightarrow> (case st of
      Wait_found pos hits \<Rightarrow> wait_view e = wait_view d \<and> pos = abs_cur_samplenum e \<and> hits = match_array e
    | Wait_chunk_done \<Rightarrow> e = d
    | Wait_blocked \<Rightarrow> same_wait d e
    | Wait_term_req \<Rightarrow> False)"

lemma same_wait_pass_end:
  assumes "same_wait d e" and "\<not> want_wait_terminate d"
  shows "same_end (fst (wait_pass d)) (snd (wait_pass d)) (snd (py_wait_pass e))
    \<and> (\<not> want_wait_terminate (snd (wait_pass d)))"
proof -
  note f = same_wait_fields [OF assms(1)]
  have p: "process_samples_until_condition_match (Suc 0) x = Some (if want_wait_terminate x then (False, x) else find_match x)"
    for x :: "'a srd_decoder_inst"
    using process_samples_loop_one [of 0 x] by (simp add: process_samples_until_condition_match_def)
  obtain found r where r: "find_match d = (found, r)" by (rule prod.exhaust)
  have "want_wait_terminate (snd (find_match d)) = want_wait_terminate d"
    using find_match_loop_frame [of "scan_start d" True]
    by (simp add: find_match_def scan_start_def advance_past_match_def update_old_pins_array_initial_pins_def
        oldpins_array_seed_def Let_def split: option.split)
  then have "want_wait_terminate r = want_wait_terminate d" using r by simp
  then have w: "\<not> want_wait_terminate r" "\<not> want_wait_terminate (release_chunk r)"
    "\<not> want_wait_terminate (fill_pin_cache (r\<lparr>first_pos := False\<rparr>))"
    using assms(2) by (simp_all add: fill_pin_cache_def Let_def split: option.split)
  show ?thesis
    using assms f r w same_wait_find_match [OF assms(1)]
    by (cases found)
      (auto simp: wait_pass_def py_wait_pass_def p Let_def same_end_def get_current_pinvalues_def wait_view_def fill_pin_cache_def
        split: option.split)
qed

lemma decode_begin_term: "want_wait_terminate (snd (srd_inst_decode_begin ck d)) = want_wait_terminate d"
  unfolding decode_begin_cases by (simp add: begun_def moved_def load_chunk_def)

lemma same_wait_loop:
  "same_wait d e \<Longrightarrow> \<not> want_wait_terminate d \<Longrightarrow> fst (py_wait_loop feed e) = fst (wait_loop feed d)
    \<and> fst (snd (py_wait_loop feed e)) = fst (snd (wait_loop feed d))
    \<and> same_end (fst (wait_loop feed d)) (snd (snd (wait_loop feed d))) (snd (snd (py_wait_loop feed e)))"
proof (induction feed arbitrary: d e)
  case Nil
  then show ?case using same_wait_pass [OF Nil(1)] same_wait_pass_end [OF Nil] by (simp add: split_beta)
next
  case (Cons ck feed)
  note s = same_wait_pass [OF Cons.prems(1)] same_wait_pass_end [OF Cons.prems]
  show ?case
    using s Cons.IH [OF same_wait_chunk [of "snd (wait_pass d)" "snd (py_wait_pass e)" ck]]
    by (simp add: split_beta decode_begin_term)
qed


text \<open>Conditions as a Python decoder writes them.\<close>

definition py_letter :: "srd_term_type \<Rightarrow> string" where
  "py_letter ty = (case ty of SRD_TERM_HIGH \<Rightarrow> ''h'' | SRD_TERM_LOW \<Rightarrow> ''l'' | SRD_TERM_RISING_EDGE \<Rightarrow> ''r''
     | SRD_TERM_FALLING_EDGE \<Rightarrow> ''f'' | SRD_TERM_EITHER_EDGE \<Rightarrow> ''e'' | SRD_TERM_NO_EDGE \<Rightarrow> ''n'' | _ \<Rightarrow> ''?'')"

definition term_to_py :: "srd_term \<Rightarrow> pyval \<times> pyval" where
  "term_to_py t = (if t_type t = SRD_TERM_SKIP then (str_of ''skip'', PV_long (uint (num_samples_to_skip t)))
     else (PV_long (t_channel t), str_of (py_letter (t_type t))))"

definition conds_to_py :: "srd_term list list \<Rightarrow> pyval" where
  "conds_to_py cs = PV_list (map (\<lambda>c. PV_dict (map term_to_py c)) cs)"

definition plain_term :: "srd_term \<Rightarrow> bool" where
  "plain_term t \<longleftrightarrow> num_samples_already_skipped t = 0
     \<and> (t_type t = SRD_TERM_SKIP \<and> t_channel t = 0
        \<or> t_type t \<in> {SRD_TERM_HIGH, SRD_TERM_LOW, SRD_TERM_RISING_EDGE, SRD_TERM_FALLING_EDGE,
             SRD_TERM_EITHER_EDGE, SRD_TERM_NO_EDGE}
          \<and> - (2 ^ 31) \<le> t_channel t \<and> t_channel t < 2 ^ 31 \<and> num_samples_to_skip t = 0)"

lemma term_of_py_to_py:
  assumes "plain_term t"
  shows "term_of_py b (term_to_py t) = Some (if b then restart_skip t else t)"
proof (cases "t_type t = SRD_TERM_SKIP")
  case True
  have "uint (num_samples_to_skip t) < 2 ^ 64" using uint_lt2p [of "num_samples_to_skip t"] by simp
  then have "as_ulong (uint (num_samples_to_skip t)) = num_samples_to_skip t"
    by (simp add: as_ulong_def fits_ulong_def)
  with True assms show ?thesis
    by (cases t) (auto simp: term_to_py_def term_of_py_def str_of_def py_object_to_uint_def skip_term_def plain_term_def
        restart_skip_def word_neq_0_conv)
next
  case False
  then have c: "- (2 ^ 31) \<le> t_channel t" "t_channel t < 2 ^ 31" "num_samples_to_skip t = 0"
      "num_samples_already_skipped t = 0"
      "t_type t \<in> {SRD_TERM_HIGH, SRD_TERM_LOW, SRD_TERM_RISING_EDGE, SRD_TERM_FALLING_EDGE,
             SRD_TERM_EITHER_EDGE, SRD_TERM_NO_EDGE}"
    using assms by (simp_all add: plain_term_def)
  then have "to_int (as_long (t_channel t)) = t_channel t"
    by (simp add: as_long_def fits_long_def to_int_small)
  with c False show ?thesis
    by (cases t) (auto simp: term_to_py_def term_of_py_def str_of_def py_str_as_str_def py_letter_def get_term_type_def
        srd_term_type_of_def restart_skip_def c_string_def)
qed

lemma create_term_list_to_py:
  assumes "\<forall>t \<in> set c. plain_term t"
  shows "create_term_list b (map term_to_py c) acc = Inr (acc @ map (\<lambda>t. if b then restart_skip t else t) c)"
  using assms by (induction c arbitrary: acc) (simp_all add: term_of_py_to_py)

lemma add_conditions_to_py:
  assumes "\<forall>c \<in> set cs. \<forall>t \<in> set c. plain_term t"
  shows "add_conditions (map (\<lambda>c. PV_dict (map term_to_py c)) cs) d
    = (SRD_OK, d\<lparr>condition_list := condition_list d @ map (map (\<lambda>t. if abs_cur_matched d then restart_skip t else t)) cs\<rparr>)"
  using assms by (induction cs arbitrary: d) (simp_all add: create_term_list_to_py)

declare restart_skip_again [simp]

text \<open>
  C28: Waiting in Python is waiting in C: for conditions written as a list of dictionaries,
  wait() comes to the same end as \<open>c_decoder_wait_impl\<close> with the same terms after the same chunks
  of any feed: the same sample and matched conditions, and then instances that agree in every
  field but the pin cache and the pin tuple; or a feed used up without a match, and then the
  same instance; or no chunk yet, and then instances that differ at most in the counts of the
  skips before a scan (Python sets the count of a skip after a match itself, C leaves that to
  the scan). At least one condition has a term, the terms are those the dictionaries can say
  (\<open>plain_term\<close>), and no termination is requested.
\<close>

theorem python_wait_is_c_wait:
  assumes "\<not> want_wait_terminate d" and "\<exists>c \<in> set cs. c \<noteq> []" and "\<forall>c \<in> set cs. \<forall>t \<in> set c. plain_term t"
  shows "\<exists>st rest d1 e1. c_decoder_wait_impl cs feed d = (st, rest, d1)
    \<and> Decoder_wait (conds_to_py cs) feed d = Some (st, rest, e1)
    \<and> (case st of
          Wait_found pos hits \<Rightarrow> wait_view e1 = wait_view d1 \<and> pos = abs_cur_samplenum e1 \<and> hits = match_array e1
        | Wait_chunk_done \<Rightarrow> e1 = d1
        | Wait_blocked \<Rightarrow> same_wait d1 e1
        | Wait_term_req \<Rightarrow> False)"
proof -
  let ?f = "\<lambda>t. if abs_cur_matched d then restart_skip t else t"
  let ?d = "d\<lparr>condition_list := cs\<rparr>" and ?e = "d\<lparr>condition_list := map (map ?f) cs\<rparr>"
  have ne: "cs \<noteq> []" using assms(2) by auto
  have "set_new_condition_list (conds_to_py cs) d = (Some SRD_OK, ?e)"
    using assms(1) ne add_conditions_to_py [OF assms(3), of "condition_list_free d"]
    by (simp add: set_new_condition_list_def conds_to_py_def condition_list_free_def)
  then have py: "Decoder_wait (conds_to_py cs) feed d = Some (py_wait_loop feed ?e)" by (simp add: Decoder_wait_def)
  have c: "c_decoder_wait_impl cs feed d = wait_loop feed ?d"
    using ne by (simp add: c_decoder_wait_impl_def wait_enter_def condition_list_free_def)
  have "same_wait ?d ?e"
    unfolding same_wait_def
    by (rule exI [of _ "map (map ?f) cs"]) (use assms(2) in \<open>auto simp: have_non_null_conds_def comp_def\<close>)
  moreover have "\<not> want_wait_terminate ?d" using assms(1) by simp
  ultimately have l: "fst (py_wait_loop feed ?e) = fst (wait_loop feed ?d)
    \<and> fst (snd (py_wait_loop feed ?e)) = fst (snd (wait_loop feed ?d))
    \<and> same_end (fst (wait_loop feed ?d)) (snd (snd (wait_loop feed ?d))) (snd (snd (py_wait_loop feed ?e)))"
    by (rule same_wait_loop)
  obtain st rest d1 where w: "wait_loop feed ?d = (st, rest, d1)" by (rule prod_cases3)
  obtain st' rest' e1 where v: "py_wait_loop feed ?e = (st', rest', e1)" by (rule prod_cases3)
  from l have "st' = st" "rest' = rest" "same_end st d1 e1" unfolding w v by simp_all
  then show ?thesis unfolding py c w v same_end_def by simp
qed

lemma python_wait_is_c_wait_witness:
  "\<exists>st rest d1 e1. c_decoder_wait_impl [[level_term SRD_TERM_RISING_EDGE]] [example_chunk 2 8 6]
       (delivered (example_chunk 0 2 0) example_inst) = (st, rest, d1)
    \<and> Decoder_wait (PV_list [PV_dict [(PV_long 0, str_of ''r'')]]) [example_chunk 2 8 6]
       (delivered (example_chunk 0 2 0) example_inst) = Some (st, rest, e1)
    \<and> (case st of Wait_found pos hits \<Rightarrow> wait_view e1 = wait_view d1 \<and> pos = abs_cur_samplenum e1 \<and> hits = match_array e1
        | Wait_chunk_done \<Rightarrow> e1 = d1 | Wait_blocked \<Rightarrow> same_wait d1 e1 | Wait_term_req \<Rightarrow> False)"
proof -
  have p: "\<not> want_wait_terminate (delivered (example_chunk 0 2 0) example_inst)" by (simp add: example_inst_def malloc0_inst_def)
  have t: "plain_term (level_term SRD_TERM_RISING_EDGE)" by (simp add: plain_term_def level_term_def)
  have c: "conds_to_py [[level_term SRD_TERM_RISING_EDGE]] = PV_list [PV_dict [(PV_long 0, str_of ''r'')]]"
    by (simp add: conds_to_py_def term_to_py_def level_term_def py_letter_def)
  have n: "\<exists>c \<in> set [[level_term SRD_TERM_RISING_EDGE]]. c \<noteq> []"
    "\<forall>c \<in> set [[level_term SRD_TERM_RISING_EDGE]]. \<forall>t \<in> set c. plain_term t" using t by simp_all
  from python_wait_is_c_wait [OF p n, of "[example_chunk 2 8 6]"] show ?thesis unfolding c .
qed

section \<open>The two paths of an annotation\<close>

lemma ann_text_item_shorter: "length (fst (ann_text_item s hex)) \<le> length s"
  by (simp add: ann_text_item_def split: list.split)

lemma owned_prefix: "owned st a n \<Longrightarrow> m \<le> n \<Longrightarrow> owned st a m"
  unfolding owned_def by (meson add_left_mono le_trans)

lemma overlaps_prefix: "overlaps a m b k \<Longrightarrow> m \<le> n \<Longrightarrow> overlaps a n b k"
  by (auto simp: overlaps_def)

text \<open>A copied string that is edited in place.\<close>

lemma strdup_edit_ok:
  assumes ok: "blocks_ok st" and sd: "srd_ann_arena_strdup st s = (dst, st1)" and len: "length s' \<le> length (c_string s)"
  defines "st2 \<equiv> st1\<lparr>ab_mem := mem_write dst (length s' + 1) (AStr s') (ab_mem st1)\<rparr>"
  shows "blocks_ok st2 \<and> keeps st st2 \<and> live st2 dst (length s' + 1) (AStr s')
    \<and> (\<forall>b m. owned st b m \<longrightarrow> \<not> overlaps dst (length s' + 1) b m)"
proof -
  have s: "blocks_ok st1" "keeps st st1" "owned st1 dst (length (c_string s) + 1)"
    "\<forall>b m. owned st b m \<longrightarrow> \<not> overlaps dst (length (c_string s) + 1) b m"
    using strdup_ok [OF ok sd] unfolding live_def by blast+
  have n: "length s' + 1 \<le> length (c_string s) + 1" using len by simp
  have f: "\<forall>b m. owned st b m \<longrightarrow> \<not> overlaps dst (length s' + 1) b m"
    using s(4) overlaps_prefix [OF _ n] by blast
  have "0 < length s' + 1" by simp
  from write_keeps [OF s(2) owned_prefix [OF s(3) n] this f] s(1) f show ?thesis
    unfolding st2_def by simp
qed

lemma py_str_as_str_c_string: "py_str_as_str v = Inr s \<Longrightarrow> c_string s = s"
  by (auto simp: py_str_as_str_def split: pyval.splits option.splits)

text \<open>Copying gives the strings that parsing gives.\<close>

lemma copy_py_texts_ok:
  assumes "blocks_ok st" and "copy_py_texts vs st ptrs hex = (r, st')"
  shows "blocks_ok st' \<and> keeps st st' \<and>
    (case parse_texts vs strs hex of
       Done (ss, h) \<Rightarrow> \<exists>ps us. r = Done (ptrs @ ps, h) \<and> ss = strs @ us
         \<and> list_all2 (\<lambda>p s. live st' p (length s + 1) (AStr s)
             \<and> (\<forall>b m. owned st b m \<longrightarrow> \<not> overlaps p (length s + 1) b m)) ps us
     | Failed e \<Rightarrow> r = Failed e
     | Undefined \<Rightarrow> False)"
  using assms
proof (induction vs arbitrary: st ptrs strs hex)
  case Nil
  then show ?case by auto
next
  case (Cons v vs)
  show ?case
  proof (cases "py_str_as_str v")
    case (Inl e)
    with Cons.prems show ?thesis by auto
  next
    case (Inr s)
    obtain dst st1 where sd: "srd_ann_arena_strdup st s = (dst, st1)" by fastforce
    obtain s' hex' where it: "ann_text_item s hex = (s', hex')" by fastforce
    define st2 where "st2 = st1\<lparr>ab_mem := mem_write dst (length s' + 1) (AStr s') (ab_mem st1)\<rparr>"
    have len: "length s' \<le> length (c_string s)"
      using ann_text_item_shorter [of s hex] it py_str_as_str_c_string [OF Inr] by simp
    note e = strdup_edit_ok [OF Cons.prems(1) sd len, folded st2_def]
    have rest: "copy_py_texts vs st2 (ptrs @ [dst]) hex' = (r, st')"
      using Cons.prems(2) Inr sd it by (simp add: st2_def Let_def)
    have e2: "blocks_ok st2" "keeps st st2" "live st2 dst (length s' + 1) (AStr s')"
      "\<forall>b m. owned st b m \<longrightarrow> \<not> overlaps dst (length s' + 1) b m" using e by blast+
    note IH = Cons.IH [OF e2(1) rest, of "strs @ [s']"]
    have k: "keeps st2 st'" "blocks_ok st'" using IH by blast+
    have p: "parse_texts (v # vs) strs hex = parse_texts vs (strs @ [s']) hex'" using Inr it by simp
    show ?thesis
    proof (cases "parse_texts vs (strs @ [s']) hex'")
      case (Done x)
      obtain ss h where x: "x = (ss, h)" by fastforce
      obtain ps us where u: "r = Done ((ptrs @ [dst]) @ ps, h)" "ss = (strs @ [s']) @ us"
        "list_all2 (\<lambda>p s. live st' p (length s + 1) (AStr s)
             \<and> (\<forall>b m. owned st2 b m \<longrightarrow> \<not> overlaps p (length s + 1) b m)) ps us"
        using IH unfolding Done x by auto
      have "list_all2 (\<lambda>p s. live st' p (length s + 1) (AStr s)
             \<and> (\<forall>b m. owned st b m \<longrightarrow> \<not> overlaps p (length s + 1) b m)) (dst # ps) (s' # us)"
        using list_all2_mono [OF u(3)] keeps_owned [OF e2(2)] keeps_live [OF k(1) e2(3)] e2(4)
        by (simp del: split_paired_All)
      with u(1,2) show ?thesis
        unfolding p Done x using k(2) keeps_trans [OF e2(2) k(1)] by auto
    next
      case (Failed e)
      then show ?thesis unfolding p using IH k(2) keeps_trans [OF e2(2) k(1)] by simp
    next
      case Undefined
      then show ?thesis using IH by simp
    qed
  qed
qed


text \<open>What the frontend gets of a Python annotation.\<close>

definition delivered_py :: "srd_decoder \<Rightarrow> u64 \<Rightarrow> u64 \<Rightarrow> srd_proto_data_annotation \<Rightarrow> delivered_ann" where
  "delivered_py dec ss es pda = \<lparr>da_start = ss, da_end = es, da_class = pda_ann_class pda,
     da_type = pda_ann_type pda, da_text = map_option (map Some) (pda_ann_text pda),
     da_hex = pda_str_number_hex pda, da_numeric = pda_numberic_value pda, da_decoder = Some dec\<rparr>"

lemma keeps_ready:
  assumes "batch_ready cb data st" and "blocks_ok st'" and "keeps st st'"
  shows "batch_ready cb data st' \<and> batch_abs st' = batch_abs st"
proof -
  have i: "length (ab_items st) < SRD_ANN_BATCH_MAX" "\<forall>it \<in> set (ab_items st). item_live st it"
    "ab_cb st = Some cb" "ab_cb_data st = data"
    using assms(1) by (simp_all add: batch_ready_def batch_inv_def)
  have "\<forall>it \<in> set (ab_items st'). item_live st' it"
    using i(2) keeps_batch [OF assms(3)] item_live_keeps [OF _ assms(3)] by simp
  with i keeps_batch [OF assms(3)] assms(2) batch_abs_keeps [OF i(2) assms(3)] show ?thesis
    by (simp add: batch_ready_def batch_inv_def)
qed

lemma parse_texts_no_undefined: "parse_texts vs strs hex \<noteq> Undefined"
  by (induction vs strs hex rule: parse_texts.induct) (auto split: sum.split prod.split)

lemma parse_texts_length: "parse_texts vs strs hex = Done (ss, h) \<Longrightarrow> length ss = length strs + length vs"
  by (induction vs strs hex rule: parse_texts.induct) (auto split: sum.splits prod.splits)

lemma py_batch_paths_agree:
  assumes r: "batch_ready cb data st" and put: "py_put_ann_batch dec ss es obj st = (res, st')"
  shows "case convert_annotation dec obj of
      Done pda \<Rightarrow> \<exists>calls. res = Done calls \<and> batch_ready cb data st'
        \<and> concat (map call_batch calls) @ batch_abs st' = batch_abs st @ [delivered_py dec ss es pda]
        \<and> (\<forall>c \<in> set calls. length (call_batch c) = SRD_ANN_BATCH_MAX)
    | Failed e \<Rightarrow> res = Failed e \<and> batch_ready cb data st' \<and> batch_abs st' = batch_abs st
    | Undefined \<Rightarrow> res = Undefined \<and> st' = st"
proof (cases "ann_parts dec obj")
  case None
  with put r show ?thesis by (auto simp: py_put_ann_batch_def convert_annotation_def)
next
  case (Some ci)
  obtain cls items where ci: "ann_parts dec obj = Some (cls, items)" using Some by (cases ci) simp
  define texts where "texts = filter is_text items"
  define hex where "hex = (case ann_number items of None \<Rightarrow> [] | Some i \<Rightarrow> long_hex i)"
  define numeric where "numeric = (case ann_number items of None \<Rightarrow> 0 | Some i \<Rightarrow> as_long i)"
  define item where "item = (\<lambda>strv h. \<lparr>it_start_sample = ss, it_end_sample = es, it_ann_class = cls,
               it_ann_type = dec_ann_types dec ! nat cls, it_ann_text = strv, it_str_number_hex = h,
               it_numberic_value = numeric, it_decoder = Some dec\<rparr>)"
  define pda where "pda = (\<lambda>t h. \<lparr>pda_ann_class = cls, pda_ann_type = dec_ann_types dec ! nat cls,
          pda_str_number_hex = h, pda_numberic_value = numeric, pda_ann_text = t\<rparr>)"
  have ok: "blocks_ok st" using r by (simp add: batch_ready_def batch_inv_def)
  note put' = put [unfolded py_put_ann_batch_def ci option.case prod.case Let_def, folded texts_def hex_def numeric_def]
  have conv: "convert_annotation dec obj = (if 10 < length texts then Undefined
      else if ann_number items = None \<and> texts = [] then Failed SRD_ERR_PYTHON
      else if texts = [] then Done (pda None hex)
      else case parse_texts texts [] hex of Done (strs, h) \<Rightarrow> Done (pda (Some strs) h) | _ \<Rightarrow> Failed SRD_ERR_PYTHON)"
    using parse_texts_no_undefined [of texts "[]" hex]
    by (auto simp: convert_annotation_def ci py_parse_ann_data_def Let_def pda_def texts_def hex_def numeric_def
        split: outcome.splits)
  consider (undef) "10 < length texts" | (bad) "\<not> 10 < length texts" "ann_number items = None \<and> texts = []"
    | (num) "texts = []" "ann_number items \<noteq> None" | (txts) "\<not> 10 < length texts" "texts \<noteq> []" by force
  then show ?thesis
  proof cases
    case undef
    then show ?thesis using put' by (simp add: conv)
  next
    case bad
    then show ?thesis using put' r by (simp add: conv)
  next
    case num
    obtain calls st1 where ap: "srd_ann_batch_append_item st (item None hex) = (calls, st1)" by fastforce
    have il: "item_live st (item None hex)" by (simp add: item_live_def item_def)
    note a = append_item_ready [OF r ok keeps_refl il ap]
    have "res = Done calls" "st' = st1" using put' num ap by (simp_all add: item_def)
    moreover have "deref_item (ab_mem st) (item None hex) = delivered_py dec ss es (pda None hex)"
      by (simp add: deref_item_def item_def delivered_py_def pda_def)
    ultimately show ?thesis using a num by (simp add: conv)
  next
    case txts
    let ?n = "(length texts + 1) * 8"
    obtain strv st1 where al: "srd_ann_arena_alloc st ?n = (strv, st1)" by fastforce
    obtain q st2 where cp: "copy_py_texts texts st1 [] hex = (q, st2)" by fastforce
    have a: "blocks_ok st1" "keeps st st1" using arena_alloc_fresh [OF ok al] by blast+
    note c = copy_py_texts_ok [OF a(1) cp, of "[]"]
    have c2: "blocks_ok st2" "keeps st1 st2" using c by blast+
    show ?thesis
    proof (cases "parse_texts texts [] hex")
      case (Done x)
      obtain us h where x: "x = (us, h)" by fastforce
      obtain ps where u: "q = Done (ps, h)"
        "list_all2 (\<lambda>p s. live st2 p (length s + 1) (AStr s)
             \<and> (\<forall>b m. owned st1 b m \<longrightarrow> \<not> overlaps p (length s + 1) b m)) ps us"
        using c unfolding Done x by auto
      have n: "?n = (length us + 1) * 8" using parse_texts_length [OF Done [unfolded x]] by simp
      define st3 where "st3 = st2\<lparr>ab_mem := mem_write strv ?n (AStrv ps) (ab_mem st2)\<rparr>"
      have w: "blocks_ok st3" "keeps st st3" "text_live st3 strv us"
        using write_vector_ok [OF ok al n c2 u(2)] unfolding st3_def by blast+
      obtain calls st4 where ap: "srd_ann_batch_append_item st3 (item (Some strv) h) = (calls, st4)" by fastforce
      have il: "item_live st3 (item (Some strv) h)" using w(3) by (auto simp: item_live_def item_def)
      note ar = append_item_ready [OF r w(1,2) il ap]
      have "res = Done calls" "st' = st4"
        using put' txts al cp u(1) ap by (simp_all add: st3_def item_def)
      moreover have "deref_item (ab_mem st3) (item (Some strv) h) = delivered_py dec ss es (pda (Some us) h)"
        using deref_text_live [OF w(3)] by (simp add: deref_item_def item_def delivered_py_def pda_def)
      ultimately show ?thesis using ar txts by (simp add: conv Done x)
    next
      case (Failed e)
      then have "q = Failed e" using c by simp
      then have "res = Failed SRD_ERR_PYTHON" "st' = st2" using put' txts al cp by simp_all
      with keeps_ready [OF r c2(1) keeps_trans [OF a(2) c2(2)]] txts show ?thesis by (simp add: conv Failed)
    next
      case Undefined
      then show ?thesis using parse_texts_no_undefined by blast
    qed
  qed
qed


section \<open>Annotations of C and of Python decoders in one session\<close>

datatype ann_source = From_c ann_args | From_py srd_decoder u64 u64 pyval

text \<open>
  One annotation into the batch, and what it stands for; None where a list of more than ten
  texts overruns \<^verbatim>\<open>text_items\<close>.
\<close>

definition add_ann :: "srd_ann_batch_state \<Rightarrow> ann_source \<Rightarrow> (batch_call list \<times> srd_ann_batch_state) option" where
  "add_ann st x = (case x of
      From_c a \<Rightarrow> Some (append_args st a)
    | From_py dec ss es obj \<Rightarrow> (case py_put_ann_batch dec ss es obj st of
        (Done calls, st') \<Rightarrow> Some (calls, st')
      | (Failed e, st') \<Rightarrow> Some ([], st')
      | (Undefined, st') \<Rightarrow> None))"

definition sent_of :: "ann_source \<Rightarrow> delivered_ann list option" where
  "sent_of x = (case x of
      From_c a \<Rightarrow> Some [delivered_of a]
    | From_py dec ss es obj \<Rightarrow> (case convert_annotation dec obj of
        Done pda \<Rightarrow> Some [delivered_py dec ss es pda]
      | Failed e \<Rightarrow> Some []
      | Undefined \<Rightarrow> None))"

fun add_anns ::
    "srd_ann_batch_state \<Rightarrow> ann_source list \<Rightarrow> (batch_call list \<times> srd_ann_batch_state) option" where
  "add_anns st [] = Some ([], st)"
| "add_anns st (x # xs) = (case add_ann st x of
      None \<Rightarrow> None
    | Some (bs, st1) \<Rightarrow> (case add_anns st1 xs of None \<Rightarrow> None | Some (cs, st2) \<Rightarrow> Some (bs @ cs, st2)))"

definition overruns :: "ann_source \<Rightarrow> bool" where
  "overruns x = (case x of From_c a \<Rightarrow> False
     | From_py dec ss es obj \<Rightarrow> (case ann_parts dec obj of None \<Rightarrow> False
         | Some (cls, items) \<Rightarrow> 10 < length (filter is_text items)))"

lemma sent_of_defined: "sent_of x = None \<longleftrightarrow> overruns x"
proof (cases x)
  case (From_py dec ss es obj)
  have u: "py_parse_ann_data items = Undefined \<longleftrightarrow> 10 < length (filter is_text items)" for items
    using parse_texts_no_undefined by (auto simp: py_parse_ann_data_def Let_def split: outcome.splits)
  then show ?thesis
    by (auto simp: From_py sent_of_def overruns_def convert_annotation_def simp flip: u
        split: option.splits outcome.splits prod.splits)
qed (simp add: sent_of_def overruns_def)

text \<open>The total variant, which the contract of a batch is for; it differs only where the code is undefined.\<close>

definition add_total :: "srd_ann_batch_state \<Rightarrow> ann_source \<Rightarrow> batch_call list \<times> srd_ann_batch_state" where
  "add_total st x = (case add_ann st x of None \<Rightarrow> ([], st) | Some r \<Rightarrow> r)"

definition sent_total :: "ann_source \<Rightarrow> delivered_ann list" where
  "sent_total x = (case sent_of x of None \<Rightarrow> [] | Some ys \<Rightarrow> ys)"

interpretation any_ann: batching "batch_ready cb data" batch_abs add_total srd_ann_batch_flush_state
  sent_total call_batch SRD_ANN_BATCH_MAX
proof
  fix s x bs s'
  assume r: "batch_ready cb data s" and a: "add_total s x = (bs, s')"
  show "batch_ready cb data s' \<and> concat (map call_batch bs) @ batch_abs s' = batch_abs s @ sent_total x
      \<and> (\<forall>b \<in> set bs. length (call_batch b) = SRD_ANN_BATCH_MAX)"
  proof (cases x)
    case (From_c y)
    then show ?thesis using append_args_ready [OF r, of y bs s'] a
      by (simp add: add_total_def sent_total_def add_ann_def sent_of_def)
  next
    case (From_py dec ss es obj)
    obtain res st' where p: "py_put_ann_batch dec ss es obj s = (res, st')" by fastforce
    show ?thesis
      using py_batch_paths_agree [OF r p] a r p
      by (cases "convert_annotation dec obj") (auto simp: From_py add_total_def sent_total_def add_ann_def sent_of_def)
  qed
next
  fix s bs s'
  assume "batch_ready cb data s" "srd_ann_batch_flush_state s = (bs, s')"
  then show "batch_ready cb data s' \<and> batch_abs s' = [] \<and> concat (map call_batch bs) = batch_abs s"
    by (rule flush_ready)
next
  fix s
  assume "batch_ready cb data s"
  then show "length (batch_abs s) < SRD_ANN_BATCH_MAX"
    by (simp add: batch_ready_def batch_inv_def batch_abs_def)
qed

lemma add_ann_defined:
  assumes r: "batch_ready cb data st"
  shows "add_ann st x = None \<longleftrightarrow> overruns x"
proof (cases x)
  case (From_py dec ss es obj)
  obtain res st' where p: "py_put_ann_batch dec ss es obj st = (res, st')" by fastforce
  show ?thesis
    using py_batch_paths_agree [OF r p] p sent_of_defined [of x]
    by (cases "convert_annotation dec obj") (auto simp: From_py add_ann_def sent_of_def)
qed (simp add: add_ann_def overruns_def)

lemma add_anns_total:
  "batch_ready cb data st \<Longrightarrow>
     add_anns st xs = (if \<exists>x \<in> set xs. overruns x then None else Some (run_adds add_total st xs))"
proof (induction xs arbitrary: st)
  case (Cons x xs)
  show ?case
  proof (cases "overruns x")
    case True
    with add_ann_defined [OF Cons.prems, of x] show ?thesis by simp
  next
    case False
    obtain bs st1 where a: "add_ann st x = Some (bs, st1)"
      using False add_ann_defined [OF Cons.prems, of x] by fastforce
    then have t: "add_total st x = (bs, st1)" by (simp add: add_total_def)
    with any_ann.add_law [OF Cons.prems t] have "batch_ready cb data st1" by blast
    with Cons.IH [of st1] a t False show ?thesis by (simp split: prod.split)
  qed
qed simp

text \<open>
  C29: C and Python decoders of one session write into the same batch, each in its own way.
  However their annotations alternate, unless a Python one has more than ten texts (where the
  code overruns an array), the run is defined, and after a final flush the batches handed to
  the host are, in order, exactly what was pending and then, for each C annotation what the
  decoder handed over and for each Python annotation what \<open>convert_annotation\<close> makes of it on
  the path without batches: there a text that begins with @ is moved to the hexadecimal number, with
  a line feed in its place. Python data that cannot be converted leaves nothing behind.
\<close>

theorem mixed_annotations_in_order:
  assumes "batch_ready cb data st" and "\<forall>x \<in> set xs. \<not> overruns x"
  shows "\<exists>calls st1 last_calls st2. add_anns st xs = Some (calls, st1)
    \<and> srd_ann_batch_flush_state st1 = (last_calls, st2)
    \<and> (\<exists>sent. map sent_of xs = map Some sent
        \<and> concat (map call_batch (calls @ last_calls)) = batch_abs st @ concat sent)
    \<and> batch_abs st2 = [] \<and> (\<forall>c \<in> set calls. length (call_batch c) = SRD_ANN_BATCH_MAX)"
proof -
  obtain calls st1 where r: "run_adds add_total st xs = (calls, st1)" by (rule prod.exhaust)
  obtain last_calls st2 where f: "srd_ann_batch_flush_state st1 = (last_calls, st2)" by (rule prod.exhaust)
  have "add_anns st xs = Some (calls, st1)" using add_anns_total [OF assms(1), of xs] assms(2) r by simp
  moreover have "map sent_of xs = map Some (map sent_total xs)"
    using assms(2) sent_of_defined by (auto simp: sent_total_def split: option.split)
  ultimately show ?thesis using any_ann.lossless [OF assms(1) r f] f by blast
qed

definition example_typed_decoder :: srd_decoder where
  "example_typed_decoder = blank_decoder\<lparr>dec_ann_types := [7, 8]\<rparr>"

definition example_py_ann :: pyval where
  "example_py_ann = PV_list [PV_long 1, PV_list [str_of ''Data: {$}'', str_of ''@3f'', PV_long 63]]"

lemma example_sent_of:
  "sent_of (From_py example_typed_decoder 3 4 example_py_ann) = Some [\<lparr>da_start = 3, da_end = 4, da_class = 1, da_type = 8,
     da_text = Some [Some ''Data: {$}'', Some [CHR 0x0A]], da_hex = ''3F'', da_numeric = 63,
     da_decoder = Some example_typed_decoder\<rparr>]"
  by (simp add: sent_of_def convert_annotation_def ann_parts_def example_py_ann_def example_typed_decoder_def str_of_def
      as_long_def fits_long_def to_int_def py_parse_ann_data_def is_text_def ann_number_def py_str_as_str_def c_string_def
      ann_text_item_def DECODE_NUM_HEX_MAX_LEN_def upcase_hex_def delivered_py_def blank_decoder_def char_of_def bit_iff_odd)

lemma mixed_annotations_in_order_witness:
  "\<exists>calls st1 last_calls st2. add_anns example_batch
       [From_c (example_ann ''ab''), From_py example_typed_decoder 3 4 example_py_ann, From_py example_typed_decoder 5 6 PV_none]
       = Some (calls, st1)
    \<and> srd_ann_batch_flush_state st1 = (last_calls, st2)
    \<and> map da_text (concat (map call_batch (calls @ last_calls))) = [Some [Some ''ab''], Some [Some ''Data: {$}'', Some [CHR 0x0A]]]"
proof -
  let ?xs = "[From_c (example_ann ''ab''), From_py example_typed_decoder 3 4 example_py_ann, From_py example_typed_decoder 5 6 PV_none]"
  have s: "batch_abs example_batch = []" by (simp add: batch_abs_def example_batch_def)
  have n: "sent_of (From_py example_typed_decoder 5 6 PV_none) = Some []"
    by (simp add: sent_of_def convert_annotation_def ann_parts_def)
  have c: "sent_of (From_c (example_ann ''ab'')) = Some [delivered_of (example_ann ''ab'')]" by (simp add: sent_of_def)
  have d: "da_text (delivered_of (example_ann ''ab'')) = Some [Some ''ab'']"
    by (simp add: delivered_of_def example_ann_def c_string_def)
  have "\<forall>x \<in> set ?xs. \<not> overruns x"
    unfolding sent_of_defined [symmetric] by (simp add: n c example_sent_of)
  from mixed_annotations_in_order [OF example_batch_ready this] obtain calls st1 last_calls st2 sent where
    r: "add_anns example_batch ?xs = Some (calls, st1)" "srd_ann_batch_flush_state st1 = (last_calls, st2)"
    and m: "map sent_of ?xs = map Some sent"
    and e: "concat (map call_batch (calls @ last_calls)) = batch_abs example_batch @ concat sent" by blast
  have "map da_text (concat sent) = [Some [Some ''ab''], Some [Some ''Data: {$}'', Some [CHR 0x0A]]]"
    using m by (auto simp: n c example_sent_of d)
  then have "map da_text (concat (map call_batch (calls @ last_calls)))
      = [Some [Some ''ab''], Some [Some ''Data: {$}'', Some [CHR 0x0A]]]"
    unfolding e s by simp
  then show ?thesis using r by (intro exI conjI)
qed

section \<open>register() is stable\<close>

lemma find_append_new: "find f (xs @ [x]) = (case find f xs of None \<Rightarrow> if f x then Some x else None | Some y \<Rightarrow> Some y)"
  by (simp add: find_append split: option.split)

lemma output_for_id [simp]: "pdo_id (output_for p n ty k meta) = n"
  by (simp add: output_for_def)

lemma same_output_for: "same_output (output_for p n ty k meta) (output_for p m ty k meta)"
  by (simp add: same_output_def output_for_def)

lemma same_output_id: "same_output (output_for p n ty k meta) = same_output (output_for p m ty k meta)"
  by (simp add: fun_eq_iff same_output_def output_for_def)

lemma inst_id_pd: "inst_id (d\<lparr>pd_output := x\<rparr>) = inst_id d"
  by simp

text \<open>
  register() gives the number of an output of the kind asked for; it only appends, so the
  outputs registered before keep their numbers; every output carries its number; and asking for
  the same output again, at any later time, gives the same number and changes nothing.
\<close>

theorem python_register_stable:
  assumes "inst_at w p = Some d" and "outputs_ok d" and "register_output p ty proto_id meta w = (Some n, w')"
  shows "(\<exists>pdo. output_of p n w' = Some pdo \<and> pdo_output_type pdo = ty
      \<and> pdo_proto_id pdo = (case proto_id of None \<Rightarrow> inst_id d | Some k \<Rightarrow> k))
    \<and> (\<exists>d'. inst_at w' p = Some d' \<and> outputs_ok d' \<and> (\<exists>new. pd_output d' = pd_output d @ new))
    \<and> register_output p ty proto_id meta w' = (Some n, w')"
proof -
  let ?k = "case proto_id of None \<Rightarrow> inst_id d | Some k \<Rightarrow> k"
  let ?o = "output_for p (int (length (pd_output d))) ty ?k meta"
  have ok: "\<not> (ty = SRD_OUTPUT_META \<and> meta_variant_type meta = None)"
    using assms(1,3) by (auto simp: register_output_def split: if_splits)
  show ?thesis
  proof (cases "find (same_output ?o) (pd_output d)")
    case (Some c)
    then have w': "w' = w" and n: "n = pdo_id c" using assms(1,3) ok by (auto simp: register_output_def Let_def)
    obtain i where i: "i < length (pd_output d)" "c = pd_output d ! i" "same_output ?o c"
      using Some by (auto simp: find_Some_iff)
    then have "output_of p n w = Some c" using assms(1,2) n by (simp add: output_of_def outputs_ok_def g_slist_nth_def)
    then show ?thesis using assms i(3) unfolding w' by (auto simp: same_output_def output_for_def)
  next
    case None
    then have w': "w' = upd_inst p (\<lambda>d. d\<lparr>pd_output := pd_output d @ [?o]\<rparr>) w" and n: "n = int (length (pd_output d))"
      using assms(1,3) ok by (auto simp: register_output_def Let_def output_for_def)
    let ?d = "d\<lparr>pd_output := pd_output d @ [?o]\<rparr>"
    have d': "inst_at w' p = Some ?d" using assms(1) by (simp add: w')
    have "output_of p n w' = Some ?o" using d' by (simp add: output_of_def n)
    moreover have "outputs_ok ?d" using assms(2) by (auto simp: outputs_ok_def nth_append output_for_def less_Suc_eq)
    moreover have "register_output p ty proto_id meta w' = (Some n, w')"
    proof -
      have "find (same_output (output_for p (1 + int (length (pd_output d))) ty ?k meta)) (pd_output d @ [?o]) = Some ?o"
        using None same_output_for unfolding find_append_new same_output_id [of p "1 + int (length (pd_output d))" ty ?k meta "int (length (pd_output d))"]
        by simp
      then have f: "find (same_output (output_for p (int (length (pd_output ?d))) ty ?k meta)) (pd_output ?d) = Some ?o"
        by simp
      show ?thesis
        unfolding register_output_def d' option.case Let_def inst_id_pd f if_not_P [OF ok] by (simp add: n)
    qed
    ultimately show ?thesis using d' by (auto simp: output_for_def)
  qed
qed

lemma python_register_stable_witness:
  "\<exists>w'. register_output 0 SRD_OUTPUT_META (Some ''m'') (Some (PyLong_Type, ''Rate'', ''The rate''))
      (example_c_world blank_decoder :: unit srd_world) = (Some 0, w')
    \<and> register_output 0 SRD_OUTPUT_META (Some ''m'') (Some (PyLong_Type, ''Rate'', ''The rate'')) w' = (Some 0, w')"
proof -
  let ?w = "example_c_world blank_decoder :: unit srd_world"
  let ?r = "register_output 0 SRD_OUTPUT_META (Some ''m'') (Some (PyLong_Type, ''Rate'', ''The rate''))"
  have ok: "outputs_ok ((malloc0_inst blank_decoder 1 :: unit srd_decoder_inst)\<lparr>is_c_inst := True\<rparr>)"
    by (simp add: outputs_ok_def malloc0_inst_def)
  obtain w' where r: "?r ?w = (Some 0, w')"
    by (simp add: register_output_def example_c_inst malloc0_inst_def meta_variant_type_def output_for_def Let_def)
  from python_register_stable [OF example_c_inst ok r] r show ?thesis by blast
qed

section \<open>The search for the instance of an object\<close>

definition obj_at :: "'p srd_world \<Rightarrow> inst_ptr \<Rightarrow> nat option" where
  "obj_at w p = Option.bind (inst_at w p) py_inst"

text \<open>No dangling pointers in the stacks.\<close>

definition stacks_allocated :: "'p srd_world \<Rightarrow> bool" where
  "stacks_allocated w \<longleftrightarrow> (\<forall>p. \<forall>q \<in> set (next_of w p). inst_at w q \<noteq> None)"

lemma find_by_obj_loop_preorder:
  assumes rk: "ranked (next_of w) rk" and al: "stacks_allocated w"
  shows "0 < n \<Longrightarrow> \<forall>p \<in> set l. rk p < n \<and> inst_at w p \<noteq> None \<Longrightarrow>
    find_by_obj_loop n obj l w = Some (find (\<lambda>q. obj_at w q = Some obj) (concat (map (preorder n (next_of w)) l)))"
proof (induction n arbitrary: l)
  case (Suc n)
  note outer = Suc.IH
  from Suc.prems(2) show ?case
  proof (induction l)
    case (Cons p ps)
    obtain di where di: "inst_at w p = Some di" using Cons.prems by auto
    have kids: "next_of w p = next_di di" using di by (simp add: next_of_def)
    have sub: "(if next_di di = [] then Some None else find_by_obj_loop n obj (next_di di) w)
        = Some (find (\<lambda>q. obj_at w q = Some obj) (concat (map (preorder n (next_of w)) (next_di di))))"
    proof (cases "next_di di = []")
      case False
      have "rk q < n \<and> inst_at w q \<noteq> None" if "q \<in> set (next_di di)" for q
        using that rankedD [OF rk, of q p] Cons.prems al unfolding kids [symmetric]
        by (fastforce simp: stacks_allocated_def)
      moreover from this have "0 < n" using False by (metis gr_zeroI list.set_intros(1) neq_Nil_conv not_less_zero)
      ultimately show ?thesis using outer False by simp
    qed simp
    have IH: "find_by_obj_loop (Suc n) obj ps w
        = Some (find (\<lambda>q. obj_at w q = Some obj) (concat (map (preorder (Suc n) (next_of w)) ps)))"
      using Cons by (simp del: preorder.simps)
    have pre: "preorder (Suc n) (next_of w) p = p # concat (map (preorder n (next_of w)) (next_di di))"
      by (simp add: kids)
    show ?case
      using sub IH by (simp add: di pre obj_at_def find_append del: preorder.simps split: option.split)
  qed simp
qed simp

text \<open>The instances of all sessions, in the order of the search.\<close>

definition bottoms :: "'p srd_world \<Rightarrow> sess_ptr \<Rightarrow> inst_ptr list" where
  "bottoms w s = (case w_sess w s of None \<Rightarrow> [] | Some se \<Rightarrow> di_list se)"

lemma find_in_sessions_preorder:
  assumes rk: "ranked (next_of w) rk" and al: "stacks_allocated w" and n: "0 < n"
    and b: "\<forall>s \<in> set ss. \<forall>p \<in> set (bottoms w s). rk p < n \<and> inst_at w p \<noteq> None"
  shows "find_in_sessions n obj ss w
    = Some (find (\<lambda>q. obj_at w q = Some obj) (concat (map (preorder n (next_of w)) (concat (map (bottoms w) ss)))))"
  using b
proof (induction ss)
  case (Cons s ss)
  have "srd_sess_inst_find_by_obj n s [] obj w
      = Some (find (\<lambda>q. obj_at w q = Some obj) (concat (map (preorder n (next_of w)) (bottoms w s))))"
    using Cons.prems find_by_obj_loop_preorder [OF rk al n, of "bottoms w s" obj]
    by (auto simp: srd_sess_inst_find_by_obj_def bottoms_def split: option.splits)
  with Cons show ?case by (simp add: find_append split: option.split)
qed simp

text \<open>
  C30: The search behind every method of a Python decoder ends on stacks without a cycle, and it is
  exact: it gives an instance whose Python object is the one looked for, in a stack of some
  session, and gives none only when no instance in any stack has that object.
\<close>

theorem python_instance_found:
  assumes rk: "ranked (next_of w) rk" and al: "stacks_allocated w" and n: "0 < n"
    and b: "\<forall>s \<in> set (w_sessions w). \<forall>p \<in> set (bottoms w s). rk p < n \<and> inst_at w p \<noteq> None"
  defines "member \<equiv> (\<lambda>q. \<exists>s \<in> set (w_sessions w). \<exists>p \<in> set (bottoms w s). (p, q) \<in> (stacked (next_of w))\<^sup>*)"
  shows "\<exists>r. srd_inst_find_by_obj n obj w = Some r \<and> (case r of
      Some q \<Rightarrow> obj_at w q = Some obj \<and> member q
    | None \<Rightarrow> \<forall>q. member q \<longrightarrow> obj_at w q \<noteq> Some obj)"
proof -
  let ?all = "concat (map (preorder n (next_of w)) (concat (map (bottoms w) (w_sessions w))))"
  have m: "q \<in> set ?all \<longleftrightarrow> member q" for q
    using b preorder_reachable [of q n "next_of w"] preorder_complete [OF rk, of _ n q]
    by (fastforce simp: member_def)
  let ?r = "find (\<lambda>q. obj_at w q = Some obj) ?all"
  have full: "find_in_sessions n obj (w_sessions w) w = Some ?r" by (rule find_in_sessions_preorder [OF rk al n b])
  have "srd_inst_find_by_obj n obj w = Some ?r"
  proof (cases "w_sessions w")
    case Nil
    then show ?thesis by (simp add: srd_inst_find_by_obj_def)
  next
    case (Cons s ss)
    show ?thesis
    proof (cases "bottoms w s")
      case Nil
      then have "(case w_sess w s of None \<Rightarrow> None | Some se \<Rightarrow> (case di_list se of [] \<Rightarrow> None | p # _ \<Rightarrow> Some p)) = None"
        by (simp add: bottoms_def split: option.splits list.split)
      then show ?thesis using full by (simp add: srd_inst_find_by_obj_def Cons)
    next
      case (Cons p ps)
      then have f: "(case w_sess w s of None \<Rightarrow> None | Some se \<Rightarrow> (case di_list se of [] \<Rightarrow> None | p # _ \<Rightarrow> Some p)) = Some p"
        by (auto simp: bottoms_def split: option.splits list.split)
      obtain di where di: "inst_at w p = Some di" using b \<open>w_sessions w = s # ss\<close> Cons by auto
      obtain k where k: "n = Suc k" using n by (cases n) auto
      have "?r = Some p" if "py_inst di = Some obj"
        using that \<open>w_sessions w = s # ss\<close> Cons di by (simp add: k obj_at_def)
      then show ?thesis using full f di by (auto simp: srd_inst_find_by_obj_def \<open>w_sessions w = s # ss\<close>)
    qed
  qed
  moreover have "case ?r of Some q \<Rightarrow> obj_at w q = Some obj \<and> member q | None \<Rightarrow> \<forall>q. member q \<longrightarrow> obj_at w q \<noteq> Some obj"
  proof (cases ?r)
    case None
    then have "\<forall>q \<in> set ?all. obj_at w q \<noteq> Some obj" by (simp only: find_None_iff) blast
    then have "\<forall>q. member q \<longrightarrow> obj_at w q \<noteq> Some obj" using m by blast
    with None show ?thesis by simp
  next
    case (Some q)
    then obtain i where i: "i < length ?all" "obj_at w (?all ! i) = Some obj" "q = ?all ! i"
      unfolding find_Some_iff by blast
    then have "q \<in> set ?all" by (simp only: nth_mem)
    with i Some m show ?thesis by (simp only: option.case)
  qed
  ultimately show ?thesis by blast
qed

text \<open>Instance 1, of Python object 7, stacked on instance 0.\<close>

definition example_py_world :: "unit srd_world" where
  "example_py_world = (example_world (\<lambda>_. []) 1 [0])\<lparr>w_insts :=
     [0 \<mapsto> (malloc0_inst blank_decoder 1)\<lparr>next_di := [1]\<rparr>, 1 \<mapsto> (malloc0_inst blank_decoder 1)\<lparr>py_inst := Some 7\<rparr>]\<rparr>"

lemma python_instance_found_witness:
  "\<exists>q. srd_inst_find_by_obj 2 7 example_py_world = Some (Some q) \<and> obj_at example_py_world q = Some 7"
proof -
  let ?w = example_py_world
  have at0: "inst_at ?w 0 = Some ((malloc0_inst blank_decoder 1)\<lparr>next_di := [1]\<rparr>)"
    and at1: "inst_at ?w 1 = Some ((malloc0_inst blank_decoder 1)\<lparr>py_inst := Some 7\<rparr>)"
    and other: "p \<noteq> 0 \<Longrightarrow> p \<noteq> 1 \<Longrightarrow> inst_at ?w p = None" for p
    by (simp_all add: example_py_world_def inst_at_def)
  have nx: "next_of ?w p = (if p = 0 then [1] else [])" for p
    using other [of p] at0 at1 by (cases "p = 0"; cases "p = 1") (simp_all add: next_of_def malloc0_inst_def)
  have rk: "ranked (next_of ?w) (\<lambda>p. if p = 0 then 1 else 0)" by (simp add: ranked_def nx)
  have al: "stacks_allocated ?w" by (simp add: stacks_allocated_def nx at1 del: One_nat_def)
  have b: "\<forall>s \<in> set (w_sessions ?w). \<forall>p \<in> set (bottoms ?w s). (if p = 0 then 1 else 0) < (2::nat) \<and> inst_at ?w p \<noteq> None"
    by (auto simp: example_py_world_def example_world_def bottoms_def example_sess_def inst_at_def split: option.splits if_splits)
  obtain r where r: "srd_inst_find_by_obj 2 7 ?w = Some r" "case r of
      Some q \<Rightarrow> obj_at ?w q = Some 7 \<and> (\<exists>s \<in> set (w_sessions ?w). \<exists>p \<in> set (bottoms ?w s). (p, q) \<in> (stacked (next_of ?w))\<^sup>*)
    | None \<Rightarrow> \<forall>q. (\<exists>s \<in> set (w_sessions ?w). \<exists>p \<in> set (bottoms ?w s). (p, q) \<in> (stacked (next_of ?w))\<^sup>*) \<longrightarrow> obj_at ?w q \<noteq> Some 7"
    using python_instance_found [OF rk al _ b, of 7] by auto
  have "w_sessions ?w = [1]" and "bottoms ?w 1 = [0]"
    by (simp_all add: example_py_world_def example_world_def bottoms_def example_sess_def)
  moreover have "(0, 1) \<in> (stacked (next_of ?w))\<^sup>*" by (auto simp: stacked_def nx)
  moreover have "obj_at ?w 1 = Some 7" by (simp add: obj_at_def at1 del: One_nat_def)
  ultimately have "\<not> (\<forall>q. (\<exists>s \<in> set (w_sessions ?w). \<exists>p \<in> set (bottoms ?w s). (p, q) \<in> (stacked (next_of ?w))\<^sup>*)
      \<longrightarrow> obj_at ?w q \<noteq> Some 7)" by (metis list.set_intros(1))
  then have "r \<noteq> None" using r(2) by (cases r) auto
  with r show ?thesis by auto
qed

end
