(* ===== verification/Clocked.thy ===== *)
theory Clocked
  imports Upper
begin

text \<open>
  Decoders that look at their pins at the edges of one clock: the conditions of such a wait, the
  edges of a waveform, and the run over them. Used by JTAG and others.
\<close>

section \<open>Conditions\<close>

text \<open>The terms of the macros \<^verbatim>\<open>CW_R\<close>, \<^verbatim>\<open>CW_F\<close> and \<^verbatim>\<open>CW_E\<close>.\<close>

definition edge_term :: "srd_term_type \<Rightarrow> int \<Rightarrow> srd_term" where
  "edge_term ty ch = \<lparr>t_type = ty, t_channel = ch, num_samples_to_skip = 0, num_samples_already_skipped = 0\<rparr>"

text \<open>The term of \<^verbatim>\<open>CW_SKIP\<close>.\<close>

definition cw_skip :: "u64 \<Rightarrow> srd_term" where
  "cw_skip n = \<lparr>t_type = SRD_TERM_SKIP, t_channel = -1, num_samples_to_skip = n, num_samples_already_skipped = 0\<rparr>"

lemma edge_term_sel [simp]: "t_type (edge_term ty ch) = ty" "t_channel (edge_term ty ch) = ch"
  by (simp_all add: edge_term_def)

lemma cond_sem_edge [simp]:
  "ty \<noteq> SRD_TERM_SKIP \<Longrightarrow> cond_sem old new e [edge_term ty ch] \<longleftrightarrow> level_sem ty (old ch) (new ch)"
  by (simp add: cond_sem_def term_sem_def)

lemma cond_sem_edges [simp]:
  "ty \<noteq> SRD_TERM_SKIP \<Longrightarrow> ty' \<noteq> SRD_TERM_SKIP \<Longrightarrow>
     cond_sem old new e [edge_term ty ch, edge_term ty' ch'] \<longleftrightarrow>
       level_sem ty (old ch) (new ch) \<and> level_sem ty' (old ch') (new ch')"
  by (simp add: cond_sem_def term_sem_def)

section \<open>The edges of a waveform\<close>

text \<open>The samples of \<open>xs\<close>, numbered from \<open>k\<close>, at which the channel has an edge of the type.\<close>

fun edges :: "srd_term_type \<Rightarrow> int \<Rightarrow> nat \<Rightarrow> (int \<Rightarrow> u8) \<Rightarrow> (int \<Rightarrow> u8) list \<Rightarrow> (nat \<times> (int \<Rightarrow> u8)) list" where
  "edges ty ch k old [] = []"
| "edges ty ch k old (x # xs) =
     (if level_sem ty (old ch) (x ch) then (k, x) # edges ty ch (Suc k) x xs else edges ty ch (Suc k) x xs)"

text \<open>A program that waits for one edge of one channel in every state.\<close>

definition clocked :: "srd_term_type \<Rightarrow> int \<Rightarrow> (u64 \<Rightarrow> (int \<Rightarrow> u8) \<Rightarrow> 's \<Rightarrow> 's \<times> out_call list) \<Rightarrow> 's c_program" where
  "clocked ty ch f = \<lparr>prog_wait = (\<lambda>_. [[edge_term ty ch]]), prog_step = (\<lambda>pos _ pins s. f pos pins s)\<rparr>"

fun run_samples ::
    "(u64 \<Rightarrow> (int \<Rightarrow> u8) \<Rightarrow> 's \<Rightarrow> 's \<times> out_call list) \<Rightarrow> (nat \<times> (int \<Rightarrow> u8)) list \<Rightarrow> 's \<Rightarrow>
     's \<times> (nat \<times> out_call list) list" where
  "run_samples f [] s = (s, [])"
| "run_samples f ((k, x) # xs) s =
     (let (s1, out) = f (of_nat k) x s; (s2, tr) = run_samples f xs s1 in (s2, (k, out) # tr))"

lemma run_samples_append:
  "run_samples f (xs @ ys) s =
     (let (s1, t1) = run_samples f xs s; (s2, t2) = run_samples f ys s1 in (s2, t1 @ t2))"
  by (induction xs arbitrary: s) (auto simp: Let_def split: prod.split)

lemma run_samples_appendI:
  assumes "run_samples f xs s = (s1, t1)" and "run_samples f ys s1 = (s2, t2)"
  shows "run_samples f (xs @ ys) s = (s2, t1 @ t2)"
  using assms by (simp add: run_samples_append)

lemma run_edges_clocked:
  assumes "ty \<noteq> SRD_TERM_SKIP"
  shows "run_edges (clocked ty ch f) k old xs s = run_samples f (edges ty ch k old xs) s"
  using assms by (induction xs arbitrary: k old s) (simp_all add: clocked_def Let_def)

lemma clocked_level: "ty \<noteq> SRD_TERM_SKIP \<Longrightarrow> level_program (clocked ty ch f)"
  by (simp add: level_program_def clocked_def)

lemma run_wave_clocked:
  "ty \<noteq> SRD_TERM_SKIP \<Longrightarrow> run_wave (clocked ty ch f) m k e old xs s = run_samples f (edges ty ch k old xs) s"
  by (simp add: run_wave_edges [OF clocked_level] run_edges_clocked)

lemma clocked_program_ok:
  assumes "ty \<noteq> SRD_TERM_SKIP" and "0 \<le> ch" and "ch < int n"
  shows "program_ok n (clocked ty ch f) (\<lambda>_. True)"
  using assms by (simp add: program_ok_def clocked_def waits_ok_def wait_cond_ok_def)

section \<open>The hits of fixed conditions\<close>

text \<open>The samples at which one of the conditions holds, with the mask of those that do.\<close>

fun hits ::
    "srd_term list list \<Rightarrow> nat \<Rightarrow> (int \<Rightarrow> u8) \<Rightarrow> (int \<Rightarrow> u8) list \<Rightarrow> (nat \<times> u64 \<times> (int \<Rightarrow> u8)) list" where
  "hits conds k old [] = []"
| "hits conds k old (x # xs) =
     (let ms = map (cond_sem old x 0) conds
      in if True \<in> set ms then (k, match_mask 0 ms, x) # hits conds (Suc k) x xs else hits conds (Suc k) x xs)"

fun run_hits ::
    "(u64 \<Rightarrow> u64 \<Rightarrow> (int \<Rightarrow> u8) \<Rightarrow> 's \<Rightarrow> 's \<times> out_call list) \<Rightarrow> (nat \<times> u64 \<times> (int \<Rightarrow> u8)) list \<Rightarrow> 's \<Rightarrow>
     's \<times> (nat \<times> out_call list) list" where
  "run_hits f [] s = (s, [])"
| "run_hits f ((k, m, x) # xs) s =
     (let (s1, out) = f (of_nat k) m x s; (s2, tr) = run_hits f xs s1 in (s2, (k, out) # tr))"

lemma run_hits_append:
  "run_hits f (xs @ ys) s = (let (s1, t1) = run_hits f xs s; (s2, t2) = run_hits f ys s1 in (s2, t1 @ t2))"
  by (induction xs arbitrary: s) (auto simp: Let_def split: prod.split)

lemma run_hits_appendE:
  assumes "run_hits f (es @ fs) s = (s', tr)"
  obtains s1 t1 t2 where "run_hits f es s = (s1, t1)" "run_hits f fs s1 = (s', t2)" "tr = t1 @ t2"
  using assms by (auto simp: run_hits_append split: prod.splits)

lemma run_hits_ConsE:
  assumes "run_hits f ((k, m, x) # es) s = (s', tr)"
  obtains s1 out tr1 where "f (of_nat k) m x s = (s1, out)" "run_hits f es s1 = (s', tr1)" "tr = (k, out) # tr1"
  using assms by (auto split: prod.splits)

text \<open>A program that keeps its conditions while \<open>Q\<close> holds.\<close>

lemma run_edges_hits:
  assumes "\<And>s. Q s \<Longrightarrow> prog_wait P s = conds" and "\<And>pos m x s. Q s \<Longrightarrow> Q (fst (prog_step P pos m x s))"
  shows "Q s \<Longrightarrow> run_edges P k old xs s = run_hits (prog_step P) (hits conds k old xs) s"
proof (induction xs arbitrary: k old s)
  case (Cons x xs)
  let ?ms = "map (cond_sem old x 0) conds"
  obtain s1 out where st: "prog_step P (of_nat k) (match_mask 0 ?ms) x s = (s1, out)" by (rule prod.exhaust)
  have "Q s1" using assms(2) [OF Cons.prems, of "of_nat k" "match_mask 0 ?ms" x] st by simp
  then show ?case
    using Cons.IH [of s1 "Suc k" x] Cons.IH [OF Cons.prems, of "Suc k" x] st
    by (simp add: assms(1) [OF Cons.prems] Let_def del: match_mask.simps)
qed simp

section \<open>Contracts\<close>

text \<open>
  The invariant of a decoder holds along its run over a waveform, and a property that each step
  gives its calls holds of all calls.
\<close>

locale program_contract =
  fixes P :: "'s c_program" and inv :: "'s \<Rightarrow> bool" and ok :: "out_call \<Rightarrow> bool"
  assumes step_inv: "inv s \<Longrightarrow> inv (fst (prog_step P pos m x s))"
    and step_ok: "inv s \<Longrightarrow> list_all ok (snd (prog_step P pos m x s))"
begin

lemma run_contract:
  "inv s \<Longrightarrow> inv (fst (run_wave P m k e old xs s)) \<and> list_all ok (concat (map snd (snd (run_wave P m k e old xs s))))"
proof (induction xs arbitrary: m k e old s)
  case (Cons x xs)
  let ?ms = "map (cond_sem old x e) (wait_conds P m s)"
  obtain s1 out where st: "prog_step P (of_nat k) (match_mask 0 ?ms) x s = (s1, out)" by (rule prod.exhaust)
  have "inv s1" "list_all ok out"
    using step_inv [OF Cons.prems] step_ok [OF Cons.prems] st by (metis fst_conv, metis snd_conv)
  then show ?case
    using Cons.IH [OF \<open>inv s1\<close>, of True "Suc k" 0 x] Cons.IH [OF Cons.prems, of m "Suc k" "Suc e" x] st
    by (simp add: Let_def split_beta del: match_mask.simps)
qed simp

end

text \<open>A call of a decoder that has a fourth output, for bit rates.\<close>

definition call_fits :: "int \<Rightarrow> int \<Rightarrow> int \<Rightarrow> int \<Rightarrow> int \<Rightarrow> int \<Rightarrow> out_call \<Rightarrow> bool" where
  "call_fits nann nbin a p b r c = (case c of O_meta_int ss es n v \<Rightarrow> n = r | _ \<Rightarrow> call_ok nann nbin a p b c)"

lemma call_fits_simps [simp]:
  "call_fits nann nbin a p b r (O_put ss es n cls txt) \<longleftrightarrow> n = a \<and> 0 \<le> cls \<and> cls < nann \<and> txt \<noteq> []"
  "call_fits nann nbin a p b r (O_put_v ss es n cls v txt) \<longleftrightarrow> n = a \<and> 0 \<le> cls \<and> cls < nann \<and> txt \<noteq> []"
  "call_fits nann nbin a p b r (O_bin ss es n cls bs) \<longleftrightarrow> n = b \<and> 0 \<le> cls \<and> cls < nbin"
  "call_fits nann nbin a p b r (O_proto ss es n cmd fs) \<longleftrightarrow> n = p \<and> length fs \<le> 64"
  "call_fits nann nbin a p b r (O_meta_int ss es n v) \<longleftrightarrow> n = r"
  by (simp_all add: call_fits_def)

section \<open>Numbers, shifts and texts\<close>

text \<open>The conversion of a floating point number to an integer drops the fraction.\<close>

definition c_trunc :: "real \<Rightarrow> int" where
  "c_trunc x = (if x < 0 then - \<lfloor>- x\<rfloor> else \<lfloor>x\<rfloor>)"

text \<open>Calls that are made under a condition.\<close>

definition out_when :: "bool \<Rightarrow> out_call list \<Rightarrow> out_call list" where
  "out_when b out = (if b then out else [])"

lemma out_when_simps [simp]: "out_when True out = out" "out_when False out = []"
  by (simp_all add: out_when_def)


text \<open>A shift by the width of the word or more is open in C: \<open>ub\<close> stands for what it gives.\<close>

definition c_shl :: "('a::len word \<Rightarrow> nat \<Rightarrow> 'a word) \<Rightarrow> 'a word \<Rightarrow> nat \<Rightarrow> 'a word" where
  "c_shl ub x n = (if n < LENGTH('a) then push_bit n x else ub x n)"

text \<open>\<^verbatim>\<open>%llx\<close>: lower case.\<close>

definition lower_hex :: "char \<Rightarrow> char" where
  "lower_hex c = (let v = of_char c :: nat in if 65 \<le> v \<and> v \<le> 70 then char_of (v + 32) else c)"

definition fmt_hex :: "nat \<Rightarrow> nat \<Rightarrow> string" where
  "fmt_hex w n = map lower_hex (fmt_num 16 w n)"

end
