(* ===== verification/Jtag.thy ===== *)
theory Jtag
  imports Clocked
begin

text \<open>
  c_decoders/jtag_c.c: the JTAG decoder. It follows the state machine of the test access port
  at the rising edges of TCK and reports what is shifted through the data and instruction
  registers.
\<close>

section \<open>State\<close>

definition CH_TDI :: int where "CH_TDI = 0"
definition CH_TDO :: int where "CH_TDO = 1"
definition CH_TCK :: int where "CH_TCK = 2"
definition CH_TMS :: int where "CH_TMS = 3"

text \<open>The states are numbers, as in the source.\<close>

definition TEST_LOGIC_RESET :: nat where "TEST_LOGIC_RESET = 0"
definition RUN_TEST_IDLE :: nat where "RUN_TEST_IDLE = 1"
definition SHIFT_DR :: nat where "SHIFT_DR = 6"
definition EXIT1_DR :: nat where "EXIT1_DR = 7"
definition EXIT2_DR :: nat where "EXIT2_DR = 8"
definition SHIFT_IR :: nat where "SHIFT_IR = 13"
definition EXIT1_IR :: nat where "EXIT1_IR = 14"
definition EXIT2_IR :: nat where "EXIT2_IR = 15"

definition ANN_BIT_TDI :: int where "ANN_BIT_TDI = 16"
definition ANN_BIT_TDO :: int where "ANN_BIT_TDO = 17"
definition ANN_BITSTRING_TDI :: int where "ANN_BITSTRING_TDI = 18"
definition ANN_BITSTRING_TDO :: int where "ANN_BITSTRING_TDO = 19"

lemmas jtag_numbers = CH_TDI_def CH_TDO_def CH_TCK_def CH_TMS_def TEST_LOGIC_RESET_def RUN_TEST_IDLE_def
  SHIFT_DR_def EXIT1_DR_def EXIT2_DR_def SHIFT_IR_def EXIT1_IR_def EXIT2_IR_def

definition next_state :: "(nat \<times> nat) list" where
  "next_state = [(1, 0), (1, 2), (3, 9), (6, 7), (1, 2), (5, 8), (6, 7), (5, 4), (6, 4),
     (10, 0), (13, 14), (1, 2), (12, 15), (13, 14), (12, 11), (13, 11)]"

definition jtag_state_names :: "string list" where
  "jtag_state_names = [''TEST-LOGIC-RESET'', ''RUN-TEST/IDLE'', ''SELECT-DR-SCAN'', ''CAPTURE-DR'', ''UPDATE-DR'',
     ''PAUSE-DR'', ''SHIFT-DR'', ''EXIT1-DR'', ''EXIT2-DR'', ''SELECT-IR-SCAN'', ''CAPTURE-IR'', ''UPDATE-IR'',
     ''PAUSE-IR'', ''SHIFT-IR'', ''EXIT1-IR'', ''EXIT2-IR'']"

record jtag_s =
  jt_state :: nat
  jt_oldstate :: nat
  jt_bits_tdi :: "int list"
  jt_bits_tdo :: "int list"
  jt_bits_ss :: "u64 list"
  jt_bits_cnt :: nat
  jt_ss_bitstring :: u64
  jt_ss_item :: u64
  jt_es_item :: u64
  jt_first :: bool
  jt_first_shift_bit :: bool
  jt_data_ready :: bool
  jt_ss_state :: u64
  jt_out_ann :: int
  jt_out_python :: int
  jt_last_bit_tdi :: int
  jt_last_bit_tdo :: int
  jt_last_bit_ss :: u64

definition jtag_reset :: jtag_s where
  "jtag_reset = \<lparr>jt_state = 0, jt_oldstate = 0, jt_bits_tdi = replicate 256 0, jt_bits_tdo = replicate 256 0,
     jt_bits_ss = replicate 256 0, jt_bits_cnt = 0, jt_ss_bitstring = 0, jt_ss_item = 0, jt_es_item = 0,
     jt_first = False, jt_first_shift_bit = False, jt_data_ready = False, jt_ss_state = 0, jt_out_ann = 0,
     jt_out_python = 0, jt_last_bit_tdi = 0, jt_last_bit_tdo = 0, jt_last_bit_ss = 0\<rparr>"

definition jtag_start :: "inst_ptr \<Rightarrow> jtag_s srd_world \<Rightarrow> jtag_s srd_world" where
  "jtag_start p w =
     (let (ann, w1) = c_decoder_register_output (Some p) SRD_OUTPUT_ANN (Some ''jtag'') w;
          (py, w2) = c_decoder_register_output (Some p) SRD_OUTPUT_PROTO (Some ''jtag'') w1
      in upd_inst p (\<lambda>d. d\<lparr>user_data := map_option (\<lambda>s. s\<lparr>jt_out_ann := ann, jt_out_python := py,
           jt_state := RUN_TEST_IDLE, jt_oldstate := RUN_TEST_IDLE, jt_first := True\<rparr>) (user_data d)\<rparr>) w2)"

section \<open>One edge of TCK\<close>

definition shift_state :: "nat \<Rightarrow> bool" where
  "shift_state st \<longleftrightarrow> st = SHIFT_DR \<or> st = SHIFT_IR"

definition exit_state :: "nat \<Rightarrow> bool" where
  "exit_state st \<longleftrightarrow> st = EXIT1_DR \<or> st = EXIT2_DR \<or> st = EXIT1_IR \<or> st = EXIT2_IR"

definition tap_step :: "u8 \<Rightarrow> nat \<Rightarrow> nat" where
  "tap_step tms st = (if tms = 0 then fst else snd) (next_state ! st)"

definition enter_shift :: "nat \<Rightarrow> nat \<Rightarrow> jtag_s \<Rightarrow> jtag_s" where
  "enter_shift old new s =
     (if new = SHIFT_DR \<and> old \<noteq> SHIFT_DR \<or> new = SHIFT_IR \<and> old \<noteq> SHIFT_IR
      then s\<lparr>jt_first_shift_bit := True\<rparr> else s)"

text \<open>The annotation of a bit that leads to Exit1 is left for later.\<close>

definition collect_bit :: "nat \<Rightarrow> nat \<Rightarrow> u64 \<Rightarrow> (int \<Rightarrow> u8) \<Rightarrow> jtag_s \<Rightarrow> jtag_s \<times> out_call list" where
  "collect_bit old new pos pins s =
     (if \<not> shift_state old then (s, [])
      else if jt_first_shift_bit s
      then (s\<lparr>jt_first_shift_bit := False, jt_ss_bitstring := pos, jt_ss_item := pos\<rparr>, [])
      else
        (let tdi = uint (pins CH_TDI); tdo = uint (pins CH_TDO);
             s1 = (if jt_bits_cnt s < 256
                   then s\<lparr>jt_bits_tdi := (jt_bits_tdi s)[jt_bits_cnt s := tdi],
                          jt_bits_tdo := (jt_bits_tdo s)[jt_bits_cnt s := tdo],
                          jt_bits_ss := (jt_bits_ss s)[jt_bits_cnt s := pos]\<rparr> else s);
             to_exit1 = (old = SHIFT_DR \<and> new = EXIT1_DR \<or> old = SHIFT_IR \<and> new = EXIT1_IR);
             s2 = (if to_exit1 then s1\<lparr>jt_last_bit_tdi := tdi, jt_last_bit_tdo := tdo, jt_last_bit_ss := pos\<rparr> else s1);
             out = (if to_exit1 then []
                    else [O_put (jt_ss_item s) pos (jt_out_ann s) ANN_BIT_TDI [snprintf 4 (fmt_int tdi)],
                          O_put (jt_ss_item s) pos (jt_out_ann s) ANN_BIT_TDO [snprintf 4 (fmt_int tdo)]])
         in (s2\<lparr>jt_es_item := pos, jt_ss_item := pos, jt_bits_cnt := jt_bits_cnt s + 1, jt_data_ready := True\<rparr>, out)))"

text \<open>The bits as a number, the first one lowest. A shift of 64 or more is open in C.\<close>

fun bits_value :: "(u64 \<Rightarrow> nat \<Rightarrow> u64) \<Rightarrow> nat \<Rightarrow> int list \<Rightarrow> u64" where
  "bits_value ub i [] = 0"
| "bits_value ub i (b # bs) = c_shl ub (of_int b) i OR bits_value ub (Suc i) bs"

text \<open>The data of a message: the bits as text, the last one first, then start and end of each.\<close>

definition bit_char :: "int \<Rightarrow> u8" where
  "bit_char b = 48 + of_int b"

definition bit_spans :: "u64 \<Rightarrow> u64 list \<Rightarrow> u8 list" where
  "bit_spans pos ss =
     concat (map (\<lambda>i. le_bytes (ss ! i) @ le_bytes (if i = length ss - 1 then pos else ss ! (i + 1)))
       (rev [0..<length ss]))"

definition proto_data :: "u64 \<Rightarrow> int list \<Rightarrow> u64 list \<Rightarrow> u8 list" where
  "proto_data pos bits ss = map bit_char (rev bits) @ [0] @ bit_spans pos ss"

definition bitstring_text :: "string \<Rightarrow> string \<Rightarrow> u64 \<Rightarrow> nat \<Rightarrow> string" where
  "bitstring_text dr_ir name v cnt =
     snprintf 128 (dr_ir @ name @ ''  (0x'' @ fmt_hex 1 (unat v) @ ''), '' @ fmt_int (int cnt) @ '' bits'')"

definition report_scan :: "(u64 \<Rightarrow> nat \<Rightarrow> u64) \<Rightarrow> nat \<Rightarrow> nat \<Rightarrow> u64 \<Rightarrow> jtag_s \<Rightarrow> jtag_s \<times> out_call list" where
  "report_scan ub old new pos s =
     (if \<not> (exit_state old \<and> new \<noteq> old \<and> jt_data_ready s \<and> 0 < jt_bits_cnt s) then (s, [])
      else
        (let is_ir = (old = EXIT1_IR \<or> old = EXIT2_IR); cnt = min (jt_bits_cnt s) 256;
             tdi = take cnt (jt_bits_tdi s); tdo = take cnt (jt_bits_tdo s); ss = take cnt (jt_bits_ss s);
             dr_ir = (if is_ir then ''IR'' else ''DR''); a = jt_out_ann s; b = jt_ss_bitstring s
         in (s\<lparr>jt_bits_cnt := 0, jt_first := True, jt_data_ready := False\<rparr>,
             [O_put b pos a ANN_BITSTRING_TDI [bitstring_text dr_ir '' TDI:'' (bits_value ub 0 tdi) cnt],
              O_put b pos a ANN_BITSTRING_TDO [bitstring_text dr_ir '' TDO:'' (bits_value ub 0 tdo) cnt],
              O_proto b pos (jt_out_python s) (dr_ir @ '' TDI'') [C_BYTES (proto_data pos tdi ss)],
              O_proto b pos (jt_out_python s) (dr_ir @ '' TDO'') [C_BYTES (proto_data pos tdo ss)],
              O_put (jt_last_bit_ss s) pos a ANN_BIT_TDI [snprintf 4 (fmt_int (jt_last_bit_tdi s))],
              O_put (jt_last_bit_ss s) pos a ANN_BIT_TDO [snprintf 4 (fmt_int (jt_last_bit_tdo s))]])))"

definition put_state :: "nat \<Rightarrow> nat \<Rightarrow> u64 \<Rightarrow> jtag_s \<Rightarrow> jtag_s \<times> out_call list" where
  "put_state old new pos s =
     (let (s1, out) =
        (if jt_first s then (s\<lparr>jt_first := False\<rparr>, [])
         else (s, [O_put (jt_ss_state s) pos (jt_out_ann s) (int old) [jtag_state_names ! old],
                   O_proto (jt_ss_state s) pos (jt_out_python s) ''NEW STATE'' [C_STR (jtag_state_names ! new)]]))
      in (s1\<lparr>jt_ss_state := pos, jt_oldstate := old, jt_state := new\<rparr>, out))"

definition jtag_edge :: "(u64 \<Rightarrow> nat \<Rightarrow> u64) \<Rightarrow> u64 \<Rightarrow> (int \<Rightarrow> u8) \<Rightarrow> jtag_s \<Rightarrow> jtag_s \<times> out_call list" where
  "jtag_edge ub pos pins s =
     (let old = jt_state s; new = tap_step (pins CH_TMS) old;
          (s1, out1) = collect_bit old new pos pins (enter_shift old new s);
          (s2, out2) = report_scan ub old new pos s1;
          (s3, out3) = put_state old new pos s2
      in (s3, out1 @ out2 @ out3))"

definition jtag_decode :: "(u64 \<Rightarrow> nat \<Rightarrow> u64) \<Rightarrow> jtag_s c_program" where
  "jtag_decode ub = clocked SRD_TERM_RISING_EDGE CH_TCK (jtag_edge ub)"

section \<open>The test access port\<close>

text \<open>The state machine of IEEE 1149.1, with one copy of the scan states per register.\<close>

datatype scan_reg = DR | IR

datatype tap = Test_logic_reset | Run_test_idle | Select scan_reg | Capture scan_reg | Shift scan_reg
  | Exit1 scan_reg | Pause scan_reg | Exit2 scan_reg | Update scan_reg

fun tap_next :: "tap \<Rightarrow> bool \<Rightarrow> tap" where
  "tap_next Test_logic_reset tms = (if tms then Test_logic_reset else Run_test_idle)"
| "tap_next Run_test_idle tms = (if tms then Select DR else Run_test_idle)"
| "tap_next (Select DR) tms = (if tms then Select IR else Capture DR)"
| "tap_next (Select IR) tms = (if tms then Test_logic_reset else Capture IR)"
| "tap_next (Capture r) tms = (if tms then Exit1 r else Shift r)"
| "tap_next (Shift r) tms = (if tms then Exit1 r else Shift r)"
| "tap_next (Exit1 r) tms = (if tms then Update r else Pause r)"
| "tap_next (Pause r) tms = (if tms then Exit2 r else Pause r)"
| "tap_next (Exit2 r) tms = (if tms then Update r else Shift r)"
| "tap_next (Update r) tms = (if tms then Select DR else Run_test_idle)"

fun tap_num :: "tap \<Rightarrow> nat" where
  "tap_num Test_logic_reset = 0"
| "tap_num Run_test_idle = 1"
| "tap_num (Select r) = (case r of DR \<Rightarrow> 2 | IR \<Rightarrow> 9)"
| "tap_num (Capture r) = (case r of DR \<Rightarrow> 3 | IR \<Rightarrow> 10)"
| "tap_num (Update r) = (case r of DR \<Rightarrow> 4 | IR \<Rightarrow> 11)"
| "tap_num (Pause r) = (case r of DR \<Rightarrow> 5 | IR \<Rightarrow> 12)"
| "tap_num (Shift r) = (case r of DR \<Rightarrow> 6 | IR \<Rightarrow> 13)"
| "tap_num (Exit1 r) = (case r of DR \<Rightarrow> 7 | IR \<Rightarrow> 14)"
| "tap_num (Exit2 r) = (case r of DR \<Rightarrow> 8 | IR \<Rightarrow> 15)"

lemma tap_step_next: "tap_step v (tap_num t) = tap_num (tap_next t (v \<noteq> 0))"
  by (cases "(t, v \<noteq> 0)" rule: tap_next.cases)
    (auto simp: tap_step_def next_state_def split: scan_reg.split)

lemma tap_five_resets: "foldl tap_next t [True, True, True, True, True] = Test_logic_reset"
  by (cases "(t, True)" rule: tap_next.cases) simp_all

section \<open>What one edge does\<close>

text \<open>The messages about scans, and the names of the states that are announced.\<close>

fun scan_msg :: "out_call \<Rightarrow> (string \<times> c_field list) option" where
  "scan_msg (O_proto ss es n cmd fs) = (if cmd = ''NEW STATE'' then None else Some (cmd, fs))"
| "scan_msg _ = None"

definition scan_msgs :: "out_call list \<Rightarrow> (string \<times> c_field list) list" where
  "scan_msgs out = List.map_filter scan_msg out"

fun told_state :: "out_call \<Rightarrow> c_field list option" where
  "told_state (O_proto ss es n cmd fs) = (if cmd = ''NEW STATE'' then Some fs else None)"
| "told_state _ = None"

definition states_told :: "out_call list \<Rightarrow> c_field list list" where
  "states_told out = List.map_filter told_state out"

lemma msgs_simps [simp]:
  "scan_msgs [] = []" "scan_msgs (c # cs) = (case scan_msg c of None \<Rightarrow> scan_msgs cs | Some m \<Rightarrow> m # scan_msgs cs)"
  "scan_msgs (cs @ ds) = scan_msgs cs @ scan_msgs ds"
  "states_told [] = []" "states_told (c # cs) = (case told_state c of None \<Rightarrow> states_told cs | Some m \<Rightarrow> m # states_told cs)"
  "states_told (cs @ ds) = states_told cs @ states_told ds"
  by (simp_all add: scan_msgs_def states_told_def List.map_filter_def split: option.split)

definition arrays_ok :: "jtag_s \<Rightarrow> bool" where
  "arrays_ok s \<longleftrightarrow> length (jt_bits_tdi s) = 256 \<and> length (jt_bits_tdo s) = 256 \<and> length (jt_bits_ss s) = 256"

text \<open>The part of the state that scans depend on.\<close>

definition scan_view :: "jtag_s \<Rightarrow> nat \<times> bool \<times> int list \<times> int list \<times> u64 list" where
  "scan_view s = (jt_bits_cnt s, jt_data_ready s, jt_bits_tdi s, jt_bits_tdo s, jt_bits_ss s)"

lemma jtag_edge_state: "jt_state (fst (jtag_edge ub pos x s)) = tap_step (x CH_TMS) (jt_state s)"
  by (simp add: jtag_edge_def put_state_def Let_def split_beta)

lemma scan_view_put_state: "put_state old new pos s = (s', out) \<Longrightarrow> scan_view s' = scan_view s
    \<and> jt_first_shift_bit s' = jt_first_shift_bit s \<and> jt_state s' = new \<and> scan_msgs out = []"
  by (auto simp: put_state_def scan_view_def Let_def split: if_splits)

lemma scan_view_enter: "scan_view (enter_shift old new s) = scan_view s"
  "jt_data_ready (enter_shift old new s) = jt_data_ready s"
  by (simp_all add: enter_shift_def scan_view_def)

lemma report_quiet:
  assumes "\<not> (exit_state old \<and> jt_data_ready s)"
  shows "report_scan ub old new pos s = (s, [])"
  unfolding report_scan_def by (rule if_P) (use assms in blast)

lemma jtag_edge_quiet:
  assumes e: "jtag_edge ub pos x s = (s', out)" and q: "\<not> shift_state (jt_state s)"
    "\<not> (exit_state (jt_state s) \<and> jt_data_ready s)"
  shows "scan_view s' = scan_view s \<and> scan_msgs out = [] \<and> (shift_state (jt_state s') \<longrightarrow> jt_first_shift_bit s')"
proof -
  let ?new = "tap_step (x CH_TMS) (jt_state s)" and ?s1 = "enter_shift (jt_state s) (tap_step (x CH_TMS) (jt_state s)) s"
  have c: "collect_bit (jt_state s) ?new pos x ?s1 = (?s1, [])" using q(1) by (simp add: collect_bit_def)
  have r: "report_scan ub (jt_state s) ?new pos ?s1 = (?s1, [])" using q(2) by (intro report_quiet) (simp add: scan_view_enter)
  obtain s3 o3 where p: "put_state (jt_state s) ?new pos ?s1 = (s3, o3)" by (rule prod.exhaust)
  have "s' = s3" "out = o3" using e by (simp_all add: jtag_edge_def Let_def c r p)
  moreover have "shift_state ?new \<longrightarrow> jt_first_shift_bit ?s1"
    using q(1) by (auto simp: enter_shift_def shift_state_def)
  moreover note scan_view_put_state [OF p] scan_view_enter(1) [of "jt_state s" ?new s]
  ultimately show ?thesis by simp
qed

lemma shift_not_exit: "shift_state st \<Longrightarrow> \<not> exit_state st"
  by (auto simp: shift_state_def exit_state_def jtag_numbers)

lemma report_not_exit: "\<not> exit_state old \<Longrightarrow> report_scan ub old new pos s = (s, [])"
  by (simp add: report_scan_def)

lemma jtag_edge_first:
  assumes e: "jtag_edge ub pos x s = (s', out)" and sh: "shift_state (jt_state s)" and f: "jt_first_shift_bit s"
  shows "scan_view s' = scan_view s \<and> scan_msgs out = [] \<and> \<not> jt_first_shift_bit s'"
proof -
  let ?new = "tap_step (x CH_TMS) (jt_state s)" and ?s1 = "enter_shift (jt_state s) (tap_step (x CH_TMS) (jt_state s)) s"
  let ?s2 = "?s1\<lparr>jt_first_shift_bit := False, jt_ss_bitstring := pos, jt_ss_item := pos\<rparr>"
  have c: "collect_bit (jt_state s) ?new pos x ?s1 = (?s2, [])"
    using sh f by (simp add: collect_bit_def enter_shift_def)
  note r = report_not_exit [OF shift_not_exit [OF sh], of ub ?new pos ?s2]
  obtain s3 o3 where p: "put_state (jt_state s) ?new pos ?s2 = (s3, o3)" by (rule prod.exhaust)
  have "s' = s3" "out = o3" using e by (simp_all add: jtag_edge_def Let_def c r p)
  moreover have "scan_view ?s2 = scan_view s" using scan_view_enter(1) [of "jt_state s" ?new s] by (simp add: scan_view_def)
  ultimately show ?thesis using scan_view_put_state [OF p] by simp
qed

text \<open>A bit is stored behind the ones before it.\<close>

definition store :: "nat \<Rightarrow> 'a \<Rightarrow> 'a list \<Rightarrow> 'a list" where
  "store n v xs = (if n < 256 then xs[n := v] else xs)"

lemma collect_bit_stores:
  assumes "shift_state old" and "\<not> jt_first_shift_bit s" and "scan_view s = (n, rd, tdi, tdo, ss)"
  shows "scan_view (fst (collect_bit old new pos x s)) =
      (Suc n, True, store n (uint (x CH_TDI)) tdi, store n (uint (x CH_TDO)) tdo, store n pos ss)
    \<and> scan_msgs (snd (collect_bit old new pos x s)) = [] \<and> \<not> jt_first_shift_bit (fst (collect_bit old new pos x s))"
  using assms by (simp add: collect_bit_def scan_view_def store_def Let_def)

lemma jtag_edge_bit:
  assumes e: "jtag_edge ub pos x s = (s', out)" and sh: "shift_state (jt_state s)" and f: "\<not> jt_first_shift_bit s"
    and v: "scan_view s = (n, rd, tdi, tdo, ss)"
    and new: "jt_state s' = jt_state s \<or> \<not> shift_state (jt_state s')"
  shows "scan_view s' = (Suc n, True, store n (uint (x CH_TDI)) tdi, store n (uint (x CH_TDO)) tdo, store n pos ss)
    \<and> scan_msgs out = [] \<and> \<not> jt_first_shift_bit s'"
proof -
  let ?new = "tap_step (x CH_TMS) (jt_state s)" 
  have st: "jt_state s' = ?new" using jtag_edge_state [of ub pos x s] e by simp
  have s1: "enter_shift (jt_state s) ?new s = s"
    using new sh unfolding st by (auto simp: enter_shift_def shift_state_def)
  obtain s2 o2 where c: "collect_bit (jt_state s) ?new pos x s = (s2, o2)" by (rule prod.exhaust)
  have c2: "scan_view s2 = (Suc n, True, store n (uint (x CH_TDI)) tdi, store n (uint (x CH_TDO)) tdo, store n pos ss)
      \<and> scan_msgs o2 = [] \<and> \<not> jt_first_shift_bit s2"
    using collect_bit_stores [OF sh f v, of ?new pos x] by (simp add: c)
  note r = report_not_exit [OF shift_not_exit [OF sh], of ub ?new pos s2]
  obtain s3 o3 where p: "put_state (jt_state s) ?new pos s2 = (s3, o3)" by (rule prod.exhaust)
  have "s' = s3" "out = o2 @ o3" using e by (simp_all add: jtag_edge_def Let_def s1 c r p)
  then show ?thesis using scan_view_put_state [OF p] c2 by simp
qed

definition scan_report :: "bool \<Rightarrow> u64 \<Rightarrow> int list \<Rightarrow> int list \<Rightarrow> u64 list \<Rightarrow> (string \<times> c_field list) list" where
  "scan_report ir pos tdi tdo ss = (let dr_ir = (if ir then ''IR'' else ''DR'')
     in [(dr_ir @ '' TDI'', [C_BYTES (proto_data pos tdi ss)]), (dr_ir @ '' TDO'', [C_BYTES (proto_data pos tdo ss)])])"

lemma jtag_edge_report:
  assumes e: "jtag_edge ub pos x s = (s', out)" and ex: "exit_state (jt_state s)"
    and v: "scan_view s = (n, True, tdi, tdo, ss)" and n: "0 < n"
    and full: "length tdi = 256" "length tdo = 256" "length ss = 256"
    and new: "tap_step (x CH_TMS) (jt_state s) \<noteq> jt_state s"
  shows "scan_view s' = (0, False, tdi, tdo, ss)
    \<and> scan_msgs out = scan_report (jt_state s = EXIT1_IR \<or> jt_state s = EXIT2_IR) pos (take n tdi) (take n tdo) (take n ss)
    \<and> states_told out = []"
proof -
  let ?new = "tap_step (x CH_TMS) (jt_state s)" and ?s1 = "enter_shift (jt_state s) (tap_step (x CH_TMS) (jt_state s)) s"
  have nsh: "\<not> shift_state (jt_state s)" using ex shift_not_exit by blast
  have c: "collect_bit (jt_state s) ?new pos x ?s1 = (?s1, [])" using nsh by (simp add: collect_bit_def)
  obtain s2 o2 where r: "report_scan ub (jt_state s) ?new pos ?s1 = (s2, o2)" by (rule prod.exhaust)
  have v1: "scan_view ?s1 = (n, True, tdi, tdo, ss)" by (simp add: scan_view_enter v)
  have r2: "scan_view s2 = (0, False, tdi, tdo, ss) \<and> jt_first s2
      \<and> scan_msgs o2 = scan_report (jt_state s = EXIT1_IR \<or> jt_state s = EXIT2_IR) pos (take n tdi) (take n tdo) (take n ss)
      \<and> states_told o2 = []"
  proof -
    have t: "take (min n 256) tdi = take n tdi" "take (min n 256) tdo = take n tdo" "take (min n 256) ss = take n ss"
      using full by (simp_all add: min_def)
    show ?thesis
      using r v1 ex new n by (auto simp: report_scan_def scan_view_def scan_report_def t Let_def split: if_splits)
  qed
  obtain s3 o3 where p: "put_state (jt_state s) ?new pos s2 = (s3, o3)" by (rule prod.exhaust)
  have "o3 = []" using p r2 by (auto simp: put_state_def Let_def)
  moreover have "s' = s3" "out = o2 @ o3" using e by (simp_all add: jtag_edge_def Let_def c r p)
  ultimately show ?thesis using scan_view_put_state [OF p] r2 by simp
qed

section \<open>A scan\<close>

lemma take_store: "n < 256 \<Longrightarrow> length xs = 256 \<Longrightarrow> take (Suc n) (store n v xs) = take n xs @ [v]"
  by (simp add: store_def take_Suc_conv_app_nth)

lemma length_store [simp]: "length (store n v xs) = length xs"
  by (simp add: store_def)

text \<open>
  The decoder has counted the bits \<open>A\<close> and \<open>B\<close> of a scan, taken at the samples \<open>C\<close>, and holds
  the first 256 of each.
\<close>

definition holds_bits :: "jtag_s \<Rightarrow> int list \<Rightarrow> int list \<Rightarrow> u64 list \<Rightarrow> bool" where
  "holds_bits s A B C \<longleftrightarrow> arrays_ok s \<and> jt_bits_cnt s = length A \<and> length B = length A \<and> length C = length A
     \<and> (A \<noteq> [] \<longrightarrow> jt_data_ready s) \<and> take (length A) (jt_bits_tdi s) = take 256 A
     \<and> take (length A) (jt_bits_tdo s) = take 256 B \<and> take (length A) (jt_bits_ss s) = take 256 C"

lemma holds_bits_view: "scan_view s = scan_view t \<Longrightarrow> holds_bits s A B C \<longleftrightarrow> holds_bits t A B C"
  by (simp add: holds_bits_def scan_view_def arrays_ok_def)

lemma bit_stored:
  assumes e: "jtag_edge ub pos x s = (s', out)" and sh: "shift_state (jt_state s)" and f: "\<not> jt_first_shift_bit s"
    and h: "holds_bits s A B C"
    and new: "jt_state s' = jt_state s \<or> \<not> shift_state (jt_state s')"
  shows "holds_bits s' (A @ [uint (x CH_TDI)]) (B @ [uint (x CH_TDO)]) (C @ [pos])
    \<and> scan_msgs out = [] \<and> \<not> jt_first_shift_bit s' \<and> jt_data_ready s'"
proof -
  obtain n rd tdi tdo ss where v: "scan_view s = (n, rd, tdi, tdo, ss)" by (cases "scan_view s") auto
  have a: "n = length A" "length tdi = 256" "length tdo = 256" "length ss = 256" "take n tdi = take 256 A"
    "take n tdo = take 256 B" "take n ss = take 256 C" "length B = length A" "length C = length A"
    using h v by (auto simp: holds_bits_def scan_view_def arrays_ok_def)
  have v': "scan_view s' = (Suc n, True, store n (uint (x CH_TDI)) tdi, store n (uint (x CH_TDO)) tdo, store n pos ss)"
    and o: "scan_msgs out = []" "\<not> jt_first_shift_bit s'"
    using jtag_edge_bit [OF e sh f v new] by blast+
  have "holds_bits s' (A @ [uint (x CH_TDI)]) (B @ [uint (x CH_TDO)]) (C @ [pos])"
  proof (cases "n < 256")
    case True
    with a v' show ?thesis by (auto simp: holds_bits_def scan_view_def arrays_ok_def take_store)
  next
    case False
    with a v' show ?thesis by (auto simp: holds_bits_def scan_view_def arrays_ok_def store_def)
  qed
  moreover have "jt_data_ready s'" using v' by (simp add: scan_view_def)
  ultimately show ?thesis using o by blast
qed

text \<open>The bits of edges with TMS low while the decoder shifts.\<close>

definition tdi_bits :: "(nat \<times> (int \<Rightarrow> u8)) list \<Rightarrow> int list" where
  "tdi_bits es = map (\<lambda>(k, x). uint (x CH_TDI)) es"

definition tdo_bits :: "(nat \<times> (int \<Rightarrow> u8)) list \<Rightarrow> int list" where
  "tdo_bits es = map (\<lambda>(k, x). uint (x CH_TDO)) es"

definition tms_bits :: "(nat \<times> (int \<Rightarrow> u8)) list \<Rightarrow> bool list" where
  "tms_bits es = map (\<lambda>(k, x). x CH_TMS \<noteq> 0) es"

definition positions :: "(nat \<times> (int \<Rightarrow> u8)) list \<Rightarrow> u64 list" where
  "positions es = map (\<lambda>(k, x). of_nat k) es"

lemma bits_simps [simp]:
  "tdi_bits [] = []" "tdi_bits ((k, x) # es) = uint (x CH_TDI) # tdi_bits es" "tdi_bits (es @ fs) = tdi_bits es @ tdi_bits fs"
  "tdo_bits [] = []" "tdo_bits ((k, x) # es) = uint (x CH_TDO) # tdo_bits es" "tdo_bits (es @ fs) = tdo_bits es @ tdo_bits fs"
  "tms_bits [] = []" "tms_bits ((k, x) # es) = (x CH_TMS \<noteq> 0) # tms_bits es" "tms_bits (es @ fs) = tms_bits es @ tms_bits fs"
  "positions [] = []" "positions ((k, x) # es) = of_nat k # positions es" "positions (es @ fs) = positions es @ positions fs"
  by (simp_all add: tdi_bits_def tdo_bits_def tms_bits_def positions_def)

lemma length_bits [simp]: "length (tdi_bits es) = length es" "length (tdo_bits es) = length es"
  "length (positions es) = length es" "length (tms_bits es) = length es"
  by (simp_all add: tdi_bits_def tdo_bits_def positions_def tms_bits_def)

lemma tap_stays: "shift_state st \<Longrightarrow> tap_step 0 st = st"
  by (auto simp: shift_state_def jtag_numbers tap_step_def next_state_def)

lemma bits_stored:
  assumes "run_samples (jtag_edge ub) es s = (s', tr)" and "shift_state (jt_state s)" and "\<not> jt_first_shift_bit s"
    and "holds_bits s A B C" and "tms_bits es = replicate (length es) False"
  shows "holds_bits s' (A @ tdi_bits es) (B @ tdo_bits es) (C @ positions es) \<and> scan_msgs (concat (map snd tr)) = []
    \<and> \<not> jt_first_shift_bit s' \<and> jt_state s' = jt_state s"
  using assms
proof (induction es arbitrary: s A B C tr)
  case (Cons e es)
  obtain k x where e: "e = (k, x)" by (rule prod.exhaust)
  obtain s1 out where s1: "jtag_edge ub (of_nat k) x s = (s1, out)" by (rule prod.exhaust)
  obtain tr1 where r: "run_samples (jtag_edge ub) es s1 = (s', tr1)" "tr = (k, out) # tr1"
    using Cons.prems(1) s1 by (auto simp: e split: prod.splits)
  have tms: "x CH_TMS = 0" "tms_bits es = replicate (length es) False" using Cons.prems(5) by (simp_all add: e)
  have st: "jt_state s1 = jt_state s"
    using jtag_edge_state [of ub "of_nat k" x s] s1 tms(1) tap_stays [OF Cons.prems(2)] by simp
  have b: "holds_bits s1 (A @ [uint (x CH_TDI)]) (B @ [uint (x CH_TDO)]) (C @ [of_nat k])" "scan_msgs out = []"
    "\<not> jt_first_shift_bit s1"
    using bit_stored [OF s1 Cons.prems(2-4)] st by auto
  from Cons.IH [OF r(1) _ b(3,1) tms(2)] Cons.prems(2) st b(2) show ?case by (simp add: e r(2))
qed simp

lemma tap_run: "jt_state s = tap_num t \<Longrightarrow> run_samples (jtag_edge ub) es s = (s', tr) \<Longrightarrow>
    jt_state s' = tap_num (foldl tap_next t (tms_bits es))"
proof (induction es arbitrary: s t tr)
  case (Cons e es)
  obtain k x where e: "e = (k, x)" by (rule prod.exhaust)
  obtain s1 out where s1: "jtag_edge ub (of_nat k) x s = (s1, out)" by (rule prod.exhaust)
  then have st: "jt_state s1 = tap_num (tap_next t (x CH_TMS \<noteq> 0))"
    using jtag_edge_state [of ub "of_nat k" x s] Cons.prems(1) by (simp add: tap_step_next)
  from Cons.prems(2) s1 obtain tr1 where "run_samples (jtag_edge ub) es s1 = (s', tr1)"
    by (auto simp: e split: prod.splits)
  from Cons.IH [OF st this] show ?case by (simp add: e)
qed simp

text \<open>Edges in states that neither shift nor report.\<close>

lemma quiet_run:
  assumes "run_samples (jtag_edge ub) es s = (s', tr)" and "jt_state s = tap_num t" and "\<not> jt_data_ready s"
    and "\<forall>i < length es. \<not> shift_state (tap_num (foldl tap_next t (take i (tms_bits es))))"
  shows "scan_view s' = scan_view s \<and> scan_msgs (concat (map snd tr)) = []
    \<and> (es \<noteq> [] \<and> shift_state (jt_state s') \<longrightarrow> jt_first_shift_bit s')"
  using assms
proof (induction es arbitrary: s t tr)
  case (Cons e es)
  obtain k x where e: "e = (k, x)" by (rule prod.exhaust)
  obtain s1 out where s1: "jtag_edge ub (of_nat k) x s = (s1, out)" by (rule prod.exhaust)
  obtain tr1 where r: "run_samples (jtag_edge ub) es s1 = (s', tr1)" "tr = (k, out) # tr1"
    using Cons.prems(1) s1 by (auto simp: e split: prod.splits)
  have st: "jt_state s1 = tap_num (tap_next t (x CH_TMS \<noteq> 0))"
    using jtag_edge_state [of ub "of_nat k" x s] s1 Cons.prems(2) by (simp add: tap_step_next)
  have q: "scan_view s1 = scan_view s" "scan_msgs out = []" "shift_state (jt_state s1) \<longrightarrow> jt_first_shift_bit s1"
    using jtag_edge_quiet [OF s1] Cons.prems(2,3) spec [OF Cons.prems(4), of 0] by auto
  have "\<not> jt_data_ready s1" using q(1) Cons.prems(3) by (simp add: scan_view_def)
  moreover have "\<forall>i < length es. \<not> shift_state (tap_num (foldl tap_next (tap_next t (x CH_TMS \<noteq> 0)) (take i (tms_bits es))))"
  proof (intro allI impI)
    fix i assume "i < length es"
    then show "\<not> shift_state (tap_num (foldl tap_next (tap_next t (x CH_TMS \<noteq> 0)) (take i (tms_bits es))))"
      using spec [OF Cons.prems(4), of "Suc i"] by (simp add: e)
  qed
  ultimately have "scan_view s' = scan_view s1 \<and> scan_msgs (concat (map snd tr1)) = []
      \<and> (es \<noteq> [] \<and> shift_state (jt_state s') \<longrightarrow> jt_first_shift_bit s')"
    using Cons.IH [OF r(1) st] by blast
  with q r show ?case by (cases es) auto
qed simp

lemma run_samples_ConsE:
  assumes "run_samples f ((k, x) # es) s = (s', tr)"
  obtains s1 out tr1 where "f (of_nat k) x s = (s1, out)" "run_samples f es s1 = (s', tr1)" "tr = (k, out) # tr1"
  using assms by (auto split: prod.splits)

lemma run_samples_appendE:
  assumes "run_samples f (es @ fs) s = (s', tr)"
  obtains s1 t1 t2 where "run_samples f es s = (s1, t1)" "run_samples f fs s1 = (s', t2)" "tr = t1 @ t2"
  using assms by (auto simp: run_samples_append split: prod.splits)

lemma run_samples_length: "run_samples f es s = (s', tr) \<Longrightarrow> map fst tr = map fst es"
proof (induction es arbitrary: s tr)
  case (Cons e es)
  obtain k x where e: "e = (k, x)" by (rule prod.exhaust)
  with Cons.prems run_samples_ConsE [of f k x es s s' tr] Cons.IH show ?case by (metis list.simps(9) fst_conv)
qed simp

lemma jtag_edge_told:
  assumes "jtag_edge ub pos x s = (s', out)"
  shows "states_told out \<in> {[], [[C_STR (jtag_state_names ! jt_state s')]]}"
proof -
  let ?new = "tap_step (x CH_TMS) (jt_state s)" and ?s = "enter_shift (jt_state s) (tap_step (x CH_TMS) (jt_state s)) s"
  obtain s1 o1 where c: "collect_bit (jt_state s) ?new pos x ?s = (s1, o1)" by (rule prod.exhaust)
  obtain s2 o2 where r: "report_scan ub (jt_state s) ?new pos s1 = (s2, o2)" by (rule prod.exhaust)
  obtain s3 o3 where p: "put_state (jt_state s) ?new pos s2 = (s3, o3)" by (rule prod.exhaust)
  have "states_told o1 = []" using c by (auto simp: collect_bit_def Let_def split: if_splits)
  moreover have "states_told o2 = []" using r by (auto simp: report_scan_def Let_def split: if_splits)
  moreover have "states_told o3 \<in> {[], [[C_STR (jtag_state_names ! ?new)]]}"
    using p by (auto simp: put_state_def Let_def split: if_splits)
  moreover have "jt_state s' = ?new" "out = o1 @ o2 @ o3"
    using assms jtag_edge_state [of ub pos x s] by (simp_all add: jtag_edge_def Let_def c r p)
  ultimately show ?thesis by simp
qed

lemma told_along_run:
  assumes "jt_state s = tap_num t" and "run_samples (jtag_edge ub) es s = (s', tr)"
  shows "\<forall>i < length tr. states_told (snd (tr ! i)) \<in>
    {[], [[C_STR (jtag_state_names ! tap_num (foldl tap_next t (tms_bits (take (Suc i) es))))]]}"
  using assms
proof (induction es arbitrary: s t tr)
  case (Cons e es)
  obtain j x where e: "e = (j, x)" by (rule prod.exhaust)
  obtain s1 out tr1 where s1: "jtag_edge ub (of_nat j) x s = (s1, out)" and r: "run_samples (jtag_edge ub) es s1 = (s', tr1)"
    and tr: "tr = (j, out) # tr1"
    using run_samples_ConsE [OF Cons.prems(2) [unfolded e]] by metis
  have st: "jt_state s1 = tap_num (tap_next t (x CH_TMS \<noteq> 0))"
    using jtag_edge_state [of ub "of_nat j" x s] s1 Cons.prems(1) by (simp add: tap_step_next)
  show ?case
  proof (intro allI impI)
    fix i assume "i < length tr"
    then show "states_told (snd (tr ! i)) \<in>
      {[], [[C_STR (jtag_state_names ! tap_num (foldl tap_next t (tms_bits (take (Suc i) (e # es)))))]]}"
      using jtag_edge_told [OF s1] Cons.IH [OF st r] st by (cases i) (simp_all add: tr e)
  qed
qed simp

text \<open>
  C33: Over any waveform the decoder's state is that of the test access port of IEEE 1149.1, driven
  by TMS at the rising edges of TCK, whichever state it starts from; what it announces at an edge is
  the state the port enters there; and five edges with TMS high lead to Test-Logic-Reset from anywhere.
\<close>

theorem jtag_follows_tap:
  assumes "jt_state s = tap_num t"
    and "run_wave (jtag_decode ub) m k e old xs s = (s', tr)"
    and "es = edges SRD_TERM_RISING_EDGE CH_TCK k old xs"
  shows "jt_state s' = tap_num (foldl tap_next t (tms_bits es))
    \<and> (\<forall>i < length tr. states_told (snd (tr ! i)) \<in>
        {[], [[C_STR (jtag_state_names ! tap_num (foldl tap_next t (tms_bits (take (Suc i) es))))]]})
    \<and> ((\<exists>us. tms_bits es = us @ [True, True, True, True, True]) \<longrightarrow> jt_state s' = TEST_LOGIC_RESET)"
proof -
  have r: "run_samples (jtag_edge ub) es s = (s', tr)"
    using assms(2) by (simp add: jtag_decode_def run_wave_clocked assms(3))
  note st = tap_run [OF assms(1) r]
  have "jt_state s' = TEST_LOGIC_RESET" if "tms_bits es = us @ [True, True, True, True, True]" for us
    using that tap_five_resets [of "foldl tap_next t us"] by (simp add: st TEST_LOGIC_RESET_def)
  with st told_along_run [OF assms(1) r] show ?thesis by blast
qed

section \<open>Scans from end to end\<close>

lemma tap_num_shift: "shift_state (tap_num t) \<longleftrightarrow> (\<exists>r. t = Shift r)"
  by (cases t) (auto simp: shift_state_def jtag_numbers split: scan_reg.split)

lemma scan_selected:
  assumes idle: "jt_state s = RUN_TEST_IDLE" "holds_bits s [] [] []" "\<not> jt_data_ready s"
    and pre: "tms_bits pre = (case r of DR \<Rightarrow> [True, False, False] | IR \<Rightarrow> [True, True, False, False])"
    and run: "run_samples (jtag_edge ub) pre s = (s1, tr)"
  shows "jt_state s1 = tap_num (Shift r) \<and> jt_first_shift_bit s1 \<and> holds_bits s1 [] [] [] \<and> \<not> jt_data_ready s1
    \<and> scan_msgs (concat (map snd tr)) = []"
proof -
  have st0: "jt_state s = tap_num Run_test_idle" using idle(1) by (simp add: RUN_TEST_IDLE_def)
  have q: "scan_view s1 = scan_view s \<and> scan_msgs (concat (map snd tr)) = []
      \<and> (pre \<noteq> [] \<and> shift_state (jt_state s1) \<longrightarrow> jt_first_shift_bit s1)"
  proof (rule quiet_run [OF run st0 idle(3)], intro allI impI)
    fix i assume "i < length pre"
    then have "i < length (tms_bits pre)" by simp
    then show "\<not> shift_state (tap_num (foldl tap_next Run_test_idle (take i (tms_bits pre))))"
      unfolding pre by (cases r) (auto simp: less_Suc_eq numeral_eq_Suc shift_state_def jtag_numbers)
  qed
  moreover have "pre \<noteq> []" using pre by (cases r) auto
  moreover have "jt_state s1 = tap_num (Shift r)" using tap_run [OF st0 run] unfolding pre by (cases r) simp_all
  moreover have "jt_data_ready s1 = jt_data_ready s" using q by (simp add: scan_view_def)
  ultimately show ?thesis using tap_num_shift [of "Shift r"] idle(2,3) holds_bits_view by metis
qed

lemma scan_shifted:
  assumes st: "jt_state s = tap_num (Shift r)" and f: "jt_first_shift_bit s" and h: "holds_bits s [] [] []"
    and body: "tms_bits body = replicate n False @ [True]" and n: "1 \<le> n"
    and run: "run_samples (jtag_edge ub) body s = (s', tr)"
  shows "jt_state s' = tap_num (Exit1 r) \<and> jt_data_ready s' \<and> scan_msgs (concat (map snd tr)) = []
    \<and> holds_bits s' (tl (tdi_bits body)) (tl (tdo_bits body)) (tl (positions body))"
proof -
  have "length body = Suc n" using arg_cong [OF body, of length] by simp
  then obtain k0 x0 cs where c: "body = (k0, x0) # cs" "length cs = n" by (cases body) auto
  with n obtain bs kl xl where cs: "cs = bs @ [(kl, xl)]" by (cases cs rule: rev_cases) auto
  have len: "length bs + 1 = n" using c(2) cs by simp
  have "(x0 CH_TMS \<noteq> 0) # tms_bits bs @ [xl CH_TMS \<noteq> 0] = replicate (Suc (length bs)) False @ [True]"
    using body len by (simp add: c(1) cs)
  then have tms: "x0 CH_TMS = 0" "tms_bits bs = replicate (length bs) False" "xl CH_TMS \<noteq> 0" by simp_all
  have sh: "shift_state (jt_state s)" unfolding st tap_num_shift by blast
  obtain s1 o1 t1 where e1: "jtag_edge ub (of_nat k0) x0 s = (s1, o1)"
    and r1: "run_samples (jtag_edge ub) (bs @ [(kl, xl)]) s1 = (s', t1)" and tr: "tr = (k0, o1) # t1"
    using run_samples_ConsE [OF run [unfolded c(1) cs]] by metis
  have st1: "jt_state s1 = tap_num (Shift r)"
    using jtag_edge_state [of ub "of_nat k0" x0 s] e1 tms(1) tap_stays [OF sh] st by simp
  have q1: "scan_view s1 = scan_view s" "scan_msgs o1 = []" "\<not> jt_first_shift_bit s1"
    using jtag_edge_first [OF e1 sh f] by blast+
  obtain s2 t2 t3 where r2: "run_samples (jtag_edge ub) bs s1 = (s2, t2)"
    and r3: "run_samples (jtag_edge ub) [(kl, xl)] s2 = (s', t3)" and t1: "t1 = t2 @ t3"
    using run_samples_appendE [OF r1] by metis
  have "holds_bits s1 [] [] []" using h holds_bits_view q1(1) by blast
  from bits_stored [OF r2 _ q1(3) this tms(2)]
  have q2: "holds_bits s2 (tdi_bits bs) (tdo_bits bs) (positions bs)" "scan_msgs (concat (map snd t2)) = []"
    "\<not> jt_first_shift_bit s2" "jt_state s2 = tap_num (Shift r)"
    using st1 st sh by auto
  obtain o3 where e3: "jtag_edge ub (of_nat kl) xl s2 = (s', o3)" and t3: "t3 = [(kl, o3)]"
    using run_samples_ConsE [OF r3] by (metis run_samples.simps(1) prod.inject)
  have st3: "jt_state s' = tap_num (Exit1 r)"
    using jtag_edge_state [of ub "of_nat kl" xl s2] tap_step_next [of "xl CH_TMS" "Shift r"] e3 tms(3) q2(4)
    by (simp del: tap_num.simps)
  have "\<not> shift_state (jt_state s')" "shift_state (jt_state s2)" unfolding st3 q2(4) tap_num_shift by simp_all
  with bit_stored [OF e3 _ q2(3,1)]
  have "holds_bits s' (tdi_bits bs @ [uint (xl CH_TDI)]) (tdo_bits bs @ [uint (xl CH_TDO)]) (positions bs @ [of_nat kl])"
    "scan_msgs o3 = []" "jt_data_ready s'" by auto
  then show ?thesis using st3 q1(2) q2(2) by (simp add: tr t1 t3 c(1) cs)
qed

lemma scan_reported:
  assumes e: "jtag_edge ub pos x s = (s', out)" and st: "jt_state s = tap_num (Exit1 r)" and rd: "jt_data_ready s"
    and h: "holds_bits s A B C" and A: "A \<noteq> []" and x: "x CH_TMS \<noteq> 0"
  shows "scan_msgs out = scan_report (r = IR) pos (take 256 A) (take 256 B) (take 256 C) \<and> states_told out = [] \<and> jt_state s' = tap_num (Update r)"
proof -
  obtain n tdi tdo ss where v: "scan_view s = (n, True, tdi, tdo, ss)" "n = length A" "take n tdi = take 256 A"
    "take n tdo = take 256 B" "take n ss = take 256 C" "length tdi = 256" "length tdo = 256" "length ss = 256"
    using h rd by (auto simp: scan_view_def holds_bits_def arrays_ok_def)
  have nx: "tap_step (x CH_TMS) (jt_state s) = tap_num (Update r)"
    using tap_step_next [of "x CH_TMS" "Exit1 r"] st x by (simp del: tap_num.simps)
  have ex: "exit_state (jt_state s)" "jt_state s = EXIT1_IR \<or> jt_state s = EXIT2_IR \<longleftrightarrow> r = IR"
    unfolding st by (cases r; simp add: exit_state_def jtag_numbers)+
  have "tap_step (x CH_TMS) (jt_state s) \<noteq> jt_state s" unfolding nx unfolding st by (cases r) simp_all
  from jtag_edge_report [OF e ex(1) v(1) _ v(6-8) this] A v show ?thesis
    using jtag_edge_state [of ub pos x s] e nx ex(2) by auto
qed

text \<open>The one edge of a shift of a single bit marks the start and stores nothing.\<close>

lemma single_bit_shifted:
  assumes st: "jt_state s = tap_num (Shift r)" and f: "jt_first_shift_bit s" and h: "holds_bits s [] [] []"
    and rd: "\<not> jt_data_ready s" and body: "tms_bits body = [True]"
    and run: "run_samples (jtag_edge ub) body s = (s', tr)"
  shows "jt_state s' = tap_num (Exit1 r) \<and> \<not> jt_data_ready s' \<and> scan_msgs (concat (map snd tr)) = []"
proof -
  have "length body = 1" using arg_cong [OF body, of length] by simp
  then obtain k0 x0 where c: "body = [(k0, x0)]" by (cases body) auto
  obtain out where e: "jtag_edge ub (of_nat k0) x0 s = (s', out)" and t: "tr = [(k0, out)]"
    using run_samples_ConsE [OF run [unfolded c]] by (metis run_samples.simps(1) prod.inject)
  have sh: "shift_state (jt_state s)" unfolding st tap_num_shift by blast
  have x: "x0 CH_TMS \<noteq> 0" using body by (simp add: c)
  have "jt_state s' = tap_num (Exit1 r)"
    using jtag_edge_state [of ub "of_nat k0" x0 s] tap_step_next [of "x0 CH_TMS" "Shift r"] e x st
    by (simp del: tap_num.simps)
  then show ?thesis using jtag_edge_first [OF e sh f] rd by (simp add: t scan_view_def)
qed

text \<open>
  C34: A scan of a register from Run-Test/Idle, over any waveform whose clock edges select the
  register, shift \<open>n + 1\<close> bits with TMS high at the last, and go on to Update without a pause:
  the first bit shifted is in no message. If it is the only one (\<open>n = 0\<close>) nothing is reported;
  otherwise exactly two messages report the scan, with the next 256 bits at most of TDI and of TDO as
  text, the last one first, and the samples of each, and the step to Update is not announced.
\<close>

theorem jtag_scan_reported:
  assumes idle: "jt_state s = RUN_TEST_IDLE" "holds_bits s [] [] []" "\<not> jt_data_ready s"
    and w: "edges SRD_TERM_RISING_EDGE CH_TCK k old xs = pre @ body @ [(u, pu)]"
    and pre: "tms_bits pre = (case r of DR \<Rightarrow> [True, False, False] | IR \<Rightarrow> [True, True, False, False])"
    and body: "tms_bits body = replicate n False @ [True]" and u: "pu CH_TMS \<noteq> 0"
    and run: "run_wave (jtag_decode ub) m k e old xs s = (s', tr)"
  shows "scan_msgs (concat (map snd tr)) =
      (if n = 0 then [] else scan_report (r = IR) (of_nat u) (take 256 (tl (tdi_bits body)))
        (take 256 (tl (tdo_bits body))) (take 256 (tl (positions body))))
    \<and> (0 < n \<longrightarrow> states_told (snd (last tr)) = []) \<and> jt_state s' = tap_num (Update r)"
proof -
  have "run_samples (jtag_edge ub) (pre @ body @ [(u, pu)]) s = (s', tr)"
    using run by (simp add: jtag_decode_def run_wave_clocked w)
  then obtain s1 t1 t2 where r1: "run_samples (jtag_edge ub) pre s = (s1, t1)"
    and r2: "run_samples (jtag_edge ub) (body @ [(u, pu)]) s1 = (s', t2)" and tr: "tr = t1 @ t2"
    by (rule run_samples_appendE)
  obtain s2 t3 t4 where r3: "run_samples (jtag_edge ub) body s1 = (s2, t3)"
    and r4: "run_samples (jtag_edge ub) [(u, pu)] s2 = (s', t4)" and t2: "t2 = t3 @ t4"
    using r2 by (rule run_samples_appendE)
  obtain out where e: "jtag_edge ub (of_nat u) pu s2 = (s', out)" and t4: "t4 = [(u, out)]"
    using run_samples_ConsE [OF r4] by (metis run_samples.simps(1) prod.inject)
  have a: "jt_state s1 = tap_num (Shift r)" "jt_first_shift_bit s1" "holds_bits s1 [] [] []" "\<not> jt_data_ready s1"
    "scan_msgs (concat (map snd t1)) = []" using scan_selected [OF idle pre r1] by blast+
  have len: "length body = Suc n" using arg_cong [OF body, of length] by simp
  show ?thesis
  proof (cases "n = 0")
    case True
    with body have "tms_bits body = [True]" by simp
    from single_bit_shifted [OF a(1-4) this r3]
    have b: "jt_state s2 = tap_num (Exit1 r)" "\<not> jt_data_ready s2" "scan_msgs (concat (map snd t3)) = []" by blast+
    have "\<not> shift_state (jt_state s2)" unfolding b(1) tap_num_shift by simp
    then have "scan_msgs out = []" using jtag_edge_quiet [OF e] b(2) by blast
    moreover have "jt_state s' = tap_num (Update r)"
      using jtag_edge_state [of ub "of_nat u" pu s2] tap_step_next [of "pu CH_TMS" "Exit1 r"] e u b(1)
      by (simp del: tap_num.simps)
    ultimately show ?thesis using True a(5) b(3) by (simp add: tr t2 t4)
  next
    case False
    then have n: "1 \<le> n" by simp
    have b: "jt_state s2 = tap_num (Exit1 r)" "jt_data_ready s2" "scan_msgs (concat (map snd t3)) = []"
      "holds_bits s2 (tl (tdi_bits body)) (tl (tdo_bits body)) (tl (positions body))"
      using scan_shifted [OF a(1-3) body n r3] by blast+
    have "length (tl (tdi_bits body)) = n" using len by simp
    then have "tl (tdi_bits body) \<noteq> []" using n by (metis list.size(3) not_one_le_zero)
    from scan_reported [OF e b(1,2,4) this u] False show ?thesis using a(5) b(3) by (simp add: tr t2 t4)
  qed
qed

text \<open>Two bits through the data register: TDI high, then low, and TDO the other way round.\<close>

definition tck_wave :: "(bool \<times> bool \<times> bool) list \<Rightarrow> (int \<Rightarrow> u8) list" where
  "tck_wave bs = concat (map (\<lambda>(tms, tdi, tdo). let x = (\<lambda>c ch. of_bool (if ch = CH_TMS then tms else if ch = CH_TDI then tdi
     else if ch = CH_TDO then tdo else c)) in [x False, x True]) bs)"

definition example_jtag :: jtag_s where
  "example_jtag = jtag_reset\<lparr>jt_state := RUN_TEST_IDLE, jt_first := True\<rparr>"

definition example_scan :: "(int \<Rightarrow> u8) list" where
  "example_scan = tck_wave [(True, False, False), (False, False, False), (False, False, False),
     (False, True, False), (True, False, True), (True, False, False)]"

lemma jtag_scan_reported_witness:
  "\<exists>s' tr. run_wave (jtag_decode (\<lambda>x _. x)) False 0 0 (\<lambda>_. 0) example_scan example_jtag = (s', tr)
     \<and> scan_msgs (concat (map snd tr)) = scan_report False 11 [0] [1] [9]"
proof -
  obtain s' tr where run: "run_wave (jtag_decode (\<lambda>x _. x)) False 0 0 (\<lambda>_. 0) example_scan example_jtag = (s', tr)" by fastforce
  let ?es = "edges SRD_TERM_RISING_EDGE CH_TCK 0 (\<lambda>_. 0) example_scan"
  have l: "length ?es = 6" and t: "tms_bits ?es = [True, False, False, False, True, True]"
    "tdi_bits ?es = [0, 0, 0, 1, 0, 0]" "tdo_bits ?es = [0, 0, 0, 0, 1, 0]" "positions ?es = [1, 3, 5, 7, 9, 11]"
    by (simp_all add: example_scan_def tck_wave_def CH_TCK_def CH_TMS_def CH_TDI_def CH_TDO_def)
  obtain a b c d f g where es: "?es = [a, b, c, d, f, g]" using l by (auto simp: length_Suc_conv numeral_eq_Suc)
  obtain u pu where g: "g = (u, pu)" by (rule prod.exhaust)
  have w: "?es = [a, b, c] @ [d, f] @ [(u, pu)]" by (simp add: es g)
  have "jt_state example_jtag = RUN_TEST_IDLE" "holds_bits example_jtag [] [] []" "\<not> jt_data_ready example_jtag"
    by (simp_all add: example_jtag_def holds_bits_def arrays_ok_def jtag_reset_def)
  note this w
  from jtag_scan_reported [OF this, of DR 1] t run show ?thesis
    by (cases a; cases b; cases c; cases d; cases f) (auto simp: es g)
qed

lemma jtag_follows_tap_witness:
  "\<exists>s' tr. run_wave (jtag_decode (\<lambda>x _. x)) False 0 0 (\<lambda>_. 0) (tck_wave (replicate 5 (True, False, False))) example_jtag = (s', tr)
     \<and> jt_state s' = TEST_LOGIC_RESET"
proof -
  let ?xs = "tck_wave (replicate 5 (True, False, False))"
  obtain s' tr where run: "run_wave (jtag_decode (\<lambda>x _. x)) False 0 0 (\<lambda>_. 0) ?xs example_jtag = (s', tr)" by fastforce
  have st: "jt_state example_jtag = tap_num Run_test_idle" by (simp add: example_jtag_def RUN_TEST_IDLE_def)
  have t: "tms_bits (edges SRD_TERM_RISING_EDGE CH_TCK 0 (\<lambda>_. 0) ?xs) = [] @ [True, True, True, True, True]"
    by (simp add: tck_wave_def CH_TCK_def CH_TMS_def CH_TDI_def CH_TDO_def numeral_eq_Suc)
  from jtag_follows_tap [OF st run refl] t run show ?thesis by blast
qed

section \<open>Calls and description\<close>

text \<open>The state is one of the sixteen, and the outputs stay.\<close>

definition jtag_inv :: "int \<Rightarrow> int \<Rightarrow> jtag_s \<Rightarrow> bool" where
  "jtag_inv a p s \<longleftrightarrow> jt_state s < 16 \<and> jt_out_ann s = a \<and> jt_out_python s = p"

lemma next_state_below: "st < 16 \<Longrightarrow> tap_step v st < 16"
proof -
  assume "st < 16"
  then have "next_state ! st \<in> set next_state" by (intro nth_mem) (simp add: next_state_def)
  moreover have "\<forall>(a, b) \<in> set next_state. a < 16 \<and> b < 16" by (simp add: next_state_def)
  ultimately show ?thesis by (auto simp: tap_step_def)
qed

lemma collect_bit_calls:
  "jt_out_ann (fst (collect_bit old new pos x s)) = jt_out_ann s"
  "jt_out_python (fst (collect_bit old new pos x s)) = jt_out_python s"
  "list_all (call_ok 20 0 (jt_out_ann s) (jt_out_python s) b) (snd (collect_bit old new pos x s))"
  by (simp_all add: collect_bit_def Let_def ANN_BIT_TDI_def ANN_BIT_TDO_def)

lemma report_scan_calls:
  "jt_out_ann (fst (report_scan ub old new pos s)) = jt_out_ann s"
  "jt_out_python (fst (report_scan ub old new pos s)) = jt_out_python s"
  "list_all (call_ok 20 0 (jt_out_ann s) (jt_out_python s) b) (snd (report_scan ub old new pos s))"
  by (simp_all add: report_scan_def Let_def ANN_BIT_TDI_def ANN_BIT_TDO_def ANN_BITSTRING_TDI_def ANN_BITSTRING_TDO_def)

lemma put_state_calls:
  "jt_out_ann (fst (put_state old new pos s)) = jt_out_ann s"
  "jt_out_python (fst (put_state old new pos s)) = jt_out_python s"
  "jt_state (fst (put_state old new pos s)) = new"
  "old < 16 \<Longrightarrow> list_all (call_ok 20 0 (jt_out_ann s) (jt_out_python s) b) (snd (put_state old new pos s))"
  by (simp_all add: put_state_def Let_def)

lemma jtag_edge_calls:
  assumes "jtag_inv a p s"
  shows "jtag_inv a p (fst (jtag_edge ub pos x s)) \<and> list_all (call_ok 20 0 a p b) (snd (jtag_edge ub pos x s))"
proof -
  let ?old = "jt_state s" and ?new = "tap_step (x CH_TMS) (jt_state s)"
  obtain s1 o1 where 1: "collect_bit ?old ?new pos x (enter_shift ?old ?new s) = (s1, o1)" by (rule prod.exhaust)
  obtain s2 o2 where 2: "report_scan ub ?old ?new pos s1 = (s2, o2)" by (rule prod.exhaust)
  obtain s3 o3 where 3: "put_state ?old ?new pos s2 = (s3, o3)" by (rule prod.exhaust)
  have i: "?old < 16" "jt_out_ann (enter_shift ?old ?new s) = a" "jt_out_python (enter_shift ?old ?new s) = p"
    using assms by (simp_all add: jtag_inv_def enter_shift_def)
  show ?thesis
    using collect_bit_calls(1,2) [of ?old ?new pos x "enter_shift ?old ?new s"]
      collect_bit_calls(3) [of "enter_shift ?old ?new s" b ?old ?new pos x]
      report_scan_calls(1,2) [of ub ?old ?new pos s1] report_scan_calls(3) [of s1 b ub ?old ?new pos]
      put_state_calls(1,2,3) [of ?old ?new pos s2] put_state_calls(4) [OF i(1), of s2 b ?new pos] next_state_below [OF i(1)]
    by (simp add: 1 2 3 i jtag_edge_def Let_def jtag_inv_def del: call_ok.simps)
qed

interpretation jtag: program_contract "jtag_decode ub" "jtag_inv a p" "call_ok 20 0 a p b" for ub a p b
  by unfold_locales (simp_all add: jtag_decode_def clocked_def jtag_edge_calls)

text \<open>
  C35: Over any waveform, from a state with one of the sixteen TAP states, JTAG stays in them and
  every call fits its description: an annotation goes to the annotation output with one of the
  twenty classes, a message to the message output.
\<close>

theorem jtag_calls_fit:
  assumes "jtag_inv a p s"
  shows "jtag_inv a p (fst (run_wave (jtag_decode ub) m k e old xs s))
    \<and> list_all (call_ok 20 0 a p b) (concat (map snd (snd (run_wave (jtag_decode ub) m k e old xs s))))"
  by (rule jtag.run_contract [OF assms])

lemma jtag_calls_fit_witness:
  "list_all (call_ok 20 0 3 4 0) (concat (map snd (snd (run_wave (jtag_decode (\<lambda>x _. x)) False 0 0 (\<lambda>_. 0) example_scan
     (example_jtag\<lparr>jt_out_ann := 3, jt_out_python := 4\<rparr>)))))"
proof -
  have "jtag_inv 3 4 (example_jtag\<lparr>jt_out_ann := 3, jt_out_python := 4\<rparr>)"
    by (simp add: jtag_inv_def example_jtag_def RUN_TEST_IDLE_def)
  from jtag_calls_fit [OF this] show ?thesis by blast
qed

end
