(* ===== verification/Spi.thy ===== *)
theory Spi
  imports Clocked
begin

text \<open>
  c_decoders/spi_c.c: the SPI decoder. It collects the bits of both data lines at the sampling
  edges of the clock while the chip is selected, and reports words and transfers.
\<close>

section \<open>State\<close>

definition CH_CLK :: int where "CH_CLK = 0"
definition CH_MISO :: int where "CH_MISO = 1"
definition CH_MOSI :: int where "CH_MOSI = 2"
definition CH_CS :: int where "CH_CS = 3"

definition MAX_TRANSFER_BYTES :: nat where "MAX_TRANSFER_BYTES = 256"

definition ANN_MISO_DATA :: int where "ANN_MISO_DATA = 0"
definition ANN_MOSI_DATA :: int where "ANN_MOSI_DATA = 1"
definition ANN_MISO_BIT :: int where "ANN_MISO_BIT = 2"
definition ANN_MOSI_BIT :: int where "ANN_MOSI_BIT = 3"
definition ANN_WARNING :: int where "ANN_WARNING = 4"
definition ANN_MISO_TRANSFER :: int where "ANN_MISO_TRANSFER = 5"
definition ANN_MOSI_TRANSFER :: int where "ANN_MOSI_TRANSFER = 6"
definition ANN_ATK_DATA_POINT :: int where "ANN_ATK_DATA_POINT = 7"
definition ANN_ATK_RISING_EDGE :: int where "ANN_ATK_RISING_EDGE = 8"
definition ANN_ATK_FALLING_EDGE :: int where "ANN_ATK_FALLING_EDGE = 9"

text \<open>
  The fields of one data line: the word so far, the level and samples of its bits, and the words of
  the transfer, which are the first entries of an array of 256.
\<close>

record spi_line =
  sl_data :: u64
  sl_bits_ss :: "u64 list"
  sl_bits_es :: "u64 list"
  sl_bits_val :: "int list"
  sl_bytes :: "u64 list"

record spi_s =
  sp_bitcount :: nat
  sp_miso :: spi_line
  sp_mosi :: spi_line
  sp_ss_block :: u64
  sp_ss_transfer :: u64
  sp_cs_was_deasserted :: bool
  sp_cpol :: int
  sp_cpha :: int
  sp_bit_order :: int
  sp_cs_polarity :: int
  sp_have_cs :: bool
  sp_have_miso :: bool
  sp_have_mosi :: bool
  sp_sample_edge_rise :: bool
  sp_wordsize :: nat
  sp_bw :: nat
  sp_format :: int
  sp_show_data_point :: bool
  sp_samplerate :: u64
  sp_out_ann :: int
  sp_out_python :: int
  sp_out_binary :: int
  sp_out_bitrate :: int

definition blank_line :: spi_line where
  "blank_line = \<lparr>sl_data = 0, sl_bits_ss = replicate 64 0, sl_bits_es = replicate 64 0, sl_bits_val = replicate 64 0,
     sl_bytes = []\<rparr>"

definition spi_reset :: spi_s where
  "spi_reset = \<lparr>sp_bitcount = 0, sp_miso = blank_line, sp_mosi = blank_line, sp_ss_block = 0, sp_ss_transfer = 0,
     sp_cs_was_deasserted = False, sp_cpol = 0, sp_cpha = 0, sp_bit_order = 0, sp_cs_polarity = 0,
     sp_have_cs = False, sp_have_miso = False, sp_have_mosi = False, sp_sample_edge_rise = False, sp_wordsize = 0,
     sp_bw = 0, sp_format = 0, sp_show_data_point = False, sp_samplerate = 0, sp_out_ann = 0, sp_out_python = 0,
     sp_out_binary = 0, sp_out_bitrate = 0\<rparr>"

section \<open>Texts\<close>

text \<open>The bits of a word, the highest of \<open>n\<close> first.\<close>

definition bit_text :: "nat \<Rightarrow> u64 \<Rightarrow> string" where
  "bit_text n v = map (\<lambda>i. if bit v (n - 1 - i) then CHR ''1'' else CHR ''0'') [0..<n]"

definition spi_format_value :: "u64 \<Rightarrow> nat \<Rightarrow> int \<Rightarrow> nat \<Rightarrow> string" where
  "spi_format_value val wordsize format out_size = snprintf out_size
     (if format = 0 then fmt_hex 2 (unat val)
      else if format = 1 then dec_str (unat val)
      else if format = 2 then fmt_num 8 3 (unat val)
      else if format = 3 then bit_text (max wordsize 8) val
      else if 32 \<le> val \<and> val \<le> 126 then [char_of (unat val)] else fmt_num 16 2 (unat val))"

definition transfer_item :: "int \<Rightarrow> nat \<Rightarrow> u64 \<Rightarrow> string" where
  "transfer_item format wordsize v =
     (if format = 0 then fmt_num 16 2 (unat v)
      else if format = 1 then dec_str (unat v)
      else if format = 2 then fmt_num 8 3 (unat v)
      else if format = 3 then bit_text (max wordsize 8) v
      else if 32 \<le> v \<and> v \<le> 126 then [char_of (unat v)] else [CHR 0x5C] @ ''x'' @ fmt_num 16 2 (unat v))"

text \<open>The loop stops when fewer than 17 bytes of the buffer are left.\<close>

fun transfer_items :: "int \<Rightarrow> nat \<Rightarrow> nat \<Rightarrow> u64 list \<Rightarrow> string \<Rightarrow> string" where
  "transfer_items format wordsize out_size [] acc = acc"
| "transfer_items format wordsize out_size (v # vs) acc =
     (if \<not> length acc + 16 < out_size then acc
      else transfer_items format wordsize out_size vs
        (acc @ (if acc \<noteq> [] \<and> format \<noteq> 4 then '' '' else []) @ transfer_item format wordsize v))"

definition spi_format_transfer :: "u64 list \<Rightarrow> int \<Rightarrow> nat \<Rightarrow> nat \<Rightarrow> string" where
  "spi_format_transfer vals format wordsize out_size =
     snprintf out_size (transfer_items format wordsize out_size vals [])"

section \<open>Helpers\<close>

definition spi_cs_asserted :: "spi_s \<Rightarrow> u8 \<Rightarrow> bool" where
  "spi_cs_asserted s cs = (if sp_cs_polarity s = 0 then cs = 0 else cs = 1)"

definition spi_reset_word :: "spi_s \<Rightarrow> spi_s" where
  "spi_reset_word s = s\<lparr>sp_bitcount := 0, sp_mosi := (sp_mosi s)\<lparr>sl_data := 0\<rparr>, sp_miso := (sp_miso s)\<lparr>sl_data := 0\<rparr>\<rparr>"

definition be_bytes :: "nat \<Rightarrow> u64 \<Rightarrow> u8 list" where
  "be_bytes n v = map (\<lambda>i. ucast (drop_bit (8 * (n - 1 - i)) v)) [0..<n]"

definition line_span :: "nat \<Rightarrow> spi_line \<Rightarrow> u64 \<times> u64" where
  "line_span wordsize l = (sl_bits_ss l ! 0, sl_bits_es l ! (wordsize - 1))"

definition spi_flags :: "spi_s \<Rightarrow> u8" where
  "spi_flags s = (if sp_have_mosi s then 1 else 0) OR (if sp_have_miso s then 2 else 0)"

text \<open>The bits of a line in the BITS message: level, start and end of each. The buffer takes 64 of both lines.\<close>

definition line_bits :: "bool \<Rightarrow> nat \<Rightarrow> spi_line \<Rightarrow> u8 list" where
  "line_bits have wordsize l = (if \<not> have then [] else
     concat (map (\<lambda>i. of_int (sl_bits_val l ! i) # le_bytes (sl_bits_ss l ! i) @ le_bytes (sl_bits_es l ! i)) [0..<wordsize]))"

definition bits_data :: "spi_s \<Rightarrow> u8 list" where
  "bits_data s = [spi_flags s, if sp_have_mosi s then of_nat (sp_wordsize s) else 0]
     @ line_bits (sp_have_mosi s) (sp_wordsize s) (sp_mosi s)
     @ [0, if sp_have_miso s then of_nat (sp_wordsize s) else 0]
     @ line_bits (sp_have_miso s) (sp_wordsize s) (sp_miso s)"

definition data_data :: "spi_s \<Rightarrow> u8 list" where
  "data_data s = spi_flags s # le_bytes (if sp_have_mosi s then sl_data (sp_mosi s) else 0)
     @ le_bytes (if sp_have_miso s then sl_data (sp_miso s) else 0)"

definition append_word :: "bool \<Rightarrow> spi_line \<Rightarrow> spi_line" where
  "append_word have l = (if have \<and> length (sl_bytes l) < MAX_TRANSFER_BYTES then l\<lparr>sl_bytes := sl_bytes l @ [sl_data l]\<rparr> else l)"

definition bit_anns :: "bool \<Rightarrow> int \<Rightarrow> int \<Rightarrow> nat \<Rightarrow> spi_line \<Rightarrow> out_call list" where
  "bit_anns have out cls wordsize l = (if \<not> have then [] else
     map (\<lambda>i. O_put (sl_bits_ss l ! i) (sl_bits_es l ! i) out cls [snprintf 16 (fmt_int (sl_bits_val l ! i))]) [0..<wordsize])"

text \<open>The span of a word is that of the last line there is.\<close>

definition spi_put_data :: "spi_s \<Rightarrow> spi_s \<times> out_call list" where
  "spi_put_data s =
     (let ws = sp_wordsize s;
          (ss0, es0) = (sp_ss_block s, 0);
          (ss1, es1) = (if sp_have_miso s then line_span ws (sp_miso s) else (ss0, es0));
          (ss, es) = (if sp_have_mosi s then line_span ws (sp_mosi s) else (ss1, es1));
          bins = (if sp_have_miso s then [O_bin ss1 es1 (sp_out_binary s) 0 (be_bytes (sp_bw s) (sl_data (sp_miso s)))] else [])
            @ (if sp_have_mosi s then [O_bin ss es (sp_out_binary s) 1 (be_bytes (sp_bw s) (sl_data (sp_mosi s)))] else []);
          msgs = [O_proto ss es (sp_out_python s) ''BITS'' [C_BYTES (bits_data s)],
                  O_proto ss es (sp_out_python s) ''DATA'' [C_BYTES (data_data s)]];
          bits = bit_anns (sp_have_miso s) (sp_out_ann s) ANN_MISO_BIT ws (sp_miso s)
            @ bit_anns (sp_have_mosi s) (sp_out_ann s) ANN_MOSI_BIT ws (sp_mosi s);
          words = (if sp_have_miso s then [O_put ss es (sp_out_ann s) ANN_MISO_DATA
                [spi_format_value (sl_data (sp_miso s)) ws (sp_format s) 128]] else [])
            @ (if sp_have_mosi s then [O_put ss es (sp_out_ann s) ANN_MOSI_DATA
                [spi_format_value (sl_data (sp_mosi s)) ws (sp_format s) 128]] else [])
      in (s\<lparr>sp_miso := append_word (sp_have_miso s) (sp_miso s), sp_mosi := append_word (sp_have_mosi s) (sp_mosi s)\<rparr>,
          bins @ msgs @ bits @ words))"

definition line_bytes :: "bool \<Rightarrow> spi_line \<Rightarrow> u64 list" where
  "line_bytes have l = (if have then sl_bytes l else [])"

text \<open>Of each word the message has the lowest byte.\<close>

definition transfer_data :: "spi_s \<Rightarrow> u8 list" where
  "transfer_data s =
     (let mosi = line_bytes (sp_have_mosi s) (sp_mosi s); miso = line_bytes (sp_have_miso s) (sp_miso s)
      in [spi_flags s, of_nat (length mosi), of_nat (length mosi div 256), of_nat (length miso), of_nat (length miso div 256)]
       @ map ucast mosi @ map ucast miso)"

definition spi_put_transfer :: "u64 \<Rightarrow> spi_s \<Rightarrow> out_call list" where
  "spi_put_transfer samplenum s =
     (if sp_have_miso s then [O_put (sp_ss_transfer s) samplenum (sp_out_ann s) ANN_MISO_TRANSFER
        [spi_format_transfer (sl_bytes (sp_miso s)) (sp_format s) (sp_wordsize s) 4096]] else [])
   @ (if sp_have_mosi s then [O_put (sp_ss_transfer s) samplenum (sp_out_ann s) ANN_MOSI_TRANSFER
        [spi_format_transfer (sl_bytes (sp_mosi s)) (sp_format s) (sp_wordsize s) 4096]] else [])
   @ [O_proto (sp_ss_transfer s) samplenum (sp_out_python s) ''TRANSFER'' [C_BYTES (transfer_data s)]]"

section \<open>Callbacks\<close>

definition spi_format_of :: "string option \<Rightarrow> int" where
  "spi_format_of f = (if f = Some ''hex'' then 0 else if f = Some ''dec'' then 1 else if f = Some ''oct'' then 2
     else if f = Some ''bin'' then 3 else if f = Some ''ascii'' then 4 else 0)"

definition spi_wordsize_of :: "int \<Rightarrow> nat" where
  "spi_wordsize_of n = (if n < 1 \<or> 64 < n then 8 else nat n)"

definition spi_configure :: "spi_s srd_decoder_inst \<Rightarrow> spi_s \<Rightarrow> spi_s" where
  "spi_configure d s =
     (let opt_str = c_decoder_get_option_string (Some d); opt_int = c_decoder_get_option_int (Some d);
          cpol = opt_int (Some ''cpol'') 0; cpha = opt_int (Some ''cpha'') 0;
          ws = spi_wordsize_of (opt_int (Some ''wordsize'') 8);
          mode = (if cpol = 0 \<and> cpha = 0 then 0 else if cpol = 0 \<and> cpha = 1 then 1
            else if cpol = 1 \<and> cpha = 0 then 2 else 3 :: int)
      in s\<lparr>sp_cs_polarity := (if opt_str (Some ''cs_polarity'') (Some ''active-low'') = Some ''active-low'' then 0 else 1),
           sp_cpol := cpol, sp_cpha := cpha,
           sp_bit_order := (if opt_str (Some ''bitorder'') (Some ''msb-first'') = Some ''msb-first'' then 0 else 1),
           sp_wordsize := ws, sp_bw := (ws + 7) div 8,
           sp_format := spi_format_of (opt_str (Some ''format'') (Some ''hex'')),
           sp_show_data_point := (c_opt_bool (Some d) (Some ''show_data_point'') 1 \<noteq> 0),
           sp_have_miso := c_decoder_has_channel d CH_MISO, sp_have_mosi := c_decoder_has_channel d CH_MOSI,
           sp_have_cs := c_decoder_has_channel d CH_CS,
           sp_sample_edge_rise := (mode = 0 \<or> mode = 3),
           sp_ss_transfer := -1, sp_samplerate := c_decoder_get_samplerate (Some d)\<rparr>)"

definition spi_start :: "inst_ptr \<Rightarrow> spi_s srd_world \<Rightarrow> spi_s srd_world" where
  "spi_start p w =
     (let (ann, w1) = c_decoder_register_output (Some p) SRD_OUTPUT_ANN (Some ''spi'') w;
          (py, w2) = c_decoder_register_output (Some p) SRD_OUTPUT_PROTO (Some ''spi'') w1;
          (bin, w3) = c_decoder_register_output (Some p) SRD_OUTPUT_BINARY (Some ''spi'') w2;
          (rate, w4) = c_decoder_register_output (Some p) SRD_OUTPUT_META (Some ''spi'') w3
      in upd_inst p (\<lambda>d. d\<lparr>user_data := map_option (\<lambda>s. spi_configure d (s\<lparr>sp_out_ann := ann, sp_out_python := py,
           sp_out_binary := bin, sp_out_bitrate := rate\<rparr>)) (user_data d)\<rparr>) w4)"

definition spi_metadata :: "int \<Rightarrow> u64 \<Rightarrow> spi_s \<Rightarrow> spi_s" where
  "spi_metadata key val s = (if key = SRD_CONF_SAMPLERATE then s\<lparr>sp_samplerate := val\<rparr> else s)"

section \<open>decode()\<close>

text \<open>The calls before the first wait, and what is done at the sample it finds.\<close>

definition spi_decode_begin :: "spi_s \<Rightarrow> out_call list" where
  "spi_decode_begin s =
     [O_put 0 0 (sp_out_ann s) ANN_ATK_DATA_POINT [''color:#F32FDC''],
      O_put 0 0 (sp_out_ann s) ANN_ATK_RISING_EDGE [''color:#F32FDC''],
      O_put 0 0 (sp_out_ann s) ANN_ATK_FALLING_EDGE [''color:#F32FDC'']]
   @ (if sp_have_cs s then [] else [O_proto 0 0 (sp_out_python s) ''CS-CHANGE'' [C_I8 (-1), C_I8 (-1)]])"

definition spi_first_waits :: "spi_s \<Rightarrow> srd_term list list" where
  "spi_first_waits s = (if sp_have_cs s then [] else [[edge_term SRD_TERM_EITHER_EDGE CH_CLK]])"

definition start_transfer :: "u64 \<Rightarrow> spi_s \<Rightarrow> spi_s" where
  "start_transfer samplenum s = s\<lparr>sp_ss_transfer := samplenum, sp_miso := (sp_miso s)\<lparr>sl_bytes := []\<rparr>,
     sp_mosi := (sp_mosi s)\<lparr>sl_bytes := []\<rparr>\<rparr>"

definition spi_first :: "u64 \<Rightarrow> (int \<Rightarrow> u8) \<Rightarrow> spi_s \<Rightarrow> spi_s \<times> out_call list" where
  "spi_first sn pins s = (if \<not> sp_have_cs s then (s, [])
     else let cs = pins CH_CS
       in (spi_reset_word (if spi_cs_asserted s cs then start_transfer sn s else s),
           [O_proto sn sn (sp_out_python s) ''CS-CHANGE'' [C_I8 (-1), C_I8 (ucast cs)]]))"

text \<open>The level of the clock after a sampling edge.\<close>

definition correct_edge :: "spi_s \<Rightarrow> u8 \<Rightarrow> int" where
  "correct_edge s clk =
     (if sp_cpol s = 0 \<and> sp_cpha s = 0 \<and> clk = 1 \<or> sp_cpol s = 1 \<and> sp_cpha s = 1 \<and> clk = 1 then 1
      else if sp_cpol s = 0 \<and> sp_cpha s = 1 \<and> clk = 0 \<or> sp_cpol s = 1 \<and> sp_cpha s = 0 \<and> clk = 0 then 2
      else 0)"

definition data_points :: "u64 \<Rightarrow> int \<Rightarrow> spi_s \<Rightarrow> out_call list" where
  "data_points sn edge s = (if \<not> sp_show_data_point s then [] else
     [O_put sn sn (sp_out_ann s) (if edge = 1 then ANN_ATK_RISING_EDGE else ANN_ATK_FALLING_EDGE) [fmt_int CH_CLK],
      O_put sn sn (sp_out_ann s) ANN_ATK_DATA_POINT [fmt_int CH_MISO],
      O_put sn sn (sp_out_ann s) ANN_ATK_DATA_POINT [fmt_int CH_MOSI]])"

text \<open>A bit of one line: the bit before ends where it starts.\<close>

definition line_bit :: "bool \<Rightarrow> int \<Rightarrow> nat \<Rightarrow> nat \<Rightarrow> u64 \<Rightarrow> u8 \<Rightarrow> spi_line \<Rightarrow> spi_line" where
  "line_bit have bit_order wordsize n sn v l = (if \<not> have then l else
     (let es = (if 0 < n \<and> n \<le> wordsize then (sl_bits_es l)[n - 1 := sn] else sl_bits_es l);
          d = sl_data l OR push_bit (if bit_order = 0 then wordsize - 1 - n else n) (ucast v)
      in if n < wordsize
         then l\<lparr>sl_data := d, sl_bits_ss := (sl_bits_ss l)[n := sn], sl_bits_es := es[n := sn],
                sl_bits_val := (sl_bits_val l)[n := uint v]\<rparr>
         else l\<lparr>sl_data := d, sl_bits_es := es\<rparr>))"

definition spi_bitrate :: "u64 \<Rightarrow> spi_s \<Rightarrow> int" where
  "spi_bitrate samplenum s =
     (let elapsed = 1 / real (unat (sp_samplerate s)) * real (unat (samplenum - sp_ss_block s + 1))
      in trunc_real (1 / elapsed * real (sp_wordsize s)))"

text \<open>A complete word.\<close>

definition spi_word_done :: "u64 \<Rightarrow> spi_s \<Rightarrow> spi_s \<times> out_call list" where
  "spi_word_done sn s =
     (let (s1, out) = spi_put_data s;
          meta = (if sp_samplerate s \<noteq> 0 then [O_meta_int (sp_ss_block s) sn (sp_out_bitrate s) (spi_bitrate sn s)] else []);
          warn = (if sp_have_cs s \<and> sp_cs_was_deasserted s
            then [O_put (sp_ss_block s) sn (sp_out_ann s) ANN_WARNING [''CS# was deasserted during this data word!'']] else [])
      in (spi_reset_word s1, out @ meta @ warn))"

definition spi_handle_bit :: "u64 \<Rightarrow> u8 \<Rightarrow> u8 \<Rightarrow> u8 \<Rightarrow> spi_s \<Rightarrow> spi_s \<times> out_call list" where
  "spi_handle_bit sn miso mosi cs s =
     (let n = sp_bitcount s;
          s1 = (if n = 0 then s\<lparr>sp_ss_block := sn, sp_cs_was_deasserted := sp_have_cs s \<and> \<not> spi_cs_asserted s cs\<rparr> else s);
          s2 = s1\<lparr>sp_miso := line_bit (sp_have_miso s) (sp_bit_order s) (sp_wordsize s) n sn miso (sp_miso s),
                  sp_mosi := line_bit (sp_have_mosi s) (sp_bit_order s) (sp_wordsize s) n sn mosi (sp_mosi s),
                  sp_bitcount := n + 1\<rparr>
      in if n + 1 \<noteq> sp_wordsize s then (s2, []) else spi_word_done sn s2)"

definition spi_cs_change :: "u64 \<Rightarrow> u8 \<Rightarrow> spi_s \<Rightarrow> spi_s \<times> out_call list" where
  "spi_cs_change sn cs s =
     (let msg = [O_proto sn sn (sp_out_python s) ''CS-CHANGE'' [C_I8 (1 - ucast cs), C_I8 (ucast cs)]]
      in if spi_cs_asserted s cs then (spi_reset_word (start_transfer sn s), msg)
         else (spi_reset_word s, msg @ (if sp_ss_transfer s \<noteq> -1 then spi_put_transfer sn s else [])))"

definition spi_step :: "u64 \<Rightarrow> u64 \<Rightarrow> (int \<Rightarrow> u8) \<Rightarrow> spi_s \<Rightarrow> spi_s \<times> out_call list" where
  "spi_step sn matched pins s =
     (let clk = pins CH_CLK;
          miso = (if sp_have_miso s then pins CH_MISO else 0); mosi = (if sp_have_mosi s then pins CH_MOSI else 0);
          cs = (if sp_have_cs s then pins CH_CS else 1);
          (s1, out1) = (if sp_have_cs s \<and> bit matched 1 then spi_cs_change sn cs s else (s, []));
          edge = correct_edge s clk
      in if sp_have_cs s \<and> \<not> spi_cs_asserted s cs then (s1, out1)
         else if \<not> bit matched 0 then (s1, out1)
         else if edge = 0 then (s1, out1)
         else let (s2, out2) = spi_handle_bit sn miso mosi cs s1
              in (s2, out1 @ data_points sn edge s @ out2))"

definition spi_waits :: "spi_s \<Rightarrow> srd_term list list" where
  "spi_waits s = [edge_term SRD_TERM_EITHER_EDGE CH_CLK]
     # (if sp_have_cs s then [[edge_term SRD_TERM_EITHER_EDGE CH_CS]] else [])"

definition spi_decode :: "spi_s c_program" where
  "spi_decode = \<lparr>prog_wait = spi_waits, prog_step = spi_step\<rparr>"

section \<open>Words\<close>

text \<open>The bits of a word in the order in which they are sent.\<close>

definition bit_index :: "int \<Rightarrow> nat \<Rightarrow> nat \<Rightarrow> nat" where
  "bit_index bit_order wordsize n = (if bit_order = 0 then wordsize - 1 - n else n)"

definition word_bits :: "int \<Rightarrow> nat \<Rightarrow> u64 \<Rightarrow> u8 list" where
  "word_bits bit_order wordsize a = map (\<lambda>n. of_bool (bit a (bit_index bit_order wordsize n))) [0..<wordsize]"

lemma length_word_bits [simp]: "length (word_bits bo ws a) = ws"
  by (simp add: word_bits_def)

text \<open>Words as they come together: the complete ones, and the state within the next.\<close>

fun collect ::
    "int \<Rightarrow> nat \<Rightarrow> nat \<Rightarrow> u64 \<Rightarrow> u64 \<Rightarrow> (u8 \<times> u8) list \<Rightarrow> (u64 \<times> u64) list \<times> nat \<times> u64 \<times> u64" where
  "collect bo ws n a b [] = ([], n, a, b)"
| "collect bo ws n a b ((x, y) # ps) =
     (let a1 = a OR push_bit (bit_index bo ws n) (ucast x); b1 = b OR push_bit (bit_index bo ws n) (ucast y)
      in if Suc n = ws then (let (w, st) = collect bo ws 0 0 0 ps in ((a1, b1) # w, st))
         else collect bo ws (Suc n) a1 b1 ps)"

text \<open>One line: the bits from position \<open>n\<close> on are added.\<close>

fun add_bits :: "int \<Rightarrow> nat \<Rightarrow> nat \<Rightarrow> u8 list \<Rightarrow> u64 \<Rightarrow> u64" where
  "add_bits bo ws n [] a = a"
| "add_bits bo ws n (x # xs) a = add_bits bo ws (Suc n) xs (a OR push_bit (bit_index bo ws n) (ucast x))"

lemma collect_word:
  assumes "length ps = ws - n" and "n < ws"
  shows "collect bo ws n a b (ps @ qs) =
    (let (w, st) = collect bo ws 0 0 0 qs in ((add_bits bo ws n (map fst ps) a, add_bits bo ws n (map snd ps) b) # w, st))"
  using assms
proof (induction ps arbitrary: n a b)
  case (Cons p ps)
  obtain x y where p: "p = (x, y)" by fastforce
  show ?case
  proof (cases "Suc n = ws")
    case True
    then have "length ps = 0" using Cons.prems(1) by auto
    then have "ps = []" by (simp only: length_0_conv)
    then show ?thesis by (simp add: p True)
  next
    case False
    then show ?thesis using Cons.IH [of "Suc n"] Cons.prems by (simp add: p Let_def)
  qed
qed simp

lemma bit_add_bits:
  "bit (add_bits bo ws n xs a) i \<longleftrightarrow> bit a i \<or> i < 64 \<and> (\<exists>j < length xs. bit_index bo ws (n + j) \<le> i
     \<and> bit (xs ! j) (i - bit_index bo ws (n + j)))"
proof (induction xs arbitrary: n a)
  case (Cons x xs)
  have ex: "(\<exists>j < Suc (length xs). P j) \<longleftrightarrow> P 0 \<or> (\<exists>j < length xs. P (Suc j))" for P
    by (metis less_Suc_eq_0_disj)
  have "bit (ucast x :: u64) k \<longleftrightarrow> bit x k" for k
    using bit_imp_le_length [of x k] by (auto simp: bit_ucast_iff)
  then show ?case by (auto simp: Cons ex bit_or_iff bit_push_bit_iff not_less)
qed simp

lemma add_word_bits:
  assumes "take_bit ws a = a" and "ws \<le> 64"
  shows "add_bits bo ws 0 (word_bits bo ws a) 0 = a"
proof (rule bit_word_eqI)
  fix i assume i: "i < LENGTH(64)"
  have one: "bit (of_bool c :: u8) k \<longleftrightarrow> c \<and> k = 0" for c k by (auto simp: bit_of_bool_iff)
  have ix: "bit_index bo ws j < ws" if "j < ws" for j using that by (simp add: bit_index_def)
  have on: "\<exists>j < ws. bit_index bo ws j = i" if "i < ws"
    using that by (cases "bo = 0") (auto simp: bit_index_def intro: exI [of _ "ws - 1 - i"])
  have hi: "\<not> bit a i" if "ws \<le> i" using assms(1) that by (metis bit_take_bit_iff not_less)
  have "bit (add_bits bo ws 0 (word_bits bo ws a) 0) i \<longleftrightarrow> (\<exists>j < ws. bit_index bo ws j = i \<and> bit a i)"
    using i by (auto simp: bit_add_bits word_bits_def one)
  also have "\<dots> \<longleftrightarrow> bit a i" using on hi ix by (metis not_less)
  finally show "bit (add_bits bo ws 0 (word_bits bo ws a) 0) i \<longleftrightarrow> bit a i" .
qed

definition sent_bits :: "int \<Rightarrow> nat \<Rightarrow> (u64 \<times> u64) list \<Rightarrow> (u8 \<times> u8) list" where
  "sent_bits bo ws words = concat (map (\<lambda>(a, b). zip (word_bits bo ws a) (word_bits bo ws b)) words)"

lemma collect_sent:
  assumes "\<forall>(a, b) \<in> set words. take_bit ws a = a \<and> take_bit ws b = b" and "0 < ws" and "ws \<le> 64"
  shows "collect bo ws 0 0 0 (sent_bits bo ws words) = (words, 0, 0, 0)"
  using assms(1)
proof (induction words)
  case (Cons w words)
  obtain a b where w: "w = (a, b)" by fastforce
  have "collect bo ws 0 0 0 (zip (word_bits bo ws a) (word_bits bo ws b) @ sent_bits bo ws words) = ((a, b) # words, 0, 0, 0)"
    using Cons assms(2,3) add_word_bits by (subst collect_word) (simp_all add: w)
  then show ?case by (simp add: sent_bits_def w)
qed (simp add: sent_bits_def)

section \<open>What one step does\<close>

fun spi_msg :: "out_call \<Rightarrow> (string \<times> c_field list) option" where
  "spi_msg (O_proto ss es n cmd fs) = (if cmd = ''DATA'' \<or> cmd = ''TRANSFER'' then Some (cmd, fs) else None)"
| "spi_msg _ = None"

text \<open>The messages about words and transfers.\<close>

definition spi_msgs :: "out_call list \<Rightarrow> (string \<times> c_field list) list" where
  "spi_msgs out = List.map_filter spi_msg out"

lemma spi_msgs_simps [simp]:
  "spi_msgs [] = []" "spi_msgs (c # cs) = (case spi_msg c of None \<Rightarrow> spi_msgs cs | Some m \<Rightarrow> m # spi_msgs cs)"
  "spi_msgs (cs @ ds) = spi_msgs cs @ spi_msgs ds"
  by (simp_all add: spi_msgs_def List.map_filter_def split: option.split)

lemma spi_msgs_anns [simp]: "spi_msgs (bit_anns have out cls ws l) = []" "spi_msgs (data_points sn edge s) = []"
  by (auto simp: bit_anns_def data_points_def spi_msgs_def List.map_filter_def)

definition spi_cfg :: "spi_s \<Rightarrow> bool \<times> bool \<times> bool \<times> int \<times> int \<times> int \<times> int \<times> nat" where
  "spi_cfg s = (sp_have_cs s, sp_have_miso s, sp_have_mosi s, sp_cpol s, sp_cpha s, sp_bit_order s, sp_cs_polarity s,
     sp_wordsize s)"

text \<open>Position and values of the word, first MOSI, then MISO.\<close>

definition spi_word :: "spi_s \<Rightarrow> nat \<times> u64 \<times> u64" where
  "spi_word s = (sp_bitcount s, sl_data (sp_mosi s), sl_data (sp_miso s))"

definition spi_bytes :: "spi_s \<Rightarrow> u64 list \<times> u64 list" where
  "spi_bytes s = (sl_bytes (sp_mosi s), sl_bytes (sp_miso s))"

definition data_msg :: "spi_s \<Rightarrow> u64 \<times> u64 \<Rightarrow> string \<times> c_field list" where
  "data_msg s w = (''DATA'', [C_BYTES (spi_flags s # le_bytes (if sp_have_mosi s then fst w else 0)
     @ le_bytes (if sp_have_miso s then snd w else 0))])"

lemma data_msg_cfg: "spi_cfg s = spi_cfg t \<Longrightarrow> data_msg s = data_msg t"
  by (simp add: spi_cfg_def data_msg_def spi_flags_def fun_eq_iff)

lemma asserted_cfg: "spi_cfg s = spi_cfg t \<Longrightarrow> spi_cs_asserted s = spi_cs_asserted t"
  by (simp add: spi_cfg_def spi_cs_asserted_def fun_eq_iff)

lemma edge_cfg: "spi_cfg s = spi_cfg t \<Longrightarrow> correct_edge s = correct_edge t"
  by (simp add: spi_cfg_def correct_edge_def fun_eq_iff)

lemma waits_cfg: "spi_cfg s = spi_cfg t \<Longrightarrow> spi_waits s = spi_waits t"
  by (simp add: spi_cfg_def spi_waits_def)

lemma line_bit_sel:
  assumes "\<not> have \<Longrightarrow> v = 0"
  shows "sl_data (line_bit have bo ws n sn v l) = sl_data l OR push_bit (bit_index bo ws n) (ucast v)"
    and "sl_bytes (line_bit have bo ws n sn v l) = sl_bytes l"
  using assms by (auto simp: line_bit_def bit_index_def Let_def)

definition add_word :: "bool \<Rightarrow> u64 list \<Rightarrow> u64 \<Rightarrow> u64 list" where
  "add_word have bs a = (if have \<and> length bs < 256 then bs @ [a] else bs)"

lemma spi_put_data_does:
  "spi_cfg (fst (spi_put_data s)) = spi_cfg s"
  "spi_bytes (fst (spi_put_data s)) = (add_word (sp_have_mosi s) (sl_bytes (sp_mosi s)) (sl_data (sp_mosi s)),
     add_word (sp_have_miso s) (sl_bytes (sp_miso s)) (sl_data (sp_miso s)))"
  "sp_ss_transfer (fst (spi_put_data s)) = sp_ss_transfer s"
  "spi_msgs (snd (spi_put_data s)) = [data_msg s (sl_data (sp_mosi s), sl_data (sp_miso s))]"
  by (simp_all add: spi_put_data_def Let_def split_beta spi_cfg_def spi_bytes_def append_word_def add_word_def
      MAX_TRANSFER_BYTES_def data_data_def data_msg_def)

lemma spi_reset_word_does:
  "spi_cfg (spi_reset_word s) = spi_cfg s" "spi_bytes (spi_reset_word s) = spi_bytes s"
  "sp_ss_transfer (spi_reset_word s) = sp_ss_transfer s" "spi_word (spi_reset_word s) = (0, 0, 0)"
  by (simp_all add: spi_reset_word_def spi_cfg_def spi_bytes_def spi_word_def)

lemma spi_word_done_does:
  assumes "spi_word s = (n, a, b)" and "spi_bytes s = (A, B)"
  shows "spi_cfg (fst (spi_word_done sn s)) = spi_cfg s \<and> spi_word (fst (spi_word_done sn s)) = (0, 0, 0)
    \<and> spi_bytes (fst (spi_word_done sn s)) = (add_word (sp_have_mosi s) A a, add_word (sp_have_miso s) B b)
    \<and> sp_ss_transfer (fst (spi_word_done sn s)) = sp_ss_transfer s
    \<and> spi_msgs (snd (spi_word_done sn s)) = [data_msg s (a, b)]"
proof -
  have v: "sl_data (sp_mosi s) = a" "sl_data (sp_miso s) = b" "sl_bytes (sp_mosi s) = A" "sl_bytes (sp_miso s) = B"
    using assms by (simp_all add: spi_word_def spi_bytes_def)
  obtain s1 out where p: "spi_put_data s = (s1, out)" by (rule prod.exhaust)
  from spi_put_data_does [of s] show ?thesis
    by (simp add: spi_word_done_def p v spi_reset_word_does)
qed

lemma spi_handle_bit_does:
  assumes w: "spi_word s = (n, a, b)" and bs: "spi_bytes s = (A, B)"
    and v: "\<not> sp_have_mosi s \<Longrightarrow> mosi = 0" "\<not> sp_have_miso s \<Longrightarrow> miso = 0"
    and a1: "a1 = a OR push_bit (bit_index (sp_bit_order s) (sp_wordsize s) n) (ucast mosi)"
    and b1: "b1 = b OR push_bit (bit_index (sp_bit_order s) (sp_wordsize s) n) (ucast miso)"
    and h: "spi_handle_bit sn miso mosi cs s = (s', out)"
  shows "spi_cfg s' = spi_cfg s \<and> sp_ss_transfer s' = sp_ss_transfer s
    \<and> (if Suc n = sp_wordsize s
       then spi_word s' = (0, 0, 0) \<and> spi_msgs out = [data_msg s (a1, b1)]
         \<and> spi_bytes s' = (add_word (sp_have_mosi s) A a1, add_word (sp_have_miso s) B b1)
       else spi_word s' = (Suc n, a1, b1) \<and> spi_msgs out = [] \<and> spi_bytes s' = (A, B))"
proof -
  have n: "sp_bitcount s = n" "sl_data (sp_mosi s) = a" "sl_data (sp_miso s) = b"
    "sl_bytes (sp_mosi s) = A" "sl_bytes (sp_miso s) = B" using w bs by (simp_all add: spi_word_def spi_bytes_def)
  define s1 where "s1 = (if n = 0 then s\<lparr>sp_ss_block := sn, sp_cs_was_deasserted := sp_have_cs s \<and> \<not> spi_cs_asserted s cs\<rparr> else s)"
  define s2 where "s2 = s1\<lparr>sp_miso := line_bit (sp_have_miso s) (sp_bit_order s) (sp_wordsize s) n sn miso (sp_miso s),
      sp_mosi := line_bit (sp_have_mosi s) (sp_bit_order s) (sp_wordsize s) n sn mosi (sp_mosi s), sp_bitcount := n + 1\<rparr>"
  have e: "spi_handle_bit sn miso mosi cs s = (if n + 1 \<noteq> sp_wordsize s then (s2, []) else spi_word_done sn s2)"
    by (simp add: spi_handle_bit_def Let_def n(1) s2_def s1_def)
  have c1: "spi_cfg s1 = spi_cfg s" "sp_ss_transfer s1 = sp_ss_transfer s" by (simp_all add: s1_def spi_cfg_def)
  have c2: "spi_cfg s2 = spi_cfg s" "sp_ss_transfer s2 = sp_ss_transfer s"
    using c1 by (simp_all add: s2_def spi_cfg_def)
  have w2: "spi_word s2 = (Suc n, a1, b1)" "spi_bytes s2 = (A, B)"
    using line_bit_sel [OF v(1)] line_bit_sel [OF v(2)] by (simp_all add: s2_def spi_word_def spi_bytes_def a1 b1 n)
  have hv: "sp_have_mosi s2 = sp_have_mosi s" "sp_have_miso s2 = sp_have_miso s" "data_msg s2 = data_msg s"
    using c2(1) data_msg_cfg [OF c2(1)] by (simp_all add: spi_cfg_def)
  obtain s3 o3 where d: "spi_word_done sn s2 = (s3, o3)" by (rule prod.exhaust)
  from spi_word_done_does [OF w2, of sn] c2 w2 h show ?thesis
    by (cases "Suc n = sp_wordsize s") (simp_all add: e d hv)
qed

section \<open>The samples of a selected chip\<close>

definition sampling :: "spi_s \<Rightarrow> nat \<times> u64 \<times> (int \<Rightarrow> u8) \<Rightarrow> bool" where
  "sampling s h = (case h of (k, m, x) \<Rightarrow> bit m 0 \<and> correct_edge s (x CH_CLK) \<noteq> 0)"

definition selected :: "spi_s \<Rightarrow> nat \<times> u64 \<times> (int \<Rightarrow> u8) \<Rightarrow> bool" where
  "selected s h = (case h of (k, m, x) \<Rightarrow> sp_have_cs s \<longrightarrow> \<not> bit m 1 \<and> spi_cs_asserted s (x CH_CS))"

text \<open>The levels of MOSI and MISO; a line that is not connected counts as low.\<close>

definition line_levels :: "spi_s \<Rightarrow> nat \<times> u64 \<times> (int \<Rightarrow> u8) \<Rightarrow> u8 \<times> u8" where
  "line_levels s h = (case h of (k, m, x) \<Rightarrow>
     (if sp_have_mosi s then x CH_MOSI else 0, if sp_have_miso s then x CH_MISO else 0))"

lemma spi_step_idle:
  assumes "selected s (k, m, x)" and "\<not> sampling s (k, m, x)"
  shows "spi_step sn m x s = (s, [])"
  using assms by (auto simp: spi_step_def selected_def sampling_def Let_def)

lemma spi_step_bit:
  assumes "selected s (k, m, x)" and "sampling s (k, m, x)" and "line_levels s (k, m, x) = (mosi, miso)"
  shows "\<exists>cs out0. spi_msgs out0 = [] \<and> spi_step sn m x s =
    (fst (spi_handle_bit sn miso mosi cs s), out0 @ snd (spi_handle_bit sn miso mosi cs s))"
  using assms
  by (intro exI [of _ "if sp_have_cs s then x CH_CS else 1"] exI [of _ "data_points sn (correct_edge s (x CH_CLK)) s"])
    (auto simp: spi_step_def selected_def sampling_def line_levels_def Let_def split_beta)

lemma cfg_levels:
  assumes "spi_cfg s = spi_cfg t"
  shows "line_levels s = line_levels t" "sampling s = sampling t" "selected s = selected t"
  using edge_cfg [OF assms] asserted_cfg [OF assms] assms
  by (auto simp: spi_cfg_def line_levels_def sampling_def selected_def fun_eq_iff)

lemma spi_window:
  assumes "run_hits spi_step hs s = (s', tr)" and "\<forall>h \<in> set hs. selected s h"
    and "spi_word s = (n, a, b)" and "n < sp_wordsize s" and "spi_bytes s = (A, B)"
    and "collect (sp_bit_order s) (sp_wordsize s) n a b (map (line_levels s) (filter (sampling s) hs)) = (ws, st)"
    and "length A \<le> 256" and "length B \<le> 256"
  shows "spi_cfg s' = spi_cfg s \<and> sp_ss_transfer s' = sp_ss_transfer s \<and> spi_word s' = st
    \<and> spi_msgs (concat (map snd tr)) = map (data_msg s) ws
    \<and> spi_bytes s' = (if sp_have_mosi s then take 256 (A @ map fst ws) else A,
          if sp_have_miso s then take 256 (B @ map snd ws) else B)"
  using assms
proof (induction hs arbitrary: s n a b A B ws tr)
  case (Cons h hs)
  obtain k m x where h: "h = (k, m, x)" by (cases h) auto
  obtain s1 out tr1 where s1: "spi_step (of_nat k) m x s = (s1, out)" and r: "run_hits spi_step hs s1 = (s', tr1)"
    and tr: "tr = (k, out) # tr1" by (rule run_hits_ConsE [OF Cons.prems(1) [unfolded h]])
  show ?case
  proof (cases "sampling s h")
    case False
    then have "s1 = s" "out = []" using spi_step_idle [of s k m x "of_nat k"] Cons.prems(2) s1 by (simp_all add: h)
    then show ?thesis using Cons.IH [OF r, of n a b A B ws] Cons.prems False by (simp add: tr)
  next
    case True
    obtain mosi miso where l: "line_levels s h = (mosi, miso)" by (rule prod.exhaust)
    then have low: "\<not> sp_have_mosi s \<Longrightarrow> mosi = 0" "\<not> sp_have_miso s \<Longrightarrow> miso = 0"
      by (auto simp: line_levels_def h)
    have sel: "selected s (k, m, x)" using Cons.prems(2) by (simp add: h)
    obtain cs out0 where o: "spi_msgs out0 = []" "s1 = fst (spi_handle_bit (of_nat k) miso mosi cs s)"
      "out = out0 @ snd (spi_handle_bit (of_nat k) miso mosi cs s)"
      using spi_step_bit [OF sel True [unfolded h] l [unfolded h], of "of_nat k"] s1 by auto
    obtain out1 where hb: "spi_handle_bit (of_nat k) miso mosi cs s = (s1, out1)" using o(2) by (metis surjective_pairing)
    let ?a = "a OR push_bit (bit_index (sp_bit_order s) (sp_wordsize s) n) (ucast mosi)"
    let ?b = "b OR push_bit (bit_index (sp_bit_order s) (sp_wordsize s) n) (ucast miso)"
    note d = spi_handle_bit_does [OF Cons.prems(3,5) low refl refl hb]
    then have cfg: "spi_cfg s1 = spi_cfg s" by blast
    note same = cfg_levels [OF cfg] data_msg_cfg [OF cfg]
    have cf: "sp_wordsize s1 = sp_wordsize s" "sp_bit_order s1 = sp_bit_order s" "sp_have_mosi s1 = sp_have_mosi s"
      "sp_have_miso s1 = sp_have_miso s" using cfg by (simp_all add: spi_cfg_def)
    show ?thesis
    proof (cases "Suc n = sp_wordsize s")
      case True
      then obtain ws1 where c: "collect (sp_bit_order s) (sp_wordsize s) 0 0 0 (map (line_levels s) (filter (sampling s) hs)) = (ws1, st)"
        "ws = (?a, ?b) # ws1"
        using Cons.prems(6) \<open>sampling s h\<close> l by (auto simp: Let_def split: prod.splits)
      have len: "length (add_word (sp_have_mosi s) A ?a) \<le> 256" "length (add_word (sp_have_miso s) B ?b) \<le> 256"
        using Cons.prems(7,8) by (simp_all add: add_word_def)
      have add: "take 256 (add_word True xs w @ ys) = take 256 (xs @ w # ys)" if "length xs \<le> 256" for xs ys and w :: u64
        using that by (cases "length xs = 256") (simp_all add: add_word_def)
      from Cons.IH [OF r _ _ _ _ c(1) [folded cf same], of "add_word (sp_have_mosi s) A ?a" "add_word (sp_have_miso s) B ?b"]
      show ?thesis
        using d True Cons.prems(2,4) c(2) len o(1,3) hb cf same add [OF Cons.prems(7)] add [OF Cons.prems(8)]
        by (auto simp: tr add_word_def [of False])
    next
      case False
      then have c: "collect (sp_bit_order s) (sp_wordsize s) (Suc n) ?a ?b (map (line_levels s) (filter (sampling s) hs)) = (ws, st)"
        using Cons.prems(6) \<open>sampling s h\<close> l by (simp add: Let_def)
      from Cons.IH [OF r _ _ _ _ c [folded cf same], of A B]
      show ?thesis
        using d False Cons.prems(2,4,7,8) o(1,3) hb cf same by (simp add: tr)
    qed
  qed
qed auto

section \<open>The edges of chip select\<close>

definition transfer_msg :: "spi_s \<Rightarrow> u64 list \<Rightarrow> u64 list \<Rightarrow> string \<times> c_field list" where
  "transfer_msg s mosi miso = (''TRANSFER'', [C_BYTES
     ([spi_flags s, of_nat (length mosi), of_nat (length mosi div 256), of_nat (length miso), of_nat (length miso div 256)]
       @ map ucast mosi @ map ucast miso)])"

lemma start_transfer_does:
  "spi_cfg (start_transfer sn s) = spi_cfg s" "spi_bytes (start_transfer sn s) = ([], [])"
  "sp_ss_transfer (start_transfer sn s) = sn"
  by (simp_all add: start_transfer_def spi_cfg_def spi_bytes_def)

lemma spi_step_select:
  assumes "sp_have_cs s" and "bit m 1" and "spi_cs_asserted s (x CH_CS)" and "\<not> sampling s (k, m, x)"
    and "spi_step sn m x s = (s', out)"
  shows "spi_cfg s' = spi_cfg s \<and> spi_word s' = (0, 0, 0) \<and> spi_bytes s' = ([], []) \<and> sp_ss_transfer s' = sn
    \<and> spi_msgs out = []"
proof -
  have "spi_step sn m x s = spi_cs_change sn (x CH_CS) s"
    using assms(1-4) by (auto simp: spi_step_def sampling_def Let_def split_beta)
  then have "s' = spi_reset_word (start_transfer sn s)" "spi_msgs out = []"
    using assms(3,5) by (auto simp: spi_cs_change_def Let_def)
  then show ?thesis by (simp add: spi_reset_word_does start_transfer_does)
qed

lemma spi_step_deselect:
  assumes "sp_have_cs s" and "bit m 1" and "\<not> spi_cs_asserted s (x CH_CS)" and "sp_ss_transfer s \<noteq> -1"
    and "spi_step sn m x s = (s', out)"
  shows "spi_cfg s' = spi_cfg s \<and> spi_word s' = (0, 0, 0) \<and> spi_msgs out =
    [transfer_msg s (if sp_have_mosi s then fst (spi_bytes s) else []) (if sp_have_miso s then snd (spi_bytes s) else [])]"
proof -
  have "spi_step sn m x s = spi_cs_change sn (x CH_CS) s"
    using assms(1-3) by (simp add: spi_step_def Let_def split_beta)
  then have "s' = spi_reset_word s" "spi_msgs out = spi_msgs (spi_put_transfer sn s)"
    using assms(3,4,5) by (auto simp: spi_cs_change_def Let_def)
  moreover have "spi_msgs (spi_put_transfer sn s) =
    [transfer_msg s (if sp_have_mosi s then fst (spi_bytes s) else []) (if sp_have_miso s then snd (spi_bytes s) else [])]"
    by (simp add: spi_put_transfer_def transfer_msg_def transfer_data_def spi_bytes_def line_bytes_def Let_def)
  ultimately show ?thesis by (simp add: spi_reset_word_does)
qed

lemma spi_cs_change_cfg: "spi_cfg (fst (spi_cs_change sn cs s)) = spi_cfg s"
  by (simp add: spi_cs_change_def Let_def spi_reset_word_does start_transfer_does)

lemma spi_handle_bit_cfg: "spi_cfg (fst (spi_handle_bit sn miso mosi cs s)) = spi_cfg s"
proof -
  have w: "spi_cfg (fst (spi_word_done sn t)) = spi_cfg t" for t
    using spi_word_done_does [of t "sp_bitcount t" "sl_data (sp_mosi t)" "sl_data (sp_miso t)"
        "sl_bytes (sp_mosi t)" "sl_bytes (sp_miso t)" sn] by (simp add: spi_word_def spi_bytes_def)
  define s1 where "s1 = (if sp_bitcount s = 0
    then s\<lparr>sp_ss_block := sn, sp_cs_was_deasserted := sp_have_cs s \<and> \<not> spi_cs_asserted s cs\<rparr> else s)"
  define s2 where "s2 = s1\<lparr>sp_miso := line_bit (sp_have_miso s) (sp_bit_order s) (sp_wordsize s) (sp_bitcount s) sn miso (sp_miso s),
      sp_mosi := line_bit (sp_have_mosi s) (sp_bit_order s) (sp_wordsize s) (sp_bitcount s) sn mosi (sp_mosi s),
      sp_bitcount := sp_bitcount s + 1\<rparr>"
  have e: "spi_handle_bit sn miso mosi cs s = (if sp_bitcount s + 1 \<noteq> sp_wordsize s then (s2, []) else spi_word_done sn s2)"
    by (simp add: spi_handle_bit_def Let_def s2_def s1_def)
  have "spi_cfg s1 = spi_cfg s" by (simp add: s1_def spi_cfg_def)
  then have c: "spi_cfg s2 = spi_cfg s" by (simp add: s2_def spi_cfg_def)
  show ?thesis by (cases "sp_bitcount s + 1 = sp_wordsize s") (simp_all only: e w c if_True if_False fst_conv simp_thms)
qed

lemma spi_step_cfg: "spi_cfg (fst (spi_step sn m x s)) = spi_cfg s"
proof -
  define cs where "cs = (if sp_have_cs s then x CH_CS else 1)"
  define miso where "miso = (if sp_have_miso s then x CH_MISO else 0)"
  define mosi where "mosi = (if sp_have_mosi s then x CH_MOSI else 0)"
  define p where "p = (if sp_have_cs s \<and> bit m 1 then spi_cs_change sn cs s else (s, []))"
  define q where "q = spi_handle_bit sn miso mosi cs (fst p)"
  have e: "fst (spi_step sn m x s) = fst p \<or> fst (spi_step sn m x s) = fst q"
    unfolding spi_step_def Let_def cs_def [symmetric] miso_def [symmetric] mosi_def [symmetric] p_def [symmetric] split_beta
      q_def [symmetric]
    by (simp only: if_distrib [of fst] fst_conv) argo
  have "spi_cfg (fst p) = spi_cfg s"
    unfolding p_def by (split if_split) (simp only: spi_cs_change_cfg fst_conv simp_thms)
  moreover from this have "spi_cfg (fst q) = spi_cfg s" by (simp only: q_def spi_handle_bit_cfg)
  ultimately show ?thesis using e by metis
qed

lemma spi_decode_sel [simp]: "prog_wait spi_decode = spi_waits" "prog_step spi_decode = spi_step"
  by (simp_all add: spi_decode_def)

lemma spi_run_wave:
  "run_wave spi_decode m k e old xs s = run_hits spi_step (hits (spi_waits s) k old xs) s"
proof -
  have l: "level_program spi_decode" unfolding level_program_def spi_decode_sel by (simp add: spi_waits_def)
  have w: "prog_wait spi_decode t = spi_waits s" if "spi_cfg t = spi_cfg s" for t
    using waits_cfg [OF that] by (simp only: spi_decode_sel)
  have c: "spi_cfg (fst (prog_step spi_decode pos m x t)) = spi_cfg s" if "spi_cfg t = spi_cfg s" for pos m x t
    by (simp only: spi_decode_sel spi_step_cfg that)
  have "run_edges spi_decode k old xs s = run_hits (prog_step spi_decode) (hits (spi_waits s) k old xs) s"
    by (rule run_edges_hits [where Q = "\<lambda>t. spi_cfg t = spi_cfg s", OF w c refl])
  then show ?thesis by (simp only: run_wave_edges [OF l] spi_decode_sel)
qed

section \<open>Transfers\<close>

text \<open>
  C36: In any mode, bit order and word size of 1 to 64 bits, with either polarity of chip select and
  with one or both data lines: over any waveform in which the chip is selected between two edges of
  CS, and the levels of the data lines at the sampling edges in between are the bits of some words,
  there is one message DATA with each of these words whole, in order, and then one message TRANSFER,
  which carries no more than the low byte of each word, and of the first 256 words only; the decoder
  is then at the start of a word again, whatever it held before.
\<close>

theorem spi_transfer_decoded:
  assumes cs: "sp_have_cs s" and ws: "0 < sp_wordsize s" "sp_wordsize s \<le> 64"
    and wave: "hits (spi_waits s) k old xs = (k0, m0, x0) # mid @ [(k1, m1, x1)]"
    and sel: "bit m0 1" "spi_cs_asserted s (x0 CH_CS)" "\<not> sampling s (k0, m0, x0)"
    and mid: "\<forall>h \<in> set mid. selected s h"
    and des: "bit m1 1" "\<not> spi_cs_asserted s (x1 CH_CS)"
    and bits: "map (line_levels s) (filter (sampling s) mid) = sent_bits (sp_bit_order s) (sp_wordsize s) words"
    and words: "\<forall>(a, b) \<in> set words. take_bit (sp_wordsize s) a = a \<and> take_bit (sp_wordsize s) b = b"
    and pos: "(of_nat k0 :: u64) \<noteq> -1"
    and run: "run_wave spi_decode m k e old xs s = (s', tr)"
  shows "spi_msgs (concat (map snd tr)) = map (data_msg s) words
      @ [transfer_msg s (if sp_have_mosi s then take 256 (map fst words) else [])
          (if sp_have_miso s then take 256 (map snd words) else [])]
    \<and> spi_word s' = (0, 0, 0) \<and> spi_cfg s' = spi_cfg s"
proof -
  have "run_hits spi_step ((k0, m0, x0) # mid @ [(k1, m1, x1)]) s = (s', tr)" using run by (simp add: spi_run_wave wave)
  then obtain s1 o1 t1 where e1: "spi_step (of_nat k0) m0 x0 s = (s1, o1)"
    and r1: "run_hits spi_step (mid @ [(k1, m1, x1)]) s1 = (s', t1)" and tr: "tr = (k0, o1) # t1" by (rule run_hits_ConsE)
  obtain s2 t2 t3 where r2: "run_hits spi_step mid s1 = (s2, t2)" and r3: "run_hits spi_step [(k1, m1, x1)] s2 = (s', t3)"
    and t1: "t1 = t2 @ t3" using r1 by (rule run_hits_appendE)
  obtain o3 where e3: "spi_step (of_nat k1) m1 x1 s2 = (s', o3)" and t3: "t3 = [(k1, o3)]"
    using run_hits_ConsE [OF r3] by (metis run_hits.simps(1) prod.inject)
  have a: "spi_cfg s1 = spi_cfg s" "spi_word s1 = (0, 0, 0)" "spi_bytes s1 = ([], [])" "sp_ss_transfer s1 = of_nat k0"
    "spi_msgs o1 = []" using spi_step_select [OF cs sel e1] by blast+
  note same = cfg_levels [OF a(1)] data_msg_cfg [OF a(1)]
  have cf: "sp_wordsize s1 = sp_wordsize s" "sp_bit_order s1 = sp_bit_order s" "sp_have_mosi s1 = sp_have_mosi s"
    "sp_have_miso s1 = sp_have_miso s" "sp_have_cs s1 = sp_have_cs s" using a(1) by (simp_all add: spi_cfg_def)
  have c: "collect (sp_bit_order s1) (sp_wordsize s1) 0 0 0 (map (line_levels s1) (filter (sampling s1) mid)) = (words, 0, 0, 0)"
    unfolding same cf bits by (rule collect_sent [OF words ws])
  have b: "spi_cfg s2 = spi_cfg s1" "sp_ss_transfer s2 = of_nat k0" "spi_word s2 = (0, 0, 0)"
    "spi_msgs (concat (map snd t2)) = map (data_msg s) words"
    "spi_bytes s2 = (if sp_have_mosi s then take 256 (map fst words) else [],
       if sp_have_miso s then take 256 (map snd words) else [])"
    using spi_window [OF r2 _ a(2) _ a(3) c] mid ws(1) a(4) cf same by auto
  have cfg2: "spi_cfg s2 = spi_cfg s" using a(1) b(1) by simp
  then have cf2: "sp_have_cs s2" "sp_have_mosi s2 = sp_have_mosi s" "sp_have_miso s2 = sp_have_miso s"
    "spi_flags s2 = spi_flags s" using cs by (simp_all add: spi_cfg_def spi_flags_def)
  have "spi_cfg s' = spi_cfg s2 \<and> spi_word s' = (0, 0, 0) \<and> spi_msgs o3 =
      [transfer_msg s2 (if sp_have_mosi s2 then fst (spi_bytes s2) else []) (if sp_have_miso s2 then snd (spi_bytes s2) else [])]"
    using spi_step_deselect [OF cf2(1) des(1) _ _ e3] des(2) asserted_cfg [OF cfg2] b(2) pos by simp
  then show ?thesis using a(5) b(4,5) cf2 cfg2 by (simp add: tr t1 t3 transfer_msg_def)
qed

section \<open>Calls and description\<close>

definition spi_outs :: "int \<Rightarrow> int \<Rightarrow> int \<Rightarrow> int \<Rightarrow> spi_s \<Rightarrow> bool" where
  "spi_outs a p b r s \<longleftrightarrow> sp_out_ann s = a \<and> sp_out_python s = p \<and> sp_out_binary s = b \<and> sp_out_bitrate s = r"

lemmas spi_classes = ANN_MISO_DATA_def ANN_MOSI_DATA_def ANN_MISO_BIT_def ANN_MOSI_BIT_def ANN_WARNING_def
  ANN_MISO_TRANSFER_def ANN_MOSI_TRANSFER_def ANN_ATK_DATA_POINT_def ANN_ATK_RISING_EDGE_def ANN_ATK_FALLING_EDGE_def

lemma spi_put_data_fits:
  "spi_outs a p b r s \<Longrightarrow> spi_outs a p b r (fst (spi_put_data s)) \<and> list_all (call_fits 10 2 a p b r) (snd (spi_put_data s))"
  by (auto simp: spi_outs_def spi_put_data_def Let_def split_beta bit_anns_def list_all_iff spi_classes)

lemma spi_word_done_fits:
  assumes "spi_outs a p b r s"
  shows "spi_outs a p b r (fst (spi_word_done sn s)) \<and> list_all (call_fits 10 2 a p b r) (snd (spi_word_done sn s))"
proof -
  obtain s1 out where d: "spi_put_data s = (s1, out)" by (rule prod.exhaust)
  show ?thesis
    using spi_put_data_fits [OF assms] assms
    by (simp add: spi_word_done_def d spi_outs_def spi_reset_word_def spi_classes)
qed

lemma spi_handle_bit_fits:
  assumes "spi_outs a p b r s"
  shows "spi_outs a p b r (fst (spi_handle_bit sn miso mosi cs s))
    \<and> list_all (call_fits 10 2 a p b r) (snd (spi_handle_bit sn miso mosi cs s))"
proof -
  define s1 where "s1 = (if sp_bitcount s = 0
    then s\<lparr>sp_ss_block := sn, sp_cs_was_deasserted := sp_have_cs s \<and> \<not> spi_cs_asserted s cs\<rparr> else s)"
  define s2 where "s2 = s1\<lparr>sp_miso := line_bit (sp_have_miso s) (sp_bit_order s) (sp_wordsize s) (sp_bitcount s) sn miso (sp_miso s),
      sp_mosi := line_bit (sp_have_mosi s) (sp_bit_order s) (sp_wordsize s) (sp_bitcount s) sn mosi (sp_mosi s),
      sp_bitcount := sp_bitcount s + 1\<rparr>"
  have e: "spi_handle_bit sn miso mosi cs s = (if sp_bitcount s + 1 \<noteq> sp_wordsize s then (s2, []) else spi_word_done sn s2)"
    by (simp add: spi_handle_bit_def Let_def s2_def s1_def)
  have "spi_outs a p b r s1" using assms by (simp add: s1_def spi_outs_def)
  then have o2: "spi_outs a p b r s2" by (simp add: s2_def spi_outs_def)
  show ?thesis
    unfolding e using o2 spi_word_done_fits [OF o2, of sn]
    by (cases "sp_bitcount s + 1 = sp_wordsize s") (simp_all only: if_True if_False simp_thms fst_conv snd_conv list.pred_inject(1))
qed

lemma spi_cs_change_fits:
  assumes "spi_outs a p b r s"
  shows "spi_outs a p b r (fst (spi_cs_change sn cs s)) \<and> list_all (call_fits 10 2 a p b r) (snd (spi_cs_change sn cs s))"
  using assms by (simp add: spi_cs_change_def Let_def spi_outs_def spi_reset_word_def start_transfer_def spi_put_transfer_def spi_classes)

lemma spi_step_fits:
  assumes "spi_outs a p b r s"
  shows "spi_outs a p b r (fst (spi_step sn m x s)) \<and> list_all (call_fits 10 2 a p b r) (snd (spi_step sn m x s))"
proof -
  define cs where "cs = (if sp_have_cs s then x CH_CS else 1)"
  define miso where "miso = (if sp_have_miso s then x CH_MISO else 0)"
  define mosi where "mosi = (if sp_have_mosi s then x CH_MOSI else 0)"
  obtain s1 o1 where c: "(if sp_have_cs s \<and> bit m 1 then spi_cs_change sn cs s else (s, [])) = (s1, o1)" by (rule prod.exhaust)
  obtain s2 o2 where h: "spi_handle_bit sn miso mosi cs s1 = (s2, o2)" by (rule prod.exhaust)
  have 1: "spi_outs a p b r s1" "list_all (call_fits 10 2 a p b r) o1"
    using c spi_cs_change_fits [OF assms, of sn cs] assms by (auto split: if_splits)
  then have 2: "spi_outs a p b r s2" "list_all (call_fits 10 2 a p b r) o2"
    using spi_handle_bit_fits [of a p b r s1 sn miso mosi cs] h by simp_all
  have d: "list_all (call_fits 10 2 a p b r) (data_points sn e s)" for e
    using assms by (simp add: data_points_def spi_outs_def spi_classes)
  have "spi_step sn m x s = (s1, o1) \<or> spi_step sn m x s = (s2, o1 @ data_points sn (correct_edge s (x CH_CLK)) s @ o2)"
    unfolding spi_step_def Let_def cs_def [symmetric] miso_def [symmetric] mosi_def [symmetric] c h prod.case by argo
  then show ?thesis using 1 2 d by (elim disjE) (simp_all only: fst_conv snd_conv list_all_append simp_thms)
qed

interpretation spi: program_contract spi_decode "spi_outs a p b r" "call_fits 10 2 a p b r" for a p b r
  by unfold_locales (simp_all only: spi_decode_sel spi_step_fits)

section \<open>Examples\<close>

text \<open>Levels of CLK, MISO, MOSI and CS.\<close>

definition spi_pins :: "u8 \<Rightarrow> u8 \<Rightarrow> u8 \<Rightarrow> u8 \<Rightarrow> int \<Rightarrow> u8" where
  "spi_pins clk miso mosi cs ch = (if ch = CH_CLK then clk else if ch = CH_MISO then miso else if ch = CH_MOSI then mosi else cs)"

definition example_spi :: "bool \<Rightarrow> spi_s" where
  "example_spi cs = spi_reset\<lparr>sp_have_cs := cs, sp_have_miso := True, sp_have_mosi := True, sp_wordsize := 2, sp_bw := 1\<rparr>"

text \<open>Two bits: 10 on MOSI, 01 on MISO.\<close>

definition example_spi_wave :: "(int \<Rightarrow> u8) list" where
  "example_spi_wave = [spi_pins 0 0 1 0, spi_pins 1 0 1 0, spi_pins 0 1 0 0, spi_pins 1 1 0 0, spi_pins 0 1 0 0, spi_pins 0 0 0 1]"

lemma spi_transfer_decoded_witness:
  "\<exists>s' tr. run_wave spi_decode False 0 0 (spi_pins 0 0 0 1) example_spi_wave (example_spi True) = (s', tr)
     \<and> spi_msgs (concat (map snd tr)) = map (data_msg (example_spi True)) [(2, 1)] @ [transfer_msg (example_spi True) [2] [1]]"
proof -
  let ?s = "example_spi True" and ?old = "spi_pins 0 0 0 1"
  obtain s' tr where run: "run_wave spi_decode False 0 0 ?old example_spi_wave ?s = (s', tr)" by fastforce
  have c: "sp_have_cs ?s" "sp_wordsize ?s = 2" "sp_bit_order ?s = 0" "sp_have_mosi ?s" "sp_have_miso ?s"
    "sp_cpol ?s = 0" "sp_cpha ?s = 0" "sp_cs_polarity ?s = 0" by (simp_all add: example_spi_def spi_reset_def)
  note ch = CH_CLK_def CH_MISO_def CH_MOSI_def CH_CS_def
  have w: "hits (spi_waits ?s) 0 ?old example_spi_wave = (0, 2, spi_pins 0 0 1 0)
      # [(1, 1, spi_pins 1 0 1 0), (2, 1, spi_pins 0 1 0 0), (3, 1, spi_pins 1 1 0 0), (4, 1, spi_pins 0 1 0 0)]
      @ [(5, 2, spi_pins 0 0 0 1)]"
    by (auto simp: example_spi_wave_def spi_waits_def c spi_pins_def ch Let_def match_bit_def)
  have d: "spi_cs_asserted ?s v \<longleftrightarrow> v = 0" for v by (simp add: spi_cs_asserted_def c)
  have e: "correct_edge ?s v = (if v = 1 then 1 else 0)" for v by (simp add: correct_edge_def c)
  have "sent_bits 0 2 [(2, 1)] = [(1, 0), (0, 1)]"
    by (simp add: sent_bits_def word_bits_def bit_index_def numeral_2_eq_2)
  then show ?thesis
    using spi_transfer_decoded [OF c(1) _ _ w _ _ _ _ _ _ _ _ _ run, of "[(2, 1)]"] run c
    by (simp add: d e sampling_def selected_def line_levels_def spi_pins_def ch take_bit_eq_mod)
qed

text \<open>
  Without chip select the first edge of the clock only ends the first wait: the bit that is sampled
  there in mode 0 is not seen, and each word has the last bits of one byte and the first of the next.
\<close>

lemma spi_first_does_nothing: "\<not> sp_have_cs s \<Longrightarrow> spi_first sn pins s = (s, [])"
  by (simp add: spi_first_def)

text \<open>The warning needs a bit while the chip is not selected, which is not taken.\<close>

lemma spi_not_selected: "sp_have_cs s \<Longrightarrow> \<not> spi_cs_asserted s (x CH_CS) \<Longrightarrow> \<not> bit m 1 \<Longrightarrow> spi_step sn m x s = (s, [])"
  by (simp add: spi_step_def Let_def)

end
