(* ===== verification/Uart.thy ===== *)
theory Uart
  imports Clocked
begin

text \<open>
  c_decoders/uart_c.c: the UART decoder. Each of the two lines has its own position in the frame;
  the wait is for the next sample point of each line, for its edges and for the end of an idle
  period. Times are computed in the reals.
\<close>

section \<open>State\<close>

definition RX :: nat where "RX = 0"
definition TX :: nat where "TX = 1"
definition IDLE_NUM_WITHOUT_GROWTH :: nat where "IDLE_NUM_WITHOUT_GROWTH = 2"

definition RX_WARN :: int where "RX_WARN = 0"
definition RX_DATA :: int where "RX_DATA = 2"
definition RX_START :: int where "RX_START = 4"
definition RX_PARITY_OK :: int where "RX_PARITY_OK = 6"
definition RX_PARITY_ERR :: int where "RX_PARITY_ERR = 8"
definition RX_STOP :: int where "RX_STOP = 10"
definition RX_DATA_BIT :: int where "RX_DATA_BIT = 12"
definition RX_BREAK :: int where "RX_BREAK = 14"
definition RX_PACKET :: int where "RX_PACKET = 16"
definition RX_SAMPLES :: int where "RX_SAMPLES = 18"
definition ATK_POINT :: int where "ATK_POINT = 20"

definition BIN_RX :: int where "BIN_RX = 0"
definition BIN_RXTX :: int where "BIN_RXTX = 2"
definition BIN_RX_OK :: int where "BIN_RX_OK = 3"
definition BIN_RXTX_OK :: int where "BIN_RXTX_OK = 5"

lemmas uart_classes = RX_WARN_def RX_DATA_def RX_START_def RX_PARITY_OK_def RX_PARITY_ERR_def RX_STOP_def RX_DATA_BIT_def
  RX_BREAK_def RX_PACKET_def RX_SAMPLES_def ATK_POINT_def BIN_RX_def BIN_RXTX_def BIN_RX_OK_def BIN_RXTX_OK_def

datatype uart_state = WAIT_FOR_START_BIT | GET_START_BIT | GET_DATA_BITS | GET_PARITY_BIT | GET_STOP_BITS

datatype uart_parity = PARITY_NONE | PARITY_ODD | PARITY_EVEN | PARITY_ZERO | PARITY_ONE | PARITY_IGNORE

record sm_step =
  sm_state :: uart_state
  rel_ss :: int
  rel_samplenum :: int
  rel_es :: int

record data_bit_entry =
  bit_val :: int
  db_ss :: u64
  db_es :: u64

text \<open>The fields that the source has twice, indexed by the line.\<close>

record uart_line =
  ul_state :: uart_state
  ul_state_num :: nat
  ul_frame_start :: u64
  ul_frame_valid :: bool
  ul_datavalue :: int
  ul_paritybit :: int
  ul_databits :: "data_bit_entry list"
  ul_stopbits :: "int list"
  ul_break_start :: u64
  ul_break_start_valid :: bool
  ul_idle_start :: u64
  ul_idle_start_valid :: bool
  ul_idle_num :: nat
  ul_packet_data :: "int list"
  ul_packet_valid :: bool
  ul_ss_packet :: u64
  ul_es_packet :: u64
  ul_delim :: int
  ul_plen :: int

record uart_s =
  ua_line :: "nat \<Rightarrow> uart_line"
  ua_samplerate :: u64
  ua_baudrate :: real
  ua_data_bits :: int
  ua_stop_bits :: real
  ua_parity_type :: uart_parity
  ua_msb_first :: bool
  ua_format :: int
  ua_invert :: "nat \<Rightarrow> bool"
  ua_put_sample_points :: bool
  ua_show_start_stop :: bool
  ua_show_data_point :: bool
  ua_bit_width :: real
  ua_bit_samplenum :: real
  ua_sample_point_pct :: real
  ua_state_machine :: "sm_step list"
  ua_data_bounds :: "int \<times> int"
  ua_idle_num_max :: nat
  ua_break_min_samples :: u64
  ua_frame_len_samples_int :: u64
  ua_packet_idle_us :: real
  ua_packet_idle_samples :: u64
  ua_packet_enabled :: bool
  ua_bw :: nat
  ua_has_pin :: "nat \<Rightarrow> bool"
  ua_out_ann :: int
  ua_out_python :: int
  ua_out_binary :: int

definition uart_line0 :: uart_line where
  "uart_line0 = \<lparr>ul_state = WAIT_FOR_START_BIT, ul_state_num = 0, ul_frame_start = 0, ul_frame_valid = False,
     ul_datavalue = 0, ul_paritybit = 0, ul_databits = [], ul_stopbits = [], ul_break_start = 0,
     ul_break_start_valid = False, ul_idle_start = 0, ul_idle_start_valid = False, ul_idle_num = 0,
     ul_packet_data = [], ul_packet_valid = False, ul_ss_packet = 0, ul_es_packet = 0, ul_delim = 0, ul_plen = 0\<rparr>"

definition uart_reset :: uart_s where
  "uart_reset = \<lparr>ua_line = (\<lambda>_. uart_line0), ua_samplerate = 0, ua_baudrate = 0, ua_data_bits = 0, ua_stop_bits = 0,
     ua_parity_type = PARITY_NONE, ua_msb_first = False, ua_format = 0, ua_invert = (\<lambda>_. False),
     ua_put_sample_points = False, ua_show_start_stop = False, ua_show_data_point = False, ua_bit_width = 0,
     ua_bit_samplenum = 0, ua_sample_point_pct = 0, ua_state_machine = [], ua_data_bounds = (0, 0),
     ua_idle_num_max = 0, ua_break_min_samples = 0, ua_frame_len_samples_int = 0, ua_packet_idle_us = 0,
     ua_packet_idle_samples = 0, ua_packet_enabled = False, ua_bw = 0, ua_has_pin = (\<lambda>_. False), ua_out_ann = 0,
     ua_out_python = 0, ua_out_binary = 0\<rparr>"

definition upd_line :: "nat \<Rightarrow> (uart_line \<Rightarrow> uart_line) \<Rightarrow> uart_s \<Rightarrow> uart_s" where
  "upd_line t f s = s\<lparr>ua_line := (ua_line s)(t := f (ua_line s t))\<rparr>"

section \<open>The state machine of a frame\<close>

definition parity_ok :: "uart_parity \<Rightarrow> int \<Rightarrow> int \<Rightarrow> int \<Rightarrow> bool" where
  "parity_ok ptype parity_bit data data_bits =
     (if ptype = PARITY_IGNORE then True
      else if ptype = PARITY_ZERO then parity_bit = 0
      else if ptype = PARITY_ONE then parity_bit = 1
      else let ones = int (length (filter (bit data) [0..<nat data_bits])) + parity_bit
           in if ptype = PARITY_ODD then ones mod 2 = 1
              else if ptype = PARITY_EVEN then ones mod 2 = 0 else True)"

text \<open>\<^verbatim>\<open>round()\<close>: halves go away from zero.\<close>

definition c_round :: "real \<Rightarrow> int" where
  "c_round x = (if x < 0 then - \<lfloor>1 / 2 - x\<rfloor> else \<lfloor>x + 1 / 2\<rfloor>)"

definition get_bit_bounds :: "real \<Rightarrow> real \<Rightarrow> nat \<Rightarrow> bool \<Rightarrow> uart_state \<Rightarrow> sm_step" where
  "get_bit_bounds bit_width bit_samplenum bit_num half_bit st =
     (let ss = real bit_num * bit_width
      in if \<not> half_bit
         then \<lparr>sm_state = st, rel_ss = c_round ss, rel_samplenum = c_round (ss + bit_samplenum), rel_es = c_round (ss + bit_width)\<rparr>
         else \<lparr>sm_state = st, rel_ss = c_round ss, rel_samplenum = c_round (ss + bit_samplenum * (1 / 2)),
               rel_es = c_round (ss + bit_width * (1 / 2))\<rparr>)"

function stop_steps :: "real \<Rightarrow> real \<Rightarrow> nat \<Rightarrow> real \<Rightarrow> sm_step list" where
  "stop_steps bw bsn num remaining =
     (if 9 / 10 < remaining then get_bit_bounds bw bsn num False GET_STOP_BITS # stop_steps bw bsn (Suc num) (remaining - 1)
      else if 4 / 10 < remaining then [get_bit_bounds bw bsn num True GET_STOP_BITS] else [])"
  by pat_completeness auto
termination by (relation "measure (\<lambda>(_, _, _, r). nat \<lceil>r\<rceil>)") (auto simp: nat_less_iff)

declare stop_steps.simps [simp del]

definition wait_step :: sm_step where
  "wait_step = \<lparr>sm_state = WAIT_FOR_START_BIT, rel_ss = 0, rel_samplenum = 0, rel_es = 0\<rparr>"

definition init_state_machine :: "uart_s \<Rightarrow> uart_s" where
  "init_state_machine s =
     (let bounds = get_bit_bounds (ua_bit_width s) (ua_bit_samplenum s);
          start = bounds 0 False GET_START_BIT; n = nat (ua_data_bits s);
          data = map (\<lambda>i. bounds (i + 1) False GET_DATA_BITS) [0..<n];
          parity = (if ua_parity_type s \<noteq> PARITY_NONE then [bounds (1 + n) False GET_PARITY_BIT] else []);
          stop = stop_steps (ua_bit_width s) (ua_bit_samplenum s) (1 + n + length parity) (ua_stop_bits s);
          s1 = s\<lparr>ua_state_machine := [wait_step, start] @ data @ parity @ stop @ [wait_step],
                 ua_data_bounds := (rel_es start, rel_es (last ([wait_step, start] @ data)))\<rparr>;
          restart = (\<lambda>l. l\<lparr>ul_state := WAIT_FOR_START_BIT, ul_state_num := 0\<rparr>)
      in upd_line TX restart (upd_line RX restart s1))"

section \<open>Texts\<close>

definition format_value :: "uart_s \<Rightarrow> int \<Rightarrow> nat \<Rightarrow> string" where
  "format_value s v out_size = snprintf out_size
     (if ua_format s = 1
      then if 32 \<le> v \<and> v \<le> 126 then [char_of (nat v)]
           else if ua_data_bits s \<le> 8 then ''['' @ fmt_num 16 2 (nat v) @ '']'' else ''['' @ fmt_num 16 3 (nat v) @ '']''
      else if ua_format s = 2 then fmt_int v
      else if ua_format s = 3 then fmt_num 8 (nat ((ua_data_bits s + 3 - 1) div 3)) (nat v)
      else if ua_format s = 4 then fmt_num 2 (nat (ua_data_bits s)) (nat v)
      else fmt_num 16 (nat ((ua_data_bits s + 4 - 1) div 4)) (nat v))"

text \<open>The loop stops when the buffer of 8192 bytes is nearly full.\<close>

fun packet_text :: "uart_s \<Rightarrow> int list \<Rightarrow> string \<Rightarrow> bool \<Rightarrow> string" where
  "packet_text s [] acc first = acc"
| "packet_text s (d # ds) acc first =
     (if \<not> length acc < 8192 - 16 then acc
      else let acc1 = acc @ (if \<not> first \<and> ua_format s \<noteq> 1 then '' '' else []); v = format_value s d 32
           in if 8192 \<le> length acc1 + length v then acc1 else packet_text s ds (acc1 @ v) False)"

section \<open>Frames and packets\<close>

text \<open>A span relative to the start of the frame.\<close>

definition frame_bit_bounds :: "uart_s \<Rightarrow> nat \<Rightarrow> u64 \<times> u64" where
  "frame_bit_bounds s t = (let l = ua_line s t; step = ua_state_machine s ! ul_state_num l
     in (ul_frame_start l + of_int (rel_ss step), ul_frame_start l + of_int (rel_es step)))"

definition frame_data_bounds :: "uart_s \<Rightarrow> nat \<Rightarrow> u64 \<times> u64" where
  "frame_data_bounds s t = (ul_frame_start (ua_line s t) + of_int (fst (ua_data_bounds s)),
     ul_frame_start (ua_line s t) + of_int (snd (ua_data_bounds s)))"

definition get_sample_point :: "uart_s \<Rightarrow> nat \<Rightarrow> u64" where
  "get_sample_point s t = ul_frame_start (ua_line s t)
     + of_int (rel_samplenum (ua_state_machine s ! ul_state_num (ua_line s t)))"

definition frame_bytes :: "nat \<Rightarrow> int \<Rightarrow> u8 list" where
  "frame_bytes bw v = map (\<lambda>i. of_int (drop_bit (8 * (bw - 1 - i)) v)) [0..<bw]"

definition handle_frame :: "nat \<Rightarrow> u64 \<Rightarrow> u64 \<Rightarrow> uart_s \<Rightarrow> out_call list" where
  "handle_frame t ss es s =
     (let l = ua_line s t; bdata = frame_bytes (ua_bw s) (ul_datavalue l)
      in [O_proto ss es (ua_out_python s) ''FRAME''
            [C_I32 (of_nat t), C_U8 (of_int (ul_datavalue l)), C_I32 (if ul_frame_valid l then 1 else 0)],
          O_bin ss es (ua_out_binary s) (BIN_RX + int t) bdata,
          O_bin ss es (ua_out_binary s) BIN_RXTX bdata]
       @ (if ul_frame_valid l then [O_bin ss es (ua_out_binary s) (BIN_RX_OK + int t) bdata,
          O_bin ss es (ua_out_binary s) BIN_RXTX_OK bdata] else []))"

definition handle_packet :: "nat \<Rightarrow> uart_s \<Rightarrow> uart_s \<times> out_call list" where
  "handle_packet t s =
     (let l = ua_line s t
      in if ul_packet_data l = [] then (s, [])
         else (upd_line t (\<lambda>l. l\<lparr>ul_packet_data := []\<rparr>) s,
           [O_put (ul_ss_packet l) (ul_es_packet l) (ua_out_ann s) (RX_PACKET + int t) [packet_text s (ul_packet_data l) [] True],
            O_proto (ul_ss_packet l) (ul_es_packet l) (ua_out_python s) ''PACKET''
              [C_I32 (of_nat t), C_U8 (if ul_packet_valid l then 1 else 0)]]))"

definition handle_packet_idle :: "nat \<Rightarrow> u64 \<Rightarrow> uart_s \<Rightarrow> uart_s \<times> out_call list" where
  "handle_packet_idle t idle_end_sample s =
     (let l = ua_line s t
      in if ul_packet_data l = [] \<or> ua_packet_idle_samples s = 0 then (s, [])
         else if ul_es_packet l + ua_packet_idle_samples s \<le> idle_end_sample then handle_packet t s else (s, []))"

definition get_packet_data :: "nat \<Rightarrow> u64 \<Rightarrow> uart_s \<Rightarrow> uart_s \<times> out_call list" where
  "get_packet_data t frame_end_sample s =
     (let l = ua_line s t
      in if \<not> ua_packet_enabled s then (s, [])
         else if ul_delim l < 0 \<and> ul_plen l < 0 \<and> ua_packet_idle_samples s = 0 then (s, [])
         else
           let l1 = (if ul_packet_data l = [] then l\<lparr>ul_packet_valid := ul_frame_valid l, ul_ss_packet := ul_frame_start l\<rparr>
                     else if \<not> ul_frame_valid l then l\<lparr>ul_packet_valid := False\<rparr> else l);
               l2 = l1\<lparr>ul_packet_data := ul_packet_data l1 @ [ul_datavalue l1], ul_es_packet := frame_end_sample\<rparr>;
               s1 = upd_line t (\<lambda>_. l2) s
           in if 0 \<le> ul_delim l2 \<and> ul_datavalue l2 = ul_delim l2 then handle_packet t s1
              else if 0 < ul_plen l2 \<and> ul_plen l2 \<le> int (length (ul_packet_data l2)) then handle_packet t s1
              else (s1, []))"

definition reset_data_receive :: "nat \<Rightarrow> uart_s \<Rightarrow> uart_s" where
  "reset_data_receive t = upd_line t (\<lambda>l. l\<lparr>ul_datavalue := 0, ul_paritybit := -1, ul_databits := [], ul_stopbits := []\<rparr>)"

text \<open>The bits of a value, in the order of the option.\<close>

fun data_value :: "bool \<Rightarrow> int \<Rightarrow> nat \<Rightarrow> data_bit_entry list \<Rightarrow> int" where
  "data_value msb n i [] = 0"
| "data_value msb n i (e # es) =
     push_bit (if msb then nat (n - 1 - int i) else i) (bit_val e) OR data_value msb n (Suc i) es"

definition handle_data :: "nat \<Rightarrow> uart_s \<Rightarrow> uart_s \<times> out_call list" where
  "handle_data t s =
     (let b = data_value (ua_msb_first s) (ua_data_bits s) 0 (ul_databits (ua_line s t)); (ss, es) = frame_data_bounds s t
      in (upd_line t (\<lambda>l. l\<lparr>ul_datavalue := b, ul_databits := []\<rparr>) s,
          [O_proto ss es (ua_out_python s) ''DATA'' [C_U8 (of_int b), C_I32 (of_nat t)],
           O_put ss es (ua_out_ann s) (RX_DATA + int t) [format_value s b 32]]))"

definition handle_idle :: "nat \<Rightarrow> u64 \<Rightarrow> u64 \<Rightarrow> uart_s \<Rightarrow> uart_s \<times> out_call list" where
  "handle_idle t ss es s =
     (let (s1, out) = handle_packet_idle t es (upd_line t (\<lambda>l. l\<lparr>ul_idle_num := Suc (ul_idle_num l)\<rparr>) s)
      in (s1, O_proto ss es (ua_out_python s) ''IDLE'' [C_I32 (of_nat t), C_U8 0] # out))"

definition handle_break :: "nat \<Rightarrow> u64 \<Rightarrow> u64 \<Rightarrow> uart_s \<Rightarrow> out_call list" where
  "handle_break t ss es s =
     [O_proto ss es (ua_out_python s) ''BREAK'' [C_I32 (of_nat t), C_U8 0],
      O_put ss es (ua_out_ann s) (RX_BREAK + int t) [''Break condition'', ''Break'', ''Brk'', ''B'']]"

section \<open>The sample points\<close>

text \<open>The number of the current sample is \<open>sn\<close>.\<close>

definition advance_state_machine :: "u64 \<Rightarrow> nat \<Rightarrow> bool \<Rightarrow> bool \<Rightarrow> uart_s \<Rightarrow> uart_s \<times> out_call list" where
  "advance_state_machine sn t startbit_error stopbit_error s =
     (let s1 = (if startbit_error \<or> stopbit_error
                then upd_line t (\<lambda>l. l\<lparr>ul_state := WAIT_FOR_START_BIT, ul_state_num := 0\<rparr>) s
                else upd_line t (\<lambda>l. l\<lparr>ul_state := sm_state (ua_state_machine s ! Suc (ul_state_num l)),
                       ul_state_num := Suc (ul_state_num l)\<rparr>) s)
      in if startbit_error
         then (upd_line t (\<lambda>l. l\<lparr>ul_idle_start := sn, ul_idle_start_valid := True\<rparr>) s1, [])
         else if ul_state (ua_line s1 t) \<noteq> WAIT_FOR_START_BIT then (s1, [])
         else
           let frame_ss = ul_frame_start (ua_line s1 t);
               frame_es = (if \<not> stopbit_error then frame_ss + ua_frame_len_samples_int s1 else sn);
               s2 = upd_line t (\<lambda>l. if \<not> stopbit_error
                      then l\<lparr>ul_state_num := 0, ul_idle_start := frame_es, ul_idle_start_valid := True\<rparr>
                      else l\<lparr>ul_state_num := 0, ul_idle_start_valid := False\<rparr>) s1;
               (s3, out) = get_packet_data t frame_es s2
           in (s3, handle_frame t frame_ss frame_es s2 @ out))"

definition wait_for_start_bit :: "u64 \<Rightarrow> nat \<Rightarrow> uart_s \<Rightarrow> uart_s \<times> out_call list" where
  "wait_for_start_bit sn t s =
     advance_state_machine sn t False False (upd_line t (\<lambda>l. l\<lparr>ul_frame_start := sn, ul_frame_valid := True\<rparr>) s)"

definition get_start_bit :: "u64 \<Rightarrow> nat \<Rightarrow> int \<Rightarrow> uart_s \<Rightarrow> uart_s \<times> out_call list" where
  "get_start_bit sn t signal s =
     (let (ss, es) = frame_bit_bounds s t; py = ua_out_python s; ann = ua_out_ann s
      in if signal \<noteq> 0
         then let s1 = upd_line t (\<lambda>l. l\<lparr>ul_frame_valid := False\<rparr>) s; (s2, out) = advance_state_machine sn t True False s1
              in (s2, [O_proto ss sn py ''INVALID STARTBIT'' [C_I32 (of_nat t), C_U8 (of_int signal)],
                       O_put ss sn ann (RX_WARN + int t) [''Start bit error'', ''Start err'', ''SE'']]
                    @ handle_frame t ss sn s1 @ out)
         else let (s1, out) = advance_state_machine sn t False False s
              in (reset_data_receive t s1,
                  [O_proto ss es py ''STARTBIT'' [C_I32 (of_nat t), C_U8 (of_int signal)]]
                  @ (if ua_show_start_stop s then [O_put ss es ann (RX_START + int t) [''Start bit'', ''Start'', ''S'']] else [])
                  @ out))"

definition get_data_bits :: "u64 \<Rightarrow> nat \<Rightarrow> int \<Rightarrow> uart_s \<Rightarrow> uart_s \<times> out_call list" where
  "get_data_bits sn t signal s =
     (let (ss, es) = frame_bit_bounds s t;
          center = ss + of_int \<lfloor>ua_bit_width s / 2\<rfloor>;
          out1 = O_put ss es (ua_out_ann s) (RX_DATA_BIT + int t) [snprintf 16 (fmt_int signal)]
            # (if ua_show_data_point s then [O_put center center (ua_out_ann s) ATK_POINT [snprintf 4 (fmt_int (int t))]] else []);
          s1 = upd_line t (\<lambda>l. l\<lparr>ul_databits := ul_databits l @ [\<lparr>bit_val = signal, db_ss = ss, db_es = es\<rparr>]\<rparr>) s;
          (s2, out2) = (if int (length (ul_databits (ua_line s1 t))) = ua_data_bits s then handle_data t s1 else (s1, []));
          (s3, out3) = advance_state_machine sn t False False s2
      in (s3, out1 @ out2 @ out3))"

definition get_parity_bit :: "u64 \<Rightarrow> nat \<Rightarrow> int \<Rightarrow> uart_s \<Rightarrow> uart_s \<times> out_call list" where
  "get_parity_bit sn t signal s =
     (let s1 = upd_line t (\<lambda>l. l\<lparr>ul_paritybit := signal\<rparr>) s; (ss, es) = frame_bit_bounds s1 t; py = ua_out_python s; ann = ua_out_ann s;
          (s2, out) = (if parity_ok (ua_parity_type s) signal (ul_datavalue (ua_line s t)) (ua_data_bits s)
            then (s1, [O_proto ss es py ''PARITYBIT'' [C_I32 (of_nat t), C_U8 (of_int signal)],
                       O_put ss es ann (RX_PARITY_OK + int t) [''Parity bit'', ''Parity'', ''P'']])
            else (upd_line t (\<lambda>l. l\<lparr>ul_frame_valid := False\<rparr>) s1,
                  [O_proto ss es py ''PARITY ERROR'' [C_I32 (of_nat t), C_U8 (if signal = 0 then 1 else 0), C_U8 (if signal \<noteq> 0 then 1 else 0)],
                   O_put ss es ann (RX_PARITY_ERR + int t) [''Parity error'', ''Parity err'', ''PE'']]));
          (s3, out3) = advance_state_machine sn t False False s2
      in (s3, out @ out3))"

definition get_stop_bits :: "u64 \<Rightarrow> nat \<Rightarrow> int \<Rightarrow> uart_s \<Rightarrow> uart_s \<times> out_call list" where
  "get_stop_bits sn t signal s =
     (let s1 = upd_line t (\<lambda>l. l\<lparr>ul_stopbits := ul_stopbits l @ [signal]\<rparr>) s; (ss, es0) = frame_bit_bounds s1 t;
          err = (signal \<noteq> 1); es = (if err then sn else es0); py = ua_out_python s; ann = ua_out_ann s;
          (s2, out) = (if err
            then (upd_line t (\<lambda>l. l\<lparr>ul_frame_valid := False\<rparr>) s1,
                  [O_proto ss es py ''INVALID STOPBIT'' [C_I32 (of_nat t), C_U8 (of_int signal)],
                   O_put ss es ann (RX_WARN + int t) [''Stop bit error'', ''Stop err'', ''TE'']])
            else (s1, if ua_show_start_stop s then [O_put ss es ann (RX_STOP + int t) [''Stop bit'', ''Stop'', ''T'']] else []));
          (s3, out3) = advance_state_machine sn t False err s2
      in (s3, out @ [O_proto ss es py ''STOPBIT'' [C_I32 (of_nat t), C_U8 (of_int signal)]] @ out3))"

definition inspect_sample :: "u64 \<Rightarrow> nat \<Rightarrow> int \<Rightarrow> uart_s \<Rightarrow> uart_s \<times> out_call list" where
  "inspect_sample sn t signal s =
     (let (s1, out) = (case ul_state (ua_line s t) of
            WAIT_FOR_START_BIT \<Rightarrow> (let (s2, out2) = handle_packet_idle t sn s; (s3, out3) = wait_for_start_bit sn t s2
                                   in (s3, out2 @ out3))
          | GET_START_BIT \<Rightarrow> get_start_bit sn t signal s
          | GET_DATA_BITS \<Rightarrow> get_data_bits sn t signal s
          | GET_PARITY_BIT \<Rightarrow> get_parity_bit sn t signal s
          | GET_STOP_BITS \<Rightarrow> get_stop_bits sn t signal s)
      in (s1, out @ (if ua_put_sample_points s1 \<and> ul_state (ua_line s1 t) \<noteq> WAIT_FOR_START_BIT
            then [O_put sn sn (ua_out_ann s1) (RX_SAMPLES + int t) [snprintf 4 (fmt_int signal)]] else [])))"

section \<open>Edges and idle periods\<close>

definition inspect_edge :: "u64 \<Rightarrow> nat \<Rightarrow> int \<Rightarrow> uart_s \<Rightarrow> uart_s \<times> out_call list" where
  "inspect_edge sn t signal s =
     (let l = ua_line s t
      in if signal = 0 then (upd_line t (\<lambda>l. l\<lparr>ul_break_start := sn, ul_break_start_valid := True\<rparr>) s, [])
         else if \<not> ul_break_start_valid l then (s, [])
         else (upd_line t (\<lambda>l. l\<lparr>ul_break_start_valid := False\<rparr>) s,
               if ua_break_min_samples s \<le> sn - ul_break_start l then handle_break t (ul_frame_start l) sn s else []))"

definition inspect_idle :: "u64 \<Rightarrow> nat \<Rightarrow> int \<Rightarrow> uart_s \<Rightarrow> uart_s \<times> out_call list" where
  "inspect_idle sn t signal s =
     (if signal = 0 then (upd_line t (\<lambda>l. l\<lparr>ul_idle_start_valid := False, ul_idle_num := 0\<rparr>) s, [])
      else
        let s1 = (if \<not> ul_idle_start_valid (ua_line s t)
                  then upd_line t (\<lambda>l. l\<lparr>ul_idle_start := sn, ul_idle_start_valid := True\<rparr>) s else s);
            start = ul_idle_start (ua_line s1 t)
        in if sn - start < ua_frame_len_samples_int s1 then (s1, [])
           else let (s2, out2) = handle_idle t start sn s1; (s3, out3) = handle_packet_idle t sn s2
                in (upd_line t (\<lambda>l. l\<lparr>ul_idle_start := sn\<rparr>) s3, out2 @ out3))"

section \<open>Options and sample rate\<close>

text \<open>
  The number of doublings after which an idle period of \<open>fl\<close> samples reaches a second. A shift
  by 64 is open in C: then there is no result.
\<close>

function idle_doublings :: "u64 \<Rightarrow> u64 \<Rightarrow> nat \<Rightarrow> nat option" where
  "idle_doublings fl samplerate n =
     (if 64 \<le> n then None
      else if fl * push_bit n 1 < samplerate then idle_doublings fl samplerate (Suc n) else Some n)"
  by pat_completeness auto
termination by (relation "measure (\<lambda>(_, _, n). 64 - n)") auto

declare idle_doublings.simps [simp del]

definition packet_idle :: "real \<Rightarrow> u64 \<Rightarrow> u64" where
  "packet_idle us samplerate =
     (if 0 < us then let n = of_int (c_round (us * (1 / 1000000) * real (unat samplerate))) in if n < 1 then 1 else n else 0)"

text \<open>The part that start() and metadata() share, for a sample rate and a baud rate.\<close>

definition uart_timing :: "real \<Rightarrow> uart_s srd_decoder_inst \<Rightarrow> uart_s \<Rightarrow> uart_s option" where
  "uart_timing perc d s =
     (let bw = real (unat (ua_samplerate s)) / ua_baudrate s;
          frame = (1 + real_of_int (ua_data_bits s) + (if ua_parity_type s \<noteq> PARITY_NONE then 1 else 0) + ua_stop_bits s) * bw;
          fl = of_int (c_round frame)
      in case idle_doublings fl (ua_samplerate s) 0 of None \<Rightarrow> None
         | Some maxn \<Rightarrow>
           let s1 = init_state_machine (s\<lparr>ua_bit_width := bw, ua_bit_samplenum := bw * perc * (1 / 100),
                 ua_idle_num_max := maxn + IDLE_NUM_WITHOUT_GROWTH - 1, ua_break_min_samples := fl + 1,
                 ua_frame_len_samples_int := fl\<rparr>);
               us = c_decoder_get_option_double (Some d) (Some ''packet_idle_us'') (-1); idle = packet_idle us (ua_samplerate s)
           in Some (s1\<lparr>ua_packet_idle_us := us, ua_packet_idle_samples := idle,
                ua_packet_enabled := (0 < idle \<or> 0 \<le> ul_delim (ua_line s1 RX) \<or> 0 \<le> ul_delim (ua_line s1 TX)
                  \<or> 0 < ul_plen (ua_line s1 RX) \<or> 0 < ul_plen (ua_line s1 TX))\<rparr>))"

definition uart_parity_of :: "string option \<Rightarrow> uart_parity" where
  "uart_parity_of p = (if p = Some ''odd'' then PARITY_ODD else if p = Some ''even'' then PARITY_EVEN
     else if p = Some ''zero'' then PARITY_ZERO else if p = Some ''one'' then PARITY_ONE
     else if p = Some ''ignore'' then PARITY_IGNORE else PARITY_NONE)"

definition uart_format_of :: "string option \<Rightarrow> int" where
  "uart_format_of f = (if f = Some ''ascii'' then 1 else if f = Some ''dec'' then 2 else if f = Some ''oct'' then 3
     else if f = Some ''bin'' then 4 else 0)"

definition uart_read_options :: "uart_s srd_decoder_inst \<Rightarrow> uart_s \<Rightarrow> uart_s" where
  "uart_read_options d s =
     (let opt_str = c_decoder_get_option_string (Some d); opt_int = (\<lambda>k. c_decoder_get_option_int (Some d) (Some k));
          opt_bool = (\<lambda>k v. c_opt_bool (Some d) (Some k) v \<noteq> 0); opt_dbl = (\<lambda>k. c_decoder_get_option_double (Some d) (Some k));
          line = (\<lambda>l delim plen. l\<lparr>ul_frame_valid := True, ul_delim := opt_int delim (-1), ul_plen := opt_int plen (-1)\<rparr>);
          db = opt_int ''data_bits'' 8
      in s\<lparr>ua_line := (\<lambda>t. if t = RX then line (ua_line s RX) ''rx_packet_delim'' ''rx_packet_len''
               else line (ua_line s TX) ''tx_packet_delim'' ''tx_packet_len''),
           ua_samplerate := c_decoder_get_samplerate (Some d),
           ua_baudrate := real_of_int (opt_int ''baudrate'' 115200), ua_data_bits := db,
           ua_stop_bits := opt_dbl ''stop_bits'' 1, ua_parity_type := uart_parity_of (opt_str (Some ''parity'') (Some ''none'')),
           ua_msb_first := (opt_str (Some ''bit_order'') (Some ''lsb-first'') = Some ''msb-first''),
           ua_format := uart_format_of (opt_str (Some ''format'') (Some ''hex'')),
           ua_invert := (\<lambda>t. if t = RX then opt_bool ''invert_rx'' 0 else opt_bool ''invert_tx'' 0),
           ua_put_sample_points := opt_bool ''put_sample_points'' 0, ua_show_start_stop := opt_bool ''show_start_stop'' 1,
           ua_show_data_point := opt_bool ''show_data_point'' 1, ua_sample_point_pct := opt_dbl ''sample_point'' 50,
           ua_bw := nat ((db + 7) div 8),
           ua_has_pin := (\<lambda>t. if t = RX then c_decoder_has_channel d 0 else c_decoder_has_channel d 1)\<rparr>)"

definition uart_configure :: "uart_s srd_decoder_inst \<Rightarrow> uart_s \<Rightarrow> uart_s option" where
  "uart_configure d s =
     (let s1 = uart_read_options d s
      in if 0 < ua_samplerate s1 \<and> 0 < ua_baudrate s1 \<and> ua_bit_width s1 = 0
         then uart_timing (ua_sample_point_pct s1) d s1 else Some s1)"

definition uart_start :: "inst_ptr \<Rightarrow> uart_s srd_world \<Rightarrow> uart_s srd_world" where
  "uart_start p w =
     (let (ann, w1) = c_decoder_register_output (Some p) SRD_OUTPUT_ANN (Some ''uart'') w;
          (py, w2) = c_decoder_register_output (Some p) SRD_OUTPUT_PROTO (Some ''uart'') w1;
          (bin, w3) = c_decoder_register_output (Some p) SRD_OUTPUT_BINARY (Some ''uart'') w2
      in upd_inst p (\<lambda>d. d\<lparr>user_data := (case user_data d of None \<Rightarrow> None
           | Some s \<Rightarrow> uart_configure d (s\<lparr>ua_out_ann := ann, ua_out_python := py, ua_out_binary := bin\<rparr>))\<rparr>) w3)"

text \<open>A position outside of the bit counts as its middle; start() has no such check.\<close>

definition sample_point :: "real \<Rightarrow> real" where
  "sample_point perc = (if perc < 1 \<or> 99 < perc then 50 else perc)"

definition uart_metadata :: "uart_s srd_decoder_inst \<Rightarrow> int \<Rightarrow> u64 \<Rightarrow> uart_s \<Rightarrow> uart_s option" where
  "uart_metadata d key val s =
     (if key \<noteq> SRD_CONF_SAMPLERATE then Some s
      else let s1 = s\<lparr>ua_samplerate := val\<rparr>
           in if 0 < val \<and> 0 < ua_baudrate s1 then uart_timing (sample_point (ua_sample_point_pct s1)) d s1 else Some s1)"

section \<open>decode()\<close>

definition cw_skip_term :: "u64 \<Rightarrow> srd_term" where
  "cw_skip_term n = \<lparr>t_type = SRD_TERM_SKIP, t_channel = -1, num_samples_to_skip = n, num_samples_already_skipped = 0\<rparr>"

definition data_cond :: "u64 \<Rightarrow> nat \<Rightarrow> uart_s \<Rightarrow> srd_term list" where
  "data_cond cur t s =
     [if ul_state (ua_line s t) = WAIT_FOR_START_BIT
      then edge_term (if ua_invert s t then SRD_TERM_RISING_EDGE else SRD_TERM_FALLING_EDGE) (int t)
      else let want = get_sample_point s t in cw_skip_term (if cur < want then want - cur else 1)]"

definition idle_wait :: "nat \<Rightarrow> uart_s \<Rightarrow> u64" where
  "idle_wait t s = (let n = ul_idle_num (ua_line s t)
     in if n < IDLE_NUM_WITHOUT_GROWTH then ua_frame_len_samples_int s
        else if ua_idle_num_max s \<le> n then ua_samplerate s
        else ua_frame_len_samples_int s * push_bit (n - (IDLE_NUM_WITHOUT_GROWTH - 1)) 1)"

definition idle_conds :: "u64 \<Rightarrow> nat \<Rightarrow> uart_s \<Rightarrow> srd_term list list" where
  "idle_conds cur t s =
     (if \<not> (ul_idle_start_valid (ua_line s t) \<and> 0 < ua_frame_len_samples_int s) then []
      else let end_of_wait = ul_idle_start (ua_line s t) + idle_wait t s
           in if cur < end_of_wait then [[cw_skip_term (end_of_wait - cur)]] else [])"

definition line_conds :: "u64 \<Rightarrow> nat \<Rightarrow> uart_s \<Rightarrow> srd_term list list" where
  "line_conds cur t s = (if \<not> ua_has_pin s t then []
     else [data_cond cur t s, [edge_term SRD_TERM_EITHER_EDGE (int t)]] @ idle_conds cur t s)"

definition uart_waits :: "u64 \<times> uart_s \<Rightarrow> srd_term list list" where
  "uart_waits = (\<lambda>(cur, s). let conds = line_conds cur RX s @ line_conds cur TX s
     in if conds = [] then [[cw_skip_term 1]] else conds)"

text \<open>What is done for one line, whose first condition has the number \<open>base\<close>.\<close>

definition line_signal :: "(int \<Rightarrow> u8) \<Rightarrow> nat \<Rightarrow> uart_s \<Rightarrow> int" where
  "line_signal pins t s = (let v = uint (pins (int t)) in if ua_invert s t then (if v \<noteq> 0 then 0 else 1) else v)"

definition process_line :: "u64 \<Rightarrow> u64 \<Rightarrow> nat \<Rightarrow> bool \<Rightarrow> int \<Rightarrow> nat \<Rightarrow> uart_s \<Rightarrow> uart_s \<times> out_call list" where
  "process_line sn matched base has_idle signal t s =
     (let (s1, out1) = (if bit matched base then inspect_sample sn t signal s else (s, []));
          (s2, out2) = (if bit matched (base + 1)
            then let (s2, o2) = inspect_edge sn t signal s1; (s3, o3) = inspect_idle sn t signal s2 in (s3, o2 @ o3) else (s1, []));
          (s3, out3) = (if has_idle \<and> bit matched (base + 2) then inspect_idle sn t signal s2 else (s2, []))
      in (s3, out1 @ out2 @ out3))"

definition process_pin :: "u64 \<Rightarrow> u64 \<Rightarrow> (int \<Rightarrow> u8) \<Rightarrow> u64 \<Rightarrow> nat \<Rightarrow> nat \<Rightarrow> uart_s \<Rightarrow> uart_s \<Rightarrow> uart_s \<times> out_call list" where
  "process_pin sn matched pins cur base t s0 s =
     (if \<not> ua_has_pin s t then (s, [])
      else process_line sn matched base (idle_conds cur t s0 \<noteq> []) (line_signal pins t s) t s)"

definition uart_step :: "u64 \<Rightarrow> u64 \<Rightarrow> (int \<Rightarrow> u8) \<Rightarrow> u64 \<times> uart_s \<Rightarrow> (u64 \<times> uart_s) \<times> out_call list" where
  "uart_step sn matched pins = (\<lambda>(cur, s).
     let (s1, out1) = process_pin sn matched pins cur 0 RX s s;
         (s2, out2) = process_pin sn matched pins cur (length (line_conds cur RX s)) TX s s1
     in ((sn, s2), out1 @ out2))"

text \<open>The sample number of the last match is a part of the state.\<close>

definition uart_decode :: "(u64 \<times> uart_s) c_program" where
  "uart_decode = \<lparr>prog_wait = uart_waits, prog_step = uart_step\<rparr>"

definition uart_runs :: "uart_s \<Rightarrow> bool" where
  "uart_runs s \<longleftrightarrow> ua_samplerate s \<noteq> 0 \<and> ua_baudrate s \<noteq> 0 \<and> ua_bit_width s \<noteq> 0 \<and> (ua_has_pin s RX \<or> ua_has_pin s TX)"

definition uart_decode_begin :: "uart_s \<Rightarrow> out_call list" where
  "uart_decode_begin s = (if uart_runs s then [O_put 0 0 (ua_out_ann s) ATK_POINT [''color:#fbca47'']] else [])"

section \<open>What a handler changes\<close>

lemma upd_line_sel [simp]:
  "ua_line (upd_line t f s) = (ua_line s)(t := f (ua_line s t))"
  "ua_samplerate (upd_line t f s) = ua_samplerate s" "ua_data_bits (upd_line t f s) = ua_data_bits s"
  "ua_parity_type (upd_line t f s) = ua_parity_type s" "ua_msb_first (upd_line t f s) = ua_msb_first s"
  "ua_format (upd_line t f s) = ua_format s" "ua_invert (upd_line t f s) = ua_invert s"
  "ua_put_sample_points (upd_line t f s) = ua_put_sample_points s" "ua_show_start_stop (upd_line t f s) = ua_show_start_stop s"
  "ua_show_data_point (upd_line t f s) = ua_show_data_point s" "ua_bit_width (upd_line t f s) = ua_bit_width s"
  "ua_state_machine (upd_line t f s) = ua_state_machine s" "ua_data_bounds (upd_line t f s) = ua_data_bounds s"
  "ua_break_min_samples (upd_line t f s) = ua_break_min_samples s"
  "ua_frame_len_samples_int (upd_line t f s) = ua_frame_len_samples_int s"
  "ua_packet_idle_samples (upd_line t f s) = ua_packet_idle_samples s" "ua_packet_enabled (upd_line t f s) = ua_packet_enabled s"
  "ua_bw (upd_line t f s) = ua_bw s" "ua_has_pin (upd_line t f s) = ua_has_pin s" "ua_out_ann (upd_line t f s) = ua_out_ann s"
  "ua_out_python (upd_line t f s) = ua_out_python s" "ua_out_binary (upd_line t f s) = ua_out_binary s"
  by (simp_all add: upd_line_def)

text \<open>Everything but the lines.\<close>

definition uart_cfg :: "uart_s \<Rightarrow> uart_s" where
  "uart_cfg s = s\<lparr>ua_line := (\<lambda>_. uart_line0)\<rparr>"

lemma uart_cfg_upd [simp]: "uart_cfg (upd_line t f s) = uart_cfg s"
  by (simp add: uart_cfg_def upd_line_def)

lemma uart_cfg_sel:
  assumes "uart_cfg s = uart_cfg s'"
  shows "ua_data_bits s = ua_data_bits s'" "ua_parity_type s = ua_parity_type s'" "ua_msb_first s = ua_msb_first s'"
    "ua_invert s = ua_invert s'" "ua_state_machine s = ua_state_machine s'" "ua_has_pin s = ua_has_pin s'"
  using arg_cong [OF assms, of ua_data_bits] arg_cong [OF assms, of ua_parity_type] arg_cong [OF assms, of ua_msb_first]
    arg_cong [OF assms, of ua_invert] arg_cong [OF assms, of ua_state_machine] arg_cong [OF assms, of ua_has_pin]
  by (simp_all add: uart_cfg_def)

text \<open>The messages with the value of a line: DATA when its bits are complete, FRAME at its end.\<close>

fun frame_msg :: "nat \<Rightarrow> out_call \<Rightarrow> (string \<times> c_field list) option" where
  "frame_msg t (O_proto ss es n cmd fs) =
     (if cmd = ''DATA'' \<and> fs ! 1 = C_I32 (of_nat t) \<or> cmd = ''FRAME'' \<and> fs ! 0 = C_I32 (of_nat t) then Some (cmd, fs) else None)"
| "frame_msg t _ = None"

definition frame_msgs :: "nat \<Rightarrow> out_call list \<Rightarrow> (string \<times> c_field list) list" where
  "frame_msgs t out = List.map_filter (frame_msg t) out"

lemma frame_msgs_simps [simp]:
  "frame_msgs t [] = []" "frame_msgs t (c # cs) = (case frame_msg t c of None \<Rightarrow> frame_msgs t cs | Some m \<Rightarrow> m # frame_msgs t cs)"
  "frame_msgs t (cs @ ds) = frame_msgs t cs @ frame_msgs t ds"
  by (simp_all add: frame_msgs_def List.map_filter_def split: option.split)

definition uline :: "nat \<Rightarrow> bool" where
  "uline t \<longleftrightarrow> t = RX \<or> t = TX"

lemma uline_differ: "uline t \<Longrightarrow> uline t' \<Longrightarrow> t \<noteq> t' \<Longrightarrow> (of_nat t :: 32 word) \<noteq> of_nat t'"
  by (auto simp: uline_def RX_def TX_def)

definition line_only :: "nat \<Rightarrow> uart_s \<Rightarrow> uart_s \<times> out_call list \<Rightarrow> bool" where
  "line_only t s r \<longleftrightarrow> uart_cfg (fst r) = uart_cfg s
     \<and> (\<forall>t'. t' \<noteq> t \<longrightarrow> ua_line (fst r) t' = ua_line s t' \<and> (uline t \<longrightarrow> uline t' \<longrightarrow> frame_msgs t' (snd r) = []))"

text \<open>The part of a line that belongs to the frame.\<close>

type_synonym frame_view = "uart_state \<times> nat \<times> u64 \<times> bool \<times> int \<times> int list"

definition frame_view :: "uart_line \<Rightarrow> frame_view" where
  "frame_view l = (ul_state l, ul_state_num l, ul_frame_start l, ul_frame_valid l, ul_datavalue l, map bit_val (ul_databits l))"

definition calm :: "nat \<Rightarrow> uart_s \<Rightarrow> uart_s \<times> out_call list \<Rightarrow> bool" where
  "calm t s r \<longleftrightarrow> line_only t s r \<and> frame_view (ua_line (fst r) t) = frame_view (ua_line s t) \<and> frame_msgs t (snd r) = []"

lemma line_only_id [simp]: "line_only t s (s, [])"
  by (simp add: line_only_def)

lemma line_only_then:
  "line_only t s (s1, o1) \<Longrightarrow> line_only t s1 (s2, o2) \<Longrightarrow> line_only t s (s2, o1 @ o2)"
  by (simp add: line_only_def)

lemma line_only_upd: "line_only t (upd_line t f s) r \<Longrightarrow> line_only t s r"
  by (simp add: line_only_def)

lemma line_only_after: "line_only t s (s1, out) \<Longrightarrow> line_only t s (upd_line t f s1, out)"
  by (simp add: line_only_def)

lemma line_only_out:
  "line_only t s (s1, out) \<Longrightarrow> (\<And>t'. t' \<noteq> t \<Longrightarrow> uline t \<Longrightarrow> uline t' \<Longrightarrow> frame_msgs t' o1 = []) \<Longrightarrow> line_only t s (s1, o1 @ out)"
  by (simp add: line_only_def)

lemma calm_id [simp]: "calm t s (s, [])"
  by (simp add: calm_def)

lemma calm_then: "calm t s (s1, o1) \<Longrightarrow> calm t s1 (s2, o2) \<Longrightarrow> calm t s (s2, o1 @ o2)"
  by (auto simp: calm_def intro: line_only_then)

lemma calm_upd:
  "calm t (upd_line t f s) r \<Longrightarrow> frame_view (f (ua_line s t)) = frame_view (ua_line s t) \<Longrightarrow> calm t s r"
  by (auto simp: calm_def intro: line_only_upd)

lemma handle_packet_calm: "calm t s (handle_packet t s)"
  by (simp add: handle_packet_def Let_def calm_def line_only_def frame_view_def)

lemma handle_packet_idle_calm: "calm t s (handle_packet_idle t e s)"
  by (simp add: handle_packet_idle_def Let_def handle_packet_calm)

lemma get_packet_data_calm: "calm t s (get_packet_data t e s)"
  unfolding get_packet_data_def Let_def
  by (auto intro!: calm_upd [OF handle_packet_calm] simp: frame_view_def)
    (simp add: calm_def line_only_def frame_view_def)+

lemma handle_idle_calm: "calm t s (handle_idle t a e s)"
proof -
  obtain s1 out where p: "handle_packet_idle t e (upd_line t (\<lambda>l. l\<lparr>ul_idle_num := Suc (ul_idle_num l)\<rparr>) s) = (s1, out)"
    by (rule prod.exhaust)
  have "calm t s (s1, out)"
    using handle_packet_idle_calm [of t "upd_line t (\<lambda>l. l\<lparr>ul_idle_num := Suc (ul_idle_num l)\<rparr>) s" e]
    unfolding p by (rule calm_upd) (simp add: frame_view_def)
  then show ?thesis by (simp add: handle_idle_def p calm_def line_only_def)
qed

lemma inspect_edge_calm: "calm t s (inspect_edge sn t signal s)"
  by (simp add: inspect_edge_def Let_def calm_def line_only_def frame_view_def handle_break_def)

lemma inspect_idle_calm: "calm t s (inspect_idle sn t signal s)"
proof -
  let ?s1 = "if \<not> ul_idle_start_valid (ua_line s t)
    then upd_line t (\<lambda>l. l\<lparr>ul_idle_start := sn, ul_idle_start_valid := True\<rparr>) s else s"
  have 1: "calm t s (?s1, [])" by (simp add: calm_def line_only_def frame_view_def)
  obtain s2 o2 where 2: "handle_idle t (ul_idle_start (ua_line ?s1 t)) sn ?s1 = (s2, o2)" by (rule prod.exhaust)
  obtain s3 o3 where 3: "handle_packet_idle t sn s2 = (s3, o3)" by (rule prod.exhaust)
  have "calm t s (s3, o2 @ o3)"
    using calm_then [OF 1 handle_idle_calm [of t ?s1 "ul_idle_start (ua_line ?s1 t)" sn, unfolded 2]]
      handle_packet_idle_calm [of t s2 sn, unfolded 3] by (auto intro: calm_then)
  then have 4: "calm t s (upd_line t (\<lambda>l. l\<lparr>ul_idle_start := sn\<rparr>) s3, o2 @ o3)"
    by (simp add: calm_def line_only_def frame_view_def)
  show ?thesis
  proof (cases "signal = 0")
    case True
    then show ?thesis by (simp add: inspect_idle_def calm_def line_only_def frame_view_def)
  next
    case False
    then show ?thesis using 1 4 by (simp only: inspect_idle_def Let_def 2 3 prod.case if_False) (split if_split, blast)
  qed
qed

section \<open>A frame seen from its line\<close>

definition frame_end_msg :: "nat \<Rightarrow> int \<Rightarrow> bool \<Rightarrow> string \<times> c_field list" where
  "frame_end_msg t dv v = (''FRAME'', [C_I32 (of_nat t), C_U8 (of_int dv), C_I32 (if v then 1 else 0)])"

definition value_msg :: "nat \<Rightarrow> int \<Rightarrow> string \<times> c_field list" where
  "value_msg t b = (''DATA'', [C_U8 (of_int b), C_I32 (of_nat t)])"

fun bits_number :: "bool \<Rightarrow> int \<Rightarrow> nat \<Rightarrow> int list \<Rightarrow> int" where
  "bits_number msb n i [] = 0"
| "bits_number msb n i (b # bs) = push_bit (if msb then nat (n - 1 - int i) else i) b OR bits_number msb n (Suc i) bs"

lemma data_value_bits: "data_value msb n i es = bits_number msb n i (map bit_val es)"
  by (induction es arbitrary: i) simp_all

text \<open>The step to the next state of the machine, and what a sample does in each state.\<close>

definition frame_next :: "uart_s \<Rightarrow> nat \<Rightarrow> frame_view \<Rightarrow> frame_view \<times> (string \<times> c_field list) list" where
  "frame_next s t = (\<lambda>(st, i, f, v, dv, bits). let st' = sm_state (ua_state_machine s ! Suc i)
     in if st' = WAIT_FOR_START_BIT then ((st', 0, f, v, dv, bits), [frame_end_msg t dv v])
        else ((st', Suc i, f, v, dv, bits), []))"

definition frame_sample :: "uart_s \<Rightarrow> nat \<Rightarrow> int \<Rightarrow> frame_view \<Rightarrow> frame_view \<times> (string \<times> c_field list) list" where
  "frame_sample s t sig = (\<lambda>(st, i, f, v, dv, bits). case st of
       WAIT_FOR_START_BIT \<Rightarrow> ((st, i, f, v, dv, bits), [])
     | GET_START_BIT \<Rightarrow>
         if sig \<noteq> 0 then ((WAIT_FOR_START_BIT, 0, f, False, dv, bits), [frame_end_msg t dv False])
         else (let ((st', i', f', v', _, _), ms) = frame_next s t (st, i, f, v, dv, bits) in ((st', i', f', v', 0, []), ms))
     | GET_DATA_BITS \<Rightarrow>
         let bits1 = bits @ [sig]; full = (int (length bits1) = ua_data_bits s);
             b = bits_number (ua_msb_first s) (ua_data_bits s) 0 bits1;
             (vw, ms) = frame_next s t (st, i, f, v, if full then b else dv, if full then [] else bits1)
         in (vw, (if full then [value_msg t b] else []) @ ms)
     | GET_PARITY_BIT \<Rightarrow>
         frame_next s t (st, i, f, v \<and> parity_ok (ua_parity_type s) sig dv (ua_data_bits s), dv, bits)
     | GET_STOP_BITS \<Rightarrow>
         if sig \<noteq> 1 then ((WAIT_FOR_START_BIT, 0, f, False, dv, bits), [frame_end_msg t dv False])
         else frame_next s t (st, i, f, v, dv, bits))"

definition follows :: "nat \<Rightarrow> uart_s \<Rightarrow> uart_s \<times> out_call list \<Rightarrow> frame_view \<times> (string \<times> c_field list) list \<Rightarrow> bool" where
  "follows t s r vm \<longleftrightarrow> line_only t s r \<and> frame_view (ua_line (fst r) t) = fst vm \<and> frame_msgs t (snd r) = snd vm"

lemma followsD: "follows t s r vm \<Longrightarrow> line_only t s r" by (simp add: follows_def)

lemma follows_calm: "follows t s (s1, o1) (vw, ms) \<Longrightarrow> calm t s1 (s2, o2) \<Longrightarrow> follows t s (s2, o1 @ o2) (vw, ms)"
  by (auto simp: follows_def calm_def intro: line_only_then)

lemma handle_frame_msgs:
  "frame_msgs t (handle_frame t a e s) = [frame_end_msg t (ul_datavalue (ua_line s t)) (ul_frame_valid (ua_line s t))]"
  "uline t \<Longrightarrow> uline t' \<Longrightarrow> t' \<noteq> t \<Longrightarrow> frame_msgs t' (handle_frame t a e s) = []"
  using uline_differ [of t t'] by (auto simp: handle_frame_def Let_def frame_end_msg_def)

lemma advance_start_error:
  assumes "frame_view (ua_line s t) = (st, i, f, v, dv, bits)"
  shows "follows t s (advance_state_machine sn t True b s) ((WAIT_FOR_START_BIT, 0, f, v, dv, bits), [])"
  using assms by (simp add: advance_state_machine_def Let_def follows_def line_only_def frame_view_def)

lemma advance_stop_error:
  assumes "frame_view (ua_line s t) = (st, i, f, v, dv, bits)"
  shows "follows t s (advance_state_machine sn t False True s) ((WAIT_FOR_START_BIT, 0, f, v, dv, bits), [frame_end_msg t dv v])"
proof -
  define s2 where "s2 = upd_line t (\<lambda>l. l\<lparr>ul_state_num := 0, ul_idle_start_valid := False\<rparr>)
    (upd_line t (\<lambda>l. l\<lparr>ul_state := WAIT_FOR_START_BIT, ul_state_num := 0\<rparr>) s)"
  obtain s3 out where g: "get_packet_data t sn s2 = (s3, out)" by (rule prod.exhaust)
  have e: "advance_state_machine sn t False True s = (s3, handle_frame t f sn s2 @ out)"
    using assms g by (simp add: advance_state_machine_def Let_def s2_def frame_view_def)
  have "follows t s (s2, handle_frame t f sn s2) ((WAIT_FOR_START_BIT, 0, f, v, dv, bits), [frame_end_msg t dv v])"
    using assms handle_frame_msgs(2) [of t] by (auto simp: follows_def line_only_def s2_def frame_view_def handle_frame_msgs(1))
  then show ?thesis unfolding e using follows_calm get_packet_data_calm [of t s2 sn, unfolded g] by blast
qed

lemma advance_next:
  "follows t s (advance_state_machine sn t False False s) (frame_next s t (frame_view (ua_line s t)))"
proof -
  obtain st i f v dv bits where vw: "frame_view (ua_line s t) = (st, i, f, v, dv, bits)" by (rule prod_cases6)
  let ?st = "sm_state (ua_state_machine s ! Suc i)"
  define s1 where "s1 = upd_line t (\<lambda>l. l\<lparr>ul_state := sm_state (ua_state_machine s ! Suc (ul_state_num l)), ul_state_num := Suc (ul_state_num l)\<rparr>) s"
  have v1: "frame_view (ua_line s1 t) = (?st, Suc i, f, v, dv, bits)" using vw by (simp add: s1_def frame_view_def)
  have l1: "line_only t s (s1, [])" by (simp add: line_only_def s1_def)
  show ?thesis
  proof (cases "?st = WAIT_FOR_START_BIT")
    case False
    then have "advance_state_machine sn t False False s = (s1, [])"
      using v1 by (simp add: advance_state_machine_def s1_def [symmetric] frame_view_def)
    then show ?thesis using l1 v1 False by (simp add: follows_def vw frame_next_def)
  next
    case True
    define e where "e = ul_frame_start (ua_line s1 t) + ua_frame_len_samples_int s1"
    define s2 where "s2 = upd_line t (\<lambda>l. l\<lparr>ul_state_num := 0, ul_idle_start := e, ul_idle_start_valid := True\<rparr>) s1"
    obtain s3 out where g: "get_packet_data t e s2 = (s3, out)" by (rule prod.exhaust)
    have "ul_state (ua_line s1 t) = WAIT_FOR_START_BIT" using v1 True by (simp add: frame_view_def)
    then have a: "advance_state_machine sn t False False s = (s3, handle_frame t (ul_frame_start (ua_line s1 t)) e s2 @ out)"
      using g by (simp add: advance_state_machine_def s1_def [symmetric] e_def [symmetric] s2_def [symmetric] Let_def)
    have "follows t s (s2, handle_frame t (ul_frame_start (ua_line s1 t)) e s2) ((?st, 0, f, v, dv, bits), [frame_end_msg t dv v])"
      using v1 l1 handle_frame_msgs(2) [of t] by (auto simp: follows_def line_only_def s2_def frame_view_def handle_frame_msgs(1))
    then show ?thesis
      unfolding a using True follows_calm get_packet_data_calm [of t s2 e, unfolded g] by (simp add: vw frame_next_def)
  qed
qed

lemma follows_upd:
  "follows t (upd_line t f s) r vm \<Longrightarrow> follows t s r vm"
  by (auto simp: follows_def intro: line_only_upd)

lemma follows_out:
  "follows t s (s1, out) (vw, ms) \<Longrightarrow> (\<And>t'. t' \<noteq> t \<Longrightarrow> uline t \<Longrightarrow> uline t' \<Longrightarrow> frame_msgs t' o1 = []) \<Longrightarrow> frame_msgs t o1 = ms1 \<Longrightarrow>
    follows t s (s1, o1 @ out) (vw, ms1 @ ms)"
  by (simp add: follows_def line_only_out)

lemma frame_next_upd [simp]: "frame_next (upd_line t' f s) t = frame_next s t"
  by (simp add: frame_next_def)

lemma get_start_bit_follows:
  assumes vw: "frame_view (ua_line s t) = (GET_START_BIT, i, f, v, dv, bits)"
  shows "follows t s (get_start_bit sn t sig s) (frame_sample s t sig (frame_view (ua_line s t)))"
proof -
  obtain ss es where b: "frame_bit_bounds s t = (ss, es)" by (rule prod.exhaust)
  show ?thesis
  proof (cases "sig = 0")
    case False
    define s1 where "s1 = upd_line t (\<lambda>l. l\<lparr>ul_frame_valid := False\<rparr>) s"
    have v1: "frame_view (ua_line s1 t) = (GET_START_BIT, i, f, False, dv, bits)" using vw by (simp add: s1_def frame_view_def)
    obtain s2 out where a: "advance_state_machine sn t True False s1 = (s2, out)" by (rule prod.exhaust)
    define o1 where "o1 = [O_proto ss sn (ua_out_python s) ''INVALID STARTBIT'' [C_I32 (of_nat t), C_U8 (of_int sig)],
        O_put ss sn (ua_out_ann s) (RX_WARN + int t) [''Start bit error'', ''Start err'', ''SE'']] @ handle_frame t ss sn s1"
    have e: "get_start_bit sn t sig s = (s2, o1 @ out)"
      using False a by (simp add: get_start_bit_def b s1_def [symmetric] o1_def)
    have "follows t s1 (s2, out) ((WAIT_FOR_START_BIT, 0, f, False, dv, bits), [])"
      using advance_start_error [OF v1, of sn False] by (simp only: a)
    moreover have "frame_msgs t o1 = [frame_end_msg t dv False]"
      using v1 by (simp add: o1_def handle_frame_msgs(1) frame_view_def)
    moreover have "uline t \<Longrightarrow> uline t' \<Longrightarrow> t' \<noteq> t \<Longrightarrow> frame_msgs t' o1 = []" for t'
      by (simp add: o1_def handle_frame_msgs(2))
    ultimately have "follows t s1 (s2, o1 @ out) ((WAIT_FOR_START_BIT, 0, f, False, dv, bits), [frame_end_msg t dv False] @ [])"
      using follows_out by blast
    then show ?thesis unfolding e s1_def using False by (auto intro: follows_upd simp: vw frame_sample_def)
  next
    case True
    obtain s1 out where a: "advance_state_machine sn t False False s = (s1, out)" by (rule prod.exhaust)
    obtain st' i' f' v' dv' bits' ms where n: "frame_next s t (frame_view (ua_line s t)) = ((st', i', f', v', dv', bits'), ms)"
      by (metis surj_pair)
    define o1 where "o1 = O_proto ss es (ua_out_python s) ''STARTBIT'' [C_I32 (of_nat t), C_U8 (of_int sig)]
      # (if ua_show_start_stop s then [O_put ss es (ua_out_ann s) (RX_START + int t) [''Start bit'', ''Start'', ''S'']] else [])"
    have e: "get_start_bit sn t sig s = (reset_data_receive t s1, o1 @ out)" using True a by (simp add: get_start_bit_def b o1_def)
    have fa: "follows t s (s1, out) ((st', i', f', v', dv', bits'), ms)" using advance_next [of t s sn] by (simp only: a n)
    then have "follows t s (s1, o1 @ out) ((st', i', f', v', dv', bits'), [] @ ms)"
      by (rule follows_out) (simp_all add: o1_def)
    then have "follows t s (reset_data_receive t s1, o1 @ out) ((st', i', f', v', 0, []), ms)"
      by (simp add: follows_def reset_data_receive_def line_only_after frame_view_def)
    then show ?thesis unfolding e vw frame_sample_def using True n [unfolded vw] by simp
  qed
qed

lemma handle_data_follows:
  assumes "frame_view (ua_line s t) = (st, i, f, v, dv, bits)"
  shows "follows t s (handle_data t s) ((st, i, f, v, bits_number (ua_msb_first s) (ua_data_bits s) 0 bits, []),
    [value_msg t (bits_number (ua_msb_first s) (ua_data_bits s) 0 bits)])"
  using assms uline_differ [of t]
  by (auto simp: handle_data_def Let_def follows_def line_only_def frame_view_def data_value_bits value_msg_def split_beta)

lemma get_data_bits_follows:
  assumes vw: "frame_view (ua_line s t) = (GET_DATA_BITS, i, f, v, dv, bits)"
  shows "follows t s (get_data_bits sn t sig s) (frame_sample s t sig (frame_view (ua_line s t)))"
proof -
  obtain ss es where b: "frame_bit_bounds s t = (ss, es)" by (rule prod.exhaust)
  define s1 where "s1 = upd_line t (\<lambda>l. l\<lparr>ul_databits := ul_databits l @ [\<lparr>bit_val = sig, db_ss = ss, db_es = es\<rparr>]\<rparr>) s"
  have v1: "frame_view (ua_line s1 t) = (GET_DATA_BITS, i, f, v, dv, bits @ [sig])" using vw by (simp add: s1_def frame_view_def)
  let ?full = "int (length (bits @ [sig])) = ua_data_bits s"
  let ?b = "bits_number (ua_msb_first s) (ua_data_bits s) 0 (bits @ [sig])"
  have len: "length (ul_databits (ua_line s1 t)) = length (bits @ [sig])"
    using v1 unfolding frame_view_def by (metis length_map prod.inject)
  define p where "p = (if ?full then handle_data t s1 else (s1, []))"
  obtain s2 o2 where p2: "p = (s2, o2)" by (rule prod.exhaust)
  have cfg1: "ua_msb_first s1 = ua_msb_first s" "ua_data_bits s1 = ua_data_bits s" "frame_next s1 = frame_next s"
    by (simp_all add: s1_def fun_eq_iff)
  let ?vw = "(GET_DATA_BITS, i, f, v, if ?full then ?b else dv, if ?full then [] else bits @ [sig])"
  have "follows t s1 p (?vw, if ?full then [value_msg t ?b] else [])"
    using handle_data_follows [OF v1] v1 by (simp add: p_def cfg1) (simp add: follows_def)
  then have f2: "follows t s1 (s2, o2) (?vw, if ?full then [value_msg t ?b] else [])" by (simp only: p2)
  obtain s3 o3 where a: "advance_state_machine sn t False False s2 = (s3, o3)" by (rule prod.exhaust)
  define o1 where "o1 = O_put ss es (ua_out_ann s) (RX_DATA_BIT + int t) [snprintf 16 (fmt_int sig)]
    # (if ua_show_data_point s then [O_put (ss + of_int \<lfloor>ua_bit_width s / 2\<rfloor>) (ss + of_int \<lfloor>ua_bit_width s / 2\<rfloor>) (ua_out_ann s) ATK_POINT [snprintf 4 (fmt_int (int t))]] else [])"
  have e: "get_data_bits sn t sig s = (s3, o1 @ o2 @ o3)"
    using p2 unfolding p_def get_data_bits_def b Let_def prod.case s1_def [symmetric] len [symmetric] cfg1(2) [symmetric] o1_def
    by (simp only: a prod.case if_P append_assoc)
  have "uart_cfg s2 = uart_cfg s1" using f2 by (simp add: follows_def line_only_def)
  then have n2: "frame_next s2 = frame_next s" using uart_cfg_sel(5) [of s2 s1] by (simp add: frame_next_def fun_eq_iff cfg1(3)[symmetric] s1_def)
  obtain vw' ms where n: "frame_next s t ?vw = (vw', ms)" by (rule prod.exhaust)
  have "frame_view (ua_line s2 t) = ?vw" using f2 by (simp add: follows_def)
  then have "follows t s2 (s3, o3) (vw', ms)" using advance_next [of t s2 sn] by (simp only: a n2 n)
  then have "follows t s1 (s3, o2 @ o3) (vw', (if ?full then [value_msg t ?b] else []) @ ms)"
    using f2 by (auto simp: follows_def intro: line_only_then)
  then have "follows t s1 (s3, o1 @ o2 @ o3) (vw', [] @ (if ?full then [value_msg t ?b] else []) @ ms)"
    by (rule follows_out) (simp_all add: o1_def)
  then have "follows t s (s3, o1 @ o2 @ o3) (vw', (if ?full then [value_msg t ?b] else []) @ ms)"
    unfolding s1_def by (auto intro: follows_upd)
  then show ?thesis unfolding e vw frame_sample_def using n by (simp add: Let_def)
qed

lemma get_parity_bit_follows:
  assumes vw: "frame_view (ua_line s t) = (GET_PARITY_BIT, i, f, v, dv, bits)"
  shows "follows t s (get_parity_bit sn t sig s) (frame_sample s t sig (frame_view (ua_line s t)))"
proof -
  define s1 where "s1 = upd_line t (\<lambda>l. l\<lparr>ul_paritybit := sig\<rparr>) s"
  obtain ss es where b: "frame_bit_bounds s1 t = (ss, es)" by (rule prod.exhaust)
  have dv: "ul_datavalue (ua_line s t) = dv" using vw by (simp add: frame_view_def)
  let ?ok = "parity_ok (ua_parity_type s) sig dv (ua_data_bits s)"
  define s2 where "s2 = (if ?ok then s1 else upd_line t (\<lambda>l. l\<lparr>ul_frame_valid := False\<rparr>) s1)"
  have v2: "frame_view (ua_line s2 t) = (GET_PARITY_BIT, i, f, v \<and> ?ok, dv, bits)"
    using vw by (simp add: s2_def s1_def frame_view_def)
  obtain s3 o3 where a: "advance_state_machine sn t False False s2 = (s3, o3)" by (rule prod.exhaust)
  obtain o1 where e: "get_parity_bit sn t sig s = (s3, o1 @ o3)" and o1: "\<And>t'. frame_msgs t' o1 = []"
    using a by (cases ?ok) (simp_all add: get_parity_bit_def b s1_def [symmetric] s2_def dv)
  have n: "frame_next s2 = frame_next s" by (simp add: s2_def s1_def fun_eq_iff)
  obtain vw' ms where m: "frame_next s t (frame_view (ua_line s2 t)) = (vw', ms)" by (rule prod.exhaust)
  have "follows t s2 (s3, o3) (vw', ms)" using advance_next [of t s2 sn] by (simp only: a n m)
  then have "follows t s2 (s3, o1 @ o3) (vw', [] @ ms)" by (rule follows_out) (simp_all add: o1)
  then have "follows t s (s3, o1 @ o3) (vw', ms)"
    unfolding s2_def s1_def by (auto intro: follows_upd split: if_splits)
  then show ?thesis using m by (simp add: e vw v2 frame_sample_def)
qed

lemma get_stop_bits_follows:
  assumes vw: "frame_view (ua_line s t) = (GET_STOP_BITS, i, f, v, dv, bits)"
  shows "follows t s (get_stop_bits sn t sig s) (frame_sample s t sig (frame_view (ua_line s t)))"
proof -
  define s1 where "s1 = upd_line t (\<lambda>l. l\<lparr>ul_stopbits := ul_stopbits l @ [sig]\<rparr>) s"
  obtain ss es where b: "frame_bit_bounds s1 t = (ss, es)" by (rule prod.exhaust)
  define s2 where "s2 = (if sig \<noteq> 1 then upd_line t (\<lambda>l. l\<lparr>ul_frame_valid := False\<rparr>) s1 else s1)"
  have v2: "frame_view (ua_line s2 t) = (GET_STOP_BITS, i, f, v \<and> sig = 1, dv, bits)"
    using vw by (simp add: s2_def s1_def frame_view_def)
  obtain s3 o3 where a: "advance_state_machine sn t False (sig \<noteq> 1) s2 = (s3, o3)" by (rule prod.exhaust)
  obtain o1 where e: "get_stop_bits sn t sig s = (s3, o1 @ o3)" and o1: "\<And>t'. frame_msgs t' o1 = []"
  proof (cases "sig = 1")
    case True
    have "get_stop_bits sn t sig s = (s3, ((if ua_show_start_stop s then [O_put ss es (ua_out_ann s) (RX_STOP + int t) [''Stop bit'', ''Stop'', ''T'']] else [])
      @ [O_proto ss es (ua_out_python s) ''STOPBIT'' [C_I32 (of_nat t), C_U8 (of_int sig)]]) @ o3)"
      unfolding get_stop_bits_def Let_def s1_def [symmetric] b prod.case using True a [unfolded s2_def] by (simp only:) simp
    then show ?thesis by (rule that) simp
  next
    case False
    have "get_stop_bits sn t sig s = (s3, [O_proto ss sn (ua_out_python s) ''INVALID STOPBIT'' [C_I32 (of_nat t), C_U8 (of_int sig)],
      O_put ss sn (ua_out_ann s) (RX_WARN + int t) [''Stop bit error'', ''Stop err'', ''TE''],
      O_proto ss sn (ua_out_python s) ''STOPBIT'' [C_I32 (of_nat t), C_U8 (of_int sig)]] @ o3)"
      unfolding get_stop_bits_def Let_def s1_def [symmetric] b prod.case using False a [unfolded s2_def] by simp
    then show ?thesis by (rule that) simp
  qed
  have n: "frame_next s2 = frame_next s" by (simp add: s2_def s1_def fun_eq_iff)
  obtain vw' ms where m: "frame_sample s t sig (frame_view (ua_line s t)) = (vw', ms)" by (rule prod.exhaust)
  have "follows t s2 (s3, o3) (vw', ms)"
  proof (cases "sig = 1")
    case True
    then show ?thesis using advance_next [of t s2 sn] a m by (simp add: n v2 vw frame_sample_def)
  next
    case False
    then show ?thesis using advance_stop_error [OF v2, of sn] a m by (simp add: vw frame_sample_def)
  qed
  then have "follows t s2 (s3, o1 @ o3) (vw', [] @ ms)" by (rule follows_out) (simp_all add: o1)
  then have "follows t s (s3, o1 @ o3) (vw', ms)"
    unfolding s2_def s1_def by (auto intro: follows_upd split: if_splits)
  then show ?thesis by (simp add: e m)
qed

end
