(* ===== verification/UartFrames.thy ===== *)
theory UartFrames
  imports Uart
begin

text \<open>
  What the UART decoder makes of a line: the messages of one line do not depend on the other, on
  edges or on idle periods; they are those of a sampler, and the frames a sender puts on the line
  come out with their values.
\<close>

section \<open>A line does not depend on the other\<close>

text \<open>What is done for a frame when the condition on its data holds: an edge starts it.\<close>

definition frame_sees :: "uart_s \<Rightarrow> nat \<Rightarrow> u64 \<Rightarrow> int \<Rightarrow> frame_view \<Rightarrow> frame_view \<times> (string \<times> c_field list) list" where
  "frame_sees s t sn sig = (\<lambda>(st, i, f, v, dv, bits).
     if st = WAIT_FOR_START_BIT then frame_next s t (st, i, sn, True, dv, bits)
     else frame_sample s t sig (st, i, f, v, dv, bits))"

lemma frame_next_cfg: "uart_cfg s = uart_cfg s' \<Longrightarrow> frame_next s = frame_next s'"
  using uart_cfg_sel(5) [of s s'] by (simp add: fun_eq_iff frame_next_def)

lemma frame_sees_cfg:
  assumes "uart_cfg s = uart_cfg s'"
  shows "frame_sees s = frame_sees s'"
proof -
  have "frame_sample s t sig vw = frame_sample s' t sig vw" for t sig vw
    unfolding frame_sample_def by (simp only: uart_cfg_sel(1-3) [OF assms] frame_next_cfg [OF assms])
  then show ?thesis by (simp add: fun_eq_iff frame_sees_def frame_next_cfg [OF assms])
qed

lemma inspect_sample_follows:
  "follows t s (inspect_sample sn t sig s) (frame_sees s t sn sig (frame_view (ua_line s t)))"
proof -
  obtain st i f v dv bits where vw: "frame_view (ua_line s t) = (st, i, f, v, dv, bits)" by (rule prod_cases6)
  have st: "ul_state (ua_line s t) = st" using vw by (simp add: frame_view_def)
  define r where "r = (case st of
            WAIT_FOR_START_BIT \<Rightarrow> (let (s2, out2) = handle_packet_idle t sn s; (s3, out3) = wait_for_start_bit sn t s2
                                   in (s3, out2 @ out3))
          | GET_START_BIT \<Rightarrow> get_start_bit sn t sig s
          | GET_DATA_BITS \<Rightarrow> get_data_bits sn t sig s
          | GET_PARITY_BIT \<Rightarrow> get_parity_bit sn t sig s
          | GET_STOP_BITS \<Rightarrow> get_stop_bits sn t sig s)"
  have "follows t s r (frame_sees s t sn sig (st, i, f, v, dv, bits))"
  proof (cases st)
    case WAIT_FOR_START_BIT
    obtain s2 o2 where 2: "handle_packet_idle t sn s = (s2, o2)" by (rule prod.exhaust)
    define s3 where "s3 = upd_line t (\<lambda>l. l\<lparr>ul_frame_start := sn, ul_frame_valid := True\<rparr>) s2"
    obtain s4 o4 where 4: "advance_state_machine sn t False False s3 = (s4, o4)" by (rule prod.exhaust)
    obtain vw' ms where n: "frame_next s t (st, i, sn, True, dv, bits) = (vw', ms)" by (rule prod.exhaust)
    have c: "calm t s (s2, o2)" using handle_packet_idle_calm [of t s sn] by (simp only: 2)
    then have "uart_cfg s3 = uart_cfg s" by (simp add: s3_def calm_def line_only_def)
    then have "frame_next s3 = frame_next s" by (rule frame_next_cfg)
    moreover have "frame_view (ua_line s3 t) = (st, i, sn, True, dv, bits)"
      using c vw by (simp add: s3_def calm_def frame_view_def)
    ultimately have "follows t s3 (s4, o4) (vw', ms)" using advance_next [of t s3 sn] by (simp only: 4 n)
    then have "follows t s2 (s4, o4) (vw', ms)" unfolding s3_def by (rule follows_upd)
    then have "follows t s (s4, o2 @ o4) (vw', ms)"
      using c by (auto simp: calm_def follows_def intro: line_only_then)
    moreover have "r = (s4, o2 @ o4)"
      unfolding r_def WAIT_FOR_START_BIT by (simp add: 2 wait_for_start_bit_def s3_def [symmetric] 4)
    ultimately show ?thesis using n WAIT_FOR_START_BIT by (simp add: frame_sees_def)
  next
    case GET_START_BIT
    then show ?thesis using get_start_bit_follows [OF vw [unfolded GET_START_BIT], of sn sig] by (simp add: r_def frame_sees_def vw)
  next
    case GET_DATA_BITS
    then show ?thesis using get_data_bits_follows [OF vw [unfolded GET_DATA_BITS], of sn sig] by (simp add: r_def frame_sees_def vw)
  next
    case GET_PARITY_BIT
    then show ?thesis using get_parity_bit_follows [OF vw [unfolded GET_PARITY_BIT], of sn sig] by (simp add: r_def frame_sees_def vw)
  next
    case GET_STOP_BITS
    then show ?thesis using get_stop_bits_follows [OF vw [unfolded GET_STOP_BITS], of sn sig] by (simp add: r_def frame_sees_def vw)
  qed
  moreover obtain s1 o1 where 1: "r = (s1, o1)" by (rule prod.exhaust)
  obtain o2 where "inspect_sample sn t sig s = (s1, o1 @ o2)" "\<And>t'. frame_msgs t' o2 = []"
    using 1 unfolding inspect_sample_def st r_def [symmetric] by (auto split: if_splits)
  ultimately show ?thesis by (simp add: vw 1 follows_def line_only_def)
qed

lemma process_line_follows:
  assumes "frame_view (ua_line s t) = vw"
  shows "follows t s (process_line sn matched base has_idle sig t s) (if bit matched base then frame_sees s t sn sig vw else (vw, []))"
proof -
  obtain s1 o1 where 1: "(if bit matched base then inspect_sample sn t sig s else (s, [])) = (s1, o1)" by (rule prod.exhaust)
  obtain s2 o2 where 2: "inspect_edge sn t sig s1 = (s2, o2)" by (rule prod.exhaust)
  obtain s3 o3 where 3: "inspect_idle sn t sig s2 = (s3, o3)" by (rule prod.exhaust)
  define r where "r = (if bit matched (base + 1) then (s3, o2 @ o3) else (s1, []))"
  obtain s4 o4 where 4: "r = (s4, o4)" by (rule prod.exhaust)
  obtain s5 o5 where 5: "(if has_idle \<and> bit matched (base + 2) then inspect_idle sn t sig s4 else (s4, [])) = (s5, o5)"
    by (rule prod.exhaust)
  have e: "process_line sn matched base has_idle sig t s = (s5, o1 @ o4 @ o5)"
    unfolding process_line_def 1 prod.case Let_def 2 3 r_def [symmetric] 4 5 ..
  have "follows t s (s1, o1) (if bit matched base then frame_sees s t sn sig vw else (vw, []))"
    using inspect_sample_follows [of t s sn sig] unfolding 1 [symmetric] assms by (simp add: follows_def assms)
  moreover have "calm t s1 (s4, o4)"
    using calm_then [OF inspect_edge_calm [of t s1 sn sig, unfolded 2] inspect_idle_calm [of t s2 sn sig, unfolded 3]]
    unfolding 4 [symmetric] r_def by simp
  moreover have "calm t s4 (s5, o5)" unfolding 5 [symmetric] using inspect_idle_calm by simp
  moreover obtain vw1 ms where "(if bit matched base then frame_sees s t sn sig vw else (vw, [])) = (vw1, ms)" by (rule prod.exhaust)
  ultimately show ?thesis unfolding e using follows_calm [OF _ calm_then] by simp
qed

definition line_base :: "u64 \<Rightarrow> nat \<Rightarrow> uart_s \<Rightarrow> nat" where
  "line_base cur t s = (if t = RX then 0 else length (line_conds cur RX s))"

lemma process_pin_only:
  "line_only t s (process_pin sn matched pins cur base t s0 s)"
  using followsD [OF process_line_follows [OF refl]] by (simp add: process_pin_def)

lemma process_pin_follows:
  assumes "ua_has_pin s t"
  shows "follows t s (process_pin sn matched pins cur base t s0 s)
    (if bit matched base then frame_sees s t sn (line_signal pins t s) (frame_view (ua_line s t)) else (frame_view (ua_line s t), []))"
  using assms process_line_follows [OF refl, of t s] by (simp add: process_pin_def)

lemma uart_step_line:
  assumes t: "uline t" and p: "ua_has_pin s t" and r: "uart_step sn matched pins (cur, s) = ((c', s'), out)"
  shows "c' = sn" "uart_cfg s' = uart_cfg s"
    "(frame_view (ua_line s' t), frame_msgs t out) =
       (if bit matched (line_base cur t s) then frame_sees s t sn (line_signal pins t s) (frame_view (ua_line s t))
        else (frame_view (ua_line s t), []))"
proof -
  obtain s1 o1 where 1: "process_pin sn matched pins cur 0 RX s s = (s1, o1)" by (rule prod.exhaust)
  obtain s2 o2 where 2: "process_pin sn matched pins cur (length (line_conds cur RX s)) TX s s1 = (s2, o2)" by (rule prod.exhaust)
  have e: "c' = sn" "s' = s2" "out = o1 @ o2" using r by (simp_all add: uart_step_def 1 2)
  show "c' = sn" by (rule e)
  have l1: "line_only RX s (s1, o1)" using process_pin_only [of RX s] 1 by metis
  have l2: "line_only TX s1 (s2, o2)" using process_pin_only [of TX s1] 2 by metis
  show "uart_cfg s' = uart_cfg s" using l1 l2 by (simp add: e line_only_def)
  have ne: "RX \<noteq> TX" "uline RX" "uline TX" by (simp_all add: RX_def TX_def uline_def)
  from t consider "t = RX" | "t = TX" by (auto simp: uline_def)
  then show "(frame_view (ua_line s' t), frame_msgs t out) =
       (if bit matched (line_base cur t s) then frame_sees s t sn (line_signal pins t s) (frame_view (ua_line s t))
        else (frame_view (ua_line s t), []))"
  proof cases
    case 1
    have "follows RX s (s1, o1) (if bit matched 0 then frame_sees s RX sn (line_signal pins RX s) (frame_view (ua_line s RX)) else (frame_view (ua_line s RX), []))"
      using process_pin_follows [of s RX sn matched pins cur 0 s] p \<open>process_pin sn matched pins cur 0 RX s s = (s1, o1)\<close> by (simp add: 1)
    then show ?thesis using l2 ne by (simp add: e follows_def line_only_def line_base_def 1 prod_eq_iff)
  next
    case 2
    have c: "uart_cfg s1 = uart_cfg s" using l1 by (simp add: line_only_def)
    have v: "ua_line s1 TX = ua_line s TX" using l1 ne(1) by (simp add: line_only_def)
    have o: "frame_msgs TX o1 = []" using l1 ne by (simp add: line_only_def)
    have sg: "line_signal pins TX s1 = line_signal pins TX s" using uart_cfg_sel(4) [OF c] by (simp add: line_signal_def)
    have "follows TX s1 (s2, o2) (if bit matched (length (line_conds cur RX s)) then frame_sees s TX sn (line_signal pins TX s) (frame_view (ua_line s TX)) else (frame_view (ua_line s TX), []))"
      using process_pin_follows [of s1 TX sn matched pins cur "length (line_conds cur RX s)" s] p [unfolded 2]
      unfolding \<open>process_pin sn matched pins cur (length (line_conds cur RX s)) TX s s1 = (s2, o2)\<close>
        uart_cfg_sel(6) [OF c] v sg frame_sees_cfg [OF c] by (simp only:)
    then show ?thesis using o ne by (simp add: e follows_def line_base_def 2 prod_eq_iff)
  qed
qed

section \<open>A line is a sampler\<close>

text \<open>The sample a frame waits for: an edge at first, then its next sample point.\<close>

definition line_due :: "uart_s \<Rightarrow> nat \<Rightarrow> nat \<Rightarrow> (int \<Rightarrow> u8) \<Rightarrow> (int \<Rightarrow> u8) \<Rightarrow> frame_view \<Rightarrow> bool" where
  "line_due s t k old x = (\<lambda>(st, i, f, _). if st = WAIT_FOR_START_BIT
     then level_sem (if ua_invert s t then SRD_TERM_RISING_EDGE else SRD_TERM_FALLING_EDGE) (old (int t)) (x (int t))
     else k = unat f + nat (rel_samplenum (ua_state_machine s ! i)))"

fun line_sampler :: "uart_s \<Rightarrow> nat \<Rightarrow> nat \<Rightarrow> (int \<Rightarrow> u8) \<Rightarrow> (int \<Rightarrow> u8) list \<Rightarrow> frame_view \<Rightarrow>
    frame_view \<times> (string \<times> c_field list) list" where
  "line_sampler s t k old [] vw = (vw, [])"
| "line_sampler s t k old (x # xs) vw =
     (if line_due s t k old x vw
      then let (vw1, m1) = frame_sees s t (of_nat k) (line_signal x t s) vw; (vw2, m2) = line_sampler s t (Suc k) x xs vw1
           in (vw2, m1 @ m2)
      else line_sampler s t (Suc k) x xs vw)"

text \<open>Sample points that come one after the other and do not pass \<open>B\<close>.\<close>

definition machine_ok :: "nat \<Rightarrow> sm_step list \<Rightarrow> bool" where
  "machine_ok B sm \<longleftrightarrow> Suc 0 < length sm \<and> sm_state (last sm) = WAIT_FOR_START_BIT \<and> 0 < rel_samplenum (sm ! 1)
     \<and> (\<forall>i. 0 < i \<longrightarrow> Suc i < length sm - 1 \<longrightarrow> rel_samplenum (sm ! i) < rel_samplenum (sm ! Suc i))
     \<and> (\<forall>p \<in> set sm. 0 \<le> rel_samplenum p \<and> rel_samplenum p \<le> int B)"

definition view_ok :: "uart_s \<Rightarrow> nat \<Rightarrow> frame_view \<Rightarrow> bool" where
  "view_ok s k = (\<lambda>(st, i, f, _). if st = WAIT_FOR_START_BIT then i = 0
     else 0 < i \<and> Suc i < length (ua_state_machine s) \<and> unat f \<le> k
        \<and> k \<le> unat f + nat (rel_samplenum (ua_state_machine s ! i)))"

lemma machine_okD:
  assumes "machine_ok B sm"
  shows "Suc 0 < length sm" "0 < rel_samplenum (sm ! 1)" "Suc i = length sm - 1 \<Longrightarrow> sm_state (sm ! Suc i) = WAIT_FOR_START_BIT"
    "0 < i \<Longrightarrow> Suc i < length sm - 1 \<Longrightarrow> rel_samplenum (sm ! i) < rel_samplenum (sm ! Suc i)"
    "i < length sm \<Longrightarrow> 0 \<le> rel_samplenum (sm ! i) \<and> rel_samplenum (sm ! i) \<le> int B"
  using assms last_conv_nth [of sm] by (cases "sm = []", auto simp: machine_ok_def)+

lemma line_due_cfg: "uart_cfg s = uart_cfg s' \<Longrightarrow> line_due s = line_due s'"
  using uart_cfg_sel(4,5) [of s s'] by (simp add: fun_eq_iff line_due_def)

lemma line_signal_cfg: "uart_cfg s = uart_cfg s' \<Longrightarrow> line_signal x t s = line_signal x t s'"
  using uart_cfg_sel(4) [of s s'] by (simp add: line_signal_def)

lemma view_ok_cfg: "uart_cfg s = uart_cfg s' \<Longrightarrow> view_ok s = view_ok s'"
  using uart_cfg_sel(5) [of s s'] by (simp add: fun_eq_iff view_ok_def)

lemma line_sampler_cfg:
  assumes "uart_cfg s = uart_cfg s'"
  shows "line_sampler s t k old xs vw = line_sampler s' t k old xs vw"
  by (induction xs arbitrary: k old vw)
    (simp_all only: line_sampler.simps line_due_cfg [OF assms] frame_sees_cfg [OF assms] line_signal_cfg [OF assms])

lemma view_ok_step: "view_ok s k vw \<Longrightarrow> \<not> line_due s t k old x vw \<Longrightarrow> view_ok s (Suc k) vw"
  by (auto simp: view_ok_def line_due_def split: if_splits)

lemma frame_next_ok:
  assumes m: "machine_ok B (ua_state_machine s)" and i: "Suc i < length (ua_state_machine s)" and k: "unat f \<le> k"
    and n: "0 < i \<Longrightarrow> k = unat f + nat (rel_samplenum (ua_state_machine s ! i))" "i = 0 \<Longrightarrow> k = unat f"
  shows "view_ok s (Suc k) (fst (frame_next s t (st, i, f, v, dv, bits)))"
proof (cases "sm_state (ua_state_machine s ! Suc i) = WAIT_FOR_START_BIT")
  case False
  with machine_okD(3) [OF m, of i] i have l: "Suc i < length (ua_state_machine s) - 1" by (cases "Suc i = length (ua_state_machine s) - 1") auto
  have "Suc k \<le> unat f + nat (rel_samplenum (ua_state_machine s ! Suc i))"
  proof (cases "i = 0")
    case True
    then show ?thesis using n(2) machine_okD(2) [OF m] by simp
  next
    case False
    have "i < length (ua_state_machine s)" using l by simp
    then show ?thesis using False n(1) machine_okD(4) [OF m, of i] machine_okD(5) [OF m, of i] l by linarith
  qed
  then show ?thesis using False l k by (simp add: frame_next_def view_ok_def Let_def)
qed (simp add: frame_next_def view_ok_def)

lemma view_ok_start [simp]: "view_ok s k (WAIT_FOR_START_BIT, 0, r)"
  by (cases r) (simp add: view_ok_def)

lemma view_ok_fields: "view_ok s k (st, i, f, v, dv, bits) = view_ok s k (st, i, f, v', dv', bits')"
  by (simp add: view_ok_def)

lemma frame_sees_ok:
  assumes m: "machine_ok B (ua_state_machine s)" and v: "view_ok s k vw" and d: "line_due s t k old x vw" and k: "k < 2 ^ 64"
  shows "view_ok s (Suc k) (fst (frame_sees s t (of_nat k) sig vw))"
proof -
  obtain st i f v dv bits where vw: "vw = (st, i, f, v, dv, bits)" by (rule prod_cases6)
  have kk: "unat (of_nat k :: u64) = k" using k by (simp add: unsigned_of_nat take_bit_nat_eq_self)
  show ?thesis
  proof (cases "st = WAIT_FOR_START_BIT")
    case True
    then show ?thesis using v kk machine_okD(1) [OF m] by (simp add: vw frame_sees_def view_ok_def [of s k] frame_next_ok [OF m])
  next
    case False
    have n: "view_ok s (Suc k) (fst (frame_next s t (st, i, f, v', dv', bits')))" for v' dv' bits'
      using v d False by (intro frame_next_ok [OF m]) (auto simp: vw view_ok_def line_due_def)
    have "view_ok s (Suc k) (fst (frame_sample s t sig vw))"
    proof (cases st)
      case GET_START_BIT
      obtain st' i' f' v' dv' bits' ms where e: "frame_next s t (st, i, f, v, dv, bits) = ((st', i', f', v', dv', bits'), ms)"
        by (metis surj_pair)
      then have "view_ok s (Suc k) (st', i', f', v', 0, [])" using n [of v dv bits] view_ok_fields by fastforce
      then show ?thesis using e GET_START_BIT by (simp add: frame_sample_def vw)
    next
      case GET_DATA_BITS
      then show ?thesis using n by (simp add: frame_sample_def vw Let_def split_beta)
    qed (use n False in \<open>simp_all add: frame_sample_def vw\<close>)
    then show ?thesis using False by (simp add: frame_sees_def vw)
  qed
qed

text \<open>The condition on the data holds just at the samples that are due.\<close>

definition wait_pos :: "bool \<Rightarrow> nat \<Rightarrow> nat \<Rightarrow> u64 \<Rightarrow> uart_state \<Rightarrow> bool" where
  "wait_pos m k e cur st \<longleftrightarrow> (if m then k = Suc (unat cur + e) else st = WAIT_FOR_START_BIT)"

lemma data_cond_due:
  assumes p: "wait_pos m k e cur (ul_state (ua_line s t))" and m: "machine_ok B (ua_state_machine s)"
    and v: "view_ok s k (frame_view (ua_line s t))" and b: "k + B < 2 ^ 64"
  shows "cond_sem old x e ((if m then map restart_skip else id) (data_cond cur t s)) \<longleftrightarrow> line_due s t k old x (frame_view (ua_line s t))"
proof (cases "ul_state (ua_line s t) = WAIT_FOR_START_BIT")
  case True
  then show ?thesis
    by (simp add: data_cond_def line_due_def frame_view_def restart_skip_def edge_term_def cond_sem_def term_sem_def)
next
  case False
  let ?f = "ul_frame_start (ua_line s t)" and ?r = "rel_samplenum (ua_state_machine s ! ul_state_num (ua_line s t))"
  from False p have me: "m" "k = Suc (unat cur + e)" by (simp_all add: wait_pos_def split: if_splits)
  from v False have i: "Suc (ul_state_num (ua_line s t)) < length (ua_state_machine s)" "unat ?f \<le> k" "k \<le> unat ?f + nat ?r"
    by (simp_all add: view_ok_def frame_view_def)
  have r: "0 \<le> ?r" "?r \<le> int B" using machine_okD(5) [OF m, of "ul_state_num (ua_line s t)"] i(1) by simp_all
  have ur: "unat (of_int ?r :: u64) = nat ?r"
    using r b by (simp add: unat_eq_nat_uint uint_word_of_int_eq take_bit_eq_mod)
  have "unat ?f + nat ?r < 2 ^ 64" using i(2) r b by linarith
  then have w: "unat (get_sample_point s t) = unat ?f + nat ?r"
    unfolding get_sample_point_def Let_def by (subst unat_word_ariths(1)) (simp add: ur)
  have lt: "cur < get_sample_point s t" unfolding word_less_nat_alt w using me(2) i(3) by simp
  then have d: "unat (get_sample_point s t - cur) = unat ?f + nat ?r - unat cur"
    using w by (simp add: unat_sub_if_size word_less_nat_alt)
  have "0 < get_sample_point s t - cur" using lt d w by (simp add: word_less_nat_alt)
  then have "cond_sem old x e (map restart_skip [cw_skip_term (get_sample_point s t - cur)]) \<longleftrightarrow> Suc e = unat ?f + nat ?r - unat cur"
    by (simp add: restart_skip_def cw_skip_term_def cond_sem_def term_sem_def d)
  moreover have "Suc e = unat ?f + nat ?r - unat cur \<longleftrightarrow> k = unat ?f + nat ?r" using me(2) i(3) by linarith
  ultimately show ?thesis using False lt me(1) by (simp add: data_cond_def line_due_def frame_view_def Let_def)
qed

lemma length_line_conds: "length (line_conds cur t s) \<le> 3"
  by (simp add: line_conds_def idle_conds_def Let_def)

lemma data_cond_at:
  assumes "uline t" and "ua_has_pin s t"
  shows "line_base cur t s < length (uart_waits (cur, s))" "uart_waits (cur, s) ! line_base cur t s = data_cond cur t s"
    "length (uart_waits (cur, s)) \<le> 31"
proof -
  have c: "line_conds cur t s \<noteq> []" "line_conds cur t s ! 0 = data_cond cur t s" using assms(2) by (simp_all add: line_conds_def)
  have "line_conds cur RX s @ line_conds cur TX s \<noteq> []" using c(1) assms(1) by (auto simp: uline_def)
  then have w: "uart_waits (cur, s) = line_conds cur RX s @ line_conds cur TX s" by (simp add: uart_waits_def Let_def)
  show "length (uart_waits (cur, s)) \<le> 31"
    unfolding w using length_line_conds [of cur RX s] length_line_conds [of cur TX s] by simp
  show "line_base cur t s < length (uart_waits (cur, s))" "uart_waits (cur, s) ! line_base cur t s = data_cond cur t s"
    unfolding w using c assms(1) by (auto simp: line_base_def uline_def nth_append)
qed

lemma uart_run_samples:
  assumes t: "uline t" and B: "k + length xs + B < 2 ^ 64"
    and "ua_has_pin s t" and "machine_ok B (ua_state_machine s)" and "view_ok s k (frame_view (ua_line s t))"
    and "wait_pos m k e cur (ul_state (ua_line s t))"
    and r: "run_wave uart_decode m k e old xs (cur, s) = ((c', s'), tr)"
  shows "line_sampler s t k old xs (frame_view (ua_line s t)) = (frame_view (ua_line s' t), concat (map (frame_msgs t \<circ> snd) tr))"
  using assms(2-)
proof (induction xs arbitrary: m k e old s cur s' tr c')
  case (Cons x xs)
  let ?vw = "frame_view (ua_line s t)"
  define ms where "ms = map (cond_sem old x e) (wait_conds uart_decode m (cur, s))"
  note dc = data_cond_at [OF t Cons.prems(2), of cur]
  have wc: "wait_conds uart_decode m (cur, s) = map (if m then map restart_skip else id) (uart_waits (cur, s))"
    by (simp add: wait_conds_def uart_decode_def)
  have base: "line_base cur t s < length ms" "length ms \<le> 31" using dc by (simp_all add: ms_def wc)
  have due: "ms ! line_base cur t s \<longleftrightarrow> line_due s t k old x ?vw"
    using data_cond_due [OF Cons.prems(5,3,4), of old x] Cons.prems(1) dc by (simp add: ms_def wc)
  show ?case
  proof (cases "True \<in> set ms")
    case False
    then have nd: "\<not> line_due s t k old x ?vw" using due base(1) nth_mem by metis
    have "wait_pos m (Suc k) (Suc e) cur (ul_state (ua_line s t))" using Cons.prems(5) by (simp add: wait_pos_def split: if_splits)
    with Cons.IH [of "Suc k" s m "Suc e" cur x c' s' tr] Cons.prems view_ok_step [OF Cons.prems(4) nd] False nd
    show ?thesis by (simp add: ms_def [symmetric])
  next
    case True
    obtain c1 s1 out where st: "uart_step (of_nat k) (match_mask 0 ms) x (cur, s) = ((c1, s1), out)"
      by (metis surj_pair)
    obtain c2 s2 tr1 where r1: "run_wave uart_decode True (Suc k) 0 x xs (c1, s1) = ((c2, s2), tr1)"
      by (metis surj_pair)
    have "prog_step uart_decode = uart_step" by (simp add: uart_decode_def)
    then have e: "c' = c2" "s' = s2" "tr = (k, out) # tr1"
      using Cons.prems(6) True st r1 by (simp_all add: ms_def [symmetric] Let_def del: set_map match_mask.simps)
    note sl = uart_step_line [OF t Cons.prems(2) st]
    have hit: "bit (match_mask 0 ms) (line_base cur t s) \<longleftrightarrow> line_due s t k old x ?vw"
      using bit_match_mask [of 0 ms "line_base cur t s"] base due by simp
    let ?sees = "frame_sees s t (of_nat k) (line_signal x t s) ?vw"
    have r2: "(frame_view (ua_line s1 t), frame_msgs t out) = (if line_due s t k old x ?vw then ?sees else (?vw, []))"
      using sl(3) hit by simp
    have "k < 2 ^ 64" using Cons.prems(1) by simp
    then have kk: "unat c1 = k" using sl(1) by (simp add: unsigned_of_nat take_bit_nat_eq_self)
    have "view_ok s (Suc k) (frame_view (ua_line s1 t))"
    proof (cases "line_due s t k old x ?vw")
      case True
      then have "frame_view (ua_line s1 t) = fst ?sees" using arg_cong [OF r2, of fst] by simp
      then show ?thesis using frame_sees_ok [OF Cons.prems(3,4) True \<open>k < 2 ^ 64\<close>] by simp
    next
      case False
      then show ?thesis using arg_cong [OF r2, of fst] view_ok_step [OF Cons.prems(4) False] by simp
    qed
    then have v1: "view_ok s1 (Suc k) (frame_view (ua_line s1 t))" using view_ok_cfg [OF sl(2)] by simp
    have "line_sampler s1 t (Suc k) x xs (frame_view (ua_line s1 t)) = (frame_view (ua_line s2 t), concat (map (frame_msgs t \<circ> snd) tr1))"
    proof (rule Cons.IH [OF _ _ _ v1 _ r1])
      show "Suc k + length xs + B < 2 ^ 64" using Cons.prems(1) by simp
      show "ua_has_pin s1 t" using Cons.prems(2) uart_cfg_sel(6) [OF sl(2)] by simp
      show "machine_ok B (ua_state_machine s1)" using Cons.prems(3) uart_cfg_sel(5) [OF sl(2)] by simp
      show "wait_pos True (Suc k) 0 c1 (ul_state (ua_line s1 t))" by (simp add: wait_pos_def kk)
    qed
    then have IH: "line_sampler s t (Suc k) x xs (frame_view (ua_line s1 t)) = (frame_view (ua_line s2 t), concat (map (frame_msgs t \<circ> snd) tr1))"
      by (simp only: line_sampler_cfg [OF sl(2)])
    show ?thesis
    proof (cases "line_due s t k old x ?vw")
      case True
      then have "?sees = (frame_view (ua_line s1 t), frame_msgs t out)" using r2 by simp
      then show ?thesis using True IH by (simp add: e o_def)
    next
      case False
      then show ?thesis using r2 IH by (simp add: e o_def)
    qed
  qed
qed simp

section \<open>The machine of init_state_machine\<close>

lemma c_round_bounds: "x - 1 / 2 \<le> real_of_int (c_round x)" "real_of_int (c_round x) \<le> x + 1 / 2"
  unfolding c_round_def by (auto; linarith)+

lemma c_round_less: "0 \<le> x \<Longrightarrow> x + 1 \<le> y \<Longrightarrow> c_round x < c_round y"
  unfolding c_round_def by (auto; linarith)

lemma stop_steps_nth:
  "i < length (stop_steps bw bsn num r) \<Longrightarrow>
     \<exists>h. stop_steps bw bsn num r ! i = get_bit_bounds bw bsn (num + i) h GET_STOP_BITS \<and> (r \<in> \<int> \<longrightarrow> \<not> h)"
proof (induction bw bsn num r arbitrary: i rule: stop_steps.induct)
  case (1 bw bsn num r)
  show ?case
  proof (cases "9 / 10 < r")
    case True
    show ?thesis
    proof (cases i)
      case 0
      then show ?thesis using True by (subst stop_steps.simps) auto
    next
      case (Suc j)
      then have "j < length (stop_steps bw bsn (Suc num) (r - 1))" using 1(2) True by (subst (asm) stop_steps.simps) simp
      from 1(1) [OF True this] have "\<exists>h. stop_steps bw bsn (Suc num) (r - 1) ! j = get_bit_bounds bw bsn (num + i) h GET_STOP_BITS \<and> (r - 1 \<in> \<int> \<longrightarrow> \<not> h)"
        by (simp add: Suc)
      then show ?thesis using True by (subst stop_steps.simps) (auto simp: Suc)
    qed
  next
    case False
    then have h: "4 / 10 < r" "i = 0" using 1(2) by (subst (asm) stop_steps.simps, simp split: if_splits)+
    have "r \<notin> \<int>"
    proof
      assume "r \<in> \<int>"
      then obtain z where r: "r = real_of_int z" by (rule Ints_cases)
      have "real_of_int 2 < real_of_int (5 * z)" "real_of_int (10 * z) \<le> real_of_int 9" using h(1) False unfolding r by simp_all
      then have "2 < 5 * z" "10 * z \<le> 9" unfolding of_int_less_iff of_int_le_iff .
      then show False by presburger
    qed
    then show ?thesis using False h by (subst stop_steps.simps) auto
  qed
qed

definition frame_bit_count :: "uart_s \<Rightarrow> nat" where
  "frame_bit_count s = 1 + nat (ua_data_bits s) + (if ua_parity_type s \<noteq> PARITY_NONE then 1 else 0)"

definition stop_count :: "uart_s \<Rightarrow> nat" where
  "stop_count s = length (stop_steps (ua_bit_width s) (ua_bit_samplenum s) (frame_bit_count s) (ua_stop_bits s))"

definition frame_state :: "uart_s \<Rightarrow> nat \<Rightarrow> uart_state" where
  "frame_state s j = (if j = 0 then GET_START_BIT else if j \<le> nat (ua_data_bits s) then GET_DATA_BITS
     else if j < frame_bit_count s then GET_PARITY_BIT else GET_STOP_BITS)"

definition uart_timed :: "uart_s \<Rightarrow> bool" where
  "uart_timed s \<longleftrightarrow> ua_state_machine s = ua_state_machine (init_state_machine s)"

lemma init_machine:
  "ua_state_machine (init_state_machine s) =
     [wait_step] @ map (\<lambda>j. get_bit_bounds (ua_bit_width s) (ua_bit_samplenum s) j False (frame_state s j)) [0..<frame_bit_count s]
     @ stop_steps (ua_bit_width s) (ua_bit_samplenum s) (frame_bit_count s) (ua_stop_bits s) @ [wait_step]"
proof -
  let ?n = "nat (ua_data_bits s)" and ?b = "\<lambda>j st. get_bit_bounds (ua_bit_width s) (ua_bit_samplenum s) j False st"
  have d: "map (\<lambda>j. ?b j (frame_state s j)) [1..<Suc ?n] = map (\<lambda>i. ?b (i + 1) GET_DATA_BITS) [0..<?n]"
    unfolding One_nat_def map_Suc_upt [symmetric] map_map by (intro map_cong) (auto simp: frame_state_def)
  have u: "[0..<frame_bit_count s] = 0 # [1..<Suc ?n] @ (if ua_parity_type s \<noteq> PARITY_NONE then [Suc ?n] else [])"
    by (simp add: frame_bit_count_def upt_conv_Cons del: upt_Suc) (simp add: upt_conv_Cons)
  have p: "frame_state s 0 = GET_START_BIT" "ua_parity_type s \<noteq> PARITY_NONE \<Longrightarrow> frame_state s (Suc ?n) = GET_PARITY_BIT"
    by (simp_all add: frame_state_def frame_bit_count_def)
  show ?thesis
    unfolding u list.map map_append d using p
    by (simp add: init_state_machine_def Let_def frame_bit_count_def)
qed

lemma machine_step:
  assumes "uart_timed s" and "j < frame_bit_count s + stop_count s"
  shows "\<exists>h. ua_state_machine s ! Suc j = get_bit_bounds (ua_bit_width s) (ua_bit_samplenum s) j h (frame_state s j)
    \<and> (j < frame_bit_count s \<or> ua_stop_bits s \<in> \<int> \<longrightarrow> \<not> h)"
proof (cases "j < frame_bit_count s")
  case True
  then show ?thesis using assms(1) unfolding uart_timed_def init_machine by (auto simp: nth_append)
next
  case False
  then have j: "j - frame_bit_count s < stop_count s" using assms(2) by linarith
  have "frame_state s j = GET_STOP_BITS" using False by (simp add: frame_state_def frame_bit_count_def)
  moreover have "ua_state_machine s ! Suc j =
    stop_steps (ua_bit_width s) (ua_bit_samplenum s) (frame_bit_count s) (ua_stop_bits s) ! (j - frame_bit_count s)"
    using assms(1) False j unfolding uart_timed_def init_machine by (simp add: nth_append stop_count_def)
  ultimately show ?thesis using stop_steps_nth [OF j [unfolded stop_count_def]] False by auto
qed

lemma machine_ends:
  assumes "uart_timed s"
  shows "length (ua_state_machine s) = frame_bit_count s + stop_count s + 2" "ua_state_machine s ! 0 = wait_step"
    "last (ua_state_machine s) = wait_step" "ua_state_machine s ! Suc (frame_bit_count s + stop_count s) = wait_step"
proof -
  show l: "length (ua_state_machine s) = frame_bit_count s + stop_count s + 2" "ua_state_machine s ! 0 = wait_step"
    and "last (ua_state_machine s) = wait_step"
    using assms by (simp_all add: uart_timed_def init_machine stop_count_def)
  then show "ua_state_machine s ! Suc (frame_bit_count s + stop_count s) = wait_step"
    using last_conv_nth [of "ua_state_machine s"] by (cases "ua_state_machine s = []") simp_all
qed

text \<open>The sample points, counted from the start of the frame.\<close>

definition frame_point :: "uart_s \<Rightarrow> nat \<Rightarrow> nat" where
  "frame_point s j = nat (rel_samplenum (ua_state_machine s ! Suc j))"

definition uart_span :: "uart_s \<Rightarrow> nat" where
  "uart_span s = fold max (map (\<lambda>p. nat (rel_samplenum p)) (ua_state_machine s)) 0"

lemma fold_max_le: "x \<in> set xs \<Longrightarrow> x \<le> fold max xs (a :: nat)" "a \<le> fold max xs a"
proof (induction xs arbitrary: a)
  case (Cons y ys)
  { case 1
    then show ?case using Cons(1) [of "max y a"] Cons(2) [of "max y a"] by (auto simp: max_def split: if_splits) }
  { case 2
    then show ?case using Cons(2) [of "max y a"] by simp }
qed simp_all

lemma point_bounds:
  assumes "uart_timed s" and j: "j < frame_bit_count s + stop_count s" and b: "0 \<le> ua_bit_samplenum s" "0 \<le> ua_bit_width s"
  defines "h \<equiv> if j < frame_bit_count s \<or> ua_stop_bits s \<in> \<int> then ua_bit_samplenum s else ua_bit_samplenum s / 2"
  shows "real j * ua_bit_width s + h - 1 / 2 \<le> real (frame_point s j)"
    "real (frame_point s j) \<le> real j * ua_bit_width s + ua_bit_samplenum s + 1 / 2"
    "rel_samplenum (ua_state_machine s ! Suc j) \<le> int (uart_span s)" "0 \<le> rel_samplenum (ua_state_machine s ! Suc j)"
    "sm_state (ua_state_machine s ! Suc j) = frame_state s j"
proof -
  obtain hf where p: "ua_state_machine s ! Suc j = get_bit_bounds (ua_bit_width s) (ua_bit_samplenum s) j hf (frame_state s j)"
    and hf: "j < frame_bit_count s \<or> ua_stop_bits s \<in> \<int> \<longrightarrow> \<not> hf" using machine_step [OF assms(1) j] by blast
  define x where "x = real j * ua_bit_width s + (if hf then ua_bit_samplenum s * (1 / 2) else ua_bit_samplenum s)"
  have r: "rel_samplenum (ua_state_machine s ! Suc j) = c_round x" by (simp add: p get_bit_bounds_def x_def Let_def)
  have x0: "0 \<le> x" using b by (simp add: x_def)
  then show z: "0 \<le> rel_samplenum (ua_state_machine s ! Suc j)" unfolding r c_round_def by simp
  then have fp: "real (frame_point s j) = real_of_int (c_round x)" by (simp add: frame_point_def r)
  show "real j * ua_bit_width s + h - 1 / 2 \<le> real (frame_point s j)"
    unfolding fp using c_round_bounds(1) [of x] hf b by (auto simp: x_def h_def split: if_splits)
  show "real (frame_point s j) \<le> real j * ua_bit_width s + ua_bit_samplenum s + 1 / 2"
    unfolding fp using c_round_bounds(2) [of x] b by (auto simp: x_def split: if_splits)
  have "ua_state_machine s ! Suc j \<in> set (ua_state_machine s)" using machine_ends(1) [OF assms(1)] j by simp
  then have "nat (rel_samplenum (ua_state_machine s ! Suc j)) \<le> uart_span s"
    unfolding uart_span_def by (intro fold_max_le(1)) simp
  then show "rel_samplenum (ua_state_machine s ! Suc j) \<le> int (uart_span s)" by linarith
  show "sm_state (ua_state_machine s ! Suc j) = frame_state s j" by (simp add: p get_bit_bounds_def Let_def)
qed

lemma uart_machine_ok:
  assumes t: "uart_timed s" and b: "2 \<le> ua_bit_width s" "1 / 2 \<le> ua_bit_samplenum s" "ua_bit_samplenum s \<le> ua_bit_width s"
  shows "machine_ok (uart_span s) (ua_state_machine s)"
proof -
  note e = machine_ends [OF t]
  have b0: "0 \<le> ua_bit_samplenum s" "0 \<le> ua_bit_width s" using b by simp_all
  let ?n = "frame_bit_count s + stop_count s"
  have fb: "0 < frame_bit_count s" by (simp add: frame_bit_count_def)
  have first: "0 < rel_samplenum (ua_state_machine s ! 1)"
  proof -
    obtain h where p: "ua_state_machine s ! Suc 0 = get_bit_bounds (ua_bit_width s) (ua_bit_samplenum s) 0 h (frame_state s 0)" "\<not> h"
      using machine_step [OF t, of 0] fb by auto
    have "1 \<le> \<lfloor>ua_bit_samplenum s + 1 / 2\<rfloor>" using b(2) by (simp add: le_floor_iff)
    then show ?thesis using b0 by (simp add: p get_bit_bounds_def c_round_def)
  qed
  have incr: "rel_samplenum (ua_state_machine s ! i) < rel_samplenum (ua_state_machine s ! Suc i)"
    if i0: "0 < i" "Suc i < length (ua_state_machine s) - 1" for i
  proof -
    from i0(1) have "\<exists>j. i = Suc j" by presburger
    then obtain j where i: "i = Suc j" by blast
    obtain h1 where 1: "ua_state_machine s ! Suc j = get_bit_bounds (ua_bit_width s) (ua_bit_samplenum s) j h1 (frame_state s j)"
      using machine_step [OF t, of j] i0 e(1) i by auto
    obtain h2 where 2: "ua_state_machine s ! Suc (Suc j) = get_bit_bounds (ua_bit_width s) (ua_bit_samplenum s) (Suc j) h2 (frame_state s (Suc j))"
      using machine_step [OF t, of "Suc j"] i0 e(1) i by auto
    have "c_round (real j * ua_bit_width s + (if h1 then ua_bit_samplenum s / 2 else ua_bit_samplenum s))
        < c_round (real (Suc j) * ua_bit_width s + (if h2 then ua_bit_samplenum s / 2 else ua_bit_samplenum s))"
      using b b0 by (intro c_round_less) (auto simp: algebra_simps)
    then show ?thesis unfolding i 1 2 by (auto simp: get_bit_bounds_def Let_def split: if_splits)
  qed
  have bound: "0 \<le> rel_samplenum p \<and> rel_samplenum p \<le> int (uart_span s)" if pin: "p \<in> set (ua_state_machine s)" for p
  proof -
    obtain i where i: "i < length (ua_state_machine s)" "p = ua_state_machine s ! i" using pin by (auto simp: in_set_conv_nth)
    have "i = 0 \<or> i = Suc ?n \<or> (\<exists>j. i = Suc j \<and> j < ?n)" using i(1) e(1) by (cases i) auto
    then consider "i = 0" | "i = Suc ?n" | j where "i = Suc j" "j < ?n" by blast
    then show ?thesis
    proof cases
      case 3
      then show ?thesis using point_bounds(3,4) [OF t 3(2) b0] i(2) by simp
    qed (simp_all add: i(2) e(2,4) wait_step_def)
  qed
  show ?thesis using e first incr bound by (simp add: machine_ok_def wait_step_def)
qed

section \<open>Segments of a waveform\<close>

definition line_seg :: "uart_s \<Rightarrow> nat \<Rightarrow> (nat \<Rightarrow> int \<Rightarrow> u8) \<Rightarrow> nat \<Rightarrow> nat \<Rightarrow> frame_view \<Rightarrow> frame_view \<times> (string \<times> c_field list) list" where
  "line_seg s t lv k n vw = line_sampler s t k (lv (k - 1)) (map lv [k..<n]) vw"

text \<open>One part after the other.\<close>

definition seg_then ::
    "(frame_view \<Rightarrow> frame_view \<times> 'm list) \<Rightarrow> (frame_view \<Rightarrow> frame_view \<times> 'm list) \<Rightarrow> frame_view \<Rightarrow> frame_view \<times> 'm list" where
  "seg_then f g vw = (let (vw1, m1) = f vw; (vw2, m2) = g vw1 in (vw2, m1 @ m2))"

lemma seg_then_eq: "f vw = (vw1, m1) \<Longrightarrow> g vw1 = (vw2, m2) \<Longrightarrow> seg_then f g vw = (vw2, m1 @ m2)"
  by (simp add: seg_then_def)

lemma line_sampler_append:
  "line_sampler s t k old (xs @ ys) =
     seg_then (line_sampler s t k old xs) (line_sampler s t (k + length xs) (last (old # xs)) ys)"
proof (rule ext)
  fix vw
  show "line_sampler s t k old (xs @ ys) vw =
     seg_then (line_sampler s t k old xs) (line_sampler s t (k + length xs) (last (old # xs)) ys) vw"
  proof (induction xs arbitrary: k old vw)
    case (Cons x xs)
    show ?case using Cons [of "Suc k" x] by (simp add: seg_then_def split_beta Let_def)
  qed (simp add: seg_then_def)
qed

lemma seg_split:
  assumes "0 < k" "k \<le> j" "j \<le> n"
  shows "line_seg s t lv k n = seg_then (line_seg s t lv k j) (line_seg s t lv j n)"
proof -
  have u: "[k..<n] = [k..<j] @ [j..<n]" using assms(2,3) by (metis le_add_diff_inverse upt_add_eq_append)
  have l: "last (lv (k - 1) # map lv [k..<j]) = lv (j - 1)"
    using assms(1,2) by (cases "k = j") (auto simp: last_map)
  show ?thesis
    unfolding line_seg_def [abs_def] u map_append line_sampler_append l using assms(2) by simp
qed

lemma seg_quiet:
  assumes "0 < k" and "\<And>j. k \<le> j \<Longrightarrow> j < n \<Longrightarrow> \<not> line_due s t j (lv (j - 1)) (lv j) vw"
  shows "line_seg s t lv k n vw = (vw, [])"
proof (cases "k \<le> n")
  case True
  have "line_sampler s t k old (map lv [k..<k + d]) vw = (vw, [])" if "old = lv (k - 1)" "k + d \<le> n" for d old
    using that
  proof (induction d)
    case (Suc d)
    have "line_sampler s t k old (map lv [k..<k + d] @ [lv (k + d)]) vw = (vw, [])"
    proof -
      have l: "last (old # map lv [k..<k + d]) = lv (k + d - 1)"
        using Suc.prems assms(1) by (cases d) (auto simp: last_map)
      show ?thesis
        unfolding line_sampler_append l using Suc assms(2) [of "k + d"] by (simp add: seg_then_def)
    qed
    then show ?case by simp
  qed simp
  from this [of "lv (k - 1)" "n - k"] show ?thesis using True by (simp add: line_seg_def)
qed (simp add: line_seg_def)

lemma seg_hit:
  "line_due s t j (lv (j - 1)) (lv j) vw \<Longrightarrow> line_seg s t lv j (Suc j) vw = frame_sees s t (of_nat j) (line_signal (lv j) t s) vw"
  by (simp add: line_seg_def split_beta)

lemma seg_empty [simp]: "line_seg s t lv k k vw = (vw, [])"
  by (simp add: line_seg_def)

section \<open>The samples of a frame\<close>

lemma seg_point:
  assumes st: "st \<noteq> WAIT_FOR_START_BIT" and k: "0 < k" "k \<le> unat f + frame_point s j"
  shows "line_seg s t lv k (Suc (unat f + frame_point s j)) (st, Suc j, f, v, dv, bits) =
    frame_sample s t (line_signal (lv (unat f + frame_point s j)) t s) (st, Suc j, f, v, dv, bits)"
proof -
  let ?p = "unat f + frame_point s j" and ?vw = "(st, Suc j, f, v, dv, bits)"
  have due: "line_due s t i (lv (i - 1)) (lv i) ?vw \<longleftrightarrow> i = ?p" for i
    using st by (simp add: line_due_def frame_point_def)
  have "line_seg s t lv k ?p ?vw = (?vw, [])" using k(1) due by (intro seg_quiet) auto
  moreover have "line_seg s t lv ?p (Suc ?p) ?vw = frame_sample s t (line_signal (lv ?p) t s) ?vw"
    using due st by (subst seg_hit) (simp_all add: frame_sees_def)
  ultimately show ?thesis
    using k seg_split [of k ?p "Suc ?p" s t lv] by (simp add: seg_then_def split_beta)
qed

text \<open>A line of a timed decoder, with a frame that starts at \<open>f\<close> and sample points in order.\<close>

definition frame_timed :: "uart_s \<Rightarrow> bool" where
  "frame_timed s \<longleftrightarrow> uart_timed s \<and> 0 < ua_data_bits s \<and> machine_ok (uart_span s) (ua_state_machine s)"

definition point_level :: "uart_s \<Rightarrow> nat \<Rightarrow> (nat \<Rightarrow> int \<Rightarrow> u8) \<Rightarrow> u64 \<Rightarrow> nat \<Rightarrow> int" where
  "point_level s t lv f j = line_signal (lv (unat f + frame_point s j)) t s"

lemma frame_timed_points:
  assumes "frame_timed s" and "Suc j < frame_bit_count s + stop_count s"
  shows "frame_point s j < frame_point s (Suc j)"
proof -
  have m: "machine_ok (uart_span s) (ua_state_machine s)" and l: "length (ua_state_machine s) = frame_bit_count s + stop_count s + 2"
    using assms(1) machine_ends(1) by (simp_all add: frame_timed_def)
  from machine_okD(4) [OF m, of "Suc j"] machine_okD(5) [OF m, of "Suc j"] assms(2) l
  have "rel_samplenum (ua_state_machine s ! Suc j) < rel_samplenum (ua_state_machine s ! Suc (Suc j))" "0 \<le> rel_samplenum (ua_state_machine s ! Suc j)"
    by auto
  then show ?thesis by (simp add: frame_point_def)
qed

lemma frame_timed_state:
  assumes "frame_timed s"
  shows "j < frame_bit_count s + stop_count s \<Longrightarrow> sm_state (ua_state_machine s ! Suc j) = frame_state s j"
    "sm_state (ua_state_machine s ! Suc (frame_bit_count s + stop_count s)) = WAIT_FOR_START_BIT"
proof -
  have t: "uart_timed s" using assms by (simp add: frame_timed_def)
  show "j < frame_bit_count s + stop_count s \<Longrightarrow> sm_state (ua_state_machine s ! Suc j) = frame_state s j"
    using machine_step [OF t, of j] by (auto simp: get_bit_bounds_def Let_def)
  show "sm_state (ua_state_machine s ! Suc (frame_bit_count s + stop_count s)) = WAIT_FOR_START_BIT"
    using machine_ends(4) [OF t] by (simp add: wait_step_def)
qed

lemma frame_state_inner: "frame_state s j \<noteq> WAIT_FOR_START_BIT"
  by (simp add: frame_state_def)

text \<open>The segment from after one sample point to after the next.\<close>

lemma seg_next_point:
  assumes ft: "frame_timed s" and j: "Suc j < frame_bit_count s + stop_count s" and st: "st \<noteq> WAIT_FOR_START_BIT"
  shows "line_seg s t lv (Suc (unat f + frame_point s j)) (Suc (unat f + frame_point s (Suc j))) (st, Suc (Suc j), f, v, dv, bits) =
    frame_sample s t (point_level s t lv f (Suc j)) (st, Suc (Suc j), f, v, dv, bits)"
  using frame_timed_points [OF ft j] unfolding point_level_def by (intro seg_point [OF st]) simp_all

definition sees_to :: "uart_s \<Rightarrow> nat \<Rightarrow> (nat \<Rightarrow> int \<Rightarrow> u8) \<Rightarrow> u64 \<Rightarrow> nat \<Rightarrow> nat \<Rightarrow> frame_view \<Rightarrow> frame_view \<times> (string \<times> c_field list) list" where
  "sees_to s t lv f j j' = line_seg s t lv (Suc (unat f + frame_point s j)) (Suc (unat f + frame_point s j'))"

lemma frame_point_mono:
  assumes "frame_timed s"
  shows "j \<le> j' \<Longrightarrow> j' < frame_bit_count s + stop_count s \<Longrightarrow> frame_point s j \<le> frame_point s j'"
proof (induction j')
  case (Suc j')
  then show ?case using frame_timed_points [OF assms, of j'] by (cases "j = Suc j'") auto
qed simp

lemma sees_to_split:
  assumes "frame_timed s" and "j \<le> i" and "i \<le> j'" and "j' < frame_bit_count s + stop_count s"
  shows "sees_to s t lv f j j' = seg_then (sees_to s t lv f j i) (sees_to s t lv f i j')"
  unfolding sees_to_def
  using frame_point_mono [OF assms(1,2)] frame_point_mono [OF assms(1,3,4)] assms(3,4) by (intro seg_split) simp_all

lemma sees_to_next:
  assumes "frame_timed s" and "Suc j < frame_bit_count s + stop_count s" and "st \<noteq> WAIT_FOR_START_BIT"
  shows "sees_to s t lv f j (Suc j) (st, Suc (Suc j), f, v, dv, bits) =
    frame_sample s t (point_level s t lv f (Suc j)) (st, Suc (Suc j), f, v, dv, bits)"
  unfolding sees_to_def by (rule seg_next_point [OF assms])

text \<open>The stop bits: from the bit \<open>j\<close> on there are only stop bits, all at one.\<close>

lemma stop_bits_run:
  assumes ft: "frame_timed s" and n: "Suc j + n = frame_bit_count s + stop_count s" and j: "frame_bit_count s \<le> Suc j"
    and lv: "\<And>i. frame_bit_count s \<le> i \<Longrightarrow> i < frame_bit_count s + stop_count s \<Longrightarrow> point_level s t lv f i = 1"
  shows "seg_then (frame_next s t) (sees_to s t lv f j (j + n)) (st, Suc j, f, v, dv, bits) =
    ((WAIT_FOR_START_BIT, 0, f, v, dv, bits), [frame_end_msg t dv v])"
  using n j
proof (induction n arbitrary: j st)
  case 0
  then show ?case using frame_timed_state(2) [OF ft] by (simp add: seg_then_def frame_next_def sees_to_def)
next
  case (Suc n)
  then have l: "Suc j < frame_bit_count s + stop_count s" by simp
  have st: "sm_state (ua_state_machine s ! Suc (Suc j)) = GET_STOP_BITS"
    using frame_timed_state(1) [OF ft l] Suc.prems(2) by (simp add: frame_state_def frame_bit_count_def split: if_splits)
  have 1: "frame_next s t (st, Suc j, f, v, dv, bits) = ((GET_STOP_BITS, Suc (Suc j), f, v, dv, bits), [])"
    by (simp add: frame_next_def st)
  have 2: "sees_to s t lv f j (Suc j) (GET_STOP_BITS, Suc (Suc j), f, v, dv, bits) = frame_next s t (GET_STOP_BITS, Suc (Suc j), f, v, dv, bits)"
    using lv [of "Suc j"] Suc.prems by (subst sees_to_next [OF ft l]) (simp_all add: frame_sample_def)
  have sp: "sees_to s t lv f j (j + Suc n) = seg_then (sees_to s t lv f j (Suc j)) (sees_to s t lv f (Suc j) (Suc j + n))"
    using sees_to_split [OF ft, of j "Suc j" "j + Suc n"] Suc.prems(1) by simp
  have "seg_then (frame_next s t) (sees_to s t lv f (Suc j) (Suc j + n)) (GET_STOP_BITS, Suc (Suc j), f, v, dv, bits) =
    ((WAIT_FOR_START_BIT, 0, f, v, dv, bits), [frame_end_msg t dv v])"
    using Suc.prems by (intro Suc.IH) simp_all
  then show ?case unfolding sp by (simp add: seg_then_def 1 2)
qed

text \<open>The data bits.\<close>

lemma data_bits_run:
  assumes ft: "frame_timed s" and n: "length bits + Suc n = nat (ua_data_bits s)"
  shows "sees_to s t lv f (length bits) (nat (ua_data_bits s)) (GET_DATA_BITS, Suc (Suc (length bits)), f, v, dv, bits) =
    (let b = bits_number (ua_msb_first s) (ua_data_bits s) 0 (bits @ map (point_level s t lv f) [Suc (length bits)..<Suc (nat (ua_data_bits s))]);
         (vw, ms) = frame_next s t (GET_DATA_BITS, Suc (nat (ua_data_bits s)), f, v, b, []) in (vw, value_msg t b # ms))"
  using n
proof (induction n arbitrary: bits)
  case 0
  let ?j = "length bits"
  have l: "Suc ?j < frame_bit_count s + stop_count s" "nat (ua_data_bits s) = Suc ?j" "int (Suc ?j) = ua_data_bits s"
    using 0 ft by (simp_all add: frame_bit_count_def frame_timed_def)
  show ?case unfolding l(2) by (subst sees_to_next [OF ft l(1)]) (use l(3) in \<open>simp_all add: frame_sample_def Let_def\<close>)
next
  case (Suc n)
  let ?j = "length bits" and ?p = "point_level s t lv f"
  have l: "Suc ?j < frame_bit_count s + stop_count s" "int (Suc ?j) \<noteq> ua_data_bits s" "Suc (Suc ?j) \<le> nat (ua_data_bits s)"
    using Suc.prems by (simp_all add: frame_bit_count_def)
  have st: "sm_state (ua_state_machine s ! Suc (Suc (Suc ?j))) = GET_DATA_BITS"
    using frame_timed_state(1) [OF ft, of "Suc (Suc ?j)"] l(3) by (simp add: frame_state_def frame_bit_count_def)
  have 1: "sees_to s t lv f ?j (Suc ?j) (GET_DATA_BITS, Suc (Suc ?j), f, v, dv, bits) =
      ((GET_DATA_BITS, Suc (Suc (length (bits @ [?p (Suc ?j)]))), f, v, dv, bits @ [?p (Suc ?j)]), [])"
    using l(2) st by (subst sees_to_next [OF ft l(1)]) (simp_all add: frame_sample_def Let_def frame_next_def)
  have sp: "sees_to s t lv f ?j (nat (ua_data_bits s)) = seg_then (sees_to s t lv f ?j (Suc ?j)) (sees_to s t lv f (Suc ?j) (nat (ua_data_bits s)))"
    using l(3) by (intro sees_to_split [OF ft]) (simp_all add: frame_bit_count_def)
  have u: "[Suc ?j..<Suc (nat (ua_data_bits s))] = Suc ?j # [Suc (Suc ?j)..<Suc (nat (ua_data_bits s))]"
    using l(3) by (simp add: upt_conv_Cons del: upt_Suc)
  from Suc.IH [of "bits @ [?p (Suc ?j)]"] Suc.prems
  show ?case unfolding sp u by (simp add: seg_then_def 1 split_beta Let_def del: upt_Suc)
qed

lemma frame_run:
  assumes ft: "frame_timed s" and f: "0 < unat f" and due: "line_due s t (unat f) (lv (unat f - 1)) (lv (unat f)) (WAIT_FOR_START_BIT, 0, f0, v0, d0, b0)"
    and start: "point_level s t lv f 0 = 0"
    and stop: "\<And>i. frame_bit_count s \<le> i \<Longrightarrow> i < frame_bit_count s + stop_count s \<Longrightarrow> point_level s t lv f i = 1"
  defines "n \<equiv> nat (ua_data_bits s)" and "l \<equiv> frame_bit_count s + stop_count s - 1"
    and "b \<equiv> bits_number (ua_msb_first s) (ua_data_bits s) 0 (map (point_level s t lv f) [1..<Suc (nat (ua_data_bits s))])"
  defines "ok \<equiv> ua_parity_type s = PARITY_NONE \<or> parity_ok (ua_parity_type s) (point_level s t lv f (Suc n)) b (ua_data_bits s)"
  shows "line_seg s t lv (unat f) (Suc (unat f + frame_point s l)) (WAIT_FOR_START_BIT, 0, f0, v0, d0, b0) =
    ((WAIT_FOR_START_BIT, 0, f, ok, b, []), [value_msg t b, frame_end_msg t b ok])"
proof -
  have n: "0 < n" "n < frame_bit_count s + stop_count s" "n \<le> l" "l < frame_bit_count s + stop_count s"
    using ft by (simp_all add: n_def l_def frame_bit_count_def frame_timed_def)
  have m: "machine_ok (uart_span s) (ua_state_machine s)" using ft by (simp add: frame_timed_def)
  have p0: "0 < frame_point s 0" using machine_okD(2) [OF m] by (simp add: frame_point_def)
  have st0: "sm_state (ua_state_machine s ! Suc 0) = GET_START_BIT"
    using frame_timed_state(1) [OF ft, of 0] by (simp add: frame_state_def frame_bit_count_def)
  have st1: "sm_state (ua_state_machine s ! Suc (Suc 0)) = GET_DATA_BITS"
    using frame_timed_state(1) [OF ft, of 1] n(1,2) by (simp add: frame_state_def n_def [symmetric] Suc_le_eq)
  have 1: "line_seg s t lv (unat f) (Suc (unat f)) (WAIT_FOR_START_BIT, 0, f0, v0, d0, b0) = ((GET_START_BIT, Suc 0, f, True, d0, b0), [])"
    by (subst seg_hit [of s t "unat f", OF due]) (simp add: frame_sees_def frame_next_def st0)
  have "line_seg s t lv (Suc (unat f)) (Suc (unat f + frame_point s 0)) (GET_START_BIT, Suc 0, f, True, d0, b0) =
      frame_sample s t (point_level s t lv f 0) (GET_START_BIT, Suc 0, f, True, d0, b0)"
    unfolding point_level_def using p0 by (intro seg_point) simp_all
  then have 2: "line_seg s t lv (Suc (unat f)) (Suc (unat f + frame_point s 0)) (GET_START_BIT, Suc 0, f, True, d0, b0) =
      ((GET_DATA_BITS, Suc (Suc 0), f, True, 0, []), [])"
    by (simp add: start frame_sample_def frame_next_def st1)
  obtain vw ms where fn: "frame_next s t (GET_DATA_BITS, Suc n, f, True, b, []) = (vw, ms)" by (rule prod.exhaust)
  have q: "length [] + Suc (n - 1) = nat (ua_data_bits s)" using n(1) by (simp add: n_def)
  have 3: "sees_to s t lv f 0 n (GET_DATA_BITS, Suc (Suc 0), f, True, 0, []) = (vw, value_msg t b # ms)"
    using data_bits_run [OF ft q, of t lv f True 0] fn by (simp add: n_def b_def Let_def del: upt_Suc)
  have fin: "seg_then (frame_next s t) (sees_to s t lv f n l) (GET_DATA_BITS, Suc n, f, True, b, []) =
    ((WAIT_FOR_START_BIT, 0, f, ok, b, []), [frame_end_msg t b ok])"
  proof (cases "ua_parity_type s = PARITY_NONE")
    case True
    then have "frame_bit_count s = Suc n" "n + stop_count s = l" by (simp_all add: frame_bit_count_def n_def l_def)
    then show ?thesis using stop_bits_run [OF ft, of n "stop_count s" t lv f GET_DATA_BITS True b "[]"] stop True by (simp add: ok_def)
  next
    case False
    then have c: "frame_bit_count s = Suc (Suc n)" "Suc n + stop_count s = l" by (simp_all add: frame_bit_count_def n_def l_def)
    have st2: "sm_state (ua_state_machine s ! Suc (Suc n)) = GET_PARITY_BIT"
      using frame_timed_state(1) [OF ft, of "Suc n"] c by (simp add: frame_state_def n_def)
    have a: "frame_next s t (GET_DATA_BITS, Suc n, f, True, b, []) = ((GET_PARITY_BIT, Suc (Suc n), f, True, b, []), [])"
      by (simp add: frame_next_def st2)
    have p: "sees_to s t lv f n (Suc n) (GET_PARITY_BIT, Suc (Suc n), f, True, b, []) = frame_next s t (GET_PARITY_BIT, Suc (Suc n), f, ok, b, [])"
      using c False by (subst sees_to_next [OF ft]) (simp_all add: frame_sample_def ok_def)
    have "sees_to s t lv f n l = seg_then (sees_to s t lv f n (Suc n)) (sees_to s t lv f (Suc n) l)"
      using c by (intro sees_to_split [OF ft]) simp_all
    then show ?thesis
      using stop_bits_run [OF ft, of "Suc n" "stop_count s" t lv f GET_PARITY_BIT ok b "[]"] stop c by (simp add: seg_then_def a p)
  qed
  have "line_seg s t lv (unat f) (Suc (unat f + frame_point s l)) =
      seg_then (line_seg s t lv (unat f) (Suc (unat f))) (seg_then (line_seg s t lv (Suc (unat f)) (Suc (unat f + frame_point s 0)))
        (seg_then (sees_to s t lv f 0 n) (sees_to s t lv f n l)))"
    unfolding sees_to_split [OF ft _ n(3,4), symmetric, of 0, simplified] unfolding sees_to_def
    using f frame_point_mono [OF ft _ n(4), of 0] by (simp add: seg_split [symmetric])
  then show ?thesis using fin by (simp add: seg_then_def 1 2 3 fn split_beta)
qed

section \<open>A sender\<close>

text \<open>The bits of a value as they go over the line, up to the stop bits.\<close>

definition sent_parity :: "uart_s \<Rightarrow> int \<Rightarrow> int" where
  "sent_parity s v = (let ones = int (length (filter (bit v) [0..<nat (ua_data_bits s)])) in case ua_parity_type s of
     PARITY_ODD \<Rightarrow> 1 - ones mod 2 | PARITY_EVEN \<Rightarrow> ones mod 2 | PARITY_ONE \<Rightarrow> 1 | _ \<Rightarrow> 0)"

definition sent_data :: "uart_s \<Rightarrow> int \<Rightarrow> int list" where
  "sent_data s v = map (\<lambda>i. of_bool (bit v (if ua_msb_first s then nat (ua_data_bits s) - 1 - i else i))) [0..<nat (ua_data_bits s)]"

definition sent_bits :: "uart_s \<Rightarrow> int \<Rightarrow> int list" where
  "sent_bits s v = 0 # sent_data s v @ (if ua_parity_type s \<noteq> PARITY_NONE then [sent_parity s v] else [])"

text \<open>The level of a line with frames of the width \<open>w\<close> per bit, given by start and value.\<close>

fun tx_level :: "uart_s \<Rightarrow> real \<Rightarrow> (nat \<times> int) list \<Rightarrow> nat \<Rightarrow> int" where
  "tx_level s w [] n = 1"
| "tx_level s w ((F, v) # fs) n =
     (if fs \<noteq> [] \<and> fst (hd fs) \<le> n then tx_level s w fs n
      else if n < F then 1
      else let j = nat \<lfloor>real (n - F) / w\<rfloor> in if j < length (sent_bits s v) then sent_bits s v ! j else 1)"

fun frames_spaced :: "uart_s \<Rightarrow> real \<Rightarrow> (nat \<times> int) list \<Rightarrow> bool" where
  "frames_spaced s w [] = True"
| "frames_spaced s w ((F, v) # fs) \<longleftrightarrow>
     0 \<le> v \<and> v < 2 ^ nat (ua_data_bits s)
     \<and> (fs \<noteq> [] \<longrightarrow> F + uart_span s < fst (hd fs) \<and> real F + real (frame_bit_count s) * w + 1 \<le> real (fst (hd fs)))
     \<and> frames_spaced s w fs"

text \<open>The width of a bit of the sender is near enough to that of the receiver.\<close>

definition baud_ok :: "uart_s \<Rightarrow> real \<Rightarrow> bool" where
  "baud_ok s w \<longleftrightarrow> (let d = real (frame_bit_count s) * \<bar>w - ua_bit_width s\<bar> + 1 / 2
     in d \<le> (if ua_stop_bits s \<in> \<int> then ua_bit_samplenum s else ua_bit_samplenum s / 2) \<and> d < ua_bit_width s - ua_bit_samplenum s)"

definition line_pin :: "uart_s \<Rightarrow> nat \<Rightarrow> int \<Rightarrow> u8" where
  "line_pin s t b = of_int (if ua_invert s t then 1 - b else b)"

lemma length_sent_bits [simp]: "length (sent_bits s v) = frame_bit_count s"
  by (simp add: sent_bits_def sent_data_def frame_bit_count_def)

lemma sent_bits_01: "i < frame_bit_count s \<Longrightarrow> sent_bits s v ! i \<in> {0, 1}"
proof -
  have "set (sent_bits s v) \<subseteq> {0, 1}"
    by (auto simp: sent_bits_def sent_data_def sent_parity_def Let_def split: uart_parity.split)
  moreover assume "i < frame_bit_count s"
  then have "sent_bits s v ! i \<in> set (sent_bits s v)" by (intro nth_mem) simp
  ultimately show ?thesis by blast
qed

lemma sent_bits_nth:
  "sent_bits s v ! 0 = 0" "map (\<lambda>i. sent_bits s v ! i) [1..<Suc (nat (ua_data_bits s))] = sent_data s v"
  "ua_parity_type s \<noteq> PARITY_NONE \<Longrightarrow> sent_bits s v ! Suc (nat (ua_data_bits s)) = sent_parity s v"
proof -
  have l: "length (sent_data s v) = nat (ua_data_bits s)" by (simp add: sent_data_def)
  show "sent_bits s v ! 0 = 0" by (simp add: sent_bits_def)
  show "map (\<lambda>i. sent_bits s v ! i) [1..<Suc (nat (ua_data_bits s))] = sent_data s v"
    by (rule nth_equalityI) (simp_all add: sent_bits_def nth_append l del: upt_Suc)
  show "ua_parity_type s \<noteq> PARITY_NONE \<Longrightarrow> sent_bits s v ! Suc (nat (ua_data_bits s)) = sent_parity s v"
    by (simp add: sent_bits_def nth_append l)
qed

lemma bit_bits_number:
  "set bs \<subseteq> {0, 1} \<Longrightarrow>
     bit (bits_number msb n k bs) i \<longleftrightarrow> (\<exists>j < length bs. i = (if msb then nat (n - 1 - int (k + j)) else k + j) \<and> bs ! j = 1)"
proof (induction bs arbitrary: k)
  case (Cons b bs)
  let ?p = "\<lambda>j. if msb then nat (n - 1 - int (k + j)) else k + j"
  have 1: "bit (push_bit (if msb then nat (n - 1 - int k) else k) b) i \<longleftrightarrow> i = ?p 0 \<and> b = 1"
    using Cons.prems by (auto simp: bit_push_bit_iff bit_1_iff)
  have 2: "(\<exists>j < length (b # bs). i = ?p j \<and> (b # bs) ! j = 1) \<longleftrightarrow>
      (i = ?p 0 \<and> b = 1) \<or> (\<exists>j < length bs. i = ?p (Suc j) \<and> bs ! j = 1)"
    by (auto simp: less_Suc_eq_0_disj)
  have "set bs \<subseteq> {0, 1}" using Cons.prems by simp
  from Cons.IH [OF this, of "Suc k"] show ?case unfolding bits_number.simps bit_or_iff 1 2 by simp
qed simp

lemma sent_value:
  assumes "0 \<le> v" and "v < 2 ^ nat (ua_data_bits s)"
  shows "bits_number (ua_msb_first s) (ua_data_bits s) 0 (sent_data s v) = v"
proof (rule bit_eqI)
  fix i
  let ?n = "nat (ua_data_bits s)"
  have v: "bit v i \<Longrightarrow> i < ?n" using assms by (metis bit_take_bit_iff take_bit_int_eq_self)
  have "bit (bits_number (ua_msb_first s) (ua_data_bits s) 0 (sent_data s v)) i \<longleftrightarrow>
      (\<exists>j < ?n. i = (if ua_msb_first s then nat (ua_data_bits s - 1 - int j) else j)
         \<and> bit v (if ua_msb_first s then ?n - 1 - j else j))"
    by (subst bit_bits_number) (auto simp: sent_data_def)
  also have "\<dots> \<longleftrightarrow> (\<exists>j < ?n. i = (if ua_msb_first s then ?n - 1 - j else j) \<and> bit v i)"
  proof (intro iffI; elim exE conjE)
    fix j assume "j < ?n" "i = (if ua_msb_first s then nat (ua_data_bits s - 1 - int j) else j)"
      "bit v (if ua_msb_first s then ?n - 1 - j else j)"
    moreover from this(1) have "nat (ua_data_bits s - 1 - int j) = ?n - 1 - j" by linarith
    ultimately show "\<exists>j < ?n. i = (if ua_msb_first s then ?n - 1 - j else j) \<and> bit v i" by auto
  next
    fix j assume "j < ?n" "i = (if ua_msb_first s then ?n - 1 - j else j)" "bit v i"
    moreover from this(1) have "nat (ua_data_bits s - 1 - int j) = ?n - 1 - j" by linarith
    ultimately show "\<exists>j < ?n. i = (if ua_msb_first s then nat (ua_data_bits s - 1 - int j) else j)
         \<and> bit v (if ua_msb_first s then ?n - 1 - j else j)" by auto
  qed
  also have "\<dots> \<longleftrightarrow> bit v i"
  proof
    assume b: "bit v i"
    then have "i < ?n" by (rule v)
    then show "\<exists>j < ?n. i = (if ua_msb_first s then ?n - 1 - j else j) \<and> bit v i"
      using b by (intro exI [of _ "if ua_msb_first s then ?n - 1 - i else i"]) auto
  qed blast
  finally show "bit (bits_number (ua_msb_first s) (ua_data_bits s) 0 (sent_data s v)) i \<longleftrightarrow> bit v i" .
qed

lemma sent_parity_ok: "ua_parity_type s \<noteq> PARITY_NONE \<Longrightarrow> parity_ok (ua_parity_type s) (sent_parity s v) v (ua_data_bits s)"
  by (cases "ua_parity_type s") (simp_all add: parity_ok_def sent_parity_def Let_def, presburger+)

lemma line_pin_signal: "b \<in> {0, 1} \<Longrightarrow> x (int t) = line_pin s t b \<Longrightarrow> line_signal x t s = b"
  by (auto simp: line_signal_def line_pin_def)

lemma line_pin_edge:
  assumes "b \<in> {0, 1}" and "b' \<in> {0, 1}" and "old (int t) = line_pin s t b" and "x (int t) = line_pin s t b'"
  shows "line_due s t k old x (WAIT_FOR_START_BIT, 0, r) \<longleftrightarrow> b = 1 \<and> b' = 0"
proof -
  obtain f z where r: "r = (f, z)" by (rule prod.exhaust)
  show ?thesis unfolding r line_due_def using assms(1,2) by (simp add: assms(3,4) line_pin_def) (elim disjE; simp)
qed

section \<open>The frames of a sender come out\<close>

lemma baud_ok_positive: "baud_ok s w \<Longrightarrow> 0 < w"
proof -
  assume b: "baud_ok s w"
  have "1 * \<bar>w - ua_bit_width s\<bar> \<le> real (frame_bit_count s) * \<bar>w - ua_bit_width s\<bar>"
    by (intro mult_right_mono) (simp_all add: frame_bit_count_def)
  then show ?thesis using b by (auto simp: baud_ok_def Let_def split: if_splits)
qed

lemma baud_ok_margin:
  assumes "baud_ok s w"
  defines "z \<equiv> real (frame_bit_count s) * \<bar>w - ua_bit_width s\<bar>"
  shows "0 \<le> z" "z + 1 / 2 \<le> ua_bit_samplenum s" "z + 1 / 2 < ua_bit_width s - ua_bit_samplenum s"
    "ua_stop_bits s \<notin> \<int> \<Longrightarrow> z + 1 / 2 \<le> ua_bit_samplenum s / 2"
proof -
  show z: "0 \<le> z" by (simp add: z_def)
  have "z + 1 / 2 \<le> (if ua_stop_bits s \<in> \<int> then ua_bit_samplenum s else ua_bit_samplenum s / 2)"
    "z + 1 / 2 < ua_bit_width s - ua_bit_samplenum s"
    using assms(1) unfolding baud_ok_def Let_def z_def [symmetric] by (rule conjunct1, rule conjunct2)
  then show "z + 1 / 2 \<le> ua_bit_samplenum s" "z + 1 / 2 < ua_bit_width s - ua_bit_samplenum s"
    "ua_stop_bits s \<notin> \<int> \<Longrightarrow> z + 1 / 2 \<le> ua_bit_samplenum s / 2"
    using z by (cases "ua_stop_bits s \<in> \<int>"; simp)+
qed

lemma div_floor: "0 < w \<Longrightarrow> real j * w \<le> x \<Longrightarrow> x < real (Suc j) * w \<Longrightarrow> nat \<lfloor>x / w\<rfloor> = j"
  by (subst floor_unique [of "int j"]) (simp_all add: field_simps)

lemma div_floor_le: "0 < w \<Longrightarrow> real j * w \<le> x \<Longrightarrow> j \<le> nat \<lfloor>x / w\<rfloor>"
  by (simp add: le_nat_floor field_simps)

lemma sampled_bit:
  assumes b: "baud_ok s w" and t: "uart_timed s" and j: "j < frame_bit_count s + stop_count s"
  shows "j < frame_bit_count s \<Longrightarrow> nat \<lfloor>real (frame_point s j) / w\<rfloor> = j"
    "frame_bit_count s \<le> j \<Longrightarrow> frame_bit_count s \<le> nat \<lfloor>real (frame_point s j) / w\<rfloor>"
proof -
  note w = baud_ok_positive [OF b]
  let ?N = "frame_bit_count s" and ?d = "\<bar>w - ua_bit_width s\<bar>" and ?bw = "ua_bit_width s" and ?sn = "ua_bit_samplenum s"
  note b1 = baud_ok_margin [OF b]
  have p0: "0 \<le> ?sn" "0 \<le> ?bw" using b1(1-3) by linarith+
  note p = point_bounds(1,2) [OF t j p0]
  have dw: "real i * w \<le> real i * ?bw + real i * ?d" "real i * ?bw - real i * ?d \<le> real i * w" for i
    unfolding distrib_left [symmetric] right_diff_distrib [symmetric] by (intro mult_left_mono; simp)+
  { assume l: "j < ?N"
    then have "real j * ?d \<le> real ?N * ?d" "real (Suc j) * ?d \<le> real ?N * ?d" by (intro mult_right_mono; simp)+
    then have "real j * w \<le> real (frame_point s j)" "real (frame_point s j) < real (Suc j) * w"
      using dw [of j] dw [of "Suc j"] p b1 l by (auto simp: algebra_simps)
    then show "nat \<lfloor>real (frame_point s j) / w\<rfloor> = j" by (rule div_floor [OF w]) }
  { assume l: "?N \<le> j"
    then have "real ?N * ?bw \<le> real j * ?bw" using p0 by (intro mult_right_mono) simp_all
    moreover have "real j * ?bw + real ?N * ?d \<le> real (frame_point s j)"
      using p(1) b1 l by (cases "ua_stop_bits s \<in> \<int>") auto
    ultimately have "real ?N * w \<le> real (frame_point s j)" using dw(1) [of ?N] by linarith
    then show "?N \<le> nat \<lfloor>real (frame_point s j) / w\<rfloor>" by (rule div_floor_le [OF w]) }
qed

lemma tx_before: "frames_spaced s w fs \<Longrightarrow> (fs \<noteq> [] \<Longrightarrow> n < fst (hd fs)) \<Longrightarrow> tx_level s w fs n = 1"
  by (cases fs) auto

lemma tx_inside:
  "F \<le> n \<Longrightarrow> (fs \<noteq> [] \<Longrightarrow> n < fst (hd fs)) \<Longrightarrow>
     tx_level s w ((F, v) # fs) n =
       (let j = nat \<lfloor>real (n - F) / w\<rfloor> in if j < frame_bit_count s then sent_bits s v ! j else 1)"
  by auto

lemma tx_after:
  assumes sp: "frames_spaced s w ((F, v) # fs)" and w: "0 < w" and fs: "fs \<noteq> []" "fst (hd fs) \<le> Suc n"
  shows "tx_level s w ((F, v) # fs) n = tx_level s w fs n"
proof (cases "fst (hd fs) \<le> n")
  case False
  with fs have n: "fst (hd fs) = Suc n" by simp
  have g: "F < Suc n" "real F + real (frame_bit_count s) * w + 1 \<le> real (Suc n)" using sp fs n by auto
  then have "frame_bit_count s \<le> nat \<lfloor>real (n - F) / w\<rfloor>" by (intro div_floor_le [OF w]) simp
  then show ?thesis using g(1) n tx_before [of s w fs n] sp by (subst tx_inside) auto
qed (use fs in simp)

lemma tx_level_01: "tx_level s w fs n \<in> {0, 1}"
proof (induction fs)
  case (Cons p fs)
  obtain F v where p: "p = (F, v)" by (rule prod.exhaust)
  show ?case unfolding p tx_level.simps Let_def length_sent_bits
    using Cons sent_bits_01 [of "nat \<lfloor>real (n - F) / w\<rfloor>" s v] by (simp del: of_nat_diff)
qed simp

text \<open>Samples of a line that carries the frames.\<close>

definition carries :: "uart_s \<Rightarrow> nat \<Rightarrow> real \<Rightarrow> (nat \<times> int) list \<Rightarrow> (nat \<Rightarrow> int \<Rightarrow> u8) \<Rightarrow> nat \<Rightarrow> nat \<Rightarrow> bool" where
  "carries s t w fs lv k n \<longleftrightarrow> (\<forall>i. k \<le> Suc i \<longrightarrow> i < n \<longrightarrow> lv i (int t) = line_pin s t (tx_level s w fs i))"

lemma carries_signal: "carries s t w fs lv k n \<Longrightarrow> k \<le> i \<Longrightarrow> i < n \<Longrightarrow> line_signal (lv i) t s = tx_level s w fs i"
  using tx_level_01 by (intro line_pin_signal) (auto simp: carries_def)

lemma carries_edge:
  assumes "carries s t w fs lv k n" and "0 < k" and "k \<le> i" and "i < n"
  shows "line_due s t i (lv (i - 1)) (lv i) (WAIT_FOR_START_BIT, 0, r) \<longleftrightarrow> tx_level s w fs (i - 1) = 1 \<and> tx_level s w fs i = 0"
proof -
  have "k \<le> Suc (i - 1)" "i - 1 < n" using assms(2-4) by simp_all
  then have "lv (i - 1) (int t) = line_pin s t (tx_level s w fs (i - 1))" "lv i (int t) = line_pin s t (tx_level s w fs i)"
    using assms by (simp_all add: carries_def)
  then show ?thesis by (intro line_pin_edge tx_level_01)
qed

definition frames_msgs :: "nat \<Rightarrow> (nat \<times> int) list \<Rightarrow> (string \<times> c_field list) list" where
  "frames_msgs t fs = concat (map (\<lambda>(F, v). [value_msg t v, frame_end_msg t v True]) fs)"

text \<open>One frame, from its edge to the last sample point.\<close>

lemma one_frame:
  assumes ft: "frame_timed s" and b: "baud_ok s w" and sp: "frames_spaced s w ((F, v) # fs)"
    and c: "carries s t w ((F, v) # fs) lv k n" and k: "0 < k" "k \<le> F" "F + uart_span s < n" "n < 2 ^ 64"
  defines "l \<equiv> frame_bit_count s + stop_count s - 1"
  shows "line_seg s t lv F (Suc (F + frame_point s l)) (WAIT_FOR_START_BIT, 0, f0, v0, d0, b0) =
      ((WAIT_FOR_START_BIT, 0, of_nat F, True, v, []), [value_msg t v, frame_end_msg t v True])"
    and "F + frame_point s l < n" "frame_point s l \<le> uart_span s" "frame_bit_count s \<le> Suc (nat \<lfloor>real (frame_point s l) / w\<rfloor>)"
proof -
  have t: "uart_timed s" using ft by (simp add: frame_timed_def)
  have l: "l < frame_bit_count s + stop_count s" by (simp add: l_def frame_bit_count_def)
  define f :: u64 where "f = of_nat F"
  have f: "unat f = F" using k by (simp add: f_def unsigned_of_nat take_bit_nat_eq_self)
  have "0 \<le> ua_bit_samplenum s" "0 \<le> ua_bit_width s" using baud_ok_margin(1-3) [OF b] by linarith+
  then have pt: "frame_point s j \<le> uart_span s" if "j < frame_bit_count s + stop_count s" for j
    using point_bounds(3) [OF t that] by (simp add: frame_point_def)
  then show "F + frame_point s l < n" "frame_point s l \<le> uart_span s" using l k(3) by (fastforce, blast)
  show "frame_bit_count s \<le> Suc (nat \<lfloor>real (frame_point s l) / w\<rfloor>)"
    using sampled_bit [OF b t l] by (cases "l < frame_bit_count s") (simp_all add: l_def)
  have level: "point_level s t lv f j = (if j < frame_bit_count s then sent_bits s v ! j else 1)"
    if j: "j < frame_bit_count s + stop_count s" for j
  proof -
    have "F + frame_point s j < n" "fs \<noteq> [] \<Longrightarrow> F + frame_point s j < fst (hd fs)" using pt [OF j] k(3) sp by auto
    then have "point_level s t lv f j = (let i = nat \<lfloor>real (frame_point s j) / w\<rfloor> in if i < frame_bit_count s then sent_bits s v ! i else 1)"
      unfolding point_level_def f using k by (subst carries_signal [OF c]) (simp_all add: tx_inside del: tx_level.simps)
    then show ?thesis using sampled_bit [OF b t j] by (auto simp: Let_def)
  qed
  have z: "sent_bits s v ! 0 = 0" by (simp add: sent_bits_nth)
  have N: "0 < frame_bit_count s" "nat (ua_data_bits s) < frame_bit_count s"
    "ua_parity_type s \<noteq> PARITY_NONE \<Longrightarrow> Suc (nat (ua_data_bits s)) < frame_bit_count s" by (simp_all add: frame_bit_count_def)
  have "tx_level s w ((F, v) # fs) (F - 1) = 1" using k(1,2) sp by (intro tx_before) auto
  moreover have "tx_level s w ((F, v) # fs) F = 0" using z N(1) sp by (subst tx_inside) auto
  ultimately have due: "line_due s t (unat f) (lv (unat f - 1)) (lv (unat f)) (WAIT_FOR_START_BIT, 0, f0, v0, d0, b0)"
    unfolding f using carries_edge [OF c k(1,2)] k(3) by (simp del: tx_level.simps)
  have dat: "map (point_level s t lv f) [1..<Suc (nat (ua_data_bits s))] = sent_data s v"
    unfolding sent_bits_nth(2) [symmetric] using level N(2) by (intro map_cong) auto
  have v: "0 \<le> v" "v < 2 ^ nat (ua_data_bits s)" using sp by auto
  have par: "ua_parity_type s \<noteq> PARITY_NONE \<Longrightarrow> point_level s t lv f (Suc (nat (ua_data_bits s))) = sent_parity s v"
    using level N(3) sent_bits_nth(3) by simp
  have "0 < unat f" using k f by simp
  have start: "point_level s t lv f 0 = 0" using level [of 0] z N(1) by simp
  have ok: "(ua_parity_type s = PARITY_NONE \<or> parity_ok (ua_parity_type s) (point_level s t lv f (Suc (nat (ua_data_bits s)))) v (ua_data_bits s)) = True"
    using par sent_parity_ok [of s v] by (cases "ua_parity_type s = PARITY_NONE") (simp_all only: simp_thms)
  have stop: "point_level s t lv f i = 1" if "frame_bit_count s \<le> i" "i < frame_bit_count s + stop_count s" for i
    using level [OF that(2)] that(1) by simp
  show "line_seg s t lv F (Suc (F + frame_point s l)) (WAIT_FOR_START_BIT, 0, f0, v0, d0, b0) =
      ((WAIT_FOR_START_BIT, 0, of_nat F, True, v, []), [value_msg t v, frame_end_msg t v True])"
    using frame_run [OF ft \<open>0 < unat f\<close> due start stop]
    unfolding dat l_def [symmetric] sent_value [OF v] ok unfolding f unfolding f_def by simp
qed


lemma frames_run:
  assumes ft: "frame_timed s" and b: "baud_ok s w"
  shows "frames_spaced s w fs \<Longrightarrow> carries s t w fs lv k n \<Longrightarrow> 0 < k \<Longrightarrow> (fs \<noteq> [] \<Longrightarrow> k \<le> fst (hd fs))
      \<Longrightarrow> (\<And>F v. (F, v) \<in> set fs \<Longrightarrow> F + uart_span s < n) \<Longrightarrow> n < 2 ^ 64 \<Longrightarrow>
    \<exists>r. line_seg s t lv k n (WAIT_FOR_START_BIT, 0, r0) = ((WAIT_FOR_START_BIT, 0, r), frames_msgs t fs)"
proof (induction fs arbitrary: k r0)
  case Nil
  have "line_seg s t lv k n (WAIT_FOR_START_BIT, 0, r0) = ((WAIT_FOR_START_BIT, 0, r0), [])"
  proof (rule seg_quiet [OF Nil.prems(3)])
    fix j assume "k \<le> j" "j < n"
    then show "\<not> line_due s t j (lv (j - 1)) (lv j) (WAIT_FOR_START_BIT, 0, r0)"
      unfolding carries_edge [OF Nil.prems(2,3) \<open>k \<le> j\<close> \<open>j < n\<close>] by simp
  qed
  then show ?case by (intro exI [of _ r0]) (simp add: frames_msgs_def)
next
  case (Cons p fs)
  obtain F v where p: "p = (F, v)" by (rule prod.exhaust)
  obtain f0 v0 d0 b0 where r0: "r0 = (f0, v0, d0, b0)" by (rule prod_cases4)
  note w = baud_ok_positive [OF b]
  note sp = Cons.prems(1) [unfolded p] and c = Cons.prems(2) [unfolded p]
  have kF: "k \<le> F" "F + uart_span s < n" using Cons.prems(4,5) [unfolded p] by auto
  let ?vw = "(WAIT_FOR_START_BIT, 0, r0)" and ?e = "Suc (F + frame_point s (frame_bit_count s + stop_count s - 1))"
  note one = one_frame [OF ft b sp c Cons.prems(3) kF Cons.prems(6)]
  have 1: "line_seg s t lv k F ?vw = (?vw, [])"
  proof (rule seg_quiet [OF Cons.prems(3)])
    fix j assume j: "k \<le> j" "j < F"
    then have "tx_level s w ((F, v) # fs) j = 1" using sp by (intro tx_before) auto
    then show "\<not> line_due s t j (lv (j - 1)) (lv j) ?vw"
      using carries_edge [OF c Cons.prems(3) j(1)] j kF by (simp del: tx_level.simps)
  qed
  have 2: "line_seg s t lv F ?e ?vw = ((WAIT_FOR_START_BIT, 0, of_nat F, True, v, []), [value_msg t v, frame_end_msg t v True])"
    unfolding r0 by (rule one(1))
  let ?vw2 = "(WAIT_FOR_START_BIT, 0, of_nat F, True, v, [])"
  define k' where "k' = (if fs = [] then n else fst (hd fs))"
  have k': "?e \<le> k'" "k' \<le> n"
    using one(2,3) sp Cons.prems(5) by (cases fs; auto simp: k'_def; fastforce)+
  have 3: "line_seg s t lv ?e k' ?vw2 = (?vw2, [])"
  proof (rule seg_quiet)
    fix j assume j: "?e \<le> j" "j < k'"
    let ?x = "\<lambda>i. nat \<lfloor>real (i - F) / w\<rfloor>"
    have lev: "tx_level s w ((F, v) # fs) i = (if ?x i < frame_bit_count s then sent_bits s v ! ?x i else 1)"
      if "?e \<le> Suc i" "i < k'" for i
      using that by (subst tx_inside) (auto simp: k'_def Let_def)
    have x: "frame_bit_count s \<le> Suc (?x i)" if "?e \<le> Suc i" for i
    proof -
      have "?x (F + frame_point s (frame_bit_count s + stop_count s - 1)) \<le> ?x i"
        using that w by (intro nat_mono floor_mono divide_right_mono) auto
      then show ?thesis using one(4) by simp
    qed
    have m: "?x (j - 1) \<le> ?x j" "frame_bit_count s \<le> Suc (?x (j - 1))"
      using w x [of "j - 1"] j by (auto intro!: nat_mono floor_mono divide_right_mono)
    have lj: "?e \<le> Suc (j - 1)" "j - 1 < k'" "?e \<le> Suc j" using j by simp_all
    have "\<not> (tx_level s w ((F, v) # fs) (j - 1) = 1 \<and> tx_level s w ((F, v) # fs) j = 0)"
    proof (cases "?x j < frame_bit_count s")
      case True
      then have "?x (j - 1) = ?x j" using m by linarith
      then show ?thesis unfolding lev [OF lj(1,2)] lev [OF lj(3) j(2)] by simp
    next
      case False
      then show ?thesis unfolding lev [OF lj(3) j(2)] by simp
    qed
    then show "\<not> line_due s t j (lv (j - 1)) (lv j) ?vw2"
      using carries_edge [OF c Cons.prems(3), of j] j kF k'(2) by (simp del: tx_level.simps)
  qed simp
  have 4: "\<exists>r. line_seg s t lv k' n ?vw2 = ((WAIT_FOR_START_BIT, 0, r), frames_msgs t fs)"
  proof (cases "fs = []")
    case True
    then show ?thesis by (intro exI [of _ "(of_nat F, True, v, [])"]) (simp add: k'_def frames_msgs_def)
  next
    case False
    have "carries s t w fs lv k' n"
      using c False k'(1) kF tx_after [OF sp w False] by (auto simp: carries_def k'_def)
    then show ?thesis
    proof (intro Cons.IH)
      show "frames_spaced s w fs" using sp by simp
      show "0 < k'" using k'(1) by simp
      show "k' \<le> fst (hd fs)" by (simp add: k'_def False)
      show "F' + uart_span s < n" if "(F', v') \<in> set fs" for F' v' using Cons.prems(5) [of F' v'] that by simp
      show "n < 2 ^ 64" by (rule Cons.prems(6))
    qed
  qed
  then obtain r where 4: "line_seg s t lv k' n ?vw2 = ((WAIT_FOR_START_BIT, 0, r), frames_msgs t fs)" by blast
  have s: "line_seg s t lv k n = seg_then (line_seg s t lv k F) (line_seg s t lv F n)"
    "line_seg s t lv F n = seg_then (line_seg s t lv F ?e) (line_seg s t lv ?e n)"
    "line_seg s t lv ?e n = seg_then (line_seg s t lv ?e k') (line_seg s t lv k' n)"
    using kF k' Cons.prems(3) by (intro seg_split; simp)+
  have e1: "line_seg s t lv ?e n ?vw2 = ((WAIT_FOR_START_BIT, 0, r), frames_msgs t fs)"
    unfolding s(3) seg_then_def by (simp only: 3 4 Let_def prod.case append_Nil)
  have e2: "line_seg s t lv F n ?vw = ((WAIT_FOR_START_BIT, 0, r), [value_msg t v, frame_end_msg t v True] @ frames_msgs t fs)"
    unfolding s(2) seg_then_def by (simp only: 2 e1 Let_def prod.case)
  have "line_seg s t lv k n ?vw = ((WAIT_FOR_START_BIT, 0, r), [value_msg t v, frame_end_msg t v True] @ frames_msgs t fs)"
    unfolding s(1) seg_then_def by (simp only: 1 e2 Let_def prod.case append_Nil)
  then have "line_seg s t lv k n ?vw = ((WAIT_FOR_START_BIT, 0, r), frames_msgs t ((F, v) # fs))"
    by (simp add: frames_msgs_def)
  then show ?case unfolding p by blast
qed

text \<open>The numbers in the DATA messages of a line, which are bytes.\<close>

fun data_values :: "(string \<times> c_field list) list \<Rightarrow> int list" where
  "data_values [] = []"
| "data_values ((cmd, C_U8 v # fs) # ms) = (if cmd = ''DATA'' then uint v # data_values ms else data_values ms)"
| "data_values (m # ms) = data_values ms"

lemma data_values_sent:
  "data_values (concat (map (\<lambda>(F, v). [value_msg t v, frame_end_msg t v True]) fs)) = map (\<lambda>(F, v). v mod 256) fs"
  by (induction fs) (auto simp: value_msg_def frame_end_msg_def uint_word_of_int)

lemma byte_values: "frames_spaced s w fs \<Longrightarrow> ua_data_bits s \<le> 8 \<Longrightarrow> map (\<lambda>(F, v). v mod 256) fs = map snd fs"
proof (induction fs)
  case (Cons f fs)
  obtain F v where f: "f = (F, v)" by (rule prod.exhaust)
  have v: "0 \<le> v" "v < 2 ^ nat (ua_data_bits s)" using Cons.prems(1) by (simp_all add: f)
  have "(2 :: int) ^ nat (ua_data_bits s) \<le> 2 ^ 8" by (rule power_increasing) (use Cons.prems(2) in simp_all)
  with v have "v mod 256 = v" by simp
  with Cons show ?case by (simp add: f)
qed simp

text \<open>
  C37: The UART decoder finds every frame. A sender puts frames of the decoder's format on a line:
  a start bit, the data bits in the order of the option, a parity bit if there is one, then the
  line is high until the next frame, at least for a sample and until the receiver is through. The
  width of its bits may differ from that of the receiver as long as the sample points stay within
  their bits by half a sample. Then the DATA and FRAME messages of the line are one of each for
  every frame, in order and all valid, and the line waits for the next start bit; the other
  line, the breaks and the idle periods, for which the decoder waits at the same time, do not
  matter. The messages carry a byte: with up to eight data bits it is the value sent, with nine
  data bits only its lower eight bits, so that the ninth is lost. The line waits for a start bit to
  begin with, the parity of the sender is that of the option, and widths are at least two samples.
\<close>

theorem uart_frames_decoded:
  assumes t: "uline t" "ua_has_pin s t" and timed: "uart_timed s" "0 < ua_data_bits s" "2 \<le> ua_bit_width s"
    and b: "baud_ok s w" and sp: "frames_spaced s w fs" and c: "carries s t w fs lv k n"
    and k: "0 < k" "fs \<noteq> [] \<Longrightarrow> k \<le> fst (hd fs)" "\<forall>f \<in> set fs. fst f + uart_span s < n" "k \<le> n" "n + uart_span s < 2 ^ 64"
    and wt: "ul_state (ua_line s t) = WAIT_FOR_START_BIT" "ul_state_num (ua_line s t) = 0"
    and r: "run_wave uart_decode False k 0 (lv (k - 1)) (map lv [k..<n]) (cur, s) = ((c', s'), tr)"
  shows "concat (map (frame_msgs t \<circ> snd) tr) = concat (map (\<lambda>(F, v). [value_msg t v, frame_end_msg t v True]) fs)
    \<and> data_values (concat (map (frame_msgs t \<circ> snd) tr)) = (if ua_data_bits s \<le> 8 then map snd fs else map (\<lambda>(F, v). v mod 256) fs)
    \<and> ul_state (ua_line s' t) = WAIT_FOR_START_BIT"
proof -
  have "1 / 2 \<le> ua_bit_samplenum s" "ua_bit_samplenum s \<le> ua_bit_width s" using baud_ok_margin(1-3) [OF b] by linarith+
  then have m: "machine_ok (uart_span s) (ua_state_machine s)" by (rule uart_machine_ok [OF timed(1,3)])
  then have ft: "frame_timed s" using timed by (simp add: frame_timed_def)
  obtain r0 where vw: "frame_view (ua_line s t) = (WAIT_FOR_START_BIT, 0, r0)" using wt by (simp add: frame_view_def)
  have "\<exists>r. line_seg s t lv k n (WAIT_FOR_START_BIT, 0, r0) = ((WAIT_FOR_START_BIT, 0, r), frames_msgs t fs)"
  proof (rule frames_run [OF ft b sp c k(1)])
    show "F + uart_span s < n" if "(F, v) \<in> set fs" for F v using k(3) that by fastforce
  qed (use k(2,5) in simp_all)
  then obtain r1 where e: "line_seg s t lv k n (WAIT_FOR_START_BIT, 0, r0) = ((WAIT_FOR_START_BIT, 0, r1), frames_msgs t fs)" by blast
  have "line_sampler s t k (lv (k - 1)) (map lv [k..<n]) (frame_view (ua_line s t)) = (frame_view (ua_line s' t), concat (map (frame_msgs t \<circ> snd) tr))"
  proof (rule uart_run_samples [OF t(1) _ t(2) m _ _ r])
    show "k + length (map lv [k..<n]) + uart_span s < 2 ^ 64" using k(4,5) by simp
    show "view_ok s k (frame_view (ua_line s t))" by (simp add: vw)
    show "wait_pos False k 0 cur (ul_state (ua_line s t))" using wt by (simp add: wait_pos_def)
  qed
  then have "(frame_view (ua_line s' t), concat (map (frame_msgs t \<circ> snd) tr)) = ((WAIT_FOR_START_BIT, 0, r1), frames_msgs t fs)"
    using e by (simp only: line_seg_def vw)
  then have m: "concat (map (frame_msgs t \<circ> snd) tr) = concat (map (\<lambda>(F, v). [value_msg t v, frame_end_msg t v True]) fs)"
    and st: "ul_state (ua_line s' t) = WAIT_FOR_START_BIT" by (simp_all add: frame_view_def frames_msgs_def)
  show ?thesis unfolding m data_values_sent using byte_values [OF sp] st by simp
qed

text \<open>
  C38: Each line of the UART decoder is a sampler of its own. Whatever the decoder waits for at the
  same time - the other line, every edge of both lines, the ends of idle periods - and whatever
  the other line is doing, the frame part of a line that waits for a start bit and its DATA and
  FRAME messages are those of a machine that looks at that line alone, starts at the edge of a
  start bit and then takes its level at the sample points. The sample points of the frame are in order, and the numbers
  of the samples stay within 64 bits.
\<close>

theorem uart_line_is_sampler:
  assumes "uline t" and "ua_has_pin s t" and "machine_ok B (ua_state_machine s)" and "k + length xs + B < 2 ^ 64"
    and "ul_state (ua_line s t) = WAIT_FOR_START_BIT" and "ul_state_num (ua_line s t) = 0"
    and "run_wave uart_decode False k 0 old xs (cur, s) = ((c', s'), tr)"
  shows "(frame_view (ua_line s' t), concat (map (frame_msgs t \<circ> snd) tr)) = line_sampler s t k old xs (frame_view (ua_line s t))"
  using uart_run_samples [OF assms(1,4,2,3) _ _ assms(7)] assms(5,6) by (simp add: wait_pos_def view_ok_def frame_view_def)

lemma init_sel [simp]:
  "ua_bit_width (init_state_machine s) = ua_bit_width s" "ua_bit_samplenum (init_state_machine s) = ua_bit_samplenum s"
  "ua_data_bits (init_state_machine s) = ua_data_bits s" "ua_parity_type (init_state_machine s) = ua_parity_type s"
  "ua_stop_bits (init_state_machine s) = ua_stop_bits s" "ua_has_pin (init_state_machine s) = ua_has_pin s"
  "ul_state (ua_line (init_state_machine s) RX) = WAIT_FOR_START_BIT" "ul_state_num (ua_line (init_state_machine s) RX) = 0"
  "ul_state (ua_line (init_state_machine s) TX) = WAIT_FOR_START_BIT" "ul_state_num (ua_line (init_state_machine s) TX) = 0"
  by (simp_all add: init_state_machine_def Let_def upd_line_def RX_def TX_def)

lemma uart_timed_init: "uart_timed (init_state_machine s)"
  by (simp add: uart_timed_def init_machine frame_bit_count_def frame_state_def [abs_def])

text \<open>start() and metadata() leave a timed decoder whose lines wait.\<close>

lemma uart_timing_ready:
  assumes "uart_timing perc d s = Some s'"
  shows "uart_timed s'" "uline t \<Longrightarrow> ul_state (ua_line s' t) = WAIT_FOR_START_BIT \<and> ul_state_num (ua_line s' t) = 0"
    "ua_bit_width s' = real (unat (ua_samplerate s)) / ua_baudrate s" "ua_bit_samplenum s' = ua_bit_width s' * perc * (1 / 100)"
proof -
  define s1 where "s1 maxn fl = s\<lparr>ua_bit_width := real (unat (ua_samplerate s)) / ua_baudrate s,
     ua_bit_samplenum := real (unat (ua_samplerate s)) / ua_baudrate s * perc * (1 / 100),
     ua_idle_num_max := maxn + IDLE_NUM_WITHOUT_GROWTH - 1, ua_break_min_samples := fl + 1,
     ua_frame_len_samples_int := fl\<rparr>" for maxn fl
  obtain maxn fl us idle en where s': "s' = (init_state_machine (s1 maxn fl))\<lparr>ua_packet_idle_us := us, ua_packet_idle_samples := idle, ua_packet_enabled := en\<rparr>"
    using assms by (auto simp: uart_timing_def Let_def s1_def split: option.splits)
  have c: "ua_state_machine (init_state_machine s') = ua_state_machine (init_state_machine (init_state_machine (s1 maxn fl)))"
    unfolding s' init_machine by (simp add: frame_bit_count_def frame_state_def [abs_def])
  show "uart_timed s'"
    using uart_timed_init [of "s1 maxn fl"] unfolding uart_timed_def c by (simp add: s')
  show "uline t \<Longrightarrow> ul_state (ua_line s' t) = WAIT_FOR_START_BIT \<and> ul_state_num (ua_line s' t) = 0"
    by (auto simp: s' uline_def)
  show "ua_bit_width s' = real (unat (ua_samplerate s)) / ua_baudrate s" "ua_bit_samplenum s' = ua_bit_width s' * perc * (1 / 100)"
    by (simp_all add: s' s1_def)
qed

text \<open>The waits are of the kind the wait engine is shown for.\<close>

lemma uart_program_ok: "program_ok 2 uart_decode (\<lambda>_. True)"
proof -
  have sk: "0 < n \<Longrightarrow> wait_cond_ok 2 [cw_skip_term n]" for n by (simp add: wait_cond_ok_def cw_skip_term_def)
  have ed: "ty \<noteq> SRD_TERM_SKIP \<Longrightarrow> uline t \<Longrightarrow> wait_cond_ok 2 [edge_term ty (int t)]" for ty t
    by (auto simp: wait_cond_ok_def uline_def RX_def TX_def)
  have gap: "cur < want \<Longrightarrow> 0 < want - cur" for cur want :: u64
    by (simp add: word_neq_0_conv [symmetric])
  have ln: "cond \<noteq> [] \<and> wait_cond_ok 2 cond" if "uline t" "cond \<in> set (line_conds cur t s)" for cond cur t s
  proof -
    have "wait_cond_ok 2 (data_cond cur t s)" using that(1) gap by (auto simp: data_cond_def Let_def intro!: sk ed)
    moreover have "cond \<in> set (idle_conds cur t s) \<Longrightarrow> wait_cond_ok 2 cond \<and> cond \<noteq> []"
      using gap by (auto simp: idle_conds_def Let_def intro!: sk split: if_splits)
    ultimately show ?thesis using that ed [of SRD_TERM_EITHER_EDGE t] by (auto simp: line_conds_def data_cond_def split: if_splits)
  qed
  have "waits_ok 2 (uart_waits (cur, s))" for cur s
  proof (cases "line_conds cur RX s @ line_conds cur TX s = []")
    case True
    then show ?thesis using sk [of 1] by (simp add: uart_waits_def waits_ok_def)
  next
    case False
    then have e: "uart_waits (cur, s) = line_conds cur RX s @ line_conds cur TX s" by (simp add: uart_waits_def Let_def)
    have "uline RX" "uline TX" by (simp_all add: uline_def)
    then have all: "\<forall>cond \<in> set (uart_waits (cur, s)). cond \<noteq> [] \<and> wait_cond_ok 2 cond"
      unfolding e set_append using ln by blast
    moreover have "hd (uart_waits (cur, s)) \<in> set (uart_waits (cur, s))" using False unfolding e by (rule list.set_sel(1))
    ultimately show ?thesis unfolding waits_ok_def by blast
  qed
  then show ?thesis by (simp add: program_ok_def uart_decode_def split_paired_all)
qed

section \<open>An example\<close>

definition uart_example :: uart_s where
  "uart_example = init_state_machine (uart_reset\<lparr>ua_data_bits := 8, ua_stop_bits := 1, ua_bit_width := 8, ua_bit_samplenum := 4,
     ua_has_pin := (\<lambda>_. True)\<rparr>)"

lemma uart_example_sel:
  "uart_timed uart_example" "ua_data_bits uart_example = 8" "ua_bit_width uart_example = 8" "ua_has_pin uart_example t"
  "ua_bit_samplenum uart_example = 4" "ua_stop_bits uart_example = 1" "frame_bit_count uart_example = 9"
  "ul_state (ua_line uart_example RX) = WAIT_FOR_START_BIT" "ul_state_num (ua_line uart_example RX) = 0"
  unfolding uart_example_def using uart_timed_init by (simp_all add: frame_bit_count_def uart_reset_def)

lemma uart_example_span: "uart_span uart_example = 76"
proof -
  have st: "stop_steps 8 4 9 1 = [get_bit_bounds 8 4 9 False GET_STOP_BITS]"
    by (subst stop_steps.simps, simp) (subst stop_steps.simps, simp)
  show ?thesis
    unfolding uart_span_def uart_example_sel(1) [unfolded uart_timed_def] init_machine uart_example_sel st
    by (simp add: get_bit_bounds_def Let_def c_round_def wait_step_def upt_rec)
qed

definition uart_example_frames :: "(nat \<times> int) list" where
  "uart_example_frames = [(10, 65), (110, 128)]"

definition uart_example_wave :: "nat \<Rightarrow> int \<Rightarrow> u8" where
  "uart_example_wave i ch = (if ch = 0 then line_pin uart_example RX (tx_level uart_example (33 / 4) uart_example_frames i) else 1)"

lemma uart_frames_decoded_witness:
  "(let ms = concat (map (frame_msgs RX \<circ> snd) (snd (run_wave uart_decode False 1 0 (uart_example_wave 0)
        (map uart_example_wave [1..<200]) (0, uart_example))))
    in ms = [value_msg RX 65, frame_end_msg RX 65 True, value_msg RX 128, frame_end_msg RX 128 True]
      \<and> data_values ms = [65, 128])"
proof -
  define r where "r = run_wave uart_decode False 1 0 (uart_example_wave (1 - 1)) (map uart_example_wave [1..<200]) (0, uart_example)"
  have sp: "frames_spaced uart_example (33 / 4) uart_example_frames"
    by (simp add: uart_example_sel uart_example_span uart_example_frames_def)
  have c: "carries uart_example RX (33 / 4) uart_example_frames uart_example_wave 1 200"
    by (simp add: carries_def uart_example_wave_def RX_def)
  have b: "baud_ok uart_example (33 / 4)" by (simp add: baud_ok_def uart_example_sel Let_def)
  have n: "uline RX" "0 < ua_data_bits uart_example" "2 \<le> ua_bit_width uart_example" "(0 :: nat) < 1"
    "1 \<le> fst (hd uart_example_frames)" "\<forall>f \<in> set uart_example_frames. fst f + uart_span uart_example < 200"
    "(1 :: nat) \<le> 200" "200 + uart_span uart_example < 2 ^ 64"
    by (simp_all add: uline_def uart_example_sel uart_example_span uart_example_frames_def)
  have "run_wave uart_decode False 1 0 (uart_example_wave (1 - 1)) (map uart_example_wave [1..<200]) (0, uart_example) =
      ((fst (fst r), snd (fst r)), snd r)"
    unfolding r_def by simp
  note q = uart_frames_decoded [OF n(1) uart_example_sel(4,1) n(2,3) b sp c n(4,5,6,7,8) uart_example_sel(8,9) this]
  have "concat (map (frame_msgs RX \<circ> snd) (snd r)) =
      [value_msg RX 65, frame_end_msg RX 65 True, value_msg RX 128, frame_end_msg RX 128 True]"
    using conjunct1 [OF q] by (simp add: uart_example_frames_def)
  moreover have "data_values (concat (map (frame_msgs RX \<circ> snd) (snd r))) = [65, 128]"
    using conjunct1 [OF conjunct2 [OF q]] by (simp add: uart_example_sel uart_example_frames_def)
  ultimately show ?thesis by (simp add: r_def)
qed

lemma uart_line_is_sampler_witness:
  "(let r = run_wave uart_decode False 1 0 (\<lambda>_. 1) [\<lambda>_. 1, \<lambda>_. 0, \<lambda>_. 0] (0, uart_example)
    in (frame_view (ua_line (snd (fst r)) RX), concat (map (frame_msgs RX \<circ> snd) (snd r)))
       = line_sampler uart_example RX 1 (\<lambda>_. 1) [\<lambda>_. 1, \<lambda>_. 0, \<lambda>_. 0] (frame_view (ua_line uart_example RX)))"
proof -
  let ?r = "run_wave uart_decode False 1 0 (\<lambda>_. 1) [\<lambda>_. 1, \<lambda>_. 0, \<lambda>_. 0] (0, uart_example)"
  have m: "machine_ok 76 (ua_state_machine uart_example)"
    using uart_machine_ok [OF uart_example_sel(1)] by (simp add: uart_example_sel uart_example_span)
  have "?r = ((fst (fst ?r), snd (fst ?r)), snd ?r)" by simp
  from uart_line_is_sampler [OF _ uart_example_sel(4) m _ uart_example_sel(8,9) this]
  show ?thesis by (simp add: uline_def del: run_wave.simps line_sampler.simps)
qed

section \<open>The timing of start()\<close>

lemma idle_doublings_some:
  assumes fl: "fl \<noteq> 0" and sr: "unat sr \<le> 2 ^ 63" and n: "n \<le> 63" and lt: "n = 0 \<or> unat fl * 2 ^ (n - 1) < unat sr"
  shows "\<exists>m. idle_doublings fl sr n = Some m \<and> unat sr \<le> unat fl * 2 ^ m"
  using n lt
proof (induction "63 - n" arbitrary: n)
  case less: 0
  have "n = 63" using less by simp
  have f1: "1 \<le> unat fl" using fl by (simp add: unat_gt_0 Suc_le_eq)
  have nw: "unat fl * 2 ^ n < 2 ^ 64"
  proof (rule ccontr)
    assume "\<not> ?thesis"
    then have "2 ^ 63 \<le> unat fl * 2 ^ (n - 1)" using \<open>n = 63\<close> by simp
    then show False using less.prems(2) sr \<open>n = 63\<close> by simp
  qed
  have m: "unat (fl * push_bit n 1) = unat fl * 2 ^ n"
    using nw \<open>n = 63\<close> by (simp add: unat_word_ariths push_bit_eq_mult)
  have "unat sr \<le> unat fl * 2 ^ n" using f1 sr \<open>n = 63\<close> by simp
  then show ?case using m \<open>n = 63\<close> by (subst idle_doublings.simps) (auto simp: word_less_nat_alt)
next
  case (Suc d)
  have n: "n < 63" using Suc.hyps(2) by simp
  have nw: "unat fl * 2 ^ n < 2 ^ 64"
    using Suc.prems(2) sr unsigned_less [where w = fl and 'a = nat] by (cases n) auto
  have "(2 :: nat) ^ n < 2 ^ 64" using n by (intro power_strict_increasing) simp_all
  then have "unat (of_nat (2 ^ n) :: u64) = 2 ^ n" using n by (simp only: unsigned_of_nat) (simp add: take_bit_nat_eq_self)
  then have p: "unat (2 ^ n :: u64) = 2 ^ n" by simp
  have m: "unat (fl * push_bit n 1) = unat fl * 2 ^ n"
    using nw by (simp add: unat_word_ariths push_bit_eq_mult p)
  show ?case
  proof (cases "unat fl * 2 ^ n < unat sr")
    case True
    then have "\<exists>m. idle_doublings fl sr (Suc n) = Some m \<and> unat sr \<le> unat fl * 2 ^ m" using Suc.hyps n by (intro Suc.hyps(1)) auto
    then show ?thesis using True m n by (subst idle_doublings.simps) (auto simp: word_less_nat_alt)
  next
    case False
    then show ?thesis using m n by (subst idle_doublings.simps) (auto simp: word_less_nat_alt)
  qed
qed

lemma idle_doublings_zero: "sr \<noteq> 0 \<Longrightarrow> n \<le> 64 \<Longrightarrow> idle_doublings 0 sr n = None"
proof (induction "64 - n" arbitrary: n)
  case 0
  then show ?case by (subst idle_doublings.simps) simp
next
  case (Suc d)
  then have "idle_doublings 0 sr (Suc n) = None" by (intro Suc.hyps(1)) auto
  then show ?case using Suc by (subst idle_doublings.simps) (simp add: word_neq_0_conv)
qed

text \<open>
  C39: The set-up of the UART decoder comes to an end just when a frame has a sample: for a sample
  rate up to 2^63 the search for the longest idle period gives a number of doublings at which
  the period reaches a second, without a shift out of range, unless the length of the frame
  rounds to no samples. Then the loop does not end.
\<close>

theorem uart_setup_ends:
  assumes "ua_samplerate s \<noteq> 0" and "unat (ua_samplerate s) \<le> 2 ^ 63"
    and "fl = of_int (c_round ((1 + real_of_int (ua_data_bits s) + (if ua_parity_type s \<noteq> PARITY_NONE then 1 else 0) + ua_stop_bits s)
      * (real (unat (ua_samplerate s)) / ua_baudrate s)))"
  shows "(uart_timing perc d s \<noteq> None) = (fl \<noteq> 0)
    \<and> (fl \<noteq> 0 \<longrightarrow> (\<exists>m. idle_doublings fl (ua_samplerate s) 0 = Some m \<and> m < 64 \<and> unat (ua_samplerate s) \<le> unat fl * 2 ^ m))"
proof -
  have m64: "idle_doublings fl sr n = Some m \<Longrightarrow> m < 64" for fl sr n m
    by (induction fl sr n rule: idle_doublings.induct) (subst (asm) (2) idle_doublings.simps, auto split: if_splits)
  have "uart_timing perc d s \<noteq> None \<longleftrightarrow> idle_doublings fl (ua_samplerate s) 0 \<noteq> None"
    by (simp add: uart_timing_def Let_def assms(3) split: option.split)
  then show ?thesis
    using idle_doublings_zero [OF assms(1), of 0] idle_doublings_some [of fl "ua_samplerate s" 0] assms(2) m64 [of fl "ua_samplerate s" 0]
    by (cases "fl = 0") auto
qed

lemma uart_setup_ends_witness:
  "uart_timing 50 (malloc0_inst blank_decoder 0) (uart_reset\<lparr>ua_samplerate := 1, ua_baudrate := 1000, ua_data_bits := 8\<rparr>) = None"
  by (rule ccontr) (use uart_setup_ends [of "uart_reset\<lparr>ua_samplerate := 1, ua_baudrate := 1000, ua_data_bits := 8\<rparr>" 0 50 "malloc0_inst blank_decoder 0"]
     in \<open>simp add: uart_reset_def c_round_def\<close>)

end
