(* ===== verification/Can.thy ===== *)
theory Can
  imports Clocked
begin

text \<open>
  c_decoders/can_c.c: the CAN decoder. The bits of a frame are sampled at points counted from the
  last falling edge; stuff bits are dropped; the fields are read as their last bit comes in.
  Times are computed in the reals.
\<close>

section \<open>State\<close>

definition CAN_RX :: int where "CAN_RX = 0"

definition can_ANN_DATA :: int where "can_ANN_DATA = 0"
definition can_ANN_SOF :: int where "can_ANN_SOF = 1"
definition can_ANN_EOF :: int where "can_ANN_EOF = 2"
definition can_ANN_ID :: int where "can_ANN_ID = 3"
definition can_ANN_EXT_ID :: int where "can_ANN_EXT_ID = 4"
definition can_ANN_FULL_ID :: int where "can_ANN_FULL_ID = 5"
definition can_ANN_IDE :: int where "can_ANN_IDE = 6"
definition can_ANN_RESERVED_BIT :: int where "can_ANN_RESERVED_BIT = 7"
definition can_ANN_RTR :: int where "can_ANN_RTR = 8"
definition can_ANN_SRR :: int where "can_ANN_SRR = 9"
definition can_ANN_DLC :: int where "can_ANN_DLC = 10"
definition can_ANN_CRC_SEQ :: int where "can_ANN_CRC_SEQ = 11"
definition can_ANN_CRC_DEL :: int where "can_ANN_CRC_DEL = 12"
definition can_ANN_ACK_SLOT :: int where "can_ANN_ACK_SLOT = 13"
definition can_ANN_ACK_DEL :: int where "can_ANN_ACK_DEL = 14"
definition can_ANN_STUFF_BIT :: int where "can_ANN_STUFF_BIT = 15"
definition can_ANN_WARNING :: int where "can_ANN_WARNING = 16"
definition can_ANN_BIT :: int where "can_ANN_BIT = 17"

lemmas can_classes = can_ANN_DATA_def can_ANN_SOF_def can_ANN_EOF_def can_ANN_ID_def can_ANN_EXT_ID_def can_ANN_FULL_ID_def
  can_ANN_IDE_def can_ANN_RESERVED_BIT_def can_ANN_RTR_def can_ANN_SRR_def can_ANN_DLC_def can_ANN_CRC_SEQ_def
  can_ANN_CRC_DEL_def can_ANN_ACK_SLOT_def can_ANN_ACK_DEL_def can_ANN_STUFF_BIT_def can_ANN_WARNING_def can_ANN_BIT_def

datatype can_state = CAN_IDLE | CAN_GET_BITS

definition FRAME_STANDARD :: int where "FRAME_STANDARD = 0"
definition FRAME_EXTENDED :: int where "FRAME_EXTENDED = 1"

text \<open>An array and its count are a list.\<close>

record can_s =
  cn_state :: can_state
  cn_rawbits :: "u8 list"
  cn_bits :: "u8 list"
  cn_curbit :: int
  cn_frame_type :: int
  cn_ident :: u32
  cn_eid :: u32
  cn_fullid :: u32
  cn_rtr_type :: int
  cn_dlc :: int
  cn_last_databit :: int
  cn_dlc_start :: int
  cn_frame_bytes :: "u8 list"
  cn_crc_len :: int
  cn_crc :: u32
  cn_dom_edge_snum :: u64
  cn_dom_edge_bcount :: int
  cn_ss_block :: u64
  cn_ss_bit12 :: u64
  cn_ss_bit32 :: u64
  cn_ss_packet :: u64
  cn_es_packet :: u64
  cn_ss_databytebits :: "u64 list"
  cn_bit_width :: real
  cn_sample_point :: real
  cn_bit_width_known :: bool
  cn_next_sample_point :: u64
  cn_out_ann :: int
  cn_out_python :: int

definition can_reset :: can_s where
  "can_reset = \<lparr>cn_state = CAN_IDLE, cn_rawbits = [], cn_bits = [], cn_curbit = 0, cn_frame_type = 0, cn_ident = 0,
     cn_eid = 0, cn_fullid = 0, cn_rtr_type = 0, cn_dlc = 0, cn_last_databit = 0, cn_dlc_start = 0, cn_frame_bytes = [],
     cn_crc_len = 0, cn_crc = 0, cn_dom_edge_snum = 0, cn_dom_edge_bcount = 0, cn_ss_block = 0, cn_ss_bit12 = 0,
     cn_ss_bit32 = 0, cn_ss_packet = 0, cn_es_packet = 0, cn_ss_databytebits = [], cn_bit_width = 0, cn_sample_point = 0,
     cn_bit_width_known = False, cn_next_sample_point = 0, cn_out_ann = 0, cn_out_python = 0\<rparr>"

definition dlc2len :: "int \<Rightarrow> int" where
  "dlc2len dlc = (if dlc < 0 \<or> 15 < dlc then 0 else [0, 1, 2, 3, 4, 5, 6, 7, 8, 12, 16, 20, 24, 32, 48, 64] ! nat dlc)"

text \<open>At most 32 bits are taken.\<close>

definition bitpack_msb :: "u8 list \<Rightarrow> u32" where
  "bitpack_msb bits = foldl (\<lambda>v b. push_bit 1 v OR (ucast b AND 1)) 0 (take 32 bits)"

section \<open>Output\<close>

definition can_putg :: "u64 \<Rightarrow> u64 \<Rightarrow> int \<Rightarrow> string list \<Rightarrow> can_s \<Rightarrow> out_call" where
  "can_putg ss es cls txts s =
     (let left = of_int (c_trunc (cn_sample_point s)); right = of_int (c_trunc (cn_bit_width s - cn_sample_point s))
      in O_put (if left < ss then ss - left else 0) (es + right) (cn_out_ann s) cls txts)"

definition can_putx :: "u64 \<Rightarrow> int \<Rightarrow> string list \<Rightarrow> can_s \<Rightarrow> out_call" where
  "can_putx sn cls txts s = can_putg sn sn cls txts s"

definition can_putb :: "u64 \<Rightarrow> int \<Rightarrow> string list \<Rightarrow> can_s \<Rightarrow> out_call" where
  "can_putb sn cls txts s = can_putg (cn_ss_block s) sn cls txts s"

text \<open>Three texts with a common end, for a field and its value.\<close>

definition field_texts :: "string \<Rightarrow> string \<Rightarrow> string \<Rightarrow> string list" where
  "field_texts long short v = [long @ v, short @ v, v]"

definition can_bit_text :: "u8 \<Rightarrow> string" where
  "can_bit_text b = fmt_int (uint b)"

definition id_text :: "u32 \<Rightarrow> string" where
  "id_text v = fmt_int (sint v) @ '' (0x'' @ fmt_hex 1 (unat v) @ '')''"

section \<open>The bits of a frame\<close>

definition reset_variables :: "can_s \<Rightarrow> can_s" where
  "reset_variables s = s\<lparr>cn_state := CAN_IDLE, cn_rawbits := [], cn_bits := [], cn_curbit := 0, cn_frame_type := -1,
     cn_ident := 0, cn_eid := 0, cn_fullid := 0, cn_rtr_type := 0, cn_dlc := 0, cn_last_databit := 999, cn_dlc_start := 0,
     cn_crc_len := 15, cn_crc := 0, cn_frame_bytes := [], cn_ss_block := 0, cn_ss_bit12 := 0, cn_ss_bit32 := 0,
     cn_ss_packet := 0, cn_es_packet := 0, cn_ss_databytebits := [], cn_next_sample_point := 0\<rparr>"

definition is_stuff_bit :: "can_s \<Rightarrow> bool" where
  "is_stuff_bit s =
     (if cn_last_databit s + 17 < int (length (cn_bits s)) then False
      else if length (cn_rawbits s) < 6 then False
      else let l = drop (length (cn_rawbits s) - 6) (cn_rawbits s)
           in l ! 0 = l ! 1 \<and> l ! 0 = l ! 2 \<and> l ! 0 = l ! 3 \<and> l ! 0 = l ! 4 \<and> l ! 5 \<noteq> l ! 0)"

definition dom_edge_seen :: "u64 \<Rightarrow> can_s \<Rightarrow> can_s" where
  "dom_edge_seen sn s = s\<lparr>cn_dom_edge_snum := sn, cn_dom_edge_bcount := cn_curbit s\<rparr>"

definition can_sample_point :: "can_s \<Rightarrow> int \<Rightarrow> u64" where
  "can_sample_point s bitnum = of_int (c_trunc (real (unat (cn_dom_edge_snum s))
     + real_of_int (bitnum - cn_dom_edge_bcount s) * cn_bit_width s + cn_sample_point s))"

definition crc_sequence :: "int \<Rightarrow> u64 \<Rightarrow> can_s \<Rightarrow> can_s \<times> out_call list" where
  "crc_sequence bitnum sn s =
     (let s1 = (if bitnum = cn_last_databit s + 1 then s\<lparr>cn_ss_block := sn, cn_crc_len := 15\<rparr> else s)
      in if bitnum = cn_last_databit s1 + cn_crc_len s1
         then let x = cn_last_databit s1 + 1;
                  crc = (if x + cn_crc_len s1 \<le> int (length (cn_bits s1))
                         then bitpack_msb (take (nat (cn_crc_len s1)) (drop (nat x) (cn_bits s1))) else cn_crc s1);
                  s2 = s1\<lparr>cn_crc := crc\<rparr>
              in (s2, [can_putb sn can_ANN_CRC_SEQ (field_texts ''CRC-15 sequence: '' ''CRC-15: '' (''0x'' @ fmt_hex 4 (unat crc))) s2])
         else (s1, []))"

definition can_frame_msg :: "can_s \<Rightarrow> c_field list" where
  "can_frame_msg s = [C_STR (if cn_frame_type s = FRAME_STANDARD then ''standard'' else ''extended''), C_U32 (cn_fullid s),
     C_STR (if cn_rtr_type s = 1 then ''remote'' else ''data''), C_I32 (of_int (cn_dlc s))]"

definition end_of_frame :: "u64 \<Rightarrow> can_s \<Rightarrow> can_s \<times> out_call list" where
  "end_of_frame sn s =
     (let last7 = drop (length (cn_rawbits s) - 7) (cn_rawbits s)
      in (reset_variables (s\<lparr>cn_es_packet := sn\<rparr>),
          [can_putb sn can_ANN_EOF [''End of frame'', ''EOF'', ''E''] s]
          @ out_when (7 \<le> length (cn_rawbits s) \<and> last7 \<noteq> [1, 1, 1, 1, 1, 1, 1])
              [can_putb sn can_ANN_WARNING [''End of frame (EOF) must be 7 recessive bits''] s]
          @ [O_proto (cn_ss_packet s) sn (cn_out_python s) ''FRAME'' (can_frame_msg s)]))"

text \<open>The last component says that the frame is over.\<close>

definition decode_frame_end :: "u8 \<Rightarrow> int \<Rightarrow> u64 \<Rightarrow> can_s \<Rightarrow> (can_s \<times> out_call list) \<times> bool" where
  "decode_frame_end rx bitnum sn s =
     (let (s1, out1) = crc_sequence bitnum sn s; e = cn_last_databit s1 + cn_crc_len s1;
          ack = (if rx = 0 then ''ACK'' else ''NACK'');
          out2 = out_when (bitnum = e + 1) (can_putx sn can_ANN_CRC_DEL (field_texts ''CRC delimiter: '' ''CRC d: '' (can_bit_text rx)) s1
              # out_when (rx \<noteq> 1) [can_putx sn can_ANN_WARNING [''CRC delimiter must be a recessive bit''] s1])
            @ out_when (bitnum = e + 2) [can_putx sn can_ANN_ACK_SLOT (field_texts ''ACK slot: '' ''ACK s: '' ack) s1]
            @ out_when (bitnum = e + 3) (can_putx sn can_ANN_ACK_DEL (field_texts ''ACK delimiter: '' ''ACK d: '' (can_bit_text rx)) s1
              # out_when (rx \<noteq> 1) [can_putx sn can_ANN_WARNING [''ACK delimiter must be a recessive bit''] s1]);
          s2 = (if bitnum = e + 4 then s1\<lparr>cn_ss_block := sn\<rparr> else s1)
      in if bitnum = e + 10
         then let (s3, out3) = end_of_frame sn s2 in ((s3, out1 @ out2 @ out3), True)
         else ((s2, out1 @ out2), False))"

definition data_byte :: "can_s \<Rightarrow> nat \<Rightarrow> u8" where
  "data_byte s i = (let x = nat (cn_dlc_start s + 4 + 8 * int i)
     in if x + 8 \<le> length (cn_bits s) then ucast (bitpack_msb (take 8 (drop x (cn_bits s)))) else 0)"

definition data_byte_ann :: "u64 list \<Rightarrow> can_s \<Rightarrow> nat \<Rightarrow> out_call list" where
  "data_byte_ann ss s i =
     (let v = ''0x'' @ fmt_hex 2 (unat (data_byte s i)); n = dec_str i
      in out_when (i * 8 < length ss \<and> (i + 1) * 8 - 1 < length ss)
           [can_putg (ss ! (i * 8)) (ss ! ((i + 1) * 8 - 1)) can_ANN_DATA
              [''Data byte '' @ n @ '': '' @ v, ''DB '' @ n @ '': '' @ v, v] s])"

definition data_field_bit :: "u64 \<Rightarrow> can_s \<Rightarrow> can_s" where
  "data_field_bit sn s = (if length (cn_ss_databytebits s) < 64
     then s\<lparr>cn_ss_databytebits := cn_ss_databytebits s @ [sn]\<rparr> else s)"

definition decode_data_field :: "int \<Rightarrow> u64 \<Rightarrow> can_s \<Rightarrow> can_s \<times> out_call list" where
  "decode_data_field bitnum sn s =
     (let s1 = (if cn_dlc_start s + 3 < bitnum \<and> bitnum < cn_last_databit s then data_field_bit sn s else s)
      in if bitnum = cn_last_databit s1 \<and> 0 < cn_dlc s1
         then let s2 = data_field_bit sn s1; bytes = [0..<nat (min (dlc2len (cn_dlc s2)) 8)]
              in (s2\<lparr>cn_frame_bytes := map (data_byte s2) bytes, cn_ss_databytebits := []\<rparr>,
                  concat (map (data_byte_ann (cn_ss_databytebits s2) s2) bytes))
         else (s1, []))"

text \<open>The data length code, with warnings in standard frames only.\<close>

definition decode_dlc :: "bool \<Rightarrow> u64 \<Rightarrow> can_s \<Rightarrow> can_s \<times> out_call list" where
  "decode_dlc warn sn s =
     (let dlc = (if cn_dlc_start s + 4 \<le> int (length (cn_bits s))
                 then uint (bitpack_msb (take 4 (drop (nat (cn_dlc_start s)) (cn_bits s)))) else cn_dlc s);
          dlc' = (if dlc \<noteq> 0 \<and> cn_rtr_type s = 1 then 0 else if 8 < dlc then 8 else dlc)
      in (s\<lparr>cn_dlc := dlc', cn_last_databit := cn_dlc_start s + 3 + dlc2len dlc' * 8\<rparr>,
          [can_putb sn can_ANN_DLC (field_texts ''Data length code: '' ''DLC: '' (fmt_int dlc)) s]
          @ out_when warn (if dlc \<noteq> 0 \<and> cn_rtr_type s = 1
                       then [can_putb sn can_ANN_WARNING [''Data length code (DLC) != 0 is not allowed''] s]
                       else out_when (8 < dlc) [can_putb sn can_ANN_WARNING [''Data length code (DLC) > 8 is not allowed''] s])))"

definition rtr_texts :: "bool \<Rightarrow> string list" where
  "rtr_texts remote = (let v = (if remote then ''remote'' else ''data'')
     in [''Remote transmission request: '' @ v @ '' frame'', ''RTR: '' @ v @ '' frame'', v])"

text \<open>What standard and extended frames have in common after their identifiers.\<close>

definition frame_rest :: "bool \<Rightarrow> u8 \<Rightarrow> int \<Rightarrow> u64 \<Rightarrow> can_s \<Rightarrow> (can_s \<times> out_call list) \<times> bool" where
  "frame_rest warn rx bitnum sn s =
     (let s1 = (if bitnum = cn_dlc_start s then s\<lparr>cn_ss_block := sn\<rparr> else s);
          (s2, out2) = (if bitnum = cn_dlc_start s1 + 3 then decode_dlc warn sn s1 else (s1, []));
          (s3, out3) = decode_data_field bitnum sn s2
      in if cn_last_databit s3 < bitnum
         then let ((s4, out4), done) = decode_frame_end rx bitnum sn s3 in ((s4, out2 @ out3 @ out4), done)
         else ((s3, out2 @ out3), False))"

definition decode_standard_frame :: "u8 \<Rightarrow> int \<Rightarrow> u64 \<Rightarrow> can_s \<Rightarrow> (can_s \<times> out_call list) \<times> bool" where
  "decode_standard_frame rx bitnum sn s =
     (let remote = (cn_bits s ! 12 = 1);
          (s1, out1) = (if bitnum = 14
            then (s\<lparr>cn_rtr_type := (if remote then 1 else 0), cn_dlc_start := 15\<rparr>,
                  [can_putx sn can_ANN_RESERVED_BIT (field_texts ''Reserved bit 0: '' ''RB0: '' (can_bit_text rx)) s,
                   can_putg (cn_ss_bit12 s) (cn_ss_bit12 s) can_ANN_RTR (rtr_texts remote) s])
            else (s, []));
          ((s2, out2), done) = frame_rest True rx bitnum sn s1
      in ((s2, out1 @ out2), done))"

definition extended_id :: "u64 \<Rightarrow> can_s \<Rightarrow> can_s \<times> out_call list" where
  "extended_id sn s =
     (let eid = (if 14 < length (cn_bits s) then bitpack_msb (drop 14 (cn_bits s)) else cn_eid s);
          full = push_bit 18 (cn_ident s) OR eid; srr = can_bit_text (cn_bits s ! 12);
          s1 = s\<lparr>cn_eid := eid, cn_fullid := full\<rparr>
      in (s1, [can_putb sn can_ANN_EXT_ID [''Extended Identifier: '' @ id_text eid, ''Extended ID: '' @ id_text eid,
                 ''Extended ID'', id_text eid] s1,
               can_putb sn can_ANN_FULL_ID (field_texts ''Full Identifier: '' ''Full ID: '' (id_text full)) s1,
               can_putg (cn_ss_bit12 s) (cn_ss_bit12 s) can_ANN_SRR (field_texts ''Substitute remote request: '' ''SRR: '' srr) s1]))"

definition decode_extended_frame :: "u8 \<Rightarrow> int \<Rightarrow> u64 \<Rightarrow> can_s \<Rightarrow> (can_s \<times> out_call list) \<times> bool" where
  "decode_extended_frame rx bitnum sn s =
     (let s1 = (if bitnum = 14 then s\<lparr>cn_ss_block := sn, cn_dlc_start := 35\<rparr> else s);
          (s2, out2) = (if bitnum = 31 then extended_id sn s1 else (s1, []));
          s3 = (if bitnum = 32 then s2\<lparr>cn_ss_bit32 := sn, cn_rtr_type := (if rx = 1 then 1 else 0)\<rparr> else s2);
          out3 = out_when (bitnum = 32) [can_putx sn can_ANN_RTR (rtr_texts (rx = 1)) s2]
            @ out_when (bitnum = 33) [can_putx sn can_ANN_RESERVED_BIT (field_texts ''Reserved bit 1: '' ''RB1: '' (can_bit_text rx)) s2]
            @ out_when (bitnum = 34) [can_putx sn can_ANN_RESERVED_BIT (field_texts ''Reserved bit 0: '' ''RB0: '' (can_bit_text rx)) s2];
          ((s4, out4), done) = frame_rest False rx bitnum sn s3
      in ((s4, out2 @ out3 @ out4), done))"

definition frame_identifier :: "u64 \<Rightarrow> can_s \<Rightarrow> can_s \<times> out_call list" where
  "frame_identifier sn s =
     (let id = bitpack_msb (take 11 (drop 1 (cn_bits s))); s1 = s\<lparr>cn_ident := id, cn_fullid := id\<rparr>
      in (s1, [can_putb sn can_ANN_ID (field_texts ''Identifier: '' ''ID: '' (id_text id)) s1]
            @ out_when (id AND 0x7f0 = 0x7f0) [can_putb sn can_ANN_WARNING [''Identifier bits 10..4 must not be all recessive''] s1]))"

text \<open>The first fourteen bits.\<close>

definition frame_head :: "u8 \<Rightarrow> int \<Rightarrow> u64 \<Rightarrow> can_s \<Rightarrow> can_s \<times> out_call list" where
  "frame_head rx bitnum sn s =
     (let s1 = (if bitnum = 0 then s\<lparr>cn_ss_packet := sn\<rparr> else if bitnum = 1 then s\<lparr>cn_ss_block := sn\<rparr> else s);
          out1 = out_when (bitnum = 0) (can_putx sn can_ANN_SOF [''Start of frame'', ''SOF'', ''S''] s1
            # out_when (rx \<noteq> 0) [can_putx sn can_ANN_WARNING [''Start of frame (SOF) must be a dominant bit''] s1]);
          (s2, out2) = (if bitnum = 11 then frame_identifier sn s1 else (s1, []));
          s3 = (if bitnum = 12 then s2\<lparr>cn_ss_bit12 := sn\<rparr> else s2);
          ide = (if rx = 0 then ''standard'' else ''extended'');
          s4 = (if bitnum = 13 then s3\<lparr>cn_frame_type := (if rx = 0 then FRAME_STANDARD else FRAME_EXTENDED)\<rparr> else s3);
          out4 = out_when (bitnum = 13) [can_putx sn can_ANN_IDE [''Identifier extension bit: '' @ ide @ '' frame'', ''IDE: '' @ ide @ '' frame'', ide] s3]
      in (s4, out1 @ out2 @ out4))"

definition add_bit :: "u8 \<Rightarrow> can_s \<Rightarrow> can_s" where
  "add_bit rx s = s\<lparr>cn_rawbits := (if length (cn_rawbits s) < 512 then cn_rawbits s @ [rx] else cn_rawbits s),
     cn_bits := (if length (cn_bits s) < 512 then cn_bits s @ [rx] else cn_bits s)\<rparr>"

text \<open>A bit of the frame that is no stuff bit and already in the arrays.\<close>

definition frame_bit :: "u8 \<Rightarrow> u64 \<Rightarrow> can_s \<Rightarrow> can_s \<times> out_call list" where
  "frame_bit rx sn s =
     (let bitnum = int (length (cn_bits s)) - 1; (s1, out1) = frame_head rx bitnum sn s;
          ((s2, out2), done) =
            (if bitnum < 14 then ((s1, []), False)
             else if cn_frame_type s1 = FRAME_STANDARD then decode_standard_frame rx bitnum sn s1
             else if cn_frame_type s1 = FRAME_EXTENDED then decode_extended_frame rx bitnum sn s1
             else ((s1, []), False))
      in (if done then s2 else s2\<lparr>cn_curbit := cn_curbit s2 + 1\<rparr>,
          [can_putx sn can_ANN_BIT [can_bit_text rx] s] @ out1 @ out2))"

definition can_handle_bit :: "u8 \<Rightarrow> u64 \<Rightarrow> can_s \<Rightarrow> can_s \<times> out_call list" where
  "can_handle_bit rx sn s =
     (let s1 = add_bit rx s
      in if is_stuff_bit s1
         then (s1\<lparr>cn_bits := butlast (cn_bits s1), cn_curbit := cn_curbit s1 + 1\<rparr>, [can_putx sn can_ANN_STUFF_BIT [can_bit_text rx] s1])
         else frame_bit rx sn s1)"

section \<open>The decoder\<close>

definition can_configure :: "can_s srd_decoder_inst \<Rightarrow> can_s \<Rightarrow> can_s" where
  "can_configure d s =
     (let samplerate = c_decoder_get_samplerate (Some d); bitrate = c_decoder_get_option_int (Some d) (Some ''bitrate'') 1000000;
          pct = c_decoder_get_option_double (Some d) (Some ''sample_point'') 70; bw = real (unat samplerate) / real_of_int bitrate
      in if 0 < samplerate \<and> 0 < bitrate
         then s\<lparr>cn_bit_width := bw, cn_sample_point := (bw / 100) * pct, cn_bit_width_known := True\<rparr> else s)"

definition can_start :: "inst_ptr \<Rightarrow> can_s srd_world \<Rightarrow> can_s srd_world" where
  "can_start p w =
     (let (ann, w1) = c_decoder_register_output (Some p) SRD_OUTPUT_ANN (Some ''can'') w;
          (py, w2) = c_decoder_register_output (Some p) SRD_OUTPUT_PROTO (Some ''can'') w1
      in upd_inst p (\<lambda>d. d\<lparr>user_data := map_option (\<lambda>s. can_configure d (s\<lparr>cn_out_ann := ann, cn_out_python := py\<rparr>)) (user_data d)\<rparr>) w2)"

text \<open>The number of the last match is a part of the state.\<close>

definition can_waits :: "u64 \<times> can_s \<Rightarrow> srd_term list list" where
  "can_waits = (\<lambda>(cur, s).
     let pos = can_sample_point s (cn_curbit s)
     in if cn_state s = CAN_IDLE \<or> \<not> cn_bit_width_known s then [[edge_term SRD_TERM_FALLING_EDGE CAN_RX]]
        else [[cw_skip (if cur < pos then pos - cur else 0)], [edge_term SRD_TERM_FALLING_EDGE CAN_RX]])"

definition begin_frame :: "u64 \<Rightarrow> can_s \<Rightarrow> can_s" where
  "begin_frame sn s =
     (let s1 = (dom_edge_seen sn (s\<lparr>cn_state := CAN_GET_BITS\<rparr>))\<lparr>cn_curbit := 0, cn_rawbits := [], cn_bits := [],
            cn_ss_databytebits := [], cn_frame_type := -1, cn_last_databit := 999, cn_crc_len := 15, cn_dlc := 0,
            cn_rtr_type := 0, cn_frame_bytes := []\<rparr>
      in if cn_bit_width_known s1 then s1\<lparr>cn_next_sample_point := can_sample_point s1 (cn_curbit s1)\<rparr> else s1)"

definition can_step :: "u64 \<Rightarrow> u64 \<Rightarrow> (int \<Rightarrow> u8) \<Rightarrow> u64 \<times> can_s \<Rightarrow> (u64 \<times> can_s) \<times> out_call list" where
  "can_step sn matched pins = (\<lambda>(cur, s).
     if cn_state s = CAN_IDLE then ((sn, begin_frame sn s), [])
     else if \<not> cn_bit_width_known s then ((sn, dom_edge_seen sn s), [])
     else
       let pos = can_sample_point s (cn_curbit s);
           s1 = (if bit matched 1 then dom_edge_seen sn s else s)
       in if \<not> bit matched 0 then ((sn, s1), [])
          else let (s2, out) = can_handle_bit (pins CAN_RX) pos s1;
                   s3 = (if cn_state s2 = CAN_GET_BITS then s2\<lparr>cn_next_sample_point := can_sample_point s2 (cn_curbit s2)\<rparr> else s2)
               in ((sn, s3), out))"

definition can_decode :: "(u64 \<times> can_s) c_program" where
  "can_decode = \<lparr>prog_wait = can_waits, prog_step = can_step\<rparr>"

text \<open>Without a sample rate decode() returns at once.\<close>

definition can_runs :: "can_s srd_decoder_inst \<Rightarrow> bool" where
  "can_runs d \<longleftrightarrow> c_decoder_get_samplerate (Some d) \<noteq> 0"

section \<open>Frames\<close>

text \<open>The bits of a number, the most significant one first.\<close>

definition msb_bits :: "nat \<Rightarrow> nat \<Rightarrow> u8 list" where
  "msb_bits n v = map (\<lambda>i. if bit v (n - 1 - i) then 1 else 0) [0..<n]"

lemma length_msb_bits [simp]: "length (msb_bits n v) = n"
  by (simp add: msb_bits_def)

lemma msb_bits_01: "set (msb_bits n v) \<subseteq> {0, 1}"
  by (auto simp: msb_bits_def)

lemma msb_bits_Suc: "msb_bits (Suc n) v = (if bit v n then 1 else 0) # msb_bits n v"
proof -
  have "[0..<Suc n] = 0 # map Suc [0..<n]" by (simp add: map_Suc_upt upt_conv_Cons del: upt_Suc)
  then show ?thesis by (simp add: msb_bits_def)
qed

lemma foldl_msb:
  "n \<le> 32 \<Longrightarrow> v < 2 ^ 32 \<Longrightarrow>
     foldl (\<lambda>a b. push_bit 1 a OR (ucast b AND 1)) (of_nat (drop_bit n v) :: u32) (msb_bits n v) = of_nat v"
proof (induction n)
  case 0
  then show ?case by (simp add: msb_bits_def)
next
  case (Suc n)
  have "push_bit 1 (of_nat (drop_bit (Suc n) v) :: u32) OR (ucast (if bit v n then 1 else 0 :: u8) AND 1) = of_nat (drop_bit n v)"
  proof (rule bit_word_eqI)
    fix i assume "i < LENGTH(32)"
    then show "bit (push_bit 1 (of_nat (drop_bit (Suc n) v) :: u32) OR (ucast (if bit v n then 1 else 0 :: u8) AND 1)) i
        \<longleftrightarrow> bit (of_nat (drop_bit n v) :: u32) i"
      unfolding bit_or_iff bit_push_bit_iff by (cases i) (auto simp: bit_simps)
  qed
  then show ?case using Suc by (simp add: msb_bits_Suc)
qed

lemma bitpack_msb_bits: "n \<le> 32 \<Longrightarrow> v < 2 ^ n \<Longrightarrow> bitpack_msb (msb_bits n v) = of_nat v"
proof -
  assume n: "n \<le> 32" and v: "v < 2 ^ n"
  have "(2 :: nat) ^ n \<le> 2 ^ 32" using n by (intro power_increasing) simp_all
  with v have "v < 2 ^ 32" by linarith
  moreover have "drop_bit n v = 0" using v by (simp add: drop_bit_eq_div)
  ultimately show "bitpack_msb (msb_bits n v) = of_nat v"
    using foldl_msb [OF n, of v] n by (simp add: bitpack_msb_def)
qed

record can_frame =
  cf_ext :: bool
  cf_id :: nat
  cf_remote :: bool
  cf_dlc :: nat
  cf_data :: "u8 list"
  cf_crc :: "u8 list"
  cf_ack :: u8

text \<open>A frame of CAN 2.0; the check sequence and the answer in the ACK slot are arbitrary.\<close>

definition can_frame_ok :: "can_frame \<Rightarrow> bool" where
  "can_frame_ok fr \<longleftrightarrow> cf_id fr < (if cf_ext fr then 2 ^ 29 else 2 ^ 11) \<and> cf_dlc fr < 16
     \<and> length (cf_data fr) = (if cf_remote fr then 0 else min (cf_dlc fr) 8)
     \<and> length (cf_crc fr) = 15 \<and> set (cf_crc fr) \<subseteq> {0, 1} \<and> cf_ack fr \<in> {0, 1}"

definition rtr_bit :: "can_frame \<Rightarrow> u8" where
  "rtr_bit fr = (if cf_remote fr then 1 else 0)"

definition id_bits :: "can_frame \<Rightarrow> u8 list" where
  "id_bits fr = (if cf_ext fr then msb_bits 11 (drop_bit 18 (cf_id fr)) @ [1, 1] @ msb_bits 18 (take_bit 18 (cf_id fr)) @ [rtr_bit fr, 0, 0]
     else msb_bits 11 (cf_id fr) @ [rtr_bit fr, 0, 0])"

text \<open>The part that is stuffed, and all bits.\<close>

definition stuffed_part :: "can_frame \<Rightarrow> u8 list" where
  "stuffed_part fr = [0] @ id_bits fr @ msb_bits 4 (cf_dlc fr) @ concat (map (\<lambda>b. msb_bits 8 (unat b)) (cf_data fr)) @ cf_crc fr"

definition can_frame_bits :: "can_frame \<Rightarrow> u8 list" where
  "can_frame_bits fr = stuffed_part fr @ [1, cf_ack fr, 1] @ replicate 7 1"

definition dlc_pos :: "can_frame \<Rightarrow> nat" where
  "dlc_pos fr = (if cf_ext fr then 35 else 15)"

definition last_data :: "can_frame \<Rightarrow> nat" where
  "last_data fr = dlc_pos fr + 3 + 8 * length (cf_data fr)"

text \<open>After \<open>c\<close> bits with the value \<open>l\<close>: five equal bits are followed by one of the other value.\<close>

function stuffed :: "u8 \<Rightarrow> nat \<Rightarrow> u8 list \<Rightarrow> u8 list" where
  "stuffed l c xs =
     (if c = 5 then (1 - l) # stuffed (1 - l) 1 xs
      else case xs of [] \<Rightarrow> [] | x # ys \<Rightarrow> x # stuffed x (if x = l then Suc c else 1) ys)"
  by pat_completeness auto
termination by (relation "measure (\<lambda>(l, c, xs). 2 * length xs + (if c = 5 then 1 else 0))") auto

declare stuffed.simps [simp del]

definition can_frame_raw :: "can_frame \<Rightarrow> u8 list" where
  "can_frame_raw fr = stuffed 1 0 (stuffed_part fr) @ drop (length (stuffed_part fr)) (can_frame_bits fr)"

text \<open>What is told about a frame: its data bytes and the message.\<close>

fun can_told1 :: "out_call \<Rightarrow> (string + c_field list) option" where
  "can_told1 (O_proto ss es n cmd fs) = Some (Inr fs)"
| "can_told1 (O_put ss es n cls txts) = (if cls = can_ANN_DATA then Some (Inl (last txts)) else None)"
| "can_told1 _ = None"

definition can_told :: "out_call list \<Rightarrow> (string + c_field list) list" where
  "can_told out = List.map_filter can_told1 out"

definition frame_data_told :: "can_frame \<Rightarrow> (string + c_field list) list" where
  "frame_data_told fr = map (\<lambda>b. Inl (''0x'' @ fmt_hex 2 (unat b))) (cf_data fr)"

definition frame_end_told :: "can_frame \<Rightarrow> (string + c_field list) list" where
  "frame_end_told fr = [Inr [C_STR (if cf_ext fr then ''extended'' else ''standard''), C_U32 (of_nat (cf_id fr)),
     C_STR (if cf_remote fr then ''remote'' else ''data''), C_I32 (of_nat (length (cf_data fr)))]]"

lemma can_told_simps [simp]:
  "can_told [] = []" "can_told (c # cs) = (case can_told1 c of None \<Rightarrow> can_told cs | Some m \<Rightarrow> m # can_told cs)"
  "can_told (cs @ ds) = can_told cs @ can_told ds"
  "can_told (out_when b cs) = (if b then can_told cs else [])"
  by (simp_all add: can_told_def List.map_filter_def out_when_def split: option.split)

lemma can_told_puts [simp]:
  "can_told1 (can_putg ss es cls txts s) = (if cls = can_ANN_DATA then Some (Inl (last txts)) else None)"
  "can_told1 (can_putx sn cls txts s) = (if cls = can_ANN_DATA then Some (Inl (last txts)) else None)"
  "can_told1 (can_putb sn cls txts s) = (if cls = can_ANN_DATA then Some (Inl (last txts)) else None)"
  by (simp_all add: can_putx_def can_putb_def can_putg_def Let_def)

section \<open>The fields come in\<close>

text \<open>The decoder has taken \<open>i\<close> bits of the frame.\<close>

definition frame_at :: "can_frame \<Rightarrow> nat \<Rightarrow> can_s \<Rightarrow> bool" where
  "frame_at fr i s \<longleftrightarrow> cn_state s = CAN_GET_BITS \<and> cn_bits s = take i (can_frame_bits fr) \<and> cn_crc_len s = 15
     \<and> (12 \<le> i \<longrightarrow> cn_ident s = of_nat (if cf_ext fr then drop_bit 18 (cf_id fr) else cf_id fr))
     \<and> ((if cf_ext fr then 32 else 12) \<le> i \<longrightarrow> cn_fullid s = of_nat (cf_id fr))
     \<and> (14 \<le> i \<longrightarrow> cn_frame_type s = (if cf_ext fr then FRAME_EXTENDED else FRAME_STANDARD))
     \<and> (15 \<le> i \<longrightarrow> cn_dlc_start s = int (dlc_pos fr))
     \<and> ((if cf_ext fr then 33 else 15) \<le> i \<longrightarrow> cn_rtr_type s = (if cf_remote fr then 1 else 0))
     \<and> cn_last_databit s = (if i \<le> dlc_pos fr + 3 then 999 else int (last_data fr))
     \<and> (dlc_pos fr + 3 < i \<longrightarrow> cn_dlc s = int (length (cf_data fr)))
     \<and> length (cn_ss_databytebits s) = (if dlc_pos fr + 3 < i \<and> i \<le> last_data fr then i - (dlc_pos fr + 4) else 0)"

lemma length_id_bits: "Suc (length (id_bits fr)) = dlc_pos fr"
  by (simp add: id_bits_def dlc_pos_def)

lemma length_bytes: "length (concat (map (\<lambda>b. msb_bits 8 (unat b)) bs)) = 8 * length bs"
  by (induction bs) simp_all

lemma nth_bytes:
  "i < length bs \<Longrightarrow> take 8 (drop (8 * i) (concat (map (\<lambda>b. msb_bits 8 (unat b)) bs) @ ys)) = msb_bits 8 (unat (bs ! i))"
proof (induction bs arbitrary: i)
  case (Cons b bs)
  show ?case
  proof (cases i)
    case (Suc j)
    then show ?thesis using Cons.IH [of j] Cons.prems by simp
  qed simp
qed simp

lemma frame_parts:
  assumes ok: "can_frame_ok fr"
  defines "B \<equiv> can_frame_bits fr"
  shows "length (stuffed_part fr) = last_data fr + 16" "length B = last_data fr + 26" "B ! 0 = 0"
    "take 11 (drop 1 B) = msb_bits 11 (if cf_ext fr then drop_bit 18 (cf_id fr) else cf_id fr)"
    "B ! 12 = (if cf_ext fr then 1 else rtr_bit fr)" "B ! 13 = (if cf_ext fr then 1 else 0)"
    "cf_ext fr \<Longrightarrow> take 18 (drop 14 B) = msb_bits 18 (take_bit 18 (cf_id fr))"
    "cf_ext fr \<Longrightarrow> B ! 32 = rtr_bit fr"
    "take 4 (drop (dlc_pos fr) B) = msb_bits 4 (cf_dlc fr)"
    "i < length (cf_data fr) \<Longrightarrow> take 8 (drop (dlc_pos fr + 4 + 8 * i) B) = msb_bits 8 (unat (cf_data fr ! i))"
    "length (cf_data fr) \<le> 8" "set B \<subseteq> {0, 1}"
proof -
  let ?D = "concat (map (\<lambda>b. msb_bits 8 (unat b)) (cf_data fr))"
  define T where "T = cf_crc fr @ [1, cf_ack fr, 1] @ replicate 7 1"
  have B: "B = [0] @ id_bits fr @ msb_bits 4 (cf_dlc fr) @ ?D @ T"
    by (simp add: B_def can_frame_bits_def stuffed_part_def T_def)
  have c: "length (cf_crc fr) = 15" using ok by (simp add: can_frame_ok_def)
  show l: "length (stuffed_part fr) = last_data fr + 16"
    using length_id_bits [of fr] c by (simp add: stuffed_part_def last_data_def length_bytes [of "cf_data fr"])
  then show "length B = last_data fr + 26" by (simp add: B_def can_frame_bits_def)
  show "B ! 0 = 0" by (simp add: B)
  show "take 11 (drop 1 B) = msb_bits 11 (if cf_ext fr then drop_bit 18 (cf_id fr) else cf_id fr)"
    by (simp add: B id_bits_def)
  show "B ! 12 = (if cf_ext fr then 1 else rtr_bit fr)" "B ! 13 = (if cf_ext fr then 1 else 0)"
    by (simp_all add: B id_bits_def nth_append)
  show "cf_ext fr \<Longrightarrow> take 18 (drop 14 B) = msb_bits 18 (take_bit 18 (cf_id fr))" "cf_ext fr \<Longrightarrow> B ! 32 = rtr_bit fr"
    by (simp_all add: B id_bits_def nth_append)
  have d1: "drop (dlc_pos fr) B = msb_bits 4 (cf_dlc fr) @ ?D @ T"
    unfolding B length_id_bits [of fr, symmetric] by simp
  then show "take 4 (drop (dlc_pos fr) B) = msb_bits 4 (cf_dlc fr)" by simp
  have "drop (dlc_pos fr + 4 + 8 * i) B = drop (8 * i) (drop 4 (drop (dlc_pos fr) B))" by (simp add: ac_simps)
  then show "i < length (cf_data fr) \<Longrightarrow> take 8 (drop (dlc_pos fr + 4 + 8 * i) B) = msb_bits 8 (unat (cf_data fr ! i))"
    unfolding d1 using nth_bytes [of i "cf_data fr" T] by simp
  show "length (cf_data fr) \<le> 8" using ok by (auto simp: can_frame_ok_def split: if_splits)
  have 1: "set (id_bits fr) \<subseteq> {0, 1}"
    unfolding id_bits_def by (cases "cf_ext fr") (simp_all add: msb_bits_01 rtr_bit_def)
  have 2: "set ?D \<subseteq> {0, 1}" unfolding set_concat set_map using msb_bits_01 by blast
  have 3: "set T \<subseteq> {0, 1}" using ok by (simp add: T_def can_frame_ok_def)
  show "set B \<subseteq> {0, 1}" unfolding B set_append using 1 2 3 msb_bits_01 [of 4 "cf_dlc fr"] by simp
qed

section \<open>One bit\<close>

lemma frame_head_late: "14 \<le> bitnum \<Longrightarrow> frame_head rx bitnum sn s = (s, [])"
  by (simp add: frame_head_def)

lemma frame_rest_before:
  "bitnum < cn_dlc_start s + 3 \<Longrightarrow> bitnum < cn_last_databit s \<Longrightarrow>
     frame_rest w rx bitnum sn s = ((if bitnum = cn_dlc_start s then s\<lparr>cn_ss_block := sn\<rparr> else s, []), False)"
  by (simp add: frame_rest_def decode_data_field_def Let_def)

lemma data_field_bit_sel [simp]:
  "cn_dlc_start (data_field_bit sn s) = cn_dlc_start s" "cn_last_databit (data_field_bit sn s) = cn_last_databit s"
  "cn_dlc (data_field_bit sn s) = cn_dlc s" "cn_bits (data_field_bit sn s) = cn_bits s" "cn_state (data_field_bit sn s) = cn_state s"
  "cn_crc_len (data_field_bit sn s) = cn_crc_len s" "cn_ident (data_field_bit sn s) = cn_ident s"
  "cn_fullid (data_field_bit sn s) = cn_fullid s" "cn_frame_type (data_field_bit sn s) = cn_frame_type s"
  "cn_rtr_type (data_field_bit sn s) = cn_rtr_type s" "cn_curbit (data_field_bit sn s) = cn_curbit s"
  "length (cn_ss_databytebits s) < 64 \<Longrightarrow> length (cn_ss_databytebits (data_field_bit sn s)) = Suc (length (cn_ss_databytebits s))"
  by (simp_all add: data_field_bit_def)

lemma frame_rest_data:
  "cn_dlc_start s + 3 < bitnum \<Longrightarrow> bitnum < cn_last_databit s \<Longrightarrow>
     frame_rest w rx bitnum sn s = ((data_field_bit sn s, []), False)"
  by (simp add: frame_rest_def decode_data_field_def Let_def)

lemma frame_rest_after:
  "cn_dlc_start s + 3 < bitnum \<Longrightarrow> cn_last_databit s < bitnum \<Longrightarrow> frame_rest w rx bitnum sn s = decode_frame_end rx bitnum sn s"
  by (simp add: frame_rest_def decode_data_field_def Let_def split_beta)

text \<open>What no step of a frame changes.\<close>

definition can_cfg :: "can_s \<Rightarrow> real \<times> real \<times> bool \<times> u64 \<times> int \<times> u8 list" where
  "can_cfg s = (cn_bit_width s, cn_sample_point s, cn_bit_width_known s, cn_dom_edge_snum s, cn_dom_edge_bcount s, cn_rawbits s)"

definition bit_taken :: "can_frame \<Rightarrow> nat \<Rightarrow> can_s \<Rightarrow> can_s \<times> out_call list \<Rightarrow> bool" where
  "bit_taken fr i s r \<longleftrightarrow> frame_at fr (Suc i) (fst r) \<and> cn_curbit (fst r) = cn_curbit s + 1 \<and> can_cfg (fst r) = can_cfg s
     \<and> can_told (snd r) = (if i = last_data fr \<and> cf_data fr \<noteq> [] then frame_data_told fr else [])"

lemma add_bit_at:
  assumes ok: "can_frame_ok fr" and at: "frame_at fr i s" and i: "i < last_data fr + 26"
  shows "cn_bits (add_bit (can_frame_bits fr ! i) s) = take (Suc i) (can_frame_bits fr)"
proof -
  have b: "cn_bits s = take i (can_frame_bits fr)" using at unfolding frame_at_def by blast
  have d: "dlc_pos fr \<le> 35" by (simp add: dlc_pos_def)
  have l: "i < length (can_frame_bits fr)" using i frame_parts(2) [OF ok] by simp
  then have "length (cn_bits s) < 512" using i d frame_parts(11) [OF ok] by (simp add: b last_data_def)
  then show ?thesis using l by (simp add: b add_bit_def take_Suc_conv_app_nth)
qed

lemma head_bit:
  assumes ok: "can_frame_ok fr" and at: "frame_at fr i s" and i: "i < 14"
  shows "bit_taken fr i (add_bit (can_frame_bits fr ! i) s) (frame_bit (can_frame_bits fr ! i) sn (add_bit (can_frame_bits fr ! i) s))"
proof -
  let ?B = "can_frame_bits fr" and ?rx = "can_frame_bits fr ! i"
  define s1 where "s1 = add_bit ?rx s"
  have L: "14 < last_data fr" "14 < dlc_pos fr" by (simp_all add: last_data_def dlc_pos_def)
  have b1: "cn_bits s1 = take (Suc i) ?B" unfolding s1_def using add_bit_at [OF ok at] i L by simp
  have lb: "length (cn_bits s1) = Suc i" using b1 i L frame_parts(2) [OF ok] by simp
  have at1: "cn_state s1 = CAN_GET_BITS" "cn_crc_len s1 = 15" "12 \<le> i \<longrightarrow> cn_ident s1 = of_nat (if cf_ext fr then drop_bit 18 (cf_id fr) else cf_id fr)"
    "12 \<le> i \<and> \<not> cf_ext fr \<longrightarrow> cn_fullid s1 = of_nat (cf_id fr)" "cn_last_databit s1 = 999" "cn_ss_databytebits s1 = []"
    using at i L by (auto simp: frame_at_def s1_def add_bit_def)
  have idb: "(if cf_ext fr then drop_bit 18 (cf_id fr) else cf_id fr) < 2 ^ 11"
    using ok by (auto simp: can_frame_ok_def drop_bit_eq_div less_mult_imp_div_less)
  have id: "i = 11 \<Longrightarrow> bitpack_msb (take 11 (drop 1 (cn_bits s1))) = of_nat (if cf_ext fr then drop_bit 18 (cf_id fr) else cf_id fr)"
    using frame_parts(4) [OF ok] bitpack_msb_bits [OF _ idb] by (simp add: b1 drop_take)
  have ide: "i = 13 \<Longrightarrow> ?rx = (if cf_ext fr then 1 else 0)" using frame_parts(6) [OF ok] by simp
  have e: "frame_bit ?rx sn s1 = (let (s2, out) = frame_head ?rx (int i) sn s1 in (s2\<lparr>cn_curbit := cn_curbit s2 + 1\<rparr>, can_putx sn can_ANN_BIT [can_bit_text ?rx] s1 # out))"
    using i by (simp add: frame_bit_def lb Let_def split_beta)
  consider "i = 11" | "i = 13" | "i \<noteq> 11" "i \<noteq> 13" by blast
  then show ?thesis
    unfolding s1_def [symmetric] e
  proof cases
    case 1
    then show "bit_taken fr i s1 (let (s2, out) = frame_head ?rx (int i) sn s1 in (s2\<lparr>cn_curbit := cn_curbit s2 + 1\<rparr>, can_putx sn can_ANN_BIT [can_bit_text ?rx] s1 # out))"
      using id at1 b1 L by (simp add: frame_head_def frame_identifier_def Let_def bit_taken_def frame_at_def can_cfg_def can_classes)
  next
    case 2
    then show "bit_taken fr i s1 (let (s2, out) = frame_head ?rx (int i) sn s1 in (s2\<lparr>cn_curbit := cn_curbit s2 + 1\<rparr>, can_putx sn can_ANN_BIT [can_bit_text ?rx] s1 # out))"
      using ide at1 b1 L by (simp add: frame_head_def Let_def bit_taken_def frame_at_def can_cfg_def can_classes)
  next
    case 3
    then show "bit_taken fr i s1 (let (s2, out) = frame_head ?rx (int i) sn s1 in (s2\<lparr>cn_curbit := cn_curbit s2 + 1\<rparr>, can_putx sn can_ANN_BIT [can_bit_text ?rx] s1 # out))"
      using at1 b1 L i by (simp add: frame_head_def Let_def bit_taken_def frame_at_def can_cfg_def can_classes)
  qed
qed

lemma dlc2len_small: "n \<le> 8 \<Longrightarrow> dlc2len (int n) = int n"
proof -
  assume "n \<le> 8"
  then have "n = 0 \<or> n = 1 \<or> n = 2 \<or> n = 3 \<or> n = 4 \<or> n = 5 \<or> n = 6 \<or> n = 7 \<or> n = 8" by arith
  then show ?thesis by (elim disjE) (simp_all add: dlc2len_def)
qed

lemma take_drop_take: "x + n \<le> m \<Longrightarrow> take n (drop x (take m xs)) = take n (drop x xs)"
  by (simp add: drop_take min_absorb1)

definition rest_fields :: "can_frame \<Rightarrow> nat \<Rightarrow> can_s \<Rightarrow> bool" where
  "rest_fields fr i s \<longleftrightarrow> cn_state s = CAN_GET_BITS \<and> cn_crc_len s = 15
     \<and> cn_last_databit s = (if i \<le> dlc_pos fr + 3 then 999 else int (last_data fr))
     \<and> (dlc_pos fr + 3 < i \<longrightarrow> cn_dlc s = int (length (cf_data fr)))
     \<and> length (cn_ss_databytebits s) = (if dlc_pos fr + 3 < i \<and> i \<le> last_data fr then i - (dlc_pos fr + 4) else 0)"

lemma rest_fields_cong:
  "rest_fields fr i s \<Longrightarrow> cn_state s' = cn_state s \<Longrightarrow> cn_crc_len s' = cn_crc_len s \<Longrightarrow> cn_last_databit s' = cn_last_databit s
    \<Longrightarrow> cn_dlc s' = cn_dlc s \<Longrightarrow> cn_ss_databytebits s' = cn_ss_databytebits s \<Longrightarrow> rest_fields fr i s'"
  by (simp add: rest_fields_def)

definition rest_kept :: "can_s \<Rightarrow> can_s \<Rightarrow> bool" where
  "rest_kept s s' \<longleftrightarrow> cn_bits s' = cn_bits s \<and> cn_ident s' = cn_ident s \<and> cn_fullid s' = cn_fullid s
     \<and> cn_frame_type s' = cn_frame_type s \<and> cn_rtr_type s' = cn_rtr_type s \<and> cn_dlc_start s' = cn_dlc_start s
     \<and> cn_curbit s' = cn_curbit s \<and> can_cfg s' = can_cfg s"

definition rest_done :: "can_frame \<Rightarrow> nat \<Rightarrow> can_s \<Rightarrow> (can_s \<times> out_call list) \<times> bool \<Rightarrow> bool" where
  "rest_done fr i s r \<longleftrightarrow> \<not> snd r \<and> rest_fields fr (Suc i) (fst (fst r)) \<and> rest_kept s (fst (fst r))
     \<and> can_told (snd (fst r)) = (if i = last_data fr \<and> cf_data fr \<noteq> [] then frame_data_told fr else [])"

lemma dlc_bit:
  assumes ok: "can_frame_ok fr" and f: "rest_fields fr i s" and b: "cn_bits s = take (Suc i) (can_frame_bits fr)"
    and d: "cn_dlc_start s = int (dlc_pos fr)" and r: "cn_rtr_type s = (if cf_remote fr then 1 else 0)" and i: "i = dlc_pos fr + 3"
  shows "rest_done fr i s (frame_rest w rx (int i) sn s)"
proof -
  have len: "length (cf_data fr) = (if cf_remote fr then 0 else min (cf_dlc fr) 8)" "cf_dlc fr < 16"
    using ok by (simp_all add: can_frame_ok_def)
  have bl: "Suc i \<le> length (can_frame_bits fr)" using frame_parts(2) [OF ok] i by (simp add: last_data_def)
  have "bitpack_msb (msb_bits 4 (cf_dlc fr)) = of_nat (cf_dlc fr)" using len(2) by (intro bitpack_msb_bits) simp_all
  then have "bitpack_msb (take 4 (drop (nat (cn_dlc_start s)) (cn_bits s))) = of_nat (cf_dlc fr)"
    using frame_parts(9) [OF ok] by (simp add: b d i drop_take)
  then have v: "uint (bitpack_msb (take 4 (drop (nat (cn_dlc_start s)) (cn_bits s)))) = int (cf_dlc fr)"
    using len(2) by (simp add: unsigned_of_nat take_bit_nat_eq_self)
  define n where "n = int (length (cf_data fr))"
  have n: "n = (if int (cf_dlc fr) \<noteq> 0 \<and> cn_rtr_type s = 1 then 0 else if 8 < int (cf_dlc fr) then 8 else int (cf_dlc fr))"
    "0 \<le> n" "n \<le> 8"
    using len by (auto simp: n_def r)
  have t: "dlc2len n = n" using n(3) dlc2len_small [of "length (cf_data fr)"] by (simp add: n_def)
  obtain out where e: "decode_dlc w sn s = (s\<lparr>cn_dlc := n, cn_last_databit := int (last_data fr)\<rparr>, out)" and q: "can_told out = []"
  proof (rule that)
    have c: "cn_dlc_start s + 4 \<le> int (length (cn_bits s))" using bl i by (simp add: b d)
    have "fst (decode_dlc w sn s) = s\<lparr>cn_dlc := n, cn_last_databit := cn_dlc_start s + 3 + n * 8\<rparr>"
      unfolding decode_dlc_def Let_def if_P [OF c] v n(1) [symmetric] t by simp
    then have "fst (decode_dlc w sn s) = s\<lparr>cn_dlc := n, cn_last_databit := int (last_data fr)\<rparr>" by (simp add: d last_data_def n_def)
    then show "decode_dlc w sn s = (s\<lparr>cn_dlc := n, cn_last_databit := int (last_data fr)\<rparr>, snd (decode_dlc w sn s))"
      by (simp add: prod_eq_iff)
    show "can_told (snd (decode_dlc w sn s)) = []" by (simp add: decode_dlc_def Let_def can_classes)
  qed
  have s1: "int i \<noteq> cn_dlc_start s" "int i = cn_dlc_start s + 3" by (simp_all add: i d)
  have "frame_rest w rx (int i) sn s = ((s\<lparr>cn_dlc := n, cn_last_databit := int (last_data fr)\<rparr>, out), False)"
  proof -
    have "n = 0 \<or> cn_dlc_start s + 3 \<noteq> int (last_data fr)" "\<not> int (last_data fr) < int i"
      using s1(2) by (simp_all add: i last_data_def n_def)
    then show ?thesis using s1 by (elim disjE) (simp_all add: frame_rest_def e decode_data_field_def Let_def)
  qed
  moreover have "i = last_data fr \<Longrightarrow> cf_data fr = []" by (simp add: i last_data_def)
  ultimately show ?thesis using f q by (auto simp: rest_done_def rest_fields_def rest_kept_def can_cfg_def i n_def)
qed

lemma data_byte_value:
  assumes ok: "can_frame_ok fr" and d: "cn_dlc_start s = int (dlc_pos fr)"
    and b: "cn_bits s = take (Suc (last_data fr)) (can_frame_bits fr)" and j: "j < length (cf_data fr)"
  shows "data_byte s j = cf_data fr ! j"
proof -
  have x: "nat (cn_dlc_start s + 4 + 8 * int j) = dlc_pos fr + 4 + 8 * j" by (simp add: d)
  have l: "dlc_pos fr + 4 + 8 * j + 8 \<le> Suc (last_data fr)" using j by (simp add: last_data_def)
  then have t: "take 8 (drop (dlc_pos fr + 4 + 8 * j) (cn_bits s)) = msb_bits 8 (unat (cf_data fr ! j))"
    using frame_parts(10) [OF ok j] by (simp add: b take_drop_take)
  have "bitpack_msb (msb_bits 8 (unat (cf_data fr ! j))) = of_nat (unat (cf_data fr ! j))"
    using unsigned_less [where w = "cf_data fr ! j" and 'a = nat] by (intro bitpack_msb_bits) simp_all
  moreover have "dlc_pos fr + 4 + 8 * j + 8 \<le> length (cn_bits s)" using l frame_parts(2) [OF ok] by (simp add: b)
  ultimately show ?thesis unfolding data_byte_def x Let_def t
    by simp (rule bit_word_eqI, simp add: bit_simps)
qed

lemma last_data_bit:
  assumes ok: "can_frame_ok fr" and f: "rest_fields fr i s" and b: "cn_bits s = take (Suc i) (can_frame_bits fr)"
    and d: "cn_dlc_start s = int (dlc_pos fr)" and i: "i = last_data fr" "cf_data fr \<noteq> []"
  shows "rest_done fr i s (frame_rest w rx (int i) sn s)"
proof -
  let ?n = "length (cf_data fr)"
  have n: "0 < ?n" "?n \<le> 8" using i(2) frame_parts(11) [OF ok] by simp_all
  have L: "dlc_pos fr + 3 < i" using n by (simp add: i last_data_def)
  have s: "cn_last_databit s = int i" "cn_dlc s = int ?n" "length (cn_ss_databytebits s) = 8 * ?n - 1"
    using f L by (simp_all add: rest_fields_def i last_data_def)
  define s2 where "s2 = data_field_bit sn s"
  have l2: "length (cn_ss_databytebits s2) = 8 * ?n" using s(3) n by (simp add: s2_def)
  have t: "dlc2len (int ?n) = int ?n" using n by (intro dlc2len_small)
  have m: "nat (min (dlc2len (cn_dlc s2)) 8) = ?n" using n s(2) by (simp add: s2_def t min_def)
  have tb: "can_told (data_byte_ann (cn_ss_databytebits s2) s2 j) = [Inl (''0x'' @ fmt_hex 2 (unat (cf_data fr ! j)))]" if "j < ?n" for j
    using data_byte_value [OF ok _ _ that, of s2] d b i(1) that
    by (simp add: s2_def data_byte_ann_def Let_def l2 [unfolded s2_def])
  have told: "can_told (concat (map (data_byte_ann (cn_ss_databytebits s2) s2) [0..<?n])) = frame_data_told fr"
  proof -
    have "can_told (concat (map (data_byte_ann (cn_ss_databytebits s2) s2) [0..<m])) = map (\<lambda>j. Inl (''0x'' @ fmt_hex 2 (unat (cf_data fr ! j)))) [0..<m]"
      if "m \<le> ?n" for m using that by (induction m) (simp_all add: tb)
    then have "can_told (concat (map (data_byte_ann (cn_ss_databytebits s2) s2) [0..<?n])) = map (\<lambda>j. Inl (''0x'' @ fmt_hex 2 (unat (cf_data fr ! j)))) [0..<?n]"
      by blast
    also have "\<dots> = frame_data_told fr"
      unfolding frame_data_told_def by (rule nth_equalityI) simp_all
    finally show ?thesis .
  qed
  have "frame_rest w rx (int i) sn s = ((s2\<lparr>cn_frame_bytes := map (data_byte s2) [0..<?n], cn_ss_databytebits := []\<rparr>,
      concat (map (data_byte_ann (cn_ss_databytebits s2) s2) [0..<?n])), False)"
  proof -
    have a: "int i \<noteq> cn_dlc_start s" "int i \<noteq> cn_dlc_start s + 3" "0 < cn_dlc s" using L n s(2) by (simp_all add: d)
    then show ?thesis using s(1) m
      by (simp add: frame_rest_def decode_data_field_def Let_def s2_def [symmetric]) (simp add: s2_def)
  qed
  then show ?thesis
    using f L told i(2) n by (simp add: rest_done_def rest_fields_def rest_kept_def can_cfg_def i(1) s2_def data_field_bit_def)
qed

lemma decode_frame_end_tail:
  assumes "cn_crc_len s = 15" and "bitnum < cn_last_databit s + 25"
  shows "\<not> snd (decode_frame_end rx bitnum sn s)" "rest_kept s (fst (fst (decode_frame_end rx bitnum sn s)))"
    "rest_fields fr i s \<Longrightarrow> rest_fields fr i (fst (fst (decode_frame_end rx bitnum sn s)))"
    "can_told (snd (fst (decode_frame_end rx bitnum sn s))) = []"
proof -
  obtain s1 o1 where c: "crc_sequence bitnum sn s = (s1, o1)" by (rule prod.exhaust)
  have s1: "s1 = fst (crc_sequence bitnum sn s)" "o1 = snd (crc_sequence bitnum sn s)" by (simp_all add: c)
  have k: "rest_kept s s1" and q: "can_told o1 = []"
    and l: "cn_crc_len s1 = 15" "cn_last_databit s1 = cn_last_databit s" "cn_state s1 = cn_state s" "cn_dlc s1 = cn_dlc s"
      "cn_ss_databytebits s1 = cn_ss_databytebits s"
    using assms(1) unfolding s1 by (simp_all add: crc_sequence_def Let_def rest_kept_def can_cfg_def can_classes)
  have e: "decode_frame_end rx bitnum sn s =
      ((if bitnum = cn_last_databit s + 19 then s1\<lparr>cn_ss_block := sn\<rparr> else s1, snd (fst (decode_frame_end rx bitnum sn s))), False)"
    using assms(2) by (simp add: decode_frame_end_def c Let_def l)
  show "\<not> snd (decode_frame_end rx bitnum sn s)" by (subst e) simp
  have f: "fst (fst (decode_frame_end rx bitnum sn s)) = (if bitnum = cn_last_databit s + 19 then s1\<lparr>cn_ss_block := sn\<rparr> else s1)"
    by (subst e) simp
  show "rest_kept s (fst (fst (decode_frame_end rx bitnum sn s)))" unfolding f using k by (simp add: rest_kept_def can_cfg_def)
  show "rest_fields fr i s \<Longrightarrow> rest_fields fr i (fst (fst (decode_frame_end rx bitnum sn s)))"
    unfolding f by (erule rest_fields_cong) (simp_all add: l assms(1))
  show "can_told (snd (fst (decode_frame_end rx bitnum sn s))) = []"
    using assms(2) q by (simp add: decode_frame_end_def c Let_def l can_classes)
qed

lemma rest_fields_Suc: "rest_fields fr i s \<Longrightarrow> last_data fr < i \<Longrightarrow> dlc_pos fr + 3 < i \<Longrightarrow> rest_fields fr (Suc i) s"
  by (simp add: rest_fields_def)

lemma tail_bit:
  assumes f: "rest_fields fr i s" and i: "last_data fr < i" "dlc_pos fr + 3 < i" "i < last_data fr + 25" and d: "cn_dlc_start s = int (dlc_pos fr)"
  shows "rest_done fr i s (frame_rest w rx (int i) sn s)"
proof -
  have s: "cn_last_databit s = int (last_data fr)" "cn_crc_len s = 15" using f i by (simp_all add: rest_fields_def)
  have e: "frame_rest w rx (int i) sn s = decode_frame_end rx (int i) sn s"
    using i s(1) by (intro frame_rest_after) (simp_all add: d)
  have "int i < cn_last_databit s + 25" using i(3) s(1) by simp
  from decode_frame_end_tail [OF s(2) this] show ?thesis
    unfolding e rest_done_def using rest_fields_Suc [OF f i(1,2)] i(1) by simp
qed

lemma rest_bit:
  assumes ok: "can_frame_ok fr" and f: "rest_fields fr i s" and b: "cn_bits s = take (Suc i) (can_frame_bits fr)"
    and d: "cn_dlc_start s = int (dlc_pos fr)" and r: "dlc_pos fr \<le> i \<Longrightarrow> cn_rtr_type s = (if cf_remote fr then 1 else 0)"
    and i: "i < last_data fr + 25"
  shows "rest_done fr i s (frame_rest w rx (int i) sn s)"
proof -
  have l: "dlc_pos fr + 3 \<le> last_data fr" "last_data fr = dlc_pos fr + 3 \<longleftrightarrow> cf_data fr = []" by (simp_all add: last_data_def)
  consider "i < dlc_pos fr + 3" | "i = dlc_pos fr + 3" | "dlc_pos fr + 3 < i" "i < last_data fr" | "i = last_data fr" "cf_data fr \<noteq> []"
    | "last_data fr < i" "dlc_pos fr + 3 < i"
    using l by linarith
  then show ?thesis
  proof cases
    case 1
    then have "cn_last_databit s = 999" "cn_ss_databytebits s = []" "dlc_pos fr \<le> 35" "i \<noteq> last_data fr" using f l by (simp_all add: rest_fields_def dlc_pos_def)
    moreover have "frame_rest w rx (int i) sn s = ((if int i = cn_dlc_start s then s\<lparr>cn_ss_block := sn\<rparr> else s, []), False)"
      using 1 calculation by (intro frame_rest_before) (simp_all add: d)
    ultimately show ?thesis using f 1 by (simp add: rest_done_def rest_fields_def rest_kept_def can_cfg_def)
  next
    case 2
    then show ?thesis using r by (intro dlc_bit [OF ok f b d]) simp_all
  next
    case 3
    then have "cn_last_databit s = int (last_data fr)" "length (cn_ss_databytebits s) = i - (dlc_pos fr + 4)" using f by (simp_all add: rest_fields_def)
    moreover have "frame_rest w rx (int i) sn s = ((data_field_bit sn s, []), False)"
      using 3 calculation by (intro frame_rest_data) (simp_all add: d)
    moreover have "i - (dlc_pos fr + 4) < 64" using 3 frame_parts(11) [OF ok] by (simp add: last_data_def)
    moreover have "can_cfg (data_field_bit sn s) = can_cfg s" by (simp add: can_cfg_def data_field_bit_def)
    ultimately show ?thesis using f 3 by (simp add: rest_done_def rest_fields_def rest_kept_def)
  next
    case 4
    then show ?thesis by (intro last_data_bit [OF ok f b d])
  next
    case 5
    then show ?thesis using i by (intro tail_bit [OF f _ _ _ d])
  qed
qed

lemma final_bit:
  assumes f: "rest_fields fr i s" and i: "i = last_data fr + 25" and d: "cn_dlc_start s = int (dlc_pos fr)"
    and v: "cn_fullid s = of_nat (cf_id fr)" "cn_frame_type s = (if cf_ext fr then FRAME_EXTENDED else FRAME_STANDARD)"
      "cn_rtr_type s = (if cf_remote fr then 1 else 0)"
  shows "snd (frame_rest w rx (int i) sn s) \<and> cn_state (fst (fst (frame_rest w rx (int i) sn s))) = CAN_IDLE
    \<and> cn_curbit (fst (fst (frame_rest w rx (int i) sn s))) = 0
    \<and> cn_bit_width (fst (fst (frame_rest w rx (int i) sn s))) = cn_bit_width s
    \<and> cn_sample_point (fst (fst (frame_rest w rx (int i) sn s))) = cn_sample_point s
    \<and> cn_bit_width_known (fst (fst (frame_rest w rx (int i) sn s))) = cn_bit_width_known s
    \<and> can_told (snd (fst (frame_rest w rx (int i) sn s))) = frame_end_told fr"
proof -
  have l: "dlc_pos fr + 3 \<le> last_data fr" by (simp add: last_data_def)
  then have s: "cn_last_databit s = int (last_data fr)" "cn_crc_len s = 15" "cn_dlc s = int (length (cf_data fr))" using f i by (simp_all add: rest_fields_def)
  have e: "frame_rest w rx (int i) sn s = decode_frame_end rx (int i) sn s"
    using i s(1) l by (intro frame_rest_after) (simp_all add: d)
  have c: "crc_sequence (int i) sn s = (s, [])" using s by (simp add: crc_sequence_def Let_def i)
  have fe: "decode_frame_end rx (int i) sn s = (end_of_frame sn s, True)"
    unfolding decode_frame_end_def c Let_def prod.case s by (simp add: i split_beta)
  show ?thesis
    unfolding e fe by (simp add: end_of_frame_def Let_def reset_variables_def can_classes can_frame_msg_def frame_end_told_def v s(3) FRAME_STANDARD_def FRAME_EXTENDED_def)
qed

text \<open>The identifiers and the kind of a frame after \<open>i\<close> bits.\<close>

definition id_fields :: "can_frame \<Rightarrow> nat \<Rightarrow> can_s \<Rightarrow> bool" where
  "id_fields fr i s \<longleftrightarrow> (12 \<le> i \<longrightarrow> cn_ident s = of_nat (if cf_ext fr then drop_bit 18 (cf_id fr) else cf_id fr))
     \<and> ((if cf_ext fr then 32 else 12) \<le> i \<longrightarrow> cn_fullid s = of_nat (cf_id fr))
     \<and> (14 \<le> i \<longrightarrow> cn_frame_type s = (if cf_ext fr then FRAME_EXTENDED else FRAME_STANDARD))
     \<and> (15 \<le> i \<longrightarrow> cn_dlc_start s = int (dlc_pos fr))
     \<and> ((if cf_ext fr then 33 else 15) \<le> i \<longrightarrow> cn_rtr_type s = (if cf_remote fr then 1 else 0))"

lemma frame_at_fields: "frame_at fr i s \<longleftrightarrow> cn_bits s = take i (can_frame_bits fr) \<and> id_fields fr i s \<and> rest_fields fr i s"
  unfolding frame_at_def id_fields_def rest_fields_def by blast

lemma id_fields_add [simp]: "id_fields fr i (add_bit rx s) = id_fields fr i s"
  by (simp add: id_fields_def add_bit_def)

lemma rest_fields_add [simp]: "rest_fields fr i (add_bit rx s) = rest_fields fr i s"
  by (simp add: rest_fields_def add_bit_def)

lemma id_fields_kept: "rest_kept s s' \<Longrightarrow> id_fields fr i s' = id_fields fr i s"
  by (simp add: rest_kept_def id_fields_def)

text \<open>The part before \<open>frame_rest\<close> of the two kinds of frames.\<close>

definition std_first :: "u8 \<Rightarrow> nat \<Rightarrow> can_s \<Rightarrow> can_s" where
  "std_first rx i s = (if i = 14 then s\<lparr>cn_rtr_type := (if cn_bits s ! 12 = 1 then 1 else 0), cn_dlc_start := 15\<rparr> else s)"

definition ext_first :: "u8 \<Rightarrow> u64 \<Rightarrow> nat \<Rightarrow> can_s \<Rightarrow> can_s" where
  "ext_first rx sn i s = (if i = 14 then s\<lparr>cn_ss_block := sn, cn_dlc_start := 35\<rparr> else if i = 31 then fst (extended_id sn s)
     else if i = 32 then s\<lparr>cn_ss_bit32 := sn, cn_rtr_type := (if rx = 1 then 1 else 0)\<rparr> else s)"

lemma std_rest:
  "\<exists>out. can_told out = [] \<and> decode_standard_frame rx (int i) sn s =
     ((fst (fst (frame_rest True rx (int i) sn (std_first rx i s))), out @ snd (fst (frame_rest True rx (int i) sn (std_first rx i s)))),
      snd (frame_rest True rx (int i) sn (std_first rx i s)))"
proof (cases "i = 14")
  case True
  then show ?thesis by (simp add: decode_standard_frame_def std_first_def Let_def split_beta can_classes)
next
  case False
  then show ?thesis by (intro exI [of _ "[]"]) (simp add: decode_standard_frame_def std_first_def Let_def split_beta)
qed

lemma ext_rest:
  "\<exists>out. can_told out = [] \<and> decode_extended_frame rx (int i) sn s =
     ((fst (fst (frame_rest False rx (int i) sn (ext_first rx sn i s))), out @ snd (fst (frame_rest False rx (int i) sn (ext_first rx sn i s)))),
      snd (frame_rest False rx (int i) sn (ext_first rx sn i s)))"
proof -
  have "can_told (snd (extended_id sn s)) = []" by (simp add: extended_id_def Let_def can_classes)
  moreover consider "i = 14" | "i = 31" | "i = 32" | "i \<noteq> 14" "i \<noteq> 31" "i \<noteq> 32" by blast
  ultimately show ?thesis
    by cases (auto simp: decode_extended_frame_def ext_first_def Let_def split_beta can_classes)
qed

definition body_first :: "can_frame \<Rightarrow> u8 \<Rightarrow> u64 \<Rightarrow> nat \<Rightarrow> can_s \<Rightarrow> can_s" where
  "body_first fr rx sn i s = (if cf_ext fr then ext_first rx sn i s else std_first rx i s)"

lemma frame_bit_body:
  assumes b: "length (cn_bits s) = Suc i" and i: "14 \<le> i" and t: "cn_frame_type s = (if cf_ext fr then FRAME_EXTENDED else FRAME_STANDARD)"
  shows "\<exists>out. can_told out = [] \<and> frame_bit rx sn s =
    (let ((s2, o2), done) = frame_rest (\<not> cf_ext fr) rx (int i) sn (body_first fr rx sn i s)
     in (if done then s2 else s2\<lparr>cn_curbit := cn_curbit s2 + 1\<rparr>, out @ o2))"
proof (cases "cf_ext fr")
  case True
  obtain out where "can_told out = []" "decode_extended_frame rx (int i) sn s =
     ((fst (fst (frame_rest False rx (int i) sn (ext_first rx sn i s))), out @ snd (fst (frame_rest False rx (int i) sn (ext_first rx sn i s)))),
      snd (frame_rest False rx (int i) sn (ext_first rx sn i s)))" using ext_rest by blast
  then show ?thesis using True b i t
    by (intro exI [of _ "can_putx sn can_ANN_BIT [can_bit_text rx] s # out"])
      (simp add: frame_bit_def frame_head_late Let_def FRAME_EXTENDED_def FRAME_STANDARD_def body_first_def split_beta can_classes)
next
  case False
  obtain out where "can_told out = []" "decode_standard_frame rx (int i) sn s =
     ((fst (fst (frame_rest True rx (int i) sn (std_first rx i s))), out @ snd (fst (frame_rest True rx (int i) sn (std_first rx i s)))),
      snd (frame_rest True rx (int i) sn (std_first rx i s)))" using std_rest by blast
  then show ?thesis using False b i t
    by (intro exI [of _ "can_putx sn can_ANN_BIT [can_bit_text rx] s # out"])
      (simp add: frame_bit_def frame_head_late Let_def FRAME_EXTENDED_def FRAME_STANDARD_def body_first_def split_beta can_classes)
qed

lemma body_first_fields:
  fixes sn :: u64
  assumes ok: "can_frame_ok fr" and b: "cn_bits s = take (Suc i) (can_frame_bits fr)" and i: "14 \<le> i" and f: "id_fields fr i s" "rest_fields fr i s"
    and rx: "rx = can_frame_bits fr ! i"
  defines "s1 \<equiv> body_first fr rx sn i s"
  shows "id_fields fr (Suc i) s1" "rest_fields fr i s1" "cn_bits s1 = cn_bits s" "can_cfg s1 = can_cfg s" "cn_curbit s1 = cn_curbit s"
proof -
  have sel: "cn_bits s1 = cn_bits s \<and> can_cfg s1 = can_cfg s \<and> cn_curbit s1 = cn_curbit s \<and> cn_state s1 = cn_state s \<and> cn_crc_len s1 = cn_crc_len s
      \<and> cn_last_databit s1 = cn_last_databit s \<and> cn_dlc s1 = cn_dlc s \<and> cn_ss_databytebits s1 = cn_ss_databytebits s"
    by (simp add: s1_def body_first_def std_first_def ext_first_def extended_id_def Let_def can_cfg_def)
  then show "cn_bits s1 = cn_bits s" "can_cfg s1 = can_cfg s" "cn_curbit s1 = cn_curbit s" by blast+
  show "rest_fields fr i s1" using sel by (intro rest_fields_cong [OF f(2)]) blast+
  have nth: "j < Suc i \<Longrightarrow> cn_bits s ! j = can_frame_bits fr ! j" for j by (simp add: b)
  show "id_fields fr (Suc i) s1"
  proof (cases "cf_ext fr")
    case False
    have "i = 14 \<Longrightarrow> cn_bits s ! 12 = rtr_bit fr" using nth [of 12] frame_parts(5) [OF ok] False by simp
    then show ?thesis using f(1) False i
      by (cases "i = 14") (simp_all add: s1_def body_first_def std_first_def id_fields_def dlc_pos_def rtr_bit_def)
  next
    case True
    have id: "cf_id fr < 2 ^ 29" using ok True by (simp add: can_frame_ok_def)
    have rtr: "i = 32 \<Longrightarrow> rx = rtr_bit fr" using frame_parts(8) [OF ok True] rx by simp
    have "take_bit 18 (cf_id fr) < 2 ^ 18" by (rule take_bit_nat_less_exp)
    from bitpack_msb_bits [OF _ this] have e: "i = 31 \<Longrightarrow> bitpack_msb (drop 14 (cn_bits s)) = of_nat (take_bit 18 (cf_id fr))"
      using frame_parts(7) [OF ok True] by (simp add: b drop_take)
    have l: "i = 31 \<Longrightarrow> 14 < length (cn_bits s)" using frame_parts(2) [OF ok] True by (simp add: b last_data_def dlc_pos_def)
    have full: "push_bit 18 (of_nat (drop_bit 18 (cf_id fr)) :: u32) OR of_nat (take_bit 18 (cf_id fr)) = of_nat (cf_id fr)"
      by (rule bit_word_eqI) (auto simp: bit_or_iff bit_push_bit_iff bit_of_nat_iff bit_simps)
    consider "i = 14" | "i = 31" | "i = 32" | "i \<noteq> 14" "i \<noteq> 31" "i \<noteq> 32" by blast
    then show ?thesis using f(1) True i
    proof cases
      case 2
      then show ?thesis using f(1) True e l full
        by (simp add: s1_def body_first_def ext_first_def extended_id_def Let_def id_fields_def)
    qed (use f(1) True i rtr in \<open>auto simp: s1_def body_first_def ext_first_def id_fields_def dlc_pos_def rtr_bit_def\<close>)
  qed
qed

lemma body_bit:
  assumes ok: "can_frame_ok fr" and at: "frame_at fr i s" and i: "14 \<le> i" "i < last_data fr + 25"
  shows "bit_taken fr i (add_bit (can_frame_bits fr ! i) s) (frame_bit (can_frame_bits fr ! i) sn (add_bit (can_frame_bits fr ! i) s))"
proof -
  let ?B = "can_frame_bits fr" and ?rx = "can_frame_bits fr ! i"
  define s1 where "s1 = add_bit ?rx s"
  have b: "cn_bits s1 = take (Suc i) ?B" unfolding s1_def using add_bit_at [OF ok at] i by simp
  then have lb: "length (cn_bits s1) = Suc i" using i frame_parts(2) [OF ok] by simp
  have f: "id_fields fr i s1" "rest_fields fr i s1" using at by (simp_all add: frame_at_fields s1_def)
  define s2 where "s2 = body_first fr ?rx sn i s1"
  note bf = body_first_fields [OF ok b i(1) f refl, where sn = sn, folded s2_def]
  have d: "cn_dlc_start s2 = int (dlc_pos fr)" using bf(1) i(1) by (simp add: id_fields_def)
  have r: "dlc_pos fr \<le> i \<Longrightarrow> cn_rtr_type s2 = (if cf_remote fr then 1 else 0)" using bf(1) by (auto simp: id_fields_def dlc_pos_def split: if_splits)
  have "cn_frame_type s1 = (if cf_ext fr then FRAME_EXTENDED else FRAME_STANDARD)" using f(1) i(1) by (simp add: id_fields_def)
  from frame_bit_body [OF lb i(1) this] obtain out where out: "can_told out = []" "frame_bit ?rx sn s1 =
    (let ((s3, o3), done) = frame_rest (\<not> cf_ext fr) ?rx (int i) sn s2 in (if done then s3 else s3\<lparr>cn_curbit := cn_curbit s3 + 1\<rparr>, out @ o3))"
    unfolding s2_def by blast
  obtain s3 o3 dn where q: "frame_rest (\<not> cf_ext fr) ?rx (int i) sn s2 = ((s3, o3), dn)" by (metis surj_pair)
  have "rest_done fr i s2 ((s3, o3), dn)" unfolding q [symmetric] using bf b by (intro rest_bit [OF ok _ _ d r i(2)]) simp_all
  then have g: "\<not> dn" "rest_fields fr (Suc i) s3" "rest_kept s2 s3" "can_told o3 = (if i = last_data fr \<and> cf_data fr \<noteq> [] then frame_data_told fr else [])"
    by (simp_all add: rest_done_def)
  have e: "frame_bit ?rx sn s1 = (s3\<lparr>cn_curbit := cn_curbit s3 + 1\<rparr>, out @ o3)" unfolding out(2) q using g(1) by simp
  have "id_fields fr (Suc i) s3" using id_fields_kept [OF g(3)] bf(1) by simp
  then have "id_fields fr (Suc i) (s3\<lparr>cn_curbit := cn_curbit s3 + 1\<rparr>)" by (simp add: id_fields_def)
  moreover have "rest_fields fr (Suc i) (s3\<lparr>cn_curbit := cn_curbit s3 + 1\<rparr>)" by (rule rest_fields_cong [OF g(2)]) simp_all
  moreover have "cn_bits s3 = take (Suc i) ?B" "cn_curbit s3 = cn_curbit s1" "can_cfg s3 = can_cfg s1"
    using g(3) bf b by (simp_all add: rest_kept_def)
  ultimately show ?thesis
    unfolding s1_def [symmetric] e bit_taken_def frame_at_fields using g(4) out(1) by (simp add: can_cfg_def)
qed

lemma end_bit:
  fixes sn :: u64
  assumes ok: "can_frame_ok fr" and at: "frame_at fr i s" and i: "i = last_data fr + 25"
  defines "r \<equiv> frame_bit (can_frame_bits fr ! i) sn (add_bit (can_frame_bits fr ! i) s)"
  shows "cn_state (fst r) = CAN_IDLE" "cn_curbit (fst r) = 0" "cn_bit_width (fst r) = cn_bit_width s" "cn_sample_point (fst r) = cn_sample_point s"
    "cn_bit_width_known (fst r) = cn_bit_width_known s" "can_told (snd r) = frame_end_told fr"
proof -
  let ?B = "can_frame_bits fr" and ?rx = "can_frame_bits fr ! i"
  have l: "dlc_pos fr + 3 \<le> last_data fr" "14 < dlc_pos fr" by (simp_all add: last_data_def dlc_pos_def)
  then have i14: "14 \<le> i" using i by simp
  define s1 where "s1 = add_bit ?rx s"
  have b: "cn_bits s1 = take (Suc i) ?B" unfolding s1_def using add_bit_at [OF ok at] i by simp
  then have lb: "length (cn_bits s1) = Suc i" using i frame_parts(2) [OF ok] by simp
  have f: "id_fields fr i s1" "rest_fields fr i s1" using at by (simp_all add: frame_at_fields s1_def)
  define s2 where "s2 = body_first fr ?rx sn i s1"
  note bf = body_first_fields [OF ok b i14 f refl, where sn = sn, folded s2_def]
  have c: "32 \<le> i" using i by (simp add: last_data_def dlc_pos_def)
  have v: "cn_dlc_start s2 = int (dlc_pos fr)" "cn_fullid s2 = of_nat (cf_id fr)"
    "cn_frame_type s2 = (if cf_ext fr then FRAME_EXTENDED else FRAME_STANDARD)" "cn_rtr_type s2 = (if cf_remote fr then 1 else 0)"
    using bf(1) c by (simp_all add: id_fields_def)
  have "cn_frame_type s1 = (if cf_ext fr then FRAME_EXTENDED else FRAME_STANDARD)" using f(1) i14 by (simp add: id_fields_def)
  from frame_bit_body [OF lb i14 this] obtain out where out: "can_told out = []" "frame_bit ?rx sn s1 =
    (let ((s3, o3), done) = frame_rest (\<not> cf_ext fr) ?rx (int i) sn s2 in (if done then s3 else s3\<lparr>cn_curbit := cn_curbit s3 + 1\<rparr>, out @ o3))"
    unfolding s2_def by blast
  obtain s3 o3 dn where q: "frame_rest (\<not> cf_ext fr) ?rx (int i) sn s2 = ((s3, o3), dn)" by (metis surj_pair)
  note fb = final_bit [OF bf(2) i v, of "\<not> cf_ext fr" ?rx sn, unfolded q, simplified]
  have e: "r = (s3, out @ o3)" unfolding r_def s1_def [symmetric] out(2) q using fb by simp
  have "cn_bit_width s2 = cn_bit_width s" "cn_sample_point s2 = cn_sample_point s" "cn_bit_width_known s2 = cn_bit_width_known s"
    using bf(4) by (simp_all add: can_cfg_def s1_def add_bit_def)
  then show "cn_state (fst r) = CAN_IDLE" "cn_curbit (fst r) = 0" "cn_bit_width (fst r) = cn_bit_width s" "cn_sample_point (fst r) = cn_sample_point s"
    "cn_bit_width_known (fst r) = cn_bit_width_known s" "can_told (snd r) = frame_end_told fr"
    unfolding e using fb out(1) by simp_all
qed

section \<open>Stuff bits\<close>

text \<open>The bits end with just \<open>c\<close> of the value \<open>l\<close>.\<close>

definition run_end :: "u8 \<Rightarrow> nat \<Rightarrow> u8 list \<Rightarrow> bool" where
  "run_end l c R \<longleftrightarrow> (\<exists>R0. R = R0 @ replicate c l \<and> (R0 \<noteq> [] \<longrightarrow> last R0 \<noteq> l)) \<and> (c = 0 \<longrightarrow> R = [])"

lemma run_end_snoc: "run_end l c R \<Longrightarrow> run_end y (if y = l then Suc c else 1) (R @ [y])"
proof (cases "y = l")
  case True
  assume "run_end l c R"
  then obtain R0 where "R = R0 @ replicate c l" "R0 \<noteq> [] \<longrightarrow> last R0 \<noteq> l" by (auto simp: run_end_def)
  then show ?thesis using True by (auto simp: run_end_def replicate_append_same intro!: exI [of _ R0])
next
  case False
  assume r: "run_end l c R"
  have "R \<noteq> [] \<Longrightarrow> last R = l" using r by (cases "c = 0") (auto simp: run_end_def last_append)
  then have "R \<noteq> [] \<Longrightarrow> last R \<noteq> y" using False by simp
  then show ?thesis using False by (auto simp: run_end_def intro!: exI [of _ R])
qed

definition stuff_seen :: "u8 list \<Rightarrow> bool" where
  "stuff_seen R \<longleftrightarrow> 6 \<le> length R \<and> (let l = drop (length R - 6) R in l ! 0 = l ! 1 \<and> l ! 0 = l ! 2 \<and> l ! 0 = l ! 3 \<and> l ! 0 = l ! 4 \<and> l ! 5 \<noteq> l ! 0)"

lemma is_stuff_seen:
  "int (length (cn_bits s)) \<le> cn_last_databit s + 17 \<Longrightarrow> is_stuff_bit s \<longleftrightarrow> stuff_seen (cn_rawbits s)"
  "cn_last_databit s + 17 < int (length (cn_bits s)) \<Longrightarrow> \<not> is_stuff_bit s"
  by (auto simp: is_stuff_bit_def stuff_seen_def Let_def)

lemma stuff_seen_five:
  assumes "run_end l 5 R" and "y \<noteq> l"
  shows "stuff_seen (R @ [y])"
proof -
  obtain R0 where R: "R = R0 @ replicate 5 l" using assms(1) by (auto simp: run_end_def)
  have "replicate 5 l = [l, l, l, l, l]" by (simp add: numeral_eq_Suc)
  then have "drop (length (R @ [y]) - 6) (R @ [y]) = [l, l, l, l, l, y]" by (simp add: R)
  then show ?thesis using assms(2) by (simp add: stuff_seen_def R Let_def)
qed

lemma stuff_not_seen:
  assumes r: "run_end l c R" and c: "c \<le> 4"
  shows "\<not> stuff_seen (R @ [y])"
proof
  assume s: "stuff_seen (R @ [y])"
  then have len: "5 \<le> length R" by (simp add: stuff_seen_def)
  define W where "W = drop (length R - 5) R"
  obtain R0 where R: "R = R0 @ replicate c l" and l: "R0 \<noteq> [] \<longrightarrow> last R0 \<noteq> l" using r by (auto simp: run_end_def)
  have c1: "0 < c" using r len by (cases c) (auto simp: run_end_def)
  have R0: "R0 \<noteq> []" using len c by (auto simp: R)
  have lw: "length W = 5" using len by (simp add: W_def)
  have d: "drop (length (R @ [y]) - 6) (R @ [y]) = W @ [y]" using len by (simp add: W_def)
  have "W ! 0 = W ! 1 \<and> W ! 0 = W ! 2 \<and> W ! 0 = W ! 3 \<and> W ! 0 = W ! 4"
    using s lw unfolding stuff_seen_def d Let_def by (auto simp: nth_append)
  then have e: "W ! 1 = W ! 0" "W ! 2 = W ! 0" "W ! 3 = W ! 0" "W ! 4 = W ! 0"
    by auto
  have all: "\<forall>j < 5. W ! j = W ! 0"
  proof (intro allI impI)
    fix j :: nat assume "j < 5"
    then have "j = 0 \<or> j = 1 \<or> j = 2 \<or> j = 3 \<or> j = 4" by arith
    then show "W ! j = W ! 0" using e by (elim disjE) simp_all
  qed
  have "R \<noteq> []" using len by auto
  then have "W ! 4 = last R" using len by (simp add: W_def last_conv_nth)
  moreover have "last R = l" using c1 by (simp add: R)
  moreover have "W ! (4 - c) = last R0"
  proof -
    have i: "length R - 5 + (4 - c) = length R0 - 1" using len c by (simp add: R)
    have "W ! (4 - c) = R ! (length R - 5 + (4 - c))" using len by (simp add: W_def)
    also have "\<dots> = last R0" unfolding i using R0 by (simp add: R nth_append last_conv_nth)
    finally show ?thesis .
  qed
  moreover have "W ! (4 - c) = W ! 0" "W ! 4 = W ! 0" by (rule all [rule_format], simp)+
  ultimately show False using l R0 by simp
qed

section \<open>A frame as it is on the line\<close>

definition raw_rest :: "can_frame \<Rightarrow> nat \<Rightarrow> u8 \<Rightarrow> nat \<Rightarrow> u8 list" where
  "raw_rest fr i l c = (if i \<le> last_data fr + 16
     then stuffed l c (drop i (stuffed_part fr)) @ drop (last_data fr + 16) (can_frame_bits fr) else drop i (can_frame_bits fr))"

definition told_from :: "can_frame \<Rightarrow> nat \<Rightarrow> (string + c_field list) list" where
  "told_from fr i = (if i \<le> last_data fr then frame_data_told fr @ frame_end_told fr else frame_end_told fr)"

text \<open>The bits \<open>Y\<close> are what is left of the frame for the decoder, with \<open>ms\<close> still to be told.\<close>

definition expects :: "can_frame \<Rightarrow> u8 list \<Rightarrow> (string + c_field list) list \<Rightarrow> can_s \<Rightarrow> bool" where
  "expects fr Y ms s \<longleftrightarrow> (\<exists>i l c. frame_at fr i s \<and> i < last_data fr + 26 \<and> l \<in> {0, 1}
     \<and> (i \<le> last_data fr + 16 \<longrightarrow> run_end l c (cn_rawbits s) \<and> c \<le> 5)
     \<and> length (cn_rawbits s) + (if i \<le> last_data fr + 16 \<and> c = 5 then 1 else 0) \<le> 2 * i
     \<and> Y = raw_rest fr i l c \<and> ms = told_from fr i)"

definition expects_next :: "can_frame \<Rightarrow> u8 list \<Rightarrow> (string + c_field list) list \<Rightarrow> can_s \<Rightarrow> can_s \<times> out_call list \<Rightarrow> bool" where
  "expects_next fr Y ms s r \<longleftrightarrow> (\<exists>ms'. ms = can_told (snd r) @ ms' \<and> expects fr Y ms' (fst r) \<and> cn_curbit (fst r) = cn_curbit s + 1
     \<and> cn_bit_width (fst r) = cn_bit_width s \<and> cn_sample_point (fst r) = cn_sample_point s \<and> cn_bit_width_known (fst r) = cn_bit_width_known s
     \<and> cn_dom_edge_snum (fst r) = cn_dom_edge_snum s \<and> cn_dom_edge_bcount (fst r) = cn_dom_edge_bcount s)"

definition frame_over :: "(string + c_field list) list \<Rightarrow> can_s \<Rightarrow> can_s \<times> out_call list \<Rightarrow> bool" where
  "frame_over ms s r \<longleftrightarrow> can_told (snd r) = ms \<and> cn_state (fst r) = CAN_IDLE \<and> cn_curbit (fst r) = 0
     \<and> cn_bit_width (fst r) = cn_bit_width s \<and> cn_sample_point (fst r) = cn_sample_point s \<and> cn_bit_width_known (fst r) = cn_bit_width_known s"

lemma raw_rest_stuff:
  assumes "i \<le> last_data fr + 16"
  shows "raw_rest fr i l 5 = (1 - l) # raw_rest fr i (1 - l) 1"
  using assms by (simp add: raw_rest_def) (subst stuffed.simps, simp)

lemma raw_rest_bit:
  assumes ok: "can_frame_ok fr" and i: "i < last_data fr + 26" and c: "i \<le> last_data fr + 16 \<Longrightarrow> c \<noteq> 5"
  shows "raw_rest fr i l c = (can_frame_bits fr ! i) # raw_rest fr (Suc i) (can_frame_bits fr ! i) (if can_frame_bits fr ! i = l then Suc c else 1)"
proof -
  note len = frame_parts(1,2) [OF ok]
  consider "i < last_data fr + 16" | "i = last_data fr + 16" | "last_data fr + 16 < i" by linarith
  then show ?thesis
  proof cases
    case 1
    then have d: "drop i (stuffed_part fr) = can_frame_bits fr ! i # drop (Suc i) (stuffed_part fr)"
      using len by (simp add: Cons_nth_drop_Suc [symmetric] can_frame_bits_def nth_append)
    show ?thesis using 1 c unfolding raw_rest_def d by (subst stuffed.simps) simp
  next
    case 2
    have "drop i (can_frame_bits fr) = can_frame_bits fr ! i # drop (Suc i) (can_frame_bits fr)"
      using len i by (simp add: Cons_nth_drop_Suc)
    then have "drop (last_data fr + 16) (can_frame_bits fr) = can_frame_bits fr ! i # drop (Suc i) (can_frame_bits fr)"
      by (simp only: 2)
    then show ?thesis using 2 c len unfolding raw_rest_def by (subst stuffed.simps) simp
  next
    case 3
    then show ?thesis using len i by (simp add: raw_rest_def Cons_nth_drop_Suc)
  qed
qed

lemma frame_at_rawbits: "frame_at fr i s \<Longrightarrow> frame_at fr i (s\<lparr>cn_rawbits := R, cn_curbit := n\<rparr>)"
  by (simp add: frame_at_def)

lemma can_bit_step:
  assumes ok: "can_frame_ok fr" and e: "expects fr (y # Y) ms s"
  shows "if Y = [] then frame_over ms s (can_handle_bit y sn s) else expects_next fr Y ms s (can_handle_bit y sn s)"
proof -
  let ?B = "can_frame_bits fr" and ?M = "last_data fr + 16"
  obtain i l c where at: "frame_at fr i s" and i: "i < last_data fr + 26" and l: "l \<in> {0, 1}" and r: "i \<le> ?M \<longrightarrow> run_end l c (cn_rawbits s) \<and> c \<le> 5"
    and lr: "length (cn_rawbits s) + (if i \<le> ?M \<and> c = 5 then 1 else 0) \<le> 2 * i" and Y: "y # Y = raw_rest fr i l c" and ms: "ms = told_from fr i"
    using e unfolding expects_def by blast
  note len = frame_parts(1,2) [OF ok]
  have bnd: "last_data fr \<le> 102" using frame_parts(11) [OF ok] by (simp add: last_data_def dlc_pos_def)
  have b: "cn_bits s = take i ?B" using at by (simp add: frame_at_def)
  have ll: "cn_last_databit s = (if i \<le> dlc_pos fr + 3 then 999 else int (last_data fr))" using at by (simp add: frame_at_def)
  have raw: "cn_rawbits (add_bit y s) = cn_rawbits s @ [y]" using lr i bnd by (simp add: add_bit_def split: if_splits)
  have bits: "cn_bits (add_bit y s) = take i ?B @ [y]" using i bnd len by (simp add: add_bit_def b)
  have nb: "int (length (cn_bits (add_bit y s))) = int i + 1" using i len by (simp add: bits)
  have last': "cn_last_databit (add_bit y s) = cn_last_databit s" by (simp add: add_bit_def)
  show ?thesis
  proof (cases "i \<le> ?M \<and> c = 5")
    case True
    then have y: "y = 1 - l" "Y = raw_rest fr i y 1" using Y raw_rest_stuff [of i fr l] by auto
    have yl: "y \<noteq> l" "y \<in> {0, 1}" using y(1) l by auto
    have re: "run_end y 1 (cn_rawbits s @ [y])" using run_end_snoc [of l 5 "cn_rawbits s" y] r True yl by simp
    have lim: "int (length (cn_bits (add_bit y s))) \<le> cn_last_databit (add_bit y s) + 17"
      unfolding nb last' ll using True i bnd by simp
    have "is_stuff_bit (add_bit y s)" unfolding is_stuff_seen(1) [OF lim] raw using stuff_seen_five [of l _ y] r True yl(1) by blast
    then have h: "can_handle_bit y sn s = ((add_bit y s)\<lparr>cn_bits := take i ?B, cn_curbit := cn_curbit s + 1\<rparr>,
        [can_putx sn can_ANN_STUFF_BIT [can_bit_text y] (add_bit y s)])"
      by (simp add: can_handle_bit_def Let_def bits) (simp add: add_bit_def)
    have s': "(add_bit y s)\<lparr>cn_bits := take i ?B, cn_curbit := cn_curbit s + 1\<rparr> = s\<lparr>cn_rawbits := cn_rawbits s @ [y], cn_curbit := cn_curbit s + 1\<rparr>"
      using raw by (simp add: add_bit_def b [symmetric])
    have "Y \<noteq> []" using y(2) len by (auto simp: raw_rest_def True)
    moreover have "expects fr Y ms (s\<lparr>cn_rawbits := cn_rawbits s @ [y], cn_curbit := cn_curbit s + 1\<rparr>)"
      unfolding expects_def using frame_at_rawbits [OF at] i yl(2) re lr True y(2) ms
      by (intro exI [of _ i] exI [of _ y] exI [of _ "1 :: nat"]) auto
    ultimately show ?thesis unfolding h s' by (simp add: expects_next_def can_classes)
  next
    case False
    let ?c = "if y = l then Suc c else 1"
    have y: "y = ?B ! i" "Y = raw_rest fr (Suc i) y ?c" using Y raw_rest_bit [OF ok i, of c l] False by auto
    have y01: "y \<in> {0, 1}" unfolding y(1) using len(2) i by (intro subsetD [OF frame_parts(12) [OF ok] nth_mem]) simp
    have ns: "\<not> is_stuff_bit (add_bit y s)"
    proof (cases "i \<le> ?M")
      case True
      then have "int (length (cn_bits (add_bit y s))) \<le> cn_last_databit (add_bit y s) + 17"
        unfolding nb last' ll using bnd by simp
      moreover have "\<not> stuff_seen (cn_rawbits s @ [y])" using r True False by (intro stuff_not_seen [of l c]) auto
      ultimately show ?thesis using is_stuff_seen(1) raw by simp
    next
      case F: False
      then have "cn_last_databit (add_bit y s) + 17 < int (length (cn_bits (add_bit y s)))"
        unfolding nb last' ll by (simp add: last_data_def)
      then show ?thesis by (rule is_stuff_seen(2))
    qed
    have h: "can_handle_bit y sn s = frame_bit y sn (add_bit y s)" using ns by (simp add: can_handle_bit_def)
    show ?thesis
    proof (cases "Suc i = last_data fr + 26")
      case True
      then have "Y = []" using y(2) len by (simp add: raw_rest_def)
      moreover have i25: "i = last_data fr + 25" using True by simp
      have t: "told_from fr i = frame_end_told fr" using i25 by (simp add: told_from_def)
      have "frame_over ms s (can_handle_bit y sn s)"
        unfolding frame_over_def ms t y(1) h [unfolded y(1)] by (intro conjI end_bit [OF ok at i25, of sn])
      ultimately show ?thesis by simp
    next
      case F: False
      then have i': "Suc i < last_data fr + 26" using i by simp
      have "bit_taken fr i (add_bit y s) (frame_bit y sn (add_bit y s))"
        using head_bit [OF ok at, of sn] body_bit [OF ok at, of sn] i' unfolding y(1) by (cases "i < 14") auto
      then have bt: "frame_at fr (Suc i) (fst (frame_bit y sn (add_bit y s)))" "cn_curbit (fst (frame_bit y sn (add_bit y s))) = cn_curbit s + 1"
        "can_cfg (fst (frame_bit y sn (add_bit y s))) = can_cfg (add_bit y s)"
        "can_told (snd (frame_bit y sn (add_bit y s))) = (if i = last_data fr \<and> cf_data fr \<noteq> [] then frame_data_told fr else [])"
        by (simp_all add: bit_taken_def add_bit_def)
      define s2 where "s2 = fst (frame_bit y sn (add_bit y s))"
      have cfg: "cn_rawbits s2 = cn_rawbits s @ [y]" "cn_bit_width s2 = cn_bit_width s" "cn_sample_point s2 = cn_sample_point s"
        "cn_bit_width_known s2 = cn_bit_width_known s" "cn_dom_edge_snum s2 = cn_dom_edge_snum s" "cn_dom_edge_bcount s2 = cn_dom_edge_bcount s"
        using bt(3) raw by (simp_all add: can_cfg_def s2_def) (simp_all add: add_bit_def)
      have re: "Suc i \<le> ?M \<longrightarrow> run_end y ?c (cn_rawbits s2) \<and> ?c \<le> 5"
        using run_end_snoc [of l c "cn_rawbits s" y] r False unfolding cfg(1) by auto
      have "expects fr Y (told_from fr (Suc i)) s2"
        unfolding expects_def using bt(1) i' y01 re lr y(2) cfg(1) False
        by (intro exI [of _ "Suc i"] exI [of _ y] exI [of _ ?c]) (auto simp: s2_def)
      moreover have "ms = can_told (snd (frame_bit y sn (add_bit y s))) @ told_from fr (Suc i)"
        unfolding bt(4) ms by (auto simp: told_from_def frame_data_told_def)
      moreover have "Y \<noteq> []"
      proof -
        have "drop (Suc i) ?B \<noteq> []" "drop ?M ?B \<noteq> []" using i' len by simp_all
        then show ?thesis unfolding y(2) raw_rest_def by simp
      qed
      ultimately show ?thesis unfolding h expects_next_def using bt(2) cfg(2-) by (simp add: s2_def)
    qed
  qed
qed

end
