(* ===== verification/CanFrames.thy ===== *)
theory CanFrames
  imports Can
begin

text \<open>
  What the CAN decoder makes of a line: frames sent at a rate near enough to the one that is set
  come out with their identifiers and data.
\<close>

section \<open>Waiting\<close>

lemma run_wave_wait:
  assumes "\<And>i. i < d \<Longrightarrow> True \<notin> set (map (cond_sem (lv (k + i - 1)) (lv (k + i)) (e + i)) (wait_conds P m s))"
    and "0 < k" and "k + d \<le> n"
  shows "run_wave P m k e (lv (k - 1)) (map lv [k..<n]) s = run_wave P m (k + d) (e + d) (lv (k + d - 1)) (map lv [k + d..<n]) s"
  using assms
proof (induction d)
  case (Suc d)
  have "run_wave P m k e (lv (k - 1)) (map lv [k..<n]) s = run_wave P m (k + d) (e + d) (lv (k + d - 1)) (map lv [k + d..<n]) s"
    using Suc by simp
  also have "map lv [k + d..<n] = lv (k + d) # map lv [k + Suc d..<n]" using Suc.prems(3) by (simp add: upt_conv_Cons)
  also have "run_wave P m (k + d) (e + d) (lv (k + d - 1)) (lv (k + d) # map lv [k + Suc d..<n]) s =
      run_wave P m (k + Suc d) (e + Suc d) (lv (k + Suc d - 1)) (map lv [k + Suc d..<n]) s"
    using Suc.prems(1) [of d] by (simp add: Let_def del: set_map)
  finally show ?case .
qed simp

lemma run_wave_hit:
  assumes "ms = map (cond_sem (lv (k - 1)) (lv k) e) (wait_conds P m s)" and "True \<in> set ms" and "k < n"
    and "prog_step P (of_nat k) (match_mask 0 ms) (lv k) s = (s1, out)"
    and "run_wave P True (Suc k) 0 (lv k) (map lv [Suc k..<n]) s1 = (s2, tr)"
  shows "run_wave P m k e (lv (k - 1)) (map lv [k..<n]) s = (s2, (k, out) # tr)"
proof -
  have "map lv [k..<n] = lv k # map lv [Suc k..<n]" using assms(3) by (simp add: upt_conv_Cons)
  then show ?thesis using assms by (simp add: Let_def del: set_map)
qed

section \<open>The bits of a sender\<close>

definition bit_level :: "real \<Rightarrow> nat \<Rightarrow> u8 list \<Rightarrow> nat \<Rightarrow> u8" where
  "bit_level w F X n = (let j = nat \<lfloor>real (n - F) / w\<rfloor> in if j < length X then X ! j else 1)"

definition bit_start :: "real \<Rightarrow> nat \<Rightarrow> nat \<Rightarrow> nat" where
  "bit_start w F j = F + nat \<lceil>real j * w\<rceil>"

lemma bit_start_le:
  assumes "0 < w" and "F \<le> n"
  shows "bit_start w F j \<le> n \<longleftrightarrow> j \<le> nat \<lfloor>real (n - F) / w\<rfloor>"
proof -
  have "bit_start w F j \<le> n \<longleftrightarrow> \<lceil>real j * w\<rceil> \<le> int (n - F)" using assms(2) by (auto simp: bit_start_def)
  also have "\<dots> \<longleftrightarrow> real j * w \<le> real (n - F)" by (simp add: ceiling_le_iff)
  also have "\<dots> \<longleftrightarrow> real j \<le> real (n - F) / w" using assms(1) by (simp add: field_simps)
  also have "\<dots> \<longleftrightarrow> int j \<le> \<lfloor>real (n - F) / w\<rfloor>" by (simp add: le_floor_iff)
  also have "\<dots> \<longleftrightarrow> j \<le> nat \<lfloor>real (n - F) / w\<rfloor>"
  proof -
    have "0 \<le> real (n - F) / w" using assms(1) by simp
    then have "0 \<le> \<lfloor>real (n - F) / w\<rfloor>" by (simp only: zero_le_floor)
    then show ?thesis by (simp only: le_nat_iff)
  qed
  finally show ?thesis .
qed

lemma bit_start_bounds:
  assumes "0 < w"
  shows "real F + real j * w \<le> real (bit_start w F j)" "real (bit_start w F j) < real F + real j * w + 1" "F \<le> bit_start w F j"
proof -
  have n: "0 \<le> real j * w" using assms by simp
  then have "0 \<le> \<lceil>real j * w\<rceil>" by (simp add: zero_le_ceiling)
  then have e: "real (bit_start w F j) = real F + real_of_int \<lceil>real j * w\<rceil>" by (simp add: bit_start_def)
  show "real F + real j * w \<le> real (bit_start w F j)" "real (bit_start w F j) < real F + real j * w + 1"
    unfolding e by linarith+
  show "F \<le> bit_start w F j" by (simp add: bit_start_def)
qed

lemma bit_start_mono: "0 < w \<Longrightarrow> i \<le> j \<Longrightarrow> bit_start w F i \<le> bit_start w F j"
  unfolding bit_start_def by (intro add_left_mono nat_mono ceiling_mono mult_right_mono) simp_all

text \<open>A bit lasts until the next begins.\<close>

lemma bit_level_in:
  assumes "0 < w" and "bit_start w F j \<le> n" and "n < bit_start w F (Suc j)"
  shows "bit_level w F X n = (if j < length X then X ! j else 1)"
proof -
  have F: "F \<le> n" using assms(1,2) bit_start_bounds(3) [of w F j] by linarith
  then have "nat \<lfloor>real (n - F) / w\<rfloor> = j" using bit_start_le [OF assms(1) F, of j] bit_start_le [OF assms(1) F, of "Suc j"] assms(2,3) by linarith
  then show ?thesis by (simp add: bit_level_def Let_def)
qed

text \<open>The last falling edge up to a bit, and the largest distance a sample point has from the one before.\<close>

fun last_edge :: "u8 list \<Rightarrow> nat \<Rightarrow> nat" where
  "last_edge X 0 = 0"
| "last_edge X (Suc i) = (if X ! i = 1 \<and> X ! Suc i = 0 then Suc i else last_edge X i)"

definition sync_gap :: "u8 list \<Rightarrow> nat" where
  "sync_gap X = fold max (map (\<lambda>i. i - last_edge X (i - 1)) [0..<length X]) 0"

lemma last_edge_le: "last_edge X i \<le> i"
  by (induction i) (auto intro: le_SucI)

lemma fold_max_upper: "x \<in> set xs \<Longrightarrow> x \<le> fold max xs (a :: nat)"
proof (induction xs arbitrary: a)
  case (Cons y ys)
  have "b \<le> fold max ys b" for b :: nat by (induction ys arbitrary: b) (auto intro: le_trans [OF max.cobounded1] le_trans [OF max.cobounded2])
  then have "y \<le> fold max ys (max y a)" by (meson max.bounded_iff)
  then show ?case using Cons by auto
qed simp

lemma sync_gap_bound: "i < length X \<Longrightarrow> i - last_edge X (i - 1) \<le> sync_gap X"
  unfolding sync_gap_def by (intro fold_max_upper) auto

definition can_baud_ok :: "can_s \<Rightarrow> real \<Rightarrow> u8 list \<Rightarrow> bool" where
  "can_baud_ok s w X \<longleftrightarrow> (let d = real (sync_gap X) * \<bar>w - cn_bit_width s\<bar> + 2
     in d \<le> cn_sample_point s \<and> cn_sample_point s + d \<le> w)"

text \<open>A sample point counted from an edge lies in its bit.\<close>

lemma can_sample_point_in:
  assumes w: "0 < w" and b: "can_baud_ok s w X" and dom: "unat (cn_dom_edge_snum s) = bit_start w F j" "cn_dom_edge_bcount s = int j"
    and i: "j \<le> i" "i - j \<le> sync_gap X" and lim: "bit_start w F (Suc i) < 2 ^ 64"
  shows "bit_start w F i < unat (can_sample_point s (int i))" "unat (can_sample_point s (int i)) < bit_start w F (Suc i)"
proof -
  define v where "v = real (bit_start w F j) + real (i - j) * cn_bit_width s + cn_sample_point s"
  define z where "z = real (i - j) * \<bar>w - cn_bit_width s\<bar>"
  have z: "0 \<le> z" "z \<le> real (sync_gap X) * \<bar>w - cn_bit_width s\<bar>"
    unfolding z_def using i(2) by (simp_all add: mult_right_mono)
  have sp: "z + 2 \<le> cn_sample_point s" "cn_sample_point s + z + 2 \<le> w"
    using b z(2) unfolding can_baud_ok_def Let_def by linarith+
  have d: "real (i - j) * w - z \<le> real (i - j) * cn_bit_width s" "real (i - j) * cn_bit_width s \<le> real (i - j) * w + z"
    unfolding z_def right_diff_distrib [symmetric] distrib_left [symmetric] by (intro mult_left_mono; simp)+
  have ij: "real i * w = real j * w + real (i - j) * w" using i(1) by (simp add: of_nat_diff algebra_simps)
  note bj = bit_start_bounds [OF w, of F j]
  have lo: "real F + real i * w + 2 \<le> v" and hi: "v < real F + real (Suc i) * w"
    using bj d sp ij z(1) unfolding v_def by (auto simp: algebra_simps)
  have Fi: "0 \<le> real i * w" using w by simp
  then have v0: "0 \<le> v" using lo by linarith
  then have vn: "0 \<le> \<lfloor>v\<rfloor>" by simp
  have hf: "real_of_int \<lfloor>v\<rfloor> < real (bit_start w F (Suc i))" using hi bit_start_bounds(1) [OF w, of F "Suc i"] by linarith
  have tv: "c_trunc (real (unat (cn_dom_edge_snum s)) + real_of_int (int i - cn_dom_edge_bcount s) * cn_bit_width s + cn_sample_point s) = \<lfloor>v\<rfloor>"
    using v0 i(1) by (simp add: v_def dom c_trunc_def of_nat_diff)
  have "\<lfloor>v\<rfloor> < int (bit_start w F (Suc i))" using hf by linarith
  also have "int (bit_start w F (Suc i)) < int (2 ^ 64)" using lim unfolding of_nat_less_iff .
  finally have "\<lfloor>v\<rfloor> < 2 ^ 64" by simp
  then have u: "unat (can_sample_point s (int i)) = nat \<lfloor>v\<rfloor>"
    unfolding can_sample_point_def tv using vn by (simp add: unat_eq_nat_uint uint_word_of_int_eq take_bit_eq_mod)
  show "unat (can_sample_point s (int i)) < bit_start w F (Suc i)" unfolding u using hf vn by linarith
  have "real F + real i * w + 2 \<le> real (nat \<lfloor>v\<rfloor>) + 1" using lo vn by linarith
  then have "real (bit_start w F i) < real (nat \<lfloor>v\<rfloor>)" using bit_start_bounds(2) [OF w, of F i] by linarith
  then show "bit_start w F i < unat (can_sample_point s (int i))" unfolding u by linarith
qed

section \<open>From one wait to the next\<close>

lemma run_to:
  assumes "\<And>i. k \<le> i \<Longrightarrow> i < p \<Longrightarrow> True \<notin> set (map (cond_sem (lv (i - 1)) (lv i) (e + (i - k))) (wait_conds P m s))"
    and "ms = map (cond_sem (lv (p - 1)) (lv p) (e + (p - k))) (wait_conds P m s)" and "True \<in> set ms"
    and "0 < k" and "k \<le> p" and "p < n"
    and "prog_step P (of_nat p) (match_mask 0 ms) (lv p) s = (s1, out)"
    and "run_wave P True (Suc p) 0 (lv p) (map lv [Suc p..<n]) s1 = (s2, tr)"
  shows "run_wave P m k e (lv (k - 1)) (map lv [k..<n]) s = (s2, (p, out) # tr)"
proof -
  have d: "k + (p - k) = p" using assms(5) by simp
  have q: "True \<notin> set (map (cond_sem (lv (k + i - 1)) (lv (k + i)) (e + i)) (wait_conds P m s))" if "i < p - k" for i
    using assms(1) [of "k + i"] that by simp
  have "run_wave P m k e (lv (k - 1)) (map lv [k..<n]) s = run_wave P m (k + (p - k)) (e + (p - k)) (lv (k + (p - k) - 1)) (map lv [k + (p - k)..<n]) s"
    by (rule run_wave_wait [OF q assms(4)]) (use assms(6) d in simp_all)
  then have "run_wave P m k e (lv (k - 1)) (map lv [k..<n]) s = run_wave P m p (e + (p - k)) (lv (p - 1)) (map lv [p..<n]) s"
    by (simp only: d)
  also have "\<dots> = (s2, (p, out) # tr)"
    by (rule run_wave_hit [OF assms(2,3,6,7,8)])
  finally show ?thesis .
qed

lemma run_idle:
  assumes "\<And>i. k \<le> i \<Longrightarrow> i < n \<Longrightarrow> True \<notin> set (map (cond_sem (lv (i - 1)) (lv i) (e + (i - k))) (wait_conds P m s))"
    and "0 < k"
  shows "run_wave P m k e (lv (k - 1)) (map lv [k..<n]) s = (s, [])"
proof (cases "k \<le> n")
  case True
  then have d: "k + (n - k) = n" by simp
  have "True \<notin> set (map (cond_sem (lv (k + i - 1)) (lv (k + i)) (e + i)) (wait_conds P m s))" if "i < n - k" for i
    using assms(1) [of "k + i"] that by simp
  then show ?thesis using run_wave_wait [of "n - k" lv k e P m s n] assms(2) d by simp
qed simp

text \<open>The final state and what is told, from sample \<open>k\<close> on.\<close>

definition can_seg :: "(nat \<Rightarrow> int \<Rightarrow> u8) \<Rightarrow> nat \<Rightarrow> bool \<Rightarrow> nat \<Rightarrow> u64 \<times> can_s \<Rightarrow> (u64 \<times> can_s) \<times> (string + c_field list) list" where
  "can_seg lv n m k cs = (let r = run_wave can_decode m k 0 (lv (k - 1)) (map lv [k..<n]) cs in (fst r, can_told (concat (map snd (snd r)))))"

definition told_then :: "'m list \<Rightarrow> 's \<times> 'm list \<Rightarrow> 's \<times> 'm list" where
  "told_then ms r = (fst r, ms @ snd r)"

lemma told_then_simps [simp]: "told_then [] r = r" "told_then ms (told_then ms' r) = told_then (ms @ ms') r"
  by (simp_all add: told_then_def)

lemma can_seg_to:
  assumes "\<And>i. k \<le> i \<Longrightarrow> i < p \<Longrightarrow> True \<notin> set (map (cond_sem (lv (i - 1)) (lv i) (i - k)) (wait_conds can_decode m cs))"
    and "ms = map (cond_sem (lv (p - 1)) (lv p) (p - k)) (wait_conds can_decode m cs)" and "True \<in> set ms"
    and "0 < k" and "k \<le> p" and "p < n" and "can_step (of_nat p) (match_mask 0 ms) (lv p) cs = (cs1, out)"
  shows "can_seg lv n m k cs = told_then (can_told out) (can_seg lv n True (Suc p) cs1)"
proof -
  obtain cs2 tr where r: "run_wave can_decode True (Suc p) 0 (lv p) (map lv [Suc p..<n]) cs1 = (cs2, tr)" by (rule prod.exhaust)
  have st: "prog_step can_decode (of_nat p) (match_mask 0 ms) (lv p) cs = (cs1, out)" using assms(7) by (simp add: can_decode_def)
  have "run_wave can_decode m k 0 (lv (k - 1)) (map lv [k..<n]) cs = (cs2, (p, out) # tr)"
    by (rule run_to [OF _ _ assms(3-6) st r]) (use assms(1,2) in simp_all)
  then show ?thesis using r by (simp add: can_seg_def told_then_def Let_def)
qed

definition falls :: "(nat \<Rightarrow> int \<Rightarrow> u8) \<Rightarrow> nat \<Rightarrow> bool" where
  "falls lv i \<longleftrightarrow> lv (i - 1) CAN_RX = 1 \<and> lv i CAN_RX = 0"

text \<open>Idle: only an edge ends the wait.\<close>

lemma idle_conds_sem:
  "cn_state s = CAN_IDLE \<Longrightarrow> map (cond_sem (lv (i - 1)) (lv i) e) (wait_conds can_decode m (cur, s)) = [falls lv i]"
  by (simp add: wait_conds_def can_decode_def can_waits_def restart_skip_def edge_term_def cond_sem_def term_sem_def falls_def Let_def)

lemma can_seg_begin:
  assumes st: "cn_state s = CAN_IDLE" and q: "\<And>i. k \<le> i \<Longrightarrow> i < p \<Longrightarrow> \<not> falls lv i" and f: "falls lv p" and k: "0 < k" "k \<le> p" "p < n"
  shows "can_seg lv n m k (cur, s) = can_seg lv n True (Suc p) (of_nat p, begin_frame (of_nat p) s)"
proof -
  have "can_seg lv n m k (cur, s) = told_then (can_told []) (can_seg lv n True (Suc p) (of_nat p, begin_frame (of_nat p) s))"
    by (rule can_seg_to [where ms = "[True]", OF _ _ _ k]) (use st q f in \<open>simp_all only: idle_conds_sem [OF st], simp_all add: can_step_def\<close>)
  then show ?thesis by simp
qed

lemma can_seg_idle:
  assumes "cn_state s = CAN_IDLE" and "\<And>i. k \<le> i \<Longrightarrow> i < n \<Longrightarrow> \<not> falls lv i" and "0 < k"
  shows "can_seg lv n m k (cur, s) = ((cur, s), [])"
  unfolding can_seg_def by (subst run_idle [OF _ assms(3)]) (use assms(1,2) in \<open>simp_all only: idle_conds_sem, simp_all\<close>)

text \<open>Inside a frame the sample point ends it as well.\<close>

lemma bit_conds_sem:
  assumes "cn_state s = CAN_GET_BITS" and "cn_bit_width_known s" and "cur < can_sample_point s (cn_curbit s)"
  shows "map (cond_sem (lv (i - 1)) (lv i) e) (wait_conds can_decode True (cur, s)) =
    [unat cur + Suc e = unat (can_sample_point s (cn_curbit s)), falls lv i]"
proof -
  let ?p = "can_sample_point s (cn_curbit s)"
  have d: "unat (?p - cur) = unat ?p - unat cur" "unat cur < unat ?p" using assms(3) by (simp_all add: unat_sub_if_size word_less_nat_alt)
  then have "0 < ?p - cur" by (simp add: word_less_nat_alt)
  then have "cond_sem (lv (i - 1)) (lv i) e [restart_skip (cw_skip (?p - cur))] \<longleftrightarrow> unat cur + Suc e = unat ?p"
    using d by (auto simp: restart_skip_def cw_skip_def cond_sem_def term_sem_def)
  then show ?thesis using assms
    by (simp add: wait_conds_def can_decode_def can_waits_def Let_def restart_skip_def edge_term_def cond_sem_def [of _ _ _ "[_ \<lparr>t_type := _\<rparr>]"])
      (simp add: cond_sem_def term_sem_def falls_def)
qed

lemma can_seg_edge:
  assumes st: "cn_state s = CAN_GET_BITS" "cn_bit_width_known s" and c: "unat cur + 1 = k" "p < unat (can_sample_point s (cn_curbit s))"
    and q: "\<And>i. k \<le> i \<Longrightarrow> i < p \<Longrightarrow> \<not> falls lv i" and f: "falls lv p" and k: "k \<le> p" "p < n"
  shows "can_seg lv n True k (cur, s) = can_seg lv n True (Suc p) (of_nat p, dom_edge_seen (of_nat p) s)"
proof -
  have lt: "cur < can_sample_point s (cn_curbit s)" using c k(1) by (simp add: word_less_nat_alt)
  have "can_seg lv n True k (cur, s) = told_then (can_told []) (can_seg lv n True (Suc p) (of_nat p, dom_edge_seen (of_nat p) s))"
  proof (rule can_seg_to [where ms = "[False, True]", OF _ _ _ _ k])
    show "True \<notin> set (map (cond_sem (lv (i - 1)) (lv i) (i - k)) (wait_conds can_decode True (cur, s)))" if i: "k \<le> i" "i < p" for i
      unfolding bit_conds_sem [OF st lt] using q [OF i] i c by simp
    show "[False, True] = map (cond_sem (lv (p - 1)) (lv p) (p - k)) (wait_conds can_decode True (cur, s))"
      unfolding bit_conds_sem [OF st lt] using f c k by simp
    have "match_mask 0 [False, True] = (2 :: u64)" by (simp add: match_bit_def)
    then show "can_step (of_nat p) (match_mask 0 [False, True]) (lv p) (cur, s) = ((of_nat p, dom_edge_seen (of_nat p) s), [])"
      using st by (simp add: can_step_def Let_def)
  qed (use c in simp_all)
  then show ?thesis by simp
qed

lemma can_seg_sample:
  assumes st: "cn_state s = CAN_GET_BITS" "cn_bit_width_known s" and c: "unat cur + 1 = k" "p = unat (can_sample_point s (cn_curbit s))"
    and q: "\<And>i. k \<le> i \<Longrightarrow> i \<le> p \<Longrightarrow> \<not> falls lv i" and k: "k \<le> p" "p < n"
    and h: "can_handle_bit (lv p CAN_RX) (can_sample_point s (cn_curbit s)) s = (s2, out)"
  shows "can_seg lv n True k (cur, s) = told_then (can_told out) (can_seg lv n True (Suc p) (of_nat p,
    if cn_state s2 = CAN_GET_BITS then s2\<lparr>cn_next_sample_point := can_sample_point s2 (cn_curbit s2)\<rparr> else s2))"
proof -
  have lt: "cur < can_sample_point s (cn_curbit s)" using c k(1) by (simp add: word_less_nat_alt)
  show ?thesis
  proof (rule can_seg_to [where ms = "[True, False]", OF _ _ _ _ k])
    show "True \<notin> set (map (cond_sem (lv (i - 1)) (lv i) (i - k)) (wait_conds can_decode True (cur, s)))" if i: "k \<le> i" "i < p" for i
      unfolding bit_conds_sem [OF st lt] using q [of i] i c by simp
    show "[True, False] = map (cond_sem (lv (p - 1)) (lv p) (p - k)) (wait_conds can_decode True (cur, s))"
      unfolding bit_conds_sem [OF st lt] using q [of p] c k by simp
    have "match_mask 0 [True, False] = (1 :: u64)" by (simp add: match_bit_def)
    then show "can_step (of_nat p) (match_mask 0 [True, False]) (lv p) (cur, s) = ((of_nat p,
        if cn_state s2 = CAN_GET_BITS then s2\<lparr>cn_next_sample_point := can_sample_point s2 (cn_curbit s2)\<rparr> else s2), out)"
      using st h by (simp add: can_step_def Let_def)
  qed (use c in simp_all)
qed

section \<open>From one bit to the next\<close>

text \<open>The line carries the bits \<open>X\<close> of a frame that begins at \<open>F\<close>.\<close>

definition frame_on_line :: "real \<Rightarrow> nat \<Rightarrow> u8 list \<Rightarrow> (nat \<Rightarrow> int \<Rightarrow> u8) \<Rightarrow> bool" where
  "frame_on_line w F X lv \<longleftrightarrow> (\<forall>t. F \<le> t \<longrightarrow> t < bit_start w F (length X) \<longrightarrow> lv t CAN_RX = bit_level w F X t)"

lemma frame_on_line_level:
  assumes "frame_on_line w F X lv" and "0 < w" and "i < length X" and "bit_start w F i \<le> t" and "t < bit_start w F (Suc i)"
  shows "lv t CAN_RX = X ! i"
proof -
  have "F \<le> t" using bit_start_bounds(3) [OF assms(2), of F i] assms(4) by linarith
  moreover have "t < bit_start w F (length X)" using bit_start_mono [OF assms(2), of "Suc i" "length X" F] assms(3,5) by linarith
  ultimately show ?thesis using assms bit_level_in [OF assms(2,4,5), of X] by (simp add: frame_on_line_def)
qed

lemma frame_on_line_falls:
  assumes l: "frame_on_line w F X lv" and w: "0 < w" and i: "i < length X" and t: "bit_start w F (i - 1) < t" "t < bit_start w F (Suc i)"
  shows "falls lv t \<longleftrightarrow> t = bit_start w F i \<and> 0 < i \<and> X ! (i - 1) = 1 \<and> X ! i = 0"
proof -
  note lev = frame_on_line_level [OF l w]
  consider "bit_start w F i < t" | "t = bit_start w F i" "0 < i" | "t < bit_start w F i" "0 < i" using t by (cases "i = 0") fastforce+
  then show ?thesis
  proof cases
    case 1
    then have "lv (t - 1) CAN_RX = X ! i" "lv t CAN_RX = X ! i" using lev [OF i] t by simp_all
    then show ?thesis using 1 by (simp add: falls_def)
  next
    case 2
    then have "lv (t - 1) CAN_RX = X ! (i - 1)" "lv t CAN_RX = X ! i" using lev [OF i] lev [of "i - 1"] i t by simp_all
    then show ?thesis using 2 by (simp add: falls_def)
  next
    case 3
    then have "lv (t - 1) CAN_RX = X ! (i - 1)" "lv t CAN_RX = X ! (i - 1)" using lev [of "i - 1"] i t by simp_all
    then show ?thesis using 3 by (simp add: falls_def)
  qed
qed

definition can_rate :: "can_s \<Rightarrow> real \<times> real \<times> bool" where
  "can_rate s = (cn_bit_width s, cn_sample_point s, cn_bit_width_known s)"

text \<open>Bit \<open>i\<close> comes next; the last falling edge was at bit \<open>j\<close>.\<close>

definition bit_due :: "real \<Rightarrow> nat \<Rightarrow> can_frame \<Rightarrow> nat \<Rightarrow> nat \<Rightarrow> (string + c_field list) list \<Rightarrow> can_s \<Rightarrow> bool" where
  "bit_due w F fr i j ms s \<longleftrightarrow> expects fr (drop i (can_frame_raw fr)) ms s \<and> cn_curbit s = int i
     \<and> unat (cn_dom_edge_snum s) = bit_start w F j \<and> cn_dom_edge_bcount s = int j"

lemma can_baud_rate: "can_rate s = can_rate s' \<Longrightarrow> can_baud_ok s = can_baud_ok s'"
  by (simp add: can_rate_def can_baud_ok_def fun_eq_iff)

lemma expects_cong:
  "expects fr Y ms s \<Longrightarrow> expects fr Y ms (s\<lparr>cn_next_sample_point := p\<rparr>)" "expects fr Y ms s \<Longrightarrow> expects fr Y ms (dom_edge_seen sn s)"
  by (auto simp: expects_def frame_at_def dom_edge_seen_def)

lemma expects_state: "expects fr Y ms s \<Longrightarrow> cn_state s = CAN_GET_BITS"
  by (auto simp: expects_def frame_at_def)

definition after_bit :: "real \<Rightarrow> nat \<Rightarrow> can_frame \<Rightarrow> nat \<Rightarrow> (string + c_field list) list \<Rightarrow> can_s \<Rightarrow> bool" where
  "after_bit w F fr i ms s \<longleftrightarrow> (if Suc i = length (can_frame_raw fr) then ms = [] \<and> cn_state s = CAN_IDLE \<and> cn_curbit s = 0
     else bit_due w F fr (Suc i) (last_edge (can_frame_raw fr) i) ms s)"

lemma sampled_step:
  assumes ok: "can_frame_ok fr" and X: "X = can_frame_raw fr" and d: "bit_due w F fr i (last_edge X i) ms s" and i: "i < length X"
    and b: "can_baud_ok s w X" "cn_bit_width_known s" "0 < w" and l: "frame_on_line w F X lv"
    and c: "F \<le> unat cur" "bit_start w F (i - 1) \<le> unat cur" "unat cur \<le> bit_start w F i"
    and e: "unat cur < bit_start w F i \<Longrightarrow> \<not> (0 < i \<and> X ! (i - 1) = 1 \<and> X ! i = 0)"
    and n: "bit_start w F (length X) \<le> n" "n < 2 ^ 64"
  shows "\<exists>p s2 ms1 ms2. bit_start w F i < p \<and> p < bit_start w F (Suc i) \<and> ms = ms1 @ ms2 \<and> can_rate s2 = can_rate s
    \<and> can_seg lv n True (Suc (unat cur)) (cur, s) = told_then ms1 (can_seg lv n True (Suc p) (of_nat p, s2)) \<and> after_bit w F fr i ms2 s2"
proof -
  define j where "j = last_edge X i"
  define p where "p = unat (can_sample_point s (cn_curbit s))"
  have ex: "expects fr (drop i X) ms s" and cb: "cn_curbit s = int i" and dom: "unat (cn_dom_edge_snum s) = bit_start w F j" "cn_dom_edge_bcount s = int j"
    using d by (simp_all add: bit_due_def j_def X)
  have st: "cn_state s = CAN_GET_BITS" by (rule expects_state [OF ex])
  have S: "bit_start w F (Suc i) \<le> bit_start w F (length X)" using i b(3) by (intro bit_start_mono) simp_all
  have gap: "j \<le> i" "i - j \<le> sync_gap X"
  proof -
    show "j \<le> i" unfolding j_def by (rule last_edge_le)
    have "last_edge X (i - 1) \<le> j" by (cases i) (auto simp: j_def intro: le_trans [OF last_edge_le])
    then show "i - j \<le> sync_gap X" using sync_gap_bound [OF i] by linarith
  qed
  have lim: "bit_start w F (Suc i) < 2 ^ 64" using S n by linarith
  note sp = can_sample_point_in [OF b(3,1) dom gap lim, folded cb, folded p_def]
  have k: "Suc (unat cur) \<le> p" "p < n" using sp c S n by linarith+
  have p64: "p < 2 ^ 64" using k n by linarith
  have lp: "lv p CAN_RX = X ! i" using frame_on_line_level [OF l b(3) i] sp by simp
  have q: "\<not> falls lv t" if t: "Suc (unat cur) \<le> t" "t \<le> p" for t
    using frame_on_line_falls [OF l b(3) i, of t] t sp c e by auto
  obtain s1 out where h: "can_handle_bit (lv p CAN_RX) (can_sample_point s (cn_curbit s)) s = (s1, out)" by (rule prod.exhaust)
  define s2 where "s2 = (if cn_state s1 = CAN_GET_BITS then s1\<lparr>cn_next_sample_point := can_sample_point s1 (cn_curbit s1)\<rparr> else s1)"
  have seg: "can_seg lv n True (Suc (unat cur)) (cur, s) = told_then (can_told out) (can_seg lv n True (Suc p) (of_nat p, s2))"
    unfolding s2_def by (rule can_seg_sample [OF st b(2) _ p_def q k h]) simp_all
  have "drop i X = X ! i # drop (Suc i) X" using i by (simp add: Cons_nth_drop_Suc)
  then have "expects fr (X ! i # drop (Suc i) X) ms s" using ex by simp
  from can_bit_step [OF ok this, of "can_sample_point s (cn_curbit s)"]
  have step: "if drop (Suc i) X = [] then frame_over ms s (s1, out) else expects_next fr (drop (Suc i) X) ms s (s1, out)"
    using h by (simp only: lp)
  have "\<exists>ms2. ms = can_told out @ ms2 \<and> can_rate s2 = can_rate s \<and> after_bit w F fr i ms2 s2"
  proof (cases "Suc i = length X")
    case True
    then have "frame_over ms s (s1, out)" using step by simp
    then show ?thesis using True by (simp add: frame_over_def s2_def after_bit_def can_rate_def X)
  next
    case False
    then have en: "expects_next fr (drop (Suc i) X) ms s (s1, out)" using step i by auto
    then obtain ms2 where m: "ms = can_told out @ ms2" "expects fr (drop (Suc i) X) ms2 s1" by (auto simp: expects_next_def)
    have f: "cn_curbit s1 = int (Suc i)" "can_rate s1 = can_rate s" "cn_dom_edge_snum s1 = cn_dom_edge_snum s" "cn_dom_edge_bcount s1 = cn_dom_edge_bcount s"
      using en cb by (auto simp: expects_next_def can_rate_def)
    have "expects fr (drop (Suc i) X) ms2 s2" using expects_cong(1) [OF m(2)] m(2) by (simp add: s2_def)
    moreover have "cn_curbit s2 = int (Suc i)" "can_rate s2 = can_rate s" "cn_dom_edge_snum s2 = cn_dom_edge_snum s" "cn_dom_edge_bcount s2 = cn_dom_edge_bcount s"
      using f by (simp_all add: s2_def can_rate_def)
    ultimately have "can_rate s2 = can_rate s" "after_bit w F fr i ms2 s2"
      using False dom by (simp_all add: after_bit_def bit_due_def X [symmetric] j_def)
    then show ?thesis using m(1) by blast
  qed
  then show ?thesis using seg sp by blast
qed

lemma bit_step:
  assumes ok: "can_frame_ok fr" and X: "X = can_frame_raw fr" and d: "bit_due w F fr i (last_edge X (i - 1)) ms s" and i: "i < length X"
    and b: "can_baud_ok s w X" "cn_bit_width_known s" "0 < w" and l: "frame_on_line w F X lv"
    and c: "F \<le> unat cur" "bit_start w F (i - 1) \<le> unat cur" "if i = 0 then unat cur = F else unat cur < bit_start w F i"
    and n: "bit_start w F (length X) \<le> n" "n < 2 ^ 64"
  shows "\<exists>p s2 ms1 ms2. bit_start w F i < p \<and> p < bit_start w F (Suc i) \<and> ms = ms1 @ ms2 \<and> can_rate s2 = can_rate s
    \<and> can_seg lv n True (Suc (unat cur)) (cur, s) = told_then ms1 (can_seg lv n True (Suc p) (of_nat p, s2)) \<and> after_bit w F fr i ms2 s2"
proof (cases "0 < i \<and> X ! (i - 1) = 1 \<and> X ! i = 0")
  case False
  then have "last_edge X i = last_edge X (i - 1)" by (cases i) auto
  moreover have "unat cur \<le> bit_start w F i" using c by (auto simp: bit_start_def split: if_splits)
  ultimately show ?thesis using sampled_step [OF ok X _ i b l c(1,2) _ _ n, of ms] d False by simp
next
  case True
  let ?t = "bit_start w F i"
  have le: "last_edge X i = i" using True by (cases i) auto
  define s' where "s' = dom_edge_seen (of_nat ?t) s"
  have S: "bit_start w F (Suc i) \<le> bit_start w F (length X)" using i b(3) by (intro bit_start_mono) simp_all
  define j where "j = last_edge X (i - 1)"
  have dj: "expects fr (drop i X) ms s" "cn_curbit s = int i" "unat (cn_dom_edge_snum s) = bit_start w F j" "cn_dom_edge_bcount s = int j"
    using d by (simp_all add: bit_due_def j_def X)
  have ji: "j \<le> i" using last_edge_le [of X "i - 1"] unfolding j_def by linarith
  have lim: "bit_start w F (Suc i) < 2 ^ 64" using S n by linarith
  note sp = can_sample_point_in [OF b(3,1) dj(3,4) ji sync_gap_bound [OF i, folded j_def] lim, folded dj(2)]
  have cur: "unat cur < ?t" using c(3) True by simp
  have t64: "unat (of_nat ?t :: u64) = ?t" using sp lim by (simp add: unsigned_of_nat take_bit_nat_eq_self)
  have f: "falls lv t \<longleftrightarrow> t = ?t" if t: "Suc (unat cur) \<le> t" "t \<le> ?t" for t
    using frame_on_line_falls [OF l b(3) i, of t] t c(2) sp True by auto
  have "can_seg lv n True (Suc (unat cur)) (cur, s) = can_seg lv n True (Suc ?t) (of_nat ?t, s')"
    unfolding s'_def by (rule can_seg_edge [OF expects_state [OF dj(1)] b(2)]) (use f sp cur S n in auto)
  moreover have "bit_due w F fr i i ms s'"
    using dj expects_cong(2) [OF dj(1)] t64 by (simp add: bit_due_def s'_def X) (simp add: dom_edge_seen_def)
  moreover have r: "can_rate s' = can_rate s" by (simp add: s'_def dom_edge_seen_def can_rate_def)
  moreover have "can_baud_ok s' w X" "cn_bit_width_known s'" using b can_baud_rate [OF r] r by (simp_all add: can_rate_def)
  ultimately show ?thesis
    using sampled_step [OF ok X _ i _ _ b(3) l _ _ _ _ n, of ms s' "of_nat ?t"] le t64
      bit_start_bounds(3) [OF b(3), of F i] bit_start_mono [OF b(3), of "i - 1" i F] by simp
qed

section \<open>Frames\<close>

lemma frame_bits_run:
  assumes ok: "can_frame_ok fr" and X: "X = can_frame_raw fr" and l: "frame_on_line w F X lv" and w: "0 < w"
    and n: "bit_start w F (length X) \<le> n" "n < 2 ^ 64"
  shows "bit_due w F fr i (last_edge X (i - 1)) ms s \<Longrightarrow> i < length X \<Longrightarrow> can_baud_ok s w X \<Longrightarrow> cn_bit_width_known s
    \<Longrightarrow> F \<le> unat cur \<Longrightarrow> bit_start w F (i - 1) \<le> unat cur \<Longrightarrow> (if i = 0 then unat cur = F else unat cur < bit_start w F i)
    \<Longrightarrow> \<exists>p s2. bit_start w F (length X - 1) < p \<and> p < bit_start w F (length X) \<and> can_rate s2 = can_rate s \<and> cn_state s2 = CAN_IDLE
      \<and> cn_curbit s2 = 0 \<and> can_seg lv n True (Suc (unat cur)) (cur, s) = told_then ms (can_seg lv n True (Suc p) (of_nat p, s2))"
proof (induction "length X - i" arbitrary: i ms s cur)
  case (Suc d)
  from bit_step [OF ok X Suc.prems(1-4) w l Suc.prems(5-7) n] obtain p s2 ms1 ms2 where
    p: "bit_start w F i < p" "p < bit_start w F (Suc i)" and m: "ms = ms1 @ ms2" and r: "can_rate s2 = can_rate s"
    and seg: "can_seg lv n True (Suc (unat cur)) (cur, s) = told_then ms1 (can_seg lv n True (Suc p) (of_nat p, s2))"
    and a: "after_bit w F fr i ms2 s2" by blast
  show ?case
  proof (cases "Suc i = length X")
    case True
    then have i: "length X - 1 = i" by simp
    have "ms2 = []" "cn_state s2 = CAN_IDLE" "cn_curbit s2 = 0" using a True by (simp_all add: after_bit_def X)
    then show ?thesis using p r seg m unfolding i True [symmetric] by (intro exI [of _ p] exI [of _ s2]) simp
  next
    case False
    then have i: "Suc i < length X" using Suc.prems(2) by simp
    have due: "bit_due w F fr (Suc i) (last_edge X (Suc i - 1)) ms2 s2" using a i by (simp add: after_bit_def X)
    have b: "can_baud_ok s2 w X" "cn_bit_width_known s2" using Suc.prems(3,4) can_baud_rate [OF r] r by (simp_all add: can_rate_def)
    have "bit_start w F (Suc i) \<le> bit_start w F (length X)" using i w by (intro bit_start_mono) simp_all
    then have "p < 2 ^ 64" using p n by linarith
    then have u: "unat (of_nat p :: u64) = p" by (simp add: unsigned_of_nat take_bit_nat_eq_self)
    have "d = length X - Suc i" using Suc.hyps(2) by simp
    from Suc.hyps(1) [OF this due i b, of "of_nat p"] u p bit_start_bounds(3) [OF w, of F i]
    obtain q s3 where q: "bit_start w F (length X - 1) < q" "q < bit_start w F (length X)" "can_rate s3 = can_rate s2" "cn_state s3 = CAN_IDLE" "cn_curbit s3 = 0"
      and seg2: "can_seg lv n True (Suc p) (of_nat p, s2) = told_then ms2 (can_seg lv n True (Suc q) (of_nat q, s3))" by auto
    have "can_seg lv n True (Suc (unat cur)) (cur, s) = told_then ms (can_seg lv n True (Suc q) (of_nat q, s3))"
      unfolding seg seg2 m by simp
    then show ?thesis using q r by (intro exI [of _ q] exI [of _ s3]) simp
  qed
qed simp

lemma begin_expects:
  assumes "can_frame_ok fr" and "cn_curbit s = 0" and "F < 2 ^ 64"
  shows "bit_due w F fr 0 0 (frame_data_told fr @ frame_end_told fr) (begin_frame (of_nat F) s)" "can_rate (begin_frame (of_nat F) s) = can_rate s"
proof -
  have u: "unat (of_nat F :: u64) = F" using assms(3) by (simp add: unsigned_of_nat take_bit_nat_eq_self)
  have L: "length (stuffed_part fr) = last_data fr + 16" by (rule frame_parts(1) [OF assms(1)])
  have "expects fr (can_frame_raw fr) (frame_data_told fr @ frame_end_told fr) (begin_frame (of_nat F) s)"
    unfolding expects_def
  proof (intro exI conjI)
    show "frame_at fr 0 (begin_frame (of_nat F) s)"
      by (simp add: frame_at_def begin_frame_def Let_def dom_edge_seen_def)
    show "(0 :: nat) \<le> last_data fr + 16 \<longrightarrow> run_end 1 0 (cn_rawbits (begin_frame (of_nat F) s)) \<and> (0 :: nat) \<le> 5"
      by (simp add: begin_frame_def Let_def run_end_def)
    show "can_frame_raw fr = raw_rest fr 0 1 0" by (simp add: can_frame_raw_def raw_rest_def L)
  qed (simp_all add: told_from_def last_data_def begin_frame_def Let_def)
  then show "bit_due w F fr 0 0 (frame_data_told fr @ frame_end_told fr) (begin_frame (of_nat F) s)"
    using assms(2) u by (simp add: bit_due_def) (simp add: begin_frame_def Let_def dom_edge_seen_def bit_start_def)
  show "can_rate (begin_frame (of_nat F) s) = can_rate s" by (simp add: can_rate_def begin_frame_def Let_def dom_edge_seen_def)
qed

lemma raw_ends:
  "last (can_frame_raw fr) = 1" "can_frame_raw fr ! 0 = 0" "1 < length (can_frame_raw fr)"
proof -
  have d: "drop (length (stuffed_part fr)) (can_frame_bits fr) = [1, cf_ack fr, 1] @ replicate 7 1" by (simp add: can_frame_bits_def)
  show "last (can_frame_raw fr) = 1" "1 < length (can_frame_raw fr)" by (simp_all add: can_frame_raw_def d)
  have "stuffed 1 0 (stuffed_part fr) = 0 # stuffed 0 1 (id_bits fr @ msb_bits 4 (cf_dlc fr) @ concat (map (\<lambda>b. msb_bits 8 (unat b)) (cf_data fr)) @ cf_crc fr)"
    unfolding stuffed_part_def by (subst stuffed.simps) simp
  then show "can_frame_raw fr ! 0 = 0" by (simp add: can_frame_raw_def)
qed

text \<open>Frames on an idle line, each with the sample it begins at.\<close>

fun can_level :: "real \<Rightarrow> (nat \<times> can_frame) list \<Rightarrow> nat \<Rightarrow> u8" where
  "can_level w [] n = 1"
| "can_level w ((F, fr) # fs) n =
     (if n < F then 1 else if fs = [] \<or> n < fst (hd fs) then bit_level w F (can_frame_raw fr) n else can_level w fs n)"

fun can_spaced :: "real \<Rightarrow> (nat \<times> can_frame) list \<Rightarrow> nat \<Rightarrow> bool" where
  "can_spaced w [] n \<longleftrightarrow> True"
| "can_spaced w ((F, fr) # fs) n \<longleftrightarrow> bit_start w F (length (can_frame_raw fr)) \<le> (if fs = [] then n else fst (hd fs)) \<and> can_spaced w fs n"

definition can_frames_told :: "(nat \<times> can_frame) list \<Rightarrow> (string + c_field list) list" where
  "can_frames_told fs = concat (map (\<lambda>(F, fr). frame_data_told fr @ frame_end_told fr) fs)"

lemma can_spaced_le: "0 < w \<Longrightarrow> can_spaced w fs n \<Longrightarrow> fs \<noteq> [] \<Longrightarrow> fst (hd fs) \<le> n"
proof (induction fs)
  case (Cons f fs)
  obtain F fr where f: "f = (F, fr)" by (rule prod.exhaust)
  show ?case using Cons bit_start_bounds(3) [OF Cons.prems(1), of F "length (can_frame_raw fr)"] by (cases "fs = []") (auto simp: f)
qed simp

lemma bit_level_end:
  assumes "0 < w" and "last X = 1" and "F \<le> t" and "bit_start w F (length X - 1) \<le> t"
  shows "bit_level w F X t = 1"
proof -
  define j where "j = nat \<lfloor>real (t - F) / w\<rfloor>"
  have "length X - 1 \<le> j" using bit_start_le [OF assms(1,3)] assms(4) by (simp add: j_def)
  then have "j < length X \<Longrightarrow> j = length X - 1" by simp
  then have "j < length X \<Longrightarrow> X ! j = 1" using assms(2) last_conv_nth [of X] by (cases "X = []") simp_all
  then show ?thesis by (simp add: bit_level_def Let_def j_def [symmetric])
qed

lemma can_level_before: "(fs \<noteq> [] \<Longrightarrow> t < fst (hd fs)) \<Longrightarrow> can_level w fs t = 1"
  by (cases fs) auto

lemma can_level_after:
  assumes w: "0 < w" and t: "F \<le> t" "bit_start w F (length (can_frame_raw fr) - 1) \<le> t"
  shows "can_level w ((F, fr) # fs) t = can_level w fs t"
proof (cases "fs = [] \<or> t < fst (hd fs)")
  case True
  then show ?thesis using bit_level_end [OF w raw_ends(1) t] can_level_before [of fs t w] t(1) by auto
qed (use t in simp)

lemma first_level:
  assumes "can_baud_ok s w X" and "0 < w" and "X ! 0 = 0" and "1 < length X"
  shows "bit_level w F X F = 0"
proof -
  have d: "0 \<le> real (sync_gap X) * \<bar>w - cn_bit_width s\<bar>" by simp
  then have "1 \<le> w" using assms(1) unfolding can_baud_ok_def Let_def by linarith
  then have "bit_start w F 0 \<le> F" "F < bit_start w F (Suc 0)" using bit_start_bounds(1) [OF assms(2), of F 1] by (simp_all add: bit_start_def)
  from bit_level_in [OF assms(2) this, of X] show ?thesis using assms(3,4) by (cases "X = []") simp_all
qed

lemma can_frames_run:
  assumes n: "n < 2 ^ 64"
  shows "fs \<noteq> [] \<longrightarrow> 0 < w \<Longrightarrow> \<forall>f \<in> set fs. can_frame_ok (snd f) \<and> can_baud_ok s w (can_frame_raw (snd f)) \<Longrightarrow> can_spaced w fs n
    \<Longrightarrow> \<forall>t. k - 1 \<le> t \<longrightarrow> t < n \<longrightarrow> lv t CAN_RX = can_level w fs t \<Longrightarrow> 0 < k \<Longrightarrow> fs \<noteq> [] \<longrightarrow> k \<le> fst (hd fs)
    \<Longrightarrow> cn_state s = CAN_IDLE \<Longrightarrow> cn_curbit s = 0 \<Longrightarrow> cn_bit_width_known s
    \<Longrightarrow> snd (can_seg lv n m k (cur, s)) = can_frames_told fs"
proof (induction fs arbitrary: k m cur s)
  case Nil
  have "\<not> falls lv i" if "k \<le> i" "i < n" for i using Nil.prems(4) that by (simp add: falls_def)
  then show ?case using can_seg_idle [OF Nil.prems(7) _ Nil.prems(5)] by (simp add: can_frames_told_def)
next
  case (Cons f fs)
  obtain F fr where f: "f = (F, fr)" by (rule prod.exhaust)
  let ?X = "can_frame_raw fr"
  have w: "0 < w" using Cons.prems(1) by simp
  have ok: "can_frame_ok fr" "can_baud_ok s w ?X" using Cons.prems(2) by (simp_all add: f)
  note raw = raw_ends [of fr]
  define nx where "nx = (if fs = [] then n else fst (hd fs))"
  have sp: "bit_start w F (length ?X) \<le> nx" "can_spaced w fs n" using Cons.prems(3) by (simp_all add: f nx_def)
  have nx: "nx \<le> n" using can_spaced_le [OF w sp(2)] by (simp add: nx_def)
  have lev: "lv t CAN_RX = can_level w (f # fs) t" if "k - 1 \<le> t" "t < n" for t using Cons.prems(4) that by blast
  have k: "0 < k" "k \<le> F" using Cons.prems(5,6) by (simp_all add: f)
  have mono: "bit_start w F (length ?X - 1) \<le> bit_start w F (length ?X)" "F < bit_start w F (length ?X)"
  proof -
    show "bit_start w F (length ?X - 1) \<le> bit_start w F (length ?X)" using w by (intro bit_start_mono) simp_all
    have "0 < real (length ?X)" using raw(3) by linarith
    then have "0 < real (length ?X) * w" using w by simp
    then show "F < bit_start w F (length ?X)" using bit_start_bounds(1) [OF w, of F "length ?X"] by linarith
  qed
  have Fn: "F < n" using mono(2) sp(1) nx by linarith
  have one: "lv t CAN_RX = 1" if "k - 1 \<le> t" "t < F" for t using lev [of t] that Fn by (simp add: f)
  have lF: "lv F CAN_RX = 0"
    using lev [of F] k Fn first_level [OF ok(2) w raw(2,3), of F] mono(2) sp(1) by (auto simp: f nx_def split: if_splits)
  have l: "frame_on_line w F ?X lv"
    unfolding frame_on_line_def
  proof (intro allI impI)
    fix t assume t: "F \<le> t" "t < bit_start w F (length ?X)"
    then have "t < nx" using sp(1) by simp
    then show "lv t CAN_RX = bit_level w F ?X t" using lev [of t] t k nx by (auto simp: f nx_def split: if_splits)
  qed
  have F64: "F < 2 ^ 64" "unat (of_nat F :: u64) = F" using Fn n by (simp_all add: unsigned_of_nat take_bit_nat_eq_self)
  let ?s1 = "begin_frame (of_nat F) s" and ?ms = "frame_data_told fr @ frame_end_told fr"
  have q: "\<not> falls lv i" if "k \<le> i" "i < F" for i using one that by (simp add: falls_def)
  have b: "can_seg lv n m k (cur, s) = can_seg lv n True (Suc F) (of_nat F, ?s1)"
    by (rule can_seg_begin [OF Cons.prems(7) q _ k Fn]) (use one lF k in \<open>simp_all add: falls_def\<close>)
  note be = begin_expects [OF ok(1) Cons.prems(8) F64(1)]
  have s1: "can_baud_ok ?s1 w ?X" "cn_bit_width_known ?s1"
    using ok(2) Cons.prems(9) can_baud_rate [OF be(2)] be(2) by (simp_all add: can_rate_def)
  have ln: "bit_start w F (length ?X) \<le> n" using sp(1) nx by linarith
  have ne: "?X \<noteq> []" using raw(3) by auto
  from frame_bits_run [OF ok(1) refl l w ln n, of 0 ?ms ?s1 "of_nat F"] be(1) ne s1 F64(2)
  obtain p s2 where p: "bit_start w F (length ?X - 1) < p" "p < bit_start w F (length ?X)" and r: "can_rate s2 = can_rate ?s1"
    and s2: "cn_state s2 = CAN_IDLE" "cn_curbit s2 = 0"
    and seg: "can_seg lv n True (Suc F) (of_nat F, ?s1) = told_then ?ms (can_seg lv n True (Suc p) (of_nat p, s2))"
    by (auto simp: bit_start_def [of w F 0])
  have r2: "can_rate s2 = can_rate s" using r be(2) by simp
  have pF: "F \<le> p" using bit_start_bounds(3) [OF w, of F "length ?X - 1"] p(1) by linarith
  have "snd (can_seg lv n True (Suc p) (of_nat p, s2)) = can_frames_told fs"
  proof (rule Cons.IH)
    show "\<forall>f \<in> set fs. can_frame_ok (snd f) \<and> can_baud_ok s2 w (can_frame_raw (snd f))"
      using Cons.prems(2) can_baud_rate [OF r2] by simp
    show "\<forall>t. Suc p - 1 \<le> t \<longrightarrow> t < n \<longrightarrow> lv t CAN_RX = can_level w fs t"
    proof (intro allI impI)
      fix t assume t: "Suc p - 1 \<le> t" "t < n"
      then show "lv t CAN_RX = can_level w fs t"
        using lev [of t] can_level_after [OF w, of F t fr fs] p(1) pF k by (simp add: f)
    qed
    show "fs \<noteq> [] \<longrightarrow> Suc p \<le> fst (hd fs)" using p(2) sp(1) unfolding nx_def by (intro impI) (simp only: if_False)
    show "cn_bit_width_known s2" using r2 Cons.prems(9) by (simp add: can_rate_def)
  qed (use w sp s2 in simp_all)
  then show ?case unfolding b seg by (simp add: told_then_def can_frames_told_def f)
qed

text \<open>
  C40: Frames on a CAN bus come out of the decoder as they were sent. Let frames - standard or
  extended, data or remote - be put on an idle line one after the other, with a stuff bit after
  five equal bits, at a bit rate that need not be the one that is set: the difference may only
  not add up, over the bits between two falling edges, to more than what the sample point has
  on each side of its bit, less two samples. Then the data bytes and the FRAME messages are,
  in order, those of the frames: the kind, the whole identifier, data or remote, the number of
  data bytes. What is in the check sequence and the ACK slot does not matter.
\<close>

theorem can_frames_decoded:
  assumes "0 < w" and "\<forall>f \<in> set fs. can_frame_ok (snd f) \<and> can_baud_ok s w (can_frame_raw (snd f))" and "can_spaced w fs n"
    and "\<forall>t. k - 1 \<le> t \<longrightarrow> t < n \<longrightarrow> lv t CAN_RX = can_level w fs t" and "0 < k" and "fs \<noteq> [] \<longrightarrow> k \<le> fst (hd fs)"
    and "cn_state s = CAN_IDLE" and "cn_curbit s = 0" and "cn_bit_width_known s" and "n < 2 ^ 64"
  shows "can_told (concat (map snd (snd (run_wave can_decode False k 0 (lv (k - 1)) (map lv [k..<n]) (cur, s))))) = can_frames_told fs"
  using can_frames_run [of n fs w s k lv False cur] assms by (simp add: can_seg_def Let_def)

section \<open>An example\<close>

lemma length_stuffed: "c \<le> 5 \<Longrightarrow> length (stuffed l c xs) \<le> 2 * length xs + (if c = 5 then 1 else 0)"
proof (induction l c xs rule: stuffed.induct)
  case (1 l c xs)
  show ?case
  proof (cases "c = 5")
    case True
    then show ?thesis using "1.IH"(1) by (subst stuffed.simps) simp
  next
    case False
    show ?thesis
    proof (cases xs)
      case (Cons x ys)
      have "length (stuffed x (if x = l then Suc c else 1) ys) \<le> 2 * length ys + 1"
        using "1.IH"(2) [OF False Cons] False "1.prems" by (auto split: if_splits)
      then show ?thesis using False by (subst stuffed.simps) (simp add: Cons)
    qed (use False in \<open>subst stuffed.simps, simp\<close>)
  qed
qed

lemma raw_bounds:
  assumes "can_frame_ok fr"
  shows "length (can_frame_raw fr) \<le> 2 * last_data fr + 42" "sync_gap (can_frame_raw fr) \<le> length (can_frame_raw fr)"
proof -
  show "length (can_frame_raw fr) \<le> 2 * last_data fr + 42"
    using length_stuffed [of 0 1 "stuffed_part fr"] frame_parts(1,2) [OF assms] by (simp add: can_frame_raw_def)
  have m: "a \<le> b \<Longrightarrow> \<forall>x \<in> set xs. x \<le> b \<Longrightarrow> fold max xs a \<le> b" for xs and a b :: nat
    by (induction xs arbitrary: a) auto
  show "sync_gap (can_frame_raw fr) \<le> length (can_frame_raw fr)" unfolding sync_gap_def by (rule m) auto
qed

definition can_example :: can_s where
  "can_example = can_reset\<lparr>cn_bit_width := 100, cn_sample_point := 50, cn_bit_width_known := True\<rparr>"

definition can_example_frames :: "(nat \<times> can_frame) list" where
  "can_example_frames =
     [(10, \<lparr>cf_ext = False, cf_id = 0x123, cf_remote = False, cf_dlc = 2, cf_data = [0x41, 0xff], cf_crc = replicate 15 0, cf_ack = 0\<rparr>),
      (20000, \<lparr>cf_ext = True, cf_id = 0x1234567, cf_remote = True, cf_dlc = 4, cf_data = [], cf_crc = replicate 15 1, cf_ack = 1\<rparr>)]"

definition can_example_wave :: "nat \<Rightarrow> int \<Rightarrow> u8" where
  "can_example_wave t ch = can_level (401 / 4) can_example_frames t"

lemma can_example_ok:
  "\<forall>f \<in> set can_example_frames. can_frame_ok (snd f) \<and> length (can_frame_raw (snd f)) \<le> 118"
proof -
  have "\<forall>f \<in> set can_example_frames. can_frame_ok (snd f) \<and> last_data (snd f) \<le> 38"
    by (simp add: can_example_frames_def can_frame_ok_def last_data_def dlc_pos_def)
  then show ?thesis using raw_bounds(1) by force
qed

lemma can_example_told:
  "can_frames_told can_example_frames =
     [Inl ''0x41'', Inl ''0xff'', Inr [C_STR ''standard'', C_U32 0x123, C_STR ''data'', C_I32 2],
      Inr [C_STR ''extended'', C_U32 0x1234567, C_STR ''remote'', C_I32 0]]"
proof -
  have "fmt_hex 2 65 = ''41''" "fmt_hex 2 255 = ''ff''" by code_simp+
  then show ?thesis by (simp add: can_frames_told_def can_example_frames_def frame_data_told_def frame_end_told_def)
qed

lemma can_frames_decoded_witness:
  "can_told (concat (map snd (snd (run_wave can_decode False 1 0 (can_example_wave 0) (map can_example_wave [1..<40000]) (0, can_example))))) =
     [Inl ''0x41'', Inl ''0xff'', Inr [C_STR ''standard'', C_U32 0x123, C_STR ''data'', C_I32 2],
      Inr [C_STR ''extended'', C_U32 0x1234567, C_STR ''remote'', C_I32 0]]"
proof -
  have b: "\<forall>f \<in> set can_example_frames. can_frame_ok (snd f) \<and> can_baud_ok can_example (401 / 4) (can_frame_raw (snd f))"
  proof
    fix f assume "f \<in> set can_example_frames"
    then have ok: "can_frame_ok (snd f)" "length (can_frame_raw (snd f)) \<le> 118" using can_example_ok by blast+
    then have "real (sync_gap (can_frame_raw (snd f))) \<le> 118" using raw_bounds(2) [OF ok(1)] by linarith
    then show "can_frame_ok (snd f) \<and> can_baud_ok can_example (401 / 4) (can_frame_raw (snd f))"
      using ok(1) by (simp add: can_baud_ok_def can_example_def)
  qed
  have sp: "can_spaced (401 / 4) can_example_frames 40000"
  proof -
    have "bit_start (401 / 4) F l \<le> F + 12000" if "l \<le> 118" for F l
    proof -
      have "real l * (401 / 4) \<le> 12000" using that by simp
      then have "\<lceil>real l * (401 / 4)\<rceil> \<le> 12000" by (simp add: ceiling_le_iff)
      then show ?thesis by (simp add: bit_start_def)
    qed
    then have m: "l \<le> 118 \<Longrightarrow> F + 12000 \<le> N \<Longrightarrow> bit_start (401 / 4) F l \<le> N" for F l N using le_trans by blast
    show ?thesis using can_example_ok m unfolding can_example_frames_def by simp
  qed
  have "can_told (concat (map snd (snd (run_wave can_decode False 1 0 (can_example_wave (1 - 1)) (map can_example_wave [1..<40000]) (0, can_example)))))
      = can_frames_told can_example_frames"
    by (rule can_frames_decoded [OF _ b sp])
      (simp_all add: can_example_wave_def can_example_frames_def can_example_def can_reset_def)
  then show ?thesis by (simp only: can_example_told diff_self_eq_0)
qed

end
