(* ===== verification/Spec2Isabelle.thy ===== *)
theory Spec2Isabelle
  imports Handshake I2c Arp Descriptions PyLoad PyDecoder Jtag Spi UartFrames CanFrames
begin

text \<open>
  A verification development for libsigrokdecode: the C library that runs protocol decoders
  over logic analyser samples, in the version whose decoders may be written in C as well as
  in Python.

  \<^bold>\<open>The program.\<close> A frontend creates a session, instances of decoders in it, stacks instances
  on each other, and sends the samples in chunks. Every instance at the bottom of a stack has
  a worker thread that runs the decoder's \<^verbatim>\<open>decode()\<close>; that function calls
  \<^verbatim>\<open>c_wait()\<close> with conditions on the channels, and the library hands it the next sample at
  which one of them holds. What the decoder finds goes out as annotations (collected in
  batches), bytes, logic or metadata to callbacks of the frontend, or as protocol messages to
  the decoders stacked on top.

  \<^bold>\<open>Theories and sources.\<close>
  \<^item> \<open>Prelude\<close>: collections of rewrite rules, C arrays and machine words shared by the rest.
  \<^item> \<open>DecTypes\<close>: the structures and enumerations of libsigrokdecode.h and
    libsigrokdecode-internal.h as records and datatypes with the fields of the source; the
    instance is \<open>srd_decoder_inst\<close>, a \<^verbatim>\<open>uint64_t\<close> is \<open>u64\<close>.
  \<^item> \<open>ErrorCodes\<close>: error.c; the values and texts of the error codes, the last error of a thread.
  \<^item> \<open>CondMatch\<close>: the condition matcher of instance.c, from a term on one sample
    (\<open>term_matches\<close>) to the scan of a chunk (\<open>find_match\<close>,
    \<open>process_samples_until_condition_match\<close>). \<open>CondSpec\<close>: its specification on the waveform
    behind the chunk, and the refinement.
  \<^item> \<open>Wait\<close>: chunk hand-over and the C runtime in instance.c and c_decoder_api.c: the two halves
    of \<^verbatim>\<open>srd_inst_decode\<close>, \<open>c_decoder_wait_impl\<close>, pins, packed input, \<open>c_wait\<close> with its
    variable argument list, joining, termination and reset.
  \<^item> \<open>Handshake\<close>: the same hand-over as step relations of the producer, of the worker in wait,
    fetch and consume, and of whoever requests termination and resets, one step per section under
    \<^verbatim>\<open>data_mutex\<close>; spurious wake-ups are a relation of their own.
  \<^item> \<open>AnnBatch\<close>: ann_batch.c, with the memory of the arena explicit.
  \<^item> \<open>StackWalk\<close>: the recursive walks over stacked instances, as a locale. \<open>Instance\<close>: the other
    operations of instance.c on the world of all instances and sessions: creation, options,
    channels, stacking, start, termination, freeing. \<open>Session\<close>: session.c and srd.c: metadata,
    sending, callbacks, ending, initialisation and shutdown.
  \<^item> \<open>Registry\<close>: decoder.c and dll_registry.c: duplicate checks, registration of C decoders,
    loading and unloading their libraries.
  \<^item> \<open>CApi\<close>: c_decoder_api.c: outputs, annotations, protocol messages, options.
  \<^item> \<open>PyObj\<close>: util.c and exception.c: what the library reads from Python values, which are the
    datatype \<open>pyval\<close>. \<open>PyLoad\<close>: the Python half of decoder.c: a class is checked and its tables
    become a \<open>srd_decoder\<close>; modules, directories and archives are searched. \<open>PyDecoder\<close>:
    type_decoder.c: \<^verbatim>\<open>put\<close>, \<^verbatim>\<open>register\<close>, \<^verbatim>\<open>wait\<close> and \<^verbatim>\<open>has_channel\<close> of a Python decoder, on
    the same instances, outputs and batches as those of the C decoders.
  \<^item> \<open>DecRun\<close>: the loop of a decoder that waits at one place, run on the wait engine.
    \<open>Format\<close>: the conversions of \<^verbatim>\<open>snprintf\<close> the decoders use. \<open>I2c\<close>: c_decoders/i2c_c.c.
  \<^item> \<open>Upper\<close>: decoders that are stacked on others: the messages \<^verbatim>\<open>decode_upper\<close> gets, runs over a
    list of messages and over a stack of levels. A step returns no result where the C code has
    undefined behaviour. \<open>Fourb5b\<close>, \<open>Ethernet\<close>, \<open>Ipv4\<close>, \<open>Udp\<close>, \<open>Arp\<close>: the decoders of these names
    in c_decoders/. \<open>Crc\<close>: the reflected CRC register and its algebra.
  \<^item> \<open>Clocked\<close>: decoders that wait for edges: the edges of a waveform, the run over them, and the
    contract of a decoder's calls. \<open>Jtag\<close>, \<open>Spi\<close>: the decoders of these names.
  \<^item> \<open>Uart\<close>: c_decoders/uart_c.c. \<open>UartFrames\<close>: a line of it as a sampler, and a sender. \<open>Can\<close>:
    c_decoders/can_c.c. \<open>CanFrames\<close>: stuffed frames, their sender, and what comes out.
  \<^item> \<open>Described\<close>, \<open>Tables1\<close> to \<open>Tables8\<close>, \<open>Descriptions\<close>: the description tables of 201 of the C
    decoders, one group of definitions per file in the order of their identifiers, what they are
    checked for, and the results.

  \<^bold>\<open>Conventions.\<close> A function has the name of its C function; the C code updates structures in
  place, here the new structure is returned. Fallible functions return the error code of the
  source. A part of a C function is a definition of its own where a loop body or a locked
  section needs a name. What is not in this repository is a parameter: the allocator and GLib's
  private data, the dynamic linker, directory listings and file tests, the Python interpreter,
  the callbacks of the frontend, the body of a decoder. Logging and diagnostic counters are left
  out.

  \<^bold>\<open>What is proved.\<close>
  \<^item> Matching. The scan stops at the first sample of the chunk at which a condition holds, with the
    mask of those that hold. Cutting a chunk changes nothing but in one case, which the theorems
    state: after a match on the last sample of a chunk the first sample of the next is passed over
    (\<open>past_boundary\<close> for one scan, \<open>wait_from\<close> for a wait over any sequence of chunks, \<open>run_cut\<close> for
    a whole decode loop). A chunk that does not continue the last one is refused. The fetch
    interface tiles a chunk. The argument list of \<^verbatim>\<open>c_wait\<close> is parsed back into the conditions.
  \<^item> Threads. A chunk is held only while the producer waits for it; no wake-up is lost, unless
    the instance is reset while a call to \<^verbatim>\<open>srd_inst_decode\<close> is still under way, which can leave
    that call asleep for ever (\<open>reset_strands_producer\<close>).
  \<^item> Outputs. Every annotation is delivered once, in order, with its texts; output calls are
    accepted or without effect; a run of messages reaches every C decoder on top, in order.
  \<^item> Management. Walks over stacks end and visit in preorder; identifiers are unique; channel maps
    are installed only when complete; the library registry accounts for every handle.
  \<^item> Decoding. A decode loop on the engine makes exactly the calls of a run over the samples of the
    waveform, but for the samples passed over at chunk boundaries; the I2C decoder reports exactly
    the transfers put on the bus.
  \<^item> Python. A wait with dictionaries is the wait of a C decoder with the same conditions;
    annotations of C and Python decoders go into one batch in order, on either path with the same
    content; the instance of a Python object is found wherever it is stacked; the decoders the
    loader makes from Python classes have the channel numbers and tables the rest relies on.
  \<^item> Stacked decoders. A frame in 4B5B code is passed on with its content and its samples, unless a
    single nibble is left over from before; so are an Ethernet frame and an IPv4 datagram. The
    check sequence and the Internet checksum agree with their definitions; ARP stacked on the Ethernet decoder never reports
    anything, because the two do not speak of the same fields.
  \<^item> Clocked decoders. JTAG follows the state machine of the test access port and reports each scan,
    but for its first bit and those after the 257th; SPI reports exactly the words on its lines, in
    every mode, and in the message of the transfer their low bytes, up to 256.
  \<^item> UART and CAN. Frames of the decoder's format, sent at a rate near enough, come out in order: in
    UART with their values (their low bytes, with nine data bits), whatever the other line does; in
    CAN, through bit stuffing and resynchronisation, with their identifiers, kinds and data bytes.
  \<^item> Descriptions. Every description is accepted by the loader; in all but three the channel map of
    an instance follows the names, in all but eleven every option has a default.

  The theorems assume what the code relies on: positions fit in 64 bits, chunks carry one waveform
  with a buffer for every channel the conditions name (a scan on a channel with a constant level jumps
  to the end of the chunk, and leaves counters and old pins behind), and for the matcher that
  no-edge terms and zero skips are not combined with others. What happens otherwise is proved by
  examples next to them. The interpreter lock is held by whoever uses a
  Python value and is not a part of the model.

  \<^bold>\<open>Fuel.\<close> Loops that scan samples recurse on the number of samples left. Walks over stacks take
  the depth of the stack as fuel, and enough is proved when the stacking has no cycle; the search
  for an unused identifier takes one step more than there are instances; a decode loop takes one
  iteration per sample.

  \<^bold>\<open>Not modelled.\<close> module_sigrokdecode.c and the creation of the type object in type_decoder.c,
  which are tables for the interpreter, and its \<^verbatim>\<open>printlog\<close>. log.c and version.c print. irmp/ is a
  separate library. Of the decoders in c_decoders/ those not named above, but for their descriptions;
  15 descriptions are filled in by code that runs at load time. The Python decoders under decoders/,
  the tests and build files. Double arithmetic is done in the reals. Three corners in which C is
  undefined are given a value: a header of odd length in \<open>ip_checksum_ok\<close> is padded with zero (it is
  called with twenty bytes), a level of TMS other than 0 in \<open>tap_step\<close> is read as 1 (a connected pin
  has the levels 0 and 1), and a number of samples out of the range of \<^verbatim>\<open>uint64_t\<close> wraps around in
  \<open>uart_timing\<close>. The destruction of condition variables and mutexes that another
  thread still uses is not a part of \<open>Handshake\<close>.
\<close>

end
